(* ===== verification/Mqc_Prelude.thy ===== *)
theory Mqc_Prelude
  imports Main "HOL-Library.AList" "HOL-Library.Word" "HOL-Library.Sublist"
begin

text \<open>
  What every component of the development shares: the types that name Go's byte slices,
  clocks and results, the laws of Go maps kept as association lists, the string
  functions of Go's standard library the sources call, and the collections of simplification
  rules the component proofs use.
\<close>

section \<open>Shared types\<close>

text \<open>
  A Go \<open>string\<close> and a \<open>[]byte\<close> are byte sequences, and HOL's \<open>char\<close> is a byte.
  A \<open>time.Time\<close> and a \<open>time.Duration\<close> are nanosecond counts.
\<close>

type_synonym bytes = string
type_synonym time = int
type_synonym duration = int

text \<open>A fallible Go call: \<open>Inl\<close> is the error, \<open>Inr\<close> the value.\<close>

type_synonym ('e, 'a) result = "'e + 'a"

abbreviation Err :: "'e \<Rightarrow> ('e, 'a) result" where
  "Err \<equiv> Inl"

abbreviation Ok :: "'a \<Rightarrow> ('e, 'a) result" where
  "Ok \<equiv> Inr"

text \<open>An arithmetic result as Go's \<open>int64\<close>: two's complement wrap-around.\<close>

definition int64 :: "int \<Rightarrow> int" where
  "int64 x = sint (word_of_int x :: 64 word)"

lemma int64_id: "- (2 ^ 63) \<le> x \<Longrightarrow> x < 2 ^ 63 \<Longrightarrow> int64 x = x"
  by (simp add: int64_def sint_sbintrunc' signed_take_bit_int_eq_self)

section \<open>Collections of rules\<close>

named_theorems go_map_simps \<open>laws of Go maps kept as association lists\<close>
named_theorems go_str_simps \<open>laws of Go's string functions\<close>
named_theorems step_simps \<open>unfolding rules of state-changing operations\<close>

section \<open>Go maps as association lists\<close>

text \<open>
  A \<open>map[K]V\<close> is an association list with distinct keys: \<open>m[k]\<close> is \<open>map_of\<close>,
  \<open>m[k] = v\<close> is \<open>AList.update\<close> and \<open>delete(m, k)\<close> is \<open>AList.delete\<close>.
\<close>

abbreviation map_wf :: "('k \<times> 'v) list \<Rightarrow> bool" where
  "map_wf m \<equiv> distinct (map fst m)"

lemma map_of_update [go_map_simps]:
  "map_of (AList.update k v m) k' = (if k = k' then Some v else map_of m k')"
  by (simp add: update_conv')

lemma map_of_delete [go_map_simps]:
  "map_of (AList.delete k m) k' = (if k = k' then None else map_of m k')"
  by (simp add: delete_conv')

lemma map_wf_update [go_map_simps]: "map_wf m \<Longrightarrow> map_wf (AList.update k v m)"
  by (simp add: distinct_update)

lemma map_wf_delete [go_map_simps]: "map_wf m \<Longrightarrow> map_wf (AList.delete k m)"
  by (simp add: distinct_delete)

text \<open>Storing back the value a key already has changes nothing, order included.\<close>

lemma update_same [go_map_simps]: "map_of m k = Some v \<Longrightarrow> AList.update k v m = m"
  by (induction m) auto

lemma delete_absent [go_map_simps]: "map_of m k = None \<Longrightarrow> AList.delete k m = m"
  by (induction m) auto

lemma set_update_subset: "set (AList.update k v m) \<subseteq> insert (k, v) (set m)"
  by (induction m) auto

lemma set_delete_subset: "set (AList.delete k m) \<subseteq> set m"
  by (induction m) auto

section \<open>Lists\<close>

lemma last_take_Suc: "i < length xs \<Longrightarrow> last (take (Suc i) xs) = xs ! i"
  by (simp add: take_Suc_conv_app_nth)

lemma list_all2_right: "list_all2 P xs ys \<Longrightarrow> y \<in> set ys \<Longrightarrow> \<exists>x \<in> set xs. P x y"
  by (induction rule: list_all2_induct) auto

lemma in_map_filter: "y \<in> set (List.map_filter f xs) \<longleftrightarrow> (\<exists>x\<in>set xs. f x = Some y)"
  by (force simp: List.map_filter_def)

lemma map_of_Some_set: "map_of m k = Some v \<Longrightarrow> (k, v) \<in> set m"
  by (rule map_of_SomeD)

section \<open>Strings\<close>

text \<open>\<open>strings.Split(s, sep)\<close> for a one-byte separator: never empty.\<close>

fun split_on :: "char \<Rightarrow> string \<Rightarrow> string list" where
  "split_on c [] = [[]]"
| "split_on c (x # xs) =
     (if x = c then [] # split_on c xs
      else (case split_on c xs of
              [] \<Rightarrow> [[x]]
            | w # ws \<Rightarrow> (x # w) # ws))"

lemma split_on_not_Nil [simp]: "split_on c s \<noteq> []"
  by (induction s) (auto split: list.split)

text \<open>Joining the pieces with the separator gives the string back.\<close>

fun join_with :: "char \<Rightarrow> string list \<Rightarrow> string" where
  "join_with c [] = []"
| "join_with c [w] = w"
| "join_with c (w # ws) = w @ c # join_with c ws"

lemma join_with_Cons: "ws \<noteq> [] \<Longrightarrow> join_with c (w # ws) = w @ c # join_with c ws"
  by (cases ws) auto

lemma join_split_on [go_str_simps]: "join_with c (split_on c s) = s"
proof (induction s)
  case (Cons x s)
  show ?case
  proof (cases "x = c")
    case True
    with Cons show ?thesis by (simp add: join_with_Cons)
  next
    case False
    obtain w ws where "split_on c s = w # ws"
      by (cases "split_on c s") auto
    with Cons False show ?thesis by (cases ws) auto
  qed
qed simp

lemma split_on_no_sep: "c \<notin> set w \<Longrightarrow> split_on c w = [w]"
  by (induction w) auto

text \<open>\<open>strings.Contains\<close> is \<open>sublist\<close>; \<open>strings.HasPrefix\<close> is \<open>prefix\<close>. Go compares strings bytewise.\<close>

fun str_less :: "string \<Rightarrow> string \<Rightarrow> bool" where
  "str_less _ [] \<longleftrightarrow> False"
| "str_less [] (d # ds) \<longleftrightarrow> True"
| "str_less (c # cs) (d # ds) \<longleftrightarrow>
     (of_char c :: nat) < of_char d \<or> c = d \<and> str_less cs ds"

text \<open>The UTF-8 encodings of the white-space code points, and \<open>strings.TrimSpace\<close>.\<close>

definition space_runes :: "bytes list" where
  "space_runes =
     [[CHR 0x09], [CHR 0x0A], [CHR 0x0B], [CHR 0x0C], [CHR 0x0D], [CHR 0x20],
      [CHR 0xC2, CHR 0x85], [CHR 0xC2, CHR 0xA0], [CHR 0xE1, CHR 0x9A, CHR 0x80],
      [CHR 0xE2, CHR 0x80, CHR 0x80], [CHR 0xE2, CHR 0x80, CHR 0x81], [CHR 0xE2, CHR 0x80, CHR 0x82],
      [CHR 0xE2, CHR 0x80, CHR 0x83], [CHR 0xE2, CHR 0x80, CHR 0x84], [CHR 0xE2, CHR 0x80, CHR 0x85],
      [CHR 0xE2, CHR 0x80, CHR 0x86], [CHR 0xE2, CHR 0x80, CHR 0x87], [CHR 0xE2, CHR 0x80, CHR 0x88],
      [CHR 0xE2, CHR 0x80, CHR 0x89], [CHR 0xE2, CHR 0x80, CHR 0x8A], [CHR 0xE2, CHR 0x80, CHR 0xA8],
      [CHR 0xE2, CHR 0x80, CHR 0xA9], [CHR 0xE2, CHR 0x80, CHR 0xAF], [CHR 0xE2, CHR 0x81, CHR 0x9F],
      [CHR 0xE3, CHR 0x80, CHR 0x80]]"

function trim_front :: "bytes list \<Rightarrow> bytes \<Rightarrow> bytes" where
  "trim_front rs s =
     (case List.find (\<lambda>r. r \<noteq> [] \<and> prefix r s) rs of
        None \<Rightarrow> s
      | Some r \<Rightarrow> trim_front rs (drop (length r) s))"
  by pat_completeness auto
termination
  by (relation "measure (length \<circ> snd)") (auto simp: find_Some_iff prefix_def)

declare trim_front.simps [simp del]

definition TrimSpace :: "bytes \<Rightarrow> bytes" where
  "TrimSpace s = rev (trim_front (map rev space_runes) (rev (trim_front space_runes s)))"

text \<open>\<open>strings.ToLower\<close> on ASCII letters; other bytes stay.\<close>

definition ToLower_byte :: "char \<Rightarrow> char" where
  "ToLower_byte c =
     (if (65::nat) \<le> of_char c \<and> of_char c \<le> (90::nat) then char_of ((of_char c :: nat) + 32) else c)"

definition ToLower :: "string \<Rightarrow> string" where
  "ToLower s = map ToLower_byte s"

lemma trim_front_suffix: "suffix (trim_front rs s) s"
proof (induction rs s rule: trim_front.induct)
  case (1 rs s)
  show ?case
  proof (cases "List.find (\<lambda>r. r \<noteq> [] \<and> prefix r s) rs")
    case None
    then show ?thesis by (subst trim_front.simps) simp
  next
    case (Some r)
    have "suffix (trim_front rs (drop (length r) s)) s"
      using 1 [OF Some] suffix_drop by (rule suffix_order.trans)
    with Some show ?thesis by (subst trim_front.simps) simp
  qed
qed

text \<open>\<open>strings.Index\<close> and \<open>strings.LastIndex\<close>: the first and the last occurrence, if any.\<close>

fun str_index :: "string \<Rightarrow> string \<Rightarrow> nat option" where
  "str_index s [] = (if s = [] then Some 0 else None)"
| "str_index s (c # cs) = (if prefix s (c # cs) then Some 0 else map_option Suc (str_index s cs))"

fun str_last_index :: "string \<Rightarrow> string \<Rightarrow> nat option" where
  "str_last_index s [] = (if s = [] then Some 0 else None)"
| "str_last_index s (c # cs) =
     (case str_last_index s cs of
        Some i \<Rightarrow> Some (Suc i)
      | None \<Rightarrow> (if prefix s (c # cs) then Some 0 else None))"

definition TrimPrefix :: "string \<Rightarrow> string \<Rightarrow> string" where
  "TrimPrefix s p = (if prefix p s then drop (length p) s else s)"

definition TrimSuffix :: "string \<Rightarrow> string \<Rightarrow> string" where
  "TrimSuffix s p = (if suffix p s then take (length s - length p) s else s)"

lemma str_index_Some:
  "str_index s t = Some i \<Longrightarrow> i + length s \<le> length t \<and> take (length s) (drop i t) = s"
  by (induction s t arbitrary: i rule: str_index.induct)
    (auto split: if_splits simp: prefix_def dest: arg_cong [where f = length])

end
