(* ===== verification/Breaker.thy ===== *)
theory Breaker
  imports Mqc_Prelude
begin

text \<open>
  The per-pipeline outbound circuit breaker of \<open>internal/pipeline/breaker.go\<close>: its
  state, its four operations, the state invariant every operation keeps, and the
  behaviour of every branch. The clock (\<open>time.Now()\<close>) is an argument.
\<close>

section \<open>State and operations\<close>

datatype breakerState = breakerClosed | breakerOpen | breakerHalfOpen

record breaker =
  br_state :: breakerState
  fails :: int
  threshold :: int
  cooldown :: duration
  openedAt :: time

definition defaultBreakerThreshold :: int where
  "defaultBreakerThreshold = 5"

definition defaultBreakerCooldown :: duration where
  "defaultBreakerCooldown = 30 * 1000000000"

text \<open>The zero \<open>time.Time\<close> of a fresh struct is an argument: no branch reads it.\<close>

definition newBreaker :: "time \<Rightarrow> int \<Rightarrow> duration \<Rightarrow> breaker" where
  "newBreaker zero thr cd =
     \<lparr>br_state = breakerClosed, fails = 0,
      threshold = (if thr \<le> 0 then defaultBreakerThreshold else thr),
      cooldown = (if cd \<le> 0 then defaultBreakerCooldown else cd),
      openedAt = zero\<rparr>"

definition allow :: "time \<Rightarrow> breaker \<Rightarrow> bool \<times> breaker" where
  "allow now b =
     (case br_state b of
        breakerClosed \<Rightarrow> (True, b)
      | breakerHalfOpen \<Rightarrow> (False, b)
      | breakerOpen \<Rightarrow>
          (if now - openedAt b < cooldown b then (False, b)
           else (True, b\<lparr>br_state := breakerHalfOpen\<rparr>)))"

definition recordResult :: "time \<Rightarrow> bool \<Rightarrow> breaker \<Rightarrow> breaker" where
  "recordResult now success b =
     (if success then b\<lparr>br_state := breakerClosed, fails := 0\<rparr>
      else if br_state b = breakerHalfOpen
      then b\<lparr>br_state := breakerOpen, openedAt := now\<rparr>
      else
        (let b1 = b\<lparr>fails := fails b + 1\<rparr>
         in if fails b1 \<ge> threshold b1
            then b1\<lparr>br_state := breakerOpen, openedAt := now\<rparr>
            else b1))"

definition snapshot :: "breaker \<Rightarrow> breakerState \<times> int" where
  "snapshot b = (br_state b, fails b)"

section \<open>The interface the executor relies on\<close>

text \<open>
  A gate admits or refuses a send and is later told the outcome. While a probe is
  outstanding it refuses everyone and does not move; any outcome resolves the probe; a
  refusal changes nothing.
\<close>

locale circuit_gate =
  fixes admit :: "time \<Rightarrow> 'b \<Rightarrow> bool \<times> 'b"
    and settle :: "time \<Rightarrow> bool \<Rightarrow> 'b \<Rightarrow> 'b"
    and probing :: "'b \<Rightarrow> bool"
  assumes admit_probing: "probing b \<Longrightarrow> admit t b = (False, b)"
    and settle_resolves: "\<not> probing (settle t ok b)"
    and refusal_keeps: "admit t b = (False, b') \<Longrightarrow> b' = b"
begin

text \<open>Asking again, at whatever times, does not help while the probe is unresolved.\<close>

lemma refused_forever:
  "probing b \<Longrightarrow> fold (\<lambda>t b. snd (admit t b)) ts b = b \<and> (\<forall>t. \<not> fst (admit t b))"
  by (induction ts) (auto simp: admit_probing)

lemma admitted_not_probing: "fst (admit t b) \<Longrightarrow> \<not> probing b"
  by (auto simp: admit_probing)

end

interpretation gate: circuit_gate allow recordResult "\<lambda>b. br_state b = breakerHalfOpen"
  by unfold_locales
    (auto simp: allow_def recordResult_def Let_def split: breakerState.splits if_splits)

section \<open>The state invariant\<close>

text \<open>
  The breaker is closed exactly while the run of consecutive failures is below the
  threshold.
\<close>

definition breaker_inv :: "breaker \<Rightarrow> bool" where
  "breaker_inv b \<longleftrightarrow>
     0 < threshold b \<and> 0 < cooldown b \<and> 0 \<le> fails b \<and>
     (br_state b = breakerClosed \<longleftrightarrow> fails b < threshold b)"

lemma newBreaker_inv: "breaker_inv (newBreaker z thr cd)"
  by (auto simp: breaker_inv_def newBreaker_def defaultBreakerThreshold_def
      defaultBreakerCooldown_def)

lemma allow_inv: "breaker_inv b \<Longrightarrow> breaker_inv (snd (allow t b))"
  by (auto simp: breaker_inv_def allow_def split: breakerState.splits)

lemma allow_invD: "allow t b = (a, b') \<Longrightarrow> breaker_inv b \<Longrightarrow> breaker_inv b'"
  using allow_inv [of b t] by simp

lemma allow_True_cases:
  assumes "allow t b = (True, b')"
  obtains "br_state b = breakerClosed" "b' = b"
  | "br_state b = breakerOpen" "cooldown b \<le> t - openedAt b"
    "b' = b\<lparr>br_state := breakerHalfOpen\<rparr>"
  using assms by (auto simp: allow_def split: breakerState.splits if_splits)

lemma recordResult_inv: "breaker_inv b \<Longrightarrow> breaker_inv (recordResult t ok b)"
  by (auto simp: breaker_inv_def recordResult_def Let_def)

lemma recordResult_fields [simp]:
  "threshold (recordResult t ok b) = threshold b" "cooldown (recordResult t ok b) = cooldown b"
  by (simp_all add: recordResult_def Let_def)

lemma allow_fields [simp]:
  "threshold (snd (allow t b)) = threshold b" "cooldown (snd (allow t b)) = cooldown b"
  "fails (snd (allow t b)) = fails b"
  by (auto simp: allow_def split: breakerState.splits)

section \<open>Counting consecutive failures\<close>

lemma recordResult_failure_closed:
  assumes "br_state b \<noteq> breakerHalfOpen"
  shows "recordResult t False b =
    (if fails b + 1 \<ge> threshold b
     then b\<lparr>fails := fails b + 1, br_state := breakerOpen, openedAt := t\<rparr>
     else b\<lparr>fails := fails b + 1\<rparr>)"
  using assms by (simp add: recordResult_def Let_def)

lemma failures_count:
  assumes "br_state b \<noteq> breakerHalfOpen"
  shows "fails (fold (\<lambda>t. recordResult t False) ts b) = fails b + int (length ts)
     \<and> br_state (fold (\<lambda>t. recordResult t False) ts b) \<noteq> breakerHalfOpen
     \<and> threshold (fold (\<lambda>t. recordResult t False) ts b) = threshold b"
  using assms
proof (induction ts arbitrary: b)
  case (Cons t ts)
  have "br_state (recordResult t False b) \<noteq> breakerHalfOpen"
    by (rule gate.settle_resolves)
  moreover have "fails (recordResult t False b) = fails b + 1"
    using Cons.prems by (simp add: recordResult_failure_closed)
  ultimately show ?case using Cons.IH by simp
qed simp

lemma failures_inv:
  "breaker_inv b \<Longrightarrow> breaker_inv (fold (\<lambda>t. recordResult t False) ts b)"
  by (induction ts arbitrary: b) (simp_all add: recordResult_inv)

text \<open>
  C28. From a closed breaker with no failures counted, a run of consecutive failed sends
  leaves it closed, admitting every send, while the run is shorter than the threshold. From
  the threshold-th failure on it is open and refuses every send until the cool-down,
  counted from the last failure, is over; the first send after that is admitted as the
  probe, and until that is reported every other one is refused.
\<close>

theorem breaker_opens_at_threshold:
  assumes "breaker_inv b" "br_state b = breakerClosed" "fails b = 0"
  shows "let f = fold (\<lambda>t. recordResult t False) ts b in
     (int (length ts) < threshold b \<longrightarrow> br_state f = breakerClosed \<and> (\<forall>now. allow now f = (True, f)))
   \<and> (threshold b \<le> int (length ts) \<longrightarrow>
        br_state f = breakerOpen
      \<and> (\<forall>now. allow now f =
           (if now < last ts + cooldown b then (False, f) else (True, f\<lparr>br_state := breakerHalfOpen\<rparr>)))
      \<and> (\<forall>now. \<not> fst (allow now (f\<lparr>br_state := breakerHalfOpen\<rparr>))))"
proof -
  let ?f = "fold (\<lambda>t. recordResult t False) ts b"
  have cnt: "fails ?f = int (length ts)" "br_state ?f \<noteq> breakerHalfOpen" "threshold ?f = threshold b"
    using failures_count [of b ts] assms by auto
  have inv: "breaker_inv ?f" using failures_inv assms(1) by blast
  have st: "br_state ?f = (if int (length ts) < threshold b then breakerClosed else breakerOpen)"
    using inv cnt by (cases "br_state ?f") (auto simp: breaker_inv_def)
  have "openedAt ?f = last ts" if len: "threshold b \<le> int (length ts)"
  proof -
    have pos: "0 < threshold b" using assms(1) by (simp add: breaker_inv_def)
    with len obtain us t where ts: "ts = us @ [t]"
      by (cases ts rule: rev_cases) auto
    let ?g = "fold (\<lambda>t. recordResult t False) us b"
    have "fails ?g = int (length us)" "br_state ?g \<noteq> breakerHalfOpen" "threshold ?g = threshold b"
      using failures_count [of b us] assms by auto
    with len ts show ?thesis by (simp add: recordResult_failure_closed)
  qed
  moreover have "cooldown ?f = cooldown b" by (induction ts arbitrary: b) simp_all
  ultimately show ?thesis using st by (auto simp: Let_def allow_def)
qed

theorem breaker_opens_at_threshold_witness:
  "br_state (fold (\<lambda>t. recordResult t False) [10, 20, 30, 40, 50] (newBreaker 0 5 60)) = breakerOpen
   \<and> \<not> fst (allow 109 (fold (\<lambda>t. recordResult t False) [10, 20, 30, 40, 50] (newBreaker 0 5 60)))
   \<and> fst (allow 110 (fold (\<lambda>t. recordResult t False) [10, 20, 30, 40, 50] (newBreaker 0 5 60)))"
  using breaker_opens_at_threshold [OF newBreaker_inv [of 0 5 60], of "[10, 20, 30, 40, 50]"]
  by (simp add: newBreaker_def Let_def)

end
