(* ===== verification/Breaker_Fleet.thy ===== *)
theory Breaker_Fleet
  imports Breaker
begin

text \<open>
  One breaker shared by the workers of a pipeline, as \<open>Executor.Run\<close> shares it
  (\<open>internal/pipeline/executor.go\<close>): each worker asks \<open>allow\<close>, is then in flight,
  and later reports with \<open>recordResult\<close>, or leaves \<open>processOne\<close> through the
  duplicate branch of the dedup gate, which reports nothing. Steps of different workers
  interleave freely and the clock moves forward between them.
\<close>

section \<open>The interleaving of the workers\<close>

datatype worker = WIdle | WSending | WProbe

record fleet =
  fl_breaker :: breaker
  fl_clock :: time
  fl_worker :: "nat \<Rightarrow> worker"

text \<open>
  The transitions of \<open>processOne\<close> on the breaker. A worker admitted while the breaker
  was open is the probe. \<open>fs_dedup_hit\<close> is the early return of the dedup gate, which
  only a pipeline with \<open>DedupWindowSeconds > 0\<close> takes.
\<close>

inductive fleet_step :: "bool \<Rightarrow> fleet \<Rightarrow> fleet \<Rightarrow> bool" for dedup_on :: bool where
  fs_tick: "fl_clock s \<le> t \<Longrightarrow> fleet_step dedup_on s (s\<lparr>fl_clock := t\<rparr>)"
| fs_admit:
    "fl_worker s i = WIdle \<Longrightarrow> allow (fl_clock s) (fl_breaker s) = (True, b') \<Longrightarrow>
     w = (if br_state (fl_breaker s) = breakerOpen then WProbe else WSending) \<Longrightarrow>
     fleet_step dedup_on s (s\<lparr>fl_breaker := b', fl_worker := (fl_worker s)(i := w)\<rparr>)"
| fs_refuse:
    "fl_worker s i = WIdle \<Longrightarrow> allow (fl_clock s) (fl_breaker s) = (False, b') \<Longrightarrow>
     fleet_step dedup_on s (s\<lparr>fl_breaker := b'\<rparr>)"
| fs_report:
    "fl_worker s i \<noteq> WIdle \<Longrightarrow>
     fleet_step dedup_on s
       (s\<lparr>fl_breaker := recordResult (fl_clock s) ok (fl_breaker s),
          fl_worker := (fl_worker s)(i := WIdle)\<rparr>)"
| fs_dedup_hit:
    "dedup_on \<Longrightarrow> fl_worker s i \<noteq> WIdle \<Longrightarrow>
     fleet_step dedup_on s (s\<lparr>fl_worker := (fl_worker s)(i := WIdle)\<rparr>)"

inductive_cases fleet_step_cases: "fleet_step d s s'"

definition fleet_init :: "time \<Rightarrow> time \<Rightarrow> fleet" where
  "fleet_init zero start =
     \<lparr>fl_breaker = newBreaker zero defaultBreakerThreshold defaultBreakerCooldown,
      fl_clock = start, fl_worker = (\<lambda>_. WIdle)\<rparr>"

inductive fleet_reach :: "bool \<Rightarrow> fleet \<Rightarrow> fleet \<Rightarrow> bool" for dedup_on :: bool where
  fr_start: "fleet_reach dedup_on s s"
| fr_step: "fleet_reach dedup_on s t \<Longrightarrow> fleet_step dedup_on t u \<Longrightarrow> fleet_reach dedup_on s u"

section \<open>Invariants of every interleaving\<close>

lemma fleet_step_inv:
  "fleet_step d s t \<Longrightarrow> breaker_inv (fl_breaker s) \<Longrightarrow> breaker_inv (fl_breaker t)"
  by (induction rule: fleet_step.induct) (auto simp: recordResult_inv dest: allow_invD)

text \<open>
  What the dedup-free pipeline keeps: a half-open breaker has a probe in flight, so a
  report that resolves it is still to come.
\<close>

definition probe_pending :: "fleet \<Rightarrow> bool" where
  "probe_pending s \<longleftrightarrow>
     (br_state (fl_breaker s) = breakerHalfOpen \<longrightarrow> (\<exists>i. fl_worker s i = WProbe))"

lemma fleet_step_probe_pending:
  assumes "fleet_step False s t" "probe_pending s"
  shows "probe_pending t"
  using assms
proof (induction rule: fleet_step.induct)
  case (fs_admit s i b' w)
  from fs_admit(2) show ?case
  proof (cases rule: allow_True_cases)
    case 1
    with fs_admit show ?thesis by (simp add: probe_pending_def)
  next
    case 2
    with fs_admit show ?thesis by (auto simp: probe_pending_def intro!: exI [of _ i])
  qed
next
  case (fs_refuse s i b')
  then show ?case using gate.refusal_keeps [of "fl_clock s" "fl_breaker s" b']
    by (simp add: probe_pending_def)
next
  case (fs_report s i ok)
  then show ?case using gate.settle_resolves by (simp add: probe_pending_def)
qed (auto simp: probe_pending_def)

lemma fleet_reach_inv:
  assumes "fleet_reach d s t"
  shows "breaker_inv (fl_breaker s) \<Longrightarrow> breaker_inv (fl_breaker t)"
    and "\<not> d \<Longrightarrow> probe_pending s \<Longrightarrow> probe_pending t"
  using assms
  by (induction rule: fleet_reach.induct) (auto intro: fleet_step_inv fleet_step_probe_pending)

lemma fleet_init_inv: "breaker_inv (fl_breaker (fleet_init z t0))" "probe_pending (fleet_init z t0)"
  using newBreaker_inv by (simp_all add: fleet_init_def probe_pending_def) (simp add: newBreaker_def)

text \<open>
  C3. With the dedup gate off, no interleaving of any number of workers loses a probe: in every
  reachable state the breaker is closed exactly when its failure count is below the
  threshold, and when it is half-open some worker's probe is in flight, whose report,
  whatever it is, takes the breaker out of half-open.
\<close>

theorem fleet_probe_resolves:
  assumes "fleet_reach False (fleet_init z t0) s"
  shows "breaker_inv (fl_breaker s)
       \<and> (br_state (fl_breaker s) = breakerHalfOpen \<longrightarrow>
            (\<exists>i. fl_worker s i = WProbe \<and>
               (\<forall>ok. \<exists>t. fleet_step False s t \<and> fl_worker t i = WIdle
                    \<and> fl_breaker t = recordResult (fl_clock s) ok (fl_breaker s)
                    \<and> br_state (fl_breaker t) \<noteq> breakerHalfOpen)))"
proof -
  have inv: "breaker_inv (fl_breaker s)" and pp: "probe_pending s"
    using fleet_reach_inv [OF assms] fleet_init_inv by auto
  have "\<exists>t. fleet_step False s t \<and> fl_worker t i = WIdle
          \<and> fl_breaker t = recordResult (fl_clock s) ok (fl_breaker s)
          \<and> br_state (fl_breaker t) \<noteq> breakerHalfOpen" if "fl_worker s i = WProbe" for i ok
    using fleet_step.fs_report [of s i False ok] that gate.settle_resolves
    by (intro exI [of _ "s\<lparr>fl_breaker := recordResult (fl_clock s) ok (fl_breaker s),
          fl_worker := (fl_worker s)(i := WIdle)\<rparr>"]) simp
  with inv pp show ?thesis by (auto simp: probe_pending_def)
qed

section \<open>Runs built step by step\<close>

lemma fleet_reach_trans [trans]:
  "fleet_reach d s t \<Longrightarrow> fleet_reach d t u \<Longrightarrow> fleet_reach d s u"
  by (rotate_tac, induction rule: fleet_reach.induct) (auto intro: fleet_reach.intros)

lemma fleet_reach_one: "fleet_step d s t \<Longrightarrow> fleet_reach d s t"
  by (blast intro: fleet_reach.intros)

text \<open>One failed send of an idle worker, as a run of two steps.\<close>

lemma fleet_failed_send:
  assumes "fl_worker s i = WIdle" "br_state (fl_breaker s) = breakerClosed"
  shows "fleet_reach d s (s\<lparr>fl_breaker := recordResult (fl_clock s) False (fl_breaker s)\<rparr>)"
proof -
  let ?a = "s\<lparr>fl_breaker := fl_breaker s, fl_worker := (fl_worker s)(i := WSending)\<rparr>"
  let ?b = "?a\<lparr>fl_breaker := recordResult (fl_clock ?a) False (fl_breaker ?a),
      fl_worker := (fl_worker ?a)(i := WIdle)\<rparr>"
  have "fleet_reach d s ?a"
    by (rule fleet_reach_one, rule fleet_step.fs_admit)
      (use assms in \<open>simp_all add: allow_def\<close>)
  also have "fleet_reach d ?a ?b"
    by (rule fleet_reach_one, rule fleet_step.fs_report) simp
  also have "?b = s\<lparr>fl_breaker := recordResult (fl_clock s) False (fl_breaker s)\<rparr>"
    using assms(1) by (simp add: fun_upd_idem)
  finally show ?thesis .
qed

text \<open>
  Five failed sends in a row open a closed breaker with the default threshold; half a minute
  later the next worker that asks is admitted as the probe.
\<close>

lemma fleet_five_failures:
  assumes "fl_worker s i = WIdle" "br_state (fl_breaker s) = breakerClosed"
    and "fails (fl_breaker s) = 0" "threshold (fl_breaker s) = 5"
  shows "fleet_reach d s (s\<lparr>fl_breaker := (fl_breaker s)
    \<lparr>fails := 5, br_state := breakerOpen, openedAt := fl_clock s\<rparr>\<rparr>)"
proof -
  let ?st = "\<lambda>n. s\<lparr>fl_breaker := (fl_breaker s)\<lparr>fails := n\<rparr>\<rparr>"
  have step: "fleet_reach d (?st n) (?st (n + 1))" if "n < 4" for n
    using fleet_failed_send [of "?st n" i d] that assms by (simp add: recordResult_def)
  have "s = ?st 0" using assms(3) by simp
  also have "fleet_reach d (?st 0) (?st 1)" using step [of 0] by simp
  also have "fleet_reach d (?st 1) (?st 2)" using step [of 1] by simp
  also have "fleet_reach d (?st 2) (?st 3)" using step [of 2] by simp
  also have "fleet_reach d (?st 3) (?st 4)" using step [of 3] by simp
  also have "fleet_reach d (?st 4) (s\<lparr>fl_breaker := (fl_breaker s)
    \<lparr>fails := 5, br_state := breakerOpen, openedAt := fl_clock s\<rparr>\<rparr>)"
    using fleet_failed_send [of "?st 4" i d] assms by (simp add: recordResult_def)
  finally show ?thesis .
qed

definition fleet_open :: "time \<Rightarrow> time \<Rightarrow> fleet" where
  "fleet_open z t0 =
     (fleet_init z t0)\<lparr>fl_breaker := (fl_breaker (fleet_init z t0))
        \<lparr>fails := 5, br_state := breakerOpen, openedAt := t0\<rparr>\<rparr>"

lemma fleet_reach_open: "fleet_reach d (fleet_init z t0) (fleet_open z t0)"
  using fleet_five_failures [of "fleet_init z t0" 0 d]
  by (simp add: fleet_open_def fleet_init_def newBreaker_def defaultBreakerThreshold_def)

lemma fleet_probe_admitted:
  assumes "fl_worker s i = WIdle" "br_state (fl_breaker s) = breakerOpen"
    and "fl_clock s \<le> t" "cooldown (fl_breaker s) \<le> t - openedAt (fl_breaker s)"
  shows "fleet_reach d s
    (s\<lparr>fl_clock := t, fl_breaker := (fl_breaker s)\<lparr>br_state := breakerHalfOpen\<rparr>,
       fl_worker := (fl_worker s)(i := WProbe)\<rparr>)"
proof -
  let ?a = "s\<lparr>fl_clock := t\<rparr>"
  have "fleet_reach d s ?a" using assms(3) by (rule fleet_reach_one [OF fleet_step.fs_tick])
  also have "fleet_reach d ?a (?a\<lparr>fl_breaker := (fl_breaker s)\<lparr>br_state := breakerHalfOpen\<rparr>,
       fl_worker := (fl_worker ?a)(i := WProbe)\<rparr>)"
    by (rule fleet_reach_one, rule fleet_step.fs_admit)
      (use assms in \<open>simp_all add: allow_def\<close>)
  finally show ?thesis by simp
qed

section \<open>A probe that is never reported\<close>

text \<open>A stuck fleet: nobody is in flight and nobody will ever be admitted.\<close>

definition fleet_stuck :: "fleet \<Rightarrow> bool" where
  "fleet_stuck s \<longleftrightarrow>
     br_state (fl_breaker s) = breakerHalfOpen \<and> (\<forall>i. fl_worker s i = WIdle)"

lemma fleet_stuck_step: "fleet_step d s t \<Longrightarrow> fleet_stuck s \<Longrightarrow> fleet_stuck t"
  by (induction rule: fleet_step.induct) (auto simp: fleet_stuck_def gate.admit_probing)

lemma fleet_stuck_reach: "fleet_reach d s t \<Longrightarrow> fleet_stuck s \<Longrightarrow> fleet_stuck t"
  by (induction rule: fleet_reach.induct) (auto intro: fleet_stuck_step)

lemma fleet_lone_probe:
  "\<exists>s. fleet_reach True (fleet_init z t0) s \<and> br_state (fl_breaker s) = breakerHalfOpen
      \<and> fl_worker s = (\<lambda>_. WIdle)(i := WProbe)"
proof -
  let ?o = "fleet_open z t0"
  let ?p = "?o\<lparr>fl_clock := t0 + defaultBreakerCooldown,
       fl_breaker := (fl_breaker ?o)\<lparr>br_state := breakerHalfOpen\<rparr>,
       fl_worker := (fl_worker ?o)(i := WProbe)\<rparr>"
  note defs = fleet_open_def fleet_init_def newBreaker_def defaultBreakerCooldown_def
  have "fleet_reach True (fleet_init z t0) ?o" by (rule fleet_reach_open)
  also have "fleet_reach True ?o ?p" by (rule fleet_probe_admitted) (simp_all add: defs)
  finally show ?thesis by (intro exI [of _ ?p]) (simp add: defs)
qed

text \<open>
  C9. With the dedup gate on, let the breaker be half-open and its probe the only message in
  flight. If the probe finds its payload in the dedup window and leaves without reporting,
  no message is ever forwarded again: in every state reachable from there all workers are
  idle, the breaker is half-open and every \<open>allow\<close>, at any time, refuses. And a fresh
  pipeline does reach such a probe, of any of its workers.
\<close>

theorem fleet_dedup_deadlock:
  assumes "br_state (fl_breaker s) = breakerHalfOpen" "fl_worker s = (\<lambda>_. WIdle)(i := WProbe)"
    and "t = s\<lparr>fl_worker := (fl_worker s)(i := WIdle)\<rparr>" "fleet_reach True t u"
  shows "fleet_step True s t \<and> (\<forall>j. fl_worker u j = WIdle) \<and> br_state (fl_breaker u) = breakerHalfOpen
     \<and> (\<forall>n. \<not> fst (allow n (fl_breaker u)))
     \<and> (\<exists>s'. fleet_reach True (fleet_init z t0) s' \<and> br_state (fl_breaker s') = breakerHalfOpen
          \<and> fl_worker s' = (\<lambda>_. WIdle)(i := WProbe))"
proof -
  have "fleet_step True s t" unfolding assms(3) by (rule fleet_step.fs_dedup_hit) (simp_all add: assms(2))
  moreover have "fleet_stuck t" using assms(1,2,3) by (simp add: fleet_stuck_def)
  then have "fleet_stuck u" using fleet_stuck_reach assms(4) by blast
  ultimately show ?thesis using fleet_lone_probe by (auto simp: fleet_stuck_def gate.admit_probing)
qed

definition probe_fleet :: fleet where
  "probe_fleet =
     \<lparr>fl_breaker = (newBreaker 0 5 60)\<lparr>br_state := breakerHalfOpen, fails := 5\<rparr>, fl_clock = 100,
      fl_worker = (\<lambda>_. WIdle)(3 := WProbe)\<rparr>"

theorem fleet_dedup_deadlock_witness:
  "\<not> fst (allow 1000 (fl_breaker (probe_fleet\<lparr>fl_worker := (\<lambda>_. WIdle)\<rparr>)))"
  using fleet_dedup_deadlock [of probe_fleet 3 "probe_fleet\<lparr>fl_worker := (\<lambda>_. WIdle)\<rparr>"
      "probe_fleet\<lparr>fl_worker := (\<lambda>_. WIdle)\<rparr>"] fleet_reach.fr_start
  by (simp add: probe_fleet_def fun_upd_idem)

text \<open>
  The probe is not exclusive: without any dedup gate, a slow send admitted before
  the breaker opened can end a probe that is still in flight, and after another cool-down a
  second probe is admitted beside it.
\<close>

theorem fleet_two_probes:
  "\<exists>s i j. fleet_reach False (fleet_init z t0) s \<and> i \<noteq> j
     \<and> fl_worker s i = WProbe \<and> fl_worker s j = WProbe"
proof -
  let ?i = "fleet_init z t0"
  let ?slow = "?i\<lparr>fl_breaker := fl_breaker ?i, fl_worker := (fl_worker ?i)(9 := WSending)\<rparr>"
  note defs = fleet_init_def newBreaker_def defaultBreakerThreshold_def defaultBreakerCooldown_def
  let ?o = "?slow\<lparr>fl_breaker := (fl_breaker ?slow)
        \<lparr>fails := 5, br_state := breakerOpen, openedAt := fl_clock ?slow\<rparr>\<rparr>"
  let ?t1 = "t0 + defaultBreakerCooldown"
  let ?p = "?o\<lparr>fl_clock := ?t1, fl_breaker := (fl_breaker ?o)\<lparr>br_state := breakerHalfOpen\<rparr>,
       fl_worker := (fl_worker ?o)(0 := WProbe)\<rparr>"
  let ?q = "?p\<lparr>fl_breaker := recordResult (fl_clock ?p) False (fl_breaker ?p),
          fl_worker := (fl_worker ?p)(9 := WIdle)\<rparr>"
  let ?r = "?q\<lparr>fl_clock := ?t1 + defaultBreakerCooldown,
       fl_breaker := (fl_breaker ?q)\<lparr>br_state := breakerHalfOpen\<rparr>,
       fl_worker := (fl_worker ?q)(1 := WProbe)\<rparr>"
  have "fleet_reach False ?i ?slow"
    by (rule fleet_reach_one, rule fleet_step.fs_admit) (simp_all add: defs allow_def)
  also have "fleet_reach False ?slow ?o"
    by (rule fleet_five_failures [where i = 0]) (simp_all add: defs)
  also have "fleet_reach False ?o ?p"
    by (rule fleet_probe_admitted) (simp_all add: defs)
  also have "fleet_reach False ?p ?q"
    by (rule fleet_reach_one, rule fleet_step.fs_report) simp
  also have "fleet_reach False ?q ?r"
    by (rule fleet_probe_admitted) (simp_all add: defs recordResult_def)
  finally have "fleet_reach False ?i ?r" .
  then show ?thesis
    by (intro exI [of _ ?r] exI [of _ 0] exI [of _ 1]) simp
qed

theorem fleet_probe_resolves_witness:
  "breaker_inv (fl_breaker (fleet_open 0 7)) \<and> fleet_reach False (fleet_init 0 7) (fleet_open 0 7)"
  using fleet_probe_resolves [OF fleet_reach_open [of False 0 7]] fleet_reach_open [of False 0 7]
  by blast

end
