(* ===== verification/Budget.thy ===== *)
theory Budget
  imports Mqc_Prelude
begin

text \<open>
  \<open>internal/pipeline/budget.go\<close>: the fixed-window throttle the executor takes a slot from
  before each message. One round of the loop in \<open>take\<close> is \<open>take_round\<close>, run under the
  mutex; the rounds of all workers interleave in any order, so the safety property is
  about arbitrary sequences of rounds.
\<close>

section \<open>State and operations\<close>

record budget =
  limit :: int
  window :: duration
  count :: int
  windowStart :: time

definition newBudget :: "time \<Rightarrow> int \<Rightarrow> duration \<Rightarrow> budget" where
  "newBudget now lim win =
     \<lparr>limit = lim, window = (if win \<le> 0 then 60 * 1000000000 else win), count = 0, windowStart = now\<rparr>"

text \<open>One round: admitted (\<open>None\<close>), or the time to wait before the next round.\<close>

definition take_round :: "time \<Rightarrow> budget \<Rightarrow> duration option \<times> budget" where
  "take_round now b =
     (let b1 = (if now - windowStart b \<ge> window b then b\<lparr>windowStart := now, count := 0\<rparr> else b) in
      if count b1 < limit b1 then (None, b1\<lparr>count := count b1 + 1\<rparr>)
      else (Some (window b1 - (now - windowStart b1)), b1))"

datatype take_result = Admitted | CtxDone | StillWaiting

text \<open>
  \<open>take\<close> over the rounds it makes: the clock at each round, and whether the context is cancelled
  while waiting after it.
\<close>

fun take_loop :: "(time \<times> bool) list \<Rightarrow> budget \<Rightarrow> take_result \<times> budget" where
  "take_loop [] b = (StillWaiting, b)"
| "take_loop ((now, cancelled) # rounds) b =
     (case take_round now b of
        (None, b') \<Rightarrow> (Admitted, b')
      | (Some wait, b') \<Rightarrow> if cancelled then (CtxDone, b') else take_loop rounds b')"

section \<open>Laws\<close>

definition budget_inv :: "budget \<Rightarrow> bool" where
  "budget_inv b \<longleftrightarrow> 0 < window b \<and> 0 \<le> count b \<and> (0 \<le> limit b \<longrightarrow> count b \<le> limit b)"

lemma newBudget_inv: "budget_inv (newBudget now lim win)"
  by (simp add: budget_inv_def newBudget_def)

lemma take_round_inv: "budget_inv b \<Longrightarrow> budget_inv (snd (take_round now b))"
  by (auto simp: budget_inv_def take_round_def Let_def)

lemma take_round_keeps: "limit (snd (take_round now b)) = limit b" "window (snd (take_round now b)) = window b"
  by (auto simp: take_round_def Let_def)

text \<open>
  A budget with a positive limit never blocks for longer than its window: when the first
  round is refused, the wait it asks for is positive and at most the window, and the next
  round, made once that wait is over, is admitted unless another worker took the last slot
  of the new window in between.
\<close>

theorem take_after_wait:
  assumes "budget_inv b" "0 < limit b" "windowStart b \<le> t1"
    and "take_round t1 b = (Some wait, b1)" "t1 + wait \<le> t2"
  shows "0 < wait \<and> wait \<le> window b \<and> take_loop [(t1, False), (t2, c)] b = (Admitted, b1\<lparr>windowStart := t2, count := 1\<rparr>)"
  using assms
  by (auto simp: take_round_def budget_inv_def Let_def split: if_splits)

theorem take_after_wait_witness:
  "take_loop [(5, False), (15, False)] \<lparr>limit = 1, window = 10, count = 1, windowStart = 0\<rparr> =
   (Admitted, \<lparr>limit = 1, window = 10, count = 1, windowStart = 15\<rparr>)"
  using take_after_wait [of "\<lparr>limit = 1, window = 10, count = 1, windowStart = 0\<rparr>" 5 5
      "\<lparr>limit = 1, window = 10, count = 1, windowStart = 0\<rparr>" 15 False]
  by (simp add: take_round_def budget_inv_def)

section \<open>Sequences of rounds\<close>

text \<open>The rounds of all workers at the given times: each admission with the window it fell in.\<close>

fun admissions :: "time list \<Rightarrow> budget \<Rightarrow> (time \<times> time) list" where
  "admissions [] b = []"
| "admissions (now # ts) b =
     (case take_round now b of
        (None, b') \<Rightarrow> (now, windowStart b') # admissions ts b'
      | (Some _, b') \<Rightarrow> admissions ts b')"

definition in_window :: "time \<Rightarrow> (time \<times> time) list \<Rightarrow> int" where
  "in_window s xs = int (length (filter (\<lambda>(t, u). u = s) xs))"

lemma in_window_simps [simp]:
  "in_window s [] = 0" "in_window s ((t, u) # xs) = (if u = s then 1 else 0) + in_window s xs"
  by (simp_all add: in_window_def)

lemma take_round_start:
  "budget_inv b \<Longrightarrow> take_round now b = (r, b') \<Longrightarrow> windowStart b \<le> now \<Longrightarrow>
     (windowStart b' = windowStart b \<or> windowStart b' = now \<and> windowStart b + window b \<le> now)
     \<and> windowStart b \<le> windowStart b' \<and> windowStart b' \<le> now \<and> now < windowStart b' + window b"
  by (auto simp: take_round_def Let_def budget_inv_def split: if_splits)

lemma admissions_bound:
  assumes "budget_inv b" "0 \<le> limit b" "sorted (windowStart b # ts)"
  shows "in_window s (admissions ts b) \<le> (if s = windowStart b then limit b - count b else limit b)
    \<and> (s < windowStart b \<longrightarrow> in_window s (admissions ts b) = 0)
    \<and> list_all (\<lambda>(t, u). u \<le> t \<and> t < u + window b) (admissions ts b)"
  using assms
proof (induction ts arbitrary: b)
  case Nil
  then show ?case by (auto simp: budget_inv_def)
next
  case (Cons now ts)
  obtain r b' where tr: "take_round now b = (r, b')" by fastforce
  have st: "windowStart b' = windowStart b \<or> windowStart b' = now \<and> windowStart b + window b \<le> now"
    "windowStart b \<le> windowStart b'" "windowStart b' \<le> now" "now < windowStart b' + window b"
    using take_round_start [OF Cons.prems(1) tr] Cons.prems(3) by auto
  have inv: "budget_inv b'" "limit b' = limit b" "window b' = window b"
    using take_round_inv [OF Cons.prems(1), of now] take_round_keeps [of now b] tr by auto
  have "sorted (windowStart b' # ts)" using Cons.prems(3) st by auto
  from Cons.IH [OF inv(1) _ this] inv(2,3) Cons.prems(2)
  have ih: "in_window s (admissions ts b') \<le> (if s = windowStart b' then limit b - count b' else limit b)"
    "s < windowStart b' \<longrightarrow> in_window s (admissions ts b') = 0"
    "list_all (\<lambda>(t, u). u \<le> t \<and> t < u + window b) (admissions ts b')"
    by auto
  have cnt: "r = None \<Longrightarrow> windowStart b' = windowStart b \<Longrightarrow> 0 < window b \<Longrightarrow> count b' = count b + 1 \<or> count b' = 1 \<and> windowStart b + window b \<le> now"
    "r = None \<Longrightarrow> windowStart b' \<noteq> windowStart b \<Longrightarrow> count b' = 1"
    "r \<noteq> None \<Longrightarrow> windowStart b' = windowStart b \<Longrightarrow> count b' = count b \<or> windowStart b + window b \<le> now"
    "0 \<le> count b'" "0 \<le> count b" "count b \<le> limit b" "count b' \<le> limit b" "0 < window b"
    using tr Cons.prems(1,2) by (auto simp: take_round_def Let_def budget_inv_def split: if_splits)
  show ?case
    using tr ih st cnt inv by (cases r) (auto split: if_splits)
qed

text \<open>
  C37. However the workers' rounds interleave, no window admits more than \<open>limit\<close> messages, and
  each admission lies in the window it is counted in.
\<close>

theorem budget_caps_window:
  assumes "0 \<le> lim" "sorted (now # ts)"
  shows "in_window s (admissions ts (newBudget now lim win)) \<le> lim
    \<and> list_all (\<lambda>(t, u). u \<le> t \<and> t < u + window (newBudget now lim win)) (admissions ts (newBudget now lim win))"
  using admissions_bound [of "newBudget now lim win" ts s] assms newBudget_inv [of now lim win]
  by (auto simp: newBudget_def split: if_splits)

theorem budget_caps_window_witness:
  "in_window 0 (admissions [1, 2, 3] (newBudget 0 2 10)) \<le> 2
   \<and> admissions [1, 2, 3, 10] (newBudget 0 2 10) = [(1, 0), (2, 0), (10, 10)]"
  using budget_caps_window [of 2 0 "[1, 2, 3]" 0 10]
  by (simp add: newBudget_def take_round_def)

end
