(* ===== verification/Run_Stages.thy ===== *)
theory Run_Stages
  imports Mqc_Prelude
begin

text \<open>
  \<open>internal/pipeline/run_stages.go\<close>: the engine that runs a message through a list of stages.
  It knows a stage only through the \<open>Stage\<close> interface of \<open>stage.go\<close>, so the stage type is a
  record of the interface's two methods and the theory does not depend on the stages.
\<close>

section \<open>The interface and the outcome\<close>

text \<open>\<open>Execute\<close> returns message, format and the destinations of a \<open>*Result\<close>, or an error.\<close>

record 'e Stage =
  Name :: string
  Execute :: "bytes \<Rightarrow> string \<Rightarrow> ('e, bytes \<times> string \<times> string list option) result"

text \<open>A \<open>StageRun\<close>, without the wall-clock duration.\<close>

record 'e StageRun =
  run_Name :: string
  Failed :: bool
  run_Body :: bytes
  run_Format :: string
  run_Err :: "'e option"

record 'e StageOutcome =
  Body :: bytes
  out_Format :: string
  RouteTo :: "string list option"
  Runs :: "'e StageRun list"

text \<open>The error is wrapped with the stage name. On an error only \<open>Runs\<close> is set in the outcome.\<close>

fun run_loop ::
  "'e Stage list \<Rightarrow> bytes \<Rightarrow> string \<Rightarrow> string list option \<Rightarrow> 'e StageRun list \<Rightarrow>
   'e StageOutcome \<times> (string \<times> 'e) option" where
  "run_loop [] current currentFormat route runs =
     (\<lparr>Body = current, out_Format = currentFormat, RouteTo = route, Runs = runs\<rparr>, None)"
| "run_loop (stage # stages) current currentFormat route runs =
     (case Execute stage current currentFormat of
        Inl err \<Rightarrow>
          (\<lparr>Body = [], out_Format = [], RouteTo = None,
            Runs = runs @ [\<lparr>run_Name = Name stage, Failed = True, run_Body = current,
                            run_Format = currentFormat, run_Err = Some err\<rparr>]\<rparr>,
           Some (Name stage, err))
      | Inr (out, newFormat, result) \<Rightarrow>
          (let currentFormat' = (if newFormat \<noteq> [] then newFormat else currentFormat);
               route' = (case result of
                           Some ds \<Rightarrow> (if ds \<noteq> [] then Some ds else route)
                         | None \<Rightarrow> route)
           in run_loop stages out currentFormat' route'
                (runs @ [\<lparr>run_Name = Name stage, Failed = False, run_Body = out,
                          run_Format = currentFormat', run_Err = None\<rparr>])))"

definition RunStages ::
  "(bytes \<Rightarrow> string) \<Rightarrow> 'e Stage list \<Rightarrow> bytes \<Rightarrow> 'e StageOutcome \<times> (string \<times> 'e) option" where
  "RunStages detect stages message = run_loop stages message (detect message) None []"

text \<open>\<open>failingStageFromRuns\<close> of \<open>executor.go\<close>: the name and index the executor reports to the DLQ.\<close>

definition failingStageFromRuns :: "'e StageRun list \<Rightarrow> string \<times> nat" where
  "failingStageFromRuns runs =
     (if runs = [] then ('''', 0)
      else if \<not> Failed (last runs) then ('''', 0)
      else (run_Name (last runs), length runs - 1))"

section \<open>The specification\<close>

text \<open>The state a stage list maps over: message, format and routing decision so far.\<close>

definition stage_step ::
  "'e Stage \<Rightarrow> bytes \<times> string \<times> string list option \<Rightarrow> ('e, bytes \<times> string \<times> string list option) result" where
  "stage_step s = (\<lambda>(b, f, r).
     (case Execute s b f of
        Inl e \<Rightarrow> Err e
      | Inr (b', f', r') \<Rightarrow>
          Ok (b', if f' = [] then f else f', if r' = None \<or> r' = Some [] then r else r')))"

text \<open>The state after the first \<open>n\<close> stages, if none of them fails.\<close>

fun state_after ::
  "'e Stage list \<Rightarrow> bytes \<times> string \<times> string list option \<Rightarrow> nat \<Rightarrow>
   ('e, bytes \<times> string \<times> string list option) result" where
  "state_after ss st 0 = Ok st"
| "state_after [] st (Suc n) = Ok st"
| "state_after (s # ss) st (Suc n) =
     (case stage_step s st of Inl e \<Rightarrow> Err e | Inr st' \<Rightarrow> state_after ss st' n)"

text \<open>What the log says of stage \<open>k\<close> when it succeeded: its name, and the message and format after it.\<close>

definition logged ::
  "'e Stage list \<Rightarrow> bytes \<times> string \<times> string list option \<Rightarrow> nat \<Rightarrow> 'e StageRun" where
  "logged ss st k =
     (case state_after ss st (Suc k) of
        Inr (b, f, r) \<Rightarrow> \<lparr>run_Name = Name (ss ! k), Failed = False, run_Body = b, run_Format = f, run_Err = None\<rparr>
      | Inl e \<Rightarrow> \<lparr>run_Name = Name (ss ! k), Failed = True, run_Body = [], run_Format = [], run_Err = Some e\<rparr>)"

lemma logged_Suc:
  "stage_step s st = Ok st' \<Longrightarrow> logged (s # ss) st (Suc k) = logged ss st' k"
  by (simp add: logged_def split: sum.split)

lemma map_logged_Cons:
  "stage_step s st = Ok (b, f, r) \<Longrightarrow>
     map (logged (s # ss) st) [0..<Suc n] =
       \<lparr>run_Name = Name s, Failed = False, run_Body = b, run_Format = f, run_Err = None\<rparr>
       # map (logged ss (b, f, r)) [0..<n]"
  by (simp add: upt_conv_Cons map_Suc_upt [symmetric] comp_def logged_Suc del: upt_Suc map_Suc_upt)
    (simp add: logged_def)

lemma run_loop_Cons:
  "run_loop (s # ss) b f r runs =
     (case stage_step s (b, f, r) of
        Inl e \<Rightarrow>
          (\<lparr>Body = [], out_Format = [], RouteTo = None,
            Runs = runs @ [\<lparr>run_Name = Name s, Failed = True, run_Body = b,
                            run_Format = f, run_Err = Some e\<rparr>]\<rparr>, Some (Name s, e))
      | Inr (b', f', r') \<Rightarrow>
          run_loop ss b' f' r' (runs @ [\<lparr>run_Name = Name s, Failed = False, run_Body = b',
                          run_Format = f', run_Err = None\<rparr>]))"
  by (auto simp: stage_step_def Let_def split: sum.split prod.split option.split)

text \<open>A successful run: every stage ran, and the outcome is the state after all of them.\<close>

lemma run_loop_ok:
  assumes "run_loop ss b f r runs = (out, None)"
  shows "state_after ss (b, f, r) (length ss) = Ok (Body out, out_Format out, RouteTo out)
    \<and> Runs out = runs @ map (logged ss (b, f, r)) [0..<length ss]"
  using assms
proof (induction ss arbitrary: b f r runs)
  case (Cons s ss)
  show ?case
  proof (cases "stage_step s (b, f, r)")
    case (Inl e)
    with Cons.prems show ?thesis unfolding run_loop_Cons by simp
  next
    case (Inr st)
    obtain b' f' r' where st: "st = (b', f', r')" by (cases st) auto
    let ?run = "\<lparr>run_Name = Name s, Failed = False, run_Body = b', run_Format = f', run_Err = None\<rparr>"
    have "run_loop ss b' f' r' (runs @ [?run]) = (out, None)"
      using Cons.prems Inr st unfolding run_loop_Cons by simp
    from Cons.IH [OF this] show ?thesis using Inr st map_logged_Cons [of s "(b, f, r)" b' f' r' ss "length ss"]
      by (simp del: upt_Suc)
  qed
qed auto

text \<open>A failing run: the stages before the failing one ran, its run is the last, with its input.\<close>

lemma run_loop_err:
  assumes "run_loop ss b f r runs = (out, Some (nm, e))"
  shows "\<exists>n bi fi ri. n < length ss \<and> nm = Name (ss ! n)
    \<and> state_after ss (b, f, r) n = Ok (bi, fi, ri) \<and> stage_step (ss ! n) (bi, fi, ri) = Err e
    \<and> out = \<lparr>Body = [], out_Format = [], RouteTo = None, Runs = runs @ map (logged ss (b, f, r)) [0..<n]
        @ [\<lparr>run_Name = nm, Failed = True, run_Body = bi, run_Format = fi, run_Err = Some e\<rparr>]\<rparr>"
  using assms
proof (induction ss arbitrary: b f r runs)
  case (Cons s ss)
  show ?case
  proof (cases "stage_step s (b, f, r)")
    case (Inl e')
    with Cons.prems show ?thesis unfolding run_loop_Cons by (intro exI [of _ 0]) auto
  next
    case (Inr st)
    obtain b' f' r' where st: "st = (b', f', r')" by (cases st) auto
    let ?run = "\<lparr>run_Name = Name s, Failed = False, run_Body = b', run_Format = f', run_Err = None\<rparr>"
    have "run_loop ss b' f' r' (runs @ [?run]) = (out, Some (nm, e))"
      using Cons.prems Inr st unfolding run_loop_Cons by simp
    from Cons.IH [OF this] obtain n bi fi ri where
      "n < length ss" "nm = Name (ss ! n)" "state_after ss (b', f', r') n = Ok (bi, fi, ri)"
      "stage_step (ss ! n) (bi, fi, ri) = Err e"
      "out = \<lparr>Body = [], out_Format = [], RouteTo = None,
        Runs = (runs @ [?run]) @ map (logged ss (b', f', r')) [0..<n]
          @ [\<lparr>run_Name = nm, Failed = True, run_Body = bi, run_Format = fi, run_Err = Some e\<rparr>]\<rparr>"
      by blast
    then show ?thesis using Inr st map_logged_Cons [of s "(b, f, r)" b' f' r' ss n]
      by (intro exI [of _ "Suc n"] exI [of _ bi] exI [of _ fi] exI [of _ ri]) (simp del: upt_Suc)
  qed
qed simp

text \<open>
  C2. \<open>RunStages\<close> either succeeds, and then the outcome is the composition of all stages from
  the detected format on, and the log has one entry per stage in order, with its name and
  the message and format after it; or it stops at the first failing stage \<open>n\<close>. Then nothing but
  the log is set in the outcome: the entries of the stages before, followed by an entry of
  the failing stage with the message and format it was given and its error, and the name and
  index the executor derives from the log for the dead-letter queue are that stage's.
\<close>

theorem RunStages_correct:
  "let st0 = (message, detect message, None) in
   case RunStages detect stages message of
     (out, None) \<Rightarrow>
       state_after stages st0 (length stages) = Ok (Body out, out_Format out, RouteTo out)
       \<and> Runs out = map (logged stages st0) [0..<length stages]
   | (out, Some (nm, e)) \<Rightarrow>
       (\<exists>n b f r. n < length stages \<and> nm = Name (stages ! n)
          \<and> state_after stages st0 n = Ok (b, f, r) \<and> stage_step (stages ! n) (b, f, r) = Err e
          \<and> out = \<lparr>Body = [], out_Format = [], RouteTo = None, Runs = map (logged stages st0) [0..<n]
              @ [\<lparr>run_Name = nm, Failed = True, run_Body = b, run_Format = f, run_Err = Some e\<rparr>]\<rparr>
          \<and> failingStageFromRuns (Runs out) = (nm, n))"
proof (cases "RunStages detect stages message")
  case (Pair out err)
  show ?thesis
  proof (cases err)
    case None
    with Pair run_loop_ok [of stages message "detect message" None "[]" out] show ?thesis
      by (auto simp: RunStages_def)
  next
    case (Some ne)
    obtain nm e where ne: "ne = (nm, e)" by (cases ne) auto
    from Pair Some ne have "run_loop stages message (detect message) None [] = (out, Some (nm, e))"
      by (simp add: RunStages_def)
    from run_loop_err [OF this] obtain n b f r where
      n: "n < length stages" "nm = Name (stages ! n)" "state_after stages (message, detect message, None) n = Ok (b, f, r)"
        "stage_step (stages ! n) (b, f, r) = Err e"
      and out: "out = \<lparr>Body = [], out_Format = [], RouteTo = None,
        Runs = map (logged stages (message, detect message, None)) [0..<n]
          @ [\<lparr>run_Name = nm, Failed = True, run_Body = b, run_Format = f, run_Err = Some e\<rparr>]\<rparr>"
      by auto
    have "failingStageFromRuns (Runs out) = (nm, n)" by (simp add: out failingStageFromRuns_def)
    with n out show ?thesis using Pair Some ne by (simp add: Let_def) blast
  qed
qed

end
