(* ===== verification/Dedup.thy ===== *)
theory Dedup
  imports Mqc_Prelude
begin

text \<open>
  \<open>internal/storage/dedup.go\<close>: the table behind the executor's dedup window. The table is a map
  from pipeline and payload hash to the row's remaining columns. A database error at any
  statement rolls the transaction back; where it strikes is an argument (\<open>fault\<close>).
\<close>

section \<open>The table\<close>

record dedup_row =
  first_seen_at :: time
  last_seen_at :: time
  hits :: int

type_synonym dedup_table = "((string \<times> string) \<times> dedup_row) list"

datatype dedup_step = BeginTx | ExpireStale | Upsert | ReadHits | CommitTx

datatype dedup_error =
    PipelineIdRequired
  | PayloadHashRequired
  | DedupDb dedup_step

section \<open>The operations\<close>

text \<open>\<open>DELETE ... WHERE pipeline_id = ? AND payload_hash = ? AND last_seen_at < ?\<close>\<close>

definition expire_stale :: "string \<times> string \<Rightarrow> time \<Rightarrow> dedup_table \<Rightarrow> dedup_table" where
  "expire_stale key cutoff t = filter (\<lambda>(k, r). \<not> (k = key \<and> last_seen_at r < cutoff)) t"

text \<open>\<open>INSERT ... ON CONFLICT DO UPDATE SET last_seen_at = excluded.last_seen_at, hits = hits + 1\<close>\<close>

definition upsert :: "string \<times> string \<Rightarrow> time \<Rightarrow> dedup_table \<Rightarrow> dedup_table" where
  "upsert key now t =
     (case map_of t key of
        None \<Rightarrow> AList.update key \<lparr>first_seen_at = now, last_seen_at = now, hits = 1\<rparr> t
      | Some r \<Rightarrow> AList.update key (r\<lparr>last_seen_at := now, hits := hits r + 1\<rparr>) t)"

definition window_cutoff :: "time \<Rightarrow> int \<Rightarrow> time" where
  "window_cutoff now windowSeconds = now + int64 (- windowSeconds * 1000000000)"

definition CheckAndRecord ::
  "dedup_step option \<Rightarrow> time \<Rightarrow> string \<Rightarrow> string \<Rightarrow> int \<Rightarrow> dedup_table \<Rightarrow>
   (dedup_error, bool) result \<times> dedup_table" where
  "CheckAndRecord fault now pipelineID payloadHash windowSeconds t =
     (if pipelineID = '''' then (Err PipelineIdRequired, t)
      else if payloadHash = '''' then (Err PayloadHashRequired, t)
      else if windowSeconds \<le> 0 then (Ok False, t)
      else
        (case fault of
           Some s \<Rightarrow> (Err (DedupDb s), t)
         | None \<Rightarrow>
             (let key = (pipelineID, payloadHash);
                  t' = upsert key now (expire_stale key (window_cutoff now windowSeconds) t)
              in (case map_of t' key of
                    None \<Rightarrow> (Err (DedupDb ReadHits), t)
                  | Some r \<Rightarrow> (Ok (hits r > 1), t')))))"

text \<open>The zero \<open>time.Time\<close> as cutoff is a no-op. Returns the number of rows removed.\<close>

definition Prune :: "time \<Rightarrow> time \<Rightarrow> dedup_table \<Rightarrow> int \<times> dedup_table" where
  "Prune zero cutoff t =
     (if cutoff = zero then (0, t)
      else
        (let t' = filter (\<lambda>(k, r). \<not> last_seen_at r < cutoff) t
         in (int (length t) - int (length t'), t')))"

definition DeletePipeline :: "string \<Rightarrow> dedup_table \<Rightarrow> dedup_table" where
  "DeletePipeline pipelineID t = (if pipelineID = '''' then t else filter (\<lambda>(k, r). fst k \<noteq> pipelineID) t)"

definition CountForPipeline :: "string \<Rightarrow> dedup_table \<Rightarrow> int" where
  "CountForPipeline pipelineID t = int (length (filter (\<lambda>(k, r). fst k = pipelineID) t))"

section \<open>Invariant\<close>

definition dedup_inv :: "dedup_table \<Rightarrow> bool" where
  "dedup_inv t \<longleftrightarrow> map_wf t \<and> (\<forall>(k, r) \<in> set t. 1 \<le> hits r)"

lemma map_wf_filter: "map_wf t \<Longrightarrow> map_wf (filter P t)"
  by (simp add: distinct_map_filter)

lemma dedup_inv_filter: "dedup_inv t \<Longrightarrow> dedup_inv (filter P t)"
  by (auto simp: dedup_inv_def map_wf_filter)

lemma dedup_inv_lookup: "dedup_inv t \<Longrightarrow> map_of t k = Some r \<Longrightarrow> 1 \<le> hits r"
  by (fastforce simp: dedup_inv_def dest: map_of_SomeD)

text \<open>The row of a key after expiry: what it was, unless stale.\<close>

lemma map_of_expire:
  assumes "map_wf t"
  shows "map_of (expire_stale key cutoff t) k =
    (case map_of t k of
       None \<Rightarrow> None
     | Some r \<Rightarrow> if k = key \<and> last_seen_at r < cutoff then None else Some r)"
  using assms unfolding expire_stale_def
  by (induction t) (auto split: option.splits simp: map_of_eq_None_iff rev_image_eqI dest: map_of_SomeD)

lemma dedup_inv_upsert:
  assumes "dedup_inv t"
  shows "dedup_inv (upsert key now t)"
proof (cases "map_of t key")
  case None
  with assms(1) show ?thesis
    using set_update_subset [of key "\<lparr>first_seen_at = now, last_seen_at = now, hits = 1\<rparr>" t]
    by (auto simp: upsert_def dedup_inv_def distinct_update)
next
  case (Some r)
  with assms dedup_inv_lookup [OF assms(1) Some] show ?thesis
    using set_update_subset [of key "r\<lparr>last_seen_at := now, hits := hits r + 1\<rparr>" t] map_of_SomeD [OF Some]
    by (auto simp: upsert_def dedup_inv_def distinct_update)
qed

lemma map_of_upsert:
  "map_of (upsert key now t) k =
     (if k = key then Some (case map_of t key of
           None \<Rightarrow> \<lparr>first_seen_at = now, last_seen_at = now, hits = 1\<rparr>
         | Some r \<Rightarrow> r\<lparr>last_seen_at := now, hits := hits r + 1\<rparr>)
      else map_of t k)"
  by (auto simp: upsert_def go_map_simps split: option.splits)

section \<open>The window\<close>

text \<open>When a pair was last recorded: the abstraction of the table.\<close>

definition last_seen :: "dedup_table \<Rightarrow> string \<times> string \<Rightarrow> time option" where
  "last_seen t k = map_option last_seen_at (map_of t k)"

text \<open>
  C10. Without a database error and for a positive window, \<open>CheckAndRecord\<close> calls a payload a
  duplicate exactly when the same pipeline last recorded it no longer ago than the window,
  and it records the sighting at the current time, for this pipeline and payload only; on
  a database error the table is unchanged.
\<close>

theorem CheckAndRecord_correct:
  assumes "dedup_inv t" "pid \<noteq> ''''" "h \<noteq> ''''" "0 < w" "w \<le> 9000000000"
  shows "case CheckAndRecord fault now pid h w t of
      (Inl e, t') \<Rightarrow> t' = t \<and> fault \<noteq> None
    | (Inr dup, t') \<Rightarrow>
        (dup \<longleftrightarrow> (\<exists>s. last_seen t (pid, h) = Some s \<and> now - w * 1000000000 \<le> s))
        \<and> last_seen t' = (last_seen t)((pid, h) := Some now)"
proof (cases fault)
  case (Some f)
  with assms show ?thesis by (simp add: CheckAndRecord_def)
next
  case None
  have c: "window_cutoff now w = now - w * 1000000000"
    using assms(4,5) by (simp add: window_cutoff_def int64_id)
  have wf: "map_wf t" using assms(1) by (simp add: dedup_inv_def)
  show ?thesis
  proof (cases "map_of t (pid, h)")
    case None
    with \<open>fault = None\<close> assms wf c show ?thesis
      by (auto simp: CheckAndRecord_def Let_def map_of_upsert map_of_expire last_seen_def fun_eq_iff
          split: option.split)
  next
    case (Some r)
    with \<open>fault = None\<close> assms wf c dedup_inv_lookup [OF assms(1) Some] show ?thesis
      by (auto simp: CheckAndRecord_def Let_def map_of_upsert map_of_expire last_seen_def fun_eq_iff
          split: option.split)
  qed
qed

theorem CheckAndRecord_correct_witness:
  "CheckAndRecord None 5000000000 ''p'' ''h'' 10
      (snd (CheckAndRecord None 0 ''p'' ''h'' 10 [])) =
     (Ok True, [((''p'', ''h''), \<lparr>first_seen_at = 0, last_seen_at = 5000000000, hits = 2\<rparr>)])
   \<and> last_seen (snd (CheckAndRecord None 0 ''p'' ''h'' 10 [])) (''p'', ''h'') = Some 0"
  using CheckAndRecord_correct [of "[]" "''p''" "''h''" 10 None 0]
  by (simp add: CheckAndRecord_def dedup_inv_def upsert_def expire_stale_def window_cutoff_def
      int64_id last_seen_def)

section \<open>The interface the executor relies on\<close>

text \<open>
  A deduper: it answers a payload asked again within the window of its key as a duplicate,
  whatever the first answer was.
\<close>

text \<open>Times in order, each at most \<open>d\<close> after the one before.\<close>

fun within :: "duration \<Rightarrow> time list \<Rightarrow> bool" where
  "within d (t # u # ts) \<longleftrightarrow> t \<le> u \<and> u - d \<le> t \<and> within d (u # ts)"
| "within d _ \<longleftrightarrow> True"

locale deduper =
  fixes check :: "time \<Rightarrow> 'k \<Rightarrow> 's \<Rightarrow> bool \<times> 's"
    and good :: "'s \<Rightarrow> bool"
    and valid :: "'k \<Rightarrow> bool"
    and window :: "'k \<Rightarrow> duration"
  assumes good_check: "good s \<Longrightarrow> good (snd (check t k s))"
    and again: "good s \<Longrightarrow> valid k \<Longrightarrow> t' - window k \<le> t \<Longrightarrow> fst (check t' k (snd (check t k s)))"
begin

text \<open>In a burst of the same payload all but the first are duplicates.\<close>

lemma burst:
  "good s \<Longrightarrow> valid k \<Longrightarrow> within (window k) (t # ts @ [u]) \<Longrightarrow>
     fst (check u k (fold (\<lambda>v s. snd (check v k s)) (t # ts) s))"
proof (induction ts arbitrary: t s)
  case Nil
  then show ?case by (simp add: again)
next
  case (Cons v ts)
  have "good (snd (check t k s))" using Cons.prems(1) by (rule good_check)
  from Cons.IH [OF this Cons.prems(2), of v] Cons.prems(3) show ?case by simp
qed

end

text \<open>The repository's table, for keys of pipeline, hash and a window that does not overflow.\<close>

fun check_table :: "time \<Rightarrow> string \<times> string \<times> int \<Rightarrow> dedup_table \<Rightarrow> bool \<times> dedup_table" where
  "check_table now (pid, h, n) t =
     (case CheckAndRecord None now pid h n t of (Inr d, t') \<Rightarrow> (d, t') | (Inl e, t') \<Rightarrow> (False, t'))"

fun valid_key :: "string \<times> string \<times> int \<Rightarrow> bool" where
  "valid_key (pid, h, n) \<longleftrightarrow> pid \<noteq> '''' \<and> h \<noteq> '''' \<and> 0 < n \<and> n \<le> 9000000000"

fun key_window :: "string \<times> string \<times> int \<Rightarrow> duration" where
  "key_window (pid, h, n) = n * 1000000000"

lemma CheckAndRecord_inv: "dedup_inv t \<Longrightarrow> dedup_inv (snd (CheckAndRecord fault now pid h n t))"
  by (simp add: CheckAndRecord_def Let_def dedup_inv_upsert expire_stale_def dedup_inv_filter
      split: option.split)

lemma check_table_snd: "snd (check_table now (pid, h, n) t) = snd (CheckAndRecord None now pid h n t)"
  by (simp split: prod.split sum.split)

lemma CheckAndRecord_again:
  assumes "dedup_inv t" "valid_key (pid, h, n)" "now' - n * 1000000000 \<le> now"
  shows "\<exists>t2. CheckAndRecord None now' pid h n (snd (CheckAndRecord None now pid h n t)) = (Ok True, t2)"
proof -
  define t1 where "t1 = upsert (pid, h) now (expire_stale (pid, h) (window_cutoff now n) t)"
  have inv: "dedup_inv t1"
    using assms(1) by (simp add: t1_def dedup_inv_upsert expire_stale_def dedup_inv_filter)
  obtain r where r: "map_of t1 (pid, h) = Some r" "last_seen_at r = now"
    by (auto simp: t1_def map_of_upsert split: option.split)
  have c: "window_cutoff now' n = now' - n * 1000000000"
    using assms(2) by (simp add: window_cutoff_def int64_id)
  have "snd (CheckAndRecord None now pid h n t) = t1"
    using assms r(1) by (simp add: CheckAndRecord_def Let_def t1_def)
  moreover have "map_of (expire_stale (pid, h) (window_cutoff now' n) t1) (pid, h) = Some r"
    using inv r assms(3) by (simp add: map_of_expire dedup_inv_def c)
  ultimately show ?thesis
    using assms dedup_inv_lookup [OF inv r(1)] by (simp add: CheckAndRecord_def Let_def map_of_upsert)
qed

interpretation repo: deduper check_table dedup_inv valid_key key_window
proof unfold_locales
  fix t t' and k :: "string \<times> string \<times> int" and s :: dedup_table
  assume s: "dedup_inv s"
  obtain pid h n where k: "k = (pid, h, n)" by (cases k) auto
  show "dedup_inv (snd (check_table t k s))"
    using CheckAndRecord_inv [OF s] by (simp add: k check_table_snd del: check_table.simps)
  show "fst (check_table t' k (snd (check_table t k s)))"
    if "valid_key k" "t' - key_window k \<le> t"
    using CheckAndRecord_again [OF s, of pid h n t' t] that
    by (auto simp: k check_table_snd simp del: check_table.simps(1)) (auto simp: check_table.simps)
qed

end
