(* ===== verification/Executor.thy ===== *)
theory Executor
  imports Breaker Run_Stages Dedup
begin

text \<open>
  \<open>internal/pipeline/executor.go\<close>: \<open>processOne\<close>, the receive, stages, send, commit
  transaction of one worker, with the helpers it calls. What the brokers, the pool, the
  dead-letter queue, the dedup store and the clock answer during the call is the record
  \<open>world\<close>; what the call does to them is the list of its effects, in order. The metrics that
  other components read (status, counters) are effects too; log lines and spans are not.
\<close>

section \<open>The executor, its surroundings and its effects\<close>

text \<open>A connector configuration is an opaque handle.\<close>

type_synonym mq_config = nat

record 'e executor =
  ex_ID :: string
  ex_TenantID :: string
  ex_SourceQueue :: string
  ex_Stages :: "'e Stage list"
  ex_DedupWindowSeconds :: int
  ex_ShadowPercent :: int
  ex_DefaultDest :: mq_config
  ex_RouteDests :: "(string \<times> mq_config) list"
  ex_ShadowDest :: "mq_config option"
  has_TenantBudget :: bool
  has_budget :: bool
  has_Metrics :: bool
  has_DLQ :: bool
  has_Dedup :: bool
  has_Publisher :: bool

record 'e DLQEntry =
  dlq_TenantID :: string
  dlq_PipelineID :: string
  dlq_SourceQueue :: string
  dlq_OriginalMsg :: bytes
  dlq_Reason :: "(string \<times> 'e) + string"
  dlq_FailingStageName :: string
  dlq_FailingStageIndex :: nat

text \<open>
  The answers. An error is \<open>Some\<close> text. \<open>w_send\<close> covers \<open>Pool.Get\<close> and \<open>SendMessage\<close> for a
  pool key; \<open>w_hash\<close> is \<open>payloadHash\<close>, the hexadecimal SHA-256 of the payload.
\<close>

record 'e world =
  w_take_tenant :: "string option"
  w_take :: "string option"
  w_get_source :: "string \<Rightarrow> string option"
  w_receive :: "(string, bytes) result"
  w_detect :: "bytes \<Rightarrow> string"
  w_hash :: "bytes \<Rightarrow> string"
  w_dedup :: "string \<Rightarrow> string \<Rightarrow> int \<Rightarrow> (string, bool) result"
  w_send :: "string \<Rightarrow> mq_config \<Rightarrow> bytes \<Rightarrow> string option"
  w_shadow :: "string \<Rightarrow> mq_config \<Rightarrow> bytes \<Rightarrow> string option"
  w_dlq :: "'e DLQEntry \<Rightarrow> string option"
  w_allow_at :: time
  w_record_at :: time

datatype 'e effect =
    SetStatus string
  | RecordStageDuration string
  | RecordValidateAttempt bool
  | DlqPush "'e DLQEntry" bool
  | RecordFailure
  | RecordSuccess int
  | RecordDedupSkipped
  | Sent string mq_config bytes bool
  | RouteUnresolved string
  | PublishState breakerState
  | ShadowSent bool
  | Commit
  | Nack bool

text \<open>What the call returns: an error for \<open>runWorker\<close>, the breaker, and the effects.\<close>

record 'e call_result =
  cr_err :: "string option"
  cr_breaker :: "breaker option"
  cr_effects :: "'e effect list"

section \<open>Helpers\<close>

definition int_to_string :: "nat \<Rightarrow> string" where
  "int_to_string n = (if n < 10 then [''0123456789'' ! n] else [''0123456789'' ! (n div 10 mod 10), ''0123456789'' ! (n mod 10)])"

text \<open>The pool key of a worker's source connection; \<open>Run\<close> starts at most 16 workers.\<close>

definition source_key :: "string \<Rightarrow> nat \<Rightarrow> string" where
  "source_key pid idx =
     (if idx > 0 then (''source-'' @ pid) @ ''-w'' @ int_to_string idx else ''source-'' @ pid)"

definition route_key :: "string \<Rightarrow> string" where
  "route_key d = ''route-'' @ d"

definition dest_key :: "string \<Rightarrow> string" where
  "dest_key pid = ''dest-'' @ pid"

definition shadow_key :: "string \<Rightarrow> string" where
  "shadow_key pid = ''shadow-'' @ pid"

text \<open>\<open>if err != nil { sendErr = err }\<close>\<close>

definition last_err :: "string option \<Rightarrow> string option \<Rightarrow> string option" where
  "last_err err sendErr = (if err = None then sendErr else err)"

definition clampWorkers :: "int \<Rightarrow> int" where
  "clampWorkers workers = (let w = (if workers < 1 then 1 else workers) in if w > 16 then 16 else w)"

definition metric :: "'e executor \<Rightarrow> 'e effect \<Rightarrow> 'e effect list" where
  "metric ex m = (if has_Metrics ex then [m] else [])"

definition recordStageObservations :: "'e executor \<Rightarrow> 'e StageRun list \<Rightarrow> 'e effect list" where
  "recordStageObservations ex runs =
     (if \<not> has_Metrics ex \<or> runs = [] then []
      else concat (map (\<lambda>r. RecordStageDuration (run_Name r)
                        # (if run_Name r = ''validate'' then [RecordValidateAttempt (\<not> Failed r)] else [])) runs))"

definition finalize :: "bool \<Rightarrow> 'e effect list" where
  "finalize handled = (if handled then [Commit] else [Nack True])"

definition publishBreakerState :: "'e executor \<Rightarrow> breaker option \<Rightarrow> 'e effect list" where
  "publishBreakerState ex b =
     (if \<not> has_Publisher ex then []
      else (case b of None \<Rightarrow> [] | Some br \<Rightarrow> [PublishState (fst (snapshot br))]))"

text \<open>A push to the dead-letter queue, or the standing error \<open>dlq disabled\<close>.\<close>

definition push_dlq :: "'e world \<Rightarrow> 'e executor \<Rightarrow> 'e DLQEntry \<Rightarrow> bool \<times> 'e effect list" where
  "push_dlq w ex entry =
     (if has_DLQ ex then (let ok = (w_dlq w entry = None) in (ok, [DlqPush entry ok])) else (False, []))"

definition shadowSampleHit :: "bytes \<Rightarrow> int \<Rightarrow> bool" where
  "shadowSampleHit payload percent =
     (if percent \<ge> 100 then True
      else if percent \<le> 0 then False
      else if payload = [] then False
      else
        (let sum = fold (\<lambda>i s. s * 131 + (of_nat (of_char (payload ! (i mod length payload))) :: 32 word)) [0..<16] 0
         in int (unat (sum mod 100)) < percent))"

definition shadowSend :: "'e world \<Rightarrow> 'e executor \<Rightarrow> mq_config \<Rightarrow> bytes \<Rightarrow> 'e effect list" where
  "shadowSend w ex cfg payload =
     metric ex (ShadowSent (w_shadow w (shadow_key (ex_ID ex)) cfg payload = None))"

text \<open>
  The sends: to each resolved destination of the routing decision, or to the default one. The
  error kept is that of the last failing send.
\<close>

fun route_sends :: "'e world \<Rightarrow> 'e executor \<Rightarrow> bytes \<Rightarrow> string list \<Rightarrow> string option \<Rightarrow> string option \<times> 'e effect list" where
  "route_sends w ex current [] sendErr = (sendErr, [])"
| "route_sends w ex current (d # ds) sendErr =
     (case map_of (ex_RouteDests ex) d of
        None \<Rightarrow> (let (e, fx) = route_sends w ex current ds sendErr in (e, RouteUnresolved d # fx))
      | Some cfg \<Rightarrow>
          (let err = w_send w (route_key d) cfg current;
               (e, fx) = route_sends w ex current ds (last_err err sendErr)
           in (e, Sent (route_key d) cfg current (err = None) # fx)))"

definition forward :: "'e world \<Rightarrow> 'e executor \<Rightarrow> bytes \<Rightarrow> string list option \<Rightarrow> string option \<times> 'e effect list" where
  "forward w ex current route =
     (case route of
        Some ds \<Rightarrow> route_sends w ex current ds None
      | None \<Rightarrow>
          (let key = dest_key (ex_ID ex); err = w_send w key (ex_DefaultDest ex) current
           in (err, [Sent key (ex_DefaultDest ex) current (err = None)])))"

section \<open>The transaction\<close>

definition stage_failure ::
  "'e world \<Rightarrow> 'e executor \<Rightarrow> bytes \<Rightarrow> 'e StageRun list \<Rightarrow> string \<times> 'e \<Rightarrow> 'e effect list" where
  "stage_failure w ex message runs runErr =
     (let (failName, failIdx) = failingStageFromRuns runs;
          (ok, fx) = push_dlq w ex
            \<lparr>dlq_TenantID = ex_TenantID ex, dlq_PipelineID = ex_ID ex, dlq_SourceQueue = ex_SourceQueue ex,
             dlq_OriginalMsg = message, dlq_Reason = Inl runErr,
             dlq_FailingStageName = failName, dlq_FailingStageIndex = failIdx\<rparr>
      in fx @ metric ex RecordFailure @ finalize ok)"

definition send_failure :: "'e world \<Rightarrow> 'e executor \<Rightarrow> bytes \<Rightarrow> string \<Rightarrow> 'e effect list" where
  "send_failure w ex message sendErr =
     (let (ok, fx) = push_dlq w ex
            \<lparr>dlq_TenantID = ex_TenantID ex, dlq_PipelineID = ex_ID ex, dlq_SourceQueue = ex_SourceQueue ex,
             dlq_OriginalMsg = message, dlq_Reason = Inr (''send: '' @ sendErr),
             dlq_FailingStageName = '''', dlq_FailingStageIndex = 0\<rparr>
      in fx @ metric ex RecordFailure @ finalize ok)"

definition send_success :: "'e world \<Rightarrow> 'e executor \<Rightarrow> bytes \<Rightarrow> 'e effect list" where
  "send_success w ex current =
     metric ex (RecordSuccess (int (length current)))
     @ (case ex_ShadowDest ex of
          Some cfg \<Rightarrow>
            (if ex_ShadowPercent ex > 0 \<and> shadowSampleHit current (ex_ShadowPercent ex)
             then shadowSend w ex cfg current else [])
        | None \<Rightarrow> [])
     @ finalize True"

text \<open>From the dedup gate on: \<open>None\<close> is a duplicate.\<close>

definition dedup_gate :: "'e world \<Rightarrow> 'e executor \<Rightarrow> bytes \<Rightarrow> bool" where
  "dedup_gate w ex current =
     (ex_DedupWindowSeconds ex > 0 \<and> has_Dedup ex
      \<and> w_dedup w (ex_ID ex) (w_hash w current) (ex_DedupWindowSeconds ex) = Ok True)"

definition deliver ::
  "'e world \<Rightarrow> 'e executor \<Rightarrow> breaker option \<Rightarrow> bytes \<Rightarrow> bytes \<Rightarrow> string list option \<Rightarrow> breaker option \<times> 'e effect list" where
  "deliver w ex b message current route =
     (if dedup_gate w ex current then (b, metric ex RecordDedupSkipped @ finalize True)
      else
        (let (sendErr, fx) = forward w ex current route;
             b' = map_option (recordResult (w_record_at w) (sendErr = None)) b;
             pub = (if b = None then [] else publishBreakerState ex b')
         in (b', fx @ pub @ (case sendErr of
                               Some e \<Rightarrow> send_failure w ex message e
                             | None \<Rightarrow> send_success w ex current))))"

definition handle_message ::
  "'e world \<Rightarrow> 'e executor \<Rightarrow> breaker option \<Rightarrow> bytes \<Rightarrow> breaker option \<times> 'e effect list" where
  "handle_message w ex b message =
     (case RunStages (w_detect w) (ex_Stages ex) message of
        (outcome, Some runErr) \<Rightarrow>
          (b, recordStageObservations ex (Runs outcome) @ stage_failure w ex message (Runs outcome) runErr)
      | (outcome, None) \<Rightarrow>
          (let obs = recordStageObservations ex (Runs outcome);
               gate = (case b of None \<Rightarrow> (True, None) | Some br \<Rightarrow> (let (ok, br') = allow (w_allow_at w) br in (ok, Some br')))
           in if \<not> fst gate then (snd gate, obs @ finalize False)
              else
                (let (b', fx) = deliver w ex (snd gate) message (Body outcome) (RouteTo outcome)
                 in (b', obs @ fx))))"

definition processOne :: "'e world \<Rightarrow> 'e executor \<Rightarrow> breaker option \<Rightarrow> nat \<Rightarrow> 'e call_result" where
  "processOne w ex b workerIdx =
     (let stop = (\<lambda>e fx. \<lparr>cr_err = Some e, cr_breaker = b, cr_effects = fx\<rparr>) in
      case (if has_TenantBudget ex then w_take_tenant w else None) of
        Some e \<Rightarrow> stop e []
      | None \<Rightarrow>
          (case (if has_budget ex then w_take w else None) of
             Some e \<Rightarrow> stop e []
           | None \<Rightarrow>
               (case w_get_source w (source_key (ex_ID ex) workerIdx) of
                  Some e \<Rightarrow> stop (''get source: '' @ e) []
                | None \<Rightarrow>
                    (let st = metric ex (SetStatus ''connected'') in
                     case w_receive w of
                       Inl e \<Rightarrow> stop e st
                     | Inr message \<Rightarrow>
                         (let (b', fx) = handle_message w ex b message
                          in \<lparr>cr_err = None, cr_breaker = b', cr_effects = st @ fx\<rparr>)))))"

end
