(* ===== verification/Executor_Props.thy ===== *)
theory Executor_Props
  imports Executor
begin

text \<open>
  What the transaction of \<open>executor.go\<close> guarantees: every received message is settled with the
  source broker exactly once, last; a commit means somebody else owns the message; an open
  breaker sends nothing. And what it does not: a payload recorded in the dedup window before
  a failed delivery is dropped on redelivery.
\<close>

section \<open>Settling with the source\<close>

fun is_settle :: "'e effect \<Rightarrow> bool" where
  "is_settle Commit = True"
| "is_settle (Nack r) = True"
| "is_settle _ = False"

text \<open>The last effect, and the only one on the source, is a commit or a request for redelivery.\<close>

definition settled :: "bool \<Rightarrow> 'e effect list \<Rightarrow> bool" where
  "settled handled fx \<longleftrightarrow>
     (\<exists>pre. fx = pre @ [if handled then Commit else Nack True] \<and> list_all (\<lambda>e. \<not> is_settle e) pre)"

lemma quiet_parts [simp]:
  "list_all (\<lambda>e. \<not> is_settle e) (metric ex m) \<longleftrightarrow> \<not> has_Metrics ex \<or> \<not> is_settle m"
  "list_all (\<lambda>e. \<not> is_settle e) (publishBreakerState ex b)"
  "list_all (\<lambda>e. \<not> is_settle e) (snd (push_dlq w ex entry))"
  "list_all (\<lambda>e. \<not> is_settle e) (recordStageObservations ex runs)"
  "list_all (\<lambda>e. \<not> is_settle e) (shadowSend w ex cfg p)"
  by (auto simp: metric_def publishBreakerState_def push_dlq_def recordStageObservations_def
      shadowSend_def Let_def list_all_iff split: option.split)

lemma quiet_route_sends [simp]: "list_all (\<lambda>e. \<not> is_settle e) (snd (route_sends w ex current ds e0))"
  by (induction ds arbitrary: e0) (simp_all add: Let_def case_prod_beta split: option.split)

lemma quiet_forward [simp]: "list_all (\<lambda>e. \<not> is_settle e) (snd (forward w ex current route))"
  by (simp add: forward_def Let_def split: option.split)

fun is_push :: "'e effect \<Rightarrow> bool" where
  "is_push (DlqPush e ok) = True"
| "is_push _ = False"

lemma no_push_parts [simp]:
  "list_all (\<lambda>e. \<not> is_push e) (recordStageObservations ex runs)"
  "list_all (\<lambda>e. \<not> is_push e) (finalize h)"
  "list_all (\<lambda>e. \<not> is_push e) (metric ex m) \<longleftrightarrow> \<not> has_Metrics ex \<or> \<not> is_push m"
  "list_all (\<lambda>e. \<not> is_push e) (publishBreakerState ex b)"
  by (auto simp: recordStageObservations_def finalize_def metric_def publishBreakerState_def list_all_iff
      split: option.split)

lemma no_push_route_sends [simp]: "list_all (\<lambda>e. \<not> is_push e) (snd (route_sends w ex current ds e0))"
  by (induction ds arbitrary: e0) (simp_all add: Let_def case_prod_beta split: option.split)




lemma settled_finalize: "list_all (\<lambda>e. \<not> is_settle e) pre \<Longrightarrow> settled h (pre @ finalize h)"
  by (auto simp: settled_def finalize_def)

lemma settled_append: "list_all (\<lambda>e. \<not> is_settle e) pre \<Longrightarrow> settled h fx \<Longrightarrow> settled h (pre @ fx)"
  unfolding settled_def by (metis append.assoc list_all_append)

lemma push_dlq_ok:
  "fst (push_dlq w ex entry) \<longleftrightarrow> has_DLQ ex \<and> w_dlq w entry = None"
  "fst (push_dlq w ex entry) \<Longrightarrow> snd (push_dlq w ex entry) = [DlqPush entry True]"
  by (auto simp: push_dlq_def Let_def split: if_splits)

definition stage_entry :: "'e executor \<Rightarrow> bytes \<Rightarrow> 'e StageRun list \<Rightarrow> string \<times> 'e \<Rightarrow> 'e DLQEntry" where
  "stage_entry ex message runs runErr =
     \<lparr>dlq_TenantID = ex_TenantID ex, dlq_PipelineID = ex_ID ex, dlq_SourceQueue = ex_SourceQueue ex,
      dlq_OriginalMsg = message, dlq_Reason = Inl runErr,
      dlq_FailingStageName = fst (failingStageFromRuns runs),
      dlq_FailingStageIndex = snd (failingStageFromRuns runs)\<rparr>"

definition send_entry :: "'e executor \<Rightarrow> bytes \<Rightarrow> string \<Rightarrow> 'e DLQEntry" where
  "send_entry ex message sendErr =
     \<lparr>dlq_TenantID = ex_TenantID ex, dlq_PipelineID = ex_ID ex, dlq_SourceQueue = ex_SourceQueue ex,
      dlq_OriginalMsg = message, dlq_Reason = Inr (''send: '' @ sendErr),
      dlq_FailingStageName = '''', dlq_FailingStageIndex = 0\<rparr>"

lemma stage_failure_eq:
  "stage_failure w ex message runs runErr =
     (let e = stage_entry ex message runs runErr
      in snd (push_dlq w ex e) @ metric ex RecordFailure @ finalize (fst (push_dlq w ex e)))"
  by (simp add: stage_failure_def stage_entry_def Let_def split_def)

lemma send_failure_eq:
  "send_failure w ex message sendErr =
     (let e = send_entry ex message sendErr
      in snd (push_dlq w ex e) @ metric ex RecordFailure @ finalize (fst (push_dlq w ex e)))"
  by (simp add: send_failure_def send_entry_def Let_def split_def)

lemma settled_stage_failure:
  "settled (fst (push_dlq w ex (stage_entry ex message runs runErr))) (stage_failure w ex message runs runErr)"
  unfolding stage_failure_eq Let_def by (intro settled_append settled_finalize) simp_all

lemma settled_send_failure:
  "settled (fst (push_dlq w ex (send_entry ex message sendErr))) (send_failure w ex message sendErr)"
  unfolding send_failure_eq Let_def by (intro settled_append settled_finalize) simp_all


section \<open>What a commit means\<close>








fun is_forward :: "'e effect \<Rightarrow> bool" where
  "is_forward (Sent k c m ok) = True"
| "is_forward (RouteUnresolved d) = True"
| "is_forward _ = False"

lemma no_forward_parts [simp]:
  "list_all (\<lambda>e. \<not> is_forward e) (recordStageObservations ex runs)"
  "list_all (\<lambda>e. \<not> is_forward e) (metric ex m) \<longleftrightarrow> \<not> has_Metrics ex \<or> \<not> is_forward m"
  "list_all (\<lambda>e. \<not> is_forward e) (publishBreakerState ex b)"
  "list_all (\<lambda>e. \<not> is_forward e) (send_failure w ex message e)"
  by (auto simp: recordStageObservations_def finalize_def metric_def publishBreakerState_def send_failure_def
      push_dlq_def Let_def list_all_iff split: option.split)


text \<open>
  Who owns the message after a commit: the dead-letter queue took an entry with the original,
  or the stages succeeded, the breaker let the message through, and it was delivered or is a
  duplicate.
\<close>

definition admits :: "'e world \<Rightarrow> breaker option \<Rightarrow> bool" where
  "admits w b = (case b of None \<Rightarrow> True | Some br \<Rightarrow> fst (allow (w_allow_at w) br))"





text \<open>The two ways past the breaker: a duplicate, or a send.\<close>

lemma handle_message_admitted:
  assumes "RunStages (w_detect w) (ex_Stages ex) message = (out, None)" "admits w b"
  obtains b' where "handle_message w ex b message =
      (fst (deliver w ex b' message (Body out) (RouteTo out)),
       recordStageObservations ex (Runs out) @ snd (deliver w ex b' message (Body out) (RouteTo out)))"
  using assms by (auto simp: handle_message_def admits_def case_prod_beta Let_def split: option.splits)

lemma handle_message_duplicate:
  assumes "RunStages (w_detect w) (ex_Stages ex) message = (out, None)" "admits w b" "dedup_gate w ex (Body out)"
  shows "snd (handle_message w ex b message) =
    recordStageObservations ex (Runs out) @ metric ex RecordDedupSkipped @ finalize True"
  by (rule handle_message_admitted [OF assms(1,2)]) (simp add: deliver_def assms(3))

lemma handle_message_sends:
  assumes "RunStages (w_detect w) (ex_Stages ex) message = (out, None)" "admits w b" "\<not> dedup_gate w ex (Body out)"
    and "forward w ex (Body out) (RouteTo out) = (Some e, sx)"
  shows "\<exists>pub. list_all (\<lambda>x. \<not> is_settle x) pub \<and> snd (handle_message w ex b message) =
    recordStageObservations ex (Runs out) @ sx @ pub @ send_failure w ex message e"
  by (rule handle_message_admitted [OF assms(1,2)])
    (use quiet_parts(2) in \<open>auto simp: deliver_def assms(3,4) Let_def intro!: exI [of _ "[]"]\<close>)


text \<open>A pipeline without stages and a world that answers as told, for the witnesses.\<close>

definition sample_executor :: "int \<Rightarrow> string executor" where
  "sample_executor n =
     \<lparr>ex_ID = ''p'', ex_TenantID = ''t'', ex_SourceQueue = ''q'', ex_Stages = [],
      ex_DedupWindowSeconds = n, ex_ShadowPercent = 0, ex_DefaultDest = 1, ex_RouteDests = [],
      ex_ShadowDest = None, has_TenantBudget = False, has_budget = False, has_Metrics = False,
      has_DLQ = True, has_Dedup = True, has_Publisher = False\<rparr>"

definition sample_world :: "(string \<Rightarrow> string \<Rightarrow> int \<Rightarrow> (string, bool) result) \<Rightarrow> string option \<Rightarrow> string option \<Rightarrow> string world" where
  "sample_world dd send dlq =
     \<lparr>w_take_tenant = None, w_take = None, w_get_source = (\<lambda>k. None), w_receive = Ok ''msg'',
      w_detect = (\<lambda>m. ''bytes''), w_hash = (\<lambda>m. ''h'' @ m), w_dedup = dd,
      w_send = (\<lambda>k c m. send), w_shadow = (\<lambda>k c m. None), w_dlq = (\<lambda>e. dlq),
      w_allow_at = 0, w_record_at = 0\<rparr>"

lemmas process_defs = processOne_def handle_message_def deliver_def dedup_gate_def forward_def
  send_failure_def send_success_def push_dlq_def finalize_def metric_def publishBreakerState_def
  recordStageObservations_def RunStages_def source_key_def sample_executor_def sample_world_def


section \<open>The open breaker\<close>

fun is_send :: "'e effect \<Rightarrow> bool" where
  "is_send (Sent k c m ok) = True"
| "is_send (ShadowSent ok) = True"
| "is_send _ = False"

lemma no_send_parts [simp]:
  "list_all (\<lambda>e. \<not> is_send e) (stage_failure w ex message runs e)"
  "list_all (\<lambda>e. \<not> is_send e) (recordStageObservations ex runs)"
  "list_all (\<lambda>e. \<not> is_send e) (finalize h)"
  by (auto simp: stage_failure_eq push_dlq_def metric_def recordStageObservations_def finalize_def
      Let_def list_all_iff)

lemma processOne_received:
  "w_receive w = Ok message \<Longrightarrow> cr_err (processOne w ex b i) = None \<Longrightarrow>
     cr_effects (processOne w ex b i) = metric ex (SetStatus ''connected'') @ snd (handle_message w ex b message)
     \<and> cr_breaker (processOne w ex b i) = fst (handle_message w ex b message)"
  by (auto simp: processOne_def Let_def case_prod_beta split: option.splits if_splits)

lemma processOne_stopped:
  "cr_err (processOne w ex b i) \<noteq> None \<Longrightarrow>
     cr_effects (processOne w ex b i) \<in> {[], metric ex (SetStatus ''connected'')} \<and> cr_breaker (processOne w ex b i) = b"
  by (auto simp: processOne_def Let_def case_prod_beta split: option.splits if_splits sum.splits)

lemma no_send_status [simp]: "list_all (\<lambda>e. \<not> is_send e) (metric ex (SetStatus s))"
  by (simp add: metric_def)

text \<open>
  C11. For a message that passes the stages: while the circuit breaker refuses, \<open>processOne\<close> sends
  nothing to any destination and pushes nothing to the dead-letter queue, leaves the breaker
  as it is, and hands the message back to the source broker for redelivery.
\<close>

theorem open_breaker_redelivers:
  assumes "\<not> fst (allow (w_allow_at w) br)" "w_receive w = Ok message"
    and "RunStages (w_detect w) (ex_Stages ex) message = (out, None)"
  shows "let r = processOne w ex (Some br) i in
     list_all (\<lambda>e. \<not> is_send e) (cr_effects r) \<and> cr_breaker r = Some br
     \<and> (cr_err r = None \<longrightarrow> settled False (cr_effects r) \<and> list_all (\<lambda>e. \<not> is_push e) (cr_effects r))"
proof -
  obtain br' where "allow (w_allow_at w) br = (False, br')"
    using assms(1) by (cases "allow (w_allow_at w) br") auto
  moreover from this have "br' = br" by (rule gate.refusal_keeps)
  ultimately have fx: "handle_message w ex (Some br) message =
      (Some br, recordStageObservations ex (Runs out) @ finalize False)"
    using assms(3) by (simp add: handle_message_def)
  have s: "settled False (metric ex (SetStatus ''connected'') @ recordStageObservations ex (Runs out) @ finalize False)"
    by (intro settled_append settled_finalize) simp_all
  show ?thesis
  proof (cases "cr_err (processOne w ex (Some br) i)")
    case None
    from processOne_received [OF assms(2) this] s None show ?thesis by (simp add: fx Let_def)
  next
    case (Some e)
    then have "cr_effects (processOne w ex (Some br) i) \<in> {[], metric ex (SetStatus ''connected'')}"
      "cr_breaker (processOne w ex (Some br) i) = Some br"
      using processOne_stopped [of w ex "Some br" i] by simp_all
    with Some show ?thesis by (auto simp: Let_def)
  qed
qed

theorem open_breaker_redelivers_witness:
  "cr_effects (processOne (sample_world (\<lambda>p h n. Ok False) None None) (sample_executor 0)
      (Some \<lparr>br_state = breakerOpen, fails = 5, threshold = 5, cooldown = 30, openedAt = -1\<rparr>) 0) = [Nack True]"
  using open_breaker_redelivers [of "sample_world (\<lambda>p h n. Ok False) None None"
      "\<lparr>br_state = breakerOpen, fails = 5, threshold = 5, cooldown = 30, openedAt = -1\<rparr>" "''msg''"
      "sample_executor 0" "\<lparr>Body = ''msg'', out_Format = ''bytes'', RouteTo = None, Runs = []\<rparr>" 0]
  by (simp add: process_defs allow_def Let_def)

section \<open>Redelivery within the dedup window\<close>

text \<open>The dedup store's answer for a given table and time.\<close>

definition table_dedup :: "time \<Rightarrow> dedup_table \<Rightarrow> string \<Rightarrow> string \<Rightarrow> int \<Rightarrow> (string, bool) result" where
  "table_dedup now t pid h n =
     (case fst (CheckAndRecord None now pid h n t) of Inl e \<Rightarrow> Err ''dedup'' | Inr d \<Rightarrow> Ok d)"

text \<open>
  C8. The dedup gate records a payload before it is sent. Let the stages and the breaker, if
  there is one, let a message through, to the default or to routed destinations. If the
  send then fails and the dead-letter queue cannot take the message either, the message is
  handed back to the broker; redelivered within the window, and let through by the breaker
  again, it is taken for a duplicate and committed without any send or dead-letter entry:
  it is lost.
\<close>

theorem dedup_redelivery_lost:
  assumes ex: "ex_DedupWindowSeconds ex = n" "has_Dedup ex" "valid_key (ex_ID ex, h, n)"
    and stages: "RunStages detect (ex_Stages ex) message = (out, None)"
    and w1: "w_detect w1 = detect" "w_receive w1 = Ok message" "w_hash w1 (Body out) = h"
      "w_dedup w1 = table_dedup t1 t" "table_dedup t1 t (ex_ID ex) h n = Ok False"
      "fst (forward w1 ex (Body out) (RouteTo out)) = Some e1" "\<And>e. w_dlq w1 e \<noteq> None" "admits w1 b1"
    and w2: "w_detect w2 = detect" "w_receive w2 = Ok message" "w_hash w2 (Body out) = h"
      "w_dedup w2 = table_dedup t2 (snd (CheckAndRecord None t1 (ex_ID ex) h n t))" "admits w2 b2"
    and t: "dedup_inv t" "t2 - n * 1000000000 \<le> t1"
  shows "let r1 = processOne w1 ex b1 i; r2 = processOne w2 ex b2 i in
     cr_err r1 = None \<longrightarrow> cr_err r2 = None \<longrightarrow>
       settled False (cr_effects r1) \<and> settled True (cr_effects r2)
       \<and> list_all (\<lambda>e. \<not> is_send e) (cr_effects r2) \<and> list_all (\<lambda>e. \<not> is_push e) (cr_effects r2)"
proof -
  obtain sx where f: "forward w1 ex (Body out) (RouteTo out) = (Some e1, sx)"
    using w1(6) by (cases "forward w1 ex (Body out) (RouteTo out)") auto
  have "\<not> dedup_gate w1 ex (Body out)" using ex w1 by (simp add: dedup_gate_def)
  with f obtain pub where quiet: "list_all (\<lambda>e. \<not> is_settle e) pub" and h1: "snd (handle_message w1 ex b1 message) =
      recordStageObservations ex (Runs out) @ sx @ pub @ send_failure w1 ex message e1"
    using handle_message_sends [OF stages [folded w1(1)] w1(8)] by auto
  have "\<not> fst (push_dlq w1 ex (send_entry ex message e1))" using w1(7) by (simp add: push_dlq_ok)
  then have sf: "settled False (send_failure w1 ex message e1)"
    using settled_send_failure [of w1 ex message e1] by simp
  have "list_all (\<lambda>e. \<not> is_settle e) sx" using quiet_forward [of w1 ex "Body out" "RouteTo out"] f by simp
  then have "settled False (metric ex (SetStatus ''connected'') @ recordStageObservations ex (Runs out)
      @ sx @ pub @ send_failure w1 ex message e1)"
    by (intro settled_append sf quiet) simp_all
  then have s1: "settled False (cr_effects (processOne w1 ex b1 i))" if "cr_err (processOne w1 ex b1 i) = None"
    using processOne_received [OF w1(2) that] h1 by simp
  have "table_dedup t2 (snd (CheckAndRecord None t1 (ex_ID ex) h n t)) (ex_ID ex) h n = Ok True"
    using CheckAndRecord_again [OF t(1) ex(3) t(2)] by (auto simp: table_dedup_def)
  then have "dedup_gate w2 ex (Body out)" using ex w2 by (simp add: dedup_gate_def)
  then have h2: "snd (handle_message w2 ex b2 message) =
      recordStageObservations ex (Runs out) @ metric ex RecordDedupSkipped @ finalize True"
    by (rule handle_message_duplicate [OF stages [folded w2(1)] w2(5)])
  have "settled True (metric ex (SetStatus ''connected'') @ recordStageObservations ex (Runs out)
      @ metric ex RecordDedupSkipped @ finalize True)"
    by (intro settled_append settled_finalize) simp_all
  moreover have "list_all (\<lambda>e. \<not> is_send e) (metric ex RecordDedupSkipped)" by (simp add: metric_def)
  ultimately have s2: "settled True (cr_effects (processOne w2 ex b2 i))
      \<and> list_all (\<lambda>e. \<not> is_send e) (cr_effects (processOne w2 ex b2 i))
      \<and> list_all (\<lambda>e. \<not> is_push e) (cr_effects (processOne w2 ex b2 i))"
    if "cr_err (processOne w2 ex b2 i) = None"
    using processOne_received [OF w2(2) that] h2 by simp
  show ?thesis using s1 s2 by (simp add: Let_def)
qed

definition lost_table :: dedup_table where
  "lost_table = [((''p'', ''hmsg''), \<lparr>first_seen_at = 0, last_seen_at = 0, hits = 1\<rparr>)]"

theorem dedup_redelivery_lost_witness:
  "cr_effects (processOne (sample_world (table_dedup 0 []) (Some ''down'') (Some ''full'')) (sample_executor 60)
       (Some (newBreaker 0 5 30)) 0) =
     [Sent (dest_key ''p'') 1 ''msg'' False, DlqPush (send_entry (sample_executor 60) ''msg'' ''down'') False, Nack True]
   \<and> cr_effects (processOne (sample_world (table_dedup 5 lost_table) None None) (sample_executor 60)
       (Some (newBreaker 0 5 30)) 0) = [Commit]
   \<and> settled True (cr_effects (processOne (sample_world (table_dedup 5 lost_table) None None) (sample_executor 60)
       (Some (newBreaker 0 5 30)) 0))"
proof -
  let ?b = "Some (newBreaker 0 5 30)"
  have t: "snd (CheckAndRecord None 0 ''p'' ''hmsg'' 60 []) = lost_table"
    by (simp add: CheckAndRecord_def lost_table_def upsert_def expire_stale_def Let_def)
  have d0: "table_dedup 0 [] ''p'' ''hmsg'' 60 = Ok False"
    by (simp add: table_dedup_def CheckAndRecord_def upsert_def expire_stale_def Let_def)
  have d5: "table_dedup 5 lost_table ''p'' ''hmsg'' 60 = Ok True"
    by (simp add: table_dedup_def CheckAndRecord_def upsert_def expire_stale_def Let_def lost_table_def
        window_cutoff_def int64_id)
  have a: "admits (sample_world dd s q) ?b" for dd s q
    by (simp add: admits_def allow_def newBreaker_def)
  have r1: "cr_effects (processOne (sample_world (table_dedup 0 []) (Some ''down'') (Some ''full'')) (sample_executor 60) ?b 0) =
     [Sent (dest_key ''p'') 1 ''msg'' False, DlqPush (send_entry (sample_executor 60) ''msg'' ''down'') False, Nack True]
     \<and> cr_err (processOne (sample_world (table_dedup 0 []) (Some ''down'') (Some ''full'')) (sample_executor 60) ?b 0) = None"
    using d0 by (simp add: process_defs send_entry_def Let_def allow_def newBreaker_def)
  have r2: "cr_effects (processOne (sample_world (table_dedup 5 lost_table) None None) (sample_executor 60) ?b 0) = [Commit]
     \<and> cr_err (processOne (sample_world (table_dedup 5 lost_table) None None) (sample_executor 60) ?b 0) = None"
    using d5 by (simp add: process_defs Let_def allow_def newBreaker_def)
  have "let r1 = processOne (sample_world (table_dedup 0 []) (Some ''down'') (Some ''full'')) (sample_executor 60) ?b 0;
            r2 = processOne (sample_world (table_dedup 5 lost_table) None None) (sample_executor 60) ?b 0 in
     cr_err r1 = None \<longrightarrow> cr_err r2 = None \<longrightarrow>
       settled False (cr_effects r1) \<and> settled True (cr_effects r2)
       \<and> list_all (\<lambda>e. \<not> is_send e) (cr_effects r2) \<and> list_all (\<lambda>e. \<not> is_push e) (cr_effects r2)"
    using t d0 a
    by (intro dedup_redelivery_lost [where n = 60 and h = "''hmsg''" and t = "[]" and ?t1.0 = 0 and ?t2.0 = 5
          and message = "''msg''" and detect = "\<lambda>m. ''bytes''" and ?e1.0 = "''down''"
          and out = "\<lparr>Body = ''msg'', out_Format = ''bytes'', RouteTo = None, Runs = []\<rparr>"])
      (simp_all add: sample_executor_def sample_world_def RunStages_def dedup_inv_def forward_def)
  with r1 r2 show ?thesis by (simp add: Let_def)
qed

section \<open>Attribution and sampling\<close>

lemma no_push_filter: "list_all (\<lambda>e. \<not> is_push e) fx \<Longrightarrow> filter is_push fx = []"
  by (auto simp: list_all_iff filter_empty_conv)

text \<open>
  C12. When a stage fails and there is a dead-letter queue, nothing is sent, the breaker is left
  alone, and exactly one entry is pushed: it holds the original message, the error, and the
  name and the index of the very stage that failed, the first one whose execution on what the
  stages before it made of the message is an error. The message is committed exactly when the
  dead-letter queue accepts the entry, and handed back for redelivery otherwise.
\<close>

theorem stage_failure_attributed:
  assumes "w_receive w = Ok message" "cr_err (processOne w ex b i) = None" "has_DLQ ex"
    and "RunStages (w_detect w) (ex_Stages ex) message = (out, Some (nm, e))"
  shows "\<exists>entry ok n st. filter is_push (cr_effects (processOne w ex b i)) = [DlqPush entry ok]
    \<and> settled ok (cr_effects (processOne w ex b i)) \<and> ok = (w_dlq w entry = None)
    \<and> dlq_OriginalMsg entry = message \<and> dlq_Reason entry = Inl (nm, e)
    \<and> dlq_FailingStageIndex entry = n \<and> dlq_FailingStageName entry = Name (ex_Stages ex ! n)
    \<and> n < length (ex_Stages ex) \<and> state_after (ex_Stages ex) (message, w_detect w message, None) n = Ok st
    \<and> stage_step (ex_Stages ex ! n) st = Err e
    \<and> list_all (\<lambda>x. \<not> is_send x) (cr_effects (processOne w ex b i))
    \<and> cr_breaker (processOne w ex b i) = b"
proof -
  let ?entry = "stage_entry ex message (Runs out) (nm, e)"
  let ?ok = "w_dlq w ?entry = None"
  have rl: "run_loop (ex_Stages ex) message (w_detect w message) None [] = (out, Some (nm, e))"
    using assms(4) by (simp add: RunStages_def)
  obtain n bi fi ri where n: "n < length (ex_Stages ex)" "nm = Name (ex_Stages ex ! n)"
    "state_after (ex_Stages ex) (message, w_detect w message, None) n = Ok (bi, fi, ri)"
    "stage_step (ex_Stages ex ! n) (bi, fi, ri) = Err e"
    "Runs out = map (logged (ex_Stages ex) (message, w_detect w message, None)) [0..<n]
       @ [\<lparr>run_Name = nm, Failed = True, run_Body = bi, run_Format = fi, run_Err = Some e\<rparr>]"
    using run_loop_err [OF rl] by auto
  then have att: "failingStageFromRuns (Runs out) = (nm, n)" by (simp add: failingStageFromRuns_def)
  have hm: "handle_message w ex b message =
      (b, recordStageObservations ex (Runs out) @ stage_failure w ex message (Runs out) (nm, e))"
    using assms(4) by (simp add: handle_message_def)
  note eff = processOne_received [OF assms(1,2)]
  have p: "push_dlq w ex ?entry = (?ok, [DlqPush ?entry ?ok])"
    using assms(3) by (simp add: push_dlq_def Let_def)
  have "settled ?ok (metric ex (SetStatus ''connected'') @ recordStageObservations ex (Runs out)
      @ stage_failure w ex message (Runs out) (nm, e))"
    using settled_stage_failure [of w ex message "Runs out" "(nm, e)"] p
    by (intro settled_append) simp_all
  moreover have "filter is_push (stage_failure w ex message (Runs out) (nm, e)) = [DlqPush ?entry ?ok]"
    by (simp add: stage_failure_eq Let_def p no_push_filter)
  ultimately have "filter is_push (cr_effects (processOne w ex b i)) = [DlqPush ?entry ?ok]"
    "settled ?ok (cr_effects (processOne w ex b i))"
    using eff hm by (simp_all add: no_push_filter)
  moreover have "dlq_OriginalMsg ?entry = message" "dlq_Reason ?entry = Inl (nm, e)" "dlq_FailingStageName ?entry = nm"
    "dlq_FailingStageIndex ?entry = n"
    using att by (simp_all add: stage_entry_def)
  ultimately show ?thesis using eff hm n(1-4)
    by (intro exI [of _ ?entry] exI [of _ ?ok] exI [of _ n] exI [of _ "(bi, fi, ri)"]) simp
qed

definition failing_executor :: "string executor" where
  "failing_executor = (sample_executor 0)\<lparr>ex_Stages :=
     [\<lparr>Name = ''filter'', Execute = (\<lambda>m f. Ok (m, f, None))\<rparr>,
      \<lparr>Name = ''script'', Execute = (\<lambda>m f. Err ''boom'')\<rparr>]\<rparr>"

theorem stage_failure_attributed_witness:
  "\<exists>entry. filter is_push (cr_effects (processOne (sample_world (\<lambda>p h n. Ok False) None None) failing_executor None 0))
        = [DlqPush entry True]
    \<and> dlq_FailingStageIndex entry = 1 \<and> dlq_FailingStageName entry = ''script''
    \<and> settled True (cr_effects (processOne (sample_world (\<lambda>p h n. Ok False) None None) failing_executor None 0))"
proof -
  let ?w = "sample_world (\<lambda>p h n. Ok False) None None"
  obtain out where out: "RunStages (w_detect ?w) (ex_Stages failing_executor) ''msg'' = (out, Some (''script'', ''boom''))"
    by (simp add: RunStages_def sample_world_def failing_executor_def Let_def)
  have err: "cr_err (processOne ?w failing_executor None 0) = None"
    by (simp add: processOne_def sample_world_def failing_executor_def sample_executor_def Let_def case_prod_beta)
  have "w_receive ?w = Ok ''msg''" "has_DLQ failing_executor"
    by (simp_all add: sample_world_def failing_executor_def sample_executor_def)
  from stage_failure_attributed [OF this(1) err this(2) out] obtain entry ok n st where
    e: "filter is_push (cr_effects (processOne ?w failing_executor None 0)) = [DlqPush entry ok]"
      "settled ok (cr_effects (processOne ?w failing_executor None 0))" "ok = (w_dlq ?w entry = None)"
      "dlq_FailingStageIndex entry = n" "dlq_FailingStageName entry = Name (ex_Stages failing_executor ! n)"
      "n < length (ex_Stages failing_executor)" "stage_step (ex_Stages failing_executor ! n) st = Err ''boom''"
    by blast
  have "stage_step (ex_Stages failing_executor ! 0) st \<noteq> Err ''boom''"
    by (cases st) (simp add: failing_executor_def stage_step_def)
  with e(7) have "n \<noteq> 0" by metis
  with e(6) have "n = 1" by (simp add: failing_executor_def)
  with e show ?thesis by (auto simp: sample_world_def failing_executor_def)
qed

text \<open>
  Raising the shadow percentage never takes a payload out of the shadow sample: the
  sampled sets are nested, from none at 0 to all at 100.
\<close>

theorem shadow_samples_nested:
  assumes "p \<le> q"
  shows "{m. shadowSampleHit m p} \<subseteq> {m. shadowSampleHit m q}
    \<and> {m. shadowSampleHit m 0} = {} \<and> {m. shadowSampleHit m 100} = UNIV"
  using assms by (auto simp: shadowSampleHit_def Let_def split: if_splits)

theorem shadow_samples_nested_witness:
  "{m. shadowSampleHit m 10} \<subseteq> {m. shadowSampleHit m 20}"
  using shadow_samples_nested [of 10 20] by simp

end
