(* ===== verification/Paths.thy ===== *)
theory Paths
  imports Mqc_Prelude
begin

text \<open>
  \<open>internal/pipeline/paths.go\<close>: reading, writing and deleting a value at a dot-separated
  path of a decoded document. A decoded document is Go's \<open>map[string]any\<close>; it is a tree
  (the decoders build it fresh and no stage modelled here stores a map it still holds
  elsewhere), so assignment to a nested map is an update along the path.
\<close>

section \<open>Decoded values\<close>

text \<open>
  What \<open>encoding/json\<close> and \<open>mxj\<close> decode into an \<open>any\<close>: \<open>nil\<close>, \<open>bool\<close>, \<open>float64\<close> (its
  bits), \<open>string\<close>, \<open>[]any\<close> and \<open>map[string]any\<close>.
\<close>

datatype any =
    VNil
  | VBool bool
  | VNum "64 word"
  | VStr string
  | VArr "any list"
  | VObj "(string \<times> any) list"

type_synonym obj = "(string \<times> any) list"

text \<open>Keys are distinct at every level: what a Go map guarantees.\<close>

primrec any_wf :: "any \<Rightarrow> bool" where
  "any_wf VNil \<longleftrightarrow> True"
| "any_wf (VBool b) \<longleftrightarrow> True"
| "any_wf (VNum n) \<longleftrightarrow> True"
| "any_wf (VStr s) \<longleftrightarrow> True"
| "any_wf (VArr xs) \<longleftrightarrow> list_all id (map any_wf xs)"
| "any_wf (VObj m) \<longleftrightarrow> distinct (map fst m) \<and> list_all id (map (\<lambda>(k, b). b) (map (map_prod id any_wf) m))"

abbreviation obj_wf :: "obj \<Rightarrow> bool" where
  "obj_wf m \<equiv> any_wf (VObj m)"

lemma any_wf_obj: "obj_wf m \<longleftrightarrow> map_wf m \<and> (\<forall>(k, v) \<in> set m. any_wf v)"
  by (auto simp: list_all_iff)

section \<open>The operations\<close>

text \<open>The three errors of \<open>getNestedValue\<close> and \<open>setNestedValue\<close>, with the path and the key.\<close>

datatype path_error =
    NotAnObject string string
  | KeyMissing string string
  | AlreadyNonObject string string

definition path_keys :: "string \<Rightarrow> string list" where
  "path_keys path = split_on CHR ''.'' path"

fun get_loop :: "string \<Rightarrow> any \<Rightarrow> string list \<Rightarrow> (path_error, any) result" where
  "get_loop path current [] = Ok current"
| "get_loop path current (k # ks) =
     (case current of
        VObj m \<Rightarrow>
          (case map_of m k of
             None \<Rightarrow> Err (KeyMissing path k)
           | Some v \<Rightarrow> get_loop path v ks)
      | _ \<Rightarrow> Err (NotAnObject path k))"

definition getNestedValue :: "obj \<Rightarrow> string \<Rightarrow> (path_error, any) result" where
  "getNestedValue data path = get_loop path (VObj data) (path_keys path)"

text \<open>
  \<open>setNestedValue\<close> changes \<open>data\<close> in place and returns an error or \<open>nil\<close>: the new document and
  \<open>Some\<close> error or \<open>None\<close>.
\<close>

fun set_loop :: "string \<Rightarrow> any \<Rightarrow> obj \<Rightarrow> string list \<Rightarrow> obj \<times> path_error option" where
  "set_loop path v current [] = (current, None)"
| "set_loop path v current [k] = (AList.update k v current, None)"
| "set_loop path v current (k # k' # ks) =
     (case map_of current k of
        None \<Rightarrow>
          (let (m, e) = set_loop path v [] (k' # ks)
           in (AList.update k (VObj m) current, e))
      | Some (VObj nm) \<Rightarrow>
          (let (m, e) = set_loop path v nm (k' # ks)
           in (AList.update k (VObj m) current, e))
      | Some _ \<Rightarrow> (current, Some (AlreadyNonObject path k)))"

definition setNestedValue :: "obj \<Rightarrow> string \<Rightarrow> any \<Rightarrow> obj \<times> path_error option" where
  "setNestedValue data path v = set_loop path v data (path_keys path)"

fun delete_loop :: "obj \<Rightarrow> string list \<Rightarrow> obj" where
  "delete_loop current [] = current"
| "delete_loop current [k] = AList.delete k current"
| "delete_loop current (k # k' # ks) =
     (case map_of current k of
        Some (VObj nm) \<Rightarrow> AList.update k (VObj (delete_loop nm (k' # ks))) current
      | _ \<Rightarrow> current)"

definition deleteNestedValue :: "obj \<Rightarrow> string \<Rightarrow> obj" where
  "deleteNestedValue data path = delete_loop data (path_keys path)"

text \<open>\<open>for _, p := range paths { deleteNestedValue(data, p) }\<close>\<close>

definition removeJSONPaths :: "obj \<Rightarrow> string list \<Rightarrow> obj" where
  "removeJSONPaths data paths = fold (\<lambda>p d. deleteNestedValue d p) paths data"

section \<open>What one operation does\<close>

lemma path_keys_not_Nil [simp]: "path_keys p \<noteq> []"
  by (simp add: path_keys_def)

lemma path_keys_inject [simp]: "path_keys p = path_keys q \<longleftrightarrow> p = q"
  by (metis join_split_on path_keys_def)

abbreviation got :: "('e, any) result \<Rightarrow> any option" where
  "got r \<equiv> (case r of Inl _ \<Rightarrow> None | Inr v \<Rightarrow> Some v)"

text \<open>The value at a path, the error forgotten: it does not depend on the path text.\<close>

fun value_at :: "any \<Rightarrow> string list \<Rightarrow> any option" where
  "value_at v [] = Some v"
| "value_at (VObj m) (k # ks) = (case map_of m k of None \<Rightarrow> None | Some v \<Rightarrow> value_at v ks)"
| "value_at _ (k # ks) = None"

lemma got_get_loop [simp]: "got (get_loop p v ks) = value_at v ks"
  by (induction p v ks rule: get_loop.induct) (auto split: any.split option.split)

lemma value_at_append: "value_at v (ks @ js) = Option.bind (value_at v ks) (\<lambda>w. value_at w js)"
  by (induction v ks rule: value_at.induct) (auto split: option.split)

lemma get_loop_Ok_iff: "get_loop p v ks = Ok w \<longleftrightarrow> value_at v ks = Some w"
  using got_get_loop [of p v ks] by (auto split: sum.splits simp del: got_get_loop)

text \<open>An error leaves the document as it was.\<close>

lemma set_loop_empty: "snd (set_loop p v [] ks) = None"
proof (induction ks)
  case (Cons k ks)
  then show ?case by (cases ks) (auto split: prod.splits)
qed simp

lemma set_loop_error:
  "set_loop p v m ks = (m', Some e) \<Longrightarrow> m' = m"
proof (induction p v m ks arbitrary: m' rule: set_loop.induct)
  case (3 p v m k k' ks)
  show ?case
  proof (cases "map_of m k")
    case None
    with "3.prems" set_loop_empty [of p v "k' # ks"] show ?thesis
      by (simp split: prod.splits)
  next
    case (Some w)
    show ?thesis
    proof (cases w)
      case (VObj nm)
      obtain n f where n: "set_loop p v nm (k' # ks) = (n, f)" by fastforce
      with Some VObj "3.prems" have f: "f = Some e" "m' = AList.update k (VObj n) m" by auto
      with n "3.IH"(2) Some VObj have "n = nm" by blast
      with f Some VObj show ?thesis by (simp add: update_same)
    qed (use Some "3.prems" in auto)
  qed
qed auto

lemma set_loop_value_at:
  "set_loop p v m ks = (m', None) \<Longrightarrow> ks \<noteq> [] \<Longrightarrow> value_at (VObj m') ks = Some v"
proof (induction p v m ks arbitrary: m' rule: set_loop.induct)
  case (3 p v m k k' ks)
  then show ?case
    by (auto split: option.splits any.splits prod.splits simp: go_map_simps)
qed (auto simp: go_map_simps)

text \<open>Two paths are independent when neither leads through the other.\<close>

definition independent :: "string list \<Rightarrow> string list \<Rightarrow> bool" where
  "independent ks js \<longleftrightarrow> \<not> prefix ks js \<and> \<not> prefix js ks"

lemma independent_Cons [simp]:
  "independent (k # ks) (j # js) \<longleftrightarrow> k \<noteq> j \<or> independent ks js"
  "\<not> independent [] js" "\<not> independent ks []"
  by (auto simp: independent_def)

lemma independent_sym: "independent ks js \<longleftrightarrow> independent js ks"
  by (auto simp: independent_def)

lemma value_at_empty: "js \<noteq> [] \<Longrightarrow> value_at (VObj []) js = None"
  by (cases js) auto

lemma value_at_non_object: "js \<noteq> [] \<Longrightarrow> \<forall>m. v \<noteq> VObj m \<Longrightarrow> value_at v js = None"
  by (cases v; cases js) auto

lemma set_loop_frame:
  "set_loop p v m ks = (m', e) \<Longrightarrow> independent ks js \<Longrightarrow> value_at (VObj m') js = value_at (VObj m) js"
proof (induction p v m ks arbitrary: m' js rule: set_loop.induct)
  case (2 p v m k)
  then show ?case by (cases js) (auto simp: go_map_simps)
next
  case (3 p v m k k' ks)
  obtain j js' where js: "js = j # js'" using "3.prems"(2) by (cases js) auto
  show ?case
  proof (cases "j = k")
    case False
    with js "3.prems" show ?thesis
      by (auto split: option.splits any.splits prod.splits simp: go_map_simps)
  next
    case True
    with js "3.prems"(2) have ind: "independent (k' # ks) js'" by simp
    then have "js' \<noteq> []" by auto
    with 3 js True ind show ?thesis
      by (auto split: option.splits any.splits prod.splits simp: go_map_simps value_at_empty)
  qed
qed auto

lemma delete_loop_value_at: "ks \<noteq> [] \<Longrightarrow> prefix ks js \<Longrightarrow> value_at (VObj (delete_loop m ks)) js = None"
proof (induction m ks arbitrary: js rule: delete_loop.induct)
  case (2 m k)
  then show ?case by (cases js) (auto simp: go_map_simps)
next
  case (3 m k k' ks)
  then obtain js' where js: "js = k # js'" "prefix (k' # ks) js'" by (cases js) auto
  show ?case
  proof (cases "\<exists>nm. map_of m k = Some (VObj nm)")
    case True
    with 3 js show ?thesis by (auto simp: go_map_simps)
  next
    case False
    with js show ?thesis
      by (cases js') (auto split: option.splits any.splits simp: value_at_non_object)
  qed
qed auto

lemma delete_loop_frame:
  "independent ks js \<Longrightarrow> get_loop q (VObj (delete_loop m ks)) js = get_loop q (VObj m) js"
proof (induction m ks arbitrary: js rule: delete_loop.induct)
  case (2 m k)
  then show ?case by (cases js) (auto simp: go_map_simps)
next
  case (3 m k k' ks)
  then obtain j js' where "js = j # js'" by (cases js) auto
  with 3 show ?case
    by (auto split: option.splits any.splits simp: go_map_simps)
qed auto

lemma delete_loop_frame_value:
  "independent ks js \<Longrightarrow> value_at (VObj (delete_loop m ks)) js = value_at (VObj m) js"
  by (metis delete_loop_frame got_get_loop)

text \<open>Deleting what is not there changes nothing.\<close>

lemma delete_loop_absent: "ks \<noteq> [] \<Longrightarrow> value_at (VObj m) ks = None \<Longrightarrow> delete_loop m ks = m"
proof (induction m ks rule: delete_loop.induct)
  case (3 m k k' ks)
  then show ?case by (auto split: option.splits any.splits simp: go_map_simps)
qed (auto split: option.splits simp: go_map_simps)

text \<open>
  A path is a list of keys, so a leading \<open>$\<close> is a key like any other: on a document without one,
  removing \<open>$.user.password\<close> removes nothing.
\<close>

lemma dollar_path_removes_nothing:
  assumes "map_of d ''$'' = None"
  shows "removeJSONPaths d (map (\<lambda>p. ''$.'' @ p) ps) = d"
proof -
  have "value_at (VObj d) (path_keys (''$.'' @ p)) = None" for p
    using assms by (simp add: path_keys_def)
  then have "deleteNestedValue d (''$.'' @ p) = d" for p
    unfolding deleteNestedValue_def by (simp add: delete_loop_absent)
  then have del: "deleteNestedValue d (CHR ''$'' # CHR ''.'' # p) = d" for p by simp
  show ?thesis unfolding removeJSONPaths_def by (induction ps) (simp_all add: del)
qed

section \<open>Well-formedness is kept\<close>

lemma obj_wf_update: "obj_wf m \<Longrightarrow> any_wf v \<Longrightarrow> obj_wf (AList.update k v m)"
  using set_update_subset [of k v m] unfolding any_wf_obj by (auto simp: distinct_update)

lemma obj_wf_delete: "obj_wf m \<Longrightarrow> obj_wf (AList.delete k m)"
  using set_delete_subset [of k m] unfolding any_wf_obj by (auto simp: distinct_delete)

lemma obj_wf_lookup: "obj_wf m \<Longrightarrow> map_of m k = Some v \<Longrightarrow> any_wf v"
  unfolding any_wf_obj by (auto dest: map_of_SomeD)

lemma obj_wf_Nil [simp]: "obj_wf []"
  by simp

lemma set_loop_wf: "obj_wf m \<Longrightarrow> any_wf v \<Longrightarrow> obj_wf (fst (set_loop p v m ks))"
proof (induction p v m ks rule: set_loop.induct)
  case (2 p v m k)
  then show ?case using obj_wf_update by auto
next
  case (3 p v m k k' ks)
  show ?case
  proof (cases "map_of m k")
    case None
    with 3 have "obj_wf (fst (set_loop p v [] (k' # ks)))" by simp
    with None "3.prems" obj_wf_update [of m "VObj (fst (set_loop p v [] (k' # ks)))" k]
    show ?thesis by (simp add: case_prod_beta del: any_wf.simps set_loop.simps(2))
  next
    case (Some w)
    show ?thesis
    proof (cases w)
      case (VObj nm)
      then have "obj_wf (fst (set_loop p v nm (k' # ks)))"
        using 3 Some obj_wf_lookup by blast
      with Some VObj "3.prems" obj_wf_update [of m "VObj (fst (set_loop p v nm (k' # ks)))" k]
      show ?thesis by (simp add: case_prod_beta del: any_wf.simps set_loop.simps(2))
    qed (use Some "3.prems" in \<open>simp_all del: any_wf.simps\<close>)
  qed
qed simp

lemma delete_loop_wf: "obj_wf m \<Longrightarrow> obj_wf (delete_loop m ks)"
proof (induction m ks rule: delete_loop.induct)
  case (2 m k)
  then show ?case using obj_wf_delete by simp
next
  case (3 m k k' ks)
  show ?case
  proof (cases "\<exists>nm. map_of m k = Some (VObj nm)")
    case True
    then obtain nm where nm: "map_of m k = Some (VObj nm)" by blast
    with 3 have "obj_wf (delete_loop nm (k' # ks))" using obj_wf_lookup by blast
    with nm "3.prems" obj_wf_update [of m "VObj (delete_loop nm (k' # ks))" k]
    show ?thesis by (simp del: any_wf.simps)
  next
    case False
    with "3.prems" show ?thesis by (auto split: option.splits any.splits simp del: any_wf.simps)
  qed
qed simp

section \<open>The interface the stages use\<close>

text \<open>
  A document store: what the stages rely on when they read, write and delete at paths. The
  client lemmas say what a move and a sequence of deletions do, from these laws alone.
\<close>

locale path_store =
  fixes get :: "'d \<Rightarrow> 'p \<Rightarrow> 'v option"
    and put :: "'d \<Rightarrow> 'p \<Rightarrow> 'v \<Rightarrow> 'd option"
    and del :: "'d \<Rightarrow> 'p \<Rightarrow> 'd"
    and indep :: "'p \<Rightarrow> 'p \<Rightarrow> bool"
    and below :: "'p \<Rightarrow> 'p \<Rightarrow> bool"
  assumes get_put: "put d p v = Some d' \<Longrightarrow> get d' p = Some v"
    and get_put_indep: "put d p v = Some d' \<Longrightarrow> indep p q \<Longrightarrow> get d' q = get d q"
    and get_del: "below p q \<Longrightarrow> get (del d p) q = None"
    and get_del_indep: "indep p q \<Longrightarrow> get (del d p) q = get d q"
    and del_keeps_None: "get d q = None \<Longrightarrow> get (del d p) q = None"
    and indep_sym: "indep p q \<Longrightarrow> indep q p"
    and below_refl: "below p p"
begin

definition move :: "'d \<Rightarrow> 'p \<Rightarrow> 'p \<Rightarrow> 'd option" where
  "move d p q = (case get d p of None \<Rightarrow> Some d | Some v \<Rightarrow> put (del d p) q v)"

lemma move_target: "get d p = Some v \<Longrightarrow> move d p q = Some d' \<Longrightarrow> get d' q = Some v"
  by (simp add: move_def get_put)

lemma move_source: "get d p = Some v \<Longrightarrow> move d p q = Some d' \<Longrightarrow> indep p q \<Longrightarrow> get d' p = None"
  using get_put_indep [of "del d p" q v d' p]
  by (simp add: move_def get_del below_refl indep_sym)

lemma move_frame: "move d p q = Some d' \<Longrightarrow> indep p r \<Longrightarrow> indep q r \<Longrightarrow> get d' r = get d r"
  by (auto simp: move_def get_put_indep get_del_indep split: option.splits)

lemma dels_keep_None: "get d q = None \<Longrightarrow> get (fold (\<lambda>p d. del d p) ps d) q = None"
  by (induction ps arbitrary: d) (simp_all add: del_keeps_None)

lemma dels_gone: "p \<in> set ps \<Longrightarrow> below p q \<Longrightarrow> get (fold (\<lambda>p d. del d p) ps d) q = None"
proof (induction ps arbitrary: d)
  case (Cons a ps)
  then show ?case
    using dels_keep_None [of "del d p" q ps] by (cases "p = a") (auto simp: get_del)
qed simp

lemma dels_frame: "\<forall>p \<in> set ps. indep p q \<Longrightarrow> get (fold (\<lambda>p d. del d p) ps d) q = get d q"
  by (induction ps arbitrary: d) (simp_all add: get_del_indep)

end

definition lookup_path :: "obj \<Rightarrow> string \<Rightarrow> any option" where
  "lookup_path d p = got (getNestedValue d p)"

definition store_path :: "obj \<Rightarrow> string \<Rightarrow> any \<Rightarrow> obj option" where
  "store_path d p v = (case setNestedValue d p v of (d', None) \<Rightarrow> Some d' | (_, Some _) \<Rightarrow> None)"

definition indep_paths :: "string \<Rightarrow> string \<Rightarrow> bool" where
  "indep_paths p q \<longleftrightarrow> independent (path_keys p) (path_keys q)"

definition below_path :: "string \<Rightarrow> string \<Rightarrow> bool" where
  "below_path p q \<longleftrightarrow> prefix (path_keys p) (path_keys q)"

lemma delete_loop_keeps_None:
  "value_at (VObj m) js = None \<Longrightarrow> value_at (VObj (delete_loop m ks)) js = None"
proof (induction m ks arbitrary: js rule: delete_loop.induct)
  case (2 m k)
  then show ?case by (cases js) (auto simp: go_map_simps split: option.splits)
next
  case (3 m k k' ks)
  then show ?case
    by (cases js) (auto split: option.splits any.splits simp: go_map_simps)
qed auto

lemmas path_op_defs = lookup_path_def store_path_def indep_paths_def below_path_def
  getNestedValue_def setNestedValue_def deleteNestedValue_def

interpretation doc: path_store lookup_path store_path deleteNestedValue indep_paths below_path
proof unfold_locales
  fix d p v d' q
  assume s: "store_path d p v = Some d'"
  then have l: "set_loop p v d (path_keys p) = (d', None)"
    by (simp add: path_op_defs split: prod.splits option.splits)
  show "lookup_path d' p = Some v"
    using set_loop_value_at [OF l] by (simp add: path_op_defs)
  show "lookup_path d' q = lookup_path d q" if "indep_paths p q"
    using set_loop_frame [OF l] that by (simp add: path_op_defs)
qed (simp_all add: path_op_defs delete_loop_value_at delete_loop_frame_value
    delete_loop_keeps_None independent_sym)

section \<open>Properties\<close>

text \<open>
  C29. \<open>setNestedValue\<close> either succeeds, and then the path reads back the value, every
  independent path reads what it read before and keys stay distinct at every level, or it
  fails and the document is exactly what it was.
\<close>

theorem setNestedValue_correct:
  assumes "obj_wf d" "any_wf v"
  shows "case setNestedValue d p v of
           (d', None) \<Rightarrow> getNestedValue d' p = Ok v \<and> obj_wf d'
              \<and> (\<forall>q. indep_paths p q \<longrightarrow> lookup_path d' q = lookup_path d q)
         | (d', Some e) \<Rightarrow> d' = d"
proof (cases "setNestedValue d p v")
  case (Pair d' e)
  show ?thesis
  proof (cases e)
    case None
    with Pair have s: "store_path d p v = Some d'" by (simp add: store_path_def)
    have "getNestedValue d' p = Ok v"
      using doc.get_put [OF s] by (simp add: lookup_path_def split: sum.splits)
    moreover have "obj_wf d'"
      using set_loop_wf [OF assms, of p "path_keys p"] Pair
      by (simp add: setNestedValue_def del: any_wf.simps)
    ultimately show ?thesis
      using doc.get_put_indep [OF s] Pair None by (simp del: any_wf.simps)
  next
    case (Some x)
    with Pair have "d' = d" using set_loop_error by (auto simp: setNestedValue_def)
    with Pair Some show ?thesis by simp
  qed
qed

theorem setNestedValue_correct_witness:
  "getNestedValue (fst (setNestedValue [(''a'', VObj [(''b'', VNil)])] ''a.c'' (VBool True))) ''a.c'' = Ok (VBool True)
   \<and> snd (setNestedValue [(''a'', VObj [(''b'', VNil)])] ''a.c'' (VBool True)) = None
   \<and> lookup_path (fst (setNestedValue [(''a'', VObj [(''b'', VNil)])] ''a.c'' (VBool True))) ''a.b'' = Some VNil"
  using setNestedValue_correct [of "[(''a'', VObj [(''b'', VNil)])]" "VBool True" "''a.c''"]
  by (simp add: setNestedValue_def getNestedValue_def lookup_path_def path_keys_def)

text \<open>
  C31. After \<open>removeJSONPaths\<close> nothing at or below a removed path can be read, every path
  independent of all removed paths reads what it read before, and no path becomes readable.
\<close>

theorem removeJSONPaths_correct:
  "((\<exists>p \<in> set ps. below_path p q) \<longrightarrow> lookup_path (removeJSONPaths d ps) q = None)
   \<and> ((\<forall>p \<in> set ps. indep_paths p q) \<longrightarrow>
        lookup_path (removeJSONPaths d ps) q = lookup_path d q)
   \<and> (lookup_path d q = None \<longrightarrow> lookup_path (removeJSONPaths d ps) q = None)"
  unfolding removeJSONPaths_def using doc.dels_gone doc.dels_frame doc.dels_keep_None by blast

theorem removeJSONPaths_correct_witness:
  "lookup_path (removeJSONPaths [(''a'', VObj [(''b'', VStr ''x'')]), (''c'', VNil)] [''a.b'']) ''a.b'' = None
   \<and> lookup_path (removeJSONPaths [(''a'', VObj [(''b'', VStr ''x'')]), (''c'', VNil)] [''a.b'']) ''c'' = Some VNil"
  using removeJSONPaths_correct [of "[''a.b'']" "''a.b''" "[(''a'', VObj [(''b'', VStr ''x'')]), (''c'', VNil)]"]
    removeJSONPaths_correct [of "[''a.b'']" "''c''" "[(''a'', VObj [(''b'', VStr ''x'')]), (''c'', VNil)]"]
  by (simp add: below_path_def indep_paths_def path_keys_def lookup_path_def getNestedValue_def)

end
