(* ===== verification/Messages.thy ===== *)
theory Messages
  imports Paths
begin

text \<open>
  \<open>internal/pipeline/format.go\<close>: message formats, their detection, and the JSON/XML
  translation. The codecs the stages call are a parameter, the record \<open>codec\<close>: the
  third-party \<open>mxj\<close>, \<open>etree\<close> and protobuf packages, and of the standard library the JSON codec, the
  regular expressions and the float64 conversions, of which the stages only use results.
\<close>

section \<open>Codecs\<close>

text \<open>XML as \<open>etree\<close> exposes it: elements with a name space prefix and a tag, and other tokens.\<close>

datatype xml_node =
    Elem (space: string) (tag: string) (attrs: bytes) (child: "xml_node list")
  | Token bytes

text \<open>
  The protobuf libraries' descriptor sets, file registries and messages are handles.
  A \<open>None\<close> among the decoded documents is Go's \<open>nil\<close> map (what \<open>null\<close> decodes to). A float64
  is its bits; \<open>float_less\<close> is Go's \<open><\<close> on them.
\<close>

record codec =
  json_unmarshal :: "bytes \<Rightarrow> (string, any) result"
  json_type_error :: "any \<Rightarrow> string"
  json_marshal :: "any \<Rightarrow> (string, bytes) result"
  mxj_NewMapXml :: "bytes \<Rightarrow> (string, obj option) result"
  mxj_Xml :: "obj option \<Rightarrow> (string, bytes) result"
  etree_Read :: "bytes \<Rightarrow> (string, xml_node list) result"
  etree_Write :: "xml_node list \<Rightarrow> (string, bytes) result"
  xml_well_formed :: "bytes \<Rightarrow> string option"
  sprint_v :: "any \<Rightarrow> string"
  regexp_MatchString :: "string \<Rightarrow> string \<Rightarrow> (string, bool) result"
  regexp_ReplaceAll :: "string \<Rightarrow> string \<Rightarrow> string \<Rightarrow> (string, string) result"
  parse_float :: "string \<Rightarrow> 64 word option"
  float_less :: "64 word \<Rightarrow> 64 word \<Rightarrow> bool"
  base64_Decode :: "string \<Rightarrow> bytes option"
  fds_Unmarshal :: "bytes \<Rightarrow> (string, nat) result"
  protodesc_NewFiles :: "nat \<Rightarrow> (string, nat) result"
  proto_Find :: "nat \<Rightarrow> string \<Rightarrow> (string, bool) result"
  proto_Unmarshal :: "nat \<Rightarrow> string \<Rightarrow> bytes \<Rightarrow> (string, nat) result"
  proto_Marshal :: "nat \<Rightarrow> (string, bytes) result"
  protojson_Marshal :: "nat \<Rightarrow> (string, bytes) result"
  protojson_Unmarshal :: "nat \<Rightarrow> string \<Rightarrow> bytes \<Rightarrow> (string, nat) result"

text \<open>\<open>json.Unmarshal\<close> into a \<open>map[string]any\<close>: an object, \<open>null\<close> for \<open>nil\<close>, or a type error.\<close>

definition json_unmarshal_map :: "codec \<Rightarrow> bytes \<Rightarrow> (string, obj option) result" where
  "json_unmarshal_map c message =
     (case json_unmarshal c message of
        Inl e \<Rightarrow> Err e
      | Inr (VObj m) \<Rightarrow> Ok (Some m)
      | Inr VNil \<Rightarrow> Ok None
      | Inr v \<Rightarrow> Err (json_type_error c v))"

text \<open>\<open>json.Marshal\<close> of a \<open>map[string]any\<close>.\<close>

definition json_marshal_map :: "codec \<Rightarrow> obj option \<Rightarrow> (string, bytes) result" where
  "json_marshal_map c data = json_marshal c (case data of None \<Rightarrow> VNil | Some m \<Rightarrow> VObj m)"

section \<open>Formats and their detection\<close>

type_synonym Format = string

definition FormatJSON :: Format where
  "FormatJSON = ''json''"

definition FormatXML :: Format where
  "FormatXML = ''xml''"

definition FormatProtobuf :: Format where
  "FormatProtobuf = ''protobuf''"

definition FormatBytes :: Format where
  "FormatBytes = ''bytes''"

lemma format_distinct [simp]:
  "FormatJSON \<noteq> FormatXML" "FormatXML \<noteq> FormatJSON" "FormatJSON \<noteq> FormatProtobuf"
  "FormatProtobuf \<noteq> FormatJSON" "FormatXML \<noteq> FormatProtobuf" "FormatProtobuf \<noteq> FormatXML"
  "FormatJSON \<noteq> FormatBytes" "FormatBytes \<noteq> FormatJSON" "FormatXML \<noteq> FormatBytes"
  "FormatBytes \<noteq> FormatXML" "FormatProtobuf \<noteq> FormatBytes" "FormatBytes \<noteq> FormatProtobuf"
  by (simp_all add: FormatJSON_def FormatXML_def FormatProtobuf_def FormatBytes_def)

lemmas format_defs = FormatJSON_def FormatXML_def FormatProtobuf_def FormatBytes_def

fun trimLeftSpace :: "bytes \<Rightarrow> bytes" where
  "trimLeftSpace [] = []"
| "trimLeftSpace (b # bs) =
     (if b \<in> {CHR '' '', CHR 0x09, CHR 0x0A, CHR 0x0D} then trimLeftSpace bs else b # bs)"

definition byte_between :: "char \<Rightarrow> char \<Rightarrow> char \<Rightarrow> bool" where
  "byte_between lo hi b \<longleftrightarrow> (of_char lo :: nat) \<le> of_char b \<and> (of_char b :: nat) \<le> of_char hi"

definition isJSON :: "bytes \<Rightarrow> bool" where
  "isJSON b0 =
     (case trimLeftSpace b0 of
        [] \<Rightarrow> False
      | b # _ \<Rightarrow>
          if b \<in> {CHR ''{'', CHR ''['', CHR 0x22, CHR ''t'', CHR ''f'', CHR ''n'', CHR ''-''} then True
          else byte_between CHR ''0'' CHR ''9'' b)"

definition isXML :: "bytes \<Rightarrow> bool" where
  "isXML b0 =
     (case trimLeftSpace b0 of
        b # c # _ \<Rightarrow>
          if b \<noteq> CHR ''<'' then False
          else if c = CHR ''?'' \<or> c = CHR ''!'' then True
          else byte_between CHR ''a'' CHR ''z'' c \<or> byte_between CHR ''A'' CHR ''Z'' c \<or> c = CHR ''_''
      | _ \<Rightarrow> False)"

definition Detect :: "bytes \<Rightarrow> Format" where
  "Detect message =
     (if isJSON message then FormatJSON
      else if isXML message then FormatXML
      else FormatBytes)"

section \<open>Translation\<close>

datatype translate_error =
    XmlToJsonParse string
  | XmlToJsonMarshal string
  | JsonToXmlParse string
  | JsonToXmlMarshal string
  | TranslateUnsupported Format Format

text \<open>The format is returned with the error too (\<open>nil, src, err\<close>).\<close>

definition TranslateFormat ::
  "codec \<Rightarrow> bytes \<Rightarrow> Format \<Rightarrow> Format \<Rightarrow> (translate_error, bytes) result \<times> Format" where
  "TranslateFormat c message src dst =
     (if dst = '''' \<or> dst = ''same'' \<or> dst = src then (Ok message, src)
      else if src = FormatXML \<and> dst = FormatJSON then
        (case mxj_NewMapXml c message of
           Inl e \<Rightarrow> (Err (XmlToJsonParse e), src)
         | Inr mv \<Rightarrow>
             (case json_marshal_map c mv of
                Inl e \<Rightarrow> (Err (XmlToJsonMarshal e), src)
              | Inr out \<Rightarrow> (Ok out, FormatJSON)))
      else if src = FormatJSON \<and> dst = FormatXML then
        (case json_unmarshal_map c message of
           Inl e \<Rightarrow> (Err (JsonToXmlParse e), src)
         | Inr data \<Rightarrow>
             (case mxj_Xml c data of
                Inl e \<Rightarrow> (Err (JsonToXmlMarshal e), src)
              | Inr out \<Rightarrow> (Ok out, FormatXML)))
      else (Err (TranslateUnsupported src dst), src))"

section \<open>Laws\<close>

lemma trimLeftSpace_append:
  "set w \<subseteq> {CHR '' '', CHR 0x09, CHR 0x0A, CHR 0x0D} \<Longrightarrow> trimLeftSpace (w @ b) = trimLeftSpace b"
  by (induction w) auto

lemma trimLeftSpace_idem [simp]: "trimLeftSpace (trimLeftSpace b) = trimLeftSpace b"
  by (induction b) auto

lemma isXML_opens: "isXML b \<Longrightarrow> \<exists>bs. trimLeftSpace b = CHR ''<'' # bs"
  unfolding isXML_def by (cases "trimLeftSpace b"; cases "tl (trimLeftSpace b)") (simp_all split: if_splits)

lemma isJSON_not_isXML: "isJSON b \<Longrightarrow> \<not> isXML b"
  using isXML_opens [of b] by (auto simp: isJSON_def byte_between_def)

text \<open>The JSON and XML detections never both apply, so that their order in \<open>Detect\<close> is immaterial.\<close>

lemma Detect_order:
  "Detect b = (if isXML b then FormatXML else if isJSON b then FormatJSON else FormatBytes)"
  using isJSON_not_isXML by (auto simp: Detect_def)

lemma Detect_formats: "Detect b \<in> {FormatJSON, FormatXML, FormatBytes}"
  by (simp add: Detect_def)

lemma TranslateFormat_Ok:
  "TranslateFormat c message src dst = (Ok out, f) \<Longrightarrow>
     f = (if dst \<in> {'''', ''same''} then src else dst)"
  by (auto simp: TranslateFormat_def format_defs split: if_splits sum.splits)

lemma TranslateFormat_pairs:
  "TranslateFormat c message src dst = (Ok out, f) \<Longrightarrow>
     dst \<in> {'''', ''same'', src} \<or> (src, dst) \<in> {(FormatXML, FormatJSON), (FormatJSON, FormatXML)}"
  by (auto simp: TranslateFormat_def split: if_splits)

lemma TranslateFormat_Err: "TranslateFormat c message src dst = (Err e, f) \<Longrightarrow> f = src"
  by (auto simp: TranslateFormat_def split: if_splits sum.splits)

text \<open>
  Leading JSON/XML white space never changes the format a message is classified as, and
  a message that starts with a JSON token is never classified as XML.
\<close>

theorem Detect_correct:
  assumes "set w \<subseteq> {CHR '' '', CHR 0x09, CHR 0x0A, CHR 0x0D}"
  shows "Detect (w @ b) = Detect b
    \<and> Detect b = (if isXML b then FormatXML else if isJSON b then FormatJSON else FormatBytes)"
proof (rule conjI [OF _ Detect_order])
  have "isJSON (w @ b) = isJSON b" "isXML (w @ b) = isXML b"
    using assms by (simp_all only: isJSON_def isXML_def trimLeftSpace_append)
  then show "Detect (w @ b) = Detect b" by (simp add: Detect_def)
qed

theorem Detect_correct_witness:
  "Detect ('' '' @ ''<a/>'') = FormatXML \<and> Detect ('' '' @ ''{}'') = FormatJSON"
  using Detect_correct [of "'' ''" "''<a/>''"] Detect_correct [of "'' ''" "''{}''"]
  by (simp add: Detect_def isJSON_def isXML_def byte_between_def)

end
