(* ===== verification/Transform.thy ===== *)
theory Transform
  imports Messages "HOL-Library.Multiset"
begin

text \<open>
  \<open>internal/pipeline/transform.go\<close>: the transform stage, which decodes the message, applies
  the rename, move, mask, set and delete rules in order, and encodes it again.
\<close>

section \<open>Rules\<close>

text \<open>\<open>storage.Transform\<close>, the fields the stage reads.\<close>

record transform =
  TransformType :: string
  SourcePath :: string
  TargetPath :: string
  MaskPattern :: string
  MaskReplace :: string
  SetValue :: string
  Order :: int

datatype rule_error =
    RulePath path_error
  | InvalidMaskPattern string
  | UnknownTransformType string

text \<open>\<open>applyRule\<close> changes \<open>data\<close> in place; the document is returned on the error paths too.\<close>

definition put_result :: "obj \<times> path_error option \<Rightarrow> obj \<times> rule_error option" where
  "put_result r = (fst r, map_option RulePath (snd r))"

definition applyRule :: "codec \<Rightarrow> obj \<Rightarrow> transform \<Rightarrow> obj \<times> rule_error option" where
  "applyRule c data r =
     (if TransformType r = ''rename'' \<or> TransformType r = ''move'' then
        (case getNestedValue data (SourcePath r) of
           Inl _ \<Rightarrow> (data, None)
         | Inr v \<Rightarrow>
             put_result (setNestedValue (deleteNestedValue data (SourcePath r)) (TargetPath r) v))
      else if TransformType r = ''mask'' then
        (case getNestedValue data (SourcePath r) of
           Inl _ \<Rightarrow> (data, None)
         | Inr v \<Rightarrow>
             (case regexp_ReplaceAll c (MaskPattern r) (sprint_v c v) (MaskReplace r) of
                Inl e \<Rightarrow> (data, Some (InvalidMaskPattern e))
              | Inr s \<Rightarrow> put_result (setNestedValue data (SourcePath r) (VStr s))))
      else if TransformType r = ''set'' then
        put_result (setNestedValue data (SourcePath r) (VStr (SetValue r)))
      else if TransformType r = ''delete'' then
        (deleteNestedValue data (SourcePath r), None)
      else (data, Some (UnknownTransformType (TransformType r))))"

section \<open>Decoding and encoding\<close>

datatype codec_error =
    ParseJson string
  | ParseXml string
  | MarshalFailed string
  | CannotEncode Format

definition decodeStructured :: "codec \<Rightarrow> bytes \<Rightarrow> Format \<Rightarrow> (codec_error, obj option) result" where
  "decodeStructured c message format =
     (if format = FormatJSON then
        (case json_unmarshal_map c message of Inl e \<Rightarrow> Err (ParseJson e) | Inr d \<Rightarrow> Ok d)
      else if format = FormatXML then
        (case mxj_NewMapXml c message of Inl e \<Rightarrow> Err (ParseXml e) | Inr mv \<Rightarrow> Ok mv)
      else Ok None)"

definition encodeStructured :: "codec \<Rightarrow> obj \<Rightarrow> Format \<Rightarrow> (codec_error, bytes) result" where
  "encodeStructured c data format =
     (if format = FormatJSON then
        (case json_marshal_map c (Some data) of Inl e \<Rightarrow> Err (MarshalFailed e) | Inr b \<Rightarrow> Ok b)
      else if format = FormatXML then
        (case mxj_Xml c (Some data) of Inl e \<Rightarrow> Err (MarshalFailed e) | Inr b \<Rightarrow> Ok b)
      else Err (CannotEncode format))"

section \<open>The stage\<close>

text \<open>
  What a stage returns: the new message, its format and the destinations of a \<open>*Result\<close>
  (\<open>None\<close> for \<open>nil\<close>), or an error.
\<close>

type_synonym stage_output = "bytes \<times> Format \<times> string list option"

datatype transform_error =
    TransformCodec codec_error
  | TransformRule string string rule_error

text \<open>
  The rules in order. \<open>sort.SliceStable\<close> by \<open>Order\<close> is the stable \<open>sort_key\<close>; the loop stops at
  the first error.
\<close>

fun applyRules :: "codec \<Rightarrow> obj \<Rightarrow> transform list \<Rightarrow> (transform_error, obj) result" where
  "applyRules c data [] = Ok data"
| "applyRules c data (r # rs) =
     (case applyRule c data r of
        (_, Some e) \<Rightarrow> Err (TransformRule (TransformType r) (SourcePath r) e)
      | (data', None) \<Rightarrow> applyRules c data' rs)"

definition TransformStage_Execute ::
  "codec \<Rightarrow> transform list \<Rightarrow> bytes \<Rightarrow> Format \<Rightarrow> (transform_error, stage_output) result" where
  "TransformStage_Execute c Rules message format =
     (if Rules = [] then Ok (message, format, None)
      else
        (case decodeStructured c message format of
           Inl e \<Rightarrow> Err (TransformCodec e)
         | Inr None \<Rightarrow> Ok (message, format, None)
         | Inr (Some data) \<Rightarrow>
             (case applyRules c data (sort_key Order Rules) of
                Inl e \<Rightarrow> Err e
              | Inr data' \<Rightarrow>
                  (case encodeStructured c data' format of
                     Inl e \<Rightarrow> Err (TransformCodec e)
                   | Inr out \<Rightarrow> Ok (out, format, None)))))"

section \<open>One rule\<close>

lemma get_loop_wf: "any_wf v \<Longrightarrow> get_loop p v ks = Ok w \<Longrightarrow> any_wf w"
proof (induction p v ks rule: get_loop.induct)
  case (2 p v k ks)
  then show ?case
    by (auto split: any.splits option.splits simp del: any_wf.simps dest: obj_wf_lookup)
qed simp

lemma setNestedValue_wf: "obj_wf d \<Longrightarrow> any_wf v \<Longrightarrow> obj_wf (fst (setNestedValue d p v))"
  unfolding setNestedValue_def by (rule set_loop_wf)

lemma deleteNestedValue_wf: "obj_wf d \<Longrightarrow> obj_wf (deleteNestedValue d p)"
  unfolding deleteNestedValue_def by (rule delete_loop_wf)

lemma getNestedValue_wf: "obj_wf d \<Longrightarrow> getNestedValue d p = Ok v \<Longrightarrow> any_wf v"
  unfolding getNestedValue_def by (rule get_loop_wf)

lemmas path_wf = setNestedValue_wf deleteNestedValue_wf getNestedValue_wf

lemma applyRule_wf: "obj_wf d \<Longrightarrow> obj_wf (fst (applyRule c d r))"
  unfolding applyRule_def put_result_def
  by (auto simp del: any_wf.simps(6) simp: path_wf split: sum.split)

lemma applyRules_wf: "obj_wf d \<Longrightarrow> applyRules c d rs = Ok d' \<Longrightarrow> obj_wf d'"
proof (induction rs arbitrary: d)
  case (Cons r rs)
  then show ?case
    using applyRule_wf [of d c r] by (auto split: prod.splits option.splits simp del: any_wf.simps)
qed (simp del: any_wf.simps)

text \<open>A rename is the \<open>move\<close> of the document store.\<close>

lemma applyRule_rename:
  assumes "TransformType r \<in> {''rename'', ''move''}" "lookup_path d (SourcePath r) = Some v"
  shows "applyRule c d r = (d', None) \<longleftrightarrow> doc.move d (SourcePath r) (TargetPath r) = Some d'"
  using assms
  by (auto simp: applyRule_def put_result_def doc.move_def store_path_def lookup_path_def
      split: sum.splits prod.splits option.splits)

text \<open>
  C30. A rename or move rule that succeeds on a document with a value at its source path
  leaves that value at the target path; the source path, when independent of the target,
  is gone; every path independent of both reads what it read before. Without a value at
  the source the document is unchanged.
\<close>

theorem rename_correct:
  assumes "TransformType r \<in> {''rename'', ''move''}" "applyRule c d r = (d', None)"
  shows "case lookup_path d (SourcePath r) of
           None \<Rightarrow> d' = d
         | Some v \<Rightarrow>
             lookup_path d' (TargetPath r) = Some v
             \<and> (indep_paths (SourcePath r) (TargetPath r) \<longrightarrow> lookup_path d' (SourcePath r) = None)
             \<and> (\<forall>q. indep_paths (SourcePath r) q \<longrightarrow> indep_paths (TargetPath r) q \<longrightarrow>
                  lookup_path d' q = lookup_path d q)"
proof (cases "lookup_path d (SourcePath r)")
  case None
  with assms show ?thesis
    by (auto simp: applyRule_def lookup_path_def split: sum.splits)
next
  case (Some v)
  have mv: "doc.move d (SourcePath r) (TargetPath r) = Some d'"
    using applyRule_rename [OF assms(1) Some] assms(2) by blast
  show ?thesis
    using doc.move_target [OF Some mv] doc.move_source [OF Some mv] doc.move_frame [OF mv]
    by (simp add: Some)
qed

definition sample_rule :: "string \<Rightarrow> string \<Rightarrow> string \<Rightarrow> int \<Rightarrow> transform" where
  "sample_rule ty p q n = \<lparr>TransformType = ty, SourcePath = p, TargetPath = q, MaskPattern = '''',
     MaskReplace = '''', SetValue = ''v'', Order = n\<rparr>"

theorem rename_correct_witness:
  "\<forall>c. lookup_path (fst (applyRule c [(''a'', VStr ''x''), (''k'', VNil)]
         (sample_rule ''rename'' ''a'' ''b.c'' 1))) ''b.c'' = Some (VStr ''x'')"
proof
  fix c
  let ?d = "[(''a'', VStr ''x''), (''k'', VNil)]"
  let ?r = "sample_rule ''rename'' ''a'' ''b.c'' 1"
  have "applyRule c ?d ?r = ([(''k'', VNil), (''b'', VObj [(''c'', VStr ''x'')])], None)"
    by (simp add: applyRule_def put_result_def getNestedValue_def setNestedValue_def
        deleteNestedValue_def path_keys_def sample_rule_def)
  with rename_correct [of ?r c ?d "[(''k'', VNil), (''b'', VObj [(''c'', VStr ''x'')])]"]
  show "lookup_path (fst (applyRule c ?d ?r)) ''b.c'' = Some (VStr ''x'')"
    by (simp add: lookup_path_def getNestedValue_def path_keys_def sample_rule_def)
qed

section \<open>The whole stage\<close>

text \<open>
  The stage applies its rules by ascending \<open>Order\<close>: when no two rules share an \<open>Order\<close>, the
  outcome does not depend on the sequence in which the rules are stored.
\<close>

theorem transform_order_independent:
  assumes "mset Rules = mset Rules'" "inj_on Order (set Rules)"
  shows "TransformStage_Execute c Rules message format = TransformStage_Execute c Rules' message format"
proof -
  have empty: "Rules = [] \<longleftrightarrow> Rules' = []" using assms(1) by auto
  have sorted: "sort_key Order Rules = sort_key Order Rules'"
    using assms by (intro sort_key_inj_key_eq) simp_all
  show ?thesis unfolding TransformStage_Execute_def empty sorted ..
qed

theorem transform_order_independent_witness:
  "\<forall>c m. TransformStage_Execute c
       [sample_rule ''set'' ''a'' '''' 2, sample_rule ''delete'' ''a'' '''' 1] m FormatJSON =
     TransformStage_Execute c
       [sample_rule ''delete'' ''a'' '''' 1, sample_rule ''set'' ''a'' '''' 2] m FormatJSON"
  by (intro allI transform_order_independent) (auto simp: sample_rule_def add_mset_commute)

text \<open>The stage never changes the format and never routes.\<close>

lemma TransformStage_keeps_format:
  "TransformStage_Execute c Rules message format = Ok (out, f, r) \<Longrightarrow> f = format \<and> r = None"
  by (auto simp: TransformStage_Execute_def split: if_splits sum.splits option.splits)

end
