(* ===== verification/Filter_Stage.thy ===== *)
theory Filter_Stage
  imports Transform
begin

text \<open>
  \<open>internal/pipeline/filter.go\<close>: the filter stage, which removes dotted paths from a JSON
  message and elements by tag from an XML message.
\<close>

section \<open>XML elements\<close>

text \<open>
  \<open>removeXMLElements\<close> walks the elements below one element: a child in the given name space
  with the given tag is removed with all it holds, any other child element is walked. The
  loop runs over \<open>ChildElements()\<close>, a copy, so that \<open>RemoveChild\<close> does not disturb it.
\<close>

fun removeXMLElements :: "string \<Rightarrow> string \<Rightarrow> xml_node \<Rightarrow> xml_node"
  and remove_among :: "string \<Rightarrow> string \<Rightarrow> xml_node list \<Rightarrow> xml_node list" where
  "removeXMLElements ns t (Elem s u a cs) = Elem s u a (remove_among ns t cs)"
| "removeXMLElements ns t (Token b) = Token b"
| "remove_among ns t [] = []"
| "remove_among ns t (Token b # cs) = Token b # remove_among ns t cs"
| "remove_among ns t (Elem s u a ds # cs) =
     (if s = ns \<and> u = t then remove_among ns t cs
      else removeXMLElements ns t (Elem s u a ds) # remove_among ns t cs)"

text \<open>\<open>doc.Root()\<close>: the first element of the document.\<close>

fun doc_Root :: "xml_node list \<Rightarrow> xml_node option" where
  "doc_Root [] = None"
| "doc_Root (Token b # ns) = doc_Root ns"
| "doc_Root (Elem s u a cs # ns) = Some (Elem s u a cs)"

text \<open>The root element is changed in place.\<close>

fun update_Root :: "(xml_node \<Rightarrow> xml_node) \<Rightarrow> xml_node list \<Rightarrow> xml_node list" where
  "update_Root f [] = []"
| "update_Root f (Token b # ns) = Token b # update_Root f ns"
| "update_Root f (Elem s u a cs # ns) = f (Elem s u a cs) # ns"

section \<open>The stage\<close>

datatype filter_error =
    FilterParseJson string
  | FilterMarshalJson string
  | FilterParseXml string
  | FilterWriteXml string

definition FilterStage_Execute ::
  "codec \<Rightarrow> string list \<Rightarrow> bytes \<Rightarrow> Format \<Rightarrow> (filter_error, stage_output) result" where
  "FilterStage_Execute c Paths message format =
     (if Paths = [] then Ok (message, format, None)
      else if format = FormatJSON then
        (case json_unmarshal_map c message of
           Inl e \<Rightarrow> Err (FilterParseJson e)
         | Inr data \<Rightarrow>
             (case json_marshal_map c (map_option (\<lambda>d. removeJSONPaths d Paths) data) of
                Inl e \<Rightarrow> Err (FilterMarshalJson e)
              | Inr out \<Rightarrow> Ok (out, format, None)))
      else if format = FormatXML then
        (case etree_Read c message of
           Inl e \<Rightarrow> Err (FilterParseXml e)
         | Inr doc \<Rightarrow>
             (case doc_Root doc of
                None \<Rightarrow> Ok (message, format, None)
              | Some root \<Rightarrow>
                  (case etree_Write c
                          (update_Root (\<lambda>r. fold (removeXMLElements (space root)) Paths r) doc) of
                     Inl e \<Rightarrow> Err (FilterWriteXml e)
                   | Inr out \<Rightarrow> Ok (out, format, None))))
      else Ok (message, format, None))"

section \<open>What is removed\<close>

text \<open>Removing the elements of a set of tags in one pass: the specification.\<close>

fun strip :: "string \<Rightarrow> string set \<Rightarrow> xml_node \<Rightarrow> xml_node"
  and strip_among :: "string \<Rightarrow> string set \<Rightarrow> xml_node list \<Rightarrow> xml_node list" where
  "strip ns T (Elem s u a cs) = Elem s u a (strip_among ns T cs)"
| "strip ns T (Token b) = Token b"
| "strip_among ns T [] = []"
| "strip_among ns T (Token b # cs) = Token b # strip_among ns T cs"
| "strip_among ns T (Elem s u a ds # cs) =
     (if s = ns \<and> u \<in> T then strip_among ns T cs
      else strip ns T (Elem s u a ds) # strip_among ns T cs)"

lemma remove_strip:
  "removeXMLElements ns t (strip ns T n) = strip ns (insert t T) n"
  "remove_among ns t (strip_among ns T ns') = strip_among ns (insert t T) ns'"
  by (induction ns T n and ns T ns' rule: strip_strip_among.induct) auto

lemma remove_all_strip: "fold (removeXMLElements ns) ts (strip ns T n) = strip ns (set ts \<union> T) n"
  by (induction ts arbitrary: T) (simp_all add: remove_strip)

text \<open>The elements strictly below an element, as pairs of name space and tag.\<close>

fun elems_below :: "xml_node \<Rightarrow> (string \<times> string) set"
  and elems_among :: "xml_node list \<Rightarrow> (string \<times> string) set" where
  "elems_below (Elem s u a cs) = elems_among cs"
| "elems_below (Token b) = {}"
| "elems_among [] = {}"
| "elems_among (Token b # cs) = elems_among cs"
| "elems_among (Elem s u a ds # cs) = insert (s, u) (elems_below (Elem s u a ds) \<union> elems_among cs)"

lemma strip_gone:
  "elems_below (strip ns T n) \<subseteq> elems_below n - {ns} \<times> T"
  "elems_among (strip_among ns T ns') \<subseteq> elems_among ns' - {ns} \<times> T"
  by (induction ns T n and ns T ns' rule: strip_strip_among.induct) auto

text \<open>An element none of whose descendants is to be removed is kept as it is.\<close>

lemma strip_frame:
  "elems_below n \<inter> {ns} \<times> T = {} \<Longrightarrow> strip ns T n = n"
  "elems_among ns' \<inter> {ns} \<times> T = {} \<Longrightarrow> strip_among ns T ns' = ns'"
  by (induction ns T n and ns T ns' rule: strip_strip_among.induct) auto

lemma strip_empty: "strip ns {} n = n"
  by (simp add: strip_frame)

text \<open>
  C32. On an XML message the filter stage's repeated tree walks amount to one pass that
  removes, below the root, exactly the elements in the root's name space whose tag is
  listed: the message it returns is the one \<open>etree\<close> writes for that document, no listed
  element is left in it, and a document with none is written unchanged.
\<close>

theorem filter_xml_correct:
  assumes "Paths \<noteq> []" "etree_Read c message = Ok doc" "doc_Root doc = Some root"
  shows "FilterStage_Execute c Paths message FormatXML =
      (case etree_Write c (update_Root (strip (space root) (set Paths)) doc) of
         Inl e \<Rightarrow> Err (FilterWriteXml e) | Inr out \<Rightarrow> Ok (out, FormatXML, None))
    \<and> elems_below (strip (space root) (set Paths) root) \<subseteq> elems_below root - {space root} \<times> set Paths
    \<and> (elems_below root \<inter> {space root} \<times> set Paths = {} \<longrightarrow> strip (space root) (set Paths) root = root)"
proof -
  have "fold (removeXMLElements ns) Paths = strip ns (set Paths)" for ns
    using remove_all_strip [of ns Paths "{}"] by (simp add: strip_empty fun_eq_iff)
  with assms show ?thesis
    by (simp add: FilterStage_Execute_def strip_gone strip_frame)
qed

text \<open>
  A path of the stage is compared with whole tags, and no tag has a slash in it: an XPath such as
  \<open>//user/password\<close> removes nothing.
\<close>

lemma xpath_removes_nothing:
  assumes "\<And>s u. (s, u) \<in> elems_below root \<Longrightarrow> CHR ''/'' \<notin> set u" "\<And>p. p \<in> set Paths \<Longrightarrow> CHR ''/'' \<in> set p"
  shows "fold (removeXMLElements ns) Paths root = root"
proof -
  have "elems_below root \<inter> {ns} \<times> set Paths = {}" using assms by blast
  then show ?thesis
    using remove_all_strip [of ns Paths "{}" root] by (simp add: strip_empty strip_frame)
qed

lemma FilterStage_keeps_format:
  "FilterStage_Execute c Paths message format = Ok (out, f, r) \<Longrightarrow> f = format \<and> r = None"
  by (auto simp: FilterStage_Execute_def split: if_splits sum.splits option.splits)

text \<open>
  In the message the filter stage returns for a JSON object, none of the listed paths
  has a value. The codec is assumed to read back the paths it wrote: a marshalled object
  unmarshals to an object with values at the same paths.
\<close>

definition json_paths_read_back :: "codec \<Rightarrow> bool" where
  "json_paths_read_back c \<longleftrightarrow>
     (\<forall>m b. json_marshal c (VObj m) = Ok b \<longrightarrow>
        (\<exists>m'. json_unmarshal c b = Ok (VObj m')
            \<and> (\<forall>q. lookup_path m' q = None \<longleftrightarrow> lookup_path m q = None)))"

theorem filter_json_hides:
  assumes "json_paths_read_back c" "json_unmarshal c message = Ok (VObj d)"
    and "FilterStage_Execute c Paths message FormatJSON = Ok (out, f, r)" "p \<in> set Paths"
  shows "\<exists>m. json_unmarshal c out = Ok (VObj m) \<and> lookup_path m p = None"
proof -
  have "json_marshal c (VObj (removeJSONPaths d Paths)) = Ok out"
    using assms(2-4)
    by (auto simp: FilterStage_Execute_def json_unmarshal_map_def json_marshal_map_def
        split: sum.splits if_splits)
  with assms(1) obtain m where "json_unmarshal c out = Ok (VObj m)"
    "lookup_path m p = None \<longleftrightarrow> lookup_path (removeJSONPaths d Paths) p = None"
    unfolding json_paths_read_back_def by blast
  moreover have "lookup_path (removeJSONPaths d Paths) p = None"
    unfolding removeJSONPaths_def using assms(4) doc.dels_gone doc.below_refl by blast
  ultimately show ?thesis by blast
qed

text \<open>A codec that knows a few documents, for the witnesses.\<close>

definition sample_codec :: codec where
  "sample_codec =
     \<lparr>json_unmarshal = (\<lambda>b. if b = ''full'' then Ok (VObj [(''a'', VStr ''s''), (''k'', VNil)])
                            else if b = ''part'' then Ok (VObj [(''k'', VNil)])
                            else if b = ''named'' then Ok (VObj [(''k'', VStr ''v'')])
                            else if b = ''schema'' then
                              Ok (VObj [(''type'', VStr ''object''), (''required'', VArr [VStr ''k''])])
                            else Err ''bad''),
      json_type_error = (\<lambda>v. ''type''),
      json_marshal = (\<lambda>v. if v = VObj [(''k'', VNil)] then Ok ''part'' else Err ''unknown''),
      mxj_NewMapXml = (\<lambda>b. Err ''xml''), mxj_Xml = (\<lambda>m. Err ''xml''),
      etree_Read = (\<lambda>b. if b = ''<r/>'' then Ok [Elem '''' ''r'' '''' [Elem '''' ''x'' '''' [], Token ''t'']] else Err ''xml''),
      etree_Write = (\<lambda>d. if d = [Elem '''' ''r'' '''' [Token ''t'']] then Ok ''<r>t</r>'' else Err ''xml''),
      xml_well_formed = (\<lambda>b. None), sprint_v = (\<lambda>v. case v of VStr s \<Rightarrow> s | _ \<Rightarrow> ''<nil>''),
      regexp_MatchString = (\<lambda>p s. Err ''regexp''), regexp_ReplaceAll = (\<lambda>p s t. Err ''regexp''),
      parse_float = (\<lambda>s. None), float_less = (\<lambda>x y. False),
      base64_Decode = (\<lambda>s. None), fds_Unmarshal = (\<lambda>b. Err ''fds''),
      protodesc_NewFiles = (\<lambda>f. Err ''files''), proto_Find = (\<lambda>f n. Err ''find''),
      proto_Unmarshal = (\<lambda>f n b. Err ''proto''), proto_Marshal = (\<lambda>m. Err ''proto''),
      protojson_Marshal = (\<lambda>m. Err ''proto''), protojson_Unmarshal = (\<lambda>f n b. Err ''proto'')\<rparr>"

theorem filter_json_hides_witness:
  "json_paths_read_back sample_codec
   \<and> FilterStage_Execute sample_codec [''a''] ''full'' FormatJSON = Ok (''part'', FormatJSON, None)
   \<and> (\<exists>m. json_unmarshal sample_codec ''part'' = Ok (VObj m) \<and> lookup_path m ''a'' = None)"
proof -
  have c: "json_paths_read_back sample_codec"
    by (simp add: json_paths_read_back_def sample_codec_def)
  have e: "FilterStage_Execute sample_codec [''a''] ''full'' FormatJSON = Ok (''part'', FormatJSON, None)"
    by (simp add: FilterStage_Execute_def sample_codec_def json_unmarshal_map_def json_marshal_map_def
        removeJSONPaths_def deleteNestedValue_def path_keys_def)
  have "json_unmarshal sample_codec ''full'' = Ok (VObj [(''a'', VStr ''s''), (''k'', VNil)])"
    by (simp add: sample_codec_def)
  from filter_json_hides [OF c this e, of "''a''"] c e show ?thesis by simp
qed

theorem filter_xml_correct_witness:
  "FilterStage_Execute sample_codec [''x''] ''<r/>'' FormatXML = Ok (''<r>t</r>'', FormatXML, None)"
  using filter_xml_correct [of "[''x'']" sample_codec "''<r/>''"
      "[Elem '''' ''r'' '''' [Elem '''' ''x'' '''' [], Token ''t'']]"
      "Elem '''' ''r'' '''' [Elem '''' ''x'' '''' [], Token ''t'']"]
  by (simp add: sample_codec_def)

end
