(* ===== verification/Validate.thy ===== *)
theory Validate
  imports Filter_Stage
begin

text \<open>
  \<open>internal/pipeline/validate.go\<close> and the parts of \<open>format_protobuf.go\<close> it calls: the
  validate stage, which accepts or rejects a message against a small JSON schema, a list of
  required XML elements or a protobuf descriptor.
\<close>

section \<open>Protobuf schemas\<close>

record ProtoSchema =
  proto_files :: nat
  messageName :: string

datatype proto_error =
    DescriptorEmpty
  | MessageNameEmpty
  | UnmarshalDescriptor string
  | RegisterFiles string
  | FindMessage string string
  | NotAMessage string
  | ResolveFailed string
  | ResolvedNonMessage string
  | ProtoValidate string
  | ProtoToJsonUnmarshal string
  | ProtoToJsonMarshal string
  | JsonToProtoUnmarshal string
  | JsonToProtoMarshal string

definition LoadProtoSchema :: "codec \<Rightarrow> string \<Rightarrow> string \<Rightarrow> (proto_error, ProtoSchema) result" where
  "LoadProtoSchema c descriptorBase64 name =
     (let d = TrimSpace descriptorBase64; n = TrimSpace name in
      if d = '''' then Err DescriptorEmpty
      else if n = '''' then Err MessageNameEmpty
      else
        (let raw = (case base64_Decode c d of None \<Rightarrow> d | Some b \<Rightarrow> b) in
         (case fds_Unmarshal c raw of
            Inl e \<Rightarrow> Err (UnmarshalDescriptor e)
          | Inr fds \<Rightarrow>
              (case protodesc_NewFiles c fds of
                 Inl e \<Rightarrow> Err (RegisterFiles e)
               | Inr files \<Rightarrow>
                   (case proto_Find c files n of
                      Inl e \<Rightarrow> Err (FindMessage n e)
                    | Inr is_message \<Rightarrow>
                        if is_message then Ok \<lparr>proto_files = files, messageName = n\<rparr>
                        else Err (NotAMessage n))))))"

text \<open>\<open>newMessage\<close> only reports whether the name still resolves to a message.\<close>

definition newMessage :: "codec \<Rightarrow> ProtoSchema \<Rightarrow> proto_error option" where
  "newMessage c s =
     (case proto_Find c (proto_files s) (messageName s) of
        Inl e \<Rightarrow> Some (ResolveFailed e)
      | Inr is_message \<Rightarrow> if is_message then None else Some (ResolvedNonMessage (messageName s)))"

definition ProtoSchema_Validate :: "codec \<Rightarrow> ProtoSchema \<Rightarrow> bytes \<Rightarrow> proto_error option" where
  "ProtoSchema_Validate c s body =
     (case newMessage c s of
        Some e \<Rightarrow> Some e
      | None \<Rightarrow>
          (case proto_Unmarshal c (proto_files s) (messageName s) body of
             Inl e \<Rightarrow> Some (ProtoValidate e)
           | Inr _ \<Rightarrow> None))"

section \<open>JSON schemas\<close>

datatype schema_error =
    ExpectedType string
  | ExpectedObject
  | RequiredMissing string
  | InField string schema_error

definition checkType :: "any \<Rightarrow> string \<Rightarrow> schema_error option" where
  "checkType v expected =
     (let no = Some (ExpectedType expected) in
      if expected = ''object'' then (case v of VObj _ \<Rightarrow> None | _ \<Rightarrow> no)
      else if expected = ''array'' then (case v of VArr _ \<Rightarrow> None | _ \<Rightarrow> no)
      else if expected = ''string'' then (case v of VStr _ \<Rightarrow> None | _ \<Rightarrow> no)
      else if expected = ''number'' \<or> expected = ''integer'' then (case v of VNum _ \<Rightarrow> None | _ \<Rightarrow> no)
      else if expected = ''boolean'' then (case v of VBool _ \<Rightarrow> None | _ \<Rightarrow> no)
      else None)"

text \<open>A \<open>required\<close> entry that is not a string counts as the empty name.\<close>

definition required_name :: "any \<Rightarrow> string" where
  "required_name v = (case v of VStr s \<Rightarrow> s | _ \<Rightarrow> '''')"

fun check_required :: "obj \<Rightarrow> any list \<Rightarrow> schema_error option" where
  "check_required m [] = None"
| "check_required m (v # vs) =
     (case map_of m (required_name v) of
        None \<Rightarrow> Some (RequiredMissing (required_name v))
      | Some _ \<Rightarrow> check_required m vs)"

definition check_schema_type :: "any \<Rightarrow> obj \<Rightarrow> schema_error option" where
  "check_schema_type v schema =
     (case map_of schema ''type'' of Some (VStr t) \<Rightarrow> checkType v t | _ \<Rightarrow> None)"

definition check_schema_required :: "any \<Rightarrow> obj \<Rightarrow> schema_error option" where
  "check_schema_required v schema =
     (case map_of schema ''required'' of
        Some (VArr req) \<Rightarrow>
          (case v of VObj m \<Rightarrow> check_required m req | _ \<Rightarrow> Some ExpectedObject)
      | _ \<Rightarrow> None)"

text \<open>
  Go ranges over \<open>properties\<close> in an unspecified order; the model takes the order of the list,
  which decides which error is reported, never whether there is one (below).
\<close>

lemma size_map_of: "map_of m k = Some v \<Longrightarrow> size v < size (VObj m)"
  by (induction m) (auto split: if_splits)

function walkSchema :: "any \<Rightarrow> obj \<Rightarrow> schema_error option"
  and walk_props :: "obj \<Rightarrow> (string \<times> any) list \<Rightarrow> schema_error option" where
  "walkSchema v schema =
     (case check_schema_type v schema of
        Some e \<Rightarrow> Some e
      | None \<Rightarrow>
          (case check_schema_required v schema of
             Some e \<Rightarrow> Some e
           | None \<Rightarrow>
               (case map_of schema ''properties'' of
                  Some (VObj props) \<Rightarrow> (case v of VObj m \<Rightarrow> walk_props m props | _ \<Rightarrow> None)
                | _ \<Rightarrow> None)))"
| "walk_props m [] = None"
| "walk_props m ((k, sub) # ps) =
     (case sub of
        VObj subMap \<Rightarrow>
          (case map_of m k of
             None \<Rightarrow> walk_props m ps
           | Some v \<Rightarrow>
               (case walkSchema v subMap of
                  Some e \<Rightarrow> Some (InField k e)
                | None \<Rightarrow> walk_props m ps))
      | _ \<Rightarrow> walk_props m ps)"
  by pat_completeness auto
termination
  by (relation "measure (\<lambda>x. case x of Inl (v, s) \<Rightarrow> size (VObj s) | Inr (m, ps) \<Rightarrow> size (VObj ps))")
    (auto dest: size_map_of)

declare walkSchema.simps [simp del]

section \<open>Conformance\<close>

text \<open>
  What a schema demands, stated over the set of its properties: the type, the required names,
  and every property the value has, recursively. A type name other than these six and a \<open>type\<close>
  that is not a string demand nothing; a \<open>required\<close> entry that is not a string stands for the
  empty name.
\<close>

definition has_type :: "any \<Rightarrow> string \<Rightarrow> bool" where
  "has_type v t \<longleftrightarrow>
     (t = ''object'' \<longrightarrow> (\<exists>m. v = VObj m)) \<and> (t = ''array'' \<longrightarrow> (\<exists>xs. v = VArr xs))
   \<and> (t = ''string'' \<longrightarrow> (\<exists>s. v = VStr s)) \<and> (t = ''boolean'' \<longrightarrow> (\<exists>b. v = VBool b))
   \<and> (t = ''number'' \<or> t = ''integer'' \<longrightarrow> (\<exists>n. v = VNum n))"

definition has_required :: "any \<Rightarrow> any list \<Rightarrow> bool" where
  "has_required v req \<longleftrightarrow>
     (\<exists>m. v = VObj m \<and> (\<forall>s. VStr s \<in> set req \<longrightarrow> (\<exists>w. map_of m s = Some w))
        \<and> ((\<exists>x\<in>set req. \<forall>s. x \<noteq> VStr s) \<longrightarrow> (\<exists>w. map_of m [] = Some w)))"

inductive conforms :: "any \<Rightarrow> obj \<Rightarrow> bool" where
  conformsI:
    "(\<And>t. map_of schema ''type'' = Some (VStr t) \<Longrightarrow> has_type v t) \<Longrightarrow>
     (\<And>req. map_of schema ''required'' = Some (VArr req) \<Longrightarrow> has_required v req) \<Longrightarrow>
     (\<And>m props k sub w. v = VObj m \<Longrightarrow> map_of schema ''properties'' = Some (VObj props) \<Longrightarrow>
        (k, VObj sub) \<in> set props \<Longrightarrow> map_of m k = Some w \<Longrightarrow> conforms w sub) \<Longrightarrow>
     conforms v schema"

lemma checkType_has_type: "checkType v t = None \<longleftrightarrow> has_type v t"
  by (cases v) (auto simp: checkType_def has_type_def Let_def)

lemma check_type_iff:
  "check_schema_type v schema = None \<longleftrightarrow> (\<forall>t. map_of schema ''type'' = Some (VStr t) \<longrightarrow> has_type v t)"
  by (auto simp: check_schema_type_def checkType_has_type split: option.split any.split)

lemma check_required_iff: "check_required m req = None \<longleftrightarrow> required_name ` set req \<subseteq> dom (map_of m)"
  by (induction req) (auto split: option.splits)

lemma check_required_has: "check_required m req = None \<longleftrightarrow> has_required (VObj m) req"
proof -
  have "required_name x \<in> dom (map_of m) \<longleftrightarrow>
      (\<forall>s. x = VStr s \<longrightarrow> (\<exists>w. map_of m s = Some w)) \<and> ((\<forall>s. x \<noteq> VStr s) \<longrightarrow> (\<exists>w. map_of m [] = Some w))" for x
    by (cases x) (auto simp: required_name_def)
  then show ?thesis unfolding check_required_iff has_required_def by (auto simp: image_subset_iff)
qed

lemma check_required_schema_iff:
  "check_schema_required v schema = None \<longleftrightarrow> (\<forall>req. map_of schema ''required'' = Some (VArr req) \<longrightarrow> has_required v req)"
  by (cases v) (auto simp: check_schema_required_def check_required_has has_required_def split: option.split any.split)

lemma conforms_iff:
  "conforms v schema \<longleftrightarrow>
     check_schema_type v schema = None \<and> check_schema_required v schema = None
     \<and> (\<forall>m props k sub w. v = VObj m \<longrightarrow> map_of schema ''properties'' = Some (VObj props) \<longrightarrow>
          (k, VObj sub) \<in> set props \<longrightarrow> map_of m k = Some w \<longrightarrow> conforms w sub)"
  unfolding check_type_iff check_required_schema_iff by (subst conforms.simps) blast

lemma walk_conforms:
  "walkSchema v schema = None \<longleftrightarrow> conforms v schema"
  "walk_props m ps = None \<longleftrightarrow>
     (\<forall>k sub w. (k, VObj sub) \<in> set ps \<longrightarrow> map_of m k = Some w \<longrightarrow> conforms w sub)"
proof (induction v schema and m ps rule: walkSchema_walk_props.induct)
  case (1 v schema)
  show ?case
  proof (cases "\<exists>m props. v = VObj m \<and> map_of schema ''properties'' = Some (VObj props)")
    case True
    then obtain m props where "v = VObj m" "map_of schema ''properties'' = Some (VObj props)" by blast
    with "1.IH" show ?thesis
      by (subst walkSchema.simps, subst conforms_iff) (simp split: option.splits)
  next
    case False
    then show ?thesis
      by (subst walkSchema.simps, subst conforms_iff) (auto split: option.splits any.splits)
  qed
next
  case (3 m k sub ps)
  show ?case
  proof (cases "\<exists>subMap w. sub = VObj subMap \<and> map_of m k = Some w")
    case True
    then obtain subMap w where s: "sub = VObj subMap" "map_of m k = Some w" by blast
    have iff: "walkSchema w subMap = None \<longleftrightarrow> conforms w subMap" using "3.IH"(7) [OF s] .
    show ?thesis
    proof (cases "walkSchema w subMap")
      case None
      from "3.IH"(8) [OF s None] have "walk_props m ps = None \<longleftrightarrow>
          (\<forall>k sub w. (k, VObj sub) \<in> set ps \<longrightarrow> map_of m k = Some w \<longrightarrow> conforms w sub)" .
      with None s iff show ?thesis by (simp, metis option.inject)
    next
      case (Some e)
      with s iff show ?thesis by auto
    qed
  next
    case False
    with 3 show ?thesis by (auto split: option.splits any.splits)
  qed
qed auto

text \<open>
  Only \<open>type\<close>, \<open>required\<close> and \<open>properties\<close> are looked at: other keywords of JSON Schema demand
  nothing.
\<close>

lemma conforms_keywords:
  assumes "\<And>k. k \<in> {''type'', ''required'', ''properties''} \<Longrightarrow> map_of schema k = map_of schema' k"
  shows "conforms v schema \<longleftrightarrow> conforms v schema'"
  by (subst (1 2) conforms.simps) (simp add: assms)

text \<open>Acceptance therefore does not depend on the order in which properties are visited.\<close>

lemma walk_props_order: "set ps = set qs \<Longrightarrow> walk_props m ps = None \<longleftrightarrow> walk_props m qs = None"
  by (simp add: walk_conforms(2))

section \<open>The checks of the stage\<close>

datatype validate_error =
    JsonSchemaNeedsJson
  | InvalidJson string
  | InvalidSchema string
  | SchemaViolation schema_error
  | XsdNeedsXml
  | MalformedXml string
  | ElementMissing string
  | ValidateProto proto_error
  | UnknownSchemaType string

definition validateJSONSchema :: "codec \<Rightarrow> bytes \<Rightarrow> string \<Rightarrow> validate_error option" where
  "validateJSONSchema c message schemaContent =
     (case json_unmarshal c message of
        Inl e \<Rightarrow> Some (InvalidJson e)
      | Inr data \<Rightarrow>
          (case json_unmarshal_map c schemaContent of
             Inl e \<Rightarrow> Some (InvalidSchema e)
           | Inr schema \<Rightarrow>
               map_option SchemaViolation
                 (walkSchema data (case schema of None \<Rightarrow> [] | Some s \<Rightarrow> s))))"

definition parseRequiredElements :: "string \<Rightarrow> string list" where
  "parseRequiredElements content =
     filter (\<lambda>t. t \<noteq> '''' \<and> \<not> prefix ''#'' t) (map TrimSpace (split_on CHR 0x0A content))"

fun first_missing :: "bytes \<Rightarrow> string list \<Rightarrow> validate_error option" where
  "first_missing s [] = None"
| "first_missing s (e # es) =
     (if sublist (''<'' @ e) s then first_missing s es else Some (ElementMissing e))"

definition validateXMLStructure :: "codec \<Rightarrow> bytes \<Rightarrow> string \<Rightarrow> validate_error option" where
  "validateXMLStructure c message schemaContent =
     (case xml_well_formed c message of
        Some e \<Rightarrow> Some (MalformedXml e)
      | None \<Rightarrow> first_missing message (parseRequiredElements schemaContent))"

record validate_stage =
  SchemaType :: string
  Content :: string
  ProtoMessage :: string

definition ValidateStage_check :: "codec \<Rightarrow> validate_stage \<Rightarrow> bytes \<Rightarrow> Format \<Rightarrow> validate_error option" where
  "ValidateStage_check c s message format =
     (let ty = ToLower (SchemaType s) in
      if ty = ''json_schema'' then
        (if format \<noteq> FormatJSON then Some JsonSchemaNeedsJson
         else validateJSONSchema c message (Content s))
      else if ty = ''xsd'' then
        (if format \<noteq> FormatXML then Some XsdNeedsXml
         else validateXMLStructure c message (Content s))
      else if ty = ''protobuf'' \<or> ty = ''proto'' then
        (case LoadProtoSchema c (Content s) (ProtoMessage s) of
           Inl e \<Rightarrow> Some (ValidateProto e)
         | Inr schema \<Rightarrow> map_option ValidateProto (ProtoSchema_Validate c schema message))
      else Some (UnknownSchemaType (SchemaType s)))"

definition ValidateStage_Execute ::
  "codec \<Rightarrow> validate_stage \<Rightarrow> bytes \<Rightarrow> Format \<Rightarrow> (validate_error, stage_output) result" where
  "ValidateStage_Execute c s message format =
     (if Content s = '''' then Ok (message, format, None)
      else
        (case ValidateStage_check c s message format of
           Some e \<Rightarrow> Err e
         | None \<Rightarrow> Ok (message, format, None)))"

lemma first_missing_iff: "first_missing s es = None \<longleftrightarrow> (\<forall>e \<in> set es. sublist (''<'' @ e) s)"
  by (induction es) auto

lemma ValidateStage_keeps_message:
  "ValidateStage_Execute c s message format = Ok (out, f, r) \<Longrightarrow> out = message \<and> f = format \<and> r = None"
  by (auto simp: ValidateStage_Execute_def split: if_splits option.splits)

text \<open>
  C34. A JSON-schema validate stage lets a JSON message through, unchanged, exactly when the
  message decodes and conforms to the schema, of which the type, the required names and the
  properties are read, recursively; whether it does is independent of the order in which Go
  visits the properties. No other keyword of JSON Schema is checked, and an integer is any number.
\<close>

theorem validate_json_correct:
  assumes "ToLower (SchemaType s) = ''json_schema''" "Content s \<noteq> ''''"
    and "json_unmarshal c (Content s) = Ok (VObj schema)"
  shows "ValidateStage_Execute c s message FormatJSON = Ok (message, FormatJSON, None) \<longleftrightarrow>
      (\<exists>data. json_unmarshal c message = Ok data \<and> conforms data schema)"
  using assms
  by (auto simp: ValidateStage_Execute_def ValidateStage_check_def validateJSONSchema_def
      json_unmarshal_map_def walk_conforms(1) [symmetric] split: sum.splits option.splits)

theorem validate_json_correct_witness:
  "ValidateStage_Execute sample_codec
     \<lparr>SchemaType = ''JSON_Schema'', Content = ''schema'', ProtoMessage = ''''\<rparr> ''named'' FormatJSON =
   Ok (''named'', FormatJSON, None)"
proof -
  have "walkSchema (VObj [(''k'', VStr ''v'')]) [(''type'', VStr ''object''), (''required'', VArr [VStr ''k''])] = None"
    by (subst walkSchema.simps)
      (simp add: check_schema_type_def check_schema_required_def checkType_def required_name_def)
  then have "conforms (VObj [(''k'', VStr ''v'')]) [(''type'', VStr ''object''), (''required'', VArr [VStr ''k''])]"
    by (simp add: walk_conforms(1))
  moreover have "ToLower ''JSON_Schema'' = ''json_schema''" by code_simp
  ultimately show ?thesis
    using validate_json_correct [of "\<lparr>SchemaType = ''JSON_Schema'', Content = ''schema'', ProtoMessage = ''''\<rparr>"
        sample_codec "[(''type'', VStr ''object''), (''required'', VArr [VStr ''k''])]" "''named''"]
    by (simp add: sample_codec_def)
qed

end
