(* ===== verification/Translate.thy ===== *)
theory Translate
  imports Validate
begin

text \<open>
  \<open>internal/pipeline/translate.go\<close> and the conversions of \<open>format_protobuf.go\<close>: the translate
  stage.
\<close>

definition ProtoSchema_ToJSON :: "codec \<Rightarrow> ProtoSchema \<Rightarrow> bytes \<Rightarrow> (proto_error, bytes) result" where
  "ProtoSchema_ToJSON c s body =
     (case newMessage c s of
        Some e \<Rightarrow> Err e
      | None \<Rightarrow>
          (case proto_Unmarshal c (proto_files s) (messageName s) body of
             Inl e \<Rightarrow> Err (ProtoToJsonUnmarshal e)
           | Inr msg \<Rightarrow>
               (case protojson_Marshal c msg of
                  Inl e \<Rightarrow> Err (ProtoToJsonMarshal e)
                | Inr out \<Rightarrow> Ok out)))"

definition ProtoSchema_FromJSON :: "codec \<Rightarrow> ProtoSchema \<Rightarrow> bytes \<Rightarrow> (proto_error, bytes) result" where
  "ProtoSchema_FromJSON c s body =
     (case newMessage c s of
        Some e \<Rightarrow> Err e
      | None \<Rightarrow>
          (case protojson_Unmarshal c (proto_files s) (messageName s) body of
             Inl e \<Rightarrow> Err (JsonToProtoUnmarshal e)
           | Inr msg \<Rightarrow>
               (case proto_Marshal c msg of
                  Inl e \<Rightarrow> Err (JsonToProtoMarshal e)
                | Inr out \<Rightarrow> Ok out)))"

datatype translate_stage_error =
    ProtoToJsonNoSchema
  | JsonToProtoNoSchema
  | ToProtoNoSchema Format
  | TranslateProto proto_error
  | TranslateFmt translate_error

record translate_stage =
  Target :: Format
  Proto :: "ProtoSchema option"

definition TranslateStage_Execute ::
  "codec \<Rightarrow> translate_stage \<Rightarrow> bytes \<Rightarrow> Format \<Rightarrow> (translate_stage_error, stage_output) result" where
  "TranslateStage_Execute c s message format =
     (let target = Target s in
      if target = '''' \<or> target = ''same'' \<or> target = format then Ok (message, format, None)
      else if format = FormatProtobuf \<and> target = FormatJSON then
        (case Proto s of
           None \<Rightarrow> Err ProtoToJsonNoSchema
         | Some p \<Rightarrow>
             (case ProtoSchema_ToJSON c p message of
                Inl e \<Rightarrow> Err (TranslateProto e)
              | Inr out \<Rightarrow> Ok (out, FormatJSON, None)))
      else if format = FormatJSON \<and> target = FormatProtobuf then
        (case Proto s of
           None \<Rightarrow> Err JsonToProtoNoSchema
         | Some p \<Rightarrow>
             (case ProtoSchema_FromJSON c p message of
                Inl e \<Rightarrow> Err (TranslateProto e)
              | Inr out \<Rightarrow> Ok (out, FormatProtobuf, None)))
      else if target = FormatProtobuf then Err (ToProtoNoSchema format)
      else
        (case TranslateFormat c message format target of
           (Inl e, _) \<Rightarrow> Err (TranslateFmt e)
         | (Inr out, newFormat) \<Rightarrow> Ok (out, newFormat, None)))"

section \<open>What it converts to\<close>

text \<open>
  The conversions, each by the document the codecs read and write: \<open>converts c p src dst b out\<close>
  says that \<open>out\<close> is the message \<open>b\<close> of format \<open>src\<close> in the format \<open>dst\<close>. JSON's \<open>null\<close> is no
  document (the \<open>nil\<close> map) for the XML writer.
\<close>

inductive converts :: "codec \<Rightarrow> ProtoSchema option \<Rightarrow> Format \<Rightarrow> Format \<Rightarrow> bytes \<Rightarrow> bytes \<Rightarrow> bool" where
  xml_json:
    "mxj_NewMapXml c b = Ok (Some m) \<Longrightarrow> json_marshal c (VObj m) = Ok out \<Longrightarrow> converts c p ''xml'' ''json'' b out"
| xml_json_nil:
    "mxj_NewMapXml c b = Ok None \<Longrightarrow> json_marshal c VNil = Ok out \<Longrightarrow> converts c p ''xml'' ''json'' b out"
| json_xml:
    "json_unmarshal c b = Ok (VObj m) \<Longrightarrow> mxj_Xml c (Some m) = Ok out \<Longrightarrow> converts c p ''json'' ''xml'' b out"
| json_xml_null:
    "json_unmarshal c b = Ok VNil \<Longrightarrow> mxj_Xml c None = Ok out \<Longrightarrow> converts c p ''json'' ''xml'' b out"
| proto_json:
    "proto_Find c fs name = Ok True \<Longrightarrow> proto_Unmarshal c fs name b = Ok msg \<Longrightarrow> protojson_Marshal c msg = Ok out
     \<Longrightarrow> converts c (Some \<lparr>proto_files = fs, messageName = name\<rparr>) ''protobuf'' ''json'' b out"
| json_proto:
    "proto_Find c fs name = Ok True \<Longrightarrow> protojson_Unmarshal c fs name b = Ok msg \<Longrightarrow> proto_Marshal c msg = Ok out
     \<Longrightarrow> converts c (Some \<lparr>proto_files = fs, messageName = name\<rparr>) ''json'' ''protobuf'' b out"

inductive_simps converts_simps:
  "converts c p ''xml'' ''json'' b out" "converts c p ''json'' ''xml'' b out"
  "converts c p ''protobuf'' ''json'' b out" "converts c p ''json'' ''protobuf'' b out"

lemma converts_pairs:
  "converts c p src dst b out \<Longrightarrow> (src, dst) \<in> {(''xml'', ''json''), (''json'', ''xml''), (''protobuf'', ''json''), (''json'', ''protobuf'')}"
  by (induction rule: converts.induct) simp_all

lemma newMessage_Ok:
  "(case newMessage c s of None \<Rightarrow> x | Some e \<Rightarrow> Err e) = Ok out
     \<longleftrightarrow> proto_Find c (proto_files s) (messageName s) = Ok True \<and> x = Ok out"
  by (auto simp: newMessage_def split: sum.splits)

lemma ToJSON_converts:
  "ProtoSchema_ToJSON c s b = Ok out \<longleftrightarrow> converts c (Some s) ''protobuf'' ''json'' b out"
  by (cases s) (auto simp: ProtoSchema_ToJSON_def newMessage_Ok converts_simps split: sum.splits)

lemma FromJSON_converts:
  "ProtoSchema_FromJSON c s b = Ok out \<longleftrightarrow> converts c (Some s) ''json'' ''protobuf'' b out"
  by (cases s) (auto simp: ProtoSchema_FromJSON_def newMessage_Ok converts_simps split: sum.splits)

lemma no_proto_converts:
  "\<not> converts c None ''protobuf'' ''json'' b out" "\<not> converts c None ''json'' ''protobuf'' b out"
  by (simp_all add: converts_simps)

lemma TranslateFormat_converts:
  assumes "dst \<notin> {[], ''same'', src, ''protobuf''}" "\<not> (src = ''protobuf'' \<and> dst = ''json'')"
  shows "TranslateFormat c b src dst = (Ok out, f) \<longleftrightarrow> f = dst \<and> converts c p src dst b out"
proof -
  consider "src = ''xml'' \<and> dst = ''json''" | "src = ''json'' \<and> dst = ''xml''"
    | "(src, dst) \<notin> {(''xml'', ''json''), (''json'', ''xml'')}" by auto
  then show ?thesis
  proof cases
    case 1
    then show ?thesis
      by (auto simp: TranslateFormat_def format_defs json_marshal_map_def converts_simps split: sum.split option.splits)
  next
    case 2
    then show ?thesis
      by (auto simp: TranslateFormat_def format_defs json_unmarshal_map_def converts_simps split: sum.split any.split)
  next
    case 3
    have "\<not> converts c p src dst b out"
    proof
      assume "converts c p src dst b out"
      from converts_pairs [OF this] 3 assms show False by (elim insertE emptyE) simp_all
    qed
    moreover have "TranslateFormat c b src dst = (Err (TranslateUnsupported src dst), src)"
      using 3 assms(1) unfolding TranslateFormat_def format_defs
      by (cases "src = ''xml''"; cases "src = ''json''") simp_all
    ultimately show ?thesis by simp
  qed
qed

text \<open>
  C35. A translate stage succeeds exactly when its target is empty, \<open>same\<close> or the incoming format,
  and then returns the message untouched, or when the codecs convert the message to the target;
  then it returns that conversion, labelled with the target. It never makes a routing decision.
\<close>

theorem translate_correct:
  "TranslateStage_Execute c s message format = Ok (out, f, r) \<longleftrightarrow>
     r = None
     \<and> (if Target s \<in> {[], ''same'', format} then out = message \<and> f = format
        else f = Target s \<and> converts c (Proto s) format (Target s) message out)"
proof -
  consider (noop) "Target s \<in> {[], ''same'', format}"
    | (from_proto) "Target s \<notin> {[], ''same'', format}" "format = ''protobuf''" "Target s = ''json''"
    | (json_proto) "Target s \<notin> {[], ''same'', format}" "format = ''json''" "Target s = ''protobuf''"
    | (to_proto) "Target s \<notin> {[], ''same'', format}" "format \<noteq> ''json''" "Target s = ''protobuf''"
    | (other) "Target s \<notin> {[], ''same'', format}" "Target s \<noteq> ''protobuf''"
        "\<not> (format = ''protobuf'' \<and> Target s = ''json'')"
    by blast
  then show ?thesis
  proof cases
    case noop
    then show ?thesis by (auto simp: TranslateStage_Execute_def)
  next
    case from_proto
    then show ?thesis
      using ToJSON_converts [of c _ message out, symmetric]
      by (cases "Proto s") (auto simp: TranslateStage_Execute_def Let_def format_defs no_proto_converts split: sum.split)
  next
    case json_proto
    then show ?thesis
      using FromJSON_converts [of c _ message out, symmetric]
      by (cases "Proto s") (auto simp: TranslateStage_Execute_def Let_def format_defs no_proto_converts split: sum.split)
  next
    case to_proto
    then show ?thesis
      using converts_pairs [of c "Proto s" format "''protobuf''" message out]
      by (auto simp: TranslateStage_Execute_def Let_def format_defs)
  next
    case other
    then have "TranslateStage_Execute c s message format =
        (case TranslateFormat c message format (Target s) of
           (Inl e, _) \<Rightarrow> Err (TranslateFmt e) | (Inr out, f) \<Rightarrow> Ok (out, f, None))"
      by (auto simp: TranslateStage_Execute_def Let_def format_defs)
    with TranslateFormat_converts [of "Target s" format c message out f "Proto s"] other show ?thesis
      by (auto split: prod.split sum.split)
  qed
qed

text \<open>A codec that reads and writes one document in all three formats.\<close>

definition translating_codec :: codec where
  "translating_codec = sample_codec
     \<lparr>json_unmarshal := (\<lambda>b. if b = ''J'' then Ok (VObj []) else Err ''json''),
      json_marshal := (\<lambda>v. if v = VObj [] then Ok ''J'' else Err ''json''),
      mxj_NewMapXml := (\<lambda>b. if b = ''X'' then Ok (Some []) else Err ''xml''),
      mxj_Xml := (\<lambda>m. if m = Some [] then Ok ''X'' else Err ''xml''),
      proto_Find := (\<lambda>f n. Ok (n = ''M'')),
      proto_Unmarshal := (\<lambda>f n b. if b = ''P'' then Ok 7 else Err ''proto''),
      proto_Marshal := (\<lambda>m. Ok ''P''),
      protojson_Marshal := (\<lambda>m. Ok ''J''),
      protojson_Unmarshal := (\<lambda>f n b. if b = ''J'' then Ok 7 else Err ''proto'')\<rparr>"

theorem translate_correct_witness:
  "TranslateStage_Execute translating_codec \<lparr>Target = ''xml'', Proto = None\<rparr> ''J'' ''json'' = Ok (''X'', ''xml'', None)
   \<and> TranslateStage_Execute translating_codec \<lparr>Target = ''json'', Proto = Some \<lparr>proto_files = 1, messageName = ''M''\<rparr>\<rparr>
       ''P'' ''protobuf'' = Ok (''J'', ''json'', None)
   \<and> \<not> TranslateStage_Execute translating_codec \<lparr>Target = ''xml'', Proto = None\<rparr> ''P'' ''protobuf'' = Ok (''P'', ''xml'', None)"
  unfolding translate_correct
  by (auto simp: converts_simps translating_codec_def dest: converts_pairs)

lemma TranslateStage_no_route:
  "TranslateStage_Execute c s message format = Ok (out, f, r) \<Longrightarrow> r = None"
  unfolding TranslateStage_Execute_def Let_def
  by (auto split: sum.splits option.splits prod.splits if_splits)

end
