(* ===== verification/Route.thy ===== *)
theory Route
  imports Filter_Stage
begin

text \<open>
  \<open>internal/pipeline/route.go\<close>: the route stage, which leaves the message alone and reports
  the destinations of the enabled rules whose condition the message meets.
\<close>

section \<open>Rules and conditions\<close>

text \<open>\<open>storage.RoutingRule\<close>, the fields the stage reads.\<close>

record routing_rule =
  ConditionPath :: string
  ConditionOperator :: string
  ConditionValue :: string
  DestinationID :: string
  Priority :: int
  Enabled :: bool

definition evaluateCondition :: "codec \<Rightarrow> any \<Rightarrow> string \<Rightarrow> string \<Rightarrow> bool" where
  "evaluateCondition c value op conditionValue =
     (let s = sprint_v c value in
      if op = ''eq'' then s = conditionValue
      else if op = ''neq'' then s \<noteq> conditionValue
      else if op = ''contains'' then sublist conditionValue s
      else if op = ''regex'' then
        (case regexp_MatchString c conditionValue s of Inl _ \<Rightarrow> False | Inr matched \<Rightarrow> matched)
      else if op = ''gt'' then
        (case (parse_float c s, parse_float c conditionValue) of
           (Some ln, Some rn) \<Rightarrow> float_less c rn ln
         | _ \<Rightarrow> str_less conditionValue s)
      else if op = ''lt'' then
        (case (parse_float c s, parse_float c conditionValue) of
           (Some ln, Some rn) \<Rightarrow> float_less c ln rn
         | _ \<Rightarrow> str_less s conditionValue)
      else if op = ''exists'' then value \<noteq> VNil
      else False)"

section \<open>The stage\<close>

datatype route_error = RouteDecode codec_error

text \<open>
  A \<open>nil\<close> document reads like an empty one. A rule whose path has no value does not match,
  whatever its operator.
\<close>

definition rule_matches :: "codec \<Rightarrow> obj option \<Rightarrow> routing_rule \<Rightarrow> bool" where
  "rule_matches c data r =
     (case getNestedValue (case data of None \<Rightarrow> [] | Some d \<Rightarrow> d) (ConditionPath r) of
        Inl _ \<Rightarrow> False
      | Inr value \<Rightarrow> evaluateCondition c value (ConditionOperator r) (ConditionValue r))"

text \<open>The loop over the sorted rules, with the \<open>seen\<close> set and the destinations so far.\<close>

fun route_loop :: "codec \<Rightarrow> obj option \<Rightarrow> routing_rule list \<Rightarrow> string set \<Rightarrow> string list \<Rightarrow> string list" where
  "route_loop c data [] seen dests = dests"
| "route_loop c data (r # rs) seen dests =
     (if rule_matches c data r \<and> DestinationID r \<notin> seen
      then route_loop c data rs (insert (DestinationID r) seen) (dests @ [DestinationID r])
      else route_loop c data rs seen dests)"

definition RouteStage_Execute ::
  "codec \<Rightarrow> routing_rule list \<Rightarrow> bytes \<Rightarrow> Format \<Rightarrow> (route_error, stage_output) result" where
  "RouteStage_Execute c Rules message format =
     (if Rules = [] then Ok (message, format, None)
      else
        (let rules = sort_key Priority (filter Enabled Rules) in
         if rules = [] then Ok (message, format, None)
         else
           (case decodeStructured c message format of
              Inl e \<Rightarrow> Err (RouteDecode e)
            | Inr data \<Rightarrow>
                (let dests = route_loop c data rules {} [] in
                 if dests = [] then Ok (message, format, None)
                 else Ok (message, format, Some dests)))))"

section \<open>Which destinations\<close>

text \<open>Each element where it occurs first.\<close>

definition first_occurrences :: "'a list \<Rightarrow> 'a list" where
  "first_occurrences xs = rev (remdups (rev xs))"

lemma first_occurrences_snoc:
  "first_occurrences (xs @ [x]) = (if x \<in> set xs then first_occurrences xs else first_occurrences xs @ [x])"
  by (simp add: first_occurrences_def)

lemma set_first_occurrences [simp]: "set (first_occurrences xs) = set xs"
  by (simp add: first_occurrences_def)

lemma distinct_first_occurrences [simp]: "distinct (first_occurrences xs)"
  by (simp add: first_occurrences_def)

lemma route_loop_spec:
  assumes "seen = set xs" "dests = first_occurrences xs"
  shows "route_loop c data rs seen dests =
    first_occurrences (xs @ map DestinationID (filter (rule_matches c data) rs))"
  using assms
proof (induction rs arbitrary: seen dests xs)
  case (Cons r rs)
  show ?case
  proof (cases "rule_matches c data r")
    case False
    with Cons show ?thesis by simp
  next
    case True
    have ih: "route_loop c data rs (set (xs @ [DestinationID r])) (first_occurrences (xs @ [DestinationID r])) =
      first_occurrences ((xs @ [DestinationID r]) @ map DestinationID (filter (rule_matches c data) rs))"
      by (rule Cons.IH) simp_all
    with True Cons.prems show ?thesis
      by (auto simp: first_occurrences_snoc insert_absorb)
  qed
qed simp

text \<open>
  C33. When the message decodes, the route stage returns it unchanged, with the destinations
  of the enabled rules it matches, each once, in order of priority and, within a priority,
  in the stored order; without a match there is no routing decision, so that the executor
  uses the default destination.
\<close>

theorem route_correct:
  assumes "decodeStructured c message format = Ok data"
  shows "RouteStage_Execute c Rules message format =
    (let dests = first_occurrences
           (map DestinationID (filter (rule_matches c data) (sort_key Priority (filter Enabled Rules))))
     in Ok (message, format, if dests = [] then None else Some dests))"
proof -
  have loop: "route_loop c data rs {} [] = first_occurrences (map DestinationID (filter (rule_matches c data) rs))" for rs
    using route_loop_spec [of "{}" "[]" "[]" c data rs] by (simp add: first_occurrences_def)
  show ?thesis
    by (auto simp: RouteStage_Execute_def Let_def loop assms first_occurrences_def)
qed

lemma RouteStage_keeps_message:
  "RouteStage_Execute c Rules message format = Ok (out, f, r) \<Longrightarrow> out = message \<and> f = format"
  by (auto simp: RouteStage_Execute_def Let_def split: if_splits sum.splits)

definition sample_route :: "string \<Rightarrow> string \<Rightarrow> int \<Rightarrow> routing_rule" where
  "sample_route v d n = \<lparr>ConditionPath = ''k'', ConditionOperator = ''exists'', ConditionValue = v,
     DestinationID = d, Priority = n, Enabled = True\<rparr>"

theorem route_correct_witness:
  "RouteStage_Execute sample_codec
     [sample_route '''' ''d2'' 2, sample_route '''' ''d1'' 1, sample_route '''' ''d2'' 3] ''named'' FormatJSON =
   Ok (''named'', FormatJSON, Some [''d1'', ''d2''])"
  using route_correct [of sample_codec "''named''" FormatJSON "Some [(''k'', VStr ''v'')]"
      "[sample_route '''' ''d2'' 2, sample_route '''' ''d1'' 1, sample_route '''' ''d2'' 3]"]
  by (simp add: decodeStructured_def json_unmarshal_map_def sample_codec_def sample_route_def
      rule_matches_def getNestedValue_def path_keys_def evaluateCondition_def first_occurrences_def)

end
