(* ===== verification/Stage_Build.thy ===== *)
theory Stage_Build
  imports Translate Route Run_Stages
begin

text \<open>
  \<open>internal/pipeline/stage.go\<close> and \<open>schemas.go\<close>: building the stage list of a pipeline from
  its stored rows, and loading the schemas the rows refer to.
\<close>

section \<open>Stored rows\<close>

text \<open>
  The fields the stage configurations have, at their zero values when absent. The text of a
  row's \<open>stage_config\<close> is decoded by \<open>encoding/json\<close> into the row type's own struct:
  \<open>config_of\<close> is the decoded struct (the sources ignore the error and keep what was decoded)
  and \<open>config_err\<close> whether decoding reported an error.
\<close>

record stage_config =
  cfg_Paths :: "string list"
  cfg_OutputFormat :: string
  cfg_SchemaID :: string
  cfg_ProtoMessage :: string
  cfg_Script :: string
  cfg_TimeoutMs :: int
  cfg_SchemaType :: string
  cfg_Content :: string
  cfg_Plugin :: string

definition zero_config :: stage_config where
  "zero_config = \<lparr>cfg_Paths = [], cfg_OutputFormat = '''', cfg_SchemaID = '''', cfg_ProtoMessage = '''',
     cfg_Script = '''', cfg_TimeoutMs = 0, cfg_SchemaType = '''', cfg_Content = '''', cfg_Plugin = ''''\<rparr>"

record config_decoder =
  config_of :: "string \<Rightarrow> stage_config"
  config_err :: "string \<Rightarrow> bool"

definition row_config :: "config_decoder \<Rightarrow> string \<Rightarrow> stage_config" where
  "row_config d text = (if text = '''' then zero_config else config_of d text)"

record stage_row =
  StageType :: string
  StageConfig :: string
  row_Enabled :: bool

record schema_row =
  sch_TenantID :: string
  sch_SchemaType :: string
  sch_Content :: string

record pipeline_row =
  p_TenantID :: string
  p_OutputFormat :: string
  p_SchemaID :: string
  p_FilterPaths :: "string list"

section \<open>Concrete stages\<close>

datatype stage =
    FilterStage "string list"
  | TransformStage "transform list"
  | TranslateStage translate_stage
  | RouteStage "routing_rule list"
  | ScriptStage string int
  | ValidateStage validate_stage
  | WasmStage string

definition DefaultScriptTimeoutMs :: int where
  "DefaultScriptTimeoutMs = 5000"

text \<open>\<open>BuildContext\<close>. A compiled plugin is known by its \<open>PluginName\<close>.\<close>

record BuildContext =
  Pipeline :: pipeline_row
  StageRows :: "stage_row list"
  Transforms :: "transform list"
  RoutingRules :: "routing_rule list"
  Schemas :: "(string \<times> schema_row) list"
  WasmPlugins :: "(string \<times> string) list"

datatype build_error =
    TranslateSchemaNotLoaded string
  | TranslateSchemaNotProtobuf string string
  | TranslateLoadProto proto_error
  | ValidateSchemaNotLoaded string
  | WasmPluginMissing
  | WasmPluginUnknown string
  | UnknownStageType string

definition build_translate :: "codec \<Rightarrow> BuildContext \<Rightarrow> stage_config \<Rightarrow> (build_error, stage) result" where
  "build_translate c ctx cfg =
     (let fmt = (if cfg_OutputFormat cfg = '''' then p_OutputFormat (Pipeline ctx) else cfg_OutputFormat cfg) in
      if cfg_SchemaID cfg = '''' then Ok (TranslateStage \<lparr>Target = fmt, Proto = None\<rparr>)
      else
        (case map_of (Schemas ctx) (cfg_SchemaID cfg) of
           None \<Rightarrow> Err (TranslateSchemaNotLoaded (cfg_SchemaID cfg))
         | Some schema \<Rightarrow>
             if ToLower (sch_SchemaType schema) \<noteq> ''protobuf'' \<and> ToLower (sch_SchemaType schema) \<noteq> ''proto''
             then Err (TranslateSchemaNotProtobuf (cfg_SchemaID cfg) (sch_SchemaType schema))
             else
               (case LoadProtoSchema c (sch_Content schema) (cfg_ProtoMessage cfg) of
                  Inl e \<Rightarrow> Err (TranslateLoadProto e)
                | Inr ps \<Rightarrow> Ok (TranslateStage \<lparr>Target = fmt, Proto = Some ps\<rparr>))))"

text \<open>The duration is an \<open>int64\<close> of nanoseconds, so that the product wraps.\<close>

definition build_script :: "stage_config \<Rightarrow> stage" where
  "build_script cfg =
     ScriptStage (cfg_Script cfg)
       (sint (word_of_int
          ((if cfg_TimeoutMs cfg \<le> 0 then DefaultScriptTimeoutMs else cfg_TimeoutMs cfg) * 1000000) :: 64 word))"

text \<open>The schema a validate row uses: its own, or the pipeline's, or none (inline content).\<close>

definition validate_schema_id :: "BuildContext \<Rightarrow> stage_config \<Rightarrow> string" where
  "validate_schema_id ctx cfg =
     (if cfg_SchemaID cfg = '''' then p_SchemaID (Pipeline ctx) else cfg_SchemaID cfg)"

definition build_validate :: "BuildContext \<Rightarrow> stage_config \<Rightarrow> (build_error, stage) result" where
  "build_validate ctx cfg =
     (let schemaID = validate_schema_id ctx cfg in
      if schemaID \<noteq> '''' then
        (case map_of (Schemas ctx) schemaID of
           None \<Rightarrow> Err (ValidateSchemaNotLoaded schemaID)
         | Some schema \<Rightarrow>
             Ok (ValidateStage \<lparr>SchemaType = sch_SchemaType schema, Content = sch_Content schema,
                                ProtoMessage = cfg_ProtoMessage cfg\<rparr>))
      else Ok (ValidateStage \<lparr>SchemaType = cfg_SchemaType cfg, Content = cfg_Content cfg,
                              ProtoMessage = cfg_ProtoMessage cfg\<rparr>))"

definition build_wasm :: "BuildContext \<Rightarrow> stage_config \<Rightarrow> (build_error, stage) result" where
  "build_wasm ctx cfg =
     (if cfg_Plugin cfg = '''' then Err WasmPluginMissing
      else
        (case map_of (WasmPlugins ctx) (cfg_Plugin cfg) of
           None \<Rightarrow> Err (WasmPluginUnknown (cfg_Plugin cfg))
         | Some s \<Rightarrow> Ok (WasmStage s)))"

definition build_row :: "codec \<Rightarrow> config_decoder \<Rightarrow> BuildContext \<Rightarrow> stage_row \<Rightarrow> (build_error, stage) result" where
  "build_row c d ctx row =
     (let cfg = row_config d (StageConfig row) in
      if StageType row = ''filter'' then
        Ok (FilterStage (if cfg_Paths cfg = [] then p_FilterPaths (Pipeline ctx) else cfg_Paths cfg))
      else if StageType row = ''transform'' then Ok (TransformStage (Transforms ctx))
      else if StageType row = ''translate'' then build_translate c ctx cfg
      else if StageType row = ''route'' then Ok (RouteStage (RoutingRules ctx))
      else if StageType row = ''script'' then Ok (build_script cfg)
      else if StageType row = ''validate'' then build_validate ctx cfg
      else if StageType row = ''wasm'' then build_wasm ctx cfg
      else Err (UnknownStageType (StageType row)))"

fun build_rows ::
  "codec \<Rightarrow> config_decoder \<Rightarrow> BuildContext \<Rightarrow> stage_row list \<Rightarrow> (build_error, stage list) result" where
  "build_rows c d ctx [] = Ok []"
| "build_rows c d ctx (row # rows) =
     (if \<not> row_Enabled row then build_rows c d ctx rows
      else
        (case build_row c d ctx row of
           Inl e \<Rightarrow> Err e
         | Inr s \<Rightarrow>
             (case build_rows c d ctx rows of Inl e \<Rightarrow> Err e | Inr ss \<Rightarrow> Ok (s # ss))))"

definition Build :: "codec \<Rightarrow> config_decoder \<Rightarrow> BuildContext \<Rightarrow> (build_error, stage list) result" where
  "Build c d ctx = build_rows c d ctx (StageRows ctx)"

section \<open>Loading schemas\<close>

datatype load_error =
    SchemaNotFound string
  | LoadSchemaFailed string string
  | CrossTenantSchema string

text \<open>\<open>store.Schemas.GetUnsafe\<close>: a row, \<open>ErrNotFound\<close> (\<open>Inl None\<close>) or another error.\<close>

type_synonym schema_store = "string \<Rightarrow> (string option, schema_row) result"

text \<open>The ids wanted: the pipeline's and those of the validate rows whose config decodes.\<close>

definition wanted_schemas :: "config_decoder \<Rightarrow> pipeline_row \<Rightarrow> stage_row list \<Rightarrow> string list" where
  "wanted_schemas d p rows =
     remdups ((if p_SchemaID p \<noteq> '''' then [p_SchemaID p] else []) @
       filter (\<lambda>i. i \<noteq> '''')
         (map (\<lambda>r. cfg_SchemaID (config_of d (StageConfig r)))
           (filter (\<lambda>r. StageType r = ''validate'' \<and> StageConfig r \<noteq> '''' \<and> \<not> config_err d (StageConfig r)) rows)))"

fun load_schemas ::
  "schema_store \<Rightarrow> pipeline_row \<Rightarrow> string list \<Rightarrow> (load_error, (string \<times> schema_row) list) result" where
  "load_schemas store p [] = Ok []"
| "load_schemas store p (i # is) =
     (case store i of
        Inl None \<Rightarrow> Err (SchemaNotFound i)
      | Inl (Some e) \<Rightarrow> Err (LoadSchemaFailed i e)
      | Inr s \<Rightarrow>
          if p_TenantID p \<noteq> '''' \<and> sch_TenantID s \<noteq> '''' \<and> sch_TenantID s \<noteq> p_TenantID p
          then Err (CrossTenantSchema i)
          else (case load_schemas store p is of Inl e \<Rightarrow> Err e | Inr out \<Rightarrow> Ok ((i, s) # out)))"

definition loadReferencedSchemas ::
  "config_decoder \<Rightarrow> schema_store \<Rightarrow> pipeline_row \<Rightarrow> stage_row list \<Rightarrow>
   (load_error, (string \<times> schema_row) list) result" where
  "loadReferencedSchemas d store p rows = load_schemas store p (wanted_schemas d p rows)"

section \<open>Laws\<close>

lemma build_rows_Ok:
  "build_rows c d ctx rows = Ok stages \<Longrightarrow>
     list_all2 (\<lambda>r s. build_row c d ctx r = Ok s) (filter row_Enabled rows) stages"
  by (induction rows arbitrary: stages) (auto split: if_splits sum.splits)

lemma build_rows_each:
  "build_rows c d ctx rows = Ok stages \<Longrightarrow> r \<in> set rows \<Longrightarrow> row_Enabled r \<Longrightarrow>
     \<exists>s. build_row c d ctx r = Ok s"
  by (induction rows arbitrary: stages) (auto split: if_splits sum.splits)

lemma build_rows_Err:
  "build_rows c d ctx rows = Err e \<Longrightarrow> \<exists>r \<in> set rows. row_Enabled r \<and> build_row c d ctx r = Err e"
  by (induction rows arbitrary: e) (auto split: if_splits sum.splits)

lemma load_schemas_Ok:
  "load_schemas store p is = Ok out \<Longrightarrow>
     map fst out = is \<and> (\<forall>(i, s) \<in> set out. store i = Ok s
        \<and> \<not> (p_TenantID p \<noteq> '''' \<and> sch_TenantID s \<noteq> '''' \<and> sch_TenantID s \<noteq> p_TenantID p))"
  by (induction "is" arbitrary: out) (auto split: sum.splits option.splits if_splits)

lemma load_schemas_lookup:
  assumes "load_schemas store p is = Ok out"
  shows "map_of out i = None \<longleftrightarrow> i \<notin> set is"
proof -
  have "is = map fst out" using load_schemas_Ok [OF assms] by simp
  then show ?thesis by (simp only: map_of_eq_None_iff list.set_map)
qed

text \<open>
  \<open>loadReferencedSchemas\<close> never lets a pipeline use a schema of another tenant, and what it
  loads is enough for the validate stages: building the rows with it never fails for a
  validate row's missing schema when that row's configuration decodes without an error.
\<close>

theorem loaded_schemas_serve_validate:
  assumes load: "loadReferencedSchemas d store p rows = Ok out"
    and ctx: "Pipeline ctx = p" "Schemas ctx = out"
    and row: "row \<in> set rows" "StageType row = ''validate''"
      "StageConfig row = '''' \<or> \<not> config_err d (StageConfig row)"
  shows "(\<exists>s. build_row c d ctx row = Ok (ValidateStage s))
    \<and> (\<forall>(i, s) \<in> set out. p_TenantID p = '''' \<or> sch_TenantID s = '''' \<or> sch_TenantID s = p_TenantID p)"
proof -
  let ?cfg = "row_config d (StageConfig row)"
  have "validate_schema_id ctx ?cfg = '''' \<or> validate_schema_id ctx ?cfg \<in> set (wanted_schemas d p rows)"
    using row ctx(1)
    by (auto simp: validate_schema_id_def wanted_schemas_def row_config_def zero_config_def)
  moreover have "map_of out (validate_schema_id ctx ?cfg) \<noteq> None"
    if "validate_schema_id ctx ?cfg \<in> set (wanted_schemas d p rows)"
    using that load_schemas_lookup load unfolding loadReferencedSchemas_def by blast
  ultimately have "\<exists>s. build_validate ctx ?cfg = Ok (ValidateStage s)"
    using ctx(2) by (auto simp: build_validate_def Let_def)
  moreover have "build_row c d ctx row = build_validate ctx ?cfg"
    using row(2) by (simp add: build_row_def Let_def)
  ultimately show ?thesis
    using load_schemas_Ok [OF load [unfolded loadReferencedSchemas_def]] by auto
qed

text \<open>A store with one schema and a decoder for two configurations, for the witnesses.\<close>

definition sample_decoder :: config_decoder where
  "sample_decoder =
     \<lparr>config_of = (\<lambda>t. zero_config\<lparr>cfg_SchemaID := t\<rparr>), config_err = (\<lambda>t. False)\<rparr>"

definition sample_pipeline :: pipeline_row where
  "sample_pipeline = \<lparr>p_TenantID = ''t1'', p_OutputFormat = ''same'', p_SchemaID = '''', p_FilterPaths = []\<rparr>"

definition sample_schema :: schema_row where
  "sample_schema = \<lparr>sch_TenantID = ''t1'', sch_SchemaType = ''json_schema'', sch_Content = ''schema''\<rparr>"

definition sample_store :: schema_store where
  "sample_store = (\<lambda>i. if i = ''s1'' then Ok sample_schema else Err None)"

definition sample_row :: "string \<Rightarrow> string \<Rightarrow> stage_row" where
  "sample_row ty cfg = \<lparr>StageType = ty, StageConfig = cfg, row_Enabled = True\<rparr>"

definition sample_context :: "stage_row list \<Rightarrow> (string \<times> schema_row) list \<Rightarrow> BuildContext" where
  "sample_context rows ss = \<lparr>Pipeline = sample_pipeline, StageRows = rows, Transforms = [],
     RoutingRules = [], Schemas = ss, WasmPlugins = []\<rparr>"

theorem loaded_schemas_serve_validate_witness:
  "loadReferencedSchemas sample_decoder sample_store sample_pipeline [sample_row ''validate'' ''s1''] =
     Ok [(''s1'', sample_schema)]
   \<and> (\<exists>s. build_row sample_codec sample_decoder (sample_context [] [(''s1'', sample_schema)])
           (sample_row ''validate'' ''s1'') = Ok (ValidateStage s))"
proof -
  have l: "loadReferencedSchemas sample_decoder sample_store sample_pipeline [sample_row ''validate'' ''s1''] =
     Ok [(''s1'', sample_schema)]"
    by (simp add: loadReferencedSchemas_def wanted_schemas_def sample_decoder_def sample_store_def
        sample_pipeline_def sample_row_def sample_schema_def zero_config_def)
  from loaded_schemas_serve_validate [OF l, of "sample_context [] [(''s1'', sample_schema)]"
      "sample_row ''validate'' ''s1''" sample_codec] l
  show ?thesis by (simp add: sample_context_def sample_row_def sample_decoder_def)
qed

text \<open>
  A translate row that names a schema of its own cannot be built from what
  \<open>loadReferencedSchemas\<close> loads unless the pipeline or some validate row names the same schema:
  the loader does not look at translate rows, so such a pipeline never starts.
\<close>

theorem translate_schema_not_loaded:
  assumes load: "loadReferencedSchemas d store p rows = Ok out"
    and ctx: "Schemas ctx = out" "StageRows ctx = rows"
    and row: "row \<in> set rows" "row_Enabled row" "StageType row = ''translate''"
      "cfg_SchemaID (row_config d (StageConfig row)) = i" "i \<noteq> ''''"
    and alone: "p_SchemaID p \<noteq> i" "\<forall>r \<in> set rows. StageType r = ''validate'' \<longrightarrow> cfg_SchemaID (config_of d (StageConfig r)) \<noteq> i"
  shows "\<exists>e. Build c d ctx = Err e"
proof -
  have "i \<notin> set (wanted_schemas d p rows)"
    using alone row(5) by (auto simp: wanted_schemas_def)
  then have "map_of out i = None"
    using load_schemas_lookup load unfolding loadReferencedSchemas_def by blast
  then have bad: "build_row c d ctx row = Err (TranslateSchemaNotLoaded i)"
    using row ctx(1) by (simp add: build_row_def build_translate_def Let_def)
  show ?thesis
  proof (cases "Build c d ctx")
    case (Inr stages)
    then have "build_rows c d ctx rows = Ok stages" using ctx(2) by (simp add: Build_def)
    from build_rows_each [OF this row(1,2)] bad show ?thesis by simp
  qed simp
qed

theorem translate_schema_not_loaded_witness:
  "\<exists>e. Build sample_codec sample_decoder (sample_context [sample_row ''translate'' ''s1''] []) = Err e"
proof -
  have l: "loadReferencedSchemas sample_decoder sample_store sample_pipeline [sample_row ''translate'' ''s1''] = Ok []"
    by (simp add: loadReferencedSchemas_def wanted_schemas_def sample_pipeline_def sample_row_def)
  show ?thesis
    by (rule translate_schema_not_loaded [OF l, of _ "sample_row ''translate'' ''s1''" "''s1''"])
      (simp_all add: sample_context_def sample_row_def sample_decoder_def row_config_def sample_pipeline_def)
qed

end
