(* ===== verification/Pipeline_Stages.thy ===== *)
theory Pipeline_Stages
  imports Stage_Build
begin

text \<open>
  The concrete stages behind the \<open>Stage\<close> interface: what \<open>RunStages\<close> sees of a stage that
  \<open>Build\<close> made, and the contract the stages share. The script and wasm stages are an
  argument (\<open>ext\<close>).
\<close>

section \<open>Concrete stages as interface values\<close>

datatype stage_error =
    ErrFilter filter_error
  | ErrTransform transform_error
  | ErrTranslate translate_stage_error
  | ErrRoute route_error
  | ErrValidate validate_error
  | ErrExt string

fun wrap :: "('a \<Rightarrow> 'b) \<Rightarrow> ('a, 'c) result \<Rightarrow> ('b, 'c) result" where
  "wrap f (Inl e) = Inl (f e)"
| "wrap f (Inr x) = Inr x"

lemma wrap_Ok [simp]: "wrap f r = Ok x \<longleftrightarrow> r = Ok x"
  by (cases r) auto

type_synonym ext_stages = "stage \<Rightarrow> bytes \<Rightarrow> Format \<Rightarrow> (string, stage_output) result"

fun stage_Name :: "stage \<Rightarrow> string" where
  "stage_Name (FilterStage _) = ''filter''"
| "stage_Name (TransformStage _) = ''transform''"
| "stage_Name (TranslateStage _) = ''translate''"
| "stage_Name (RouteStage _) = ''route''"
| "stage_Name (ScriptStage _ _) = ''script''"
| "stage_Name (ValidateStage _) = ''validate''"
| "stage_Name (WasmStage n) = (if n = '''' then ''wasm'' else ''wasm:'' @ n)"

fun stage_Execute ::
  "codec \<Rightarrow> ext_stages \<Rightarrow> stage \<Rightarrow> bytes \<Rightarrow> Format \<Rightarrow> (stage_error, stage_output) result" where
  "stage_Execute c ext (FilterStage ps) m f = wrap ErrFilter (FilterStage_Execute c ps m f)"
| "stage_Execute c ext (TransformStage rs) m f = wrap ErrTransform (TransformStage_Execute c rs m f)"
| "stage_Execute c ext (TranslateStage s) m f = wrap ErrTranslate (TranslateStage_Execute c s m f)"
| "stage_Execute c ext (RouteStage rs) m f = wrap ErrRoute (RouteStage_Execute c rs m f)"
| "stage_Execute c ext (ValidateStage s) m f = wrap ErrValidate (ValidateStage_Execute c s m f)"
| "stage_Execute c ext s m f = wrap ErrExt (ext s m f)"

definition as_Stage :: "codec \<Rightarrow> ext_stages \<Rightarrow> stage \<Rightarrow> stage_error Stage" where
  "as_Stage c ext s = \<lparr>Name = stage_Name s, Execute = stage_Execute c ext s\<rparr>"

section \<open>The contract of the stages that do not translate\<close>

text \<open>
  A family of stages that leave the format alone. Any list of them run by the engine ends
  in the format it started with.
\<close>

locale format_keeping =
  fixes stages :: "'e Stage set"
  assumes keeps: "s \<in> stages \<Longrightarrow> Execute s b f = Ok (b', f', r) \<Longrightarrow> f' = f"
begin

lemma step_keeps: "s \<in> stages \<Longrightarrow> stage_step s (b, f, r) = Ok (b', f', r') \<Longrightarrow> f' = f"
  using keeps by (auto simp: stage_step_def split: sum.splits prod.splits if_splits)

lemma state_after_keeps:
  "set ss \<subseteq> stages \<Longrightarrow> state_after ss (b, f, r) n = Ok (b', f', r') \<Longrightarrow> f' = f"
proof (induction ss arbitrary: b f r n)
  case Nil
  then show ?case by (cases n) auto
next
  case (Cons s ss)
  show ?case
  proof (cases n)
    case 0
    with Cons.prems show ?thesis by simp
  next
    case (Suc k)
    with Cons.prems(2) obtain b1 f1 r1 where st: "stage_step s (b, f, r) = Ok (b1, f1, r1)"
      "state_after ss (b1, f1, r1) k = Ok (b', f', r')"
      by (auto split: sum.splits prod.splits)
    have "f1 = f" using step_keeps st(1) Cons.prems(1) by auto
    with Cons.IH [of b1 f1 r1 k] st(2) Cons.prems(1) show ?thesis by auto
  qed
qed

lemma outcome_keeps:
  "set ss \<subseteq> stages \<Longrightarrow> RunStages detect ss m = (out, None) \<Longrightarrow> out_Format out = detect m"
  using run_loop_ok [of ss m "detect m" None "[]" out] state_after_keeps
  by (auto simp: RunStages_def)

end

text \<open>The stages \<open>Build\<close> makes for filter, transform, route and validate rows.\<close>

fun plain_stage :: "stage \<Rightarrow> bool" where
  "plain_stage (TranslateStage _) = False"
| "plain_stage (ScriptStage _ _) = False"
| "plain_stage (WasmStage _) = False"
| "plain_stage _ = True"

interpretation plain: format_keeping "{as_Stage c ext s | c ext s. plain_stage s}"
proof unfold_locales
  fix s :: "stage_error Stage" and b f b' f' r
  assume "s \<in> {as_Stage c ext s | c ext s. plain_stage s}" and ex: "Execute s b f = Ok (b', f', r)"
  then obtain c ext st where s: "s = as_Stage c ext st" "plain_stage st" by blast
  with ex show "f' = f"
    by (cases st)
      (auto simp: as_Stage_def dest: FilterStage_keeps_format TransformStage_keeps_format
        RouteStage_keeps_message ValidateStage_keeps_message)
qed

section \<open>The contract on routing decisions\<close>

text \<open>
  A family of stages whose routing decisions are drawn from a set of destinations: so is
  the decision of any run.
\<close>

locale route_within =
  fixes stages :: "'e Stage set" and dests :: "string set"
  assumes within: "s \<in> stages \<Longrightarrow> Execute s b f = Ok (b', f', Some ds) \<Longrightarrow> set ds \<subseteq> dests \<and> distinct ds"
begin

definition good_route :: "string list option \<Rightarrow> bool" where
  "good_route r \<longleftrightarrow> (case r of None \<Rightarrow> True | Some ds \<Rightarrow> ds \<noteq> [] \<and> set ds \<subseteq> dests \<and> distinct ds)"

lemma step_route:
  "s \<in> stages \<Longrightarrow> good_route r \<Longrightarrow> stage_step s (b, f, r) = Ok (b', f', r') \<Longrightarrow> good_route r'"
  using within [of s b f]
  by (cases "Execute s b f") (auto simp: stage_step_def good_route_def split: if_splits option.splits)

lemma state_after_route:
  "set ss \<subseteq> stages \<Longrightarrow> good_route r \<Longrightarrow> state_after ss (b, f, r) n = Ok (b', f', r') \<Longrightarrow> good_route r'"
proof (induction ss arbitrary: b f r n)
  case Nil
  then show ?case by (cases n) auto
next
  case (Cons s ss)
  show ?case
  proof (cases n)
    case 0
    with Cons.prems show ?thesis by simp
  next
    case (Suc k)
    with Cons.prems(3) obtain b1 f1 r1 where st: "stage_step s (b, f, r) = Ok (b1, f1, r1)"
      "state_after ss (b1, f1, r1) k = Ok (b', f', r')"
      by (auto split: sum.splits prod.splits)
    have "good_route r1" using step_route st(1) Cons.prems(1,2) by auto
    with Cons.IH [of r1 b1 f1 k] st(2) Cons.prems(1) show ?thesis by auto
  qed
qed

lemma outcome_route:
  "set ss \<subseteq> stages \<Longrightarrow> RunStages detect ss m = (out, None) \<Longrightarrow> good_route (RouteTo out)"
  using run_loop_ok [of ss m "detect m" None "[]" out] state_after_route [of ss None m "detect m" "length ss"]
  by (auto simp: RunStages_def good_route_def)

end

definition enabled_dests :: "routing_rule list \<Rightarrow> string set" where
  "enabled_dests rules = DestinationID ` set (filter Enabled rules)"

lemma RouteStage_dests:
  assumes "RouteStage_Execute c rules m f = Ok (m', f', Some ds)"
  shows "set ds \<subseteq> enabled_dests rules \<and> distinct ds"
proof -
  obtain data where "ds = route_loop c data (sort_key Priority (filter Enabled rules)) {} []"
    using assms by (auto simp: RouteStage_Execute_def Let_def split: if_splits sum.splits)
  then have "ds = first_occurrences (map DestinationID (filter (rule_matches c data) (sort_key Priority (filter Enabled rules))))"
    using route_loop_spec [of "{}" "[]" "[]" c data] by (simp add: first_occurrences_def)
  then show ?thesis by (auto simp: enabled_dests_def)
qed

text \<open>Every stage but the arguments: routes only to enabled rules of the pipeline.\<close>

fun own_stage :: "routing_rule list \<Rightarrow> stage \<Rightarrow> bool" where
  "own_stage rules (RouteStage rs) = (rs = rules)"
| "own_stage rules (ScriptStage _ _) = False"
| "own_stage rules (WasmStage _) = False"
| "own_stage rules _ = True"

interpretation own: route_within "{as_Stage c ext s | c ext s. own_stage rules s}" "enabled_dests rules" for rules
proof unfold_locales
  fix s :: "stage_error Stage" and b f b' f' ds
  assume "s \<in> {as_Stage c ext s | c ext s. own_stage rules s}" and ex: "Execute s b f = Ok (b', f', Some ds)"
  then obtain c ext st where s: "s = as_Stage c ext st" "own_stage rules st" by blast
  with ex show "set ds \<subseteq> enabled_dests rules \<and> distinct ds"
    by (cases st)
      (auto simp: as_Stage_def dest: FilterStage_keeps_format TransformStage_keeps_format
        ValidateStage_keeps_message TranslateStage_no_route dest!: RouteStage_dests)
qed

section \<open>What rows are built into\<close>

lemma build_row_plain:
  "build_row c d ctx row = Ok s \<Longrightarrow> StageType row \<notin> {''translate'', ''script'', ''wasm''} \<Longrightarrow> plain_stage s"
  by (auto simp: build_row_def build_validate_def Let_def split: if_splits option.splits)

lemma build_row_own:
  "build_row c d ctx row = Ok s \<Longrightarrow> StageType row \<notin> {''script'', ''wasm''} \<Longrightarrow> own_stage (RoutingRules ctx) s"
  by (auto simp: build_row_def build_validate_def build_translate_def Let_def
      split: if_splits option.splits sum.splits)

lemma Build_stages:
  assumes "Build c d ctx = Ok stages" "s \<in> set stages"
  shows "\<exists>row \<in> set (StageRows ctx). row_Enabled row \<and> build_row c d ctx row = Ok s"
proof -
  have "list_all2 (\<lambda>r s. build_row c d ctx r = Ok s) (filter row_Enabled (StageRows ctx)) stages"
    using assms(1) build_rows_Ok by (simp add: Build_def)
  from list_all2_right [OF this assms(2)] show ?thesis by auto
qed

end
