(* ===== verification/Slo_Lexer.thy ===== *)
theory Slo_Lexer
  imports Mqc_Prelude
begin

text \<open>
  \<open>internal/slo/expr.go\<close>, the lexer of the alert rules' expression language. The lexer's state,
  a source and a position, is the position together with the rest of the source from there on.
\<close>

section \<open>Tokens\<close>

datatype tokenKind =
    tokEOF | tokNumber | tokIdent | tokString | tokDuration
  | tokLParen | tokRParen | tokLBrace | tokRBrace | tokLBracket | tokRBracket
  | tokComma | tokPlus | tokMinus | tokStar | tokSlash
  | tokEq | tokNeq | tokGt | tokGte | tokLt | tokLte | tokAssign

record token =
  kind :: tokenKind
  tok_text :: string
  at_pos :: nat

text \<open>The errors of the package, and the run-time panic of an index out of range.\<close>

datatype slo_error =
    ExpectedNeq nat
  | UnexpectedCharacter char nat
  | UnterminatedString nat
  | TrailingInput nat string
  | ExpectedKind tokenKind string nat
  | BadNumber string nat
  | UnexpectedToken string nat
  | ExpectedDuration nat
  | ExpectedLabelName nat
  | OnlyAssignMatchers nat
  | ExpectedStringValue nat
  | IndexOutOfRange

abbreviation code :: "char \<Rightarrow> nat" where
  "code c \<equiv> of_char c"

definition isDigit :: "char \<Rightarrow> bool" where
  "isDigit c \<longleftrightarrow> code CHR ''0'' \<le> code c \<and> code c \<le> code CHR ''9''"

definition isIdentStart :: "char \<Rightarrow> bool" where
  "isIdentStart c \<longleftrightarrow>
     (code CHR ''a'' \<le> code c \<and> code c \<le> code CHR ''z'')
     \<or> (code CHR ''A'' \<le> code c \<and> code c \<le> code CHR ''Z'') \<or> c = CHR ''_''"

definition isIdentPart :: "char \<Rightarrow> bool" where
  "isIdentPart c \<longleftrightarrow> isIdentStart c \<or> isDigit c"

text \<open>\<open>unicode.IsSpace\<close> of a byte taken as a rune.\<close>

definition IsSpace :: "char \<Rightarrow> bool" where
  "IsSpace c \<longleftrightarrow> c \<in> {CHR 0x09, CHR 0x0A, CHR 0x0B, CHR 0x0C, CHR 0x0D, CHR 0x20, CHR 0x85, CHR 0xA0}"

section \<open>Reading one token\<close>

text \<open>The loop of \<open>readString\<close> after the opening quote: the value and the rest.\<close>

fun string_loop :: "string \<Rightarrow> string \<Rightarrow> (string \<times> string) option" where
  "string_loop b [] = None"
| "string_loop b [c] = (if c = CHR 0x22 then Some (b, []) else string_loop (b @ [c]) [])"
| "string_loop b (c # d # rest) =
     (if c = CHR 0x5C then string_loop (b @ [d]) rest
      else if c = CHR 0x22 then Some (b, d # rest)
      else string_loop (b @ [c]) (d # rest))"

definition readString :: "nat \<Rightarrow> string \<Rightarrow> (slo_error, token \<times> string) result" where
  "readString start src =
     (case string_loop [] (tl src) of
        None \<Rightarrow> Err (UnterminatedString start)
      | Some (b, rest) \<Rightarrow> Ok (\<lparr>kind = tokString, tok_text = b, at_pos = start\<rparr>, rest))"

text \<open>The loop of \<open>readNumberOrDuration\<close>: what is left after the digits.\<close>

fun number_loop :: "bool \<Rightarrow> bool \<Rightarrow> string \<Rightarrow> string" where
  "number_loop hasDot hasE [] = []"
| "number_loop hasDot hasE (c # rest) =
     (if isDigit c then number_loop hasDot hasE rest
      else if c = CHR ''.'' \<and> \<not> hasDot \<and> \<not> hasE then number_loop True hasE rest
      else if (c = CHR ''e'' \<or> c = CHR ''E'') \<and> \<not> hasE then
        (case rest of
           [] \<Rightarrow> []
         | d # rest' \<Rightarrow>
             (if d = CHR ''+'' \<or> d = CHR ''-'' then number_loop hasDot True rest'
              else number_loop hasDot True rest))
      else c # rest)"

definition is_unit :: "char \<Rightarrow> bool" where
  "is_unit c \<longleftrightarrow> c \<in> {CHR ''s'', CHR ''m'', CHR ''h'', CHR ''d'', CHR ''w'', CHR ''y''}"

definition readNumberOrDuration :: "nat \<Rightarrow> string \<Rightarrow> token \<times> string" where
  "readNumberOrDuration start src =
     (let rest = number_loop False False src;
          upto = (\<lambda>r. take (length src - length r) src)
      in case rest of
           [] \<Rightarrow> (\<lparr>kind = tokNumber, tok_text = upto rest, at_pos = start\<rparr>, rest)
         | c # cs \<Rightarrow>
             (if is_unit c then
                (let rest' = (case cs of
                                [] \<Rightarrow> cs
                              | d # ds \<Rightarrow> (if d = CHR ''s'' \<and> c = CHR ''m'' then ds else cs))
                 in (\<lparr>kind = tokDuration, tok_text = upto rest', at_pos = start\<rparr>, rest'))
              else (\<lparr>kind = tokNumber, tok_text = upto rest, at_pos = start\<rparr>, rest)))"

definition readIdent :: "nat \<Rightarrow> string \<Rightarrow> token \<times> string" where
  "readIdent start src =
     (let part = (\<lambda>c. isIdentPart c \<or> c = CHR '':'')
      in (\<lparr>kind = tokIdent, tok_text = takeWhile part src, at_pos = start\<rparr>, dropWhile part src))"

text \<open>The switch of \<open>next\<close> on the first character: its one-character tokens.\<close>

definition punct :: "char \<Rightarrow> tokenKind option" where
  "punct c =
     map_of [(CHR ''('', tokLParen), (CHR '')'', tokRParen), (CHR ''{'', tokLBrace), (CHR ''}'', tokRBrace),
             (CHR ''['', tokLBracket), (CHR '']'', tokRBracket), (CHR '','', tokComma), (CHR ''+'', tokPlus),
             (CHR ''-'', tokMinus), (CHR ''*'', tokStar), (CHR ''/'', tokSlash)] c"

text \<open>A character that may be followed by \<open>=\<close>: \<open>==\<close>, \<open>>=\<close>, \<open><=\<close> or the character alone.\<close>

definition maybe_eq :: "nat \<Rightarrow> char \<Rightarrow> tokenKind \<Rightarrow> tokenKind \<Rightarrow> string \<Rightarrow> token \<times> string" where
  "maybe_eq start c single double rest =
     (case rest of
        [] \<Rightarrow> (\<lparr>kind = single, tok_text = [c], at_pos = start\<rparr>, [])
      | d # ds \<Rightarrow>
          (if d = CHR ''='' then (\<lparr>kind = double, tok_text = [c, d], at_pos = start\<rparr>, ds)
           else (\<lparr>kind = single, tok_text = [c], at_pos = start\<rparr>, rest)))"

text \<open>\<open>next\<close> at a character that is no white space.\<close>

definition token_at :: "nat \<Rightarrow> char \<Rightarrow> string \<Rightarrow> (slo_error, token \<times> string) result" where
  "token_at start c rest =
     (case punct c of
        Some k \<Rightarrow> Ok (\<lparr>kind = k, tok_text = [c], at_pos = start\<rparr>, rest)
      | None \<Rightarrow>
          if c = CHR ''='' then Ok (maybe_eq start c tokAssign tokEq rest)
          else if c = CHR ''!'' then
            (case rest of
               [] \<Rightarrow> Err (ExpectedNeq start)
             | d # ds \<Rightarrow>
                 (if d = CHR ''='' then Ok (\<lparr>kind = tokNeq, tok_text = [c, d], at_pos = start\<rparr>, ds)
                  else Err (ExpectedNeq start)))
          else if c = CHR ''>'' then Ok (maybe_eq start c tokGt tokGte rest)
          else if c = CHR ''<'' then Ok (maybe_eq start c tokLt tokLte rest)
          else if c = CHR 0x22 then readString start (c # rest)
          else if isDigit c \<or> (c = CHR ''.'' \<and> rest \<noteq> [] \<and> isDigit (hd rest))
            then Ok (readNumberOrDuration start (c # rest))
          else if isIdentStart c then Ok (readIdent start (c # rest))
          else Err (UnexpectedCharacter c start))"

definition next_token :: "nat \<Rightarrow> string \<Rightarrow> (slo_error, token \<times> string) result" where
  "next_token pos src =
     (case dropWhile IsSpace src of
        [] \<Rightarrow> Ok (\<lparr>kind = tokEOF, tok_text = [], at_pos = pos + length src\<rparr>, [])
      | c # rest \<Rightarrow> token_at (pos + (length src - length (c # rest))) c rest)"

section \<open>Tokenizing\<close>

text \<open>Every token but the last takes at least one character.\<close>

lemma string_loop_length: "string_loop b src = Some (v, rest) \<Longrightarrow> length rest < length src"
  by (induction b src rule: string_loop.induct) (auto split: if_splits)

declare number_loop.simps(2) [simp del]

lemma number_loop_length: "length (number_loop hasDot hasE src) \<le> length src"
proof (induction hasDot hasE src rule: number_loop.induct)
  case (2 hasDot hasE c rest)
  then show ?case
    by (cases rest) (auto simp: number_loop.simps(2) [of _ _ c] intro: le_SucI)
qed simp

lemma number_loop_start:
  assumes "isDigit c \<or> (c = CHR ''.'' \<and> rest \<noteq> [] \<and> isDigit (hd rest))"
  shows "length (number_loop False False (c # rest)) < length (c # rest)"
  using assms number_loop_length [of True False rest] number_loop_length [of False False rest]
  by (auto simp: less_Suc_eq_le number_loop.simps(2))

lemma readNumberOrDuration_length:
  assumes "length (number_loop False False src) < length src" "readNumberOrDuration start src = (t, rest)"
  shows "length rest < length src"
proof (cases "number_loop False False src")
  case Nil
  with assms show ?thesis by (auto simp: readNumberOrDuration_def Let_def)
next
  case (Cons c cs)
  from assms(2) have "length rest \<le> length (c # cs)"
    by (auto simp: readNumberOrDuration_def Let_def Cons split: list.splits if_splits)
  with assms(1) Cons show ?thesis by simp
qed

lemma readIdent_length:
  assumes "isIdentStart c" "readIdent start (c # src) = (t, rest)"
  shows "length rest < length (c # src)"
  using assms length_dropWhile_le [of "\<lambda>c. isIdentPart c \<or> c = CHR '':''" src]
  by (auto simp: readIdent_def Let_def isIdentPart_def less_Suc_eq_le)

lemma maybe_eq_length: "maybe_eq start c k k' rest = (t, rest') \<Longrightarrow> length rest' \<le> length rest"
  by (auto simp: maybe_eq_def split: list.splits if_splits)

lemma maybe_eq_kind: "maybe_eq start c k k' rest = (t, rest') \<Longrightarrow> kind t \<in> {k, k'}"
  by (auto simp: maybe_eq_def split: list.splits if_splits)

lemma token_at_length:
  assumes "token_at start c cs = Ok (t, rest)"
  shows "length rest < length (c # cs)"
proof (cases "isDigit c \<or> (c = CHR ''.'' \<and> cs \<noteq> [] \<and> isDigit (hd cs))")
  case True
  note number = readNumberOrDuration_length [OF number_loop_start [OF True]]
  show ?thesis
    using assms number
    by (auto simp: token_at_def readString_def less_Suc_eq_le
        dest: maybe_eq_length string_loop_length readIdent_length
        split: if_splits list.splits option.splits)
next
  case False
  then show ?thesis
    using assms
    by (auto simp: token_at_def readString_def less_Suc_eq_le
        dest: maybe_eq_length string_loop_length readIdent_length
        split: if_splits list.splits option.splits)
qed

lemma next_token_length:
  assumes "next_token pos src = Ok (t, rest)" "kind t \<noteq> tokEOF"
  shows "length rest < length src"
proof (cases "dropWhile IsSpace src")
  case Nil
  with assms show ?thesis by (auto simp: next_token_def)
next
  case (Cons c cs)
  with assms have "length rest < length (c # cs)"
    by (auto simp: next_token_def dest: token_at_length)
  also have "length (c # cs) \<le> length src"
    using length_dropWhile_le [of IsSpace src] Cons by simp
  finally show ?thesis .
qed

function tokenize :: "nat \<Rightarrow> string \<Rightarrow> (slo_error, token list) result" where
  "tokenize pos src =
     (case next_token pos src of
        Inl e \<Rightarrow> Err e
      | Inr (t, rest) \<Rightarrow>
          (if kind t = tokEOF then Ok [t]
           else (case tokenize (pos + (length src - length rest)) rest of
                   Inl e \<Rightarrow> Err e
                 | Inr ts \<Rightarrow> Ok (t # ts))))"
  by pat_completeness auto
termination
  by (relation "measure (length \<circ> snd)") (auto dest: next_token_length)

declare tokenize.simps [simp del]

end
