(* ===== verification/Slo_Parser.thy ===== *)
theory Slo_Parser
  imports Slo_Lexer
begin

text \<open>
  \<open>internal/slo/expr.go\<close>, the recursive-descent parser. The parser's state is the tokens from its
  position on; \<open>peek\<close> past the last token is Go's index-out-of-range panic, the error
  \<open>IndexOutOfRange\<close>. \<open>strconv.ParseFloat\<close> is the argument \<open>pf\<close>, and a float64 a value of
  the type \<open>'f\<close>.
\<close>

section \<open>Syntax trees and parser steps\<close>

text \<open>
  A nil and an empty \<open>byLabels\<close> or \<open>matchers\<close> are not distinguished: the parser returns nil for
  an empty list of labels, and matchers are only ranged over.
\<close>

datatype 'f astNode =
    numberNode 'f
  | vectorSelectorNode (sel_name: string) (sel_matchers: "(string \<times> string) list") (sel_duration: string)
  | binaryNode tokenKind string "'f astNode" "'f astNode"
  | unaryMinusNode "'f astNode"
  | funcCallNode string "'f astNode list" "string list"

type_synonym 'a parsed = "(slo_error, 'a \<times> token list) result"

text \<open>\<open>if err != nil \{ return nil, err \}\<close> between two steps.\<close>

definition andThen :: "'a parsed \<Rightarrow> ('a \<Rightarrow> token list \<Rightarrow> (slo_error, 'b) result) \<Rightarrow> (slo_error, 'b) result" where
  "andThen r f = (case r of Inl e \<Rightarrow> Err e | Inr (x, ts) \<Rightarrow> f x ts)"

lemma andThen_simps [simp]:
  "andThen (Inl e) f = Err e"
  "andThen (Inr (x, ts)) f = f x ts"
  by (simp_all add: andThen_def)

lemma andThen_cong [fundef_cong]:
  "r = r' \<Longrightarrow> (\<And>x ts. r' = Inr (x, ts) \<Longrightarrow> f x ts = g x ts) \<Longrightarrow> andThen r f = andThen r' g"
  by (auto simp: andThen_def split: sum.split)

lemma andThen_Ok: "andThen r f = Inr y \<longleftrightarrow> (\<exists>x ts. r = Inr (x, ts) \<and> f x ts = Inr y)"
  by (auto simp: andThen_def split: sum.split)

lemma andThen_Err: "andThen r f = Inl e \<longleftrightarrow> r = Inl e \<or> (\<exists>x ts. r = Inr (x, ts) \<and> f x ts = Inl e)"
  by (auto simp: andThen_def split: sum.split)

definition expect :: "tokenKind \<Rightarrow> token list \<Rightarrow> token parsed" where
  "expect k ts =
     (case ts of
        [] \<Rightarrow> Err IndexOutOfRange
      | t # ts' \<Rightarrow> (if kind t \<noteq> k then Err (ExpectedKind k (tok_text t) (at_pos t)) else Ok (t, ts')))"

text \<open>\<open>peekKeyword\<close> at a token; identifiers are ASCII, so \<open>EqualFold\<close> compares lower-case forms.\<close>

definition is_keyword :: "string \<Rightarrow> token \<Rightarrow> bool" where
  "is_keyword kw t \<longleftrightarrow> kind t = tokIdent \<and> ToLower (tok_text t) = kw"

fun label_loop :: "string list \<Rightarrow> token list \<Rightarrow> string list parsed" where
  "label_loop out [] = Err IndexOutOfRange"
| "label_loop out [t] = (if kind t \<noteq> tokIdent then Err (ExpectedLabelName (at_pos t)) else Err IndexOutOfRange)"
| "label_loop out (t # u # ts) =
     (if kind t \<noteq> tokIdent then Err (ExpectedLabelName (at_pos t))
      else if kind u = tokComma then label_loop (out @ [tok_text t]) ts
      else andThen (expect tokRParen (u # ts)) (\<lambda>_ ts'. Ok (out @ [tok_text t], ts')))"

definition parseLabelList :: "token list \<Rightarrow> string list parsed" where
  "parseLabelList ts =
     andThen (expect tokLParen ts) (\<lambda>_ ts1.
       (case ts1 of
          [] \<Rightarrow> Err IndexOutOfRange
        | t # ts2 \<Rightarrow> (if kind t = tokRParen then Ok ([], ts2) else label_loop [] ts1)))"

fun matcher_loop :: "(string \<times> string) list \<Rightarrow> token list \<Rightarrow> (string \<times> string) list parsed" where
  "matcher_loop m ts =
     (case ts of
        [] \<Rightarrow> Err IndexOutOfRange
      | name # ts1 \<Rightarrow>
          if kind name \<noteq> tokIdent then Err (ExpectedLabelName (at_pos name))
          else (case ts1 of
             [] \<Rightarrow> Err IndexOutOfRange
           | a # ts2 \<Rightarrow>
               if kind a \<noteq> tokAssign then Err (OnlyAssignMatchers (at_pos name))
               else (case ts2 of
                  [] \<Rightarrow> Err IndexOutOfRange
                | val # ts3 \<Rightarrow>
                    if kind val \<noteq> tokString then Err (ExpectedStringValue (at_pos val))
                    else
                      (let m' = AList.update (tok_text name) (tok_text val) m in
                       case ts3 of
                         [] \<Rightarrow> Err IndexOutOfRange
                       | u # ts4 \<Rightarrow>
                           (if kind u = tokComma then matcher_loop m' ts4
                            else andThen (expect tokRBrace ts3) (\<lambda>_ ts'. Ok (m', ts')))))))"

declare matcher_loop.simps [simp del]

definition parseLabelMatchers :: "token list \<Rightarrow> (string \<times> string) list parsed" where
  "parseLabelMatchers ts =
     (case ts of
        [] \<Rightarrow> Err IndexOutOfRange
      | t # ts' \<Rightarrow> (if kind t = tokRBrace then Ok ([], ts') else matcher_loop [] ts))"

text \<open>The selector branch of \<open>parsePrimary\<close>, after the name: matchers and a window.\<close>

definition parse_window :: "token list \<Rightarrow> string parsed" where
  "parse_window ts =
     (case ts of
        [] \<Rightarrow> Err IndexOutOfRange
      | t # ts1 \<Rightarrow>
          if kind t \<noteq> tokLBracket then Ok ([], ts)
          else (case ts1 of
             [] \<Rightarrow> Err IndexOutOfRange
           | dt # ts2 \<Rightarrow>
               if kind dt \<noteq> tokDuration then Err (ExpectedDuration (at_pos dt))
               else andThen (expect tokRBracket ts2) (\<lambda>_ ts3. Ok (tok_text dt, ts3))))"

definition parse_selector :: "string \<Rightarrow> token list \<Rightarrow> 'f astNode parsed" where
  "parse_selector name ts =
     andThen
       (case ts of
          [] \<Rightarrow> Err IndexOutOfRange
        | t # ts1 \<Rightarrow> (if kind t = tokLBrace then parseLabelMatchers ts1 else Ok ([], ts)))
       (\<lambda>m ts2. andThen (parse_window ts2) (\<lambda>d ts3. Ok (vectorSelectorNode name m d, ts3)))"

text \<open>\<open>by (labels)\<close> after the arguments, if there is one.\<close>

definition parse_by :: "token list \<Rightarrow> string list parsed" where
  "parse_by ts =
     (case ts of
        [] \<Rightarrow> Err IndexOutOfRange
      | t # ts' \<Rightarrow> (if is_keyword ''by'' t then parseLabelList ts' else Ok ([], ts)))"

section \<open>The recursive descent\<close>

function
  parseOr :: "(string \<Rightarrow> 'f option) \<Rightarrow> token list \<Rightarrow> 'f astNode parsed" and
  or_loop :: "(string \<Rightarrow> 'f option) \<Rightarrow> 'f astNode \<Rightarrow> token list \<Rightarrow> 'f astNode parsed" and
  parseAnd :: "(string \<Rightarrow> 'f option) \<Rightarrow> token list \<Rightarrow> 'f astNode parsed" and
  and_loop :: "(string \<Rightarrow> 'f option) \<Rightarrow> 'f astNode \<Rightarrow> token list \<Rightarrow> 'f astNode parsed" and
  parseCmp :: "(string \<Rightarrow> 'f option) \<Rightarrow> token list \<Rightarrow> 'f astNode parsed" and
  cmp_tail :: "(string \<Rightarrow> 'f option) \<Rightarrow> 'f astNode \<Rightarrow> token list \<Rightarrow> 'f astNode parsed" and
  parseAdd :: "(string \<Rightarrow> 'f option) \<Rightarrow> token list \<Rightarrow> 'f astNode parsed" and
  add_loop :: "(string \<Rightarrow> 'f option) \<Rightarrow> 'f astNode \<Rightarrow> token list \<Rightarrow> 'f astNode parsed" and
  parseMul :: "(string \<Rightarrow> 'f option) \<Rightarrow> token list \<Rightarrow> 'f astNode parsed" and
  mul_loop :: "(string \<Rightarrow> 'f option) \<Rightarrow> 'f astNode \<Rightarrow> token list \<Rightarrow> 'f astNode parsed" and
  parseUnary :: "(string \<Rightarrow> 'f option) \<Rightarrow> token list \<Rightarrow> 'f astNode parsed" and
  parsePrimary :: "(string \<Rightarrow> 'f option) \<Rightarrow> token list \<Rightarrow> 'f astNode parsed" and
  parseArgs :: "(string \<Rightarrow> 'f option) \<Rightarrow> token list \<Rightarrow> 'f astNode list parsed" and
  args_loop :: "(string \<Rightarrow> 'f option) \<Rightarrow> 'f astNode list \<Rightarrow> token list \<Rightarrow> 'f astNode list parsed"
  where
  "parseOr pf ts = andThen (parseAnd pf ts) (or_loop pf)"
| "or_loop pf lhs ts =
     (case ts of
        [] \<Rightarrow> Err IndexOutOfRange
      | t # ts1 \<Rightarrow>
          (if is_keyword ''or'' t then
             andThen (parseAnd pf ts1) (\<lambda>rhs ts2. or_loop pf (binaryNode tokEOF ''or'' lhs rhs) ts2)
           else if is_keyword ''unless'' t then
             andThen (parseAnd pf ts1) (\<lambda>rhs ts2. or_loop pf (binaryNode tokEOF ''unless'' lhs rhs) ts2)
           else Ok (lhs, ts)))"
| "parseAnd pf ts = andThen (parseCmp pf ts) (and_loop pf)"
| "and_loop pf lhs ts =
     (case ts of
        [] \<Rightarrow> Err IndexOutOfRange
      | t # ts1 \<Rightarrow>
          (if is_keyword ''and'' t then
             andThen (parseCmp pf ts1) (\<lambda>rhs ts2. and_loop pf (binaryNode tokEOF ''and'' lhs rhs) ts2)
           else Ok (lhs, ts)))"
| "parseCmp pf ts = andThen (parseAdd pf ts) (cmp_tail pf)"
| "cmp_tail pf lhs ts =
     (case ts of
        [] \<Rightarrow> Err IndexOutOfRange
      | t # ts1 \<Rightarrow>
          (if kind t \<in> {tokEq, tokNeq, tokGt, tokGte, tokLt, tokLte} then
             andThen (parseAdd pf ts1) (\<lambda>rhs ts2. Ok (binaryNode (kind t) (tok_text t) lhs rhs, ts2))
           else Ok (lhs, ts)))"
| "parseAdd pf ts = andThen (parseMul pf ts) (add_loop pf)"
| "add_loop pf lhs ts =
     (case ts of
        [] \<Rightarrow> Err IndexOutOfRange
      | t # ts1 \<Rightarrow>
          (if kind t \<in> {tokPlus, tokMinus} then
             andThen (parseMul pf ts1) (\<lambda>rhs ts2. add_loop pf (binaryNode (kind t) (tok_text t) lhs rhs) ts2)
           else Ok (lhs, ts)))"
| "parseMul pf ts = andThen (parseUnary pf ts) (mul_loop pf)"
| "mul_loop pf lhs ts =
     (case ts of
        [] \<Rightarrow> Err IndexOutOfRange
      | t # ts1 \<Rightarrow>
          (if kind t \<in> {tokStar, tokSlash} then
             andThen (parseUnary pf ts1) (\<lambda>rhs ts2. mul_loop pf (binaryNode (kind t) (tok_text t) lhs rhs) ts2)
           else Ok (lhs, ts)))"
| "parseUnary pf ts =
     (case ts of
        [] \<Rightarrow> Err IndexOutOfRange
      | t # ts1 \<Rightarrow>
          (if kind t = tokMinus then andThen (parsePrimary pf ts1) (\<lambda>inner ts2. Ok (unaryMinusNode inner, ts2))
           else parsePrimary pf ts))"
| "parsePrimary pf ts =
     (case ts of
        [] \<Rightarrow> Err IndexOutOfRange
      | t # ts1 \<Rightarrow>
          (if kind t = tokNumber then
             (case pf (tok_text t) of
                None \<Rightarrow> Err (BadNumber (tok_text t) (at_pos t))
              | Some v \<Rightarrow> Ok (numberNode v, ts1))
           else if kind t = tokLParen then
             andThen (parseOr pf ts1) (\<lambda>inner ts2.
               andThen (expect tokRParen ts2) (\<lambda>_ ts3. Ok (inner, ts3)))
           else if kind t = tokIdent then
             (case ts1 of
                [] \<Rightarrow> Err IndexOutOfRange
              | u # ts2 \<Rightarrow>
                  (if is_keyword ''by'' u then
                     andThen (parseLabelList ts2) (\<lambda>labels ts3.
                       andThen (expect tokLParen ts3) (\<lambda>_ ts4.
                         andThen (parseArgs pf ts4) (\<lambda>args ts5.
                           andThen (expect tokRParen ts5) (\<lambda>_ ts6.
                             Ok (funcCallNode (tok_text t) args labels, ts6)))))
                   else if kind u = tokLParen then
                     andThen (parseArgs pf ts2) (\<lambda>args ts3.
                       andThen (expect tokRParen ts3) (\<lambda>_ ts4.
                         andThen (parse_by ts4) (\<lambda>labels ts5.
                           Ok (funcCallNode (tok_text t) args labels, ts5))))
                   else parse_selector (tok_text t) ts1))
           else Err (UnexpectedToken (tok_text t) (at_pos t))))"
| "parseArgs pf ts =
     (case ts of
        [] \<Rightarrow> Err IndexOutOfRange
      | t # _ \<Rightarrow> (if kind t = tokRParen then Ok ([], ts) else args_loop pf [] ts))"
| "args_loop pf out ts =
     andThen (parseOr pf ts) (\<lambda>n ts1.
       (case ts1 of
          [] \<Rightarrow> Err IndexOutOfRange
        | t # ts2 \<Rightarrow> (if kind t = tokComma then args_loop pf (out @ [n]) ts2 else Ok (out @ [n], ts1))))"
  by pat_completeness auto

section \<open>The parser consumes tokens\<close>

definition shorter :: "token list \<Rightarrow> 'a parsed \<Rightarrow> bool" where
  "shorter ts r \<longleftrightarrow> (\<forall>x ts'. r = Ok (x, ts') \<longrightarrow> length ts' < length ts)"

definition no_longer :: "token list \<Rightarrow> 'a parsed \<Rightarrow> bool" where
  "no_longer ts r \<longleftrightarrow> (\<forall>x ts'. r = Ok (x, ts') \<longrightarrow> length ts' \<le> length ts)"

lemma shorterD: "shorter ts r \<Longrightarrow> r = Ok (x, ts') \<Longrightarrow> length ts' < length ts"
  by (simp add: shorter_def)

lemma no_longerD: "no_longer ts r \<Longrightarrow> r = Ok (x, ts') \<Longrightarrow> length ts' \<le> length ts"
  by (simp add: no_longer_def)

lemma shorter_basic [simp, intro]:
  "shorter ts (Err e)" "no_longer ts (Err e)"
  "length ts' < length ts \<Longrightarrow> shorter ts (Ok (x, ts'))"
  "length ts' \<le> length ts \<Longrightarrow> no_longer ts (Ok (x, ts'))"
  by (simp_all add: shorter_def no_longer_def)

lemma shorter_andThen:
  "shorter ts r \<Longrightarrow> (\<And>x ts'. r = Ok (x, ts') \<Longrightarrow> no_longer ts' (f x ts')) \<Longrightarrow> shorter ts (andThen r f)"
  unfolding shorter_def no_longer_def andThen_Ok by fastforce

lemma no_longer_andThen:
  "no_longer ts r \<Longrightarrow> (\<And>x ts'. r = Ok (x, ts') \<Longrightarrow> no_longer ts' (f x ts')) \<Longrightarrow> no_longer ts (andThen r f)"
  unfolding no_longer_def andThen_Ok by fastforce

lemma shorter_no_longer: "shorter ts r \<Longrightarrow> no_longer (t # ts) r" "shorter ts r \<Longrightarrow> no_longer ts r"
  "shorter ts r \<Longrightarrow> shorter (t # ts) r" "no_longer ts r \<Longrightarrow> shorter (t # ts) r"
  "no_longer ts r \<Longrightarrow> no_longer (t # ts) r"
  by (fastforce simp: shorter_def no_longer_def)+

lemma shorter_Cons: "shorter (t # ts) r \<longleftrightarrow> no_longer ts r"
  by (simp add: shorter_def no_longer_def less_Suc_eq_le)

lemma expect_shorter: "shorter ts (expect k ts)"
  by (simp add: expect_def split: list.split)

lemma label_loop_shorter: "shorter ts (label_loop out ts)"
proof (induction out ts rule: label_loop.induct)
  case (3 out t u ts)
  then show ?case
    by (auto intro!: shorter_andThen expect_shorter intro: shorter_no_longer)
qed auto

lemma parseLabelList_shorter: "shorter ts (parseLabelList ts)"
  unfolding parseLabelList_def
  by (intro shorter_andThen expect_shorter)
    (auto intro: shorter_no_longer label_loop_shorter split: list.split)

lemma matcher_loop_shorter: "shorter ts (matcher_loop m ts)"
proof (induction m ts rule: matcher_loop.induct)
  case (1 m ts)
  show ?case
    unfolding matcher_loop.simps [of m ts]
    by (auto split: list.split simp: Let_def
        intro!: shorter_no_longer(3) [OF shorter_andThen] expect_shorter intro: shorter_no_longer)
      ((rule shorter_no_longer(3))+, rule 1, auto)
qed

lemma parseLabelMatchers_shorter: "shorter ts (parseLabelMatchers ts)"
  unfolding parseLabelMatchers_def by (auto intro: matcher_loop_shorter split: list.split)

lemma parse_window_no_longer: "no_longer ts (parse_window ts)"
  unfolding parse_window_def
  by (auto split: list.split intro!: shorter_no_longer(5) no_longer_andThen
      intro: shorter_no_longer(2) expect_shorter)

lemma parse_selector_no_longer: "no_longer ts (parse_selector name ts)"
  unfolding parse_selector_def
  by (intro no_longer_andThen) (auto split: list.split
      intro: shorter_no_longer parseLabelMatchers_shorter parse_window_no_longer)

lemma parse_by_no_longer: "no_longer ts (parse_by ts)"
  unfolding parse_by_def by (auto split: list.split intro: shorter_no_longer parseLabelList_shorter)

lemmas helper_no_longer =
  expect_shorter [THEN shorter_no_longer(2)] parseLabelList_shorter [THEN shorter_no_longer(2)]
  parseLabelList_shorter [THEN shorter_no_longer(1)] parse_selector_no_longer parse_by_no_longer

lemma loop_no_longer:
  assumes "\<And>t ts1. ts = t # ts1 \<Longrightarrow> c t \<Longrightarrow> shorter ts1 (p ts1)"
    and "\<And>t ts1 x ts2. ts = t # ts1 \<Longrightarrow> c t \<Longrightarrow> p ts1 = Ok (x, ts2) \<Longrightarrow> no_longer ts2 (f t x ts2)"
  shows "no_longer ts
    (case ts of [] \<Rightarrow> Err e | t # ts1 \<Rightarrow> (if c t then andThen (p ts1) (f t) else Ok (lhs, ts)))"
  using assms by (auto split: list.split intro!: shorter_no_longer(1) [OF shorter_andThen])

lemmas parse_pinduct =
  parseOr_or_loop_parseAnd_and_loop_parseCmp_cmp_tail_parseAdd_add_loop_parseMul_mul_loop_parseUnary_parsePrimary_parseArgs_args_loop.pinduct

lemmas parse_psimps =
  parseOr.psimps or_loop.psimps parseAnd.psimps and_loop.psimps parseCmp.psimps cmp_tail.psimps parseAdd.psimps
  add_loop.psimps parseMul.psimps mul_loop.psimps parseUnary.psimps parsePrimary.psimps parseArgs.psimps args_loop.psimps

abbreviation parse_dom :: "((((string \<Rightarrow> 'f option) \<times> token list) + ((string \<Rightarrow> 'f option) \<times> 'f astNode \<times> token list) + ((string \<Rightarrow> 'f option) \<times> token list))
     + ((((string \<Rightarrow> 'f option) \<times> 'f astNode \<times> token list) + ((string \<Rightarrow> 'f option) \<times> token list)) + ((string \<Rightarrow> 'f option) \<times> 'f astNode \<times> token list) + ((string \<Rightarrow> 'f option) \<times> token list)))
   + ((((string \<Rightarrow> 'f option) \<times> 'f astNode \<times> token list) + ((string \<Rightarrow> 'f option) \<times> token list) + ((string \<Rightarrow> 'f option) \<times> 'f astNode \<times> token list))
     + ((((string \<Rightarrow> 'f option) \<times> token list) + ((string \<Rightarrow> 'f option) \<times> token list)) + ((string \<Rightarrow> 'f option) \<times> token list) + ((string \<Rightarrow> 'f option) \<times> 'f astNode list \<times> token list))) \<Rightarrow> bool" where
  "parse_dom \<equiv> parseOr_or_loop_parseAnd_and_loop_parseCmp_cmp_tail_parseAdd_add_loop_parseMul_mul_loop_parseUnary_parsePrimary_parseArgs_args_loop_dom"

lemma parse_consumes_partial:
  "parse_dom (Inl (Inl (Inl (pf, ts)))) \<Longrightarrow> shorter ts (parseOr pf ts)"
  "parse_dom (Inl (Inl (Inr (Inl (pf, lhs, ts))))) \<Longrightarrow> no_longer ts (or_loop pf lhs ts)"
  "parse_dom (Inl (Inl (Inr (Inr (pf, ts))))) \<Longrightarrow> shorter ts (parseAnd pf ts)"
  "parse_dom (Inl (Inr (Inl (Inl (pf, lhs, ts))))) \<Longrightarrow> no_longer ts (and_loop pf lhs ts)"
  "parse_dom (Inl (Inr (Inl (Inr (pf, ts))))) \<Longrightarrow> shorter ts (parseCmp pf ts)"
  "parse_dom (Inl (Inr (Inr (Inl (pf, lhs, ts))))) \<Longrightarrow> no_longer ts (cmp_tail pf lhs ts)"
  "parse_dom (Inl (Inr (Inr (Inr (pf, ts))))) \<Longrightarrow> shorter ts (parseAdd pf ts)"
  "parse_dom (Inr (Inl (Inl (pf, lhs, ts)))) \<Longrightarrow> no_longer ts (add_loop pf lhs ts)"
  "parse_dom (Inr (Inl (Inr (Inl (pf, ts))))) \<Longrightarrow> shorter ts (parseMul pf ts)"
  "parse_dom (Inr (Inl (Inr (Inr (pf, lhs, ts))))) \<Longrightarrow> no_longer ts (mul_loop pf lhs ts)"
  "parse_dom (Inr (Inr (Inl (Inl (pf, ts))))) \<Longrightarrow> shorter ts (parseUnary pf ts)"
  "parse_dom (Inr (Inr (Inl (Inr (pf, ts))))) \<Longrightarrow> shorter ts (parsePrimary pf ts)"
  "parse_dom (Inr (Inr (Inr (Inl (pf, ts))))) \<Longrightarrow> no_longer ts (parseArgs pf ts)"
  "parse_dom (Inr (Inr (Inr (Inr (pf, out, ts))))) \<Longrightarrow> shorter ts (args_loop pf out ts)"
proof (induction rule: parse_pinduct)
  case (12 pf ts)
  note IH = 12(2) [THEN shorter_no_longer(2)] 12(3,4)
  show ?case
  proof (cases ts)
    case Nil
    then show ?thesis unfolding parsePrimary.psimps [OF 12(1)] by simp
  next
    case (Cons t ts1)
    show ?thesis
    proof (cases ts1)
      case Nil
      with Cons IH(1) [OF Cons] show ?thesis
        unfolding parsePrimary.psimps [OF 12(1)]
        by (auto simp: shorter_Cons split: option.split
            intro!: no_longer_andThen helper_no_longer)
    next
      case (Cons u ts2)
      with \<open>ts = t # ts1\<close> IH show ?thesis
        unfolding parsePrimary.psimps [OF 12(1)]
        by (auto simp: shorter_Cons split: option.split
            intro!: no_longer_andThen helper_no_longer intro: shorter_no_longer)
    qed
  qed
next
  case (8 pf lhs ts)
  show ?case unfolding add_loop.psimps [OF 8(1)] by (rule loop_no_longer) (use 8 in auto)
next
  case (10 pf lhs ts)
  show ?case unfolding mul_loop.psimps [OF 10(1)] by (rule loop_no_longer) (use 10 in auto)
next
  case (14 pf out ts)
  then show ?case
    by (auto simp: parse_psimps split: list.split intro!: shorter_andThen shorter_no_longer(1))
qed (auto simp: parse_psimps split: list.split
    intro!: shorter_andThen intro: shorter_no_longer no_longer_andThen)

termination parseOr
proof (relation "measure (\<lambda>x. case x of
     Inl (Inl (Inl (pf, ts))) \<Rightarrow> 14 * length ts + 12
   | Inl (Inl (Inr (Inl (pf, lhs, ts)))) \<Rightarrow> 14 * length ts + 11
   | Inl (Inl (Inr (Inr (pf, ts)))) \<Rightarrow> 14 * length ts + 10
   | Inl (Inr (Inl (Inl (pf, lhs, ts)))) \<Rightarrow> 14 * length ts + 9
   | Inl (Inr (Inl (Inr (pf, ts)))) \<Rightarrow> 14 * length ts + 8
   | Inl (Inr (Inr (Inl (pf, lhs, ts)))) \<Rightarrow> 14 * length ts + 7
   | Inl (Inr (Inr (Inr (pf, ts)))) \<Rightarrow> 14 * length ts + 6
   | Inr (Inl (Inl (pf, lhs, ts))) \<Rightarrow> 14 * length ts + 5
   | Inr (Inl (Inr (Inl (pf, ts)))) \<Rightarrow> 14 * length ts + 4
   | Inr (Inl (Inr (Inr (pf, lhs, ts)))) \<Rightarrow> 14 * length ts + 3
   | Inr (Inr (Inl (Inl (pf, ts)))) \<Rightarrow> 14 * length ts + 2
   | Inr (Inr (Inl (Inr (pf, ts)))) \<Rightarrow> 14 * length ts + 1
   | Inr (Inr (Inr (Inl (pf, ts)))) \<Rightarrow> 14 * length ts + 14
   | Inr (Inr (Inr (Inr (pf, out, ts)))) \<Rightarrow> 14 * length ts + 13)")
qed (auto dest!: parse_consumes_partial(1,3,5,7,9,11,12) [THEN shorterD]
    parseLabelList_shorter [THEN shorterD] expect_shorter [THEN shorterD])

lemmas parse_induct =
  parseOr_or_loop_parseAnd_and_loop_parseCmp_cmp_tail_parseAdd_add_loop_parseMul_mul_loop_parseUnary_parsePrimary_parseArgs_args_loop.induct

declare
  parseOr.simps [simp del] or_loop.simps [simp del] parseAnd.simps [simp del] and_loop.simps [simp del]
  parseCmp.simps [simp del] cmp_tail.simps [simp del] parseAdd.simps [simp del] add_loop.simps [simp del]
  parseMul.simps [simp del] mul_loop.simps [simp del] parseUnary.simps [simp del] parsePrimary.simps [simp del]
  parseArgs.simps [simp del] args_loop.simps [simp del]

definition parsePromQL :: "(string \<Rightarrow> 'f option) \<Rightarrow> string \<Rightarrow> (slo_error, 'f astNode) result" where
  "parsePromQL pf src =
     (case tokenize 0 src of
        Inl e \<Rightarrow> Err e
      | Inr toks \<Rightarrow>
          andThen (parseOr pf toks) (\<lambda>n ts.
            (case ts of
               [] \<Rightarrow> Err IndexOutOfRange
             | t # _ \<Rightarrow> (if kind t \<noteq> tokEOF then Err (TrailingInput (at_pos t) (tok_text t)) else Ok n))))"

end
