(* ===== verification/Slo_Parser_Props.thy ===== *)
theory Slo_Parser_Props
  imports Slo_Parser
begin

text \<open>
  The parser of \<open>internal/slo/expr.go\<close> is total: on every source text it ends and returns a
  tree or a parse error. That it ends is the termination proof of \<open>Slo_Parser\<close>; this theory shows
  that it never indexes past its tokens.
\<close>

section \<open>The parser never runs off its tokens\<close>

text \<open>The tokens end with the end-of-file token, and no step takes that one.\<close>

definition terminated :: "token list \<Rightarrow> bool" where
  "terminated ts \<longleftrightarrow> ts \<noteq> [] \<and> kind (last ts) = tokEOF"

definition no_panic :: "'a parsed \<Rightarrow> bool" where
  "no_panic r = (case r of Inl e \<Rightarrow> e \<noteq> IndexOutOfRange | Inr (x, ts) \<Rightarrow> terminated ts)"

lemma terminated_Nil [simp]: "\<not> terminated []"
  by (simp add: terminated_def)

lemma terminated_Cons [simp]: "terminated (t # ts) \<longleftrightarrow> (if ts = [] then kind t = tokEOF else terminated ts)"
  by (simp add: terminated_def)

lemma no_panic_simps [simp]:
  "no_panic (Err e) \<longleftrightarrow> e \<noteq> IndexOutOfRange"
  "no_panic (Ok (x, ts)) \<longleftrightarrow> terminated ts"
  by (simp_all add: no_panic_def)

lemma no_panic_andThen [intro]:
  "no_panic r \<Longrightarrow> (\<And>x ts. r = Ok (x, ts) \<Longrightarrow> terminated ts \<Longrightarrow> no_panic (f x ts)) \<Longrightarrow> no_panic (andThen r f)"
  by (auto simp: no_panic_def andThen_def split: sum.splits)

lemma terminated_tl: "terminated (t # ts) \<Longrightarrow> kind t \<noteq> tokEOF \<Longrightarrow> terminated ts"
  by (auto split: if_splits)

lemma keyword_kind: "is_keyword kw t \<Longrightarrow> kind t = tokIdent"
  by (simp add: is_keyword_def)

lemma expect_no_panic: "terminated ts \<Longrightarrow> k \<noteq> tokEOF \<Longrightarrow> no_panic (expect k ts)"
  by (auto simp: expect_def split: list.split if_splits)

lemma label_loop_no_panic: "terminated ts \<Longrightarrow> no_panic (label_loop out ts)"
proof (induction out ts rule: label_loop.induct)
  case (3 out t u ts)
  then show ?case by (auto intro!: expect_no_panic no_panic_andThen split: if_splits)
qed auto

lemma parseLabelList_no_panic: "terminated ts \<Longrightarrow> no_panic (parseLabelList ts)"
  unfolding parseLabelList_def
  by (rule no_panic_andThen) (auto intro: expect_no_panic label_loop_no_panic dest: terminated_tl split: list.split)

lemma matcher_loop_no_panic: "terminated ts \<Longrightarrow> no_panic (matcher_loop m ts)"
proof (induction m ts rule: matcher_loop.induct)
  case (1 m ts)
  then show ?case
    by (subst matcher_loop.simps)
      (auto simp: Let_def split: list.split if_splits intro!: expect_no_panic)
qed

lemma parseLabelMatchers_no_panic: "terminated ts \<Longrightarrow> no_panic (parseLabelMatchers ts)"
  unfolding parseLabelMatchers_def
  by (auto split: list.split if_splits intro: matcher_loop_no_panic)

lemma parse_window_no_panic: "terminated ts \<Longrightarrow> no_panic (parse_window ts)"
  unfolding parse_window_def
  by (auto split: list.split if_splits intro!: expect_no_panic)

lemma parse_selector_no_panic: "terminated ts \<Longrightarrow> no_panic (parse_selector name ts)"
  unfolding parse_selector_def
  by (intro no_panic_andThen)
    (auto split: list.split if_splits intro: parseLabelMatchers_no_panic parse_window_no_panic)

lemma parse_by_no_panic: "terminated ts \<Longrightarrow> no_panic (parse_by ts)"
  unfolding parse_by_def
  by (auto split: list.split if_splits intro: parseLabelList_no_panic dest: keyword_kind)

lemma loop_no_panic:
  assumes "terminated ts" "\<And>t. c t \<Longrightarrow> kind t \<noteq> tokEOF"
    and "\<And>t ts1. ts = t # ts1 \<Longrightarrow> c t \<Longrightarrow> terminated ts1 \<Longrightarrow> no_panic (p ts1)"
    and "\<And>t ts1 x ts2. ts = t # ts1 \<Longrightarrow> c t \<Longrightarrow> p ts1 = Ok (x, ts2) \<Longrightarrow> terminated ts2 \<Longrightarrow> no_panic (f t x ts2)"
  shows "no_panic
    (case ts of [] \<Rightarrow> Err e | t # ts1 \<Rightarrow> (if c t then andThen (p ts1) (f t) else Ok (lhs, ts)))"
proof (cases ts)
  case (Cons t ts1)
  with assms terminated_tl [of t ts1] show ?thesis by (auto simp del: terminated_Cons)
qed (use assms(1) in simp)

lemmas helper_no_panic = expect_no_panic parseLabelList_no_panic parse_selector_no_panic parse_by_no_panic

lemma parse_no_panic:
  "terminated ts \<Longrightarrow> no_panic (parseOr pf ts)"
  "terminated ts \<Longrightarrow> no_panic (or_loop pf lhs ts)"
  "terminated ts \<Longrightarrow> no_panic (parseAnd pf ts)"
  "terminated ts \<Longrightarrow> no_panic (and_loop pf lhs ts)"
  "terminated ts \<Longrightarrow> no_panic (parseCmp pf ts)"
  "terminated ts \<Longrightarrow> no_panic (cmp_tail pf lhs ts)"
  "terminated ts \<Longrightarrow> no_panic (parseAdd pf ts)"
  "terminated ts \<Longrightarrow> no_panic (add_loop pf lhs ts)"
  "terminated ts \<Longrightarrow> no_panic (parseMul pf ts)"
  "terminated ts \<Longrightarrow> no_panic (mul_loop pf lhs ts)"
  "terminated ts \<Longrightarrow> no_panic (parseUnary pf ts)"
  "terminated ts \<Longrightarrow> no_panic (parsePrimary pf ts)"
  "terminated ts \<Longrightarrow> no_panic (parseArgs pf ts)"
  "terminated ts \<Longrightarrow> no_panic (args_loop pf out ts)"
proof (induction rule: parse_induct)
  case (1 pf ts)
  then show ?case
    by (subst parseOr.simps) (auto split: list.split if_splits)
next
  case (2 pf lhs ts)
  then show ?case
    by (subst or_loop.simps) (auto split: list.split if_splits dest: keyword_kind)
next
  case (3 pf ts)
  then show ?case
    by (subst parseAnd.simps) (auto split: list.split if_splits)
next
  case (4 pf lhs ts)
  then show ?case
    by (subst and_loop.simps) (auto split: list.split if_splits dest: keyword_kind)
next
  case (5 pf ts)
  then show ?case
    by (subst parseCmp.simps) (auto split: list.split if_splits)
next
  case (6 pf lhs ts)
  then show ?case
    by (subst cmp_tail.simps) (auto split: list.split if_splits)
next
  case (7 pf ts)
  then show ?case
    by (subst parseAdd.simps) (auto split: list.split if_splits)
next
  case (8 pf lhs ts)
  show ?case unfolding add_loop.simps [of pf lhs ts] by (rule loop_no_panic) (use 8 in auto)
next
  case (9 pf ts)
  then show ?case
    by (subst parseMul.simps) (auto split: list.split if_splits)
next
  case (10 pf lhs ts)
  show ?case unfolding mul_loop.simps [of pf lhs ts] by (rule loop_no_panic) (use 10 in auto)
next
  case (11 pf ts)
  then show ?case
    by (subst parseUnary.simps) (auto split: list.split if_splits)
next
  case (12 pf ts)
  then obtain t ts1 where ts: "ts = t # ts1" by (cases ts) auto
  show ?case
  proof (cases ts1)
    case Nil
    with 12(4) ts show ?thesis by (subst parsePrimary.simps) simp
  next
    case (Cons u ts2)
    then have "terminated ts1" "kind u \<noteq> tokEOF \<Longrightarrow> terminated ts2"
      using 12(4) ts by (auto split: if_splits)
    with Cons 12(1-3) [OF ts] show ?thesis
      unfolding ts parsePrimary.simps [of pf "t # ts1"]
      by (auto simp del: terminated_Cons split: option.split
          dest: keyword_kind intro!: no_panic_andThen helper_no_panic)
  qed
next
  case (13 pf ts)
  then show ?case
    by (subst parseArgs.simps) (auto split: list.split if_splits)
next
  case (14 pf out ts)
  then show ?case
    by (subst args_loop.simps) (auto split: list.split if_splits intro!: no_panic_andThen)
qed

lemma tokenize_terminated: "tokenize pos src = Ok ts \<Longrightarrow> terminated ts"
proof (induction pos src arbitrary: ts rule: tokenize.induct)
  case (1 pos src)
  show ?case
  proof (cases "next_token pos src")
    case (Inr y)
    then obtain t rest where y: "next_token pos src = Ok (t, rest)" by (cases y) auto
    show ?thesis
      using 1(2) 1(1) [OF y refl] y
      by (subst (asm) tokenize.simps) (auto split: sum.splits if_splits)
  qed (use 1(2) in \<open>simp add: tokenize.simps\<close>)
qed

lemma next_token_no_panic: "next_token pos src \<noteq> Err IndexOutOfRange"
proof -
  have "token_at start c rest \<noteq> Err IndexOutOfRange" for start c rest
    unfolding token_at_def readString_def by (simp split: option.split list.split)
  then show ?thesis by (simp add: next_token_def split: list.split)
qed

lemma tokenize_no_panic: "tokenize pos src \<noteq> Err IndexOutOfRange"
proof (induction pos src rule: tokenize.induct)
  case (1 pos src)
  show ?case
  proof (cases "next_token pos src")
    case (Inr y)
    then obtain t rest where y: "next_token pos src = Ok (t, rest)" by (cases y) auto
    show ?thesis
      using 1 [OF y refl] y by (subst tokenize.simps) (auto split: sum.split)
  qed (use next_token_no_panic [of pos src] in \<open>auto simp: tokenize.simps\<close>)
qed

text \<open>
  C40. No source makes the parser of the rule expressions read past its tokens: for every input it
  returns a syntax tree or one of its errors, never an index out of range.
\<close>

theorem parsePromQL_never_panics: "parsePromQL pf src \<noteq> Err IndexOutOfRange"
proof (cases "tokenize 0 src")
  case (Inl e)
  with tokenize_no_panic [of 0 src] show ?thesis by (simp add: parsePromQL_def)
next
  case (Inr toks)
  then show ?thesis
    using parse_no_panic(1) [OF tokenize_terminated [OF Inr], of pf]
    by (auto simp: parsePromQL_def no_panic_def andThen_def split: sum.splits list.splits)
qed

end
