(* ===== verification/Slo_Print.thy ===== *)
theory Slo_Print
  imports Slo_Parser
begin

text \<open>
  A printer for the syntax trees of \<open>internal/slo/expr.go\<close>, with the parentheses precedence and
  associativity ask for, and the proof that the recursive descent reads the printed
  tokens back. The source has no printer: this one is the specification of the parser.
\<close>

section \<open>A printer\<close>

abbreviation kt :: "token \<Rightarrow> tokenKind \<times> string" where
  "kt t \<equiv> (kind t, tok_text t)"

text \<open>The precedence of a binary node, from \<open>or\<close> (0) to \<open>*\<close> (4), and its token.\<close>

definition bin_level :: "tokenKind \<Rightarrow> string \<Rightarrow> nat option" where
  "bin_level op s =
     map_of [((tokEOF, ''or''), 0), ((tokEOF, ''unless''), 0), ((tokEOF, ''and''), 1),
             ((tokEq, ''==''), 2), ((tokNeq, ''!=''), 2), ((tokGt, ''>''), 2), ((tokGte, ''>=''), 2),
             ((tokLt, ''<''), 2), ((tokLte, ''<=''), 2), ((tokPlus, ''+''), 3), ((tokMinus, ''-''), 3),
             ((tokStar, ''*''), 4), ((tokSlash, ''/''), 4)] (op, s)"

definition bin_token :: "tokenKind \<Rightarrow> string \<Rightarrow> tokenKind \<times> string" where
  "bin_token op s = (if op = tokEOF then tokIdent else op, s)"

abbreviation "lparen \<equiv> (tokLParen, ''('')"
abbreviation "rparen \<equiv> (tokRParen, '')'')"
abbreviation "comma \<equiv> (tokComma, '','')"

definition parens :: "bool \<Rightarrow> (tokenKind \<times> string) list \<Rightarrow> (tokenKind \<times> string) list" where
  "parens b ts = (if b then lparen # ts @ [rparen] else ts)"

fun commas :: "(tokenKind \<times> string) list list \<Rightarrow> (tokenKind \<times> string) list" where
  "commas [] = []"
| "commas [x] = x"
| "commas (x # y # ys) = x @ comma # commas (y # ys)"

definition print_matchers :: "(string \<times> string) list \<Rightarrow> (tokenKind \<times> string) list" where
  "print_matchers m =
     (if m = [] then []
      else (tokLBrace, ''{'') # commas (map (\<lambda>(k, v). [(tokIdent, k), (tokAssign, ''=''), (tokString, v)]) m)
           @ [(tokRBrace, ''}'')])"

definition print_window :: "string \<Rightarrow> (tokenKind \<times> string) list" where
  "print_window d = (if d = [] then [] else [(tokLBracket, ''[''), (tokDuration, d), (tokRBracket, '']'')])"

definition print_by :: "string list \<Rightarrow> (tokenKind \<times> string) list" where
  "print_by ls =
     (if ls = [] then [] else (tokIdent, ''by'') # lparen # commas (map (\<lambda>l. [(tokIdent, l)]) ls) @ [rparen])"

fun print_at :: "('f \<Rightarrow> string) \<Rightarrow> nat \<Rightarrow> 'f astNode \<Rightarrow> (tokenKind \<times> string) list" where
  "print_at sh n (numberNode v) = [(tokNumber, sh v)]"
| "print_at sh n (vectorSelectorNode name m d) = (tokIdent, name) # print_matchers m @ print_window d"
| "print_at sh n (binaryNode op s l r) =
     (case bin_level op s of
        None \<Rightarrow> []
      | Some k \<Rightarrow>
          parens (k < n) (print_at sh (if k = 2 then 3 else k) l @ bin_token op s # print_at sh (Suc k) r))"
| "print_at sh n (unaryMinusNode e) = parens (5 < n) ((tokMinus, ''-'') # print_at sh 6 e)"
| "print_at sh n (funcCallNode f args ls) =
     (tokIdent, f) # lparen # commas (map (print_at sh 0) args) @ rparen # print_by ls"

text \<open>
  The trees the parser can return: operators with their own texts, a map of matchers, and
  numbers that \<open>ParseFloat\<close> reads back.
\<close>

fun tree_ok :: "(string \<Rightarrow> 'f option) \<Rightarrow> ('f \<Rightarrow> string) \<Rightarrow> 'f astNode \<Rightarrow> bool" where
  "tree_ok pf sh (numberNode v) \<longleftrightarrow> pf (sh v) = Some v"
| "tree_ok pf sh (vectorSelectorNode name m d) \<longleftrightarrow> map_wf m"
| "tree_ok pf sh (binaryNode op s l r) \<longleftrightarrow> bin_level op s \<noteq> None \<and> tree_ok pf sh l \<and> tree_ok pf sh r"
| "tree_ok pf sh (unaryMinusNode e) \<longleftrightarrow> tree_ok pf sh e"
| "tree_ok pf sh (funcCallNode f args ls) \<longleftrightarrow> (\<forall>a\<in>set args. tree_ok pf sh a)"

section \<open>Parsing what was printed\<close>

definition parse_at :: "nat \<Rightarrow> (string \<Rightarrow> 'f option) \<Rightarrow> token list \<Rightarrow> 'f astNode parsed" where
  "parse_at n = [parseOr, parseAnd, parseCmp, parseAdd, parseMul, parseUnary, parsePrimary] ! n"

definition loop_at :: "nat \<Rightarrow> (string \<Rightarrow> 'f option) \<Rightarrow> 'f astNode \<Rightarrow> token list \<Rightarrow> 'f astNode parsed" where
  "loop_at n = [or_loop, and_loop, cmp_tail, add_loop, mul_loop, \<lambda>pf e ts. Ok (e, ts), \<lambda>pf e ts. Ok (e, ts)] ! n"

text \<open>The level at which a token continues an expression.\<close>

definition tok_level :: "token \<Rightarrow> nat option" where
  "tok_level t =
     (if is_keyword ''or'' t \<or> is_keyword ''unless'' t then Some 0
      else if is_keyword ''and'' t then Some 1
      else if kind t \<in> {tokEq, tokNeq, tokGt, tokGte, tokLt, tokLte} then Some 2
      else if kind t \<in> {tokPlus, tokMinus} then Some 3
      else if kind t \<in> {tokStar, tokSlash} then Some 4 else None)"

definition follows :: "nat \<Rightarrow> token list \<Rightarrow> bool" where
  "follows n ts \<longleftrightarrow>
     ts \<noteq> [] \<and> kind (hd ts) \<notin> {tokLParen, tokLBrace, tokLBracket} \<and> \<not> is_keyword ''by'' (hd ts)
     \<and> (case tok_level (hd ts) of None \<Rightarrow> True | Some k \<Rightarrow> k \<le> n \<and> (k = 2 \<longrightarrow> n \<noteq> 2))"

lemma parse_at_simps [simp]:
  "parse_at 0 = parseOr" "parse_at (Suc 0) = parseAnd" "parse_at 2 = parseCmp" "parse_at 3 = parseAdd"
  "parse_at 4 = parseMul" "parse_at 5 = parseUnary" "parse_at 6 = parsePrimary"
  by (simp_all add: parse_at_def)

lemma loop_at_simps [simp]:
  "loop_at 0 = or_loop" "loop_at (Suc 0) = and_loop" "loop_at 2 = cmp_tail" "loop_at 3 = add_loop"
  "loop_at 4 = mul_loop" "loop_at 5 pf e ts = Ok (e, ts)" "loop_at 6 pf e ts = Ok (e, ts)"
  by (simp_all add: loop_at_def)

text \<open>Each level but the unary one parses the next and goes on with its loop.\<close>

lemma parse_at_Suc:
  assumes "n < 5"
  shows "parse_at n pf ts = andThen (parse_at (Suc n) pf ts) (loop_at n pf)"
proof -
  have "n = 0 \<or> n = Suc 0 \<or> n = 2 \<or> n = 3 \<or> n = 4" using assms by auto
  then show ?thesis
    by (elim disjE) (simp_all add: parse_at_def loop_at_def parseOr.simps [of pf ts] parseAnd.simps [of pf ts]
      parseCmp.simps [of pf ts] parseAdd.simps [of pf ts] parseMul.simps [of pf ts])
qed

lemma ToLower_keywords [simp]:
  "ToLower ''or'' = ''or''" "ToLower ''unless'' = ''unless''" "ToLower ''and'' = ''and''" "ToLower ''by'' = ''by''"
  by (simp_all add: ToLower_def ToLower_byte_def)

lemma loop_at_stops:
  assumes "follows n ts" "n < m" "m \<le> 6"
  shows "loop_at m pf e ts = Ok (e, ts)"
proof -
  obtain t ts' where ts: "ts = t # ts'" using assms(1) by (cases ts) (auto simp: follows_def)
  have "m = Suc 0 \<or> m = 2 \<or> m = 3 \<or> m = 4 \<or> m = 5 \<or> m = 6" using assms(2,3) by auto
  moreover have "tok_level t \<noteq> Some m" using assms(1,2) ts by (auto simp: follows_def)
  ultimately show ?thesis
    unfolding ts
    by (elim disjE) (auto simp: tok_level_def or_loop.simps and_loop.simps cmp_tail.simps add_loop.simps
        mul_loop.simps is_keyword_def split: if_splits)
qed

text \<open>At an operator of its level a loop parses the right operand at the next level.\<close>

lemma loop_at_operator:
  assumes "kt t = bin_token op s" "bin_level op s = Some k"
  shows "loop_at k pf e (t # ts) =
    andThen (parse_at (Suc k) pf ts) (\<lambda>r ts2.
      if k = 2 then Ok (binaryNode op s e r, ts2) else loop_at k pf (binaryNode op s e r) ts2)"
  using assms
  by (auto simp: bin_level_def bin_token_def is_keyword_def or_loop.simps [of _ _ "t # ts"] and_loop.simps [of _ _ "t # ts"]
      cmp_tail.simps [of _ _ "t # ts"] add_loop.simps [of _ _ "t # ts"] mul_loop.simps [of _ _ "t # ts"]
      numeral_eq_Suc parse_at_def loop_at_def split: if_splits)

lemma operator_level:
  assumes "kt t = bin_token op s" "bin_level op s = Some k"
  shows "tok_level t = Some k" "kind t \<notin> {tokLParen, tokLBrace, tokLBracket}" "\<not> is_keyword ''by'' t" "k \<le> 4"
  using assms by (auto simp: bin_level_def bin_token_def is_keyword_def tok_level_def split: if_splits)

lemma operator_follows:
  "kt t = bin_token op s \<Longrightarrow> bin_level op s = Some k \<Longrightarrow> n = (if k = 2 then 3 else k) \<Longrightarrow> follows n (t # ts)"
  using operator_level [of t op s k] by (auto simp: follows_def)

text \<open>What ends an expression in the grammar.\<close>

lemma closer_follows:
  "kind t \<in> {tokRParen, tokComma, tokEOF} \<Longrightarrow> follows n (t # ts)"
  by (auto simp: follows_def tok_level_def is_keyword_def)

lemma follows_Suc: "follows n ts \<Longrightarrow> follows (Suc n) ts"
  by (auto simp: follows_def split: option.splits)

lemma follows_mono: "m \<le> n \<Longrightarrow> follows m ts \<Longrightarrow> follows n ts"
  by (induction rule: dec_induct) (auto intro: follows_Suc)

text \<open>A tree parsed at one level is parsed at every lower one.\<close>

lemma parse_at_down:
  assumes "parse_at m pf ts = loop_at m pf e rest" "follows n rest" "n \<le> m" "m \<le> 5"
  shows "parse_at n pf ts = loop_at n pf e rest"
  using assms
proof (induction "m - n" arbitrary: n)
  case (Suc d)
  have "parse_at (Suc n) pf ts = loop_at (Suc n) pf e rest"
    using Suc.hyps(1) [of "Suc n"] Suc.hyps(2) Suc.prems follows_Suc [of n rest] by simp
  moreover have "loop_at (Suc n) pf e rest = Ok (e, rest)"
    using Suc by (intro loop_at_stops [of n]) linarith+
  ultimately show ?case using Suc parse_at_Suc [of n pf ts] by simp
qed auto

text \<open>A primary expression does not begin with a minus sign.\<close>

lemma parse_primary_down:
  assumes "parsePrimary pf (t # ts) = Ok (e, rest)" "kind t \<noteq> tokMinus" "follows n rest" "n \<le> 6"
  shows "parse_at n pf (t # ts) = loop_at n pf e rest"
proof (cases "n = 6")
  case False
  have "parse_at 5 pf (t # ts) = loop_at 5 pf e rest"
    using assms(1,2) by (simp add: parseUnary.simps)
  from parse_at_down [OF this assms(3)] False assms(4) show ?thesis by simp
qed (use assms in simp)

lemma parse_paren:
  assumes "parseOr pf (ts @ c # rest) = or_loop pf e (c # rest)" "kind p = tokLParen" "kind c = tokRParen"
  shows "parsePrimary pf (p # ts @ c # rest) = Ok (e, rest)"
proof -
  have "or_loop pf e (c # rest) = Ok (e, c # rest)"
    using assms(3) by (simp add: or_loop.simps is_keyword_def)
  with assms show ?thesis by (simp add: parsePrimary.simps expect_def)
qed

lemma parse_window_printed:
  assumes "map kt ts = print_window d" "follows n rest"
  shows "parse_window (ts @ rest) = Ok (d, rest)"
proof (cases "d = []")
  case True
  with assms show ?thesis by (cases rest) (auto simp: print_window_def parse_window_def follows_def)
next
  case False
  with assms obtain a b c where "ts = [a, b, c]" "kind a = tokLBracket" "kt b = (tokDuration, d)" "kind c = tokRBracket"
    by (auto simp: print_window_def map_eq_Cons_conv)
  then show ?thesis by (simp add: parse_window_def expect_def)
qed

lemma matcher_loop_printed:
  assumes "map kt ts = commas (map (\<lambda>(k, v). [(tokIdent, k), (tokAssign, ''=''), (tokString, v)]) m)"
    and "m \<noteq> []" "kind c = tokRBrace" "map_wf (m0 @ m)"
  shows "matcher_loop m0 (ts @ c # rest) = Ok (m0 @ m, rest)"
  using assms
proof (induction m arbitrary: ts m0)
  case (Cons kv m)
  obtain k v where kv: "kv = (k, v)" by (cases kv)
  have upd: "AList.update k v m0 = m0 @ [(k, v)]"
    using Cons.prems(4) kv by (induction m0) auto
  show ?case
  proof (cases "m = []")
    case True
    with Cons.prems kv obtain x y z where "ts = [x, y, z]" "kt x = (tokIdent, k)" "kind y = tokAssign" "kt z = (tokString, v)"
      by (auto simp: map_eq_Cons_conv)
    with True kv upd Cons.prems(3) show ?thesis by (subst matcher_loop.simps) (simp add: expect_def Let_def)
  next
    case False
    then obtain kv' m' where m: "m = kv' # m'" by (cases m) auto
    from Cons.prems(1) obtain x y z w ts' where ts: "ts = x # y # z # w # ts'" "kt x = (tokIdent, k)" "kind y = tokAssign"
      "kt z = (tokString, v)" "kind w = tokComma"
      and ts': "map kt ts' = commas (map (\<lambda>(k, v). [(tokIdent, k), (tokAssign, ''=''), (tokString, v)]) m)"
      by (auto simp: m kv map_eq_Cons_conv)
    have "matcher_loop (m0 @ [(k, v)]) (ts' @ c # rest) = Ok ((m0 @ [(k, v)]) @ m, rest)"
      using Cons.prems(3,4) kv False by (intro Cons.IH [OF ts']) auto
    with ts upd kv show ?thesis by (subst matcher_loop.simps) (simp add: Let_def)
  qed
qed simp

lemma label_loop_printed:
  assumes "map kt ts = commas (map (\<lambda>l. [(tokIdent, l)]) ls)" "ls \<noteq> []" "kind c = tokRParen"
  shows "label_loop out (ts @ c # rest) = Ok (out @ ls, rest)"
  using assms
proof (induction ls arbitrary: ts out)
  case (Cons l ls)
  show ?case
  proof (cases ls)
    case Nil
    with Cons.prems show ?thesis by (auto simp: map_eq_Cons_conv expect_def)
  next
    case (Cons l' ls')
    with Cons.prems(1) obtain x w ts' where ts: "ts = x # w # ts'" "kt x = (tokIdent, l)" "kind w = tokComma"
      and ts': "map kt ts' = commas (map (\<lambda>l. [(tokIdent, l)]) ls)"
      by (auto simp: map_eq_Cons_conv)
    have "label_loop (out @ [l]) (ts' @ c # rest) = Ok ((out @ [l]) @ ls, rest)"
      using Cons.prems(3) \<open>ls = l' # ls'\<close> by (intro Cons.IH [OF ts']) auto
    with ts show ?thesis by simp
  qed
qed simp

lemma parse_by_printed:
  assumes "map kt ts = print_by ls" "follows n rest"
  shows "parse_by (ts @ rest) = Ok (ls, rest)"
proof (cases "ls = []")
  case True
  with assms show ?thesis by (cases rest) (auto simp: print_by_def parse_by_def follows_def)
next
  case False
  with assms(1) obtain b p ts' c where ts: "ts = b # p # ts' @ [c]" "kt b = (tokIdent, ''by'')" "kind p = tokLParen" "kind c = tokRParen"
    and ts': "map kt ts' = commas (map (\<lambda>l. [(tokIdent, l)]) ls)"
    by (auto simp: print_by_def map_eq_Cons_conv map_eq_append_conv)
  obtain x xs where "ts' = x # xs" "kind x = tokIdent"
    using ts' False by (cases ls; cases "tl ls") (auto simp: map_eq_Cons_conv neq_Nil_conv)
  with label_loop_printed [OF ts' False ts(4), of "[]" rest] ts show ?thesis
    by (simp add: parse_by_def is_keyword_def parseLabelList_def expect_def)
qed

lemma parse_selector_printed:
  assumes "map kt ts = print_matchers m @ print_window d" "map_wf m" "follows n rest"
  shows "parse_selector name (ts @ rest) = Ok (vectorSelectorNode name m d, rest)"
proof -
  obtain ms ws where ts: "ts = ms @ ws" "map kt ms = print_matchers m" "map kt ws = print_window d"
    using assms(1) by (auto simp: map_eq_append_conv)
  note w = parse_window_printed [OF ts(3) assms(3)]
  show ?thesis
  proof (cases "m = []")
    case True
    then have ms: "ms = []" using ts(2) by (simp add: print_matchers_def)
    have "ws @ rest \<noteq> []" "kind (hd (ws @ rest)) \<noteq> tokLBrace"
      using ts(3) assms(3) by (cases ws; auto simp: print_window_def follows_def split: if_splits)+
    with True ms w ts(1) show ?thesis
      by (cases "ws @ rest") (auto simp: parse_selector_def)
  next
    case False
    with ts(2) obtain b ms' c where ms: "ms = b # ms' @ [c]" "kind b = tokLBrace" "kind c = tokRBrace"
      and ms': "map kt ms' = commas (map (\<lambda>(k, v). [(tokIdent, k), (tokAssign, ''=''), (tokString, v)]) m)"
      by (auto simp: print_matchers_def map_eq_Cons_conv map_eq_append_conv)
    obtain x xs where "ms' = x # xs" "kind x = tokIdent"
      using ms' False by (cases m; cases "tl m") (auto simp: map_eq_Cons_conv neq_Nil_conv)
    with matcher_loop_printed [OF ms' False ms(3), of "[]" "ws @ rest"] assms(2) ms ts(1) w show ?thesis
      by (simp add: parse_selector_def parseLabelMatchers_def)
  qed
qed

text \<open>The printed form of a tree is parsed at every level, whatever follows it.\<close>

definition parses :: "(string \<Rightarrow> 'f option) \<Rightarrow> ('f \<Rightarrow> string) \<Rightarrow> 'f astNode \<Rightarrow> bool" where
  "parses pf sh e \<longleftrightarrow>
     (\<forall>n ts rest. map kt ts = print_at sh n e \<longrightarrow> follows n rest \<longrightarrow> n \<le> 6 \<longrightarrow>
        parse_at n pf (ts @ rest) = loop_at n pf e rest)"

lemma parsesI:
  "(\<And>n ts rest. map kt ts = print_at sh n e \<Longrightarrow> follows n rest \<Longrightarrow> n \<le> 6 \<Longrightarrow>
      parse_at n pf (ts @ rest) = loop_at n pf e rest) \<Longrightarrow> parses pf sh e"
  by (simp add: parses_def)

lemma parsesD:
  "parses pf sh e \<Longrightarrow> map kt ts = print_at sh n e \<Longrightarrow> follows n rest \<Longrightarrow> n \<le> 6 \<Longrightarrow>
     parse_at n pf (ts @ rest) = loop_at n pf e rest"
  by (simp add: parses_def)

lemma args_loop_printed:
  assumes "map kt ts = commas (map (print_at sh 0) args)" "args \<noteq> []" "kind c = tokRParen"
    and "\<forall>a\<in>set args. parses pf sh a"
  shows "args_loop pf out (ts @ c # rest) = Ok (out @ args, c # rest)"
  using assms
proof (induction args arbitrary: ts out)
  case (Cons a args)
  have stop: "or_loop pf a (u # us) = Ok (a, u # us)" if "kind u \<in> {tokRParen, tokComma}" for u us
    using that by (auto simp: or_loop.simps is_keyword_def)
  show ?case
  proof (cases args)
    case Nil
    have "parseOr pf (ts @ c # rest) = Ok (a, c # rest)"
      using Cons.prems Nil stop [of c rest] closer_follows [of c 0 rest] parsesD [of pf sh a ts 0 "c # rest"] by simp
    with Nil Cons.prems(3) show ?thesis by (subst args_loop.simps) simp
  next
    case (Cons a' args')
    with Cons.prems(1) obtain ta w ts' where ts: "ts = ta @ w # ts'" "map kt ta = print_at sh 0 a" "kind w = tokComma"
      and ts': "map kt ts' = commas (map (print_at sh 0) args)"
      by (auto simp: map_eq_Cons_conv map_eq_append_conv)
    have "parseOr pf (ta @ w # ts' @ c # rest) = Ok (a, w # ts' @ c # rest)"
      using Cons.prems(4) parsesD [of pf sh a ta 0 "w # ts' @ c # rest"] ts(2) stop [of w] ts(3)
        closer_follows [of w 0] by simp
    moreover have "args_loop pf (out @ [a]) (ts' @ c # rest) = Ok ((out @ [a]) @ args, c # rest)"
      using Cons.prems(3,4) \<open>args = a' # args'\<close> by (intro Cons.IH [OF ts']) auto
    ultimately show ?thesis using ts by (subst args_loop.simps) simp
  qed
qed simp

lemma print_at_starts:
  assumes "tree_ok pf sh e" "map kt ts = print_at sh n e"
  shows "ts \<noteq> [] \<and> kind (hd ts) \<notin> {tokRParen, tokComma} \<and> (n = 6 \<longrightarrow> kind (hd ts) \<noteq> tokMinus)"
  using assms
proof (induction e arbitrary: n ts)
  case (binaryNode op s l r)
  then obtain k where k: "bin_level op s = Some k" by auto
  show ?case
  proof (cases "k < n")
    case False
    with binaryNode.prems k obtain tl' tr where "ts = tl' @ tr" "map kt tl' = print_at sh (if k = 2 then 3 else k) l"
      by (auto simp: parens_def map_eq_append_conv)
    moreover have "n \<noteq> 6" using False k operator_level(4) [of "\<lparr>kind = fst (bin_token op s), tok_text = s, at_pos = 0\<rparr>" op s k]
      by (auto simp: bin_token_def)
    ultimately show ?thesis using binaryNode.IH(1) [of tl'] binaryNode.prems by auto
  qed (use binaryNode.prems k in \<open>auto simp: parens_def map_eq_Cons_conv\<close>)
qed (auto simp: parens_def map_eq_Cons_conv split: if_splits)

lemma parses_number: "pf (sh v) = Some v \<Longrightarrow> parses pf sh (numberNode v)"
proof (rule parsesI)
  fix n ts rest
  assume v: "pf (sh v) = Some v" and ts: "map kt ts = print_at sh n (numberNode v)" and n: "follows n rest" "n \<le> 6"
  from ts obtain t where "ts = [t]" "kt t = (tokNumber, sh v)" by (auto simp: map_eq_Cons_conv)
  with v n parse_primary_down [of pf t rest "numberNode v" rest n]
  show "parse_at n pf (ts @ rest) = loop_at n pf (numberNode v) rest" by (simp add: parsePrimary.simps)
qed

lemma parses_selector:
  assumes "map_wf m"
  shows "parses pf sh (vectorSelectorNode name m d)"
proof (rule parsesI)
  fix n ts rest
  assume "map kt ts = print_at sh n (vectorSelectorNode name m d)" and n: "follows n rest" "n \<le> 6"
  then obtain t ts' where ts: "ts = t # ts'" "kt t = (tokIdent, name)" "map kt ts' = print_matchers m @ print_window d"
    by (auto simp: map_eq_Cons_conv)
  note sel = parse_selector_printed [OF ts(3) assms n(1), of name]
  have "ts' @ rest \<noteq> []" "kind (hd (ts' @ rest)) \<noteq> tokLParen" "\<not> is_keyword ''by'' (hd (ts' @ rest))"
    using ts(3) n(1)
    by (cases ts'; auto simp: print_matchers_def print_window_def follows_def is_keyword_def split: if_splits)+
  with sel ts n parse_primary_down [of pf t "ts' @ rest" "vectorSelectorNode name m d" rest n]
  show "parse_at n pf (ts @ rest) = loop_at n pf (vectorSelectorNode name m d) rest"
    by (cases "ts' @ rest") (auto simp: parsePrimary.simps)
qed

lemma parenthesised:
  assumes "\<And>ts rest. map kt ts = print_at sh 0 e \<Longrightarrow> follows 0 rest \<Longrightarrow> parseOr pf (ts @ rest) = or_loop pf e rest"
    and "map kt ts = lparen # print_at sh 0 e @ [rparen]" "follows n rest" "n \<le> 6"
  shows "parse_at n pf (ts @ rest) = loop_at n pf e rest"
proof -
  obtain p ts' c where ts: "ts = p # ts' @ [c]" "kind p = tokLParen" "kind c = tokRParen" "map kt ts' = print_at sh 0 e"
    using assms(2) by (auto simp: map_eq_Cons_conv map_eq_append_conv)
  have "parsePrimary pf (p # ts' @ c # rest) = Ok (e, rest)"
    using assms(1) [OF ts(4) closer_follows [of c 0 rest]] ts by (intro parse_paren) auto
  with parse_primary_down [of pf p "ts' @ c # rest" e rest n] ts(1,2) assms(3,4) show ?thesis by simp
qed

lemma parse_binary_bare:
  assumes lr: "parses pf sh l" "parses pf sh r" and k: "bin_level op s = Some k"
    and ts: "map kt ts = print_at sh (if k = 2 then 3 else k) l @ bin_token op s # print_at sh (Suc k) r"
    and m: "follows m rest" "m \<le> k"
  shows "parse_at m pf (ts @ rest) = loop_at m pf (binaryNode op s l r) rest"
proof -
  let ?lev = "if k = 2 then 3 else k"
  obtain tsl t tsr where tok: "ts = tsl @ t # tsr" "map kt tsl = print_at sh ?lev l"
    "kt t = bin_token op s" "map kt tsr = print_at sh (Suc k) r"
    using ts by (auto simp: map_eq_Cons_conv map_eq_append_conv)
  have k4: "k \<le> 4" by (rule operator_level(4) [OF tok(3) k])
  have fk: "follows k rest" using m by (auto intro: follows_mono)
  have l: "parse_at ?lev pf (tsl @ t # tsr @ rest) = loop_at ?lev pf l (t # tsr @ rest)"
    using k4 operator_follows [OF tok(3) k, of ?lev] by (intro parsesD [OF lr(1) tok(2)]) auto
  have "parse_at (Suc k) pf (tsr @ rest) = loop_at (Suc k) pf r rest"
    using k4 by (intro parsesD [OF lr(2) tok(4)]) (auto intro: follows_Suc fk)
  moreover have "loop_at (Suc k) pf r rest = Ok (r, rest)" using k4 by (intro loop_at_stops [OF fk]) auto
  ultimately have op: "loop_at k pf l (t # tsr @ rest) =
      (if k = 2 then Ok (binaryNode op s l r, rest) else loop_at k pf (binaryNode op s l r) rest)"
    by (simp add: loop_at_operator [OF tok(3) k])
  have "parse_at k pf (ts @ rest) = loop_at k pf (binaryNode op s l r) rest"
  proof (cases "k = 2")
    case True
    have "loop_at 3 pf l (t # tsr @ rest) = Ok (l, t # tsr @ rest)"
      using operator_level(1) [OF tok(3) k] True tok(3)
      by (auto simp: add_loop.simps tok_level_def split: if_splits)
    moreover have "loop_at 2 pf (binaryNode op s l r) rest = Ok (binaryNode op s l r, rest)"
      using fk True by (cases rest) (auto simp: follows_def tok_level_def is_keyword_def cmp_tail.simps split: if_splits)
    ultimately show ?thesis
      using l op True tok(1) parse_at_Suc [of 2 pf "ts @ rest"] by (simp add: numeral_eq_Suc)
  next
    case False
    with l op tok(1) show ?thesis by simp
  qed
  from parse_at_down [OF this m(1,2)] k4 show ?thesis by simp
qed

lemma parses_binary:
  assumes lr: "parses pf sh l" "parses pf sh r" and k: "bin_level op s = Some k"
  shows "parses pf sh (binaryNode op s l r)"
proof (rule parsesI)
  fix n ts rest
  assume ts: "map kt ts = print_at sh n (binaryNode op s l r)" and n: "follows n rest" "n \<le> 6"
  show "parse_at n pf (ts @ rest) = loop_at n pf (binaryNode op s l r) rest"
  proof (cases "k < n")
    case True
    have "parseOr pf (ts @ rest) = or_loop pf (binaryNode op s l r) rest"
      if "map kt ts = print_at sh 0 (binaryNode op s l r)" "follows 0 rest" for ts rest
      using parse_binary_bare [OF assms, of ts 0 rest] that k by (simp add: parens_def)
    from parenthesised [OF this] ts n True k show ?thesis by (simp add: parens_def)
  next
    case False
    with parse_binary_bare [OF assms _ n(1)] ts k show ?thesis by (simp add: parens_def)
  qed
qed

lemma parse_unary_bare:
  assumes "parses pf sh e" "map kt ts = (tokMinus, ''-'') # print_at sh 6 e" "follows m rest" "m \<le> 5"
  shows "parse_at m pf (ts @ rest) = loop_at m pf (unaryMinusNode e) rest"
proof -
  obtain t ts' where tok: "ts = t # ts'" "kind t = tokMinus" "map kt ts' = print_at sh 6 e"
    using assms(2) by (auto simp: map_eq_Cons_conv)
  have "parsePrimary pf (ts' @ rest) = Ok (e, rest)"
    using parsesD [OF assms(1) tok(3), of rest] assms(3,4) follows_mono [of m 6 rest] by simp
  with tok have "parse_at 5 pf (ts @ rest) = loop_at 5 pf (unaryMinusNode e) rest"
    by (simp add: parseUnary.simps)
  from parse_at_down [OF this assms(3,4)] show ?thesis by simp
qed

lemma parses_unary:
  assumes "parses pf sh e"
  shows "parses pf sh (unaryMinusNode e)"
proof (rule parsesI)
  fix n ts rest
  assume ts: "map kt ts = print_at sh n (unaryMinusNode e)" and n: "follows n rest" "n \<le> 6"
  show "parse_at n pf (ts @ rest) = loop_at n pf (unaryMinusNode e) rest"
  proof (cases "5 < n")
    case True
    have "parseOr pf (ts @ rest) = or_loop pf (unaryMinusNode e) rest"
      if "map kt ts = print_at sh 0 (unaryMinusNode e)" "follows 0 rest" for ts rest
      using parse_unary_bare [OF assms, of ts 0 rest] that by (simp add: parens_def)
    from parenthesised [OF this] ts n True show ?thesis by (simp add: parens_def)
  next
    case False
    with parse_unary_bare [OF assms _ n(1)] ts show ?thesis by (simp add: parens_def)
  qed
qed

lemma parse_args_printed:
  assumes "map kt ts = commas (map (print_at sh 0) args)" "kind c = tokRParen"
    and "\<forall>a\<in>set args. parses pf sh a" "\<forall>a\<in>set args. tree_ok pf sh a"
  shows "parseArgs pf (ts @ c # rest) = Ok (args, c # rest)"
proof (cases args)
  case Nil
  with assms show ?thesis by (simp add: parseArgs.simps)
next
  case (Cons a args')
  note loop = args_loop_printed [OF assms(1) _ assms(2,3), of "[]" rest]
  obtain tsa us where "ts = tsa @ us" "map kt tsa = print_at sh 0 a"
    using assms(1) Cons by (cases args') (auto simp: map_eq_append_conv)
  with print_at_starts [of pf sh a tsa 0] assms(4) Cons
  have "ts \<noteq> []" "kind (hd ts) \<noteq> tokRParen" by (auto simp: hd_append)
  with loop Cons show ?thesis by (cases ts) (simp_all add: parseArgs.simps)
qed

lemma parses_call:
  assumes "\<forall>a\<in>set args. parses pf sh a" "\<forall>a\<in>set args. tree_ok pf sh a"
  shows "parses pf sh (funcCallNode f args ls)"
proof (rule parsesI)
  fix n ts rest
  assume "map kt ts = print_at sh n (funcCallNode f args ls)" and n: "follows n rest" "n \<le> 6"
  then obtain t p ta c tb where ts: "ts = t # p # ta @ c # tb" "kt t = (tokIdent, f)" "kind p = tokLParen" "kind c = tokRParen"
    "map kt ta = commas (map (print_at sh 0) args)" "map kt tb = print_by ls"
    by (auto simp: map_eq_Cons_conv map_eq_append_conv)
  have "parsePrimary pf (t # p # ta @ c # tb @ rest) = Ok (funcCallNode f args ls, rest)"
    using ts(2-4) parse_args_printed [OF ts(5,4) assms, of "tb @ rest"] parse_by_printed [OF ts(6) n(1)]
    by (simp add: parsePrimary.simps expect_def is_keyword_def)
  from parse_primary_down [OF this _ n] ts(1,2)
  show "parse_at n pf (ts @ rest) = loop_at n pf (funcCallNode f args ls) rest" by simp
qed

lemma tree_parses: "tree_ok pf sh e \<Longrightarrow> parses pf sh e"
  by (induction e) (auto intro: parses_number parses_selector parses_binary parses_unary parses_call)

end
