(* ===== verification/Slo_Roundtrip.thy ===== *)
theory Slo_Roundtrip
  imports Slo_Print
begin

text \<open>
  From tokens to text: what the lexer of \<open>internal/slo/expr.go\<close> reads from the printed form of
  a tree, and the round trip through lexer and parser.
\<close>

section \<open>Reading printed text\<close>

definition escape :: "string \<Rightarrow> string" where
  "escape s = concat (map (\<lambda>c. if c = CHR 0x22 \<or> c = CHR 0x5C then [CHR 0x5C, c] else [c]) s)"

fun show_token :: "tokenKind \<times> string \<Rightarrow> string" where
  "show_token (k, s) = (if k = tokString then CHR 0x22 # escape s @ [CHR 0x22] else s)"

text \<open>The tokens that have a text the lexer reads as one token.\<close>

definition number_text :: "string \<Rightarrow> bool" where
  "number_text s \<longleftrightarrow>
     s \<noteq> [] \<and> (isDigit (hd s) \<or> (hd s = CHR ''.'' \<and> tl s \<noteq> [] \<and> isDigit (hd (tl s))))"

fun has_text :: "tokenKind \<times> string \<Rightarrow> bool" where
  "has_text (tokNumber, s) \<longleftrightarrow> number_text s \<and> number_loop False False s = []"
| "has_text (tokDuration, s) \<longleftrightarrow>
     number_text s \<and> number_loop False False s \<in> set [''s'', ''m'', ''h'', ''d'', ''w'', ''y'', ''ms'']"
| "has_text (tokIdent, s) \<longleftrightarrow> s \<noteq> [] \<and> isIdentStart (hd s) \<and> list_all (\<lambda>c. isIdentPart c \<or> c = CHR '':'') s"
| "has_text (tokString, s) \<longleftrightarrow> True"
| "has_text (k, s) \<longleftrightarrow>
     length s = 1 \<and> punct (hd s) = Some k
     \<or> (k, s) \<in> set [(tokEq, ''==''), (tokNeq, ''!=''), (tokGt, ''>''), (tokGte, ''>=''), (tokLt, ''<''),
                      (tokLte, ''<=''), (tokAssign, ''='')]"

lemma string_loop_Cons:
  "x \<noteq> [] \<Longrightarrow> string_loop b (c # x) =
     (if c = CHR 0x5C then string_loop (b @ [hd x]) (tl x)
      else if c = CHR 0x22 then Some (b, x) else string_loop (b @ [c]) x)"
  by (cases x) auto

lemma string_loop_escape: "string_loop b (escape s @ CHR 0x22 # CHR 0x20 # rest) = Some (b @ s, CHR 0x20 # rest)"
  by (induction s arbitrary: b) (auto simp: escape_def string_loop_Cons)

lemma number_loop_blank:
  "number_loop d e (s @ CHR 0x20 # rest) = number_loop d e s @ CHR 0x20 # rest"
proof (induction d e s rule: number_loop.induct)
  case (1 d e)
  then show ?case by (simp add: number_loop.simps isDigit_def)
next
  case (2 d e c s)
  show ?case
  proof (cases s)
    case Nil
    then show ?thesis using 2 by (auto simp: number_loop.simps(2) isDigit_def)
  next
    case (Cons c' s')
    then show ?thesis using 2 by (auto simp: number_loop.simps(2) [of _ _ c])
  qed
qed

lemma number_loop_suffix: "suffix (number_loop d e s) s"
proof (induction d e s rule: number_loop.induct)
  case (2 d e c s)
  show ?case
    by (cases s) (use 2 in \<open>simp_all add: number_loop.simps(2) [of d e c] suffix_ConsI\<close>)
qed simp

lemma read_number_text:
  assumes "has_text (k, s)" "k \<in> {tokNumber, tokDuration}"
  shows "readNumberOrDuration start (s @ CHR 0x20 # rest) = (\<lparr>kind = k, tok_text = s, at_pos = start\<rparr>, CHR 0x20 # rest)"
proof -
  obtain p where p: "s = p @ number_loop False False s" using number_loop_suffix [of False False s] by (auto simp: suffix_def)
  have "readNumberOrDuration start ((p @ u) @ CHR 0x20 # rest) =
      (\<lparr>kind = k, tok_text = p @ u, at_pos = start\<rparr>, CHR 0x20 # rest)"
    if "number_loop False False (p @ u) = u" "u = [] \<and> k = tokNumber
       \<or> u \<in> {''s'', ''m'', ''h'', ''d'', ''w'', ''y'', ''ms''} \<and> k = tokDuration" for u
    using that(2) unfolding readNumberOrDuration_def Let_def number_loop_blank that(1)
    by (elim disjE insertE conjE) (simp_all add: is_unit_def)
  from this [of "number_loop False False s"] p assms show ?thesis by auto
qed

text \<open>Characters that start no identifier and no number.\<close>

abbreviation special :: string where
  "special \<equiv> ''(){}[],+-*/=!><'' @ [CHR 0x22, CHR 0x09, CHR 0x0A, CHR 0x0B, CHR 0x0C, CHR 0x0D, CHR 0x20, CHR 0x85, CHR 0xA0]"

lemma special_start: "c \<in> set special \<Longrightarrow> \<not> isDigit c \<and> \<not> isIdentStart c \<and> c \<noteq> CHR ''.''"
proof -
  have "list_all (\<lambda>c. \<not> isDigit c \<and> \<not> isIdentStart c \<and> c \<noteq> CHR ''.'') special" by code_simp
  then show "c \<in> set special \<Longrightarrow> \<not> isDigit c \<and> \<not> isIdentStart c \<and> c \<noteq> CHR ''.''"
    unfolding list_all_iff by blast
qed

lemma punct_special: "punct c = Some k \<Longrightarrow> c \<in> set ''(){}[],+-*/''"
  unfolding punct_def by (drule map_of_SomeD) auto

lemma start_plain:
  assumes "isDigit c \<or> isIdentStart c \<or> c = CHR ''.''"
  shows "punct c = None" "\<not> IsSpace c" "c \<noteq> CHR ''=''" "c \<noteq> CHR ''!''" "c \<noteq> CHR ''>''" "c \<noteq> CHR ''<''" "c \<noteq> CHR 0x22"
proof -
  have c: "c \<notin> set special" using assms special_start by blast
  then show "punct c = None" using punct_special [of c] by (cases "punct c") auto
  show "\<not> IsSpace c" using c unfolding IsSpace_def by simp
  show "c \<noteq> CHR ''=''" "c \<noteq> CHR ''!''" "c \<noteq> CHR ''>''" "c \<noteq> CHR ''<''" "c \<noteq> CHR 0x22"
    using c by simp_all
qed

lemma ident_not_number: "isIdentStart c \<Longrightarrow> \<not> isDigit c \<and> c \<noteq> CHR ''.''"
  by (auto simp: isIdentStart_def isDigit_def)

lemma punct_not_space: "punct c = Some k \<Longrightarrow> \<not> IsSpace c"
proof -
  have "list_all (\<lambda>c. \<not> IsSpace c) ''(){}[],+-*/''" by code_simp
  then show "punct c = Some k \<Longrightarrow> \<not> IsSpace c" unfolding list_all_iff using punct_special by blast
qed

lemma token_at_number:
  assumes "has_text (k, c # s)" "k \<in> {tokNumber, tokDuration}"
  shows "\<not> IsSpace c"
    and "token_at start c (s @ CHR 0x20 # rest) = Ok (\<lparr>kind = k, tok_text = c # s, at_pos = start\<rparr>, CHR 0x20 # rest)"
proof -
  have "number_text (c # s)" using assms by auto
  then have n: "isDigit c \<or> (c = CHR ''.'' \<and> s @ CHR 0x20 # rest \<noteq> [] \<and> isDigit (hd (s @ CHR 0x20 # rest)))"
    by (auto simp: number_text_def)
  then have c: "isDigit c \<or> isIdentStart c \<or> c = CHR ''.''" by blast
  show "\<not> IsSpace c" by (rule start_plain(2) [OF c])
  show "token_at start c (s @ CHR 0x20 # rest) = Ok (\<lparr>kind = k, tok_text = c # s, at_pos = start\<rparr>, CHR 0x20 # rest)"
    using read_number_text [OF assms, of start rest] start_plain [OF c] n by (simp add: token_at_def)
qed

lemma token_at_ident:
  assumes "has_text (tokIdent, c # s)"
  shows "\<not> IsSpace c"
    and "token_at start c (s @ CHR 0x20 # rest) = Ok (\<lparr>kind = tokIdent, tok_text = c # s, at_pos = start\<rparr>, CHR 0x20 # rest)"
proof -
  have c: "isIdentStart c" using assms by simp
  then have c': "isDigit c \<or> isIdentStart c \<or> c = CHR ''.''" by blast
  show "\<not> IsSpace c" by (rule start_plain(2) [OF c'])
  have stop: "\<not> (isIdentPart CHR 0x20 \<or> CHR 0x20 = CHR '':'')" by (simp add: isIdentPart_def isIdentStart_def isDigit_def)
  have "takeWhile (\<lambda>c. isIdentPart c \<or> c = CHR '':'') ((c # s) @ CHR 0x20 # rest) = c # s"
    "dropWhile (\<lambda>c. isIdentPart c \<or> c = CHR '':'') ((c # s) @ CHR 0x20 # rest) = CHR 0x20 # rest"
    using assms stop by (simp_all add: list_all_iff)
  then show "token_at start c (s @ CHR 0x20 # rest) = Ok (\<lparr>kind = tokIdent, tok_text = c # s, at_pos = start\<rparr>, CHR 0x20 # rest)"
    using start_plain [OF c'] ident_not_number [OF c] c by (simp add: token_at_def readIdent_def Let_def)
qed

lemma token_at_operator:
  assumes "(k, s) \<in> set [(tokEq, ''==''), (tokNeq, ''!=''), (tokGt, ''>''), (tokGte, ''>=''), (tokLt, ''<''),
                      (tokLte, ''<=''), (tokAssign, ''='')]"
  shows "\<exists>c cs. s @ CHR 0x20 # rest = c # cs \<and> \<not> IsSpace c \<and>
    token_at start c cs = Ok (\<lparr>kind = k, tok_text = s, at_pos = start\<rparr>, CHR 0x20 # rest)"
  using assms by (simp, elim disjE) (simp_all add: token_at_def punct_def IsSpace_def maybe_eq_def)

lemma token_at_text:
  assumes "has_text (k, s)"
  shows "\<exists>c cs. show_token (k, s) @ CHR 0x20 # rest = c # cs \<and> \<not> IsSpace c \<and>
    token_at start c cs = Ok (\<lparr>kind = k, tok_text = s, at_pos = start\<rparr>, CHR 0x20 # rest)"
proof -
  consider (num) "k \<in> {tokNumber, tokDuration}" | (ident) "k = tokIdent" | (str) "k = tokString"
    | (other) "k \<notin> {tokNumber, tokDuration, tokIdent, tokString}" by blast
  then show ?thesis
  proof cases
    case num
    with assms obtain c s' where "s = c # s'" by (cases s) (auto simp: number_text_def)
    with token_at_number [of k c s'] assms num show ?thesis by auto
  next
    case ident
    with assms obtain c s' where "s = c # s'" by (cases s) auto
    with token_at_ident [of c s'] assms ident show ?thesis by auto
  next
    case str
    then show ?thesis
      by (simp add: token_at_def readString_def punct_def IsSpace_def string_loop_escape)
  next
    case other
    then consider "length s = 1" "punct (hd s) = Some k"
      | "(k, s) \<in> set [(tokEq, ''==''), (tokNeq, ''!=''), (tokGt, ''>''), (tokGte, ''>=''), (tokLt, ''<''),
                      (tokLte, ''<=''), (tokAssign, ''='')]"
      using assms by (cases k) auto
    then show ?thesis
    proof cases
      case 1
      then obtain c where "s = [c]" by (cases s) auto
      with 1 other punct_not_space [of c k] show ?thesis by (auto simp: token_at_def)
    next
      case 2
      with token_at_operator [OF 2] other show ?thesis by auto
    qed
  qed
qed

definition print_text :: "(tokenKind \<times> string) list \<Rightarrow> string" where
  "print_text ps = concat (map (\<lambda>p. show_token p @ [CHR 0x20]) ps)"

lemma print_text_simps [simp]:
  "print_text [] = []" "print_text (p # ps) = show_token p @ CHR 0x20 # print_text ps"
  by (simp_all add: print_text_def)

lemma next_token_blank: "next_token pos (CHR 0x20 # s) = next_token (Suc pos) s"
proof -
  have sp: "IsSpace CHR 0x20" by (simp add: IsSpace_def)
  show ?thesis
  proof (cases "dropWhile IsSpace s")
    case Nil
    with sp show ?thesis by (simp only: next_token_def dropWhile.simps if_True list.case) simp
  next
    case (Cons c r)
    then have "length (c # r) \<le> length s" using length_dropWhile_le [of IsSpace s] by simp
    then have "pos + (length (CHR 0x20 # s) - length (c # r)) = Suc pos + (length s - length (c # r))" by simp
    with Cons sp show ?thesis by (simp only: next_token_def dropWhile.simps if_True list.case)
  qed
qed

lemma tokenize_blank: "tokenize pos (CHR 0x20 # s) = tokenize (Suc pos) s"
proof (cases "next_token (Suc pos) s")
  case (Inl e)
  then show ?thesis by (simp add: tokenize.simps [of pos] tokenize.simps [of "Suc pos"] next_token_blank)
next
  case (Inr y)
  then obtain t rest where y: "next_token (Suc pos) s = Ok (t, rest)" by (cases y) auto
  then have "kind t \<noteq> tokEOF \<Longrightarrow> pos + (Suc (length s) - length rest) = Suc pos + (length s - length rest)"
    using next_token_length [OF y] by simp
  with y show ?thesis
    unfolding tokenize.simps [of pos "CHR 0x20 # s"] tokenize.simps [of "Suc pos" s] by (simp add: next_token_blank)
qed

lemma has_text_not_EOF: "has_text (k, s) \<Longrightarrow> k \<noteq> tokEOF"
proof -
  have "punct c \<noteq> Some tokEOF" for c unfolding punct_def by (auto dest: map_of_SomeD)
  then show "has_text (k, s) \<Longrightarrow> k \<noteq> tokEOF" by (cases k) auto
qed

lemma next_token_text:
  assumes "has_text (k, s)"
  shows "\<exists>p. next_token pos (show_token (k, s) @ CHR 0x20 # rest) =
    Ok (\<lparr>kind = k, tok_text = s, at_pos = p\<rparr>, CHR 0x20 # rest)"
proof -
  obtain c cs where "show_token (k, s) @ CHR 0x20 # rest = c # cs" "\<not> IsSpace c"
    "token_at pos c cs = Ok (\<lparr>kind = k, tok_text = s, at_pos = pos\<rparr>, CHR 0x20 # rest)"
    using token_at_text [OF assms] by blast
  then show ?thesis by (auto simp: next_token_def simp del: show_token.simps)
qed

lemma tokenize_text:
  "list_all has_text ps \<Longrightarrow> \<exists>ts. tokenize pos (print_text ps) = Ok ts \<and> map kt ts = ps @ [(tokEOF, [])]"
proof (induction ps arbitrary: pos)
  case Nil
  then show ?case by (simp add: tokenize.simps next_token_def)
next
  case (Cons p ps)
  obtain k s where p: "p = (k, s)" by (cases p)
  obtain q where q: "next_token pos (print_text (p # ps)) = Ok (\<lparr>kind = k, tok_text = s, at_pos = q\<rparr>, CHR 0x20 # print_text ps)"
    using next_token_text [of k s pos "print_text ps"] Cons.prems p by (auto simp del: show_token.simps)
  have k: "k \<noteq> tokEOF" using Cons.prems p has_text_not_EOF by auto
  let ?pos = "pos + (length (print_text (p # ps)) - length (CHR 0x20 # print_text ps))"
  obtain ts where "tokenize (Suc ?pos) (print_text ps) = Ok ts" "map kt ts = ps @ [(tokEOF, [])]"
    using Cons.IH [of "Suc ?pos"] Cons.prems by auto
  then show ?case
    using q k p by (subst tokenize.simps) (simp add: tokenize_blank del: print_text_simps)
qed

text \<open>Names, labels, windows and numbers that are single tokens.\<close>

fun tree_text :: "('f \<Rightarrow> string) \<Rightarrow> 'f astNode \<Rightarrow> bool" where
  "tree_text sh (numberNode v) \<longleftrightarrow> has_text (tokNumber, sh v)"
| "tree_text sh (vectorSelectorNode name m d) \<longleftrightarrow>
     has_text (tokIdent, name) \<and> (\<forall>(k, v)\<in>set m. has_text (tokIdent, k)) \<and> (d = [] \<or> has_text (tokDuration, d))"
| "tree_text sh (binaryNode op s l r) \<longleftrightarrow> tree_text sh l \<and> tree_text sh r"
| "tree_text sh (unaryMinusNode e) \<longleftrightarrow> tree_text sh e"
| "tree_text sh (funcCallNode f args ls) \<longleftrightarrow>
     has_text (tokIdent, f) \<and> (\<forall>a\<in>set args. tree_text sh a) \<and> (\<forall>l\<in>set ls. has_text (tokIdent, l))"

lemma commas_text: "has_text comma \<Longrightarrow> \<forall>x\<in>set xs. list_all has_text x \<Longrightarrow> list_all has_text (commas xs)"
  by (induction xs rule: commas.induct) auto

lemma bin_token_text:
  assumes "bin_level op s = Some k"
  shows "has_text (bin_token op s)"
proof -
  have "list_all (\<lambda>(op, s). has_text (bin_token op s))
    [(tokEOF, ''or''), (tokEOF, ''unless''), (tokEOF, ''and''), (tokEq, ''==''), (tokNeq, ''!=''), (tokGt, ''>''),
     (tokGte, ''>=''), (tokLt, ''<''), (tokLte, ''<=''), (tokPlus, ''+''), (tokMinus, ''-''), (tokStar, ''*''), (tokSlash, ''/'')]"
    by code_simp
  moreover have "(op, s) \<in> set [(tokEOF, ''or''), (tokEOF, ''unless''), (tokEOF, ''and''), (tokEq, ''==''), (tokNeq, ''!=''), (tokGt, ''>''),
     (tokGte, ''>=''), (tokLt, ''<''), (tokLte, ''<=''), (tokPlus, ''+''), (tokMinus, ''-''), (tokStar, ''*''), (tokSlash, ''/'')]"
    using assms unfolding bin_level_def by (drule_tac map_of_SomeD) auto
  ultimately show ?thesis unfolding list_all_iff by blast
qed

lemma punct_texts:
  "has_text lparen" "has_text rparen" "has_text comma" "has_text (tokMinus, ''-'')" "has_text (tokAssign, ''='')"
  "has_text (tokLBrace, ''{'')" "has_text (tokRBrace, ''}'')" "has_text (tokLBracket, ''['')" "has_text (tokRBracket, '']'')"
  "has_text (tokIdent, ''by'')"
  by code_simp+

lemma string_text: "has_text (tokString, s)"
  by simp

lemma print_text_ok: "tree_ok pf sh e \<Longrightarrow> tree_text sh e \<Longrightarrow> list_all has_text (print_at sh n e)"
proof (induction e arbitrary: n)
  case (vectorSelectorNode name m d)
  have "list_all has_text (commas (map (\<lambda>(k, v). [(tokIdent, k), (tokAssign, ''=''), (tokString, v)]) m))"
    using vectorSelectorNode punct_texts by (intro commas_text) (auto simp del: has_text.simps simp: string_text)
  with vectorSelectorNode punct_texts show ?case
    by (auto simp: print_matchers_def print_window_def simp del: has_text.simps)
next
  case (binaryNode op s l r)
  then show ?case
    using punct_texts by (auto simp: parens_def bin_token_text simp del: has_text.simps)
next
  case (unaryMinusNode e)
  then show ?case using punct_texts by (simp add: parens_def del: has_text.simps)
next
  case (funcCallNode f args ls)
  have "list_all has_text (commas (map (print_at sh 0) args))" "list_all has_text (commas (map (\<lambda>l. [(tokIdent, l)]) ls))"
    using funcCallNode punct_texts by (auto intro!: commas_text simp del: has_text.simps)
  with funcCallNode punct_texts show ?case by (simp add: print_by_def del: has_text.simps)
qed simp

definition printPromQL :: "('f \<Rightarrow> string) \<Rightarrow> 'f astNode \<Rightarrow> string" where
  "printPromQL sh e = print_text (print_at sh 0 e)"

text \<open>
  C20. Printing a syntax tree and parsing the text gives the tree back: precedence, left
  associativity, parentheses, quoting of label values, both halves of the grammar agree.
\<close>

theorem parse_print_roundtrip:
  assumes "tree_ok pf sh e" "tree_text sh e"
  shows "parsePromQL pf (printPromQL sh e) = Ok e"
proof -
  obtain ts where ts: "tokenize 0 (printPromQL sh e) = Ok ts" "map kt ts = print_at sh 0 e @ [(tokEOF, [])]"
    using tokenize_text [OF print_text_ok [OF assms]] unfolding printPromQL_def by blast
  obtain ts' t where ts': "ts = ts' @ [t]" "map kt ts' = print_at sh 0 e" "kind t = tokEOF"
    using ts(2) by (auto simp: map_eq_append_conv map_eq_Cons_conv)
  have "parseOr pf (ts' @ [t]) = or_loop pf e [t]"
    using parsesD [OF tree_parses [OF assms(1)] ts'(2) closer_follows [of t 0 "[]"]] ts'(3) by simp
  also have "\<dots> = Ok (e, [t])" using ts'(3) by (simp add: or_loop.simps is_keyword_def)
  finally show ?thesis using ts(1) ts' by (simp add: parsePromQL_def)
qed

definition sample_float :: "string \<Rightarrow> int option" where
  "sample_float s = map_of [(''2'', 2), (''0.5'', 5)] s"

definition sample_show :: "int \<Rightarrow> string" where
  "sample_show v = (if v = 2 then ''2'' else ''0.5'')"

definition sample_tree :: "int astNode" where
  "sample_tree =
     binaryNode tokGt ''>''
       (binaryNode tokSlash ''/''
          (funcCallNode ''sum'' [funcCallNode ''rate'' [vectorSelectorNode ''errors:total'' [(''job'', [CHR 0x22])] ''5m''] []] [''job''])
          (binaryNode tokPlus ''+'' (numberNode 2) (unaryMinusNode (numberNode 2))))
       (numberNode 5)"

theorem parse_print_roundtrip_witness:
  "tree_ok sample_float sample_show sample_tree \<and> tree_text sample_show sample_tree
   \<and> parsePromQL sample_float (printPromQL sample_show sample_tree) = Ok sample_tree"
proof -
  have ok: "tree_ok sample_float sample_show sample_tree"
    by (simp add: sample_tree_def sample_float_def sample_show_def bin_level_def)
  have tokens: "tree_text sample_show sample_tree" by code_simp
  from ok tokens parse_print_roundtrip [OF ok tokens] show ?thesis by simp
qed

end
