(* ===== verification/Slo_Eval.thy ===== *)
theory Slo_Eval
  imports Slo_Parser "HOL-Library.List_Lexorder" "HOL-Library.Char_ord"
begin

text \<open>
  \<open>internal/slo/expr.go\<close>, the evaluator: vectors of labelled samples, vector matching,
  arithmetic, the functions of the language, and recording rules that refer to each other.
  A float64 is a value of the type \<open>'f\<close>; its operations, and \<open>sort.Slice\<close> on histogram points
  (whose order of equal bounds Go leaves open), are the record \<open>floats\<close>.
\<close>

section \<open>Values\<close>

record 'f floats =
  f_add :: "'f \<Rightarrow> 'f \<Rightarrow> 'f"
  f_sub :: "'f \<Rightarrow> 'f \<Rightarrow> 'f"
  f_mul :: "'f \<Rightarrow> 'f \<Rightarrow> 'f"
  f_div :: "'f \<Rightarrow> 'f \<Rightarrow> 'f"
  f_neg :: "'f \<Rightarrow> 'f"
  f_less :: "'f \<Rightarrow> 'f \<Rightarrow> bool"
  f_eq :: "'f \<Rightarrow> 'f \<Rightarrow> bool"
  f_NaN :: 'f
  f_PosInf :: 'f
  f_NegInf :: 'f
  f_IsNaN :: "'f \<Rightarrow> bool"
  f_IsInf :: "'f \<Rightarrow> bool"
  f_of_int :: "int \<Rightarrow> 'f"
  f_to_nanos :: "'f \<Rightarrow> int"
  f_ParseFloat :: "string \<Rightarrow> 'f option"
  sort_points :: "('f \<times> 'f) list \<Rightarrow> ('f \<times> 'f) list"

type_synonym labels = "(string \<times> string) list"
type_synonym 'f vector = "(labels \<times> 'f) list"

text \<open>\<open>labels[k]\<close>: the empty string for a missing key.\<close>

definition label_at :: "labels \<Rightarrow> string \<Rightarrow> string" where
  "label_at ls k = (case map_of ls k of None \<Rightarrow> '''' | Some v \<Rightarrow> v)"

datatype eval_error =
    WantArgs string nat nat
  | RateNotSelector
  | RateNoWindow
  | RateBadWindow string
  | ClampNotScalar
  | QuantileNotScalar
  | UnsupportedFunction string
  | UnsupportedOperator
  | RecordingRule string eval_error

record 'f evalContext =
  ctx_current :: "'f vector"
  ctx_historyAt :: "(string \<Rightarrow> labels \<Rightarrow> int \<Rightarrow> 'f option) option"
  ctx_recordings :: "(string \<times> 'f astNode) list"

section \<open>Selecting and matching\<close>

definition matchesMatchers :: "labels \<Rightarrow> labels \<Rightarrow> bool" where
  "matchesMatchers ls matchers = list_all (\<lambda>(k, v). label_at ls k = v) matchers"

definition filterByMatchers :: "'f vector \<Rightarrow> labels \<Rightarrow> 'f vector" where
  "filterByMatchers v matchers =
     (if matchers = [] then v else filter (\<lambda>(ls, x). matchesMatchers ls matchers) v)"

definition copyLabelsWithout :: "labels \<Rightarrow> string \<Rightarrow> labels" where
  "copyLabelsWithout ls omit = filter (\<lambda>(k, v). k \<noteq> omit) ls"

text \<open>The loop of \<open>evalSelector\<close> over the current samples.\<close>

definition select_current :: "'f vector \<Rightarrow> string \<Rightarrow> labels \<Rightarrow> 'f vector" where
  "select_current cur name matchers =
     map (\<lambda>(ls, x). (copyLabelsWithout ls ''__name__'', x))
       (filter (\<lambda>(ls, x). label_at ls ''__name__'' = name \<and> matchesMatchers ls matchers) cur)"

definition labelsEqual :: "labels \<Rightarrow> labels \<Rightarrow> bool" where
  "labelsEqual a b \<longleftrightarrow> length a = length b \<and> list_all (\<lambda>(k, v). label_at b k = v) a"

definition vectorAnd :: "'f vector \<Rightarrow> 'f vector \<Rightarrow> 'f vector" where
  "vectorAnd l r = filter (\<lambda>(ls, x). list_ex (\<lambda>(rs, y). labelsEqual ls rs) r) l"

definition vectorOr :: "'f vector \<Rightarrow> 'f vector \<Rightarrow> 'f vector" where
  "vectorOr l r = l @ filter (\<lambda>(rs, y). \<not> list_ex (\<lambda>(ls, x). labelsEqual ls rs) l) r"

definition vectorUnless :: "'f vector \<Rightarrow> 'f vector \<Rightarrow> 'f vector" where
  "vectorUnless l r = filter (\<lambda>(ls, x). \<not> list_ex (\<lambda>(rs, y). labelsEqual ls rs) r) l"

definition compareFloats :: "'f floats \<Rightarrow> 'f \<Rightarrow> 'f \<Rightarrow> tokenKind \<Rightarrow> bool" where
  "compareFloats fo a b op =
     (case op of
        tokEq \<Rightarrow> f_eq fo a b
      | tokNeq \<Rightarrow> \<not> f_eq fo a b
      | tokGt \<Rightarrow> f_less fo b a
      | tokGte \<Rightarrow> f_less fo b a \<or> f_eq fo a b
      | tokLt \<Rightarrow> f_less fo a b
      | tokLte \<Rightarrow> f_less fo a b \<or> f_eq fo a b
      | _ \<Rightarrow> False)"

text \<open>A one-element vector with no labels is a scalar.\<close>

fun scalar :: "'f vector \<Rightarrow> 'f option" where
  "scalar [([], x)] = Some x"
| "scalar _ = None"

text \<open>The first right-hand sample with the labels of a left-hand one.\<close>

definition partner :: "'f vector \<Rightarrow> labels \<Rightarrow> 'f option" where
  "partner r ls = map_option snd (List.find (\<lambda>(rs, y). labelsEqual ls rs) r)"

definition vectorCompare :: "'f floats \<Rightarrow> 'f vector \<Rightarrow> 'f vector \<Rightarrow> tokenKind \<Rightarrow> 'f vector" where
  "vectorCompare fo l r op =
     (case scalar r of
        Some threshold \<Rightarrow> filter (\<lambda>(ls, x). compareFloats fo x threshold op) l
      | None \<Rightarrow>
          filter (\<lambda>(ls, x). (case partner r ls of None \<Rightarrow> False | Some y \<Rightarrow> compareFloats fo x y op)) l)"

definition arith :: "'f floats \<Rightarrow> 'f \<Rightarrow> 'f \<Rightarrow> tokenKind \<Rightarrow> (eval_error, 'f) result" where
  "arith fo a b op =
     (case op of
        tokPlus \<Rightarrow> Ok (f_add fo a b)
      | tokMinus \<Rightarrow> Ok (f_sub fo a b)
      | tokStar \<Rightarrow> Ok (f_mul fo a b)
      | tokSlash \<Rightarrow> (if f_eq fo b (f_of_int fo 0) then Ok (f_NaN fo) else Ok (f_div fo a b))
      | _ \<Rightarrow> Err UnsupportedOperator)"

text \<open>\<open>err == nil && !math.IsNaN(v) && !math.IsInf(v, 0)\<close>\<close>

definition finite_arith :: "'f floats \<Rightarrow> 'f \<Rightarrow> 'f \<Rightarrow> tokenKind \<Rightarrow> 'f option" where
  "finite_arith fo a b op =
     (case arith fo a b op of
        Inl e \<Rightarrow> None
      | Inr v \<Rightarrow> (if f_IsNaN fo v \<or> f_IsInf fo v then None else Some v))"

definition vectorArith :: "'f floats \<Rightarrow> 'f vector \<Rightarrow> 'f vector \<Rightarrow> tokenKind \<Rightarrow> (eval_error, 'f vector) result" where
  "vectorArith fo l r op =
     (case (scalar l, scalar r) of
        (Some a, Some b) \<Rightarrow> (case arith fo a b op of Inl e \<Rightarrow> Err e | Inr v \<Rightarrow> Ok [([], v)])
      | (_, Some b) \<Rightarrow> Ok (List.map_filter (\<lambda>(ls, x). map_option (Pair ls) (finite_arith fo x b op)) l)
      | (Some a, None) \<Rightarrow> Ok (List.map_filter (\<lambda>(ls, x). map_option (Pair ls) (finite_arith fo a x op)) r)
      | (None, None) \<Rightarrow>
          Ok (List.map_filter (\<lambda>(ls, x).
                (case partner r ls of
                   None \<Rightarrow> None
                 | Some y \<Rightarrow> map_option (Pair ls) (finite_arith fo x y op))) l))"

section \<open>Functions\<close>

text \<open>The last byte is the unit, or the last two are \<open>ms\<close>.\<close>

definition parseDurationSeconds :: "'f floats \<Rightarrow> string \<Rightarrow> 'f option" where
  "parseDurationSeconds fo s =
     (if s = '''' then None
      else
        (let ms = suffix ''ms'' s;
             num = (if ms then take (length s - 2) s else butlast s);
             unit = (if ms then CHR ''M'' else last s)
         in case f_ParseFloat fo num of
              None \<Rightarrow> None
            | Some n \<Rightarrow>
                (if unit = CHR ''s'' then Some n
                 else if unit = CHR ''m'' then Some (f_mul fo n (f_of_int fo 60))
                 else if unit = CHR ''h'' then Some (f_mul fo n (f_of_int fo 3600))
                 else if unit = CHR ''d'' then Some (f_mul fo n (f_of_int fo 86400))
                 else if unit = CHR ''w'' then Some (f_mul fo (f_mul fo n (f_of_int fo 7)) (f_of_int fo 86400))
                 else if unit = CHR ''y'' then Some (f_mul fo (f_mul fo n (f_of_int fo 365)) (f_of_int fo 86400))
                 else if unit = CHR ''M'' then Some (f_div fo n (f_of_int fo 1000))
                 else None)))"

definition rate_sample :: "'f floats \<Rightarrow> 'f evalContext \<Rightarrow> string \<Rightarrow> 'f \<Rightarrow> labels \<times> 'f \<Rightarrow> labels \<times> 'f" where
  "rate_sample fo ctx name winSec = (\<lambda>(ls, x).
     (let zero = f_of_int fo 0; winNs = f_to_nanos fo (f_mul fo winSec (f_of_int fo 1000000000))
      in case ctx_historyAt ctx of
           None \<Rightarrow> (ls, zero)
         | Some historyAt \<Rightarrow>
             (case historyAt name ls winNs of
                None \<Rightarrow> (ls, zero)
              | Some prev \<Rightarrow>
                  (let delta = f_sub fo x prev; delta' = (if f_less fo delta zero then zero else delta)
                   in (ls, f_div fo delta' winSec)))))"

definition groupKey :: "labels \<Rightarrow> string list \<Rightarrow> string \<times> labels" where
  "groupKey ls by =
     (join_with CHR '','' (sort (map (\<lambda>k. k @ ''='' @ label_at ls k) by)),
      fold (\<lambda>k sub. AList.update k (label_at ls k) sub) by [])"

text \<open>Buckets in the order their keys are first seen.\<close>

definition add_bucket :: "string \<Rightarrow> labels \<Rightarrow> 'v \<Rightarrow> (string \<times> labels \<times> 'v list) list \<Rightarrow> (string \<times> labels \<times> 'v list) list" where
  "add_bucket key sub x groups =
     (case map_of groups key of
        None \<Rightarrow> groups @ [(key, sub, [x])]
      | Some (sub0, xs) \<Rightarrow> AList.update key (sub0, xs @ [x]) groups)"

definition sum_values :: "'f floats \<Rightarrow> 'f list \<Rightarrow> 'f" where
  "sum_values fo xs = foldl (f_add fo) (f_of_int fo 0) xs"

definition aggregate_op :: "'f floats \<Rightarrow> string \<Rightarrow> 'f list \<Rightarrow> 'f" where
  "aggregate_op fo op xs =
     (if op = ''sum'' then sum_values fo xs
      else if op = ''avg'' then f_div fo (sum_values fo xs) (f_of_int fo (int (length xs)))
      else if op = ''min'' then foldl (\<lambda>v x. if f_less fo x v then x else v) (f_PosInf fo) xs
      else if op = ''max'' then foldl (\<lambda>v x. if f_less fo v x then x else v) (f_NegInf fo) xs
      else if op = ''count'' then f_of_int fo (int (length xs))
      else f_of_int fo 0)"

definition aggregate_groups :: "'f vector \<Rightarrow> string list \<Rightarrow> (string \<times> labels \<times> 'f list) list" where
  "aggregate_groups v by =
     foldl (\<lambda>groups (ls, x). (let (key, sub) = groupKey ls by in add_bucket key sub x groups)) [] v"

definition aggregate :: "'f floats \<Rightarrow> 'f vector \<Rightarrow> string list \<Rightarrow> string \<Rightarrow> 'f vector" where
  "aggregate fo v by op = map (\<lambda>(key, sub, xs). (sub, aggregate_op fo op xs)) (aggregate_groups v by)"

definition clamp :: "'f floats \<Rightarrow> bool \<Rightarrow> 'f \<Rightarrow> 'f \<Rightarrow> 'f" where
  "clamp fo isMin limit v =
     (if isMin then (if f_less fo v limit then limit else v) else (if f_less fo limit v then limit else v))"

definition stableKey :: "labels \<Rightarrow> string" where
  "stableKey ls = concat (map (\<lambda>k. k @ ''='' @ label_at ls k @ '','') (sort (map fst ls)))"

definition parseLEBound :: "'f floats \<Rightarrow> string \<Rightarrow> 'f option" where
  "parseLEBound fo s = (if s = ''+Inf'' then Some (f_PosInf fo) else f_ParseFloat fo s)"

definition bucket_groups :: "'f floats \<Rightarrow> 'f vector \<Rightarrow> (string \<times> labels \<times> ('f \<times> 'f) list) list" where
  "bucket_groups fo v =
     foldl (\<lambda>groups (ls, x).
       (case map_of ls ''le'' of
          None \<Rightarrow> groups
        | Some leStr \<Rightarrow>
            (case parseLEBound fo leStr of
               None \<Rightarrow> groups
             | Some le \<Rightarrow>
                 (let sub = filter (\<lambda>(k, v). k \<noteq> ''le'') ls in add_bucket (stableKey sub) sub (le, x) groups)))) [] v"

text \<open>The interpolation loop of \<open>evalHistogramQuantile\<close> over the sorted points of a group.\<close>

fun quantile_loop :: "'f floats \<Rightarrow> 'f \<Rightarrow> 'f \<Rightarrow> 'f \<Rightarrow> ('f \<times> 'f) list \<Rightarrow> 'f" where
  "quantile_loop fo target prevLE prevCount [] = prevLE"
| "quantile_loop fo target prevLE prevCount ((le, n) # points) =
     (if f_less fo target n \<or> f_eq fo n target then
        (let bucketSize = f_sub fo le prevLE; bucketCount = f_sub fo n prevCount; zero = f_of_int fo 0
         in if (f_less fo bucketCount zero \<or> f_eq fo bucketCount zero) \<or> f_eq fo le (f_PosInf fo) then prevLE
            else f_add fo prevLE (f_mul fo bucketSize (f_div fo (f_sub fo target prevCount) bucketCount)))
      else quantile_loop fo target le n points)"

definition quantile_of :: "'f floats \<Rightarrow> 'f \<Rightarrow> ('f \<times> 'f) list \<Rightarrow> 'f" where
  "quantile_of fo quantile pts =
     (let points = sort_points fo pts; total = snd (last points); zero = f_of_int fo 0
      in if f_less fo total zero \<or> f_eq fo total zero then zero
         else quantile_loop fo (f_mul fo quantile total) zero zero points)"

definition histogram_quantile :: "'f floats \<Rightarrow> 'f \<Rightarrow> 'f vector \<Rightarrow> 'f vector" where
  "histogram_quantile fo quantile v = map (\<lambda>(key, sub, pts). (sub, quantile_of fo quantile pts)) (bucket_groups fo v)"

section \<open>Evaluation\<close>

text \<open>
  \<open>expanding\<close> is the set of recording rules being expanded, entered before a rule's expression is
  evaluated and left after it.
\<close>

function
  evalNode :: "'f floats \<Rightarrow> 'f evalContext \<Rightarrow> string set \<Rightarrow> 'f astNode \<Rightarrow> (eval_error, 'f vector) result" and
  evalSelector :: "'f floats \<Rightarrow> 'f evalContext \<Rightarrow> string set \<Rightarrow> string \<Rightarrow> labels \<Rightarrow> (eval_error, 'f vector) result"
  where
  "evalNode fo ctx expanding (numberNode v) = Ok [([], v)]"
| "evalNode fo ctx expanding (unaryMinusNode inner) =
     (case evalNode fo ctx expanding inner of
        Inl e \<Rightarrow> Err e
      | Inr v \<Rightarrow> Ok (map (\<lambda>(ls, x). (ls, f_neg fo x)) v))"
| "evalNode fo ctx expanding (vectorSelectorNode name matchers d) = evalSelector fo ctx expanding name matchers"
| "evalNode fo ctx expanding (binaryNode op opString lhs rhs) =
     (case evalNode fo ctx expanding lhs of
        Inl e \<Rightarrow> Err e
      | Inr l \<Rightarrow>
          (case evalNode fo ctx expanding rhs of
             Inl e \<Rightarrow> Err e
           | Inr r \<Rightarrow>
               (if ToLower opString = ''and'' then Ok (vectorAnd l r)
                else if ToLower opString = ''or'' then Ok (vectorOr l r)
                else if ToLower opString = ''unless'' then Ok (vectorUnless l r)
                else if op \<in> {tokEq, tokNeq, tokGt, tokGte, tokLt, tokLte} then Ok (vectorCompare fo l r op)
                else vectorArith fo l r op)))"
| "evalNode fo ctx expanding (funcCallNode name args byLabels) =
     (let f = ToLower name in
      if f = ''rate'' then
        (case args of
           [vectorSelectorNode sname matchers d] \<Rightarrow>
             (if d = '''' then Err RateNoWindow
              else (case parseDurationSeconds fo d of
                      None \<Rightarrow> Err (RateBadWindow d)
                    | Some winSec \<Rightarrow>
                        (case evalSelector fo ctx expanding sname matchers of
                           Inl e \<Rightarrow> Err e
                         | Inr cur \<Rightarrow> Ok (map (rate_sample fo ctx sname winSec) cur))))
         | [_] \<Rightarrow> Err RateNotSelector
         | _ \<Rightarrow> Err (WantArgs ''rate'' 1 (length args)))
      else if f \<in> {''sum'', ''avg'', ''min'', ''max'', ''count''} then
        (case args of
           [a] \<Rightarrow>
             (case evalNode fo ctx expanding a of
                Inl e \<Rightarrow> Err e
              | Inr v \<Rightarrow> Ok (aggregate fo v byLabels f))
         | _ \<Rightarrow> Err (WantArgs (if f = ''sum'' then f else name) 1 (length args)))
      else if f \<in> {''clamp_min'', ''clamp_max''} then
        (case args of
           [a, b] \<Rightarrow>
             (case evalNode fo ctx expanding a of
                Inl e \<Rightarrow> Err e
              | Inr v \<Rightarrow>
                  (case evalNode fo ctx expanding b of
                     Inl e \<Rightarrow> Err e
                   | Inr bound \<Rightarrow>
                       (case scalar bound of
                          None \<Rightarrow> Err ClampNotScalar
                        | Some limit \<Rightarrow> Ok (map (\<lambda>(ls, x). (ls, clamp fo (f = ''clamp_min'') limit x)) v))))
         | _ \<Rightarrow> Err (WantArgs ''clamp_*'' 2 (length args)))
      else if f = ''histogram_quantile'' then
        (case args of
           [a, b] \<Rightarrow>
             (case evalNode fo ctx expanding a of
                Inl e \<Rightarrow> Err e
              | Inr q \<Rightarrow>
                  (case scalar q of
                     None \<Rightarrow> Err QuantileNotScalar
                   | Some quantile \<Rightarrow>
                       (case evalNode fo ctx expanding b of
                          Inl e \<Rightarrow> Err e
                        | Inr v \<Rightarrow> Ok (histogram_quantile fo quantile v))))
         | _ \<Rightarrow> Err (WantArgs ''histogram_quantile'' 2 (length args)))
      else Err (UnsupportedFunction name))"
| "evalSelector fo ctx expanding name matchers =
     (case map_of (ctx_recordings ctx) name of
        Some def \<Rightarrow>
          (if name \<in> expanding then Ok (select_current (ctx_current ctx) name matchers)
           else (case evalNode fo ctx (insert name expanding) def of
                   Inl e \<Rightarrow> Err (RecordingRule name e)
                 | Inr v \<Rightarrow> Ok (filterByMatchers v matchers)))
      | None \<Rightarrow> Ok (select_current (ctx_current ctx) name matchers))"
  by pat_completeness auto

text \<open>A rule is expanded at most once on the way down, so that cyclic recording rules end.\<close>

definition unexpanded :: "'f evalContext \<Rightarrow> string set \<Rightarrow> nat" where
  "unexpanded ctx expanding = card (fst ` set (ctx_recordings ctx) - expanding)"

lemma unexpanded_insert:
  assumes "map_of (ctx_recordings ctx) name = Some def" "name \<notin> expanding"
  shows "unexpanded ctx (insert name expanding) < unexpanded ctx expanding"
proof -
  have "name \<in> fst ` set (ctx_recordings ctx)" using map_of_SomeD [OF assms(1)] by force
  with assms(2) show ?thesis unfolding unexpanded_def by (intro psubset_card_mono) auto
qed

termination evalNode
proof (relation "measures
    [\<lambda>x. (case x of Inl (fo, ctx, ex, n) \<Rightarrow> unexpanded ctx ex | Inr (fo, ctx, ex, n, m) \<Rightarrow> unexpanded ctx ex),
     \<lambda>x. (case x of Inl (fo, ctx, ex, n) \<Rightarrow> size n | Inr (fo, ctx, ex, n, m) \<Rightarrow> 0)]")
qed (auto simp: unexpanded_insert)

section \<open>Laws\<close>

text \<open>
  Without empty values, \<open>labelsEqual\<close> is equality of label sets. An empty value matches a missing
  label, and then it is not even symmetric.
\<close>

lemma labelsEqual_iff:
  assumes "map_wf a" "map_wf b" "[] \<notin> snd ` set a"
  shows "labelsEqual a b \<longleftrightarrow> map_of a = map_of b"
proof
  assume eq: "labelsEqual a b"
  have "set a \<subseteq> set b"
  proof
    fix kv
    assume kv: "kv \<in> set a"
    obtain k v where [simp]: "kv = (k, v)" by (cases kv)
    have "v \<noteq> []" using kv assms(3) by force
    moreover have "label_at b k = v" using eq kv by (auto simp: labelsEqual_def list_all_iff)
    ultimately show "kv \<in> set b" by (auto simp: label_at_def dest: map_of_SomeD split: option.splits)
  qed
  moreover have "card (set b) \<le> card (set a)"
    using eq assms(1,2) by (simp add: labelsEqual_def distinct_card distinct_map)
  ultimately have "set a = set b" by (intro card_seteq) auto
  with assms(1,2) show "map_of a = map_of b" by (simp add: map_of_inject_set)
next
  assume eq: "map_of a = map_of b"
  then have "set a = set b" using assms(1,2) by (simp add: map_of_inject_set)
  moreover have "distinct a" "distinct b" using assms(1,2) by (simp_all add: distinct_map)
  ultimately have "length a = length b" by (metis distinct_card)
  moreover have "label_at b k = v" if "(k, v) \<in> set a" for k v
    using that assms(1) by (simp add: label_at_def flip: eq)
  ultimately show "labelsEqual a b" by (auto simp: labelsEqual_def list_all_iff)
qed

lemma labelsEqual_empty_value:
  "labelsEqual [(''a'', [])] [(''b'', ''x'')] \<and> \<not> labelsEqual [(''b'', ''x'')] [(''a'', [])]"
  by (simp add: labelsEqual_def label_at_def)

text \<open>\<open>and\<close> and \<open>unless\<close> split the left-hand side.\<close>

lemma and_unless_split:
  "set (vectorAnd l r) \<union> set (vectorUnless l r) = set l"
  "length (vectorAnd l r) + length (vectorUnless l r) = length l"
  unfolding vectorAnd_def vectorUnless_def case_prod_beta'
  by (auto simp: sum_length_filter_compl)

text \<open>Group keys do not escape their parts, and two groups can share one.\<close>

lemma groupKey_collision:
  "fst (groupKey [(''a'', ''1,b=2''), (''b'', ''3'')] [''a'', ''b'']) =
   fst (groupKey [(''a'', ''1''), (''b'', ''2,b=3'')] [''a'', ''b''])"
  by code_simp

lemma finite_arith_finite: "finite_arith fo a b op = Some v \<Longrightarrow> \<not> f_IsNaN fo v \<and> \<not> f_IsInf fo v"
  by (auto simp: finite_arith_def split: sum.splits if_splits)

lemma vectorArith_finite:
  assumes "vectorArith fo l r op = Ok out" "(ls, x) \<in> set out" "f_IsNaN fo x \<or> f_IsInf fo x"
  shows "scalar l \<noteq> None \<and> scalar r \<noteq> None"
  using assms by (auto simp: vectorArith_def in_map_filter dest!: finite_arith_finite split: option.splits)

text \<open>Between two scalars they are not filtered: the quotient by zero is a sample whose value is NaN.\<close>

lemma scalar_division_NaN:
  assumes "f_eq fo (f_of_int fo 0) (f_of_int fo 0)"
  shows "evalNode fo ctx ex (binaryNode tokSlash ''/'' (numberNode a) (numberNode (f_of_int fo 0))) = Ok [([], f_NaN fo)]"
  using assms by (simp add: vectorArith_def arith_def ToLower_def ToLower_byte_def)

end
