(* ===== verification/Slo_Alerts.thy ===== *)
theory Slo_Alerts
  imports Slo_Eval
begin

text \<open>
  \<open>internal/slo/evaluator.go\<close>: the alert state machine. A tick evaluates every rule, moves label
  sets from pending to firing, and drops those it did not see. The clock, the metric samples and
  their history are arguments of a tick; the throttling of log lines is left out.
\<close>

section \<open>State\<close>

record rule =
  rule_Name :: string
  rule_Expr :: string
  rule_For :: duration
  rule_Labels :: labels
  rule_Annotations :: labels
  rule_Group :: string

record 'f FiringAlert =
  fa_Name :: string
  fa_Severity :: string
  fa_Value :: 'f
  fa_Threshold :: string
  fa_StartedAt :: time
  fa_Annotations :: labels
  fa_Labels :: labels
  fa_Group :: string
  fa_Expr :: string

record 'f evaluator =
  ev_parsed :: "(rule \<times> 'f astNode) list"
  ev_recordings :: "(string \<times> 'f astNode) list"
  ev_pending :: "(string \<times> time) list"
  ev_firing :: "(string \<times> 'f FiringAlert) list"

definition alertKey :: "string \<Rightarrow> labels \<Rightarrow> string" where
  "alertKey name ls =
     name @ concat (map (\<lambda>k. CHR 0x1F # k @ CHR ''='' # label_at ls k) (sort (map fst ls)))"

text \<open>Rules and recordings whose expression does not parse are dropped.\<close>

definition NewEvaluator :: "'f floats \<Rightarrow> rule list \<Rightarrow> (string \<times> string) list \<Rightarrow> 'f evaluator" where
  "NewEvaluator fo rules recordings =
     (let parse = (\<lambda>src. case parsePromQL (f_ParseFloat fo) src of Inl e \<Rightarrow> None | Inr n \<Rightarrow> Some n)
      in \<lparr>ev_parsed = List.map_filter (\<lambda>r. map_option (Pair r) (parse (rule_Expr r))) rules,
          ev_recordings = List.map_filter (\<lambda>(name, src). map_option (Pair name) (parse src)) recordings,
          ev_pending = [], ev_firing = []\<rparr>)"

section \<open>One tick\<close>

text \<open>The rule's labels win over those of the sample.\<close>

definition mergeLabels :: "labels \<Rightarrow> labels \<Rightarrow> labels" where
  "mergeLabels ruleLabels vecLabels = fold (\<lambda>(k, v) out. AList.update k v out) ruleLabels vecLabels"

fun threshold_loop :: "string \<Rightarrow> string list \<Rightarrow> string" where
  "threshold_loop expr [] = ''''"
| "threshold_loop expr (op # ops) =
     (case str_last_index op expr of
        None \<Rightarrow> threshold_loop expr ops
      | Some i \<Rightarrow>
          (let rhs = TrimSpace (drop (i + length op) expr) in
           if rhs = '''' then threshold_loop expr ops
           else
             (let rhs' = TrimSpace (TrimSuffix (TrimPrefix rhs ''('') '')'')
              in op @ '' '' @ (if length rhs' > 80 then take 77 rhs' @ ''...'' else rhs'))))"

definition renderThreshold :: "string \<Rightarrow> string" where
  "renderThreshold expr = threshold_loop expr [''>='', ''<='', ''=='', ''!='', ''>'', ''<'']"

definition new_alert :: "rule \<Rightarrow> labels \<Rightarrow> 'f \<Rightarrow> time \<Rightarrow> 'f FiringAlert" where
  "new_alert r ls v started =
     (let labels = mergeLabels (rule_Labels r) ls
      in \<lparr>fa_Name = rule_Name r, fa_Severity = label_at labels ''severity'', fa_Value = v,
          fa_Threshold = renderThreshold (rule_Expr r), fa_StartedAt = started,
          fa_Annotations = rule_Annotations r, fa_Labels = labels, fa_Group = rule_Group r, fa_Expr = rule_Expr r\<rparr>)"

text \<open>The body of the inner loop of \<open>tick\<close>: one sample of a rule's result.\<close>

definition see_sample :: "time \<Rightarrow> rule \<times> labels \<times> 'f \<Rightarrow> 'f evaluator \<Rightarrow> 'f evaluator" where
  "see_sample now = (\<lambda>(r, ls, v) e.
     (let k = alertKey (rule_Name r) ls in
      case map_of (ev_firing e) k of
        Some fa \<Rightarrow> e\<lparr>ev_firing := AList.update k (fa\<lparr>fa_Value := v\<rparr>) (ev_firing e)\<rparr>
      | None \<Rightarrow>
          (case map_of (ev_pending e) k of
             Some t0 \<Rightarrow>
               (if now - t0 \<ge> rule_For r
                then e\<lparr>ev_firing := AList.update k (new_alert r ls v t0) (ev_firing e),
                       ev_pending := AList.delete k (ev_pending e)\<rparr>
                else e)
           | None \<Rightarrow>
               (if rule_For r = 0
                then e\<lparr>ev_firing := AList.update k (new_alert r ls v now) (ev_firing e)\<rparr>
                else e\<lparr>ev_pending := AList.update k now (ev_pending e)\<rparr>))))"

text \<open>What the rules evaluate to; a rule that fails is skipped.\<close>

definition rule_samples ::
  "'f floats \<Rightarrow> 'f evaluator \<Rightarrow> 'f vector \<Rightarrow> (string \<Rightarrow> labels \<Rightarrow> int \<Rightarrow> 'f option) \<Rightarrow> (rule \<times> labels \<times> 'f) list" where
  "rule_samples fo e src hist =
     concat (map (\<lambda>(r, ast).
       (case evalNode fo \<lparr>ctx_current = src, ctx_historyAt = Some hist, ctx_recordings = ev_recordings e\<rparr> {} ast of
          Inl err \<Rightarrow> []
        | Inr out \<Rightarrow> map (Pair r) out)) (ev_parsed e))"

definition sample_key :: "rule \<times> labels \<times> 'f \<Rightarrow> string" where
  "sample_key = (\<lambda>(r, ls, v). alertKey (rule_Name r) ls)"

definition prune :: "string set \<Rightarrow> 'f evaluator \<Rightarrow> 'f evaluator" where
  "prune alive e =
     e\<lparr>ev_pending := filter (\<lambda>(k, t). k \<in> alive) (ev_pending e), ev_firing := filter (\<lambda>(k, fa). k \<in> alive) (ev_firing e)\<rparr>"

definition tick ::
  "'f floats \<Rightarrow> time \<Rightarrow> 'f vector \<Rightarrow> (string \<Rightarrow> labels \<Rightarrow> int \<Rightarrow> 'f option) \<Rightarrow> 'f evaluator \<Rightarrow> 'f evaluator" where
  "tick fo now src hist e =
     (let samples = rule_samples fo e src hist
      in prune (set (map sample_key samples)) (fold (see_sample now) samples e))"

definition severityRank :: "string \<Rightarrow> nat" where
  "severityRank s =
     (if ToLower s = ''critical'' then 3 else if ToLower s = ''warning'' then 2 else if ToLower s = ''info'' then 1 else 0)"

text \<open>The sort of \<open>Snapshot\<close>: by severity, then newest first. Its input order is that of a Go map.\<close>

definition snapshot_order :: "'f FiringAlert list \<Rightarrow> 'f FiringAlert list" where
  "snapshot_order alerts = sort_key (\<lambda>a. - int (severityRank (fa_Severity a))) (sort_key (\<lambda>a. - fa_StartedAt a) alerts)"

section \<open>The state of one alert\<close>

text \<open>When an alert entered pending, and when it entered pending before it fired.\<close>

definition view :: "string \<Rightarrow> 'f evaluator \<Rightarrow> time option \<times> time option" where
  "view k e = (map_of (ev_pending e) k, map_option fa_StartedAt (map_of (ev_firing e) k))"

fun seen :: "duration \<Rightarrow> time \<Rightarrow> time option \<times> time option \<Rightarrow> time option \<times> time option" where
  "seen d now (p, Some s) = (p, Some s)"
| "seen d now (Some t0, None) = (if now - t0 \<ge> d then (None, Some t0) else (Some t0, None))"
| "seen d now (None, None) = (if d = 0 then (None, Some now) else (Some now, None))"

lemma seen_idem: "0 \<le> d \<Longrightarrow> seen d now (seen d now v) = seen d now v"
  by (induction d now v rule: seen.induct) auto

lemma view_see_sample:
  "view k (see_sample now (r, ls, v) e) =
     (if k = alertKey (rule_Name r) ls then seen (rule_For r) now (view k e) else view k e)"
  by (cases "map_of (ev_firing e) (alertKey (rule_Name r) ls)"; cases "map_of (ev_pending e) (alertKey (rule_Name r) ls)")
    (auto simp: view_def see_sample_def Let_def new_alert_def go_map_simps)

lemma view_fold:
  assumes "0 \<le> d" "\<forall>x\<in>set samples. sample_key x = k \<longrightarrow> rule_For (fst x) = d"
  shows "view k (fold (see_sample now) samples e) =
    (if k \<in> set (map sample_key samples) then seen d now (view k e) else view k e)"
  using assms(2)
proof (induction samples arbitrary: e)
  case (Cons x samples)
  have "view k (see_sample now x e) = (if sample_key x = k then seen d now (view k e) else view k e)"
    using view_see_sample [of k now "fst x" "fst (snd x)" "snd (snd x)" e] Cons.prems
    by (cases x) (auto simp: sample_key_def)
  with Cons.prems Cons.IH [of "see_sample now x e"] show ?case
    by (auto simp: seen_idem [OF assms(1)])
qed simp

lemma map_of_filter_key: "map_of (filter (\<lambda>(k', x). k' \<in> A) m) k = (if k \<in> A then map_of m k else None)"
  by (induction m) auto

lemma view_prune: "view k (prune alive e) = (if k \<in> alive then view k e else (None, None))"
  by (simp add: view_def prune_def map_of_filter_key)

lemma see_samples_rules [simp]:
  "ev_parsed (fold (see_sample now) xs e) = ev_parsed e" "ev_recordings (fold (see_sample now) xs e) = ev_recordings e"
  by (induction xs arbitrary: e) (auto simp: see_sample_def Let_def split: option.split)

lemma tick_rules [simp]:
  "ev_parsed (tick fo now src hist e) = ev_parsed e" "ev_recordings (tick fo now src hist e) = ev_recordings e"
  by (simp_all add: tick_def Let_def prune_def)

section \<open>Alerts over time\<close>

text \<open>A history of ticks, latest first: the clock, the samples and their history.\<close>

type_synonym 'f tick_input = "time \<times> 'f vector \<times> (string \<Rightarrow> labels \<Rightarrow> int \<Rightarrow> 'f option)"

fun after_ticks :: "'f floats \<Rightarrow> 'f evaluator \<Rightarrow> 'f tick_input list \<Rightarrow> 'f evaluator" where
  "after_ticks fo e [] = e"
| "after_ticks fo e ((now, src, hist) # ticks) = tick fo now src hist (after_ticks fo e ticks)"

definition holds_at :: "'f floats \<Rightarrow> 'f evaluator \<Rightarrow> string \<Rightarrow> 'f tick_input \<Rightarrow> bool" where
  "holds_at fo e k = (\<lambda>(now, src, hist). k \<in> sample_key ` set (rule_samples fo e src hist))"

text \<open>The first tick of the unbroken run of ticks, up to the latest, at which the alert's expression held.\<close>

definition holds_since :: "'f floats \<Rightarrow> 'f evaluator \<Rightarrow> string \<Rightarrow> 'f tick_input list \<Rightarrow> time option" where
  "holds_since fo e k ticks =
     (let run = takeWhile (holds_at fo e k) ticks in if run = [] then None else Some (fst (last run)))"

lemma holds_since_Cons:
  "holds_since fo e k (x # ticks) =
     (if holds_at fo e k x then (case holds_since fo e k ticks of None \<Rightarrow> Some (fst x) | Some s \<Rightarrow> Some s) else None)"
  by (simp add: holds_since_def Let_def)

lemma after_ticks_parsed [simp]:
  "ev_parsed (after_ticks fo e ticks) = ev_parsed e" "ev_recordings (after_ticks fo e ticks) = ev_recordings e"
  by (induction ticks) auto

lemma rule_samples_after: "rule_samples fo (after_ticks fo e ticks) src hist = rule_samples fo e src hist"
  by (simp add: rule_samples_def)

lemma rule_samples_rules: "x \<in> set (rule_samples fo e src hist) \<Longrightarrow> fst x \<in> fst ` set (ev_parsed e)"
  by (force simp: rule_samples_def split: sum.splits)

lemma view_tick:
  assumes "0 \<le> d" "\<forall>r\<in>fst ` set (ev_parsed e). \<forall>ls. alertKey (rule_Name r) ls = k \<longrightarrow> rule_For r = d"
  shows "view k (tick fo now src hist e) = (if holds_at fo e k (now, src, hist) then seen d now (view k e) else (None, None))"
proof -
  have "\<forall>x\<in>set (rule_samples fo e src hist). sample_key x = k \<longrightarrow> rule_For (fst x) = d"
    using assms(2) rule_samples_rules [of _ fo e src hist] by (fastforce simp: sample_key_def)
  from view_fold [OF assms(1) this, of now e] show ?thesis
    by (simp add: tick_def Let_def view_prune holds_at_def)
qed

text \<open>
  C19. An alert fires exactly when its expression has held at every tick for at least the rule's
  \<open>for\<close> duration, and it carries the time the run began: with a clock that does not go back, after
  any sequence of ticks from start-up, the alert is pending since the start of the current
  run while the run is shorter than \<open>for\<close>, firing from then on, and neither after a tick at which
  the expression did not hold or could not be evaluated.
\<close>

theorem alert_lifecycle:
  assumes "0 \<le> d" "sorted_wrt (\<lambda>x y. fst y \<le> fst x) ticks" "ticks \<noteq> []"
    and "ev_pending e = []" "ev_firing e = []"
    and "\<forall>r\<in>fst ` set (ev_parsed e). \<forall>ls. alertKey (rule_Name r) ls = k \<longrightarrow> rule_For r = d"
  shows "view k (after_ticks fo e ticks) =
    (case holds_since fo e k ticks of
       None \<Rightarrow> (None, None)
     | Some s \<Rightarrow> (if fst (hd ticks) - s \<ge> d then (None, Some s) else (Some s, None)))"
  using assms(2,3)
proof (induction ticks)
  case (Cons x ticks)
  obtain now src hist where x: "x = (now, src, hist)" by (cases x)
  have h: "holds_at fo (after_ticks fo e ticks) k x = holds_at fo e k x"
    by (simp add: holds_at_def rule_samples_after)
  have step: "view k (after_ticks fo e (x # ticks)) =
      (if holds_at fo e k x then seen d now (view k (after_ticks fo e ticks)) else (None, None))"
    using view_tick [OF assms(1), of "after_ticks fo e ticks" k fo now src hist] assms(6) h x by simp
  show ?case
  proof (cases ticks)
    case Nil
    with step x assms(1,4,5) show ?thesis by (auto simp: holds_since_def view_def)
  next
    case (Cons y ys)
    with Cons.prems x have "fst (hd ticks) \<le> now" by auto
    with Cons Cons.IH Cons.prems step x assms(1) show ?thesis
      by (auto simp: holds_since_Cons split: option.split)
  qed
qed simp

text \<open>Integers in place of floats, for the witnesses.\<close>

definition int_floats :: "int floats" where
  "int_floats =
     \<lparr>f_add = (+), f_sub = (-), f_mul = (*), f_div = (div), f_neg = uminus, f_less = (<), f_eq = (=),
      f_NaN = 0, f_PosInf = 1000000, f_NegInf = -1000000, f_IsNaN = (\<lambda>x. False), f_IsInf = (\<lambda>x. False),
      f_of_int = id, f_to_nanos = id, f_ParseFloat = (\<lambda>s. map_of [(''0'', 0), (''1'', 1)] s), sort_points = sort_key fst\<rparr>"

definition down_rule :: rule where
  "down_rule =
     \<lparr>rule_Name = ''Down'', rule_Expr = ''up < 1'', rule_For = 5, rule_Labels = [(''severity'', ''critical'')],
      rule_Annotations = [], rule_Group = ''g''\<rparr>"

definition down_evaluator :: "int evaluator" where
  "down_evaluator =
     \<lparr>ev_parsed = [(down_rule, binaryNode tokLt ''<'' (vectorSelectorNode ''up'' [] []) (numberNode 1))],
      ev_recordings = [], ev_pending = [], ev_firing = []\<rparr>"

definition down_tick :: "time \<Rightarrow> int \<Rightarrow> int tick_input" where
  "down_tick now up = (now, [([(''__name__'', ''up'')], up)], \<lambda>name ls ago. None)"

lemma down_samples:
  "rule_samples int_floats down_evaluator [([(''__name__'', ''up'')], up)] hist =
     (if up < 1 then [(down_rule, [], up)] else [])"
  by (simp add: rule_samples_def down_evaluator_def select_current_def copyLabelsWithout_def label_at_def
      matchesMatchers_def vectorCompare_def compareFloats_def int_floats_def ToLower_def ToLower_byte_def)

theorem alert_lifecycle_witness:
  "view ''Down'' (after_ticks int_floats down_evaluator [down_tick 12 0, down_tick 9 0, down_tick 5 0, down_tick 1 1])
     = (None, Some 5)
   \<and> view ''Down'' (after_ticks int_floats down_evaluator [down_tick 9 0, down_tick 5 0, down_tick 1 1]) = (Some 5, None)"
proof -
  have holds: "holds_at int_floats down_evaluator ''Down'' (down_tick now up) \<longleftrightarrow> up < 1" for now up
    by (cases "up < 1") (simp_all add: holds_at_def down_tick_def down_samples sample_key_def alertKey_def down_rule_def)
  show ?thesis
    using alert_lifecycle [of 5 "[down_tick 12 0, down_tick 9 0, down_tick 5 0, down_tick 1 1]" down_evaluator "''Down''" int_floats]
      alert_lifecycle [of 5 "[down_tick 9 0, down_tick 5 0, down_tick 1 1]" down_evaluator "''Down''" int_floats]
    by (simp add: holds_since_Cons holds) (simp add: holds_since_def down_tick_def down_evaluator_def down_rule_def)
qed

end
