(* ===== verification/Encodings.thy ===== *)
theory Encodings
  imports Mqc_Prelude
begin

text \<open>
  The notations of Go's standard library the sources read and write: decimal numbers
  (\<open>%d\<close>, \<open>strconv.Atoi\<close>), base64 and hexadecimal, and that reading gives back what was written.
\<close>

section \<open>Decimal notation\<close>

definition digit :: "nat \<Rightarrow> char" where
  "digit d = char_of (48 + d)"

fun show_nat :: "nat \<Rightarrow> string" where
  "show_nat n = (if n < 10 then [digit n] else show_nat (n div 10) @ [digit (n mod 10)])"

declare show_nat.simps [simp del]

definition is_digit :: "char \<Rightarrow> bool" where
  "is_digit c \<longleftrightarrow> (48::nat) \<le> of_char c \<and> of_char c \<le> (57::nat)"

definition digits_value :: "string \<Rightarrow> int" where
  "digits_value s = foldl (\<lambda>n c. 10 * n + (of_char c - 48)) 0 s"

text \<open>\<open>strconv.Atoi\<close>: an optional sign, at least one digit, no overflow of \<open>int\<close>.\<close>

definition Atoi :: "string \<Rightarrow> int option" where
  "Atoi s =
     (let neg = prefix ''-'' s; ds = (if prefix ''-'' s \<or> prefix ''+'' s then tl s else s);
          n = (if neg then - digits_value ds else digits_value ds)
      in if ds \<noteq> [] \<and> list_all is_digit ds \<and> - (2 ^ 63) \<le> n \<and> n < 2 ^ 63 then Some n else None)"

section \<open>Base64\<close>

definition b64_alphabet :: string where
  "b64_alphabet = ''ABCDEFGHIJKLMNOPQRSTUVWXYZabcdefghijklmnopqrstuvwxyz0123456789+/''"

definition b64_char :: "nat \<Rightarrow> char" where
  "b64_char v = b64_alphabet ! v"

definition b64_value :: "char \<Rightarrow> nat option" where
  "b64_value c = (case List.find (\<lambda>(x, v). x = c) (zip b64_alphabet [0..<64]) of None \<Rightarrow> None | Some (x, v) \<Rightarrow> Some v)"

text \<open>\<open>base64.RawStdEncoding\<close>: no padding.\<close>

fun b64_groups :: "nat list \<Rightarrow> nat list" where
  "b64_groups (a # b # c # bs) =
     [a div 4, a mod 4 * 16 + b div 16, b mod 16 * 4 + c div 64, c mod 64] @ b64_groups bs"
| "b64_groups [a, b] = [a div 4, a mod 4 * 16 + b div 16, b mod 16 * 4]"
| "b64_groups [a] = [a div 4, a mod 4 * 16]"
| "b64_groups [] = []"

definition EncodeToString :: "bytes \<Rightarrow> string" where
  "EncodeToString s = map b64_char (b64_groups (map of_char s))"

fun b64_bytes :: "nat list \<Rightarrow> nat list option" where
  "b64_bytes (x # y # z # w # vs) =
     (case b64_bytes vs of
        None \<Rightarrow> None
      | Some bs \<Rightarrow> Some ([x * 4 + y div 16, y mod 16 * 16 + z div 4, z mod 4 * 64 + w] @ bs))"
| "b64_bytes [x, y, z] = Some [x * 4 + y div 16, y mod 16 * 16 + z div 4]"
| "b64_bytes [x, y] = Some [x * 4 + y div 16]"
| "b64_bytes [x] = None"
| "b64_bytes [] = Some []"

text \<open>Go's decoder skips line breaks.\<close>

definition strip_newlines :: "string \<Rightarrow> string" where
  "strip_newlines s = filter (\<lambda>c. c \<noteq> CHR 0x0A \<and> c \<noteq> CHR 0x0D) s"

definition b64_decode :: "string \<Rightarrow> bytes option" where
  "b64_decode s =
     (let vs = map b64_value s
      in if None \<in> set vs then None else map_option (map char_of) (b64_bytes (map the vs)))"

definition RawStd_DecodeString :: "string \<Rightarrow> bytes option" where
  "RawStd_DecodeString s = b64_decode (strip_newlines s)"

text \<open>\<open>base64.StdEncoding\<close>: padded to groups of four.\<close>

definition Std_DecodeString :: "string \<Rightarrow> bytes option" where
  "Std_DecodeString s =
     (let t = strip_newlines s; body = takeWhile (\<lambda>c. c \<noteq> CHR ''='') t; pad = drop (length body) t
      in if length t mod 4 = 0 \<and> pad \<in> {[], ''='', ''==''} then b64_decode body else None)"

text \<open>\<open>hex.DecodeString\<close>.\<close>

definition hex_value :: "char \<Rightarrow> nat option" where
  "hex_value c =
     (let n = (of_char c :: nat)
      in if 48 \<le> n \<and> n \<le> 57 then Some (n - 48)
         else if 97 \<le> n \<and> n \<le> 102 then Some (n - 87)
         else if 65 \<le> n \<and> n \<le> 70 then Some (n - 55) else None)"

fun hex_decode :: "string \<Rightarrow> bytes option" where
  "hex_decode [] = Some []"
| "hex_decode [c] = None"
| "hex_decode (c # d # s) =
     (case (hex_value c, hex_value d, hex_decode s) of
        (Some x, Some y, Some bs) \<Rightarrow> Some (char_of (16 * x + y) # bs)
      | _ \<Rightarrow> None)"

section \<open>Notation and base64 read back\<close>

lemma of_char_digit: "d < 10 \<Longrightarrow> of_char (digit d) = (48 + d :: nat)"
  by (simp add: digit_def)

lemma of_char_digit_int: "d < 10 \<Longrightarrow> of_char (digit d) = (48 + int d)"
  using of_char_digit [of d] by (metis of_nat_add of_nat_numeral of_nat_of_char)

lemma is_digit_digit: "d < 10 \<Longrightarrow> is_digit (digit d)"
  by (simp add: is_digit_def of_char_digit)

lemma show_nat_digits: "list_all is_digit (show_nat n) \<and> show_nat n \<noteq> []"
  by (induction n rule: show_nat.induct) (subst (1 2) show_nat.simps, auto simp: is_digit_digit)

lemma digits_value_snoc: "digits_value (s @ [c]) = 10 * digits_value s + (of_char c - 48)"
  by (simp add: digits_value_def)

lemma digits_value_show_nat: "digits_value (show_nat n) = int n"
proof (induction n rule: show_nat.induct)
  case (1 n)
  show ?case
  proof (cases "n < 10")
    case True
    then show ?thesis by (subst show_nat.simps) (simp add: digits_value_def of_char_digit_int)
  next
    case False
    then have "digits_value (show_nat n) = 10 * int (n div 10) + int (n mod 10)"
      using 1 [OF False] by (subst show_nat.simps) (simp add: digits_value_snoc of_char_digit_int)
    then show ?thesis by (simp add: zdiv_int zmod_int)
  qed
qed

lemma show_nat_starts: "hd (show_nat n) \<noteq> CHR ''-'' \<and> hd (show_nat n) \<noteq> CHR ''+''"
proof -
  have "is_digit (hd (show_nat n))" using show_nat_digits [of n] by (cases "show_nat n") auto
  then show ?thesis by (auto simp: is_digit_def)
qed

lemma Atoi_show_nat: "int n < 2 ^ 63 \<Longrightarrow> Atoi (show_nat n) = Some (int n)"
  using show_nat_digits [of n] show_nat_starts [of n] digits_value_show_nat [of n]
  by (cases "show_nat n") (auto simp: Atoi_def)

lemma length_b64_alphabet [simp]: "length b64_alphabet = 64"
  by (simp add: b64_alphabet_def)

lemma b64_value_char: "v < 64 \<Longrightarrow> b64_value (b64_char v) = Some v"
proof -
  have "list_all (\<lambda>v. b64_value (b64_char v) = Some v) [0..<64]" by code_simp
  then show "v < 64 \<Longrightarrow> b64_value (b64_char v) = Some v" by (simp add: list_all_iff)
qed

lemma b64_char_not_newline: "v < 64 \<Longrightarrow> b64_char v \<noteq> CHR 0x0A \<and> b64_char v \<noteq> CHR 0x0D"
proof -
  have "list_all (\<lambda>v. b64_char v \<noteq> CHR 0x0A \<and> b64_char v \<noteq> CHR 0x0D) [0..<64]" by code_simp
  then show "v < 64 \<Longrightarrow> b64_char v \<noteq> CHR 0x0A \<and> b64_char v \<noteq> CHR 0x0D" by (simp add: list_all_iff)
qed

lemma b64_groups_bound: "\<forall>b\<in>set bs. b < 256 \<Longrightarrow> \<forall>v\<in>set (b64_groups bs). v < 64"
  by (induction bs rule: b64_groups.induct) auto

lemma b64_bytes_groups: "\<forall>b\<in>set bs. b < 256 \<Longrightarrow> b64_bytes (b64_groups bs) = Some bs"
  by (induction bs rule: b64_groups.induct) auto

lemma DecodeString_EncodeToString: "RawStd_DecodeString (EncodeToString s) = Some s"
proof -
  let ?bs = "map of_char s :: nat list"
  have small: "\<forall>b\<in>set ?bs. b < 256" by auto
  have v: "\<forall>v\<in>set (b64_groups ?bs). v < 64" using b64_groups_bound [OF small] .
  have nl: "strip_newlines (EncodeToString s) = EncodeToString s"
    using v b64_char_not_newline unfolding strip_newlines_def EncodeToString_def by (auto simp: filter_id_conv)
  have m: "map b64_value (EncodeToString s) = map Some (b64_groups ?bs)"
    using v b64_value_char by (auto simp: EncodeToString_def)
  show ?thesis
    unfolding RawStd_DecodeString_def b64_decode_def nl m
    using b64_bytes_groups [OF small] by (auto simp: comp_def)
qed

lemma str_index_char: "c \<notin> set s \<Longrightarrow> str_index [c] (s @ c # t) = Some (length s)"
  by (induction s) (auto simp: prefix_def)

lemma colon_not_in_show_nat: "CHR '':'' \<notin> set (show_nat n)"
  using show_nat_digits [of n] by (auto simp: list_all_iff is_digit_def)

end
