(* ===== verification/Secrets.thy ===== *)
theory Secrets
  imports Encodings
begin

text \<open>
  Envelope encryption (\<open>src/internal/secrets/secrets.go\<close>): the versioned key ring, the stored form
  \<open>enc:v{N}:base64(nonce, ciphertext)\<close>, and the operations \<open>Encrypt\<close>, \<open>Decrypt\<close>, \<open>Rewrap\<close>,
  \<open>AddKey\<close>. AES-GCM is an argument (the record \<open>aead\<close> of a key). The locale \<open>sealer\<close> is what the dead-letter service relies on.
\<close>

section \<open>The key ring\<close>

text \<open>
  A \<open>cipher.AEAD\<close> is its nonce size and the functions \<open>Seal\<close> and \<open>Open\<close> on a nonce and a text;
  \<open>new_gcm\<close> stands for \<open>aes.NewCipher\<close> and \<open>cipher.NewGCM\<close> on a 32-byte key.
\<close>

record aead =
  NonceSize :: nat
  Seal :: "bytes \<Rightarrow> bytes \<Rightarrow> bytes"
  Open :: "bytes \<Rightarrow> bytes \<Rightarrow> bytes option"

record service =
  svc_keys :: "(int \<times> aead) list"
  svc_current :: int

datatype secrets_error =
    AtLeastOneKey
  | VersionBelowOne int
  | KeyVersion int secrets_error
  | KeyNot32Bytes
  | ServiceIsNil
  | VersionExists int
  | RandomNonce
  | MalformedHeader
  | InvalidVersion
  | DecodeCiphertext
  | NoMasterKey
  | NoKeyFor int
  | CiphertextTooShort
  | OpenFailed
  | BadKeyEntry string
  | BadEntryVersion string
  | VersionTwice int

definition EncryptedPrefix :: string where
  "EncryptedPrefix = ''enc:''"

definition decodeKey :: "string \<Rightarrow> (secrets_error, bytes) result" where
  "decodeKey s =
     (case List.find (\<lambda>k. case k of None \<Rightarrow> False | Some b \<Rightarrow> length b = 32)
             [hex_decode s, Std_DecodeString s, RawStd_DecodeString s] of
        Some (Some k) \<Rightarrow> Ok k
      | _ \<Rightarrow> Err KeyNot32Bytes)"

definition buildAEAD :: "(bytes \<Rightarrow> aead) \<Rightarrow> string \<Rightarrow> (secrets_error, aead) result" where
  "buildAEAD new_gcm encoded = (case decodeKey encoded of Inl e \<Rightarrow> Err e | Inr k \<Rightarrow> Ok (new_gcm k))"

text \<open>\<open>s.keys[v] = aead\<close>, and the current version follows the highest.\<close>

definition install :: "int \<Rightarrow> aead \<Rightarrow> service \<Rightarrow> service" where
  "install v a s = \<lparr>svc_keys = AList.update v a (svc_keys s), svc_current = max v (svc_current s)\<rparr>"

text \<open>The loop of \<open>NewWithKeys\<close>, over the map's entries in the order Go visits them.\<close>

fun key_loop :: "(bytes \<Rightarrow> aead) \<Rightarrow> service \<Rightarrow> (int \<times> string) list \<Rightarrow> (secrets_error, service) result" where
  "key_loop new_gcm s [] = Ok s"
| "key_loop new_gcm s ((v, k) # encoded) =
     (if v < 1 then Err (VersionBelowOne v)
      else (case buildAEAD new_gcm k of
              Inl e \<Rightarrow> Err (KeyVersion v e)
            | Inr a \<Rightarrow> key_loop new_gcm (install v a s) encoded))"

definition NewWithKeys :: "(bytes \<Rightarrow> aead) \<Rightarrow> (int \<times> string) list \<Rightarrow> (secrets_error, service) result" where
  "NewWithKeys new_gcm encoded =
     (if encoded = [] then Err AtLeastOneKey else key_loop new_gcm \<lparr>svc_keys = [], svc_current = 0\<rparr> encoded)"

text \<open>\<open>MQC_MASTER_KEYS\<close>: entries \<open>vN=key\<close> separated by commas.\<close>

fun env_loop :: "(int \<times> string) list \<Rightarrow> string list \<Rightarrow> (secrets_error, (int \<times> string) list) result" where
  "env_loop keys [] = Ok keys"
| "env_loop keys (entry # entries) =
     (let e = TrimSpace entry in
      if e = [] then env_loop keys entries
      else (case str_index ''='' e of
              None \<Rightarrow> Err (BadKeyEntry e)
            | Some eq \<Rightarrow>
                (if eq \<le> 1 \<or> hd e \<noteq> CHR ''v'' then Err (BadKeyEntry e)
                 else (case Atoi (drop 1 (take eq e)) of
                         None \<Rightarrow> Err (BadEntryVersion e)
                       | Some v \<Rightarrow>
                           (if v < 1 then Err (BadEntryVersion e)
                            else if map_of keys v \<noteq> None then Err (VersionTwice v)
                            else env_loop (AList.update v (TrimSpace (drop (eq + 1) e)) keys) entries)))))"

definition parseMultiEnv :: "(bytes \<Rightarrow> aead) \<Rightarrow> string \<Rightarrow> (secrets_error, service) result" where
  "parseMultiEnv new_gcm s =
     (case env_loop [] (split_on (CHR '','') s) of Inl e \<Rightarrow> Err e | Inr keys \<Rightarrow> NewWithKeys new_gcm keys)"

text \<open>\<open>FromEnv\<close> on the values of \<open>MQC_MASTER_KEYS\<close> and \<open>MQC_MASTER_KEY\<close>; \<open>None\<close> is the nil service.\<close>

definition FromEnv :: "(bytes \<Rightarrow> aead) \<Rightarrow> string \<Rightarrow> string \<Rightarrow> (secrets_error, service option) result" where
  "FromEnv new_gcm keys_var key_var =
     (if TrimSpace keys_var \<noteq> [] then map_sum id Some (parseMultiEnv new_gcm (TrimSpace keys_var))
      else if TrimSpace key_var = [] then Ok None
      else map_sum id Some (NewWithKeys new_gcm [(1, TrimSpace key_var)]))"

definition sameAEADKey :: "aead \<Rightarrow> aead \<Rightarrow> bool" where
  "sameAEADKey a b \<longleftrightarrow>
     NonceSize a = NonceSize b \<and>
     (let nonce = replicate (NonceSize a) (CHR 0x00); pt = ''mqconnector-aead-equality-probe''
      in Seal a nonce pt = Seal b nonce pt)"

definition AddKey :: "(bytes \<Rightarrow> aead) \<Rightarrow> service option \<Rightarrow> int \<Rightarrow> string \<Rightarrow> (secrets_error, service option) result" where
  "AddKey new_gcm svc version encoded =
     (case svc of
        None \<Rightarrow> Err ServiceIsNil
      | Some s \<Rightarrow>
          (if version < 1 then Err (VersionBelowOne version)
           else (case buildAEAD new_gcm encoded of
                   Inl e \<Rightarrow> Err e
                 | Inr a \<Rightarrow>
                     (case map_of (svc_keys s) version of
                        Some existing \<Rightarrow>
                          (if sameAEADKey existing a then Ok svc else Err (VersionExists version))
                      | None \<Rightarrow> Ok (Some (install version a s))))))"

definition Versions :: "service option \<Rightarrow> int list" where
  "Versions svc = (case svc of None \<Rightarrow> [] | Some s \<Rightarrow> sort (map fst (svc_keys s)))"

definition Enabled :: "service option \<Rightarrow> bool" where
  "Enabled svc = (case svc of None \<Rightarrow> False | Some s \<Rightarrow> svc_keys s \<noteq> [])"

section \<open>Sealing and opening\<close>

text \<open>\<open>rnd n\<close> is what reading \<open>n\<close> bytes from \<open>rand.Reader\<close> gives.\<close>

definition seal_text :: "(nat \<Rightarrow> bytes option) \<Rightarrow> aead \<Rightarrow> int \<Rightarrow> string \<Rightarrow> (secrets_error, string) result" where
  "seal_text rnd a version plaintext =
     (case rnd (NonceSize a) of
        None \<Rightarrow> Err RandomNonce
      | Some nonce \<Rightarrow>
          Ok (''enc:v'' @ show_nat (nat version) @ '':'' @ EncodeToString (nonce @ Seal a nonce plaintext)))"

definition parseCiphertext :: "string \<Rightarrow> (secrets_error, int \<times> bytes) result" where
  "parseCiphertext value =
     (let body = TrimPrefix value EncryptedPrefix in
      case str_index '':'' body of
        None \<Rightarrow> Err MalformedHeader
      | Some i \<Rightarrow>
          (if i \<le> 1 \<or> hd body \<noteq> CHR ''v'' then Err MalformedHeader
           else (case Atoi (drop 1 (take i body)) of
                   None \<Rightarrow> Err InvalidVersion
                 | Some version \<Rightarrow>
                     (if version < 1 then Err InvalidVersion
                      else (case RawStd_DecodeString (drop (i + 1) body) of
                              None \<Rightarrow> Err DecodeCiphertext
                            | Some payload \<Rightarrow> Ok (version, payload))))))"

definition Encrypt :: "(nat \<Rightarrow> bytes option) \<Rightarrow> service option \<Rightarrow> string \<Rightarrow> (secrets_error, string) result" where
  "Encrypt rnd svc plaintext =
     (case svc of
        None \<Rightarrow> Ok plaintext
      | Some s \<Rightarrow>
          (if plaintext = [] then Ok []
           else if prefix EncryptedPrefix plaintext then Ok plaintext
           else (case map_of (svc_keys s) (svc_current s) of
                   None \<Rightarrow> Ok plaintext
                 | Some a \<Rightarrow> seal_text rnd a (svc_current s) plaintext)))"

definition Decrypt :: "service option \<Rightarrow> string \<Rightarrow> (secrets_error, string) result" where
  "Decrypt svc v =
     (if \<not> prefix EncryptedPrefix v then Ok v
      else (case svc of
              None \<Rightarrow> Err NoMasterKey
            | Some s \<Rightarrow>
                (case parseCiphertext v of
                   Inl e \<Rightarrow> Err e
                 | Inr (version, payload) \<Rightarrow>
                     (case map_of (svc_keys s) version of
                        None \<Rightarrow> Err (NoKeyFor version)
                      | Some a \<Rightarrow>
                          (if length payload < NonceSize a then Err CiphertextTooShort
                           else (case Open a (take (NonceSize a) payload) (drop (NonceSize a) payload) of
                                   None \<Rightarrow> Err OpenFailed
                                 | Some pt \<Rightarrow> Ok pt))))))"

definition Rewrap :: "(nat \<Rightarrow> bytes option) \<Rightarrow> service option \<Rightarrow> string \<Rightarrow> (secrets_error, string) result" where
  "Rewrap rnd svc v =
     (if v = [] then Ok []
      else if \<not> Enabled svc then Ok v
      else if \<not> prefix EncryptedPrefix v then Encrypt rnd svc v
      else (case parseCiphertext v of
              Inl e \<Rightarrow> Err e
            | Inr (version, _) \<Rightarrow>
                (if (case svc of None \<Rightarrow> False | Some s \<Rightarrow> version = svc_current s) then Ok v
                 else (case Decrypt svc v of
                         Inl e \<Rightarrow> Err e
                       | Inr plaintext \<Rightarrow> Encrypt rnd svc plaintext))))"

section \<open>The laws of the key ring\<close>

lemma parseCiphertext_sealed:
  assumes "1 \<le> v" "v < 2 ^ 63"
  shows "parseCiphertext (''enc:v'' @ show_nat (nat v) @ '':'' @ EncodeToString p) = Ok (v, p)"
proof -
  let ?n = "show_nat (nat v)"
  have body: "TrimPrefix (''enc:v'' @ ?n @ '':'' @ EncodeToString p) EncryptedPrefix = (CHR ''v'' # ?n) @ CHR '':'' # EncodeToString p"
    by (simp add: TrimPrefix_def EncryptedPrefix_def)
  have idx: "str_index '':'' ((CHR ''v'' # ?n) @ CHR '':'' # EncodeToString p) = Some (Suc (length ?n))"
    using str_index_char [of "CHR '':''" "CHR ''v'' # ?n"] colon_not_in_show_nat by simp
  have "Atoi ?n = Some v" using assms Atoi_show_nat [of "nat v"] by simp
  then show ?thesis
    unfolding parseCiphertext_def body Let_def idx
    using assms show_nat_digits [of "nat v"] by (simp add: DecodeString_EncodeToString)
qed

text \<open>What the code relies on of an AEAD: under the same nonce it opens what it sealed.\<close>

definition aead_ok :: "aead \<Rightarrow> bool" where
  "aead_ok a \<longleftrightarrow> (\<forall>nonce p. length nonce = NonceSize a \<longrightarrow> Open a nonce (Seal a nonce p) = Some p)"

text \<open>The invariant of the key ring.\<close>

definition service_inv :: "service \<Rightarrow> bool" where
  "service_inv s \<longleftrightarrow>
     map_wf (svc_keys s) \<and> (\<forall>(v, a)\<in>set (svc_keys s). 1 \<le> v \<and> v \<le> svc_current s \<and> v < 2 ^ 63 \<and> aead_ok a)
     \<and> (if svc_keys s = [] then svc_current s = 0 else map_of (svc_keys s) (svc_current s) \<noteq> None)"

lemma service_invD:
  assumes "service_inv s" "map_of (svc_keys s) v = Some a"
  shows "1 \<le> v" "v \<le> svc_current s" "v < 2 ^ 63" "aead_ok a"
  using assms map_of_SomeD [OF assms(2)] by (auto simp: service_inv_def)

lemma install_inv:
  assumes "service_inv s" "1 \<le> v" "v < 2 ^ 63" "aead_ok a"
  shows "service_inv (install v a s)"
proof -
  have "w \<le> max v (svc_current s)" if "(w, b) \<in> set (AList.update v a (svc_keys s))" for w b
    using that assms(1) set_update_subset [of v a "svc_keys s"] by (fastforce simp: service_inv_def)
  moreover have "1 \<le> w \<and> w < 2 ^ 63 \<and> aead_ok b" if "(w, b) \<in> set (AList.update v a (svc_keys s))" for w b
    using that assms set_update_subset [of v a "svc_keys s"] by (fastforce simp: service_inv_def)
  moreover have "map_of (AList.update v a (svc_keys s)) (max v (svc_current s)) \<noteq> None"
    using assms(1,2) by (auto simp: service_inv_def max_def map_of_update split: if_splits)
  ultimately show ?thesis
    using assms(1) by (auto simp: service_inv_def install_def map_wf_update)
qed

text \<open>The key ring only grows: every version keeps its key.\<close>

definition keeps_keys :: "service option \<Rightarrow> service option \<Rightarrow> bool" where
  "keeps_keys svc svc' \<longleftrightarrow>
     (\<forall>s. svc = Some s \<longrightarrow> (\<exists>s'. svc' = Some s' \<and> service_inv s' \<and> map_of (svc_keys s) \<subseteq>\<^sub>m map_of (svc_keys s')))"

definition service_ok :: "service option \<Rightarrow> bool" where
  "service_ok svc \<longleftrightarrow> (\<forall>s. svc = Some s \<longrightarrow> service_inv s)"

definition rnd_ok :: "(nat \<Rightarrow> bytes option) \<Rightarrow> bool" where
  "rnd_ok rnd \<longleftrightarrow> (\<forall>n b. rnd n = Some b \<longrightarrow> length b = n)"

text \<open>The texts \<open>Encrypt\<close> does seal.\<close>

definition sealable :: "string \<Rightarrow> bool" where
  "sealable p \<longleftrightarrow> \<not> prefix EncryptedPrefix p"

lemma Decrypt_plain: "sealable p \<Longrightarrow> Decrypt svc p = Ok p"
  by (simp add: Decrypt_def sealable_def)

lemma Encrypt_cases:
  assumes "Encrypt rnd svc p = Ok c" "sealable p"
  obtains "c = p"
  | s a nonce where "svc = Some s" "map_of (svc_keys s) (svc_current s) = Some a" "rnd (NonceSize a) = Some nonce"
      "c = ''enc:v'' @ show_nat (nat (svc_current s)) @ '':'' @ EncodeToString (nonce @ Seal a nonce p)"
  using assms by (auto simp: Encrypt_def sealable_def seal_text_def split: option.splits if_splits)

lemma Decrypt_Encrypt:
  assumes "service_ok svc" "rnd_ok rnd" "sealable p" "Encrypt rnd svc p = Ok c" "keeps_keys svc svc'"
  shows "Decrypt svc' c = Ok p"
  using assms(4,3)
proof (cases rule: Encrypt_cases)
  case 1
  then show ?thesis using Decrypt_plain [OF assms(3)] by simp
next
  case (2 s a nonce)
  have inv: "service_inv s" using assms(1) 2 by (simp add: service_ok_def)
  obtain s' where s': "svc' = Some s'" "map_of (svc_keys s') (svc_current s) = Some a"
    using assms(5) 2(1,2) unfolding keeps_keys_def by (metis domI map_le_def)
  have "parseCiphertext c = Ok (svc_current s, nonce @ Seal a nonce p)"
    using parseCiphertext_sealed service_invD(1,3) [OF inv 2(2)] 2(4) by simp
  moreover have "length nonce = NonceSize a" using assms(2) 2(3) by (simp add: rnd_ok_def)
  moreover have "prefix EncryptedPrefix c" using 2(4) by (simp add: EncryptedPrefix_def)
  ultimately show ?thesis
    using s' service_invD(4) [OF inv 2(2)] by (simp add: Decrypt_def aead_ok_def)
qed

lemma keeps_keys_refl: "service_ok svc \<Longrightarrow> keeps_keys svc svc"
  by (simp add: keeps_keys_def service_ok_def)

lemma keeps_keys_trans: "keeps_keys a b \<Longrightarrow> keeps_keys b c \<Longrightarrow> keeps_keys a c"
  unfolding keeps_keys_def by (metis map_le_trans)

lemma AddKey_keeps:
  assumes "AddKey new_gcm svc v k = Ok svc'" "service_ok svc" "\<forall>k. aead_ok (new_gcm k)" "v < 2 ^ 63"
  shows "keeps_keys svc svc'"
proof -
  obtain s where s: "svc = Some s" using assms(1) by (auto simp: AddKey_def split: option.splits)
  have inv: "service_inv s" using assms(2) s by (simp add: service_ok_def)
  consider "svc' = svc" | a where "1 \<le> v" "map_of (svc_keys s) v = None" "aead_ok a" "svc' = Some (install v a s)"
    using assms(1,3) s by (auto simp: AddKey_def buildAEAD_def split: option.splits if_splits sum.splits)
  then show ?thesis
  proof cases
    case 1
    then show ?thesis using keeps_keys_refl assms(2) by simp
  next
    case 2
    then show ?thesis
      using s install_inv [OF inv 2(1) assms(4) 2(3)]
      by (auto simp: keeps_keys_def install_def map_le_def map_of_update)
  qed
qed

lemma keeps_keys_ok: "service_ok svc \<Longrightarrow> keeps_keys svc svc' \<Longrightarrow> svc \<noteq> None \<Longrightarrow> service_ok svc'"
  by (auto simp: keeps_keys_def service_ok_def)

lemma key_loop_inv:
  assumes "key_loop new_gcm s encoded = Ok s'" "service_inv s" "\<forall>k. aead_ok (new_gcm k)" "\<forall>(v, k)\<in>set encoded. v < 2 ^ 63"
  shows "service_inv s' \<and> (encoded \<noteq> [] \<longrightarrow> svc_keys s' \<noteq> [])"
  using assms
proof (induction new_gcm s encoded rule: key_loop.induct)
  case (2 new_gcm s v k encoded)
  then obtain a where a: "1 \<le> v" "buildAEAD new_gcm k = Ok a" "key_loop new_gcm (install v a s) encoded = Ok s'"
    by (auto split: if_splits sum.splits)
  have "aead_ok a" using a(2) 2(4) by (auto simp: buildAEAD_def split: sum.splits)
  then have inv: "service_inv (install v a s)" using install_inv [OF 2(3) a(1)] 2(5) by simp
  have "svc_keys s' \<noteq> []"
  proof (cases encoded)
    case Nil
    then show ?thesis using a(3) by (auto simp: install_def dest: arg_cong [where f = set] simp: update_nonempty)
  qed (use 2 a inv in auto)
  with 2(1) [OF _ a(2,3) inv 2(4)] 2(5) a(1) show ?case by simp
qed simp

lemma NewWithKeys_inv:
  assumes "NewWithKeys new_gcm encoded = Ok s" "\<forall>k. aead_ok (new_gcm k)" "\<forall>(v, k)\<in>set encoded. v < 2 ^ 63"
  shows "service_inv s \<and> svc_keys s \<noteq> []"
  using key_loop_inv [of new_gcm "\<lparr>svc_keys = [], svc_current = 0\<rparr>" encoded s] assms
  by (auto simp: NewWithKeys_def service_inv_def split: if_splits)

text \<open>A history of \<open>AddKey\<close> calls; a refused one changes nothing.\<close>

fun rotations :: "(bytes \<Rightarrow> aead) \<Rightarrow> service option \<Rightarrow> (int \<times> string) list \<Rightarrow> service option" where
  "rotations new_gcm svc [] = svc"
| "rotations new_gcm svc ((v, k) # ks) =
     rotations new_gcm (case AddKey new_gcm svc v k of Inl e \<Rightarrow> svc | Inr svc' \<Rightarrow> svc') ks"

lemma rotations_keep:
  assumes "service_ok svc" "\<forall>k. aead_ok (new_gcm k)" "\<forall>(v, k)\<in>set ks. v < 2 ^ 63"
  shows "keeps_keys svc (rotations new_gcm svc ks)"
  using assms
proof (induction new_gcm svc ks rule: rotations.induct)
  case (1 new_gcm svc)
  then show ?case by (simp add: keeps_keys_refl)
next
  case (2 new_gcm svc v k ks)
  let ?next = "case AddKey new_gcm svc v k of Inl e \<Rightarrow> svc | Inr svc' \<Rightarrow> svc'"
  have step: "keeps_keys svc ?next"
    using AddKey_keeps 2(2-4) keeps_keys_refl by (auto split: sum.split)
  have ok: "service_ok ?next"
    using 2(2) step by (cases svc) (auto simp: AddKey_def keeps_keys_def service_ok_def)
  show ?case using keeps_keys_trans [OF step] 2(1) [OF ok 2(3)] 2(4) by simp
qed

lemma map_le_empty_keys: "map_of m \<subseteq>\<^sub>m (\<lambda>x. None) \<Longrightarrow> m = []"
  by (cases m) (auto simp: map_le_def)

lemma rotations_enabled:
  "keeps_keys svc svc' \<Longrightarrow> Enabled svc \<Longrightarrow> Enabled svc'"
  by (cases svc; cases svc') (auto simp: keeps_keys_def Enabled_def dest: map_le_empty_keys)

lemma Encrypt_version:
  assumes "Encrypt rnd (Some s) p = Ok c" "service_inv s" "svc_keys s \<noteq> []" "sealable p" "p \<noteq> []"
  shows "prefix EncryptedPrefix c \<and> (\<exists>body. parseCiphertext c = Ok (svc_current s, body))"
proof -
  obtain a where a: "map_of (svc_keys s) (svc_current s) = Some a" using assms(2,3) by (auto simp: service_inv_def)
  then obtain nonce where "c = ''enc:v'' @ show_nat (nat (svc_current s)) @ '':'' @ EncodeToString (nonce @ Seal a nonce p)"
    using assms(1,4,5) by (auto simp: Encrypt_def sealable_def seal_text_def split: option.splits)
  then show ?thesis
    using parseCiphertext_sealed service_invD(1,3) [OF assms(2) a] by (auto simp: EncryptedPrefix_def)
qed

section \<open>The interface to the dead-letter service\<close>

text \<open>
  The \<open>Sealer\<close> of \<open>src/internal/dlq/dlq.go\<close>: what was sealed under a key ring opens under every
  later one, and texts it would seal pass through \<open>decrypt\<close> unchanged.
\<close>

locale sealer =
  fixes ok :: "'s \<Rightarrow> bool" and later :: "'s \<Rightarrow> 's \<Rightarrow> bool" and seals :: "string \<Rightarrow> bool"
    and encrypt :: "(nat \<Rightarrow> bytes option) \<Rightarrow> 's \<Rightarrow> string \<Rightarrow> (secrets_error, string) result"
    and decrypt :: "'s \<Rightarrow> string \<Rightarrow> (secrets_error, string) result"
  assumes decrypt_encrypt:
    "ok s \<Longrightarrow> rnd_ok rnd \<Longrightarrow> seals p \<Longrightarrow> encrypt rnd s p = Ok c \<Longrightarrow> later s s' \<Longrightarrow> decrypt s' c = Ok p"
  and decrypt_plain: "seals p \<Longrightarrow> decrypt s p = Ok p"

interpretation ring: sealer service_ok keeps_keys sealable Encrypt Decrypt
  by unfold_locales (auto intro: Decrypt_Encrypt Decrypt_plain)

text \<open>
  C26. A text sealed under a key ring is really stored as ciphertext, opens to itself after any
  later key rotations, and rewrapping it gives a ciphertext of the then current version that opens
  to the same text.
\<close>

theorem secrets_survive_rotation:
  assumes "\<forall>k. aead_ok (new_gcm k)" "rnd_ok rnd" "rnd_ok rnd'"
    and "NewWithKeys new_gcm encoded = Ok s" "\<forall>(v, k)\<in>set encoded \<union> set early \<union> set late. v < 2 ^ 63"
    and "sealable p" "p \<noteq> []" "Encrypt rnd (rotations new_gcm (Some s) early) p = Ok c"
    and "svc' = rotations new_gcm (rotations new_gcm (Some s) early) late"
  shows "prefix EncryptedPrefix c \<and> Decrypt svc' c = Ok p \<and>
    (\<forall>c'. Rewrap rnd' svc' c = Ok c' \<longrightarrow>
       Decrypt svc' c' = Ok p \<and> (\<exists>body. parseCiphertext c' = Ok (svc_current (the svc'), body)))"
proof -
  let ?svc = "rotations new_gcm (Some s) early"
  have s: "service_inv s" "svc_keys s \<noteq> []" using NewWithKeys_inv [OF assms(4,1)] assms(5) by auto
  have k1: "keeps_keys (Some s) ?svc"
    using rotations_keep [OF _ assms(1), of "Some s" early] s(1) assms(5) by (auto simp: service_ok_def)
  have ok1: "service_ok ?svc" using keeps_keys_ok [OF _ k1] s(1) by (simp add: service_ok_def)
  have k2: "keeps_keys ?svc svc'" using rotations_keep [OF ok1 assms(1)] assms(5,9) by auto
  obtain s1 where s1: "?svc = Some s1" "service_inv s1" "svc_keys s1 \<noteq> []"
    using k1 s rotations_enabled [OF k1] by (auto simp: keeps_keys_def Enabled_def)
  obtain s2 where s2: "svc' = Some s2" "service_inv s2" "svc_keys s2 \<noteq> []"
    using k2 s1 rotations_enabled [OF k2] by (auto simp: keeps_keys_def Enabled_def)
  have c: "prefix EncryptedPrefix c" using Encrypt_version assms(6-8) s1 by metis
  have d: "Decrypt svc' c = Ok p" using ring.decrypt_encrypt [OF ok1 assms(2,6,8) k2] .
  have ok2: "service_ok svc'" using s2 by (simp add: service_ok_def)
  have "Decrypt svc' c' = Ok p \<and> (\<exists>body. parseCiphertext c' = Ok (svc_current (the svc'), body))"
    if r: "Rewrap rnd' svc' c = Ok c'" for c'
  proof (cases "c' = c \<and> (\<exists>body. parseCiphertext c' = Ok (svc_current (the svc'), body))")
    case False
    then have e: "Encrypt rnd' svc' p = Ok c'"
      using r c d s2 by (auto simp: Rewrap_def Enabled_def EncryptedPrefix_def split: sum.splits if_splits)
    then show ?thesis
      using ring.decrypt_encrypt [OF ok2 assms(3,6) e keeps_keys_refl [OF ok2]] Encrypt_version s2 assms(6,7)
      by simp
  qed (use d in auto)
  with c d show ?thesis by blast
qed

text \<open>A key ring for the examples: the cipher appends its nonce.\<close>

definition demo_gcm :: "bytes \<Rightarrow> aead" where
  "demo_gcm key =
     \<lparr>NonceSize = 12, Seal = (\<lambda>nonce p. p @ nonce),
      Open = (\<lambda>nonce c. if suffix nonce c then Some (take (length c - length nonce) c) else None)\<rparr>"

lemma demo_gcm_ok: "aead_ok (demo_gcm key)"
  by (simp add: aead_ok_def demo_gcm_def suffix_def)

definition demo_service :: service where
  "demo_service = \<lparr>svc_keys = [(1, demo_gcm (replicate 32 (CHR 0x00)))], svc_current = 1\<rparr>"

lemma demo_keys:
  "decodeKey (replicate 64 (CHR ''0'')) = Ok (replicate 32 (CHR 0x00))"
  by code_simp

lemma demo_service_new: "NewWithKeys demo_gcm [(1, replicate 64 (CHR ''0''))] = Ok demo_service"
  by (simp add: NewWithKeys_def buildAEAD_def demo_keys install_def demo_service_def)

theorem secrets_survive_rotation_witness:
  "\<exists>c. Encrypt (\<lambda>n. Some (replicate n (CHR ''n''))) (Some demo_service) ''pw'' = Ok c \<and> prefix EncryptedPrefix c
     \<and> Decrypt (rotations demo_gcm (Some demo_service) [(2, replicate 64 (CHR ''1''))]) c = Ok ''pw''"
proof -
  let ?rnd = "\<lambda>n. Some (replicate n (CHR ''n''))"
  obtain c where c: "Encrypt ?rnd (Some demo_service) ''pw'' = Ok c"
    by (simp add: Encrypt_def demo_service_def seal_text_def EncryptedPrefix_def)
  have rnd: "rnd_ok ?rnd" by (simp add: rnd_ok_def)
  show ?thesis
    using secrets_survive_rotation [OF allI [OF demo_gcm_ok] rnd rnd demo_service_new, of "[]" "[(2, replicate 64 (CHR ''1''))]" "''pw''"] c
    by (simp add: sealable_def EncryptedPrefix_def del: rotations.simps(2))
qed

end
