(* ===== verification/Fingerprint.thy ===== *)
theory Fingerprint
  imports Encodings "HOL-Library.Multiset"
begin

text \<open>
  Error fingerprints of dead-lettered messages (\<open>src/internal/dlq/cluster/fingerprint.go\<close>): the template
  of an error text and the SimHash of its tokens over FNV-1a. Replacing by a regular expression is
  the argument \<open>re_replace\<close>; the expressions are the source's.
\<close>

unbundle bit_operations_syntax

section \<open>Templates\<close>

record fingerprint_result =
  fp_Fingerprint :: string
  fp_Template :: string
  fp_Tokens :: "string list"

text \<open>The regular expressions are written with a tilde for the backslash.\<close>

definition rx :: "string \<Rightarrow> string" where
  "rx s = map (\<lambda>c. if c = CHR ''~'' then CHR 0x5C else c) s"

definition substitutions :: "(string \<times> string) list" where
  "substitutions =
     [(''[0-9a-f]{8}-[0-9a-f]{4}-[0-9a-f]{4}-[0-9a-f]{4}-[0-9a-f]{12}'', ''<uuid>''),
      (rx ''~d{4}-~d{2}-~d{2}t~d{2}:~d{2}:~d{2}(?:~.~d+)?(?:z|[+-]~d{2}:?~d{2})?'', ''<time>''),
      (rx ''[a-z0-9._-]+@[a-z0-9._-]+~.[a-z]{2,}'', ''<email>''),
      (rx ''~b~d{1,3}(~.~d{1,3}){3}(:~d+)?'', ''<host>''),
      (''(?:[a-z]:)?/[a-z0-9._/-]{3,}'', ''<path>''),
      (rx ''~b[a-z_][a-z0-9_]*(?:~.[a-z_][a-z0-9_]*)+~b'', ''<field>''),
      (rx ''~b~d{3,}~b'', ''<int>''),
      ([CHR 0x22] @ ''[^'' @ [CHR 0x22] @ '']*'' @ [CHR 0x22], ''<str>''),
      ([CHR 0x27] @ ''[^'' @ [CHR 0x27] @ '']*'' @ [CHR 0x27], ''<str>'')]"

text \<open>\<open>strings.Fields\<close>: the pieces between runs of white space.\<close>

fun span_field :: "bytes \<Rightarrow> bytes \<times> bytes" where
  "span_field [] = ([], [])"
| "span_field (c # s) =
     (if \<exists>r\<in>set space_runes. prefix r (c # s) then ([], c # s)
      else (let (w, rest) = span_field s in (c # w, rest)))"

lemma span_field_length: "length (snd (span_field s)) \<le> length s"
  by (induction s) (auto simp: Let_def split: prod.splits)

lemma trim_front_length: "length (trim_front rs s) \<le> length s"
  using trim_front_suffix by (rule suffix_length_le)

lemma trim_front_stops:
  assumes "trim_front rs s = c # t" "[] \<notin> set rs"
  shows "\<forall>r\<in>set rs. \<not> prefix r (c # t)"
  using assms
proof (induction rs s rule: trim_front.induct)
  case (1 rs s)
  show ?case
  proof (cases "List.find (\<lambda>r. r \<noteq> [] \<and> prefix r s) rs")
    case None
    then have "trim_front rs s = s" by (subst trim_front.simps) simp
    with None 1(2,3) show ?thesis by (auto simp: find_None_iff)
  next
    case (Some r)
    then have "trim_front rs s = trim_front rs (drop (length r) s)" by (subst trim_front.simps) simp
    with 1 Some show ?thesis by simp
  qed
qed

lemma space_runes_nonempty: "[] \<notin> set space_runes"
  by (simp add: space_runes_def)

function Fields :: "bytes \<Rightarrow> bytes list" where
  "Fields s =
     (case trim_front space_runes s of
        [] \<Rightarrow> []
      | c # t \<Rightarrow> (let (w, rest) = span_field (c # t) in w # Fields rest))"
  by pat_completeness auto
termination
proof (relation "measure length")
  fix s c t x w rest
  assume a: "trim_front space_runes s = c # t" "x = span_field (c # t)" "(w, rest) = x"
  have "\<not> (\<exists>r\<in>set space_runes. prefix r (c # t))" using trim_front_stops [OF a(1) space_runes_nonempty] by blast
  then have "length rest \<le> length t"
    using a(2,3) span_field_length [of t] by (auto simp: Let_def split: prod.splits)
  also have "\<dots> < length s" using trim_front_length [of space_runes s] a(1) by simp
  finally show "(rest, s) \<in> measure length" by simp
qed simp

declare Fields.simps [simp del]

definition tokenise :: "(string \<Rightarrow> string \<Rightarrow> string \<Rightarrow> string) \<Rightarrow> string \<Rightarrow> string \<times> string list" where
  "tokenise re_replace errStr =
     (let s = TrimSpace (ToLower errStr) in
      if s = [] then ([], [])
      else (let s = re_replace (rx ''~s+'') s '' '';
                s = foldl (\<lambda>s (re, placeholder). re_replace re s placeholder) s substitutions;
                s = TrimSpace (re_replace (rx ''~s+'') s '' '')
            in if s = [] then ([], []) else (s, Fields s)))"

section \<open>SimHash\<close>

text \<open>\<open>hash/fnv\<close>'s 64-bit FNV-1a.\<close>

definition fnv1a :: "bytes \<Rightarrow> 64 word" where
  "fnv1a s = foldl (\<lambda>h c. (h XOR word_of_nat (of_char c)) * 1099511628211) 14695981039346656037 s"

definition add_token :: "int list \<Rightarrow> string \<Rightarrow> int list" where
  "add_token buckets t =
     (let sum = fnv1a t in map (\<lambda>(i, b). if bit sum i then b + 1 else b - 1) (List.enumerate 0 buckets))"

definition simhash :: "string list \<Rightarrow> 64 word" where
  "simhash tokens =
     (let buckets = foldl add_token (replicate 64 0) tokens
      in foldl (\<lambda>out i. if 0 \<le> buckets ! i then out OR push_bit i 1 else out) 0 [0..<64])"

text \<open>\<open>%016x\<close>.\<close>

definition hex16 :: "64 word \<Rightarrow> string" where
  "hex16 w = map (\<lambda>i. ''0123456789abcdef'' ! unat (drop_bit (60 - 4 * i) w AND 15)) [0..<16]"

definition simhashHex :: "string list \<Rightarrow> string" where
  "simhashHex tokens = (if tokens = [] then [] else hex16 (simhash tokens))"

definition FingerprintWithStage :: "(string \<Rightarrow> string \<Rightarrow> string \<Rightarrow> string) \<Rightarrow> string \<Rightarrow> string \<Rightarrow> fingerprint_result" where
  "FingerprintWithStage re_replace errStr stageName =
     (let (template, tokens) = tokenise re_replace errStr in
      if template = [] then \<lparr>fp_Fingerprint = [], fp_Template = [], fp_Tokens = []\<rparr>
      else if stageName = [] then
        \<lparr>fp_Fingerprint = simhashHex tokens, fp_Template = template, fp_Tokens = tokens\<rparr>
      else (let stageToken = ''[stage:'' @ ToLower (TrimSpace stageName) @ '']''
            in \<lparr>fp_Fingerprint = simhashHex (stageToken # tokens), fp_Template = stageToken @ '' '' @ template,
                fp_Tokens = stageToken # tokens\<rparr>))"

section \<open>What the hash depends on\<close>

lemma length_buckets: "length (foldl add_token bs ts) = length bs"
  by (induction ts arbitrary: bs) (simp_all add: add_token_def Let_def)

lemma bucket_votes:
  "i < length bs \<Longrightarrow> foldl add_token bs ts ! i = bs ! i + (\<Sum>t\<leftarrow>ts. if bit (fnv1a t) i then 1 else -1)"
  by (induction ts arbitrary: bs) (simp_all add: add_token_def Let_def nth_enumerate_eq)

text \<open>The fingerprint is a function of the multiset of tokens: their order does not matter.\<close>

lemma simhashHex_mset: "mset ts = mset ts' \<Longrightarrow> simhashHex ts = simhashHex ts'"
proof -
  assume eq: "mset ts = mset ts'"
  have "foldl add_token (replicate 64 0) ts ! i = foldl add_token (replicate 64 0) ts' ! i" if "i < 64" for i
    using that by (simp add: bucket_votes sum_mset_sum_list [symmetric] mset_map eq del: mset_map) (simp add: eq)
  then have "foldl add_token (replicate 64 0) ts = foldl add_token (replicate 64 0) ts'"
    by (intro nth_equalityI) (simp_all add: length_buckets)
  moreover have "ts = [] \<longleftrightarrow> ts' = []" using eq by auto
  ultimately show ?thesis by (simp add: simhashHex_def simhash_def)
qed

lemma length_simhashHex: "length (simhashHex ts) = (if ts = [] then 0 else 16)"
  by (simp add: simhashHex_def hex16_def)

end
