(* ===== verification/Dlq.thy ===== *)
theory Dlq
  imports Secrets Redact Fingerprint
begin

text \<open>
  The dead-letter queue service (\<open>src/internal/dlq/dlq.go\<close>, \<open>retry.go\<close>, \<open>retention.go\<close>) over the rows of
  its table (\<open>src/internal/storage/dlq.go\<close>): \<open>Push\<close> with retry policy, redaction and
  fingerprint, \<open>Retry\<close>, \<open>GetRaw\<close>, the bulk operations, the retry reaper and the
  retention sweep. The answers of the other repositories, the brokers and the clock are arguments.
\<close>

section \<open>The table\<close>

record dlq_row =
  row_ID :: string
  row_TenantID :: string
  row_PipelineID :: string
  row_SourceQueue :: string
  row_OriginalMsg :: bytes
  row_RawMsg :: bytes
  row_Redacted :: bool
  row_ErrorReason :: string
  row_RetryCount :: int
  row_LastRetryAt :: "time option"
  row_NextRetryAt :: "time option"
  row_ErrorFingerprint :: string
  row_ErrorTemplate :: string
  row_FailingStageName :: string
  row_FailingStageIndex :: nat
  row_CreatedAt :: time

type_synonym dlq_table = "dlq_row list"

datatype dlq_error =
    ErrTenantRequired
  | ErrNotFound
  | ErrMaxRetries
  | ErrRawNotAvailable
  | ErrSealerUnavailable
  | NoPipelineID string
  | PipelineLookup dlq_error
  | DestinationLookup dlq_error
  | PoolGet string
  | DecryptRaw secrets_error
  | SendFailed string
  | DbError string
  | ContextDone

definition row_is :: "string \<Rightarrow> string \<Rightarrow> dlq_row \<Rightarrow> bool" where
  "row_is tenant rid r \<longleftrightarrow> row_ID r = rid \<and> row_TenantID r = tenant"

text \<open>\<open>Insert\<close>: \<open>uuid\<close> is the fresh id, \<open>db\<close> the error of the statement; ids are the primary key.\<close>

definition dlq_Insert ::
  "string option \<Rightarrow> string \<Rightarrow> time \<Rightarrow> string \<Rightarrow> dlq_row \<Rightarrow> dlq_table \<Rightarrow> (dlq_error, dlq_table) result" where
  "dlq_Insert db uuid now tenantID e t =
     (if tenantID = [] then Err ErrTenantRequired
      else (let e' = e\<lparr>row_ID := if row_ID e = [] then uuid else row_ID e, row_TenantID := tenantID, row_CreatedAt := now\<rparr>
            in case db of
                 Some msg \<Rightarrow> Err (DbError msg)
               | None \<Rightarrow> (if row_ID e' \<in> row_ID ` set t then Err (DbError ''UNIQUE'') else Ok (t @ [e']))))"

definition dlq_Get :: "string \<Rightarrow> string \<Rightarrow> dlq_table \<Rightarrow> (dlq_error, dlq_row) result" where
  "dlq_Get tenantID rid t =
     (if tenantID = [] then Err ErrTenantRequired
      else (case List.find (row_is tenantID rid) t of None \<Rightarrow> Err ErrNotFound | Some r \<Rightarrow> Ok r))"

text \<open>The \<open>UPDATE\<close> statements, with the error of the statement; no matching row is \<open>ErrNotFound\<close>.\<close>

definition dlq_update ::
  "string option \<Rightarrow> string \<Rightarrow> string \<Rightarrow> (dlq_row \<Rightarrow> dlq_row) \<Rightarrow> dlq_table \<Rightarrow> dlq_error option \<times> dlq_table" where
  "dlq_update db tenantID rid f t =
     (if tenantID = [] then (Some ErrTenantRequired, t)
      else (case db of
              Some msg \<Rightarrow> (Some (DbError msg), t)
            | None \<Rightarrow>
                (if \<exists>r\<in>set t. row_is tenantID rid r
                 then (None, map (\<lambda>r. if row_is tenantID rid r then f r else r) t)
                 else (Some ErrNotFound, t))))"

definition IncrementRetry ::
  "string option \<Rightarrow> time \<Rightarrow> string \<Rightarrow> string \<Rightarrow> dlq_table \<Rightarrow> dlq_error option \<times> dlq_table" where
  "IncrementRetry db now tenantID rid t =
     dlq_update db tenantID rid (\<lambda>r. r\<lparr>row_RetryCount := row_RetryCount r + 1, row_LastRetryAt := Some now\<rparr>) t"

definition ScheduleRetry ::
  "string option \<Rightarrow> string \<Rightarrow> string \<Rightarrow> time option \<Rightarrow> dlq_table \<Rightarrow> dlq_error option \<times> dlq_table" where
  "ScheduleRetry db tenantID rid nxt t = dlq_update db tenantID rid (\<lambda>r. r\<lparr>row_NextRetryAt := nxt\<rparr>) t"

definition dlq_Delete :: "string option \<Rightarrow> string \<Rightarrow> string \<Rightarrow> dlq_table \<Rightarrow> dlq_error option \<times> dlq_table" where
  "dlq_Delete db tenantID rid t =
     (if tenantID = [] then (Some ErrTenantRequired, t)
      else (case db of
              Some msg \<Rightarrow> (Some (DbError msg), t)
            | None \<Rightarrow> (if \<exists>r\<in>set t. row_is tenantID rid r then (None, filter (\<lambda>r. \<not> row_is tenantID rid r) t)
                       else (Some ErrNotFound, t))))"

text \<open>\<open>ListDue\<close>: the rows due, earliest first, at most \<open>limit\<close>.\<close>

definition ListDue :: "time \<Rightarrow> int \<Rightarrow> dlq_table \<Rightarrow> dlq_row list" where
  "ListDue now limit t =
     take (nat (if limit \<le> 0 then 50 else limit))
       (sort_key (\<lambda>r. the (row_NextRetryAt r))
          (filter (\<lambda>r. case row_NextRetryAt r of None \<Rightarrow> False | Some n \<Rightarrow> n \<le> now) t))"

record DLQFilter =
  flt_PipelineID :: string
  flt_Error :: string
  flt_Since :: "time option"
  flt_Until :: "time option"

text \<open>The \<open>WHERE\<close> clause; \<open>like p s\<close> is SQL's \<open>LOWER(s) LIKE LOWER(p)\<close>.\<close>

definition matches_filter :: "(string \<Rightarrow> string \<Rightarrow> bool) \<Rightarrow> string \<Rightarrow> DLQFilter \<Rightarrow> dlq_row \<Rightarrow> bool" where
  "matches_filter like tenantID f r \<longleftrightarrow>
     row_TenantID r = tenantID
     \<and> (flt_PipelineID f = [] \<or> row_PipelineID r = flt_PipelineID f)
     \<and> (flt_Error f = [] \<or> like (''%'' @ flt_Error f @ ''%'') (row_ErrorReason r))
     \<and> (case flt_Since f of None \<Rightarrow> True | Some s \<Rightarrow> s \<le> row_CreatedAt r)
     \<and> (case flt_Until f of None \<Rightarrow> True | Some u \<Rightarrow> row_CreatedAt r < u)"

definition newest_first :: "dlq_row list \<Rightarrow> dlq_row list" where
  "newest_first rs = sort_key (\<lambda>r. - row_CreatedAt r) rs"

definition IDsByFilter ::
  "(string \<Rightarrow> string \<Rightarrow> bool) \<Rightarrow> string \<Rightarrow> DLQFilter \<Rightarrow> int \<Rightarrow> dlq_table \<Rightarrow> (dlq_error, string list) result" where
  "IDsByFilter like tenantID f maxRows t =
     (if tenantID = [] then Err ErrTenantRequired
      else Ok (map row_ID (take (nat (if maxRows \<le> 0 then 1000 else maxRows))
                             (newest_first (filter (matches_filter like tenantID f) t)))))"

definition DeleteByFilter ::
  "(string \<Rightarrow> string \<Rightarrow> bool) \<Rightarrow> string \<Rightarrow> DLQFilter \<Rightarrow> int \<Rightarrow> dlq_table \<Rightarrow> (dlq_error, nat) result \<times> dlq_table" where
  "DeleteByFilter like tenantID f maxRows t =
     (case IDsByFilter like tenantID f maxRows t of
        Inl e \<Rightarrow> (Err e, t)
      | Inr ids \<Rightarrow>
          (let gone = (\<lambda>r. row_TenantID r = tenantID \<and> row_ID r \<in> set ids)
           in (Ok (length (filter gone t)), filter (\<lambda>r. \<not> gone r) t)))"

text \<open>Go's zero time, the start of the year 1, in nanoseconds since 1970.\<close>

definition zero_time :: time where
  "zero_time = - 62135596800 * 10 ^ 9"

definition PruneOlderThan :: "time \<Rightarrow> dlq_table \<Rightarrow> dlq_table" where
  "PruneOlderThan cutoff t = (if cutoff = zero_time then t else filter (\<lambda>r. \<not> row_CreatedAt r < cutoff) t)"

definition PruneToMaxRows :: "int \<Rightarrow> dlq_table \<Rightarrow> dlq_table" where
  "PruneToMaxRows maxRows t =
     (if maxRows \<le> 0 then t
      else (let over = row_ID ` set (drop (nat maxRows) (newest_first t)) in filter (\<lambda>r. row_ID r \<notin> over) t))"

section \<open>The service\<close>

record pipe_policy =
  pp_TenantID :: string
  pp_RetryMax :: int
  pp_RetryBackoffMs :: int
  pp_DestinationID :: string

text \<open>
  What the service is answered: the pipeline rows by id, the connection of a tenant, the redaction
  rules of a pipeline, the errors of \<open>Pool.Get\<close>, of \<open>SendMessage\<close> and of the statements on the
  table, the clock, the codecs, the random reader.
\<close>

record dlq_env =
  env_now :: time
  env_pipelines :: "(string \<times> pipe_policy) list"
  env_connections :: "string \<Rightarrow> string \<Rightarrow> nat option"
  env_rules :: "string \<Rightarrow> (string, redaction_rule list) result"
  env_pool :: "string \<Rightarrow> nat \<Rightarrow> string option"
  env_send :: "nat \<Rightarrow> bytes \<Rightarrow> string option"
  env_insert :: "string option"
  env_increment :: "string option"
  env_schedule :: "string option"
  env_delete :: "string option"
  env_codec :: codec
  env_rnd :: "nat \<Rightarrow> bytes option"
  env_re_replace :: "string \<Rightarrow> string \<Rightarrow> string \<Rightarrow> string"
  env_like :: "string \<Rightarrow> string \<Rightarrow> bool"

record dlq_service =
  ds_maxRetries :: int
  ds_sealer :: "service option"

definition DefaultTenantID :: string where
  "DefaultTenantID = ''default''"

definition NewService :: "int \<Rightarrow> service option \<Rightarrow> dlq_service" where
  "NewService maxRetries ring = \<lparr>ds_maxRetries = (if maxRetries \<le> 0 then 3 else maxRetries), ds_sealer = ring\<rparr>"

definition Pipelines_Get :: "dlq_env \<Rightarrow> string \<Rightarrow> string \<Rightarrow> (dlq_error, pipe_policy) result" where
  "Pipelines_Get env tenantID pid =
     (if tenantID = [] then Err ErrTenantRequired
      else (case map_of (env_pipelines env) pid of
              None \<Rightarrow> Err ErrNotFound
            | Some p \<Rightarrow> (if pp_TenantID p = tenantID then Ok p else Err ErrNotFound)))"

definition Connections_Get :: "dlq_env \<Rightarrow> string \<Rightarrow> string \<Rightarrow> (dlq_error, nat) result" where
  "Connections_Get env tenantID cid =
     (if tenantID = [] then Err ErrTenantRequired
      else (case env_connections env tenantID cid of None \<Rightarrow> Err ErrNotFound | Some cfg \<Rightarrow> Ok cfg))"

text \<open>Exponential backoff in nanoseconds; the shift is on \<open>int64\<close>, and a negative count shifts everything out.\<close>

definition backoffDelay :: "int \<Rightarrow> int \<Rightarrow> duration" where
  "backoffDelay attempt baseMs =
     (let base = (if baseMs \<le> 0 then 5000 else baseMs); capMs = 600000;
          n = (if attempt > 30 then 30 else attempt);
          ms = (if n < 0 then 0 else int64 (base * 2 ^ nat n));
          ms = (if ms > capMs \<or> ms < 0 then capMs else ms)
      in ms * 1000000)"

text \<open>\<open>Push\<close>: the retry policy of the pipeline.\<close>

definition schedule_first :: "dlq_service \<Rightarrow> dlq_env \<Rightarrow> dlq_row \<Rightarrow> dlq_row" where
  "schedule_first svc env entry =
     (if row_PipelineID entry = [] then entry
      else (case map_of (env_pipelines env) (row_PipelineID entry) of
              None \<Rightarrow> entry
            | Some p \<Rightarrow>
                (let retryMax = (if pp_RetryMax p = 0 then ds_maxRetries svc else pp_RetryMax p)
                 in if retryMax > 0
                    then entry\<lparr>row_NextRetryAt := Some (env_now env + backoffDelay 0 (pp_RetryBackoffMs p))\<rparr>
                    else entry)))"

definition applyRedaction :: "dlq_service \<Rightarrow> dlq_env \<Rightarrow> redaction_rule list \<Rightarrow> dlq_row \<Rightarrow> dlq_row" where
  "applyRedaction svc env rules entry =
     (if row_OriginalMsg entry = [] \<or> \<not> Enabled (ds_sealer svc) then entry
      else (let (redacted, mutated) = Apply (env_codec env) (row_OriginalMsg entry) rules in
            if \<not> mutated then entry
            else (case Encrypt (env_rnd env) (ds_sealer svc) (row_OriginalMsg entry) of
                    Inl e \<Rightarrow> entry
                  | Inr sealed \<Rightarrow> entry\<lparr>row_RawMsg := sealed, row_OriginalMsg := redacted, row_Redacted := True\<rparr>)))"

definition redact_entry :: "dlq_service \<Rightarrow> dlq_env \<Rightarrow> dlq_row \<Rightarrow> dlq_row" where
  "redact_entry svc env entry =
     (if row_PipelineID entry = [] then entry
      else (case env_rules env (row_PipelineID entry) of
              Inl e \<Rightarrow> entry
            | Inr rules \<Rightarrow> (if rules = [] then entry else applyRedaction svc env rules entry)))"

definition fingerprint_entry :: "dlq_env \<Rightarrow> dlq_row \<Rightarrow> dlq_row" where
  "fingerprint_entry env entry =
     (if row_ErrorFingerprint entry = [] \<and> row_ErrorReason entry \<noteq> [] then
        (let fp = FingerprintWithStage (env_re_replace env) (row_ErrorReason entry) (row_FailingStageName entry)
         in entry\<lparr>row_ErrorFingerprint := fp_Fingerprint fp, row_ErrorTemplate := fp_Template fp\<rparr>)
      else entry)"

definition Push :: "dlq_service \<Rightarrow> dlq_env \<Rightarrow> string \<Rightarrow> dlq_row \<Rightarrow> dlq_table \<Rightarrow> (dlq_error, dlq_table) result" where
  "Push svc env uuid entry t =
     dlq_Insert (env_insert env) uuid (env_now env)
       (if row_TenantID entry = [] then DefaultTenantID else row_TenantID entry)
       (fingerprint_entry env (redact_entry svc env (schedule_first svc env entry))) t"

definition open_raw :: "dlq_service \<Rightarrow> dlq_row \<Rightarrow> (dlq_error, bytes) result" where
  "open_raw svc entry =
     (if \<not> Enabled (ds_sealer svc) then Err ErrSealerUnavailable
      else (case Decrypt (ds_sealer svc) (row_RawMsg entry) of
              Inl e \<Rightarrow> Err (DecryptRaw e)
            | Inr plain \<Rightarrow> Ok plain))"

definition GetRaw :: "dlq_service \<Rightarrow> string \<Rightarrow> string \<Rightarrow> dlq_table \<Rightarrow> (dlq_error, bytes) result" where
  "GetRaw svc tenantID rid t =
     (case dlq_Get tenantID rid t of
        Inl e \<Rightarrow> Err e
      | Inr entry \<Rightarrow>
          (if \<not> row_Redacted entry \<or> row_RawMsg entry = [] then Err ErrRawNotAvailable else open_raw svc entry))"

text \<open>The payload a retry sends.\<close>

definition retry_payload :: "dlq_service \<Rightarrow> dlq_row \<Rightarrow> (dlq_error, bytes) result" where
  "retry_payload svc entry =
     (if row_Redacted entry \<and> row_RawMsg entry \<noteq> [] then open_raw svc entry else Ok (row_OriginalMsg entry))"

text \<open>A send: the row, the payload, whether the broker took it.\<close>

type_synonym dlq_send = "string \<times> bytes \<times> bool"

text \<open>\<open>Retry\<close> from the lookup of the destination on, on the entry as it was read.\<close>

definition retry_send ::
  "dlq_service \<Rightarrow> dlq_env \<Rightarrow> string \<Rightarrow> dlq_row \<Rightarrow> pipe_policy \<Rightarrow> dlq_error option \<times> dlq_send list" where
  "retry_send svc env tenantID entry p =
     (case Connections_Get env tenantID (pp_DestinationID p) of
        Inl e \<Rightarrow> (Some (DestinationLookup e), [])
      | Inr cfg \<Rightarrow>
          (case env_pool env (''dlq-retry-'' @ row_ID entry) cfg of
             Some e \<Rightarrow> (Some (PoolGet e), [])
           | None \<Rightarrow>
               (case retry_payload svc entry of
                  Inl e \<Rightarrow> (Some e, [])
                | Inr payload \<Rightarrow>
                    (case env_send env cfg payload of
                       Some e \<Rightarrow> (Some (SendFailed e), [(row_ID entry, payload, False)])
                     | None \<Rightarrow> (None, [(row_ID entry, payload, True)])))))"

definition Retry ::
  "dlq_service \<Rightarrow> dlq_env \<Rightarrow> string \<Rightarrow> string \<Rightarrow> dlq_table \<Rightarrow> dlq_error option \<times> dlq_table \<times> dlq_send list" where
  "Retry svc env tenantID rid t =
     (case dlq_Get tenantID rid t of
        Inl e \<Rightarrow> (Some e, t, [])
      | Inr entry \<Rightarrow>
          (if row_RetryCount entry \<ge> ds_maxRetries svc then (Some ErrMaxRetries, t, [])
           else if row_PipelineID entry = [] then (Some (NoPipelineID rid), t, [])
           else (case Pipelines_Get env tenantID (row_PipelineID entry) of
                   Inl e \<Rightarrow> (Some (PipelineLookup e), t, [])
                 | Inr p \<Rightarrow>
                     (let limit = (if pp_RetryMax p > ds_maxRetries svc then pp_RetryMax p else ds_maxRetries svc) in
                      if row_RetryCount entry \<ge> limit then (Some ErrMaxRetries, t, [])
                      else (let (_, t') = IncrementRetry (env_increment env) (env_now env) tenantID rid t;
                                (err, sends) = retry_send svc env tenantID entry p
                            in (err, t', sends))))))"

section \<open>The reaper, the bulk operations, retention\<close>

definition attemptOne :: "dlq_service \<Rightarrow> dlq_env \<Rightarrow> duration \<Rightarrow> dlq_row \<Rightarrow> dlq_table \<Rightarrow> dlq_table \<times> dlq_send list" where
  "attemptOne svc env jitter entry t =
     (let tenant = (if row_TenantID entry = [] then DefaultTenantID else row_TenantID entry);
          (err, t', sends) = Retry svc env tenant (row_ID entry) t
      in if err = None \<or> err = Some ErrMaxRetries
         then (snd (ScheduleRetry (env_schedule env) tenant (row_ID entry) None t'), sends)
         else (let baseMs = (if row_PipelineID entry = [] then 0
                             else (case map_of (env_pipelines env) (row_PipelineID entry) of
                                     None \<Rightarrow> 0
                                   | Some p \<Rightarrow> pp_RetryBackoffMs p));
                   nxt = env_now env + (backoffDelay (row_RetryCount entry) baseMs + jitter)
               in (snd (ScheduleRetry (env_schedule env) tenant (row_ID entry) (Some nxt) t'), sends)))"

text \<open>
  The loop of \<open>reapOnce\<close>: one environment and one jitter per row it gets to; when they run
  out the context is cancelled.
\<close>

fun reap_loop :: "dlq_service \<Rightarrow> (dlq_env \<times> duration) list \<Rightarrow> dlq_row list \<Rightarrow> dlq_table \<Rightarrow> dlq_table \<times> dlq_send list" where
  "reap_loop svc ((env, jitter) # envs) (entry # rows) t =
     (let (t', sends) = attemptOne svc env jitter entry t; (t'', sends') = reap_loop svc envs rows t'
      in (t'', sends @ sends'))"
| "reap_loop svc envs rows t = (t, [])"

definition reapOnce ::
  "dlq_service \<Rightarrow> time \<Rightarrow> int \<Rightarrow> (dlq_env \<times> duration) list \<Rightarrow> dlq_table \<Rightarrow> dlq_table \<times> dlq_send list" where
  "reapOnce svc now batch envs t = reap_loop svc envs (ListDue now batch t) t"

record BulkResult =
  br_Succeeded :: nat
  br_Failed :: nat
  br_Failures :: "(string \<times> dlq_error) list"

fun bulk_loop ::
  "dlq_service \<Rightarrow> string \<Rightarrow> dlq_env list \<Rightarrow> string list \<Rightarrow> BulkResult \<Rightarrow> dlq_table \<Rightarrow>
   (dlq_error option \<times> BulkResult) \<times> dlq_table \<times> dlq_send list" where
  "bulk_loop svc tenantID envs [] out t = ((None, out), t, [])"
| "bulk_loop svc tenantID [] (rid # rids) out t = ((Some ContextDone, out), t, [])"
| "bulk_loop svc tenantID (env # envs) (rid # rids) out t =
     (let (err, t', sends) = Retry svc env tenantID rid t;
          (out', t'') = (case err of
             Some e \<Rightarrow> (out\<lparr>br_Failed := br_Failed out + 1, br_Failures := AList.update rid e (br_Failures out)\<rparr>, t')
           | None \<Rightarrow> (out\<lparr>br_Succeeded := br_Succeeded out + 1\<rparr>, snd (dlq_Delete (env_delete env) tenantID rid t')));
          (res, t''', sends') = bulk_loop svc tenantID envs rids out' t''
      in (res, t''', sends @ sends'))"

definition BulkRetry ::
  "dlq_service \<Rightarrow> (string \<Rightarrow> string \<Rightarrow> bool) \<Rightarrow> string \<Rightarrow> DLQFilter \<Rightarrow> int \<Rightarrow> dlq_env list \<Rightarrow> dlq_table \<Rightarrow>
   (dlq_error option \<times> BulkResult) \<times> dlq_table \<times> dlq_send list" where
  "BulkRetry svc like tenantID f maxRows envs t =
     (case IDsByFilter like tenantID f (if maxRows \<le> 0 then 100 else maxRows) t of
        Inl e \<Rightarrow> ((Some e, \<lparr>br_Succeeded = 0, br_Failed = 0, br_Failures = []\<rparr>), t, [])
      | Inr rids \<Rightarrow> bulk_loop svc tenantID envs rids \<lparr>br_Succeeded = 0, br_Failed = 0, br_Failures = []\<rparr> t)"

definition BulkDelete ::
  "(string \<Rightarrow> string \<Rightarrow> bool) \<Rightarrow> string \<Rightarrow> DLQFilter \<Rightarrow> int \<Rightarrow> dlq_table \<Rightarrow> (dlq_error, BulkResult) result \<times> dlq_table" where
  "BulkDelete like tenantID f maxRows t =
     (case DeleteByFilter like tenantID f (if maxRows \<le> 0 then 1000 else maxRows) t of
        (Inl e, t') \<Rightarrow> (Err e, t')
      | (Inr n, t') \<Rightarrow> (Ok \<lparr>br_Succeeded = n, br_Failed = 0, br_Failures = []\<rparr>, t'))"

text \<open>One retention sweep; the flags say whether the statements fail.\<close>

definition sweep :: "duration \<Rightarrow> int \<Rightarrow> time \<Rightarrow> bool \<Rightarrow> bool \<Rightarrow> dlq_table \<Rightarrow> dlq_table" where
  "sweep maxAge maxRows now age_fails rows_fails t =
     (let t' = (if maxAge > 0 \<and> \<not> age_fails then PruneOlderThan (now - maxAge) t else t)
      in if maxRows > 0 \<and> \<not> rows_fails then PruneToMaxRows maxRows t' else t')"

section \<open>Histories\<close>

text \<open>The operations on the table, one after the other, each with the answers it is given.\<close>

datatype dlq_op =
    OpPush dlq_env string dlq_row
  | OpRetry dlq_env string string
  | OpBulkRetry "string \<Rightarrow> string \<Rightarrow> bool" string DLQFilter int "dlq_env list"
  | OpReap time int "(dlq_env \<times> duration) list"
  | OpDelete "string option" string string
  | OpBulkDelete "string \<Rightarrow> string \<Rightarrow> bool" string DLQFilter int
  | OpSweep duration int time bool bool

fun dlq_step :: "dlq_service \<Rightarrow> dlq_op \<Rightarrow> dlq_table \<Rightarrow> dlq_table \<times> dlq_send list" where
  "dlq_step svc (OpPush env uuid entry) t = (case Push svc env uuid entry t of Inl e \<Rightarrow> t | Inr t' \<Rightarrow> t', [])"
| "dlq_step svc (OpRetry env tenantID rid) t = snd (Retry svc env tenantID rid t)"
| "dlq_step svc (OpBulkRetry like tenantID f maxRows envs) t = snd (BulkRetry svc like tenantID f maxRows envs t)"
| "dlq_step svc (OpReap now batch envs) t = reapOnce svc now batch envs t"
| "dlq_step svc (OpDelete db tenantID rid) t = (snd (dlq_Delete db tenantID rid t), [])"
| "dlq_step svc (OpBulkDelete like tenantID f maxRows) t = (snd (BulkDelete like tenantID f maxRows t), [])"
| "dlq_step svc (OpSweep maxAge maxRows now a r) t = (sweep maxAge maxRows now a r t, [])"

fun dlq_run :: "dlq_service \<Rightarrow> dlq_op list \<Rightarrow> dlq_table \<Rightarrow> dlq_table \<times> dlq_send list" where
  "dlq_run svc [] t = (t, [])"
| "dlq_run svc (op # ops) t =
     (let (t', sends) = dlq_step svc op t; (t'', sends') = dlq_run svc ops t' in (t'', sends @ sends'))"

end
