(* ===== verification/Redact_Props.thy ===== *)
theory Redact_Props
  imports Redact Filter_Stage
begin

text \<open>
  What redaction does. \<open>selects\<close> says which addresses of a document a path stands for and
  \<open>mask_where\<close> is one pass that masks them; the walk of \<open>redact.go\<close> equals it
  (\<open>walkPath_masks\<close>), and \<open>parsePath\<close> reads the documented paths back (\<open>parsePath_printed\<close>).
\<close>

section \<open>What a path selects\<close>

text \<open>The address of a value inside a document, and the value there.\<close>

datatype step = at_key string | at_idx nat

fun addressed :: "any \<Rightarrow> step list \<Rightarrow> any option" where
  "addressed v [] = Some v"
| "addressed (VObj m) (at_key k # a) = (case map_of m k of None \<Rightarrow> None | Some v \<Rightarrow> addressed v a)"
| "addressed (VArr xs) (at_idx i # a) = (if i < length xs then addressed (xs ! i) a else None)"
| "addressed v a = None"

text \<open>Whether a segment leads from a node over the step \<open>st\<close>; negative indices count from the end.\<close>

definition seg_step :: "pathSegment \<Rightarrow> any \<Rightarrow> step \<Rightarrow> bool" where
  "seg_step seg node st \<longleftrightarrow>
     addressed node [st] \<noteq> None \<and>
     (case (seg, st, node) of
        (seg_key k, at_key k', _) \<Rightarrow> k' = k
      | (seg_wildcard, at_idx i, _) \<Rightarrow> True
      | (seg_index j, at_idx i, VArr xs) \<Rightarrow> int i = (if j < 0 then int (length xs) + j else j)
      | _ \<Rightarrow> False)"

fun selects :: "pathSegment list \<Rightarrow> any \<Rightarrow> step list \<Rightarrow> bool" where
  "selects [] node a \<longleftrightarrow> False"
| "selects (seg_root # segs) node a \<longleftrightarrow> a = []"
| "selects (seg_recursive key # segs) node a \<longleftrightarrow> a \<noteq> [] \<and> last a = at_key key \<and> addressed node a \<noteq> None"
| "selects (seg # segs) node [] \<longleftrightarrow> False"
| "selects (seg # segs) node (st # a) \<longleftrightarrow>
     seg_step seg node st \<and> (if segs = [] then a = [] else selects segs (the (addressed node [st])) a)"

text \<open>One pass that replaces every value whose address is selected, outermost first.\<close>

primrec mask_where :: "any \<Rightarrow> (step list \<Rightarrow> bool) \<Rightarrow> any \<Rightarrow> any" where
  "mask_where VNil = (\<lambda>sel r. if sel [] then r else VNil)"
| "mask_where (VBool b) = (\<lambda>sel r. if sel [] then r else VBool b)"
| "mask_where (VNum n) = (\<lambda>sel r. if sel [] then r else VNum n)"
| "mask_where (VStr s) = (\<lambda>sel r. if sel [] then r else VStr s)"
| "mask_where (VArr xs) =
     (\<lambda>sel r. if sel [] then r
       else VArr (map (\<lambda>(i, f). f (\<lambda>a. sel (at_idx i # a)) r) (zip [0..<length xs] (map mask_where xs))))"
| "mask_where (VObj m) =
     (\<lambda>sel r. if sel [] then r
       else VObj (map (\<lambda>(k, f). (k, f (\<lambda>a. sel (at_key k # a)) r)) (map (map_prod id mask_where) m)))"

lemma mask_where_arr:
  "mask_where (VArr xs) sel r =
     (if sel [] then r else VArr (map (\<lambda>i. mask_where (xs ! i) (\<lambda>a. sel (at_idx i # a)) r) [0..<length xs]))"
  by (auto intro!: nth_equalityI)

lemma mask_where_obj:
  "mask_where (VObj m) sel r =
     (if sel [] then r else VObj (map (\<lambda>(k, v). (k, mask_where v (\<lambda>a. sel (at_key k # a)) r)) m))"
  by auto

declare mask_where.simps(5,6) [simp del]

lemma mask_where_cong:
  assumes "any_wf node" "\<And>a. addressed node a \<noteq> None \<Longrightarrow> sel a = sel' a"
  shows "mask_where node sel r = mask_where node sel' r"
  using assms
proof (induction node arbitrary: sel sel')
  case (VArr xs)
  have "mask_where (xs ! i) (\<lambda>a. sel (at_idx i # a)) r = mask_where (xs ! i) (\<lambda>a. sel' (at_idx i # a)) r"
    if "i < length xs" for i
    using VArr.IH [of "xs ! i" "\<lambda>a. sel (at_idx i # a)" "\<lambda>a. sel' (at_idx i # a)"]
      VArr.prems that by (auto simp: list_all_iff)
  with VArr.prems(2) [of "[]"] show ?case by (simp add: mask_where_arr)
next
  case (VObj m)
  have "mask_where v (\<lambda>a. sel (at_key k # a)) r = mask_where v (\<lambda>a. sel' (at_key k # a)) r" if kv: "(k, v) \<in> set m" for k v
  proof -
    have "map_of m k = Some v" "any_wf v" using VObj.prems(1) kv by (auto simp: list_all_iff)
    with kv show ?thesis
      using VObj.IH [of "(k, v)" v "\<lambda>a. sel (at_key k # a)" "\<lambda>a. sel' (at_key k # a)"] VObj.prems(2) [of "at_key k # _"]
      by auto
  qed
  with VObj.prems(2) [of "[]"] show ?case by (auto simp: mask_where_obj)
qed auto

lemma mask_where_False: "mask_where node (\<lambda>a. False) r = node"
proof (induction node)
  case (VArr xs)
  then show ?case by (auto simp: mask_where_arr intro!: nth_equalityI)
next
  case (VObj m)
  then have "map (\<lambda>(k, v). (k, mask_where v (\<lambda>a. False) r)) m = m" by (intro map_idI) auto
  then show ?case by (simp add: mask_where_obj)
qed auto

lemma mask_where_here: "sel [] \<Longrightarrow> mask_where node sel r = r"
  by (cases node) (auto simp: mask_where_arr mask_where_obj)

definition ends_in :: "string \<Rightarrow> step list \<Rightarrow> bool" where
  "ends_in key a \<longleftrightarrow> a \<noteq> [] \<and> last a = at_key key"

lemma ends_in_steps:
  "\<not> ends_in key []" "(\<lambda>a. ends_in key (at_idx i # a)) = ends_in key"
  "k \<noteq> key \<Longrightarrow> (\<lambda>a. ends_in key (at_key k # a)) = ends_in key" "ends_in key [at_key key]"
  by (auto simp: ends_in_def)

lemma walkRecursive_masks: "fst (walkRecursive key r node) = mask_where node (ends_in key) r"
proof (induction node)
  case (VArr xs)
  then show ?case by (auto simp: mask_where_arr ends_in_steps Let_def comp_def intro!: nth_equalityI)
next
  case (VObj m)
  have "fst (walkRecursive key r v) = mask_where v (ends_in key) r" if "(k, v) \<in> set m" for k v
    using VObj that by auto
  then show ?case by (auto simp: mask_where_obj mask_where_here ends_in_steps Let_def)
qed (auto simp: ends_in_steps)

lemma walkRecursive_hit:
  "any_wf node \<Longrightarrow> snd (walkRecursive key r node) \<longleftrightarrow> (\<exists>a. ends_in key a \<and> addressed node a \<noteq> None)"
proof (induction node)
  case (VArr xs)
  have each: "snd (walkRecursive key r (xs ! i)) \<longleftrightarrow> (\<exists>a. ends_in key a \<and> addressed (xs ! i) a \<noteq> None)"
    if "i < length xs" for i
    using VArr that by (simp add: list_all_iff)
  have "snd (walkRecursive key r (VArr xs)) \<longleftrightarrow> (\<exists>i<length xs. snd (walkRecursive key r (xs ! i)))"
    by (auto simp: Let_def in_set_conv_nth intro!: bexI [OF _ nth_mem])
  also have "\<dots> \<longleftrightarrow> (\<exists>i<length xs. \<exists>a. ends_in key a \<and> addressed (xs ! i) a \<noteq> None)"
    using each by blast
  also have "\<dots> \<longleftrightarrow> (\<exists>a. ends_in key a \<and> addressed (VArr xs) a \<noteq> None)" (is "?l = ?r")
  proof
    assume ?l
    then obtain i a where "i < length xs" "ends_in key a" "addressed (xs ! i) a \<noteq> None" by blast
    then show ?r by (intro exI [of _ "at_idx i # a"]) (simp add: ends_in_def)
  next
    assume ?r
    then obtain st a where a: "ends_in key (st # a)" "addressed (VArr xs) (st # a) \<noteq> None"
      unfolding ends_in_def by (metis neq_Nil_conv)
    then show ?l by (cases st) (auto simp: fun_cong [OF ends_in_steps(2)] split: if_splits)
  qed
  finally show ?case .
next
  case (VObj m)
  have at: "(k, v) \<in> set m \<longleftrightarrow> map_of m k = Some v" for k v using VObj.prems by (auto simp: list_all_iff)
  have "snd (walkRecursive key r (VObj m)) \<longleftrightarrow> (\<exists>k v. map_of m k = Some v \<and> (k = key \<or> snd (walkRecursive key r v)))"
    by (force simp: Let_def simp flip: at split: if_splits)
  also have "\<dots> \<longleftrightarrow> (\<exists>k v. map_of m k = Some v \<and> (k = key \<or> (\<exists>a. ends_in key a \<and> addressed v a \<noteq> None)))"
    using VObj.IH VObj.prems by (fastforce simp: list_all_iff simp flip: at)
  also have "\<dots> \<longleftrightarrow> (\<exists>a. ends_in key a \<and> addressed (VObj m) a \<noteq> None)" (is "?l = ?r")
  proof
    assume ?l
    then obtain k v where kv: "map_of m k = Some v" "k = key \<or> (\<exists>a. ends_in key a \<and> addressed v a \<noteq> None)" by blast
    from kv(2) show ?r
    proof
      assume "k = key"
      with kv(1) show ?r by (intro exI [of _ "[at_key k]"]) (simp add: ends_in_steps)
    next
      assume "\<exists>a. ends_in key a \<and> addressed v a \<noteq> None"
      then obtain a where "ends_in key a" "addressed v a \<noteq> None" by blast
      with kv(1) show ?r by (intro exI [of _ "at_key k # a"]) (simp add: ends_in_def)
    qed
  next
    assume ?r
    then obtain st a where a: "ends_in key (st # a)" "addressed (VObj m) (st # a) \<noteq> None"
      unfolding ends_in_def by (metis neq_Nil_conv)
    then show ?l by (cases st; cases "a = []") (auto simp: ends_in_def split: option.splits)
  qed
  finally show ?case .
qed (auto simp: ends_in_def neq_Nil_conv)

lemma update_map:
  "map_wf m \<Longrightarrow> map_of m k = Some v \<Longrightarrow> AList.update k v' m = map (\<lambda>(k', u). (k', if k' = k then v' else u)) m"
proof (induction m)
  case (Cons p m)
  then have "k \<notin> fst ` set m \<Longrightarrow> map (\<lambda>(k', u). (k', if k' = k then v' else u)) m = m"
    by (intro map_idI) force
  with Cons show ?case by (cases p) (auto split: if_splits)
qed simp

lemma list_update_map: "xs[i := v'] = map (\<lambda>j. if j = i then v' else xs ! j) [0..<length xs]"
  by (auto intro!: nth_equalityI simp: nth_list_update)

lemma selects_step:
  assumes "\<forall>key. seg \<noteq> seg_recursive key" "seg \<noteq> seg_root"
  shows "selects (seg # segs) node a \<longleftrightarrow>
    (\<exists>st a'. a = st # a' \<and> seg_step seg node st \<and> (if segs = [] then a' = [] else selects segs (the (addressed node [st])) a'))"
  using assms by (cases seg; cases a) auto

text \<open>The selected part of a value one step down.\<close>

definition below :: "pathSegment list \<Rightarrow> any \<Rightarrow> step list \<Rightarrow> bool" where
  "below segs v a \<longleftrightarrow> (if segs = [] then a = [] else selects segs v a)"

lemma below_walk:
  assumes "segs \<noteq> [] \<Longrightarrow> walkPath segs r v = (mask_where v (selects segs v) r, \<exists>a. selects segs v a)"
  shows "(if segs = [] then (r, True) else walkPath segs r v) = (mask_where v (below segs v) r, \<exists>a. below segs v a)"
proof (cases "segs = []")
  case True
  then show ?thesis by (auto simp: below_def mask_where_here)
next
  case False
  then have "below segs v = selects segs v" by (auto simp: below_def)
  with assms False show ?thesis by simp
qed


lemma seg_step_simps:
  "seg_step (seg_key k) (VObj m) (at_key k') \<longleftrightarrow> k' = k \<and> map_of m k \<noteq> None"
  "seg_step (seg_key k) node (at_idx i) \<longleftrightarrow> False"
  "seg_step seg_wildcard (VArr xs) (at_idx i) \<longleftrightarrow> i < length xs"
  "seg_step seg_wildcard node (at_key k') \<longleftrightarrow> False"
  "seg_step (seg_index j) (VArr xs) (at_idx i) \<longleftrightarrow>
     i < length xs \<and> int i = (if j < 0 then int (length xs) + j else j)"
  "seg_step (seg_index j) node (at_key k') \<longleftrightarrow> False"
  by (auto simp: seg_step_def split: option.splits)

lemma seg_step_other:
  "\<nexists>m. node = VObj m \<Longrightarrow> \<not> seg_step (seg_key k) node st"
  "\<nexists>xs. node = VArr xs \<Longrightarrow> \<not> seg_step seg_wildcard node st"
  "\<nexists>xs. node = VArr xs \<Longrightarrow> \<not> seg_step (seg_index j) node st"
  by (cases node; cases st; simp add: seg_step_def)+

lemma selects_key:
  "selects (seg_key k # segs) (VObj m) a \<longleftrightarrow> (\<exists>a' v. a = at_key k # a' \<and> map_of m k = Some v \<and> below segs v a')"
  by (cases a; cases "hd a") (auto simp: seg_step_simps below_def)

lemma selects_wildcard:
  "selects (seg_wildcard # segs) (VArr xs) a \<longleftrightarrow> (\<exists>i a'. a = at_idx i # a' \<and> i < length xs \<and> below segs (xs ! i) a')"
  by (cases a; cases "hd a") (auto simp: seg_step_simps below_def)

lemma selects_index:
  "selects (seg_index j # segs) (VArr xs) a \<longleftrightarrow>
     (\<exists>i a'. a = at_idx i # a' \<and> i < length xs \<and> int i = (if j < 0 then int (length xs) + j else j) \<and> below segs (xs ! i) a')"
  by (cases a; cases "hd a") (auto simp: seg_step_simps below_def)

lemma selects_other:
  "\<nexists>m. node = VObj m \<Longrightarrow> selects (seg_key k # segs) node = (\<lambda>a. False)"
  "\<nexists>xs. node = VArr xs \<Longrightarrow> selects (seg_wildcard # segs) node = (\<lambda>a. False)"
  "\<nexists>xs. node = VArr xs \<Longrightarrow> selects (seg_index j # segs) node = (\<lambda>a. False)"
  by (auto simp: fun_eq_iff selects_step seg_step_other)

declare selects.simps(4-9) [simp del]

lemma walk_key:
  assumes "map_wf m" "map_of m k = Some v"
    and "(if segs = [] then (r, True) else walkPath segs r v) = (mask_where v (below segs v) r, \<exists>a. below segs v a)"
  shows "walkPath (seg_key k # segs) r (VObj m) =
    (mask_where (VObj m) (selects (seg_key k # segs) (VObj m)) r, \<exists>a. selects (seg_key k # segs) (VObj m) a)"
proof -
  have "walkPath (seg_key k # segs) r (VObj m) =
      (VObj (AList.update k (mask_where v (below segs v) r) m), \<exists>a. below segs v a)"
    using assms(2,3) by (auto split: if_splits prod.splits)
  moreover have "mask_where (VObj m) (selects (seg_key k # segs) (VObj m)) r =
      VObj (AList.update k (mask_where v (below segs v) r) m)"
  proof -
    have "(\<lambda>a. selects (seg_key k # segs) (VObj m) (at_key k' # a)) = (if k' = k then below segs v else (\<lambda>a. False))" for k'
      using assms(2) by (auto simp: selects_key fun_eq_iff)
    then show ?thesis
      using assms(2) map_of_is_SomeI [OF assms(1)]
      by (auto simp: mask_where_obj selects_key [of _ _ _ "[]"] update_map [OF assms(1,2)] mask_where_False)
  qed
  ultimately show ?thesis using assms(2) by (auto simp: selects_key)
qed

lemma walk_wildcard:
  assumes "\<And>x. x \<in> set xs \<Longrightarrow>
      (if segs = [] then (r, True) else walkPath segs r x) = (mask_where x (below segs x) r, \<exists>a. below segs x a)"
  shows "walkPath (seg_wildcard # segs) r (VArr xs) =
    (mask_where (VArr xs) (selects (seg_wildcard # segs) (VArr xs)) r, \<exists>a. selects (seg_wildcard # segs) (VArr xs) a)"
proof -
  have walk: "walkPath (seg_wildcard # segs) r (VArr xs) =
      (VArr (map (\<lambda>x. mask_where x (below segs x) r) xs), \<exists>x\<in>set xs. \<exists>a. below segs x a)"
    using assms by (cases "segs = []") (auto simp: Let_def intro: hd_in_set)
  have sel: "(\<lambda>a. selects (seg_wildcard # segs) (VArr xs) (at_idx i # a)) = below segs (xs ! i)" if "i < length xs" for i
    using that by (auto simp: selects_wildcard fun_eq_iff)
  have "mask_where (VArr xs) (selects (seg_wildcard # segs) (VArr xs)) r = VArr (map (\<lambda>x. mask_where x (below segs x) r) xs)"
    using sel by (auto simp: mask_where_arr selects_wildcard [of _ _ "[]"] intro!: nth_equalityI)
  moreover have "(\<exists>a. selects (seg_wildcard # segs) (VArr xs) a) \<longleftrightarrow> (\<exists>x\<in>set xs. \<exists>a. below segs x a)"
    by (force simp: selects_wildcard in_set_conv_nth)
  ultimately show ?thesis using walk by simp
qed

lemma walk_index:
  assumes "i < length xs" "int i = (if j < 0 then int (length xs) + j else j)"
    and "(if segs = [] then (r, True) else walkPath segs r (xs ! i)) = (mask_where (xs ! i) (below segs (xs ! i)) r, \<exists>a. below segs (xs ! i) a)"
  shows "walkPath (seg_index j # segs) r (VArr xs) =
    (mask_where (VArr xs) (selects (seg_index j # segs) (VArr xs)) r, \<exists>a. selects (seg_index j # segs) (VArr xs) a)"
proof -
  have idx: "nat (if j < 0 then int (length xs) + j else j) = i" using assms(2) by simp
  have walk: "walkPath (seg_index j # segs) r (VArr xs) =
      (VArr (xs[i := mask_where (xs ! i) (below segs (xs ! i)) r]), \<exists>a. below segs (xs ! i) a)"
    using assms idx by (auto simp: Let_def split: if_splits prod.splits)
  have sel: "(\<lambda>a. selects (seg_index j # segs) (VArr xs) (at_idx n # a)) = (if n = i then below segs (xs ! i) else (\<lambda>a. False))" for n
    using assms(1,2) by (auto simp: selects_index fun_eq_iff)
  have "mask_where (VArr xs) (selects (seg_index j # segs) (VArr xs)) r = VArr (xs[i := mask_where (xs ! i) (below segs (xs ! i)) r])"
    using sel by (auto simp: mask_where_arr selects_index [of _ _ _ "[]"] list_update_map mask_where_False)
  moreover have "(\<exists>a. selects (seg_index j # segs) (VArr xs) a) \<longleftrightarrow> (\<exists>a. below segs (xs ! i) a)"
    using assms(1,2) by (auto simp: selects_index simp flip: assms(2))
  ultimately show ?thesis using walk by simp
qed

lemma any_wf_arr: "any_wf (VArr xs) \<longleftrightarrow> (\<forall>x\<in>set xs. any_wf x)"
  by (auto simp: list_all_iff)

lemma walkPath_masks:
  "any_wf node \<Longrightarrow> walkPath segs r node = (mask_where node (selects segs node) r, \<exists>a. selects segs node a)"
proof (induction segs arbitrary: node)
  case Nil
  then show ?case by (simp add: mask_where_False)
next
  case (Cons seg segs)
  have step: "(if segs = [] then (r, True) else walkPath segs r v) = (mask_where v (below segs v) r, \<exists>a. below segs v a)"
    if "any_wf v" for v
    using below_walk Cons.IH [OF that] by blast
  show ?case
  proof (cases seg)
    case seg_root
    then show ?thesis by (auto simp: mask_where_here)
  next
    case (seg_recursive key)
    have sel: "selects (seg # segs) node = (\<lambda>a. ends_in key a \<and> addressed node a \<noteq> None)"
      by (auto simp: seg_recursive ends_in_def fun_eq_iff)
    have "mask_where node (ends_in key) r = mask_where node (\<lambda>a. ends_in key a \<and> addressed node a \<noteq> None) r"
      using Cons.prems by (intro mask_where_cong) auto
    then show ?thesis
      using walkRecursive_masks [of key r node] walkRecursive_hit [OF Cons.prems, of key r]
      unfolding sel by (simp add: seg_recursive prod_eq_iff)
  next
    case (seg_key k)
    show ?thesis
    proof (cases node)
      case (VObj m)
      show ?thesis
      proof (cases "map_of m k")
        case None
        then have "selects (seg # segs) node = (\<lambda>a. False)" by (auto simp: seg_key VObj selects_key)
        with None show ?thesis by (simp add: seg_key VObj mask_where_False)
      next
        case (Some v)
        then have "map_wf m" "any_wf v" using Cons.prems VObj map_of_SomeD [OF Some] by (auto simp: list_all_iff)
        then show ?thesis using walk_key Some step seg_key VObj by simp
      qed
    qed (simp_all add: seg_key selects_other(1) mask_where_False)
  next
    case seg_wildcard
    show ?thesis
    proof (cases node)
      case (VArr xs)
      then show ?thesis using walk_wildcard [of xs segs r] step Cons.prems seg_wildcard by (simp only: any_wf_arr)
    qed (simp_all add: seg_wildcard selects_other(2) mask_where_False)
  next
    case (seg_index j)
    show ?thesis
    proof (cases node)
      case (VArr xs)
      let ?idx = "if j < 0 then int (length xs) + j else j"
      show ?thesis
      proof (cases "0 \<le> ?idx \<and> ?idx < int (length xs)")
        case True
        then have "nat ?idx < length xs" "int (nat ?idx) = ?idx" by auto
        then show ?thesis using walk_index step Cons.prems VArr seg_index by (metis any_wf_arr nth_mem)
      next
        case False
        then have "selects (seg # segs) node = (\<lambda>a. False)" by (auto simp: seg_index VArr selects_index fun_eq_iff)
        with False show ?thesis by (auto simp: seg_index VArr mask_where_False Let_def)
      qed
    qed (simp_all add: seg_index selects_other(3) mask_where_False)
  qed
qed

section \<open>Reading a path\<close>

text \<open>The documented notation of a path below the root; field names hold no dot and no bracket.\<close>

fun print_seg :: "pathSegment \<Rightarrow> string" where
  "print_seg (seg_key k) = ''.'' @ k"
| "print_seg seg_wildcard = ''[*]''"
| "print_seg (seg_index j) = ''['' @ show_nat (nat j) @ '']''"
| "print_seg _ = []"

fun plain_seg :: "pathSegment \<Rightarrow> bool" where
  "plain_seg (seg_key k) \<longleftrightarrow> k \<noteq> [] \<and> CHR ''.'' \<notin> set k \<and> CHR ''['' \<notin> set k"
| "plain_seg seg_wildcard \<longleftrightarrow> True"
| "plain_seg (seg_index j) \<longleftrightarrow> 0 \<le> j \<and> j < 2 ^ 63"
| "plain_seg _ \<longleftrightarrow> False"

definition print_path :: "pathSegment list \<Rightarrow> string" where
  "print_path segs = ''$'' @ concat (map print_seg segs)"

abbreviation read_digits :: "int \<Rightarrow> string \<Rightarrow> int" where
  "read_digits n ds \<equiv> foldl (\<lambda>n c. 10 * n + (of_char c - 48)) n ds"

lemma is_digit_ge: "is_digit c \<Longrightarrow> (48::int) \<le> of_char c"
  unfolding is_digit_def by (metis of_nat_le_iff of_nat_numeral of_nat_of_char)

lemma read_digits_grow: "list_all is_digit ds \<Longrightarrow> 0 \<le> n \<Longrightarrow> n \<le> read_digits n ds"
proof (induction ds arbitrary: n)
  case (Cons c cs)
  let ?n = "10 * n + (of_char c - 48)"
  have n: "n \<le> ?n" "0 \<le> ?n" using is_digit_ge [of c] Cons.prems by auto
  have "?n \<le> read_digits ?n cs" using Cons.IH [OF _ n(2)] Cons.prems(1) by simp
  with n(1) show ?case by simp
qed simp

lemma index_loop_digits:
  "list_all is_digit ds \<Longrightarrow> 0 \<le> n \<Longrightarrow> read_digits n ds < 2 ^ 63 \<Longrightarrow> index_loop n ds = read_digits n ds"
proof (induction ds arbitrary: n)
  case (Cons d ds)
  let ?n = "10 * n + (of_char d - 48)"
  have n: "0 \<le> ?n" using is_digit_ge [of d] Cons.prems by auto
  moreover have "?n < 2 ^ 63" using read_digits_grow [of ds ?n] n Cons.prems by simp
  ultimately have "int64 (n * 10 + (of_char d - 48)) = ?n" by (subst int64_id) (auto simp: mult.commute)
  with Cons n show ?case by simp
qed simp

lemma bracket_index: "0 \<le> j \<Longrightarrow> j < 2 ^ 63 \<Longrightarrow> bracket_segment (show_nat (nat j)) = seg_index j"
proof -
  assume j: "0 \<le> j" "j < 2 ^ 63"
  have "index_loop 0 (show_nat (nat j)) = j"
    using index_loop_digits [of "show_nat (nat j)" 0] show_nat_digits [of "nat j"] digits_value_show_nat [of "nat j"] j
    by (simp add: digits_value_def)
  moreover have "show_nat (nat j) \<noteq> ''*''" "\<not> prefix ''-'' (show_nat (nat j))"
    using show_nat_digits [of "nat j"] show_nat_starts [of "nat j"] by (auto simp: is_digit_def prefix_def)
  ultimately show ?thesis by (simp add: bracket_segment_def)
qed

text \<open>What is left of a printed path starts with a dot, a bracket, or is empty.\<close>

definition path_tail :: "string \<Rightarrow> bool" where
  "path_tail s \<longleftrightarrow> s = [] \<or> hd s = CHR ''.'' \<or> hd s = CHR ''[''"

lemma path_loop_key:
  assumes "k \<noteq> []" "CHR ''.'' \<notin> set k" "CHR ''['' \<notin> set k" "path_tail s"
  shows "path_loop (k @ s) = seg_key k # path_loop (TrimPrefix s ''.'')"
proof -
  have tw: "takeWhile (\<lambda>c. c \<noteq> CHR ''.'' \<and> c \<noteq> CHR ''['') (k @ s) = k"
    using assms by (cases s) (auto simp: takeWhile_append path_tail_def)
  obtain c cs where c: "k = c # cs" "c \<noteq> CHR ''[''" using assms by (cases k) auto
  show ?thesis
    using tw c by (subst path_loop.simps) (auto simp: Let_def TrimPrefix_def path_loop.simps [of "[]"])
qed

lemma path_loop_bracket:
  assumes "CHR '']'' \<notin> set body"
  shows "path_loop (''['' @ body @ '']'' @ s) = bracket_segment body # path_loop (TrimPrefix s ''.'')"
proof -
  have "str_index '']'' ((CHR ''['' # body) @ CHR '']'' # s) = Some (Suc (length body))"
    using str_index_char [of "CHR '']''" "CHR ''['' # body" s] assms by simp
  then show ?thesis by (subst path_loop.simps) (simp add: Let_def)
qed

lemma TrimPrefix_dot:
  "TrimPrefix (CHR ''.'' # s) ''.'' = s" "TrimPrefix (CHR ''['' # s) ''.'' = CHR ''['' # s"
  by (simp_all add: TrimPrefix_def)

lemma path_loop_printed:
  "list_all plain_seg segs \<Longrightarrow> path_tail (concat (map print_seg segs))
     \<and> path_loop (TrimPrefix (concat (map print_seg segs)) ''.'') = segs"
proof (induction segs)
  case Nil
  then show ?case by (simp add: path_tail_def TrimPrefix_def path_loop.simps)
next
  case (Cons seg segs)
  let ?s = "concat (map print_seg segs)"
  from Cons have IH: "path_tail ?s" "path_loop (TrimPrefix ?s ''.'') = segs" by auto
  have no: "CHR '']'' \<notin> set (show_nat n)" for n
    using show_nat_digits [of n] by (auto simp: list_all_iff is_digit_def)
  have star: "bracket_segment ''*'' = seg_wildcard" by (simp add: bracket_segment_def)
  show ?case
  proof (cases seg)
    case (seg_key k)
    then show ?thesis using Cons.prems IH path_loop_key [of k ?s] by (simp add: path_tail_def TrimPrefix_dot)
  next
    case seg_wildcard
    then show ?thesis using IH path_loop_bracket [of "''*''" ?s] star by (simp add: path_tail_def TrimPrefix_dot)
  next
    case (seg_index j)
    then show ?thesis
      using Cons.prems IH path_loop_bracket [OF no, of "nat j" ?s] bracket_index [of j]
      by (simp add: path_tail_def TrimPrefix_dot)
  qed (use Cons.prems in simp_all)
qed

lemma parsePath_printed:
  assumes "list_all plain_seg segs" "segs \<noteq> []"
  shows "parsePath (print_path segs) = segs"
proof -
  let ?s = "concat (map print_seg segs)"
  obtain seg segs' where segs: "segs = seg # segs'" using assms(2) by (cases segs) auto
  have "?s \<noteq> []" using assms(1) segs by (cases seg) auto
  moreover have "\<not> prefix ''..'' ?s"
    using assms(1) segs by (cases seg) (auto simp: prefix_def append_eq_Cons_conv)
  moreover have "TrimPrefix (print_path segs) ''$'' = ?s" by (simp add: print_path_def TrimPrefix_def)
  moreover have "path_loop (TrimPrefix ?s ''.'') = segs" using path_loop_printed [OF assms(1)] by simp
  ultimately show ?thesis unfolding parsePath_def Let_def by (auto simp: print_path_def)
qed

section \<open>What redaction hides and keeps\<close>

lemma addressed_Cons:
  "addressed node (st # a) = (case addressed node [st] of None \<Rightarrow> None | Some w \<Rightarrow> addressed w a)"
  by (cases node; cases st) (auto split: option.split)

lemma addressed_mask:
  assumes "\<not> sel []" "addressed node [st] = Some w"
  shows "addressed (mask_where node sel r) (st # a) = addressed (mask_where w (\<lambda>a. sel (st # a)) r) a"
proof (cases node)
  case (VArr xs)
  with assms obtain i where "st = at_idx i" "i < length xs" "xs ! i = w" by (cases st) (auto split: if_splits)
  with assms VArr show ?thesis by (simp add: mask_where_arr)
next
  case (VObj m)
  with assms obtain k where "st = at_key k" "map_of m k = Some w" by (cases st) (auto split: option.splits)
  moreover have "map_of (map (\<lambda>(k, v). (k, f k v)) m) k = map_option (f k) (map_of m k)" for f :: "string \<Rightarrow> any \<Rightarrow> any"
    by (induction m) auto
  ultimately show ?thesis using assms VObj by (simp add: mask_where_obj)
qed (use assms in \<open>cases st; simp\<close>)+

lemma mask_where_hides:
  "addressed node a \<noteq> None \<Longrightarrow> sel a \<Longrightarrow> \<exists>b. prefix b a \<and> sel b \<and> addressed (mask_where node sel r) b = Some r"
proof (induction a arbitrary: node sel)
  case Nil
  then show ?case by (simp add: mask_where_here)
next
  case (Cons st a)
  show ?case
  proof (cases "sel []")
    case True
    then show ?thesis by (intro exI [of _ "[]"]) (simp add: mask_where_here)
  next
    case False
    obtain w where w: "addressed node [st] = Some w" "addressed w a \<noteq> None"
      using Cons.prems(1) addressed_Cons [of node st a] by (cases "addressed node [st]") auto
    obtain b where "prefix b a" "sel (st # b)" "addressed (mask_where w (\<lambda>a. sel (st # a)) r) b = Some r"
      using Cons.IH [OF w(2), of "\<lambda>a. sel (st # a)"] Cons.prems(2) by auto
    then show ?thesis using addressed_mask [of sel node st w r b] False w(1) by (intro exI [of _ "st # b"]) simp
  qed
qed

lemma mask_where_keeps:
  assumes "addressed node a = Some v" "\<And>b. prefix b a \<or> prefix a b \<Longrightarrow> \<not> sel b"
  shows "addressed (mask_where node sel r) a = Some v"
  using assms
proof (induction a arbitrary: node sel)
  case Nil
  then have "sel = (\<lambda>a. False)" by auto
  with Nil show ?case by (simp add: mask_where_False)
next
  case (Cons st a)
  obtain w where w: "addressed node [st] = Some w" "addressed w a = Some v"
    using Cons.prems(1) addressed_Cons [of node st a] by (cases "addressed node [st]") auto
  have "\<not> sel []" using Cons.prems(2) [of "[]"] by simp
  with w Cons.IH [OF w(2), of "\<lambda>a. sel (st # a)"] Cons.prems(2) show ?case by (simp add: addressed_mask)
qed

lemma addressed_via: "addressed node [st] = Some w \<Longrightarrow> addressed node (st # a) = addressed w a"
  by (subst addressed_Cons) simp

lemma selects_addressed: "selects segs node a \<Longrightarrow> addressed node a \<noteq> None"
  by (induction segs node a rule: selects.induct)
    (auto simp: selects.simps seg_step_def addressed_via split: if_splits)

text \<open>The documented paths and what they stand for.\<close>

definition denotes :: "string \<Rightarrow> pathSegment list \<Rightarrow> bool" where
  "denotes path segs \<longleftrightarrow>
     path = ''$'' \<and> segs = [seg_root]
     \<or> (\<exists>key. path = ''$..'' @ key \<and> segs = [seg_recursive key])
     \<or> path = print_path segs \<and> list_all plain_seg segs \<and> segs \<noteq> []"

lemma parsePath_denotes: "denotes path segs \<Longrightarrow> parsePath path = segs"
  by (auto simp: denotes_def parsePath_printed) (auto simp: parsePath_def TrimPrefix_def)

text \<open>
  C25. Redaction by a documented path: the payload is rewritten exactly when the path selects
  something in it. In the stored document every selected value is gone, its place or that of a
  selected value around it holds the mask, and every value that neither contains nor lies in a selected
  one is kept.
\<close>

theorem redaction_masks_selected:
  assumes "json_unmarshal c payload = Ok node" "any_wf node" "payload \<noteq> []"
    and "denotes path segs" "redacted = mask_where node (selects segs node) (VStr msk)"
    and "json_marshal c redacted = Ok out"
  shows "applyJSONPath c payload path msk = (if \<exists>a. selects segs node a then (out, True) else (payload, False))
    \<and> (\<forall>a. selects segs node a \<longrightarrow> (\<exists>b. prefix b a \<and> addressed redacted b = Some (VStr msk)))
    \<and> (\<forall>a v. addressed node a = Some v \<and> (\<forall>b. prefix b a \<or> prefix a b \<longrightarrow> \<not> selects segs node b)
         \<longrightarrow> addressed redacted a = Some v)"
proof (intro conjI allI impI)
  show "applyJSONPath c payload path msk = (if \<exists>a. selects segs node a then (out, True) else (payload, False))"
    using assms walkPath_masks [OF assms(2), of segs "VStr msk"] parsePath_denotes [OF assms(4)]
    by (simp add: applyJSONPath_def)
  show "\<exists>b. prefix b a \<and> addressed redacted b = Some (VStr msk)" if "selects segs node a" for a
    using mask_where_hides [of node a "selects segs node", OF selects_addressed [OF that] that] assms(5) by blast
  show "addressed redacted a = Some v"
    if "addressed node a = Some v \<and> (\<forall>b. prefix b a \<or> prefix a b \<longrightarrow> \<not> selects segs node b)" for a v
    using that mask_where_keeps [of node a v "selects segs node"] assms(5) by blast
qed

definition redact_doc :: any where
  "redact_doc = VObj [(''user'', VObj [(''ssn'', VStr ''123''), (''name'', VStr ''x'')])]"

definition redact_codec :: codec where
  "redact_codec = sample_codec
     \<lparr>json_unmarshal := (\<lambda>b. Ok redact_doc),
      json_marshal := (\<lambda>v. if v = VObj [(''user'', VObj [(''ssn'', VStr ''***''), (''name'', VStr ''x'')])] then Ok ''masked'' else Err ''no'')\<rparr>"

lemma redact_doc_selected:
  "selects [seg_key ''user'', seg_key ''ssn''] redact_doc a \<longleftrightarrow> a = [at_key ''user'', at_key ''ssn'']"
  by (auto simp: redact_doc_def selects_key below_def)

theorem redaction_masks_selected_witness:
  "applyJSONPath redact_codec ''p'' ''$.user.ssn'' ''***'' = (''masked'', True)"
proof -
  let ?segs = "[seg_key ''user'', seg_key ''ssn'']"
  have masked: "mask_where redact_doc (selects ?segs redact_doc) (VStr ''***'') =
      VObj [(''user'', VObj [(''ssn'', VStr ''***''), (''name'', VStr ''x'')])]"
    unfolding redact_doc_selected by (simp add: redact_doc_def mask_where_obj)
  have d: "denotes ''$.user.ssn'' ?segs" by (simp add: denotes_def print_path_def)
  have "any_wf redact_doc" by (simp add: redact_doc_def)
  then show ?thesis
    using redaction_masks_selected [OF _ _ _ d refl, of redact_codec "''p''" redact_doc "''***''" "''masked''"]
    by (auto simp: redact_codec_def masked redact_doc_selected)
qed

end
