(* ===== verification/Dlq_Props.thy ===== *)
theory Dlq_Props
  imports Dlq Redact_Props
begin

text \<open>
  What the dead-letter service guarantees: retries send the original payload, and boundedly often.
  Both follow from one invariant of a row (\<open>tracked\<close>), kept by every operation on the table.
\<close>

lemma retry_payload_update [simp]:
  "retry_payload svc (r\<lparr>row_RetryCount := c, row_LastRetryAt := l\<rparr>) = retry_payload svc r"
  "retry_payload svc (r\<lparr>row_NextRetryAt := n\<rparr>) = retry_payload svc r"
  by (simp_all add: retry_payload_def open_raw_def)

lemma dlq_Get_Ok: "dlq_Get tenantID rid t = Ok r \<Longrightarrow> r \<in> set t \<and> row_is tenantID rid r \<and> tenantID \<noteq> []"
  by (auto simp: dlq_Get_def find_Some_iff split: if_splits option.splits)

lemma Retry_cases:
  assumes "Retry svc env tenantID rid t = (err, t', sends)"
  obtains "t' = t" "sends = []"
  | entry where "tenantID \<noteq> []" "entry \<in> set t" "row_is tenantID rid entry" "row_RetryCount entry < ds_maxRetries svc"
      "t' = snd (IncrementRetry (env_increment env) (env_now env) tenantID rid t)"
      "sends = [] \<or> (\<exists>p ok. sends = [(rid, p, ok)] \<and> retry_payload svc entry = Ok p)"
proof (cases "dlq_Get tenantID rid t")
  case (Inl e)
  with assms show ?thesis using that(1) by (simp add: Retry_def)
next
  case (Inr entry)
  note get = dlq_Get_Ok [OF Inr]
  show ?thesis
  proof (cases "t' = t \<and> sends = []")
    case False
    with assms Inr obtain p where p: "Pipelines_Get env tenantID (row_PipelineID entry) = Ok p"
      "row_RetryCount entry < ds_maxRetries svc"
      "t' = snd (IncrementRetry (env_increment env) (env_now env) tenantID rid t)"
      "sends = snd (retry_send svc env tenantID entry p)"
      by (auto simp: Retry_def Let_def split: if_splits sum.splits prod.splits)
    have "sends = [] \<or> (\<exists>q ok. sends = [(rid, q, ok)] \<and> retry_payload svc entry = Ok q)"
      using p(4) get by (auto simp: retry_send_def row_is_def split: sum.splits option.splits)
    with p get that(2) show ?thesis by blast
  qed (use that(1) in blast)
qed

text \<open>
  What is known of a row during a history: what a retry would send satisfies \<open>Q\<close>, and \<open>n\<close> sends so far
  are accounted for by its retry count, which was \<open>r0\<close>.
\<close>

definition tracked :: "dlq_service \<Rightarrow> string \<Rightarrow> ((dlq_error, bytes) result \<Rightarrow> bool) \<Rightarrow> int \<Rightarrow> int \<Rightarrow> dlq_table \<Rightarrow> bool" where
  "tracked svc rid Q r0 n t \<longleftrightarrow>
     distinct (map row_ID t) \<and> n \<le> max 0 (ds_maxRetries svc - r0)
     \<and> (\<forall>r\<in>set t. row_ID r = rid \<longrightarrow>
          Q (retry_payload svc r) \<and> n \<le> row_RetryCount r - r0 \<and> row_RetryCount r \<le> max r0 (ds_maxRetries svc))"

definition sends_of :: "string \<Rightarrow> dlq_send list \<Rightarrow> int" where
  "sends_of rid sends = int (length (filter (\<lambda>(i, p, ok). i = rid) sends))"

lemma sends_of_append [simp]: "sends_of rid (s @ s') = sends_of rid s + sends_of rid s'"
  by (simp add: sends_of_def)

lemma sends_of_Nil [simp]: "sends_of rid [] = 0"
  by (simp add: sends_of_def)

lemma tracked_filter: "tracked svc rid Q r0 n t \<Longrightarrow> tracked svc rid Q r0 n (filter P t)"
  by (auto simp: tracked_def distinct_map_filter)

lemma tracked_map:
  assumes "tracked svc rid Q r0 n t"
    and "\<And>r. r \<in> set t \<Longrightarrow> row_ID (f r) = row_ID r"
    and "\<And>r. r \<in> set t \<Longrightarrow> row_ID r = rid \<Longrightarrow>
      retry_payload svc (f r) = retry_payload svc r \<and> row_RetryCount (f r) = row_RetryCount r"
  shows "tracked svc rid Q r0 n (map f t)"
proof -
  have "map row_ID (map f t) = map row_ID t" using assms(2) by simp
  with assms show ?thesis unfolding tracked_def by (auto simp del: map_map)
qed

lemma tracked_schedule: "tracked svc rid Q r0 n t \<Longrightarrow> tracked svc rid Q r0 n (snd (ScheduleRetry db ten i nxt t))"
  by (auto simp: ScheduleRetry_def dlq_update_def split: option.splits intro!: tracked_map)

lemma increment_Some:
  assumes "r \<in> set t" "row_is ten i r" "ten \<noteq> []"
  shows "snd (IncrementRetry None now ten i t) =
    map (\<lambda>r. if row_is ten i r then r\<lparr>row_RetryCount := row_RetryCount r + 1, row_LastRetryAt := Some now\<rparr> else r) t"
  using assms by (auto simp: IncrementRetry_def dlq_update_def)

lemma same_row:
  "distinct (map row_ID t) \<Longrightarrow> r \<in> set t \<Longrightarrow> r' \<in> set t \<Longrightarrow> row_ID r = row_ID r' \<Longrightarrow> r = r'"
  by (auto simp: distinct_map inj_on_def)

lemma tracked_Retry:
  assumes "tracked svc rid Q r0 n t" "env_increment env = None" "Retry svc env ten i t = (err, t', sends)"
  shows "tracked svc rid Q r0 (n + sends_of rid sends) t' \<and> (\<forall>(j, p, ok)\<in>set sends. j = rid \<longrightarrow> Q (Ok p))"
  using assms(3)
proof (cases rule: Retry_cases)
  case 1
  with assms(1) show ?thesis by simp
next
  case (2 entry)
  let ?inc = "\<lambda>r. if row_is ten i r then r\<lparr>row_RetryCount := row_RetryCount r + 1, row_LastRetryAt := Some (env_now env)\<rparr> else r"
  have t': "t' = map ?inc t" using 2(5) assms(2) increment_Some [OF 2(2,3,1)] by simp
  show ?thesis
  proof (cases "i = rid")
    case False
    then have "sends_of rid sends = 0" using 2(6) by (auto simp: sends_of_def)
    moreover have "tracked svc rid Q r0 n t'"
      unfolding t' using assms(1) False by (intro tracked_map) (auto simp: row_is_def)
    ultimately show ?thesis using 2(6) False by auto
  next
    case True
    have r: "Q (retry_payload svc entry)" "n \<le> row_RetryCount entry - r0" "row_ID entry = rid"
      using assms(1) 2(2,3) True by (auto simp: tracked_def row_is_def)
    have s: "0 \<le> sends_of rid sends" "sends_of rid sends \<le> 1" using 2(6) by (auto simp: sends_of_def)
    have ids: "map row_ID t' = map row_ID t" unfolding t' by simp
    have only: "r = ?inc entry" if q: "r \<in> set t'" "row_ID r = rid" for r
    proof -
      obtain r1 where r1: "r1 \<in> set t" "r = ?inc r1" using q(1) t' by auto
      then have "row_ID r1 = rid" using q(2) by (auto split: if_splits)
      with r1 same_row [OF _ r1(1) 2(2)] assms(1) r(3) show ?thesis by (simp add: tracked_def)
    qed
    have new: "Q (retry_payload svc (?inc entry))" "row_RetryCount (?inc entry) = row_RetryCount entry + 1"
      using r(1) 2(3) by simp_all
    have "tracked svc rid Q r0 (n + sends_of rid sends) t'"
      unfolding tracked_def ids
    proof (intro conjI ballI impI)
      show "distinct (map row_ID t)" using assms(1) by (simp add: tracked_def)
      show "n + sends_of rid sends \<le> max 0 (ds_maxRetries svc - r0)" using r(2) s(2) 2(4) by linarith
      fix q assume "q \<in> set t'" "row_ID q = rid"
      then have q: "q = ?inc entry" by (rule only)
      show "Q (retry_payload svc q)" using q new(1) by simp
      show "n + sends_of rid sends \<le> row_RetryCount q - r0" using q new(2) r(2) s(2) by simp
      show "row_RetryCount q \<le> max r0 (ds_maxRetries svc)" using q new(2) 2(4) by simp
    qed
    then show ?thesis using 2(6) r(1) by auto
  qed
qed

text \<open>A history keeps track of the row while its statements succeed and nobody pushes its id again.\<close>

abbreviation faithful :: "((dlq_error, bytes) result \<Rightarrow> bool) \<Rightarrow> string \<Rightarrow> dlq_send list \<Rightarrow> bool" where
  "faithful Q rid sends \<equiv> \<forall>(j, p, ok)\<in>set sends. j = rid \<longrightarrow> Q (Ok p)"

lemma tracked_attemptOne:
  assumes "tracked svc rid Q r0 n t" "env_increment env = None" "attemptOne svc env jitter entry t = (t', sends)"
  shows "tracked svc rid Q r0 (n + sends_of rid sends) t' \<and> faithful Q rid sends"
proof -
  let ?ten = "if row_TenantID entry = [] then DefaultTenantID else row_TenantID entry"
  obtain err t1 s where r: "Retry svc env ?ten (row_ID entry) t = (err, t1, s)" by (metis prod_cases3)
  then obtain nxt where "t' = snd (ScheduleRetry (env_schedule env) ?ten (row_ID entry) nxt t1)" "sends = s"
    using assms(3) by (auto simp: attemptOne_def Let_def split: if_splits)
  then show ?thesis using tracked_Retry [OF assms(1,2) r] tracked_schedule by simp
qed

lemma tracked_reap:
  "tracked svc rid Q r0 n t \<Longrightarrow> \<forall>(env, j)\<in>set envs. env_increment env = None \<Longrightarrow> reap_loop svc envs rows t = (t', sends)
     \<Longrightarrow> tracked svc rid Q r0 (n + sends_of rid sends) t' \<and> faithful Q rid sends"
proof (induction svc envs rows t arbitrary: n t' sends rule: reap_loop.induct)
  case (1 svc env jitter envs entry rows t)
  obtain t1 s where a: "attemptOne svc env jitter entry t = (t1, s)" by (metis surj_pair)
  obtain t2 s' where b: "reap_loop svc envs rows t1 = (t2, s')" by (metis surj_pair)
  have i: "tracked svc rid Q r0 (n + sends_of rid s) t1 \<and> faithful Q rid s"
    using tracked_attemptOne [OF 1(2) _ a] 1(3) by simp
  have "tracked svc rid Q r0 (n + sends_of rid s + sends_of rid s') t2 \<and> faithful Q rid s'"
    using 1(1) [OF a [symmetric] refl, of "n + sends_of rid s" t2 s'] i b 1(3) by simp
  with i a b 1(4) show ?case by (auto simp: add.assoc)
qed auto

lemma tracked_Delete: "tracked svc rid Q r0 n t \<Longrightarrow> tracked svc rid Q r0 n (snd (dlq_Delete db ten i t))"
  by (auto simp: dlq_Delete_def tracked_filter split: option.splits)

lemma tracked_bulk:
  "tracked svc rid Q r0 n t \<Longrightarrow> \<forall>env\<in>set envs. env_increment env = None \<Longrightarrow> bulk_loop svc ten envs rids out t = (res, t', sends)
     \<Longrightarrow> tracked svc rid Q r0 (n + sends_of rid sends) t' \<and> faithful Q rid sends"
proof (induction svc ten envs rids out t arbitrary: n res t' sends rule: bulk_loop.induct)
  case (3 svc ten env envs i rids out t)
  obtain err t1 s where r: "Retry svc env ten i t = (err, t1, s)" by (metis prod_cases3)
  have i: "tracked svc rid Q r0 (n + sends_of rid s) t1 \<and> faithful Q rid s"
    using tracked_Retry [OF 3(2) _ r] 3(3) by simp
  obtain out' t2 where o: "(case err of
             Some e \<Rightarrow> (out\<lparr>br_Failed := br_Failed out + 1, br_Failures := AList.update i e (br_Failures out)\<rparr>, t1)
           | None \<Rightarrow> (out\<lparr>br_Succeeded := br_Succeeded out + 1\<rparr>, snd (dlq_Delete (env_delete env) ten i t1))) = (out', t2)"
    by (metis surj_pair)
  then have "tracked svc rid Q r0 (n + sends_of rid s) t2" using i tracked_Delete by (auto split: option.splits)
  moreover obtain res' t3 s' where b: "bulk_loop svc ten envs rids out' t2 = (res', t3, s')" by (metis prod_cases3)
  ultimately have "tracked svc rid Q r0 (n + sends_of rid s + sends_of rid s') t3 \<and> faithful Q rid s'"
    using 3(1) [OF r [symmetric] refl refl o [symmetric] refl, of "n + sends_of rid s" res' t3 s'] 3(3) by simp
  with i r o b 3(4) show ?case by (auto simp: add.assoc)
qed auto


lemma schedule_first_fields:
  "row_ID (schedule_first svc env e) = row_ID e" "row_PipelineID (schedule_first svc env e) = row_PipelineID e"
  "row_OriginalMsg (schedule_first svc env e) = row_OriginalMsg e" "row_RawMsg (schedule_first svc env e) = row_RawMsg e"
  "row_Redacted (schedule_first svc env e) = row_Redacted e" "row_RetryCount (schedule_first svc env e) = row_RetryCount e"
  by (simp_all add: schedule_first_def Let_def split: option.split)

lemma fingerprint_entry_fields:
  "row_ID (fingerprint_entry env e) = row_ID e" "row_PipelineID (fingerprint_entry env e) = row_PipelineID e"
  "row_OriginalMsg (fingerprint_entry env e) = row_OriginalMsg e" "row_RawMsg (fingerprint_entry env e) = row_RawMsg e"
  "row_Redacted (fingerprint_entry env e) = row_Redacted e" "row_RetryCount (fingerprint_entry env e) = row_RetryCount e"
  by (simp_all add: fingerprint_entry_def Let_def)

lemma redact_entry_fields:
  "row_ID (redact_entry svc env e) = row_ID e" "row_PipelineID (redact_entry svc env e) = row_PipelineID e"
  "row_RetryCount (redact_entry svc env e) = row_RetryCount e"
  by (simp_all add: redact_entry_def applyRedaction_def split: sum.split prod.split)

text \<open>Redaction leaves the payload alone, or seals it and replaces it.\<close>

lemma redact_entry_cases:
  obtains "redact_entry svc env e = e"
  | sealed redacted where "Encrypt (env_rnd env) (ds_sealer svc) (row_OriginalMsg e) = Ok sealed" "row_OriginalMsg e \<noteq> []"
      "Enabled (ds_sealer svc)"
      "redact_entry svc env e = e\<lparr>row_RawMsg := sealed, row_OriginalMsg := redacted, row_Redacted := True\<rparr>"
  by (cases "redact_entry svc env e = e")
    (auto simp: redact_entry_def applyRedaction_def split: sum.splits prod.splits if_splits)

lemmas entry_fields = schedule_first_fields fingerprint_entry_fields redact_entry_fields

lemma Push_Ok:
  assumes "Push svc env uuid e t = Ok t'"
  obtains r where "t' = t @ [r]" "row_ID r \<notin> row_ID ` set t"
    "row_ID r = (if row_ID e = [] then uuid else row_ID e)"
    "row_TenantID r = (if row_TenantID e = [] then DefaultTenantID else row_TenantID e)"
    "row_PipelineID r = row_PipelineID e" "row_RetryCount r = row_RetryCount e"
    "row_RawMsg r = row_RawMsg (redact_entry svc env (schedule_first svc env e))"
    "row_OriginalMsg r = row_OriginalMsg (redact_entry svc env (schedule_first svc env e))"
    "row_Redacted r = row_Redacted (redact_entry svc env (schedule_first svc env e))"
  using assms by (auto simp: Push_def dlq_Insert_def Let_def entry_fields split: if_splits option.splits)

lemma tracked_Push:
  assumes "tracked svc rid Q r0 n t" "Push svc env uuid entry t = Ok t'" "rid \<noteq> (if row_ID entry = [] then uuid else row_ID entry)"
  shows "tracked svc rid Q r0 n t'"
  using assms(2) by (rule Push_Ok) (use assms(1,3) in \<open>auto simp: tracked_def\<close>)

text \<open>The sealed payload opens again under every later key ring.\<close>

lemma Push_payload:
  assumes "Push svc env uuid e t = Ok t'" "service_ok (ds_sealer svc)" "rnd_ok (env_rnd env)"
    and "sealable (row_OriginalMsg e)" "row_RawMsg e = []" "\<not> row_Redacted e"
    and "keeps_keys (ds_sealer svc) (ds_sealer svc')"
  obtains r where "t' = t @ [r]" "row_ID r \<notin> row_ID ` set t"
    "row_ID r = (if row_ID e = [] then uuid else row_ID e)" "row_RetryCount r = row_RetryCount e"
    "row_PipelineID r = row_PipelineID e" "row_TenantID r = (if row_TenantID e = [] then DefaultTenantID else row_TenantID e)"
    "retry_payload svc' r = Ok (row_OriginalMsg e)"
  using assms(1)
proof (rule Push_Ok)
  fix r
  let ?e = "schedule_first svc env e"
  assume r: "t' = t @ [r]" "row_ID r \<notin> row_ID ` set t" "row_ID r = (if row_ID e = [] then uuid else row_ID e)"
    "row_RetryCount r = row_RetryCount e" "row_PipelineID r = row_PipelineID e"
    "row_TenantID r = (if row_TenantID e = [] then DefaultTenantID else row_TenantID e)"
    "row_RawMsg r = row_RawMsg (redact_entry svc env ?e)"
    "row_OriginalMsg r = row_OriginalMsg (redact_entry svc env ?e)"
    "row_Redacted r = row_Redacted (redact_entry svc env ?e)"
  have "retry_payload svc' r = Ok (row_OriginalMsg e)"
  proof (cases svc env ?e rule: redact_entry_cases)
    case 1
    then show ?thesis using r assms(5,6) by (simp add: retry_payload_def entry_fields)
  next
    case (2 sealed redacted)
    then have "Decrypt (ds_sealer svc') sealed = Ok (row_OriginalMsg e)"
      using ring.decrypt_encrypt [OF assms(2,3,4) _ assms(7)] by (simp add: entry_fields)
    moreover have "Enabled (ds_sealer svc')" using rotations_enabled [OF assms(7)] 2(3) by simp
    moreover from calculation have "sealed \<noteq> []" using 2(2) by (auto simp: Decrypt_def EncryptedPrefix_def entry_fields)
    ultimately show ?thesis using r 2(4) by (simp add: retry_payload_def open_raw_def)
  qed
  with r that show thesis by blast
qed

text \<open>Operations whose increments succeed and that do not push the row's id again.\<close>

fun op_ok :: "string \<Rightarrow> dlq_op \<Rightarrow> bool" where
  "op_ok rid (OpPush env uuid e) \<longleftrightarrow> rid \<noteq> (if row_ID e = [] then uuid else row_ID e)"
| "op_ok rid (OpRetry env ten i) \<longleftrightarrow> env_increment env = None"
| "op_ok rid (OpBulkRetry like ten f n envs) \<longleftrightarrow> (\<forall>env\<in>set envs. env_increment env = None)"
| "op_ok rid (OpReap now n envs) \<longleftrightarrow> (\<forall>(env, j)\<in>set envs. env_increment env = None)"
| "op_ok rid _ \<longleftrightarrow> True"

lemma tracked_step:
  assumes "tracked svc rid Q r0 n t" "op_ok rid op" "dlq_step svc op t = (t', sends)"
  shows "tracked svc rid Q r0 (n + sends_of rid sends) t' \<and> faithful Q rid sends"
proof (cases op)
  case (OpPush env uuid e)
  with assms show ?thesis using tracked_Push by (cases "Push svc env uuid e t") auto
next
  case (OpRetry env ten i)
  with assms tracked_Retry [OF assms(1), of env ten i] show ?thesis by (cases "Retry svc env ten i t") auto
next
  case (OpBulkRetry like ten f k envs)
  with assms show ?thesis
    using tracked_bulk [OF assms(1), of envs ten]
    by (cases "BulkRetry svc like ten f k envs t") (auto simp: BulkRetry_def split: sum.splits)
next
  case (OpReap now k envs)
  with assms tracked_reap [OF assms(1), of envs] show ?thesis by (simp add: reapOnce_def)
next
  case (OpDelete db ten i)
  with assms tracked_Delete show ?thesis by auto
next
  case (OpBulkDelete like ten f k)
  with assms tracked_filter show ?thesis
    by (auto simp: BulkDelete_def DeleteByFilter_def Let_def split: sum.splits prod.splits)
next
  case (OpSweep a k now x y)
  with assms tracked_filter show ?thesis
    by (auto simp: sweep_def PruneOlderThan_def PruneToMaxRows_def Let_def)
qed

lemma tracked_run:
  "tracked svc rid Q r0 n t \<Longrightarrow> list_all (op_ok rid) ops \<Longrightarrow> dlq_run svc ops t = (t', sends)
     \<Longrightarrow> tracked svc rid Q r0 (n + sends_of rid sends) t' \<and> faithful Q rid sends"
proof (induction ops arbitrary: n t t' sends)
  case (Cons op ops)
  obtain t1 s where a: "dlq_step svc op t = (t1, s)" by (metis surj_pair)
  obtain t2 s' where b: "dlq_run svc ops t1 = (t2, s')" by (metis surj_pair)
  have i: "tracked svc rid Q r0 (n + sends_of rid s) t1 \<and> faithful Q rid s"
    using tracked_step [OF Cons.prems(1) _ a] Cons.prems(2) by simp
  with Cons.IH [of "n + sends_of rid s" t1 t2 s'] b Cons.prems(2)
  have "tracked svc rid Q r0 (n + sends_of rid s + sends_of rid s') t2 \<and> faithful Q rid s'" by simp
  with i a b Cons.prems(3) show ?case by (auto simp: add.assoc)
qed simp

lemma tracked_start:
  assumes "distinct (map row_ID t)" "r \<in> set t" "Q (retry_payload svc r)"
  shows "tracked svc (row_ID r) Q (row_RetryCount r) 0 t"
proof -
  have "q = r" if "q \<in> set t" "row_ID q = row_ID r" for q using same_row assms(1,2) that by blast
  with assms(1,3) show ?thesis unfolding tracked_def by fastforce
qed

lemma find_snoc: "\<forall>x\<in>set t. \<not> P x \<Longrightarrow> P r \<Longrightarrow> List.find P (t @ [r]) = Some r"
  by (induction t) auto

lemma Retry_sends:
  assumes "dlq_Get tenant rid t = Ok r" "retry_payload svc r = Ok payload" "row_RetryCount r < ds_maxRetries svc"
    and "row_PipelineID r \<noteq> []" "Pipelines_Get env tenant (row_PipelineID r) = Ok p"
    and "Connections_Get env tenant (pp_DestinationID p) = Ok cfg" "env_pool env (''dlq-retry-'' @ rid) cfg = None"
  shows "snd (snd (Retry svc env tenant rid t)) = [(rid, payload, env_send env cfg payload = None)]"
  using assms dlq_Get_Ok [OF assms(1)]
  by (auto simp: Retry_def retry_send_def Let_def row_is_def split: prod.split option.split)

text \<open>
  C24. However retries by operators, bulk retries, the reaper, pushes of other rows, deletions and
  retention sweeps follow one another, a row is sent at most as often as the service's retry limit
  leaves: with \<open>maxRetries\<close> of the service, whatever the \<open>retry_max\<close> of its pipeline says. This holds
  as long as every statement that counts an attempt succeeds and no row is pushed again under the same
  id: the service only logs a failed count and sends nevertheless, so that attempts whose count
  fails are not bounded.
\<close>

theorem dlq_retries_bounded:
  assumes "distinct (map row_ID t)" "r \<in> set t" "list_all (op_ok (row_ID r)) ops"
    and "dlq_run svc ops t = (t', sends)"
  shows "sends_of (row_ID r) sends \<le> max 0 (ds_maxRetries svc - row_RetryCount r)"
  using tracked_run [OF tracked_start [OF assms(1,2), of "\<lambda>_. True"] assms(3,4)] by (simp add: tracked_def)

text \<open>
  C23. Whatever redaction rules a pipeline has, every retry of a dead-lettered message that does not
  start with the ciphertext prefix \<open>enc:\<close> sends the original bytes, straight to the destination, also
  after key rotations and any history of operations on the queue (in which the row's attempts are
  counted and its id is not pushed again); and a retry whose lookups succeed does send them. The entry
  is one the executor pushes, not yet redacted, and the keys the row was sealed under are still on
  the ring.
\<close>

theorem dlq_retries_original:
  assumes "Push svc env uuid e t = Ok t'" "distinct (map row_ID t)" "rid = (if row_ID e = [] then uuid else row_ID e)"
    and "tenant = (if row_TenantID e = [] then DefaultTenantID else row_TenantID e)"
    and "service_ok (ds_sealer svc)" "rnd_ok (env_rnd env)" "keeps_keys (ds_sealer svc) (ds_sealer svc')"
    and "sealable (row_OriginalMsg e)" "row_RawMsg e = []" "\<not> row_Redacted e"
    and "list_all (op_ok rid) ops" "dlq_run svc' ops t' = (t'', sends)"
  shows "(\<forall>(i, payload, ok)\<in>set sends. i = rid \<longrightarrow> payload = row_OriginalMsg e)
    \<and> (\<forall>env' p cfg. row_PipelineID e \<noteq> [] \<and> row_RetryCount e < ds_maxRetries svc'
         \<and> Pipelines_Get env' tenant (row_PipelineID e) = Ok p \<and> Connections_Get env' tenant (pp_DestinationID p) = Ok cfg
         \<and> env_pool env' (''dlq-retry-'' @ rid) cfg = None
         \<longrightarrow> snd (snd (Retry svc' env' tenant rid t')) = [(rid, row_OriginalMsg e, env_send env' cfg (row_OriginalMsg e) = None)])"
proof -
  obtain r where r: "t' = t @ [r]" "row_ID r \<notin> row_ID ` set t" "row_ID r = rid" "row_RetryCount r = row_RetryCount e"
    "row_PipelineID r = row_PipelineID e" "row_TenantID r = tenant" "retry_payload svc' r = Ok (row_OriginalMsg e)"
    using Push_payload [OF assms(1,5,6,8,9,10,7)] assms(3,4) by metis
  have "tracked svc' rid (\<lambda>p. p = Ok (row_OriginalMsg e)) (row_RetryCount e) 0 t'"
    using tracked_start [of t' r "\<lambda>p. p = Ok (row_OriginalMsg e)" svc'] assms(2) r by auto
  note run = tracked_run [OF this assms(11,12)]
  have "tenant \<noteq> []" using assms(4) by (auto simp: DefaultTenantID_def)
  moreover have "\<forall>x\<in>set t. \<not> row_is tenant rid x" using r(2,3) unfolding row_is_def by (metis imageI)
  then have "List.find (row_is tenant rid) (t @ [r]) = Some r" using r(3,6) by (intro find_snoc) (auto simp: row_is_def)
  ultimately have get: "dlq_Get tenant rid t' = Ok r" using r(1) by (simp add: dlq_Get_def)
  from run Retry_sends [OF get r(7)] r show ?thesis by auto
qed

text \<open>
  When counting fails, the table stays as it is and the message is sent: as often as the row is
  retried.
\<close>

lemma Retry_uncounted:
  "env_increment env = Some msg \<Longrightarrow> fst (snd (Retry svc env tenant rid t)) = t"
  by (auto simp: Retry_def Let_def IncrementRetry_def dlq_update_def split: sum.split prod.split)

lemma dlq_retries_uncounted:
  assumes "dlq_Get tenant rid t = Ok r" "retry_payload svc r = Ok payload" "row_RetryCount r < ds_maxRetries svc"
    and "row_PipelineID r \<noteq> []" "Pipelines_Get env tenant (row_PipelineID r) = Ok p"
    and "Connections_Get env tenant (pp_DestinationID p) = Ok cfg" "env_pool env (''dlq-retry-'' @ rid) cfg = None"
    and "env_increment env = Some msg"
  shows "dlq_run svc (replicate k (OpRetry env tenant rid)) t = (t, replicate k (rid, payload, env_send env cfg payload = None))"
proof -
  have "\<exists>err. Retry svc env tenant rid t = (err, t, [(rid, payload, env_send env cfg payload = None)])"
    using Retry_sends [OF assms(1-7)] Retry_uncounted [OF assms(8)] by (metis prod.collapse)
  then show ?thesis by (induction k) auto
qed


section \<open>An example\<close>

definition demo_env :: dlq_env where
  "demo_env =
     \<lparr>env_now = 0,
      env_pipelines = [(''p'', \<lparr>pp_TenantID = ''t'', pp_RetryMax = 0, pp_RetryBackoffMs = 0, pp_DestinationID = ''d''\<rparr>)],
      env_connections = (\<lambda>ten cid. Some 7),
      env_rules = (\<lambda>p. Ok [\<lparr>rr_RuleKind = ''regex'', rr_Pattern = ''.*'', rr_MaskReplace = [], rr_Enabled = True\<rparr>]),
      env_pool = (\<lambda>k cfg. None), env_send = (\<lambda>cfg payload. None),
      env_insert = None, env_increment = None, env_schedule = None, env_delete = None,
      env_codec = sample_codec\<lparr>regexp_ReplaceAll := (\<lambda>p s m. Ok m)\<rparr>,
      env_rnd = (\<lambda>n. Some (replicate n (CHR ''n''))), env_re_replace = (\<lambda>p s m. s), env_like = (\<lambda>p s. True)\<rparr>"

definition demo_entry :: "string \<Rightarrow> bytes \<Rightarrow> dlq_row" where
  "demo_entry rid payload =
     \<lparr>row_ID = rid, row_TenantID = ''t'', row_PipelineID = ''p'', row_SourceQueue = [], row_OriginalMsg = payload,
      row_RawMsg = [], row_Redacted = False, row_ErrorReason = [], row_RetryCount = 0, row_LastRetryAt = None,
      row_NextRetryAt = None, row_ErrorFingerprint = [], row_ErrorTemplate = [], row_FailingStageName = [],
      row_FailingStageIndex = 0, row_CreatedAt = 0\<rparr>"

definition demo_dlq :: dlq_service where
  "demo_dlq = NewService 0 (Some demo_service)"

lemma demo_push: "\<exists>t. Push demo_dlq demo_env ''u'' (demo_entry [] payload) [] = Ok t"
  by (simp add: Push_def dlq_Insert_def Let_def DefaultTenantID_def demo_env_def demo_entry_def entry_fields)

lemma demo_service_ok: "service_ok (Some demo_service)"
  using NewWithKeys_inv [OF demo_service_new] demo_gcm_ok by (auto simp: service_ok_def)

theorem dlq_retries_original_witness:
  "\<exists>t. Push demo_dlq demo_env ''u'' (demo_entry [] ''secret'') [] = Ok t
     \<and> snd (snd (Retry demo_dlq demo_env ''t'' ''u'' t)) = [(''u'', ''secret'', True)]"
proof -
  obtain t where t: "Push demo_dlq demo_env ''u'' (demo_entry [] ''secret'') [] = Ok t" using demo_push by blast
  have "rnd_ok (env_rnd demo_env)" by (simp add: rnd_ok_def demo_env_def)
  moreover have "service_ok (ds_sealer demo_dlq)" "keeps_keys (ds_sealer demo_dlq) (ds_sealer demo_dlq)"
    using demo_service_ok keeps_keys_refl by (simp_all add: demo_dlq_def NewService_def)
  ultimately show ?thesis
    using dlq_retries_original [OF t, of "''u''" "''t''" demo_dlq "[]" t "[]"] t
    by (simp add: demo_entry_def sealable_def EncryptedPrefix_def demo_dlq_def NewService_def Pipelines_Get_def
        Connections_Get_def demo_env_def)
qed

theorem dlq_retries_bounded_witness:
  "sends_of ''u'' (snd (dlq_run demo_dlq (replicate 5 (OpRetry demo_env ''t'' ''u'')) [demo_entry ''u'' ''m''])) \<le> 3"
proof -
  let ?ops = "replicate 5 (OpRetry demo_env ''t'' ''u'')"
  have "list_all (op_ok ''u'') ?ops" by (simp add: list_all_iff demo_env_def)
  moreover have "row_ID (demo_entry ''u'' ''m'') = ''u''" "row_RetryCount (demo_entry ''u'' ''m'') = 0"
    by (simp_all add: demo_entry_def)
  moreover have "ds_maxRetries demo_dlq = 3" by (simp add: demo_dlq_def NewService_def)
  moreover obtain t sends where "dlq_run demo_dlq ?ops [demo_entry ''u'' ''m''] = (t, sends)" by (metis surj_pair)
  ultimately show ?thesis
    using dlq_retries_bounded [of "[demo_entry ''u'' ''m'']" "demo_entry ''u'' ''m''" ?ops demo_dlq t sends] by simp
qed


section \<open>The backoff\<close>

text \<open>The delay is capped at ten minutes, and exponential for the base delays the API accepts.\<close>

lemma backoffDelay_bounds: "0 \<le> backoffDelay attempt baseMs \<and> backoffDelay attempt baseMs \<le> 600000 * 1000000"
  by (simp add: backoffDelay_def Let_def)

lemma backoffDelay_exact:
  assumes "0 < baseMs" "baseMs \<le> 600000" "0 \<le> attempt" "attempt \<le> 30"
  shows "backoffDelay attempt baseMs = min 600000 (baseMs * 2 ^ nat attempt) * 1000000"
proof -
  have "(2::int) ^ nat attempt \<le> 2 ^ 30" using assms(4) by (intro power_increasing) auto
  then have "baseMs * 2 ^ nat attempt \<le> 600000 * 2 ^ 30" using assms(1,2) by (intro mult_mono) auto
  moreover have pos: "0 < baseMs * 2 ^ nat attempt" using assms(1) by (intro mult_pos_pos) auto
  ultimately have "int64 (baseMs * 2 ^ nat attempt) = baseMs * 2 ^ nat attempt"
    by (intro int64_id) auto
  moreover have "\<not> baseMs * 2 ^ nat attempt < 0" using pos by linarith
  ultimately show ?thesis using assms unfolding backoffDelay_def Let_def by (auto simp: min_def)
qed

text \<open>A row whose pipeline is gone is put back on the schedule each time, its count unchanged.\<close>

lemma orphan_rescheduled:
  assumes "Retry svc env (row_TenantID e) (row_ID e) t = (Some (PipelineLookup ErrNotFound), t', sends)"
    and "row_TenantID e \<noteq> []" "env_schedule env = None" "row_is (row_TenantID e) (row_ID e) r" "r \<in> set t"
  shows "\<exists>nxt. r\<lparr>row_NextRetryAt := Some nxt\<rparr> \<in> set (fst (attemptOne svc env jitter e t)) \<and> sends = []"
proof -
  have t': "t' = t" "sends = []"
    using assms(1) by (auto simp: Retry_def retry_send_def Let_def retry_payload_def open_raw_def
        split: sum.splits if_splits prod.splits option.splits)
  show ?thesis
    using assms t' by (auto simp: attemptOne_def Let_def ScheduleRetry_def dlq_update_def intro!: rev_image_eqI [OF assms(5)])
qed

end
