(* ===== verification/Leadership.thy ===== *)
theory Leadership
  imports Encodings
begin

text \<open>
  The leadership lease of \<open>internal/leadership/leadership.go\<close>: the one-row table, the
  conditional upsert by which a replica claims or renews it, the flag \<open>IsLeader\<close> and the
  channel of role changes, and then any number of replicas on one database, interleaved at the
  points where a replica reads its clock, runs its statement and acts on the outcome.
\<close>

section \<open>Data\<close>

datatype Dialect = DialectSQLite | DialectPostgres

record State =
  Self :: string
  Holder :: string
  IsLeader :: bool
  Expires :: time

record Lease =
  ls_id :: string
  ls_ttl :: duration
  ls_dialect :: Dialect
  ls_isLeader :: bool
  ls_state :: State
  ls_onChange :: "State list"

text \<open>
  The row with \<open>id = 1\<close> of the table \<open>leadership\<close>; \<open>None\<close> is the empty table. Timestamps
  compare in the order of time.
\<close>

record lrow =
  holder :: string
  expires_at :: time
  generation :: int

type_synonym ltable = "lrow option"

definition second :: duration where "second = 1000000000"
definition millisecond :: duration where "millisecond = 1000000"

text \<open>\<open>zero\<close> is Go's zero \<open>time.Time\<close>.\<close>

definition NewWithDialect :: "time \<Rightarrow> string \<Rightarrow> duration \<Rightarrow> Dialect \<Rightarrow> Lease" where
  "NewWithDialect zero i ttl dialect =
     \<lparr>ls_id = i, ls_ttl = (if ttl \<le> 0 then 30 * second else ttl), ls_dialect = dialect,
      ls_isLeader = False,
      ls_state = \<lparr>Self = [], Holder = [], IsLeader = False, Expires = zero\<rparr>,
      ls_onChange = []\<rparr>"

definition Snapshot :: "Lease \<Rightarrow> State" where
  "Snapshot l = (ls_state l)\<lparr>IsLeader := ls_isLeader l, Self := ls_id l\<rparr>"

text \<open>The channel holds eight states; a full channel drops the emission.\<close>

definition emit :: "State \<Rightarrow> Lease \<Rightarrow> Lease" where
  "emit s l = (if length (ls_onChange l) < 8 then l\<lparr>ls_onChange := ls_onChange l @ [s]\<rparr> else l)"

definition demote :: "Lease \<Rightarrow> Lease" where
  "demote l = (let l' = l\<lparr>ls_isLeader := False\<rparr> in
     if ls_isLeader l then emit (Snapshot l') l' else l')"

section \<open>Placeholders of the two dialects\<close>

text \<open>
  \<open>rewrite\<close>: a question mark outside quotes becomes \<open>$1\<close>, \<open>$2\<close> and so on. The state is
  \<open>(inSingle, inDouble, idx)\<close>.
\<close>

fun rewrite_loop :: "bool \<Rightarrow> bool \<Rightarrow> nat \<Rightarrow> string \<Rightarrow> string" where
  "rewrite_loop inSingle inDouble idx [] = []"
| "rewrite_loop inSingle inDouble idx (c # cs) =
     (if c = CHR 0x27 \<and> \<not> inDouble then c # rewrite_loop (\<not> inSingle) inDouble idx cs
      else if c = CHR 0x22 \<and> \<not> inSingle then c # rewrite_loop inSingle (\<not> inDouble) idx cs
      else if c = CHR ''?'' \<and> \<not> inSingle \<and> \<not> inDouble
        then CHR ''$'' # show_nat idx @ rewrite_loop inSingle inDouble (idx + 1) cs
      else c # rewrite_loop inSingle inDouble idx cs)"

definition rewrite :: "Dialect \<Rightarrow> string \<Rightarrow> string" where
  "rewrite dialect sql =
     (if dialect \<noteq> DialectPostgres then sql else rewrite_loop False False 1 sql)"

section \<open>Statements\<close>

text \<open>
  The statement of \<open>attempt\<close>: insert the row, or on conflict overwrite it where we hold it
  already or where it has expired. The second component is \<open>RowsAffected\<close>.
\<close>

definition upsert_lease :: "string \<Rightarrow> time \<Rightarrow> time \<Rightarrow> ltable \<Rightarrow> ltable \<times> nat" where
  "upsert_lease me newExpires now tbl =
     (case tbl of
        None \<Rightarrow> (Some \<lparr>holder = me, expires_at = newExpires, generation = 1\<rparr>, 1)
      | Some r \<Rightarrow>
          if holder r = me \<or> expires_at r < now
          then (Some \<lparr>holder = me, expires_at = newExpires, generation = generation r + 1\<rparr>, 1)
          else (Some r, 0))"

text \<open>
  How the database answers during one attempt. \<open>lock\<close> is the answer of
  \<open>pg_try_advisory_xact_lock\<close>, \<open>None\<close> for a failed query; \<open>applied\<close> says whether a
  statement or a commit that reported an error took effect all the same.
\<close>

record db_env =
  begin_ok :: bool
  lock :: "bool option"
  exec_ok :: bool
  commit_ok :: bool
  applied :: bool
  refresh_ok :: bool

datatype lease_error = EBegin | EAdvisoryLock | EUpsert | ECommit | EExec

definition attemptPostgres ::
  "db_env \<Rightarrow> string \<Rightarrow> time \<Rightarrow> time \<Rightarrow> ltable \<Rightarrow> ltable \<times> (lease_error, nat) result" where
  "attemptPostgres env me now newExpires tbl =
     (if \<not> begin_ok env then (tbl, Err EBegin)
      else case lock env of
        None \<Rightarrow> (tbl, Err EAdvisoryLock)
      | Some False \<Rightarrow> (tbl, Ok 0)
      | Some True \<Rightarrow>
          if \<not> exec_ok env then (tbl, Err EUpsert)
          else let (tbl', n) = upsert_lease me newExpires now tbl in
            if commit_ok env then (tbl', Ok n)
            else (if applied env then tbl' else tbl, Err ECommit))"

text \<open>The database half of \<open>attempt\<close>, at the clock reading \<open>now\<close>.\<close>

definition claim ::
  "db_env \<Rightarrow> time \<Rightarrow> Lease \<Rightarrow> ltable \<Rightarrow> ltable \<times> (lease_error, nat) result" where
  "claim env now l tbl =
     (let newExpires = now + ls_ttl l in
      if ls_dialect l = DialectPostgres then attemptPostgres env (ls_id l) now newExpires tbl
      else let (tbl', n) = upsert_lease (ls_id l) newExpires now tbl in
        if exec_ok env then (tbl', Ok n)
        else (if applied env then tbl' else tbl, Err EExec))"

text \<open>
  \<open>refreshState\<close> reads the row back; a failed read keeps the old view and a missing row reads
  as the zero values.
\<close>

definition refreshState :: "time \<Rightarrow> bool \<Rightarrow> ltable \<Rightarrow> Lease \<Rightarrow> Lease" where
  "refreshState zero ok tbl l =
     (if \<not> ok then l
      else l\<lparr>ls_state := (case tbl of
          None \<Rightarrow> \<lparr>Self = ls_id l, Holder = [], IsLeader = False, Expires = zero\<rparr>
        | Some r \<Rightarrow> \<lparr>Self = ls_id l, Holder = holder r, IsLeader = False, Expires = expires_at r\<rparr>)\<rparr>)"

text \<open>The rest of \<open>attempt\<close>: what it does with the outcome of its statement.\<close>

definition settle ::
  "time \<Rightarrow> db_env \<Rightarrow> (lease_error, nat) result \<Rightarrow> ltable \<Rightarrow> Lease \<Rightarrow> Lease" where
  "settle zero env res tbl l =
     (case res of
        Inl _ \<Rightarrow> demote l
      | Inr n \<Rightarrow>
          if n = 0 then demote (refreshState zero (refresh_ok env) tbl l)
          else
            let l1 = refreshState zero (refresh_ok env) tbl l;
                l2 = l1\<lparr>ls_isLeader := True\<rparr> in
            if ls_isLeader l1 then l2 else emit (Snapshot l2) l2)"

definition attempt :: "time \<Rightarrow> db_env \<Rightarrow> time \<Rightarrow> Lease \<Rightarrow> ltable \<Rightarrow> ltable \<times> Lease" where
  "attempt zero env now l tbl =
     (let (tbl', res) = claim env now l tbl in (tbl', settle zero env res tbl' l))"

text \<open>
  \<open>release\<close> hands its context to \<open>ExecContext\<close>, which refuses a cancelled one before it
  reaches the database.
\<close>

definition release :: "bool \<Rightarrow> db_env \<Rightarrow> time \<Rightarrow> Lease \<Rightarrow> ltable \<Rightarrow> ltable \<times> Lease" where
  "release cancelled env now l tbl =
     (if \<not> ls_isLeader l then (tbl, l)
      else
        let tbl' = (if cancelled then tbl
                    else if exec_ok env \<or> applied env then
                      map_option (\<lambda>r. if holder r = ls_id l
                                      then r\<lparr>holder := [], expires_at := now - second\<rparr> else r) tbl
                    else tbl) in
        (tbl', demote l))"

text \<open>The period of the renewal loop of \<open>Run\<close>.\<close>

definition run_tick :: "Lease \<Rightarrow> duration" where
  "run_tick l = max (ls_ttl l div 2) (250 * millisecond)"

section \<open>What the table promises\<close>

definition granted :: "(lease_error, nat) result \<Rightarrow> bool" where
  "granted res \<longleftrightarrow> (case res of Inl _ \<Rightarrow> False | Inr n \<Rightarrow> n \<noteq> 0)"

definition owner :: "ltable \<Rightarrow> (string \<times> time) option" where
  "owner tbl = map_option (\<lambda>r. (holder r, expires_at r)) tbl"

text \<open>
  A claim either leaves the table alone and is not granted, or makes the claimant the owner
  until its own expiry; it may do the latter only on a free, an own or an expired row.
\<close>

locale lease_table =
  fixes claim_op :: "'e \<Rightarrow> time \<Rightarrow> 'l \<Rightarrow> 't \<Rightarrow> 't \<times> (lease_error, nat) result"
    and owner_of :: "'t \<Rightarrow> (string \<times> time) option"
    and me :: "'l \<Rightarrow> string"
    and ttl_of :: "'l \<Rightarrow> duration"
  assumes claim_cases:
    "claim_op e now l t = (t', res) \<Longrightarrow>
       t' = t \<and> \<not> granted res
     \<or> owner_of t' = Some (me l, now + ttl_of l)
       \<and> (\<forall>h x. owner_of t = Some (h, x) \<longrightarrow> h = me l \<or> x < now)"
begin

lemma others_lease_kept:
  assumes "claim_op e now l t = (t', res)" "owner_of t = Some (h, x)" "h \<noteq> me l" "now \<le> x"
  shows "t' = t \<and> \<not> granted res"
  using claim_cases [OF assms(1)] assms(2-4) by auto

lemma granted_owner:
  assumes "claim_op e now l t = (t', res)" "granted res"
  shows "owner_of t' = Some (me l, now + ttl_of l)"
  using claim_cases [OF assms(1)] assms(2) by auto

end

lemma upsert_lease_cases:
  "upsert_lease me x now t = (t', n) \<Longrightarrow>
     t' = t \<and> n = 0
   \<or> n = 1 \<and> owner t' = Some (me, x) \<and> (\<forall>h y. owner t = Some (h, y) \<longrightarrow> h = me \<or> y < now)"
  by (auto simp: upsert_lease_def owner_def split: option.splits if_splits)

lemma claim_cases_model:
  assumes "claim env now l t = (t', res)"
  shows "t' = t \<and> \<not> granted res
       \<or> owner t' = Some (ls_id l, now + ls_ttl l)
         \<and> (\<forall>h x. owner t = Some (h, x) \<longrightarrow> h = ls_id l \<or> x < now)"
proof -
  obtain tu n where u: "upsert_lease (ls_id l) (now + ls_ttl l) now t = (tu, n)" by fastforce
  have "res = Inr n \<and> t' = tu \<or> \<not> granted res \<and> (t' = t \<or> t' = tu)"
    using assms u
    by (auto simp: claim_def attemptPostgres_def Let_def granted_def
             split: if_splits option.splits bool.splits)
  then show ?thesis using upsert_lease_cases [OF u] by (auto simp: granted_def)
qed

interpretation table: lease_table claim owner ls_id ls_ttl
  by unfold_locales (rule claim_cases_model)

lemma demote_fields [simp]:
  "ls_isLeader (demote l) = False" "ls_id (demote l) = ls_id l" "ls_ttl (demote l) = ls_ttl l"
  by (simp_all add: demote_def emit_def Let_def)

lemma settle_fields [simp]:
  "ls_isLeader (settle zero env res t l) = granted res"
  "ls_id (settle zero env res t l) = ls_id l" "ls_ttl (settle zero env res t l) = ls_ttl l"
  by (auto simp: settle_def granted_def refreshState_def emit_def Let_def split: sum.splits)

lemma NewWithDialect_fields [simp]:
  "ls_isLeader (NewWithDialect zero i ttl d) = False" "ls_id (NewWithDialect zero i ttl d) = i"
  "0 < ls_ttl (NewWithDialect zero i ttl d)"
  by (simp_all add: NewWithDialect_def second_def)

lemma release_cancelled [simp]:
  "release True env now l t = (t, if ls_isLeader l then demote l else l)"
  by (simp add: release_def)

section \<open>Replicas on one database\<close>

text \<open>
  Where \<open>Run\<close> of a replica stands: between ticks, with the clock read for an attempt, with the
  outcome of its statement in hand, or returned. Other replicas move in between.
\<close>

datatype phase = Waiting | Claiming time | Settling "(lease_error, nat) result" | Returned

text \<open>
  \<open>cl_now\<close> is real time and \<open>cl_last i\<close> the clock reading of the attempt by which replica \<open>i\<close>
  last wrote the row; neither is visible to the program.
\<close>

record cluster =
  cl_table :: ltable
  cl_now :: time
  cl_lease :: "nat \<Rightarrow> Lease"
  cl_phase :: "nat \<Rightarrow> phase"
  cl_last :: "nat \<Rightarrow> time"

datatype event =
    Elapse nat
  | ReadClock nat int
  | Claim nat db_env
  | Settle nat db_env
  | Cancel nat db_env
  | Restart nat duration Dialect

text \<open>
  One event. A replica's clock is off by at most \<open>skew\<close>. \<open>Cancel\<close> is the \<open>ctx.Done()\<close>
  branch of \<open>Run\<close>, which passes the cancelled context on to \<open>release\<close>; \<open>Restart\<close> is a crash,
  at any point, followed by a new process under the same id.
\<close>

fun cl_exec :: "int \<Rightarrow> time \<Rightarrow> event \<Rightarrow> cluster \<Rightarrow> cluster option" where
  "cl_exec skew zero (Elapse d) s = Some (s\<lparr>cl_now := cl_now s + int d\<rparr>)"
| "cl_exec skew zero (ReadClock i off) s =
     (if cl_phase s i = Waiting \<and> \<bar>off\<bar> \<le> skew
      then Some (s\<lparr>cl_phase := (cl_phase s)(i := Claiming (cl_now s + off))\<rparr>) else None)"
| "cl_exec skew zero (Claim i env) s =
     (case cl_phase s i of
        Claiming now \<Rightarrow>
          let (tbl', res) = claim env now (cl_lease s i) (cl_table s) in
          Some (s\<lparr>cl_table := tbl', cl_phase := (cl_phase s)(i := Settling res),
                  cl_last := (if tbl' = cl_table s \<and> \<not> granted res then cl_last s
                              else (cl_last s)(i := now))\<rparr>)
      | _ \<Rightarrow> None)"
| "cl_exec skew zero (Settle i env) s =
     (case cl_phase s i of
        Settling res \<Rightarrow>
          Some (s\<lparr>cl_lease := (cl_lease s)(i := settle zero env res (cl_table s) (cl_lease s i)),
                  cl_phase := (cl_phase s)(i := Waiting)\<rparr>)
      | _ \<Rightarrow> None)"
| "cl_exec skew zero (Cancel i env) s =
     (if cl_phase s i = Waiting
      then let (tbl', l') = release True env (cl_now s) (cl_lease s i) (cl_table s) in
        Some (s\<lparr>cl_table := tbl', cl_lease := (cl_lease s)(i := l'),
                cl_phase := (cl_phase s)(i := Returned)\<rparr>)
      else None)"
| "cl_exec skew zero (Restart i ttl d) s =
     Some (s\<lparr>cl_lease := (cl_lease s)(i := NewWithDialect zero (ls_id (cl_lease s i)) ttl d),
             cl_phase := (cl_phase s)(i := Waiting)\<rparr>)"

fun cl_run :: "int \<Rightarrow> time \<Rightarrow> event list \<Rightarrow> cluster \<Rightarrow> cluster option" where
  "cl_run skew zero [] s = Some s"
| "cl_run skew zero (e # es) s =
     (case cl_exec skew zero e s of None \<Rightarrow> None | Some s' \<Rightarrow> cl_run skew zero es s')"

text \<open>Replicas start as non-leaders, on a table that may hold the row of an earlier run.\<close>

definition cl_init ::
  "time \<Rightarrow> ltable \<Rightarrow> time \<Rightarrow> (nat \<Rightarrow> string \<times> duration \<times> Dialect) \<Rightarrow> cluster" where
  "cl_init zero tbl start cfg =
     \<lparr>cl_table = tbl, cl_now = start,
      cl_lease = (\<lambda>i. case cfg i of (me, ttl, d) \<Rightarrow> NewWithDialect zero me ttl d),
      cl_phase = (\<lambda>_. Waiting), cl_last = (\<lambda>_. start)\<rparr>"

section \<open>At most one current leader\<close>

definition leading :: "cluster \<Rightarrow> nat \<Rightarrow> bool" where
  "leading s i \<longleftrightarrow> ls_isLeader (cl_lease s i)"

definition lease_end :: "cluster \<Rightarrow> nat \<Rightarrow> time" where
  "lease_end s i = cl_last s i + ls_ttl (cl_lease s i)"

text \<open>
  A replica that leads, or is about to, owns the row until the end of its lease, unless that
  end has passed on the fastest clock; and no replica holds a reading ahead of that clock.
\<close>

definition lead_inv :: "int \<Rightarrow> cluster \<Rightarrow> nat \<Rightarrow> bool" where
  "lead_inv skew s i \<longleftrightarrow>
     (leading s i \<or> (\<exists>res. cl_phase s i = Settling res \<and> granted res) \<longrightarrow>
        owner (cl_table s) = Some (ls_id (cl_lease s i), lease_end s i)
      \<or> lease_end s i < cl_now s + skew)
   \<and> (\<forall>t. cl_phase s i = Claiming t \<longrightarrow> t \<le> cl_now s + skew)"

lemmas cl_simps = lead_inv_def leading_def lease_end_def

lemma cl_exec_ids: "cl_exec skew zero e s = Some s' \<Longrightarrow> ls_id (cl_lease s' i) = ls_id (cl_lease s i)"
  by (induction skew zero e s rule: cl_exec.induct)
     (auto simp: Let_def split: if_splits phase.splits prod.splits)

lemma lead_inv_claim:
  assumes inv: "\<And>i. lead_inv skew s i" and ids: "inj (\<lambda>i. ls_id (cl_lease s i))"
    and e: "cl_exec skew zero (Claim j env) s = Some s'"
  shows "lead_inv skew s' i"
proof -
  obtain now where ph: "cl_phase s j = Claiming now" using e by (auto split: phase.splits)
  obtain t' res where c: "claim env now (cl_lease s j) (cl_table s) = (t', res)" by fastforce
  have now: "now \<le> cl_now s + skew" using inv [of j] ph by (simp add: cl_simps)
  have s': "s' = s\<lparr>cl_table := t', cl_phase := (cl_phase s)(j := Settling res),
                   cl_last := (if t' = cl_table s \<and> \<not> granted res then cl_last s
                               else (cl_last s)(j := now))\<rparr>"
    using e ph c by simp
  show ?thesis
  proof (cases "t' = cl_table s \<and> \<not> granted res")
    case True
    then show ?thesis using inv [of i] s' by (auto simp: cl_simps)
  next
    case False
    with table.claim_cases [OF c]
    have own: "owner t' = Some (ls_id (cl_lease s j), now + ls_ttl (cl_lease s j))"
      and was: "\<And>h x. owner (cl_table s) = Some (h, x) \<Longrightarrow> h = ls_id (cl_lease s j) \<or> x < now"
      by auto
    show ?thesis
    proof (cases "i = j")
      case True
      with own s' False show ?thesis by (simp add: cl_simps)
    next
      case other: False
      then have "ls_id (cl_lease s i) \<noteq> ls_id (cl_lease s j)" using ids by (auto dest: injD)
      then have "lease_end s i < cl_now s + skew"
        if "owner (cl_table s) = Some (ls_id (cl_lease s i), lease_end s i)"
        using was [OF that] now by simp
      moreover have "cl_table s' = t'" "cl_phase s' i = cl_phase s i" "cl_now s' = cl_now s"
        "leading s' i = leading s i" "lease_end s' i = lease_end s i"
        using other s' False by (simp_all add: leading_def lease_end_def)
      ultimately show ?thesis using inv [of i] unfolding lead_inv_def by auto
    qed
  qed
qed

lemma lead_inv_exec:
  assumes inv: "\<And>i. lead_inv skew s i" and ids: "inj (\<lambda>i. ls_id (cl_lease s i))"
    and e: "cl_exec skew zero e s = Some s'"
  shows "lead_inv skew s' i"
proof (cases e)
  case (Claim j env)
  with lead_inv_claim [OF inv ids] e show ?thesis by blast
next
  case (ReadClock j off)
  with e inv [of i] show ?thesis by (auto simp: cl_simps split: if_splits)
next
  case (Settle j env)
  then obtain res where ph: "cl_phase s j = Settling res"
    and s': "s' = s\<lparr>cl_lease := (cl_lease s)(j := settle zero env res (cl_table s) (cl_lease s j)),
                    cl_phase := (cl_phase s)(j := Waiting)\<rparr>"
    using e by (auto split: phase.splits)
  show ?thesis
  proof (cases "i = j")
    case True
    with inv [of j] ph s' show ?thesis by (simp add: cl_simps)
  next
    case False
    with inv [of i] s' show ?thesis by (simp add: cl_simps)
  qed
next
  case (Cancel j env)
  with e inv [of i] show ?thesis
    by (auto simp: cl_simps split: if_splits)
next
  case (Restart j ttl d)
  with e inv [of i] show ?thesis by (cases "i = j") (auto simp: cl_simps)
qed (use e inv [of i] in \<open>auto simp: cl_simps\<close>)

lemma lead_inv_run:
  assumes "cl_run skew zero es s = Some s'" "\<And>i. lead_inv skew s i"
    and "inj (\<lambda>i. ls_id (cl_lease s i))"
  shows "lead_inv skew s' i \<and> ls_id (cl_lease s' i) = ls_id (cl_lease s i)"
  using assms
proof (induction es arbitrary: s)
  case (Cons e es)
  then obtain t where t: "cl_exec skew zero e s = Some t" "cl_run skew zero es t = Some s'"
    by (auto split: option.splits)
  have ids: "ls_id (cl_lease t k) = ls_id (cl_lease s k)" for k
    by (rule cl_exec_ids [OF t(1)])
  show ?case using Cons.IH [OF t(2)] lead_inv_exec [OF Cons.prems(2,3) t(1)] Cons.prems(3)
    by (simp add: ids)
qed simp

lemma lead_inv_init:
  "lead_inv skew (cl_init zero tbl start cfg) i"
  "ls_id (cl_lease (cl_init zero tbl start cfg) i) = fst (cfg i)"
  by (simp_all add: cl_simps cl_init_def split: prod.splits)

text \<open>
  C27. Replicas with different ids never lead at the same time on unexpired leases, whatever the
  interleaving of their attempts, errors of the database (a commit that reported an error and
  took effect included), cancellations, crashes and restarts, on clocks that are off by at
  most \<open>skew\<close>: two replicas whose last granted claim is still within its TTL are one replica,
  and it is the holder of the row. A replica may still think it leads after its lease has run
  out, which the renewal loop ends at its next attempt.
\<close>

theorem one_current_leader:
  assumes run: "cl_run skew zero es (cl_init zero tbl start cfg) = Some s"
    and ids: "inj (\<lambda>i. fst (cfg i))"
    and lead: "leading s i" "leading s j"
    and current: "cl_now s + skew \<le> lease_end s i" "cl_now s + skew \<le> lease_end s j"
  shows "i = j \<and> owner (cl_table s) = Some (fst (cfg i), lease_end s i)"
proof -
  have inv: "lead_inv skew s k \<and> ls_id (cl_lease s k) = fst (cfg k)" for k
    using lead_inv_run [OF run] lead_inv_init ids by simp
  have own: "owner (cl_table s) = Some (fst (cfg k), lease_end s k)"
    if "leading s k" "cl_now s + skew \<le> lease_end s k" for k
    using inv [of k] that by (auto simp: lead_inv_def)
  from own [OF lead(1) current(1)] own [OF lead(2) current(2)] have "fst (cfg i) = fst (cfg j)"
    by simp
  with ids own [OF lead(1) current(1)] show ?thesis by (auto dest: injD)
qed

definition good_db :: db_env where
  "good_db = \<lparr>begin_ok = True, lock = Some True, exec_ok = True, commit_ok = True,
              applied = True, refresh_ok = True\<rparr>"

text \<open>
  Replica 0 takes the lease and stops renewing; 31 seconds later replica 1 takes over while
  replica 0 still believes it leads.
\<close>

definition takeover_run :: "event list" where
  "takeover_run = [ReadClock 0 0, Claim 0 good_db, Settle 0 good_db, Elapse 31000000000,
     ReadClock 1 0, Claim 1 good_db, Settle 1 good_db]"

definition pair_cfg :: "nat \<Rightarrow> string \<times> duration \<times> Dialect" where
  "pair_cfg i = (replicate i (CHR ''x''), 30 * second, DialectSQLite)"

lemmas leadership_eval =
  takeover_run_def cl_init_def pair_cfg_def good_db_def claim_def upsert_lease_def granted_def
  second_def NewWithDialect_def settle_def refreshState_def emit_def Snapshot_def leading_def
  lease_end_def Let_def owner_def

theorem one_current_leader_witness:
  "\<exists>s. cl_run 0 0 takeover_run (cl_init 0 None 0 pair_cfg) = Some s
     \<and> leading s 0 \<and> leading s 1 \<and> lease_end s 0 < cl_now s
     \<and> owner (cl_table s) = Some (fst (pair_cfg 1), lease_end s 1)"
proof -
  have ids: "inj (\<lambda>i. fst (pair_cfg i))" by (auto simp: inj_def pair_cfg_def dest: arg_cong [of _ _ length])
  obtain s where run: "cl_run 0 0 takeover_run (cl_init 0 None 0 pair_cfg) = Some s"
    and s: "leading s 0" "leading s 1" "lease_end s 0 < cl_now s" "cl_now s + 0 \<le> lease_end s 1"
    by (simp add: leadership_eval)
  show ?thesis using one_current_leader [OF run ids s(2,2,4,4)] run s by blast
qed

section \<open>Renewal and takeover\<close>

text \<open>
  The loop renews at half the TTL once the TTL is at least half a second; below a quarter of
  a second the floor on the tick makes the lease run out between two renewals.
\<close>

lemma run_tick_in_time: "500 * millisecond \<le> ls_ttl l \<Longrightarrow> 2 * run_tick l \<le> ls_ttl l"
  by (simp add: run_tick_def millisecond_def)

lemma run_tick_too_late: "ls_ttl l < 250 * millisecond \<Longrightarrow> ls_ttl l < run_tick l"
  by (simp add: run_tick_def)

text \<open>A lease that has expired goes to the first replica that asks while the database answers.\<close>

lemma expired_lease_taken:
  assumes "\<And>h x. owner t = Some (h, x) \<Longrightarrow> x < now" and "0 < ls_ttl l"
    and "begin_ok env" "lock env = Some True" "exec_ok env" "commit_ok env"
  shows "case attempt zero env now l t of
           (t', l') \<Rightarrow> ls_isLeader l' \<and> owner t' = Some (ls_id l, now + ls_ttl l)"
  using assms
  by (cases t) (auto simp: attempt_def claim_def attemptPostgres_def upsert_lease_def owner_def
      granted_def Let_def)

text \<open>An attempt nobody interrupts is its claim followed at once by its settling.\<close>

lemma attempt_uninterrupted:
  assumes "cl_phase s i = Claiming now"
    and "attempt zero env now (cl_lease s i) (cl_table s) = (t', l')"
  shows "\<exists>s'. cl_run skew zero [Claim i env, Settle i env] s = Some s' \<and> cl_table s' = t'
            \<and> cl_lease s' = (cl_lease s)(i := l') \<and> cl_phase s' = (cl_phase s)(i := Waiting)"
  using assms by (auto simp: attempt_def Let_def split: prod.splits)

text \<open>
  \<open>Run\<close> releases with the context whose cancellation it just saw, so the row keeps its
  holder and expiry and every other replica waits until the lease runs out.
\<close>

lemma shutdown_keeps_lease:
  assumes "cl_exec skew zero (Cancel i env) s = Some s'"
  shows "cl_table s' = cl_table s \<and> \<not> leading s' i"
  using assms by (auto simp: leading_def split: if_splits)

section \<open>The rewritten statements bind the same arguments\<close>

text \<open>
  How the two databases read a statement: SQLite numbers its question marks from the left,
  Postgres reads \<open>$\<close> and the digits after it as the number; neither looks inside quotes.
\<close>

datatype sql_token = Text char | Param int

definition quotes :: "char \<Rightarrow> bool \<times> bool \<Rightarrow> bool \<times> bool" where
  "quotes c q = (case q of (s, d) \<Rightarrow>
     if c = CHR 0x27 \<and> \<not> d then (\<not> s, d) else if c = CHR 0x22 \<and> \<not> s then (s, \<not> d) else (s, d))"

fun sqlite_tokens :: "bool \<times> bool \<Rightarrow> nat \<Rightarrow> string \<Rightarrow> sql_token list" where
  "sqlite_tokens q idx [] = []"
| "sqlite_tokens q idx (c # cs) =
     (if c = CHR ''?'' \<and> q = (False, False) then Param (int idx) # sqlite_tokens q (idx + 1) cs
      else Text c # sqlite_tokens (quotes c q) idx cs)"

function postgres_tokens :: "bool \<times> bool \<Rightarrow> string \<Rightarrow> sql_token list" where
  "postgres_tokens q [] = []"
| "postgres_tokens q (c # cs) =
     (if c = CHR ''$'' \<and> q = (False, False)
      then Param (digits_value (takeWhile is_digit cs)) # postgres_tokens q (dropWhile is_digit cs)
      else Text c # postgres_tokens (quotes c q) cs)"
  by pat_completeness auto
termination postgres_tokens
  by (relation "measure (\<lambda>(q, s). length s)") (auto simp: less_Suc_eq_le length_dropWhile_le)

text \<open>What the statements of the package keep to: no dollar sign, and no digit after a placeholder.\<close>

fun plain_sql :: "string \<Rightarrow> bool" where
  "plain_sql [] = True"
| "plain_sql (c # cs) =
     (c \<noteq> CHR ''$'' \<and> (c = CHR ''?'' \<longrightarrow> (case cs of [] \<Rightarrow> True | d # _ \<Rightarrow> \<not> is_digit d)) \<and> plain_sql cs)"

lemma while_digits:
  assumes "case xs of [] \<Rightarrow> True | d # _ \<Rightarrow> \<not> is_digit d"
  shows "takeWhile is_digit (show_nat n @ xs) = show_nat n" "dropWhile is_digit (show_nat n @ xs) = xs"
  using assms show_nat_digits [of n]
  by (auto simp: list_all_iff takeWhile_append dropWhile_append split: list.splits)

lemma rewrite_loop_head:
  "(case cs of [] \<Rightarrow> True | d # _ \<Rightarrow> \<not> is_digit d) \<Longrightarrow>
   (case rewrite_loop s d n cs of [] \<Rightarrow> True | d # _ \<Rightarrow> \<not> is_digit d)"
  by (cases cs) (auto simp: is_digit_def)

lemma rewrite_loop_tokens:
  "plain_sql sql \<Longrightarrow> postgres_tokens (s, d) (rewrite_loop s d idx sql) = sqlite_tokens (s, d) idx sql"
proof (induction s d idx sql rule: rewrite_loop.induct)
  case (2 s d idx c cs)
  show ?case
  proof (cases "c = CHR ''?'' \<and> \<not> s \<and> \<not> d")
    case True
    with 2 while_digits [OF rewrite_loop_head] show ?thesis by (simp add: digits_value_show_nat)
  next
    case False
    with 2 show ?thesis by (auto simp: quotes_def)
  qed
qed simp

lemma rewrite_binds_same_arguments:
  "plain_sql sql \<Longrightarrow>
     postgres_tokens (False, False) (rewrite DialectPostgres sql)
       = sqlite_tokens (False, False) 1 (rewrite DialectSQLite sql)"
  by (simp add: rewrite_def rewrite_loop_tokens)

end
