(* ===== verification/Script.thy ===== *)
theory Script
  imports Transform
begin

text \<open>
  \<open>internal/pipeline/script.go\<close>: the line-oriented scripts over a decoded message. A script can
  store one map under two keys (\<open>msg.a = msg.b\<close>), after which both names denote one Go map, so
  the document lives in a store of maps here; Go's panics and stack overflows, which end the
  process, are error values of their own.
\<close>

section \<open>The store of maps\<close>

text \<open>
  A map is an address; every other value is itself (arrays are never changed in place, and no
  path leads through one). A cell is a map's current content.
\<close>

datatype hval = HVal any | HMap nat

type_synonym hmap = "(string \<times> hval) list"
type_synonym heap = "hmap list"

definition cell :: "heap \<Rightarrow> nat \<Rightarrow> hmap" where
  "cell h r = (if r < length h then h ! r else [])"

text \<open>The decoded document as the decoders build it: a fresh map for every object.\<close>

fun store_any :: "any \<Rightarrow> heap \<Rightarrow> hval \<times> heap"
  and store_fields :: "obj \<Rightarrow> heap \<Rightarrow> hmap \<times> heap" where
  "store_any (VObj m) h = (let (hm, h') = store_fields m h in (HMap (length h'), h' @ [hm]))"
| "store_any v h = (HVal v, h)"
| "store_fields [] h = ([], h)"
| "store_fields ((k, v) # m) h =
     (let (hv, h1) = store_any v h; (hm, h2) = store_fields m h1 in ((k, hv) # hm, h2))"

text \<open>
  What an encoder sees from a value on. The number bounds the nesting; \<open>None\<close> is a structure
  nested deeper, which with the number of maps as the bound is a cyclic one.
\<close>

fun read_any :: "nat \<Rightarrow> heap \<Rightarrow> hval \<Rightarrow> any option"
  and read_fields :: "nat \<Rightarrow> heap \<Rightarrow> hmap \<Rightarrow> obj option" where
  "read_any n h (HVal v) = Some v"
| "read_any 0 h (HMap r) = None"
| "read_any (Suc n) h (HMap r) = map_option VObj (read_fields n h (cell h r))"
| "read_fields n h [] = Some []"
| "read_fields n h ((k, v) # hm) =
     (case (read_any n h v, read_fields n h hm) of
        (Some t, Some m) \<Rightarrow> Some ((k, t) # m)
      | _ \<Rightarrow> None)"

definition snapshot_of :: "heap \<Rightarrow> hval \<Rightarrow> any option" where
  "snapshot_of h v = read_any (length h) h v"

section \<open>Paths on the store\<close>

text \<open>\<open>getNestedValue\<close>; the script ignores which error it returns.\<close>

fun hget :: "heap \<Rightarrow> hval \<Rightarrow> string list \<Rightarrow> hval option" where
  "hget h v [] = Some v"
| "hget h (HMap r) (k # ks) =
     (case map_of (cell h r) k of None \<Rightarrow> None | Some v \<Rightarrow> hget h v ks)"
| "hget h (HVal w) (k # ks) = None"

text \<open>\<open>setNestedValue\<close>: a missing intermediate map is allocated at the end of the store.\<close>

fun hset :: "string \<Rightarrow> hval \<Rightarrow> nat \<Rightarrow> string list \<Rightarrow> heap \<Rightarrow> heap \<times> path_error option" where
  "hset path v r [] h = (h, None)"
| "hset path v r [k] h = (h[r := AList.update k v (cell h r)], None)"
| "hset path v r (k # k' # ks) h =
     (case map_of (cell h r) k of
        None \<Rightarrow>
          hset path v (length h) (k' # ks)
            (h[r := AList.update k (HMap (length h)) (cell h r)] @ [[]])
      | Some (HMap r') \<Rightarrow> hset path v r' (k' # ks) h
      | Some (HVal w) \<Rightarrow> (h, Some (AlreadyNonObject path k)))"

fun hdelete :: "nat \<Rightarrow> string list \<Rightarrow> heap \<Rightarrow> heap" where
  "hdelete r [] h = h"
| "hdelete r [k] h = h[r := AList.delete k (cell h r)]"
| "hdelete r (k # k' # ks) h =
     (case map_of (cell h r) k of
        Some (HMap r') \<Rightarrow> hdelete r' (k' # ks) h
      | _ \<Rightarrow> h)"

section \<open>Expressions\<close>

text \<open>
  What an expression needs beside the codecs: the arithmetic of float64 and the clock.
\<close>

record script_env =
  sc_codec :: codec
  f64_add :: "64 word \<Rightarrow> 64 word \<Rightarrow> 64 word"
  f64_sub :: "64 word \<Rightarrow> 64 word \<Rightarrow> 64 word"
  f64_mul :: "64 word \<Rightarrow> 64 word \<Rightarrow> 64 word"
  f64_div :: "64 word \<Rightarrow> 64 word \<Rightarrow> 64 word"
  f64_is_zero :: "64 word \<Rightarrow> bool"
  now_millis :: "64 word"

text \<open>
  \<open>SlicePanic\<close> is \<open>expr[1 : len(expr)-1]\<close> on a single quote character, \<open>PrintOverflow\<close> is
  \<open>fmt.Sprintf\<close> on a cyclic map: both end the process.
\<close>

datatype script_error =
    DivisionByZero
  | DeleteRoot
  | SetError path_error
  | OpLimit nat nat
  | ScriptTooLong nat nat
  | IntermediateLimit nat nat
  | IntermediateEncode string
  | OutputLimit nat nat
  | Cancelled string
  | ScriptDecode codec_error
  | ScriptEncode codec_error
  | SlicePanic
  | PrintOverflow

definition toFloat :: "script_env \<Rightarrow> hval \<Rightarrow> 64 word option" where
  "toFloat env v =
     (case v of
        HVal (VNum n) \<Rightarrow> Some n
      | HVal (VStr s) \<Rightarrow> parse_float (sc_codec env) s
      | _ \<Rightarrow> None)"

text \<open>The literals, constants and paths an expression without operator can be.\<close>

definition evalAtom :: "script_env \<Rightarrow> heap \<Rightarrow> hval \<Rightarrow> string \<Rightarrow> (script_error, hval) result" where
  "evalAtom env h root expr =
     (if (prefix [CHR 0x22] expr \<and> suffix [CHR 0x22] expr) \<or> (prefix [CHR 0x27] expr \<and> suffix [CHR 0x27] expr)
      then (if length expr < 2 then Err SlicePanic else Ok (HVal (VStr (butlast (tl expr)))))
      else if expr = ''true'' then Ok (HVal (VBool True))
      else if expr = ''false'' then Ok (HVal (VBool False))
      else if expr = ''null'' \<or> expr = ''nil'' then Ok (HVal VNil)
      else if expr = ''Date.now()'' then Ok (HVal (VNum (now_millis env)))
      else if prefix ''msg.'' expr then
        (case hget h root (path_keys (TrimPrefix expr ''msg.'')) of
           None \<Rightarrow> Ok (HVal VNil)
         | Some v \<Rightarrow> Ok v)
      else (case parse_float (sc_codec env) expr of
              Some n \<Rightarrow> Ok (HVal (VNum n))
            | None \<Rightarrow> Ok (HVal (VStr expr))))"

definition script_ops :: "string list" where
  "script_ops = ['' + '', '' - '', '' * '', '' / '']"

text \<open>
  The value of one operator on two evaluated operands; \<open>None\<close> where the loop goes on to the next
  operator.
\<close>

definition applyOp ::
  "script_env \<Rightarrow> heap \<Rightarrow> string \<Rightarrow> hval \<Rightarrow> hval \<Rightarrow> (script_error, hval) result option" where
  "applyOp env h op lv rv =
     (case (toFloat env lv, toFloat env rv) of
        (Some lf, Some rf) \<Rightarrow>
          if op = '' + '' then Some (Ok (HVal (VNum (f64_add env lf rf))))
          else if op = '' - '' then Some (Ok (HVal (VNum (f64_sub env lf rf))))
          else if op = '' * '' then Some (Ok (HVal (VNum (f64_mul env lf rf))))
          else if f64_is_zero env rf then Some (Err DivisionByZero)
          else Some (Ok (HVal (VNum (f64_div env lf rf))))
      | _ \<Rightarrow>
          if op = '' + '' then
            (case (snapshot_of h lv, snapshot_of h rv) of
               (Some l, Some r) \<Rightarrow>
                 Some (Ok (HVal (VStr (sprint_v (sc_codec env) l @ sprint_v (sc_codec env) r))))
             | _ \<Rightarrow> Some (Err PrintOverflow))
          else None)"

lemma str_index_bounds: "str_index op e = Some i \<Longrightarrow> op \<noteq> [] \<Longrightarrow> i < length e"
  by (drule str_index_Some) (cases op, auto)

lemma length_TrimSpace: "length (TrimSpace s) \<le> length s"
  using trim_front_suffix [of "map rev space_runes" "rev (trim_front space_runes s)"]
    trim_front_suffix [of space_runes s]
  by (auto simp: TrimSpace_def dest!: suffix_length_le)

text \<open>
  \<open>evalExpr\<close> with its loop over the operators. \<open>str_index\<close> is \<open>strings.Index\<close>: the leftmost
  occurrence, and an operator at the very start does not count. (No operator is empty; the test
  only shows that the remaining text is shorter.) Beside its result, each call reports how often
  \<open>evalExpr\<close> was entered, itself included.
\<close>

function evalExpr_counted :: "script_env \<Rightarrow> heap \<Rightarrow> hval \<Rightarrow> string \<Rightarrow> nat \<times> (script_error, hval) result"
  and evalOps_counted :: "script_env \<Rightarrow> heap \<Rightarrow> hval \<Rightarrow> string list \<Rightarrow> string \<Rightarrow> nat \<times> (script_error, hval) result" where
  "evalExpr_counted env h root expr =
     apfst (\<lambda>n. n + 1) (evalOps_counted env h root script_ops (TrimSpace expr))"
| "evalOps_counted env h root [] expr = (0, evalAtom env h root expr)"
| "evalOps_counted env h root (op # ops) expr =
     (case str_index op expr of
        None \<Rightarrow> evalOps_counted env h root ops expr
      | Some i \<Rightarrow>
          if i = 0 \<or> op = [] then evalOps_counted env h root ops expr
          else
            (case evalExpr_counted env h root (take i expr) of
               (m, Inl e) \<Rightarrow> (m, Err e)
             | (m, Inr lv) \<Rightarrow>
                 (case evalExpr_counted env h root (drop (i + length op) expr) of
                    (n, Inl e) \<Rightarrow> (m + n, Err e)
                  | (n, Inr rv) \<Rightarrow>
                      (case applyOp env h op lv rv of
                         Some res \<Rightarrow> (m + n, res)
                       | None \<Rightarrow> apfst (\<lambda>k. m + n + k) (evalOps_counted env h root ops expr)))))"
  by pat_completeness auto

termination evalExpr_counted
  by (relation "measures
        [\<lambda>x. case x of Inl (_, _, _, e) \<Rightarrow> length e | Inr (_, _, _, _, e) \<Rightarrow> length e,
         \<lambda>x. case x of Inl _ \<Rightarrow> 5 | Inr (_, _, _, ops, _) \<Rightarrow> length ops]")
     (auto simp: script_ops_def le_neq_implies_less length_TrimSpace dest: str_index_bounds str_index_Some)

declare evalExpr_counted.simps [simp del] evalOps_counted.simps [simp del]

text \<open>The result alone, and its equations.\<close>

definition evalExpr :: "script_env \<Rightarrow> heap \<Rightarrow> hval \<Rightarrow> string \<Rightarrow> (script_error, hval) result" where
  "evalExpr env h root expr = snd (evalExpr_counted env h root expr)"

definition evalOps :: "script_env \<Rightarrow> heap \<Rightarrow> hval \<Rightarrow> string list \<Rightarrow> string \<Rightarrow> (script_error, hval) result" where
  "evalOps env h root ops expr = snd (evalOps_counted env h root ops expr)"

lemma evalExpr_eq: "evalExpr env h root expr = evalOps env h root script_ops (TrimSpace expr)"
  by (simp add: evalExpr_def evalOps_def evalExpr_counted.simps)

lemma evalOps_Nil: "evalOps env h root [] expr = evalAtom env h root expr"
  by (simp add: evalOps_def evalOps_counted.simps)

lemma evalOps_Cons:
  "evalOps env h root (op # ops) expr =
     (case str_index op expr of
        None \<Rightarrow> evalOps env h root ops expr
      | Some i \<Rightarrow>
          if i = 0 \<or> op = [] then evalOps env h root ops expr
          else
            (case evalExpr env h root (take i expr) of
               Inl e \<Rightarrow> Err e
             | Inr lv \<Rightarrow>
                 (case evalExpr env h root (drop (i + length op) expr) of
                    Inl e \<Rightarrow> Err e
                  | Inr rv \<Rightarrow>
                      (case applyOp env h op lv rv of
                         Some res \<Rightarrow> res
                       | None \<Rightarrow> evalOps env h root ops expr))))"
  by (simp add: evalOps_def evalExpr_def evalOps_counted.simps(2) split: option.split prod.split sum.split)

section \<open>Statements\<close>

definition evalDelete :: "string \<Rightarrow> nat \<Rightarrow> heap \<Rightarrow> (script_error, heap) result" where
  "evalDelete line root h =
     (let p = TrimPrefix (TrimSpace (TrimPrefix line ''delete '')) ''msg.'' in
      if p = [] \<or> p = ''msg'' then Err DeleteRoot
      else Ok (hdelete root (path_keys p) h))"

text \<open>
  \<open>strings.SplitN(line, "=", 2)\<close>. The caller has seen a \<open>=\<close>, so there are two parts. An error of
  \<open>setNestedValue\<close> ends the script, with the intermediate maps it made still in place.
\<close>

definition evalAssign :: "script_env \<Rightarrow> string \<Rightarrow> nat \<Rightarrow> heap \<Rightarrow> heap \<times> script_error option" where
  "evalAssign env line root h =
     (let lhs = TrimSpace (takeWhile (\<lambda>c. c \<noteq> CHR ''='') line);
          rhs = TrimSpace (tl (dropWhile (\<lambda>c. c \<noteq> CHR ''='') line));
          targetPath = TrimPrefix lhs ''msg.'' in
      if targetPath = lhs then (h, None)
      else (case evalExpr env h (HMap root) rhs of
              Inl e \<Rightarrow> (h, Some e)
            | Inr v \<Rightarrow>
                (let (h', e) = hset targetPath v root (path_keys targetPath) h
                 in (h', map_option SetError e))))"

definition splitScriptLines :: "string \<Rightarrow> string list" where
  "splitScriptLines script =
     filter (\<lambda>t. t \<noteq> [])
       (map TrimSpace (concat (map (split_on CHR '';'') (split_on CHR 0x0A script))))"

definition trimLine :: "string \<Rightarrow> string" where
  "trimLine s = TrimSpace (TrimSuffix (TrimSpace s) '';'')"

text \<open>A line that is not an operation.\<close>

definition skipped_line :: "string \<Rightarrow> bool" where
  "skipped_line line \<longleftrightarrow> line = [] \<or> line = ''msg'' \<or> line = ''msg;'' \<or> prefix ''//'' line"

definition evalLine :: "script_env \<Rightarrow> string \<Rightarrow> nat \<Rightarrow> heap \<Rightarrow> heap \<times> script_error option" where
  "evalLine env line root h =
     (if prefix ''delete '' line then
        (case evalDelete line root h of Inl e \<Rightarrow> (h, Some e) | Inr h' \<Rightarrow> (h', None))
      else if CHR ''='' \<in> set line then evalAssign env line root h
      else (h, None))"

definition intermediateCheckInterval :: nat where
  "intermediateCheckInterval = 64"

text \<open>\<open>json.Marshal\<close> reports a cyclic structure as an error.\<close>

definition marshal_cycle :: string where
  "marshal_cycle = ''encountered a cycle''"

definition encodedSize :: "script_env \<Rightarrow> heap \<Rightarrow> hval \<Rightarrow> (string, nat) result" where
  "encodedSize env h v =
     (case snapshot_of h v of
        None \<Rightarrow> Err marshal_cycle
      | Some t \<Rightarrow>
          (case json_marshal (sc_codec env) t of Inl e \<Rightarrow> Err e | Inr b \<Rightarrow> Ok (length b)))"

definition size_check :: "script_env \<Rightarrow> nat \<Rightarrow> nat \<Rightarrow> nat \<Rightarrow> heap \<Rightarrow> script_error option" where
  "size_check env maxIntermediateBytes ops root h =
     (if maxIntermediateBytes > 0 \<and> ops mod intermediateCheckInterval = 0 then
        (case encodedSize env h (HMap root) of
           Inl e \<Rightarrow> Some (IntermediateEncode e)
         | Inr n \<Rightarrow>
             if n > maxIntermediateBytes then Some (IntermediateLimit n maxIntermediateBytes)
             else None)
      else None)"

text \<open>
  The loop of \<open>runScript\<close>; \<open>done\<close> is what successive polls of the context find (the list is as
  long as the run needs; past its end the context is live).
\<close>

fun run_lines ::
  "script_env \<Rightarrow> string option list \<Rightarrow> nat \<Rightarrow> nat \<Rightarrow> nat \<Rightarrow> nat \<Rightarrow> string list \<Rightarrow> heap \<Rightarrow> heap \<times> script_error option" where
  "run_lines env polls maxOps maxBytes root ops [] h = (h, None)"
| "run_lines env polls maxOps maxBytes root ops (raw # lines) h =
     (case (case polls of [] \<Rightarrow> None | p # _ \<Rightarrow> p) of
        Some e \<Rightarrow> (h, Some (Cancelled e))
      | None \<Rightarrow>
          (let line = trimLine raw in
           if skipped_line line then run_lines env (tl polls) maxOps maxBytes root ops lines h
           else if ops + 1 > maxOps then (h, Some (OpLimit (ops + 1) maxOps))
           else
             (case evalLine env line root h of
                (h', Some e) \<Rightarrow> (h', Some e)
              | (h', None) \<Rightarrow>
                  (case size_check env maxBytes (ops + 1) root h' of
                     Some e \<Rightarrow> (h', Some e)
                   | None \<Rightarrow> run_lines env (tl polls) maxOps maxBytes root (ops + 1) lines h'))))"

definition runScript ::
  "script_env \<Rightarrow> string option list \<Rightarrow> string \<Rightarrow> nat \<Rightarrow> nat \<Rightarrow> nat \<Rightarrow> heap \<Rightarrow> heap \<times> script_error option" where
  "runScript env polls script root maxOps maxIntermediateBytes h =
     run_lines env polls maxOps maxIntermediateBytes root 0 (splitScriptLines script) h"

section \<open>The stage\<close>

record script_stage =
  ss_Script :: string
  ss_MaxOps :: int
  ss_MaxScriptBytes :: int
  ss_MaxIntermediateBytes :: int
  ss_MaxOutputBytes :: int

definition DefaultMaxOps :: nat where "DefaultMaxOps = 1000"
definition DefaultMaxScriptBytes :: nat where "DefaultMaxScriptBytes = 32 * 1024"
definition DefaultMaxIntermediateBytes :: nat where "DefaultMaxIntermediateBytes = 8 * 1024 * 1024"
definition DefaultMaxOutputBytes :: nat where "DefaultMaxOutputBytes = 4 * 1024 * 1024"

definition opCap :: "script_stage \<Rightarrow> nat" where
  "opCap s = (if ss_MaxOps s > 0 then nat (ss_MaxOps s) else DefaultMaxOps)"

definition scriptByteCap :: "script_stage \<Rightarrow> nat" where
  "scriptByteCap s = (if ss_MaxScriptBytes s > 0 then nat (ss_MaxScriptBytes s) else DefaultMaxScriptBytes)"

definition outputByteCap :: "script_stage \<Rightarrow> nat" where
  "outputByteCap s = (if ss_MaxOutputBytes s > 0 then nat (ss_MaxOutputBytes s) else DefaultMaxOutputBytes)"

definition intermediateByteCap :: "script_stage \<Rightarrow> nat" where
  "intermediateByteCap s =
     (if ss_MaxIntermediateBytes s > 0 then nat (ss_MaxIntermediateBytes s) else DefaultMaxIntermediateBytes)"

text \<open>
  \<open>encodeStructured\<close> on the store. What \<open>mxj\<close> does with a cyclic map is the argument \<open>xml_cycle\<close>,
  \<open>None\<close> if it does not return; then the stage does not either, which is the outer \<open>None\<close>.
\<close>

definition script_encode ::
  "script_env \<Rightarrow> (string, bytes) result option \<Rightarrow> heap \<Rightarrow> nat \<Rightarrow> Format \<Rightarrow> (codec_error, bytes) result option" where
  "script_encode env xml_cycle h root format =
     (case snapshot_of h (HMap root) of
        Some (VObj t) \<Rightarrow> Some (encodeStructured (sc_codec env) t format)
      | _ \<Rightarrow>
          if format = FormatXML then map_option (map_sum MarshalFailed id) xml_cycle
          else Some (Err (MarshalFailed marshal_cycle)))"

definition script_finish ::
  "script_stage \<Rightarrow> Format \<Rightarrow> (codec_error, bytes) result \<Rightarrow> (script_error, stage_output) result" where
  "script_finish s format r =
     (case r of
        Inl e \<Rightarrow> Err (ScriptEncode e)
      | Inr out \<Rightarrow>
          if length out > outputByteCap s then Err (OutputLimit (length out) (outputByteCap s))
          else Ok (out, format, None))"

text \<open>
  \<open>Execute\<close>. The first poll is the check before the run; the deadline of \<open>Timeout\<close> is one of the
  reasons a poll finds the context done.
\<close>

definition ScriptStage_Execute ::
  "script_env \<Rightarrow> (string, bytes) result option \<Rightarrow> string option list \<Rightarrow> script_stage \<Rightarrow> bytes \<Rightarrow> Format
   \<Rightarrow> (script_error, stage_output) result option" where
  "ScriptStage_Execute env xml_cycle polls s message format =
     (if TrimSpace (ss_Script s) = [] then Some (Ok (message, format, None))
      else if length (ss_Script s) > scriptByteCap s
        then Some (Err (ScriptTooLong (length (ss_Script s)) (scriptByteCap s)))
      else
        (case decodeStructured (sc_codec env) message format of
           Inl e \<Rightarrow> Some (Err (ScriptDecode e))
         | Inr None \<Rightarrow> Some (Ok (message, format, None))
         | Inr (Some data) \<Rightarrow>
             (case (case polls of [] \<Rightarrow> None | p # _ \<Rightarrow> p) of
                Some e \<Rightarrow> Some (Err (Cancelled e))
              | None \<Rightarrow>
                  (let (hm, h) = store_fields data []; root = length h;
                       (h', e) = runScript env (tl polls) (ss_Script s) root (opCap s)
                                   (intermediateByteCap s) (h @ [hm]) in
                   (case e of
                      Some e \<Rightarrow> Some (Err e)
                    | None \<Rightarrow>
                        map_option (script_finish s format)
                          (script_encode env xml_cycle h' root format))))))"

end
