(* ===== verification/Script_Store.thy ===== *)
theory Script_Store
  imports Script
begin

text \<open>
  When the store of \<open>Script\<close> is a plain document: \<open>rep h v t A\<close> says that the value \<open>v\<close> stands
  for the tree \<open>t\<close> and that the maps it is made of are exactly the addresses in \<open>A\<close>, none of
  them used twice. On such a store the path operations are those of \<open>Paths\<close>.
\<close>

section \<open>Documents without shared maps\<close>

inductive rep :: "heap \<Rightarrow> hval \<Rightarrow> any \<Rightarrow> nat set \<Rightarrow> bool"
  and reps :: "heap \<Rightarrow> hmap \<Rightarrow> obj \<Rightarrow> nat set \<Rightarrow> bool" for h :: heap where
  rep_leaf: "(\<And>m. w \<noteq> VObj m) \<Longrightarrow> rep h (HVal w) w {}"
| rep_map: "r < length h \<Longrightarrow> reps h (h ! r) m A \<Longrightarrow> r \<notin> A \<Longrightarrow> rep h (HMap r) (VObj m) (insert r A)"
| reps_nil: "reps h [] [] {}"
| reps_cons:
    "rep h v t A \<Longrightarrow> reps h hm m B \<Longrightarrow> A \<inter> B = {} \<Longrightarrow> reps h ((k, v) # hm) ((k, t) # m) (A \<union> B)"

inductive_cases rep_leafE: "rep h (HVal w) t A"
inductive_cases rep_mapE: "rep h (HMap r) t A"
inductive_cases rep_objE: "rep h v (VObj m) A"
inductive_cases reps_nilE: "reps h [] m A"
inductive_cases reps_consE: "reps h (kv # hm) m A"

text \<open>A part of the store that is not touched still represents what it did.\<close>

lemma rep_frame:
  "rep h v t A \<Longrightarrow> (\<And>r. r \<in> A \<Longrightarrow> r < length h' \<and> h' ! r = h ! r) \<Longrightarrow> rep h' v t A"
  "reps h hm m A \<Longrightarrow> (\<And>r. r \<in> A \<Longrightarrow> r < length h' \<and> h' ! r = h ! r) \<Longrightarrow> reps h' hm m A"
proof (induction rule: rep_reps.inducts)
  case (rep_map r m A)
  then show ?case using rep_reps.rep_map [of r h' m A] by simp
qed (auto intro: rep_reps.intros)

lemma rep_bounded:
  "rep h v t A \<Longrightarrow> A \<subseteq> {..<length h}"
  "reps h hm m A \<Longrightarrow> A \<subseteq> {..<length h}"
  by (induction rule: rep_reps.inducts) auto

lemma rep_read:
  "rep h v t A \<Longrightarrow> card A \<le> n \<Longrightarrow> read_any n h v = Some t"
  "reps h hm m A \<Longrightarrow> card A \<le> n \<Longrightarrow> read_fields n h hm = Some m"
proof (induction arbitrary: n and n rule: rep_reps.inducts)
  case (rep_map r m A)
  have "finite A" using rep_bounded(2) [OF rep_map(2)] finite_subset by blast
  with rep_map obtain n' where "n = Suc n'" "card A \<le> n'" by (cases n) auto
  with rep_map show ?case by (simp add: cell_def)
next
  case (reps_cons v t A hm m B k)
  have "finite A" "finite B"
    using rep_bounded(1) [OF reps_cons(1)] rep_bounded(2) [OF reps_cons(3)] finite_subset by blast+
  then have "card A \<le> n" "card B \<le> n"
    using reps_cons.prems card_mono [of "A \<union> B" A] card_mono [of "A \<union> B" B] by auto
  with reps_cons show ?case by simp
qed auto

lemma rep_snapshot:
  assumes "rep h v t A"
  shows "snapshot_of h v = Some t"
proof -
  have "card A \<le> card {..<length h}" using rep_bounded(1) [OF assms] by (intro card_mono) auto
  then show ?thesis using rep_read(1) [OF assms] by (simp add: snapshot_of_def)
qed

definition same_at :: "nat set \<Rightarrow> heap \<Rightarrow> heap \<Rightarrow> bool" where
  "same_at A h h' \<longleftrightarrow> (\<forall>r\<in>A. r < length h' \<and> h' ! r = h ! r)"

lemma same_at_Un [simp]: "same_at (A \<union> B) h h' \<longleftrightarrow> same_at A h h' \<and> same_at B h h'"
  by (auto simp: same_at_def)

lemma rep_same:
  "rep h v t A \<Longrightarrow> same_at A h h' \<Longrightarrow> rep h' v t A"
  "reps h hm m A \<Longrightarrow> same_at A h h' \<Longrightarrow> reps h' hm m A"
  by (auto simp: same_at_def intro: rep_frame)

lemma reps_lookup:
  assumes "reps h hm m A" "map_of hm k = Some v"
  obtains t B C where "map_of m k = Some t" "rep h v t B" "A = B \<union> C" "B \<inter> C = {}"
    "\<And>h' v' t' B'. rep h' v' t' B' \<Longrightarrow> same_at C h h' \<Longrightarrow> B' \<inter> C = {} \<Longrightarrow>
       reps h' (AList.update k v' hm) (AList.update k t' m) (B' \<union> C)"
  using assms
proof (induction hm arbitrary: m A thesis)
  case (Cons kv hm)
  from Cons.prems(2) obtain k' w t A1 m' A2 where kv: "kv = (k', w)" "m = (k', t) # m'" "A = A1 \<union> A2"
    and r: "rep h w t A1" "reps h hm m' A2" "A1 \<inter> A2 = {}"
    by (auto elim: reps_consE)
  show ?case
  proof (cases "k' = k")
    case True
    with Cons.prems(3) kv have "w = v" by simp
    show ?thesis
    proof (rule Cons.prems(1) [of t A1 A2])
      show "reps h' (AList.update k v' (kv # hm)) (AList.update k t' m) (B' \<union> A2)"
        if "rep h' v' t' B'" "same_at A2 h h'" "B' \<inter> A2 = {}" for h' v' t' B'
        using that kv True r by (auto intro: rep_reps.intros rep_same)
    qed (use True kv r \<open>w = v\<close> in auto)
  next
    case False
    with Cons.prems(3) kv have l: "map_of hm k = Some v" by simp
    show ?thesis
    proof (rule Cons.IH [OF _ r(2) l])
      fix u B C
      assume u: "map_of m' k = Some u" "rep h v u B" "A2 = B \<union> C" "B \<inter> C = {}"
        and upd: "\<And>h' v' t' B'. rep h' v' t' B' \<Longrightarrow> same_at C h h' \<Longrightarrow> B' \<inter> C = {} \<Longrightarrow>
           reps h' (AList.update k v' hm) (AList.update k t' m') (B' \<union> C)"
      show ?thesis
      proof (rule Cons.prems(1) [of u B "A1 \<union> C"])
        show "reps h' (AList.update k v' (kv # hm)) (AList.update k t' m) (B' \<union> (A1 \<union> C))"
          if "rep h' v' t' B'" "same_at (A1 \<union> C) h h'" "B' \<inter> (A1 \<union> C) = {}" for h' v' t' B'
        proof -
          have "reps h' (AList.update k v' hm) (AList.update k t' m') (B' \<union> C)"
            using that by (intro upd) auto
          moreover have "rep h' w t A1" using r(1) that by (auto intro: rep_same)
          moreover have "A1 \<inter> (B' \<union> C) = {}" using that u r by auto
          ultimately have "reps h' ((k', w) # AList.update k v' hm) ((k', t) # AList.update k t' m')
              (A1 \<union> (B' \<union> C))"
            by (intro rep_reps.reps_cons)
          then show ?thesis using kv False by (simp add: Un_left_commute)
        qed
      qed (use False kv r u in auto)
    qed
  qed
qed (auto elim: reps_nilE)

lemma reps_missing:
  assumes "reps h hm m A" "map_of hm k = None"
  shows "map_of m k = None \<and>
    (rep h' v' t' B' \<longrightarrow> same_at A h h' \<longrightarrow> B' \<inter> A = {} \<longrightarrow>
       reps h' (AList.update k v' hm) (AList.update k t' m) (B' \<union> A))"
  using assms
proof (induction hm arbitrary: m A)
  case Nil
  then have "m = []" "A = {}" by (auto elim: reps_nilE)
  moreover have "reps h' [(k, v')] [(k, t')] (B' \<union> {})" if "rep h' v' t' B'"
    using that by (intro rep_reps.intros) auto
  ultimately show ?case by simp
next
  case (Cons kv hm)
  from Cons.prems(1) obtain k' w t A1 m' A2 where kv: "kv = (k', w)" "m = (k', t) # m'" "A = A1 \<union> A2"
    and r: "rep h w t A1" "reps h hm m' A2" "A1 \<inter> A2 = {}"
    by (auto elim: reps_consE)
  have k: "k' \<noteq> k" "map_of hm k = None" using Cons.prems(2) kv by (auto split: if_splits)
  have "reps h' ((k', w) # AList.update k v' hm) ((k', t) # AList.update k t' m') (A1 \<union> (B' \<union> A2))"
    if "rep h' v' t' B'" "same_at A h h'" "B' \<inter> A = {}"
    using that kv r Cons.IH [OF r(2) k(2)] by (intro rep_reps.reps_cons) (auto intro: rep_same)
  with Cons.IH [OF r(2) k(2)] kv k show ?case by (simp add: Un_left_commute)
qed

lemma reps_delete:
  "reps h hm m A \<Longrightarrow> \<exists>B\<subseteq>A. reps h (AList.delete k hm) (AList.delete k m) B"
proof (induction hm arbitrary: m A)
  case Nil
  then have "m = []" "A = {}" by (auto elim: reps_nilE)
  then show ?case by (auto intro: rep_reps.intros)
next
  case (Cons kv hm)
  from Cons.prems obtain k' w t A1 m' A2 where kv: "kv = (k', w)" "m = (k', t) # m'" "A = A1 \<union> A2"
    and r: "rep h w t A1" "reps h hm m' A2" "A1 \<inter> A2 = {}"
    by (auto elim: reps_consE)
  from Cons.IH [OF r(2)] obtain B where B: "B \<subseteq> A2" "reps h (AList.delete k hm) (AList.delete k m') B"
    by blast
  show ?case
  proof (cases "k' = k")
    case True
    with B kv show ?thesis by (intro exI [of _ B]) (auto simp: AList.delete_eq)
  next
    case False
    have "reps h ((k', w) # AList.delete k hm) ((k', t) # AList.delete k m') (A1 \<union> B)"
      using r B by (intro rep_reps.reps_cons) auto
    with False kv B show ?thesis by (intro exI [of _ "A1 \<union> B"]) (auto simp: AList.delete_eq)
  qed
qed


text \<open>What an operation on the maps in \<open>A\<close> may do to the rest of the store: add maps.\<close>

definition only_at :: "nat set \<Rightarrow> heap \<Rightarrow> heap \<Rightarrow> bool" where
  "only_at A h h' \<longleftrightarrow> length h \<le> length h' \<and> (\<forall>r<length h. r \<notin> A \<longrightarrow> h' ! r = h ! r)"

lemma only_at_same: "only_at A h h' \<Longrightarrow> B \<subseteq> {..<length h} \<Longrightarrow> A \<inter> B = {} \<Longrightarrow> same_at B h h'"
  by (auto simp: only_at_def same_at_def subset_iff disjoint_iff intro: less_le_trans)

lemma rep_HMap: "rep h (HMap r) t A \<longleftrightarrow>
    (\<exists>m B. t = VObj m \<and> A = insert r B \<and> r < length h \<and> reps h (h ! r) m B \<and> r \<notin> B)"
  by (subst rep.simps) auto

lemma rep_HVal: "rep h (HVal w) t A \<longleftrightarrow> t = w \<and> A = {} \<and> (\<forall>m. w \<noteq> VObj m)"
  by (auto elim: rep_leafE intro: rep_reps.intros)

lemma hget_rep:
  "rep h v t A \<Longrightarrow>
     (case hget h v ks of
        None \<Rightarrow> value_at t ks = None
      | Some v' \<Rightarrow> \<exists>t' B. value_at t ks = Some t' \<and> rep h v' t' B)"
proof (induction h v ks arbitrary: t A rule: hget.induct)
  case (2 h r k ks)
  then obtain m B where m: "t = VObj m" "reps h (h ! r) m B" "r < length h" by (auto simp: rep_HMap)
  show ?case
  proof (cases "map_of (h ! r) k")
    case None
    with m reps_missing [OF m(2) None] show ?thesis by (simp add: cell_def)
  next
    case (Some v')
    from reps_lookup [OF m(2) Some] obtain u C where "map_of m k = Some u" "rep h v' u C" by metis
    with 2(1) [of v' u C] Some m show ?thesis by (auto simp: cell_def split: option.splits)
  qed
next
  case (3 h w k ks)
  then have "t = w" "\<forall>m. w \<noteq> VObj m" by (auto simp: rep_HVal)
  then show ?case by (cases w) auto
qed auto


lemma rep_put:
  assumes m: "reps h (h ! r) m B" "r < length h" "r \<notin> B"
    and put: "only_at (insert r {}) h h1" "h1 ! r = AList.update k v' (h ! r)"
    and v': "rep h1 v' t' D" "D \<inter> insert r B = {}"
  shows "\<exists>C\<subseteq>B. rep h1 (HMap r) (VObj (AList.update k t' m)) (insert r (D \<union> C))"
proof -
  have r: "r < length h1" using m(2) put(1) by (auto simp: only_at_def)
  have same: "same_at C h h1" if "C \<subseteq> B" for C
    using only_at_same [OF put(1), of C] rep_bounded(2) [OF m(1)] m(3) that by blast
  have "\<exists>C\<subseteq>B. reps h1 (AList.update k v' (h ! r)) (AList.update k t' m) (D \<union> C)"
  proof (cases "map_of (h ! r) k")
    case None
    with reps_missing [OF m(1) None, of h1 v' t' D] v' same [of B] show ?thesis by auto
  next
    case (Some v)
    from reps_lookup [OF m(1) Some] obtain u E C where "B = E \<union> C"
      and upd: "\<And>h' v' t' B'. rep h' v' t' B' \<Longrightarrow> same_at C h h' \<Longrightarrow> B' \<inter> C = {} \<Longrightarrow>
        reps h' (AList.update k v' (h ! r)) (AList.update k t' m) (B' \<union> C)"
      by metis
    moreover have "D \<inter> C = {}" "same_at C h h1" using v'(2) same [of C] \<open>B = E \<union> C\<close> by auto
    ultimately show ?thesis using upd [OF v'(1)] by (intro exI [of _ C]) auto
  qed
  then show ?thesis using put(2) r m(3) v'(2) by (auto simp: rep_HMap)
qed

lemma hset_leaf:
  assumes "rep h (HMap r) (VObj m) A" "\<And>o'. w \<noteq> VObj o'"
  shows "case hset path (HVal w) r ks h of
    (h', e) \<Rightarrow> \<exists>A'. rep h' (HMap r) (VObj (fst (set_loop path w m ks))) A'
       \<and> e = snd (set_loop path w m ks) \<and> A' \<subseteq> A \<union> {length h..} \<and> only_at A h h'"
  using assms(1)
proof (induction path "HVal w" r ks h arbitrary: m A rule: hset.induct)
  case (1 path r h)
  then show ?case by (auto simp: only_at_def)
next
  case (2 path r k h)
  then obtain B where B: "A = insert r B" "r < length h" "reps h (h ! r) m B" "r \<notin> B"
    by (auto simp: rep_HMap)
  have "\<exists>C\<subseteq>B. rep (h[r := AList.update k (HVal w) (h ! r)]) (HMap r) (VObj (AList.update k w m)) (insert r ({} \<union> C))"
    using B assms(2) by (intro rep_put [OF B(3)]) (auto simp: only_at_def rep_HVal)
  with B show ?case by (auto simp: cell_def only_at_def)
next
  case (3 path r k k' ks h)
  then obtain B where B: "A = insert r B" "r < length h" "reps h (h ! r) m B" "r \<notin> B"
    by (auto simp: rep_HMap)
  show ?case
  proof (cases "map_of (h ! r) k")
    case None
    have c: "cell h r = h ! r" using B by (simp add: cell_def)
    let ?h1 = "h[r := AList.update k (HMap (length h)) (cell h r)] @ [[]]"
    have "rep ?h1 (HMap (length h)) (VObj []) {length h}"
      by (auto simp: rep_HMap nth_append intro: rep_reps.intros)
    from "3.hyps"(1) [OF _ this] None c obtain h' e A1 where
      h': "hset path (HVal w) (length h) (k' # ks) ?h1 = (h', e)"
      "rep h' (HMap (length h)) (VObj (fst (set_loop path w [] (k' # ks)))) A1"
      "e = snd (set_loop path w [] (k' # ks))" "A1 \<subseteq> {length h} \<union> {Suc (length h)..}"
      "only_at {length h} ?h1 h'"
      by (auto split: prod.splits)
    have "only_at {r} h h'" "h' ! r = AList.update k (HMap (length h)) (h ! r)"
      using h'(5) B(2) c by (auto simp: only_at_def nth_append)
    moreover have "A1 \<inter> insert r B = {}" using h'(4) B(2) rep_bounded(2) [OF B(3)] by fastforce
    ultimately have "\<exists>C\<subseteq>B. rep h' (HMap r)
        (VObj (AList.update k (VObj (fst (set_loop path w [] (k' # ks)))) m)) (insert r (A1 \<union> C))"
      using h'(2) by (intro rep_put [OF B(3,2,4)])
    then obtain C where "C \<subseteq> B"
      "rep h' (HMap r) (VObj (AList.update k (VObj (fst (set_loop path w [] (k' # ks)))) m)) (insert r (A1 \<union> C))"
      by blast
    moreover have "map_of m k = None" using reps_missing [OF B(3) None] by simp
    ultimately show ?thesis
      using h' None B c \<open>only_at {r} h h'\<close>
      by (auto simp: only_at_def split: prod.splits intro!: exI [of _ "insert r (A1 \<union> C)"])
  next
    case (Some v)
    from reps_lookup [OF B(3) Some] obtain t E C where t: "map_of m k = Some t" "rep h v t E"
      "B = E \<union> C" "E \<inter> C = {}"
      and upd: "\<And>h' v' t' B'. rep h' v' t' B' \<Longrightarrow> same_at C h h' \<Longrightarrow> B' \<inter> C = {} \<Longrightarrow>
        reps h' (AList.update k v' (h ! r)) (AList.update k t' m) (B' \<union> C)"
      by metis
    show ?thesis
    proof (cases v)
      case (HVal x)
      with t(2) have "t = x" "\<forall>m. x \<noteq> VObj m" by (auto simp: rep_HVal)
      with Some HVal t B "3.prems" show ?thesis
        by (cases x) (auto simp: cell_def only_at_def)
    next
      case (HMap r')
      with t(2) obtain nm where nm: "t = VObj nm" by (auto simp: rep_HMap)
      from "3.hyps"(2) [of "HMap r'" r' nm E] t(2) Some HMap B nm obtain h' e A1 where
        h': "hset path (HVal w) r' (k' # ks) h = (h', e)"
        "rep h' (HMap r') (VObj (fst (set_loop path w nm (k' # ks)))) A1"
        "e = snd (set_loop path w nm (k' # ks))" "A1 \<subseteq> E \<union> {length h..}" "only_at E h h'"
        by (auto simp: cell_def split: prod.splits)
      have C: "C \<subseteq> {..<length h}" using rep_bounded(2) [OF B(3)] t(3) by auto
      have "reps h' (AList.update k (HMap r') (h ! r))
              (AList.update k (VObj (fst (set_loop path w nm (k' # ks)))) m) (A1 \<union> C)"
        using upd [OF h'(2)] only_at_same [OF h'(5) C t(4)] h'(4) t(4) C by fastforce
      moreover have upd_eq: "h' ! r = AList.update k (HMap r') (h ! r)" "r < length h'"
        using Some HMap B t(3) h'(5) by (simp_all add: update_same only_at_def)
      moreover have "r \<notin> A1 \<union> C" using h'(4) B t(3) by auto
      ultimately have "rep h' (HMap r) (VObj (AList.update k (VObj (fst (set_loop path w nm (k' # ks)))) m))
          (insert r (A1 \<union> C))"
        using rep_reps.rep_map [of r h'] by simp
      moreover have "set_loop path w m (k # k' # ks)
          = (AList.update k (VObj (fst (set_loop path w nm (k' # ks)))) m, e)"
        using t(1) nm h'(3) by (simp split: prod.splits)
      moreover have "hset path (HVal w) r (k # k' # ks) h = (h', e)"
        using h'(1) Some HMap B(2) by (simp add: cell_def)
      moreover have "insert r (A1 \<union> C) \<subseteq> A \<union> {length h..}" "only_at A h h'"
        using h'(4,5) B(1) t(3) by (auto simp: only_at_def)
      ultimately show ?thesis by auto
    qed
  qed
qed


lemma hdelete_rep:
  "rep h (HMap r) (VObj m) A \<Longrightarrow>
     \<exists>B\<subseteq>A. rep (hdelete r ks h) (HMap r) (VObj (delete_loop m ks)) B \<and> only_at A h (hdelete r ks h)"
proof (induction r ks h arbitrary: m A rule: hdelete.induct)
  case (1 r h)
  then show ?case by (auto simp: only_at_def)
next
  case (2 r k h)
  then obtain B where B: "A = insert r B" "r < length h" "reps h (h ! r) m B" "r \<notin> B"
    by (auto simp: rep_HMap)
  let ?h = "h[r := AList.delete k (h ! r)]"
  from reps_delete [OF B(3), of k] obtain C where C: "C \<subseteq> B"
    "reps h (AList.delete k (h ! r)) (AList.delete k m) C" by blast
  have "only_at {r} h ?h" by (simp add: only_at_def)
  moreover have "same_at C h ?h"
    using only_at_same [OF calculation, of C] C rep_bounded(2) [OF C(2)] B(4) by auto
  ultimately have "rep ?h (HMap r) (VObj (AList.delete k m)) (insert r C)"
    using rep_same(2) [OF C(2)] B C(1) by (auto simp: rep_HMap)
  with B C show ?case by (auto simp: cell_def only_at_def intro!: exI [of _ "insert r C"])
next
  case (3 r k k' ks h)
  then obtain B where B: "A = insert r B" "r < length h" "reps h (h ! r) m B" "r \<notin> B"
    by (auto simp: rep_HMap)
  have c: "cell h r = h ! r" using B by (simp add: cell_def)
  show ?case
  proof (cases "map_of (h ! r) k")
    case None
    with reps_missing [OF B(3) None] c "3.prems" show ?thesis by (auto simp: only_at_def)
  next
    case (Some v)
    from reps_lookup [OF B(3) Some] obtain t E C where t: "map_of m k = Some t" "rep h v t E"
      "B = E \<union> C" "E \<inter> C = {}"
      and upd: "\<And>h' v' t' B'. rep h' v' t' B' \<Longrightarrow> same_at C h h' \<Longrightarrow> B' \<inter> C = {} \<Longrightarrow>
        reps h' (AList.update k v' (h ! r)) (AList.update k t' m) (B' \<union> C)"
      by metis
    show ?thesis
    proof (cases v)
      case (HVal x)
      with t(2) have "t = x" "\<forall>m. x \<noteq> VObj m" by (auto simp: rep_HVal)
      with Some HVal t c "3.prems" show ?thesis by (cases x) (auto simp: only_at_def)
    next
      case (HMap r')
      with t(2) obtain nm where nm: "t = VObj nm" by (auto simp: rep_HMap)
      let ?h = "hdelete r' (k' # ks) h"
      from "3.IH" [of "HMap r'" r' nm E] t(2) Some HMap c nm obtain A1 where
        h': "A1 \<subseteq> E" "rep ?h (HMap r') (VObj (delete_loop nm (k' # ks))) A1" "only_at E h ?h"
        by auto
      have C: "C \<subseteq> {..<length h}" using rep_bounded(2) [OF B(3)] t(3) by auto
      have "reps ?h (AList.update k (HMap r') (h ! r))
              (AList.update k (VObj (delete_loop nm (k' # ks))) m) (A1 \<union> C)"
        using upd [OF h'(2)] only_at_same [OF h'(3) C t(4)] h'(1) t(4) by fastforce
      moreover have "?h ! r = AList.update k (HMap r') (h ! r)" "r < length ?h"
        using Some HMap B t(3) h'(3) by (simp_all add: update_same only_at_def)
      moreover have "r \<notin> A1 \<union> C" using h'(1) B t(3) by auto
      ultimately have "rep ?h (HMap r) (VObj (AList.update k (VObj (delete_loop nm (k' # ks))) m))
          (insert r (A1 \<union> C))"
        using rep_reps.rep_map [of r ?h] by simp
      moreover have "insert r (A1 \<union> C) \<subseteq> A" "only_at A h ?h"
        using h' B(1) t(3) by (auto simp: only_at_def)
      ultimately show ?thesis
        using Some HMap c t(1) nm by (intro exI [of _ "insert r (A1 \<union> C)"]) auto
    qed
  qed
qed

lemma store_rep:
  "case store_any v h of (hv, h') \<Rightarrow> \<exists>A ys. h' = h @ ys \<and> rep h' hv v A \<and> A \<subseteq> {length h..}"
  "case store_fields m h of (hm, h') \<Rightarrow> \<exists>A ys. h' = h @ ys \<and> reps h' hm m A \<and> A \<subseteq> {length h..}"
proof (induction v h and m h rule: store_any_store_fields.induct)
  case (1 m h)
  then obtain hm h' A ys where s: "store_fields m h = (hm, h')" "h' = h @ ys" "reps h' hm m A" "A \<subseteq> {length h..}"
    by (auto split: prod.splits)
  have A: "r < length h'" if "r \<in> A" for r using rep_bounded(2) [OF s(3)] that by auto
  then have "same_at A h' (h' @ [hm])" by (simp add: same_at_def nth_append less_Suc_eq)
  then have "rep (h' @ [hm]) (HMap (length h')) (VObj m) (insert (length h') A)"
    using rep_same(2) [OF s(3)] A by (intro rep_reps.rep_map) auto
  with s show ?case by (auto intro!: exI [of _ "insert (length h') A"])
next
  case (4 k v m h)
  obtain hv h1 where v: "store_any v h = (hv, h1)" by fastforce
  obtain hm h2 where m: "store_fields m h1 = (hm, h2)" by fastforce
  from 4(1) v obtain A ys where A: "h1 = h @ ys" "rep h1 hv v A" "A \<subseteq> {length h..}" by auto
  from 4(2) [OF v [symmetric] refl] m obtain B zs where B: "h2 = h1 @ zs" "reps h2 hm m B" "B \<subseteq> {length h1..}"
    by auto
  have "rep h2 hv v A"
    using B(1) rep_bounded(1) [OF A(2)]
    by (intro rep_same(1) [OF A(2)]) (auto simp: same_at_def nth_append subset_iff)
  moreover have "A \<inter> B = {}" using rep_bounded(1) [OF A(2)] B(3) by fastforce
  ultimately have "reps h2 ((k, hv) # hm) ((k, v) # m) (A \<union> B)"
    using B(2) by (intro rep_reps.reps_cons)
  with v m A B show ?case by (auto intro!: exI [of _ "A \<union> B"])
qed (auto simp: rep_HVal intro: rep_reps.intros)

end
