(* ===== verification/Script_Value.thy ===== *)
theory Script_Value
  imports Script_Store
begin

text \<open>
  What an expression of a script means in a plain document, written without the store of maps and
  without the loop over the operators, and that \<open>evalExpr\<close> computes it.
\<close>

section \<open>The value of an expression\<close>

text \<open>
  The reference semantics has no store and no loop over operators: an expression has a value in
  a document. The text left and right of the leftmost occurrence of an operator that does not
  start the text are its operands.
\<close>

definition operands :: "string \<Rightarrow> string \<Rightarrow> (string \<times> string) option" where
  "operands op s =
     (case str_index op s of
        None \<Rightarrow> None
      | Some i \<Rightarrow> if i = 0 then None else Some (take i s, drop (i + length op) s))"

lemma operands_shorter:
  "operands op (TrimSpace e) = Some (l, r) \<Longrightarrow> op \<noteq> [] \<Longrightarrow> length l < length e \<and> length r < length e"
  using length_TrimSpace [of e]
  by (auto simp: operands_def split: option.splits if_splits dest!: str_index_bounds)

fun number_of :: "codec \<Rightarrow> any \<Rightarrow> 64 word option" where
  "number_of c (VNum n) = Some n"
| "number_of c (VStr s) = parse_float c s"
| "number_of c _ = None"

definition numbers :: "codec \<Rightarrow> any \<Rightarrow> any \<Rightarrow> (64 word \<times> 64 word) option" where
  "numbers c a b =
     (case (number_of c a, number_of c b) of (Some x, Some y) \<Rightarrow> Some (x, y) | _ \<Rightarrow> None)"

text \<open>
  A text in quotes stands for what is between them (a lone quote character panics), a path below
  \<open>msg\<close> for the value there or \<open>null\<close>, and a text that means nothing else for itself.
\<close>

definition atom_value :: "script_env \<Rightarrow> obj \<Rightarrow> string \<Rightarrow> (script_error, any) result" where
  "atom_value env d s =
     (if s \<noteq> [] \<and> hd s \<in> {CHR 0x22, CHR 0x27} \<and> last s = hd s
      then (if length s < 2 then Err SlicePanic else Ok (VStr (take (length s - 2) (drop 1 s))))
      else if s = ''true'' then Ok (VBool True)
      else if s = ''false'' then Ok (VBool False)
      else if s \<in> {''null'', ''nil''} then Ok VNil
      else if s = ''Date.now()'' then Ok (VNum (now_millis env))
      else if take 4 s = ''msg.'' then
        Ok (case value_at (VObj d) (path_keys (drop 4 s)) of None \<Rightarrow> VNil | Some v \<Rightarrow> v)
      else Ok (case parse_float (sc_codec env) s of Some n \<Rightarrow> VNum n | None \<Rightarrow> VStr s))"

text \<open>
  A sum is a number if both operands are and otherwise their printed forms side by side; a
  difference, product or quotient of operands that are not both numbers is no such thing, and
  the text is read as the next kind of expression, here \<open>other\<close>.
\<close>

type_synonym operand_values = "(script_error, any \<times> any) result option"

fun sum_value :: "script_env \<Rightarrow> operand_values \<Rightarrow> (script_error, any) result \<Rightarrow> (script_error, any) result" where
  "sum_value env None other = other"
| "sum_value env (Some (Inl x)) other = Err x"
| "sum_value env (Some (Inr (a, b))) other =
     Ok (case numbers (sc_codec env) a b of
           Some (x, y) \<Rightarrow> VNum (f64_add env x y)
         | None \<Rightarrow> VStr (sprint_v (sc_codec env) a @ sprint_v (sc_codec env) b))"

fun arith_value :: "script_env \<Rightarrow> (64 word \<Rightarrow> 64 word \<Rightarrow> (script_error, 64 word) result) \<Rightarrow> operand_values
    \<Rightarrow> (script_error, any) result \<Rightarrow> (script_error, any) result" where
  "arith_value env f None other = other"
| "arith_value env f (Some (Inl x)) other = Err x"
| "arith_value env f (Some (Inr (a, b))) other =
     (case numbers (sc_codec env) a b of
        Some (x, y) \<Rightarrow> map_sum id VNum (f x y)
      | None \<Rightarrow> other)"

fun both :: "('e, 'a) result \<Rightarrow> ('e, 'b) result \<Rightarrow> ('e, 'a \<times> 'b) result" where
  "both (Inl x) _ = Err x"
| "both (Inr a) r = map_sum id (Pair a) r"

function expr_value :: "script_env \<Rightarrow> obj \<Rightarrow> string \<Rightarrow> (script_error, any) result" where
  "expr_value env d e =
     sum_value env
       (case operands '' + '' (TrimSpace e) of
          None \<Rightarrow> None | Some (l, r) \<Rightarrow> Some (both (expr_value env d l) (expr_value env d r)))
    (arith_value env (\<lambda>x y. Ok (f64_sub env x y))
       (case operands '' - '' (TrimSpace e) of
          None \<Rightarrow> None | Some (l, r) \<Rightarrow> Some (both (expr_value env d l) (expr_value env d r)))
    (arith_value env (\<lambda>x y. Ok (f64_mul env x y))
       (case operands '' * '' (TrimSpace e) of
          None \<Rightarrow> None | Some (l, r) \<Rightarrow> Some (both (expr_value env d l) (expr_value env d r)))
    (arith_value env (\<lambda>x y. if f64_is_zero env y then Err DivisionByZero else Ok (f64_div env x y))
       (case operands '' / '' (TrimSpace e) of
          None \<Rightarrow> None | Some (l, r) \<Rightarrow> Some (both (expr_value env d l) (expr_value env d r)))
    (atom_value env d (TrimSpace e)))))"
  by pat_completeness auto

termination expr_value
  by (relation "measure (\<lambda>(_, _, e). length e)") (auto dest!: operands_shorter)

declare expr_value.simps [simp del]

section \<open>What \<open>evalExpr\<close> computes\<close>

text \<open>\<open>evalExpr\<close> on the store of a document has the document's value of the expression.\<close>

fun stands_for :: "heap \<Rightarrow> (script_error, hval) result \<Rightarrow> (script_error, any) result \<Rightarrow> bool" where
  "stands_for h (Inl x) (Inl y) \<longleftrightarrow> x = y"
| "stands_for h (Inr v) (Inr t) \<longleftrightarrow> (\<exists>A. rep h v t A)"
| "stands_for h _ _ \<longleftrightarrow> False"

lemma rep_number: "rep h v t A \<Longrightarrow> toFloat env v = number_of (sc_codec env) t"
  by (cases v; cases t) (auto simp: toFloat_def rep_HMap rep_HVal)

lemma rep_leaf_ex [simp]:
  "Ex (rep h (HVal (VNum x)) (VNum x))" "Ex (rep h (HVal (VStr s)) (VStr s))"
  "Ex (rep h (HVal (VBool b)) (VBool b))" "Ex (rep h (HVal VNil) VNil)"
  by (auto intro: rep_leaf)

lemma stands_for_if:
  "(c \<Longrightarrow> stands_for h v t) \<Longrightarrow> (\<not> c \<Longrightarrow> stands_for h w u) \<Longrightarrow>
     stands_for h (if c then v else w) (if c then t else u)"
  by simp

lemma atom_stands_for:
  assumes "rep h root (VObj d) A"
  shows "stands_for h (evalAtom env h root s) (atom_value env d s)"
proof -
  have get: "stands_for h (case hget h root ks of None \<Rightarrow> Ok (HVal VNil) | Some v \<Rightarrow> Ok v)
      (Ok (case value_at (VObj d) ks of None \<Rightarrow> VNil | Some v \<Rightarrow> v))" for ks
    using hget_rep [OF assms, of ks] by (auto split: option.splits simp: rep_HVal)
  have q: "prefix [c] s \<longleftrightarrow> s \<noteq> [] \<and> hd s = c" "suffix [c] s \<longleftrightarrow> s \<noteq> [] \<and> last s = c" for c
    by (cases s; auto) (cases s rule: rev_cases; auto)
  have "prefix xs s \<longleftrightarrow> take (length xs) s = xs" for xs
    by (metis append_eq_conv_conj prefix_def)
  from this [of "''msg.''"] have m: "prefix ''msg.'' s \<longleftrightarrow> take 4 s = ''msg.''" by (simp add: numeral_eq_Suc)
  have b: "butlast (tl s) = take (length s - 2) (drop 1 s)"
    by (cases s) (auto simp: butlast_conv_take)
  have c: "((s \<noteq> [] \<and> hd s = CHR 0x22) \<and> s \<noteq> [] \<and> last s = CHR 0x22
       \<or> (s \<noteq> [] \<and> hd s = CHR 0x27) \<and> s \<noteq> [] \<and> last s = CHR 0x27)
     \<longleftrightarrow> s \<noteq> [] \<and> hd s \<in> {CHR 0x22, CHR 0x27} \<and> last s = hd s" by auto
  have n: "s = ''null'' \<or> s = ''nil'' \<longleftrightarrow> s \<in> {''null'', ''nil''}" by simp
  have r: "TrimPrefix s ''msg.'' = drop 4 s" if "take 4 s = ''msg.''"
    using that m by (simp add: TrimPrefix_def numeral_eq_Suc)
  show ?thesis
    unfolding evalAtom_def atom_value_def q b c m n
  proof (intro stands_for_if, goal_cases)
    case 7
    then show ?case using get by (simp only: r)
  qed (simp_all split: option.split)
qed

text \<open>The operands of one operator, on the store and in the document.\<close>

abbreviation operand_results :: "(string \<Rightarrow> ('e, 'a) result) \<Rightarrow> string \<Rightarrow> string \<Rightarrow> ('e, 'a \<times> 'a) result option" where
  "operand_results ev op s \<equiv>
     (case operands op s of None \<Rightarrow> None | Some (l, r) \<Rightarrow> Some (both (ev l) (ev r)))"

lemma evalOps_operands:
  "op \<noteq> [] \<Longrightarrow> evalOps env h root (op # ops) s =
     (case operand_results (evalExpr env h root) op s of
        None \<Rightarrow> evalOps env h root ops s
      | Some (Inl e) \<Rightarrow> Err e
      | Some (Inr (lv, rv)) \<Rightarrow>
          (case applyOp env h op lv rv of Some res \<Rightarrow> res | None \<Rightarrow> evalOps env h root ops s))"
  by (simp add: evalOps_Cons operands_def split: option.split sum.split)

fun pair_for :: "heap \<Rightarrow> (script_error, hval \<times> hval) result option \<Rightarrow> operand_values \<Rightarrow> bool" where
  "pair_for h None None \<longleftrightarrow> True"
| "pair_for h (Some (Inl x)) (Some (Inl y)) \<longleftrightarrow> x = y"
| "pair_for h (Some (Inr (v, w))) (Some (Inr (a, b))) \<longleftrightarrow> (\<exists>A. rep h v a A) \<and> (\<exists>B. rep h w b B)"
| "pair_for h _ _ \<longleftrightarrow> False"

lemma both_pair_for:
  "stands_for h v a \<Longrightarrow> stands_for h w b \<Longrightarrow> pair_for h (Some (both v w)) (Some (both a b))"
  by (cases v; cases a; cases w; cases b) auto

lemma sum_stands_for:
  assumes "pair_for h p q" "stands_for h rest other"
  shows "stands_for h
    (case p of None \<Rightarrow> rest | Some (Inl e) \<Rightarrow> Err e
     | Some (Inr (lv, rv)) \<Rightarrow> (case applyOp env h '' + '' lv rv of Some res \<Rightarrow> res | None \<Rightarrow> rest))
    (sum_value env q other)"
  using assms
  by (induction h p q rule: pair_for.induct)
     (auto simp: applyOp_def numbers_def rep_number rep_snapshot split: option.split)

lemma arith_stands_for:
  assumes "pair_for h p q" "stands_for h rest other"
    and "(op, f) \<in> {('' - '', \<lambda>x y. Ok (f64_sub env x y)), ('' * '', \<lambda>x y. Ok (f64_mul env x y)),
      ('' / '', \<lambda>x y. if f64_is_zero env y then Err DivisionByZero else Ok (f64_div env x y))}"
  shows "stands_for h
    (case p of None \<Rightarrow> rest | Some (Inl e) \<Rightarrow> Err e
     | Some (Inr (lv, rv)) \<Rightarrow> (case applyOp env h op lv rv of Some res \<Rightarrow> res | None \<Rightarrow> rest))
    (arith_value env f q other)"
  using assms
  by (induction h p q rule: pair_for.induct)
     (auto simp: applyOp_def numbers_def rep_number split: option.split)

lemma evalExpr_value:
  assumes "rep h root (VObj d) A"
  shows "stands_for h (evalExpr env h root e) (expr_value env d e)"
proof (induction e rule: measure_induct_rule [of length])
  case (less e)
  have p: "pair_for h (operand_results (evalExpr env h root) op (TrimSpace e))
      (operand_results (expr_value env d) op (TrimSpace e))" if "op \<noteq> []" for op
    using less that by (auto split: option.split dest!: operands_shorter intro!: both_pair_for)
  show ?case
    unfolding evalExpr_eq script_ops_def expr_value.simps [of env d e]
    by (simp only: evalOps_operands list.distinct not_False_eq_True)
       (intro sum_stands_for arith_stands_for p, simp_all add: evalOps_Nil atom_stands_for [OF assms])
qed

end
