(* ===== verification/Script_Cost.thy ===== *)
theory Script_Cost
  imports Script Filter_Stage
begin

text \<open>
  The cost of one script expression. \<open>evalExpr\<close> always returns, since its operands are shorter
  than the expression, but where operands are not numbers it evaluates the same text again for
  the next operator, so the number of its calls can double with every eight bytes.
\<close>

section \<open>What one expression costs\<close>

text \<open>How often \<open>evalExpr\<close> is entered for one expression: the count the evaluation itself keeps.\<close>

definition exprCalls :: "script_env \<Rightarrow> heap \<Rightarrow> hval \<Rightarrow> string \<Rightarrow> nat" where
  "exprCalls env h root expr = fst (evalExpr_counted env h root expr)"

definition opsCalls :: "script_env \<Rightarrow> heap \<Rightarrow> hval \<Rightarrow> string list \<Rightarrow> string \<Rightarrow> nat" where
  "opsCalls env h root ops expr = fst (evalOps_counted env h root ops expr)"

lemma exprCalls_eq: "exprCalls env h root expr = 1 + opsCalls env h root script_ops (TrimSpace expr)"
  by (simp add: exprCalls_def opsCalls_def evalExpr_counted.simps)

lemma opsCalls_Nil: "opsCalls env h root [] expr = 0"
  by (simp add: opsCalls_def evalOps_counted.simps)

lemma opsCalls_Cons:
  "opsCalls env h root (op # ops) expr =
     (case str_index op expr of
        None \<Rightarrow> opsCalls env h root ops expr
      | Some i \<Rightarrow>
          if i = 0 \<or> op = [] then opsCalls env h root ops expr
          else
            exprCalls env h root (take i expr) +
            (case evalExpr env h root (take i expr) of
               Inl _ \<Rightarrow> 0
             | Inr lv \<Rightarrow>
                 exprCalls env h root (drop (i + length op) expr) +
                 (case evalExpr env h root (drop (i + length op) expr) of
                    Inl _ \<Rightarrow> 0
                  | Inr rv \<Rightarrow>
                      (case applyOp env h op lv rv of
                         Some _ \<Rightarrow> 0
                       | None \<Rightarrow> opsCalls env h root ops expr))))"
  by (simp add: opsCalls_def exprCalls_def evalExpr_def evalOps_counted.simps(2)
        split: option.split prod.split sum.split)

lemma opsCalls_bound:
  assumes "\<And>e'. length e' < length e \<Longrightarrow> exprCalls env h root e' \<le> 9 ^ length e'"
  shows "opsCalls env h root ops e \<le> 2 * length ops * 9 ^ (length e - 1)"
proof (induction ops)
  case (Cons op ops)
  show ?case
  proof (cases "str_index op e")
    case None
    with Cons show ?thesis by (simp add: opsCalls_Cons)
  next
    case (Some i)
    show ?thesis
    proof (cases "i = 0 \<or> op = []")
      case True
      with Cons Some show ?thesis by (simp add: opsCalls_Cons)
    next
      case False
      have n: "i < length e" "length e - (i + length op) \<le> length e - 1" "0 < length op"
        using str_index_bounds [OF Some] False by auto
      let ?M = "9 ^ (length e - 1) :: nat"
      have short: "exprCalls env h root e' \<le> ?M" if "length e' \<le> length e - 1" for e'
      proof -
        have "exprCalls env h root e' \<le> 9 ^ length e'" using assms that n(1) by simp
        also have "\<dots> \<le> ?M" using that by (intro power_increasing) auto
        finally show ?thesis .
      qed
      have left: "exprCalls env h root (take i e) \<le> ?M" using n by (intro short) simp
      have right: "exprCalls env h root (drop (i + length op) e) \<le> ?M" using n by (intro short) simp
      have rest: "(case evalExpr env h root (drop (i + length op) e) of
                 Inl _ \<Rightarrow> 0
               | Inr rv \<Rightarrow> (case applyOp env h op lv rv of
                     Some _ \<Rightarrow> 0 | None \<Rightarrow> opsCalls env h root ops e)) \<le> 2 * length ops * ?M" for lv
        using Cons by (simp split: sum.split option.split)
      show ?thesis
      proof (cases "evalExpr env h root (take i e)")
        case (Inl x)
        with left Some False show ?thesis by (simp add: opsCalls_Cons)
      next
        case (Inr lv)
        from add_mono [OF left add_mono [OF right rest [of lv]]] Inr Some False
        show ?thesis by (simp add: opsCalls_Cons algebra_simps)
      qed
    qed
  qed
qed (simp add: opsCalls_Nil)

lemma exprCalls_bound: "exprCalls env h root e \<le> 9 ^ length e"
proof (induction e rule: measure_induct_rule [of length])
  case (less e)
  let ?n = "length (TrimSpace e)"
  show ?case
  proof (cases "TrimSpace e = []")
    case True
    then have "opsCalls env h root script_ops (TrimSpace e) = 0"
      by (simp add: script_ops_def opsCalls_Cons opsCalls_Nil)
    then show ?thesis by (simp add: exprCalls_eq)
  next
    case False
    then obtain m where m: "?n = Suc m" by (cases "TrimSpace e") auto
    have "exprCalls env h root e \<le> 1 + 8 * 9 ^ m"
      using opsCalls_bound [of "TrimSpace e" env h root script_ops] less length_TrimSpace [of e] m
      by (simp add: exprCalls_eq script_ops_def)
    also have "\<dots> \<le> 9 ^ Suc m" using one_le_power [of "9 :: nat" m] by simp
    also have "\<dots> \<le> 9 ^ length e" using length_TrimSpace [of e] m by (intro power_increasing) auto
    finally show ?thesis .
  qed
qed

text \<open>
  The expression \<open>x - x * x - x * ... x\<close>, with \<open>n\<close> operators; \<open>b\<close> says whether the first is
  a minus.
\<close>

fun chain :: "bool list \<Rightarrow> string" where
  "chain [] = ''x''"
| "chain (b # bs) = CHR ''x'' # CHR '' '' # (if b then CHR ''-'' else CHR ''*'') # CHR '' '' # chain bs"

fun alt :: "bool \<Rightarrow> nat \<Rightarrow> bool list" where
  "alt b 0 = []"
| "alt b (Suc n) = b # alt (\<not> b) n"

lemma chain_hd: "\<exists>s. chain bs = CHR ''x'' # s"
  by (cases bs) auto

lemma length_chain: "length (chain bs) = 4 * length bs + 1"
  by (induction bs) auto

lemma length_alt [simp]: "length (alt b n) = n"
  by (induction n arbitrary: b) auto

lemma chain_no_index:
  "d \<notin> {CHR ''-'', CHR ''*'', CHR ''x''} \<Longrightarrow> str_index [CHR '' '', d, CHR '' ''] (chain bs) = None"
proof (induction bs)
  case (Cons b bs)
  obtain s where "chain bs = CHR ''x'' # s" using chain_hd by blast
  with Cons show ?case by auto
qed auto

lemma chain_index_none:
  "str_index '' - '' (chain (replicate k False)) = None" "str_index '' * '' (chain (replicate k True)) = None"
proof (induction k)
  case (Suc k)
  obtain s t where "chain (replicate k False) = CHR ''x'' # s" "chain (replicate k True) = CHR ''x'' # t"
    using chain_hd by metis
  with Suc show "str_index '' - '' (chain (replicate (Suc k) False)) = None"
    "str_index '' * '' (chain (replicate (Suc k) True)) = None" by auto
qed auto

lemma chain_index:
  "str_index '' - '' (chain (replicate k False @ True # bs)) = Some (4 * k + 1)"
  "str_index '' * '' (chain (replicate k True @ False # bs)) = Some (4 * k + 1)"
proof (induction k)
  case (Suc k)
  obtain s t where "chain (replicate k False @ True # bs) = CHR ''x'' # s"
    "chain (replicate k True @ False # bs) = CHR ''x'' # t" using chain_hd by metis
  with Suc show "str_index '' - '' (chain (replicate (Suc k) False @ True # bs)) = Some (4 * Suc k + 1)"
    "str_index '' * '' (chain (replicate (Suc k) True @ False # bs)) = Some (4 * Suc k + 1)" by auto
qed auto

lemma chain_append:
  "chain (as @ b # bs) = chain as @ CHR '' '' # (if b then CHR ''-'' else CHR ''*'') # CHR '' '' # chain bs"
  by (induction as) auto

lemma chain_split:
  "take (4 * length as + 1) (chain (as @ b # bs)) = chain as"
  "drop (4 * length as + 4) (chain (as @ b # bs)) = chain bs"
  by (simp_all add: chain_append length_chain)

lemma trim_front_none: "\<forall>r\<in>set rs. r \<noteq> [] \<longrightarrow> hd r \<noteq> c \<Longrightarrow> trim_front rs (c # s) = c # s"
proof -
  assume "\<forall>r\<in>set rs. r \<noteq> [] \<longrightarrow> hd r \<noteq> c"
  then have "List.find (\<lambda>r. r \<noteq> [] \<and> prefix r (c # s)) rs = None"
    by (auto simp: find_None_iff prefix_Cons)
  then show ?thesis by (subst trim_front.simps) simp
qed

lemma TrimSpace_none:
  assumes "\<forall>r\<in>set space_runes. r \<noteq> [] \<longrightarrow> hd r \<noteq> c \<and> last r \<noteq> d"
  shows "TrimSpace (c # s @ [d]) = c # s @ [d]"
proof -
  have "trim_front (map rev space_runes) (d # rev s @ [c]) = d # rev s @ [c]"
    using assms by (intro trim_front_none) (auto simp: hd_rev)
  moreover have "trim_front space_runes (c # s @ [d]) = c # s @ [d]"
    using assms by (intro trim_front_none) auto
  ultimately show ?thesis by (simp add: TrimSpace_def)
qed

lemma chain_last: "\<exists>s. chain bs = s @ ''x''"
  by (induction bs) auto

lemma TrimSpace_chain: "TrimSpace (chain bs) = chain bs"
proof (cases bs)
  case Nil
  have "TrimSpace ''x'' = ''x''" by code_simp
  then show ?thesis using Nil by simp
next
  case (Cons b cs)
  obtain s where "chain cs = s @ ''x''" using chain_last by blast
  then obtain t where "chain bs = CHR ''x'' # t @ [CHR ''x'']" using Cons by auto
  then show ?thesis by (simp only:) (rule TrimSpace_none, simp add: space_runes_def)
qed

text \<open>
  No number starts with \<open>x\<close>, so a chain is not a number, and its value is its own text: both
  operators find operands that are not numbers and the loop goes on to the end.
\<close>

definition no_x_floats :: "script_env \<Rightarrow> bool" where
  "no_x_floats env \<longleftrightarrow> (\<forall>s. parse_float (sc_codec env) (CHR ''x'' # s) = None)"

lemma first_occurrence:
  obtains k where "bs = replicate k (\<not> b)" | k as where "bs = replicate k (\<not> b) @ b # as"
proof (induction bs arbitrary: thesis)
  case (Cons c bs)
  show ?case
  proof (cases "c = b")
    case True
    then show ?thesis using Cons.prems(2) [of 0 bs] by simp
  next
    case False
    then have c: "c = (\<not> b)" by auto
    show ?thesis
    proof (rule Cons.IH)
      show ?thesis if "bs = replicate k (\<not> b)" for k
        using Cons.prems(1) [of "Suc k"] c that by simp
      show ?thesis if "bs = replicate k (\<not> b) @ b # as" for k as
        using Cons.prems(2) [of "Suc k" as] c that by simp
    qed
  qed
qed (metis replicate_0)

lemma evalAtom_chain:
  assumes "no_x_floats env"
  shows "evalAtom env h root (chain bs) = Ok (HVal (VStr (chain bs)))"
proof -
  obtain s where "chain bs = CHR ''x'' # s" using chain_hd by blast
  with assms show ?thesis by (simp add: evalAtom_def no_x_floats_def)
qed

lemma toFloat_chain: "no_x_floats env \<Longrightarrow> toFloat env (HVal (VStr (chain bs))) = None"
  using chain_hd [of bs] by (auto simp: toFloat_def no_x_floats_def)


text \<open>What either operator does on a chain: nothing, or its two sides and then nothing.\<close>

lemma chain_op:
  assumes "no_x_floats env"
    and "\<And>as. length as < length bs \<Longrightarrow> evalExpr env h root (chain as) = Ok (HVal (VStr (chain as)))"
    and op: "op = (if b then '' - '' else '' * '')"
  shows "evalOps env h root (op # ops) (chain bs) = evalOps env h root ops (chain bs) \<and>
         opsCalls env h root (op # ops) (chain bs) =
           (if b \<in> set bs then
              exprCalls env h root (chain (takeWhile (\<lambda>c. c \<noteq> b) bs)) +
              exprCalls env h root (chain (tl (dropWhile (\<lambda>c. c \<noteq> b) bs)))
            else 0) + opsCalls env h root ops (chain bs)"
proof (rule first_occurrence [of bs b])
  fix k assume k: "bs = replicate k (\<not> b)"
  then have "str_index op (chain bs) = None" using op chain_index_none by (cases b) auto
  with k show ?thesis by (auto simp: evalOps_Cons opsCalls_Cons)
next
  fix k as assume k: "bs = replicate k (\<not> b) @ b # as"
  then have i: "str_index op (chain bs) = Some (4 * k + 1)" using op chain_index by (cases b) auto
  have s: "take (4 * k + 1) (chain bs) = chain (replicate k (\<not> b))" "drop (4 * k + 4) (chain bs) = chain as"
    using chain_split [of "replicate k (\<not> b)" b as] k by auto
  have w: "takeWhile (\<lambda>c. c \<noteq> b) bs = replicate k (\<not> b)" "tl (dropWhile (\<lambda>c. c \<noteq> b) bs) = as"
    using k by (auto simp: takeWhile_append dropWhile_append)
  have e: "evalExpr env h root (chain (replicate k (\<not> b))) = Ok (HVal (VStr (chain (replicate k (\<not> b)))))"
    "evalExpr env h root (chain as) = Ok (HVal (VStr (chain as)))"
    using assms(2) k by auto
  have l: "length op = 3" "op \<noteq> []" "op \<noteq> '' + ''" using op by (auto split: if_splits)
  have a: "applyOp env h op (HVal (VStr (chain (replicate k (\<not> b))))) (HVal (VStr (chain as))) = None"
    using toFloat_chain [OF assms(1)] l by (simp add: applyOp_def)
  from i s w e l a k show ?thesis by (simp add: evalOps_Cons opsCalls_Cons numeral_eq_Suc)
qed

lemma evalExpr_chain:
  assumes "no_x_floats env"
  shows "evalExpr env h root (chain bs) = Ok (HVal (VStr (chain bs)))"
proof (induction bs rule: measure_induct_rule [of length])
  case (less bs)
  show ?case
    using chain_op [OF assms less refl, where b = True] chain_op [OF assms less refl, where b = False]
      evalAtom_chain [OF assms] chain_no_index
    by (simp add: evalExpr_eq TrimSpace_chain script_ops_def evalOps_Nil
          evalOps_Cons [of _ _ _ "'' + ''"] evalOps_Cons [of _ _ _ "'' / ''"])
qed

lemma exprCalls_chain:
  assumes "no_x_floats env"
  shows "exprCalls env h root (chain bs) = 1 +
    (\<Sum>b\<in>{True, False}. if b \<in> set bs then
        exprCalls env h root (chain (takeWhile (\<lambda>c. c \<noteq> b) bs)) +
        exprCalls env h root (chain (tl (dropWhile (\<lambda>c. c \<noteq> b) bs))) else 0)"
  using chain_op [OF assms evalExpr_chain [OF assms] refl, where bs = bs and b = True]
    chain_op [OF assms evalExpr_chain [OF assms] refl, where bs = bs and b = False] chain_no_index
  by (simp add: exprCalls_eq [of _ _ _ "chain bs"] TrimSpace_chain script_ops_def opsCalls_Nil
        opsCalls_Cons [of _ _ _ "'' + ''"] opsCalls_Cons [of _ _ _ "'' / ''"])

lemma exprCalls_alt:
  assumes "no_x_floats env"
  shows "exprCalls env h root (chain (alt b (Suc n))) \<ge> exprCalls env h root (chain (alt (\<not> b) n))"
    and "exprCalls env h root (chain (alt b (Suc (Suc n)))) \<ge>
      exprCalls env h root (chain (alt (\<not> b) (Suc n))) + exprCalls env h root (chain (alt b n))"
  using exprCalls_chain [OF assms, of h root "b # alt (\<not> b) n"]
    exprCalls_chain [OF assms, of h root "b # (\<not> b) # alt b n"]
  by (cases b; simp del: chain.simps)+

lemma exprCalls_doubles:
  assumes "no_x_floats env"
  shows "2 ^ n \<le> exprCalls env h root (chain (alt b (2 * n)))"
proof (induction n)
  case 0
  show ?case by (simp add: exprCalls_eq)
next
  case (Suc n)
  have "2 ^ Suc n \<le> exprCalls env h root (chain (alt b (2 * n))) + exprCalls env h root (chain (alt b (2 * n)))"
    using Suc by simp
  also have "\<dots> \<le> exprCalls env h root (chain (alt (\<not> b) (Suc (2 * n)))) + exprCalls env h root (chain (alt b (2 * n)))"
    using exprCalls_alt(1) [OF assms, where b = "\<not> b" and n = "2 * n"] by simp
  also have "\<dots> \<le> exprCalls env h root (chain (alt b (2 * Suc n)))"
    using exprCalls_alt(2) [OF assms, where b = b and n = "2 * n"] by simp
  finally show ?case .
qed


text \<open>One assignment of a chain is one line of a script.\<close>

definition bomb :: "nat \<Rightarrow> string" where
  "bomb n = chain (alt True (2 * n))"

lemma chain_chars: "set (chain bs) \<subseteq> {CHR ''x'', CHR '' '', CHR ''-'', CHR ''*''}"
  by (induction bs) auto

lemma TrimSpace_blank_chain: "TrimSpace (CHR '' '' # chain bs) = chain bs"
proof -
  have "List.find (\<lambda>r. r \<noteq> [] \<and> prefix r (CHR '' '' # chain bs)) space_runes = Some '' ''"
    using chain_hd [of bs] by (auto simp: space_runes_def)
  then have "trim_front space_runes (CHR '' '' # chain bs) = trim_front space_runes (chain bs)"
    by (subst trim_front.simps) simp
  then have "TrimSpace (CHR '' '' # chain bs) = TrimSpace (chain bs)" by (simp add: TrimSpace_def)
  then show ?thesis by (simp add: TrimSpace_chain)
qed

lemma TrimSpace_assign: "TrimSpace (''msg.a = '' @ chain bs) = ''msg.a = '' @ chain bs"
proof -
  obtain s where "chain bs = s @ [CHR ''x'']" using chain_last by blast
  then have "''msg.a = '' @ chain bs = CHR ''m'' # (''sg.a = '' @ s) @ [CHR ''x'']" by simp
  then show ?thesis by (simp only:) (rule TrimSpace_none, simp add: space_runes_def)
qed

lemma assign_line:
  "splitScriptLines (''msg.a = '' @ chain bs) = [''msg.a = '' @ chain bs]"
  "trimLine (''msg.a = '' @ chain bs) = ''msg.a = '' @ chain bs"
proof -
  let ?l = "''msg.a = '' @ chain bs"
  have "CHR '';'' \<notin> set ?l" "CHR 0x0A \<notin> set ?l" using chain_chars [of bs] by auto
  then have "split_on CHR 0x0A ?l = [?l]" "split_on CHR '';'' ?l = [?l]" by (intro split_on_no_sep; simp)+
  then show "splitScriptLines ?l = [?l]"
    unfolding splitScriptLines_def by (simp only: list.map concat.simps append_Nil2 TrimSpace_assign) simp
  obtain s where "chain bs = s @ [CHR ''x'']" using chain_last by blast
  then have "\<not> suffix '';'' ?l" by (auto simp: suffix_def)
  then show "trimLine ?l = ?l" unfolding trimLine_def TrimSuffix_def by (simp only: TrimSpace_assign if_False)
qed

lemma assign_chain_runs:
  assumes "no_x_floats env"
  shows "runScript env (None # polls) (''msg.a = '' @ chain bs) r 1 maxBytes h
    = (h[r := AList.update ''a'' (HVal (VStr (chain bs))) (cell h r)], None)"
proof -
  let ?l = "''msg.a = '' @ chain bs"
  have t: "TrimSpace ''msg.a '' = ''msg.a''" by code_simp
  have "evalAssign env ?l r h = (h[r := AList.update ''a'' (HVal (VStr (chain bs))) (cell h r)], None)"
    using evalExpr_chain [OF assms]
    by (simp add: evalAssign_def t TrimSpace_blank_chain TrimPrefix_def path_keys_def)
  moreover have "\<not> skipped_line ?l" "\<not> prefix ''delete '' ?l" "CHR ''='' \<in> set ?l"
    by (simp_all add: skipped_line_def)
  ultimately have "evalLine env ?l r h = (h[r := AList.update ''a'' (HVal (VStr (chain bs))) (cell h r)], None)"
    unfolding evalLine_def by presburger
  with \<open>\<not> skipped_line ?l\<close> show ?thesis
    unfolding runScript_def assign_line(1)
    by (simp only: run_lines.simps assign_line(2) Let_def) (simp add: size_check_def intermediateCheckInterval_def)
qed

text \<open>
  C22. \<open>evalExpr\<close> terminates on every expression, after at most \<open>9 ^ n\<close> calls for \<open>n\<close> bytes; and it
  does take exponentially many: if, as \<open>strconv.ParseFloat\<close> has it, no number starts with \<open>x\<close>,
  then \<open>x - x * x - x * ... x\<close> with \<open>2 n\<close> operators makes at least \<open>2 ^ n\<close> calls, only to return
  its own text. The script \<open>msg.a = x - x * ...\<close> of \<open>8 n + 9\<close> bytes that assigns it is a single
  operation (a cap of one operation lets it through), and the context is polled once, before that
  line: what later polls would find makes no difference. The default cap on the script allows
  \<open>n = 4000\<close>.
\<close>

theorem script_cost:
  "fst (evalExpr_counted env h root e) \<le> 9 ^ length e
   \<and> (no_x_floats env \<longrightarrow>
        2 ^ n \<le> fst (evalExpr_counted env h root (bomb n))
      \<and> snd (evalExpr_counted env h root (bomb n)) = Ok (HVal (VStr (bomb n)))
      \<and> length (''msg.a = '' @ bomb n) = 8 * n + 9
      \<and> (\<forall>polls. runScript env (None # polls) (''msg.a = '' @ bomb n) r 1 maxBytes h
           = (h[r := AList.update ''a'' (HVal (VStr (bomb n))) (cell h r)], None)))
   \<and> 8 * 4000 + 9 \<le> DefaultMaxScriptBytes"
  using exprCalls_bound [of env h root e] exprCalls_doubles [of env n h root True]
    evalExpr_chain [of env h root "alt True (2 * n)"] assign_chain_runs [of env _ "alt True (2 * n)" r maxBytes h]
  by (simp add: length_chain DefaultMaxScriptBytes_def bomb_def exprCalls_def evalExpr_def)

definition sample_env :: script_env where
  "sample_env = \<lparr>sc_codec = sample_codec, f64_add = (+), f64_sub = (-), f64_mul = (*),
     f64_div = (\<lambda>x y. x), f64_is_zero = (\<lambda>x. x = 0), now_millis = 0\<rparr>"

theorem script_cost_witness:
  "no_x_floats sample_env \<and> bomb 1 = ''x - x * x''
   \<and> 2 ^ 40 \<le> fst (evalExpr_counted sample_env [[]] (HMap 0) (bomb 40))
   \<and> runScript sample_env [None] (''msg.a = '' @ bomb 40) 0 1 9 [[]] = ([[(''a'', HVal (VStr (bomb 40)))]], None)"
proof -
  have "no_x_floats sample_env" by (simp add: no_x_floats_def sample_env_def sample_codec_def)
  with script_cost [of sample_env "[[]]" "HMap 0" "[]" 40 0 9] show ?thesis
    by (simp add: bomb_def numeral_2_eq_2 cell_def)
qed

end
