(* ===== verification/Script_Props.thy ===== *)
theory Script_Props
  imports Script_Value Script_Cost
begin

text \<open>
  What the script stage does: on scripts that never store a map under a second name it is the
  statement-by-statement update of the document, within its caps; what sharing a map changes;
  and what one expression can cost.
\<close>

section \<open>Scripts on plain documents\<close>



text \<open>
  The reference semantics runs a script on the document itself: expressions have their value in
  it, and the statements use \<open>setNestedValue\<close> and \<open>deleteNestedValue\<close> of \<open>Paths\<close>. It says
  nothing (\<open>None\<close>) about a script that assigns a whole object. The statements of a script are
  the non-empty pieces between line ends and semicolons.
\<close>

fun pieces :: "(char \<Rightarrow> bool) \<Rightarrow> string \<Rightarrow> string list" where
  "pieces P [] = [[]]"
| "pieces P (c # s) =
     (if P c then [] # pieces P s
      else (case pieces P s of [] \<Rightarrow> [[c]] | w # ws \<Rightarrow> (c # w) # ws))"

lemma pieces_split_on: "split_on c s = pieces (\<lambda>x. x = c) s"
  by (induction s) (auto split: list.split)

lemma pieces_not_Nil [simp]: "pieces P s \<noteq> []"
  by (induction s) (auto split: list.split)

lemma pieces_pieces: "concat (map (pieces P) (pieces Q s)) = pieces (\<lambda>x. P x \<or> Q x) s"
proof (induction s)
  case (Cons c s)
  obtain w ws where w: "pieces Q s = w # ws" by (cases "pieces Q s") auto
  obtain v vs where "pieces P w = v # vs" by (cases "pieces P w") auto
  with Cons w show ?case by (auto split: list.splits)
qed simp

definition statements :: "string \<Rightarrow> string list" where
  "statements script =
     filter (\<lambda>t. t \<noteq> []) (map TrimSpace (pieces (\<lambda>c. c = CHR '';'' \<or> c = CHR 0x0A) script))"

lemma splitScriptLines_statements: "splitScriptLines script = statements script"
  by (simp add: splitScriptLines_def statements_def pieces_pieces pieces_split_on [abs_def] cong: map_cong)








lemma skipped_line_eq: "skipped_line line \<longleftrightarrow> line \<in> {[], ''msg'', ''msg;''} \<or> take 2 line = ''//''"
proof -
  have "prefix xs line \<longleftrightarrow> take (length xs) line = xs" for xs
    by (metis append_eq_conv_conj prefix_def)
  from this [of "''//''"] show ?thesis by (simp add: skipped_line_def numeral_2_eq_2)
qed

lemmas tree_run_text = trimLine_def [symmetric] skipped_line_eq [symmetric]




definition sample_stage :: script_stage where
  "sample_stage = \<lparr>ss_Script = ''delete msg.a;'', ss_MaxOps = 3, ss_MaxScriptBytes = 99,
     ss_MaxIntermediateBytes = 99, ss_MaxOutputBytes = 9\<rparr>"





section \<open>Caps\<close>

text \<open>The operations of a script: its statements without the comments and the bare \<open>msg\<close>.\<close>

definition operations :: "string \<Rightarrow> string list" where
  "operations script =
     filter (\<lambda>l. \<not> (l \<in> {[], ''msg'', ''msg;''} \<or> take 2 l = ''//''))
       (map (\<lambda>t. TrimSpace (TrimSuffix (TrimSpace t) '';'')) (statements script))"

lemma operations_eq:
  "operations script = filter (\<lambda>l. \<not> skipped_line l) (map trimLine (splitScriptLines script))"
  by (simp only: operations_def tree_run_text splitScriptLines_statements trimLine_def [abs_def, symmetric])

text \<open>The document the maps from \<open>r\<close> on make up can be encoded, in at most \<open>cap\<close> bytes.\<close>

definition fits :: "codec \<Rightarrow> nat \<Rightarrow> nat \<Rightarrow> heap \<Rightarrow> bool" where
  "fits c cap r h =
     (case snapshot_of h (HMap r) of
        None \<Rightarrow> False
      | Some t \<Rightarrow> (case json_marshal c t of Inl _ \<Rightarrow> False | Inr b \<Rightarrow> length b \<le> cap))"

definition run_operations :: "script_env \<Rightarrow> nat \<Rightarrow> string list \<Rightarrow> heap \<Rightarrow> heap" where
  "run_operations env r ops h = fold (\<lambda>l h. fst (evalLine env l r h)) ops h"

lemma size_check_fits:
  "size_check env maxBytes ops r h = None \<Longrightarrow> 0 < maxBytes \<Longrightarrow> 64 dvd ops \<Longrightarrow> fits (sc_codec env) maxBytes r h"
  by (auto simp: size_check_def fits_def encodedSize_def intermediateCheckInterval_def dvd_eq_mod_eq_0
        split: if_splits option.splits sum.splits)

lemma run_lines_step:
  assumes "run_lines env polls maxOps maxBytes r ops (raw # lines) h = (h', None)"
  obtains (skip) "skipped_line (trimLine raw)" "run_lines env (tl polls) maxOps maxBytes r ops lines h = (h', None)"
  | (op) h1 where "\<not> skipped_line (trimLine raw)" "ops + 1 \<le> maxOps" "evalLine env (trimLine raw) r h = (h1, None)"
      "size_check env maxBytes (ops + 1) r h1 = None"
      "run_lines env (tl polls) maxOps maxBytes r (ops + 1) lines h1 = (h', None)"
  using assms by (auto simp: Let_def split: option.splits if_splits prod.splits)

lemma run_lines_caps:
  assumes "run_lines env polls maxOps maxBytes r ops lines h = (h', None)" "ops \<le> maxOps" "0 < maxBytes"
    and "os = filter (\<lambda>l. \<not> skipped_line l) (map trimLine lines)"
  shows "ops + length os \<le> maxOps
    \<and> (\<forall>k. 0 < k \<and> k \<le> length os \<and> 64 dvd ops + k \<longrightarrow>
          fits (sc_codec env) maxBytes r (run_operations env r (take k os) h))"
  using assms
proof (induction lines arbitrary: polls ops h os)
  case (Cons raw lines)
  from Cons.prems(1) show ?case
  proof (cases rule: run_lines_step)
    case skip
    from Cons.IH [OF skip(2) Cons.prems(2,3) refl] Cons.prems(4) skip(1) show ?thesis by simp
  next
    case (op h1)
    define os' where "os' = filter (\<lambda>l. \<not> skipped_line l) (map trimLine lines)"
    have os: "os = trimLine raw # os'" using Cons.prems(4) op(1) by (simp add: os'_def)
    note IH = Cons.IH [OF op(5,2) Cons.prems(3) os'_def]
    have "fits (sc_codec env) maxBytes r (run_operations env r (take k os) h)"
      if k: "0 < k" "k \<le> length os" "64 dvd ops + k" for k
    proof (cases "k = 1")
      case True
      with size_check_fits [OF op(4) Cons.prems(3)] k(3) op(3) os show ?thesis by (simp add: run_operations_def)
    next
      case False
      with k obtain j where "k = Suc j" "0 < j" by (cases k) auto
      with IH k os op(3) show ?thesis by (simp add: run_operations_def)
    qed
    with IH os show ?thesis by simp
  qed
qed simp

lemma intermediateByteCap_pos: "0 < intermediateByteCap s"
  by (simp add: intermediateByteCap_def DefaultMaxIntermediateBytes_def)

text \<open>
  C36. Whatever the script does to the document, shared and cyclic maps included: a stage that
  returns a message leaves the format as it was, and either there was nothing to run (a blank
  script, or a message that is no structured document) and the message is unchanged, or all four
  caps were kept: the script is not longer than its cap; it has at most as many operations as
  its cap; after every 64th operation the document could be encoded within the intermediate
  cap; and the encoded result is not longer than the output cap.
\<close>

theorem script_within_caps:
  assumes "ScriptStage_Execute env xml_cycle polls s message format = Some (Ok (out, format', res))"
  shows "format' = format \<and> res = None \<and>
   (if TrimSpace (ss_Script s) = [] \<or> decodeStructured (sc_codec env) message format = Ok None
    then out = message
    else (\<exists>d hm h. decodeStructured (sc_codec env) message format = Ok (Some d) \<and> store_fields d [] = (hm, h)
       \<and> length (ss_Script s) \<le> scriptByteCap s
       \<and> length (operations (ss_Script s)) \<le> opCap s
       \<and> (\<forall>k. 0 < k \<and> k \<le> length (operations (ss_Script s)) \<and> 64 dvd k \<longrightarrow>
            fits (sc_codec env) (intermediateByteCap s) (length h)
              (run_operations env (length h) (take k (operations (ss_Script s))) (h @ [hm])))
       \<and> length out \<le> outputByteCap s))"
proof (cases "TrimSpace (ss_Script s) = [] \<or> decodeStructured (sc_codec env) message format = Ok None")
  case True
  with assms show ?thesis by (auto simp: ScriptStage_Execute_def split: if_splits)
next
  case False
  then have *: "TrimSpace (ss_Script s) \<noteq> []" by simp
  have len: "length (ss_Script s) \<le> scriptByteCap s"
    using assms * by (auto simp: ScriptStage_Execute_def split: if_splits)
  obtain d where d: "decodeStructured (sc_codec env) message format = Ok (Some d)"
    "(case polls of [] \<Rightarrow> None | p # _ \<Rightarrow> p) = None"
    using * len False assms by (auto simp: ScriptStage_Execute_def split: sum.splits option.splits)
  obtain hm h where f: "store_fields d [] = (hm, h)" by fastforce
  obtain h' e where r: "runScript env (tl polls) (ss_Script s) (length h) (opCap s)
      (intermediateByteCap s) (h @ [hm]) = (h', e)" by fastforce
  have "e = None" using * len d f r assms by (cases e) (auto simp: ScriptStage_Execute_def)
  moreover obtain x where fin: "script_finish s format x = Ok (out, format', res)"
    using * len d f r calculation assms by (auto simp: ScriptStage_Execute_def)
  ultimately have run: "run_lines env (tl polls) (opCap s) (intermediateByteCap s) (length h) 0
      (splitScriptLines (ss_Script s)) (h @ [hm]) = (h', None)" using r by (simp add: runScript_def)
  from fin have "format' = format" "res = None" "length out \<le> outputByteCap s"
    by (auto simp: script_finish_def split: sum.splits if_splits)
  with len run_lines_caps [OF run _ intermediateByteCap_pos operations_eq] d f False show ?thesis by simp
qed

text \<open>
  A script of 64 operations that change nothing: the check after the last one finds the document
  short enough.
\<close>

definition long_stage :: script_stage where
  "long_stage = sample_stage\<lparr>ss_Script := concat (replicate 64 ''a;''), ss_MaxOps := 64, ss_MaxScriptBytes := 0\<rparr>"

lemma trim_a: "TrimSpace ''a'' = ''a''" "TrimSuffix ''a'' '';'' = ''a''" "TrimSpace [] = []"
  by code_simp+

lemma statements_noops: "statements (concat (replicate n ''a;'')) = replicate n ''a''"
  by (induction n) (simp_all add: statements_def trim_a)

lemma operations_noops: "operations (concat (replicate n ''a;'')) = replicate n ''a''"
  by (simp add: operations_def statements_noops trim_a)

lemma run_noops:
  "fits (sc_codec env) maxBytes r h \<Longrightarrow> ops + n \<le> maxOps \<Longrightarrow>
     run_lines env [] maxOps maxBytes r ops (replicate n ''a'') h = (h, None)"
proof (induction n arbitrary: ops)
  case (Suc n)
  have "size_check env maxBytes (ops + 1) r h = None"
    using Suc.prems(1) by (auto simp: size_check_def fits_def encodedSize_def split: option.splits sum.splits)
  with Suc show ?case by (simp add: Let_def trimLine_def trim_a skipped_line_def evalLine_def)
qed simp

lemma long_stage_runs:
  "ScriptStage_Execute sample_env None [None] long_stage ''part'' FormatJSON
     = Some (Ok (''part'', FormatJSON, None))"
proof -
  let ?d = "[(''k'', VNil)]"
  let ?hm = "[(''k'', HVal VNil)]"
  have f: "fits (sc_codec sample_env) 99 0 [?hm]" by code_simp
  have t: "TrimSpace (ss_Script long_stage) \<noteq> []" "length (ss_Script long_stage) \<le> scriptByteCap long_stage"
    by code_simp+
  have d: "decodeStructured (sc_codec sample_env) ''part'' FormatJSON = Ok (Some ?d)" "store_fields ?d [] = (?hm, [])"
    by (simp_all add: decodeStructured_def sample_env_def sample_codec_def json_unmarshal_map_def)
  have "runScript sample_env [] (ss_Script long_stage) 0 (opCap long_stage) (intermediateByteCap long_stage) [?hm] = ([?hm], None)"
    using run_noops [OF f, of 0 64 64]
    by (simp add: runScript_def long_stage_def sample_stage_def splitScriptLines_statements statements_noops
        opCap_def intermediateByteCap_def)
  moreover have "script_encode sample_env None [?hm] 0 FormatJSON = Some (Ok ''part'')" by code_simp
  moreover have "outputByteCap long_stage = 9" by (simp add: long_stage_def sample_stage_def outputByteCap_def)
  ultimately show ?thesis using t d by (simp add: ScriptStage_Execute_def script_finish_def)
qed

theorem script_within_caps_witness:
  "ScriptStage_Execute sample_env None [None] long_stage ''part'' FormatJSON
     = Some (Ok (''part'', FormatJSON, None))
   \<and> (\<exists>d hm h. decodeStructured (sc_codec sample_env) ''part'' FormatJSON = Ok (Some d) \<and> store_fields d [] = (hm, h)
       \<and> fits (sc_codec sample_env) 99 (length h) (run_operations sample_env (length h) (replicate 64 ''a'') (h @ [hm])))"
proof -
  have t: "TrimSpace (ss_Script long_stage) \<noteq> []" by code_simp
  have d: "decodeStructured (sc_codec sample_env) ''part'' FormatJSON \<noteq> Ok None"
    by (simp add: decodeStructured_def sample_env_def sample_codec_def json_unmarshal_map_def)
  have o: "operations (ss_Script long_stage) = replicate 64 ''a''" "intermediateByteCap long_stage = 99"
    by (simp_all add: long_stage_def sample_stage_def operations_noops intermediateByteCap_def)
  from script_within_caps [OF long_stage_runs] t d have
    "\<exists>d hm h. decodeStructured (sc_codec sample_env) ''part'' FormatJSON = Ok (Some d) \<and> store_fields d [] = (hm, h)
       \<and> (\<forall>k. 0 < k \<and> k \<le> length (replicate 64 ''a'') \<and> 64 dvd k \<longrightarrow>
            fits (sc_codec sample_env) 99 (length h)
              (run_operations sample_env (length h) (take k (replicate 64 ''a'')) (h @ [hm])))"
    unfolding o by auto
  then obtain d hm h where w: "decodeStructured (sc_codec sample_env) ''part'' FormatJSON = Ok (Some d)" "store_fields d [] = (hm, h)"
    "\<And>k. 0 < k \<and> k \<le> length (replicate 64 ''a'') \<and> 64 dvd k \<longrightarrow>
            fits (sc_codec sample_env) 99 (length h)
              (run_operations sample_env (length h) (take k (replicate 64 ''a'')) (h @ [hm]))"
    by blast
  from w(3) [of 64] have "fits (sc_codec sample_env) 99 (length h)
      (run_operations sample_env (length h) (replicate 64 ''a'') (h @ [hm]))"
    by (simp)
  with w(1,2) long_stage_runs show ?thesis by blast
qed

section \<open>Shared maps\<close>

text \<open>
  After \<open>msg.a = msg.b\<close> of an object, both names denote one map: what a later statement writes
  below one is there below the other.
\<close>

lemma copy_is_shared:
  assumes "hget h (HMap r) [b] = Some (HMap m)" "a \<noteq> b" "m \<noteq> r" "r < length h" "m < length h"
  shows "hget (fst (hset q v r [b, x] (fst (hset p (HMap m) r [a] h)))) (HMap r) [a, x] = Some v"
  using assms by (auto simp: cell_def map_of_update split: option.splits)

text \<open>
  And \<open>msg.b.self = msg.b\<close> makes a cycle: \<open>json.Marshal\<close> then fails, so the message is
  dead-lettered, and in XML the stage depends on what \<open>mxj\<close> does.
\<close>

lemma self_copy_is_cyclic:
  assumes "hget h (HMap r) [b] = Some (HMap m)" "m \<noteq> r" "r < length h" "m < length h"
  shows "read_any n (fst (hset p (HMap m) r [b, x] h)) (HMap m) = None"
proof -
  have h: "fst (hset p (HMap m) r [b, x] h) = h[m := AList.update x (HMap m) (h ! m)]"
    using assms by (auto simp: cell_def split: option.splits)
  have *: "read_fields n h' hm = None" if "read_any n h' v = None" "(k, v) \<in> set hm" for n h' hm k v
    using that by (induction hm) (auto split: option.splits)
  have "(x, HMap m) \<in> set (AList.update x (HMap m) (h ! m))"
    using map_of_update [of x "HMap m" "h ! m" x] by (auto dest: map_of_SomeD)
  then have "read_any n (h[m := AList.update x (HMap m) (h ! m)]) (HMap m) = None"
    by (induction n) (use assms(4) * in \<open>auto simp: cell_def\<close>)
  then show ?thesis by (simp only: h)
qed

section \<open>Literals\<close>

text \<open>
  Operators are looked for before quotes: a literal with \<open>+\<close> between blanks is cut there and put
  together again without them, its quotes included; and a lone quote character panics.
\<close>

lemma literal_is_cut:
  "evalExpr sample_env [[]] (HMap 0) ([CHR 0x22] @ ''x + y'' @ [CHR 0x22])
   = Ok (HVal (VStr ([CHR 0x22] @ ''xy'' @ [CHR 0x22])))"
  by code_simp

lemma lone_quote_panics: "evalExpr env h root [CHR 0x22] = Err SlicePanic"
proof -
  have "TrimSpace [CHR 0x22] = [CHR 0x22]" by code_simp
  then show ?thesis
    by (simp add: evalExpr_eq script_ops_def evalOps_Cons evalOps_Nil evalAtom_def)
qed

end
