(* ===== verification/Mq_Config.thy ===== *)
theory Mq_Config
  imports Mqc_Prelude
begin

text \<open>
  \<open>internal/mq/connector.go\<close> and \<open>internal/mqcfg/mqcfg.go\<close>: the kinds of broker, the
  configuration of a connector, the factory \<open>New\<close>, and the conversion \<open>From\<close> of a stored
  connection into a configuration.
\<close>

section \<open>Kinds of broker\<close>

text \<open>\<open>Type\<close> is a string; the zero value is the empty one.\<close>

definition TypeIBM :: string where "TypeIBM = ''ibm''"
definition TypeRabbitMQ :: string where "TypeRabbitMQ = ''rabbitmq''"
definition TypeKafka :: string where "TypeKafka = ''kafka''"
definition TypeMQTT :: string where "TypeMQTT = ''mqtt''"
definition TypeNATS :: string where "TypeNATS = ''nats''"
definition TypeAMQP10 :: string where "TypeAMQP10 = ''amqp10''"

lemmas mq_types = TypeIBM_def TypeRabbitMQ_def TypeKafka_def TypeMQTT_def TypeNATS_def TypeAMQP10_def

definition broker_types :: "string list" where
  "broker_types = [TypeIBM, TypeRabbitMQ, TypeKafka, TypeMQTT, TypeNATS, TypeAMQP10]"

datatype mq_error = UnknownType string | ErrUnsupported

definition ParseType :: "string \<Rightarrow> (mq_error, string) result" where
  "ParseType s =
     (let t = ToLower (TrimSpace s) in
      if t \<in> set [''ibm'', ''ibmmq'', ''ibm_mq''] then Ok TypeIBM
      else if t \<in> set [''rabbit'', ''rabbitmq'', ''amqp''] then Ok TypeRabbitMQ
      else if t = ''kafka'' then Ok TypeKafka
      else if t = ''mqtt'' then Ok TypeMQTT
      else if t \<in> set [''nats'', ''jetstream''] then Ok TypeNATS
      else if t \<in> set [''amqp10'', ''amqp1'', ''amqp1.0''] then Ok TypeAMQP10
      else Err (UnknownType s))"

section \<open>Configurations\<close>

record TLSConfig =
  CAFile :: string
  CertFile :: string
  KeyFile :: string
  InsecureSkipVerify :: bool

definition tls_Enabled :: "TLSConfig \<Rightarrow> bool" where
  "tls_Enabled t \<longleftrightarrow> CAFile t \<noteq> [] \<or> CertFile t \<noteq> [] \<or> KeyFile t \<noteq> [] \<or> InsecureSkipVerify t"

record Config =
  Type :: string
  QueueManager :: string
  ConnName :: string
  Channel :: string
  Username :: string
  Password :: string
  QueueName :: string
  IBMRecvBuffer :: int
  URL :: string
  Brokers :: "string list"
  Topic :: string
  GroupID :: string
  InitialOffset :: string
  ClientID :: string
  QoS :: int
  StreamName :: string
  ConsumerName :: string
  TLS :: TLSConfig

text \<open>
  The factory. \<open>ibmmq\<close> is the build tag: without it \<open>newIBM\<close> refuses. A fresh connector is
  known by its configuration.
\<close>

definition New :: "bool \<Rightarrow> Config \<Rightarrow> (mq_error, Config) result" where
  "New ibmmq cfg =
     (if Type cfg = TypeRabbitMQ \<or> Type cfg = TypeKafka then Ok cfg
      else if Type cfg = TypeIBM then (if ibmmq then Ok cfg else Err ErrUnsupported)
      else if Type cfg = TypeMQTT \<or> Type cfg = TypeNATS \<or> Type cfg = TypeAMQP10 then Ok cfg
      else Err (UnknownType (Type cfg)))"

section \<open>Stored connections\<close>

record Connection =
  c_ID :: string
  c_TenantID :: string
  c_Name :: string
  c_Type :: string
  c_QueueManager :: string
  c_ConnName :: string
  c_Channel :: string
  c_Username :: string
  c_Password :: string
  c_QueueName :: string
  c_URL :: string
  c_Brokers :: string
  c_Topic :: string
  c_TLSCAFile :: string
  c_TLSCertFile :: string
  c_TLSKeyFile :: string
  c_TLSInsecureSkipVerify :: bool
  c_ClientID :: string
  c_StreamName :: string
  c_ConsumerName :: string
  c_QoS :: int
  c_GroupID :: string
  c_InitialOffset :: string

definition split_brokers :: "string \<Rightarrow> string list" where
  "split_brokers s =
     (if s = [] then [] else filter (\<lambda>t. t \<noteq> []) (map TrimSpace (split_on CHR '','' s)))"

definition From :: "Connection \<Rightarrow> Config" where
  "From c =
     \<lparr>Type = (case ParseType (c_Type c) of Inl _ \<Rightarrow> [] | Inr t \<Rightarrow> t),
      QueueManager = c_QueueManager c, ConnName = c_ConnName c, Channel = c_Channel c,
      Username = c_Username c, Password = c_Password c, QueueName = c_QueueName c,
      IBMRecvBuffer = 0, URL = c_URL c, Brokers = split_brokers (c_Brokers c),
      Topic = c_Topic c, GroupID = c_GroupID c, InitialOffset = c_InitialOffset c,
      ClientID = c_ClientID c, QoS = c_QoS c, StreamName = c_StreamName c,
      ConsumerName = c_ConsumerName c,
      TLS = \<lparr>CAFile = c_TLSCAFile c, CertFile = c_TLSCertFile c, KeyFile = c_TLSKeyFile c,
             InsecureSkipVerify = c_TLSInsecureSkipVerify c\<rparr>\<rparr>"

abbreviation ToMQConfig :: "Connection \<Rightarrow> Config" where
  "ToMQConfig \<equiv> From"

text \<open>A connection row at its zero values, from which the concrete ones below are written.\<close>

definition zero_connection :: Connection where
  "zero_connection =
     \<lparr>c_ID = [], c_TenantID = [], c_Name = [], c_Type = [], c_QueueManager = [],
      c_ConnName = [], c_Channel = [], c_Username = [], c_Password = [], c_QueueName = [],
      c_URL = [], c_Brokers = [], c_Topic = [], c_TLSCAFile = [], c_TLSCertFile = [],
      c_TLSKeyFile = [], c_TLSInsecureSkipVerify = False, c_ClientID = [], c_StreamName = [],
      c_ConsumerName = [], c_QoS = 0, c_GroupID = [], c_InitialOffset = []\<rparr>"

section \<open>What the conversion promises\<close>

lemma ParseType_Ok: "ParseType s = Ok t \<Longrightarrow> t \<in> set broker_types"
  by (auto simp: ParseType_def Let_def broker_types_def split: if_splits)

text \<open>The names of the kinds parse to themselves, so that a normalised row stays put.\<close>

lemma ParseType_idem: "t \<in> set broker_types \<Longrightarrow> ParseType t = Ok t"
proof -
  have "list_all (\<lambda>t. ParseType t = Ok t) broker_types" by code_simp
  then show "t \<in> set broker_types \<Longrightarrow> ParseType t = Ok t" by (auto simp: list_all_iff)
qed

text \<open>
  The factory accepts what \<open>From\<close> makes of a row exactly when the row's kind parses, and is
  not IBM MQ in a build without it: an unknown kind is refused by the empty type.
\<close>

lemma New_From_iff:
  "(\<exists>conn. New ibmmq (From c) = Ok conn) \<longleftrightarrow>
     (\<exists>t. ParseType (c_Type c) = Ok t \<and> (t = TypeIBM \<longrightarrow> ibmmq))"
proof (cases "ParseType (c_Type c)")
  case (Inl e)
  then show ?thesis by (simp add: New_def From_def mq_types)
next
  case (Inr t)
  then show ?thesis
    using ParseType_Ok [OF Inr]
    by (auto simp: New_def From_def mq_types broker_types_def)
qed

lemma New_Ok: "New ibmmq cfg = Ok conn \<Longrightarrow> conn = cfg"
  by (auto simp: New_def split: if_splits)

text \<open>The brokers are never blank, whatever commas and spaces the row has.\<close>

lemma split_brokers_nonempty: "[] \<notin> set (split_brokers s)"
  by (simp add: split_brokers_def)

end
