(* ===== verification/Wasm.thy ===== *)
theory Wasm
  imports Mqc_Prelude
begin

text \<open>
  \<open>internal/pipeline/wasm.go\<close>: the checks \<open>CompileWasm\<close> makes of a plugin, and the protocol by
  which \<open>WasmStage.Execute\<close> hands a message to a fresh instance and reads the result back. The
  WebAssembly runtime is not part of the sources and is an argument throughout: a compiled
  module is what it declares, a memory is known only through its \<open>Read\<close> and \<open>Write\<close>, and an
  instance is its memory with the two exported functions, which may do anything to it.
\<close>

section \<open>Data\<close>

record WasmStageLimits =
  MaxMemoryPages :: "32 word"
  MaxOutputBytes :: "32 word"

definition DefaultWasmLimits :: WasmStageLimits where
  "DefaultWasmLimits = \<lparr>MaxMemoryPages = 512, MaxOutputBytes = 4 * 1024 * 1024\<rparr>"

text \<open>
  What a compiled module declares: the maximum of each exported memory, if it has one, the
  imported functions as module and name, and the exported ones.
\<close>

record wasm_module =
  wm_memories :: "32 word option list"
  wm_imports :: "(string \<times> string) list"
  wm_exports :: "string list"

text \<open>
  The runtime's memory interface, for memories of any type: \<open>Read(offset, byteCount)\<close> and
  \<open>Write(offset, bytes)\<close>, \<open>None\<close> where the interface answers \<open>false\<close>.
\<close>

record 'm wasm_memory =
  mem_Read :: "'m \<Rightarrow> 32 word \<Rightarrow> 32 word \<Rightarrow> bytes option"
  mem_Write :: "'m \<Rightarrow> 32 word \<Rightarrow> bytes \<Rightarrow> 'm option"

text \<open>
  An instance. A call answers with an error, or with its results and the memory it leaves.
\<close>

type_synonym 'm wasm_function = "64 word list \<Rightarrow> 'm \<Rightarrow> (string, 64 word list \<times> 'm) result"

record 'm wasm_instance =
  wi_memory :: "'m option"
  wi_allocate :: "'m wasm_function option"
  wi_execute :: "'m wasm_function option"

record wasm_stage =
  PluginName :: string
  wasm_Module :: "wasm_module option"
  wasm_Limits :: WasmStageLimits

datatype wasm_error =
    WasmCompile string
  | WasmTooManyPages "32 word" "32 word"
  | WasmImports "string list"
  | WasmNoExecute
  | WasmNoAllocate
  | WasmNotInitialised
  | WasmInstantiate string
  | WasmNoMemory
  | WasmMissingExports
  | WasmAllocate string
  | WasmAllocateArity nat
  | WasmInputBounds
  | WasmExecute string
  | WasmExecuteArity nat
  | WasmErrorBounds
  | WasmPlugin string
  | WasmOutputCap "32 word" "32 word"
  | WasmOutputBounds

definition wasm_Name :: "wasm_stage \<Rightarrow> string" where
  "wasm_Name s = (if PluginName s = [] then ''wasm'' else ''wasm:'' @ PluginName s)"

section \<open>Compiling a plugin\<close>

definition memory_cap :: "WasmStageLimits \<Rightarrow> 32 word" where
  "memory_cap limits =
     (if MaxMemoryPages limits = 0 then MaxMemoryPages DefaultWasmLimits else MaxMemoryPages limits)"

fun too_many_pages :: "32 word \<Rightarrow> 32 word option list \<Rightarrow> 32 word option" where
  "too_many_pages cap [] = None"
| "too_many_pages cap (m # ms) =
     (case m of
        Some pages \<Rightarrow> if pages > cap then Some pages else too_many_pages cap ms
      | None \<Rightarrow> too_many_pages cap ms)"

text \<open>\<open>compile\<close> is \<open>runtime.CompileModule\<close>.\<close>

definition CompileWasm ::
  "(bytes \<Rightarrow> (string, wasm_module) result) \<Rightarrow> bytes \<Rightarrow> WasmStageLimits \<Rightarrow>
   (wasm_error, wasm_module) result" where
  "CompileWasm compile blob limits =
     (case compile blob of
        Inl e \<Rightarrow> Err (WasmCompile e)
      | Inr m \<Rightarrow>
          (case too_many_pages (memory_cap limits) (wm_memories m) of
             Some pages \<Rightarrow> Err (WasmTooManyPages pages (memory_cap limits))
           | None \<Rightarrow>
               if wm_imports m \<noteq> []
               then Err (WasmImports (map (\<lambda>(md, n). md @ ''.'' @ n) (wm_imports m)))
               else if ''execute'' \<notin> set (wm_exports m) then Err WasmNoExecute
               else if ''allocate'' \<notin> set (wm_exports m) then Err WasmNoAllocate
               else Ok m))"

section \<open>Running a plugin\<close>

definition uint32 :: "64 word \<Rightarrow> 32 word" where
  "uint32 x = ucast x"

definition output_cap :: "WasmStageLimits \<Rightarrow> 32 word" where
  "output_cap limits =
     (if MaxOutputBytes limits = 0 then MaxOutputBytes DefaultWasmLimits else MaxOutputBytes limits)"

text \<open>The reading of the four results of \<open>execute\<close>.\<close>

definition read_result ::
  "'m wasm_memory \<Rightarrow> WasmStageLimits \<Rightarrow> 'm \<Rightarrow> 32 word \<Rightarrow> 32 word \<Rightarrow> 32 word \<Rightarrow> 32 word \<Rightarrow>
   (wasm_error, bytes) result" where
  "read_result api limits mem outPtr outLen errPtr errLen =
     (if errLen > 0 then
        (case mem_Read api mem errPtr errLen of
           None \<Rightarrow> Err WasmErrorBounds
         | Some e \<Rightarrow> Err (WasmPlugin e))
      else if outLen > output_cap limits then Err (WasmOutputCap outLen (output_cap limits))
      else
        (case mem_Read api mem outPtr outLen of
           None \<Rightarrow> Err WasmOutputBounds
         | Some out \<Rightarrow> Ok out))"

definition run_instance ::
  "'m wasm_memory \<Rightarrow> WasmStageLimits \<Rightarrow> 'm wasm_instance \<Rightarrow> bytes \<Rightarrow> (wasm_error, bytes) result" where
  "run_instance api limits inst message =
     (case wi_memory inst of
        None \<Rightarrow> Err WasmNoMemory
      | Some mem0 \<Rightarrow>
          (case (wi_allocate inst, wi_execute inst) of
             (Some allocate, Some execute) \<Rightarrow>
               let len = word_of_nat (length message) in
               (case allocate [len] mem0 of
                  Inl e \<Rightarrow> Err (WasmAllocate e)
                | Inr (res, mem1) \<Rightarrow>
                    (case res of
                       [p] \<Rightarrow>
                         (case mem_Write api mem1 (uint32 p) message of
                            None \<Rightarrow> Err WasmInputBounds
                          | Some mem2 \<Rightarrow>
                              (case execute [ucast (uint32 p), len] mem2 of
                                 Inl e \<Rightarrow> Err (WasmExecute e)
                               | Inr (res, mem3) \<Rightarrow>
                                   (case res of
                                      [op, ol, ep, el] \<Rightarrow>
                                        read_result api limits mem3 (uint32 op) (uint32 ol) (uint32 ep) (uint32 el)
                                    | _ \<Rightarrow> Err (WasmExecuteArity (length res)))))
                     | _ \<Rightarrow> Err (WasmAllocateArity (length res))))
           | _ \<Rightarrow> Err WasmMissingExports))"

text \<open>\<open>instantiate\<close> is \<open>Runtime.InstantiateModule\<close>; \<open>None\<close> stands for a nil runtime.\<close>

definition WasmStage_Execute ::
  "'m wasm_memory \<Rightarrow> (wasm_module \<Rightarrow> (string, 'm wasm_instance) result) option \<Rightarrow> wasm_stage \<Rightarrow>
   bytes \<Rightarrow> 'f \<Rightarrow> (wasm_error, bytes \<times> 'f) result" where
  "WasmStage_Execute api runtime s message format =
     (case (wasm_Module s, runtime) of
        (Some m, Some instantiate) \<Rightarrow>
          (case instantiate m of
             Inl e \<Rightarrow> Err (WasmInstantiate e)
           | Inr inst \<Rightarrow>
               (case run_instance api (wasm_Limits s) inst message of
                  Inl e \<Rightarrow> Err e
                | Inr out \<Rightarrow> Ok (out, format)))
      | _ \<Rightarrow> Err WasmNotInitialised)"

section \<open>What the sandbox promises\<close>

lemma too_many_pages_None:
  "too_many_pages cap ms = None \<longleftrightarrow> (\<forall>pages. Some pages \<in> set ms \<longrightarrow> pages \<le> cap)"
  by (induction ms) (auto split: option.splits simp: not_less)

lemma CompileWasm_Ok_iff:
  "CompileWasm compile blob limits = Ok m \<longleftrightarrow>
     compile blob = Ok m \<and> wm_imports m = [] \<and> {''execute'', ''allocate''} \<subseteq> set (wm_exports m)
   \<and> (\<forall>pages. Some pages \<in> set (wm_memories m) \<longrightarrow> pages \<le> memory_cap limits)"
  by (auto simp: CompileWasm_def too_many_pages_None [symmetric] split: sum.splits option.splits)

lemma read_result_Ok:
  assumes "read_result api limits mem op ol ep el = Ok out"
  shows "el = 0 \<and> mem_Read api mem op ol = Some out \<and> ol \<le> output_cap limits"
  using assms by (auto simp: read_result_def word_gt_0 not_less split: if_splits option.splits)

lemma run_instance_Ok:
  assumes "run_instance api limits inst message = Ok out"
  obtains mem0 allocate execute p mem1 mem2 op ol ep el mem3 where
    "wi_memory inst = Some mem0" "wi_allocate inst = Some allocate" "wi_execute inst = Some execute"
    "allocate [word_of_nat (length message)] mem0 = Ok ([p], mem1)"
    "mem_Write api mem1 (uint32 p) message = Some mem2"
    "execute [ucast (uint32 p), word_of_nat (length message)] mem2 = Ok ([op, ol, ep, el], mem3)"
    "read_result api limits mem3 (uint32 op) (uint32 ol) (uint32 ep) (uint32 el) = Ok out"
  using assms unfolding run_instance_def Let_def
  by (auto split: option.splits sum.splits list.splits prod.splits)

text \<open>
  C38. Let the runtime's memory do what its interface documents: a read that succeeds returns
  as many bytes as were asked for (\<open>reads\<close>), and what was written is read back at the same
  place (\<open>writes\<close>). Then a Wasm stage succeeds only within its sandbox, whatever the plugin
  does: it returns no more bytes than its output cap (four mebibytes unless set), these are the
  bytes of the plugin's memory at the place the plugin named, the plugin reported no error, it
  was called with the message readable at the address its own \<open>allocate\<close> returned and with the
  message's length, and the format is unchanged.
\<close>

theorem wasm_stage_sandboxed:
  assumes reads: "\<And>mem off len v. mem_Read api mem off len = Some v \<Longrightarrow> length v = unat len"
    and writes: "\<And>mem off v mem'. mem_Write api mem off v = Some mem' \<Longrightarrow> length v < 2 ^ 32 \<Longrightarrow>
      mem_Read api mem' off (word_of_nat (length v)) = Some v"
    and run: "WasmStage_Execute api runtime s message format = Ok (out, format')"
    and small: "length message < 2 ^ 32"
  shows "format' = format \<and> length out \<le> unat (output_cap (wasm_Limits s))
    \<and> (\<exists>m instantiate inst mem0 allocate p mem1 execute mem2 op ol ep el mem3.
         wasm_Module s = Some m \<and> runtime = Some instantiate \<and> instantiate m = Ok inst
       \<and> wi_memory inst = Some mem0 \<and> wi_allocate inst = Some allocate \<and> wi_execute inst = Some execute
       \<and> allocate [word_of_nat (length message)] mem0 = Ok ([p], mem1)
       \<and> mem_Write api mem1 (uint32 p) message = Some mem2
       \<and> mem_Read api mem2 (uint32 p) (word_of_nat (length message)) = Some message
       \<and> execute [ucast (uint32 p), word_of_nat (length message)] mem2 = Ok ([op, ol, ep, el], mem3)
       \<and> uint32 el = 0 \<and> mem_Read api mem3 (uint32 op) (uint32 ol) = Some out)"
proof -
  obtain m instantiate inst where s: "wasm_Module s = Some m" "runtime = Some instantiate"
    "instantiate m = Ok inst" and ri: "run_instance api (wasm_Limits s) inst message = Ok out"
    and f: "format' = format"
    using run by (auto simp: WasmStage_Execute_def split: option.splits sum.splits)
  from ri show ?thesis
  proof (rule run_instance_Ok)
    fix mem0 allocate execute p mem1 mem2 op ol ep el mem3
    assume x: "wi_memory inst = Some mem0" "wi_allocate inst = Some allocate" "wi_execute inst = Some execute"
      "allocate [word_of_nat (length message)] mem0 = Ok ([p], mem1)"
      "mem_Write api mem1 (uint32 p) message = Some mem2"
      "execute [ucast (uint32 p), word_of_nat (length message)] mem2 = Ok ([op, ol, ep, el], mem3)"
      "read_result api (wasm_Limits s) mem3 (uint32 op) (uint32 ol) (uint32 ep) (uint32 el) = Ok out"
    note r = read_result_Ok [OF x(7)] and w = writes [OF x(5) small]
    have "length out \<le> unat (output_cap (wasm_Limits s))"
      using r reads [of mem3 "uint32 op" "uint32 ol" out] by (auto simp: word_le_nat_alt)
    then show ?thesis using s f x(1-6) r w by blast
  qed
qed

text \<open>
  A memory that is a byte sequence, which refuses what lies outside it, and an echo plugin: it
  puts the message at address 8 and answers with the same region.
\<close>

definition flat_memory :: "bytes wasm_memory" where
  "flat_memory =
     \<lparr>mem_Read = (\<lambda>mem off len.
        if unat off + unat len \<le> length mem then Some (take (unat len) (drop (unat off) mem)) else None),
      mem_Write = (\<lambda>mem off v.
        if unat off + length v \<le> length mem
        then Some (take (unat off) mem @ v @ drop (unat off + length v) mem) else None)\<rparr>"

lemma flat_reads: "mem_Read flat_memory mem off len = Some v \<Longrightarrow> length v = unat len"
  by (auto simp: flat_memory_def split: if_splits)

lemma flat_writes:
  assumes "mem_Write flat_memory mem off v = Some mem'" "length v < 2 ^ 32"
  shows "mem_Read flat_memory mem' off (word_of_nat (length v)) = Some v"
proof -
  have "unat (word_of_nat (length v) :: 32 word) = length v"
    using assms(2) by (simp add: unat_of_nat take_bit_nat_eq_self)
  then show ?thesis using assms(1) by (auto simp: flat_memory_def split: if_splits)
qed

definition echo_instance :: "bytes wasm_instance" where
  "echo_instance =
     \<lparr>wi_memory = Some ''................'',
      wi_allocate = Some (\<lambda>args mem. Ok ([8], mem)),
      wi_execute = Some (\<lambda>args mem. Ok (args @ [0, 0], mem))\<rparr>"

definition echo_stage :: wasm_stage where
  "echo_stage =
     \<lparr>PluginName = ''echo'',
      wasm_Module = Some \<lparr>wm_memories = [], wm_imports = [], wm_exports = [''execute'', ''allocate'']\<rparr>,
      wasm_Limits = DefaultWasmLimits\<rparr>"

lemma echo_run:
  "WasmStage_Execute flat_memory (Some (\<lambda>m. Ok echo_instance)) echo_stage ''hello'' () = Ok (''hello'', ())"
  by (simp add: WasmStage_Execute_def echo_instance_def echo_stage_def run_instance_def flat_memory_def
      read_result_def uint32_def output_cap_def DefaultWasmLimits_def)

theorem wasm_stage_sandboxed_witness:
  "length ''hello'' \<le> unat (output_cap (wasm_Limits echo_stage))
   \<and> WasmStage_Execute flat_memory (Some (\<lambda>m. Ok echo_instance)) echo_stage ''hello'' () = Ok (''hello'', ())"
  using wasm_stage_sandboxed [of flat_memory "Some (\<lambda>m. Ok echo_instance)" echo_stage "''hello''" "()" "''hello''" "()"]
    flat_reads flat_writes echo_run by simp

end
