(* ===== verification/Start_Pipeline.thy ===== *)
theory Start_Pipeline
  imports Pipeline_Stages Budget Mq_Config Wasm
begin

text \<open>
  \<open>startPipeline\<close> of \<open>internal/pipeline/manager.go\<close> up to the point where the executor is
  handed to its goroutine: what it reads from the store, what it refuses, and the executor it
  puts together.
\<close>

section \<open>Stored rows and the executor\<close>

record pipeline = pipeline_row +
  p_ID :: string
  p_Name :: string
  p_SourceID :: string
  p_DestinationID :: string
  p_Enabled :: bool
  p_Workers :: int
  p_MaxMsgsPerMinute :: int
  p_DedupWindowSeconds :: int
  p_ShadowDestinationID :: string
  p_ShadowPercent :: int

text \<open>
  The repositories a start reads. An answer is a value or the text of an error; a tenant is
  known by its \<open>MaxMsgsPerMinute\<close>, and \<open>None\<close> covers both an error and a missing tenant.
\<close>

record store =
  Stages_ListByPipelineUnsafe :: "string \<Rightarrow> (string, stage_row list) result"
  Transforms_ListByPipelineUnsafe :: "string \<Rightarrow> (string, transform list) result"
  RoutingRules_ListByPipelineUnsafe :: "string \<Rightarrow> (string, routing_rule list) result"
  Connections_GetUnsafe :: "string \<Rightarrow> (string, Connection) result"
  Schemas_GetUnsafe :: schema_store
  Plugins_Get :: "string \<Rightarrow> string \<Rightarrow> (string, bytes) result"
  Tenants_Get :: "string \<Rightarrow> int option"

text \<open>
  The executor. A tenant's budget is shared by pointer; the cache has one per tenant, so that
  the tenant's id stands for the pointer.
\<close>

record pipeline_executor =
  pe_Pipeline :: pipeline
  pe_Stages :: "stage list"
  pe_Source :: Config
  pe_SourceQueue :: string
  pe_DefaultDest :: Config
  pe_DestQueue :: string
  pe_RouteDests :: "(string \<times> Config) list"
  pe_ShadowDest :: "Config option"
  pe_TenantBudget :: "string option"

datatype start_error =
    StartListStages string
  | StartListTransforms string
  | StartListRoutes string
  | StartSource string
  | StartDestination string
  | CrossTenantConnection
  | StartLoadSchemas load_error
  | StartNoRuntime
  | StartLoadPlugin string string
  | StartCompilePlugin string wasm_error
  | StartBuild build_error
  | StartRouteDestination string string
  | CrossTenantRoute

section \<open>Tenant budgets\<close>

type_synonym budget_cache = "(string \<times> budget) list"

definition tenantBudgetFor :: "time \<Rightarrow> string \<Rightarrow> int \<Rightarrow> budget_cache \<Rightarrow> string option \<times> budget_cache" where
  "tenantBudgetFor now tenantID perMinute bs =
     (if perMinute \<le> 0 then (None, bs)
      else case map_of bs tenantID of
        Some b \<Rightarrow> (Some tenantID, bs)
      | None \<Rightarrow> (Some tenantID, AList.update tenantID (newBudget now perMinute (60 * 1000000000)) bs))"

section \<open>Plugins\<close>

text \<open>
  The plugins the enabled wasm rows name. The sources collect them in a map, whose order of
  iteration only decides which of several errors is reported.
\<close>

definition plugin_names :: "config_decoder \<Rightarrow> stage_row list \<Rightarrow> string list" where
  "plugin_names d rows =
     remdups (filter (\<lambda>n. n \<noteq> [])
       (map (\<lambda>r. cfg_Plugin (row_config d (StageConfig r)))
         (filter (\<lambda>r. row_Enabled r \<and> StageType r = ''wasm'') rows)))"

fun compile_plugins ::
  "store \<Rightarrow> (bytes \<Rightarrow> (string, wasm_module) result) \<Rightarrow> string \<Rightarrow> string list \<Rightarrow>
   (start_error, (string \<times> string) list) result" where
  "compile_plugins st compile tenant [] = Ok []"
| "compile_plugins st compile tenant (name # names) =
     (case Plugins_Get st tenant name of
        Inl e \<Rightarrow> Err (StartLoadPlugin name e)
      | Inr blob \<Rightarrow>
          (case CompileWasm compile blob DefaultWasmLimits of
             Inl e \<Rightarrow> Err (StartCompilePlugin name e)
           | Inr m \<Rightarrow>
               (case compile_plugins st compile tenant names of
                  Inl e \<Rightarrow> Err e
                | Inr out \<Rightarrow> Ok ((name, name) # out))))"

definition loadWasmPluginsForBuild ::
  "config_decoder \<Rightarrow> store \<Rightarrow> (bytes \<Rightarrow> (string, wasm_module) result) option \<Rightarrow> string \<Rightarrow>
   stage_row list \<Rightarrow> (start_error, (string \<times> string) list) result" where
  "loadWasmPluginsForBuild d st runtime tenant rows =
     (let names = plugin_names d rows in
      if names = [] then Ok []
      else case runtime of
        None \<Rightarrow> Err StartNoRuntime
      | Some compile \<Rightarrow> compile_plugins st compile tenant names)"

section \<open>Destinations\<close>

fun route_dests ::
  "store \<Rightarrow> string \<Rightarrow> routing_rule list \<Rightarrow> (string \<times> Config) list \<Rightarrow>
   (start_error, (string \<times> Config) list) result" where
  "route_dests st tenant [] dests = Ok dests"
| "route_dests st tenant (r # rs) dests =
     (if \<not> Route.Enabled r then route_dests st tenant rs dests
      else if map_of dests (DestinationID r) \<noteq> None then route_dests st tenant rs dests
      else case Connections_GetUnsafe st (DestinationID r) of
        Inl e \<Rightarrow> Err (StartRouteDestination (DestinationID r) e)
      | Inr conn \<Rightarrow>
          if c_TenantID conn \<noteq> tenant then Err CrossTenantRoute
          else route_dests st tenant rs (AList.update (DestinationID r) (ToMQConfig conn) dests))"

text \<open>A shadow destination that does not resolve, or is another tenant's, is left out.\<close>

definition shadow_dest :: "store \<Rightarrow> pipeline \<Rightarrow> Config option" where
  "shadow_dest st p =
     (if p_ShadowDestinationID p \<noteq> [] \<and> 0 < p_ShadowPercent p then
        (case Connections_GetUnsafe st (p_ShadowDestinationID p) of
           Inl _ \<Rightarrow> None
         | Inr sh \<Rightarrow> if c_TenantID sh = p_TenantID p then Some (ToMQConfig sh) else None)
      else None)"

definition tenant_budget :: "store \<Rightarrow> time \<Rightarrow> pipeline \<Rightarrow> budget_cache \<Rightarrow> string option \<times> budget_cache" where
  "tenant_budget st now p bs =
     (if p_TenantID p = [] then (None, bs)
      else case Tenants_Get st (p_TenantID p) of
        None \<Rightarrow> (None, bs)
      | Some perMinute \<Rightarrow> tenantBudgetFor now (p_TenantID p) perMinute bs)"

section \<open>Putting the executor together\<close>

text \<open>The stages: schemas, plugins and the rows, in the order the sources load them.\<close>

definition build_stages ::
  "codec \<Rightarrow> config_decoder \<Rightarrow> (bytes \<Rightarrow> (string, wasm_module) result) option \<Rightarrow> store \<Rightarrow> pipeline \<Rightarrow>
   stage_row list \<Rightarrow> transform list \<Rightarrow> routing_rule list \<Rightarrow> (start_error, stage list) result" where
  "build_stages c d runtime st p rows ts rules =
     (case loadReferencedSchemas d (Schemas_GetUnsafe st) (pipeline_row.truncate p) rows of
        Inl e \<Rightarrow> Err (StartLoadSchemas e)
      | Inr schemas \<Rightarrow>
          (case loadWasmPluginsForBuild d st runtime (p_TenantID p) rows of
             Inl e \<Rightarrow> Err e
           | Inr plugins \<Rightarrow>
               (case Build c d \<lparr>Pipeline = pipeline_row.truncate p, StageRows = rows, Transforms = ts,
                                RoutingRules = rules, Schemas = schemas, WasmPlugins = plugins\<rparr> of
                  Inl e \<Rightarrow> Err (StartBuild e)
                | Inr stages \<Rightarrow> Ok stages)))"

text \<open>
  \<open>startPipeline\<close>, with the cache of budgets threaded through; \<open>now\<close> is the clock a new budget
  starts at.
\<close>

definition startPipeline ::
  "codec \<Rightarrow> config_decoder \<Rightarrow> (bytes \<Rightarrow> (string, wasm_module) result) option \<Rightarrow> time \<Rightarrow> store \<Rightarrow> pipeline \<Rightarrow>
   budget_cache \<Rightarrow> (start_error, pipeline_executor) result \<times> budget_cache" where
  "startPipeline c d runtime now st p bs =
     (case Stages_ListByPipelineUnsafe st (p_ID p) of Inl e \<Rightarrow> (Err (StartListStages e), bs) | Inr rows \<Rightarrow>
      case Transforms_ListByPipelineUnsafe st (p_ID p) of Inl e \<Rightarrow> (Err (StartListTransforms e), bs) | Inr ts \<Rightarrow>
      case RoutingRules_ListByPipelineUnsafe st (p_ID p) of Inl e \<Rightarrow> (Err (StartListRoutes e), bs) | Inr rules \<Rightarrow>
      case Connections_GetUnsafe st (p_SourceID p) of Inl e \<Rightarrow> (Err (StartSource e), bs) | Inr source \<Rightarrow>
      case Connections_GetUnsafe st (p_DestinationID p) of Inl e \<Rightarrow> (Err (StartDestination e), bs) | Inr dest \<Rightarrow>
      if c_TenantID source \<noteq> p_TenantID p \<or> c_TenantID dest \<noteq> p_TenantID p
      then (Err CrossTenantConnection, bs) else
      case build_stages c d runtime st p rows ts rules of Inl e \<Rightarrow> (Err e, bs) | Inr stages \<Rightarrow>
      case route_dests st (p_TenantID p) rules [] of Inl e \<Rightarrow> (Err e, bs) | Inr dests \<Rightarrow>
      let (budget, bs') = tenant_budget st now p bs in
      (Ok \<lparr>pe_Pipeline = p, pe_Stages = stages, pe_Source = ToMQConfig source,
           pe_SourceQueue = c_QueueName source, pe_DefaultDest = ToMQConfig dest,
           pe_DestQueue = c_QueueName dest, pe_RouteDests = dests,
           pe_ShadowDest = shadow_dest st p, pe_TenantBudget = budget\<rparr>, bs'))"

section \<open>Tenant isolation\<close>

text \<open>A configuration of the tenant: that of a connection row the tenant owns.\<close>

definition own_config :: "store \<Rightarrow> string \<Rightarrow> Config \<Rightarrow> bool" where
  "own_config st tenant cfg \<longleftrightarrow>
     (\<exists>i conn. Connections_GetUnsafe st i = Ok conn \<and> c_TenantID conn = tenant \<and> cfg = From conn)"

lemma route_dests_Ok:
  assumes "route_dests st tenant rules dests = Ok out"
    "\<forall>i cfg. map_of dests i = Some cfg \<longrightarrow> own_config st tenant cfg"
  shows "(\<forall>i cfg. map_of out i = Some cfg \<longrightarrow> own_config st tenant cfg)
       \<and> dom (map_of out) = dom (map_of dests) \<union> enabled_dests rules"
  using assms
proof (induction st tenant rules dests rule: route_dests.induct)
  case (1 st tenant dests)
  then show ?case by (simp add: enabled_dests_def)
next
  case (2 st tenant r rs dests)
  show ?case
  proof (cases "Route.Enabled r \<and> map_of dests (DestinationID r) = None")
    case False
    then show ?thesis using 2 by (auto simp: enabled_dests_def split: if_splits)
  next
    case True
    then obtain conn where conn: "Connections_GetUnsafe st (DestinationID r) = Ok conn"
      "c_TenantID conn = tenant"
      "route_dests st tenant rs (AList.update (DestinationID r) (From conn) dests) = Ok out"
      using 2(4) by (auto split: sum.splits if_splits)
    have "own_config st tenant (From conn)" using conn(1,2) by (auto simp: own_config_def)
    then have "\<forall>i cfg. map_of (AList.update (DestinationID r) (From conn) dests) i = Some cfg
                 \<longrightarrow> own_config st tenant cfg"
      using 2(5) by (auto simp: map_of_update)
    from 2(3) [OF _ _ conn(1) _ conn(3) this] True conn(2)
    show ?thesis by (auto simp: enabled_dests_def update_conv' dom_def)
  qed
qed

lemma build_stages_Ok:
  assumes "build_stages c d runtime st p rows ts rules = Ok stages"
  obtains schemas plugins where
    "loadReferencedSchemas d (Schemas_GetUnsafe st) (pipeline_row.truncate p) rows = Ok schemas"
    "Build c d \<lparr>Pipeline = pipeline_row.truncate p, StageRows = rows, Transforms = ts,
                RoutingRules = rules, Schemas = schemas, WasmPlugins = plugins\<rparr> = Ok stages"
  using assms by (auto simp: build_stages_def split: sum.splits)

lemma startPipeline_Ok:
  assumes "startPipeline c d runtime now st p bs = (Ok ex, bs')"
  obtains rows ts rules source dest where
    "RoutingRules_ListByPipelineUnsafe st (p_ID p) = Ok rules"
    "Stages_ListByPipelineUnsafe st (p_ID p) = Ok rows" "Transforms_ListByPipelineUnsafe st (p_ID p) = Ok ts"
    "Connections_GetUnsafe st (p_SourceID p) = Ok source" "c_TenantID source = p_TenantID p"
    "Connections_GetUnsafe st (p_DestinationID p) = Ok dest" "c_TenantID dest = p_TenantID p"
    "build_stages c d runtime st p rows ts rules = Ok (pe_Stages ex)"
    "route_dests st (p_TenantID p) rules [] = Ok (pe_RouteDests ex)"
    "pe_Source ex = From source" "pe_DefaultDest ex = From dest" "pe_ShadowDest ex = shadow_dest st p"
    "(pe_TenantBudget ex, bs') = tenant_budget st now p bs" "pe_Pipeline ex = p"
  using assms
  by (auto simp: startPipeline_def Let_def split: sum.splits if_splits prod.splits)


lemma shadow_dest_own: "shadow_dest st p = Some cfg \<Longrightarrow> own_config st (p_TenantID p) cfg"
  by (auto simp: shadow_dest_def own_config_def split: if_splits sum.splits)

text \<open>
  A schema the pipeline may use: a stored one, of its own tenant or without a tenant (the
  loader lets a pipeline without a tenant use any).
\<close>

definition own_schema :: "store \<Rightarrow> pipeline \<Rightarrow> schema_row \<Rightarrow> bool" where
  "own_schema st p sch \<longleftrightarrow>
     (\<exists>i. Schemas_GetUnsafe st i = Ok sch)
     \<and> (p_TenantID p = [] \<or> sch_TenantID sch = [] \<or> sch_TenantID sch = p_TenantID p)"

text \<open>
  What a stage holds of the store: a validate stage its schema, or the content its own row
  gives inline; a translate stage the protobuf schema it was compiled from; a Wasm stage a
  plugin of the tenant.
\<close>

fun stage_own :: "codec \<Rightarrow> config_decoder \<Rightarrow> store \<Rightarrow> pipeline \<Rightarrow> stage_row list \<Rightarrow> stage \<Rightarrow> bool" where
  "stage_own c d st p rows (ValidateStage v) =
     ((\<exists>sch. own_schema st p sch \<and> SchemaType v = sch_SchemaType sch \<and> Content v = sch_Content sch)
      \<or> (\<exists>row \<in> set rows. row_Enabled row \<and> p_SchemaID p = [] \<and> cfg_SchemaID (row_config d (StageConfig row)) = []
           \<and> SchemaType v = cfg_SchemaType (row_config d (StageConfig row))
           \<and> Content v = cfg_Content (row_config d (StageConfig row))))"
| "stage_own c d st p rows (TranslateStage t) =
     (case Proto t of
        None \<Rightarrow> True
      | Some ps \<Rightarrow> \<exists>sch msg. own_schema st p sch \<and> LoadProtoSchema c (sch_Content sch) msg = Ok ps)"
| "stage_own c d st p rows (WasmStage n) = (\<exists>blob. Plugins_Get st (p_TenantID p) n = Ok blob)"
| "stage_own c d st p rows _ = True"

lemma compile_plugins_own:
  "compile_plugins st compile tenant names = Ok out \<Longrightarrow> map_of out n = Some m \<Longrightarrow>
     \<exists>blob. Plugins_Get st tenant m = Ok blob"
  by (induction names arbitrary: out) (auto split: sum.splits if_splits)

lemma load_plugins_own:
  "loadWasmPluginsForBuild d st runtime tenant rows = Ok out \<Longrightarrow> map_of out n = Some m \<Longrightarrow>
     \<exists>blob. Plugins_Get st tenant m = Ok blob"
  by (auto simp: loadWasmPluginsForBuild_def Let_def split: if_splits option.splits dest: compile_plugins_own)

lemma load_schemas_own:
  assumes "loadReferencedSchemas d (Schemas_GetUnsafe st) (pipeline_row.truncate p) rows = Ok schemas"
    "map_of schemas i = Some sch"
  shows "own_schema st p sch"
  using load_schemas_Ok [OF assms(1) [unfolded loadReferencedSchemas_def]] map_of_SomeD [OF assms(2)]
  by (auto simp: own_schema_def pipeline_row.truncate_def)

lemma build_validate_own:
  assumes "build_validate ctx (row_config d (StageConfig row)) = Ok s" "row \<in> set rows" "row_Enabled row"
    and "p_SchemaID (Pipeline ctx) = p_SchemaID p" "\<And>i sch. map_of (Schemas ctx) i = Some sch \<Longrightarrow> own_schema st p sch"
  shows "stage_own c d st p rows s"
  using assms by (fastforce simp: build_validate_def validate_schema_id_def Let_def split: if_splits option.splits)

lemma build_translate_own:
  assumes "build_translate c ctx cfg = Ok s" "\<And>i sch. map_of (Schemas ctx) i = Some sch \<Longrightarrow> own_schema st p sch"
  shows "stage_own c d st p rows s"
proof (cases "cfg_SchemaID cfg = []")
  case True
  with assms(1) show ?thesis by (auto simp: build_translate_def)
next
  case False
  with assms(1) obtain sch t ps where "map_of (Schemas ctx) (cfg_SchemaID cfg) = Some sch"
    "LoadProtoSchema c (sch_Content sch) (cfg_ProtoMessage cfg) = Ok ps" "s = TranslateStage t" "Proto t = Some ps"
    by (auto simp: build_translate_def Let_def split: option.splits sum.splits if_splits)
  with assms(2) show ?thesis by auto
qed

lemma build_row_stage_own:
  assumes "build_row c d ctx row = Ok s" "row \<in> set rows" "row_Enabled row" "p_SchemaID (Pipeline ctx) = p_SchemaID p"
    and schemas: "\<And>i sch. map_of (Schemas ctx) i = Some sch \<Longrightarrow> own_schema st p sch"
    and plugins: "\<And>n m. map_of (WasmPlugins ctx) n = Some m \<Longrightarrow> \<exists>blob. Plugins_Get st (p_TenantID p) m = Ok blob"
  shows "stage_own c d st p rows s"
proof -
  let ?cfg = "row_config d (StageConfig row)"
  have wasm: "build_wasm ctx ?cfg = Ok s \<Longrightarrow> stage_own c d st p rows s"
    using plugins by (auto simp: build_wasm_def split: if_splits option.splits)
  from assms(1) show ?thesis
    using wasm build_translate_own [of c ctx ?cfg s st p d rows] build_validate_own [of ctx d row s rows p st c] assms(2-4) schemas
    by (auto simp: build_row_def build_script_def Let_def split: if_splits)
qed

lemma build_stages_own:
  assumes "build_stages c d runtime st p rows ts rules = Ok stages" "s \<in> set stages"
  shows "stage_own c d st p rows s"
proof -
  obtain schemas plugins where
    l: "loadReferencedSchemas d (Schemas_GetUnsafe st) (pipeline_row.truncate p) rows = Ok schemas"
    and w: "loadWasmPluginsForBuild d st runtime (p_TenantID p) rows = Ok plugins"
    and b: "Build c d \<lparr>Pipeline = pipeline_row.truncate p, StageRows = rows, Transforms = ts,
                RoutingRules = rules, Schemas = schemas, WasmPlugins = plugins\<rparr> = Ok stages"
    using assms(1) by (auto simp: build_stages_def split: sum.splits)
  let ?ctx = "\<lparr>Pipeline = pipeline_row.truncate p, StageRows = rows, Transforms = ts,
                RoutingRules = rules, Schemas = schemas, WasmPlugins = plugins\<rparr>"
  obtain row where row: "row \<in> set (filter row_Enabled rows)" "build_row c d ?ctx row = Ok s"
    using Build_stages [OF b assms(2)] by auto
  show ?thesis
    using row load_schemas_own [OF l] load_plugins_own [OF w]
    by (intro build_row_stage_own [OF row(2)]) (auto simp: pipeline_row.truncate_def)
qed

text \<open>
  C15. An executor that starts stays within its tenant: its source, its destination, every
  routed destination and the shadow destination are configurations of connections the
  pipeline's own tenant has. Every stage was built from what the tenant may use: a stored
  schema a validate or translate stage holds is the tenant's or has no tenant (any schema, if
  the pipeline itself has no tenant), and a plugin is the tenant's. And the routed
  destinations are exactly those of the enabled routing rules, so that none is left to be
  resolved while messages flow.
\<close>

theorem started_pipeline_isolated:
  assumes "startPipeline c d runtime now st p bs = (Ok ex, bs')"
  shows "own_config st (p_TenantID p) (pe_Source ex)
    \<and> own_config st (p_TenantID p) (pe_DefaultDest ex)
    \<and> (\<forall>cfg. pe_ShadowDest ex = Some cfg \<longrightarrow> own_config st (p_TenantID p) cfg)
    \<and> (\<forall>i cfg. map_of (pe_RouteDests ex) i = Some cfg \<longrightarrow> own_config st (p_TenantID p) cfg)
    \<and> (\<exists>rules rows. RoutingRules_ListByPipelineUnsafe st (p_ID p) = Ok rules
         \<and> dom (map_of (pe_RouteDests ex)) = enabled_dests rules
         \<and> Stages_ListByPipelineUnsafe st (p_ID p) = Ok rows
         \<and> (\<forall>s \<in> set (pe_Stages ex). stage_own c d st p rows s))"
  using assms
proof (rule startPipeline_Ok)
  fix rows ts rules source dest
  assume x: "RoutingRules_ListByPipelineUnsafe st (p_ID p) = Ok rules"
    "Connections_GetUnsafe st (p_SourceID p) = Ok source" "c_TenantID source = p_TenantID p"
    "Connections_GetUnsafe st (p_DestinationID p) = Ok dest" "c_TenantID dest = p_TenantID p"
    "build_stages c d runtime st p rows ts rules = Ok (pe_Stages ex)"
    "route_dests st (p_TenantID p) rules [] = Ok (pe_RouteDests ex)"
    "pe_Source ex = From source" "pe_DefaultDest ex = From dest" "pe_ShadowDest ex = shadow_dest st p"
    "Stages_ListByPipelineUnsafe st (p_ID p) = Ok rows"
  have "own_config st (p_TenantID p) (pe_Source ex)" "own_config st (p_TenantID p) (pe_DefaultDest ex)"
    using x(2-5,8,9) by (auto simp: own_config_def)
  moreover have "\<forall>i cfg. map_of (pe_RouteDests ex) i = Some cfg \<longrightarrow> own_config st (p_TenantID p) cfg"
    "dom (map_of (pe_RouteDests ex)) = enabled_dests rules"
    using route_dests_Ok [OF x(7)] by simp_all
  moreover have "\<forall>cfg. pe_ShadowDest ex = Some cfg \<longrightarrow> own_config st (p_TenantID p) cfg"
    using x(10) shadow_dest_own by simp
  moreover have "\<forall>s \<in> set (pe_Stages ex). stage_own c d st p rows s" using build_stages_own [OF x(6)] by blast
  ultimately show ?thesis using x(1,11) by blast
qed

section \<open>Budgets\<close>

text \<open>
  The pipelines of a tenant share one budget, and it keeps the limit it was first built with:
  a later change of the tenant's row reaches no executor.
\<close>

lemma tenantBudgetFor_keeps:
  assumes "map_of bs tenant = Some b" "0 < perMinute"
  shows "tenantBudgetFor now tenant perMinute bs = (Some tenant, bs)"
  using assms by (simp add: tenantBudgetFor_def)

lemma tenantBudgetFor_stale:
  assumes "tenantBudgetFor now tenant n [] = (r, bs)" "0 < n" "0 < m"
  shows "tenantBudgetFor later tenant m bs = (Some tenant, bs)
       \<and> map_option limit (map_of bs tenant) = Some n"
  using assms by (auto simp: tenantBudgetFor_def newBudget_def)

text \<open>A budget of one tenant never becomes another's.\<close>

lemma tenantBudgetFor_own:
  "tenantBudgetFor now tenant n bs = (Some i, bs') \<Longrightarrow>
     i = tenant \<and> map_of bs' i \<noteq> None \<and> (\<forall>j. j \<noteq> tenant \<longrightarrow> map_of bs' j = map_of bs j)"
  by (auto simp: tenantBudgetFor_def map_of_update split: if_splits option.splits)

section \<open>A sample start\<close>

definition sample_tenant_pipeline :: pipeline where
  "sample_tenant_pipeline =
     \<lparr>p_TenantID = ''t1'', p_OutputFormat = ''same'', p_SchemaID = [], p_FilterPaths = [],
      p_ID = ''p1'', p_Name = ''orders'', p_SourceID = ''c1'', p_DestinationID = ''c2'', p_Enabled = True,
      p_Workers = 1, p_MaxMsgsPerMinute = 0, p_DedupWindowSeconds = 0,
      p_ShadowDestinationID = ''c3'', p_ShadowPercent = 10\<rparr>"

definition sample_connection :: "string \<Rightarrow> Connection" where
  "sample_connection tenant = zero_connection\<lparr>c_TenantID := tenant, c_Type := ''kafka'', c_Topic := ''orders''\<rparr>"

text \<open>The shadow destination \<open>c3\<close> is another tenant's.\<close>

definition sample_rows :: store where
  "sample_rows =
     \<lparr>Stages_ListByPipelineUnsafe = (\<lambda>p. Ok [sample_row ''route'' []]),
      Transforms_ListByPipelineUnsafe = (\<lambda>p. Ok []),
      RoutingRules_ListByPipelineUnsafe = (\<lambda>p. Ok [sample_route [] ''c2'' 1]),
      Connections_GetUnsafe = (\<lambda>i. if i \<in> {''c1'', ''c2''} then Ok (sample_connection ''t1'')
                                  else if i = ''c3'' then Ok (sample_connection ''t2'') else Err ''not found''),
      Schemas_GetUnsafe = (\<lambda>i. Err None), Plugins_Get = (\<lambda>t n. Err ''not found''),
      Tenants_Get = (\<lambda>t. Some 600)\<rparr>"

lemma sample_start:
  "\<exists>ex bs. startPipeline sample_codec sample_decoder None 0 sample_rows sample_tenant_pipeline [] = (Ok ex, bs)
     \<and> pe_RouteDests ex = [(''c2'', From (sample_connection ''t1''))] \<and> pe_ShadowDest ex = None
     \<and> pe_Stages ex = [RouteStage [sample_route [] ''c2'' 1]] \<and> pe_TenantBudget ex = Some ''t1''"
  by (simp add: startPipeline_def sample_rows_def sample_tenant_pipeline_def sample_connection_def
      zero_connection_def build_stages_def loadReferencedSchemas_def wanted_schemas_def sample_row_def
      pipeline_row.truncate_def loadWasmPluginsForBuild_def plugin_names_def Build_def build_row_def
      sample_route_def tenant_budget_def tenantBudgetFor_def shadow_dest_def)

theorem started_pipeline_isolated_witness:
  "\<exists>ex bs. startPipeline sample_codec sample_decoder None 0 sample_rows sample_tenant_pipeline [] = (Ok ex, bs)
     \<and> own_config sample_rows ''t1'' (pe_Source ex) \<and> dom (map_of (pe_RouteDests ex)) = {''c2''}"
proof -
  obtain ex bs where run: "startPipeline sample_codec sample_decoder None 0 sample_rows sample_tenant_pipeline [] = (Ok ex, bs)"
    using sample_start by blast
  have "p_TenantID sample_tenant_pipeline = ''t1''" by (simp add: sample_tenant_pipeline_def)
  moreover have "enabled_dests [sample_route [] ''c2'' 1] = {''c2''}"
    by (simp add: enabled_dests_def sample_route_def)
  ultimately show ?thesis
    using started_pipeline_isolated [OF run] run by (auto simp: sample_rows_def)
qed

end
