(* ===== verification/Manager.thy ===== *)
theory Manager
  imports Start_Pipeline
begin

text \<open>
  The rest of \<open>internal/pipeline/manager.go\<close>: the handles of the running executors, \<open>Reload\<close>,
  \<open>Stop\<close>, \<open>StopAll\<close> and \<open>StopAndWait\<close>, and the goroutine of each executor from its start to
  the closing of its \<open>done\<close> channel. Calls and goroutines interleave at the points where the
  code takes the manager's mutex, cancels, waits, or touches the metrics.
\<close>

section \<open>Data\<close>

text \<open>
  The life of an executor's goroutine: before \<open>Metrics.Register\<close>, running, returned from \<open>Run\<close>
  (the deferred \<open>Metrics.Unregister\<close> has fired), past its own removal from the map, and with
  \<open>done\<close> closed.
\<close>

datatype exec_phase = Starting | Running | Unwound | Removed | Finished

record executorHandle =
  h_pipeline :: string
  h_executor :: pipeline_executor
  h_cancelled :: bool
  h_phase :: exec_phase

record Manager =
  active :: "(string \<times> nat) list"
  mgr_stopped :: bool
  tenantBudgets :: budget_cache
  breakerState :: "(string \<times> string) list option"

definition NewManager :: Manager where
  "NewManager = \<lparr>active = [], mgr_stopped = False, tenantBudgets = [], breakerState = None\<rparr>"

definition ActiveCount :: "Manager \<Rightarrow> nat" where
  "ActiveCount m = length (active m)"

text \<open>The map of breaker states is nil until the first publication.\<close>

definition publishCircuitState :: "string \<Rightarrow> string \<Rightarrow> Manager \<Rightarrow> Manager" where
  "publishCircuitState pid st m =
     m\<lparr>breakerState := Some (AList.update pid st (case breakerState m of None \<Rightarrow> [] | Some bs \<Rightarrow> bs))\<rparr>"

definition clearCircuitState :: "string \<Rightarrow> Manager \<Rightarrow> Manager" where
  "clearCircuitState pid m = m\<lparr>breakerState := map_option (AList.delete pid) (breakerState m)\<rparr>"

definition CircuitStateForPipeline :: "Manager \<Rightarrow> string \<Rightarrow> string" where
  "CircuitStateForPipeline m pid =
     (if map_of (active m) pid = None then ''unknown''
      else case breakerState m of
        None \<Rightarrow> ''unknown''
      | Some bs \<Rightarrow> (case map_of bs pid of None \<Rightarrow> ''closed'' | Some st \<Rightarrow> st))"

datatype reload_error = ManagerStopped | ListPipelines

text \<open>
  Where a call of \<open>Reload\<close> stands: returned, with handles left to cancel, waiting for one of
  them, or with pipelines left to start after so many.
\<close>

datatype reload_point =
    Idle "(reload_error, nat) result option"
  | Cancelling "nat list"
  | Awaiting nat "nat list"
  | StartingRest "pipeline list" nat

record manager_sys =
  ms_manager :: Manager
  ms_handles :: "nat \<Rightarrow> executorHandle"
  ms_next :: nat
  ms_registered :: "string list"
  ms_parent_done :: bool
  ms_reload :: "nat \<Rightarrow> reload_point"
  ms_emitted :: "(string \<times> string) list"

text \<open>What a manager is booted with: codecs, the decoder of configurations, the Wasm runtime.\<close>

record boot =
  b_codec :: codec
  b_decoder :: config_decoder
  b_runtime :: "(bytes \<Rightarrow> (string, wasm_module) result) option"

datatype manager_event =
    Reload nat "nat list"
  | CancelNext nat
  | AwaitDone nat
  | ListAll nat "pipeline list option"
  | StartNext nat time store
  | ReloadReturn nat
  | Register nat
  | RunReturns nat
  | Remove nat
  | Finish nat
  | Publish nat string
  | Stop
  | StopAll
  | StopAndWait
  | ParentCancelled

section \<open>Steps\<close>

abbreviation reload_at :: "nat \<Rightarrow> reload_point \<Rightarrow> manager_sys \<Rightarrow> manager_sys" where
  "reload_at t pt s \<equiv> s\<lparr>ms_reload := (ms_reload s)(t := pt)\<rparr>"

abbreviation on_handle :: "nat \<Rightarrow> (executorHandle \<Rightarrow> executorHandle) \<Rightarrow> manager_sys \<Rightarrow> manager_sys" where
  "on_handle h f s \<equiv> s\<lparr>ms_handles := (ms_handles s)(h := f (ms_handles s h))\<rparr>"

abbreviation on_manager :: "(Manager \<Rightarrow> Manager) \<Rightarrow> manager_sys \<Rightarrow> manager_sys" where
  "on_manager f s \<equiv> s\<lparr>ms_manager := f (ms_manager s)\<rparr>"

text \<open>\<open>h.cancel()\<close> for every handle in the map.\<close>

definition cancel_active :: "manager_sys \<Rightarrow> manager_sys" where
  "cancel_active s =
     s\<lparr>ms_handles := (\<lambda>h. if h \<in> snd ` set (active (ms_manager s))
                           then (ms_handles s h)\<lparr>h_cancelled := True\<rparr> else ms_handles s h)\<rparr>"

text \<open>One turn of the start loop of \<open>Reload\<close>; a pipeline that cannot start is skipped.\<close>

definition start_next :: "boot \<Rightarrow> nat \<Rightarrow> time \<Rightarrow> store \<Rightarrow> pipeline \<Rightarrow> pipeline list \<Rightarrow> nat \<Rightarrow> manager_sys \<Rightarrow> manager_sys" where
  "start_next b t now st p ps n s =
     (if \<not> p_Enabled p then reload_at t (StartingRest ps n) s
      else
        let (res, bs) = startPipeline (b_codec b) (b_decoder b) (b_runtime b) now st p
                          (tenantBudgets (ms_manager s));
            s1 = on_manager (\<lambda>m. m\<lparr>tenantBudgets := bs\<rparr>) s in
        case res of
          Inl e \<Rightarrow> reload_at t (StartingRest ps n) s1
        | Inr ex \<Rightarrow>
            let h = ms_next s in
            reload_at t (StartingRest ps (n + 1))
              (on_manager (\<lambda>m. m\<lparr>active := AList.update (p_ID p) h (active m)\<rparr>)
                (s1\<lparr>ms_handles := (ms_handles s)(h := \<lparr>h_pipeline = p_ID p, h_executor = ex,
                                                       h_cancelled = False, h_phase = Starting\<rparr>),
                    ms_next := h + 1,
                    ms_emitted := ms_emitted s @ [(''pipeline.started'', p_ID p)]\<rparr>)))"

text \<open>
  The deferred function of the executor's goroutine: the map entry goes only while it is still
  this handle's.
\<close>

definition remove_handle :: "nat \<Rightarrow> manager_sys \<Rightarrow> manager_sys" where
  "remove_handle h s =
     (let pid = h_pipeline (ms_handles s h) in
      on_handle h (\<lambda>e. e\<lparr>h_phase := Removed\<rparr>)
        (on_manager (\<lambda>m. clearCircuitState pid
            (m\<lparr>active := (if map_of (active m) pid = Some h then AList.delete pid (active m) else active m)\<rparr>))
          (s\<lparr>ms_emitted := ms_emitted s @ [(''pipeline.stopped'', pid)]\<rparr>)))"

fun manager_step :: "boot \<Rightarrow> manager_event \<Rightarrow> manager_sys \<Rightarrow> manager_sys option" where
  "manager_step b (Reload t order) s =
     (case ms_reload s t of
        Idle _ \<Rightarrow>
          if mgr_stopped (ms_manager s) then Some (reload_at t (Idle (Some (Err ManagerStopped))) s)
          else if mset order = mset (map snd (active (ms_manager s)))
          then Some (reload_at t (Cancelling order) s) else None
      | _ \<Rightarrow> None)"
| "manager_step b (CancelNext t) s =
     (case ms_reload s t of
        Cancelling (h # hs) \<Rightarrow>
          Some (reload_at t (Awaiting h hs) (on_handle h (\<lambda>e. e\<lparr>h_cancelled := True\<rparr>) s))
      | _ \<Rightarrow> None)"
| "manager_step b (AwaitDone t) s =
     (case ms_reload s t of
        Awaiting h hs \<Rightarrow>
          if h_phase (ms_handles s h) = Finished then Some (reload_at t (Cancelling hs) s) else None
      | _ \<Rightarrow> None)"
| "manager_step b (ListAll t answer) s =
     (case ms_reload s t of
        Cancelling [] \<Rightarrow>
          Some (case answer of
            None \<Rightarrow> reload_at t (Idle (Some (Err ListPipelines))) s
          | Some ps \<Rightarrow> reload_at t (StartingRest ps 0) s)
      | _ \<Rightarrow> None)"
| "manager_step b (StartNext t now st) s =
     (case ms_reload s t of
        StartingRest (p # ps) n \<Rightarrow> Some (start_next b t now st p ps n s)
      | _ \<Rightarrow> None)"
| "manager_step b (ReloadReturn t) s =
     (case ms_reload s t of
        StartingRest [] n \<Rightarrow> Some (reload_at t (Idle (Some (Ok n))) s)
      | _ \<Rightarrow> None)"
| "manager_step b (Register h) s =
     (if h < ms_next s \<and> h_phase (ms_handles s h) = Starting
      then Some (on_handle h (\<lambda>e. e\<lparr>h_phase := Running\<rparr>)
                  (s\<lparr>ms_registered := List.insert (h_pipeline (ms_handles s h)) (ms_registered s)\<rparr>))
      else None)"
| "manager_step b (RunReturns h) s =
     (if h < ms_next s \<and> h_phase (ms_handles s h) = Running
         \<and> (h_cancelled (ms_handles s h) \<or> ms_parent_done s)
      then Some (on_handle h (\<lambda>e. e\<lparr>h_phase := Unwound\<rparr>)
                  (s\<lparr>ms_registered := removeAll (h_pipeline (ms_handles s h)) (ms_registered s)\<rparr>))
      else None)"
| "manager_step b (Remove h) s =
     (if h < ms_next s \<and> h_phase (ms_handles s h) = Unwound then Some (remove_handle h s) else None)"
| "manager_step b (Finish h) s =
     (if h < ms_next s \<and> h_phase (ms_handles s h) = Removed
      then Some (on_handle h (\<lambda>e. e\<lparr>h_phase := Finished\<rparr>) s) else None)"
| "manager_step b (Publish h st) s =
     (if h < ms_next s \<and> h_phase (ms_handles s h) = Running
      then Some (on_manager (publishCircuitState (h_pipeline (ms_handles s h)) st) s) else None)"
| "manager_step b Stop s =
     Some (on_manager (\<lambda>m. m\<lparr>active := [], mgr_stopped := True\<rparr>) (cancel_active s))"
| "manager_step b StopAll s = Some (on_manager (\<lambda>m. m\<lparr>active := []\<rparr>) (cancel_active s))"
| "manager_step b StopAndWait s =
     Some (on_manager (\<lambda>m. m\<lparr>mgr_stopped := True\<rparr>) (cancel_active s))"
| "manager_step b ParentCancelled s = Some (s\<lparr>ms_parent_done := True\<rparr>)"

fun manager_run :: "boot \<Rightarrow> manager_event list \<Rightarrow> manager_sys \<Rightarrow> manager_sys option" where
  "manager_run b [] s = Some s"
| "manager_run b (e # es) s =
     (case manager_step b e s of None \<Rightarrow> None | Some s' \<Rightarrow> manager_run b es s')"

definition manager_start :: "executorHandle \<Rightarrow> manager_sys" where
  "manager_start blank =
     \<lparr>ms_manager = NewManager, ms_handles = (\<lambda>_. blank), ms_next = 0, ms_registered = [],
      ms_parent_done = False, ms_reload = (\<lambda>_. Idle None), ms_emitted = []\<rparr>"

text \<open>The answer of \<open>StopAndWait\<close> that is not a timeout: every started goroutine has finished.\<close>

definition drained :: "manager_sys \<Rightarrow> bool" where
  "drained s \<longleftrightarrow> (\<forall>h<ms_next s. h_phase (ms_handles s h) = Finished)"

section \<open>One executor per pipeline\<close>

text \<open>An executor is live from its start until its goroutine has left the map.\<close>

definition live :: "manager_sys \<Rightarrow> nat \<Rightarrow> bool" where
  "live s h \<longleftrightarrow> h < ms_next s \<and> h_phase (ms_handles s h) \<in> {Starting, Running, Unwound}"

text \<open>
  The invariant counts live executors, only the uncancelled ones when \<open>stops\<close> says that the
  map may have been emptied by \<open>Stop\<close> or \<open>StopAll\<close>.
\<close>

definition counted :: "bool \<Rightarrow> manager_sys \<Rightarrow> nat \<Rightarrow> bool" where
  "counted stops s h \<longleftrightarrow> live s h \<and> (stops \<longrightarrow> \<not> h_cancelled (ms_handles s h))"

definition in_map :: "bool \<Rightarrow> manager_sys \<Rightarrow> bool" where
  "in_map stops s \<longleftrightarrow>
     (\<forall>h. counted stops s h \<longrightarrow> map_of (active (ms_manager s)) (h_pipeline (ms_handles s h)) = Some h)"

definition reload_inv :: "bool \<Rightarrow> manager_sys \<Rightarrow> bool" where
  "reload_inv stops s \<longleftrightarrow>
     (case ms_reload s 0 of
        Idle _ \<Rightarrow> True
      | Cancelling hs \<Rightarrow> (\<forall>h. counted stops s h \<longrightarrow> h \<in> set hs)
      | Awaiting h0 hs \<Rightarrow> (\<forall>h. counted stops s h \<longrightarrow> h \<in> set (h0 # hs))
      | StartingRest ps n \<Rightarrow>
          distinct (map p_ID ps)
        \<and> (\<forall>h. counted stops s h \<longrightarrow> h_pipeline (ms_handles s h) \<notin> p_ID ` set ps))"

text \<open>The metrics know exactly the running executors.\<close>

definition registered_inv :: "manager_sys \<Rightarrow> bool" where
  "registered_inv s \<longleftrightarrow>
     (\<forall>pid. pid \<in> set (ms_registered s) \<longleftrightarrow>
        (\<exists>h<ms_next s. h_phase (ms_handles s h) = Running \<and> h_pipeline (ms_handles s h) = pid))"

text \<open>
  The calls of one goroutine: \<open>Reload\<close>s by goroutine 0 alone never overlap. The rows of
  \<open>ListAll\<close> have distinct ids, the table's key.
\<close>

fun serial :: "manager_event \<Rightarrow> bool" where
  "serial (Reload t order) \<longleftrightarrow> t = 0"
| "serial (CancelNext t) \<longleftrightarrow> t = 0"
| "serial (AwaitDone t) \<longleftrightarrow> t = 0"
| "serial (ListAll t answer) \<longleftrightarrow> 
     t = 0 \<and> (case answer of None \<Rightarrow> True | Some ps \<Rightarrow> distinct (map p_ID ps))"
| "serial (StartNext t now st) \<longleftrightarrow> t = 0"
| "serial (ReloadReturn t) \<longleftrightarrow> t = 0"
| "serial _ \<longleftrightarrow> True"

definition empties :: "manager_event \<Rightarrow> bool" where
  "empties e \<longleftrightarrow> e = Stop \<or> e = StopAll"


lemmas manager_invs = in_map_def reload_inv_def counted_def live_def

lemma manager_fields [simp]:
  "active (publishCircuitState pid st m) = active m" "active (clearCircuitState pid m) = active m"
  by (simp_all add: publishCircuitState_def clearCircuitState_def)

text \<open>Executors that stop counting break nothing, as long as those that count keep their place.\<close>

lemma invs_shrink:
  assumes "in_map stops s" "reload_inv stops s"
    "\<And>h. counted stops s' h \<Longrightarrow> counted stops s h"
    "\<And>h. counted stops s' h \<Longrightarrow> h_pipeline (ms_handles s' h) = h_pipeline (ms_handles s h)"
    "\<And>h. counted stops s' h \<Longrightarrow> map_of (active (ms_manager s)) (h_pipeline (ms_handles s h)) = Some h \<Longrightarrow>
       map_of (active (ms_manager s')) (h_pipeline (ms_handles s h)) = Some h"
    "ms_reload s' 0 = ms_reload s 0"
  shows "in_map stops s' \<and> reload_inv stops s'"
  using assms unfolding in_map_def reload_inv_def by (cases "ms_reload s 0") auto

lemma invs_remove:
  assumes "in_map stops s" "reload_inv stops s"
  shows "in_map stops (remove_handle h s) \<and> reload_inv stops (remove_handle h s)"
  by (rule invs_shrink [OF assms])
     (auto simp: remove_handle_def Let_def counted_def live_def map_of_delete split: if_splits)

lemma invs_cancel:
  assumes "in_map stops s" "reload_inv stops s" "active (f (ms_manager s)) = active (ms_manager s) \<or> stops"
  shows "in_map stops (on_manager f (cancel_active s)) \<and> reload_inv stops (on_manager f (cancel_active s))"
proof (rule invs_shrink [OF assms(1,2)])
  fix h assume c: "counted stops (on_manager f (cancel_active s)) h"
  then show "counted stops s h"
    by (auto simp: counted_def live_def cancel_active_def split: if_splits)
  show "map_of (active (ms_manager (on_manager f (cancel_active s)))) (h_pipeline (ms_handles s h)) = Some h"
    if m: "map_of (active (ms_manager s)) (h_pipeline (ms_handles s h)) = Some h"
  proof (cases stops)
    case True
    have "h \<in> snd ` set (active (ms_manager s))" using map_of_SomeD [OF m] by force
    then have False using c True by (auto simp: counted_def cancel_active_def)
    then show ?thesis ..
  next
    case False
    then show ?thesis using assms(3) m by (simp add: cancel_active_def)
  qed
qed (auto simp: cancel_active_def)

lemma invs_start:
  assumes inv: "in_map stops s" "reload_inv stops s" and at: "ms_reload s 0 = StartingRest (p # ps) n"
  shows "in_map stops (start_next b 0 now st p ps n s) \<and> reload_inv stops (start_next b 0 now st p ps n s)"
proof -
  obtain res bs where r: "startPipeline (b_codec b) (b_decoder b) (b_runtime b) now st p
      (tenantBudgets (ms_manager s)) = (res, bs)" by fastforce
  show ?thesis
  proof (cases "p_Enabled p \<and> (\<exists>ex. res = Inr ex)")
    case False
    then have "start_next b 0 now st p ps n s = reload_at 0 (StartingRest ps n) s
      \<or> start_next b 0 now st p ps n s
          = reload_at 0 (StartingRest ps n) (on_manager (\<lambda>m. m\<lparr>tenantBudgets := bs\<rparr>) s)"
      by (auto simp: start_next_def r Let_def split: sum.splits)
    then show ?thesis using inv at by (auto simp: manager_invs)
  next
    case True
    then obtain ex where ex: "p_Enabled p" "res = Inr ex" by blast
    have ids: "distinct (map p_ID (p # ps))"
      "\<And>h. counted stops s h \<Longrightarrow> h_pipeline (ms_handles s h) \<notin> p_ID ` set (p # ps)"
      using inv(2) at by (auto simp: reload_inv_def)
    let ?s = "start_next b 0 now st p ps n s"
    have c: "counted stops ?s h \<longleftrightarrow> h = ms_next s \<or> counted stops s h" for h
      by (auto simp: start_next_def r ex Let_def counted_def live_def less_Suc_eq)
    have pid: "h_pipeline (ms_handles ?s h) = (if h = ms_next s then p_ID p else h_pipeline (ms_handles s h))"
      for h by (simp add: start_next_def r ex Let_def)
    have act: "active (ms_manager ?s) = AList.update (p_ID p) (ms_next s) (active (ms_manager s))"
      and rl: "ms_reload ?s 0 = StartingRest ps (n + 1)"
      by (simp_all add: start_next_def r ex Let_def)
    have old: "h_pipeline (ms_handles s h) \<noteq> p_ID p \<and> h_pipeline (ms_handles s h) \<notin> p_ID ` set ps \<and> h \<noteq> ms_next s
      \<and> map_of (active (ms_manager s)) (h_pipeline (ms_handles s h)) = Some h" if "counted stops s h" for h
      using ids(2) [OF that] inv(1) that by (auto simp: in_map_def counted_def live_def)
    have "in_map stops ?s"
      unfolding in_map_def c pid act by (auto simp: map_of_update dest!: old)
    moreover have "reload_inv stops ?s"
      unfolding reload_inv_def c pid rl using ids(1) by (auto dest!: old)
    ultimately show ?thesis ..
  qed
qed

lemma invs_step:
  assumes inv: "in_map stops s" "reload_inv stops s" and e: "manager_step b e s = Some s'"
    and ok: "serial e" "empties e \<longrightarrow> stops"
  shows "in_map stops s' \<and> reload_inv stops s'"
proof (cases e)
  case (StartNext t now st)
  then show ?thesis using e ok invs_start [OF inv]
    by (auto split: reload_point.splits list.splits)
next
  case (Remove h)
  then show ?thesis using e invs_remove [OF inv] by (auto split: if_splits)
next
  case Stop
  then show ?thesis
    using e ok invs_cancel [OF inv, of "\<lambda>m. m\<lparr>active := [], mgr_stopped := True\<rparr>"]
    by (auto simp: empties_def)
next
  case StopAll
  then show ?thesis
    using e ok invs_cancel [OF inv, of "\<lambda>m. m\<lparr>active := []\<rparr>"] by (auto simp: empties_def)
next
  case StopAndWait
  then show ?thesis using e invs_cancel [OF inv, of "\<lambda>m. m\<lparr>mgr_stopped := True\<rparr>"] by auto
next
  case (Reload t order)
  then consider "s' = reload_at 0 (Idle (Some (Err ManagerStopped))) s"
    | "s' = reload_at 0 (Cancelling order) s" "mset order = mset (map snd (active (ms_manager s)))"
    using e ok by (auto split: reload_point.splits if_splits)
  then show ?thesis
  proof cases
    case 1
    then show ?thesis using inv by (simp add: manager_invs)
  next
    case 2
    have "h \<in> set order" if "counted stops s h" for h
      using inv(1) that mset_eq_setD [OF 2(2)] unfolding in_map_def by (force dest: map_of_SomeD)
    then show ?thesis using inv(1) 2(1) by (simp add: manager_invs)
  qed
next
  case (Register h)
  then show ?thesis using e
    by (intro invs_shrink [OF inv]) (auto simp: counted_def live_def split: if_splits)
next
  case (RunReturns h)
  then show ?thesis using e
    by (intro invs_shrink [OF inv]) (auto simp: counted_def live_def split: if_splits)
next
  case (Finish h)
  then show ?thesis using e
    by (intro invs_shrink [OF inv]) (auto simp: counted_def live_def split: if_splits)
next
  case (Publish h st)
  then show ?thesis using e
    by (intro invs_shrink [OF inv]) (auto simp: counted_def live_def split: if_splits)
next
  case ParentCancelled
  then show ?thesis using e
    by (intro invs_shrink [OF inv]) (auto simp: counted_def live_def)
next
  case (CancelNext t)
  then obtain h hs where at: "ms_reload s 0 = Cancelling (h # hs)"
    and s': "s' = reload_at 0 (Awaiting h hs) (on_handle h (\<lambda>e. e\<lparr>h_cancelled := True\<rparr>) s)"
    using e ok by (auto split: reload_point.splits list.splits)
  have "counted stops s' g \<Longrightarrow> counted stops s g \<and> h_pipeline (ms_handles s' g) = h_pipeline (ms_handles s g)"
    for g by (auto simp: s' counted_def live_def split: if_splits)
  then show ?thesis using inv at by (auto simp: in_map_def reload_inv_def s')
next
  case (AwaitDone t)
  then obtain h hs where at: "ms_reload s 0 = Awaiting h hs" "h_phase (ms_handles s h) = Finished"
    and s': "s' = reload_at 0 (Cancelling hs) s"
    using e ok by (auto split: reload_point.splits if_splits)
  have "counted stops s' g = counted stops s g" "\<not> counted stops s h" for g
    using at by (auto simp: s' counted_def live_def)
  then show ?thesis using inv at by (auto simp: in_map_def reload_inv_def s')
next
  case (ListAll t answer)
  then have "ms_reload s 0 = Cancelling []"
    and s': "s' = (case answer of None \<Rightarrow> reload_at 0 (Idle (Some (Err ListPipelines))) s
                    | Some ps \<Rightarrow> reload_at 0 (StartingRest ps 0) s)"
    using e ok by (auto split: reload_point.splits list.splits)
  moreover have "counted stops s' g = counted stops s g" for g
    by (auto simp: s' counted_def live_def split: option.splits)
  ultimately show ?thesis using inv ok ListAll
    by (auto simp: in_map_def reload_inv_def split: option.splits)
next
  case (ReloadReturn t)
  then obtain n where "s' = reload_at 0 (Idle (Some (Ok n))) s"
    using e ok by (auto split: reload_point.splits list.splits)
  then show ?thesis using inv by (simp add: manager_invs)
qed


lemma registered_keep:
  assumes inv: "registered_inv s" and reg: "ms_registered s' = ms_registered s"
    and same: "\<And>h. h < ms_next s' \<and> h_phase (ms_handles s' h) = Running \<longleftrightarrow>
                  h < ms_next s \<and> h_phase (ms_handles s h) = Running"
      "\<And>h. h < ms_next s \<Longrightarrow> h_pipeline (ms_handles s' h) = h_pipeline (ms_handles s h)"
  shows "registered_inv s'"
proof -
  have "(\<exists>h<ms_next s'. h_phase (ms_handles s' h) = Running \<and> h_pipeline (ms_handles s' h) = pid)
    \<longleftrightarrow> (\<exists>h<ms_next s. h_phase (ms_handles s h) = Running \<and> h_pipeline (ms_handles s h) = pid)" for pid
    using same by metis
  then show ?thesis using inv reg by (simp add: registered_inv_def)
qed

lemma registered_step:
  assumes map: "in_map False s" and inv: "registered_inv s" and e: "manager_step b e s = Some s'"
  shows "registered_inv s'"
proof (cases e)
  case (Register h)
  then show ?thesis using e inv by (auto simp: registered_inv_def split: if_splits)
next
  case (RunReturns h)
  have sole: "g = h" if "g < ms_next s" "h_phase (ms_handles s g) = Running"
    "h_pipeline (ms_handles s g) = h_pipeline (ms_handles s h)" for g
  proof -
    have "counted False s g" "counted False s h"
      using that e RunReturns by (auto simp: counted_def live_def split: if_splits)
    then show ?thesis using map that(3) unfolding in_map_def by (metis option.inject)
  qed
  have "(\<exists>g<ms_next s. g \<noteq> h \<and> h_phase (ms_handles s g) = Running \<and> h_pipeline (ms_handles s g) = pid)
    \<longleftrightarrow> pid \<in> set (removeAll (h_pipeline (ms_handles s h)) (ms_registered s))" for pid
    using inv sole by (auto simp: registered_inv_def)
  moreover have "h_phase (ms_handles s' g) = Running \<longleftrightarrow> g \<noteq> h \<and> h_phase (ms_handles s g) = Running"
    "h_pipeline (ms_handles s' g) = h_pipeline (ms_handles s g)" "ms_next s' = ms_next s"
    "ms_registered s' = removeAll (h_pipeline (ms_handles s h)) (ms_registered s)" for g
    using e RunReturns by (auto split: if_splits)
  ultimately show ?thesis unfolding registered_inv_def by simp
next
  case (StartNext t now st)
  then obtain p ps n where s': "s' = start_next b t now st p ps n s"
    using e by (auto split: reload_point.splits list.splits)
  show ?thesis unfolding s'
    by (rule registered_keep [OF inv])
       (auto simp: start_next_def Let_def less_Suc_eq split: sum.splits prod.splits)
next
  case (Remove h)
  then show ?thesis using e
    by (intro registered_keep [OF inv]) (auto simp: remove_handle_def Let_def split: if_splits)
qed (intro registered_keep [OF inv];
     use e in \<open>auto simp: cancel_active_def split: reload_point.splits list.splits option.splits if_splits\<close>)+

lemma invs_run:
  assumes "in_map stops s" "reload_inv stops s" "manager_run b es s = Some s'"
    "\<forall>e\<in>set es. serial e" "\<forall>e\<in>set es. empties e \<longrightarrow> stops"
  shows "in_map stops s'"
  using assms
  by (induction es arbitrary: s) (auto split: option.splits dest: invs_step)

lemma registered_run:
  assumes "in_map False s" "reload_inv False s" "registered_inv s" "manager_run b es s = Some s'"
    "\<forall>e\<in>set es. serial e" "\<forall>e\<in>set es. \<not> empties e"
  shows "registered_inv s'"
  using assms
proof (induction es arbitrary: s)
  case (Cons e es)
  then obtain s1 where s1: "manager_step b e s = Some s1" "manager_run b es s1 = Some s'"
    by (auto split: option.splits)
  have "in_map False s1 \<and> reload_inv False s1"
    using invs_step [OF Cons(2,3) s1(1)] Cons(6,7) by simp
  moreover have "registered_inv s1" using registered_step [OF Cons(2,4) s1(1)] .
  ultimately show ?case using Cons(1) [of s1] s1(2) Cons(6,7) by simp
qed simp

lemma manager_start_invs:
  "in_map stops (manager_start blank)" "reload_inv stops (manager_start blank)"
  "registered_inv (manager_start blank)"
  by (simp_all add: manager_invs registered_inv_def manager_start_def)

text \<open>
  C14. When \<open>Reload\<close>s do not overlap, then at every point of every interleaving with the
  executors' own goroutines and with the stopping calls: a pipeline has at most one executor
  that is live and not cancelled, and the manager's map leads to it, so that a stopping call
  reaches every executor there is; and as long as the map is not emptied by \<open>Stop\<close> or
  \<open>StopAll\<close>, a pipeline has at most one live executor at all and the metrics have registered
  exactly the pipelines with a running one.
\<close>

theorem one_executor_per_pipeline:
  assumes run: "manager_run b es (manager_start blank) = Some s" and serial: "\<forall>e\<in>set es. serial e"
  shows "(\<forall>g h. live s g \<and> live s h \<and> \<not> h_cancelled (ms_handles s g) \<and> \<not> h_cancelled (ms_handles s h)
           \<and> h_pipeline (ms_handles s g) = h_pipeline (ms_handles s h) \<longrightarrow> g = h)
    \<and> (\<forall>h. live s h \<and> \<not> h_cancelled (ms_handles s h) \<longrightarrow>
           map_of (active (ms_manager s)) (h_pipeline (ms_handles s h)) = Some h)
    \<and> ((\<forall>e\<in>set es. \<not> empties e) \<longrightarrow>
         (\<forall>g h. live s g \<and> live s h \<and> h_pipeline (ms_handles s g) = h_pipeline (ms_handles s h) \<longrightarrow> g = h)
       \<and> (\<forall>pid. pid \<in> set (ms_registered s) \<longleftrightarrow>
            (\<exists>h<ms_next s. h_phase (ms_handles s h) = Running \<and> h_pipeline (ms_handles s h) = pid)))"
proof -
  note init = manager_start_invs [where blank = blank]
  have "in_map True s" using invs_run [OF init(1,2) run serial] by blast
  then have reached: "map_of (active (ms_manager s)) (h_pipeline (ms_handles s h)) = Some h"
    if "live s h" "\<not> h_cancelled (ms_handles s h)" for h
    using that by (simp add: in_map_def counted_def)
  have quiet: "in_map False s" "registered_inv s" if "\<forall>e\<in>set es. \<not> empties e"
    using invs_run [OF init(1,2) run serial] registered_run [OF init run serial that] that by blast+
  have sole: "g = h" if "\<forall>e\<in>set es. \<not> empties e" "live s g" "live s h"
    "h_pipeline (ms_handles s g) = h_pipeline (ms_handles s h)" for g h
    using quiet(1) [OF that(1)] that(2-4) unfolding in_map_def counted_def by (metis option.inject)
  have "g = h" if "live s g" "live s h" "\<not> h_cancelled (ms_handles s g)"
    "\<not> h_cancelled (ms_handles s h)" "h_pipeline (ms_handles s g) = h_pipeline (ms_handles s h)" for g h
    using reached [OF that(1,3)] reached [OF that(2,4)] that(5) by (metis option.inject)
  moreover have "(\<forall>g h. live s g \<and> live s h \<and> h_pipeline (ms_handles s g) = h_pipeline (ms_handles s h) \<longrightarrow> g = h)
       \<and> (\<forall>pid. pid \<in> set (ms_registered s) \<longleftrightarrow>
            (\<exists>h<ms_next s. h_phase (ms_handles s h) = Running \<and> h_pipeline (ms_handles s h) = pid))"
    if "\<forall>e\<in>set es. \<not> empties e"
    using sole [OF that] quiet(2) [OF that, unfolded registered_inv_def] by blast
  ultimately show ?thesis using reached by (intro conjI impI) (blast | assumption)+
qed


section \<open>Sample runs\<close>

definition sample_pipeline_executor :: pipeline_executor where
  "sample_pipeline_executor =
     \<lparr>pe_Pipeline = sample_tenant_pipeline, pe_Stages = [RouteStage [sample_route [] ''c2'' 1]],
      pe_Source = From (sample_connection ''t1''), pe_SourceQueue = [],
      pe_DefaultDest = From (sample_connection ''t1''), pe_DestQueue = [],
      pe_RouteDests = [(''c2'', From (sample_connection ''t1''))], pe_ShadowDest = None,
      pe_TenantBudget = Some ''t1''\<rparr>"

lemma sample_started [simp]:
  "startPipeline sample_codec sample_decoder None now sample_rows sample_tenant_pipeline bs =
     (Ok sample_pipeline_executor, snd (tenantBudgetFor now ''t1'' 600 bs))"
  by (simp add: startPipeline_def sample_rows_def sample_tenant_pipeline_def sample_connection_def
      zero_connection_def build_stages_def loadReferencedSchemas_def wanted_schemas_def sample_row_def
      pipeline_row.truncate_def loadWasmPluginsForBuild_def plugin_names_def Build_def build_row_def
      sample_route_def tenant_budget_def tenantBudgetFor_def shadow_dest_def sample_pipeline_executor_def
      split: option.splits)

definition sample_boot :: boot where
  "sample_boot = \<lparr>b_codec = sample_codec, b_decoder = sample_decoder, b_runtime = None\<rparr>"

definition sample_manager :: manager_sys where
  "sample_manager = manager_start
     \<lparr>h_pipeline = [], h_executor = sample_pipeline_executor, h_cancelled = False, h_phase = Finished\<rparr>"

text \<open>A \<open>Reload\<close> by goroutine \<open>t\<close> when the map has the given handles, up to the list of pipelines.\<close>

definition begin_reload :: "nat \<Rightarrow> manager_event list" where
  "begin_reload t = [Reload t [], ListAll t (Some [sample_tenant_pipeline])]"

definition end_reload :: "nat \<Rightarrow> manager_event list" where
  "end_reload t = [StartNext t 0 sample_rows, ReloadReturn t]"

text \<open>Start, reload with the old executor unwinding, and the new one running.\<close>

definition sample_reloads :: "manager_event list" where
  "sample_reloads =
     begin_reload 0 @ end_reload 0 @
     [Register 0, Reload 0 [0], CancelNext 0, RunReturns 0, Remove 0, Finish 0, AwaitDone 0,
      ListAll 0 (Some [sample_tenant_pipeline])] @ end_reload 0 @ [Register 1]"

text \<open>Two overlapping reloads, then a loss of the lease.\<close>

definition sample_overlap :: "manager_event list" where
  "sample_overlap =
     begin_reload 0 @ begin_reload 1 @ end_reload 0 @ [Register 0] @ end_reload 1 @ [Register 1, StopAll]"

text \<open>The lease is lost and regained while the old executor is still busy with a message.\<close>

definition sample_regain :: "manager_event list" where
  "sample_regain =
     begin_reload 0 @ end_reload 0 @ [Register 0, StopAll] @ begin_reload 0 @ end_reload 0 @
     [Register 1, RunReturns 0]"

lemmas sample_manager_runs = sample_reloads_def sample_overlap_def sample_regain_def begin_reload_def
  end_reload_def sample_manager_def manager_start_def NewManager_def start_next_def Let_def
  sample_boot_def remove_handle_def clearCircuitState_def cancel_active_def

lemma sample_pipeline_fields [simp]:
  "p_ID sample_tenant_pipeline = ''p1''" "p_Enabled sample_tenant_pipeline"
  by (simp_all add: sample_tenant_pipeline_def)

lemma sample_reloads_run:
  "\<exists>s. manager_run sample_boot sample_reloads sample_manager = Some s
     \<and> ms_next s = 2 \<and> h_phase (ms_handles s 1) = Running \<and> h_pipeline (ms_handles s 1) = ''p1''
     \<and> ms_reload s 0 = Idle (Some (Ok 1))"
  by (simp add: sample_manager_runs)

theorem one_executor_per_pipeline_witness:
  "\<exists>s. manager_run sample_boot sample_reloads sample_manager = Some s
     \<and> ''p1'' \<in> set (ms_registered s)
     \<and> (\<forall>h. live s h \<and> h_pipeline (ms_handles s h) = ''p1'' \<longrightarrow> h = 1)"
proof -
  obtain s where run: "manager_run sample_boot sample_reloads sample_manager = Some s"
    and at: "ms_next s = 2" "h_phase (ms_handles s 1) = Running" "h_pipeline (ms_handles s 1) = ''p1''"
    using sample_reloads_run by blast
  have serial: "\<forall>e\<in>set sample_reloads. serial e" and keep: "\<forall>e\<in>set sample_reloads. \<not> empties e"
    by (simp_all add: sample_reloads_def begin_reload_def end_reload_def empties_def)
  note facts = one_executor_per_pipeline [OF run [unfolded sample_manager_def] serial]
  have "live s 1" using at by (simp add: live_def)
  then have "h = 1" if "live s h" "h_pipeline (ms_handles s h) = ''p1''" for h
    using facts [THEN conjunct2, THEN conjunct2, THEN mp, OF keep, THEN conjunct1] that at(3) by simp
  moreover have "''p1'' \<in> set (ms_registered s)"
  proof -
    have "1 < ms_next s" using at(1) by simp
    then show ?thesis
      using facts [THEN conjunct2, THEN conjunct2, THEN mp, OF keep, THEN conjunct2] at(2,3) by blast
  qed
  ultimately show ?thesis using run by blast
qed

text \<open>
  What \<open>Reload\<close> does not promise. Two overlapping calls leave two running executors of one
  pipeline; the first is no longer in the map, so that \<open>StopAll\<close> at the loss of the lease
  leaves it running for good. And after \<open>StopAll\<close> the next \<open>Reload\<close> does not wait for the old
  executor, whose late \<open>Unregister\<close> then removes the running one from the metrics.
\<close>

theorem reload_races:
  "(\<exists>s. manager_run sample_boot sample_overlap sample_manager = Some s
      \<and> live s 0 \<and> \<not> h_cancelled (ms_handles s 0) \<and> h_pipeline (ms_handles s 0) = ''p1''
      \<and> active (ms_manager s) = [] \<and> ms_reload s 0 = Idle (Some (Ok 1)) \<and> ms_reload s 1 = Idle (Some (Ok 1)))
 \<and> (\<exists>s. manager_run sample_boot sample_regain sample_manager = Some s
      \<and> h_phase (ms_handles s 1) = Running \<and> \<not> h_cancelled (ms_handles s 1)
      \<and> map_of (active (ms_manager s)) ''p1'' = Some 1 \<and> ms_registered s = [])"
  by (intro conjI) (simp_all add: sample_manager_runs live_def)

end
