(* ===== verification/Pool.thy ===== *)
theory Pool
  imports Mq_Config
begin

text \<open>
  The connection pool of \<open>internal/mq/pool.go\<close>: entries cached under a key, each with its own
  mutex that the caller of \<open>Get\<close> keeps until it calls the release function, and the sweeper
  that evicts idle and dead entries. Entries live in a store and are shared by address, since
  the sources compare and keep pointers to them; any number of goroutines run, interleaved at
  the points where the code takes or leaves one of the two mutexes.
\<close>

section \<open>Data\<close>

text \<open>
  An entry. The connector is known by its configuration and by whether it has a connection
  open; \<open>mu\<close> says whether its mutex is locked.
\<close>

record poolEntry =
  conn :: Config
  connected :: bool
  lastUsed :: time
  mu :: bool

record Pool =
  idleTimeout :: duration
  healthInterval :: duration
  entries :: "(string \<times> nat) list"
  stopped :: bool

record PoolOptions =
  IdleTimeout :: duration
  HealthInterval :: duration

definition NewPool :: "PoolOptions \<Rightarrow> Pool" where
  "NewPool opts =
     \<lparr>idleTimeout = (if IdleTimeout opts \<le> 0 then 5 * 60 * 1000000000 else IdleTimeout opts),
      healthInterval = (if HealthInterval opts \<le> 0 then 30 * 1000000000 else HealthInterval opts),
      entries = [], stopped = False\<rparr>"

definition Size :: "Pool \<Rightarrow> nat" where
  "Size p = length (entries p)"

definition Has :: "Pool \<Rightarrow> string \<Rightarrow> bool" where
  "Has p key \<longleftrightarrow> map_of (entries p) key \<noteq> None"

definition Keys :: "Pool \<Rightarrow> string list" where
  "Keys p = map fst (entries p)"

datatype pool_error = PoolStopped | NewFailed mq_error | ConnectFailed

section \<open>Goroutines\<close>

text \<open>
  Where a goroutine stands: outside the pool, with the error of its last call; in \<open>Get\<close>
  before \<open>entry.mu.Lock\<close>, before \<open>Connect\<close>, returned with the entry locked, or on the error
  path before the eviction and before the final \<open>Disconnect\<close>; in \<open>Release\<close> before
  \<open>entry.mu.Lock\<close>; in \<open>Close\<close>, waiting for the disconnects; and in \<open>runSweep\<close> between two
  entries, with an entry locked, or before the removal of a key. A sweep carries the rest of
  its snapshot and its own clock reading.
\<close>

datatype point =
    Ready "pool_error option"
  | GetLock string nat
  | GetConnect string nat
  | Holding string nat
  | GetEvict string nat
  | GetDisconnect nat
  | ReleaseLock nat
  | CloseWait
  | Sweeping "(string \<times> nat) list" time
  | SweepEntry string nat "(string \<times> nat) list" time
  | SweepDelete string "(string \<times> nat) list" time

record pool_sys =
  ps_pool :: Pool
  ps_heap :: "nat \<Rightarrow> poolEntry"
  ps_next :: nat
  ps_now :: time
  ps_at :: "nat \<Rightarrow> point"
  ps_closers :: "nat list"

text \<open>
  The events. \<open>Connect\<close> succeeds (\<open>None\<close>) or fails and leaves the connection as it says;
  \<open>Ping\<close> says whether it answers. The order in which \<open>runSweep\<close> walks its map is up to the
  runtime.
\<close>

datatype pool_event =
    Pass nat
  | Get nat string Config
  | Lock nat
  | Connect nat "bool option"
  | Evict nat
  | LateDisconnect nat
  | Done nat
  | Release nat string
  | ReleaseDisconnect nat
  | Close nat
  | Closer nat
  | CloseReturn nat bool
  | Sweep nat "(string \<times> nat) list"
  | TryLock nat
  | Check nat bool
  | Delete nat

abbreviation goto :: "nat \<Rightarrow> point \<Rightarrow> pool_sys \<Rightarrow> pool_sys" where
  "goto t pt s \<equiv> s\<lparr>ps_at := (ps_at s)(t := pt)\<rparr>"

abbreviation on_entry :: "nat \<Rightarrow> (poolEntry \<Rightarrow> poolEntry) \<Rightarrow> pool_sys \<Rightarrow> pool_sys" where
  "on_entry a f s \<equiv> s\<lparr>ps_heap := (ps_heap s)(a := f (ps_heap s a))\<rparr>"

abbreviation on_entries ::
  "((string \<times> nat) list \<Rightarrow> (string \<times> nat) list) \<Rightarrow> pool_sys \<Rightarrow> pool_sys" where
  "on_entries f s \<equiv> s\<lparr>ps_pool := (ps_pool s)\<lparr>entries := f (entries (ps_pool s))\<rparr>\<rparr>"

text \<open>
  The locked part of \<open>Get\<close>: a hit takes the entry as it is, whatever the configuration asked
  for; a miss makes one, with the zero time as its last use.
\<close>

definition get_entry :: "bool \<Rightarrow> time \<Rightarrow> nat \<Rightarrow> string \<Rightarrow> Config \<Rightarrow> pool_sys \<Rightarrow> pool_sys" where
  "get_entry ibmmq zero t i cfg s =
     (if stopped (ps_pool s) then goto t (Ready (Some PoolStopped)) s
      else case map_of (entries (ps_pool s)) i of
        Some a \<Rightarrow> goto t (GetLock i a) s
      | None \<Rightarrow>
          (case New ibmmq cfg of
             Inl e \<Rightarrow> goto t (Ready (Some (NewFailed e))) s
           | Inr c \<Rightarrow>
               let a = ps_next s in
               goto t (GetLock i a) (on_entries (AList.update i a)
                 (s\<lparr>ps_heap := (ps_heap s)(a := \<lparr>conn = c, connected = False, lastUsed = zero, mu = False\<rparr>),
                    ps_next := a + 1\<rparr>))))"

text \<open>
  \<open>Close\<close> stops the pool and starts one goroutine per entry; the second call returns at once.
\<close>

definition close_pool :: "nat \<Rightarrow> pool_sys \<Rightarrow> pool_sys" where
  "close_pool t s =
     (if stopped (ps_pool s) then goto t (Ready None) s
      else goto t CloseWait
        (s\<lparr>ps_pool := (ps_pool s)\<lparr>stopped := True, entries := []\<rparr>,
           ps_closers := ps_closers s @ map snd (entries (ps_pool s))\<rparr>))"

text \<open>
  The body of the loop of \<open>runSweep\<close> for an entry it has locked: an idle entry and one whose
  \<open>Ping\<close> fails are disconnected, unlocked, and then removed under the pool's mutex.
\<close>

definition check_entry ::
  "nat \<Rightarrow> bool \<Rightarrow> string \<Rightarrow> nat \<Rightarrow> (string \<times> nat) list \<Rightarrow> time \<Rightarrow> pool_sys \<Rightarrow> pool_sys" where
  "check_entry t ping i a rest now s =
     (if idleTimeout (ps_pool s) < now - lastUsed (ps_heap s a) \<or> \<not> ping
      then goto t (SweepDelete i rest now) (on_entry a (\<lambda>e. e\<lparr>connected := False, mu := False\<rparr>) s)
      else goto t (Sweeping rest now) (on_entry a (\<lambda>e. e\<lparr>mu := False\<rparr>) s))"

fun pool_step :: "bool \<Rightarrow> time \<Rightarrow> pool_event \<Rightarrow> pool_sys \<Rightarrow> pool_sys option" where
  "pool_step ibmmq zero (Pass d) s = Some (s\<lparr>ps_now := ps_now s + int d\<rparr>)"
| "pool_step ibmmq zero (Get t i cfg) s =
     (case ps_at s t of Ready _ \<Rightarrow> Some (get_entry ibmmq zero t i cfg s) | _ \<Rightarrow> None)"
| "pool_step ibmmq zero (Lock t) s =
     (case ps_at s t of
        GetLock i a \<Rightarrow>
          if mu (ps_heap s a) then None
          else Some (goto t (GetConnect i a)
                 (on_entry a (\<lambda>e. e\<lparr>mu := True, lastUsed := ps_now s\<rparr>) s))
      | _ \<Rightarrow> None)"
| "pool_step ibmmq zero (Connect t err) s =
     (case ps_at s t of
        GetConnect i a \<Rightarrow>
          Some (case err of
            None \<Rightarrow> goto t (Holding i a) (on_entry a (\<lambda>e. e\<lparr>connected := True\<rparr>) s)
          | Some left \<Rightarrow> goto t (GetEvict i a) (on_entry a (\<lambda>e. e\<lparr>connected := left, mu := False\<rparr>) s))
      | _ \<Rightarrow> None)"
| "pool_step ibmmq zero (Evict t) s =
     (case ps_at s t of
        GetEvict i a \<Rightarrow>
          Some (goto t (GetDisconnect a)
            (on_entries (\<lambda>m. if map_of m i = Some a then AList.delete i m else m) s))
      | _ \<Rightarrow> None)"
| "pool_step ibmmq zero (LateDisconnect t) s =
     (case ps_at s t of
        GetDisconnect a \<Rightarrow>
          Some (goto t (Ready (Some ConnectFailed)) (on_entry a (\<lambda>e. e\<lparr>connected := False\<rparr>) s))
      | _ \<Rightarrow> None)"
| "pool_step ibmmq zero (Done t) s =
     (case ps_at s t of
        Holding i a \<Rightarrow>
          Some (goto t (Ready None) (on_entry a (\<lambda>e. e\<lparr>lastUsed := ps_now s, mu := False\<rparr>) s))
      | _ \<Rightarrow> None)"
| "pool_step ibmmq zero (Release t i) s =
     (case ps_at s t of
        Ready _ \<Rightarrow>
          Some (case map_of (entries (ps_pool s)) i of
            None \<Rightarrow> goto t (Ready None) s
          | Some a \<Rightarrow> goto t (ReleaseLock a) (on_entries (AList.delete i) s))
      | _ \<Rightarrow> None)"
| "pool_step ibmmq zero (ReleaseDisconnect t) s =
     (case ps_at s t of
        ReleaseLock a \<Rightarrow>
          if mu (ps_heap s a) then None
          else Some (goto t (Ready None) (on_entry a (\<lambda>e. e\<lparr>connected := False\<rparr>) s))
      | _ \<Rightarrow> None)"
| "pool_step ibmmq zero (Close t) s =
     (case ps_at s t of Ready _ \<Rightarrow> Some (close_pool t s) | _ \<Rightarrow> None)"
| "pool_step ibmmq zero (Closer a) s =
     (if a \<in> set (ps_closers s) \<and> \<not> mu (ps_heap s a)
      then Some (on_entry a (\<lambda>e. e\<lparr>connected := False\<rparr>) (s\<lparr>ps_closers := remove1 a (ps_closers s)\<rparr>))
      else None)"
| "pool_step ibmmq zero (CloseReturn t deadline) s =
     (if ps_at s t = CloseWait \<and> (ps_closers s = [] \<or> deadline)
      then Some (goto t (Ready None) s) else None)"
| "pool_step ibmmq zero (Sweep t order) s =
     (case ps_at s t of
        Ready _ \<Rightarrow>
          if distinct order \<and> set order = set (entries (ps_pool s))
          then Some (goto t (Sweeping order (ps_now s)) s) else None
      | _ \<Rightarrow> None)"
| "pool_step ibmmq zero (TryLock t) s =
     (case ps_at s t of
        Sweeping [] now \<Rightarrow> Some (goto t (Ready None) s)
      | Sweeping ((i, a) # rest) now \<Rightarrow>
          Some (if mu (ps_heap s a) then goto t (Sweeping rest now) s
                else goto t (SweepEntry i a rest now) (on_entry a (\<lambda>e. e\<lparr>mu := True\<rparr>) s))
      | _ \<Rightarrow> None)"
| "pool_step ibmmq zero (Check t ping) s =
     (case ps_at s t of
        SweepEntry i a rest now \<Rightarrow> Some (check_entry t ping i a rest now s)
      | _ \<Rightarrow> None)"
| "pool_step ibmmq zero (Delete t) s =
     (case ps_at s t of
        SweepDelete i rest now \<Rightarrow> Some (goto t (Sweeping rest now) (on_entries (AList.delete i) s))
      | _ \<Rightarrow> None)"

fun pool_run :: "bool \<Rightarrow> time \<Rightarrow> pool_event list \<Rightarrow> pool_sys \<Rightarrow> pool_sys option" where
  "pool_run ibmmq zero [] s = Some s"
| "pool_run ibmmq zero (e # es) s =
     (case pool_step ibmmq zero e s of None \<Rightarrow> None | Some s' \<Rightarrow> pool_run ibmmq zero es s')"

definition pool_start :: "PoolOptions \<Rightarrow> poolEntry \<Rightarrow> time \<Rightarrow> pool_sys" where
  "pool_start opts blank start =
     \<lparr>ps_pool = NewPool opts, ps_heap = (\<lambda>_. blank\<lparr>mu := False\<rparr>), ps_next = 0, ps_now = start,
      ps_at = (\<lambda>_. Ready None), ps_closers = []\<rparr>"

section \<open>The invariant\<close>

text \<open>The entry a goroutine has locked, and the entries it keeps a pointer to.\<close>

fun owns :: "point \<Rightarrow> nat option" where
  "owns (GetConnect i a) = Some a"
| "owns (Holding i a) = Some a"
| "owns (SweepEntry i a rest now) = Some a"
| "owns _ = None"

fun refers :: "point \<Rightarrow> nat set" where
  "refers (GetLock i a) = {a}"
| "refers (GetConnect i a) = {a}"
| "refers (Holding i a) = {a}"
| "refers (GetEvict i a) = {a}"
| "refers (GetDisconnect a) = {a}"
| "refers (ReleaseLock a) = {a}"
| "refers (Sweeping rest now) = snd ` set rest"
| "refers (SweepEntry i a rest now) = insert a (snd ` set rest)"
| "refers (SweepDelete i rest now) = snd ` set rest"
| "refers _ = {}"

text \<open>Every pointer is to an entry that was made.\<close>

definition pool_refs :: "pool_sys \<Rightarrow> bool" where
  "pool_refs s \<longleftrightarrow>
     (\<forall>t. \<forall>a\<in>refers (ps_at s t). a < ps_next s)
   \<and> (\<forall>i a. (i, a) \<in> set (entries (ps_pool s)) \<longrightarrow> a < ps_next s)
   \<and> (\<forall>a\<in>set (ps_closers s). a < ps_next s)"

text \<open>A mutex is locked exactly while one goroutine has it.\<close>

definition locks_ok :: "(nat \<Rightarrow> bool) \<Rightarrow> (nat \<Rightarrow> nat option) \<Rightarrow> bool" where
  "locks_ok locked owner \<longleftrightarrow>
     (\<forall>a. locked a \<longleftrightarrow> (\<exists>t. owner t = Some a))
   \<and> (\<forall>t u a. owner t = Some a \<longrightarrow> owner u = Some a \<longrightarrow> t = u)"

definition pool_locks :: "pool_sys \<Rightarrow> bool" where
  "pool_locks s \<longleftrightarrow> locks_ok (\<lambda>a. mu (ps_heap s a)) (\<lambda>t. owns (ps_at s t))"

definition pool_inv :: "pool_sys \<Rightarrow> bool" where
  "pool_inv s \<longleftrightarrow> pool_refs s \<and> pool_locks s"


text \<open>
  The three moves of the mutex discipline: a goroutine takes a free mutex, leaves the one it
  has, or does neither.
\<close>

lemma locks_ok_take:
  assumes ok: "locks_ok l ow" and free: "\<not> l a" "ow t = None"
  shows "locks_ok (l(a := True)) (ow(t := Some a))"
proof -
  have "ow u \<noteq> Some a" for u using ok free(1) unfolding locks_ok_def by blast
  moreover have "l b \<longleftrightarrow> (\<exists>u. u \<noteq> t \<and> ow u = Some b)" for b
    using ok free(2) unfolding locks_ok_def by (metis option.distinct(1))
  ultimately show ?thesis using ok unfolding locks_ok_def by auto
qed

lemma locks_ok_leave:
  assumes ok: "locks_ok l ow" and mine: "ow t = Some a"
  shows "locks_ok (l(a := False)) (ow(t := None))"
proof -
  have "u \<noteq> t \<Longrightarrow> ow u \<noteq> Some a" for u using ok mine unfolding locks_ok_def by blast
  moreover have "b \<noteq> a \<Longrightarrow> l b \<longleftrightarrow> (\<exists>u. u \<noteq> t \<and> ow u = Some b)" for b
    using ok mine unfolding locks_ok_def by (metis option.inject)
  ultimately show ?thesis using ok unfolding locks_ok_def by auto
qed

text \<open>How the moves look on a state in which one goroutine and one entry changed.\<close>

lemma pool_locks_take:
  assumes "pool_locks s" "\<not> mu (ps_heap s a)" "owns (ps_at s t) = None"
    "owns (pt :: point) = Some a" "mu e"
    "ps_at s' = (ps_at s)(t := pt)" "ps_heap s' = (ps_heap s)(a := e)"
  shows "pool_locks s'"
proof -
  have "(\<lambda>x. mu (ps_heap s' x)) = (\<lambda>x. mu (ps_heap s x))(a := True)"
    "(\<lambda>x. owns (ps_at s' x)) = (\<lambda>x. owns (ps_at s x))(t := Some a)"
    using assms(4-7) by auto
  then show ?thesis using locks_ok_take [of _ _ a t] assms(1-3) by (simp add: pool_locks_def)
qed

lemma pool_locks_leave:
  assumes "pool_locks s" "owns (ps_at s t) = Some a"
    "owns (pt :: point) = None" "\<not> mu e"
    "ps_at s' = (ps_at s)(t := pt)" "ps_heap s' = (ps_heap s)(a := e)"
  shows "pool_locks s'"
proof -
  have "(\<lambda>x. mu (ps_heap s' x)) = (\<lambda>x. mu (ps_heap s x))(a := False)"
    "(\<lambda>x. owns (ps_at s' x)) = (\<lambda>x. owns (ps_at s x))(t := None)"
    using assms(3-6) by auto
  then show ?thesis using locks_ok_leave [of _ _ t a] assms(1-2) by (simp add: pool_locks_def)
qed

lemma pool_locks_stay:
  assumes "pool_locks s" "\<And>x. mu (ps_heap s' x) = mu (ps_heap s x)"
    "\<And>x. owns (ps_at s' x) = owns (ps_at s x)"
  shows "pool_locks s'"
  using assms by (simp add: pool_locks_def)

lemma pool_refs_move:
  assumes "pool_refs s" "\<And>u. u \<noteq> t \<Longrightarrow> ps_at s' u = ps_at s u"
    "\<And>a. a \<in> refers (ps_at s' t) \<Longrightarrow> a < ps_next s'" "ps_next s \<le> ps_next s'"
    "\<And>i a. (i, a) \<in> set (entries (ps_pool s')) \<Longrightarrow> a < ps_next s'"
    "\<And>a. a \<in> set (ps_closers s') \<Longrightarrow> a < ps_next s'"
  shows "pool_refs s'"
proof -
  have "a < ps_next s'" if "a \<in> refers (ps_at s' u)" for u a
  proof (cases "u = t")
    case False
    then have "a < ps_next s" using that assms(1,2) by (auto simp: pool_refs_def)
    then show ?thesis using assms(4) by simp
  qed (use assms(3) that in simp)
  then show ?thesis using assms(5,6) unfolding pool_refs_def by blast
qed

lemma pool_refsD:
  assumes "pool_refs s"
  shows "a \<in> refers (ps_at s t) \<Longrightarrow> a < ps_next s"
    "map_of (entries (ps_pool s)) i = Some a \<Longrightarrow> a < ps_next s"
    "(i, a) \<in> set (entries (ps_pool s)) \<Longrightarrow> a < ps_next s" "a \<in> set (ps_closers s) \<Longrightarrow> a < ps_next s"
  using assms unfolding pool_refs_def by (auto dest!: map_of_SomeD)

lemma in_delete: "p \<in> set (AList.delete i m) \<Longrightarrow> p \<in> set m"
  using set_delete_subset by (rule subsetD)

lemma in_update: "(j, b) \<in> set (AList.update i a m) \<Longrightarrow> j = i \<and> b = a \<or> (j, b) \<in> set m"
  using set_update_subset [of i a m] by auto

lemma pool_refs_get:
  assumes "pool_refs s"
  shows "pool_refs (get_entry ibmmq zero t i cfg s)"
  using pool_refsD [OF assms]
  by (intro pool_refs_move [OF assms, of t])
     (auto simp: get_entry_def Let_def less_Suc_eq split: option.splits sum.splits if_splits
           dest: in_update)

lemma pool_refs_step:
  assumes inv: "pool_refs s" and e: "pool_step ibmmq zero e s = Some s'"
  shows "pool_refs s'"
proof (cases e)
  case (Get t i cfg)
  then show ?thesis using e pool_refs_get [OF inv] by (auto split: point.splits)
next
  case (Pass d)
  then show ?thesis using e inv by (auto simp: pool_refs_def)
next
  case (Closer a)
  then show ?thesis using e inv set_remove1_subset [of a "ps_closers s"]
    by (auto simp: pool_refs_def split: if_splits)
next
  case (Connect t err)
  then show ?thesis using e pool_refsD(3-) [OF inv] pool_refsD(1) [OF inv, of _ t]
    by (intro pool_refs_move [OF inv, of t]) (auto split: point.splits option.splits dest!: in_delete)
next
  case (Release t i)
  then show ?thesis using e pool_refsD(2-) [OF inv]
    by (intro pool_refs_move [OF inv, of t]) (auto split: point.splits option.splits dest!: in_delete)
next
  case (Evict t)
  then show ?thesis
    using e pool_refsD(3-) [OF inv] pool_refsD(1) [OF inv, of _ t]
    by (intro pool_refs_move [OF inv, of t]) (auto split: point.splits if_splits dest!: in_delete)
next
  case (Delete t)
  then show ?thesis
    using e pool_refsD(3-) [OF inv] pool_refsD(1) [OF inv, of _ t]
    by (intro pool_refs_move [OF inv, of t]) (auto split: point.splits if_splits dest!: in_delete)
next
  case (Lock t)
  then show ?thesis using e pool_refsD(3-) [OF inv] pool_refsD(1) [OF inv, of _ t]
    by (intro pool_refs_move [OF inv, of t]) (auto split: point.splits if_splits dest!: in_delete)
next
  case (LateDisconnect t)
  then show ?thesis using e pool_refsD(3-) [OF inv]
    by (intro pool_refs_move [OF inv, of t]) (auto split: point.splits if_splits)
next
  case (Done t)
  then show ?thesis using e pool_refsD(3-) [OF inv]
    by (intro pool_refs_move [OF inv, of t]) (auto split: point.splits if_splits)
next
  case (ReleaseDisconnect t)
  then show ?thesis using e pool_refsD(3-) [OF inv]
    by (intro pool_refs_move [OF inv, of t]) (auto split: point.splits if_splits)
next
  case (Close t)
  then show ?thesis using e pool_refsD(3-) [OF inv]
    by (intro pool_refs_move [OF inv, of t])
       (auto simp: close_pool_def split: point.splits if_splits)
next
  case (CloseReturn t d)
  then show ?thesis using e pool_refsD(3-) [OF inv]
    by (intro pool_refs_move [OF inv, of t]) (auto split: if_splits)
next
  case (Sweep t order)
  then show ?thesis using e pool_refsD(3-) [OF inv]
    by (intro pool_refs_move [OF inv, of t]) (auto split: point.splits if_splits)
next
  case (TryLock t)
  then show ?thesis using e pool_refsD(3-) [OF inv] pool_refsD(1) [OF inv, of _ t]
    by (intro pool_refs_move [OF inv, of t]) (auto split: point.splits list.splits if_splits)
next
  case (Check t ping)
  then show ?thesis using e pool_refsD(3-) [OF inv] pool_refsD(1) [OF inv, of _ t]
    by (intro pool_refs_move [OF inv, of t])
       (auto simp: check_entry_def split: point.splits if_splits)
qed


lemma pool_locks_get:
  assumes "pool_refs s" "pool_locks s" "owns (ps_at s t) = None"
  shows "pool_locks (get_entry ibmmq zero t i cfg s)"
proof -
  have free: "\<not> mu (ps_heap s (ps_next s))"
  proof
    assume "mu (ps_heap s (ps_next s))"
    then obtain u where "owns (ps_at s u) = Some (ps_next s)"
      using assms(2) unfolding pool_locks_def locks_ok_def by blast
    then have "ps_next s \<in> refers (ps_at s u)" by (cases "ps_at s u") auto
    then show False using pool_refsD(1) [OF assms(1)] by blast
  qed
  then show ?thesis
    by (intro pool_locks_stay [OF assms(2)])
       (auto simp: get_entry_def Let_def assms(3) split: option.splits sum.splits)
qed

lemma pool_locks_step:
  assumes refs: "pool_refs s" and inv: "pool_locks s" and e: "pool_step ibmmq zero e s = Some s'"
  shows "pool_locks s'"
proof (cases e)
  case (Get t i cfg)
  then show ?thesis using e pool_locks_get [OF refs inv] by (auto split: point.splits)
next
  case (Lock t)
  then obtain i a where at: "ps_at s t = GetLock i a" and "\<not> mu (ps_heap s a)"
    and s': "s' = goto t (GetConnect i a) (on_entry a (\<lambda>e. e\<lparr>mu := True, lastUsed := ps_now s\<rparr>) s)"
    using e by (auto split: point.splits if_splits)
  then show ?thesis by (intro pool_locks_take [OF inv, of a t "GetConnect i a"]) (simp_all add: s')
next
  case (TryLock t)
  show ?thesis
  proof (cases "owns (ps_at s' t)")
    case None
    then show ?thesis using e TryLock
      by (intro pool_locks_stay [OF inv]) (auto split: point.splits list.splits if_splits)
  next
    case (Some b)
    then obtain i a rest now where "ps_at s t = Sweeping ((i, a) # rest) now"
      and "\<not> mu (ps_heap s a)"
      and s': "s' = goto t (SweepEntry i a rest now) (on_entry a (\<lambda>e. e\<lparr>mu := True\<rparr>) s)"
      using e TryLock by (auto split: point.splits list.splits if_splits)
    then show ?thesis
      by (intro pool_locks_take [OF inv, of a t "SweepEntry i a rest now"]) (simp_all add: s')
  qed
next
  case (Check t ping)
  then obtain i a rest now where at: "ps_at s t = SweepEntry i a rest now"
    and s': "s' = check_entry t ping i a rest now s"
    using e by (auto split: point.splits)
  then show ?thesis
    by (intro pool_locks_leave [OF inv, of t a "ps_at s' t" "ps_heap s' a"])
       (simp_all add: check_entry_def)
next
  case (Done t)
  then obtain i a where "ps_at s t = Holding i a"
    and s': "s' = goto t (Ready None) (on_entry a (\<lambda>e. e\<lparr>lastUsed := ps_now s, mu := False\<rparr>) s)"
    using e by (auto split: point.splits)
  then show ?thesis by (intro pool_locks_leave [OF inv, of t a "Ready None"]) (simp_all add: s')
next
  case (Connect t err)
  then obtain i a where at: "ps_at s t = GetConnect i a" using e by (auto split: point.splits)
  show ?thesis
  proof (cases err)
    case None
    then show ?thesis using e Connect at
      by (intro pool_locks_stay [OF inv]) (auto split: if_splits)
  next
    case (Some left)
    then show ?thesis using e Connect at
      by (intro pool_locks_leave [OF inv, of t a "GetEvict i a" "ps_heap s' a"]) auto
  qed
qed (use e in \<open>intro pool_locks_stay [OF inv];
        auto simp: close_pool_def split: point.splits if_splits option.splits\<close>)+

lemma pool_inv_step:
  "pool_inv s \<Longrightarrow> pool_step ibmmq zero e s = Some s' \<Longrightarrow> pool_inv s'"
  using pool_refs_step pool_locks_step unfolding pool_inv_def by blast

lemma pool_inv_run:
  "pool_inv s \<Longrightarrow> pool_run ibmmq zero es s = Some s' \<Longrightarrow> pool_inv s'"
  by (induction es arbitrary: s) (auto split: option.splits dest: pool_inv_step)

lemma pool_inv_start: "pool_inv (pool_start opts blank start)"
  by (simp add: pool_inv_def pool_refs_def pool_locks_def locks_ok_def pool_start_def NewPool_def)

section \<open>Connections in use\<close>

text \<open>
  While no \<open>Connect\<close> has failed, the connections a holder works on stay open: every
  \<open>Disconnect\<close> is then made under the entry's mutex.
\<close>

fun connect_fails :: "pool_event \<Rightarrow> bool" where
  "connect_fails (Connect t (Some left)) = True"
| "connect_fails _ = False"

definition in_use_open :: "pool_sys \<Rightarrow> bool" where
  "in_use_open s \<longleftrightarrow>
     (\<forall>t. (\<forall>i a. ps_at s t = Holding i a \<longrightarrow> connected (ps_heap s a))
        \<and> (\<forall>i a. ps_at s t \<noteq> GetEvict i a) \<and> (\<forall>a. ps_at s t \<noteq> GetDisconnect a))"

text \<open>
  A key is followed by its configuration when every \<open>Get\<close> under the key asks for that one.
\<close>

fun asks_own :: "(string \<Rightarrow> Config) \<Rightarrow> pool_event \<Rightarrow> bool" where
  "asks_own f (Get t i cfg) \<longleftrightarrow> cfg = f i"
| "asks_own f _ \<longleftrightarrow> True"

text \<open>The key and the entry a goroutine in \<open>Get\<close> works with.\<close>

fun getting :: "point \<Rightarrow> (string \<times> nat) option" where
  "getting (GetLock i a) = Some (i, a)"
| "getting (GetConnect i a) = Some (i, a)"
| "getting (Holding i a) = Some (i, a)"
| "getting _ = None"

definition keyed :: "(string \<Rightarrow> Config) \<Rightarrow> pool_sys \<Rightarrow> bool" where
  "keyed f s \<longleftrightarrow>
     (\<forall>i a. (i, a) \<in> set (entries (ps_pool s)) \<longrightarrow> conn (ps_heap s a) = f i)
   \<and> (\<forall>t i a. getting (ps_at s t) = Some (i, a) \<longrightarrow> conn (ps_heap s a) = f i)"


lemma owner_locked: "pool_locks s \<Longrightarrow> owns (ps_at s t) = Some a \<Longrightarrow> mu (ps_heap s a)"
  unfolding pool_locks_def locks_ok_def by blast

lemma sole_owner:
  "pool_locks s \<Longrightarrow> owns (ps_at s t) = Some a \<Longrightarrow> owns (ps_at s u) = Some a \<Longrightarrow> t = u"
  unfolding pool_locks_def locks_ok_def by blast

text \<open>What a step must keep of the entries that others hold.\<close>

lemma in_use_open_move:
  assumes inv: "in_use_open s" and others: "\<And>u. u \<noteq> t \<Longrightarrow> ps_at s' u = ps_at s u"
    and kept: "\<And>u i a. u \<noteq> t \<Longrightarrow> ps_at s u = Holding i a \<Longrightarrow> connected (ps_heap s' a)"
    and mine: "\<And>i a. ps_at s' t = Holding i a \<Longrightarrow> connected (ps_heap s' a)"
    and ok: "\<And>i a. ps_at s' t \<noteq> GetEvict i a" "\<And>a. ps_at s' t \<noteq> GetDisconnect a"
  shows "in_use_open s'"
  unfolding in_use_open_def
proof (intro allI conjI impI)
  fix u i a assume h: "ps_at s' u = Holding i a"
  then show "connected (ps_heap s' a)" using mine kept others by (cases "u = t") auto
next
  fix u i a show "ps_at s' u \<noteq> GetEvict i a"
    using ok others inv by (cases "u = t") (auto simp: in_use_open_def)
next
  fix u a show "ps_at s' u \<noteq> GetDisconnect a"
    using ok others inv by (cases "u = t") (auto simp: in_use_open_def)
qed

lemma in_use_open_step:
  assumes pool: "pool_inv s" and inv: "in_use_open s" and e: "pool_step ibmmq zero e s = Some s'"
    and fine: "\<not> connect_fails e"
  shows "in_use_open s'"
proof -
  have refs: "pool_refs s" and locks: "pool_locks s" using pool by (simp_all add: pool_inv_def)
  have held: "mu (ps_heap s a)" "connected (ps_heap s a)" "a < ps_next s"
    if "ps_at s t = Holding i a" for t i a
    using owner_locked [OF locks, of t a] pool_refsD(1) [OF refs, of a t] inv that
    by (auto simp: in_use_open_def)
  have sole: "b \<noteq> a" if "ps_at s u = Holding i a" "owns (ps_at s t) = Some b" "u \<noteq> t" for u i a t b
    using sole_owner [OF locks, of u a t] that by auto
  have here: "\<And>t i a. ps_at s t \<noteq> GetEvict i a" "\<And>t a. ps_at s t \<noteq> GetDisconnect a"
    using inv by (auto simp: in_use_open_def)
  show ?thesis
  proof (cases e)
    case (Get t i cfg)
    then have s': "s' = get_entry ibmmq zero t i cfg s" using e by (auto split: point.splits)
    show ?thesis unfolding s'
      by (rule in_use_open_move [OF inv, of t])
         (auto simp: get_entry_def Let_def held split: option.splits sum.splits if_splits
               dest: held(3))
  next
    case (Check t ping)
    then obtain i a rest now where at: "ps_at s t = SweepEntry i a rest now"
      and s': "s' = check_entry t ping i a rest now s"
      using e by (auto split: point.splits)
    show ?thesis unfolding s'
      by (rule in_use_open_move [OF inv, of t])
         (use sole [of _ _ _ t] at in \<open>auto simp: check_entry_def held split: if_splits\<close>)
  next
    case (Connect t err)
    then show ?thesis using e fine
      by (intro in_use_open_move [OF inv, of t])
         (auto simp: held split: point.splits option.splits)
  next
    case (Closer a)
    then show ?thesis using e held inv by (auto simp: in_use_open_def split: if_splits)
  next
    case (Evict t)
    then show ?thesis using e here by (auto split: point.splits)
  next
    case (LateDisconnect t)
    then show ?thesis using e here by (auto split: point.splits)
  next
    case (Pass d)
    then show ?thesis using e inv by (auto simp: in_use_open_def)
  next
    case (ReleaseDisconnect t)
    then show ?thesis using e
      by (intro in_use_open_move [OF inv, of t])
         (auto split: point.splits if_splits dest: held)
  next
    case (TryLock t)
    then show ?thesis using e
      by (intro in_use_open_move [OF inv, of t])
         (auto split: point.splits list.splits if_splits dest: held)
  qed (use e in \<open>(intro in_use_open_move [OF inv];
         force simp: close_pool_def held split: point.splits if_splits option.splits)\<close>)+
qed


lemma in_use_open_run:
  assumes "pool_inv s" "in_use_open s" "\<forall>e\<in>set es. \<not> connect_fails e"
    "pool_run ibmmq zero es s = Some s'"
  shows "in_use_open s'"
  using assms
  by (induction es arbitrary: s)
     (auto split: option.splits dest: pool_inv_step in_use_open_step)

text \<open>The configuration of an entry never changes once it is made.\<close>

lemma conn_fixed:
  assumes "pool_refs s" "pool_step ibmmq zero e s = Some s'" "a < ps_next s"
  shows "conn (ps_heap s' a) = conn (ps_heap s a)"
proof (cases e)
  case (Get t i cfg)
  then show ?thesis using assms
    by (auto simp: get_entry_def Let_def split: point.splits if_splits option.splits sum.splits)
qed (use assms in \<open>auto simp: close_pool_def check_entry_def
       split: point.splits if_splits option.splits list.splits\<close>)


lemma getting_refers: "getting pt = Some (i, a) \<Longrightarrow> a \<in> refers pt"
  by (cases pt) auto

text \<open>A pair of key and entry a step brings in is that of a fresh entry or comes from the map.\<close>

lemma keeps_entries:
  assumes "pool_step ibmmq zero e s = Some s'"
  shows "e \<in> {Pass d, Lock t, Connect t err, LateDisconnect t, Done t, ReleaseDisconnect t, Closer a,
              CloseReturn t dl, Sweep t order, TryLock t, Check t ping} \<Longrightarrow>
         entries (ps_pool s') = entries (ps_pool s)"
  using assms by (auto simp: check_entry_def split: point.splits if_splits option.splits list.splits)

lemma new_pair:
  assumes e: "pool_step ibmmq zero e s = Some s'" and ok: "asks_own f e"
  shows "(i, a) \<in> set (entries (ps_pool s')) \<Longrightarrow>
           (i, a) \<in> set (entries (ps_pool s)) \<or> conn (ps_heap s' a) = f i"
    and "getting (ps_at s' t) = Some (i, a) \<Longrightarrow>
           getting (ps_at s t) = Some (i, a) \<or> (i, a) \<in> set (entries (ps_pool s))
         \<or> conn (ps_heap s' a) = f i"
proof -
  show "(i, a) \<in> set (entries (ps_pool s)) \<or> conn (ps_heap s' a) = f i"
    if "(i, a) \<in> set (entries (ps_pool s'))"
  proof (cases e)
    case (Get t j cfg)
    then show ?thesis using that e ok
      by (auto simp: get_entry_def Let_def split: point.splits if_splits option.splits sum.splits
               dest!: in_update New_Ok)
  next
    case (Release t j)
    then show ?thesis using that e by (auto split: point.splits option.splits dest: in_delete)
  next
    case (Evict t)
    then show ?thesis using that e by (auto split: point.splits if_splits dest: in_delete)
  next
    case (Delete t)
    then show ?thesis using that e by (auto split: point.splits dest: in_delete)
  next
    case (Close t)
    then show ?thesis using that e by (auto simp: close_pool_def split: point.splits if_splits)
  qed (use that keeps_entries [OF e] in simp_all)
  show "getting (ps_at s t) = Some (i, a) \<or> (i, a) \<in> set (entries (ps_pool s))
         \<or> conn (ps_heap s' a) = f i"
    if "getting (ps_at s' t) = Some (i, a)"
  proof (cases e)
    case (Get u j cfg)
    then show ?thesis using that e ok
      by (auto simp: get_entry_def Let_def split: point.splits if_splits option.splits sum.splits
               dest!: map_of_SomeD New_Ok)
  qed (rule disjI1, use that e in \<open>fastforce simp: close_pool_def check_entry_def
         split: point.splits if_splits option.splits list.splits\<close>)+
qed

lemma keyed_step:
  assumes pool: "pool_inv s" and inv: "keyed f s" and e: "pool_step ibmmq zero e s = Some s'"
    and ok: "asks_own f e"
  shows "keyed f s'"
proof -
  have refs: "pool_refs s" using pool by (simp add: pool_inv_def)
  have known: "conn (ps_heap s' a) = f i"
    if "(i, a) \<in> set (entries (ps_pool s)) \<or> getting (ps_at s t) = Some (i, a)" for i a t
  proof -
    have "a < ps_next s" using that pool_refsD [OF refs] getting_refers by blast
    then show ?thesis using that conn_fixed [OF refs e] inv by (auto simp: keyed_def)
  qed
  then show ?thesis using new_pair [OF e ok] unfolding keyed_def by blast
qed

lemma keyed_run:
  assumes "pool_inv s" "keyed f s" "\<forall>e\<in>set es. asks_own f e" "pool_run ibmmq zero es s = Some s'"
  shows "keyed f s'"
  using assms
  by (induction es arbitrary: s)
     (auto split: option.splits dest: pool_inv_step keyed_step)

section \<open>The contract of \<open>Get\<close>\<close>

text \<open>
  C13. Whatever the interleaving of any number of goroutines with the sweeper, \<open>Release\<close> and
  \<open>Close\<close>: a connector is in the hands of at most one caller, an entry whose mutex is locked is
  the one some goroutine works on (no mutex is left behind); as long as no \<open>Connect\<close> fails, the
  connection of a caller is open until the caller gives it back; and if every key is always
  asked for with one configuration, the connector the caller gets has that configuration.
\<close>

theorem pool_exclusive:
  assumes "pool_run ibmmq zero es (pool_start opts blank start) = Some s"
  shows "(\<forall>t u i j a. ps_at s t = Holding i a \<longrightarrow> ps_at s u = Holding j a \<longrightarrow> t = u)
    \<and> (\<forall>a. mu (ps_heap s a) \<longrightarrow> (\<exists>t. owns (ps_at s t) = Some a))
    \<and> ((\<forall>e\<in>set es. \<not> connect_fails e) \<longrightarrow>
         (\<forall>t i a. ps_at s t = Holding i a \<longrightarrow> connected (ps_heap s a)))
    \<and> (\<forall>f. (\<forall>e\<in>set es. asks_own f e) \<longrightarrow>
         (\<forall>t i a. ps_at s t = Holding i a \<longrightarrow> conn (ps_heap s a) = f i))"
proof -
  note start = pool_inv_start [of opts blank start]
  have locks: "pool_locks s" using pool_inv_run [OF start assms] by (simp add: pool_inv_def)
  have "in_use_open (pool_start opts blank start)" by (simp add: in_use_open_def pool_start_def)
  then have "connected (ps_heap s a)"
    if "\<forall>e\<in>set es. \<not> connect_fails e" "ps_at s t = Holding i a" for t i a
    using in_use_open_run [OF start _ that(1) assms] that(2) unfolding in_use_open_def by blast
  moreover have "keyed f (pool_start opts blank start)" for f
    by (simp add: keyed_def pool_start_def NewPool_def)
  then have "conn (ps_heap s a) = f i"
    if "\<forall>e\<in>set es. asks_own f e" "ps_at s t = Holding i a" for f t i a
    using keyed_run [OF start _ that(1) assms] that(2) unfolding keyed_def by (metis getting.simps(3))
  moreover have "t = u" if "ps_at s t = Holding i a" "ps_at s u = Holding j a" for t u i j a
    using sole_owner [OF locks, of t a u] that by simp
  moreover have "\<exists>t. owns (ps_at s t) = Some a" if "mu (ps_heap s a)" for a
    using locks that by (simp add: pool_locks_def locks_ok_def)
  ultimately show ?thesis by blast
qed


section \<open>Sample runs\<close>

definition sample_cfg :: Config where
  "sample_cfg = From (zero_connection\<lparr>c_Type := ''kafka'', c_Brokers := ''b1:9092'', c_Topic := ''orders''\<rparr>)"

definition sample_pool :: pool_sys where
  "sample_pool = pool_start \<lparr>IdleTimeout = 0, HealthInterval = 0\<rparr>
     \<lparr>conn = sample_cfg, connected = False, lastUsed = 0, mu = False\<rparr> 1000000000000"

text \<open>Two goroutines use one key in turn, and the sweeper passes by while the second waits.\<close>

definition sample_turns :: "pool_event list" where
  "sample_turns =
     [Get 0 ''k'' sample_cfg, Lock 0, Connect 0 None, Get 1 ''k'' sample_cfg,
      Sweep 2 [(''k'', 0)], TryLock 2, TryLock 2, Done 0, Lock 1, Connect 1 None]"

text \<open>The sweeper meets a new entry between the two critical sections of \<open>Get\<close>.\<close>

definition sample_orphan :: "pool_event list" where
  "sample_orphan =
     [Get 0 ''k'' sample_cfg, Sweep 1 [(''k'', 0)], TryLock 1, Check 1 True,
      Lock 0, Connect 0 None, Delete 1, TryLock 1, Done 0]"

text \<open>A failed \<open>Get\<close> disconnects the entry only after the next one in line connected it.\<close>

definition sample_cut :: "pool_event list" where
  "sample_cut =
     [Get 0 ''k'' sample_cfg, Get 1 ''k'' sample_cfg, Lock 0, Connect 0 (Some False),
      Lock 1, Connect 1 None, Evict 0, LateDisconnect 0]"

lemmas sample_runs = sample_turns_def sample_orphan_def sample_cut_def sample_pool_def pool_start_def
  NewPool_def get_entry_def close_pool_def check_entry_def

lemma sample_new [simp]: "New ibmmq sample_cfg = Ok sample_cfg"
proof -
  have "Type sample_cfg = TypeKafka" by code_simp
  then show ?thesis by (simp add: New_def)
qed

lemma sample_turns_run:
  "\<exists>s. pool_run True 0 sample_turns sample_pool = Some s \<and> ps_at s 1 = Holding ''k'' 0"
  by (simp add: sample_runs)

theorem pool_exclusive_witness:
  "\<exists>s. pool_run True 0 sample_turns sample_pool = Some s \<and> ps_at s 1 = Holding ''k'' 0
     \<and> (\<forall>t i. ps_at s t = Holding i 0 \<longrightarrow> t = 1) \<and> connected (ps_heap s 0)
     \<and> conn (ps_heap s 0) = sample_cfg"
proof -
  obtain s where run: "pool_run True 0 sample_turns sample_pool = Some s"
    and at: "ps_at s 1 = Holding ''k'' 0" using sample_turns_run by blast
  note contract = pool_exclusive [OF run [unfolded sample_pool_def]]
  have "\<forall>e\<in>set sample_turns. \<not> connect_fails e" "\<forall>e\<in>set sample_turns. asks_own (\<lambda>_. sample_cfg) e"
    by (simp_all add: sample_turns_def)
  then have "connected (ps_heap s 0)" "conn (ps_heap s 0) = sample_cfg"
    using contract contract [THEN conjunct2, THEN conjunct2, THEN conjunct2, THEN spec, of "\<lambda>_. sample_cfg"]
      at by blast+
  moreover have "t = 1" if "ps_at s t = Holding i 0" for t i using contract at that by blast
  ultimately show ?thesis using run at by blast
qed

text \<open>
  What \<open>Get\<close> does not promise. The sweeper may lock, disconnect and remove an entry that
  a \<open>Get\<close> has looked up and not locked yet, which then connects it again: the connection stays
  open, no goroutine has it, and the pool has forgotten it, so that neither the sweeper nor
  \<open>Close\<close> will ever close it. And a \<open>Get\<close> whose \<open>Connect\<close> fails disconnects the entry after it
  gave up the mutex, which cuts the connection of the next caller while it works on it.
\<close>

theorem pool_races:
  "(\<exists>s. pool_run True 0 sample_orphan sample_pool = Some s
      \<and> (\<forall>t. ps_at s t = Ready None) \<and> entries (ps_pool s) = [] \<and> ps_closers s = []
      \<and> connected (ps_heap s 0))
 \<and> (\<exists>s. pool_run True 0 sample_cut sample_pool = Some s
      \<and> ps_at s 1 = Holding ''k'' 0 \<and> \<not> connected (ps_heap s 0))"
proof
  show "\<exists>s. pool_run True 0 sample_orphan sample_pool = Some s
      \<and> (\<forall>t. ps_at s t = Ready None) \<and> entries (ps_pool s) = [] \<and> ps_closers s = []
      \<and> connected (ps_heap s 0)"
    by (simp add: sample_runs)
  show "\<exists>s. pool_run True 0 sample_cut sample_pool = Some s
      \<and> ps_at s 1 = Holding ''k'' 0 \<and> \<not> connected (ps_heap s 0)"
    by (simp add: sample_runs)
qed

end
