(* ===== verification/Replay.thy ===== *)
theory Replay
  imports Start_Pipeline Pool
begin

text \<open>
  \<open>internal/pipeline/replay.go\<close>: replaying a window of a source's history through the stages
  of a pipeline. The brokers' clients are not part of the sources: what a partition consumer
  or a fetch delivers, in which order, and which sends succeed are inputs.
\<close>

section \<open>Windows and results\<close>

record ReplayWindow =
  Since :: time
  Until :: time

record ReplayResult =
  MessagesRead :: int
  MessagesSent :: int
  MessagesDropped :: int

datatype replay_error =
    ReplayInvalidWindow
  | ReplayPipelineLookup string
  | ReplaySourceLookup string
  | ReplayDestLookup string
  | ErrReplayNotSupported string
  | ReplayClient string
  | ReplaySubjectMissing
  | ReplayBuild build_error
  | ReplayCancelled
  | ReplayFetch string

text \<open>A replay at work: the counts so far, and the sends it made with their outcomes.\<close>

record replay_state =
  rs_result :: ReplayResult
  rs_sends :: "(bytes \<times> bool) list"

definition replay_init :: replay_state where
  "replay_init = \<lparr>rs_result = \<lparr>MessagesRead = 0, MessagesSent = 0, MessagesDropped = 0\<rparr>, rs_sends = []\<rparr>"

section \<open>The stages of a replay\<close>

text \<open>Only the pipeline's own schema is fetched.\<close>

definition loadSchemasForBuild ::
  "store \<Rightarrow> pipeline \<Rightarrow> (string option, (string \<times> schema_row) list) result" where
  "loadSchemasForBuild st p =
     (if p_SchemaID p = [] then Ok []
      else case Schemas_GetUnsafe st (p_SchemaID p) of
        Inl e \<Rightarrow> Err e
      | Inr sc \<Rightarrow> Ok [(p_SchemaID p, sc)])"

text \<open>\<open>v, _ := f()\<close>: an ignored error leaves the nil slice or map.\<close>

definition or_nil :: "('e, 'a list) result \<Rightarrow> 'a list" where
  "or_nil r = (case r of Inl _ \<Rightarrow> [] | Inr xs \<Rightarrow> xs)"

definition replay_context :: "store \<Rightarrow> pipeline \<Rightarrow> BuildContext" where
  "replay_context st p =
     \<lparr>Pipeline = pipeline_row.truncate p,
      StageRows = or_nil (Stages_ListByPipelineUnsafe st (p_ID p)),
      Transforms = or_nil (Transforms_ListByPipelineUnsafe st (p_ID p)),
      RoutingRules = or_nil (RoutingRules_ListByPipelineUnsafe st (p_ID p)),
      Schemas = or_nil (loadSchemasForBuild st p), WasmPlugins = []\<rparr>"

definition replay_stages :: "codec \<Rightarrow> config_decoder \<Rightarrow> store \<Rightarrow> pipeline \<Rightarrow> (build_error, stage list) result" where
  "replay_stages c d st p = Build c d (replay_context st p)"

section \<open>One message\<close>

text \<open>
  The body of both loops: run the stages, send the result to the default destination, count.
  \<open>run\<close> is \<open>RunStages\<close>, \<open>None\<close> for an error; \<open>send\<close> answers the \<open>n\<close>-th send.
\<close>

definition replay_message ::
  "(bytes \<Rightarrow> bytes option) \<Rightarrow> (nat \<Rightarrow> bytes \<Rightarrow> bool) \<Rightarrow> bytes \<Rightarrow> replay_state \<Rightarrow> replay_state" where
  "replay_message run send m s =
     (let r = (rs_result s)\<lparr>MessagesRead := MessagesRead (rs_result s) + 1\<rparr> in
      case run m of
        None \<Rightarrow> s\<lparr>rs_result := r\<lparr>MessagesDropped := MessagesDropped r + 1\<rparr>\<rparr>
      | Some body \<Rightarrow>
          let ok = send (length (rs_sends s)) body in
          s\<lparr>rs_sends := rs_sends s @ [(body, ok)],
            rs_result := (if ok then r\<lparr>MessagesSent := MessagesSent r + 1\<rparr>
                          else r\<lparr>MessagesDropped := MessagesDropped r + 1\<rparr>)\<rparr>)"

definition run_body ::
  "(bytes \<Rightarrow> string) \<Rightarrow> 'e Stage list \<Rightarrow> bytes \<Rightarrow> bytes option" where
  "run_body detect stages m =
     (case RunStages detect stages m of (out, None) \<Rightarrow> Some (Body out) | (out, Some _) \<Rightarrow> None)"

text \<open>The key of \<open>replaySend\<close> in the pool.\<close>

definition replay_key :: "Config \<Rightarrow> string" where
  "replay_key cfg = ''replay-'' @ Topic cfg @ QueueName cfg"

section \<open>Kafka\<close>

text \<open>What a partition's goroutine sees in its \<open>select\<close>, and the items it puts on \<open>agg\<close>.\<close>

datatype partition_event =
    PartitionMessage time bytes
  | PartitionClosed
  | PartitionError
  | PartitionErrorsClosed
  | PartitionIdle

datatype item = ItemMessage bytes | ItemError | ItemEnd

fun partition_items :: "time \<Rightarrow> partition_event list \<Rightarrow> item list" where
  "partition_items until [] = []"
| "partition_items until (PartitionMessage ts m # es) =
     (if ts > until then [ItemEnd] else ItemMessage m # partition_items until es)"
| "partition_items until (PartitionClosed # es) = [ItemEnd]"
| "partition_items until (PartitionError # es) = ItemError # partition_items until es"
| "partition_items until (PartitionErrorsClosed # es) = [ItemEnd]"
| "partition_items until (PartitionIdle # es) = [ItemEnd]"

text \<open>
  The loop over \<open>agg\<close>: \<open>pending\<close> is \<open>len(pcs) - doneN\<close>. An element of the schedule is an
  item, or \<open>None\<close> for \<open>ctx.Done()\<close>; \<open>None\<close> as a result is a loop that still waits.
\<close>

fun kafka_loop ::
  "(bytes \<Rightarrow> bytes option) \<Rightarrow> (nat \<Rightarrow> bytes \<Rightarrow> bool) \<Rightarrow> nat \<Rightarrow> item option list \<Rightarrow> replay_state \<Rightarrow>
   (replay_state \<times> replay_error option) option" where
  "kafka_loop run send 0 sched s = Some (s, None)"
| "kafka_loop run send (Suc pending) [] s = None"
| "kafka_loop run send (Suc pending) (None # sched) s = Some (s, Some ReplayCancelled)"
| "kafka_loop run send (Suc pending) (Some it # sched) s =
     (case it of
        ItemEnd \<Rightarrow> kafka_loop run send pending sched s
      | ItemError \<Rightarrow> kafka_loop run send (Suc pending) sched s
      | ItemMessage m \<Rightarrow> kafka_loop run send (Suc pending) sched (replay_message run send m s))"

section \<open>JetStream\<close>

text \<open>A fetched message: its timestamp, unless its metadata cannot be read, and its data.\<close>

type_synonym jet_message = "time option \<times> bytes"

datatype fetch = FetchTimeout | FetchError string | FetchBatch "jet_message list" | FetchCancelled

text \<open>The batch, and whether a message past the window was met.\<close>

fun jet_batch ::
  "(bytes \<Rightarrow> bytes option) \<Rightarrow> (nat \<Rightarrow> bytes \<Rightarrow> bool) \<Rightarrow> time \<Rightarrow> jet_message list \<Rightarrow> replay_state \<Rightarrow>
   replay_state \<times> bool" where
  "jet_batch run send until [] s = (s, False)"
| "jet_batch run send until ((meta, m) # ms) s =
     (case meta of
        None \<Rightarrow> jet_batch run send until ms s
      | Some ts \<Rightarrow>
          if ts > until then (s, True)
          else jet_batch run send until ms (replay_message run send m s))"

fun jet_loop ::
  "(bytes \<Rightarrow> bytes option) \<Rightarrow> (nat \<Rightarrow> bytes \<Rightarrow> bool) \<Rightarrow> time \<Rightarrow> fetch list \<Rightarrow> replay_state \<Rightarrow>
   (replay_state \<times> replay_error option) option" where
  "jet_loop run send until [] s = None"
| "jet_loop run send until (f # fs) s =
     (case f of
        FetchCancelled \<Rightarrow> Some (s, Some ReplayCancelled)
      | FetchTimeout \<Rightarrow> Some (s, None)
      | FetchError e \<Rightarrow> Some (s, Some (ReplayFetch e))
      | FetchBatch ms \<Rightarrow>
          (case jet_batch run send until ms s of
             (s', True) \<Rightarrow> Some (s', None)
           | (s', False) \<Rightarrow> jet_loop run send until fs s'))"

section \<open>\<open>Replay\<close>\<close>

text \<open>
  The brokers during a replay: the errors of opening a client, and what is delivered. The Kafka
  partitions whose offset for the start of the window does not exist are skipped before.
\<close>

record brokers =
  br_kafka :: "(string, nat \<times> item option list) result"
  br_jetstream :: "string option"
  br_subscribe :: "string option"
  br_fetches :: "fetch list"
  br_send :: "nat \<Rightarrow> bytes \<Rightarrow> bool"

definition replayKafka ::
  "codec \<Rightarrow> ext_stages \<Rightarrow> config_decoder \<Rightarrow> store \<Rightarrow> brokers \<Rightarrow> pipeline \<Rightarrow>
   (replay_state option \<times> replay_error option) option" where
  "replayKafka c ext d st br p =
     (case br_kafka br of
        Inl e \<Rightarrow> Some (None, Some (ReplayClient e))
      | Inr (pcs, sched) \<Rightarrow>
          (case replay_stages c d st p of
             Inl e \<Rightarrow> Some (None, Some (ReplayBuild e))
           | Inr stages \<Rightarrow>
               map_option (map_prod Some id)
                 (kafka_loop (run_body Detect (map (as_Stage c ext) stages)) (br_send br) pcs sched replay_init)))"

definition replayJetStream ::
  "codec \<Rightarrow> ext_stages \<Rightarrow> config_decoder \<Rightarrow> store \<Rightarrow> brokers \<Rightarrow> pipeline \<Rightarrow> Config \<Rightarrow> ReplayWindow \<Rightarrow>
   (replay_state option \<times> replay_error option) option" where
  "replayJetStream c ext d st br p srcCfg win =
     (case br_jetstream br of
        Some e \<Rightarrow> Some (None, Some (ReplayClient e))
      | None \<Rightarrow>
          if Topic srcCfg = [] \<and> QueueName srcCfg = [] then Some (None, Some ReplaySubjectMissing)
          else if br_subscribe br \<noteq> None then Some (None, Some (ReplayClient (the (br_subscribe br))))
          else
            (case replay_stages c d st p of
               Inl e \<Rightarrow> Some (None, Some (ReplayBuild e))
             | Inr stages \<Rightarrow>
                 map_option (map_prod Some id)
                   (jet_loop (run_body Detect (map (as_Stage c ext) stages)) (br_send br) (Until win)
                      (br_fetches br) replay_init)))"

text \<open>\<open>zero\<close> is the zero time; \<open>lookup\<close> is \<open>Pipelines.GetUnsafe\<close>.\<close>

definition Replay ::
  "codec \<Rightarrow> ext_stages \<Rightarrow> config_decoder \<Rightarrow> time \<Rightarrow> (string \<Rightarrow> (string, pipeline) result) \<Rightarrow> store \<Rightarrow>
   brokers \<Rightarrow> string \<Rightarrow> ReplayWindow \<Rightarrow> (replay_state option \<times> replay_error option) option" where
  "Replay c ext d zero lookup st br pid win =
     (if Until win < Since win \<or> Until win = zero then Some (None, Some ReplayInvalidWindow)
      else case lookup pid of Inl e \<Rightarrow> Some (None, Some (ReplayPipelineLookup e)) | Inr p \<Rightarrow>
      case Connections_GetUnsafe st (p_SourceID p) of Inl e \<Rightarrow> Some (None, Some (ReplaySourceLookup e)) | Inr src \<Rightarrow>
      case Connections_GetUnsafe st (p_DestinationID p) of Inl e \<Rightarrow> Some (None, Some (ReplayDestLookup e)) | Inr dst \<Rightarrow>
      let srcCfg = From src in
      if Type srcCfg = TypeKafka then replayKafka c ext d st br p
      else if Type srcCfg = TypeNATS then
        (if TrimSpace (StreamName srcCfg) = [] then Some (None, Some (ErrReplayNotSupported ''core NATS''))
         else replayJetStream c ext d st br p srcCfg win)
      else Some (None, Some (ErrReplayNotSupported (Type srcCfg))))"


section \<open>Counting\<close>

text \<open>Every message read is accounted for, and every successful send is counted once.\<close>

definition counts_ok :: "replay_state \<Rightarrow> bool" where
  "counts_ok s \<longleftrightarrow>
     MessagesRead (rs_result s) = MessagesSent (rs_result s) + MessagesDropped (rs_result s)
   \<and> MessagesSent (rs_result s) = int (length (filter snd (rs_sends s)))"

lemma replay_init_fields [simp]:
  "rs_sends replay_init = []" "MessagesRead (rs_result replay_init) = 0"
  by (simp_all add: replay_init_def)

lemma replay_init_ok: "counts_ok replay_init"
  by (simp add: counts_ok_def replay_init_def)

lemma replay_message_ok: "counts_ok s \<Longrightarrow> counts_ok (replay_message run send m s)"
  by (auto simp: counts_ok_def replay_message_def Let_def split: option.splits)

definition replay_all ::
  "(bytes \<Rightarrow> bytes option) \<Rightarrow> (nat \<Rightarrow> bytes \<Rightarrow> bool) \<Rightarrow> bytes list \<Rightarrow> replay_state \<Rightarrow> replay_state" where
  "replay_all run send ms s = fold (replay_message run send) ms s"

lemma replay_all_simps [simp]:
  "replay_all run send [] s = s"
  "replay_all run send (m # ms) s = replay_all run send ms (replay_message run send m s)"
  by (simp_all add: replay_all_def)

lemma replay_all_ok: "counts_ok s \<Longrightarrow> counts_ok (replay_all run send ms s)"
  by (induction ms arbitrary: s) (simp_all add: replay_message_ok)

lemma replay_all_read:
  "MessagesRead (rs_result (replay_all run send ms s)) = MessagesRead (rs_result s) + int (length ms)"
  by (induction ms arbitrary: s) (auto simp: replay_message_def Let_def split: option.splits)

lemma replay_all_sends:
  "map fst (rs_sends (replay_all run send ms s)) = map fst (rs_sends s) @ List.map_filter run ms"
  by (induction ms arbitrary: s)
     (auto simp: replay_message_def Let_def map_filter_simps split: option.splits)

section \<open>Kafka: all partitions are drained\<close>

text \<open>\<open>agg\<close> receives the items of the partitions in any interleaving.\<close>

inductive merges :: "'a list list \<Rightarrow> 'a list \<Rightarrow> bool" where
  merges_done: "\<forall>l\<in>set ls. l = [] \<Longrightarrow> merges ls []"
| merges_pick: "i < length ls \<Longrightarrow> ls ! i = x # l \<Longrightarrow> merges (ls[i := l]) xs \<Longrightarrow> merges ls (x # xs)"

fun item_messages :: "item list \<Rightarrow> bytes list" where
  "item_messages [] = []"
| "item_messages (ItemMessage m # its) = m # item_messages its"
| "item_messages (_ # its) = item_messages its"

text \<open>The messages of a partition within the window: those before the event that ends it.\<close>

fun ends :: "time \<Rightarrow> partition_event \<Rightarrow> bool" where
  "ends until (PartitionMessage ts m) \<longleftrightarrow> ts > until"
| "ends until PartitionError \<longleftrightarrow> False"
| "ends until _ \<longleftrightarrow> True"

fun event_messages :: "partition_event list \<Rightarrow> bytes list" where
  "event_messages [] = []"
| "event_messages (PartitionMessage ts m # es) = m # event_messages es"
| "event_messages (_ # es) = event_messages es"

definition window_messages :: "time \<Rightarrow> partition_event list \<Rightarrow> bytes list" where
  "window_messages until es = event_messages (takeWhile (\<lambda>e. \<not> ends until e) es)"

lemma partition_items_messages:
  "item_messages (partition_items until es) = window_messages until es"
  by (induction until es rule: partition_items.induct) (auto simp: window_messages_def)

text \<open>A partition's items end with the one end mark.\<close>

fun ended :: "item list \<Rightarrow> bool" where
  "ended [] \<longleftrightarrow> False"
| "ended (ItemEnd # its) \<longleftrightarrow> its = []"
| "ended (_ # its) \<longleftrightarrow> ended its"

lemma partition_items_ended: "\<exists>e\<in>set es. ends until e \<Longrightarrow> ended (partition_items until es)"
  by (induction until es rule: partition_items.induct) auto

definition open_lists :: "'a list list \<Rightarrow> nat" where
  "open_lists ls = length (filter (\<lambda>l. l \<noteq> []) ls)"

lemma open_lists_update:
  assumes "i < length ls" "ls ! i \<noteq> []"
  shows "open_lists (ls[i := l]) = (if l = [] then open_lists ls - 1 else open_lists ls)"
    and "0 < open_lists ls"
proof -
  have ls: "ls = take i ls @ ls ! i # drop (Suc i) ls" using assms(1) by (simp add: id_take_nth_drop)
  have "open_lists ls = length (filter (\<lambda>l. l \<noteq> []) (take i ls @ ls ! i # drop (Suc i) ls))"
    using ls by (simp add: open_lists_def)
  moreover have "ls[i := l] = take i ls @ l # drop (Suc i) ls"
    using assms(1) by (simp add: upd_conv_take_nth_drop)
  ultimately show "open_lists (ls[i := l]) = (if l = [] then open_lists ls - 1 else open_lists ls)"
    and "0 < open_lists ls"
    using assms(2) by (simp_all add: open_lists_def)
qed

lemma kafka_loop_merged:
  assumes "merges ls items" "\<forall>l\<in>set ls. l = [] \<or> ended l"
  shows "kafka_loop run send (open_lists ls) (map Some items) s
       = Some (replay_all run send (item_messages items) s, None)"
  using assms
proof (induction arbitrary: s rule: merges.induct)
  case (merges_done ls)
  then have "open_lists ls = 0" by (simp add: open_lists_def filter_empty_conv)
  then show ?case by simp
next
  case (merges_pick i ls x l xs)
  have "ls ! i \<in> set ls" using merges_pick(1) by simp
  then have e: "ended (x # l)" using merges_pick(2,5) by force
  have "set (ls[i := l]) \<subseteq> insert l (set ls)" by (rule set_update_subset_insert)
  then have "\<forall>l\<in>set (ls[i := l]). l = [] \<or> ended l"
    using merges_pick(5) e by (cases x) auto
  note ih = merges_pick(4) [OF this]
  have n: "open_lists (ls[i := l]) = (if l = [] then open_lists ls - 1 else open_lists ls)" "0 < open_lists ls"
    using open_lists_update [OF merges_pick(1)] merges_pick(2) by auto
  then obtain k where k: "open_lists ls = Suc k" using gr0_conv_Suc by blast
  show ?case
  proof (cases x)
    case ItemEnd
    then show ?thesis using e ih n(1) k by simp
  qed (use e ih n(1) k in \<open>auto split: if_splits\<close>)
qed

lemma mset_concat_update:
  "i < length ls \<Longrightarrow>
     mset (concat (map f (ls[i := l]))) + mset (f (ls ! i)) = mset (concat (map f ls)) + mset (f l)"
  by (induction ls arbitrary: i) (auto simp: ac_simps split: nat.splits)

lemma merges_messages:
  assumes "merges ls items"
  shows "mset (item_messages items) = mset (concat (map item_messages ls))"
  using assms
proof (induction rule: merges.induct)
  case (merges_done ls)
  then show ?case by (induction ls) auto
next
  case (merges_pick i ls x l xs)
  then show ?case
    using mset_concat_update [OF merges_pick(1), of item_messages l] by (cases x) auto
qed

text \<open>
  C18. A Kafka replay is complete: when every partition ends, by closing, by silence or by a
  message past the window, then in every interleaving of the partitions the loop returns
  without an error, having read exactly the messages the partitions have within the window;
  each was sent or dropped, and what was sent is what the stages made of them.
\<close>

theorem kafka_replay_complete:
  assumes agg: "merges (map (partition_items until) parts) items"
    and ending: "\<forall>es\<in>set parts. \<exists>e\<in>set es. ends until e"
  shows "\<exists>s. kafka_loop run send (length parts) (map Some items) replay_init = Some (s, None)
    \<and> MessagesRead (rs_result s) = int (\<Sum>es\<leftarrow>parts. length (window_messages until es))
    \<and> MessagesRead (rs_result s) = MessagesSent (rs_result s) + MessagesDropped (rs_result s)
    \<and> MessagesSent (rs_result s) = int (length (filter snd (rs_sends s)))
    \<and> mset (map fst (rs_sends s)) =
        mset (List.map_filter run (concat (map (window_messages until) parts)))"
proof -
  let ?ls = "map (partition_items until) parts"
  let ?s = "replay_all run send (item_messages items) replay_init"
  have ended: "\<forall>l\<in>set ?ls. ended l" using ending partition_items_ended by auto
  then have "[] \<notin> set ?ls" using ended.simps(1) by blast
  then have "filter (\<lambda>l. l \<noteq> []) ?ls = ?ls" by (intro filter_True) metis
  then have "open_lists ?ls = length parts" by (simp only: open_lists_def length_map)
  then have loop: "kafka_loop run send (length parts) (map Some items) replay_init = Some (?s, None)"
    using kafka_loop_merged [OF agg, of run send replay_init] ended by simp
  have ms: "mset (item_messages items) = mset (concat (map (window_messages until) parts))"
    using merges_messages [OF agg] by (simp add: comp_def partition_items_messages)
  have "length (item_messages items) = (\<Sum>es\<leftarrow>parts. length (window_messages until es))"
    using mset_eq_length [OF ms] by (simp add: length_concat comp_def)
  moreover have "mset (List.map_filter run (item_messages items)) =
      mset (List.map_filter run (concat (map (window_messages until) parts)))"
    by (simp only: List.map_filter_def mset_map mset_filter ms)
  moreover have "counts_ok ?s" by (rule replay_all_ok [OF replay_init_ok])
  moreover have "MessagesRead (rs_result ?s) = int (length (item_messages items))"
    "map fst (rs_sends ?s) = List.map_filter run (item_messages items)"
    by (simp_all add: replay_all_read replay_all_sends)
  ultimately show ?thesis
    using loop unfolding counts_ok_def by (intro exI [of _ ?s] conjI) simp_all
qed


text \<open>Two partitions, one with a message past the window, in an interleaving of their items.\<close>

definition sample_parts :: "partition_event list list" where
  "sample_parts =
     [[PartitionMessage 10 ''a'', PartitionMessage 30 ''late'', PartitionMessage 20 ''b''],
      [PartitionError, PartitionMessage 15 ''c'', PartitionIdle]]"

definition sample_items :: "item list" where
  "sample_items = [ItemError, ItemMessage ''a'', ItemMessage ''c'', ItemEnd, ItemEnd]"

lemma sample_merge: "merges (map (partition_items 25) sample_parts) sample_items"
  unfolding sample_parts_def sample_items_def
  by (simp, rule merges_pick [of 1], simp, simp, rule merges_pick [of 0], simp, simp,
      rule merges_pick [of 1], simp, simp, rule merges_pick [of 0], simp, simp,
      rule merges_pick [of 1], simp, simp, rule merges_done, simp)

theorem kafka_replay_complete_witness:
  "\<exists>s. kafka_loop Some (\<lambda>n body. n = 0) (length sample_parts) (map Some sample_items) replay_init = Some (s, None)
     \<and> MessagesRead (rs_result s) = 2"
proof -
  have "\<forall>es\<in>set sample_parts. \<exists>e\<in>set es. ends 25 e" by (simp add: sample_parts_def)
  moreover have "(\<Sum>es\<leftarrow>sample_parts. length (window_messages 25 es)) = 2"
    by (simp add: sample_parts_def window_messages_def)
  ultimately show ?thesis
    using kafka_replay_complete [OF sample_merge, of Some "\<lambda>n body. n = 0"] by auto
qed

section \<open>JetStream: the counts\<close>

text \<open>The messages a run of fetches processes: up to the first one past the window.\<close>

definition jet_window :: "time \<Rightarrow> jet_message list \<Rightarrow> bytes list" where
  "jet_window until ms =
     map snd (takeWhile (\<lambda>(ts, m). the ts \<le> until) (filter (\<lambda>(ts, m). ts \<noteq> None) ms))"

lemma jet_batch_spec:
  "jet_batch run send until ms s =
     (replay_all run send (jet_window until ms) s, \<exists>(ts, m)\<in>set ms. ts \<noteq> None \<and> until < the ts)"
  by (induction run send until ms s rule: jet_batch.induct)
     (auto simp: jet_window_def split: option.splits)

lemma jet_window_append:
  assumes "\<not> (\<exists>(ts, m)\<in>set ms. ts \<noteq> None \<and> until < the ts)"
  shows "jet_window until (ms @ ns) = jet_window until ms @ jet_window until ns"
proof -
  let ?P = "\<lambda>(ts, m). the ts \<le> until" and ?F = "filter (\<lambda>(ts, m). ts \<noteq> None)"
  have all: "?P x" if "x \<in> set (?F ms)" for x using assms that by (auto simp: not_less)
  have a: "takeWhile ?P (?F ms @ ?F ns) = ?F ms @ takeWhile ?P (?F ns)"
    by (rule takeWhile_append2) (rule all)
  have b: "takeWhile ?P (?F ms) = ?F ms"
    using all unfolding takeWhile_eq_all_conv by blast
  show ?thesis unfolding jet_window_def filter_append a b map_append ..
qed

fun fetched :: "fetch list \<Rightarrow> jet_message list" where
  "fetched [] = []"
| "fetched (FetchBatch ms # fs) = ms @ fetched fs"
| "fetched (_ # fs) = []"

text \<open>
  A replay that ends without an error has processed the messages of the stream, in order, up
  to the first one past the window or to the silence of the broker.
\<close>

lemma jet_loop_complete:
  "jet_loop run send until fs s = Some (s', None) \<Longrightarrow>
     s' = replay_all run send (jet_window until (fetched fs)) s"
proof (induction fs arbitrary: s)
  case (Cons f fs)
  show ?case
  proof (cases f)
    case (FetchBatch ms)
    let ?late = "\<exists>(ts, m)\<in>set ms. ts \<noteq> None \<and> until < the ts"
    show ?thesis
    proof (cases ?late)
      case True
      have "takeWhile P (xs @ ys) = takeWhile P xs" if "\<exists>x\<in>set xs. \<not> P x" for P :: "jet_message \<Rightarrow> bool" and xs ys
        using that takeWhile_append1 by metis
      moreover have "\<exists>x\<in>set (filter (\<lambda>(ts, m). ts \<noteq> None) ms). \<not> (\<lambda>(ts, m). the ts \<le> until) x"
        using True by (auto simp: not_le)
      ultimately have "jet_window until (ms @ fetched fs) = jet_window until ms"
        by (simp add: jet_window_def)
      then show ?thesis using Cons(2) FetchBatch True by (simp add: jet_batch_spec)
    next
      case False
      then have "jet_loop run send until fs (replay_all run send (jet_window until ms) s) = Some (s', None)"
        using Cons(2) FetchBatch unfolding jet_loop.simps jet_batch_spec by simp
      from Cons(1) [OF this] show ?thesis using FetchBatch jet_window_append [OF False]
        by (simp add: replay_all_def)
    qed
  qed (use Cons(2) in \<open>simp_all add: jet_window_def\<close>)
qed simp


section \<open>Which pipelines can be replayed\<close>

text \<open>
  A row a replay can build: it is no wasm row, and if it is a validate or translate row it names
  no schema but the pipeline's.
\<close>

definition replayable :: "config_decoder \<Rightarrow> pipeline \<Rightarrow> stage_row \<Rightarrow> bool" where
  "replayable d p row \<longleftrightarrow>
     StageType row \<noteq> ''wasm''
   \<and> (StageType row \<in> {''validate'', ''translate''} \<longrightarrow>
        cfg_SchemaID (row_config d (StageConfig row)) \<in> {[], p_SchemaID p})"

lemma build_rows_cong:
  "(\<And>r. r \<in> set rows \<Longrightarrow> row_Enabled r \<Longrightarrow> build_row c d ctx r = build_row c d ctx' r) \<Longrightarrow>
     build_rows c d ctx rows = build_rows c d ctx' rows"
  by (induction rows) (auto split: sum.splits)

text \<open>Two contexts that agree on the pipeline's schema build a replayable row alike.\<close>

lemma build_row_agree:
  assumes "replayable d p row" "Pipeline ctx = pipeline_row.truncate p" "Pipeline ctx' = Pipeline ctx"
    "Transforms ctx' = Transforms ctx" "RoutingRules ctx' = RoutingRules ctx"
    "p_SchemaID p \<noteq> [] \<Longrightarrow> map_of (Schemas ctx') (p_SchemaID p) = map_of (Schemas ctx) (p_SchemaID p)"
  shows "build_row c d ctx row = build_row c d ctx' row"
proof -
  let ?cfg = "row_config d (StageConfig row)"
  have known: "map_of (Schemas ctx') i = map_of (Schemas ctx) i" if "i \<noteq> []" "i \<in> {[], p_SchemaID p}" for i
    using assms(6) that by auto
  have pipe: "p_SchemaID (Pipeline ctx) = p_SchemaID p" by (simp add: assms(2) pipeline_row.truncate_def)
  have "build_translate c ctx ?cfg = build_translate c ctx' ?cfg"
    if "cfg_SchemaID ?cfg \<in> {[], p_SchemaID p}"
    using known [OF _ that] unfolding build_translate_def assms(3) Let_def
    by (cases "cfg_SchemaID ?cfg = []") simp_all
  moreover have "build_validate ctx ?cfg = build_validate ctx' ?cfg"
    if "cfg_SchemaID ?cfg \<in> {[], p_SchemaID p}"
  proof -
    have "validate_schema_id ctx ?cfg \<in> {[], p_SchemaID p}" using that pipe by (auto simp: validate_schema_id_def)
    moreover have v: "validate_schema_id ctx' ?cfg = validate_schema_id ctx ?cfg"
      by (simp add: validate_schema_id_def assms(3))
    ultimately show ?thesis
      using known [of "validate_schema_id ctx ?cfg"] unfolding build_validate_def Let_def v
      by (cases "validate_schema_id ctx ?cfg = []") (simp_all only: simp_thms if_False if_True not_False_eq_True)
  qed
  ultimately show ?thesis using assms(1,3-5) by (auto simp: build_row_def Let_def replayable_def)
qed

lemma build_row_refused:
  assumes "\<not> replayable d p row" "Pipeline ctx = pipeline_row.truncate p" "WasmPlugins ctx = []"
    "\<And>i. i \<noteq> p_SchemaID p \<Longrightarrow> map_of (Schemas ctx) i = None"
  shows "\<exists>e. build_row c d ctx row = Err e"
  using assms
  by (auto simp: build_row_def Let_def replayable_def build_validate_def build_translate_def
      build_wasm_def validate_schema_id_def)

lemma loaded_pipeline_schema:
  assumes "loadReferencedSchemas d store p rows = Ok out" "p_SchemaID p \<noteq> []"
  shows "\<exists>sc. store (p_SchemaID p) = Ok sc \<and> map_of out (p_SchemaID p) = Some sc"
proof -
  have l: "load_schemas store p (wanted_schemas d p rows) = Ok out"
    using assms(1) by (simp add: loadReferencedSchemas_def)
  have "p_SchemaID p \<in> set (wanted_schemas d p rows)" using assms(2) by (simp add: wanted_schemas_def)
  then obtain sc where sc: "map_of out (p_SchemaID p) = Some sc"
    using load_schemas_lookup [OF l] by blast
  then show ?thesis using load_schemas_Ok [OF l] map_of_SomeD [OF sc] by auto
qed

text \<open>
  C17. A replay of a pipeline that runs live goes through the very stages of the live executor
  if its enabled rows name no schema but the pipeline's and no plugin, and is refused
  otherwise: \<open>loadSchemasForBuild\<close> fetches less than a start does, and plugins are not loaded.
\<close>

theorem replay_stages_live:
  assumes live: "startPipeline c d runtime now st p bs = (Ok ex, bs')"
    and rows: "Stages_ListByPipelineUnsafe st (p_ID p) = Ok rows"
  shows "((\<forall>row\<in>set rows. row_Enabled row \<longrightarrow> replayable d p row) \<longrightarrow>
            replay_stages c d st p = Ok (pe_Stages ex))
    \<and> ((\<exists>row\<in>set rows. row_Enabled row \<and> \<not> replayable d p row) \<longrightarrow>
            (\<exists>e. replay_stages c d st p = Err e))"
  using live
proof (rule startPipeline_Ok)
  fix rows' ts rules
  assume x: "RoutingRules_ListByPipelineUnsafe st (p_ID p) = Ok rules"
    "Stages_ListByPipelineUnsafe st (p_ID p) = Ok rows'" "Transforms_ListByPipelineUnsafe st (p_ID p) = Ok ts"
    "build_stages c d runtime st p rows' ts rules = Ok (pe_Stages ex)"
  then have "build_stages c d runtime st p rows ts rules = Ok (pe_Stages ex)" using rows by simp
  then obtain schemas plugins where
    l: "loadReferencedSchemas d (Schemas_GetUnsafe st) (pipeline_row.truncate p) rows = Ok schemas" and
    b: "Build c d \<lparr>Pipeline = pipeline_row.truncate p, StageRows = rows, Transforms = ts,
                RoutingRules = rules, Schemas = schemas, WasmPlugins = plugins\<rparr> = Ok (pe_Stages ex)"
    (is "Build c d ?live = _")
    by (rule build_stages_Ok)
  let ?ctx = "replay_context st p"
  have ctx: "Pipeline ?ctx = pipeline_row.truncate p" "StageRows ?ctx = rows" "Transforms ?ctx = ts"
    "RoutingRules ?ctx = rules" "WasmPlugins ?ctx = []"
    using x rows by (simp_all add: replay_context_def or_nil_def)
  have same: "map_of (Schemas ?ctx) (p_SchemaID p) = map_of schemas (p_SchemaID p)" if "p_SchemaID p \<noteq> []"
    using loaded_pipeline_schema [OF l] that
    by (auto simp: replay_context_def or_nil_def loadSchemasForBuild_def pipeline_row.truncate_def)
  have only: "map_of (Schemas ?ctx) i = None" if "i \<noteq> p_SchemaID p" for i
    using that by (auto simp: replay_context_def or_nil_def loadSchemasForBuild_def split: sum.splits)
  have "replay_stages c d st p = Ok (pe_Stages ex)"
    if "\<forall>row\<in>set rows. row_Enabled row \<longrightarrow> replayable d p row"
  proof -
    have "build_rows c d ?live rows = build_rows c d ?ctx rows"
      using that same by (intro build_rows_cong build_row_agree [of d p]) (simp_all add: ctx)
    then show ?thesis using b ctx(2) by (simp add: replay_stages_def Build_def)
  qed
  moreover have "\<exists>e. replay_stages c d st p = Err e"
    if "\<exists>row\<in>set rows. row_Enabled row \<and> \<not> replayable d p row"
  proof -
    from that obtain row e where "row \<in> set rows" "row_Enabled row" "build_row c d ?ctx row = Err e"
      using build_row_refused [OF _ ctx(1,5) only] by blast
    then have "build_rows c d ?ctx rows \<noteq> Ok stages" for stages
      using build_rows_each by (metis sum.distinct(1))
    then show ?thesis unfolding replay_stages_def Build_def ctx(2) by (metis sumE)
  qed
  ultimately show ?thesis by blast
qed

theorem replay_stages_live_witness:
  "\<exists>ex bs. startPipeline sample_codec sample_decoder None 0 sample_rows sample_tenant_pipeline [] = (Ok ex, bs)
     \<and> replay_stages sample_codec sample_decoder sample_rows sample_tenant_pipeline = Ok (pe_Stages ex)"
proof -
  obtain ex bs where run: "startPipeline sample_codec sample_decoder None 0 sample_rows sample_tenant_pipeline [] = (Ok ex, bs)"
    using sample_start by blast
  have rows: "Stages_ListByPipelineUnsafe sample_rows (p_ID sample_tenant_pipeline) = Ok [sample_row ''route'' []]"
    by (simp add: sample_rows_def)
  have "replayable sample_decoder sample_tenant_pipeline (sample_row ''route'' [])"
    by (simp add: replayable_def sample_row_def)
  then show ?thesis using replay_stages_live [OF run rows] run by simp
qed

section \<open>Where a replay publishes\<close>

text \<open>
  \<open>replaySend\<close> keys its connection by topic and queue alone. A schedule in which this shows: after
  a replay to one destination, a replay to another one with the same topic and queue, on whatever
  broker and of whatever tenant, holds the first one's connection.
\<close>

lemma replay_shares_connection:
  assumes "New ibmmq cfg1 = Ok cfg1" "Topic cfg2 = Topic cfg1" "QueueName cfg2 = QueueName cfg1"
  shows "\<exists>s. pool_run ibmmq zero
       [Get 0 (replay_key cfg1) cfg1, Lock 0, Connect 0 None, Done 0,
        Get 1 (replay_key cfg2) cfg2, Lock 1, Connect 1 None] (pool_start opts blank start) = Some s
    \<and> (\<exists>a. ps_at s 1 = Holding (replay_key cfg2) a \<and> conn (ps_heap s a) = cfg1)"
  using assms by (simp add: pool_start_def NewPool_def get_entry_def replay_key_def)

definition other_cfg :: Config where
  "other_cfg = From (zero_connection\<lparr>c_Type := ''kafka'', c_Brokers := ''b2:9092'', c_Topic := ''orders''\<rparr>)"

lemma replay_shares_connection_example:
  "other_cfg \<noteq> sample_cfg \<and>
   (\<exists>s a. pool_run True 0
       [Get 0 (replay_key sample_cfg) sample_cfg, Lock 0, Connect 0 None, Done 0,
        Get 1 (replay_key other_cfg) other_cfg, Lock 1, Connect 1 None] sample_pool = Some s
    \<and> ps_at s 1 = Holding (replay_key other_cfg) a \<and> conn (ps_heap s a) = sample_cfg)"
proof -
  have "Topic other_cfg = Topic sample_cfg" "QueueName other_cfg = QueueName sample_cfg"
    by (simp_all add: other_cfg_def sample_cfg_def From_def zero_connection_def)
  moreover have "Brokers other_cfg \<noteq> Brokers sample_cfg" by code_simp
  ultimately show ?thesis
    unfolding sample_pool_def using replay_shares_connection [OF sample_new] by metis
qed

end
