(* ===== verification/C_Layout.thy ===== *)
theory C_Layout
  imports Mqc_Prelude
begin

text \<open>
  The C the MQI headers are written in, as far as they use it: object types and their
  sizes, alignments and member offsets under the two ABIs the headers distinguish
  (\<open>MQ_64_BIT\<close> or not), macro values, and structure initializers with the memory image
  they denote. The headers' structures are data of type \<open>ctype\<close>, so that what the compiler
  computes from a declaration (\<open>sizeof\<close>, \<open>offsetof\<close>) is a function of the model.
\<close>

unbundle bit_operations_syntax

section \<open>Object types, sizes and offsets\<close>

text \<open>The System V ABIs of Linux on i386 (\<open>ILP32\<close>) and on x86-64 (\<open>LP64\<close>).\<close>

datatype abi = ILP32 | LP64

datatype ctype =
    C_char
  | C_uchar
  | C_short
  | C_int
  | C_long
  | C_longlong
  | C_ptr
  | C_array nat ctype
  | C_struct "(string \<times> ctype) list"

type_synonym fields = "(string \<times> ctype) list"

definition word_size :: "abi \<Rightarrow> nat" where
  "word_size a = (case a of ILP32 \<Rightarrow> 4 | LP64 \<Rightarrow> 8)"

text \<open>On i386 a \<open>long long\<close> member is aligned to four bytes.\<close>

fun align_of :: "abi \<Rightarrow> ctype \<Rightarrow> nat"
  and align_fields :: "abi \<Rightarrow> fields \<Rightarrow> nat" where
  "align_of a C_char = 1"
| "align_of a C_uchar = 1"
| "align_of a C_short = 2"
| "align_of a C_int = 4"
| "align_of a C_long = word_size a"
| "align_of a C_longlong = word_size a"
| "align_of a C_ptr = word_size a"
| "align_of a (C_array n t) = align_of a t"
| "align_of a (C_struct fs) = align_fields a fs"
| "align_fields a [] = 1"
| "align_fields a ((n, t) # fs) = max (align_of a t) (align_fields a fs)"

definition round_up :: "nat \<Rightarrow> nat \<Rightarrow> nat" where
  "round_up al n = (n + al - 1) div al * al"

fun size_of :: "abi \<Rightarrow> ctype \<Rightarrow> nat"
  and end_of :: "abi \<Rightarrow> nat \<Rightarrow> fields \<Rightarrow> nat" where
  "size_of a C_char = 1"
| "size_of a C_uchar = 1"
| "size_of a C_short = 2"
| "size_of a C_int = 4"
| "size_of a C_long = word_size a"
| "size_of a C_longlong = 8"
| "size_of a C_ptr = word_size a"
| "size_of a (C_array n t) = n * size_of a t"
| "size_of a (C_struct fs) = round_up (align_fields a fs) (end_of a 0 fs)"
| "end_of a off [] = off"
| "end_of a off ((n, t) # fs) = end_of a (round_up (align_of a t) off + size_of a t) fs"

text \<open>The \<open>sizeof\<close> of a structure with the given members.\<close>

definition struct_size :: "abi \<Rightarrow> fields \<Rightarrow> nat" where
  "struct_size a fs = size_of a (C_struct fs)"

text \<open>Each member's name, \<open>offsetof\<close> and type.\<close>

fun offsets_from :: "abi \<Rightarrow> nat \<Rightarrow> fields \<Rightarrow> (string \<times> nat \<times> ctype) list" where
  "offsets_from a off [] = []"
| "offsets_from a off ((n, t) # fs) =
     (let o1 = round_up (align_of a t) off
      in (n, o1, t) # offsets_from a (o1 + size_of a t) fs)"

definition offsets :: "abi \<Rightarrow> fields \<Rightarrow> (string \<times> nat \<times> ctype) list" where
  "offsets a fs = offsets_from a 0 fs"

section \<open>Laws of the layout\<close>

lemma word_size_pos [simp]: "0 < word_size a"
  by (simp add: word_size_def split: abi.split)

lemma align_pos [simp]: "0 < align_of a t" "0 < align_fields a fs"
  by (induction a t and a fs rule: align_of_align_fields.induct) auto

lemma round_up_ge: "0 < al \<Longrightarrow> n \<le> round_up al n"
proof -
  assume al: "0 < al"
  have "n + al - 1 = (n + al - 1) div al * al + (n + al - 1) mod al" by simp
  moreover have "(n + al - 1) mod al < al" using al by simp
  ultimately show ?thesis unfolding round_up_def using al by linarith
qed

lemma round_up_dvd [simp]: "al dvd round_up al n"
  by (simp add: round_up_def)

lemma round_up_least: "0 < al \<Longrightarrow> al dvd m \<Longrightarrow> n \<le> m \<Longrightarrow> round_up al n \<le> m"
proof -
  assume al: "0 < al" and "al dvd m" and le: "n \<le> m"
  then obtain k where m: "m = k * al" by (metis dvd_def mult.commute)
  have "(n + al - 1) div al \<le> (m + al - 1) div al" using le by (intro div_le_mono) simp
  also have "(m + al - 1) div al = k"
    using al m by (metis Nat.add_diff_assoc One_nat_def Suc_leI add.commute diff_less
      div_mult_self1 div_eq_0_iff add.right_neutral less_numeral_extra(1) neq0_conv)
  finally show ?thesis by (simp add: round_up_def m)
qed

lemma end_of_ge: "off \<le> end_of a off fs"
proof (induction fs arbitrary: off)
  case (Cons f fs)
  obtain n t where f: "f = (n, t)" by fastforce
  have "off \<le> round_up (align_of a t) off + size_of a t"
    using round_up_ge [of "align_of a t" off] by simp
  also have "\<dots> \<le> end_of a (round_up (align_of a t) off + size_of a t) fs"
    by (rule Cons.IH)
  finally show ?case by (simp add: f)
qed simp

lemma end_of_append: "end_of a off (fs @ gs) = end_of a (end_of a off fs) gs"
  by (induction fs arbitrary: off) auto

lemma offsets_from_append:
  "offsets_from a off (fs @ gs) = offsets_from a off fs @ offsets_from a (end_of a off fs) gs"
  by (induction fs arbitrary: off) (auto simp: Let_def)

lemma map_fst_offsets_from [simp]: "map fst (offsets_from a off fs) = map fst fs"
  by (induction fs arbitrary: off) (auto simp: Let_def)

lemma length_offsets_from [simp]: "length (offsets_from a off fs) = length fs"
  by (induction fs arbitrary: off) (auto simp: Let_def)

text \<open>
  Members in order, each aligned, each past the end of the one before, all within the
  bytes up to \<open>end_of\<close>.
\<close>

fun well_placed :: "abi \<Rightarrow> nat \<Rightarrow> (string \<times> nat \<times> ctype) list \<Rightarrow> nat \<Rightarrow> bool" where
  "well_placed a lo [] hi \<longleftrightarrow> lo \<le> hi"
| "well_placed a lo ((n, off, t) # ps) hi \<longleftrightarrow>
     lo \<le> off \<and> align_of a t dvd off \<and> well_placed a (off + size_of a t) ps hi"

lemma well_placed_offsets_from: "well_placed a off (offsets_from a off fs) (end_of a off fs)"
  by (induction fs arbitrary: off) (auto simp: Let_def round_up_ge)

lemma well_placed_weaken: "well_placed a lo ps hi \<Longrightarrow> hi \<le> hi' \<Longrightarrow> well_placed a lo ps hi'"
  by (induction a lo ps hi rule: well_placed.induct) auto

text \<open>A structure that gains members at its end keeps the offsets of the old ones.\<close>

lemma offsets_prefix: "take (length fs) (offsets a (fs @ gs)) = offsets a fs"
  by (simp add: offsets_def offsets_from_append)

lemma struct_size_dvd: "align_fields a fs dvd struct_size a fs"
  by (simp add: struct_size_def)

lemma end_le_struct_size: "end_of a 0 fs \<le> struct_size a fs"
  by (simp add: struct_size_def round_up_ge)

section \<open>Evaluating a layout\<close>

text \<open>Member names do not matter to a size, and a member counts by its alignment and size.\<close>

fun place :: "nat \<Rightarrow> (nat \<times> nat) list \<Rightarrow> nat" where
  "place off [] = off"
| "place off ((al, sz) # ps) = place (round_up al off + sz) ps"

definition shape :: "abi \<Rightarrow> ctype \<Rightarrow> nat \<times> nat" where
  "shape a t = (align_of a t, size_of a t)"

lemma end_of_place: "end_of a off fs = place off (map (shape a) (map snd fs))"
  by (induction fs arbitrary: off) (auto simp: shape_def)

lemma align_fields_shapes: "align_fields a fs = foldr max (map fst (map (shape a) (map snd fs))) 1"
  by (induction fs) (auto simp: shape_def)

lemma size_of_struct_shapes:
  "size_of a (C_struct fs) =
     (let ps = map (shape a) (map snd fs) in round_up (foldr max (map fst ps) 1) (place 0 ps))"
  by (simp add: Let_def end_of_place align_fields_shapes)

end
