(* ===== verification/C_Init.thy ===== *)
theory C_Init
  imports C_Layout
begin

text \<open>
  Macro values, initializers and the memory image an initializer denotes: little-endian
  integers, character arrays padded with NUL, padding bytes and NULL pointers as zero
  bytes. \<open>fits\<close> is the static check (every macro is declared, every value is in range, no
  text is longer than its array, one initializer per member); a fitting initializer has an
  image of exactly \<open>sizeof\<close> bytes from which every member reads back.
\<close>

unbundle bit_operations_syntax

section \<open>Macro values\<close>

text \<open>
  The replacement texts of the headers' value macros: integer constants, string literals,
  character lists (the \<open>_ARRAY\<close> forms), \<open>NULL\<close>, other macros, and their sums
  and bitwise ors.
\<close>

datatype cexpr =
    Num int
  | Str string
  | Chars string
  | Null
  | Mac string
  | Plus cexpr cexpr
  | BitOr cexpr cexpr

type_synonym macros = "(string \<times> cexpr) list"

text \<open>Macro names nest at most twice in the headers (\<open>MQENC_NORMAL\<close> and its kin).\<close>

definition macro_depth :: nat where
  "macro_depth = 2"

fun num_op :: "(int \<Rightarrow> int \<Rightarrow> int) \<Rightarrow> cexpr option \<Rightarrow> cexpr option \<Rightarrow> cexpr option" where
  "num_op f (Some (Num m)) (Some (Num n)) = Some (Num (f m n))"
| "num_op f _ _ = None"

fun expand :: "macros \<Rightarrow> nat \<Rightarrow> cexpr \<Rightarrow> cexpr option" where
  "expand ms k (Mac m) =
     (case k of
        0 \<Rightarrow> None
      | Suc k' \<Rightarrow> (case map_of ms m of None \<Rightarrow> None | Some e \<Rightarrow> expand ms k' e))"
| "expand ms k (Plus x y) = num_op (+) (expand ms k x) (expand ms k y)"
| "expand ms k (BitOr x y) = num_op (OR) (expand ms k x) (expand ms k y)"
| "expand ms k e = Some e"

definition macro_value :: "macros \<Rightarrow> cexpr \<Rightarrow> cexpr option" where
  "macro_value ms e = expand ms macro_depth e"

text \<open>A macro both branches of \<open>#if defined(MQ_64_BIT)\<close> define: the 64-bit value first.\<close>

definition by_abi :: "abi \<Rightarrow> int \<Rightarrow> int \<Rightarrow> int" where
  "by_abi a x y = (case a of LP64 \<Rightarrow> x | ILP32 \<Rightarrow> y)"

section \<open>Looking macros up\<close>

text \<open>
  The tables of the headers have up to 150 entries, so a lookup is rewritten one entry at a
  time with its arguments left alone: \<open>str_neq\<close> decides a mismatch at the first differing
  character, and the two congruences keep the simplifier out of the table.
\<close>

fun str_neq :: "string \<Rightarrow> string \<Rightarrow> bool" where
  "str_neq [] [] = False"
| "str_neq (c # cs) [] = True"
| "str_neq [] (d # ds) = True"
| "str_neq (c # cs) (d # ds) = (if c = d then str_neq cs ds else True)"

lemma str_neq_iff: "str_neq s t \<longleftrightarrow> s \<noteq> t"
  by (induction s t rule: str_neq.induct) auto

lemma str_neq_same: "str_neq (c # cs) (c # ds) = str_neq cs ds"
  by simp

lemma str_neq_diff: "c \<noteq> d \<Longrightarrow> str_neq (c # cs) (d # ds) = True"
  by simp

lemma map_of_miss: "str_neq k' k \<Longrightarrow> map_of ((k', v) # t) k = map_of t k"
  by (auto simp: str_neq_iff)

lemma map_of_hit: "map_of ((k, v) # t) k = Some v"
  by simp

lemma map_of_tables: "map_of (xs @ ys) k = (case map_of xs k of None \<Rightarrow> map_of ys k | Some v \<Rightarrow> Some v)"
  by (simp add: map_add_def)

lemma map_of_none: "map_of [] k = None"
  by simp

lemma map_of_table: "t = u \<Longrightarrow> map_of t k = map_of u k"
  by simp

lemma map_of_block: "map_of t k = map_of t k" ..

lemma str_neq_block: "str_neq s t = str_neq s t" ..

lemmas lookup_simps = map_of_none map_of_miss map_of_hit map_of_tables str_neq.simps(1-3)
  str_neq_diff str_neq_same char.inject simp_thms option.case

lemmas lookup_congs = map_of_block str_neq_block

lemma macro_value_simps:
  "macro_value ms (Mac m) =
     (case map_of ms m of None \<Rightarrow> None | Some e \<Rightarrow> expand ms (Suc 0) e)"
  "macro_value ms (Num v) = Some (Num v)"
  "macro_value ms (Str s) = Some (Str s)"
  "macro_value ms (Chars s) = Some (Chars s)"
  "macro_value ms Null = Some Null"
  "macro_value ms (Plus x y) = num_op (+) (macro_value ms x) (macro_value ms y)"
  "macro_value ms (BitOr x y) = num_op (OR) (macro_value ms x) (macro_value ms y)"
  by (simp_all add: macro_value_def macro_depth_def numeral_2_eq_2)

section \<open>Integers in memory\<close>

abbreviation NUL :: char where
  "NUL \<equiv> CHR 0x00"

fun le_bytes :: "nat \<Rightarrow> int \<Rightarrow> bytes" where
  "le_bytes 0 v = []"
| "le_bytes (Suc n) v = char_of (v mod 256) # le_bytes n (v div 256)"

fun le_nat :: "bytes \<Rightarrow> int" where
  "le_nat [] = 0"
| "le_nat (c # cs) = of_char c + 256 * le_nat cs"

definition le_signed :: "bytes \<Rightarrow> int" where
  "le_signed bs =
     (let u = le_nat bs; h = 2 ^ (8 * length bs - 1)
      in if u < h then u else u - 2 * h)"

definition int_fits :: "nat \<Rightarrow> int \<Rightarrow> bool" where
  "int_fits n v \<longleftrightarrow> - (2 ^ (8 * n - 1)) \<le> v \<and> v < 2 ^ (8 * n - 1)"

lemma length_le_bytes [simp]: "length (le_bytes n v) = n"
  by (induction n arbitrary: v) auto

lemma le_nat_le_bytes: "le_nat (le_bytes n v) = v mod 256 ^ n"
proof (induction n arbitrary: v)
  case (Suc n)
  have "le_nat (le_bytes (Suc n) v) = v mod 256 + 256 * (v div 256 mod 256 ^ n)"
    by (simp add: Suc.IH)
  also have "\<dots> = v mod (256 * 256 ^ n)"
    by (simp add: mod_mult2_eq' zmod_zmult2_eq add.commute)
  finally show ?case by simp
qed simp

lemma le_signed_le_bytes:
  assumes "0 < n" "int_fits n v"
  shows "le_signed (le_bytes n v) = v"
proof -
  define h :: int where "h = 2 ^ (8 * n - 1)"
  have p: "(256::int) ^ n = 2 * h"
  proof -
    have "(256::int) ^ n = 2 ^ (8 * n)" by (simp add: power_mult)
    also have "8 * n = Suc (8 * n - 1)" using assms(1) by simp
    finally show ?thesis by (simp add: h_def)
  qed
  have v: "- h \<le> v" "v < h" using assms(2) by (simp_all add: int_fits_def h_def)
  have u: "le_nat (le_bytes n v) = v mod (2 * h)" by (simp add: le_nat_le_bytes p)
  have hl: "2 ^ (8 * length (le_bytes n v) - 1) = h" by (simp add: h_def)
  show ?thesis
  proof (cases "0 \<le> v")
    case True
    then have "v mod (2 * h) = v" using v by simp
    with v u hl show ?thesis by (simp add: le_signed_def Let_def)
  next
    case False
    have "v mod (2 * h) = (v + 2 * h) mod (2 * h)" by simp
    also have "\<dots> = v + 2 * h" using False v by (intro mod_pos_pos_trivial) auto
    finally have "v mod (2 * h) = v + 2 * h" .
    with v u hl False show ?thesis by (simp add: le_signed_def Let_def)
  qed
qed

section \<open>Initializers\<close>

datatype cinit = Expr cexpr | Braces "cinit list"

text \<open>The text a character array is initialized with: \<open>{"..."}\<close>, \<open>"..."\<close> or \<open>{'.', '.'}\<close>.\<close>

fun text_expr :: "macros \<Rightarrow> cexpr \<Rightarrow> string option" where
  "text_expr ms e =
     (case macro_value ms e of
        Some (Str s) \<Rightarrow> Some s
      | Some (Chars s) \<Rightarrow> Some s
      | _ \<Rightarrow> None)"

fun text_of :: "macros \<Rightarrow> ctype \<Rightarrow> cinit \<Rightarrow> string option" where
  "text_of ms t i =
     (if t = C_char \<or> t = C_uchar
      then (case i of
              Expr e \<Rightarrow> text_expr ms e
            | Braces [Expr e] \<Rightarrow> text_expr ms e
            | _ \<Rightarrow> None)
      else None)"

text \<open>A scalar member: an integer expression, or a character constant of the ASCII range.\<close>

definition int_of_init :: "macros \<Rightarrow> nat \<Rightarrow> cinit \<Rightarrow> int option" where
  "int_of_init ms n i =
     (case i of
        Expr e \<Rightarrow> (case macro_value ms e of
                      Some (Num v) \<Rightarrow> (if int_fits n v then Some v else None)
                    | Some (Chars [c]) \<Rightarrow> (if of_char c < (128::int) then Some (of_char c) else None)
                    | _ \<Rightarrow> None)
      | _ \<Rightarrow> None)"

definition ptr_of_init :: "macros \<Rightarrow> cinit \<Rightarrow> bool" where
  "ptr_of_init ms i =
     (case i of Expr e \<Rightarrow> macro_value ms e \<in> {Some Null, Some (Num 0)} | _ \<Rightarrow> False)"

definition is_int_type :: "ctype \<Rightarrow> bool" where
  "is_int_type t \<longleftrightarrow> t \<in> {C_char, C_uchar, C_short, C_int, C_long, C_longlong}"

subsection \<open>The static check\<close>

fun fits :: "abi \<Rightarrow> macros \<Rightarrow> ctype \<Rightarrow> cinit \<Rightarrow> bool"
  and fits_elems :: "abi \<Rightarrow> macros \<Rightarrow> ctype \<Rightarrow> cinit list \<Rightarrow> bool"
  and fits_fields :: "abi \<Rightarrow> macros \<Rightarrow> fields \<Rightarrow> cinit list \<Rightarrow> bool" where
  "fits a ms (C_array n t) i =
     (case text_of ms t i of
        Some s \<Rightarrow> length s \<le> n
      | None \<Rightarrow> (case i of Expr e \<Rightarrow> False
                  | Braces is \<Rightarrow> length is \<le> n \<and> fits_elems a ms t is))"
| "fits a ms (C_struct fs) i =
     (case i of Expr e \<Rightarrow> False | Braces is \<Rightarrow> fits_fields a ms fs is)"
| "fits a ms C_ptr i = ptr_of_init ms i"
| "fits a ms t i = (int_of_init ms (size_of a t) i \<noteq> None)"
| "fits_elems a ms t [] = True"
| "fits_elems a ms t (i # is) = (fits a ms t i \<and> fits_elems a ms t is)"
| "fits_fields a ms [] [] = True"
| "fits_fields a ms ((n, t) # fs) (i # is) = (fits a ms t i \<and> fits_fields a ms fs is)"
| "fits_fields a ms _ _ = False"

subsection \<open>The memory image\<close>

fun image :: "abi \<Rightarrow> macros \<Rightarrow> ctype \<Rightarrow> cinit \<Rightarrow> bytes option"
  and image_elems :: "abi \<Rightarrow> macros \<Rightarrow> ctype \<Rightarrow> cinit list \<Rightarrow> bytes option"
  and image_fields :: "abi \<Rightarrow> macros \<Rightarrow> nat \<Rightarrow> fields \<Rightarrow> cinit list \<Rightarrow> bytes option" where
  "image a ms (C_array n t) i =
     (case text_of ms t i of
        Some s \<Rightarrow> (if length s \<le> n then Some (s @ replicate (n - length s) NUL) else None)
      | None \<Rightarrow>
          (case i of
             Expr e \<Rightarrow> None
           | Braces is \<Rightarrow>
               (if length is \<le> n
                then (case image_elems a ms t is of
                        None \<Rightarrow> None
                      | Some b \<Rightarrow> Some (b @ replicate ((n - length is) * size_of a t) NUL))
                else None)))"
| "image a ms (C_struct fs) i =
     (case i of
        Expr e \<Rightarrow> None
      | Braces is \<Rightarrow>
          (case image_fields a ms 0 fs is of
             None \<Rightarrow> None
           | Some b \<Rightarrow> Some (b @ replicate (struct_size a fs - length b) NUL)))"
| "image a ms C_ptr i = (if ptr_of_init ms i then Some (replicate (word_size a) NUL) else None)"
| "image a ms t i = map_option (le_bytes (size_of a t)) (int_of_init ms (size_of a t) i)"
| "image_elems a ms t [] = Some []"
| "image_elems a ms t (i # is) =
     (case image a ms t i of
        None \<Rightarrow> None
      | Some b \<Rightarrow> (case image_elems a ms t is of None \<Rightarrow> None | Some r \<Rightarrow> Some (b @ r)))"
| "image_fields a ms off [] [] = Some []"
| "image_fields a ms off ((n, t) # fs) (i # is) =
     (case image a ms t i of
        None \<Rightarrow> None
      | Some b \<Rightarrow>
          (case image_fields a ms (round_up (align_of a t) off + size_of a t) fs is of
             None \<Rightarrow> None
           | Some r \<Rightarrow> Some (replicate (round_up (align_of a t) off - off) NUL @ b @ r)))"
| "image_fields a ms off _ _ = None"

section \<open>A fitting initializer has an image of the declared size\<close>

lemma fits_image:
  "fits a ms t i \<Longrightarrow> \<exists>b. image a ms t i = Some b \<and> length b = size_of a t"
  "fits_elems a ms t is \<Longrightarrow> \<exists>b. image_elems a ms t is = Some b \<and> length b = length is * size_of a t"
  "fits_fields a ms fs is \<Longrightarrow>
     \<exists>b. image_fields a ms off fs is = Some b \<and> off + length b = end_of a off fs"
proof (induction a ms t i and a ms t "is" and a ms fs "is" arbitrary: and and off
    rule: fits_fits_elems_fits_fields.induct)
  case (1 a ms n t i)
  show ?case
  proof (cases "text_of ms t i")
    case (Some s)
    then have "t = C_char \<or> t = C_uchar" by (auto split: if_splits)
    then have "size_of a t = 1" by auto
    with Some "1.prems" show ?thesis by (simp del: text_of.simps)
  next
    case None
    with "1.prems" obtain "is" where i: "i = Braces is" "length is \<le> n" "fits_elems a ms t is"
      by (auto split: cinit.splits simp del: text_of.simps)
    with None "1.IH" obtain b where "image_elems a ms t is = Some b" "length b = length is * size_of a t"
      by blast
    with None i show ?thesis
      by (simp del: text_of.simps flip: add_mult_distrib)
  qed
next
  case (2 a ms fs i)
  then obtain "is" b where "i = Braces is" "image_fields a ms 0 fs is = Some b" "length b = end_of a 0 fs"
    by (fastforce split: cinit.splits)
  then show ?case
    using end_le_struct_size [of a fs] by (simp add: struct_size_def)
next
  case (8 a ms n t fs i "is")
  have fit: "fits a ms t i" "fits_fields a ms fs is" using "8.prems" by simp_all
  let ?off = "round_up (align_of a t) off + size_of a t"
  obtain b where b: "image a ms t i = Some b" "length b = size_of a t"
    using "8.IH"(1) [OF fit(1)] by blast
  obtain r where r: "image_fields a ms ?off fs is = Some r" "?off + length r = end_of a ?off fs"
    using "8.IH"(2) [OF fit(2), of ?off] by blast
  have "off \<le> round_up (align_of a t) off" by (simp add: round_up_ge)
  with b r show ?case by simp
qed (auto split: option.splits)

section \<open>Every member reads back\<close>

text \<open>The bytes of a structure's memory that a member of the given type at the given offset occupies.\<close>

definition member_bytes :: "abi \<Rightarrow> nat \<Rightarrow> ctype \<Rightarrow> bytes \<Rightarrow> bytes" where
  "member_bytes a off t b = take (size_of a t) (drop off b)"

lemma image_fields_nth:
  assumes "fits_fields a ms fs is" "image_fields a ms off fs is = Some b"
    and "k < length fs" "offsets_from a off fs ! k = (n, o1, t)"
  shows "off \<le> o1 \<and> image a ms t (is ! k) = Some (take (size_of a t) (drop (o1 - off) b))"
  using assms
proof (induction fs arbitrary: off "is" b k)
  case (Cons f fs)
  obtain m u where f: "f = (m, u)" by fastforce
  obtain i js where isc: "is = i # js" using Cons.prems(1) f by (cases "is") auto
  let ?o = "round_up (align_of a u) off"
  have fit: "fits a ms u i" "fits_fields a ms fs js" using Cons.prems(1) f isc by auto
  obtain c where c: "image a ms u i = Some c" "length c = size_of a u"
    using fits_image(1) [OF fit(1)] by blast
  obtain r where r: "image_fields a ms (?o + size_of a u) fs js = Some r"
    using fits_image(3) [OF fit(2)] by blast
  have b: "b = replicate (?o - off) NUL @ c @ r"
    using Cons.prems(2) f isc c r by simp
  have ge: "off \<le> ?o" by (simp add: round_up_ge)
  show ?case
  proof (cases k)
    case 0
    then have "t = u" "o1 = ?o" using Cons.prems(4) f by (auto simp: Let_def)
    with 0 isc c b ge show ?thesis by simp
  next
    case (Suc k')
    then have nth: "offsets_from a (?o + size_of a u) fs ! k' = (n, o1, t)" "k' < length fs"
      using Cons.prems f by (auto simp: Let_def)
    have ih: "?o + size_of a u \<le> o1 \<and>
        image a ms t (js ! k') = Some (take (size_of a t) (drop (o1 - (?o + size_of a u)) r))"
      using Cons.IH [OF fit(2) r nth(2) nth(1)] .
    moreover have "drop (o1 - off) b = drop (o1 - (?o + size_of a u)) r"
      using conjunct1 [OF ih] ge c(2) unfolding b by (simp add: drop_append diff_diff_left)
    ultimately show ?thesis using Suc isc ge by auto
  qed
qed simp

lemma fits_fields_nth:
  "fits_fields a ms fs is \<Longrightarrow> k < length fs \<Longrightarrow> fits a ms (snd (fs ! k)) (is ! k)"
proof (induction fs arbitrary: "is" k)
  case (Cons f fs)
  then show ?case by (cases "is"; cases f; cases k) auto
qed simp

lemma offsets_from_type: "k < length fs \<Longrightarrow> snd (snd (offsets_from a off fs ! k)) = snd (fs ! k)"
proof (induction fs arbitrary: off k)
  case (Cons f fs)
  then show ?case by (cases f; cases k) (auto simp: Let_def)
qed simp

lemma image_struct_member:
  assumes "fits a ms (C_struct fs) (Braces is)" "image a ms (C_struct fs) (Braces is) = Some b"
    and "k < length fs" "offsets a fs ! k = (n, off, t)"
  shows "image a ms t (is ! k) = Some (member_bytes a off t b)"
proof -
  have fit: "fits_fields a ms fs is" using assms(1) by simp
  obtain c where c: "image_fields a ms 0 fs is = Some c" "length c = end_of a 0 fs"
    using fits_image(3) [OF fit, of 0] by auto
  have img: "image a ms t (is ! k) = Some (take (size_of a t) (drop off c))"
    using image_fields_nth [OF fit c(1) assms(3)] assms(4) by (simp add: offsets_def)
  have "fits a ms t (is ! k)"
    using fits_fields_nth [OF fit assms(3)] offsets_from_type [OF assms(3), of a 0] assms(4)
    by (simp add: offsets_def)
  then have "length (take (size_of a t) (drop off c)) = size_of a t"
    using fits_image(1) img by fastforce
  then have "take (size_of a t) (drop off c) = member_bytes a off t b"
    using assms(2) c by (auto simp: member_bytes_def min_def split: if_splits)
  with img show ?thesis by simp
qed

section \<open>The first eight bytes\<close>

text \<open>
  Most MQI structures open with a four-character eye-catcher and a version number. What
  the initializer gives them is what the first eight bytes of the image hold.
\<close>

lemma image_header:
  assumes fit: "fits a ms (C_struct fs) (Braces is)"
    and fs: "take 2 (map snd fs) = [C_array 4 C_char, t]"
    and t: "size_of a t = 4" "align_of a t = 4"
    and i0: "text_of ms C_char (is ! 0) = Some s" "length s = 4"
    and i1: "image a ms t (is ! 1) = Some (le_bytes 4 v)" "int_fits 4 v"
  shows "\<exists>b. image a ms (C_struct fs) (Braces is) = Some b \<and> length b = struct_size a fs
           \<and> take 4 b = s \<and> le_signed (take 4 (drop 4 b)) = v"
proof -
  obtain b where b: "image a ms (C_struct fs) (Braces is) = Some b" "length b = size_of a (C_struct fs)"
    using fits_image(1) [OF fit] by blast
  obtain n1 n2 gs where fs2: "fs = (n1, C_array 4 C_char) # (n2, t) # gs"
    using fs by (cases fs; cases "tl fs") auto
  have o0: "offsets a fs ! 0 = (n1, 0, C_array 4 C_char)"
    by (simp add: offsets_def fs2 Let_def round_up_def)
  have o1: "offsets a fs ! 1 = (n2, 4, t)"
    by (simp add: offsets_def fs2 Let_def round_up_def t)
  have "image a ms (C_array 4 C_char) (is ! 0) = Some (member_bytes a 0 (C_array 4 C_char) b)"
    using image_struct_member [OF fit b(1) _ o0] by (simp add: fs2)
  then have "take 4 b = s" using i0 by (simp add: member_bytes_def del: text_of.simps)
  moreover have "image a ms t (is ! 1) = Some (member_bytes a 4 t b)"
    using image_struct_member [OF fit b(1) _ o1] by (simp add: fs2)
  then have "take 4 (drop 4 b) = le_bytes 4 v" using i1(1) by (simp add: member_bytes_def t)
  ultimately show ?thesis using b le_signed_le_bytes [OF _ i1(2)] by (simp add: struct_size_def)
qed

end
