(* ===== verification/Mqi_Types.thy ===== *)
theory Mqi_Types
  imports C_Init
begin

text \<open>
  The elementary data types \<open>cmqc.h\<close> declares, each typedef under its own name.
  \<open>MQLONG\<close> and \<open>MQINT64\<close> are different C types under the two ABIs; every pointer and
  function-pointer type is \<open>C_ptr\<close>.
\<close>

definition MQBYTE4 :: ctype where
  "MQBYTE4 = C_array 4 C_uchar"

definition MQBYTE8 :: ctype where
  "MQBYTE8 = C_array 8 C_uchar"

definition MQBYTE16 :: ctype where
  "MQBYTE16 = C_array 16 C_uchar"

definition MQBYTE24 :: ctype where
  "MQBYTE24 = C_array 24 C_uchar"

definition MQBYTE32 :: ctype where
  "MQBYTE32 = C_array 32 C_uchar"

definition MQBYTE40 :: ctype where
  "MQBYTE40 = C_array 40 C_uchar"

definition MQBYTE128 :: ctype where
  "MQBYTE128 = C_array 128 C_uchar"

definition MQCHAR :: ctype where
  "MQCHAR = C_char"

definition PMQCHAR :: ctype where
  "PMQCHAR = C_ptr"

definition MQCHAR4 :: ctype where
  "MQCHAR4 = C_array 4 C_char"

definition MQCHAR8 :: ctype where
  "MQCHAR8 = C_array 8 C_char"

definition MQCHAR12 :: ctype where
  "MQCHAR12 = C_array 12 C_char"

definition MQCHAR28 :: ctype where
  "MQCHAR28 = C_array 28 C_char"

definition MQCHAR32 :: ctype where
  "MQCHAR32 = C_array 32 C_char"

definition MQCHAR48 :: ctype where
  "MQCHAR48 = C_array 48 C_char"

definition MQCHAR64 :: ctype where
  "MQCHAR64 = C_array 64 C_char"

definition MQCHAR128 :: ctype where
  "MQCHAR128 = C_array 128 C_char"

definition MQCHAR256 :: ctype where
  "MQCHAR256 = C_array 256 C_char"

definition MQLONG :: "abi \<Rightarrow> ctype" where
  "MQLONG a = (case a of LP64 \<Rightarrow> C_int | ILP32 \<Rightarrow> C_long)"

definition MQINT64 :: "abi \<Rightarrow> ctype" where
  "MQINT64 a = (case a of LP64 \<Rightarrow> C_long | ILP32 \<Rightarrow> C_longlong)"

definition MQHOBJ :: "abi \<Rightarrow> ctype" where
  "MQHOBJ a = MQLONG a"

definition MQPTR :: ctype where
  "MQPTR = C_ptr"

definition MQHMSG :: "abi \<Rightarrow> ctype" where
  "MQHMSG a = MQINT64 a"

definition PMQAIR :: ctype where
  "PMQAIR = C_ptr"

definition PMQBNO :: ctype where
  "PMQBNO = C_ptr"

definition PMQSCO :: ctype where
  "PMQSCO = C_ptr"

definition PMQCSP :: ctype where
  "PMQCSP = C_ptr"

text \<open>\<open>MQLONG\<close> is four bytes and \<open>MQINT64\<close> eight under both ABIs, whatever C type they are.\<close>

lemma size_of_MQLONG: "size_of a (MQLONG a) = 4 \<and> align_of a (MQLONG a) = 4"
  by (simp add: MQLONG_def word_size_def split: abi.split)

lemma size_of_MQINT64: "size_of a (MQINT64 a) = 8"
  by (simp add: MQINT64_def word_size_def split: abi.split)

end
