(* ===== verification/Mqi_Structs.thy ===== *)
theory Mqi_Structs
  imports Mqi_Types
begin

text \<open>
  The structures of \<open>cmqc.h\<close> and their default initializers. A structure is its list of
  members grouped by the version that adds them, as the header's \<open>Ver:\<close> marks group
  them; \<open>members\<close> is the declaration as the compiler sees it.
\<close>

definition members :: "(nat \<times> fields) list \<Rightarrow> fields" where
  "members bs = concat (map snd bs)"

text \<open>The members a structure of the given version has.\<close>

definition members_upto :: "nat \<Rightarrow> (nat \<times> fields) list \<Rightarrow> fields" where
  "members_upto v bs = members (filter (\<lambda>b. fst b \<le> v) bs)"

definition MQAIR :: "abi \<Rightarrow> (nat \<times> fields) list" where
  "MQAIR a =
     [(1, [(''StrucId'', MQCHAR4), (''Version'', MQLONG a), (''AuthInfoType'', MQLONG a),
          (''AuthInfoConnName'', C_array 264 MQCHAR), (''LDAPUserNamePtr'', PMQCHAR),
          (''LDAPUserNameOffset'', MQLONG a), (''LDAPUserNameLength'', MQLONG a),
          (''LDAPPassword'', MQCHAR32)]),
      (2, [(''OCSPResponderURL'', MQCHAR256)])]"

definition MQAIR_DEFAULT :: "cinit list" where
  "MQAIR_DEFAULT =
     [Braces [Expr (Mac ''MQAIR_STRUC_ID_ARRAY'')], Expr (Mac ''MQAIR_VERSION_1''),
      Expr (Mac ''MQAIT_CRL_LDAP''), Braces [Expr (Str '''')], Expr (Null), Expr (Num 0),
      Expr (Num 0), Braces [Expr (Str '''')], Braces [Expr (Str '''')]]"

definition MQBNO :: "abi \<Rightarrow> (nat \<times> fields) list" where
  "MQBNO a =
     [(1, [(''StrucId'', MQCHAR4), (''Version'', MQLONG a), (''ApplType'', MQLONG a),
          (''Timeout'', MQLONG a), (''Options'', MQLONG a)])]"

definition MQBNO_DEFAULT :: "cinit list" where
  "MQBNO_DEFAULT =
     [Braces [Expr (Mac ''MQBNO_STRUC_ID_ARRAY'')], Expr (Mac ''MQBNO_VERSION_1''),
      Expr (Mac ''MQBNO_BALTYPE_SIMPLE''), Expr (Mac ''MQBNO_TIMEOUT_AS_DEFAULT''),
      Expr (Mac ''MQBNO_OPTIONS_NONE'')]"

definition MQBMHO :: "abi \<Rightarrow> (nat \<times> fields) list" where
  "MQBMHO a =
     [(1, [(''StrucId'', MQCHAR4), (''Version'', MQLONG a), (''Options'', MQLONG a)])]"

definition MQBMHO_DEFAULT :: "cinit list" where
  "MQBMHO_DEFAULT =
     [Braces [Expr (Mac ''MQBMHO_STRUC_ID_ARRAY'')], Expr (Mac ''MQBMHO_VERSION_1''),
      Expr (Mac ''MQBMHO_DELETE_PROPERTIES'')]"

definition MQBO :: "abi \<Rightarrow> (nat \<times> fields) list" where
  "MQBO a =
     [(1, [(''StrucId'', MQCHAR4), (''Version'', MQLONG a), (''Options'', MQLONG a)])]"

definition MQBO_DEFAULT :: "cinit list" where
  "MQBO_DEFAULT =
     [Braces [Expr (Mac ''MQBO_STRUC_ID_ARRAY'')], Expr (Mac ''MQBO_VERSION_1''),
      Expr (Mac ''MQBO_NONE'')]"

definition MQCBC :: "abi \<Rightarrow> (nat \<times> fields) list" where
  "MQCBC a =
     [(1, [(''StrucId'', MQCHAR4), (''Version'', MQLONG a), (''CallType'', MQLONG a),
          (''Hobj'', MQHOBJ a), (''CallbackArea'', MQPTR), (''ConnectionArea'', MQPTR),
          (''CompCode'', MQLONG a), (''Reason'', MQLONG a), (''State'', MQLONG a),
          (''DataLength'', MQLONG a), (''BufferLength'', MQLONG a), (''Flags'', MQLONG a)]),
      (2, [(''ReconnectDelay'', MQLONG a)])]"

definition MQCBD :: "abi \<Rightarrow> (nat \<times> fields) list" where
  "MQCBD a =
     [(1, [(''StrucId'', MQCHAR4), (''Version'', MQLONG a), (''CallbackType'', MQLONG a),
          (''Options'', MQLONG a), (''CallbackArea'', MQPTR), (''CallbackFunction'', MQPTR),
          (''CallbackName'', MQCHAR128), (''MaxMsgLength'', MQLONG a)])]"

definition MQCBD_DEFAULT :: "cinit list" where
  "MQCBD_DEFAULT =
     [Braces [Expr (Mac ''MQCBD_STRUC_ID_ARRAY'')], Expr (Mac ''MQCBD_VERSION_1''),
      Expr (Mac ''MQCBT_MESSAGE_CONSUMER''), Expr (Mac ''MQCBDO_NONE''), Expr (Null),
      Expr (Null), Braces [Expr (Str (replicate 1 NUL))], Expr (Mac ''MQCBD_FULL_MSG_LENGTH'')]"

definition MQCHARV :: "abi \<Rightarrow> (nat \<times> fields) list" where
  "MQCHARV a =
     [(1, [(''VSPtr'', MQPTR), (''VSOffset'', MQLONG a), (''VSBufSize'', MQLONG a),
          (''VSLength'', MQLONG a), (''VSCCSID'', MQLONG a)])]"

definition MQCHARV_DEFAULT :: "cinit list" where
  "MQCHARV_DEFAULT =
     [Expr (Null), Expr (Num 0), Expr (Num 0), Expr (Num 0), Expr (Mac ''MQCCSI_APPL'')]"

definition MQCIH :: "abi \<Rightarrow> (nat \<times> fields) list" where
  "MQCIH a =
     [(1, [(''StrucId'', MQCHAR4), (''Version'', MQLONG a), (''StrucLength'', MQLONG a),
          (''Encoding'', MQLONG a), (''CodedCharSetId'', MQLONG a), (''Format'', MQCHAR8),
          (''Flags'', MQLONG a), (''ReturnCode'', MQLONG a), (''CompCode'', MQLONG a),
          (''Reason'', MQLONG a), (''UOWControl'', MQLONG a), (''GetWaitInterval'', MQLONG a),
          (''LinkType'', MQLONG a), (''OutputDataLength'', MQLONG a),
          (''FacilityKeepTime'', MQLONG a), (''ADSDescriptor'', MQLONG a),
          (''ConversationalTask'', MQLONG a), (''TaskEndStatus'', MQLONG a),
          (''Facility'', MQBYTE8), (''Function'', MQCHAR4), (''AbendCode'', MQCHAR4),
          (''Authenticator'', MQCHAR8), (''Reserved1'', MQCHAR8), (''ReplyToFormat'', MQCHAR8),
          (''RemoteSysId'', MQCHAR4), (''RemoteTransId'', MQCHAR4),
          (''TransactionId'', MQCHAR4), (''FacilityLike'', MQCHAR4), (''AttentionId'', MQCHAR4),
          (''StartCode'', MQCHAR4), (''CancelCode'', MQCHAR4), (''NextTransactionId'', MQCHAR4),
          (''Reserved2'', MQCHAR8), (''Reserved3'', MQCHAR8)]),
      (2, [(''CursorPosition'', MQLONG a), (''ErrorOffset'', MQLONG a),
          (''InputItem'', MQLONG a), (''Reserved4'', MQLONG a)])]"

definition MQCIH_DEFAULT :: "cinit list" where
  "MQCIH_DEFAULT =
     [Braces [Expr (Mac ''MQCIH_STRUC_ID_ARRAY'')], Expr (Mac ''MQCIH_VERSION_2''),
      Expr (Mac ''MQCIH_LENGTH_2''), Expr (Num 0), Expr (Num 0),
      Braces [Expr (Mac ''MQFMT_NONE_ARRAY'')], Expr (Mac ''MQCIH_NONE''),
      Expr (Mac ''MQCRC_OK''), Expr (Mac ''MQCC_OK''), Expr (Mac ''MQRC_NONE''),
      Expr (Mac ''MQCUOWC_ONLY''), Expr (Mac ''MQCGWI_DEFAULT''), Expr (Mac ''MQCLT_PROGRAM''),
      Expr (Mac ''MQCODL_AS_INPUT''), Expr (Num 0), Expr (Mac ''MQCADSD_NONE''),
      Expr (Mac ''MQCCT_NO''), Expr (Mac ''MQCTES_NOSYNC''),
      Braces [Expr (Mac ''MQCFAC_NONE_ARRAY'')], Braces [Expr (Mac ''MQCFUNC_NONE_ARRAY'')],
      Braces [Expr (Chars ''    '')], Braces [Expr (Chars ''        '')],
      Braces [Expr (Chars ''        '')], Braces [Expr (Mac ''MQFMT_NONE_ARRAY'')],
      Braces [Expr (Chars ''    '')], Braces [Expr (Chars ''    '')],
      Braces [Expr (Chars ''    '')], Braces [Expr (Chars ''    '')],
      Braces [Expr (Chars ''    '')], Braces [Expr (Mac ''MQCSC_NONE_ARRAY'')],
      Braces [Expr (Chars ''    '')], Braces [Expr (Chars ''    '')],
      Braces [Expr (Chars ''        '')], Braces [Expr (Chars ''        '')], Expr (Num 0),
      Expr (Num 0), Expr (Num 0), Expr (Num 0)]"

definition MQCMHO :: "abi \<Rightarrow> (nat \<times> fields) list" where
  "MQCMHO a =
     [(1, [(''StrucId'', MQCHAR4), (''Version'', MQLONG a), (''Options'', MQLONG a)])]"

definition MQCMHO_DEFAULT :: "cinit list" where
  "MQCMHO_DEFAULT =
     [Braces [Expr (Mac ''MQCMHO_STRUC_ID_ARRAY'')], Expr (Mac ''MQCMHO_VERSION_1''),
      Expr (Mac ''MQCMHO_DEFAULT_VALIDATION'')]"

definition MQCTLO :: "abi \<Rightarrow> (nat \<times> fields) list" where
  "MQCTLO a =
     [(1, [(''StrucId'', MQCHAR4), (''Version'', MQLONG a), (''Options'', MQLONG a),
          (''Reserved'', MQLONG a), (''ConnectionArea'', MQPTR)])]"

definition MQCTLO_DEFAULT :: "cinit list" where
  "MQCTLO_DEFAULT =
     [Braces [Expr (Mac ''MQCTLO_STRUC_ID_ARRAY'')], Expr (Mac ''MQCTLO_VERSION_1''),
      Expr (Mac ''MQCTLO_NONE''), Expr (Mac ''MQWI_UNLIMITED''), Expr (Null)]"

definition MQSCO :: "abi \<Rightarrow> (nat \<times> fields) list" where
  "MQSCO a =
     [(1, [(''StrucId'', MQCHAR4), (''Version'', MQLONG a), (''KeyRepository'', MQCHAR256),
          (''CryptoHardware'', MQCHAR256), (''AuthInfoRecCount'', MQLONG a),
          (''AuthInfoRecOffset'', MQLONG a), (''AuthInfoRecPtr'', PMQAIR)]),
      (2, [(''KeyResetCount'', MQLONG a), (''FipsRequired'', MQLONG a)]),
      (3, [(''EncryptionPolicySuiteB'', C_array 4 (MQLONG a))]),
      (4, [(''CertificateValPolicy'', MQLONG a)]),
      (5, [(''CertificateLabel'', MQCHAR64)]),
      (6, [(''KeyRepoPasswordPtr'', MQPTR), (''KeyRepoPasswordOffset'', MQLONG a),
          (''KeyRepoPasswordLength'', MQLONG a)])]"

definition MQSCO_DEFAULT :: "cinit list" where
  "MQSCO_DEFAULT =
     [Braces [Expr (Mac ''MQSCO_STRUC_ID_ARRAY'')], Expr (Mac ''MQSCO_VERSION_1''),
      Braces [Expr (Str '''')], Braces [Expr (Str '''')], Expr (Num 0), Expr (Num 0),
      Expr (Null), Expr (Mac ''MQSCO_RESET_COUNT_DEFAULT''), Expr (Mac ''MQSSL_FIPS_NO''),
      Braces [Expr (Mac ''MQ_SUITE_B_NONE''), Expr (Mac ''MQ_SUITE_B_NOT_AVAILABLE''), Expr (Mac ''MQ_SUITE_B_NOT_AVAILABLE''), Expr (Mac ''MQ_SUITE_B_NOT_AVAILABLE'')],
      Expr (Mac ''MQ_CERT_VAL_POLICY_DEFAULT''), Braces [Expr (Str '''')], Expr (Null),
      Expr (Num 0), Expr (Num 0)]"

definition MQCSP :: "abi \<Rightarrow> (nat \<times> fields) list" where
  "MQCSP a =
     [(1, [(''StrucId'', MQCHAR4), (''Version'', MQLONG a), (''AuthenticationType'', MQLONG a),
          (''Reserved1'', MQBYTE4), (''CSPUserIdPtr'', MQPTR), (''CSPUserIdOffset'', MQLONG a),
          (''CSPUserIdLength'', MQLONG a), (''Reserved2'', MQBYTE8),
          (''CSPPasswordPtr'', MQPTR), (''CSPPasswordOffset'', MQLONG a),
          (''CSPPasswordLength'', MQLONG a)]),
      (2, [(''Reserved3'', MQBYTE8), (''InitialKeyPtr'', MQPTR),
          (''InitialKeyOffset'', MQLONG a), (''InitialKeyLength'', MQLONG a)]),
      (3, [(''Reserved4'', MQBYTE8), (''TokenPtr'', MQPTR), (''TokenOffset'', MQLONG a),
          (''TokenLength'', MQLONG a)])]"

definition MQCSP_DEFAULT :: "cinit list" where
  "MQCSP_DEFAULT =
     [Braces [Expr (Mac ''MQCSP_STRUC_ID_ARRAY'')], Expr (Mac ''MQCSP_VERSION_1''),
      Expr (Mac ''MQCSP_AUTH_NONE''), Braces [Expr (Chars (replicate 4 NUL))], Expr (Null),
      Expr (Num 0), Expr (Num 0), Braces [Expr (Chars (replicate 8 NUL))], Expr (Null),
      Expr (Num 0), Expr (Num 0), Braces [Expr (Chars (replicate 8 NUL))], Expr (Null),
      Expr (Num 0), Expr (Num 0), Braces [Expr (Chars (replicate 8 NUL))], Expr (Null),
      Expr (Num 0), Expr (Num 0)]"

definition MQCNO :: "abi \<Rightarrow> (nat \<times> fields) list" where
  "MQCNO a =
     [(1, [(''StrucId'', MQCHAR4), (''Version'', MQLONG a), (''Options'', MQLONG a)]),
      (2, [(''ClientConnOffset'', MQLONG a), (''ClientConnPtr'', MQPTR)]),
      (3, [(''ConnTag'', MQBYTE128)]),
      (4, [(''SSLConfigPtr'', PMQSCO), (''SSLConfigOffset'', MQLONG a)]),
      (5, [(''ConnectionId'', MQBYTE24), (''SecurityParmsOffset'', MQLONG a),
          (''SecurityParmsPtr'', PMQCSP)]),
      (6, [(''CCDTUrlPtr'', PMQCHAR), (''CCDTUrlOffset'', MQLONG a),
          (''CCDTUrlLength'', MQLONG a), (''Reserved'', MQBYTE8)]),
      (7, [(''ApplName'', MQCHAR28), (''Reserved2'', MQBYTE4)]),
      (8, [(''BalanceParmsPtr'', PMQBNO), (''BalanceParmsOffset'', MQLONG a),
          (''Reserved3'', MQBYTE4)])]"

definition MQCNO_DEFAULT :: "cinit list" where
  "MQCNO_DEFAULT =
     [Braces [Expr (Mac ''MQCNO_STRUC_ID_ARRAY'')], Expr (Mac ''MQCNO_VERSION_1''),
      Expr (Mac ''MQCNO_NONE''), Expr (Num 0), Expr (Null),
      Braces [Expr (Mac ''MQCT_NONE_ARRAY'')], Expr (Null), Expr (Num 0),
      Braces [Expr (Mac ''MQCONNID_NONE_ARRAY'')], Expr (Num 0), Expr (Null), Expr (Null),
      Expr (Num 0), Expr (Num 0), Braces [Expr (Chars (replicate 8 NUL))],
      Braces [Expr (Mac ''MQAN_NONE_ARRAY'')], Braces [Expr (Chars (replicate 4 NUL))],
      Expr (Null), Expr (Num 0), Braces [Expr (Chars (replicate 4 NUL))]]"

definition MQDH :: "abi \<Rightarrow> (nat \<times> fields) list" where
  "MQDH a =
     [(1, [(''StrucId'', MQCHAR4), (''Version'', MQLONG a), (''StrucLength'', MQLONG a),
          (''Encoding'', MQLONG a), (''CodedCharSetId'', MQLONG a), (''Format'', MQCHAR8),
          (''Flags'', MQLONG a), (''PutMsgRecFields'', MQLONG a), (''RecsPresent'', MQLONG a),
          (''ObjectRecOffset'', MQLONG a), (''PutMsgRecOffset'', MQLONG a)])]"

definition MQDH_DEFAULT :: "cinit list" where
  "MQDH_DEFAULT =
     [Braces [Expr (Mac ''MQDH_STRUC_ID_ARRAY'')], Expr (Mac ''MQDH_VERSION_1''), Expr (Num 0),
      Expr (Num 0), Expr (Mac ''MQCCSI_UNDEFINED''), Braces [Expr (Mac ''MQFMT_NONE_ARRAY'')],
      Expr (Mac ''MQDHF_NONE''), Expr (Mac ''MQPMRF_NONE''), Expr (Num 0), Expr (Num 0),
      Expr (Num 0)]"

definition MQDLH :: "abi \<Rightarrow> (nat \<times> fields) list" where
  "MQDLH a =
     [(1, [(''StrucId'', MQCHAR4), (''Version'', MQLONG a), (''Reason'', MQLONG a),
          (''DestQName'', MQCHAR48), (''DestQMgrName'', MQCHAR48), (''Encoding'', MQLONG a),
          (''CodedCharSetId'', MQLONG a), (''Format'', MQCHAR8), (''PutApplType'', MQLONG a),
          (''PutApplName'', MQCHAR28), (''PutDate'', MQCHAR8), (''PutTime'', MQCHAR8)])]"

definition MQDLH_DEFAULT :: "cinit list" where
  "MQDLH_DEFAULT =
     [Braces [Expr (Mac ''MQDLH_STRUC_ID_ARRAY'')], Expr (Mac ''MQDLH_VERSION_1''),
      Expr (Mac ''MQRC_NONE''), Braces [Expr (Str '''')], Braces [Expr (Str '''')],
      Expr (Num 0), Expr (Mac ''MQCCSI_UNDEFINED''), Braces [Expr (Mac ''MQFMT_NONE_ARRAY'')],
      Expr (Num 0), Braces [Expr (Str '''')], Braces [Expr (Str '''')], Braces [Expr (Str '''')]]"

definition MQDMHO :: "abi \<Rightarrow> (nat \<times> fields) list" where
  "MQDMHO a =
     [(1, [(''StrucId'', MQCHAR4), (''Version'', MQLONG a), (''Options'', MQLONG a)])]"

definition MQDMHO_DEFAULT :: "cinit list" where
  "MQDMHO_DEFAULT =
     [Braces [Expr (Mac ''MQDMHO_STRUC_ID_ARRAY'')], Expr (Mac ''MQDMHO_VERSION_1''),
      Expr (Mac ''MQDMHO_NONE'')]"

definition MQDMPO :: "abi \<Rightarrow> (nat \<times> fields) list" where
  "MQDMPO a =
     [(1, [(''StrucId'', MQCHAR4), (''Version'', MQLONG a), (''Options'', MQLONG a)])]"

definition MQDMPO_DEFAULT :: "cinit list" where
  "MQDMPO_DEFAULT =
     [Braces [Expr (Mac ''MQDMPO_STRUC_ID_ARRAY'')], Expr (Mac ''MQDMPO_VERSION_1''),
      Expr (Mac ''MQDMPO_DEL_FIRST'')]"

definition MQGMO :: "abi \<Rightarrow> (nat \<times> fields) list" where
  "MQGMO a =
     [(1, [(''StrucId'', MQCHAR4), (''Version'', MQLONG a), (''Options'', MQLONG a),
          (''WaitInterval'', MQLONG a), (''Signal1'', MQLONG a), (''Signal2'', MQLONG a),
          (''ResolvedQName'', MQCHAR48)]),
      (2, [(''MatchOptions'', MQLONG a), (''GroupStatus'', MQCHAR), (''SegmentStatus'', MQCHAR),
          (''Segmentation'', MQCHAR), (''Reserved1'', MQCHAR)]),
      (3, [(''MsgToken'', MQBYTE16), (''ReturnedLength'', MQLONG a)]),
      (4, [(''Reserved2'', MQLONG a), (''MsgHandle'', MQHMSG a)])]"

definition MQGMO_DEFAULT :: "cinit list" where
  "MQGMO_DEFAULT =
     [Braces [Expr (Mac ''MQGMO_STRUC_ID_ARRAY'')], Expr (Mac ''MQGMO_VERSION_1''),
      Expr (Plus (Mac ''MQGMO_NO_WAIT'') (Mac ''MQGMO_PROPERTIES_AS_Q_DEF'')), Expr (Num 0),
      Expr (Num 0), Expr (Num 0), Braces [Expr (Str '''')],
      Expr (Plus (Mac ''MQMO_MATCH_MSG_ID'') (Mac ''MQMO_MATCH_CORREL_ID'')),
      Expr (Mac ''MQGS_NOT_IN_GROUP''), Expr (Mac ''MQSS_NOT_A_SEGMENT''),
      Expr (Mac ''MQSEG_INHIBITED''), Expr (Chars '' ''),
      Braces [Expr (Mac ''MQMTOK_NONE_ARRAY'')], Expr (Mac ''MQRL_UNDEFINED''), Expr (Num 0),
      Expr (Mac ''MQHM_NONE'')]"

definition MQIIH :: "abi \<Rightarrow> (nat \<times> fields) list" where
  "MQIIH a =
     [(1, [(''StrucId'', MQCHAR4), (''Version'', MQLONG a), (''StrucLength'', MQLONG a),
          (''Encoding'', MQLONG a), (''CodedCharSetId'', MQLONG a), (''Format'', MQCHAR8),
          (''Flags'', MQLONG a), (''LTermOverride'', MQCHAR8), (''MFSMapName'', MQCHAR8),
          (''ReplyToFormat'', MQCHAR8), (''Authenticator'', MQCHAR8),
          (''TranInstanceId'', MQBYTE16), (''TranState'', MQCHAR), (''CommitMode'', MQCHAR),
          (''SecurityScope'', MQCHAR), (''Reserved'', MQCHAR)])]"

definition MQIIH_DEFAULT :: "cinit list" where
  "MQIIH_DEFAULT =
     [Braces [Expr (Mac ''MQIIH_STRUC_ID_ARRAY'')], Expr (Mac ''MQIIH_VERSION_1''),
      Expr (Mac ''MQIIH_LENGTH_1''), Expr (Num 0), Expr (Num 0),
      Braces [Expr (Mac ''MQFMT_NONE_ARRAY'')], Expr (Mac ''MQIIH_NONE''),
      Braces [Expr (Chars ''        '')], Braces [Expr (Chars ''        '')],
      Braces [Expr (Mac ''MQFMT_NONE_ARRAY'')], Braces [Expr (Mac ''MQIAUT_NONE_ARRAY'')],
      Braces [Expr (Mac ''MQITII_NONE_ARRAY'')], Expr (Mac ''MQITS_NOT_IN_CONVERSATION''),
      Expr (Mac ''MQICM_COMMIT_THEN_SEND''), Expr (Mac ''MQISS_CHECK''), Expr (Chars '' '')]"

definition MQIMPO :: "abi \<Rightarrow> (nat \<times> fields) list" where
  "MQIMPO a =
     [(1, [(''StrucId'', MQCHAR4), (''Version'', MQLONG a), (''Options'', MQLONG a),
          (''RequestedEncoding'', MQLONG a), (''RequestedCCSID'', MQLONG a),
          (''ReturnedEncoding'', MQLONG a), (''ReturnedCCSID'', MQLONG a),
          (''Reserved1'', MQLONG a), (''ReturnedName'', C_struct (members (MQCHARV a))),
          (''TypeString'', MQCHAR8)])]"

definition MQIMPO_DEFAULT :: "cinit list" where
  "MQIMPO_DEFAULT =
     [Braces [Expr (Mac ''MQIMPO_STRUC_ID_ARRAY'')], Expr (Mac ''MQIMPO_VERSION_1''),
      Expr (Mac ''MQIMPO_INQ_FIRST''), Expr (Mac ''MQENC_NATIVE''), Expr (Mac ''MQCCSI_APPL''),
      Expr (Mac ''MQENC_NATIVE''), Expr (Num 0), Expr (Num 0), Braces MQCHARV_DEFAULT,
      Braces [Expr (Str '''')]]"

definition MQMD :: "abi \<Rightarrow> (nat \<times> fields) list" where
  "MQMD a =
     [(1, [(''StrucId'', MQCHAR4), (''Version'', MQLONG a), (''Report'', MQLONG a),
          (''MsgType'', MQLONG a), (''Expiry'', MQLONG a), (''Feedback'', MQLONG a),
          (''Encoding'', MQLONG a), (''CodedCharSetId'', MQLONG a), (''Format'', MQCHAR8),
          (''Priority'', MQLONG a), (''Persistence'', MQLONG a), (''MsgId'', MQBYTE24),
          (''CorrelId'', MQBYTE24), (''BackoutCount'', MQLONG a), (''ReplyToQ'', MQCHAR48),
          (''ReplyToQMgr'', MQCHAR48), (''UserIdentifier'', MQCHAR12),
          (''AccountingToken'', MQBYTE32), (''ApplIdentityData'', MQCHAR32),
          (''PutApplType'', MQLONG a), (''PutApplName'', MQCHAR28), (''PutDate'', MQCHAR8),
          (''PutTime'', MQCHAR8), (''ApplOriginData'', MQCHAR4)]),
      (2, [(''GroupId'', MQBYTE24), (''MsgSeqNumber'', MQLONG a), (''Offset'', MQLONG a),
          (''MsgFlags'', MQLONG a), (''OriginalLength'', MQLONG a)])]"

definition MQMD_DEFAULT :: "cinit list" where
  "MQMD_DEFAULT =
     [Braces [Expr (Mac ''MQMD_STRUC_ID_ARRAY'')], Expr (Mac ''MQMD_VERSION_1''),
      Expr (Mac ''MQRO_NONE''), Expr (Mac ''MQMT_DATAGRAM''), Expr (Mac ''MQEI_UNLIMITED''),
      Expr (Mac ''MQFB_NONE''), Expr (Mac ''MQENC_NATIVE''), Expr (Mac ''MQCCSI_Q_MGR''),
      Braces [Expr (Mac ''MQFMT_NONE_ARRAY'')], Expr (Mac ''MQPRI_PRIORITY_AS_Q_DEF''),
      Expr (Mac ''MQPER_PERSISTENCE_AS_Q_DEF''), Braces [Expr (Mac ''MQMI_NONE_ARRAY'')],
      Braces [Expr (Mac ''MQCI_NONE_ARRAY'')], Expr (Num 0), Braces [Expr (Str '''')],
      Braces [Expr (Str '''')], Braces [Expr (Str '''')],
      Braces [Expr (Mac ''MQACT_NONE_ARRAY'')], Braces [Expr (Str '''')],
      Expr (Mac ''MQAT_NO_CONTEXT''), Braces [Expr (Str '''')], Braces [Expr (Str '''')],
      Braces [Expr (Str '''')], Braces [Expr (Str '''')],
      Braces [Expr (Mac ''MQGI_NONE_ARRAY'')], Expr (Num 1), Expr (Num 0),
      Expr (Mac ''MQMF_NONE''), Expr (Mac ''MQOL_UNDEFINED'')]"

definition MQMDE :: "abi \<Rightarrow> (nat \<times> fields) list" where
  "MQMDE a =
     [(2, [(''StrucId'', MQCHAR4), (''Version'', MQLONG a), (''StrucLength'', MQLONG a),
          (''Encoding'', MQLONG a), (''CodedCharSetId'', MQLONG a), (''Format'', MQCHAR8),
          (''Flags'', MQLONG a), (''GroupId'', MQBYTE24), (''MsgSeqNumber'', MQLONG a),
          (''Offset'', MQLONG a), (''MsgFlags'', MQLONG a), (''OriginalLength'', MQLONG a)])]"

definition MQMDE_DEFAULT :: "cinit list" where
  "MQMDE_DEFAULT =
     [Braces [Expr (Mac ''MQMDE_STRUC_ID_ARRAY'')], Expr (Mac ''MQMDE_VERSION_2''),
      Expr (Mac ''MQMDE_LENGTH_2''), Expr (Mac ''MQENC_NATIVE''),
      Expr (Mac ''MQCCSI_UNDEFINED''), Braces [Expr (Mac ''MQFMT_NONE_ARRAY'')],
      Expr (Mac ''MQMDEF_NONE''), Braces [Expr (Mac ''MQGI_NONE_ARRAY'')], Expr (Num 1),
      Expr (Num 0), Expr (Mac ''MQMF_NONE''), Expr (Mac ''MQOL_UNDEFINED'')]"

definition MQMD1 :: "abi \<Rightarrow> (nat \<times> fields) list" where
  "MQMD1 a =
     [(1, [(''StrucId'', MQCHAR4), (''Version'', MQLONG a), (''Report'', MQLONG a),
          (''MsgType'', MQLONG a), (''Expiry'', MQLONG a), (''Feedback'', MQLONG a),
          (''Encoding'', MQLONG a), (''CodedCharSetId'', MQLONG a), (''Format'', MQCHAR8),
          (''Priority'', MQLONG a), (''Persistence'', MQLONG a), (''MsgId'', MQBYTE24),
          (''CorrelId'', MQBYTE24), (''BackoutCount'', MQLONG a), (''ReplyToQ'', MQCHAR48),
          (''ReplyToQMgr'', MQCHAR48), (''UserIdentifier'', MQCHAR12),
          (''AccountingToken'', MQBYTE32), (''ApplIdentityData'', MQCHAR32),
          (''PutApplType'', MQLONG a), (''PutApplName'', MQCHAR28), (''PutDate'', MQCHAR8),
          (''PutTime'', MQCHAR8), (''ApplOriginData'', MQCHAR4)])]"

definition MQMD1_DEFAULT :: "cinit list" where
  "MQMD1_DEFAULT =
     [Braces [Expr (Mac ''MQMD_STRUC_ID_ARRAY'')], Expr (Mac ''MQMD_VERSION_1''),
      Expr (Mac ''MQRO_NONE''), Expr (Mac ''MQMT_DATAGRAM''), Expr (Mac ''MQEI_UNLIMITED''),
      Expr (Mac ''MQFB_NONE''), Expr (Mac ''MQENC_NATIVE''), Expr (Mac ''MQCCSI_Q_MGR''),
      Braces [Expr (Mac ''MQFMT_NONE_ARRAY'')], Expr (Mac ''MQPRI_PRIORITY_AS_Q_DEF''),
      Expr (Mac ''MQPER_PERSISTENCE_AS_Q_DEF''), Braces [Expr (Mac ''MQMI_NONE_ARRAY'')],
      Braces [Expr (Mac ''MQCI_NONE_ARRAY'')], Expr (Num 0), Braces [Expr (Str '''')],
      Braces [Expr (Str '''')], Braces [Expr (Str '''')],
      Braces [Expr (Mac ''MQACT_NONE_ARRAY'')], Braces [Expr (Str '''')],
      Expr (Mac ''MQAT_NO_CONTEXT''), Braces [Expr (Str '''')], Braces [Expr (Str '''')],
      Braces [Expr (Str '''')], Braces [Expr (Str '''')]]"

definition MQMD2 :: "abi \<Rightarrow> (nat \<times> fields) list" where
  "MQMD2 a =
     [(1, [(''StrucId'', MQCHAR4), (''Version'', MQLONG a), (''Report'', MQLONG a),
          (''MsgType'', MQLONG a), (''Expiry'', MQLONG a), (''Feedback'', MQLONG a),
          (''Encoding'', MQLONG a), (''CodedCharSetId'', MQLONG a), (''Format'', MQCHAR8),
          (''Priority'', MQLONG a), (''Persistence'', MQLONG a), (''MsgId'', MQBYTE24),
          (''CorrelId'', MQBYTE24), (''BackoutCount'', MQLONG a), (''ReplyToQ'', MQCHAR48),
          (''ReplyToQMgr'', MQCHAR48), (''UserIdentifier'', MQCHAR12),
          (''AccountingToken'', MQBYTE32), (''ApplIdentityData'', MQCHAR32),
          (''PutApplType'', MQLONG a), (''PutApplName'', MQCHAR28), (''PutDate'', MQCHAR8),
          (''PutTime'', MQCHAR8), (''ApplOriginData'', MQCHAR4)]),
      (2, [(''GroupId'', MQBYTE24), (''MsgSeqNumber'', MQLONG a), (''Offset'', MQLONG a),
          (''MsgFlags'', MQLONG a), (''OriginalLength'', MQLONG a)])]"

definition MQMD2_DEFAULT :: "cinit list" where
  "MQMD2_DEFAULT =
     [Braces [Expr (Mac ''MQMD_STRUC_ID_ARRAY'')], Expr (Mac ''MQMD_VERSION_2''),
      Expr (Mac ''MQRO_NONE''), Expr (Mac ''MQMT_DATAGRAM''), Expr (Mac ''MQEI_UNLIMITED''),
      Expr (Mac ''MQFB_NONE''), Expr (Mac ''MQENC_NATIVE''), Expr (Mac ''MQCCSI_Q_MGR''),
      Braces [Expr (Mac ''MQFMT_NONE_ARRAY'')], Expr (Mac ''MQPRI_PRIORITY_AS_Q_DEF''),
      Expr (Mac ''MQPER_PERSISTENCE_AS_Q_DEF''), Braces [Expr (Mac ''MQMI_NONE_ARRAY'')],
      Braces [Expr (Mac ''MQCI_NONE_ARRAY'')], Expr (Num 0), Braces [Expr (Str '''')],
      Braces [Expr (Str '''')], Braces [Expr (Str '''')],
      Braces [Expr (Mac ''MQACT_NONE_ARRAY'')], Braces [Expr (Str '''')],
      Expr (Mac ''MQAT_NO_CONTEXT''), Braces [Expr (Str '''')], Braces [Expr (Str '''')],
      Braces [Expr (Str '''')], Braces [Expr (Str '''')],
      Braces [Expr (Mac ''MQGI_NONE_ARRAY'')], Expr (Num 1), Expr (Num 0),
      Expr (Mac ''MQMF_NONE''), Expr (Mac ''MQOL_UNDEFINED'')]"

definition MQMHBO :: "abi \<Rightarrow> (nat \<times> fields) list" where
  "MQMHBO a =
     [(1, [(''StrucId'', MQCHAR4), (''Version'', MQLONG a), (''Options'', MQLONG a)])]"

definition MQMHBO_DEFAULT :: "cinit list" where
  "MQMHBO_DEFAULT =
     [Braces [Expr (Mac ''MQMHBO_STRUC_ID_ARRAY'')], Expr (Mac ''MQMHBO_VERSION_1''),
      Expr (Mac ''MQMHBO_PROPERTIES_IN_MQRFH2'')]"

definition MQOD :: "abi \<Rightarrow> (nat \<times> fields) list" where
  "MQOD a =
     [(1, [(''StrucId'', MQCHAR4), (''Version'', MQLONG a), (''ObjectType'', MQLONG a),
          (''ObjectName'', MQCHAR48), (''ObjectQMgrName'', MQCHAR48),
          (''DynamicQName'', MQCHAR48), (''AlternateUserId'', MQCHAR12)]),
      (2, [(''RecsPresent'', MQLONG a), (''KnownDestCount'', MQLONG a),
          (''UnknownDestCount'', MQLONG a), (''InvalidDestCount'', MQLONG a),
          (''ObjectRecOffset'', MQLONG a), (''ResponseRecOffset'', MQLONG a),
          (''ObjectRecPtr'', MQPTR), (''ResponseRecPtr'', MQPTR)]),
      (3, [(''AlternateSecurityId'', MQBYTE40), (''ResolvedQName'', MQCHAR48),
          (''ResolvedQMgrName'', MQCHAR48)]),
      (4, [(''ObjectString'', C_struct (members (MQCHARV a))),
          (''SelectionString'', C_struct (members (MQCHARV a))),
          (''ResObjectString'', C_struct (members (MQCHARV a))), (''ResolvedType'', MQLONG a)])]"

definition MQOD_DEFAULT :: "cinit list" where
  "MQOD_DEFAULT =
     [Braces [Expr (Mac ''MQOD_STRUC_ID_ARRAY'')], Expr (Mac ''MQOD_VERSION_1''),
      Expr (Mac ''MQOT_Q''), Braces [Expr (Str '''')], Braces [Expr (Str '''')],
      Braces [Expr (Str ''AMQ.*'')], Braces [Expr (Str '''')], Expr (Num 0), Expr (Num 0),
      Expr (Num 0), Expr (Num 0), Expr (Num 0), Expr (Num 0), Expr (Null), Expr (Null),
      Braces [Expr (Mac ''MQSID_NONE_ARRAY'')], Braces [Expr (Str '''')],
      Braces [Expr (Str '''')], Braces MQCHARV_DEFAULT, Braces MQCHARV_DEFAULT,
      Braces MQCHARV_DEFAULT, Expr (Mac ''MQOT_NONE'')]"

definition MQOR :: "abi \<Rightarrow> (nat \<times> fields) list" where
  "MQOR a =
     [(1, [(''ObjectName'', MQCHAR48), (''ObjectQMgrName'', MQCHAR48)])]"

definition MQOR_DEFAULT :: "cinit list" where
  "MQOR_DEFAULT =
     [Braces [Expr (Str '''')], Braces [Expr (Str '''')]]"

definition MQPD :: "abi \<Rightarrow> (nat \<times> fields) list" where
  "MQPD a =
     [(1, [(''StrucId'', MQCHAR4), (''Version'', MQLONG a), (''Options'', MQLONG a),
          (''Support'', MQLONG a), (''Context'', MQLONG a), (''CopyOptions'', MQLONG a)])]"

definition MQPD_DEFAULT :: "cinit list" where
  "MQPD_DEFAULT =
     [Braces [Expr (Mac ''MQPD_STRUC_ID_ARRAY'')], Expr (Mac ''MQPD_VERSION_1''),
      Expr (Mac ''MQPD_NONE''), Expr (Mac ''MQPD_SUPPORT_OPTIONAL''),
      Expr (Mac ''MQPD_NO_CONTEXT''), Expr (Mac ''MQCOPY_DEFAULT'')]"

definition MQPMO :: "abi \<Rightarrow> (nat \<times> fields) list" where
  "MQPMO a =
     [(1, [(''StrucId'', MQCHAR4), (''Version'', MQLONG a), (''Options'', MQLONG a),
          (''Timeout'', MQLONG a), (''Context'', MQHOBJ a), (''KnownDestCount'', MQLONG a),
          (''UnknownDestCount'', MQLONG a), (''InvalidDestCount'', MQLONG a),
          (''ResolvedQName'', MQCHAR48), (''ResolvedQMgrName'', MQCHAR48)]),
      (2, [(''RecsPresent'', MQLONG a), (''PutMsgRecFields'', MQLONG a),
          (''PutMsgRecOffset'', MQLONG a), (''ResponseRecOffset'', MQLONG a),
          (''PutMsgRecPtr'', MQPTR), (''ResponseRecPtr'', MQPTR)]),
      (3, [(''OriginalMsgHandle'', MQHMSG a), (''NewMsgHandle'', MQHMSG a),
          (''Action'', MQLONG a), (''PubLevel'', MQLONG a)])]"

definition MQPMO_DEFAULT :: "cinit list" where
  "MQPMO_DEFAULT =
     [Braces [Expr (Mac ''MQPMO_STRUC_ID_ARRAY'')], Expr (Mac ''MQPMO_VERSION_1''),
      Expr (Mac ''MQPMO_NONE''), Expr (Num (- 1)), Expr (Num 0), Expr (Num 0), Expr (Num 0),
      Expr (Num 0), Braces [Expr (Str '''')], Braces [Expr (Str '''')], Expr (Num 0),
      Expr (Mac ''MQPMRF_NONE''), Expr (Num 0), Expr (Num 0), Expr (Null), Expr (Null),
      Expr (Mac ''MQHM_NONE''), Expr (Mac ''MQHM_NONE''), Expr (Mac ''MQACTP_NEW''),
      Expr (Num 9)]"

definition MQRFH :: "abi \<Rightarrow> (nat \<times> fields) list" where
  "MQRFH a =
     [(1, [(''StrucId'', MQCHAR4), (''Version'', MQLONG a), (''StrucLength'', MQLONG a),
          (''Encoding'', MQLONG a), (''CodedCharSetId'', MQLONG a), (''Format'', MQCHAR8),
          (''Flags'', MQLONG a)])]"

definition MQRFH_DEFAULT :: "cinit list" where
  "MQRFH_DEFAULT =
     [Braces [Expr (Mac ''MQRFH_STRUC_ID_ARRAY'')], Expr (Mac ''MQRFH_VERSION_1''),
      Expr (Mac ''MQRFH_STRUC_LENGTH_FIXED''), Expr (Mac ''MQENC_NATIVE''),
      Expr (Mac ''MQCCSI_UNDEFINED''), Braces [Expr (Mac ''MQFMT_NONE_ARRAY'')],
      Expr (Mac ''MQRFH_NONE'')]"

definition MQRFH2 :: "abi \<Rightarrow> (nat \<times> fields) list" where
  "MQRFH2 a =
     [(2, [(''StrucId'', MQCHAR4), (''Version'', MQLONG a), (''StrucLength'', MQLONG a),
          (''Encoding'', MQLONG a), (''CodedCharSetId'', MQLONG a), (''Format'', MQCHAR8),
          (''Flags'', MQLONG a), (''NameValueCCSID'', MQLONG a)])]"

definition MQRFH2_DEFAULT :: "cinit list" where
  "MQRFH2_DEFAULT =
     [Braces [Expr (Mac ''MQRFH_STRUC_ID_ARRAY'')], Expr (Mac ''MQRFH_VERSION_2''),
      Expr (Mac ''MQRFH_STRUC_LENGTH_FIXED_2''), Expr (Mac ''MQENC_NATIVE''),
      Expr (Mac ''MQCCSI_INHERIT''), Braces [Expr (Mac ''MQFMT_NONE_ARRAY'')],
      Expr (Mac ''MQRFH_NONE''), Expr (Num 1208)]"

definition MQRMH :: "abi \<Rightarrow> (nat \<times> fields) list" where
  "MQRMH a =
     [(1, [(''StrucId'', MQCHAR4), (''Version'', MQLONG a), (''StrucLength'', MQLONG a),
          (''Encoding'', MQLONG a), (''CodedCharSetId'', MQLONG a), (''Format'', MQCHAR8),
          (''Flags'', MQLONG a), (''ObjectType'', MQCHAR8), (''ObjectInstanceId'', MQBYTE24),
          (''SrcEnvLength'', MQLONG a), (''SrcEnvOffset'', MQLONG a),
          (''SrcNameLength'', MQLONG a), (''SrcNameOffset'', MQLONG a),
          (''DestEnvLength'', MQLONG a), (''DestEnvOffset'', MQLONG a),
          (''DestNameLength'', MQLONG a), (''DestNameOffset'', MQLONG a),
          (''DataLogicalLength'', MQLONG a), (''DataLogicalOffset'', MQLONG a),
          (''DataLogicalOffset2'', MQLONG a)])]"

definition MQRMH_DEFAULT :: "cinit list" where
  "MQRMH_DEFAULT =
     [Braces [Expr (Mac ''MQRMH_STRUC_ID_ARRAY'')], Expr (Mac ''MQRMH_VERSION_1''),
      Expr (Num 0), Expr (Mac ''MQENC_NATIVE''), Expr (Mac ''MQCCSI_UNDEFINED''),
      Braces [Expr (Mac ''MQFMT_NONE_ARRAY'')], Expr (Mac ''MQRMHF_NOT_LAST''),
      Braces [Expr (Chars ''        '')], Braces [Expr (Mac ''MQOII_NONE_ARRAY'')],
      Expr (Num 0), Expr (Num 0), Expr (Num 0), Expr (Num 0), Expr (Num 0), Expr (Num 0),
      Expr (Num 0), Expr (Num 0), Expr (Num 0), Expr (Num 0), Expr (Num 0)]"

definition MQRR :: "abi \<Rightarrow> (nat \<times> fields) list" where
  "MQRR a =
     [(1, [(''CompCode'', MQLONG a), (''Reason'', MQLONG a)])]"

definition MQRR_DEFAULT :: "cinit list" where
  "MQRR_DEFAULT =
     [Expr (Mac ''MQCC_OK''), Expr (Mac ''MQRC_NONE'')]"

definition MQSD :: "abi \<Rightarrow> (nat \<times> fields) list" where
  "MQSD a =
     [(1, [(''StrucId'', MQCHAR4), (''Version'', MQLONG a), (''Options'', MQLONG a),
          (''ObjectName'', MQCHAR48), (''AlternateUserId'', MQCHAR12),
          (''AlternateSecurityId'', MQBYTE40), (''SubExpiry'', MQLONG a),
          (''ObjectString'', C_struct (members (MQCHARV a))),
          (''SubName'', C_struct (members (MQCHARV a))),
          (''SubUserData'', C_struct (members (MQCHARV a))), (''SubCorrelId'', MQBYTE24),
          (''PubPriority'', MQLONG a), (''PubAccountingToken'', MQBYTE32),
          (''PubApplIdentityData'', MQCHAR32),
          (''SelectionString'', C_struct (members (MQCHARV a))), (''SubLevel'', MQLONG a),
          (''ResObjectString'', C_struct (members (MQCHARV a)))])]"

definition MQSD_DEFAULT :: "cinit list" where
  "MQSD_DEFAULT =
     [Braces [Expr (Mac ''MQSD_STRUC_ID_ARRAY'')], Expr (Mac ''MQSD_VERSION_1''), Expr (Num 0),
      Braces [Expr (Str '''')], Braces [Expr (Str '''')],
      Braces [Expr (Mac ''MQSID_NONE_ARRAY'')], Expr (Mac ''MQEI_UNLIMITED''),
      Braces MQCHARV_DEFAULT, Braces MQCHARV_DEFAULT, Braces MQCHARV_DEFAULT,
      Braces [Expr (Mac ''MQCI_NONE_ARRAY'')], Expr (Mac ''MQPRI_PRIORITY_AS_PUBLISHED''),
      Braces [Expr (Mac ''MQACT_NONE_ARRAY'')], Braces [Expr (Str '''')],
      Braces MQCHARV_DEFAULT, Expr (Num 1), Braces MQCHARV_DEFAULT]"

definition MQSMPO :: "abi \<Rightarrow> (nat \<times> fields) list" where
  "MQSMPO a =
     [(1, [(''StrucId'', MQCHAR4), (''Version'', MQLONG a), (''Options'', MQLONG a),
          (''ValueEncoding'', MQLONG a), (''ValueCCSID'', MQLONG a)])]"

definition MQSMPO_DEFAULT :: "cinit list" where
  "MQSMPO_DEFAULT =
     [Braces [Expr (Mac ''MQSMPO_STRUC_ID_ARRAY'')], Expr (Mac ''MQSMPO_VERSION_1''),
      Expr (Mac ''MQSMPO_SET_FIRST''), Expr (Mac ''MQENC_NATIVE''), Expr (Mac ''MQCCSI_APPL'')]"

definition MQSRO :: "abi \<Rightarrow> (nat \<times> fields) list" where
  "MQSRO a =
     [(1, [(''StrucId'', MQCHAR4), (''Version'', MQLONG a), (''Options'', MQLONG a),
          (''NumPubs'', MQLONG a)])]"

definition MQSRO_DEFAULT :: "cinit list" where
  "MQSRO_DEFAULT =
     [Braces [Expr (Mac ''MQSRO_STRUC_ID_ARRAY'')], Expr (Mac ''MQSRO_VERSION_1''),
      Expr (Num 0), Expr (Num 0)]"

definition MQSTS :: "abi \<Rightarrow> (nat \<times> fields) list" where
  "MQSTS a =
     [(1, [(''StrucId'', MQCHAR4), (''Version'', MQLONG a), (''CompCode'', MQLONG a),
          (''Reason'', MQLONG a), (''PutSuccessCount'', MQLONG a),
          (''PutWarningCount'', MQLONG a), (''PutFailureCount'', MQLONG a),
          (''ObjectType'', MQLONG a), (''ObjectName'', MQCHAR48),
          (''ObjectQMgrName'', MQCHAR48), (''ResolvedObjectName'', MQCHAR48),
          (''ResolvedQMgrName'', MQCHAR48)]),
      (2, [(''ObjectString'', C_struct (members (MQCHARV a))),
          (''SubName'', C_struct (members (MQCHARV a))), (''OpenOptions'', MQLONG a),
          (''SubOptions'', MQLONG a)])]"

definition MQSTS_DEFAULT :: "cinit list" where
  "MQSTS_DEFAULT =
     [Braces [Expr (Mac ''MQSTS_STRUC_ID_ARRAY'')], Expr (Mac ''MQSTS_VERSION_1''),
      Expr (Num 0), Expr (Num 0), Expr (Num 0), Expr (Mac ''MQCC_OK''),
      Expr (Mac ''MQRC_NONE''), Expr (Mac ''MQOT_Q''), Braces [Expr (Str '''')],
      Braces [Expr (Str '''')], Braces [Expr (Str '''')], Braces [Expr (Str '''')],
      Braces MQCHARV_DEFAULT, Braces MQCHARV_DEFAULT, Expr (Num 0), Expr (Num 0)]"

definition MQTM :: "abi \<Rightarrow> (nat \<times> fields) list" where
  "MQTM a =
     [(1, [(''StrucId'', MQCHAR4), (''Version'', MQLONG a), (''QName'', MQCHAR48),
          (''ProcessName'', MQCHAR48), (''TriggerData'', MQCHAR64), (''ApplType'', MQLONG a),
          (''ApplId'', MQCHAR256), (''EnvData'', MQCHAR128), (''UserData'', MQCHAR128)])]"

definition MQTM_DEFAULT :: "cinit list" where
  "MQTM_DEFAULT =
     [Braces [Expr (Mac ''MQTM_STRUC_ID_ARRAY'')], Expr (Mac ''MQTM_VERSION_1''),
      Braces [Expr (Str '''')], Braces [Expr (Str '''')], Braces [Expr (Str '''')],
      Expr (Num 0), Braces [Expr (Str '''')], Braces [Expr (Str '''')], Braces [Expr (Str '''')]]"

definition MQTMC2 :: "abi \<Rightarrow> (nat \<times> fields) list" where
  "MQTMC2 a =
     [(1, [(''StrucId'', MQCHAR4), (''Version'', MQCHAR4), (''QName'', MQCHAR48),
          (''ProcessName'', MQCHAR48), (''TriggerData'', MQCHAR64), (''ApplType'', MQCHAR4),
          (''ApplId'', MQCHAR256), (''EnvData'', MQCHAR128), (''UserData'', MQCHAR128)]),
      (2, [(''QMgrName'', MQCHAR48)])]"

definition MQTMC2_DEFAULT :: "cinit list" where
  "MQTMC2_DEFAULT =
     [Braces [Expr (Mac ''MQTMC_STRUC_ID_ARRAY'')],
      Braces [Expr (Mac ''MQTMC_VERSION_2_ARRAY'')], Braces [Expr (Str '''')],
      Braces [Expr (Str '''')], Braces [Expr (Str '''')], Braces [Expr (Str '''')],
      Braces [Expr (Str '''')], Braces [Expr (Str '''')], Braces [Expr (Str '''')],
      Braces [Expr (Str '''')]]"

definition MQWIH :: "abi \<Rightarrow> (nat \<times> fields) list" where
  "MQWIH a =
     [(1, [(''StrucId'', MQCHAR4), (''Version'', MQLONG a), (''StrucLength'', MQLONG a),
          (''Encoding'', MQLONG a), (''CodedCharSetId'', MQLONG a), (''Format'', MQCHAR8),
          (''Flags'', MQLONG a), (''ServiceName'', MQCHAR32), (''ServiceStep'', MQCHAR8),
          (''MsgToken'', MQBYTE16), (''Reserved'', MQCHAR32)])]"

definition MQWIH_DEFAULT :: "cinit list" where
  "MQWIH_DEFAULT =
     [Braces [Expr (Mac ''MQWIH_STRUC_ID_ARRAY'')], Expr (Mac ''MQWIH_VERSION_1''),
      Expr (Mac ''MQWIH_LENGTH_1''), Expr (Num 0), Expr (Mac ''MQCCSI_UNDEFINED''),
      Braces [Expr (Mac ''MQFMT_NONE_ARRAY'')], Expr (Mac ''MQWIH_NONE''),
      Braces [Expr (Chars ''                                '')],
      Braces [Expr (Chars ''        '')], Braces [Expr (Mac ''MQMTOK_NONE_ARRAY'')],
      Braces [Expr (Chars ''                                '')]]"

definition MQXQH :: "abi \<Rightarrow> (nat \<times> fields) list" where
  "MQXQH a =
     [(1, [(''StrucId'', MQCHAR4), (''Version'', MQLONG a), (''RemoteQName'', MQCHAR48),
          (''RemoteQMgrName'', MQCHAR48), (''MsgDesc'', C_struct (members (MQMD1 a)))])]"

definition MQXQH_DEFAULT :: "cinit list" where
  "MQXQH_DEFAULT =
     [Braces [Expr (Mac ''MQXQH_STRUC_ID_ARRAY'')], Expr (Mac ''MQXQH_VERSION_1''),
      Braces [Expr (Str '''')], Braces [Expr (Str '''')], Braces MQMD1_DEFAULT]"

end
