(* ===== verification/Mqi_Values_A.thy ===== *)
theory Mqi_Values_A
  imports C_Init
begin

text \<open>
  The value macros of \<open>cmqc.h\<close>, one table per "Values Related to" section in the order
  of the header: MQAIR to MQIMPO, and the few groups of the later sections the structure
  initializers name.
\<close>

definition MQCC_values :: "abi \<Rightarrow> macros" where
  "MQCC_values a =
     [(''MQCC_OK'', Num 0), (''MQCC_WARNING'', Num 1), (''MQCC_FAILED'', Num 2),
      (''MQCC_UNKNOWN'', Num (- 1))]"

definition MQSSL_FIPS_values :: "abi \<Rightarrow> macros" where
  "MQSSL_FIPS_values a =
     [(''MQSSL_FIPS_NO'', Num 0), (''MQSSL_FIPS_YES'', Num 1)]"

definition MQHM_values :: "abi \<Rightarrow> macros" where
  "MQHM_values a =
     [(''MQHM_UNUSABLE_HMSG'', Num (- 1)), (''MQHM_NONE'', Num 0)]"

definition MQAIR_values :: "abi \<Rightarrow> macros" where
  "MQAIR_values a =
     [(''MQAIR_STRUC_ID'', Str ''AIR ''), (''MQAIR_STRUC_ID_ARRAY'', Chars ''AIR ''),
      (''MQAIR_VERSION_1'', Num 1), (''MQAIR_VERSION_2'', Num 2),
      (''MQAIR_CURRENT_VERSION'', Num 2), (''MQAIR_LENGTH_1'', Num (by_abi a 328 320)),
      (''MQAIR_LENGTH_2'', Num (by_abi a 584 576)),
      (''MQAIR_CURRENT_LENGTH'', Num (by_abi a 584 576)), (''MQAIT_ALL'', Num 0),
      (''MQAIT_CRL_LDAP'', Num 1), (''MQAIT_OCSP'', Num 2), (''MQAIT_IDPW_OS'', Num 3),
      (''MQAIT_IDPW_LDAP'', Num 4)]"

definition MQBNO_values :: "abi \<Rightarrow> macros" where
  "MQBNO_values a =
     [(''MQBNO_STRUC_ID'', Str ''BNO ''), (''MQBNO_STRUC_ID_ARRAY'', Chars ''BNO ''),
      (''MQBNO_VERSION_1'', Num 1), (''MQBNO_CURRENT_VERSION'', Num 1),
      (''MQBNO_LENGTH_1'', Num 20), (''MQBNO_CURRENT_LENGTH'', Num 20),
      (''MQBNO_OPTIONS_NONE'', Num 0), (''MQBNO_OPTIONS_IGNORE_TRANS'', Num 1),
      (''MQBNO_BALTYPE_SIMPLE'', Num 0), (''MQBNO_BALTYPE_REQREP'', Num 1),
      (''MQBNO_BALTYPE_RA_MANAGED'', Num 65536), (''MQBNO_TIMEOUT_AS_DEFAULT'', Num (- 1)),
      (''MQBNO_TIMEOUT_IMMEDIATE'', Num 0), (''MQBNO_TIMEOUT_NEVER'', Num (- 2))]"

definition MQBMHO_values :: "abi \<Rightarrow> macros" where
  "MQBMHO_values a =
     [(''MQBMHO_STRUC_ID'', Str ''BMHO''), (''MQBMHO_STRUC_ID_ARRAY'', Chars ''BMHO''),
      (''MQBMHO_VERSION_1'', Num 1), (''MQBMHO_CURRENT_VERSION'', Num 1),
      (''MQBMHO_LENGTH_1'', Num 12), (''MQBMHO_CURRENT_LENGTH'', Num 12),
      (''MQBMHO_NONE'', Num 0), (''MQBMHO_DELETE_PROPERTIES'', Num 1)]"

definition MQBO_values :: "abi \<Rightarrow> macros" where
  "MQBO_values a =
     [(''MQBO_STRUC_ID'', Str ''BO  ''), (''MQBO_STRUC_ID_ARRAY'', Chars ''BO  ''),
      (''MQBO_VERSION_1'', Num 1), (''MQBO_CURRENT_VERSION'', Num 1),
      (''MQBO_LENGTH_1'', Num 12), (''MQBO_CURRENT_LENGTH'', Num 12), (''MQBO_NONE'', Num 0)]"

definition MQCBC_values :: "abi \<Rightarrow> macros" where
  "MQCBC_values a =
     [(''MQCBC_STRUC_ID'', Str ''CBC ''), (''MQCBC_STRUC_ID_ARRAY'', Chars ''CBC ''),
      (''MQCBC_VERSION_1'', Num 1), (''MQCBC_VERSION_2'', Num 2),
      (''MQCBC_CURRENT_VERSION'', Num 2), (''MQCBC_LENGTH_1'', Num (by_abi a 56 48)),
      (''MQCBC_LENGTH_2'', Num (by_abi a 64 52)),
      (''MQCBC_CURRENT_LENGTH'', Num (by_abi a 64 52)), (''MQCBCF_NONE'', Num 0),
      (''MQCBCF_READA_BUFFER_EMPTY'', Num 1), (''MQCBCT_START_CALL'', Num 1),
      (''MQCBCT_STOP_CALL'', Num 2), (''MQCBCT_REGISTER_CALL'', Num 3),
      (''MQCBCT_DEREGISTER_CALL'', Num 4), (''MQCBCT_EVENT_CALL'', Num 5),
      (''MQCBCT_MSG_REMOVED'', Num 6), (''MQCBCT_MSG_NOT_REMOVED'', Num 7),
      (''MQCBCT_MC_EVENT_CALL'', Num 8), (''MQCS_NONE'', Num 0),
      (''MQCS_SUSPENDED_TEMPORARY'', Num 1), (''MQCS_SUSPENDED_USER_ACTION'', Num 2),
      (''MQCS_SUSPENDED'', Num 3), (''MQCS_STOPPED'', Num 4),
      (''MQRD_NO_RECONNECT'', Num (- 1)), (''MQRD_NO_DELAY'', Num 0)]"

definition MQCBD_values :: "abi \<Rightarrow> macros" where
  "MQCBD_values a =
     [(''MQCBD_STRUC_ID'', Str ''CBD ''), (''MQCBD_STRUC_ID_ARRAY'', Chars ''CBD ''),
      (''MQCBD_VERSION_1'', Num 1), (''MQCBD_CURRENT_VERSION'', Num 1),
      (''MQCBD_LENGTH_1'', Num (by_abi a 168 156)),
      (''MQCBD_CURRENT_LENGTH'', Num (by_abi a 168 156)), (''MQCBDO_NONE'', Num 0),
      (''MQCBDO_START_CALL'', Num 1), (''MQCBDO_STOP_CALL'', Num 4),
      (''MQCBDO_REGISTER_CALL'', Num 256), (''MQCBDO_DEREGISTER_CALL'', Num 512),
      (''MQCBDO_FAIL_IF_QUIESCING'', Num 8192), (''MQCBDO_EVENT_CALL'', Num 16384),
      (''MQCBDO_MC_EVENT_CALL'', Num 32768), (''MQCBT_MESSAGE_CONSUMER'', Num 1),
      (''MQCBT_EVENT_HANDLER'', Num 2), (''MQCBD_FULL_MSG_LENGTH'', Num (- 1))]"

definition MQCHARV_values :: "abi \<Rightarrow> macros" where
  "MQCHARV_values a =
     [(''MQVS_NULL_TERMINATED'', Num (- 1))]"

definition MQCIH_values :: "abi \<Rightarrow> macros" where
  "MQCIH_values a =
     [(''MQCIH_STRUC_ID'', Str ''CIH ''), (''MQCIH_STRUC_ID_ARRAY'', Chars ''CIH ''),
      (''MQCIH_VERSION_1'', Num 1), (''MQCIH_VERSION_2'', Num 2),
      (''MQCIH_CURRENT_VERSION'', Num 2), (''MQCIH_LENGTH_1'', Num 164),
      (''MQCIH_LENGTH_2'', Num 180), (''MQCIH_CURRENT_LENGTH'', Num 180),
      (''MQCIH_NONE'', Num 0), (''MQCIH_PASS_EXPIRATION'', Num 1),
      (''MQCIH_UNLIMITED_EXPIRATION'', Num 0), (''MQCIH_REPLY_WITHOUT_NULLS'', Num 2),
      (''MQCIH_REPLY_WITH_NULLS'', Num 0), (''MQCIH_SYNC_ON_RETURN'', Num 4),
      (''MQCIH_NO_SYNC_ON_RETURN'', Num 0), (''MQCRC_OK'', Num 0),
      (''MQCRC_CICS_EXEC_ERROR'', Num 1), (''MQCRC_MQ_API_ERROR'', Num 2),
      (''MQCRC_BRIDGE_ERROR'', Num 3), (''MQCRC_BRIDGE_ABEND'', Num 4),
      (''MQCRC_APPLICATION_ABEND'', Num 5), (''MQCRC_SECURITY_ERROR'', Num 6),
      (''MQCRC_PROGRAM_NOT_AVAILABLE'', Num 7), (''MQCRC_BRIDGE_TIMEOUT'', Num 8),
      (''MQCRC_TRANSID_NOT_AVAILABLE'', Num 9), (''MQCUOWC_ONLY'', Num 273),
      (''MQCUOWC_CONTINUE'', Num 65536), (''MQCUOWC_FIRST'', Num 17),
      (''MQCUOWC_MIDDLE'', Num 16), (''MQCUOWC_LAST'', Num 272), (''MQCUOWC_COMMIT'', Num 256),
      (''MQCUOWC_BACKOUT'', Num 4352), (''MQCGWI_DEFAULT'', Num (- 2)),
      (''MQCLT_PROGRAM'', Num 1), (''MQCLT_TRANSACTION'', Num 2),
      (''MQCODL_AS_INPUT'', Num (- 1)), (''MQCADSD_NONE'', Num 0), (''MQCADSD_SEND'', Num 1),
      (''MQCADSD_RECV'', Num 16), (''MQCADSD_MSGFORMAT'', Num 256), (''MQCCT_YES'', Num 1),
      (''MQCCT_NO'', Num 0), (''MQCTES_NOSYNC'', Num 0), (''MQCTES_COMMIT'', Num 256),
      (''MQCTES_BACKOUT'', Num 4352), (''MQCTES_ENDTASK'', Num 65536),
      (''MQCFAC_NONE'', Str (replicate 8 NUL)),
      (''MQCFAC_NONE_ARRAY'', Chars (replicate 8 NUL)), (''MQCFUNC_MQCONN'', Str ''CONN''),
      (''MQCFUNC_MQGET'', Str ''GET ''), (''MQCFUNC_MQINQ'', Str ''INQ ''),
      (''MQCFUNC_MQOPEN'', Str ''OPEN''), (''MQCFUNC_MQPUT'', Str ''PUT ''),
      (''MQCFUNC_MQPUT1'', Str ''PUT1''), (''MQCFUNC_NONE'', Str ''    ''),
      (''MQCFUNC_MQCONN_ARRAY'', Chars ''CONN''), (''MQCFUNC_MQGET_ARRAY'', Chars ''GET ''),
      (''MQCFUNC_MQINQ_ARRAY'', Chars ''INQ ''), (''MQCFUNC_MQOPEN_ARRAY'', Chars ''OPEN''),
      (''MQCFUNC_MQPUT_ARRAY'', Chars ''PUT ''), (''MQCFUNC_MQPUT1_ARRAY'', Chars ''PUT1''),
      (''MQCFUNC_NONE_ARRAY'', Chars ''    ''), (''MQCSC_START'', Str ''S   ''),
      (''MQCSC_STARTDATA'', Str ''SD  ''), (''MQCSC_TERMINPUT'', Str ''TD  ''),
      (''MQCSC_NONE'', Str ''    ''), (''MQCSC_START_ARRAY'', Chars ''S   ''),
      (''MQCSC_STARTDATA_ARRAY'', Chars ''SD  ''), (''MQCSC_TERMINPUT_ARRAY'', Chars ''TD  ''),
      (''MQCSC_NONE_ARRAY'', Chars ''    '')]"

definition MQCMHO_values :: "abi \<Rightarrow> macros" where
  "MQCMHO_values a =
     [(''MQCMHO_STRUC_ID'', Str ''CMHO''), (''MQCMHO_STRUC_ID_ARRAY'', Chars ''CMHO''),
      (''MQCMHO_VERSION_1'', Num 1), (''MQCMHO_CURRENT_VERSION'', Num 1),
      (''MQCMHO_LENGTH_1'', Num 12), (''MQCMHO_CURRENT_LENGTH'', Num 12),
      (''MQCMHO_DEFAULT_VALIDATION'', Num 0), (''MQCMHO_NO_VALIDATION'', Num 1),
      (''MQCMHO_VALIDATE'', Num 2), (''MQCMHO_NONE'', Num 0)]"

definition MQCTLO_values :: "abi \<Rightarrow> macros" where
  "MQCTLO_values a =
     [(''MQCTLO_STRUC_ID'', Str ''CTLO''), (''MQCTLO_STRUC_ID_ARRAY'', Chars ''CTLO''),
      (''MQCTLO_VERSION_1'', Num 1), (''MQCTLO_CURRENT_VERSION'', Num 1),
      (''MQCTLO_LENGTH_1'', Num (by_abi a 24 20)),
      (''MQCTLO_CURRENT_LENGTH'', Num (by_abi a 24 20)), (''MQCTLO_NONE'', Num 0),
      (''MQCTLO_THREAD_AFFINITY'', Num 1), (''MQCTLO_FAIL_IF_QUIESCING'', Num 8192)]"

definition MQSCO_values :: "abi \<Rightarrow> macros" where
  "MQSCO_values a =
     [(''MQSCO_STRUC_ID'', Str ''SCO ''), (''MQSCO_STRUC_ID_ARRAY'', Chars ''SCO ''),
      (''MQSCO_VERSION_1'', Num 1), (''MQSCO_VERSION_2'', Num 2), (''MQSCO_VERSION_3'', Num 3),
      (''MQSCO_VERSION_4'', Num 4), (''MQSCO_VERSION_5'', Num 5), (''MQSCO_VERSION_6'', Num 6),
      (''MQSCO_CURRENT_VERSION'', Num 6), (''MQSCO_LENGTH_1'', Num (by_abi a 536 532)),
      (''MQSCO_LENGTH_2'', Num (by_abi a 544 540)),
      (''MQSCO_LENGTH_3'', Num (by_abi a 560 556)),
      (''MQSCO_LENGTH_4'', Num (by_abi a 568 560)),
      (''MQSCO_LENGTH_5'', Num (by_abi a 632 624)),
      (''MQSCO_LENGTH_6'', Num (by_abi a 648 636)),
      (''MQSCO_CURRENT_LENGTH'', Num (by_abi a 648 636)), (''MQ_SUITE_B_NOT_AVAILABLE'', Num 0),
      (''MQ_SUITE_B_NONE'', Num 1), (''MQ_SUITE_B_128_BIT'', Num 2),
      (''MQ_SUITE_B_192_BIT'', Num 4), (''MQSCO_RESET_COUNT_DEFAULT'', Num 0),
      (''MQ_CERT_VAL_POLICY_DEFAULT'', Num 0), (''MQ_CERT_VAL_POLICY_ANY'', Num 0),
      (''MQ_CERT_VAL_POLICY_RFC5280'', Num 1)]"

definition MQCSP_values :: "abi \<Rightarrow> macros" where
  "MQCSP_values a =
     [(''MQCSP_STRUC_ID'', Str ''CSP ''), (''MQCSP_STRUC_ID_ARRAY'', Chars ''CSP ''),
      (''MQCSP_VERSION_1'', Num 1), (''MQCSP_VERSION_2'', Num 2), (''MQCSP_VERSION_3'', Num 3),
      (''MQCSP_CURRENT_VERSION'', Num 3), (''MQCSP_LENGTH_1'', Num (by_abi a 56 48)),
      (''MQCSP_LENGTH_2'', Num (by_abi a 80 68)), (''MQCSP_LENGTH_3'', Num (by_abi a 104 88)),
      (''MQCSP_CURRENT_LENGTH'', Num (by_abi a 104 88)), (''MQCSP_AUTH_NONE'', Num 0),
      (''MQCSP_AUTH_USER_ID_AND_PWD'', Num 1), (''MQCSP_AUTH_ID_TOKEN'', Num 2)]"

definition MQCNO_values :: "abi \<Rightarrow> macros" where
  "MQCNO_values a =
     [(''MQCNO_STRUC_ID'', Str ''CNO ''), (''MQCNO_STRUC_ID_ARRAY'', Chars ''CNO ''),
      (''MQCNO_VERSION_1'', Num 1), (''MQCNO_VERSION_2'', Num 2), (''MQCNO_VERSION_3'', Num 3),
      (''MQCNO_VERSION_4'', Num 4), (''MQCNO_VERSION_5'', Num 5), (''MQCNO_VERSION_6'', Num 6),
      (''MQCNO_VERSION_7'', Num 7), (''MQCNO_VERSION_8'', Num 8),
      (''MQCNO_CURRENT_VERSION'', Num 8), (''MQCNO_LENGTH_1'', Num 12),
      (''MQCNO_LENGTH_2'', Num (by_abi a 24 20)), (''MQCNO_LENGTH_3'', Num (by_abi a 152 148)),
      (''MQCNO_LENGTH_4'', Num (by_abi a 168 156)),
      (''MQCNO_LENGTH_5'', Num (by_abi a 200 188)),
      (''MQCNO_LENGTH_6'', Num (by_abi a 224 208)),
      (''MQCNO_LENGTH_7'', Num (by_abi a 256 240)),
      (''MQCNO_LENGTH_8'', Num (by_abi a 272 252)),
      (''MQCNO_CURRENT_LENGTH'', Num (by_abi a 272 252)), (''MQCNO_STANDARD_BINDING'', Num 0),
      (''MQCNO_FASTPATH_BINDING'', Num 1), (''MQCNO_SERIALIZE_CONN_TAG_Q_MGR'', Num 2),
      (''MQCNO_SERIALIZE_CONN_TAG_QSG'', Num 4), (''MQCNO_RESTRICT_CONN_TAG_Q_MGR'', Num 8),
      (''MQCNO_RESTRICT_CONN_TAG_QSG'', Num 16), (''MQCNO_HANDLE_SHARE_NONE'', Num 32),
      (''MQCNO_HANDLE_SHARE_BLOCK'', Num 64), (''MQCNO_HANDLE_SHARE_NO_BLOCK'', Num 128),
      (''MQCNO_SHARED_BINDING'', Num 256), (''MQCNO_ISOLATED_BINDING'', Num 512),
      (''MQCNO_LOCAL_BINDING'', Num 1024), (''MQCNO_CLIENT_BINDING'', Num 2048),
      (''MQCNO_ACCOUNTING_MQI_ENABLED'', Num 4096),
      (''MQCNO_ACCOUNTING_MQI_DISABLED'', Num 8192),
      (''MQCNO_ACCOUNTING_Q_ENABLED'', Num 16384), (''MQCNO_ACCOUNTING_Q_DISABLED'', Num 32768),
      (''MQCNO_NO_CONV_SHARING'', Num 65536), (''MQCNO_ALL_CONVS_SHARE'', Num 262144),
      (''MQCNO_CD_FOR_OUTPUT_ONLY'', Num 524288), (''MQCNO_USE_CD_SELECTION'', Num 1048576),
      (''MQCNO_GENERATE_CONN_TAG'', Num 2097152), (''MQCNO_RECONNECT_AS_DEF'', Num 0),
      (''MQCNO_RECONNECT'', Num 16777216), (''MQCNO_RECONNECT_DISABLED'', Num 33554432),
      (''MQCNO_RECONNECT_Q_MGR'', Num 67108864),
      (''MQCNO_ACTIVITY_TRACE_ENABLED'', Num 134217728),
      (''MQCNO_ACTIVITY_TRACE_DISABLED'', Num 268435456), (''MQCNO_NONE'', Num 0),
      (''MQCT_NONE'', Str (replicate 128 NUL)),
      (''MQCT_NONE_ARRAY'', Chars (replicate 128 NUL)),
      (''MQCONNID_NONE'', Str (replicate 24 NUL)),
      (''MQCONNID_NONE_ARRAY'', Chars (replicate 24 NUL)),
      (''MQAN_NONE'', Str ''                            ''),
      (''MQAN_NONE_ARRAY'', Chars ''                            '')]"

definition MQDH_values :: "abi \<Rightarrow> macros" where
  "MQDH_values a =
     [(''MQDH_STRUC_ID'', Str ''DH  ''), (''MQDH_STRUC_ID_ARRAY'', Chars ''DH  ''),
      (''MQDH_VERSION_1'', Num 1), (''MQDH_CURRENT_VERSION'', Num 1),
      (''MQDH_LENGTH_1'', Num 48), (''MQDH_CURRENT_LENGTH'', Num 48),
      (''MQDHF_NEW_MSG_IDS'', Num 1), (''MQDHF_NONE'', Num 0)]"

definition MQDLH_values :: "abi \<Rightarrow> macros" where
  "MQDLH_values a =
     [(''MQDLH_STRUC_ID'', Str ''DLH ''), (''MQDLH_STRUC_ID_ARRAY'', Chars ''DLH ''),
      (''MQDLH_VERSION_1'', Num 1), (''MQDLH_CURRENT_VERSION'', Num 1),
      (''MQDLH_LENGTH_1'', Num 172), (''MQDLH_CURRENT_LENGTH'', Num 172)]"

definition MQDMHO_values :: "abi \<Rightarrow> macros" where
  "MQDMHO_values a =
     [(''MQDMHO_STRUC_ID'', Str ''DMHO''), (''MQDMHO_STRUC_ID_ARRAY'', Chars ''DMHO''),
      (''MQDMHO_VERSION_1'', Num 1), (''MQDMHO_CURRENT_VERSION'', Num 1),
      (''MQDMHO_LENGTH_1'', Num 12), (''MQDMHO_CURRENT_LENGTH'', Num 12),
      (''MQDMHO_NONE'', Num 0)]"

definition MQDMPO_values :: "abi \<Rightarrow> macros" where
  "MQDMPO_values a =
     [(''MQDMPO_STRUC_ID'', Str ''DMPO''), (''MQDMPO_STRUC_ID_ARRAY'', Chars ''DMPO''),
      (''MQDMPO_VERSION_1'', Num 1), (''MQDMPO_CURRENT_VERSION'', Num 1),
      (''MQDMPO_LENGTH_1'', Num 12), (''MQDMPO_CURRENT_LENGTH'', Num 12),
      (''MQDMPO_DEL_FIRST'', Num 0), (''MQDMPO_DEL_PROP_UNDER_CURSOR'', Num 1),
      (''MQDMPO_NONE'', Num 0)]"

definition MQGMO_values :: "abi \<Rightarrow> macros" where
  "MQGMO_values a =
     [(''MQGMO_STRUC_ID'', Str ''GMO ''), (''MQGMO_STRUC_ID_ARRAY'', Chars ''GMO ''),
      (''MQGMO_VERSION_1'', Num 1), (''MQGMO_VERSION_2'', Num 2), (''MQGMO_VERSION_3'', Num 3),
      (''MQGMO_VERSION_4'', Num 4), (''MQGMO_CURRENT_VERSION'', Num 4),
      (''MQGMO_LENGTH_1'', Num 72), (''MQGMO_LENGTH_2'', Num 80), (''MQGMO_LENGTH_3'', Num 100),
      (''MQGMO_LENGTH_4'', Num 112), (''MQGMO_CURRENT_LENGTH'', Num 112),
      (''MQGMO_WAIT'', Num 1), (''MQGMO_NO_WAIT'', Num 0), (''MQGMO_SET_SIGNAL'', Num 8),
      (''MQGMO_FAIL_IF_QUIESCING'', Num 8192), (''MQGMO_SYNCPOINT'', Num 2),
      (''MQGMO_SYNCPOINT_IF_PERSISTENT'', Num 4096), (''MQGMO_NO_SYNCPOINT'', Num 4),
      (''MQGMO_MARK_SKIP_BACKOUT'', Num 128), (''MQGMO_BROWSE_FIRST'', Num 16),
      (''MQGMO_BROWSE_NEXT'', Num 32), (''MQGMO_BROWSE_MSG_UNDER_CURSOR'', Num 2048),
      (''MQGMO_MSG_UNDER_CURSOR'', Num 256), (''MQGMO_LOCK'', Num 512),
      (''MQGMO_UNLOCK'', Num 1024), (''MQGMO_ACCEPT_TRUNCATED_MSG'', Num 64),
      (''MQGMO_CONVERT'', Num 16384), (''MQGMO_LOGICAL_ORDER'', Num 32768),
      (''MQGMO_COMPLETE_MSG'', Num 65536), (''MQGMO_ALL_MSGS_AVAILABLE'', Num 131072),
      (''MQGMO_ALL_SEGMENTS_AVAILABLE'', Num 262144),
      (''MQGMO_MARK_BROWSE_HANDLE'', Num 1048576), (''MQGMO_MARK_BROWSE_CO_OP'', Num 2097152),
      (''MQGMO_UNMARK_BROWSE_CO_OP'', Num 4194304),
      (''MQGMO_UNMARK_BROWSE_HANDLE'', Num 8388608),
      (''MQGMO_UNMARKED_BROWSE_MSG'', Num 16777216),
      (''MQGMO_PROPERTIES_FORCE_MQRFH2'', Num 33554432),
      (''MQGMO_NO_PROPERTIES'', Num 67108864), (''MQGMO_PROPERTIES_IN_HANDLE'', Num 134217728),
      (''MQGMO_PROPERTIES_COMPATIBILITY'', Num 268435456),
      (''MQGMO_PROPERTIES_AS_Q_DEF'', Num 0), (''MQGMO_NONE'', Num 0),
      (''MQGMO_BROWSE_HANDLE'', BitOr (BitOr (Mac ''MQGMO_BROWSE_FIRST'') (Mac ''MQGMO_UNMARKED_BROWSE_MSG'')) (Mac ''MQGMO_MARK_BROWSE_HANDLE'')),
      (''MQGMO_BROWSE_CO_OP'', BitOr (BitOr (Mac ''MQGMO_BROWSE_FIRST'') (Mac ''MQGMO_UNMARKED_BROWSE_MSG'')) (Mac ''MQGMO_MARK_BROWSE_CO_OP'')),
      (''MQWI_UNLIMITED'', Num (- 1)), (''MQEC_MSG_ARRIVED'', Num 2),
      (''MQEC_WAIT_INTERVAL_EXPIRED'', Num 3), (''MQEC_WAIT_CANCELED'', Num 4),
      (''MQEC_Q_MGR_QUIESCING'', Num 5), (''MQEC_CONNECTION_QUIESCING'', Num 6),
      (''MQMO_MATCH_MSG_ID'', Num 1), (''MQMO_MATCH_CORREL_ID'', Num 2),
      (''MQMO_MATCH_GROUP_ID'', Num 4), (''MQMO_MATCH_MSG_SEQ_NUMBER'', Num 8),
      (''MQMO_MATCH_OFFSET'', Num 16), (''MQMO_MATCH_MSG_TOKEN'', Num 32),
      (''MQMO_NONE'', Num 0), (''MQGS_NOT_IN_GROUP'', Chars '' ''),
      (''MQGS_MSG_IN_GROUP'', Chars ''G''), (''MQGS_LAST_MSG_IN_GROUP'', Chars ''L''),
      (''MQSS_NOT_A_SEGMENT'', Chars '' ''), (''MQSS_SEGMENT'', Chars ''S''),
      (''MQSS_LAST_SEGMENT'', Chars ''L''), (''MQSEG_INHIBITED'', Chars '' ''),
      (''MQSEG_ALLOWED'', Chars ''A''), (''MQMTOK_NONE'', Str (replicate 16 NUL)),
      (''MQMTOK_NONE_ARRAY'', Chars (replicate 16 NUL)), (''MQRL_UNDEFINED'', Num (- 1))]"

definition MQIIH_values :: "abi \<Rightarrow> macros" where
  "MQIIH_values a =
     [(''MQIIH_STRUC_ID'', Str ''IIH ''), (''MQIIH_STRUC_ID_ARRAY'', Chars ''IIH ''),
      (''MQIIH_VERSION_1'', Num 1), (''MQIIH_CURRENT_VERSION'', Num 1),
      (''MQIIH_LENGTH_1'', Num 84), (''MQIIH_CURRENT_LENGTH'', Num 84), (''MQIIH_NONE'', Num 0),
      (''MQIIH_PASS_EXPIRATION'', Num 1), (''MQIIH_UNLIMITED_EXPIRATION'', Num 0),
      (''MQIIH_REPLY_FORMAT_NONE'', Num 8), (''MQIIH_IGNORE_PURG'', Num 16),
      (''MQIIH_CM0_REQUEST_RESPONSE'', Num 32), (''MQIAUT_NONE'', Str ''        ''),
      (''MQIAUT_NONE_ARRAY'', Chars ''        ''), (''MQITII_NONE'', Str (replicate 16 NUL)),
      (''MQITII_NONE_ARRAY'', Chars (replicate 16 NUL)),
      (''MQITS_IN_CONVERSATION'', Chars ''C''), (''MQITS_NOT_IN_CONVERSATION'', Chars '' ''),
      (''MQITS_ARCHITECTED'', Chars ''A''), (''MQICM_COMMIT_THEN_SEND'', Chars ''0''),
      (''MQICM_SEND_THEN_COMMIT'', Chars ''1''), (''MQISS_CHECK'', Chars ''C''),
      (''MQISS_FULL'', Chars ''F'')]"

definition MQIMPO_values :: "abi \<Rightarrow> macros" where
  "MQIMPO_values a =
     [(''MQIMPO_STRUC_ID'', Str ''IMPO''), (''MQIMPO_STRUC_ID_ARRAY'', Chars ''IMPO''),
      (''MQIMPO_VERSION_1'', Num 1), (''MQIMPO_CURRENT_VERSION'', Num 1),
      (''MQIMPO_LENGTH_1'', Num (by_abi a 64 60)),
      (''MQIMPO_CURRENT_LENGTH'', Num (by_abi a 64 60)), (''MQIMPO_CONVERT_TYPE'', Num 2),
      (''MQIMPO_QUERY_LENGTH'', Num 4), (''MQIMPO_INQ_FIRST'', Num 0),
      (''MQIMPO_INQ_NEXT'', Num 8), (''MQIMPO_INQ_PROP_UNDER_CURSOR'', Num 16),
      (''MQIMPO_CONVERT_VALUE'', Num 32), (''MQIMPO_NONE'', Num 0)]"

end
