(* ===== verification/Mqi_Values_B.thy ===== *)
theory Mqi_Values_B
  imports C_Init
begin

text \<open>
  The value macros of \<open>cmqc.h\<close>, continued: MQMD to MQXQH.
\<close>

definition MQMD_values_1 :: "abi \<Rightarrow> macros" where
  "MQMD_values_1 a =
     [(''MQMD_STRUC_ID'', Str ''MD  ''), (''MQMD_STRUC_ID_ARRAY'', Chars ''MD  ''),
      (''MQMD_VERSION_1'', Num 1), (''MQMD_VERSION_2'', Num 2),
      (''MQMD_CURRENT_VERSION'', Num 2), (''MQMD_LENGTH_1'', Num 324),
      (''MQMD_LENGTH_2'', Num 364), (''MQMD_CURRENT_LENGTH'', Num 364),
      (''MQRO_EXCEPTION'', Num 16777216), (''MQRO_EXCEPTION_WITH_DATA'', Num 50331648),
      (''MQRO_EXCEPTION_WITH_FULL_DATA'', Num 117440512), (''MQRO_EXPIRATION'', Num 2097152),
      (''MQRO_EXPIRATION_WITH_DATA'', Num 6291456),
      (''MQRO_EXPIRATION_WITH_FULL_DATA'', Num 14680064), (''MQRO_COA'', Num 256),
      (''MQRO_COA_WITH_DATA'', Num 768), (''MQRO_COA_WITH_FULL_DATA'', Num 1792),
      (''MQRO_COD'', Num 2048), (''MQRO_COD_WITH_DATA'', Num 6144),
      (''MQRO_COD_WITH_FULL_DATA'', Num 14336), (''MQRO_PAN'', Num 1), (''MQRO_NAN'', Num 2),
      (''MQRO_ACTIVITY'', Num 4), (''MQRO_NEW_MSG_ID'', Num 0), (''MQRO_PASS_MSG_ID'', Num 128),
      (''MQRO_COPY_MSG_ID_TO_CORREL_ID'', Num 0), (''MQRO_PASS_CORREL_ID'', Num 64),
      (''MQRO_DEAD_LETTER_Q'', Num 0), (''MQRO_DISCARD_MSG'', Num 134217728),
      (''MQRO_PASS_DISCARD_AND_EXPIRY'', Num 16384), (''MQRO_NONE'', Num 0),
      (''MQRO_REJECT_UNSUP_MASK'', Num 270270464), (''MQRO_ACCEPT_UNSUP_MASK'', Num 4024434943),
      (''MQRO_ACCEPT_UNSUP_IF_XMIT_MASK'', Num 261888), (''MQMT_SYSTEM_FIRST'', Num 1),
      (''MQMT_REQUEST'', Num 1), (''MQMT_REPLY'', Num 2), (''MQMT_DATAGRAM'', Num 8),
      (''MQMT_REPORT'', Num 4), (''MQMT_MQE_FIELDS_FROM_MQE'', Num 112),
      (''MQMT_MQE_FIELDS'', Num 113), (''MQMT_SYSTEM_LAST'', Num 65535),
      (''MQMT_APPL_FIRST'', Num 65536), (''MQMT_APPL_LAST'', Num 999999999),
      (''MQEI_UNLIMITED'', Num (- 1)), (''MQFB_NONE'', Num 0), (''MQFB_SYSTEM_FIRST'', Num 1),
      (''MQFB_QUIT'', Num 256), (''MQFB_EXPIRATION'', Num 258), (''MQFB_COA'', Num 259),
      (''MQFB_COD'', Num 260), (''MQFB_CHANNEL_COMPLETED'', Num 262),
      (''MQFB_CHANNEL_FAIL_RETRY'', Num 263), (''MQFB_CHANNEL_FAIL'', Num 264),
      (''MQFB_APPL_CANNOT_BE_STARTED'', Num 265), (''MQFB_TM_ERROR'', Num 266),
      (''MQFB_APPL_TYPE_ERROR'', Num 267), (''MQFB_STOPPED_BY_MSG_EXIT'', Num 268),
      (''MQFB_ACTIVITY'', Num 269), (''MQFB_XMIT_Q_MSG_ERROR'', Num 271),
      (''MQFB_PAN'', Num 275), (''MQFB_NAN'', Num 276),
      (''MQFB_STOPPED_BY_CHAD_EXIT'', Num 277), (''MQFB_STOPPED_BY_PUBSUB_EXIT'', Num 279),
      (''MQFB_NOT_A_REPOSITORY_MSG'', Num 280), (''MQFB_BIND_OPEN_CLUSRCVR_DEL'', Num 281),
      (''MQFB_MAX_ACTIVITIES'', Num 282), (''MQFB_NOT_FORWARDED'', Num 283),
      (''MQFB_NOT_DELIVERED'', Num 284), (''MQFB_UNSUPPORTED_FORWARDING'', Num 285),
      (''MQFB_UNSUPPORTED_DELIVERY'', Num 286), (''MQFB_DATA_LENGTH_ZERO'', Num 291),
      (''MQFB_DATA_LENGTH_NEGATIVE'', Num 292), (''MQFB_DATA_LENGTH_TOO_BIG'', Num 293),
      (''MQFB_BUFFER_OVERFLOW'', Num 294), (''MQFB_LENGTH_OFF_BY_ONE'', Num 295),
      (''MQFB_IIH_ERROR'', Num 296), (''MQFB_NOT_AUTHORIZED_FOR_IMS'', Num 298),
      (''MQFB_DATA_LENGTH_TOO_SHORT'', Num 299), (''MQFB_IMS_ERROR'', Num 300),
      (''MQFB_IMS_FIRST'', Num 301), (''MQFB_IMS_LAST'', Num 399),
      (''MQFB_CICS_INTERNAL_ERROR'', Num 401), (''MQFB_CICS_NOT_AUTHORIZED'', Num 402),
      (''MQFB_CICS_BRIDGE_FAILURE'', Num 403), (''MQFB_CICS_CORREL_ID_ERROR'', Num 404),
      (''MQFB_CICS_CCSID_ERROR'', Num 405), (''MQFB_CICS_ENCODING_ERROR'', Num 406),
      (''MQFB_CICS_CIH_ERROR'', Num 407), (''MQFB_CICS_UOW_ERROR'', Num 408),
      (''MQFB_CICS_COMMAREA_ERROR'', Num 409), (''MQFB_CICS_APPL_NOT_STARTED'', Num 410),
      (''MQFB_CICS_APPL_ABENDED'', Num 411), (''MQFB_CICS_DLQ_ERROR'', Num 412),
      (''MQFB_CICS_UOW_BACKED_OUT'', Num 413), (''MQFB_PUBLICATIONS_ON_REQUEST'', Num 501),
      (''MQFB_SUBSCRIBER_IS_PUBLISHER'', Num 502), (''MQFB_MSG_SCOPE_MISMATCH'', Num 503),
      (''MQFB_SELECTOR_MISMATCH'', Num 504), (''MQFB_NOT_A_GROUPUR_MSG'', Num 505),
      (''MQFB_IMS_NACK_1A_REASON_FIRST'', Num 600), (''MQFB_IMS_NACK_1A_REASON_LAST'', Num 855),
      (''MQFB_SYSTEM_LAST'', Num 65535), (''MQFB_APPL_FIRST'', Num 65536),
      (''MQFB_APPL_LAST'', Num 999999999), (''MQENC_NATIVE'', Num 546),
      (''MQENC_INTEGER_MASK'', Num 15), (''MQENC_DECIMAL_MASK'', Num 240),
      (''MQENC_FLOAT_MASK'', Num 3840), (''MQENC_RESERVED_MASK'', Num 4294963200),
      (''MQENC_INTEGER_UNDEFINED'', Num 0), (''MQENC_INTEGER_NORMAL'', Num 1),
      (''MQENC_INTEGER_REVERSED'', Num 2), (''MQENC_DECIMAL_UNDEFINED'', Num 0),
      (''MQENC_DECIMAL_NORMAL'', Num 16), (''MQENC_DECIMAL_REVERSED'', Num 32)]"

definition MQMD_values_2 :: "abi \<Rightarrow> macros" where
  "MQMD_values_2 a =
     [(''MQENC_FLOAT_UNDEFINED'', Num 0), (''MQENC_FLOAT_IEEE_NORMAL'', Num 256),
      (''MQENC_FLOAT_IEEE_REVERSED'', Num 512), (''MQENC_FLOAT_S390'', Num 768),
      (''MQENC_FLOAT_TNS'', Num 1024),
      (''MQENC_NORMAL'', BitOr (BitOr (Mac ''MQENC_FLOAT_IEEE_NORMAL'') (Mac ''MQENC_DECIMAL_NORMAL'')) (Mac ''MQENC_INTEGER_NORMAL'')),
      (''MQENC_REVERSED'', BitOr (BitOr (Mac ''MQENC_FLOAT_IEEE_REVERSED'') (Mac ''MQENC_DECIMAL_REVERSED'')) (Mac ''MQENC_INTEGER_REVERSED'')),
      (''MQENC_S390'', BitOr (BitOr (Mac ''MQENC_FLOAT_S390'') (Mac ''MQENC_DECIMAL_NORMAL'')) (Mac ''MQENC_INTEGER_NORMAL'')),
      (''MQENC_TNS'', BitOr (BitOr (Mac ''MQENC_FLOAT_TNS'') (Mac ''MQENC_DECIMAL_NORMAL'')) (Mac ''MQENC_INTEGER_NORMAL'')),
      (''MQENC_AS_PUBLISHED'', Num (- 1)), (''MQCCSI_UNDEFINED'', Num 0),
      (''MQCCSI_DEFAULT'', Num 0), (''MQCCSI_Q_MGR'', Num 0), (''MQCCSI_INHERIT'', Num (- 2)),
      (''MQCCSI_EMBEDDED'', Num (- 1)), (''MQCCSI_APPL'', Num (- 3)),
      (''MQCCSI_AS_PUBLISHED'', Num (- 4)), (''MQFMT_NONE'', Str ''        ''),
      (''MQFMT_ADMIN'', Str ''MQADMIN ''), (''MQFMT_AMQP'', Str ''MQAMQP  ''),
      (''MQFMT_CHANNEL_COMPLETED'', Str ''MQCHCOM ''), (''MQFMT_CICS'', Str ''MQCICS  ''),
      (''MQFMT_COMMAND_1'', Str ''MQCMD1  ''), (''MQFMT_COMMAND_2'', Str ''MQCMD2  ''),
      (''MQFMT_DEAD_LETTER_HEADER'', Str ''MQDEAD  ''),
      (''MQFMT_DIST_HEADER'', Str ''MQHDIST ''), (''MQFMT_EMBEDDED_PCF'', Str ''MQHEPCF ''),
      (''MQFMT_EVENT'', Str ''MQEVENT ''), (''MQFMT_IMS'', Str ''MQIMS   ''),
      (''MQFMT_IMS_VAR_STRING'', Str ''MQIMSVS ''), (''MQFMT_MD_EXTENSION'', Str ''MQHMDE  ''),
      (''MQFMT_PCF'', Str ''MQPCF   ''), (''MQFMT_REF_MSG_HEADER'', Str ''MQHREF  ''),
      (''MQFMT_RF_HEADER'', Str ''MQHRF   ''), (''MQFMT_RF_HEADER_1'', Str ''MQHRF   ''),
      (''MQFMT_RF_HEADER_2'', Str ''MQHRF2  ''), (''MQFMT_STRING'', Str ''MQSTR   ''),
      (''MQFMT_TRIGGER'', Str ''MQTRIG  ''), (''MQFMT_WORK_INFO_HEADER'', Str ''MQHWIH  ''),
      (''MQFMT_XMIT_Q_HEADER'', Str ''MQXMIT  ''), (''MQFMT_NONE_ARRAY'', Chars ''        ''),
      (''MQFMT_ADMIN_ARRAY'', Chars ''MQADMIN ''), (''MQFMT_AMQP_ARRAY'', Chars ''MQAMQP  ''),
      (''MQFMT_CHANNEL_COMPLETED_ARRAY'', Chars ''MQCHCOM ''),
      (''MQFMT_CICS_ARRAY'', Chars ''MQCICS  ''),
      (''MQFMT_COMMAND_1_ARRAY'', Chars ''MQCMD1  ''),
      (''MQFMT_COMMAND_2_ARRAY'', Chars ''MQCMD2  ''),
      (''MQFMT_DEAD_LETTER_HEADER_ARRAY'', Chars ''MQDEAD  ''),
      (''MQFMT_DIST_HEADER_ARRAY'', Chars ''MQHDIST ''),
      (''MQFMT_EMBEDDED_PCF_ARRAY'', Chars ''MQHEPCF ''),
      (''MQFMT_EVENT_ARRAY'', Chars ''MQEVENT ''), (''MQFMT_IMS_ARRAY'', Chars ''MQIMS   ''),
      (''MQFMT_IMS_VAR_STRING_ARRAY'', Chars ''MQIMSVS ''),
      (''MQFMT_MD_EXTENSION_ARRAY'', Chars ''MQHMDE  ''),
      (''MQFMT_PCF_ARRAY'', Chars ''MQPCF   ''),
      (''MQFMT_REF_MSG_HEADER_ARRAY'', Chars ''MQHREF  ''),
      (''MQFMT_RF_HEADER_ARRAY'', Chars ''MQHRF   ''),
      (''MQFMT_RF_HEADER_1_ARRAY'', Chars ''MQHRF   ''),
      (''MQFMT_RF_HEADER_2_ARRAY'', Chars ''MQHRF2  ''),
      (''MQFMT_STRING_ARRAY'', Chars ''MQSTR   ''),
      (''MQFMT_TRIGGER_ARRAY'', Chars ''MQTRIG  ''),
      (''MQFMT_WORK_INFO_HEADER_ARRAY'', Chars ''MQHWIH  ''),
      (''MQFMT_XMIT_Q_HEADER_ARRAY'', Chars ''MQXMIT  ''),
      (''MQPRI_PRIORITY_AS_Q_DEF'', Num (- 1)), (''MQPRI_PRIORITY_AS_PARENT'', Num (- 2)),
      (''MQPRI_PRIORITY_AS_PUBLISHED'', Num (- 3)),
      (''MQPRI_PRIORITY_AS_TOPIC_DEF'', Num (- 1)),
      (''MQPER_PERSISTENCE_AS_PARENT'', Num (- 1)), (''MQPER_NOT_PERSISTENT'', Num 0),
      (''MQPER_PERSISTENT'', Num 1), (''MQPER_PERSISTENCE_AS_Q_DEF'', Num 2),
      (''MQPER_PERSISTENCE_AS_TOPIC_DEF'', Num 2), (''MQPRT_RESPONSE_AS_PARENT'', Num 0),
      (''MQPRT_SYNC_RESPONSE'', Num 1), (''MQPRT_ASYNC_RESPONSE'', Num 2),
      (''MQMI_NONE'', Str (replicate 24 NUL)), (''MQMI_NONE_ARRAY'', Chars (replicate 24 NUL)),
      (''MQCI_NONE'', Str (replicate 24 NUL)),
      (''MQCI_NEW_SESSION'', Str ''AMQ!NEW_SESSION_CORRELID''),
      (''MQCI_NONE_ARRAY'', Chars (replicate 24 NUL)),
      (''MQCI_NEW_SESSION_ARRAY'', Chars ''AMQ!NEW_SESSION_CORRELID''),
      (''MQACT_NONE'', Str (replicate 32 NUL)), (''MQACT_NONE_ARRAY'', Chars (replicate 32 NUL))]"

definition MQMD_values_3 :: "abi \<Rightarrow> macros" where
  "MQMD_values_3 a =
     [(''MQACTT_UNKNOWN'', Chars (replicate 1 NUL)),
      (''MQACTT_CICS_LUOW_ID'', Chars [CHR 0x01]), (''MQACTT_OS2_DEFAULT'', Chars [CHR 0x04]),
      (''MQACTT_DOS_DEFAULT'', Chars [CHR 0x05]),
      (''MQACTT_UNIX_NUMERIC_ID'', Chars [CHR 0x06]),
      (''MQACTT_OS400_ACCOUNT_TOKEN'', Chars [CHR 0x08]),
      (''MQACTT_WINDOWS_DEFAULT'', Chars [CHR 0x09]),
      (''MQACTT_NT_SECURITY_ID'', Chars [CHR 0x0B]),
      (''MQACTT_AZUREAD_SECURITY_ID'', Chars [CHR 0x0C]),
      (''MQACTT_MS_ACC_AUTH_SECURITY_ID'', Chars [CHR 0x0D]),
      (''MQACTT_USER'', Chars [CHR 0x19]), (''MQAT_UNKNOWN'', Num (- 1)),
      (''MQAT_NO_CONTEXT'', Num 0), (''MQAT_CICS'', Num 1), (''MQAT_MVS'', Num 2),
      (''MQAT_OS390'', Num 2), (''MQAT_ZOS'', Num 2), (''MQAT_IMS'', Num 3),
      (''MQAT_OS2'', Num 4), (''MQAT_DOS'', Num 5), (''MQAT_AIX'', Num 6),
      (''MQAT_UNIX'', Num 6), (''MQAT_QMGR'', Num 7), (''MQAT_OS400'', Num 8),
      (''MQAT_WINDOWS'', Num 9), (''MQAT_CICS_VSE'', Num 10), (''MQAT_WINDOWS_NT'', Num 11),
      (''MQAT_VMS'', Num 12), (''MQAT_GUARDIAN'', Num 13), (''MQAT_NSK'', Num 13),
      (''MQAT_VOS'', Num 14), (''MQAT_OPEN_TP1'', Num 15), (''MQAT_VM'', Num 18),
      (''MQAT_IMS_BRIDGE'', Num 19), (''MQAT_XCF'', Num 20), (''MQAT_CICS_BRIDGE'', Num 21),
      (''MQAT_NOTES_AGENT'', Num 22), (''MQAT_TPF'', Num 23), (''MQAT_USER'', Num 25),
      (''MQAT_BROKER'', Num 26), (''MQAT_QMGR_PUBLISH'', Num 26), (''MQAT_JAVA'', Num 28),
      (''MQAT_DQM'', Num 29), (''MQAT_CHANNEL_INITIATOR'', Num 30), (''MQAT_WLM'', Num 31),
      (''MQAT_BATCH'', Num 32), (''MQAT_RRS_BATCH'', Num 33), (''MQAT_SIB'', Num 34),
      (''MQAT_SYSTEM_EXTENSION'', Num 35), (''MQAT_MCAST_PUBLISH'', Num 36),
      (''MQAT_AMQP'', Num 37), (''MQAT_DEFAULT'', Num 6), (''MQAT_USER_FIRST'', Num 65536),
      (''MQAT_USER_LAST'', Num 999999999), (''MQGI_NONE'', Str (replicate 24 NUL)),
      (''MQGI_NONE_ARRAY'', Chars (replicate 24 NUL)), (''MQMF_SEGMENTATION_INHIBITED'', Num 0),
      (''MQMF_SEGMENTATION_ALLOWED'', Num 1), (''MQMF_MSG_IN_GROUP'', Num 8),
      (''MQMF_LAST_MSG_IN_GROUP'', Num 16), (''MQMF_SEGMENT'', Num 2),
      (''MQMF_LAST_SEGMENT'', Num 4), (''MQMF_NONE'', Num 0),
      (''MQMF_REJECT_UNSUP_MASK'', Num 4095), (''MQMF_ACCEPT_UNSUP_MASK'', Num 4293918720),
      (''MQMF_ACCEPT_UNSUP_IF_XMIT_MASK'', Num 1044480), (''MQOL_UNDEFINED'', Num (- 1))]"

definition MQMDE_values :: "abi \<Rightarrow> macros" where
  "MQMDE_values a =
     [(''MQMDE_STRUC_ID'', Str ''MDE ''), (''MQMDE_STRUC_ID_ARRAY'', Chars ''MDE ''),
      (''MQMDE_VERSION_2'', Num 2), (''MQMDE_CURRENT_VERSION'', Num 2),
      (''MQMDE_LENGTH_2'', Num 72), (''MQMDE_CURRENT_LENGTH'', Num 72), (''MQMDEF_NONE'', Num 0)]"

definition MQMD1_values :: "abi \<Rightarrow> macros" where
  "MQMD1_values a =
     [(''MQMD1_LENGTH_1'', Num 324), (''MQMD1_CURRENT_LENGTH'', Num 324)]"

definition MQMD2_values :: "abi \<Rightarrow> macros" where
  "MQMD2_values a =
     [(''MQMD2_LENGTH_1'', Num 324), (''MQMD2_LENGTH_2'', Num 364),
      (''MQMD2_CURRENT_LENGTH'', Num 364)]"

definition MQMHBO_values :: "abi \<Rightarrow> macros" where
  "MQMHBO_values a =
     [(''MQMHBO_STRUC_ID'', Str ''MHBO''), (''MQMHBO_STRUC_ID_ARRAY'', Chars ''MHBO''),
      (''MQMHBO_VERSION_1'', Num 1), (''MQMHBO_CURRENT_VERSION'', Num 1),
      (''MQMHBO_LENGTH_1'', Num 12), (''MQMHBO_CURRENT_LENGTH'', Num 12),
      (''MQMHBO_PROPERTIES_IN_MQRFH2'', Num 1), (''MQMHBO_DELETE_PROPERTIES'', Num 2),
      (''MQMHBO_NONE'', Num 0)]"

definition MQOD_values :: "abi \<Rightarrow> macros" where
  "MQOD_values a =
     [(''MQOD_STRUC_ID'', Str ''OD  ''), (''MQOD_STRUC_ID_ARRAY'', Chars ''OD  ''),
      (''MQOD_VERSION_1'', Num 1), (''MQOD_VERSION_2'', Num 2), (''MQOD_VERSION_3'', Num 3),
      (''MQOD_VERSION_4'', Num 4), (''MQOD_CURRENT_VERSION'', Num 4),
      (''MQOD_LENGTH_1'', Num 168), (''MQOD_LENGTH_2'', Num (by_abi a 208 200)),
      (''MQOD_LENGTH_3'', Num (by_abi a 344 336)), (''MQOD_LENGTH_4'', Num (by_abi a 424 400)),
      (''MQOD_CURRENT_LENGTH'', Num (by_abi a 424 400)), (''MQOM_NO'', Num 0),
      (''MQOM_YES'', Num 1), (''MQOT_NONE'', Num 0), (''MQOT_Q'', Num 1),
      (''MQOT_NAMELIST'', Num 2), (''MQOT_PROCESS'', Num 3), (''MQOT_STORAGE_CLASS'', Num 4),
      (''MQOT_Q_MGR'', Num 5), (''MQOT_CHANNEL'', Num 6), (''MQOT_AUTH_INFO'', Num 7),
      (''MQOT_TOPIC'', Num 8), (''MQOT_COMM_INFO'', Num 9), (''MQOT_CF_STRUC'', Num 10),
      (''MQOT_LISTENER'', Num 11), (''MQOT_SERVICE'', Num 12), (''MQOT_RESERVED_1'', Num 999),
      (''MQOT_ALL'', Num 1001), (''MQOT_ALIAS_Q'', Num 1002), (''MQOT_MODEL_Q'', Num 1003),
      (''MQOT_LOCAL_Q'', Num 1004), (''MQOT_REMOTE_Q'', Num 1005),
      (''MQOT_SENDER_CHANNEL'', Num 1007), (''MQOT_SERVER_CHANNEL'', Num 1008),
      (''MQOT_REQUESTER_CHANNEL'', Num 1009), (''MQOT_RECEIVER_CHANNEL'', Num 1010),
      (''MQOT_CURRENT_CHANNEL'', Num 1011), (''MQOT_SAVED_CHANNEL'', Num 1012),
      (''MQOT_SVRCONN_CHANNEL'', Num 1013), (''MQOT_CLNTCONN_CHANNEL'', Num 1014),
      (''MQOT_SHORT_CHANNEL'', Num 1015), (''MQOT_CHLAUTH'', Num 1016),
      (''MQOT_REMOTE_Q_MGR_NAME'', Num 1017), (''MQOT_PROT_POLICY'', Num 1019),
      (''MQOT_TT_CHANNEL'', Num 1020), (''MQOT_AMQP_CHANNEL'', Num 1021),
      (''MQOT_AUTH_REC'', Num 1022)]"

definition MQPD_values :: "abi \<Rightarrow> macros" where
  "MQPD_values a =
     [(''MQPD_STRUC_ID'', Str ''PD  ''), (''MQPD_STRUC_ID_ARRAY'', Chars ''PD  ''),
      (''MQPD_VERSION_1'', Num 1), (''MQPD_CURRENT_VERSION'', Num 1),
      (''MQPD_LENGTH_1'', Num 24), (''MQPD_CURRENT_LENGTH'', Num 24), (''MQPD_NONE'', Num 0),
      (''MQPD_SUPPORT_OPTIONAL'', Num 1), (''MQPD_SUPPORT_REQUIRED'', Num 1048576),
      (''MQPD_SUPPORT_REQUIRED_IF_LOCAL'', Num 1024),
      (''MQPD_REJECT_UNSUP_MASK'', Num 4293918720),
      (''MQPD_ACCEPT_UNSUP_IF_XMIT_MASK'', Num 1047552), (''MQPD_ACCEPT_UNSUP_MASK'', Num 1023),
      (''MQPD_NO_CONTEXT'', Num 0), (''MQPD_USER_CONTEXT'', Num 1), (''MQCOPY_NONE'', Num 0),
      (''MQCOPY_ALL'', Num 1), (''MQCOPY_FORWARD'', Num 2), (''MQCOPY_PUBLISH'', Num 4),
      (''MQCOPY_REPLY'', Num 8), (''MQCOPY_REPORT'', Num 16), (''MQCOPY_DEFAULT'', Num 22)]"

definition MQPMO_values :: "abi \<Rightarrow> macros" where
  "MQPMO_values a =
     [(''MQPMO_STRUC_ID'', Str ''PMO ''), (''MQPMO_STRUC_ID_ARRAY'', Chars ''PMO ''),
      (''MQPMO_VERSION_1'', Num 1), (''MQPMO_VERSION_2'', Num 2), (''MQPMO_VERSION_3'', Num 3),
      (''MQPMO_CURRENT_VERSION'', Num 3), (''MQPMO_LENGTH_1'', Num 128),
      (''MQPMO_LENGTH_2'', Num (by_abi a 160 152)),
      (''MQPMO_LENGTH_3'', Num (by_abi a 184 176)),
      (''MQPMO_CURRENT_LENGTH'', Num (by_abi a 184 176)), (''MQPMO_SYNCPOINT'', Num 2),
      (''MQPMO_NO_SYNCPOINT'', Num 4), (''MQPMO_DEFAULT_CONTEXT'', Num 32),
      (''MQPMO_NEW_MSG_ID'', Num 64), (''MQPMO_NEW_CORREL_ID'', Num 128),
      (''MQPMO_PASS_IDENTITY_CONTEXT'', Num 256), (''MQPMO_PASS_ALL_CONTEXT'', Num 512),
      (''MQPMO_SET_IDENTITY_CONTEXT'', Num 1024), (''MQPMO_SET_ALL_CONTEXT'', Num 2048),
      (''MQPMO_ALTERNATE_USER_AUTHORITY'', Num 4096), (''MQPMO_FAIL_IF_QUIESCING'', Num 8192),
      (''MQPMO_NO_CONTEXT'', Num 16384), (''MQPMO_LOGICAL_ORDER'', Num 32768),
      (''MQPMO_ASYNC_RESPONSE'', Num 65536), (''MQPMO_SYNC_RESPONSE'', Num 131072),
      (''MQPMO_RESOLVE_LOCAL_Q'', Num 262144), (''MQPMO_WARN_IF_NO_SUBS_MATCHED'', Num 524288),
      (''MQPMO_RETAIN'', Num 2097152), (''MQPMO_MD_FOR_OUTPUT_ONLY'', Num 8388608),
      (''MQPMO_SCOPE_QMGR'', Num 67108864), (''MQPMO_SUPPRESS_REPLYTO'', Num 134217728),
      (''MQPMO_NOT_OWN_SUBS'', Num 268435456), (''MQPMO_RESPONSE_AS_Q_DEF'', Num 0),
      (''MQPMO_RESPONSE_AS_TOPIC_DEF'', Num 0), (''MQPMO_NONE'', Num 0),
      (''MQPMO_PUB_OPTIONS_MASK'', Num 2097152), (''MQPMRF_MSG_ID'', Num 1),
      (''MQPMRF_CORREL_ID'', Num 2), (''MQPMRF_GROUP_ID'', Num 4), (''MQPMRF_FEEDBACK'', Num 8),
      (''MQPMRF_ACCOUNTING_TOKEN'', Num 16), (''MQPMRF_NONE'', Num 0), (''MQACTP_NEW'', Num 0),
      (''MQACTP_FORWARD'', Num 1), (''MQACTP_REPLY'', Num 2), (''MQACTP_REPORT'', Num 3)]"

definition MQRFH_values :: "abi \<Rightarrow> macros" where
  "MQRFH_values a =
     [(''MQRFH_STRUC_ID'', Str ''RFH ''), (''MQRFH_STRUC_ID_ARRAY'', Chars ''RFH ''),
      (''MQRFH_VERSION_1'', Num 1), (''MQRFH_VERSION_2'', Num 2),
      (''MQRFH_STRUC_LENGTH_FIXED'', Num 32), (''MQRFH_STRUC_LENGTH_FIXED_2'', Num 36),
      (''MQRFH_LENGTH_1'', Num 32), (''MQRFH_CURRENT_LENGTH'', Num 32), (''MQRFH_NONE'', Num 0),
      (''MQRFH_NO_FLAGS'', Num 0), (''MQRFH_FLAGS_RESTRICTED_MASK'', Num 4294901760),
      (''MQNVS_APPL_TYPE'', Str ''OPT_APP_GRP ''), (''MQNVS_MSG_TYPE'', Str ''OPT_MSG_TYPE '')]"

definition MQRFH2_values :: "abi \<Rightarrow> macros" where
  "MQRFH2_values a =
     [(''MQRFH2_LENGTH_2'', Num 36), (''MQRFH2_CURRENT_LENGTH'', Num 36)]"

definition MQRMH_values :: "abi \<Rightarrow> macros" where
  "MQRMH_values a =
     [(''MQRMH_STRUC_ID'', Str ''RMH ''), (''MQRMH_STRUC_ID_ARRAY'', Chars ''RMH ''),
      (''MQRMH_VERSION_1'', Num 1), (''MQRMH_CURRENT_VERSION'', Num 1),
      (''MQRMH_LENGTH_1'', Num 108), (''MQRMH_CURRENT_LENGTH'', Num 108),
      (''MQRMHF_LAST'', Num 1), (''MQRMHF_NOT_LAST'', Num 0),
      (''MQOII_NONE'', Str (replicate 24 NUL)), (''MQOII_NONE_ARRAY'', Chars (replicate 24 NUL))]"

definition MQSD_values :: "abi \<Rightarrow> macros" where
  "MQSD_values a =
     [(''MQSD_STRUC_ID'', Str ''SD  ''), (''MQSD_STRUC_ID_ARRAY'', Chars ''SD  ''),
      (''MQSD_VERSION_1'', Num 1), (''MQSD_CURRENT_VERSION'', Num 1),
      (''MQSD_LENGTH_1'', Num (by_abi a 344 312)),
      (''MQSD_CURRENT_LENGTH'', Num (by_abi a 344 312)),
      (''MQSID_NONE'', Str (replicate 40 NUL)),
      (''MQSID_NONE_ARRAY'', Chars (replicate 40 NUL)),
      (''MQSIDT_NONE'', Chars (replicate 1 NUL)), (''MQSIDT_NT_SECURITY_ID'', Chars [CHR 0x01]),
      (''MQSIDT_WAS_SECURITY_ID'', Chars [CHR 0x02])]"

definition MQSMPO_values :: "abi \<Rightarrow> macros" where
  "MQSMPO_values a =
     [(''MQSMPO_STRUC_ID'', Str ''SMPO''), (''MQSMPO_STRUC_ID_ARRAY'', Chars ''SMPO''),
      (''MQSMPO_VERSION_1'', Num 1), (''MQSMPO_CURRENT_VERSION'', Num 1),
      (''MQSMPO_LENGTH_1'', Num 20), (''MQSMPO_CURRENT_LENGTH'', Num 20),
      (''MQSMPO_SET_FIRST'', Num 0), (''MQSMPO_SET_PROP_UNDER_CURSOR'', Num 1),
      (''MQSMPO_SET_PROP_AFTER_CURSOR'', Num 2), (''MQSMPO_APPEND_PROPERTY'', Num 4),
      (''MQSMPO_SET_PROP_BEFORE_CURSOR'', Num 8), (''MQSMPO_NONE'', Num 0)]"

definition MQSRO_values :: "abi \<Rightarrow> macros" where
  "MQSRO_values a =
     [(''MQSRO_STRUC_ID'', Str ''SRO ''), (''MQSRO_STRUC_ID_ARRAY'', Chars ''SRO ''),
      (''MQSRO_VERSION_1'', Num 1), (''MQSRO_CURRENT_VERSION'', Num 1),
      (''MQSRO_LENGTH_1'', Num 16), (''MQSRO_CURRENT_LENGTH'', Num 16), (''MQSRO_NONE'', Num 0),
      (''MQSRO_FAIL_IF_QUIESCING'', Num 8192)]"

definition MQSTS_values :: "abi \<Rightarrow> macros" where
  "MQSTS_values a =
     [(''MQSTS_STRUC_ID'', Str ''STAT''), (''MQSTS_STRUC_ID_ARRAY'', Chars ''STAT''),
      (''MQSTS_VERSION_1'', Num 1), (''MQSTS_VERSION_2'', Num 2),
      (''MQSTS_CURRENT_VERSION'', Num 2), (''MQSTS_LENGTH_1'', Num 224),
      (''MQSTS_LENGTH_2'', Num (by_abi a 280 272)),
      (''MQSTS_CURRENT_LENGTH'', Num (by_abi a 280 272))]"

definition MQTM_values :: "abi \<Rightarrow> macros" where
  "MQTM_values a =
     [(''MQTM_STRUC_ID'', Str ''TM  ''), (''MQTM_STRUC_ID_ARRAY'', Chars ''TM  ''),
      (''MQTM_VERSION_1'', Num 1), (''MQTM_CURRENT_VERSION'', Num 1),
      (''MQTM_LENGTH_1'', Num 684), (''MQTM_CURRENT_LENGTH'', Num 684)]"

definition MQTMC2_values :: "abi \<Rightarrow> macros" where
  "MQTMC2_values a =
     [(''MQTMC_STRUC_ID'', Str ''TMC ''), (''MQTMC2_LENGTH_1'', Num 684),
      (''MQTMC2_LENGTH_2'', Num 732), (''MQTMC2_CURRENT_LENGTH'', Num 732),
      (''MQTMC_STRUC_ID_ARRAY'', Chars ''TMC ''), (''MQTMC_VERSION_1'', Str ''   1''),
      (''MQTMC_VERSION_2'', Str ''   2''), (''MQTMC_CURRENT_VERSION'', Str ''   2''),
      (''MQTMC_VERSION_1_ARRAY'', Chars ''   1''), (''MQTMC_VERSION_2_ARRAY'', Chars ''   2''),
      (''MQTMC_CURRENT_VERSION_ARRAY'', Chars ''   2'')]"

definition MQWIH_values :: "abi \<Rightarrow> macros" where
  "MQWIH_values a =
     [(''MQWIH_STRUC_ID'', Str ''WIH ''), (''MQWIH_STRUC_ID_ARRAY'', Chars ''WIH ''),
      (''MQWIH_VERSION_1'', Num 1), (''MQWIH_CURRENT_VERSION'', Num 1),
      (''MQWIH_LENGTH_1'', Num 120), (''MQWIH_CURRENT_LENGTH'', Num 120),
      (''MQWIH_NONE'', Num 0)]"

definition MQXQH_values :: "abi \<Rightarrow> macros" where
  "MQXQH_values a =
     [(''MQXQH_STRUC_ID'', Str ''XQH ''), (''MQXQH_STRUC_ID_ARRAY'', Chars ''XQH ''),
      (''MQXQH_VERSION_1'', Num 1), (''MQXQH_CURRENT_VERSION'', Num 1),
      (''MQXQH_LENGTH_1'', Num 428), (''MQXQH_CURRENT_LENGTH'', Num 428)]"

end
