(* ===== verification/Mqi_Reasons.thy ===== *)
theory Mqi_Reasons
  imports C_Init
begin

text \<open>
  The reason codes \<open>MQRC_*\<close> of \<open>cmqc.h\<close>.
\<close>

definition MQRC_values_1 :: "abi \<Rightarrow> macros" where
  "MQRC_values_1 a =
     [(''MQRC_NONE'', Num 0), (''MQRC_APPL_FIRST'', Num 900), (''MQRC_APPL_LAST'', Num 999),
      (''MQRC_ALIAS_BASE_Q_TYPE_ERROR'', Num 2001), (''MQRC_ALREADY_CONNECTED'', Num 2002),
      (''MQRC_BACKED_OUT'', Num 2003), (''MQRC_BUFFER_ERROR'', Num 2004),
      (''MQRC_BUFFER_LENGTH_ERROR'', Num 2005), (''MQRC_CHAR_ATTR_LENGTH_ERROR'', Num 2006),
      (''MQRC_CHAR_ATTRS_ERROR'', Num 2007), (''MQRC_CHAR_ATTRS_TOO_SHORT'', Num 2008),
      (''MQRC_CONNECTION_BROKEN'', Num 2009), (''MQRC_DATA_LENGTH_ERROR'', Num 2010),
      (''MQRC_DYNAMIC_Q_NAME_ERROR'', Num 2011), (''MQRC_ENVIRONMENT_ERROR'', Num 2012),
      (''MQRC_EXPIRY_ERROR'', Num 2013), (''MQRC_FEEDBACK_ERROR'', Num 2014),
      (''MQRC_GET_INHIBITED'', Num 2016), (''MQRC_HANDLE_NOT_AVAILABLE'', Num 2017),
      (''MQRC_HCONN_ERROR'', Num 2018), (''MQRC_HOBJ_ERROR'', Num 2019),
      (''MQRC_INHIBIT_VALUE_ERROR'', Num 2020), (''MQRC_INT_ATTR_COUNT_ERROR'', Num 2021),
      (''MQRC_INT_ATTR_COUNT_TOO_SMALL'', Num 2022), (''MQRC_INT_ATTRS_ARRAY_ERROR'', Num 2023),
      (''MQRC_SYNCPOINT_LIMIT_REACHED'', Num 2024),
      (''MQRC_MAX_CONNS_LIMIT_REACHED'', Num 2025), (''MQRC_MD_ERROR'', Num 2026),
      (''MQRC_MISSING_REPLY_TO_Q'', Num 2027), (''MQRC_MSG_TYPE_ERROR'', Num 2029),
      (''MQRC_MSG_TOO_BIG_FOR_Q'', Num 2030), (''MQRC_MSG_TOO_BIG_FOR_Q_MGR'', Num 2031),
      (''MQRC_NO_MSG_AVAILABLE'', Num 2033), (''MQRC_NO_MSG_UNDER_CURSOR'', Num 2034),
      (''MQRC_NOT_AUTHORIZED'', Num 2035), (''MQRC_NOT_OPEN_FOR_BROWSE'', Num 2036),
      (''MQRC_NOT_OPEN_FOR_INPUT'', Num 2037), (''MQRC_NOT_OPEN_FOR_INQUIRE'', Num 2038),
      (''MQRC_NOT_OPEN_FOR_OUTPUT'', Num 2039), (''MQRC_NOT_OPEN_FOR_SET'', Num 2040),
      (''MQRC_OBJECT_CHANGED'', Num 2041), (''MQRC_OBJECT_IN_USE'', Num 2042),
      (''MQRC_OBJECT_TYPE_ERROR'', Num 2043), (''MQRC_OD_ERROR'', Num 2044),
      (''MQRC_OPTION_NOT_VALID_FOR_TYPE'', Num 2045), (''MQRC_OPTIONS_ERROR'', Num 2046),
      (''MQRC_PERSISTENCE_ERROR'', Num 2047), (''MQRC_PERSISTENT_NOT_ALLOWED'', Num 2048),
      (''MQRC_PRIORITY_EXCEEDS_MAXIMUM'', Num 2049), (''MQRC_PRIORITY_ERROR'', Num 2050),
      (''MQRC_PUT_INHIBITED'', Num 2051), (''MQRC_Q_DELETED'', Num 2052),
      (''MQRC_Q_FULL'', Num 2053), (''MQRC_Q_NOT_EMPTY'', Num 2055),
      (''MQRC_Q_SPACE_NOT_AVAILABLE'', Num 2056), (''MQRC_Q_TYPE_ERROR'', Num 2057),
      (''MQRC_Q_MGR_NAME_ERROR'', Num 2058), (''MQRC_Q_MGR_NOT_AVAILABLE'', Num 2059),
      (''MQRC_REPORT_OPTIONS_ERROR'', Num 2061), (''MQRC_SECOND_MARK_NOT_ALLOWED'', Num 2062),
      (''MQRC_SECURITY_ERROR'', Num 2063), (''MQRC_TOKEN_TIMESTAMP_NOT_VALID'', Num 2064),
      (''MQRC_SELECTOR_COUNT_ERROR'', Num 2065), (''MQRC_SELECTOR_LIMIT_EXCEEDED'', Num 2066),
      (''MQRC_SELECTOR_ERROR'', Num 2067), (''MQRC_SELECTOR_NOT_FOR_TYPE'', Num 2068),
      (''MQRC_SIGNAL_OUTSTANDING'', Num 2069), (''MQRC_SIGNAL_REQUEST_ACCEPTED'', Num 2070),
      (''MQRC_STORAGE_NOT_AVAILABLE'', Num 2071), (''MQRC_SYNCPOINT_NOT_AVAILABLE'', Num 2072),
      (''MQRC_TRIGGER_CONTROL_ERROR'', Num 2075), (''MQRC_TRIGGER_DEPTH_ERROR'', Num 2076),
      (''MQRC_TRIGGER_MSG_PRIORITY_ERR'', Num 2077), (''MQRC_TRIGGER_TYPE_ERROR'', Num 2078),
      (''MQRC_TRUNCATED_MSG_ACCEPTED'', Num 2079), (''MQRC_TRUNCATED_MSG_FAILED'', Num 2080),
      (''MQRC_UNKNOWN_ALIAS_BASE_Q'', Num 2082), (''MQRC_UNKNOWN_OBJECT_NAME'', Num 2085),
      (''MQRC_UNKNOWN_OBJECT_Q_MGR'', Num 2086), (''MQRC_UNKNOWN_REMOTE_Q_MGR'', Num 2087),
      (''MQRC_WAIT_INTERVAL_ERROR'', Num 2090), (''MQRC_XMIT_Q_TYPE_ERROR'', Num 2091),
      (''MQRC_XMIT_Q_USAGE_ERROR'', Num 2092), (''MQRC_NOT_OPEN_FOR_PASS_ALL'', Num 2093),
      (''MQRC_NOT_OPEN_FOR_PASS_IDENT'', Num 2094), (''MQRC_NOT_OPEN_FOR_SET_ALL'', Num 2095),
      (''MQRC_NOT_OPEN_FOR_SET_IDENT'', Num 2096), (''MQRC_CONTEXT_HANDLE_ERROR'', Num 2097),
      (''MQRC_CONTEXT_NOT_AVAILABLE'', Num 2098), (''MQRC_SIGNAL1_ERROR'', Num 2099),
      (''MQRC_OBJECT_ALREADY_EXISTS'', Num 2100), (''MQRC_OBJECT_DAMAGED'', Num 2101),
      (''MQRC_RESOURCE_PROBLEM'', Num 2102), (''MQRC_ANOTHER_Q_MGR_CONNECTED'', Num 2103),
      (''MQRC_UNKNOWN_REPORT_OPTION'', Num 2104), (''MQRC_STORAGE_CLASS_ERROR'', Num 2105),
      (''MQRC_COD_NOT_VALID_FOR_XCF_Q'', Num 2106), (''MQRC_XWAIT_CANCELED'', Num 2107),
      (''MQRC_XWAIT_ERROR'', Num 2108), (''MQRC_SUPPRESSED_BY_EXIT'', Num 2109),
      (''MQRC_FORMAT_ERROR'', Num 2110), (''MQRC_SOURCE_CCSID_ERROR'', Num 2111),
      (''MQRC_SOURCE_INTEGER_ENC_ERROR'', Num 2112),
      (''MQRC_SOURCE_DECIMAL_ENC_ERROR'', Num 2113),
      (''MQRC_SOURCE_FLOAT_ENC_ERROR'', Num 2114), (''MQRC_TARGET_CCSID_ERROR'', Num 2115),
      (''MQRC_TARGET_INTEGER_ENC_ERROR'', Num 2116),
      (''MQRC_TARGET_DECIMAL_ENC_ERROR'', Num 2117),
      (''MQRC_TARGET_FLOAT_ENC_ERROR'', Num 2118), (''MQRC_NOT_CONVERTED'', Num 2119),
      (''MQRC_CONVERTED_MSG_TOO_BIG'', Num 2120), (''MQRC_TRUNCATED'', Num 2120),
      (''MQRC_NO_EXTERNAL_PARTICIPANTS'', Num 2121),
      (''MQRC_PARTICIPANT_NOT_AVAILABLE'', Num 2122), (''MQRC_OUTCOME_MIXED'', Num 2123),
      (''MQRC_OUTCOME_PENDING'', Num 2124), (''MQRC_BRIDGE_STARTED'', Num 2125),
      (''MQRC_BRIDGE_STOPPED'', Num 2126), (''MQRC_ADAPTER_STORAGE_SHORTAGE'', Num 2127)]"

definition MQRC_values_2 :: "abi \<Rightarrow> macros" where
  "MQRC_values_2 a =
     [(''MQRC_UOW_IN_PROGRESS'', Num 2128), (''MQRC_ADAPTER_CONN_LOAD_ERROR'', Num 2129),
      (''MQRC_ADAPTER_SERV_LOAD_ERROR'', Num 2130), (''MQRC_ADAPTER_DEFS_ERROR'', Num 2131),
      (''MQRC_ADAPTER_DEFS_LOAD_ERROR'', Num 2132),
      (''MQRC_ADAPTER_CONV_LOAD_ERROR'', Num 2133), (''MQRC_BO_ERROR'', Num 2134),
      (''MQRC_DH_ERROR'', Num 2135), (''MQRC_MULTIPLE_REASONS'', Num 2136),
      (''MQRC_OPEN_FAILED'', Num 2137), (''MQRC_ADAPTER_DISC_LOAD_ERROR'', Num 2138),
      (''MQRC_CNO_ERROR'', Num 2139), (''MQRC_CICS_WAIT_FAILED'', Num 2140),
      (''MQRC_DLH_ERROR'', Num 2141), (''MQRC_HEADER_ERROR'', Num 2142),
      (''MQRC_SOURCE_LENGTH_ERROR'', Num 2143), (''MQRC_TARGET_LENGTH_ERROR'', Num 2144),
      (''MQRC_SOURCE_BUFFER_ERROR'', Num 2145), (''MQRC_TARGET_BUFFER_ERROR'', Num 2146),
      (''MQRC_INCOMPLETE_TRANSACTION'', Num 2147), (''MQRC_IIH_ERROR'', Num 2148),
      (''MQRC_PCF_ERROR'', Num 2149), (''MQRC_DBCS_ERROR'', Num 2150),
      (''MQRC_OBJECT_NAME_ERROR'', Num 2152), (''MQRC_OBJECT_Q_MGR_NAME_ERROR'', Num 2153),
      (''MQRC_RECS_PRESENT_ERROR'', Num 2154), (''MQRC_OBJECT_RECORDS_ERROR'', Num 2155),
      (''MQRC_RESPONSE_RECORDS_ERROR'', Num 2156), (''MQRC_ASID_MISMATCH'', Num 2157),
      (''MQRC_PMO_RECORD_FLAGS_ERROR'', Num 2158), (''MQRC_PUT_MSG_RECORDS_ERROR'', Num 2159),
      (''MQRC_CONN_ID_IN_USE'', Num 2160), (''MQRC_Q_MGR_QUIESCING'', Num 2161),
      (''MQRC_Q_MGR_STOPPING'', Num 2162), (''MQRC_DUPLICATE_RECOV_COORD'', Num 2163),
      (''MQRC_PMO_ERROR'', Num 2173), (''MQRC_API_EXIT_NOT_FOUND'', Num 2182),
      (''MQRC_API_EXIT_LOAD_ERROR'', Num 2183), (''MQRC_REMOTE_Q_NAME_ERROR'', Num 2184),
      (''MQRC_INCONSISTENT_PERSISTENCE'', Num 2185), (''MQRC_GMO_ERROR'', Num 2186),
      (''MQRC_CICS_BRIDGE_RESTRICTION'', Num 2187),
      (''MQRC_STOPPED_BY_CLUSTER_EXIT'', Num 2188),
      (''MQRC_CLUSTER_RESOLUTION_ERROR'', Num 2189),
      (''MQRC_CONVERTED_STRING_TOO_BIG'', Num 2190), (''MQRC_TMC_ERROR'', Num 2191),
      (''MQRC_STORAGE_MEDIUM_FULL'', Num 2192), (''MQRC_PAGESET_FULL'', Num 2192),
      (''MQRC_PAGESET_ERROR'', Num 2193), (''MQRC_NAME_NOT_VALID_FOR_TYPE'', Num 2194),
      (''MQRC_UNEXPECTED_ERROR'', Num 2195), (''MQRC_UNKNOWN_XMIT_Q'', Num 2196),
      (''MQRC_UNKNOWN_DEF_XMIT_Q'', Num 2197), (''MQRC_DEF_XMIT_Q_TYPE_ERROR'', Num 2198),
      (''MQRC_DEF_XMIT_Q_USAGE_ERROR'', Num 2199), (''MQRC_MSG_MARKED_BROWSE_CO_OP'', Num 2200),
      (''MQRC_NAME_IN_USE'', Num 2201), (''MQRC_CONNECTION_QUIESCING'', Num 2202),
      (''MQRC_CONNECTION_STOPPING'', Num 2203), (''MQRC_ADAPTER_NOT_AVAILABLE'', Num 2204),
      (''MQRC_MSG_ID_ERROR'', Num 2206), (''MQRC_CORREL_ID_ERROR'', Num 2207),
      (''MQRC_FILE_SYSTEM_ERROR'', Num 2208), (''MQRC_NO_MSG_LOCKED'', Num 2209),
      (''MQRC_SOAP_DOTNET_ERROR'', Num 2210), (''MQRC_SOAP_AXIS_ERROR'', Num 2211),
      (''MQRC_SOAP_URL_ERROR'', Num 2212), (''MQRC_FILE_NOT_AUDITED'', Num 2216),
      (''MQRC_CONNECTION_NOT_AUTHORIZED'', Num 2217),
      (''MQRC_MSG_TOO_BIG_FOR_CHANNEL'', Num 2218), (''MQRC_CALL_IN_PROGRESS'', Num 2219),
      (''MQRC_RMH_ERROR'', Num 2220), (''MQRC_Q_MGR_ACTIVE'', Num 2222),
      (''MQRC_Q_MGR_NOT_ACTIVE'', Num 2223), (''MQRC_Q_DEPTH_HIGH'', Num 2224),
      (''MQRC_Q_DEPTH_LOW'', Num 2225), (''MQRC_Q_SERVICE_INTERVAL_HIGH'', Num 2226),
      (''MQRC_Q_SERVICE_INTERVAL_OK'', Num 2227), (''MQRC_RFH_HEADER_FIELD_ERROR'', Num 2228),
      (''MQRC_RAS_PROPERTY_ERROR'', Num 2229), (''MQRC_UNIT_OF_WORK_NOT_STARTED'', Num 2232),
      (''MQRC_CHANNEL_AUTO_DEF_OK'', Num 2233), (''MQRC_CHANNEL_AUTO_DEF_ERROR'', Num 2234),
      (''MQRC_CFH_ERROR'', Num 2235), (''MQRC_CFIL_ERROR'', Num 2236),
      (''MQRC_CFIN_ERROR'', Num 2237), (''MQRC_CFSL_ERROR'', Num 2238),
      (''MQRC_CFST_ERROR'', Num 2239), (''MQRC_INCOMPLETE_GROUP'', Num 2241),
      (''MQRC_INCOMPLETE_MSG'', Num 2242), (''MQRC_INCONSISTENT_CCSIDS'', Num 2243),
      (''MQRC_INCONSISTENT_ENCODINGS'', Num 2244), (''MQRC_INCONSISTENT_UOW'', Num 2245),
      (''MQRC_INVALID_MSG_UNDER_CURSOR'', Num 2246), (''MQRC_MATCH_OPTIONS_ERROR'', Num 2247),
      (''MQRC_MDE_ERROR'', Num 2248), (''MQRC_MSG_FLAGS_ERROR'', Num 2249),
      (''MQRC_MSG_SEQ_NUMBER_ERROR'', Num 2250), (''MQRC_OFFSET_ERROR'', Num 2251),
      (''MQRC_ORIGINAL_LENGTH_ERROR'', Num 2252), (''MQRC_SEGMENT_LENGTH_ZERO'', Num 2253),
      (''MQRC_UOW_NOT_AVAILABLE'', Num 2255), (''MQRC_WRONG_GMO_VERSION'', Num 2256),
      (''MQRC_WRONG_MD_VERSION'', Num 2257), (''MQRC_GROUP_ID_ERROR'', Num 2258),
      (''MQRC_INCONSISTENT_BROWSE'', Num 2259), (''MQRC_XQH_ERROR'', Num 2260),
      (''MQRC_SRC_ENV_ERROR'', Num 2261), (''MQRC_SRC_NAME_ERROR'', Num 2262),
      (''MQRC_DEST_ENV_ERROR'', Num 2263), (''MQRC_DEST_NAME_ERROR'', Num 2264),
      (''MQRC_TM_ERROR'', Num 2265), (''MQRC_CLUSTER_EXIT_ERROR'', Num 2266),
      (''MQRC_CLUSTER_EXIT_LOAD_ERROR'', Num 2267), (''MQRC_CLUSTER_PUT_INHIBITED'', Num 2268),
      (''MQRC_CLUSTER_RESOURCE_ERROR'', Num 2269),
      (''MQRC_NO_DESTINATIONS_AVAILABLE'', Num 2270), (''MQRC_CONN_TAG_IN_USE'', Num 2271),
      (''MQRC_PARTIALLY_CONVERTED'', Num 2272), (''MQRC_CONNECTION_ERROR'', Num 2273)]"

definition MQRC_values_3 :: "abi \<Rightarrow> macros" where
  "MQRC_values_3 a =
     [(''MQRC_OPTION_ENVIRONMENT_ERROR'', Num 2274), (''MQRC_CD_ERROR'', Num 2277),
      (''MQRC_CLIENT_CONN_ERROR'', Num 2278), (''MQRC_CHANNEL_STOPPED_BY_USER'', Num 2279),
      (''MQRC_HCONFIG_ERROR'', Num 2280), (''MQRC_FUNCTION_ERROR'', Num 2281),
      (''MQRC_CHANNEL_STARTED'', Num 2282), (''MQRC_CHANNEL_STOPPED'', Num 2283),
      (''MQRC_CHANNEL_CONV_ERROR'', Num 2284), (''MQRC_SERVICE_NOT_AVAILABLE'', Num 2285),
      (''MQRC_INITIALIZATION_FAILED'', Num 2286), (''MQRC_TERMINATION_FAILED'', Num 2287),
      (''MQRC_UNKNOWN_Q_NAME'', Num 2288), (''MQRC_SERVICE_ERROR'', Num 2289),
      (''MQRC_Q_ALREADY_EXISTS'', Num 2290), (''MQRC_USER_ID_NOT_AVAILABLE'', Num 2291),
      (''MQRC_UNKNOWN_ENTITY'', Num 2292), (''MQRC_UNKNOWN_AUTH_ENTITY'', Num 2293),
      (''MQRC_UNKNOWN_REF_OBJECT'', Num 2294), (''MQRC_CHANNEL_ACTIVATED'', Num 2295),
      (''MQRC_CHANNEL_NOT_ACTIVATED'', Num 2296), (''MQRC_UOW_CANCELED'', Num 2297),
      (''MQRC_FUNCTION_NOT_SUPPORTED'', Num 2298), (''MQRC_SELECTOR_TYPE_ERROR'', Num 2299),
      (''MQRC_COMMAND_TYPE_ERROR'', Num 2300), (''MQRC_MULTIPLE_INSTANCE_ERROR'', Num 2301),
      (''MQRC_SYSTEM_ITEM_NOT_ALTERABLE'', Num 2302), (''MQRC_BAG_CONVERSION_ERROR'', Num 2303),
      (''MQRC_SELECTOR_OUT_OF_RANGE'', Num 2304), (''MQRC_SELECTOR_NOT_UNIQUE'', Num 2305),
      (''MQRC_INDEX_NOT_PRESENT'', Num 2306), (''MQRC_STRING_ERROR'', Num 2307),
      (''MQRC_ENCODING_NOT_SUPPORTED'', Num 2308), (''MQRC_SELECTOR_NOT_PRESENT'', Num 2309),
      (''MQRC_OUT_SELECTOR_ERROR'', Num 2310), (''MQRC_STRING_TRUNCATED'', Num 2311),
      (''MQRC_SELECTOR_WRONG_TYPE'', Num 2312), (''MQRC_INCONSISTENT_ITEM_TYPE'', Num 2313),
      (''MQRC_INDEX_ERROR'', Num 2314), (''MQRC_SYSTEM_BAG_NOT_ALTERABLE'', Num 2315),
      (''MQRC_ITEM_COUNT_ERROR'', Num 2316), (''MQRC_FORMAT_NOT_SUPPORTED'', Num 2317),
      (''MQRC_SELECTOR_NOT_SUPPORTED'', Num 2318), (''MQRC_ITEM_VALUE_ERROR'', Num 2319),
      (''MQRC_HBAG_ERROR'', Num 2320), (''MQRC_PARAMETER_MISSING'', Num 2321),
      (''MQRC_CMD_SERVER_NOT_AVAILABLE'', Num 2322), (''MQRC_STRING_LENGTH_ERROR'', Num 2323),
      (''MQRC_INQUIRY_COMMAND_ERROR'', Num 2324), (''MQRC_NESTED_BAG_NOT_SUPPORTED'', Num 2325),
      (''MQRC_BAG_WRONG_TYPE'', Num 2326), (''MQRC_ITEM_TYPE_ERROR'', Num 2327),
      (''MQRC_SYSTEM_BAG_NOT_DELETABLE'', Num 2328),
      (''MQRC_SYSTEM_ITEM_NOT_DELETABLE'', Num 2329),
      (''MQRC_CODED_CHAR_SET_ID_ERROR'', Num 2330), (''MQRC_MSG_TOKEN_ERROR'', Num 2331),
      (''MQRC_MISSING_WIH'', Num 2332), (''MQRC_WIH_ERROR'', Num 2333),
      (''MQRC_RFH_ERROR'', Num 2334), (''MQRC_RFH_STRING_ERROR'', Num 2335),
      (''MQRC_RFH_COMMAND_ERROR'', Num 2336), (''MQRC_RFH_PARM_ERROR'', Num 2337),
      (''MQRC_RFH_DUPLICATE_PARM'', Num 2338), (''MQRC_RFH_PARM_MISSING'', Num 2339),
      (''MQRC_CHAR_CONVERSION_ERROR'', Num 2340), (''MQRC_UCS2_CONVERSION_ERROR'', Num 2341),
      (''MQRC_DB2_NOT_AVAILABLE'', Num 2342), (''MQRC_OBJECT_NOT_UNIQUE'', Num 2343),
      (''MQRC_CONN_TAG_NOT_RELEASED'', Num 2344), (''MQRC_CF_NOT_AVAILABLE'', Num 2345),
      (''MQRC_CF_STRUC_IN_USE'', Num 2346), (''MQRC_CF_STRUC_LIST_HDR_IN_USE'', Num 2347),
      (''MQRC_CF_STRUC_AUTH_FAILED'', Num 2348), (''MQRC_CF_STRUC_ERROR'', Num 2349),
      (''MQRC_CONN_TAG_NOT_USABLE'', Num 2350), (''MQRC_GLOBAL_UOW_CONFLICT'', Num 2351),
      (''MQRC_LOCAL_UOW_CONFLICT'', Num 2352), (''MQRC_HANDLE_IN_USE_FOR_UOW'', Num 2353),
      (''MQRC_UOW_ENLISTMENT_ERROR'', Num 2354), (''MQRC_UOW_MIX_NOT_SUPPORTED'', Num 2355),
      (''MQRC_WXP_ERROR'', Num 2356), (''MQRC_CURRENT_RECORD_ERROR'', Num 2357),
      (''MQRC_NEXT_OFFSET_ERROR'', Num 2358), (''MQRC_NO_RECORD_AVAILABLE'', Num 2359),
      (''MQRC_OBJECT_LEVEL_INCOMPATIBLE'', Num 2360), (''MQRC_NEXT_RECORD_ERROR'', Num 2361),
      (''MQRC_BACKOUT_THRESHOLD_REACHED'', Num 2362), (''MQRC_MSG_NOT_MATCHED'', Num 2363),
      (''MQRC_JMS_FORMAT_ERROR'', Num 2364), (''MQRC_SEGMENTS_NOT_SUPPORTED'', Num 2365),
      (''MQRC_WRONG_CF_LEVEL'', Num 2366), (''MQRC_CONFIG_CREATE_OBJECT'', Num 2367),
      (''MQRC_CONFIG_CHANGE_OBJECT'', Num 2368), (''MQRC_CONFIG_DELETE_OBJECT'', Num 2369),
      (''MQRC_CONFIG_REFRESH_OBJECT'', Num 2370), (''MQRC_CHANNEL_SSL_ERROR'', Num 2371),
      (''MQRC_PARTICIPANT_NOT_DEFINED'', Num 2372), (''MQRC_CF_STRUC_FAILED'', Num 2373),
      (''MQRC_API_EXIT_ERROR'', Num 2374), (''MQRC_API_EXIT_INIT_ERROR'', Num 2375),
      (''MQRC_API_EXIT_TERM_ERROR'', Num 2376), (''MQRC_EXIT_REASON_ERROR'', Num 2377),
      (''MQRC_RESERVED_VALUE_ERROR'', Num 2378), (''MQRC_NO_DATA_AVAILABLE'', Num 2379),
      (''MQRC_SCO_ERROR'', Num 2380), (''MQRC_KEY_REPOSITORY_ERROR'', Num 2381),
      (''MQRC_CRYPTO_HARDWARE_ERROR'', Num 2382),
      (''MQRC_AUTH_INFO_REC_COUNT_ERROR'', Num 2383), (''MQRC_AUTH_INFO_REC_ERROR'', Num 2384),
      (''MQRC_AIR_ERROR'', Num 2385), (''MQRC_AUTH_INFO_TYPE_ERROR'', Num 2386),
      (''MQRC_AUTH_INFO_CONN_NAME_ERROR'', Num 2387), (''MQRC_LDAP_USER_NAME_ERROR'', Num 2388),
      (''MQRC_LDAP_USER_NAME_LENGTH_ERR'', Num 2389), (''MQRC_LDAP_PASSWORD_ERROR'', Num 2390),
      (''MQRC_SSL_ALREADY_INITIALIZED'', Num 2391), (''MQRC_SSL_CONFIG_ERROR'', Num 2392),
      (''MQRC_SSL_INITIALIZATION_ERROR'', Num 2393), (''MQRC_Q_INDEX_TYPE_ERROR'', Num 2394),
      (''MQRC_CFBS_ERROR'', Num 2395)]"

definition MQRC_values_4 :: "abi \<Rightarrow> macros" where
  "MQRC_values_4 a =
     [(''MQRC_SSL_NOT_ALLOWED'', Num 2396), (''MQRC_JSSE_ERROR'', Num 2397),
      (''MQRC_SSL_PEER_NAME_MISMATCH'', Num 2398), (''MQRC_SSL_PEER_NAME_ERROR'', Num 2399),
      (''MQRC_UNSUPPORTED_CIPHER_SUITE'', Num 2400),
      (''MQRC_SSL_CERTIFICATE_REVOKED'', Num 2401), (''MQRC_SSL_CERT_STORE_ERROR'', Num 2402),
      (''MQRC_CLIENT_EXIT_LOAD_ERROR'', Num 2406), (''MQRC_CLIENT_EXIT_ERROR'', Num 2407),
      (''MQRC_UOW_COMMITTED'', Num 2408), (''MQRC_SSL_KEY_RESET_ERROR'', Num 2409),
      (''MQRC_UNKNOWN_COMPONENT_NAME'', Num 2410), (''MQRC_LOGGER_STATUS'', Num 2411),
      (''MQRC_COMMAND_MQSC'', Num 2412), (''MQRC_COMMAND_PCF'', Num 2413),
      (''MQRC_CFIF_ERROR'', Num 2414), (''MQRC_CFSF_ERROR'', Num 2415),
      (''MQRC_CFGR_ERROR'', Num 2416), (''MQRC_MSG_NOT_ALLOWED_IN_GROUP'', Num 2417),
      (''MQRC_FILTER_OPERATOR_ERROR'', Num 2418), (''MQRC_NESTED_SELECTOR_ERROR'', Num 2419),
      (''MQRC_EPH_ERROR'', Num 2420), (''MQRC_RFH_FORMAT_ERROR'', Num 2421),
      (''MQRC_CFBF_ERROR'', Num 2422), (''MQRC_CLIENT_CHANNEL_CONFLICT'', Num 2423),
      (''MQRC_SD_ERROR'', Num 2424), (''MQRC_TOPIC_STRING_ERROR'', Num 2425),
      (''MQRC_STS_ERROR'', Num 2426), (''MQRC_NO_SUBSCRIPTION'', Num 2428),
      (''MQRC_SUBSCRIPTION_IN_USE'', Num 2429), (''MQRC_STAT_TYPE_ERROR'', Num 2430),
      (''MQRC_SUB_USER_DATA_ERROR'', Num 2431), (''MQRC_SUB_ALREADY_EXISTS'', Num 2432),
      (''MQRC_IDENTITY_MISMATCH'', Num 2434), (''MQRC_ALTER_SUB_ERROR'', Num 2435),
      (''MQRC_DURABILITY_NOT_ALLOWED'', Num 2436), (''MQRC_NO_RETAINED_MSG'', Num 2437),
      (''MQRC_SRO_ERROR'', Num 2438), (''MQRC_SUB_NAME_ERROR'', Num 2440),
      (''MQRC_OBJECT_STRING_ERROR'', Num 2441), (''MQRC_PROPERTY_NAME_ERROR'', Num 2442),
      (''MQRC_SEGMENTATION_NOT_ALLOWED'', Num 2443), (''MQRC_CBD_ERROR'', Num 2444),
      (''MQRC_CTLO_ERROR'', Num 2445), (''MQRC_NO_CALLBACKS_ACTIVE'', Num 2446),
      (''MQRC_CALLBACK_NOT_REGISTERED'', Num 2448), (''MQRC_OPTIONS_CHANGED'', Num 2457),
      (''MQRC_READ_AHEAD_MSGS'', Num 2458), (''MQRC_SELECTOR_SYNTAX_ERROR'', Num 2459),
      (''MQRC_HMSG_ERROR'', Num 2460), (''MQRC_CMHO_ERROR'', Num 2461),
      (''MQRC_DMHO_ERROR'', Num 2462), (''MQRC_SMPO_ERROR'', Num 2463),
      (''MQRC_IMPO_ERROR'', Num 2464), (''MQRC_PROPERTY_NAME_TOO_BIG'', Num 2465),
      (''MQRC_PROP_VALUE_NOT_CONVERTED'', Num 2466),
      (''MQRC_PROP_TYPE_NOT_SUPPORTED'', Num 2467), (''MQRC_PROPERTY_VALUE_TOO_BIG'', Num 2469),
      (''MQRC_PROP_CONV_NOT_SUPPORTED'', Num 2470), (''MQRC_PROPERTY_NOT_AVAILABLE'', Num 2471),
      (''MQRC_PROP_NUMBER_FORMAT_ERROR'', Num 2472), (''MQRC_PROPERTY_TYPE_ERROR'', Num 2473),
      (''MQRC_PROPERTIES_TOO_BIG'', Num 2478), (''MQRC_PUT_NOT_RETAINED'', Num 2479),
      (''MQRC_ALIAS_TARGTYPE_CHANGED'', Num 2480), (''MQRC_DMPO_ERROR'', Num 2481),
      (''MQRC_PD_ERROR'', Num 2482), (''MQRC_CALLBACK_TYPE_ERROR'', Num 2483),
      (''MQRC_CBD_OPTIONS_ERROR'', Num 2484), (''MQRC_MAX_MSG_LENGTH_ERROR'', Num 2485),
      (''MQRC_CALLBACK_ROUTINE_ERROR'', Num 2486), (''MQRC_CALLBACK_LINK_ERROR'', Num 2487),
      (''MQRC_OPERATION_ERROR'', Num 2488), (''MQRC_BMHO_ERROR'', Num 2489),
      (''MQRC_UNSUPPORTED_PROPERTY'', Num 2490), (''MQRC_PROP_NAME_NOT_CONVERTED'', Num 2492),
      (''MQRC_GET_ENABLED'', Num 2494), (''MQRC_MODULE_NOT_FOUND'', Num 2495),
      (''MQRC_MODULE_INVALID'', Num 2496), (''MQRC_MODULE_ENTRY_NOT_FOUND'', Num 2497),
      (''MQRC_MIXED_CONTENT_NOT_ALLOWED'', Num 2498), (''MQRC_MSG_HANDLE_IN_USE'', Num 2499),
      (''MQRC_HCONN_ASYNC_ACTIVE'', Num 2500), (''MQRC_MHBO_ERROR'', Num 2501),
      (''MQRC_PUBLICATION_FAILURE'', Num 2502), (''MQRC_SUB_INHIBITED'', Num 2503),
      (''MQRC_SELECTOR_ALWAYS_FALSE'', Num 2504), (''MQRC_XEPO_ERROR'', Num 2507),
      (''MQRC_DURABILITY_NOT_ALTERABLE'', Num 2509), (''MQRC_TOPIC_NOT_ALTERABLE'', Num 2510),
      (''MQRC_SUBLEVEL_NOT_ALTERABLE'', Num 2512),
      (''MQRC_PROPERTY_NAME_LENGTH_ERR'', Num 2513), (''MQRC_DUPLICATE_GROUP_SUB'', Num 2514),
      (''MQRC_GROUPING_NOT_ALTERABLE'', Num 2515),
      (''MQRC_SELECTOR_INVALID_FOR_TYPE'', Num 2516), (''MQRC_HOBJ_QUIESCED'', Num 2517),
      (''MQRC_HOBJ_QUIESCED_NO_MSGS'', Num 2518), (''MQRC_SELECTION_STRING_ERROR'', Num 2519),
      (''MQRC_RES_OBJECT_STRING_ERROR'', Num 2520), (''MQRC_CONNECTION_SUSPENDED'', Num 2521),
      (''MQRC_INVALID_DESTINATION'', Num 2522), (''MQRC_INVALID_SUBSCRIPTION'', Num 2523),
      (''MQRC_SELECTOR_NOT_ALTERABLE'', Num 2524), (''MQRC_RETAINED_MSG_Q_ERROR'', Num 2525),
      (''MQRC_RETAINED_NOT_DELIVERED'', Num 2526),
      (''MQRC_RFH_RESTRICTED_FORMAT_ERR'', Num 2527), (''MQRC_CONNECTION_STOPPED'', Num 2528),
      (''MQRC_ASYNC_UOW_CONFLICT'', Num 2529), (''MQRC_ASYNC_XA_CONFLICT'', Num 2530),
      (''MQRC_PUBSUB_INHIBITED'', Num 2531), (''MQRC_MSG_HANDLE_COPY_FAILURE'', Num 2532),
      (''MQRC_DEST_CLASS_NOT_ALTERABLE'', Num 2533), (''MQRC_OPERATION_NOT_ALLOWED'', Num 2534),
      (''MQRC_ACTION_ERROR'', Num 2535), (''MQRC_CHANNEL_NOT_AVAILABLE'', Num 2537),
      (''MQRC_HOST_NOT_AVAILABLE'', Num 2538), (''MQRC_CHANNEL_CONFIG_ERROR'', Num 2539),
      (''MQRC_UNKNOWN_CHANNEL_NAME'', Num 2540), (''MQRC_LOOPING_PUBLICATION'', Num 2541),
      (''MQRC_ALREADY_JOINED'', Num 2542)]"

definition MQRC_values_5 :: "abi \<Rightarrow> macros" where
  "MQRC_values_5 a =
     [(''MQRC_STANDBY_Q_MGR'', Num 2543), (''MQRC_RECONNECTING'', Num 2544),
      (''MQRC_RECONNECTED'', Num 2545), (''MQRC_RECONNECT_QMID_MISMATCH'', Num 2546),
      (''MQRC_RECONNECT_INCOMPATIBLE'', Num 2547), (''MQRC_RECONNECT_FAILED'', Num 2548),
      (''MQRC_CALL_INTERRUPTED'', Num 2549), (''MQRC_NO_SUBS_MATCHED'', Num 2550),
      (''MQRC_SELECTION_NOT_AVAILABLE'', Num 2551), (''MQRC_CHANNEL_SSL_WARNING'', Num 2552),
      (''MQRC_OCSP_URL_ERROR'', Num 2553), (''MQRC_CONTENT_ERROR'', Num 2554),
      (''MQRC_RECONNECT_Q_MGR_REQD'', Num 2555), (''MQRC_RECONNECT_TIMED_OUT'', Num 2556),
      (''MQRC_PUBLISH_EXIT_ERROR'', Num 2557), (''MQRC_COMMINFO_ERROR'', Num 2558),
      (''MQRC_DEF_SYNCPOINT_INHIBITED'', Num 2559), (''MQRC_MULTICAST_ONLY'', Num 2560),
      (''MQRC_DATA_SET_NOT_AVAILABLE'', Num 2561), (''MQRC_GROUPING_NOT_ALLOWED'', Num 2562),
      (''MQRC_GROUP_ADDRESS_ERROR'', Num 2563), (''MQRC_MULTICAST_CONFIG_ERROR'', Num 2564),
      (''MQRC_MULTICAST_INTERFACE_ERROR'', Num 2565), (''MQRC_MULTICAST_SEND_ERROR'', Num 2566),
      (''MQRC_MULTICAST_INTERNAL_ERROR'', Num 2567),
      (''MQRC_CONNECTION_NOT_AVAILABLE'', Num 2568), (''MQRC_SYNCPOINT_NOT_ALLOWED'', Num 2569),
      (''MQRC_SSL_ALT_PROVIDER_REQUIRED'', Num 2570), (''MQRC_MCAST_PUB_STATUS'', Num 2571),
      (''MQRC_MCAST_SUB_STATUS'', Num 2572), (''MQRC_PRECONN_EXIT_LOAD_ERROR'', Num 2573),
      (''MQRC_PRECONN_EXIT_NOT_FOUND'', Num 2574), (''MQRC_PRECONN_EXIT_ERROR'', Num 2575),
      (''MQRC_CD_ARRAY_ERROR'', Num 2576), (''MQRC_CHANNEL_BLOCKED'', Num 2577),
      (''MQRC_CHANNEL_BLOCKED_WARNING'', Num 2578), (''MQRC_SUBSCRIPTION_CREATE'', Num 2579),
      (''MQRC_SUBSCRIPTION_DELETE'', Num 2580), (''MQRC_SUBSCRIPTION_CHANGE'', Num 2581),
      (''MQRC_SUBSCRIPTION_REFRESH'', Num 2582), (''MQRC_INSTALLATION_MISMATCH'', Num 2583),
      (''MQRC_NOT_PRIVILEGED'', Num 2584), (''MQRC_PROPERTIES_DISABLED'', Num 2586),
      (''MQRC_HMSG_NOT_AVAILABLE'', Num 2587), (''MQRC_EXIT_PROPS_NOT_SUPPORTED'', Num 2588),
      (''MQRC_INSTALLATION_MISSING'', Num 2589), (''MQRC_FASTPATH_NOT_AVAILABLE'', Num 2590),
      (''MQRC_CIPHER_SPEC_NOT_SUITE_B'', Num 2591), (''MQRC_SUITE_B_ERROR'', Num 2592),
      (''MQRC_CERT_VAL_POLICY_ERROR'', Num 2593),
      (''MQRC_PASSWORD_PROTECTION_ERROR'', Num 2594), (''MQRC_CSP_ERROR'', Num 2595),
      (''MQRC_CERT_LABEL_NOT_ALLOWED'', Num 2596),
      (''MQRC_ADMIN_TOPIC_STRING_ERROR'', Num 2598), (''MQRC_AMQP_NOT_AVAILABLE'', Num 2599),
      (''MQRC_CCDT_URL_ERROR'', Num 2600), (''MQRC_Q_MGR_RECONNECT_REQUESTED'', Num 2601),
      (''MQRC_BNO_ERROR'', Num 2602), (''MQRC_OUTBOUND_SNI_NOT_VALID'', Num 2603),
      (''MQRC_REOPEN_EXCL_INPUT_ERROR'', Num 6100), (''MQRC_REOPEN_INQUIRE_ERROR'', Num 6101),
      (''MQRC_REOPEN_SAVED_CONTEXT_ERR'', Num 6102),
      (''MQRC_REOPEN_TEMPORARY_Q_ERROR'', Num 6103), (''MQRC_ATTRIBUTE_LOCKED'', Num 6104),
      (''MQRC_CURSOR_NOT_VALID'', Num 6105), (''MQRC_ENCODING_ERROR'', Num 6106),
      (''MQRC_STRUC_ID_ERROR'', Num 6107), (''MQRC_NULL_POINTER'', Num 6108),
      (''MQRC_NO_CONNECTION_REFERENCE'', Num 6109), (''MQRC_NO_BUFFER'', Num 6110),
      (''MQRC_BINARY_DATA_LENGTH_ERROR'', Num 6111), (''MQRC_BUFFER_NOT_AUTOMATIC'', Num 6112),
      (''MQRC_INSUFFICIENT_BUFFER'', Num 6113), (''MQRC_INSUFFICIENT_DATA'', Num 6114),
      (''MQRC_DATA_TRUNCATED'', Num 6115), (''MQRC_ZERO_LENGTH'', Num 6116),
      (''MQRC_NEGATIVE_LENGTH'', Num 6117), (''MQRC_NEGATIVE_OFFSET'', Num 6118),
      (''MQRC_INCONSISTENT_FORMAT'', Num 6119), (''MQRC_INCONSISTENT_OBJECT_STATE'', Num 6120),
      (''MQRC_CONTEXT_OBJECT_NOT_VALID'', Num 6121), (''MQRC_CONTEXT_OPEN_ERROR'', Num 6122),
      (''MQRC_STRUC_LENGTH_ERROR'', Num 6123), (''MQRC_NOT_CONNECTED'', Num 6124),
      (''MQRC_NOT_OPEN'', Num 6125), (''MQRC_DISTRIBUTION_LIST_EMPTY'', Num 6126),
      (''MQRC_INCONSISTENT_OPEN_OPTIONS'', Num 6127), (''MQRC_WRONG_VERSION'', Num 6128),
      (''MQRC_REFERENCE_ERROR'', Num 6129), (''MQRC_XR_NOT_AVAILABLE'', Num 6130),
      (''MQRC_SUB_JOIN_NOT_ALTERABLE'', Num 29440)]"

end
