(* ===== verification/Mqi_Abi.thy ===== *)
theory Mqi_Abi
  imports Mqi_Structs Mqi_Values_A Mqi_Values_B Mqi_Reasons
begin

text \<open>
  What \<open>cmqc.h\<close> promises about its structures, checked against what it declares: the
  \<open>_LENGTH_n\<close> and \<open>_CURRENT_LENGTH\<close> constants are the compiler's \<open>sizeof\<close> of the members
  that version declares, under both ABIs, and every default initializer fits its structure
  and opens it with the structure's eye-catcher and version. \<open>MQCBC\<close> has no
  initializer, and \<open>MQCHARV\<close>, \<open>MQOR\<close> and \<open>MQRR\<close> have no length constants.
\<close>

section \<open>A structure and its constants\<close>

record mq_struct =
  st_members :: "(nat \<times> fields) list"
  st_default :: "cinit list"
  st_lengths :: "(nat \<times> string) list"
  st_current :: string
  st_id :: string
  st_version :: "string option"
  st_macros :: macros

abbreviation st_type :: "mq_struct \<Rightarrow> ctype" where
  "st_type s \<equiv> C_struct (members (st_members s))"

text \<open>Each version has a length constant, which is the size of the members up to that version.\<close>

definition lengths_ok :: "abi \<Rightarrow> mq_struct \<Rightarrow> bool" where
  "lengths_ok a s \<longleftrightarrow>
     map fst (st_lengths s) = map fst (st_members s)
     \<and> list_all (\<lambda>(v, m). macro_value (st_macros s) (Mac m) =
                  Some (Num (int (struct_size a (members_upto v (st_members s))))))
         (st_lengths s)
     \<and> macro_value (st_macros s) (Mac (st_current s)) =
         Some (Num (int (size_of a (st_type s))))"

definition default_fits :: "abi \<Rightarrow> mq_struct \<Rightarrow> bool" where
  "default_fits a s \<longleftrightarrow> fits a (st_macros s) (st_type s) (Braces (st_default s))"

text \<open>
  The memory a variable initialized with the default has: exactly \<open>_CURRENT_LENGTH\<close> bytes,
  of which the first four are the \<open>_STRUC_ID\<close> and the next four the version number
  (\<open>MQTMC2\<close> has a character version, \<open>st_version\<close> is \<open>None\<close> there).
\<close>

definition default_image_ok :: "abi \<Rightarrow> mq_struct \<Rightarrow> bool" where
  "default_image_ok a s \<longleftrightarrow>
     (case image a (st_macros s) (st_type s) (Braces (st_default s)) of
        None \<Rightarrow> False
      | Some b \<Rightarrow>
          macro_value (st_macros s) (Mac (st_current s)) = Some (Num (int (length b)))
          \<and> (case st_version s of
               None \<Rightarrow> True
             | Some m \<Rightarrow>
                 macro_value (st_macros s) (Mac (st_id s)) = Some (Str (take 4 b))
                 \<and> macro_value (st_macros s) (Mac m) = Some (Num (le_signed (take 4 (drop 4 b))))))"

text \<open>The initializers of the first two members, as far as the eye-catcher and the version go.\<close>

definition default_opens :: "abi \<Rightarrow> mq_struct \<Rightarrow> bool" where
  "default_opens a s \<longleftrightarrow>
     take 2 (map snd (members (st_members s))) = [C_array 4 C_char, MQLONG a]
     \<and> (case st_version s of
          None \<Rightarrow> False
        | Some m \<Rightarrow>
            (case (macro_value (st_macros s) (Mac (st_id s)), macro_value (st_macros s) (Mac m)) of
               (Some (Str i), Some (Num v)) \<Rightarrow>
                  length i = 4 \<and> int_fits 4 v
                  \<and> text_of (st_macros s) C_char (st_default s ! 0) = Some i
                  \<and> int_of_init (st_macros s) 4 (st_default s ! 1) = Some v
             | _ \<Rightarrow> False))"

lemma MQLONG_image: "image a ms (MQLONG a) i = map_option (le_bytes 4) (int_of_init ms 4 i)"
  by (simp add: MQLONG_def word_size_def split: abi.split)

lemma default_image_okI:
  assumes "lengths_ok a s" "default_fits a s" "default_opens a s"
  shows "default_image_ok a s"
proof -
  obtain m where m: "st_version s = Some m"
    using assms(3) by (auto simp: default_opens_def split: option.splits)
  obtain i v where
    id: "macro_value (st_macros s) (Mac (st_id s)) = Some (Str i)" "length i = 4"
    and v: "macro_value (st_macros s) (Mac m) = Some (Num v)" "int_fits 4 v"
    and i0: "text_of (st_macros s) C_char (st_default s ! 0) = Some i"
    and i1: "int_of_init (st_macros s) 4 (st_default s ! 1) = Some v"
    and fs: "take 2 (map snd (members (st_members s))) = [C_array 4 C_char, MQLONG a]"
    using assms(3) m unfolding default_opens_def
    by (cases "macro_value (st_macros s) (Mac (st_id s))"; cases "macro_value (st_macros s) (Mac m)")
      (auto split: cexpr.splits simp del: text_of.simps)
  have "image a (st_macros s) (MQLONG a) (st_default s ! 1) = Some (le_bytes 4 v)"
    using i1 by (simp add: MQLONG_image)
  from image_header [OF assms(2) [unfolded default_fits_def] fs _ _ i0 id(2) this v(2)]
  obtain b where "image a (st_macros s) (st_type s) (Braces (st_default s)) = Some b"
    "length b = struct_size a (members (st_members s))"
    "take 4 b = i" "le_signed (take 4 (drop 4 b)) = v"
    by (auto simp: size_of_MQLONG)
  with assms(1) id(1) v(1) m show ?thesis
    by (simp add: default_image_ok_def lengths_ok_def struct_size_def)
qed

lemma default_image_okI2:
  assumes "lengths_ok a s" "default_fits a s" "st_version s = None"
  shows "default_image_ok a s"
  using fits_image(1) [of a "st_macros s" "st_type s" "Braces (st_default s)"] assms
  by (auto simp: default_image_ok_def lengths_ok_def default_fits_def)

lemmas mqi_type_defs =
  MQBYTE4_def MQBYTE8_def MQBYTE16_def MQBYTE24_def MQBYTE32_def MQBYTE40_def
  MQBYTE128_def MQCHAR_def PMQCHAR_def MQCHAR4_def MQCHAR8_def MQCHAR12_def MQCHAR28_def
  MQCHAR32_def MQCHAR48_def MQCHAR64_def MQCHAR128_def MQCHAR256_def MQLONG_def
  MQINT64_def MQHOBJ_def MQPTR_def MQHMSG_def PMQAIR_def PMQBNO_def PMQSCO_def
  PMQCSP_def

section \<open>Evaluating the checks\<close>

text \<open>
  Alignment and size of each member of each version, without the member names, so that a
  size is computed on numbers only.
\<close>

definition shapes :: "abi \<Rightarrow> (nat \<times> fields) list \<Rightarrow> (nat \<times> (nat \<times> nat) list) list" where
  "shapes a bs = map (\<lambda>(v, fs). (v, map (\<lambda>(n, t). shape a t) fs)) bs"

definition shapes_size :: "(nat \<times> nat) list \<Rightarrow> nat" where
  "shapes_size ps = round_up (foldr max (map fst ps) 1) (place 0 ps)"

lemma struct_size_shapes: "struct_size a (members bs) = shapes_size (concat (map snd (shapes a bs)))"
  by (simp add: struct_size_def end_of_place align_fields_shapes shapes_size_def members_def
      shapes_def map_concat split_def comp_def)

lemma filter_shapes: "shapes a (filter (\<lambda>b. fst b \<le> v) bs) = filter (\<lambda>b. fst b \<le> v) (shapes a bs)"
  by (induction bs) (auto simp: shapes_def)

lemma map_fst_shapes: "map fst (shapes a bs) = map fst bs"
  by (induction bs) (auto simp: shapes_def)

definition lengths_match :: "macros \<Rightarrow> (nat \<times> string) list \<Rightarrow> string \<Rightarrow> (nat \<times> (nat \<times> nat) list) list \<Rightarrow> bool" where
  "lengths_match ms ls c ps \<longleftrightarrow>
     map fst ls = map fst ps
     \<and> list_all (\<lambda>(v, m). macro_value ms (Mac m) =
          Some (Num (int (shapes_size (concat (map snd (filter (\<lambda>b. fst b \<le> v) ps))))))) ls
     \<and> macro_value ms (Mac c) = Some (Num (int (shapes_size (concat (map snd ps)))))"

lemma lengths_shapes:
  "lengths_ok a s = lengths_match (st_macros s) (st_lengths s) (st_current s) (shapes a (st_members s))"
  by (simp add: lengths_ok_def lengths_match_def map_fst_shapes members_upto_def struct_size_shapes
      filter_shapes flip: struct_size_def del: size_of.simps)

lemmas shapes_simps = shapes_def lengths_match_def list.map prod.case macro_value_simps option.case
  expand.simps list.pred_inject abi.case

lemmas place_simps = shapes_size_def shape_def align_fields_shapes size_of_struct_shapes
  mqi_type_defs round_up_def word_size_def by_abi_def members_def

lemma fits_fields_all2: "fits_fields a ms fs is = list_all2 (fits a ms) (map snd fs) is"
  by (induction fs "is" rule: list_induct2') auto

lemma default_fits_shapes:
  "default_fits a s = list_all2 (fits a (st_macros s)) (map snd (members (st_members s))) (st_default s)"
  by (simp add: default_fits_def fits_fields_all2)

lemmas fits_simps = members_def list.map prod.case concat.simps append.simps snd_conv
  list_all2_Cons list_all2_Nil mqi_type_defs fits.simps text_of.simps text_expr.simps
  macro_value_simps option.case cexpr.case cinit.case list.case expand.simps
  int_of_init_def ptr_of_init_def ctype.distinct simp_thms if_True if_False abi.case

lemmas init_simps = int_of_init_def ptr_of_init_def int_fits_def word_size_def by_abi_def

lemma take2: "take 2 (x # y # zs) = [x, y]"
  by simp

lemma nth_01: "(x # xs) ! 0 = x" "(x # y # zs) ! 1 = y"
  by simp_all

lemmas header_simps = members_def list.map concat.simps append.simps snd_conv take2 nth_01
  mqi_type_defs text_of.simps text_expr.simps macro_value_simps option.case cexpr.case cinit.case
  list.case prod.case expand.simps int_of_init_def simp_thms if_True if_False

section \<open>The structures\<close>

definition macros_MQAIR :: "abi \<Rightarrow> macros" where
  "macros_MQAIR a = MQAIR_values a"

definition struct_MQAIR :: "abi \<Rightarrow> mq_struct" where
  "struct_MQAIR a =
     \<lparr>st_members = MQAIR a,
      st_default = MQAIR_DEFAULT,
      st_lengths = [(1, ''MQAIR_LENGTH_1''), (2, ''MQAIR_LENGTH_2'')],
      st_current = ''MQAIR_CURRENT_LENGTH'',
      st_id = ''MQAIR_STRUC_ID'',
      st_version = Some ''MQAIR_VERSION_1'',
      st_macros = macros_MQAIR a\<rparr>"

definition macros_MQBNO :: "abi \<Rightarrow> macros" where
  "macros_MQBNO a = MQBNO_values a"

definition struct_MQBNO :: "abi \<Rightarrow> mq_struct" where
  "struct_MQBNO a =
     \<lparr>st_members = MQBNO a,
      st_default = MQBNO_DEFAULT,
      st_lengths = [(1, ''MQBNO_LENGTH_1'')],
      st_current = ''MQBNO_CURRENT_LENGTH'',
      st_id = ''MQBNO_STRUC_ID'',
      st_version = Some ''MQBNO_VERSION_1'',
      st_macros = macros_MQBNO a\<rparr>"

definition macros_MQBMHO :: "abi \<Rightarrow> macros" where
  "macros_MQBMHO a = MQBMHO_values a"

definition struct_MQBMHO :: "abi \<Rightarrow> mq_struct" where
  "struct_MQBMHO a =
     \<lparr>st_members = MQBMHO a,
      st_default = MQBMHO_DEFAULT,
      st_lengths = [(1, ''MQBMHO_LENGTH_1'')],
      st_current = ''MQBMHO_CURRENT_LENGTH'',
      st_id = ''MQBMHO_STRUC_ID'',
      st_version = Some ''MQBMHO_VERSION_1'',
      st_macros = macros_MQBMHO a\<rparr>"

definition macros_MQBO :: "abi \<Rightarrow> macros" where
  "macros_MQBO a = MQBO_values a"

definition struct_MQBO :: "abi \<Rightarrow> mq_struct" where
  "struct_MQBO a =
     \<lparr>st_members = MQBO a,
      st_default = MQBO_DEFAULT,
      st_lengths = [(1, ''MQBO_LENGTH_1'')],
      st_current = ''MQBO_CURRENT_LENGTH'',
      st_id = ''MQBO_STRUC_ID'',
      st_version = Some ''MQBO_VERSION_1'',
      st_macros = macros_MQBO a\<rparr>"

definition macros_MQCBD :: "abi \<Rightarrow> macros" where
  "macros_MQCBD a = MQCBD_values a"

definition struct_MQCBD :: "abi \<Rightarrow> mq_struct" where
  "struct_MQCBD a =
     \<lparr>st_members = MQCBD a,
      st_default = MQCBD_DEFAULT,
      st_lengths = [(1, ''MQCBD_LENGTH_1'')],
      st_current = ''MQCBD_CURRENT_LENGTH'',
      st_id = ''MQCBD_STRUC_ID'',
      st_version = Some ''MQCBD_VERSION_1'',
      st_macros = macros_MQCBD a\<rparr>"

definition macros_MQCIH :: "abi \<Rightarrow> macros" where
  "macros_MQCIH a = MQCIH_values a @ MQMD_values_2 a @ MQCC_values a @ MQRC_values_1 a"

definition struct_MQCIH :: "abi \<Rightarrow> mq_struct" where
  "struct_MQCIH a =
     \<lparr>st_members = MQCIH a,
      st_default = MQCIH_DEFAULT,
      st_lengths = [(1, ''MQCIH_LENGTH_1''), (2, ''MQCIH_LENGTH_2'')],
      st_current = ''MQCIH_CURRENT_LENGTH'',
      st_id = ''MQCIH_STRUC_ID'',
      st_version = Some ''MQCIH_VERSION_2'',
      st_macros = macros_MQCIH a\<rparr>"

definition macros_MQCMHO :: "abi \<Rightarrow> macros" where
  "macros_MQCMHO a = MQCMHO_values a"

definition struct_MQCMHO :: "abi \<Rightarrow> mq_struct" where
  "struct_MQCMHO a =
     \<lparr>st_members = MQCMHO a,
      st_default = MQCMHO_DEFAULT,
      st_lengths = [(1, ''MQCMHO_LENGTH_1'')],
      st_current = ''MQCMHO_CURRENT_LENGTH'',
      st_id = ''MQCMHO_STRUC_ID'',
      st_version = Some ''MQCMHO_VERSION_1'',
      st_macros = macros_MQCMHO a\<rparr>"

definition macros_MQCTLO :: "abi \<Rightarrow> macros" where
  "macros_MQCTLO a = MQCTLO_values a @ MQGMO_values a"

definition struct_MQCTLO :: "abi \<Rightarrow> mq_struct" where
  "struct_MQCTLO a =
     \<lparr>st_members = MQCTLO a,
      st_default = MQCTLO_DEFAULT,
      st_lengths = [(1, ''MQCTLO_LENGTH_1'')],
      st_current = ''MQCTLO_CURRENT_LENGTH'',
      st_id = ''MQCTLO_STRUC_ID'',
      st_version = Some ''MQCTLO_VERSION_1'',
      st_macros = macros_MQCTLO a\<rparr>"

definition macros_MQSCO :: "abi \<Rightarrow> macros" where
  "macros_MQSCO a = MQSCO_values a @ MQSSL_FIPS_values a"

definition struct_MQSCO :: "abi \<Rightarrow> mq_struct" where
  "struct_MQSCO a =
     \<lparr>st_members = MQSCO a,
      st_default = MQSCO_DEFAULT,
      st_lengths = [(1, ''MQSCO_LENGTH_1''), (2, ''MQSCO_LENGTH_2''), (3, ''MQSCO_LENGTH_3''), (4, ''MQSCO_LENGTH_4''), (5, ''MQSCO_LENGTH_5''), (6, ''MQSCO_LENGTH_6'')],
      st_current = ''MQSCO_CURRENT_LENGTH'',
      st_id = ''MQSCO_STRUC_ID'',
      st_version = Some ''MQSCO_VERSION_1'',
      st_macros = macros_MQSCO a\<rparr>"

definition macros_MQCSP :: "abi \<Rightarrow> macros" where
  "macros_MQCSP a = MQCSP_values a"

definition struct_MQCSP :: "abi \<Rightarrow> mq_struct" where
  "struct_MQCSP a =
     \<lparr>st_members = MQCSP a,
      st_default = MQCSP_DEFAULT,
      st_lengths = [(1, ''MQCSP_LENGTH_1''), (2, ''MQCSP_LENGTH_2''), (3, ''MQCSP_LENGTH_3'')],
      st_current = ''MQCSP_CURRENT_LENGTH'',
      st_id = ''MQCSP_STRUC_ID'',
      st_version = Some ''MQCSP_VERSION_1'',
      st_macros = macros_MQCSP a\<rparr>"

definition macros_MQCNO :: "abi \<Rightarrow> macros" where
  "macros_MQCNO a = MQCNO_values a"

definition struct_MQCNO :: "abi \<Rightarrow> mq_struct" where
  "struct_MQCNO a =
     \<lparr>st_members = MQCNO a,
      st_default = MQCNO_DEFAULT,
      st_lengths = [(1, ''MQCNO_LENGTH_1''), (2, ''MQCNO_LENGTH_2''), (3, ''MQCNO_LENGTH_3''), (4, ''MQCNO_LENGTH_4''), (5, ''MQCNO_LENGTH_5''), (6, ''MQCNO_LENGTH_6''), (7, ''MQCNO_LENGTH_7''), (8, ''MQCNO_LENGTH_8'')],
      st_current = ''MQCNO_CURRENT_LENGTH'',
      st_id = ''MQCNO_STRUC_ID'',
      st_version = Some ''MQCNO_VERSION_1'',
      st_macros = macros_MQCNO a\<rparr>"

definition macros_MQDH :: "abi \<Rightarrow> macros" where
  "macros_MQDH a = MQDH_values a @ MQMD_values_2 a @ MQPMO_values a"

definition struct_MQDH :: "abi \<Rightarrow> mq_struct" where
  "struct_MQDH a =
     \<lparr>st_members = MQDH a,
      st_default = MQDH_DEFAULT,
      st_lengths = [(1, ''MQDH_LENGTH_1'')],
      st_current = ''MQDH_CURRENT_LENGTH'',
      st_id = ''MQDH_STRUC_ID'',
      st_version = Some ''MQDH_VERSION_1'',
      st_macros = macros_MQDH a\<rparr>"

definition macros_MQDLH :: "abi \<Rightarrow> macros" where
  "macros_MQDLH a = MQDLH_values a @ MQRC_values_1 a @ MQMD_values_2 a"

definition struct_MQDLH :: "abi \<Rightarrow> mq_struct" where
  "struct_MQDLH a =
     \<lparr>st_members = MQDLH a,
      st_default = MQDLH_DEFAULT,
      st_lengths = [(1, ''MQDLH_LENGTH_1'')],
      st_current = ''MQDLH_CURRENT_LENGTH'',
      st_id = ''MQDLH_STRUC_ID'',
      st_version = Some ''MQDLH_VERSION_1'',
      st_macros = macros_MQDLH a\<rparr>"

definition macros_MQDMHO :: "abi \<Rightarrow> macros" where
  "macros_MQDMHO a = MQDMHO_values a"

definition struct_MQDMHO :: "abi \<Rightarrow> mq_struct" where
  "struct_MQDMHO a =
     \<lparr>st_members = MQDMHO a,
      st_default = MQDMHO_DEFAULT,
      st_lengths = [(1, ''MQDMHO_LENGTH_1'')],
      st_current = ''MQDMHO_CURRENT_LENGTH'',
      st_id = ''MQDMHO_STRUC_ID'',
      st_version = Some ''MQDMHO_VERSION_1'',
      st_macros = macros_MQDMHO a\<rparr>"

definition macros_MQDMPO :: "abi \<Rightarrow> macros" where
  "macros_MQDMPO a = MQDMPO_values a"

definition struct_MQDMPO :: "abi \<Rightarrow> mq_struct" where
  "struct_MQDMPO a =
     \<lparr>st_members = MQDMPO a,
      st_default = MQDMPO_DEFAULT,
      st_lengths = [(1, ''MQDMPO_LENGTH_1'')],
      st_current = ''MQDMPO_CURRENT_LENGTH'',
      st_id = ''MQDMPO_STRUC_ID'',
      st_version = Some ''MQDMPO_VERSION_1'',
      st_macros = macros_MQDMPO a\<rparr>"

definition macros_MQGMO :: "abi \<Rightarrow> macros" where
  "macros_MQGMO a = MQGMO_values a @ MQHM_values a"

definition struct_MQGMO :: "abi \<Rightarrow> mq_struct" where
  "struct_MQGMO a =
     \<lparr>st_members = MQGMO a,
      st_default = MQGMO_DEFAULT,
      st_lengths = [(1, ''MQGMO_LENGTH_1''), (2, ''MQGMO_LENGTH_2''), (3, ''MQGMO_LENGTH_3''), (4, ''MQGMO_LENGTH_4'')],
      st_current = ''MQGMO_CURRENT_LENGTH'',
      st_id = ''MQGMO_STRUC_ID'',
      st_version = Some ''MQGMO_VERSION_1'',
      st_macros = macros_MQGMO a\<rparr>"

definition macros_MQIIH :: "abi \<Rightarrow> macros" where
  "macros_MQIIH a = MQIIH_values a @ MQMD_values_2 a"

definition struct_MQIIH :: "abi \<Rightarrow> mq_struct" where
  "struct_MQIIH a =
     \<lparr>st_members = MQIIH a,
      st_default = MQIIH_DEFAULT,
      st_lengths = [(1, ''MQIIH_LENGTH_1'')],
      st_current = ''MQIIH_CURRENT_LENGTH'',
      st_id = ''MQIIH_STRUC_ID'',
      st_version = Some ''MQIIH_VERSION_1'',
      st_macros = macros_MQIIH a\<rparr>"

definition macros_MQIMPO :: "abi \<Rightarrow> macros" where
  "macros_MQIMPO a = MQIMPO_values a @ MQMD_values_1 a @ MQMD_values_2 a"

definition struct_MQIMPO :: "abi \<Rightarrow> mq_struct" where
  "struct_MQIMPO a =
     \<lparr>st_members = MQIMPO a,
      st_default = MQIMPO_DEFAULT,
      st_lengths = [(1, ''MQIMPO_LENGTH_1'')],
      st_current = ''MQIMPO_CURRENT_LENGTH'',
      st_id = ''MQIMPO_STRUC_ID'',
      st_version = Some ''MQIMPO_VERSION_1'',
      st_macros = macros_MQIMPO a\<rparr>"

definition macros_MQMD :: "abi \<Rightarrow> macros" where
  "macros_MQMD a = MQMD_values_1 a @ MQMD_values_2 a @ MQMD_values_3 a"

definition struct_MQMD :: "abi \<Rightarrow> mq_struct" where
  "struct_MQMD a =
     \<lparr>st_members = MQMD a,
      st_default = MQMD_DEFAULT,
      st_lengths = [(1, ''MQMD_LENGTH_1''), (2, ''MQMD_LENGTH_2'')],
      st_current = ''MQMD_CURRENT_LENGTH'',
      st_id = ''MQMD_STRUC_ID'',
      st_version = Some ''MQMD_VERSION_1'',
      st_macros = macros_MQMD a\<rparr>"

definition macros_MQMDE :: "abi \<Rightarrow> macros" where
  "macros_MQMDE a = MQMDE_values a @ MQMD_values_1 a @ MQMD_values_2 a @ MQMD_values_3 a"

definition struct_MQMDE :: "abi \<Rightarrow> mq_struct" where
  "struct_MQMDE a =
     \<lparr>st_members = MQMDE a,
      st_default = MQMDE_DEFAULT,
      st_lengths = [(2, ''MQMDE_LENGTH_2'')],
      st_current = ''MQMDE_CURRENT_LENGTH'',
      st_id = ''MQMDE_STRUC_ID'',
      st_version = Some ''MQMDE_VERSION_2'',
      st_macros = macros_MQMDE a\<rparr>"

definition macros_MQMD1 :: "abi \<Rightarrow> macros" where
  "macros_MQMD1 a = MQMD1_values a @ MQMD_values_1 a @ MQMD_values_2 a @ MQMD_values_3 a"

definition struct_MQMD1 :: "abi \<Rightarrow> mq_struct" where
  "struct_MQMD1 a =
     \<lparr>st_members = MQMD1 a,
      st_default = MQMD1_DEFAULT,
      st_lengths = [(1, ''MQMD1_LENGTH_1'')],
      st_current = ''MQMD1_CURRENT_LENGTH'',
      st_id = ''MQMD_STRUC_ID'',
      st_version = Some ''MQMD_VERSION_1'',
      st_macros = macros_MQMD1 a\<rparr>"

definition macros_MQMD2 :: "abi \<Rightarrow> macros" where
  "macros_MQMD2 a = MQMD2_values a @ MQMD_values_1 a @ MQMD_values_2 a @ MQMD_values_3 a"

definition struct_MQMD2 :: "abi \<Rightarrow> mq_struct" where
  "struct_MQMD2 a =
     \<lparr>st_members = MQMD2 a,
      st_default = MQMD2_DEFAULT,
      st_lengths = [(1, ''MQMD2_LENGTH_1''), (2, ''MQMD2_LENGTH_2'')],
      st_current = ''MQMD2_CURRENT_LENGTH'',
      st_id = ''MQMD_STRUC_ID'',
      st_version = Some ''MQMD_VERSION_2'',
      st_macros = macros_MQMD2 a\<rparr>"

definition macros_MQMHBO :: "abi \<Rightarrow> macros" where
  "macros_MQMHBO a = MQMHBO_values a"

definition struct_MQMHBO :: "abi \<Rightarrow> mq_struct" where
  "struct_MQMHBO a =
     \<lparr>st_members = MQMHBO a,
      st_default = MQMHBO_DEFAULT,
      st_lengths = [(1, ''MQMHBO_LENGTH_1'')],
      st_current = ''MQMHBO_CURRENT_LENGTH'',
      st_id = ''MQMHBO_STRUC_ID'',
      st_version = Some ''MQMHBO_VERSION_1'',
      st_macros = macros_MQMHBO a\<rparr>"

definition macros_MQOD :: "abi \<Rightarrow> macros" where
  "macros_MQOD a = MQOD_values a @ MQSD_values a @ MQMD_values_2 a"

definition struct_MQOD :: "abi \<Rightarrow> mq_struct" where
  "struct_MQOD a =
     \<lparr>st_members = MQOD a,
      st_default = MQOD_DEFAULT,
      st_lengths = [(1, ''MQOD_LENGTH_1''), (2, ''MQOD_LENGTH_2''), (3, ''MQOD_LENGTH_3''), (4, ''MQOD_LENGTH_4'')],
      st_current = ''MQOD_CURRENT_LENGTH'',
      st_id = ''MQOD_STRUC_ID'',
      st_version = Some ''MQOD_VERSION_1'',
      st_macros = macros_MQOD a\<rparr>"

definition macros_MQPD :: "abi \<Rightarrow> macros" where
  "macros_MQPD a = MQPD_values a"

definition struct_MQPD :: "abi \<Rightarrow> mq_struct" where
  "struct_MQPD a =
     \<lparr>st_members = MQPD a,
      st_default = MQPD_DEFAULT,
      st_lengths = [(1, ''MQPD_LENGTH_1'')],
      st_current = ''MQPD_CURRENT_LENGTH'',
      st_id = ''MQPD_STRUC_ID'',
      st_version = Some ''MQPD_VERSION_1'',
      st_macros = macros_MQPD a\<rparr>"

definition macros_MQPMO :: "abi \<Rightarrow> macros" where
  "macros_MQPMO a = MQPMO_values a @ MQHM_values a"

definition struct_MQPMO :: "abi \<Rightarrow> mq_struct" where
  "struct_MQPMO a =
     \<lparr>st_members = MQPMO a,
      st_default = MQPMO_DEFAULT,
      st_lengths = [(1, ''MQPMO_LENGTH_1''), (2, ''MQPMO_LENGTH_2''), (3, ''MQPMO_LENGTH_3'')],
      st_current = ''MQPMO_CURRENT_LENGTH'',
      st_id = ''MQPMO_STRUC_ID'',
      st_version = Some ''MQPMO_VERSION_1'',
      st_macros = macros_MQPMO a\<rparr>"

definition macros_MQRFH :: "abi \<Rightarrow> macros" where
  "macros_MQRFH a = MQRFH_values a @ MQMD_values_1 a @ MQMD_values_2 a"

definition struct_MQRFH :: "abi \<Rightarrow> mq_struct" where
  "struct_MQRFH a =
     \<lparr>st_members = MQRFH a,
      st_default = MQRFH_DEFAULT,
      st_lengths = [(1, ''MQRFH_LENGTH_1'')],
      st_current = ''MQRFH_CURRENT_LENGTH'',
      st_id = ''MQRFH_STRUC_ID'',
      st_version = Some ''MQRFH_VERSION_1'',
      st_macros = macros_MQRFH a\<rparr>"

definition macros_MQRFH2 :: "abi \<Rightarrow> macros" where
  "macros_MQRFH2 a = MQRFH2_values a @ MQRFH_values a @ MQMD_values_1 a @ MQMD_values_2 a"

definition struct_MQRFH2 :: "abi \<Rightarrow> mq_struct" where
  "struct_MQRFH2 a =
     \<lparr>st_members = MQRFH2 a,
      st_default = MQRFH2_DEFAULT,
      st_lengths = [(2, ''MQRFH2_LENGTH_2'')],
      st_current = ''MQRFH2_CURRENT_LENGTH'',
      st_id = ''MQRFH_STRUC_ID'',
      st_version = Some ''MQRFH_VERSION_2'',
      st_macros = macros_MQRFH2 a\<rparr>"

definition macros_MQRMH :: "abi \<Rightarrow> macros" where
  "macros_MQRMH a = MQRMH_values a @ MQMD_values_1 a @ MQMD_values_2 a"

definition struct_MQRMH :: "abi \<Rightarrow> mq_struct" where
  "struct_MQRMH a =
     \<lparr>st_members = MQRMH a,
      st_default = MQRMH_DEFAULT,
      st_lengths = [(1, ''MQRMH_LENGTH_1'')],
      st_current = ''MQRMH_CURRENT_LENGTH'',
      st_id = ''MQRMH_STRUC_ID'',
      st_version = Some ''MQRMH_VERSION_1'',
      st_macros = macros_MQRMH a\<rparr>"

definition macros_MQSD :: "abi \<Rightarrow> macros" where
  "macros_MQSD a = MQSD_values a @ MQMD_values_1 a @ MQMD_values_2 a"

definition struct_MQSD :: "abi \<Rightarrow> mq_struct" where
  "struct_MQSD a =
     \<lparr>st_members = MQSD a,
      st_default = MQSD_DEFAULT,
      st_lengths = [(1, ''MQSD_LENGTH_1'')],
      st_current = ''MQSD_CURRENT_LENGTH'',
      st_id = ''MQSD_STRUC_ID'',
      st_version = Some ''MQSD_VERSION_1'',
      st_macros = macros_MQSD a\<rparr>"

definition macros_MQSMPO :: "abi \<Rightarrow> macros" where
  "macros_MQSMPO a = MQSMPO_values a @ MQMD_values_1 a @ MQMD_values_2 a"

definition struct_MQSMPO :: "abi \<Rightarrow> mq_struct" where
  "struct_MQSMPO a =
     \<lparr>st_members = MQSMPO a,
      st_default = MQSMPO_DEFAULT,
      st_lengths = [(1, ''MQSMPO_LENGTH_1'')],
      st_current = ''MQSMPO_CURRENT_LENGTH'',
      st_id = ''MQSMPO_STRUC_ID'',
      st_version = Some ''MQSMPO_VERSION_1'',
      st_macros = macros_MQSMPO a\<rparr>"

definition macros_MQSRO :: "abi \<Rightarrow> macros" where
  "macros_MQSRO a = MQSRO_values a"

definition struct_MQSRO :: "abi \<Rightarrow> mq_struct" where
  "struct_MQSRO a =
     \<lparr>st_members = MQSRO a,
      st_default = MQSRO_DEFAULT,
      st_lengths = [(1, ''MQSRO_LENGTH_1'')],
      st_current = ''MQSRO_CURRENT_LENGTH'',
      st_id = ''MQSRO_STRUC_ID'',
      st_version = Some ''MQSRO_VERSION_1'',
      st_macros = macros_MQSRO a\<rparr>"

definition macros_MQSTS :: "abi \<Rightarrow> macros" where
  "macros_MQSTS a = MQSTS_values a @ MQCC_values a @ MQRC_values_1 a @ MQOD_values a @ MQMD_values_2 a"

definition struct_MQSTS :: "abi \<Rightarrow> mq_struct" where
  "struct_MQSTS a =
     \<lparr>st_members = MQSTS a,
      st_default = MQSTS_DEFAULT,
      st_lengths = [(1, ''MQSTS_LENGTH_1''), (2, ''MQSTS_LENGTH_2'')],
      st_current = ''MQSTS_CURRENT_LENGTH'',
      st_id = ''MQSTS_STRUC_ID'',
      st_version = Some ''MQSTS_VERSION_1'',
      st_macros = macros_MQSTS a\<rparr>"

definition macros_MQTM :: "abi \<Rightarrow> macros" where
  "macros_MQTM a = MQTM_values a"

definition struct_MQTM :: "abi \<Rightarrow> mq_struct" where
  "struct_MQTM a =
     \<lparr>st_members = MQTM a,
      st_default = MQTM_DEFAULT,
      st_lengths = [(1, ''MQTM_LENGTH_1'')],
      st_current = ''MQTM_CURRENT_LENGTH'',
      st_id = ''MQTM_STRUC_ID'',
      st_version = Some ''MQTM_VERSION_1'',
      st_macros = macros_MQTM a\<rparr>"

definition macros_MQTMC2 :: "abi \<Rightarrow> macros" where
  "macros_MQTMC2 a = MQTMC2_values a"

definition struct_MQTMC2 :: "abi \<Rightarrow> mq_struct" where
  "struct_MQTMC2 a =
     \<lparr>st_members = MQTMC2 a,
      st_default = MQTMC2_DEFAULT,
      st_lengths = [(1, ''MQTMC2_LENGTH_1''), (2, ''MQTMC2_LENGTH_2'')],
      st_current = ''MQTMC2_CURRENT_LENGTH'',
      st_id = ''MQTMC_STRUC_ID'',
      st_version = None,
      st_macros = macros_MQTMC2 a\<rparr>"

definition macros_MQWIH :: "abi \<Rightarrow> macros" where
  "macros_MQWIH a = MQWIH_values a @ MQMD_values_2 a @ MQGMO_values a"

definition struct_MQWIH :: "abi \<Rightarrow> mq_struct" where
  "struct_MQWIH a =
     \<lparr>st_members = MQWIH a,
      st_default = MQWIH_DEFAULT,
      st_lengths = [(1, ''MQWIH_LENGTH_1'')],
      st_current = ''MQWIH_CURRENT_LENGTH'',
      st_id = ''MQWIH_STRUC_ID'',
      st_version = Some ''MQWIH_VERSION_1'',
      st_macros = macros_MQWIH a\<rparr>"

definition macros_MQXQH :: "abi \<Rightarrow> macros" where
  "macros_MQXQH a = MQXQH_values a @ MQMD_values_1 a @ MQMD_values_2 a @ MQMD_values_3 a"

definition struct_MQXQH :: "abi \<Rightarrow> mq_struct" where
  "struct_MQXQH a =
     \<lparr>st_members = MQXQH a,
      st_default = MQXQH_DEFAULT,
      st_lengths = [(1, ''MQXQH_LENGTH_1'')],
      st_current = ''MQXQH_CURRENT_LENGTH'',
      st_id = ''MQXQH_STRUC_ID'',
      st_version = Some ''MQXQH_VERSION_1'',
      st_macros = macros_MQXQH a\<rparr>"

definition mq_structs :: "abi \<Rightarrow> mq_struct list" where
  "mq_structs a =
     [struct_MQAIR a, struct_MQBNO a, struct_MQBMHO a, struct_MQBO a, struct_MQCBD a,
      struct_MQCIH a, struct_MQCMHO a, struct_MQCTLO a, struct_MQSCO a, struct_MQCSP a,
      struct_MQCNO a, struct_MQDH a, struct_MQDLH a, struct_MQDMHO a, struct_MQDMPO a,
      struct_MQGMO a, struct_MQIIH a, struct_MQIMPO a, struct_MQMD a, struct_MQMDE a,
      struct_MQMD1 a, struct_MQMD2 a, struct_MQMHBO a, struct_MQOD a, struct_MQPD a,
      struct_MQPMO a, struct_MQRFH a, struct_MQRFH2 a, struct_MQRMH a, struct_MQSD a,
      struct_MQSMPO a, struct_MQSRO a, struct_MQSTS a, struct_MQTM a, struct_MQTMC2 a,
      struct_MQWIH a, struct_MQXQH a]"

section \<open>Each structure\<close>

lemma MQAIR_lookup:
  "map_of (macros_MQAIR a) ''MQAIR_LENGTH_1'' = Some (Num (by_abi a 328 320))"
  "map_of (macros_MQAIR a) ''MQAIR_LENGTH_2'' = Some (Num (by_abi a 584 576))"
  "map_of (macros_MQAIR a) ''MQAIR_CURRENT_LENGTH'' = Some (Num (by_abi a 584 576))"
  "map_of (macros_MQAIR a) ''MQAIR_STRUC_ID'' = Some (Str ''AIR '')"
  "map_of (macros_MQAIR a) ''MQAIR_STRUC_ID_ARRAY'' = Some (Chars ''AIR '')"
  "map_of (macros_MQAIR a) ''MQAIR_VERSION_1'' = Some (Num 1)"
  "map_of (macros_MQAIR a) ''MQAIT_CRL_LDAP'' = Some (Num 1)"
  by (simp_all only: lookup_simps map_of_table [OF macros_MQAIR_def]
    map_of_table [OF MQAIR_values_def]
    cong: lookup_congs)

lemma MQAIR_lengths: "lengths_ok a (struct_MQAIR a)"
  by (cases a; simp only: lengths_shapes struct_MQAIR_def mq_struct.simps MQAIR_def
    MQAIR_lookup shapes_simps; simp add: place_simps)

lemma MQAIR_fits: "default_fits a (struct_MQAIR a)"
  by (cases a; simp only: default_fits_shapes struct_MQAIR_def mq_struct.simps
    MQAIR_def
    MQAIR_DEFAULT_def MQAIR_lookup fits_simps;
    simp add: init_simps macro_value_simps MQAIR_lookup)

lemma MQAIR_opens: "default_opens a (struct_MQAIR a)"
  by (simp only: default_opens_def struct_MQAIR_def mq_struct.simps MQAIR_def
    MQAIR_DEFAULT_def MQAIR_lookup header_simps; simp add: int_fits_def)

lemma MQBNO_lookup:
  "map_of (macros_MQBNO a) ''MQBNO_LENGTH_1'' = Some (Num 20)"
  "map_of (macros_MQBNO a) ''MQBNO_CURRENT_LENGTH'' = Some (Num 20)"
  "map_of (macros_MQBNO a) ''MQBNO_STRUC_ID'' = Some (Str ''BNO '')"
  "map_of (macros_MQBNO a) ''MQBNO_STRUC_ID_ARRAY'' = Some (Chars ''BNO '')"
  "map_of (macros_MQBNO a) ''MQBNO_VERSION_1'' = Some (Num 1)"
  "map_of (macros_MQBNO a) ''MQBNO_BALTYPE_SIMPLE'' = Some (Num 0)"
  "map_of (macros_MQBNO a) ''MQBNO_TIMEOUT_AS_DEFAULT'' = Some (Num (- 1))"
  "map_of (macros_MQBNO a) ''MQBNO_OPTIONS_NONE'' = Some (Num 0)"
  by (simp_all only: lookup_simps map_of_table [OF macros_MQBNO_def]
    map_of_table [OF MQBNO_values_def]
    cong: lookup_congs)

lemma MQBNO_lengths: "lengths_ok a (struct_MQBNO a)"
  by (cases a; simp only: lengths_shapes struct_MQBNO_def mq_struct.simps MQBNO_def
    MQBNO_lookup shapes_simps; simp add: place_simps)

lemma MQBNO_fits: "default_fits a (struct_MQBNO a)"
  by (cases a; simp only: default_fits_shapes struct_MQBNO_def mq_struct.simps
    MQBNO_def
    MQBNO_DEFAULT_def MQBNO_lookup fits_simps;
    simp add: init_simps macro_value_simps MQBNO_lookup)

lemma MQBNO_opens: "default_opens a (struct_MQBNO a)"
  by (simp only: default_opens_def struct_MQBNO_def mq_struct.simps MQBNO_def
    MQBNO_DEFAULT_def MQBNO_lookup header_simps; simp add: int_fits_def)

lemma MQBMHO_lookup:
  "map_of (macros_MQBMHO a) ''MQBMHO_LENGTH_1'' = Some (Num 12)"
  "map_of (macros_MQBMHO a) ''MQBMHO_CURRENT_LENGTH'' = Some (Num 12)"
  "map_of (macros_MQBMHO a) ''MQBMHO_STRUC_ID'' = Some (Str ''BMHO'')"
  "map_of (macros_MQBMHO a) ''MQBMHO_STRUC_ID_ARRAY'' = Some (Chars ''BMHO'')"
  "map_of (macros_MQBMHO a) ''MQBMHO_VERSION_1'' = Some (Num 1)"
  "map_of (macros_MQBMHO a) ''MQBMHO_DELETE_PROPERTIES'' = Some (Num 1)"
  by (simp_all only: lookup_simps map_of_table [OF macros_MQBMHO_def]
    map_of_table [OF MQBMHO_values_def]
    cong: lookup_congs)

lemma MQBMHO_lengths: "lengths_ok a (struct_MQBMHO a)"
  by (cases a; simp only: lengths_shapes struct_MQBMHO_def mq_struct.simps MQBMHO_def
    MQBMHO_lookup shapes_simps; simp add: place_simps)

lemma MQBMHO_fits: "default_fits a (struct_MQBMHO a)"
  by (cases a; simp only: default_fits_shapes struct_MQBMHO_def mq_struct.simps
    MQBMHO_def
    MQBMHO_DEFAULT_def MQBMHO_lookup fits_simps;
    simp add: init_simps macro_value_simps MQBMHO_lookup)

lemma MQBMHO_opens: "default_opens a (struct_MQBMHO a)"
  by (simp only: default_opens_def struct_MQBMHO_def mq_struct.simps MQBMHO_def
    MQBMHO_DEFAULT_def MQBMHO_lookup header_simps; simp add: int_fits_def)

lemma MQBO_lookup:
  "map_of (macros_MQBO a) ''MQBO_LENGTH_1'' = Some (Num 12)"
  "map_of (macros_MQBO a) ''MQBO_CURRENT_LENGTH'' = Some (Num 12)"
  "map_of (macros_MQBO a) ''MQBO_STRUC_ID'' = Some (Str ''BO  '')"
  "map_of (macros_MQBO a) ''MQBO_STRUC_ID_ARRAY'' = Some (Chars ''BO  '')"
  "map_of (macros_MQBO a) ''MQBO_VERSION_1'' = Some (Num 1)"
  "map_of (macros_MQBO a) ''MQBO_NONE'' = Some (Num 0)"
  by (simp_all only: lookup_simps map_of_table [OF macros_MQBO_def]
    map_of_table [OF MQBO_values_def]
    cong: lookup_congs)

lemma MQBO_lengths: "lengths_ok a (struct_MQBO a)"
  by (cases a; simp only: lengths_shapes struct_MQBO_def mq_struct.simps MQBO_def
    MQBO_lookup shapes_simps; simp add: place_simps)

lemma MQBO_fits: "default_fits a (struct_MQBO a)"
  by (cases a; simp only: default_fits_shapes struct_MQBO_def mq_struct.simps
    MQBO_def
    MQBO_DEFAULT_def MQBO_lookup fits_simps;
    simp add: init_simps macro_value_simps MQBO_lookup)

lemma MQBO_opens: "default_opens a (struct_MQBO a)"
  by (simp only: default_opens_def struct_MQBO_def mq_struct.simps MQBO_def
    MQBO_DEFAULT_def MQBO_lookup header_simps; simp add: int_fits_def)

lemma MQCBD_lookup:
  "map_of (macros_MQCBD a) ''MQCBD_LENGTH_1'' = Some (Num (by_abi a 168 156))"
  "map_of (macros_MQCBD a) ''MQCBD_CURRENT_LENGTH'' = Some (Num (by_abi a 168 156))"
  "map_of (macros_MQCBD a) ''MQCBD_STRUC_ID'' = Some (Str ''CBD '')"
  "map_of (macros_MQCBD a) ''MQCBD_STRUC_ID_ARRAY'' = Some (Chars ''CBD '')"
  "map_of (macros_MQCBD a) ''MQCBD_VERSION_1'' = Some (Num 1)"
  "map_of (macros_MQCBD a) ''MQCBT_MESSAGE_CONSUMER'' = Some (Num 1)"
  "map_of (macros_MQCBD a) ''MQCBDO_NONE'' = Some (Num 0)"
  "map_of (macros_MQCBD a) ''MQCBD_FULL_MSG_LENGTH'' = Some (Num (- 1))"
  by (simp_all only: lookup_simps map_of_table [OF macros_MQCBD_def]
    map_of_table [OF MQCBD_values_def]
    cong: lookup_congs)

lemma MQCBD_lengths: "lengths_ok a (struct_MQCBD a)"
  by (cases a; simp only: lengths_shapes struct_MQCBD_def mq_struct.simps MQCBD_def
    MQCBD_lookup shapes_simps; simp add: place_simps)

lemma MQCBD_fits: "default_fits a (struct_MQCBD a)"
  by (cases a; simp only: default_fits_shapes struct_MQCBD_def mq_struct.simps
    MQCBD_def
    MQCBD_DEFAULT_def MQCBD_lookup fits_simps;
    simp add: init_simps macro_value_simps MQCBD_lookup)

lemma MQCBD_opens: "default_opens a (struct_MQCBD a)"
  by (simp only: default_opens_def struct_MQCBD_def mq_struct.simps MQCBD_def
    MQCBD_DEFAULT_def MQCBD_lookup header_simps; simp add: int_fits_def)

lemma MQCIH_lookup:
  "map_of (macros_MQCIH a) ''MQCIH_LENGTH_1'' = Some (Num 164)"
  "map_of (macros_MQCIH a) ''MQCIH_LENGTH_2'' = Some (Num 180)"
  "map_of (macros_MQCIH a) ''MQCIH_CURRENT_LENGTH'' = Some (Num 180)"
  "map_of (macros_MQCIH a) ''MQCIH_STRUC_ID'' = Some (Str ''CIH '')"
  "map_of (macros_MQCIH a) ''MQCIH_STRUC_ID_ARRAY'' = Some (Chars ''CIH '')"
  "map_of (macros_MQCIH a) ''MQCIH_VERSION_2'' = Some (Num 2)"
  "map_of (macros_MQCIH a) ''MQFMT_NONE_ARRAY'' = Some (Chars ''        '')"
  "map_of (macros_MQCIH a) ''MQCIH_NONE'' = Some (Num 0)"
  "map_of (macros_MQCIH a) ''MQCRC_OK'' = Some (Num 0)"
  "map_of (macros_MQCIH a) ''MQCC_OK'' = Some (Num 0)"
  "map_of (macros_MQCIH a) ''MQRC_NONE'' = Some (Num 0)"
  "map_of (macros_MQCIH a) ''MQCUOWC_ONLY'' = Some (Num 273)"
  "map_of (macros_MQCIH a) ''MQCGWI_DEFAULT'' = Some (Num (- 2))"
  "map_of (macros_MQCIH a) ''MQCLT_PROGRAM'' = Some (Num 1)"
  "map_of (macros_MQCIH a) ''MQCODL_AS_INPUT'' = Some (Num (- 1))"
  "map_of (macros_MQCIH a) ''MQCADSD_NONE'' = Some (Num 0)"
  "map_of (macros_MQCIH a) ''MQCCT_NO'' = Some (Num 0)"
  "map_of (macros_MQCIH a) ''MQCTES_NOSYNC'' = Some (Num 0)"
  "map_of (macros_MQCIH a) ''MQCFAC_NONE_ARRAY'' = Some (Chars (replicate 8 NUL))"
  "map_of (macros_MQCIH a) ''MQCFUNC_NONE_ARRAY'' = Some (Chars ''    '')"
  "map_of (macros_MQCIH a) ''MQCSC_NONE_ARRAY'' = Some (Chars ''    '')"
  by (simp_all only: lookup_simps map_of_table [OF macros_MQCIH_def]
    map_of_table [OF MQCIH_values_def]
    map_of_table [OF MQMD_values_2_def]
    map_of_table [OF MQCC_values_def]
    map_of_table [OF MQRC_values_1_def]
    cong: lookup_congs)

lemma MQCIH_lengths: "lengths_ok a (struct_MQCIH a)"
  by (cases a; simp only: lengths_shapes struct_MQCIH_def mq_struct.simps MQCIH_def
    MQCIH_lookup shapes_simps; simp add: place_simps)

lemma MQCIH_fits: "default_fits a (struct_MQCIH a)"
  by (cases a; simp only: default_fits_shapes struct_MQCIH_def mq_struct.simps
    MQCIH_def
    MQCIH_DEFAULT_def MQCIH_lookup fits_simps;
    simp add: init_simps macro_value_simps MQCIH_lookup)

lemma MQCIH_opens: "default_opens a (struct_MQCIH a)"
  by (simp only: default_opens_def struct_MQCIH_def mq_struct.simps MQCIH_def
    MQCIH_DEFAULT_def MQCIH_lookup header_simps; simp add: int_fits_def)

lemma MQCMHO_lookup:
  "map_of (macros_MQCMHO a) ''MQCMHO_LENGTH_1'' = Some (Num 12)"
  "map_of (macros_MQCMHO a) ''MQCMHO_CURRENT_LENGTH'' = Some (Num 12)"
  "map_of (macros_MQCMHO a) ''MQCMHO_STRUC_ID'' = Some (Str ''CMHO'')"
  "map_of (macros_MQCMHO a) ''MQCMHO_STRUC_ID_ARRAY'' = Some (Chars ''CMHO'')"
  "map_of (macros_MQCMHO a) ''MQCMHO_VERSION_1'' = Some (Num 1)"
  "map_of (macros_MQCMHO a) ''MQCMHO_DEFAULT_VALIDATION'' = Some (Num 0)"
  by (simp_all only: lookup_simps map_of_table [OF macros_MQCMHO_def]
    map_of_table [OF MQCMHO_values_def]
    cong: lookup_congs)

lemma MQCMHO_lengths: "lengths_ok a (struct_MQCMHO a)"
  by (cases a; simp only: lengths_shapes struct_MQCMHO_def mq_struct.simps MQCMHO_def
    MQCMHO_lookup shapes_simps; simp add: place_simps)

lemma MQCMHO_fits: "default_fits a (struct_MQCMHO a)"
  by (cases a; simp only: default_fits_shapes struct_MQCMHO_def mq_struct.simps
    MQCMHO_def
    MQCMHO_DEFAULT_def MQCMHO_lookup fits_simps;
    simp add: init_simps macro_value_simps MQCMHO_lookup)

lemma MQCMHO_opens: "default_opens a (struct_MQCMHO a)"
  by (simp only: default_opens_def struct_MQCMHO_def mq_struct.simps MQCMHO_def
    MQCMHO_DEFAULT_def MQCMHO_lookup header_simps; simp add: int_fits_def)

lemma MQCTLO_lookup:
  "map_of (macros_MQCTLO a) ''MQCTLO_LENGTH_1'' = Some (Num (by_abi a 24 20))"
  "map_of (macros_MQCTLO a) ''MQCTLO_CURRENT_LENGTH'' = Some (Num (by_abi a 24 20))"
  "map_of (macros_MQCTLO a) ''MQCTLO_STRUC_ID'' = Some (Str ''CTLO'')"
  "map_of (macros_MQCTLO a) ''MQCTLO_STRUC_ID_ARRAY'' = Some (Chars ''CTLO'')"
  "map_of (macros_MQCTLO a) ''MQCTLO_VERSION_1'' = Some (Num 1)"
  "map_of (macros_MQCTLO a) ''MQCTLO_NONE'' = Some (Num 0)"
  "map_of (macros_MQCTLO a) ''MQWI_UNLIMITED'' = Some (Num (- 1))"
  by (simp_all only: lookup_simps map_of_table [OF macros_MQCTLO_def]
    map_of_table [OF MQCTLO_values_def]
    map_of_table [OF MQGMO_values_def]
    cong: lookup_congs)

lemma MQCTLO_lengths: "lengths_ok a (struct_MQCTLO a)"
  by (cases a; simp only: lengths_shapes struct_MQCTLO_def mq_struct.simps MQCTLO_def
    MQCTLO_lookup shapes_simps; simp add: place_simps)

lemma MQCTLO_fits: "default_fits a (struct_MQCTLO a)"
  by (cases a; simp only: default_fits_shapes struct_MQCTLO_def mq_struct.simps
    MQCTLO_def
    MQCTLO_DEFAULT_def MQCTLO_lookup fits_simps;
    simp add: init_simps macro_value_simps MQCTLO_lookup)

lemma MQCTLO_opens: "default_opens a (struct_MQCTLO a)"
  by (simp only: default_opens_def struct_MQCTLO_def mq_struct.simps MQCTLO_def
    MQCTLO_DEFAULT_def MQCTLO_lookup header_simps; simp add: int_fits_def)

lemma MQSCO_lookup:
  "map_of (macros_MQSCO a) ''MQSCO_LENGTH_1'' = Some (Num (by_abi a 536 532))"
  "map_of (macros_MQSCO a) ''MQSCO_LENGTH_2'' = Some (Num (by_abi a 544 540))"
  "map_of (macros_MQSCO a) ''MQSCO_LENGTH_3'' = Some (Num (by_abi a 560 556))"
  "map_of (macros_MQSCO a) ''MQSCO_LENGTH_4'' = Some (Num (by_abi a 568 560))"
  "map_of (macros_MQSCO a) ''MQSCO_LENGTH_5'' = Some (Num (by_abi a 632 624))"
  "map_of (macros_MQSCO a) ''MQSCO_LENGTH_6'' = Some (Num (by_abi a 648 636))"
  "map_of (macros_MQSCO a) ''MQSCO_CURRENT_LENGTH'' = Some (Num (by_abi a 648 636))"
  "map_of (macros_MQSCO a) ''MQSCO_STRUC_ID'' = Some (Str ''SCO '')"
  "map_of (macros_MQSCO a) ''MQSCO_STRUC_ID_ARRAY'' = Some (Chars ''SCO '')"
  "map_of (macros_MQSCO a) ''MQSCO_VERSION_1'' = Some (Num 1)"
  "map_of (macros_MQSCO a) ''MQSCO_RESET_COUNT_DEFAULT'' = Some (Num 0)"
  "map_of (macros_MQSCO a) ''MQSSL_FIPS_NO'' = Some (Num 0)"
  "map_of (macros_MQSCO a) ''MQ_SUITE_B_NONE'' = Some (Num 1)"
  "map_of (macros_MQSCO a) ''MQ_SUITE_B_NOT_AVAILABLE'' = Some (Num 0)"
  "map_of (macros_MQSCO a) ''MQ_CERT_VAL_POLICY_DEFAULT'' = Some (Num 0)"
  by (simp_all only: lookup_simps map_of_table [OF macros_MQSCO_def]
    map_of_table [OF MQSCO_values_def]
    map_of_table [OF MQSSL_FIPS_values_def]
    cong: lookup_congs)

lemma MQSCO_lengths: "lengths_ok a (struct_MQSCO a)"
  by (cases a; simp only: lengths_shapes struct_MQSCO_def mq_struct.simps MQSCO_def
    MQSCO_lookup shapes_simps; simp add: place_simps)

lemma MQSCO_fits: "default_fits a (struct_MQSCO a)"
  by (cases a; simp only: default_fits_shapes struct_MQSCO_def mq_struct.simps
    MQSCO_def
    MQSCO_DEFAULT_def MQSCO_lookup fits_simps;
    simp add: init_simps macro_value_simps MQSCO_lookup)

lemma MQSCO_opens: "default_opens a (struct_MQSCO a)"
  by (simp only: default_opens_def struct_MQSCO_def mq_struct.simps MQSCO_def
    MQSCO_DEFAULT_def MQSCO_lookup header_simps; simp add: int_fits_def)

lemma MQCSP_lookup:
  "map_of (macros_MQCSP a) ''MQCSP_LENGTH_1'' = Some (Num (by_abi a 56 48))"
  "map_of (macros_MQCSP a) ''MQCSP_LENGTH_2'' = Some (Num (by_abi a 80 68))"
  "map_of (macros_MQCSP a) ''MQCSP_LENGTH_3'' = Some (Num (by_abi a 104 88))"
  "map_of (macros_MQCSP a) ''MQCSP_CURRENT_LENGTH'' = Some (Num (by_abi a 104 88))"
  "map_of (macros_MQCSP a) ''MQCSP_STRUC_ID'' = Some (Str ''CSP '')"
  "map_of (macros_MQCSP a) ''MQCSP_STRUC_ID_ARRAY'' = Some (Chars ''CSP '')"
  "map_of (macros_MQCSP a) ''MQCSP_VERSION_1'' = Some (Num 1)"
  "map_of (macros_MQCSP a) ''MQCSP_AUTH_NONE'' = Some (Num 0)"
  by (simp_all only: lookup_simps map_of_table [OF macros_MQCSP_def]
    map_of_table [OF MQCSP_values_def]
    cong: lookup_congs)

lemma MQCSP_lengths: "lengths_ok a (struct_MQCSP a)"
  by (cases a; simp only: lengths_shapes struct_MQCSP_def mq_struct.simps MQCSP_def
    MQCSP_lookup shapes_simps; simp add: place_simps)

lemma MQCSP_fits: "default_fits a (struct_MQCSP a)"
  by (cases a; simp only: default_fits_shapes struct_MQCSP_def mq_struct.simps
    MQCSP_def
    MQCSP_DEFAULT_def MQCSP_lookup fits_simps;
    simp add: init_simps macro_value_simps MQCSP_lookup)

lemma MQCSP_opens: "default_opens a (struct_MQCSP a)"
  by (simp only: default_opens_def struct_MQCSP_def mq_struct.simps MQCSP_def
    MQCSP_DEFAULT_def MQCSP_lookup header_simps; simp add: int_fits_def)

lemma MQCNO_lookup:
  "map_of (macros_MQCNO a) ''MQCNO_LENGTH_1'' = Some (Num 12)"
  "map_of (macros_MQCNO a) ''MQCNO_LENGTH_2'' = Some (Num (by_abi a 24 20))"
  "map_of (macros_MQCNO a) ''MQCNO_LENGTH_3'' = Some (Num (by_abi a 152 148))"
  "map_of (macros_MQCNO a) ''MQCNO_LENGTH_4'' = Some (Num (by_abi a 168 156))"
  "map_of (macros_MQCNO a) ''MQCNO_LENGTH_5'' = Some (Num (by_abi a 200 188))"
  "map_of (macros_MQCNO a) ''MQCNO_LENGTH_6'' = Some (Num (by_abi a 224 208))"
  "map_of (macros_MQCNO a) ''MQCNO_LENGTH_7'' = Some (Num (by_abi a 256 240))"
  "map_of (macros_MQCNO a) ''MQCNO_LENGTH_8'' = Some (Num (by_abi a 272 252))"
  "map_of (macros_MQCNO a) ''MQCNO_CURRENT_LENGTH'' = Some (Num (by_abi a 272 252))"
  "map_of (macros_MQCNO a) ''MQCNO_STRUC_ID'' = Some (Str ''CNO '')"
  "map_of (macros_MQCNO a) ''MQCNO_STRUC_ID_ARRAY'' = Some (Chars ''CNO '')"
  "map_of (macros_MQCNO a) ''MQCNO_VERSION_1'' = Some (Num 1)"
  "map_of (macros_MQCNO a) ''MQCNO_NONE'' = Some (Num 0)"
  "map_of (macros_MQCNO a) ''MQCT_NONE_ARRAY'' = Some (Chars (replicate 128 NUL))"
  "map_of (macros_MQCNO a) ''MQCONNID_NONE_ARRAY'' = Some (Chars (replicate 24 NUL))"
  "map_of (macros_MQCNO a) ''MQAN_NONE_ARRAY'' = Some (Chars ''                            '')"
  by (simp_all only: lookup_simps map_of_table [OF macros_MQCNO_def]
    map_of_table [OF MQCNO_values_def]
    cong: lookup_congs)

lemma MQCNO_lengths: "lengths_ok a (struct_MQCNO a)"
  by (cases a; simp only: lengths_shapes struct_MQCNO_def mq_struct.simps MQCNO_def
    MQCNO_lookup shapes_simps; simp add: place_simps)

lemma MQCNO_fits: "default_fits a (struct_MQCNO a)"
  by (cases a; simp only: default_fits_shapes struct_MQCNO_def mq_struct.simps
    MQCNO_def
    MQCNO_DEFAULT_def MQCNO_lookup fits_simps;
    simp add: init_simps macro_value_simps MQCNO_lookup)

lemma MQCNO_opens: "default_opens a (struct_MQCNO a)"
  by (simp only: default_opens_def struct_MQCNO_def mq_struct.simps MQCNO_def
    MQCNO_DEFAULT_def MQCNO_lookup header_simps; simp add: int_fits_def)

lemma MQDH_lookup:
  "map_of (macros_MQDH a) ''MQDH_LENGTH_1'' = Some (Num 48)"
  "map_of (macros_MQDH a) ''MQDH_CURRENT_LENGTH'' = Some (Num 48)"
  "map_of (macros_MQDH a) ''MQDH_STRUC_ID'' = Some (Str ''DH  '')"
  "map_of (macros_MQDH a) ''MQDH_STRUC_ID_ARRAY'' = Some (Chars ''DH  '')"
  "map_of (macros_MQDH a) ''MQDH_VERSION_1'' = Some (Num 1)"
  "map_of (macros_MQDH a) ''MQCCSI_UNDEFINED'' = Some (Num 0)"
  "map_of (macros_MQDH a) ''MQFMT_NONE_ARRAY'' = Some (Chars ''        '')"
  "map_of (macros_MQDH a) ''MQDHF_NONE'' = Some (Num 0)"
  "map_of (macros_MQDH a) ''MQPMRF_NONE'' = Some (Num 0)"
  by (simp_all only: lookup_simps map_of_table [OF macros_MQDH_def]
    map_of_table [OF MQDH_values_def]
    map_of_table [OF MQMD_values_2_def]
    map_of_table [OF MQPMO_values_def]
    cong: lookup_congs)

lemma MQDH_lengths: "lengths_ok a (struct_MQDH a)"
  by (cases a; simp only: lengths_shapes struct_MQDH_def mq_struct.simps MQDH_def
    MQDH_lookup shapes_simps; simp add: place_simps)

lemma MQDH_fits: "default_fits a (struct_MQDH a)"
  by (cases a; simp only: default_fits_shapes struct_MQDH_def mq_struct.simps
    MQDH_def
    MQDH_DEFAULT_def MQDH_lookup fits_simps;
    simp add: init_simps macro_value_simps MQDH_lookup)

lemma MQDH_opens: "default_opens a (struct_MQDH a)"
  by (simp only: default_opens_def struct_MQDH_def mq_struct.simps MQDH_def
    MQDH_DEFAULT_def MQDH_lookup header_simps; simp add: int_fits_def)

lemma MQDLH_lookup:
  "map_of (macros_MQDLH a) ''MQDLH_LENGTH_1'' = Some (Num 172)"
  "map_of (macros_MQDLH a) ''MQDLH_CURRENT_LENGTH'' = Some (Num 172)"
  "map_of (macros_MQDLH a) ''MQDLH_STRUC_ID'' = Some (Str ''DLH '')"
  "map_of (macros_MQDLH a) ''MQDLH_STRUC_ID_ARRAY'' = Some (Chars ''DLH '')"
  "map_of (macros_MQDLH a) ''MQDLH_VERSION_1'' = Some (Num 1)"
  "map_of (macros_MQDLH a) ''MQRC_NONE'' = Some (Num 0)"
  "map_of (macros_MQDLH a) ''MQCCSI_UNDEFINED'' = Some (Num 0)"
  "map_of (macros_MQDLH a) ''MQFMT_NONE_ARRAY'' = Some (Chars ''        '')"
  by (simp_all only: lookup_simps map_of_table [OF macros_MQDLH_def]
    map_of_table [OF MQDLH_values_def]
    map_of_table [OF MQRC_values_1_def]
    map_of_table [OF MQMD_values_2_def]
    cong: lookup_congs)

lemma MQDLH_lengths: "lengths_ok a (struct_MQDLH a)"
  by (cases a; simp only: lengths_shapes struct_MQDLH_def mq_struct.simps MQDLH_def
    MQDLH_lookup shapes_simps; simp add: place_simps)

lemma MQDLH_fits: "default_fits a (struct_MQDLH a)"
  by (cases a; simp only: default_fits_shapes struct_MQDLH_def mq_struct.simps
    MQDLH_def
    MQDLH_DEFAULT_def MQDLH_lookup fits_simps;
    simp add: init_simps macro_value_simps MQDLH_lookup)

lemma MQDLH_opens: "default_opens a (struct_MQDLH a)"
  by (simp only: default_opens_def struct_MQDLH_def mq_struct.simps MQDLH_def
    MQDLH_DEFAULT_def MQDLH_lookup header_simps; simp add: int_fits_def)

lemma MQDMHO_lookup:
  "map_of (macros_MQDMHO a) ''MQDMHO_LENGTH_1'' = Some (Num 12)"
  "map_of (macros_MQDMHO a) ''MQDMHO_CURRENT_LENGTH'' = Some (Num 12)"
  "map_of (macros_MQDMHO a) ''MQDMHO_STRUC_ID'' = Some (Str ''DMHO'')"
  "map_of (macros_MQDMHO a) ''MQDMHO_STRUC_ID_ARRAY'' = Some (Chars ''DMHO'')"
  "map_of (macros_MQDMHO a) ''MQDMHO_VERSION_1'' = Some (Num 1)"
  "map_of (macros_MQDMHO a) ''MQDMHO_NONE'' = Some (Num 0)"
  by (simp_all only: lookup_simps map_of_table [OF macros_MQDMHO_def]
    map_of_table [OF MQDMHO_values_def]
    cong: lookup_congs)

lemma MQDMHO_lengths: "lengths_ok a (struct_MQDMHO a)"
  by (cases a; simp only: lengths_shapes struct_MQDMHO_def mq_struct.simps MQDMHO_def
    MQDMHO_lookup shapes_simps; simp add: place_simps)

lemma MQDMHO_fits: "default_fits a (struct_MQDMHO a)"
  by (cases a; simp only: default_fits_shapes struct_MQDMHO_def mq_struct.simps
    MQDMHO_def
    MQDMHO_DEFAULT_def MQDMHO_lookup fits_simps;
    simp add: init_simps macro_value_simps MQDMHO_lookup)

lemma MQDMHO_opens: "default_opens a (struct_MQDMHO a)"
  by (simp only: default_opens_def struct_MQDMHO_def mq_struct.simps MQDMHO_def
    MQDMHO_DEFAULT_def MQDMHO_lookup header_simps; simp add: int_fits_def)

lemma MQDMPO_lookup:
  "map_of (macros_MQDMPO a) ''MQDMPO_LENGTH_1'' = Some (Num 12)"
  "map_of (macros_MQDMPO a) ''MQDMPO_CURRENT_LENGTH'' = Some (Num 12)"
  "map_of (macros_MQDMPO a) ''MQDMPO_STRUC_ID'' = Some (Str ''DMPO'')"
  "map_of (macros_MQDMPO a) ''MQDMPO_STRUC_ID_ARRAY'' = Some (Chars ''DMPO'')"
  "map_of (macros_MQDMPO a) ''MQDMPO_VERSION_1'' = Some (Num 1)"
  "map_of (macros_MQDMPO a) ''MQDMPO_DEL_FIRST'' = Some (Num 0)"
  by (simp_all only: lookup_simps map_of_table [OF macros_MQDMPO_def]
    map_of_table [OF MQDMPO_values_def]
    cong: lookup_congs)

lemma MQDMPO_lengths: "lengths_ok a (struct_MQDMPO a)"
  by (cases a; simp only: lengths_shapes struct_MQDMPO_def mq_struct.simps MQDMPO_def
    MQDMPO_lookup shapes_simps; simp add: place_simps)

lemma MQDMPO_fits: "default_fits a (struct_MQDMPO a)"
  by (cases a; simp only: default_fits_shapes struct_MQDMPO_def mq_struct.simps
    MQDMPO_def
    MQDMPO_DEFAULT_def MQDMPO_lookup fits_simps;
    simp add: init_simps macro_value_simps MQDMPO_lookup)

lemma MQDMPO_opens: "default_opens a (struct_MQDMPO a)"
  by (simp only: default_opens_def struct_MQDMPO_def mq_struct.simps MQDMPO_def
    MQDMPO_DEFAULT_def MQDMPO_lookup header_simps; simp add: int_fits_def)

lemma MQGMO_lookup:
  "map_of (macros_MQGMO a) ''MQGMO_LENGTH_1'' = Some (Num 72)"
  "map_of (macros_MQGMO a) ''MQGMO_LENGTH_2'' = Some (Num 80)"
  "map_of (macros_MQGMO a) ''MQGMO_LENGTH_3'' = Some (Num 100)"
  "map_of (macros_MQGMO a) ''MQGMO_LENGTH_4'' = Some (Num 112)"
  "map_of (macros_MQGMO a) ''MQGMO_CURRENT_LENGTH'' = Some (Num 112)"
  "map_of (macros_MQGMO a) ''MQGMO_STRUC_ID'' = Some (Str ''GMO '')"
  "map_of (macros_MQGMO a) ''MQGMO_STRUC_ID_ARRAY'' = Some (Chars ''GMO '')"
  "map_of (macros_MQGMO a) ''MQGMO_VERSION_1'' = Some (Num 1)"
  "map_of (macros_MQGMO a) ''MQGMO_NO_WAIT'' = Some (Num 0)"
  "map_of (macros_MQGMO a) ''MQGMO_PROPERTIES_AS_Q_DEF'' = Some (Num 0)"
  "map_of (macros_MQGMO a) ''MQMO_MATCH_MSG_ID'' = Some (Num 1)"
  "map_of (macros_MQGMO a) ''MQMO_MATCH_CORREL_ID'' = Some (Num 2)"
  "map_of (macros_MQGMO a) ''MQGS_NOT_IN_GROUP'' = Some (Chars '' '')"
  "map_of (macros_MQGMO a) ''MQSS_NOT_A_SEGMENT'' = Some (Chars '' '')"
  "map_of (macros_MQGMO a) ''MQSEG_INHIBITED'' = Some (Chars '' '')"
  "map_of (macros_MQGMO a) ''MQMTOK_NONE_ARRAY'' = Some (Chars (replicate 16 NUL))"
  "map_of (macros_MQGMO a) ''MQRL_UNDEFINED'' = Some (Num (- 1))"
  "map_of (macros_MQGMO a) ''MQHM_NONE'' = Some (Num 0)"
  by (simp_all only: lookup_simps map_of_table [OF macros_MQGMO_def]
    map_of_table [OF MQGMO_values_def]
    map_of_table [OF MQHM_values_def]
    cong: lookup_congs)

lemma MQGMO_lengths: "lengths_ok a (struct_MQGMO a)"
  by (cases a; simp only: lengths_shapes struct_MQGMO_def mq_struct.simps MQGMO_def
    MQGMO_lookup shapes_simps; simp add: place_simps)

lemma MQGMO_fits: "default_fits a (struct_MQGMO a)"
  by (cases a; simp only: default_fits_shapes struct_MQGMO_def mq_struct.simps
    MQGMO_def
    MQGMO_DEFAULT_def MQGMO_lookup fits_simps;
    simp add: init_simps macro_value_simps MQGMO_lookup)

lemma MQGMO_opens: "default_opens a (struct_MQGMO a)"
  by (simp only: default_opens_def struct_MQGMO_def mq_struct.simps MQGMO_def
    MQGMO_DEFAULT_def MQGMO_lookup header_simps; simp add: int_fits_def)

lemma MQIIH_lookup:
  "map_of (macros_MQIIH a) ''MQIIH_LENGTH_1'' = Some (Num 84)"
  "map_of (macros_MQIIH a) ''MQIIH_CURRENT_LENGTH'' = Some (Num 84)"
  "map_of (macros_MQIIH a) ''MQIIH_STRUC_ID'' = Some (Str ''IIH '')"
  "map_of (macros_MQIIH a) ''MQIIH_STRUC_ID_ARRAY'' = Some (Chars ''IIH '')"
  "map_of (macros_MQIIH a) ''MQIIH_VERSION_1'' = Some (Num 1)"
  "map_of (macros_MQIIH a) ''MQFMT_NONE_ARRAY'' = Some (Chars ''        '')"
  "map_of (macros_MQIIH a) ''MQIIH_NONE'' = Some (Num 0)"
  "map_of (macros_MQIIH a) ''MQIAUT_NONE_ARRAY'' = Some (Chars ''        '')"
  "map_of (macros_MQIIH a) ''MQITII_NONE_ARRAY'' = Some (Chars (replicate 16 NUL))"
  "map_of (macros_MQIIH a) ''MQITS_NOT_IN_CONVERSATION'' = Some (Chars '' '')"
  "map_of (macros_MQIIH a) ''MQICM_COMMIT_THEN_SEND'' = Some (Chars ''0'')"
  "map_of (macros_MQIIH a) ''MQISS_CHECK'' = Some (Chars ''C'')"
  by (simp_all only: lookup_simps map_of_table [OF macros_MQIIH_def]
    map_of_table [OF MQIIH_values_def]
    map_of_table [OF MQMD_values_2_def]
    cong: lookup_congs)

lemma MQIIH_lengths: "lengths_ok a (struct_MQIIH a)"
  by (cases a; simp only: lengths_shapes struct_MQIIH_def mq_struct.simps MQIIH_def
    MQIIH_lookup shapes_simps; simp add: place_simps)

lemma MQIIH_fits: "default_fits a (struct_MQIIH a)"
  by (cases a; simp only: default_fits_shapes struct_MQIIH_def mq_struct.simps
    MQIIH_def
    MQIIH_DEFAULT_def MQIIH_lookup fits_simps;
    simp add: init_simps macro_value_simps MQIIH_lookup)

lemma MQIIH_opens: "default_opens a (struct_MQIIH a)"
  by (simp only: default_opens_def struct_MQIIH_def mq_struct.simps MQIIH_def
    MQIIH_DEFAULT_def MQIIH_lookup header_simps; simp add: int_fits_def)

lemma MQIMPO_lookup:
  "map_of (macros_MQIMPO a) ''MQIMPO_LENGTH_1'' = Some (Num (by_abi a 64 60))"
  "map_of (macros_MQIMPO a) ''MQIMPO_CURRENT_LENGTH'' = Some (Num (by_abi a 64 60))"
  "map_of (macros_MQIMPO a) ''MQIMPO_STRUC_ID'' = Some (Str ''IMPO'')"
  "map_of (macros_MQIMPO a) ''MQIMPO_STRUC_ID_ARRAY'' = Some (Chars ''IMPO'')"
  "map_of (macros_MQIMPO a) ''MQIMPO_VERSION_1'' = Some (Num 1)"
  "map_of (macros_MQIMPO a) ''MQIMPO_INQ_FIRST'' = Some (Num 0)"
  "map_of (macros_MQIMPO a) ''MQENC_NATIVE'' = Some (Num 546)"
  "map_of (macros_MQIMPO a) ''MQCCSI_APPL'' = Some (Num (- 3))"
  by (simp_all only: lookup_simps map_of_table [OF macros_MQIMPO_def]
    map_of_table [OF MQIMPO_values_def]
    map_of_table [OF MQMD_values_1_def]
    map_of_table [OF MQMD_values_2_def]
    cong: lookup_congs)

lemma MQIMPO_lengths: "lengths_ok a (struct_MQIMPO a)"
  by (cases a; simp only: lengths_shapes struct_MQIMPO_def mq_struct.simps MQIMPO_def
    MQIMPO_lookup shapes_simps; simp add: place_simps MQCHARV_def)

lemma MQIMPO_fits: "default_fits a (struct_MQIMPO a)"
  by (cases a; simp only: default_fits_shapes struct_MQIMPO_def mq_struct.simps
    MQIMPO_def MQCHARV_def
    MQIMPO_DEFAULT_def MQCHARV_DEFAULT_def MQIMPO_lookup fits_simps;
    simp add: init_simps macro_value_simps MQIMPO_lookup)

lemma MQIMPO_opens: "default_opens a (struct_MQIMPO a)"
  by (simp only: default_opens_def struct_MQIMPO_def mq_struct.simps MQIMPO_def
    MQIMPO_DEFAULT_def MQIMPO_lookup header_simps; simp add: int_fits_def)

lemma MQMD_lookup:
  "map_of (macros_MQMD a) ''MQMD_LENGTH_1'' = Some (Num 324)"
  "map_of (macros_MQMD a) ''MQMD_LENGTH_2'' = Some (Num 364)"
  "map_of (macros_MQMD a) ''MQMD_CURRENT_LENGTH'' = Some (Num 364)"
  "map_of (macros_MQMD a) ''MQMD_STRUC_ID'' = Some (Str ''MD  '')"
  "map_of (macros_MQMD a) ''MQMD_STRUC_ID_ARRAY'' = Some (Chars ''MD  '')"
  "map_of (macros_MQMD a) ''MQMD_VERSION_1'' = Some (Num 1)"
  "map_of (macros_MQMD a) ''MQRO_NONE'' = Some (Num 0)"
  "map_of (macros_MQMD a) ''MQMT_DATAGRAM'' = Some (Num 8)"
  "map_of (macros_MQMD a) ''MQEI_UNLIMITED'' = Some (Num (- 1))"
  "map_of (macros_MQMD a) ''MQFB_NONE'' = Some (Num 0)"
  "map_of (macros_MQMD a) ''MQENC_NATIVE'' = Some (Num 546)"
  "map_of (macros_MQMD a) ''MQCCSI_Q_MGR'' = Some (Num 0)"
  "map_of (macros_MQMD a) ''MQFMT_NONE_ARRAY'' = Some (Chars ''        '')"
  "map_of (macros_MQMD a) ''MQPRI_PRIORITY_AS_Q_DEF'' = Some (Num (- 1))"
  "map_of (macros_MQMD a) ''MQPER_PERSISTENCE_AS_Q_DEF'' = Some (Num 2)"
  "map_of (macros_MQMD a) ''MQMI_NONE_ARRAY'' = Some (Chars (replicate 24 NUL))"
  "map_of (macros_MQMD a) ''MQCI_NONE_ARRAY'' = Some (Chars (replicate 24 NUL))"
  "map_of (macros_MQMD a) ''MQACT_NONE_ARRAY'' = Some (Chars (replicate 32 NUL))"
  "map_of (macros_MQMD a) ''MQAT_NO_CONTEXT'' = Some (Num 0)"
  "map_of (macros_MQMD a) ''MQGI_NONE_ARRAY'' = Some (Chars (replicate 24 NUL))"
  "map_of (macros_MQMD a) ''MQMF_NONE'' = Some (Num 0)"
  "map_of (macros_MQMD a) ''MQOL_UNDEFINED'' = Some (Num (- 1))"
  by (simp_all only: lookup_simps map_of_table [OF macros_MQMD_def]
    map_of_table [OF MQMD_values_1_def]
    map_of_table [OF MQMD_values_2_def]
    map_of_table [OF MQMD_values_3_def]
    cong: lookup_congs)

lemma MQMD_lengths: "lengths_ok a (struct_MQMD a)"
  by (cases a; simp only: lengths_shapes struct_MQMD_def mq_struct.simps MQMD_def
    MQMD_lookup shapes_simps; simp add: place_simps)

lemma MQMD_fits: "default_fits a (struct_MQMD a)"
  by (cases a; simp only: default_fits_shapes struct_MQMD_def mq_struct.simps
    MQMD_def
    MQMD_DEFAULT_def MQMD_lookup fits_simps;
    simp add: init_simps macro_value_simps MQMD_lookup)

lemma MQMD_opens: "default_opens a (struct_MQMD a)"
  by (simp only: default_opens_def struct_MQMD_def mq_struct.simps MQMD_def
    MQMD_DEFAULT_def MQMD_lookup header_simps; simp add: int_fits_def)

lemma MQMDE_lookup:
  "map_of (macros_MQMDE a) ''MQMDE_LENGTH_2'' = Some (Num 72)"
  "map_of (macros_MQMDE a) ''MQMDE_CURRENT_LENGTH'' = Some (Num 72)"
  "map_of (macros_MQMDE a) ''MQMDE_STRUC_ID'' = Some (Str ''MDE '')"
  "map_of (macros_MQMDE a) ''MQMDE_STRUC_ID_ARRAY'' = Some (Chars ''MDE '')"
  "map_of (macros_MQMDE a) ''MQMDE_VERSION_2'' = Some (Num 2)"
  "map_of (macros_MQMDE a) ''MQENC_NATIVE'' = Some (Num 546)"
  "map_of (macros_MQMDE a) ''MQCCSI_UNDEFINED'' = Some (Num 0)"
  "map_of (macros_MQMDE a) ''MQFMT_NONE_ARRAY'' = Some (Chars ''        '')"
  "map_of (macros_MQMDE a) ''MQMDEF_NONE'' = Some (Num 0)"
  "map_of (macros_MQMDE a) ''MQGI_NONE_ARRAY'' = Some (Chars (replicate 24 NUL))"
  "map_of (macros_MQMDE a) ''MQMF_NONE'' = Some (Num 0)"
  "map_of (macros_MQMDE a) ''MQOL_UNDEFINED'' = Some (Num (- 1))"
  by (simp_all only: lookup_simps map_of_table [OF macros_MQMDE_def]
    map_of_table [OF MQMDE_values_def]
    map_of_table [OF MQMD_values_1_def]
    map_of_table [OF MQMD_values_2_def]
    map_of_table [OF MQMD_values_3_def]
    cong: lookup_congs)

lemma MQMDE_lengths: "lengths_ok a (struct_MQMDE a)"
  by (cases a; simp only: lengths_shapes struct_MQMDE_def mq_struct.simps MQMDE_def
    MQMDE_lookup shapes_simps; simp add: place_simps)

lemma MQMDE_fits: "default_fits a (struct_MQMDE a)"
  by (cases a; simp only: default_fits_shapes struct_MQMDE_def mq_struct.simps
    MQMDE_def
    MQMDE_DEFAULT_def MQMDE_lookup fits_simps;
    simp add: init_simps macro_value_simps MQMDE_lookup)

lemma MQMDE_opens: "default_opens a (struct_MQMDE a)"
  by (simp only: default_opens_def struct_MQMDE_def mq_struct.simps MQMDE_def
    MQMDE_DEFAULT_def MQMDE_lookup header_simps; simp add: int_fits_def)

lemma MQMD1_lookup:
  "map_of (macros_MQMD1 a) ''MQMD1_LENGTH_1'' = Some (Num 324)"
  "map_of (macros_MQMD1 a) ''MQMD1_CURRENT_LENGTH'' = Some (Num 324)"
  "map_of (macros_MQMD1 a) ''MQMD_STRUC_ID'' = Some (Str ''MD  '')"
  "map_of (macros_MQMD1 a) ''MQMD_STRUC_ID_ARRAY'' = Some (Chars ''MD  '')"
  "map_of (macros_MQMD1 a) ''MQMD_VERSION_1'' = Some (Num 1)"
  "map_of (macros_MQMD1 a) ''MQRO_NONE'' = Some (Num 0)"
  "map_of (macros_MQMD1 a) ''MQMT_DATAGRAM'' = Some (Num 8)"
  "map_of (macros_MQMD1 a) ''MQEI_UNLIMITED'' = Some (Num (- 1))"
  "map_of (macros_MQMD1 a) ''MQFB_NONE'' = Some (Num 0)"
  "map_of (macros_MQMD1 a) ''MQENC_NATIVE'' = Some (Num 546)"
  "map_of (macros_MQMD1 a) ''MQCCSI_Q_MGR'' = Some (Num 0)"
  "map_of (macros_MQMD1 a) ''MQFMT_NONE_ARRAY'' = Some (Chars ''        '')"
  "map_of (macros_MQMD1 a) ''MQPRI_PRIORITY_AS_Q_DEF'' = Some (Num (- 1))"
  "map_of (macros_MQMD1 a) ''MQPER_PERSISTENCE_AS_Q_DEF'' = Some (Num 2)"
  "map_of (macros_MQMD1 a) ''MQMI_NONE_ARRAY'' = Some (Chars (replicate 24 NUL))"
  "map_of (macros_MQMD1 a) ''MQCI_NONE_ARRAY'' = Some (Chars (replicate 24 NUL))"
  "map_of (macros_MQMD1 a) ''MQACT_NONE_ARRAY'' = Some (Chars (replicate 32 NUL))"
  "map_of (macros_MQMD1 a) ''MQAT_NO_CONTEXT'' = Some (Num 0)"
  by (simp_all only: lookup_simps map_of_table [OF macros_MQMD1_def]
    map_of_table [OF MQMD1_values_def]
    map_of_table [OF MQMD_values_1_def]
    map_of_table [OF MQMD_values_2_def]
    map_of_table [OF MQMD_values_3_def]
    cong: lookup_congs)

lemma MQMD1_lengths: "lengths_ok a (struct_MQMD1 a)"
  by (cases a; simp only: lengths_shapes struct_MQMD1_def mq_struct.simps MQMD1_def
    MQMD1_lookup shapes_simps; simp add: place_simps)

lemma MQMD1_fits: "default_fits a (struct_MQMD1 a)"
  by (cases a; simp only: default_fits_shapes struct_MQMD1_def mq_struct.simps
    MQMD1_def
    MQMD1_DEFAULT_def MQMD1_lookup fits_simps;
    simp add: init_simps macro_value_simps MQMD1_lookup)

lemma MQMD1_opens: "default_opens a (struct_MQMD1 a)"
  by (simp only: default_opens_def struct_MQMD1_def mq_struct.simps MQMD1_def
    MQMD1_DEFAULT_def MQMD1_lookup header_simps; simp add: int_fits_def)

lemma MQMD2_lookup:
  "map_of (macros_MQMD2 a) ''MQMD2_LENGTH_1'' = Some (Num 324)"
  "map_of (macros_MQMD2 a) ''MQMD2_LENGTH_2'' = Some (Num 364)"
  "map_of (macros_MQMD2 a) ''MQMD2_CURRENT_LENGTH'' = Some (Num 364)"
  "map_of (macros_MQMD2 a) ''MQMD_STRUC_ID'' = Some (Str ''MD  '')"
  "map_of (macros_MQMD2 a) ''MQMD_STRUC_ID_ARRAY'' = Some (Chars ''MD  '')"
  "map_of (macros_MQMD2 a) ''MQMD_VERSION_2'' = Some (Num 2)"
  "map_of (macros_MQMD2 a) ''MQRO_NONE'' = Some (Num 0)"
  "map_of (macros_MQMD2 a) ''MQMT_DATAGRAM'' = Some (Num 8)"
  "map_of (macros_MQMD2 a) ''MQEI_UNLIMITED'' = Some (Num (- 1))"
  "map_of (macros_MQMD2 a) ''MQFB_NONE'' = Some (Num 0)"
  "map_of (macros_MQMD2 a) ''MQENC_NATIVE'' = Some (Num 546)"
  "map_of (macros_MQMD2 a) ''MQCCSI_Q_MGR'' = Some (Num 0)"
  "map_of (macros_MQMD2 a) ''MQFMT_NONE_ARRAY'' = Some (Chars ''        '')"
  "map_of (macros_MQMD2 a) ''MQPRI_PRIORITY_AS_Q_DEF'' = Some (Num (- 1))"
  "map_of (macros_MQMD2 a) ''MQPER_PERSISTENCE_AS_Q_DEF'' = Some (Num 2)"
  "map_of (macros_MQMD2 a) ''MQMI_NONE_ARRAY'' = Some (Chars (replicate 24 NUL))"
  "map_of (macros_MQMD2 a) ''MQCI_NONE_ARRAY'' = Some (Chars (replicate 24 NUL))"
  "map_of (macros_MQMD2 a) ''MQACT_NONE_ARRAY'' = Some (Chars (replicate 32 NUL))"
  "map_of (macros_MQMD2 a) ''MQAT_NO_CONTEXT'' = Some (Num 0)"
  "map_of (macros_MQMD2 a) ''MQGI_NONE_ARRAY'' = Some (Chars (replicate 24 NUL))"
  "map_of (macros_MQMD2 a) ''MQMF_NONE'' = Some (Num 0)"
  "map_of (macros_MQMD2 a) ''MQOL_UNDEFINED'' = Some (Num (- 1))"
  by (simp_all only: lookup_simps map_of_table [OF macros_MQMD2_def]
    map_of_table [OF MQMD2_values_def]
    map_of_table [OF MQMD_values_1_def]
    map_of_table [OF MQMD_values_2_def]
    map_of_table [OF MQMD_values_3_def]
    cong: lookup_congs)

lemma MQMD2_lengths: "lengths_ok a (struct_MQMD2 a)"
  by (cases a; simp only: lengths_shapes struct_MQMD2_def mq_struct.simps MQMD2_def
    MQMD2_lookup shapes_simps; simp add: place_simps)

lemma MQMD2_fits: "default_fits a (struct_MQMD2 a)"
  by (cases a; simp only: default_fits_shapes struct_MQMD2_def mq_struct.simps
    MQMD2_def
    MQMD2_DEFAULT_def MQMD2_lookup fits_simps;
    simp add: init_simps macro_value_simps MQMD2_lookup)

lemma MQMD2_opens: "default_opens a (struct_MQMD2 a)"
  by (simp only: default_opens_def struct_MQMD2_def mq_struct.simps MQMD2_def
    MQMD2_DEFAULT_def MQMD2_lookup header_simps; simp add: int_fits_def)

lemma MQMHBO_lookup:
  "map_of (macros_MQMHBO a) ''MQMHBO_LENGTH_1'' = Some (Num 12)"
  "map_of (macros_MQMHBO a) ''MQMHBO_CURRENT_LENGTH'' = Some (Num 12)"
  "map_of (macros_MQMHBO a) ''MQMHBO_STRUC_ID'' = Some (Str ''MHBO'')"
  "map_of (macros_MQMHBO a) ''MQMHBO_STRUC_ID_ARRAY'' = Some (Chars ''MHBO'')"
  "map_of (macros_MQMHBO a) ''MQMHBO_VERSION_1'' = Some (Num 1)"
  "map_of (macros_MQMHBO a) ''MQMHBO_PROPERTIES_IN_MQRFH2'' = Some (Num 1)"
  by (simp_all only: lookup_simps map_of_table [OF macros_MQMHBO_def]
    map_of_table [OF MQMHBO_values_def]
    cong: lookup_congs)

lemma MQMHBO_lengths: "lengths_ok a (struct_MQMHBO a)"
  by (cases a; simp only: lengths_shapes struct_MQMHBO_def mq_struct.simps MQMHBO_def
    MQMHBO_lookup shapes_simps; simp add: place_simps)

lemma MQMHBO_fits: "default_fits a (struct_MQMHBO a)"
  by (cases a; simp only: default_fits_shapes struct_MQMHBO_def mq_struct.simps
    MQMHBO_def
    MQMHBO_DEFAULT_def MQMHBO_lookup fits_simps;
    simp add: init_simps macro_value_simps MQMHBO_lookup)

lemma MQMHBO_opens: "default_opens a (struct_MQMHBO a)"
  by (simp only: default_opens_def struct_MQMHBO_def mq_struct.simps MQMHBO_def
    MQMHBO_DEFAULT_def MQMHBO_lookup header_simps; simp add: int_fits_def)

lemma MQOD_lookup:
  "map_of (macros_MQOD a) ''MQOD_LENGTH_1'' = Some (Num 168)"
  "map_of (macros_MQOD a) ''MQOD_LENGTH_2'' = Some (Num (by_abi a 208 200))"
  "map_of (macros_MQOD a) ''MQOD_LENGTH_3'' = Some (Num (by_abi a 344 336))"
  "map_of (macros_MQOD a) ''MQOD_LENGTH_4'' = Some (Num (by_abi a 424 400))"
  "map_of (macros_MQOD a) ''MQOD_CURRENT_LENGTH'' = Some (Num (by_abi a 424 400))"
  "map_of (macros_MQOD a) ''MQOD_STRUC_ID'' = Some (Str ''OD  '')"
  "map_of (macros_MQOD a) ''MQOD_STRUC_ID_ARRAY'' = Some (Chars ''OD  '')"
  "map_of (macros_MQOD a) ''MQOD_VERSION_1'' = Some (Num 1)"
  "map_of (macros_MQOD a) ''MQOT_Q'' = Some (Num 1)"
  "map_of (macros_MQOD a) ''MQSID_NONE_ARRAY'' = Some (Chars (replicate 40 NUL))"
  "map_of (macros_MQOD a) ''MQOT_NONE'' = Some (Num 0)"
  "map_of (macros_MQOD a) ''MQCCSI_APPL'' = Some (Num (- 3))"
  by (simp_all only: lookup_simps map_of_table [OF macros_MQOD_def]
    map_of_table [OF MQOD_values_def]
    map_of_table [OF MQSD_values_def]
    map_of_table [OF MQMD_values_2_def]
    cong: lookup_congs)

lemma MQOD_lengths: "lengths_ok a (struct_MQOD a)"
  by (cases a; simp only: lengths_shapes struct_MQOD_def mq_struct.simps MQOD_def
    MQOD_lookup shapes_simps; simp add: place_simps MQCHARV_def)

lemma MQOD_fits: "default_fits a (struct_MQOD a)"
  by (cases a; simp only: default_fits_shapes struct_MQOD_def mq_struct.simps
    MQOD_def MQCHARV_def
    MQOD_DEFAULT_def MQCHARV_DEFAULT_def MQOD_lookup fits_simps;
    simp add: init_simps macro_value_simps MQOD_lookup)

lemma MQOD_opens: "default_opens a (struct_MQOD a)"
  by (simp only: default_opens_def struct_MQOD_def mq_struct.simps MQOD_def
    MQOD_DEFAULT_def MQOD_lookup header_simps; simp add: int_fits_def)

lemma MQPD_lookup:
  "map_of (macros_MQPD a) ''MQPD_LENGTH_1'' = Some (Num 24)"
  "map_of (macros_MQPD a) ''MQPD_CURRENT_LENGTH'' = Some (Num 24)"
  "map_of (macros_MQPD a) ''MQPD_STRUC_ID'' = Some (Str ''PD  '')"
  "map_of (macros_MQPD a) ''MQPD_STRUC_ID_ARRAY'' = Some (Chars ''PD  '')"
  "map_of (macros_MQPD a) ''MQPD_VERSION_1'' = Some (Num 1)"
  "map_of (macros_MQPD a) ''MQPD_NONE'' = Some (Num 0)"
  "map_of (macros_MQPD a) ''MQPD_SUPPORT_OPTIONAL'' = Some (Num 1)"
  "map_of (macros_MQPD a) ''MQPD_NO_CONTEXT'' = Some (Num 0)"
  "map_of (macros_MQPD a) ''MQCOPY_DEFAULT'' = Some (Num 22)"
  by (simp_all only: lookup_simps map_of_table [OF macros_MQPD_def]
    map_of_table [OF MQPD_values_def]
    cong: lookup_congs)

lemma MQPD_lengths: "lengths_ok a (struct_MQPD a)"
  by (cases a; simp only: lengths_shapes struct_MQPD_def mq_struct.simps MQPD_def
    MQPD_lookup shapes_simps; simp add: place_simps)

lemma MQPD_fits: "default_fits a (struct_MQPD a)"
  by (cases a; simp only: default_fits_shapes struct_MQPD_def mq_struct.simps
    MQPD_def
    MQPD_DEFAULT_def MQPD_lookup fits_simps;
    simp add: init_simps macro_value_simps MQPD_lookup)

lemma MQPD_opens: "default_opens a (struct_MQPD a)"
  by (simp only: default_opens_def struct_MQPD_def mq_struct.simps MQPD_def
    MQPD_DEFAULT_def MQPD_lookup header_simps; simp add: int_fits_def)

lemma MQPMO_lookup:
  "map_of (macros_MQPMO a) ''MQPMO_LENGTH_1'' = Some (Num 128)"
  "map_of (macros_MQPMO a) ''MQPMO_LENGTH_2'' = Some (Num (by_abi a 160 152))"
  "map_of (macros_MQPMO a) ''MQPMO_LENGTH_3'' = Some (Num (by_abi a 184 176))"
  "map_of (macros_MQPMO a) ''MQPMO_CURRENT_LENGTH'' = Some (Num (by_abi a 184 176))"
  "map_of (macros_MQPMO a) ''MQPMO_STRUC_ID'' = Some (Str ''PMO '')"
  "map_of (macros_MQPMO a) ''MQPMO_STRUC_ID_ARRAY'' = Some (Chars ''PMO '')"
  "map_of (macros_MQPMO a) ''MQPMO_VERSION_1'' = Some (Num 1)"
  "map_of (macros_MQPMO a) ''MQPMO_NONE'' = Some (Num 0)"
  "map_of (macros_MQPMO a) ''MQPMRF_NONE'' = Some (Num 0)"
  "map_of (macros_MQPMO a) ''MQHM_NONE'' = Some (Num 0)"
  "map_of (macros_MQPMO a) ''MQACTP_NEW'' = Some (Num 0)"
  by (simp_all only: lookup_simps map_of_table [OF macros_MQPMO_def]
    map_of_table [OF MQPMO_values_def]
    map_of_table [OF MQHM_values_def]
    cong: lookup_congs)

lemma MQPMO_lengths: "lengths_ok a (struct_MQPMO a)"
  by (cases a; simp only: lengths_shapes struct_MQPMO_def mq_struct.simps MQPMO_def
    MQPMO_lookup shapes_simps; simp add: place_simps)

lemma MQPMO_fits: "default_fits a (struct_MQPMO a)"
  by (cases a; simp only: default_fits_shapes struct_MQPMO_def mq_struct.simps
    MQPMO_def
    MQPMO_DEFAULT_def MQPMO_lookup fits_simps;
    simp add: init_simps macro_value_simps MQPMO_lookup)

lemma MQPMO_opens: "default_opens a (struct_MQPMO a)"
  by (simp only: default_opens_def struct_MQPMO_def mq_struct.simps MQPMO_def
    MQPMO_DEFAULT_def MQPMO_lookup header_simps; simp add: int_fits_def)

lemma MQRFH_lookup:
  "map_of (macros_MQRFH a) ''MQRFH_LENGTH_1'' = Some (Num 32)"
  "map_of (macros_MQRFH a) ''MQRFH_CURRENT_LENGTH'' = Some (Num 32)"
  "map_of (macros_MQRFH a) ''MQRFH_STRUC_ID'' = Some (Str ''RFH '')"
  "map_of (macros_MQRFH a) ''MQRFH_STRUC_ID_ARRAY'' = Some (Chars ''RFH '')"
  "map_of (macros_MQRFH a) ''MQRFH_VERSION_1'' = Some (Num 1)"
  "map_of (macros_MQRFH a) ''MQRFH_STRUC_LENGTH_FIXED'' = Some (Num 32)"
  "map_of (macros_MQRFH a) ''MQENC_NATIVE'' = Some (Num 546)"
  "map_of (macros_MQRFH a) ''MQCCSI_UNDEFINED'' = Some (Num 0)"
  "map_of (macros_MQRFH a) ''MQFMT_NONE_ARRAY'' = Some (Chars ''        '')"
  "map_of (macros_MQRFH a) ''MQRFH_NONE'' = Some (Num 0)"
  by (simp_all only: lookup_simps map_of_table [OF macros_MQRFH_def]
    map_of_table [OF MQRFH_values_def]
    map_of_table [OF MQMD_values_1_def]
    map_of_table [OF MQMD_values_2_def]
    cong: lookup_congs)

lemma MQRFH_lengths: "lengths_ok a (struct_MQRFH a)"
  by (cases a; simp only: lengths_shapes struct_MQRFH_def mq_struct.simps MQRFH_def
    MQRFH_lookup shapes_simps; simp add: place_simps)

lemma MQRFH_fits: "default_fits a (struct_MQRFH a)"
  by (cases a; simp only: default_fits_shapes struct_MQRFH_def mq_struct.simps
    MQRFH_def
    MQRFH_DEFAULT_def MQRFH_lookup fits_simps;
    simp add: init_simps macro_value_simps MQRFH_lookup)

lemma MQRFH_opens: "default_opens a (struct_MQRFH a)"
  by (simp only: default_opens_def struct_MQRFH_def mq_struct.simps MQRFH_def
    MQRFH_DEFAULT_def MQRFH_lookup header_simps; simp add: int_fits_def)

lemma MQRFH2_lookup:
  "map_of (macros_MQRFH2 a) ''MQRFH2_LENGTH_2'' = Some (Num 36)"
  "map_of (macros_MQRFH2 a) ''MQRFH2_CURRENT_LENGTH'' = Some (Num 36)"
  "map_of (macros_MQRFH2 a) ''MQRFH_STRUC_ID'' = Some (Str ''RFH '')"
  "map_of (macros_MQRFH2 a) ''MQRFH_STRUC_ID_ARRAY'' = Some (Chars ''RFH '')"
  "map_of (macros_MQRFH2 a) ''MQRFH_VERSION_2'' = Some (Num 2)"
  "map_of (macros_MQRFH2 a) ''MQRFH_STRUC_LENGTH_FIXED_2'' = Some (Num 36)"
  "map_of (macros_MQRFH2 a) ''MQENC_NATIVE'' = Some (Num 546)"
  "map_of (macros_MQRFH2 a) ''MQCCSI_INHERIT'' = Some (Num (- 2))"
  "map_of (macros_MQRFH2 a) ''MQFMT_NONE_ARRAY'' = Some (Chars ''        '')"
  "map_of (macros_MQRFH2 a) ''MQRFH_NONE'' = Some (Num 0)"
  by (simp_all only: lookup_simps map_of_table [OF macros_MQRFH2_def]
    map_of_table [OF MQRFH2_values_def]
    map_of_table [OF MQRFH_values_def]
    map_of_table [OF MQMD_values_1_def]
    map_of_table [OF MQMD_values_2_def]
    cong: lookup_congs)

lemma MQRFH2_lengths: "lengths_ok a (struct_MQRFH2 a)"
  by (cases a; simp only: lengths_shapes struct_MQRFH2_def mq_struct.simps MQRFH2_def
    MQRFH2_lookup shapes_simps; simp add: place_simps)

lemma MQRFH2_fits: "default_fits a (struct_MQRFH2 a)"
  by (cases a; simp only: default_fits_shapes struct_MQRFH2_def mq_struct.simps
    MQRFH2_def
    MQRFH2_DEFAULT_def MQRFH2_lookup fits_simps;
    simp add: init_simps macro_value_simps MQRFH2_lookup)

lemma MQRFH2_opens: "default_opens a (struct_MQRFH2 a)"
  by (simp only: default_opens_def struct_MQRFH2_def mq_struct.simps MQRFH2_def
    MQRFH2_DEFAULT_def MQRFH2_lookup header_simps; simp add: int_fits_def)

lemma MQRMH_lookup:
  "map_of (macros_MQRMH a) ''MQRMH_LENGTH_1'' = Some (Num 108)"
  "map_of (macros_MQRMH a) ''MQRMH_CURRENT_LENGTH'' = Some (Num 108)"
  "map_of (macros_MQRMH a) ''MQRMH_STRUC_ID'' = Some (Str ''RMH '')"
  "map_of (macros_MQRMH a) ''MQRMH_STRUC_ID_ARRAY'' = Some (Chars ''RMH '')"
  "map_of (macros_MQRMH a) ''MQRMH_VERSION_1'' = Some (Num 1)"
  "map_of (macros_MQRMH a) ''MQENC_NATIVE'' = Some (Num 546)"
  "map_of (macros_MQRMH a) ''MQCCSI_UNDEFINED'' = Some (Num 0)"
  "map_of (macros_MQRMH a) ''MQFMT_NONE_ARRAY'' = Some (Chars ''        '')"
  "map_of (macros_MQRMH a) ''MQRMHF_NOT_LAST'' = Some (Num 0)"
  "map_of (macros_MQRMH a) ''MQOII_NONE_ARRAY'' = Some (Chars (replicate 24 NUL))"
  by (simp_all only: lookup_simps map_of_table [OF macros_MQRMH_def]
    map_of_table [OF MQRMH_values_def]
    map_of_table [OF MQMD_values_1_def]
    map_of_table [OF MQMD_values_2_def]
    cong: lookup_congs)

lemma MQRMH_lengths: "lengths_ok a (struct_MQRMH a)"
  by (cases a; simp only: lengths_shapes struct_MQRMH_def mq_struct.simps MQRMH_def
    MQRMH_lookup shapes_simps; simp add: place_simps)

lemma MQRMH_fits: "default_fits a (struct_MQRMH a)"
  by (cases a; simp only: default_fits_shapes struct_MQRMH_def mq_struct.simps
    MQRMH_def
    MQRMH_DEFAULT_def MQRMH_lookup fits_simps;
    simp add: init_simps macro_value_simps MQRMH_lookup)

lemma MQRMH_opens: "default_opens a (struct_MQRMH a)"
  by (simp only: default_opens_def struct_MQRMH_def mq_struct.simps MQRMH_def
    MQRMH_DEFAULT_def MQRMH_lookup header_simps; simp add: int_fits_def)

lemma MQSD_lookup:
  "map_of (macros_MQSD a) ''MQSD_LENGTH_1'' = Some (Num (by_abi a 344 312))"
  "map_of (macros_MQSD a) ''MQSD_CURRENT_LENGTH'' = Some (Num (by_abi a 344 312))"
  "map_of (macros_MQSD a) ''MQSD_STRUC_ID'' = Some (Str ''SD  '')"
  "map_of (macros_MQSD a) ''MQSD_STRUC_ID_ARRAY'' = Some (Chars ''SD  '')"
  "map_of (macros_MQSD a) ''MQSD_VERSION_1'' = Some (Num 1)"
  "map_of (macros_MQSD a) ''MQSID_NONE_ARRAY'' = Some (Chars (replicate 40 NUL))"
  "map_of (macros_MQSD a) ''MQEI_UNLIMITED'' = Some (Num (- 1))"
  "map_of (macros_MQSD a) ''MQCI_NONE_ARRAY'' = Some (Chars (replicate 24 NUL))"
  "map_of (macros_MQSD a) ''MQPRI_PRIORITY_AS_PUBLISHED'' = Some (Num (- 3))"
  "map_of (macros_MQSD a) ''MQACT_NONE_ARRAY'' = Some (Chars (replicate 32 NUL))"
  "map_of (macros_MQSD a) ''MQCCSI_APPL'' = Some (Num (- 3))"
  by (simp_all only: lookup_simps map_of_table [OF macros_MQSD_def]
    map_of_table [OF MQSD_values_def]
    map_of_table [OF MQMD_values_1_def]
    map_of_table [OF MQMD_values_2_def]
    cong: lookup_congs)

lemma MQSD_lengths: "lengths_ok a (struct_MQSD a)"
  by (cases a; simp only: lengths_shapes struct_MQSD_def mq_struct.simps MQSD_def
    MQSD_lookup shapes_simps; simp add: place_simps MQCHARV_def)

lemma MQSD_fits: "default_fits a (struct_MQSD a)"
  by (cases a; simp only: default_fits_shapes struct_MQSD_def mq_struct.simps
    MQSD_def MQCHARV_def
    MQSD_DEFAULT_def MQCHARV_DEFAULT_def MQSD_lookup fits_simps;
    simp add: init_simps macro_value_simps MQSD_lookup)

lemma MQSD_opens: "default_opens a (struct_MQSD a)"
  by (simp only: default_opens_def struct_MQSD_def mq_struct.simps MQSD_def
    MQSD_DEFAULT_def MQSD_lookup header_simps; simp add: int_fits_def)

lemma MQSMPO_lookup:
  "map_of (macros_MQSMPO a) ''MQSMPO_LENGTH_1'' = Some (Num 20)"
  "map_of (macros_MQSMPO a) ''MQSMPO_CURRENT_LENGTH'' = Some (Num 20)"
  "map_of (macros_MQSMPO a) ''MQSMPO_STRUC_ID'' = Some (Str ''SMPO'')"
  "map_of (macros_MQSMPO a) ''MQSMPO_STRUC_ID_ARRAY'' = Some (Chars ''SMPO'')"
  "map_of (macros_MQSMPO a) ''MQSMPO_VERSION_1'' = Some (Num 1)"
  "map_of (macros_MQSMPO a) ''MQSMPO_SET_FIRST'' = Some (Num 0)"
  "map_of (macros_MQSMPO a) ''MQENC_NATIVE'' = Some (Num 546)"
  "map_of (macros_MQSMPO a) ''MQCCSI_APPL'' = Some (Num (- 3))"
  by (simp_all only: lookup_simps map_of_table [OF macros_MQSMPO_def]
    map_of_table [OF MQSMPO_values_def]
    map_of_table [OF MQMD_values_1_def]
    map_of_table [OF MQMD_values_2_def]
    cong: lookup_congs)

lemma MQSMPO_lengths: "lengths_ok a (struct_MQSMPO a)"
  by (cases a; simp only: lengths_shapes struct_MQSMPO_def mq_struct.simps MQSMPO_def
    MQSMPO_lookup shapes_simps; simp add: place_simps)

lemma MQSMPO_fits: "default_fits a (struct_MQSMPO a)"
  by (cases a; simp only: default_fits_shapes struct_MQSMPO_def mq_struct.simps
    MQSMPO_def
    MQSMPO_DEFAULT_def MQSMPO_lookup fits_simps;
    simp add: init_simps macro_value_simps MQSMPO_lookup)

lemma MQSMPO_opens: "default_opens a (struct_MQSMPO a)"
  by (simp only: default_opens_def struct_MQSMPO_def mq_struct.simps MQSMPO_def
    MQSMPO_DEFAULT_def MQSMPO_lookup header_simps; simp add: int_fits_def)

lemma MQSRO_lookup:
  "map_of (macros_MQSRO a) ''MQSRO_LENGTH_1'' = Some (Num 16)"
  "map_of (macros_MQSRO a) ''MQSRO_CURRENT_LENGTH'' = Some (Num 16)"
  "map_of (macros_MQSRO a) ''MQSRO_STRUC_ID'' = Some (Str ''SRO '')"
  "map_of (macros_MQSRO a) ''MQSRO_STRUC_ID_ARRAY'' = Some (Chars ''SRO '')"
  "map_of (macros_MQSRO a) ''MQSRO_VERSION_1'' = Some (Num 1)"
  by (simp_all only: lookup_simps map_of_table [OF macros_MQSRO_def]
    map_of_table [OF MQSRO_values_def]
    cong: lookup_congs)

lemma MQSRO_lengths: "lengths_ok a (struct_MQSRO a)"
  by (cases a; simp only: lengths_shapes struct_MQSRO_def mq_struct.simps MQSRO_def
    MQSRO_lookup shapes_simps; simp add: place_simps)

lemma MQSRO_fits: "default_fits a (struct_MQSRO a)"
  by (cases a; simp only: default_fits_shapes struct_MQSRO_def mq_struct.simps
    MQSRO_def
    MQSRO_DEFAULT_def MQSRO_lookup fits_simps;
    simp add: init_simps macro_value_simps MQSRO_lookup)

lemma MQSRO_opens: "default_opens a (struct_MQSRO a)"
  by (simp only: default_opens_def struct_MQSRO_def mq_struct.simps MQSRO_def
    MQSRO_DEFAULT_def MQSRO_lookup header_simps; simp add: int_fits_def)

lemma MQSTS_lookup:
  "map_of (macros_MQSTS a) ''MQSTS_LENGTH_1'' = Some (Num 224)"
  "map_of (macros_MQSTS a) ''MQSTS_LENGTH_2'' = Some (Num (by_abi a 280 272))"
  "map_of (macros_MQSTS a) ''MQSTS_CURRENT_LENGTH'' = Some (Num (by_abi a 280 272))"
  "map_of (macros_MQSTS a) ''MQSTS_STRUC_ID'' = Some (Str ''STAT'')"
  "map_of (macros_MQSTS a) ''MQSTS_STRUC_ID_ARRAY'' = Some (Chars ''STAT'')"
  "map_of (macros_MQSTS a) ''MQSTS_VERSION_1'' = Some (Num 1)"
  "map_of (macros_MQSTS a) ''MQCC_OK'' = Some (Num 0)"
  "map_of (macros_MQSTS a) ''MQRC_NONE'' = Some (Num 0)"
  "map_of (macros_MQSTS a) ''MQOT_Q'' = Some (Num 1)"
  "map_of (macros_MQSTS a) ''MQCCSI_APPL'' = Some (Num (- 3))"
  by (simp_all only: lookup_simps map_of_table [OF macros_MQSTS_def]
    map_of_table [OF MQSTS_values_def]
    map_of_table [OF MQCC_values_def]
    map_of_table [OF MQRC_values_1_def]
    map_of_table [OF MQOD_values_def]
    map_of_table [OF MQMD_values_2_def]
    cong: lookup_congs)

lemma MQSTS_lengths: "lengths_ok a (struct_MQSTS a)"
  by (cases a; simp only: lengths_shapes struct_MQSTS_def mq_struct.simps MQSTS_def
    MQSTS_lookup shapes_simps; simp add: place_simps MQCHARV_def)

lemma MQSTS_fits: "default_fits a (struct_MQSTS a)"
  by (cases a; simp only: default_fits_shapes struct_MQSTS_def mq_struct.simps
    MQSTS_def MQCHARV_def
    MQSTS_DEFAULT_def MQCHARV_DEFAULT_def MQSTS_lookup fits_simps;
    simp add: init_simps macro_value_simps MQSTS_lookup)

lemma MQSTS_opens: "default_opens a (struct_MQSTS a)"
  by (simp only: default_opens_def struct_MQSTS_def mq_struct.simps MQSTS_def
    MQSTS_DEFAULT_def MQSTS_lookup header_simps; simp add: int_fits_def)

lemma MQTM_lookup:
  "map_of (macros_MQTM a) ''MQTM_LENGTH_1'' = Some (Num 684)"
  "map_of (macros_MQTM a) ''MQTM_CURRENT_LENGTH'' = Some (Num 684)"
  "map_of (macros_MQTM a) ''MQTM_STRUC_ID'' = Some (Str ''TM  '')"
  "map_of (macros_MQTM a) ''MQTM_STRUC_ID_ARRAY'' = Some (Chars ''TM  '')"
  "map_of (macros_MQTM a) ''MQTM_VERSION_1'' = Some (Num 1)"
  by (simp_all only: lookup_simps map_of_table [OF macros_MQTM_def]
    map_of_table [OF MQTM_values_def]
    cong: lookup_congs)

lemma MQTM_lengths: "lengths_ok a (struct_MQTM a)"
  by (cases a; simp only: lengths_shapes struct_MQTM_def mq_struct.simps MQTM_def
    MQTM_lookup shapes_simps; simp add: place_simps)

lemma MQTM_fits: "default_fits a (struct_MQTM a)"
  by (cases a; simp only: default_fits_shapes struct_MQTM_def mq_struct.simps
    MQTM_def
    MQTM_DEFAULT_def MQTM_lookup fits_simps;
    simp add: init_simps macro_value_simps MQTM_lookup)

lemma MQTM_opens: "default_opens a (struct_MQTM a)"
  by (simp only: default_opens_def struct_MQTM_def mq_struct.simps MQTM_def
    MQTM_DEFAULT_def MQTM_lookup header_simps; simp add: int_fits_def)

lemma MQTMC2_lookup:
  "map_of (macros_MQTMC2 a) ''MQTMC2_LENGTH_1'' = Some (Num 684)"
  "map_of (macros_MQTMC2 a) ''MQTMC2_LENGTH_2'' = Some (Num 732)"
  "map_of (macros_MQTMC2 a) ''MQTMC2_CURRENT_LENGTH'' = Some (Num 732)"
  "map_of (macros_MQTMC2 a) ''MQTMC_STRUC_ID'' = Some (Str ''TMC '')"
  "map_of (macros_MQTMC2 a) ''MQTMC_STRUC_ID_ARRAY'' = Some (Chars ''TMC '')"
  "map_of (macros_MQTMC2 a) ''MQTMC_VERSION_2_ARRAY'' = Some (Chars ''   2'')"
  by (simp_all only: lookup_simps map_of_table [OF macros_MQTMC2_def]
    map_of_table [OF MQTMC2_values_def]
    cong: lookup_congs)

lemma MQTMC2_lengths: "lengths_ok a (struct_MQTMC2 a)"
  by (cases a; simp only: lengths_shapes struct_MQTMC2_def mq_struct.simps MQTMC2_def
    MQTMC2_lookup shapes_simps; simp add: place_simps)

lemma MQTMC2_fits: "default_fits a (struct_MQTMC2 a)"
  by (cases a; simp only: default_fits_shapes struct_MQTMC2_def mq_struct.simps
    MQTMC2_def
    MQTMC2_DEFAULT_def MQTMC2_lookup fits_simps;
    simp add: init_simps macro_value_simps MQTMC2_lookup)

lemma MQWIH_lookup:
  "map_of (macros_MQWIH a) ''MQWIH_LENGTH_1'' = Some (Num 120)"
  "map_of (macros_MQWIH a) ''MQWIH_CURRENT_LENGTH'' = Some (Num 120)"
  "map_of (macros_MQWIH a) ''MQWIH_STRUC_ID'' = Some (Str ''WIH '')"
  "map_of (macros_MQWIH a) ''MQWIH_STRUC_ID_ARRAY'' = Some (Chars ''WIH '')"
  "map_of (macros_MQWIH a) ''MQWIH_VERSION_1'' = Some (Num 1)"
  "map_of (macros_MQWIH a) ''MQCCSI_UNDEFINED'' = Some (Num 0)"
  "map_of (macros_MQWIH a) ''MQFMT_NONE_ARRAY'' = Some (Chars ''        '')"
  "map_of (macros_MQWIH a) ''MQWIH_NONE'' = Some (Num 0)"
  "map_of (macros_MQWIH a) ''MQMTOK_NONE_ARRAY'' = Some (Chars (replicate 16 NUL))"
  by (simp_all only: lookup_simps map_of_table [OF macros_MQWIH_def]
    map_of_table [OF MQWIH_values_def]
    map_of_table [OF MQMD_values_2_def]
    map_of_table [OF MQGMO_values_def]
    cong: lookup_congs)

lemma MQWIH_lengths: "lengths_ok a (struct_MQWIH a)"
  by (cases a; simp only: lengths_shapes struct_MQWIH_def mq_struct.simps MQWIH_def
    MQWIH_lookup shapes_simps; simp add: place_simps)

lemma MQWIH_fits: "default_fits a (struct_MQWIH a)"
  by (cases a; simp only: default_fits_shapes struct_MQWIH_def mq_struct.simps
    MQWIH_def
    MQWIH_DEFAULT_def MQWIH_lookup fits_simps;
    simp add: init_simps macro_value_simps MQWIH_lookup)

lemma MQWIH_opens: "default_opens a (struct_MQWIH a)"
  by (simp only: default_opens_def struct_MQWIH_def mq_struct.simps MQWIH_def
    MQWIH_DEFAULT_def MQWIH_lookup header_simps; simp add: int_fits_def)

lemma MQXQH_lookup:
  "map_of (macros_MQXQH a) ''MQXQH_LENGTH_1'' = Some (Num 428)"
  "map_of (macros_MQXQH a) ''MQXQH_CURRENT_LENGTH'' = Some (Num 428)"
  "map_of (macros_MQXQH a) ''MQXQH_STRUC_ID'' = Some (Str ''XQH '')"
  "map_of (macros_MQXQH a) ''MQXQH_STRUC_ID_ARRAY'' = Some (Chars ''XQH '')"
  "map_of (macros_MQXQH a) ''MQXQH_VERSION_1'' = Some (Num 1)"
  "map_of (macros_MQXQH a) ''MQMD_STRUC_ID_ARRAY'' = Some (Chars ''MD  '')"
  "map_of (macros_MQXQH a) ''MQMD_VERSION_1'' = Some (Num 1)"
  "map_of (macros_MQXQH a) ''MQRO_NONE'' = Some (Num 0)"
  "map_of (macros_MQXQH a) ''MQMT_DATAGRAM'' = Some (Num 8)"
  "map_of (macros_MQXQH a) ''MQEI_UNLIMITED'' = Some (Num (- 1))"
  "map_of (macros_MQXQH a) ''MQFB_NONE'' = Some (Num 0)"
  "map_of (macros_MQXQH a) ''MQENC_NATIVE'' = Some (Num 546)"
  "map_of (macros_MQXQH a) ''MQCCSI_Q_MGR'' = Some (Num 0)"
  "map_of (macros_MQXQH a) ''MQFMT_NONE_ARRAY'' = Some (Chars ''        '')"
  "map_of (macros_MQXQH a) ''MQPRI_PRIORITY_AS_Q_DEF'' = Some (Num (- 1))"
  "map_of (macros_MQXQH a) ''MQPER_PERSISTENCE_AS_Q_DEF'' = Some (Num 2)"
  "map_of (macros_MQXQH a) ''MQMI_NONE_ARRAY'' = Some (Chars (replicate 24 NUL))"
  "map_of (macros_MQXQH a) ''MQCI_NONE_ARRAY'' = Some (Chars (replicate 24 NUL))"
  "map_of (macros_MQXQH a) ''MQACT_NONE_ARRAY'' = Some (Chars (replicate 32 NUL))"
  "map_of (macros_MQXQH a) ''MQAT_NO_CONTEXT'' = Some (Num 0)"
  by (simp_all only: lookup_simps map_of_table [OF macros_MQXQH_def]
    map_of_table [OF MQXQH_values_def]
    map_of_table [OF MQMD_values_1_def]
    map_of_table [OF MQMD_values_2_def]
    map_of_table [OF MQMD_values_3_def]
    cong: lookup_congs)

lemma MQXQH_lengths: "lengths_ok a (struct_MQXQH a)"
  by (cases a; simp only: lengths_shapes struct_MQXQH_def mq_struct.simps MQXQH_def
    MQXQH_lookup shapes_simps; simp add: place_simps MQMD1_def)

lemma MQXQH_fits: "default_fits a (struct_MQXQH a)"
  by (cases a; simp only: default_fits_shapes struct_MQXQH_def mq_struct.simps
    MQXQH_def MQMD1_def
    MQXQH_DEFAULT_def MQMD1_DEFAULT_def MQXQH_lookup fits_simps;
    simp add: init_simps macro_value_simps MQXQH_lookup)

lemma MQXQH_opens: "default_opens a (struct_MQXQH a)"
  by (simp only: default_opens_def struct_MQXQH_def mq_struct.simps MQXQH_def
    MQXQH_DEFAULT_def MQXQH_lookup header_simps; simp add: int_fits_def)

lemmas struct_lengths =
  MQAIR_lengths MQBNO_lengths MQBMHO_lengths MQBO_lengths MQCBD_lengths MQCIH_lengths
  MQCMHO_lengths MQCTLO_lengths MQSCO_lengths MQCSP_lengths MQCNO_lengths MQDH_lengths
  MQDLH_lengths MQDMHO_lengths MQDMPO_lengths MQGMO_lengths MQIIH_lengths MQIMPO_lengths
  MQMD_lengths MQMDE_lengths MQMD1_lengths MQMD2_lengths MQMHBO_lengths MQOD_lengths
  MQPD_lengths MQPMO_lengths MQRFH_lengths MQRFH2_lengths MQRMH_lengths MQSD_lengths
  MQSMPO_lengths MQSRO_lengths MQSTS_lengths MQTM_lengths MQTMC2_lengths MQWIH_lengths
  MQXQH_lengths

lemmas struct_fits =
  MQAIR_fits MQBNO_fits MQBMHO_fits MQBO_fits MQCBD_fits MQCIH_fits MQCMHO_fits
  MQCTLO_fits MQSCO_fits MQCSP_fits MQCNO_fits MQDH_fits MQDLH_fits MQDMHO_fits
  MQDMPO_fits MQGMO_fits MQIIH_fits MQIMPO_fits MQMD_fits MQMDE_fits MQMD1_fits
  MQMD2_fits MQMHBO_fits MQOD_fits MQPD_fits MQPMO_fits MQRFH_fits MQRFH2_fits
  MQRMH_fits MQSD_fits MQSMPO_fits MQSRO_fits MQSTS_fits MQTM_fits MQTMC2_fits
  MQWIH_fits MQXQH_fits

lemmas struct_opens =
  MQAIR_opens MQBNO_opens MQBMHO_opens MQBO_opens MQCBD_opens MQCIH_opens MQCMHO_opens
  MQCTLO_opens MQSCO_opens MQCSP_opens MQCNO_opens MQDH_opens MQDLH_opens MQDMHO_opens
  MQDMPO_opens MQGMO_opens MQIIH_opens MQIMPO_opens MQMD_opens MQMDE_opens MQMD1_opens
  MQMD2_opens MQMHBO_opens MQOD_opens MQPD_opens MQPMO_opens MQRFH_opens MQRFH2_opens
  MQRMH_opens MQSD_opens MQSMPO_opens MQSRO_opens MQSTS_opens MQTM_opens MQWIH_opens
  MQXQH_opens

lemmas struct_record_defs =
  struct_MQAIR_def struct_MQBNO_def struct_MQBMHO_def struct_MQBO_def struct_MQCBD_def
  struct_MQCIH_def struct_MQCMHO_def struct_MQCTLO_def struct_MQSCO_def struct_MQCSP_def
  struct_MQCNO_def struct_MQDH_def struct_MQDLH_def struct_MQDMHO_def struct_MQDMPO_def
  struct_MQGMO_def struct_MQIIH_def struct_MQIMPO_def struct_MQMD_def struct_MQMDE_def
  struct_MQMD1_def struct_MQMD2_def struct_MQMHBO_def struct_MQOD_def struct_MQPD_def
  struct_MQPMO_def struct_MQRFH_def struct_MQRFH2_def struct_MQRMH_def struct_MQSD_def
  struct_MQSMPO_def struct_MQSRO_def struct_MQSTS_def struct_MQTM_def struct_MQTMC2_def
  struct_MQWIH_def struct_MQXQH_def

end
