(* ===== verification/Mqi_Exit_Structs.thy ===== *)
theory Mqi_Exit_Structs
  imports Mqi_Structs
begin

text \<open>
  The structures of \<open>cmqcfc.h\<close> (programmable command formats), \<open>cmqxc.h\<close> (channel definitions
  and exits), \<open>cmqzc.h\<close> (installable services) and \<open>cmqec.h\<close> (interface entry points), with their
  default initializers, in the style of the structures of \<open>cmqc.h\<close>.
\<close>

definition MQBYTE :: ctype where
  "MQBYTE = C_uchar"

definition PMQACH :: ctype where
  "PMQACH = C_ptr"

definition MQPID :: "abi \<Rightarrow> ctype" where
  "MQPID a = MQLONG a"

definition MQTID :: "abi \<Rightarrow> ctype" where
  "MQTID a = MQLONG a"

definition PMQCD :: ctype where
  "PMQCD = C_ptr"

definition MQBYTE48 :: ctype where
  "MQBYTE48 = C_array 48 C_uchar"

definition MQHCONFIG :: ctype where
  "MQHCONFIG = C_ptr"

definition MQHCONN :: "abi \<Rightarrow> ctype" where
  "MQHCONN a = MQLONG a"

definition MQBOOL :: "abi \<Rightarrow> ctype" where
  "MQBOOL a = MQLONG a"

definition PMQIEP :: ctype where
  "PMQIEP = C_ptr"

definition PPMQCD :: ctype where
  "PPMQCD = C_ptr"

definition PMQMD :: ctype where
  "PMQMD = C_ptr"

definition PMQVOID :: ctype where
  "PMQVOID = C_ptr"

definition PPMQWDR :: ctype where
  "PPMQWDR = C_ptr"

definition PPMQWQR :: ctype where
  "PPMQWQR = C_ptr"

definition PMQZED :: ctype where
  "PMQZED = C_ptr"

definition PMQ_BACK_CALL :: ctype where
  "PMQ_BACK_CALL = C_ptr"

definition PMQ_BEGIN_CALL :: ctype where
  "PMQ_BEGIN_CALL = C_ptr"

definition PMQ_BUFMH_CALL :: ctype where
  "PMQ_BUFMH_CALL = C_ptr"

definition PMQ_CB_CALL :: ctype where
  "PMQ_CB_CALL = C_ptr"

definition PMQ_CLOSE_CALL :: ctype where
  "PMQ_CLOSE_CALL = C_ptr"

definition PMQ_CMIT_CALL :: ctype where
  "PMQ_CMIT_CALL = C_ptr"

definition PMQ_CONN_CALL :: ctype where
  "PMQ_CONN_CALL = C_ptr"

definition PMQ_CONNX_CALL :: ctype where
  "PMQ_CONNX_CALL = C_ptr"

definition PMQ_CRTMH_CALL :: ctype where
  "PMQ_CRTMH_CALL = C_ptr"

definition PMQ_CTL_CALL :: ctype where
  "PMQ_CTL_CALL = C_ptr"

definition PMQ_DISC_CALL :: ctype where
  "PMQ_DISC_CALL = C_ptr"

definition PMQ_DLTMH_CALL :: ctype where
  "PMQ_DLTMH_CALL = C_ptr"

definition PMQ_DLTMP_CALL :: ctype where
  "PMQ_DLTMP_CALL = C_ptr"

definition PMQ_GET_CALL :: ctype where
  "PMQ_GET_CALL = C_ptr"

definition PMQ_INQ_CALL :: ctype where
  "PMQ_INQ_CALL = C_ptr"

definition PMQ_INQMP_CALL :: ctype where
  "PMQ_INQMP_CALL = C_ptr"

definition PMQ_MHBUF_CALL :: ctype where
  "PMQ_MHBUF_CALL = C_ptr"

definition PMQ_OPEN_CALL :: ctype where
  "PMQ_OPEN_CALL = C_ptr"

definition PMQ_PUT_CALL :: ctype where
  "PMQ_PUT_CALL = C_ptr"

definition PMQ_PUT1_CALL :: ctype where
  "PMQ_PUT1_CALL = C_ptr"

definition PMQ_SET_CALL :: ctype where
  "PMQ_SET_CALL = C_ptr"

definition PMQ_SETMP_CALL :: ctype where
  "PMQ_SETMP_CALL = C_ptr"

definition PMQ_STAT_CALL :: ctype where
  "PMQ_STAT_CALL = C_ptr"

definition PMQ_SUB_CALL :: ctype where
  "PMQ_SUB_CALL = C_ptr"

definition PMQ_SUBRQ_CALL :: ctype where
  "PMQ_SUBRQ_CALL = C_ptr"

definition PMQ_XCLWLN_CALL :: ctype where
  "PMQ_XCLWLN_CALL = C_ptr"

definition PMQ_XCNVC_CALL :: ctype where
  "PMQ_XCNVC_CALL = C_ptr"

definition PMQ_XDX_CALL :: ctype where
  "PMQ_XDX_CALL = C_ptr"

definition PMQ_XEP_CALL :: ctype where
  "PMQ_XEP_CALL = C_ptr"

definition PMQ_ZEP_CALL :: ctype where
  "PMQ_ZEP_CALL = C_ptr"

definition MQCFH :: "abi \<Rightarrow> (nat \<times> fields) list" where
  "MQCFH a =
     [(1, [(''Type'', MQLONG a), (''StrucLength'', MQLONG a), (''Version'', MQLONG a),
          (''Command'', MQLONG a), (''MsgSeqNumber'', MQLONG a), (''Control'', MQLONG a),
          (''CompCode'', MQLONG a), (''Reason'', MQLONG a), (''ParameterCount'', MQLONG a)])]"

definition MQCFH_DEFAULT :: "cinit list" where
  "MQCFH_DEFAULT =
     [Expr (Mac ''MQCFT_COMMAND''), Expr (Mac ''MQCFH_STRUC_LENGTH''),
      Expr (Mac ''MQCFH_VERSION_1''), Expr (Mac ''MQCMD_NONE''), Expr (Num 1),
      Expr (Mac ''MQCFC_LAST''), Expr (Mac ''MQCC_OK''), Expr (Mac ''MQRC_NONE''), Expr (Num 0)]"

definition MQCFBF :: "abi \<Rightarrow> (nat \<times> fields) list" where
  "MQCFBF a =
     [(1, [(''Type'', MQLONG a), (''StrucLength'', MQLONG a), (''Parameter'', MQLONG a),
          (''Operator'', MQLONG a), (''FilterValueLength'', MQLONG a),
          (''FilterValue'', C_array 1 MQBYTE)])]"

definition MQCFBF_DEFAULT :: "cinit list" where
  "MQCFBF_DEFAULT =
     [Expr (Mac ''MQCFT_BYTE_STRING_FILTER''), Expr (Mac ''MQCFBF_STRUC_LENGTH_FIXED''),
      Expr (Num 0), Expr (Num 0), Expr (Num 0), Braces [Expr (Str '''')]]"

definition MQCFBS :: "abi \<Rightarrow> (nat \<times> fields) list" where
  "MQCFBS a =
     [(1, [(''Type'', MQLONG a), (''StrucLength'', MQLONG a), (''Parameter'', MQLONG a),
          (''StringLength'', MQLONG a), (''String'', C_array 1 MQBYTE)])]"

definition MQCFBS_DEFAULT :: "cinit list" where
  "MQCFBS_DEFAULT =
     [Expr (Mac ''MQCFT_BYTE_STRING''), Expr (Mac ''MQCFBS_STRUC_LENGTH_FIXED''), Expr (Num 0),
      Expr (Num 0), Braces [Expr (Str '''')]]"

definition MQCFGR :: "abi \<Rightarrow> (nat \<times> fields) list" where
  "MQCFGR a =
     [(1, [(''Type'', MQLONG a), (''StrucLength'', MQLONG a), (''Parameter'', MQLONG a),
          (''ParameterCount'', MQLONG a)])]"

definition MQCFGR_DEFAULT :: "cinit list" where
  "MQCFGR_DEFAULT =
     [Expr (Mac ''MQCFT_GROUP''), Expr (Mac ''MQCFGR_STRUC_LENGTH''), Expr (Num 0), Expr (Num 0)]"

definition MQCFIF :: "abi \<Rightarrow> (nat \<times> fields) list" where
  "MQCFIF a =
     [(1, [(''Type'', MQLONG a), (''StrucLength'', MQLONG a), (''Parameter'', MQLONG a),
          (''Operator'', MQLONG a), (''FilterValue'', MQLONG a)])]"

definition MQCFIF_DEFAULT :: "cinit list" where
  "MQCFIF_DEFAULT =
     [Expr (Mac ''MQCFT_INTEGER_FILTER''), Expr (Mac ''MQCFIF_STRUC_LENGTH''), Expr (Num 0),
      Expr (Num 0), Expr (Num 0)]"

definition MQCFIL :: "abi \<Rightarrow> (nat \<times> fields) list" where
  "MQCFIL a =
     [(1, [(''Type'', MQLONG a), (''StrucLength'', MQLONG a), (''Parameter'', MQLONG a),
          (''Count'', MQLONG a), (''Values'', C_array 1 (MQLONG a))])]"

definition MQCFIL_DEFAULT :: "cinit list" where
  "MQCFIL_DEFAULT =
     [Expr (Mac ''MQCFT_INTEGER_LIST''), Expr (Mac ''MQCFIL_STRUC_LENGTH_FIXED''), Expr (Num 0),
      Expr (Num 0), Braces [Expr (Num 0)]]"

definition MQCFIL64 :: "abi \<Rightarrow> (nat \<times> fields) list" where
  "MQCFIL64 a =
     [(1, [(''Type'', MQLONG a), (''StrucLength'', MQLONG a), (''Parameter'', MQLONG a),
          (''Count'', MQLONG a), (''Values'', C_array 1 (MQINT64 a))])]"

definition MQCFIL64_DEFAULT :: "cinit list" where
  "MQCFIL64_DEFAULT =
     [Expr (Mac ''MQCFT_INTEGER64_LIST''), Expr (Mac ''MQCFIL64_STRUC_LENGTH_FIXED''),
      Expr (Num 0), Expr (Num 0), Braces [Expr (Num 0)]]"

definition MQCFIN :: "abi \<Rightarrow> (nat \<times> fields) list" where
  "MQCFIN a =
     [(1, [(''Type'', MQLONG a), (''StrucLength'', MQLONG a), (''Parameter'', MQLONG a),
          (''Value'', MQLONG a)])]"

definition MQCFIN_DEFAULT :: "cinit list" where
  "MQCFIN_DEFAULT =
     [Expr (Mac ''MQCFT_INTEGER''), Expr (Mac ''MQCFIN_STRUC_LENGTH''), Expr (Num 0),
      Expr (Num 0)]"

definition MQCFIN64 :: "abi \<Rightarrow> (nat \<times> fields) list" where
  "MQCFIN64 a =
     [(1, [(''Type'', MQLONG a), (''StrucLength'', MQLONG a), (''Parameter'', MQLONG a),
          (''Reserved'', MQLONG a), (''Value'', MQINT64 a)])]"

definition MQCFIN64_DEFAULT :: "cinit list" where
  "MQCFIN64_DEFAULT =
     [Expr (Mac ''MQCFT_INTEGER64''), Expr (Mac ''MQCFIN64_STRUC_LENGTH''), Expr (Num 0),
      Expr (Num 0), Expr (Num 0)]"

definition MQCFSF :: "abi \<Rightarrow> (nat \<times> fields) list" where
  "MQCFSF a =
     [(1, [(''Type'', MQLONG a), (''StrucLength'', MQLONG a), (''Parameter'', MQLONG a),
          (''Operator'', MQLONG a), (''CodedCharSetId'', MQLONG a),
          (''FilterValueLength'', MQLONG a), (''FilterValue'', C_array 1 MQCHAR)])]"

definition MQCFSF_DEFAULT :: "cinit list" where
  "MQCFSF_DEFAULT =
     [Expr (Mac ''MQCFT_STRING_FILTER''), Expr (Mac ''MQCFSF_STRUC_LENGTH_FIXED''),
      Expr (Num 0), Expr (Num 0), Expr (Mac ''MQCCSI_DEFAULT''), Expr (Num 0),
      Braces [Expr (Str '''')]]"

definition MQCFSL :: "abi \<Rightarrow> (nat \<times> fields) list" where
  "MQCFSL a =
     [(1, [(''Type'', MQLONG a), (''StrucLength'', MQLONG a), (''Parameter'', MQLONG a),
          (''CodedCharSetId'', MQLONG a), (''Count'', MQLONG a), (''StringLength'', MQLONG a),
          (''Strings'', C_array 1 MQCHAR)])]"

definition MQCFSL_DEFAULT :: "cinit list" where
  "MQCFSL_DEFAULT =
     [Expr (Mac ''MQCFT_STRING_LIST''), Expr (Mac ''MQCFSL_STRUC_LENGTH_FIXED''), Expr (Num 0),
      Expr (Mac ''MQCCSI_DEFAULT''), Expr (Num 0), Expr (Num 0), Braces [Expr (Str '''')]]"

definition MQCFST :: "abi \<Rightarrow> (nat \<times> fields) list" where
  "MQCFST a =
     [(1, [(''Type'', MQLONG a), (''StrucLength'', MQLONG a), (''Parameter'', MQLONG a),
          (''CodedCharSetId'', MQLONG a), (''StringLength'', MQLONG a),
          (''String'', C_array 1 MQCHAR)])]"

definition MQCFST_DEFAULT :: "cinit list" where
  "MQCFST_DEFAULT =
     [Expr (Mac ''MQCFT_STRING''), Expr (Mac ''MQCFST_STRUC_LENGTH_FIXED''), Expr (Num 0),
      Expr (Mac ''MQCCSI_DEFAULT''), Expr (Num 0), Braces [Expr (Str '''')]]"

definition MQEPH :: "abi \<Rightarrow> (nat \<times> fields) list" where
  "MQEPH a =
     [(1, [(''StrucId'', MQCHAR4), (''Version'', MQLONG a), (''StrucLength'', MQLONG a),
          (''Encoding'', MQLONG a), (''CodedCharSetId'', MQLONG a), (''Format'', MQCHAR8),
          (''Flags'', MQLONG a), (''PCFHeader'', C_struct (members (MQCFH a)))])]"

definition MQEPH_DEFAULT :: "cinit list" where
  "MQEPH_DEFAULT =
     [Braces [Expr (Mac ''MQEPH_STRUC_ID_ARRAY'')], Expr (Mac ''MQEPH_VERSION_1''),
      Expr (Mac ''MQEPH_STRUC_LENGTH_FIXED''), Expr (Num 0), Expr (Mac ''MQCCSI_UNDEFINED''),
      Braces [Expr (Mac ''MQFMT_NONE_ARRAY'')], Expr (Mac ''MQEPH_NONE''),
      Braces [Expr (Mac ''MQCFT_COMMAND''), Expr (Mac ''MQCFH_STRUC_LENGTH''), Expr (Mac ''MQCFH_VERSION_3''), Expr (Mac ''MQCMD_NONE''), Expr (Num 1), Expr (Mac ''MQCFC_LAST''), Expr (Mac ''MQCC_OK''), Expr (Mac ''MQRC_NONE''), Expr (Num 0)]]"

definition MQCD :: "abi \<Rightarrow> (nat \<times> fields) list" where
  "MQCD a =
     [(1, [(''ChannelName'', C_array 20 MQCHAR), (''Version'', MQLONG a),
          (''ChannelType'', MQLONG a), (''TransportType'', MQLONG a),
          (''Desc'', C_array 64 MQCHAR), (''QMgrName'', C_array 48 MQCHAR),
          (''XmitQName'', C_array 48 MQCHAR), (''ShortConnectionName'', C_array 20 MQCHAR),
          (''MCAName'', C_array 20 MQCHAR), (''ModeName'', C_array 8 MQCHAR),
          (''TpName'', C_array 64 MQCHAR), (''BatchSize'', MQLONG a),
          (''DiscInterval'', MQLONG a), (''ShortRetryCount'', MQLONG a),
          (''ShortRetryInterval'', MQLONG a), (''LongRetryCount'', MQLONG a),
          (''LongRetryInterval'', MQLONG a), (''SecurityExit'', C_array 128 MQCHAR),
          (''MsgExit'', C_array 128 MQCHAR), (''SendExit'', C_array 128 MQCHAR),
          (''ReceiveExit'', C_array 128 MQCHAR), (''SeqNumberWrap'', MQLONG a),
          (''MaxMsgLength'', MQLONG a), (''PutAuthority'', MQLONG a),
          (''DataConversion'', MQLONG a), (''SecurityUserData'', C_array 32 MQCHAR),
          (''MsgUserData'', C_array 32 MQCHAR), (''SendUserData'', C_array 32 MQCHAR),
          (''ReceiveUserData'', C_array 32 MQCHAR)]),
      (2, [(''UserIdentifier'', C_array 12 MQCHAR), (''Password'', C_array 12 MQCHAR),
          (''MCAUserIdentifier'', C_array 12 MQCHAR), (''MCAType'', MQLONG a),
          (''ConnectionName'', C_array 264 MQCHAR),
          (''RemoteUserIdentifier'', C_array 12 MQCHAR), (''RemotePassword'', C_array 12 MQCHAR)]),
      (3, [(''MsgRetryExit'', C_array 128 MQCHAR), (''MsgRetryUserData'', C_array 32 MQCHAR),
          (''MsgRetryCount'', MQLONG a), (''MsgRetryInterval'', MQLONG a)]),
      (4, [(''HeartbeatInterval'', MQLONG a), (''BatchInterval'', MQLONG a),
          (''NonPersistentMsgSpeed'', MQLONG a), (''StrucLength'', MQLONG a),
          (''ExitNameLength'', MQLONG a), (''ExitDataLength'', MQLONG a),
          (''MsgExitsDefined'', MQLONG a), (''SendExitsDefined'', MQLONG a),
          (''ReceiveExitsDefined'', MQLONG a), (''MsgExitPtr'', MQPTR),
          (''MsgUserDataPtr'', MQPTR), (''SendExitPtr'', MQPTR), (''SendUserDataPtr'', MQPTR),
          (''ReceiveExitPtr'', MQPTR), (''ReceiveUserDataPtr'', MQPTR)]),
      (5, [(''ClusterPtr'', MQPTR), (''ClustersDefined'', MQLONG a),
          (''NetworkPriority'', MQLONG a)]),
      (6, [(''LongMCAUserIdLength'', MQLONG a), (''LongRemoteUserIdLength'', MQLONG a),
          (''LongMCAUserIdPtr'', MQPTR), (''LongRemoteUserIdPtr'', MQPTR),
          (''MCASecurityId'', MQBYTE40), (''RemoteSecurityId'', MQBYTE40)]),
      (7, [(''SSLCipherSpec'', C_array 32 MQCHAR), (''SSLPeerNamePtr'', MQPTR),
          (''SSLPeerNameLength'', MQLONG a), (''SSLClientAuth'', MQLONG a),
          (''KeepAliveInterval'', MQLONG a), (''LocalAddress'', C_array 48 MQCHAR),
          (''BatchHeartbeat'', MQLONG a)]),
      (8, [(''HdrCompList'', C_array 2 (MQLONG a)), (''MsgCompList'', C_array 16 (MQLONG a)),
          (''CLWLChannelRank'', MQLONG a), (''CLWLChannelPriority'', MQLONG a),
          (''CLWLChannelWeight'', MQLONG a), (''ChannelMonitoring'', MQLONG a),
          (''ChannelStatistics'', MQLONG a)]),
      (9, [(''SharingConversations'', MQLONG a), (''PropertyControl'', MQLONG a),
          (''MaxInstances'', MQLONG a), (''MaxInstancesPerClient'', MQLONG a),
          (''ClientChannelWeight'', MQLONG a), (''ConnectionAffinity'', MQLONG a)]),
      (10, [(''BatchDataLimit'', MQLONG a), (''UseDLQ'', MQLONG a), (''DefReconnect'', MQLONG a)]),
      (11, [(''CertificateLabel'', C_array 64 MQCHAR)]),
      (12, [(''SPLProtection'', MQLONG a)])]"

definition MQCD_DEFAULT :: "cinit list" where
  "MQCD_DEFAULT =
     [Braces [Expr (Str '''')], Expr (Mac ''MQCD_VERSION_6''), Expr (Mac ''MQCHT_SENDER''),
      Expr (Mac ''MQXPT_LU62''), Braces [Expr (Str '''')], Braces [Expr (Str '''')],
      Braces [Expr (Str '''')], Braces [Expr (Str '''')], Braces [Expr (Str '''')],
      Braces [Expr (Str '''')], Braces [Expr (Str '''')], Expr (Num 50), Expr (Num 6000),
      Expr (Num 10), Expr (Num 60), Expr (Num 999999999), Expr (Num 1200),
      Braces [Expr (Str '''')], Braces [Expr (Str '''')], Braces [Expr (Str '''')],
      Braces [Expr (Str '''')], Expr (Num 999999999), Expr (Num 4194304),
      Expr (Mac ''MQPA_DEFAULT''), Expr (Mac ''MQCDC_NO_SENDER_CONVERSION''),
      Braces [Expr (Str '''')], Braces [Expr (Str '''')], Braces [Expr (Str '''')],
      Braces [Expr (Str '''')], Braces [Expr (Str '''')], Braces [Expr (Str '''')],
      Braces [Expr (Str '''')], Expr (Mac ''MQMCAT_PROCESS''), Braces [Expr (Str '''')],
      Braces [Expr (Str '''')], Braces [Expr (Str '''')], Braces [Expr (Str '''')],
      Braces [Expr (Str '''')], Expr (Num 10), Expr (Num 1000), Expr (Num 300), Expr (Num 0),
      Expr (Mac ''MQNPMS_FAST''), Expr (Mac ''MQCD_CURRENT_LENGTH''),
      Expr (Mac ''MQ_EXIT_NAME_LENGTH''), Expr (Mac ''MQ_EXIT_DATA_LENGTH''), Expr (Num 0),
      Expr (Num 0), Expr (Num 0), Expr (Null), Expr (Null), Expr (Null), Expr (Null),
      Expr (Null), Expr (Null), Expr (Null), Expr (Num 0), Expr (Num 0), Expr (Num 0),
      Expr (Num 0), Expr (Null), Expr (Null), Braces [Expr (Mac ''MQSID_NONE_ARRAY'')],
      Braces [Expr (Mac ''MQSID_NONE_ARRAY'')], Braces [Expr (Str '''')], Expr (Null),
      Expr (Num 0), Expr (Mac ''MQSCA_REQUIRED''), Expr (Mac ''MQKAI_AUTO''),
      Braces [Expr (Str '''')], Expr (Num 0),
      Braces [Expr (Mac ''MQCOMPRESS_NONE''), Expr (Mac ''MQCOMPRESS_NOT_AVAILABLE'')],
      Braces [Expr (Mac ''MQCOMPRESS_NONE''), Expr (Mac ''MQCOMPRESS_NOT_AVAILABLE''), Expr (Mac ''MQCOMPRESS_NOT_AVAILABLE''), Expr (Mac ''MQCOMPRESS_NOT_AVAILABLE''), Expr (Mac ''MQCOMPRESS_NOT_AVAILABLE''), Expr (Mac ''MQCOMPRESS_NOT_AVAILABLE''), Expr (Mac ''MQCOMPRESS_NOT_AVAILABLE''), Expr (Mac ''MQCOMPRESS_NOT_AVAILABLE''), Expr (Mac ''MQCOMPRESS_NOT_AVAILABLE''), Expr (Mac ''MQCOMPRESS_NOT_AVAILABLE''), Expr (Mac ''MQCOMPRESS_NOT_AVAILABLE''), Expr (Mac ''MQCOMPRESS_NOT_AVAILABLE''), Expr (Mac ''MQCOMPRESS_NOT_AVAILABLE''), Expr (Mac ''MQCOMPRESS_NOT_AVAILABLE''), Expr (Mac ''MQCOMPRESS_NOT_AVAILABLE''), Expr (Mac ''MQCOMPRESS_NOT_AVAILABLE'')],
      Expr (Num 0), Expr (Num 0), Expr (Num 50), Expr (Mac ''MQMON_OFF''),
      Expr (Mac ''MQMON_OFF''), Expr (Num 10), Expr (Mac ''MQPROP_COMPATIBILITY''),
      Expr (Num 999999999), Expr (Num 999999999), Expr (Num 0),
      Expr (Mac ''MQCAFTY_PREFERRED''), Expr (Num 5000), Expr (Mac ''MQUSEDLQ_YES''),
      Expr (Mac ''MQRCN_NO''), Braces [Expr (Str '''')], Expr (Mac ''MQSPL_PASSTHRU'')]"

definition MQCD_CLIENT_CONN_DEFAULT :: "cinit list" where
  "MQCD_CLIENT_CONN_DEFAULT =
     [Braces [Expr (Str '''')], Expr (Mac ''MQCD_VERSION_6''), Expr (Mac ''MQCHT_CLNTCONN''),
      Expr (Mac ''MQXPT_TCP''), Braces [Expr (Str '''')], Braces [Expr (Str '''')],
      Braces [Expr (Str '''')], Braces [Expr (Str '''')], Braces [Expr (Str '''')],
      Braces [Expr (Str '''')], Braces [Expr (Str '''')], Expr (Num 50), Expr (Num 6000),
      Expr (Num 10), Expr (Num 60), Expr (Num 999999999), Expr (Num 1200),
      Braces [Expr (Str '''')], Braces [Expr (Str '''')], Braces [Expr (Str '''')],
      Braces [Expr (Str '''')], Expr (Num 999999999), Expr (Num 4194304),
      Expr (Mac ''MQPA_DEFAULT''), Expr (Mac ''MQCDC_NO_SENDER_CONVERSION''),
      Braces [Expr (Str '''')], Braces [Expr (Str '''')], Braces [Expr (Str '''')],
      Braces [Expr (Str '''')], Braces [Expr (Str '''')], Braces [Expr (Str '''')],
      Braces [Expr (Str '''')], Expr (Mac ''MQMCAT_PROCESS''), Braces [Expr (Str '''')],
      Braces [Expr (Str '''')], Braces [Expr (Str '''')], Braces [Expr (Str '''')],
      Braces [Expr (Str '''')], Expr (Num 10), Expr (Num 1000), Expr (Num 1), Expr (Num 0),
      Expr (Mac ''MQNPMS_FAST''), Expr (Mac ''MQCD_CURRENT_LENGTH''),
      Expr (Mac ''MQ_EXIT_NAME_LENGTH''), Expr (Mac ''MQ_EXIT_DATA_LENGTH''), Expr (Num 0),
      Expr (Num 0), Expr (Num 0), Expr (Null), Expr (Null), Expr (Null), Expr (Null),
      Expr (Null), Expr (Null), Expr (Null), Expr (Num 0), Expr (Num 0), Expr (Num 0),
      Expr (Num 0), Expr (Null), Expr (Null), Braces [Expr (Mac ''MQSID_NONE_ARRAY'')],
      Braces [Expr (Mac ''MQSID_NONE_ARRAY'')], Braces [Expr (Str '''')], Expr (Null),
      Expr (Num 0), Expr (Mac ''MQSCA_REQUIRED''), Expr (Num (- 1)), Braces [Expr (Str '''')],
      Expr (Num 0),
      Braces [Expr (Mac ''MQCOMPRESS_NOT_AVAILABLE''), Expr (Mac ''MQCOMPRESS_NOT_AVAILABLE'')],
      Braces [Expr (Mac ''MQCOMPRESS_NOT_AVAILABLE''), Expr (Mac ''MQCOMPRESS_NOT_AVAILABLE''), Expr (Mac ''MQCOMPRESS_NOT_AVAILABLE''), Expr (Mac ''MQCOMPRESS_NOT_AVAILABLE''), Expr (Mac ''MQCOMPRESS_NOT_AVAILABLE''), Expr (Mac ''MQCOMPRESS_NOT_AVAILABLE''), Expr (Mac ''MQCOMPRESS_NOT_AVAILABLE''), Expr (Mac ''MQCOMPRESS_NOT_AVAILABLE''), Expr (Mac ''MQCOMPRESS_NOT_AVAILABLE''), Expr (Mac ''MQCOMPRESS_NOT_AVAILABLE''), Expr (Mac ''MQCOMPRESS_NOT_AVAILABLE''), Expr (Mac ''MQCOMPRESS_NOT_AVAILABLE''), Expr (Mac ''MQCOMPRESS_NOT_AVAILABLE''), Expr (Mac ''MQCOMPRESS_NOT_AVAILABLE''), Expr (Mac ''MQCOMPRESS_NOT_AVAILABLE''), Expr (Mac ''MQCOMPRESS_NOT_AVAILABLE'')],
      Expr (Num 0), Expr (Num 0), Expr (Num 50), Expr (Mac ''MQMON_OFF''),
      Expr (Mac ''MQMON_OFF''), Expr (Num 10), Expr (Mac ''MQPROP_COMPATIBILITY''),
      Expr (Num 999999999), Expr (Num 999999999), Expr (Num 0),
      Expr (Mac ''MQCAFTY_PREFERRED''), Expr (Num 5000), Expr (Mac ''MQUSEDLQ_YES''),
      Expr (Mac ''MQRCN_NO''), Braces [Expr (Str '''')], Expr (Mac ''MQSPL_PASSTHRU'')]"

definition MQACH :: "abi \<Rightarrow> (nat \<times> fields) list" where
  "MQACH a =
     [(1, [(''StrucId'', MQCHAR4), (''Version'', MQLONG a), (''StrucLength'', MQLONG a),
          (''ChainAreaLength'', MQLONG a), (''ExitInfoName'', MQCHAR48),
          (''NextChainAreaPtr'', PMQACH)])]"

definition MQACH_DEFAULT :: "cinit list" where
  "MQACH_DEFAULT =
     [Braces [Expr (Mac ''MQACH_STRUC_ID_ARRAY'')], Expr (Mac ''MQACH_VERSION_1''),
      Expr (Mac ''MQACH_CURRENT_LENGTH''), Expr (Num 0), Braces [Expr (Str '''')], Expr (Null)]"

definition MQAXC :: "abi \<Rightarrow> (nat \<times> fields) list" where
  "MQAXC a =
     [(1, [(''StrucId'', MQCHAR4), (''Version'', MQLONG a), (''Environment'', MQLONG a),
          (''UserId'', MQCHAR12), (''SecurityId'', MQBYTE40),
          (''ConnectionName'', C_array 264 MQCHAR), (''LongMCAUserIdLength'', MQLONG a),
          (''LongRemoteUserIdLength'', MQLONG a), (''LongMCAUserIdPtr'', MQPTR),
          (''LongRemoteUserIdPtr'', MQPTR), (''ApplName'', MQCHAR28), (''ApplType'', MQLONG a),
          (''ProcessId'', MQPID a), (''ThreadId'', MQTID a)]),
      (2, [(''ChannelName'', C_array 20 MQCHAR), (''Reserved1'', MQBYTE4),
          (''pChannelDefinition'', PMQCD)])]"

definition MQAXC_DEFAULT :: "cinit list" where
  "MQAXC_DEFAULT =
     [Braces [Expr (Mac ''MQAXC_STRUC_ID_ARRAY'')], Expr (Mac ''MQAXC_VERSION_1''),
      Expr (Mac ''MQXE_OTHER''), Braces [Expr (Str '''')],
      Braces [Expr (Mac ''MQSID_NONE_ARRAY'')], Braces [Expr (Str '''')], Expr (Num 0),
      Expr (Num 0), Expr (Null), Expr (Null), Braces [Expr (Str '''')],
      Expr (Mac ''MQAT_DEFAULT''), Expr (Num 0), Expr (Num 0), Braces [Expr (Str '''')],
      Braces [Expr (Chars (replicate 4 NUL))], Expr (Null)]"

definition MQAXP :: "abi \<Rightarrow> (nat \<times> fields) list" where
  "MQAXP a =
     [(1, [(''StrucId'', MQCHAR4), (''Version'', MQLONG a), (''ExitId'', MQLONG a),
          (''ExitReason'', MQLONG a), (''ExitResponse'', MQLONG a),
          (''ExitResponse2'', MQLONG a), (''Feedback'', MQLONG a),
          (''APICallerType'', MQLONG a), (''ExitUserArea'', MQBYTE16), (''ExitData'', MQCHAR32),
          (''ExitInfoName'', MQCHAR48), (''ExitPDArea'', MQBYTE48), (''QMgrName'', MQCHAR48),
          (''ExitChainAreaPtr'', PMQACH), (''Hconfig'', MQHCONFIG), (''Function'', MQLONG a),
          (''ExitMsgHandle'', MQHMSG a)])]"

definition MQAXP_DEFAULT :: "cinit list" where
  "MQAXP_DEFAULT =
     [Braces [Expr (Mac ''MQAXP_STRUC_ID_ARRAY'')], Expr (Mac ''MQAXP_VERSION_1''),
      Expr (Mac ''MQXT_API_EXIT''), Expr (Num 0), Expr (Mac ''MQXCC_OK''),
      Expr (Mac ''MQXR2_DEFAULT_CONTINUATION''), Expr (Mac ''MQFB_NONE''),
      Expr (Mac ''MQXACT_EXTERNAL''), Braces [Expr (Mac ''MQXUA_NONE_ARRAY'')],
      Braces [Expr (Str '''')], Braces [Expr (Str '''')],
      Braces [Expr (Mac ''MQXPDA_NONE_ARRAY'')], Braces [Expr (Str '''')], Expr (Null),
      Expr (Null), Expr (Num 0), Expr (Mac ''MQHM_NONE'')]"

definition MQCXP :: "abi \<Rightarrow> (nat \<times> fields) list" where
  "MQCXP a =
     [(3, [(''StrucId'', MQCHAR4), (''Version'', MQLONG a), (''ExitId'', MQLONG a),
          (''ExitReason'', MQLONG a), (''ExitResponse'', MQLONG a),
          (''ExitResponse2'', MQLONG a), (''Feedback'', MQLONG a),
          (''MaxSegmentLength'', MQLONG a), (''ExitUserArea'', MQBYTE16),
          (''ExitData'', MQCHAR32), (''MsgRetryCount'', MQLONG a),
          (''MsgRetryInterval'', MQLONG a), (''MsgRetryReason'', MQLONG a),
          (''HeaderLength'', MQLONG a), (''PartnerName'', MQCHAR48), (''FAPLevel'', MQLONG a),
          (''CapabilityFlags'', MQLONG a), (''ExitNumber'', MQLONG a)]),
      (4, []),
      (5, [(''ExitSpace'', MQLONG a)]),
      (6, [(''SSLCertUserid'', MQCHAR12), (''SSLRemCertIssNameLength'', MQLONG a),
          (''SSLRemCertIssNamePtr'', MQPTR), (''SecurityParms'', PMQCSP),
          (''CurHdrCompression'', MQLONG a), (''CurMsgCompression'', MQLONG a)]),
      (7, [(''Hconn'', MQHCONN a), (''SharingConversations'', MQBOOL a)]),
      (8, [(''MCAUserSource'', MQLONG a), (''pEntryPoints'', PMQIEP)]),
      (9, [(''RemoteProduct'', MQCHAR4), (''RemoteVersion'', MQCHAR8)])]"

definition MQCXP_DEFAULT :: "cinit list" where
  "MQCXP_DEFAULT =
     [Braces [Expr (Mac ''MQCXP_STRUC_ID_ARRAY'')], Expr (Mac ''MQCXP_VERSION_5''),
      Expr (Num 0), Expr (Num 0), Expr (Mac ''MQXCC_OK''),
      Expr (Mac ''MQXR2_PUT_WITH_DEF_ACTION''), Expr (Num 0), Expr (Num 0),
      Braces [Expr (Mac ''MQXUA_NONE_ARRAY'')], Braces [Expr (Str '''')], Expr (Num 0),
      Expr (Num 0), Expr (Num 0), Expr (Num 0), Braces [Expr (Str '''')], Expr (Num 0),
      Expr (Mac ''MQCF_NONE''), Expr (Num 1), Expr (Num 0), Braces [Expr (Str '''')],
      Expr (Num 0), Expr (Null), Expr (Null), Expr (Mac ''MQCOMPRESS_NONE''),
      Expr (Mac ''MQCOMPRESS_NONE''), Expr (Mac ''MQHC_UNUSABLE_HCONN''), Expr (Num 0),
      Expr (Mac ''MQUSRC_MAP''), Expr (Null), Braces [Expr (Str '''')], Braces [Expr (Str '''')]]"

definition MQDXP :: "abi \<Rightarrow> (nat \<times> fields) list" where
  "MQDXP a =
     [(1, [(''StrucId'', MQCHAR4), (''Version'', MQLONG a), (''ExitOptions'', MQLONG a),
          (''AppOptions'', MQLONG a), (''Encoding'', MQLONG a), (''CodedCharSetId'', MQLONG a),
          (''DataLength'', MQLONG a), (''CompCode'', MQLONG a), (''Reason'', MQLONG a),
          (''ExitResponse'', MQLONG a), (''Hconn'', MQHCONN a)]),
      (2, [(''pEntryPoints'', PMQIEP)])]"

definition MQDXP_DEFAULT :: "cinit list" where
  "MQDXP_DEFAULT =
     [Braces [Expr (Mac ''MQDXP_STRUC_ID_ARRAY'')], Expr (Mac ''MQDXP_VERSION_1''),
      Expr (Num 0), Expr (Num 0), Expr (Num 0), Expr (Num 0), Expr (Num 0),
      Expr (Mac ''MQCC_OK''), Expr (Mac ''MQRC_NONE''), Expr (Mac ''MQXDR_CONVERSION_FAILED''),
      Expr (Num 0), Expr (Null)]"

definition MQNXP :: "abi \<Rightarrow> (nat \<times> fields) list" where
  "MQNXP a =
     [(1, [(''StrucId'', MQCHAR4), (''Version'', MQLONG a), (''ExitId'', MQLONG a),
          (''ExitReason'', MQLONG a), (''ExitResponse'', MQLONG a),
          (''ExitResponse2'', MQLONG a), (''Feedback'', MQLONG a),
          (''ExitDataLength'', MQLONG a), (''pExitDataPtr'', PMQCHAR),
          (''pExitUserAreaPtr'', MQPTR), (''ppMQCDArrayPtr'', PPMQCD),
          (''MQCDArrayCount'', MQLONG a), (''MaxMQCDVersion'', MQLONG a)]),
      (2, [(''pEntryPoints'', PMQIEP)])]"

definition MQNXP_DEFAULT :: "cinit list" where
  "MQNXP_DEFAULT =
     [Braces [Expr (Mac ''MQNXP_STRUC_ID_ARRAY'')], Expr (Mac ''MQNXP_VERSION_1''),
      Expr (Mac ''MQXT_PRECONNECT_EXIT''), Expr (Num 0), Expr (Mac ''MQXCC_OK''),
      Expr (Mac ''MQXR2_DEFAULT_CONTINUATION''), Expr (Mac ''MQFB_NONE''), Expr (Num 0),
      Expr (Null), Expr (Null), Expr (Null), Expr (Num 0), Expr (Mac ''MQCD_CURRENT_VERSION''),
      Expr (Null)]"

definition MQPBC :: "abi \<Rightarrow> (nat \<times> fields) list" where
  "MQPBC a =
     [(1, [(''StrucId'', MQCHAR4), (''Version'', MQLONG a),
          (''PubTopicString'', C_struct (members (MQCHARV a)))]),
      (2, [(''MsgDescPtr'', PMQMD)])]"

definition MQPBC_DEFAULT :: "cinit list" where
  "MQPBC_DEFAULT =
     [Braces [Expr (Mac ''MQPBC_STRUC_ID_ARRAY'')], Expr (Mac ''MQPBC_VERSION_1''),
      Braces MQCHARV_DEFAULT, Expr (Null)]"

definition MQPSXP :: "abi \<Rightarrow> (nat \<times> fields) list" where
  "MQPSXP a =
     [(1, [(''StrucId'', MQCHAR4), (''Version'', MQLONG a), (''ExitId'', MQLONG a),
          (''ExitReason'', MQLONG a), (''ExitResponse'', MQLONG a),
          (''ExitResponse2'', MQLONG a), (''Feedback'', MQLONG a), (''Hconn'', MQHCONN a),
          (''ExitUserArea'', MQBYTE16), (''ExitData'', MQCHAR32), (''QMgrName'', MQCHAR48),
          (''MsgHandle'', MQHMSG a), (''MsgDescPtr'', PMQMD), (''MsgInPtr'', PMQVOID),
          (''MsgInLength'', MQLONG a), (''MsgOutPtr'', PMQVOID), (''MsgOutLength'', MQLONG a)]),
      (2, [(''pEntryPoints'', PMQIEP)])]"

definition MQPSXP_DEFAULT :: "cinit list" where
  "MQPSXP_DEFAULT =
     [Braces [Expr (Mac ''MQPSXP_STRUC_ID_ARRAY'')], Expr (Mac ''MQPSXP_VERSION_1''),
      Expr (Mac ''MQXT_PUBLISH_EXIT''), Expr (Num 0), Expr (Mac ''MQXCC_OK''), Expr (Num 0),
      Expr (Mac ''MQFB_NONE''), Expr (Mac ''MQHC_UNUSABLE_HCONN''),
      Braces [Expr (Mac ''MQXUA_NONE_ARRAY'')], Braces [Expr (Str '''')],
      Braces [Expr (Str '''')], Expr (Mac ''MQHM_NONE''), Expr (Null), Expr (Null),
      Expr (Num 0), Expr (Null), Expr (Num 0), Expr (Null)]"

definition MQSBC :: "abi \<Rightarrow> (nat \<times> fields) list" where
  "MQSBC a =
     [(1, [(''StrucId'', MQCHAR4), (''Version'', MQLONG a), (''DestinationQMgrName'', MQCHAR48),
          (''DestinationQName'', MQCHAR48), (''SubType'', MQLONG a), (''SubOptions'', MQLONG a),
          (''ObjectName'', MQCHAR48), (''ObjectString'', C_struct (members (MQCHARV a))),
          (''SubTopicString'', C_struct (members (MQCHARV a))),
          (''SubName'', C_struct (members (MQCHARV a))), (''SubId'', MQBYTE24),
          (''SelectionString'', C_struct (members (MQCHARV a))), (''SubLevel'', MQLONG a),
          (''PSProperties'', MQLONG a)])]"

definition MQSBC_DEFAULT :: "cinit list" where
  "MQSBC_DEFAULT =
     [Braces [Expr (Mac ''MQSBC_STRUC_ID_ARRAY'')], Expr (Mac ''MQSBC_VERSION_1''),
      Expr (Str ''''), Expr (Str ''''), Expr (Num 0), Expr (Num 0), Expr (Str ''''),
      Braces MQCHARV_DEFAULT, Braces MQCHARV_DEFAULT, Braces MQCHARV_DEFAULT,
      Braces [Expr (Mac ''MQCI_NONE_ARRAY'')], Braces MQCHARV_DEFAULT, Expr (Num 1),
      Expr (Num 0)]"

definition MQWCR :: "abi \<Rightarrow> (nat \<times> fields) list" where
  "MQWCR a =
     [(1, [(''ClusterName'', MQCHAR48), (''ClusterRecOffset'', MQLONG a),
          (''ClusterFlags'', MQLONG a)])]"

definition MQWCR_DEFAULT :: "cinit list" where
  "MQWCR_DEFAULT =
     [Braces [Expr (Str '''')], Expr (Num 0), Expr (Num 0)]"

definition MQWDR :: "abi \<Rightarrow> (nat \<times> fields) list" where
  "MQWDR a =
     [(1, [(''StrucId'', MQCHAR4), (''Version'', MQLONG a), (''StrucLength'', MQLONG a),
          (''QMgrFlags'', MQLONG a), (''QMgrIdentifier'', MQCHAR48), (''QMgrName'', MQCHAR48),
          (''ClusterRecOffset'', MQLONG a), (''ChannelState'', MQLONG a),
          (''ChannelDefOffset'', MQLONG a)]),
      (2, [(''DestSeqNumber'', MQLONG a), (''DestSeqFactor'', MQINT64 a)])]"

definition MQWDR_DEFAULT :: "cinit list" where
  "MQWDR_DEFAULT =
     [Braces [Expr (Mac ''MQWDR_STRUC_ID_ARRAY'')], Expr (Mac ''MQWDR_VERSION_1''),
      Expr (Mac ''MQWDR_CURRENT_LENGTH''), Expr (Num 0), Braces [Expr (Str '''')],
      Braces [Expr (Str '''')], Expr (Num 0), Expr (Num 0), Expr (Num 0), Expr (Num 0),
      Expr (Num 0)]"

definition MQWDR1 :: "abi \<Rightarrow> (nat \<times> fields) list" where
  "MQWDR1 a =
     [(1, [(''StrucId'', MQCHAR4), (''Version'', MQLONG a), (''StrucLength'', MQLONG a),
          (''QMgrFlags'', MQLONG a), (''QMgrIdentifier'', MQCHAR48), (''QMgrName'', MQCHAR48),
          (''ClusterRecOffset'', MQLONG a), (''ChannelState'', MQLONG a),
          (''ChannelDefOffset'', MQLONG a)])]"

definition MQWDR1_DEFAULT :: "cinit list" where
  "MQWDR1_DEFAULT =
     [Braces [Expr (Mac ''MQWDR_STRUC_ID_ARRAY'')], Expr (Mac ''MQWDR_VERSION_1''),
      Expr (Mac ''MQWDR_LENGTH_1''), Expr (Num 0), Braces [Expr (Str '''')],
      Braces [Expr (Str '''')], Expr (Num 0), Expr (Num 0), Expr (Num 0)]"

definition MQWDR2 :: "abi \<Rightarrow> (nat \<times> fields) list" where
  "MQWDR2 a =
     [(1, [(''StrucId'', MQCHAR4), (''Version'', MQLONG a), (''StrucLength'', MQLONG a),
          (''QMgrFlags'', MQLONG a), (''QMgrIdentifier'', MQCHAR48), (''QMgrName'', MQCHAR48),
          (''ClusterRecOffset'', MQLONG a), (''ChannelState'', MQLONG a),
          (''ChannelDefOffset'', MQLONG a)]),
      (2, [(''DestSeqNumber'', MQLONG a), (''DestSeqFactor'', MQINT64 a)])]"

definition MQWDR2_DEFAULT :: "cinit list" where
  "MQWDR2_DEFAULT =
     [Braces [Expr (Mac ''MQWDR_STRUC_ID_ARRAY'')], Expr (Mac ''MQWDR_VERSION_2''),
      Expr (Mac ''MQWDR_LENGTH_2''), Expr (Num 0), Braces [Expr (Str '''')],
      Braces [Expr (Str '''')], Expr (Num 0), Expr (Num 0), Expr (Num 0), Expr (Num 0),
      Expr (Num 0)]"

definition MQWQR :: "abi \<Rightarrow> (nat \<times> fields) list" where
  "MQWQR a =
     [(1, [(''StrucId'', MQCHAR4), (''Version'', MQLONG a), (''StrucLength'', MQLONG a),
          (''QFlags'', MQLONG a), (''QName'', MQCHAR48), (''QMgrIdentifier'', MQCHAR48),
          (''ClusterRecOffset'', MQLONG a), (''QType'', MQLONG a), (''QDesc'', MQCHAR64),
          (''DefBind'', MQLONG a), (''DefPersistence'', MQLONG a), (''DefPriority'', MQLONG a),
          (''InhibitPut'', MQLONG a)]),
      (2, [(''CLWLQueuePriority'', MQLONG a), (''CLWLQueueRank'', MQLONG a)]),
      (3, [(''DefPutResponse'', MQLONG a)]),
      (4, [(''CapExpiry'', MQLONG a)])]"

definition MQWQR_DEFAULT :: "cinit list" where
  "MQWQR_DEFAULT =
     [Braces [Expr (Mac ''MQWQR_STRUC_ID_ARRAY'')], Expr (Mac ''MQWQR_VERSION_1''),
      Expr (Mac ''MQWQR_CURRENT_LENGTH''), Expr (Num 0), Braces [Expr (Str '''')],
      Braces [Expr (Str '''')], Expr (Num 0), Expr (Num 0), Braces [Expr (Str '''')],
      Expr (Num 0), Expr (Num 0), Expr (Num 0), Expr (Num 0), Expr (Num 0), Expr (Num 0),
      Expr (Num 1), Expr (Num (- 1))]"

definition MQWQR1 :: "abi \<Rightarrow> (nat \<times> fields) list" where
  "MQWQR1 a =
     [(1, [(''StrucId'', MQCHAR4), (''Version'', MQLONG a), (''StrucLength'', MQLONG a),
          (''QFlags'', MQLONG a), (''QName'', MQCHAR48), (''QMgrIdentifier'', MQCHAR48),
          (''ClusterRecOffset'', MQLONG a), (''QType'', MQLONG a), (''QDesc'', MQCHAR64),
          (''DefBind'', MQLONG a), (''DefPersistence'', MQLONG a), (''DefPriority'', MQLONG a),
          (''InhibitPut'', MQLONG a)])]"

definition MQWQR1_DEFAULT :: "cinit list" where
  "MQWQR1_DEFAULT =
     [Braces [Expr (Mac ''MQWQR_STRUC_ID_ARRAY'')], Expr (Mac ''MQWQR_VERSION_1''),
      Expr (Mac ''MQWQR_LENGTH_1''), Expr (Num 0), Braces [Expr (Str '''')],
      Braces [Expr (Str '''')], Expr (Num 0), Expr (Num 0), Braces [Expr (Str '''')],
      Expr (Num 0), Expr (Num 0), Expr (Num 0), Expr (Num 0)]"

definition MQWQR2 :: "abi \<Rightarrow> (nat \<times> fields) list" where
  "MQWQR2 a =
     [(1, [(''StrucId'', MQCHAR4), (''Version'', MQLONG a), (''StrucLength'', MQLONG a),
          (''QFlags'', MQLONG a), (''QName'', MQCHAR48), (''QMgrIdentifier'', MQCHAR48),
          (''ClusterRecOffset'', MQLONG a), (''QType'', MQLONG a), (''QDesc'', MQCHAR64),
          (''DefBind'', MQLONG a), (''DefPersistence'', MQLONG a), (''DefPriority'', MQLONG a),
          (''InhibitPut'', MQLONG a)]),
      (2, [(''CLWLQueuePriority'', MQLONG a), (''CLWLQueueRank'', MQLONG a)])]"

definition MQWQR2_DEFAULT :: "cinit list" where
  "MQWQR2_DEFAULT =
     [Braces [Expr (Mac ''MQWQR_STRUC_ID_ARRAY'')], Expr (Mac ''MQWQR_VERSION_2''),
      Expr (Mac ''MQWQR_LENGTH_2''), Expr (Num 0), Braces [Expr (Str '''')],
      Braces [Expr (Str '''')], Expr (Num 0), Expr (Num 0), Braces [Expr (Str '''')],
      Expr (Num 0), Expr (Num 0), Expr (Num 0), Expr (Num 0), Expr (Num 0), Expr (Num 0)]"

definition MQWQR3 :: "abi \<Rightarrow> (nat \<times> fields) list" where
  "MQWQR3 a =
     [(1, [(''StrucId'', MQCHAR4), (''Version'', MQLONG a), (''StrucLength'', MQLONG a),
          (''QFlags'', MQLONG a), (''QName'', MQCHAR48), (''QMgrIdentifier'', MQCHAR48),
          (''ClusterRecOffset'', MQLONG a), (''QType'', MQLONG a), (''QDesc'', MQCHAR64),
          (''DefBind'', MQLONG a), (''DefPersistence'', MQLONG a), (''DefPriority'', MQLONG a),
          (''InhibitPut'', MQLONG a)]),
      (2, [(''CLWLQueuePriority'', MQLONG a), (''CLWLQueueRank'', MQLONG a)]),
      (3, [(''DefPutResponse'', MQLONG a)])]"

definition MQWQR3_DEFAULT :: "cinit list" where
  "MQWQR3_DEFAULT =
     [Braces [Expr (Mac ''MQWQR_STRUC_ID_ARRAY'')], Expr (Mac ''MQWQR_VERSION_3''),
      Expr (Mac ''MQWQR_LENGTH_3''), Expr (Num 0), Braces [Expr (Str '''')],
      Braces [Expr (Str '''')], Expr (Num 0), Expr (Num 0), Braces [Expr (Str '''')],
      Expr (Num 0), Expr (Num 0), Expr (Num 0), Expr (Num 0), Expr (Num 0), Expr (Num 0),
      Expr (Num 1)]"

definition MQWQR4 :: "abi \<Rightarrow> (nat \<times> fields) list" where
  "MQWQR4 a =
     [(1, [(''StrucId'', MQCHAR4), (''Version'', MQLONG a), (''StrucLength'', MQLONG a),
          (''QFlags'', MQLONG a), (''QName'', MQCHAR48), (''QMgrIdentifier'', MQCHAR48),
          (''ClusterRecOffset'', MQLONG a), (''QType'', MQLONG a), (''QDesc'', MQCHAR64),
          (''DefBind'', MQLONG a), (''DefPersistence'', MQLONG a), (''DefPriority'', MQLONG a),
          (''InhibitPut'', MQLONG a)]),
      (2, [(''CLWLQueuePriority'', MQLONG a), (''CLWLQueueRank'', MQLONG a)]),
      (3, [(''DefPutResponse'', MQLONG a)]),
      (4, [(''CapExpiry'', MQLONG a)])]"

definition MQWQR4_DEFAULT :: "cinit list" where
  "MQWQR4_DEFAULT =
     [Braces [Expr (Mac ''MQWQR_STRUC_ID_ARRAY'')], Expr (Mac ''MQWQR_VERSION_4''),
      Expr (Mac ''MQWQR_LENGTH_4''), Expr (Num 0), Braces [Expr (Str '''')],
      Braces [Expr (Str '''')], Expr (Num 0), Expr (Num 0), Braces [Expr (Str '''')],
      Expr (Num 0), Expr (Num 0), Expr (Num 0), Expr (Num 0), Expr (Num 0), Expr (Num 0),
      Expr (Num 1), Expr (Num (- 1))]"

definition MQWXP :: "abi \<Rightarrow> (nat \<times> fields) list" where
  "MQWXP a =
     [(1, [(''StrucId'', MQCHAR4), (''Version'', MQLONG a), (''ExitId'', MQLONG a),
          (''ExitReason'', MQLONG a), (''ExitResponse'', MQLONG a),
          (''ExitResponse2'', MQLONG a), (''Feedback'', MQLONG a), (''Flags'', MQLONG a),
          (''ExitUserArea'', MQBYTE16), (''ExitData'', MQCHAR32), (''MsgDescPtr'', PMQMD),
          (''MsgBufferPtr'', PMQVOID), (''MsgBufferLength'', MQLONG a),
          (''MsgLength'', MQLONG a), (''QName'', MQCHAR48), (''QMgrName'', MQCHAR48),
          (''DestinationCount'', MQLONG a), (''DestinationChosen'', MQLONG a),
          (''DestinationArrayPtr'', PPMQWDR), (''QArrayPtr'', PPMQWQR)]),
      (2, [(''CacheContext'', MQPTR), (''CacheType'', MQLONG a)]),
      (3, [(''CLWLMRUChannels'', MQLONG a)]),
      (4, [(''pEntryPoints'', PMQIEP)])]"

definition MQWXP_DEFAULT :: "cinit list" where
  "MQWXP_DEFAULT =
     [Braces [Expr (Mac ''MQWXP_STRUC_ID_ARRAY'')], Expr (Mac ''MQWXP_VERSION_2''),
      Expr (Num 0), Expr (Num 0), Expr (Mac ''MQXCC_OK''), Expr (Num 0), Expr (Num 0),
      Expr (Num 0), Braces [Expr (Mac ''MQXUA_NONE_ARRAY'')], Braces [Expr (Str '''')],
      Expr (Null), Expr (Null), Expr (Num 0), Expr (Num 0), Braces [Expr (Str '''')],
      Braces [Expr (Str '''')], Expr (Num 0), Expr (Num 0), Expr (Null), Expr (Null),
      Expr (Null), Expr (Mac ''MQCLCT_DYNAMIC''), Expr (Num 0), Expr (Null)]"

definition MQWXP1 :: "abi \<Rightarrow> (nat \<times> fields) list" where
  "MQWXP1 a =
     [(1, [(''StrucId'', MQCHAR4), (''Version'', MQLONG a), (''ExitId'', MQLONG a),
          (''ExitReason'', MQLONG a), (''ExitResponse'', MQLONG a),
          (''ExitResponse2'', MQLONG a), (''Feedback'', MQLONG a), (''Flags'', MQLONG a),
          (''ExitUserArea'', MQBYTE16), (''ExitData'', MQCHAR32), (''MsgDescPtr'', PMQMD),
          (''MsgBufferPtr'', PMQVOID), (''MsgBufferLength'', MQLONG a),
          (''MsgLength'', MQLONG a), (''QName'', MQCHAR48), (''QMgrName'', MQCHAR48),
          (''DestinationCount'', MQLONG a), (''DestinationChosen'', MQLONG a),
          (''DestinationArrayPtr'', PPMQWDR), (''QArrayPtr'', PPMQWQR)])]"

definition MQWXP1_DEFAULT :: "cinit list" where
  "MQWXP1_DEFAULT =
     [Braces [Expr (Mac ''MQWXP_STRUC_ID_ARRAY'')], Expr (Mac ''MQWXP_VERSION_1''),
      Expr (Num 0), Expr (Num 0), Expr (Mac ''MQXCC_OK''), Expr (Num 0), Expr (Num 0),
      Expr (Num 0), Braces [Expr (Mac ''MQXUA_NONE_ARRAY'')], Braces [Expr (Str '''')],
      Expr (Null), Expr (Null), Expr (Num 0), Expr (Num 0), Braces [Expr (Str '''')],
      Braces [Expr (Str '''')], Expr (Num 0), Expr (Num 0), Expr (Null), Expr (Null)]"

definition MQWXP2 :: "abi \<Rightarrow> (nat \<times> fields) list" where
  "MQWXP2 a =
     [(1, [(''StrucId'', MQCHAR4), (''Version'', MQLONG a), (''ExitId'', MQLONG a),
          (''ExitReason'', MQLONG a), (''ExitResponse'', MQLONG a),
          (''ExitResponse2'', MQLONG a), (''Feedback'', MQLONG a), (''Flags'', MQLONG a),
          (''ExitUserArea'', MQBYTE16), (''ExitData'', MQCHAR32), (''MsgDescPtr'', PMQMD),
          (''MsgBufferPtr'', PMQVOID), (''MsgBufferLength'', MQLONG a),
          (''MsgLength'', MQLONG a), (''QName'', MQCHAR48), (''QMgrName'', MQCHAR48),
          (''DestinationCount'', MQLONG a), (''DestinationChosen'', MQLONG a),
          (''DestinationArrayPtr'', PPMQWDR), (''QArrayPtr'', PPMQWQR)]),
      (2, [(''CacheContext'', MQPTR), (''CacheType'', MQLONG a)])]"

definition MQWXP2_DEFAULT :: "cinit list" where
  "MQWXP2_DEFAULT =
     [Braces [Expr (Mac ''MQWXP_STRUC_ID_ARRAY'')], Expr (Mac ''MQWXP_VERSION_2''),
      Expr (Num 0), Expr (Num 0), Expr (Mac ''MQXCC_OK''), Expr (Num 0), Expr (Num 0),
      Expr (Num 0), Braces [Expr (Mac ''MQXUA_NONE_ARRAY'')], Braces [Expr (Str '''')],
      Expr (Null), Expr (Null), Expr (Num 0), Expr (Num 0), Braces [Expr (Str '''')],
      Braces [Expr (Str '''')], Expr (Num 0), Expr (Num 0), Expr (Null), Expr (Null),
      Expr (Null), Expr (Mac ''MQCLCT_DYNAMIC'')]"

definition MQWXP3 :: "abi \<Rightarrow> (nat \<times> fields) list" where
  "MQWXP3 a =
     [(1, [(''StrucId'', MQCHAR4), (''Version'', MQLONG a), (''ExitId'', MQLONG a),
          (''ExitReason'', MQLONG a), (''ExitResponse'', MQLONG a),
          (''ExitResponse2'', MQLONG a), (''Feedback'', MQLONG a), (''Flags'', MQLONG a),
          (''ExitUserArea'', MQBYTE16), (''ExitData'', MQCHAR32), (''MsgDescPtr'', PMQMD),
          (''MsgBufferPtr'', PMQVOID), (''MsgBufferLength'', MQLONG a),
          (''MsgLength'', MQLONG a), (''QName'', MQCHAR48), (''QMgrName'', MQCHAR48),
          (''DestinationCount'', MQLONG a), (''DestinationChosen'', MQLONG a),
          (''DestinationArrayPtr'', PPMQWDR), (''QArrayPtr'', PPMQWQR)]),
      (2, [(''CacheContext'', MQPTR), (''CacheType'', MQLONG a)]),
      (3, [(''CLWLMRUChannels'', MQLONG a)])]"

definition MQWXP3_DEFAULT :: "cinit list" where
  "MQWXP3_DEFAULT =
     [Braces [Expr (Mac ''MQWXP_STRUC_ID_ARRAY'')], Expr (Mac ''MQWXP_VERSION_3''),
      Expr (Num 0), Expr (Num 0), Expr (Mac ''MQXCC_OK''), Expr (Num 0), Expr (Num 0),
      Expr (Num 0), Braces [Expr (Mac ''MQXUA_NONE_ARRAY'')], Braces [Expr (Str '''')],
      Expr (Null), Expr (Null), Expr (Num 0), Expr (Num 0), Braces [Expr (Str '''')],
      Braces [Expr (Str '''')], Expr (Num 0), Expr (Num 0), Expr (Null), Expr (Null),
      Expr (Null), Expr (Mac ''MQCLCT_DYNAMIC''), Expr (Num 0)]"

definition MQWXP4 :: "abi \<Rightarrow> (nat \<times> fields) list" where
  "MQWXP4 a =
     [(1, [(''StrucId'', MQCHAR4), (''Version'', MQLONG a), (''ExitId'', MQLONG a),
          (''ExitReason'', MQLONG a), (''ExitResponse'', MQLONG a),
          (''ExitResponse2'', MQLONG a), (''Feedback'', MQLONG a), (''Flags'', MQLONG a),
          (''ExitUserArea'', MQBYTE16), (''ExitData'', MQCHAR32), (''MsgDescPtr'', PMQMD),
          (''MsgBufferPtr'', PMQVOID), (''MsgBufferLength'', MQLONG a),
          (''MsgLength'', MQLONG a), (''QName'', MQCHAR48), (''QMgrName'', MQCHAR48),
          (''DestinationCount'', MQLONG a), (''DestinationChosen'', MQLONG a),
          (''DestinationArrayPtr'', PPMQWDR), (''QArrayPtr'', PPMQWQR)]),
      (2, [(''CacheContext'', MQPTR), (''CacheType'', MQLONG a)]),
      (3, [(''CLWLMRUChannels'', MQLONG a)]),
      (4, [(''pEntryPoints'', PMQIEP)])]"

definition MQWXP4_DEFAULT :: "cinit list" where
  "MQWXP4_DEFAULT =
     [Braces [Expr (Mac ''MQWXP_STRUC_ID_ARRAY'')], Expr (Mac ''MQWXP_VERSION_4''),
      Expr (Num 0), Expr (Num 0), Expr (Mac ''MQXCC_OK''), Expr (Num 0), Expr (Num 0),
      Expr (Num 0), Braces [Expr (Mac ''MQXUA_NONE_ARRAY'')], Braces [Expr (Str '''')],
      Expr (Null), Expr (Null), Expr (Num 0), Expr (Num 0), Braces [Expr (Str '''')],
      Braces [Expr (Str '''')], Expr (Num 0), Expr (Num 0), Expr (Null), Expr (Null),
      Expr (Null), Expr (Mac ''MQCLCT_DYNAMIC''), Expr (Num 0), Expr (Null)]"

definition MQXEPO :: "abi \<Rightarrow> (nat \<times> fields) list" where
  "MQXEPO a =
     [(1, [(''StrucId'', MQCHAR4), (''Version'', MQLONG a), (''Options'', MQLONG a),
          (''ExitProperties'', C_struct (members (MQCHARV a)))])]"

definition MQXEPO_DEFAULT :: "cinit list" where
  "MQXEPO_DEFAULT =
     [Braces [Expr (Mac ''MQXEPO_STRUC_ID_ARRAY'')], Expr (Mac ''MQXEPO_VERSION_1''),
      Expr (Mac ''MQXEPO_NONE''),
      Braces [Expr (Null), Expr (Num 0), Expr (Num 0), Expr (Num 0), Expr (Mac ''MQCCSI_APPL'')]]"

definition MQZED :: "abi \<Rightarrow> (nat \<times> fields) list" where
  "MQZED a =
     [(1, [(''StrucId'', MQCHAR4), (''Version'', MQLONG a), (''EntityNamePtr'', PMQCHAR),
          (''EntityDomainPtr'', PMQCHAR), (''SecurityId'', MQBYTE40)]),
      (2, [(''CorrelationPtr'', MQPTR)])]"

definition MQZED_DEFAULT :: "cinit list" where
  "MQZED_DEFAULT =
     [Braces [Expr (Mac ''MQZED_STRUC_ID_ARRAY'')], Expr (Mac ''MQZED_VERSION_1''), Expr (Null),
      Expr (Null), Braces [Expr (Mac ''MQSID_NONE_ARRAY'')], Expr (Null)]"

definition MQZAC :: "abi \<Rightarrow> (nat \<times> fields) list" where
  "MQZAC a =
     [(1, [(''StrucId'', MQCHAR4), (''Version'', MQLONG a), (''ProcessId'', MQPID a),
          (''ThreadId'', MQTID a), (''ApplName'', MQCHAR28), (''UserID'', MQCHAR12),
          (''EffectiveUserID'', MQCHAR12), (''Environment'', MQLONG a),
          (''CallerType'', MQLONG a), (''AuthenticationType'', MQLONG a),
          (''BindType'', MQLONG a)])]"

definition MQZAC_DEFAULT :: "cinit list" where
  "MQZAC_DEFAULT =
     [Braces [Expr (Mac ''MQZAC_STRUC_ID_ARRAY'')], Expr (Mac ''MQZAC_VERSION_1''),
      Expr (Num 0), Expr (Num 0), Braces [Expr (Str '''')], Braces [Expr (Str '''')],
      Braces [Expr (Str '''')], Expr (Num 0), Expr (Num 0), Expr (Num 0), Expr (Num 0)]"

definition MQZAD :: "abi \<Rightarrow> (nat \<times> fields) list" where
  "MQZAD a =
     [(1, [(''StrucId'', MQCHAR4), (''Version'', MQLONG a), (''ProfileName'', MQCHAR48),
          (''ObjectType'', MQLONG a), (''Authority'', MQLONG a), (''EntityDataPtr'', PMQZED),
          (''EntityType'', MQLONG a)]),
      (2, [(''Options'', MQLONG a)])]"

definition MQZAD_DEFAULT :: "cinit list" where
  "MQZAD_DEFAULT =
     [Braces [Expr (Mac ''MQZAD_STRUC_ID_ARRAY'')], Expr (Mac ''MQZAD_VERSION_1''),
      Braces [Expr (Str '''')], Expr (Mac ''MQOT_ALL''), Expr (Num 0), Expr (Null),
      Expr (Num 0),
      Expr (BitOr (Mac ''MQAUTHOPT_NAME_ALL_MATCHING'') (Mac ''MQAUTHOPT_ENTITY_EXPLICIT''))]"

definition MQZFP :: "abi \<Rightarrow> (nat \<times> fields) list" where
  "MQZFP a =
     [(1, [(''StrucId'', MQCHAR4), (''Version'', MQLONG a), (''Reserved'', MQBYTE8),
          (''CorrelationPtr'', MQPTR)])]"

definition MQZFP_DEFAULT :: "cinit list" where
  "MQZFP_DEFAULT =
     [Braces [Expr (Mac ''MQZFP_STRUC_ID_ARRAY'')], Expr (Mac ''MQZFP_VERSION_1''),
      Braces [Expr (Chars (replicate 8 NUL))], Expr (Null)]"

definition MQZIC :: "abi \<Rightarrow> (nat \<times> fields) list" where
  "MQZIC a =
     [(1, [(''StrucId'', MQCHAR4), (''Version'', MQLONG a), (''UserIdentifier'', MQCHAR12),
          (''AccountingToken'', MQBYTE32), (''ApplIdentityData'', MQCHAR32)])]"

definition MQZIC_DEFAULT :: "cinit list" where
  "MQZIC_DEFAULT =
     [Braces [Expr (Mac ''MQZIC_STRUC_ID_ARRAY'')], Expr (Mac ''MQZIC_VERSION_1''),
      Braces [Expr (Str '''')], Braces [Expr (Mac ''MQACT_NONE_ARRAY'')],
      Braces [Expr (Str '''')]]"

definition MQIEP :: "abi \<Rightarrow> (nat \<times> fields) list" where
  "MQIEP a =
     [(1, [(''StrucId'', MQCHAR4), (''Version'', MQLONG a), (''StrucLength'', MQLONG a),
          (''Flags'', MQLONG a), (''Reserved'', MQPTR), (''MQBACK_Call'', PMQ_BACK_CALL),
          (''MQBEGIN_Call'', PMQ_BEGIN_CALL), (''MQBUFMH_Call'', PMQ_BUFMH_CALL),
          (''MQCB_Call'', PMQ_CB_CALL), (''MQCLOSE_Call'', PMQ_CLOSE_CALL),
          (''MQCMIT_Call'', PMQ_CMIT_CALL), (''MQCONN_Call'', PMQ_CONN_CALL),
          (''MQCONNX_Call'', PMQ_CONNX_CALL), (''MQCRTMH_Call'', PMQ_CRTMH_CALL),
          (''MQCTL_Call'', PMQ_CTL_CALL), (''MQDISC_Call'', PMQ_DISC_CALL),
          (''MQDLTMH_Call'', PMQ_DLTMH_CALL), (''MQDLTMP_Call'', PMQ_DLTMP_CALL),
          (''MQGET_Call'', PMQ_GET_CALL), (''MQINQ_Call'', PMQ_INQ_CALL),
          (''MQINQMP_Call'', PMQ_INQMP_CALL), (''MQMHBUF_Call'', PMQ_MHBUF_CALL),
          (''MQOPEN_Call'', PMQ_OPEN_CALL), (''MQPUT_Call'', PMQ_PUT_CALL),
          (''MQPUT1_Call'', PMQ_PUT1_CALL), (''MQSET_Call'', PMQ_SET_CALL),
          (''MQSETMP_Call'', PMQ_SETMP_CALL), (''MQSTAT_Call'', PMQ_STAT_CALL),
          (''MQSUB_Call'', PMQ_SUB_CALL), (''MQSUBRQ_Call'', PMQ_SUBRQ_CALL),
          (''MQXCLWLN_Call'', PMQ_XCLWLN_CALL), (''MQXCNVC_Call'', PMQ_XCNVC_CALL),
          (''MQXDX_Call'', PMQ_XDX_CALL), (''MQXEP_Call'', PMQ_XEP_CALL),
          (''MQZEP_Call'', PMQ_ZEP_CALL)])]"

definition MQIEP_DEFAULT :: "cinit list" where
  "MQIEP_DEFAULT =
     [Braces [Expr (Mac ''MQIEP_STRUC_ID_ARRAY'')], Expr (Mac ''MQIEP_VERSION_1''),
      Expr (Mac ''MQIEP_LENGTH_1''), Expr (Mac ''MQIEPF_NONE''), Expr (Null), Expr (Null),
      Expr (Null), Expr (Null), Expr (Null), Expr (Null), Expr (Null), Expr (Null), Expr (Null),
      Expr (Null), Expr (Null), Expr (Null), Expr (Null), Expr (Null), Expr (Null), Expr (Null),
      Expr (Null), Expr (Null), Expr (Null), Expr (Null), Expr (Null), Expr (Null), Expr (Null),
      Expr (Null), Expr (Null), Expr (Null), Expr (Null), Expr (Null), Expr (Null), Expr (Null),
      Expr (Null)]"

end
