(* ===== verification/Mqi_Consts.thy ===== *)
theory Mqi_Consts
  imports C_Init
begin

text \<open>
  The value macros of \<open>cmqc.h\<close> that belong to functions and object attributes rather than to
  structures: lengths, attribute selectors and values, open, close and subscription options.
\<close>

definition cmqc_All_Functions_1 :: "abi \<Rightarrow> macros" where
  "cmqc_All_Functions_1 a =
     [(''MQHC_DEF_HCONN'', Num 0), (''MQHC_UNUSABLE_HCONN'', Num (- 1)),
      (''MQHC_UNASSOCIATED_HCONN'', Num (- 3))]"

definition cmqc_All_Functions_2 :: "abi \<Rightarrow> macros" where
  "cmqc_All_Functions_2 a =
     [(''MQ_OPERATOR_MESSAGE_LENGTH'', Num 4), (''MQ_ABEND_CODE_LENGTH'', Num 4),
      (''MQ_ACCOUNTING_TOKEN_LENGTH'', Num 32), (''MQ_APPL_DESC_LENGTH'', Num 64),
      (''MQ_APPL_IDENTITY_DATA_LENGTH'', Num 32), (''MQ_APPL_NAME_LENGTH'', Num 28),
      (''MQ_APPL_ORIGIN_DATA_LENGTH'', Num 4), (''MQ_APPL_TAG_LENGTH'', Num 28),
      (''MQ_ARM_SUFFIX_LENGTH'', Num 2), (''MQ_ATTENTION_ID_LENGTH'', Num 4),
      (''MQ_AUTH_INFO_CONN_NAME_LENGTH'', Num 264), (''MQ_AUTH_INFO_DESC_LENGTH'', Num 64),
      (''MQ_AUTH_INFO_NAME_LENGTH'', Num 48), (''MQ_AUTH_INFO_OCSP_URL_LENGTH'', Num 256),
      (''MQ_AUTHENTICATOR_LENGTH'', Num 8), (''MQ_AUTO_REORG_CATALOG_LENGTH'', Num 44),
      (''MQ_AUTO_REORG_TIME_LENGTH'', Num 4), (''MQ_BATCH_INTERFACE_ID_LENGTH'', Num 8),
      (''MQ_BRIDGE_NAME_LENGTH'', Num 24), (''MQ_CANCEL_CODE_LENGTH'', Num 4),
      (''MQ_CF_STRUC_DESC_LENGTH'', Num 64), (''MQ_CF_STRUC_NAME_LENGTH'', Num 12),
      (''MQ_CHANNEL_DATE_LENGTH'', Num 12), (''MQ_CHANNEL_DESC_LENGTH'', Num 64),
      (''MQ_CHANNEL_NAME_LENGTH'', Num 20), (''MQ_CHANNEL_TIME_LENGTH'', Num 8),
      (''MQ_CHINIT_SERVICE_PARM_LENGTH'', Num 32), (''MQ_CICS_FILE_NAME_LENGTH'', Num 8),
      (''MQ_AMQP_CLIENT_ID_LENGTH'', Num 256), (''MQ_CLIENT_ID_LENGTH'', Num 23),
      (''MQ_CLIENT_USER_ID_LENGTH'', Num 1024), (''MQ_CLUSTER_NAME_LENGTH'', Num 48),
      (''MQ_COMM_INFO_DESC_LENGTH'', Num 64), (''MQ_COMM_INFO_NAME_LENGTH'', Num 48),
      (''MQ_CONN_NAME_LENGTH'', Num 264), (''MQ_CONN_TAG_LENGTH'', Num 128),
      (''MQ_CONNECTION_ID_LENGTH'', Num 24), (''MQ_CORREL_ID_LENGTH'', Num 24),
      (''MQ_CREATION_DATE_LENGTH'', Num 12), (''MQ_CREATION_TIME_LENGTH'', Num 8),
      (''MQ_CSP_PASSWORD_LENGTH'', Num 256), (''MQ_CSP_TOKEN_LENGTH'', Num 8192),
      (''MQ_DATE_LENGTH'', Num 12), (''MQ_DISTINGUISHED_NAME_LENGTH'', Num 1024),
      (''MQ_DNS_GROUP_NAME_LENGTH'', Num 18), (''MQ_EXIT_DATA_LENGTH'', Num 32),
      (''MQ_EXIT_INFO_NAME_LENGTH'', Num 48), (''MQ_EXIT_NAME_LENGTH'', Num 128),
      (''MQ_EXIT_PD_AREA_LENGTH'', Num 48), (''MQ_EXIT_USER_AREA_LENGTH'', Num 16),
      (''MQ_FACILITY_LENGTH'', Num 8), (''MQ_FACILITY_LIKE_LENGTH'', Num 4),
      (''MQ_FORMAT_LENGTH'', Num 8), (''MQ_FUNCTION_LENGTH'', Num 4),
      (''MQ_GROUP_ID_LENGTH'', Num 24), (''MQ_APPL_FUNCTION_NAME_LENGTH'', Num 10),
      (''MQ_INITIAL_KEY_LENGTH'', Num 256), (''MQ_INSTALLATION_DESC_LENGTH'', Num 64),
      (''MQ_INSTALLATION_NAME_LENGTH'', Num 16), (''MQ_INSTALLATION_PATH_LENGTH'', Num 256),
      (''MQ_JAAS_CONFIG_LENGTH'', Num 1024), (''MQ_LDAP_PASSWORD_LENGTH'', Num 32),
      (''MQ_LDAP_BASE_DN_LENGTH'', Num 1024), (''MQ_LDAP_FIELD_LENGTH'', Num 128),
      (''MQ_LDAP_CLASS_LENGTH'', Num 128), (''MQ_LISTENER_NAME_LENGTH'', Num 48),
      (''MQ_LISTENER_DESC_LENGTH'', Num 64), (''MQ_LOCAL_ADDRESS_LENGTH'', Num 48),
      (''MQ_LTERM_OVERRIDE_LENGTH'', Num 8), (''MQ_LU_NAME_LENGTH'', Num 8),
      (''MQ_LUWID_LENGTH'', Num 16), (''MQ_MAX_EXIT_NAME_LENGTH'', Num 128),
      (''MQ_MAX_MCA_USER_ID_LENGTH'', Num 64), (''MQ_MAX_LDAP_MCA_USER_ID_LENGTH'', Num 1024),
      (''MQ_MAX_PROPERTY_NAME_LENGTH'', Num 4095), (''MQ_MAX_USER_ID_LENGTH'', Num 64),
      (''MQ_MCA_JOB_NAME_LENGTH'', Num 28), (''MQ_MCA_NAME_LENGTH'', Num 20),
      (''MQ_MCA_USER_DATA_LENGTH'', Num 32), (''MQ_MCA_USER_ID_LENGTH'', Num 12),
      (''MQ_LDAP_MCA_USER_ID_LENGTH'', Num 1024), (''MQ_MFS_MAP_NAME_LENGTH'', Num 8),
      (''MQ_MODE_NAME_LENGTH'', Num 8), (''MQ_MSG_HEADER_LENGTH'', Num 4000),
      (''MQ_MSG_ID_LENGTH'', Num 24), (''MQ_MSG_TOKEN_LENGTH'', Num 16),
      (''MQ_NAMELIST_DESC_LENGTH'', Num 64), (''MQ_NAMELIST_NAME_LENGTH'', Num 48),
      (''MQ_NHA_INSTANCE_NAME_LENGTH'', Num 48), (''MQ_OBJECT_INSTANCE_ID_LENGTH'', Num 24),
      (''MQ_OBJECT_NAME_LENGTH'', Num 48), (''MQ_PASS_TICKET_APPL_LENGTH'', Num 8),
      (''MQ_PASSWORD_LENGTH'', Num 12), (''MQ_PROCESS_APPL_ID_LENGTH'', Num 256),
      (''MQ_PROCESS_DESC_LENGTH'', Num 64), (''MQ_PROCESS_ENV_DATA_LENGTH'', Num 128),
      (''MQ_PROCESS_NAME_LENGTH'', Num 48), (''MQ_PROCESS_USER_DATA_LENGTH'', Num 128),
      (''MQ_PROGRAM_NAME_LENGTH'', Num 20), (''MQ_PUT_APPL_NAME_LENGTH'', Num 28),
      (''MQ_PUT_DATE_LENGTH'', Num 8), (''MQ_PUT_TIME_LENGTH'', Num 8),
      (''MQ_Q_DESC_LENGTH'', Num 64), (''MQ_Q_MGR_DESC_LENGTH'', Num 64),
      (''MQ_Q_MGR_IDENTIFIER_LENGTH'', Num 48), (''MQ_Q_MGR_NAME_LENGTH'', Num 48),
      (''MQ_Q_NAME_LENGTH'', Num 48), (''MQ_QSG_NAME_LENGTH'', Num 4),
      (''MQ_REMOTE_SYS_ID_LENGTH'', Num 4), (''MQ_SECURITY_ID_LENGTH'', Num 40),
      (''MQ_SELECTOR_LENGTH'', Num 10240), (''MQ_SERVICE_ARGS_LENGTH'', Num 255),
      (''MQ_SERVICE_COMMAND_LENGTH'', Num 255), (''MQ_SERVICE_DESC_LENGTH'', Num 64),
      (''MQ_SERVICE_NAME_LENGTH'', Num 32), (''MQ_SERVICE_PATH_LENGTH'', Num 255),
      (''MQ_SERVICE_STEP_LENGTH'', Num 8), (''MQ_SHORT_CONN_NAME_LENGTH'', Num 20),
      (''MQ_SHORT_DNAME_LENGTH'', Num 256)]"

definition cmqc_All_Functions_3 :: "abi \<Rightarrow> macros" where
  "cmqc_All_Functions_3 a =
     [(''MQ_SSL_CIPHER_SPEC_LENGTH'', Num 32), (''MQ_SSL_CIPHER_SUITE_LENGTH'', Num 32),
      (''MQ_SSL_CRYPTO_HARDWARE_LENGTH'', Num 256),
      (''MQ_SSL_ENCRYP_KEY_REPO_PWD_LEN'', Num 1536),
      (''MQ_SSL_HANDSHAKE_STAGE_LENGTH'', Num 32), (''MQ_SSL_KEY_LIBRARY_LENGTH'', Num 44),
      (''MQ_SSL_KEY_MEMBER_LENGTH'', Num 8), (''MQ_SSL_KEY_REPOSITORY_LENGTH'', Num 256),
      (''MQ_SSL_KEY_REPO_PWD_LEN'', Num 1024), (''MQ_SSL_PEER_NAME_LENGTH'', Num 1024),
      (''MQ_SSL_SHORT_PEER_NAME_LENGTH'', Num 256), (''MQ_START_CODE_LENGTH'', Num 4),
      (''MQ_STORAGE_CLASS_DESC_LENGTH'', Num 64), (''MQ_STORAGE_CLASS_LENGTH'', Num 8),
      (''MQ_SUB_IDENTITY_LENGTH'', Num 128), (''MQ_SUB_POINT_LENGTH'', Num 128),
      (''MQ_TCP_NAME_LENGTH'', Num 8), (''MQ_TEMPORARY_Q_PREFIX_LENGTH'', Num 32),
      (''MQ_TIME_LENGTH'', Num 8), (''MQ_TOPIC_DESC_LENGTH'', Num 64),
      (''MQ_TOPIC_NAME_LENGTH'', Num 48), (''MQ_TOPIC_STR_LENGTH'', Num 10240),
      (''MQ_TOTAL_EXIT_DATA_LENGTH'', Num 999), (''MQ_TOTAL_EXIT_NAME_LENGTH'', Num 999),
      (''MQ_TP_NAME_LENGTH'', Num 64), (''MQ_TPIPE_NAME_LENGTH'', Num 8),
      (''MQ_TRAN_INSTANCE_ID_LENGTH'', Num 16), (''MQ_TRANSACTION_ID_LENGTH'', Num 4),
      (''MQ_TRIGGER_DATA_LENGTH'', Num 64), (''MQ_TRIGGER_PROGRAM_NAME_LENGTH'', Num 8),
      (''MQ_TRIGGER_TERM_ID_LENGTH'', Num 4), (''MQ_TRIGGER_TRANS_ID_LENGTH'', Num 4),
      (''MQ_USER_ID_LENGTH'', Num 12), (''MQ_VERSION_LENGTH'', Num 8),
      (''MQ_XCF_GROUP_NAME_LENGTH'', Num 8), (''MQ_XCF_MEMBER_NAME_LENGTH'', Num 16),
      (''MQ_SMDS_NAME_LENGTH'', Num 4), (''MQ_CHLAUTH_DESC_LENGTH'', Num 64),
      (''MQ_CUSTOM_LENGTH'', Num 128), (''MQ_SUITE_B_SIZE'', Num 4),
      (''MQ_CERT_LABEL_LENGTH'', Num 64)]"

definition cmqc_Queue_Attributes :: "abi \<Rightarrow> macros" where
  "cmqc_Queue_Attributes a =
     [(''MQQT_LOCAL'', Num 1), (''MQQT_MODEL'', Num 2), (''MQQT_ALIAS'', Num 3),
      (''MQQT_REMOTE'', Num 6), (''MQQT_CLUSTER'', Num 7), (''MQCQT_LOCAL_Q'', Num 1),
      (''MQCQT_ALIAS_Q'', Num 2), (''MQCQT_REMOTE_Q'', Num 3), (''MQCQT_Q_MGR_ALIAS'', Num 4),
      (''MQQT_ALL'', Num 1001), (''MQQDT_PREDEFINED'', Num 1),
      (''MQQDT_PERMANENT_DYNAMIC'', Num 2), (''MQQDT_TEMPORARY_DYNAMIC'', Num 3),
      (''MQQDT_SHARED_DYNAMIC'', Num 4), (''MQQA_GET_INHIBITED'', Num 1),
      (''MQQA_GET_ALLOWED'', Num 0), (''MQQA_PUT_INHIBITED'', Num 1),
      (''MQQA_PUT_ALLOWED'', Num 0), (''MQQA_SHAREABLE'', Num 1),
      (''MQQA_NOT_SHAREABLE'', Num 0), (''MQQA_BACKOUT_HARDENED'', Num 1),
      (''MQQA_BACKOUT_NOT_HARDENED'', Num 0), (''MQMDS_PRIORITY'', Num 0),
      (''MQMDS_FIFO'', Num 1), (''MQNPM_CLASS_NORMAL'', Num 0), (''MQNPM_CLASS_HIGH'', Num 10),
      (''MQTC_OFF'', Num 0), (''MQTC_ON'', Num 1), (''MQTT_NONE'', Num 0),
      (''MQTT_FIRST'', Num 1), (''MQTT_EVERY'', Num 2), (''MQTT_DEPTH'', Num 3),
      (''MQTRIGGER_RESTART_NO'', Num 0), (''MQTRIGGER_RESTART_YES'', Num 1),
      (''MQUS_NORMAL'', Num 0), (''MQUS_TRANSMISSION'', Num 1), (''MQDL_SUPPORTED'', Num 1),
      (''MQDL_NOT_SUPPORTED'', Num 0), (''MQIT_NONE'', Num 0), (''MQIT_MSG_ID'', Num 1),
      (''MQIT_CORREL_ID'', Num 2), (''MQIT_MSG_TOKEN'', Num 4), (''MQIT_GROUP_ID'', Num 5),
      (''MQBND_BIND_ON_OPEN'', Num 0), (''MQBND_BIND_NOT_FIXED'', Num 1),
      (''MQBND_BIND_ON_GROUP'', Num 2), (''MQQSGD_ALL'', Num (- 1)), (''MQQSGD_Q_MGR'', Num 0),
      (''MQQSGD_COPY'', Num 1), (''MQQSGD_SHARED'', Num 2), (''MQQSGD_GROUP'', Num 3),
      (''MQQSGD_PRIVATE'', Num 4), (''MQQSGD_LIVE'', Num 6), (''MQREORG_DISABLED'', Num 0),
      (''MQREORG_ENABLED'', Num 1), (''MQQFS_DEFAULT'', Num (- 1)),
      (''MQCEX_NOLIMIT'', Num (- 1)), (''MQCEX_AS_PARENT'', Num (- 2)), (''MQREADA_NO'', Num 0),
      (''MQREADA_YES'', Num 1), (''MQREADA_DISABLED'', Num 2), (''MQREADA_INHIBITED'', Num 3),
      (''MQREADA_BACKLOG'', Num 4), (''MQPROP_COMPATIBILITY'', Num 0), (''MQPROP_NONE'', Num 1),
      (''MQPROP_ALL'', Num 2), (''MQPROP_FORCE_MQRFH2'', Num 3), (''MQPROP_V6COMPAT'', Num 4),
      (''MQST_BEST_EFFORT'', Num 0), (''MQST_MUST_DUP'', Num 1)]"

definition cmqc_Namelist_Attributes :: "abi \<Rightarrow> macros" where
  "cmqc_Namelist_Attributes a =
     [(''MQNC_MAX_NAMELIST_NAME_COUNT'', Num 256), (''MQNT_NONE'', Num 0), (''MQNT_Q'', Num 1),
      (''MQNT_CLUSTER'', Num 2), (''MQNT_AUTH_INFO'', Num 4), (''MQNT_ALL'', Num 1001)]"

definition cmqc_CF_Structure_Attributes :: "abi \<Rightarrow> macros" where
  "cmqc_CF_Structure_Attributes a =
     [(''MQCFR_YES'', Num 1), (''MQCFR_NO'', Num 0), (''MQRECAUTO_NO'', Num 0),
      (''MQRECAUTO_YES'', Num 1), (''MQCFCONLOS_TERMINATE'', Num 0),
      (''MQCFCONLOS_TOLERATE'', Num 1), (''MQCFCONLOS_ASQMGR'', Num 2)]"

definition cmqc_Service_Attributes :: "abi \<Rightarrow> macros" where
  "cmqc_Service_Attributes a =
     [(''MQSVC_TYPE_COMMAND'', Num 0), (''MQSVC_TYPE_SERVER'', Num 1)]"

definition cmqc_QueueManager_Attributes_1 :: "abi \<Rightarrow> macros" where
  "cmqc_QueueManager_Attributes_1 a =
     [(''MQADOPT_CHECK_NONE'', Num 0), (''MQADOPT_CHECK_ALL'', Num 1),
      (''MQADOPT_CHECK_Q_MGR_NAME'', Num 2), (''MQADOPT_CHECK_NET_ADDR'', Num 4),
      (''MQADOPT_CHECK_CHANNEL_NAME'', Num 8), (''MQADOPT_TYPE_NO'', Num 0),
      (''MQADOPT_TYPE_ALL'', Num 1), (''MQADOPT_TYPE_SVR'', Num 2),
      (''MQADOPT_TYPE_SDR'', Num 4), (''MQADOPT_TYPE_RCVR'', Num 8),
      (''MQADOPT_TYPE_CLUSRCVR'', Num 16), (''MQAUTO_START_NO'', Num 0),
      (''MQAUTO_START_YES'', Num 1), (''MQCHAD_DISABLED'', Num 0), (''MQCHAD_ENABLED'', Num 1),
      (''MQCLWL_USEQ_LOCAL'', Num 0), (''MQCLWL_USEQ_ANY'', Num 1),
      (''MQCLWL_USEQ_AS_Q_MGR'', Num (- 3)), (''MQCMDL_LEVEL_1'', Num 100),
      (''MQCMDL_LEVEL_101'', Num 101), (''MQCMDL_LEVEL_110'', Num 110),
      (''MQCMDL_LEVEL_114'', Num 114), (''MQCMDL_LEVEL_120'', Num 120),
      (''MQCMDL_LEVEL_200'', Num 200), (''MQCMDL_LEVEL_201'', Num 201),
      (''MQCMDL_LEVEL_210'', Num 210), (''MQCMDL_LEVEL_211'', Num 211),
      (''MQCMDL_LEVEL_220'', Num 220), (''MQCMDL_LEVEL_221'', Num 221),
      (''MQCMDL_LEVEL_230'', Num 230), (''MQCMDL_LEVEL_320'', Num 320),
      (''MQCMDL_LEVEL_420'', Num 420), (''MQCMDL_LEVEL_500'', Num 500),
      (''MQCMDL_LEVEL_510'', Num 510), (''MQCMDL_LEVEL_520'', Num 520),
      (''MQCMDL_LEVEL_530'', Num 530), (''MQCMDL_LEVEL_531'', Num 531),
      (''MQCMDL_LEVEL_600'', Num 600), (''MQCMDL_LEVEL_700'', Num 700),
      (''MQCMDL_LEVEL_701'', Num 701), (''MQCMDL_LEVEL_710'', Num 710),
      (''MQCMDL_LEVEL_711'', Num 711), (''MQCMDL_LEVEL_750'', Num 750),
      (''MQCMDL_LEVEL_800'', Num 800), (''MQCMDL_LEVEL_801'', Num 801),
      (''MQCMDL_LEVEL_802'', Num 802), (''MQCMDL_LEVEL_900'', Num 900),
      (''MQCMDL_LEVEL_901'', Num 901), (''MQCMDL_LEVEL_902'', Num 902),
      (''MQCMDL_LEVEL_903'', Num 903), (''MQCMDL_LEVEL_904'', Num 904),
      (''MQCMDL_LEVEL_905'', Num 905), (''MQCMDL_LEVEL_910'', Num 910),
      (''MQCMDL_LEVEL_911'', Num 911), (''MQCMDL_LEVEL_912'', Num 912),
      (''MQCMDL_LEVEL_913'', Num 913), (''MQCMDL_LEVEL_914'', Num 914),
      (''MQCMDL_LEVEL_915'', Num 915), (''MQCMDL_LEVEL_920'', Num 920),
      (''MQCMDL_LEVEL_921'', Num 921), (''MQCMDL_LEVEL_922'', Num 922),
      (''MQCMDL_LEVEL_923'', Num 923), (''MQCMDL_LEVEL_924'', Num 924),
      (''MQCMDL_LEVEL_925'', Num 925), (''MQCMDL_LEVEL_930'', Num 930),
      (''MQCMDL_LEVEL_931'', Num 931), (''MQCMDL_LEVEL_932'', Num 932),
      (''MQCMDL_LEVEL_933'', Num 933), (''MQCMDL_LEVEL_934'', Num 934),
      (''MQCMDL_LEVEL_935'', Num 935), (''MQCMDL_CURRENT_LEVEL'', Num 935),
      (''MQCSRV_CONVERT_NO'', Num 0), (''MQCSRV_CONVERT_YES'', Num 1),
      (''MQCSRV_DLQ_NO'', Num 0), (''MQCSRV_DLQ_YES'', Num 1), (''MQDNSWLM_NO'', Num 0),
      (''MQDNSWLM_YES'', Num 1), (''MQEXPI_OFF'', Num 0), (''MQIGQ_DISABLED'', Num 0),
      (''MQIGQ_ENABLED'', Num 1), (''MQIGQPA_DEFAULT'', Num 1), (''MQIGQPA_CONTEXT'', Num 2),
      (''MQIGQPA_ONLY_IGQ'', Num 3), (''MQIGQPA_ALTERNATE_OR_IGQ'', Num 4),
      (''MQIPADDR_IPV4'', Num 0), (''MQIPADDR_IPV6'', Num 1), (''MQMMBI_UNLIMITED'', Num (- 1))]"

definition cmqc_QueueManager_Attributes_2 :: "abi \<Rightarrow> macros" where
  "cmqc_QueueManager_Attributes_2 a =
     [(''MQMON_NOT_AVAILABLE'', Num (- 1)), (''MQMON_NONE'', Num (- 1)),
      (''MQMON_Q_MGR'', Num (- 3)), (''MQMON_OFF'', Num 0), (''MQMON_ON'', Num 1),
      (''MQMON_DISABLED'', Num 0), (''MQMON_ENABLED'', Num 1), (''MQMON_LOW'', Num 17),
      (''MQMON_MEDIUM'', Num 33), (''MQMON_HIGH'', Num 65), (''MQFUN_TYPE_UNKNOWN'', Num 0),
      (''MQFUN_TYPE_JVM'', Num 1), (''MQFUN_TYPE_PROGRAM'', Num 2),
      (''MQFUN_TYPE_PROCEDURE'', Num 3), (''MQFUN_TYPE_USERDEF'', Num 4),
      (''MQFUN_TYPE_COMMAND'', Num 5), (''MQACTV_DETAIL_LOW'', Num 1),
      (''MQACTV_DETAIL_MEDIUM'', Num 2), (''MQACTV_DETAIL_HIGH'', Num 3), (''MQPL_MVS'', Num 1),
      (''MQPL_OS390'', Num 1), (''MQPL_ZOS'', Num 1), (''MQPL_OS2'', Num 2),
      (''MQPL_AIX'', Num 3), (''MQPL_UNIX'', Num 3), (''MQPL_OS400'', Num 4),
      (''MQPL_WINDOWS'', Num 5), (''MQPL_WINDOWS_NT'', Num 11), (''MQPL_VMS'', Num 12),
      (''MQPL_NSK'', Num 13), (''MQPL_NSS'', Num 13), (''MQPL_OPEN_TP1'', Num 15),
      (''MQPL_VM'', Num 18), (''MQPL_TPF'', Num 23), (''MQPL_VSE'', Num 27),
      (''MQPL_APPLIANCE'', Num 28), (''MQPL_NATIVE'', Num 3),
      (''MQPROP_UNRESTRICTED_LENGTH'', Num (- 1)), (''MQPSM_DISABLED'', Num 0),
      (''MQPSM_COMPAT'', Num 1), (''MQPSM_ENABLED'', Num 2), (''MQPSCLUS_DISABLED'', Num 0),
      (''MQPSCLUS_ENABLED'', Num 1), (''MQQMOPT_DISABLED'', Num 0),
      (''MQQMOPT_ENABLED'', Num 1), (''MQQMOPT_REPLY'', Num 2), (''MQRCVTIME_MULTIPLY'', Num 0),
      (''MQRCVTIME_ADD'', Num 1), (''MQRCVTIME_EQUAL'', Num 2),
      (''MQRECORDING_DISABLED'', Num 0), (''MQRECORDING_Q'', Num 1),
      (''MQRECORDING_MSG'', Num 2), (''MQSCYC_UPPER'', Num 0), (''MQSCYC_MIXED'', Num 1),
      (''MQSQQM_USE'', Num 0), (''MQSQQM_IGNORE'', Num 1)]"

definition cmqc_QueueManager_Attributes_3 :: "abi \<Rightarrow> macros" where
  "cmqc_QueueManager_Attributes_3 a =
     [(''MQSP_AVAILABLE'', Num 1), (''MQSP_NOT_AVAILABLE'', Num 0),
      (''MQSVC_CONTROL_Q_MGR'', Num 0), (''MQSVC_CONTROL_Q_MGR_START'', Num 1),
      (''MQSVC_CONTROL_MANUAL'', Num 2), (''MQSVC_STATUS_STOPPED'', Num 0),
      (''MQSVC_STATUS_STARTING'', Num 1), (''MQSVC_STATUS_RUNNING'', Num 2),
      (''MQSVC_STATUS_STOPPING'', Num 3), (''MQSVC_STATUS_RETRYING'', Num 4),
      (''MQTCPKEEP_NO'', Num 0), (''MQTCPKEEP_YES'', Num 1), (''MQTCPSTACK_SINGLE'', Num 0),
      (''MQTCPSTACK_MULTIPLE'', Num 1), (''MQTRAXSTR_NO'', Num 0), (''MQTRAXSTR_YES'', Num 1),
      (''MQCAP_NOT_SUPPORTED'', Num 0), (''MQCAP_SUPPORTED'', Num 1),
      (''MQCAP_EXPIRED'', Num 2), (''MQMEDIMGSCHED_MANUAL'', Num 0),
      (''MQMEDIMGSCHED_AUTO'', Num 1), (''MQMEDIMGINTVL_OFF'', Num 0),
      (''MQMEDIMGLOGLN_OFF'', Num 0), (''MQIMGRCOV_NO'', Num 0), (''MQIMGRCOV_YES'', Num 1),
      (''MQIMGRCOV_AS_Q_MGR'', Num 2)]"

definition cmqc_Topic_Attributes :: "abi \<Rightarrow> macros" where
  "cmqc_Topic_Attributes a =
     [(''MQDLV_AS_PARENT'', Num 0), (''MQDLV_ALL'', Num 1), (''MQDLV_ALL_DUR'', Num 2),
      (''MQDLV_ALL_AVAIL'', Num 3), (''MQMASTER_NO'', Num 0), (''MQMASTER_YES'', Num 1),
      (''MQSCOPE_ALL'', Num 0), (''MQSCOPE_AS_PARENT'', Num 1), (''MQSCOPE_QMGR'', Num 4),
      (''MQSUB_DURABLE_AS_PARENT'', Num 0), (''MQSUB_DURABLE_ALLOWED'', Num 1),
      (''MQSUB_DURABLE_INHIBITED'', Num 2), (''MQTA_BLOCK'', Num 1), (''MQTA_PASSTHRU'', Num 2),
      (''MQTA_SUB_AS_PARENT'', Num 0), (''MQTA_SUB_INHIBITED'', Num 1),
      (''MQTA_SUB_ALLOWED'', Num 2), (''MQTA_PROXY_SUB_FORCE'', Num 1),
      (''MQTA_PROXY_SUB_FIRSTUSE'', Num 2), (''MQTA_PUB_AS_PARENT'', Num 0),
      (''MQTA_PUB_INHIBITED'', Num 1), (''MQTA_PUB_ALLOWED'', Num 2), (''MQTOPT_LOCAL'', Num 0),
      (''MQTOPT_CLUSTER'', Num 1), (''MQTOPT_ALL'', Num 2), (''MQMC_AS_PARENT'', Num 0),
      (''MQMC_ENABLED'', Num 1), (''MQMC_DISABLED'', Num 2), (''MQMC_ONLY'', Num 3),
      (''MQCIT_MULTICAST'', Num 1)]"

definition cmqc_Subscription_Attributes :: "abi \<Rightarrow> macros" where
  "cmqc_Subscription_Attributes a =
     [(''MQDC_MANAGED'', Num 1), (''MQDC_PROVIDED'', Num 2), (''MQPSPROP_NONE'', Num 0),
      (''MQPSPROP_COMPAT'', Num 1), (''MQPSPROP_RFH2'', Num 2), (''MQPSPROP_MSGPROP'', Num 3),
      (''MQRU_PUBLISH_ON_REQUEST'', Num 1), (''MQRU_PUBLISH_ALL'', Num 2),
      (''MQSUB_DURABLE_ALL'', Num (- 1)), (''MQSUB_DURABLE_YES'', Num 1),
      (''MQSUB_DURABLE_NO'', Num 2), (''MQTSCOPE_QMGR'', Num 1), (''MQTSCOPE_ALL'', Num 2),
      (''MQVU_FIXED_USER'', Num 1), (''MQVU_ANY_USER'', Num 2), (''MQWS_DEFAULT'', Num 0),
      (''MQWS_CHAR'', Num 1), (''MQWS_TOPIC'', Num 2)]"

definition cmqc_Channel_Authentication_Configuration_1 :: "abi \<Rightarrow> macros" where
  "cmqc_Channel_Authentication_Configuration_1 a =
     [(''MQUSRC_MAP'', Num 0), (''MQUSRC_NOACCESS'', Num 1), (''MQUSRC_CHANNEL'', Num 2),
      (''MQWARN_YES'', Num 1), (''MQWARN_NO'', Num 0), (''MQDSB_DEFAULT'', Num 0),
      (''MQDSB_8K'', Num 1), (''MQDSB_16K'', Num 2), (''MQDSB_32K'', Num 3),
      (''MQDSB_64K'', Num 4), (''MQDSB_128K'', Num 5), (''MQDSB_256K'', Num 6),
      (''MQDSB_512K'', Num 7), (''MQDSB_1024K'', Num 8), (''MQDSB_1M'', Num 8),
      (''MQDSE_DEFAULT'', Num 0), (''MQDSE_YES'', Num 1), (''MQDSE_NO'', Num 2),
      (''MQCFOFFLD_NONE'', Num 0), (''MQCFOFFLD_SMDS'', Num 1), (''MQCFOFFLD_DB2'', Num 2),
      (''MQCFOFFLD_BOTH'', Num 3), (''MQUSEDLQ_AS_PARENT'', Num 0), (''MQUSEDLQ_NO'', Num 1),
      (''MQUSEDLQ_YES'', Num 2)]"

definition cmqc_Channel_Authentication_Configuration_2 :: "abi \<Rightarrow> macros" where
  "cmqc_Channel_Authentication_Configuration_2 a =
     [(''MQ_MQTT_MAX_KEEP_ALIVE'', Num 65536), (''MQ_SSL_KEY_PASSPHRASE_LENGTH'', Num 1024)]"

definition cmqc_MQCLOSE_Function :: "abi \<Rightarrow> macros" where
  "cmqc_MQCLOSE_Function a =
     [(''MQHO_UNUSABLE_HOBJ'', Num (- 1)), (''MQHO_NONE'', Num 0), (''MQCO_IMMEDIATE'', Num 0),
      (''MQCO_NONE'', Num 0), (''MQCO_DELETE'', Num 1), (''MQCO_DELETE_PURGE'', Num 2),
      (''MQCO_KEEP_SUB'', Num 4), (''MQCO_REMOVE_SUB'', Num 8), (''MQCO_QUIESCE'', Num 32)]"

definition cmqc_MQCTL_and_MQCB_Functions :: "abi \<Rightarrow> macros" where
  "cmqc_MQCTL_and_MQCB_Functions a =
     [(''MQOP_START'', Num 1), (''MQOP_START_WAIT'', Num 2), (''MQOP_STOP'', Num 4),
      (''MQOP_REGISTER'', Num 256), (''MQOP_DEREGISTER'', Num 512),
      (''MQOP_SUSPEND'', Num 65536), (''MQOP_RESUME'', Num 131072)]"

definition cmqc_MQINQ_Function_1 :: "abi \<Rightarrow> macros" where
  "cmqc_MQINQ_Function_1 a =
     [(''MQBA_FIRST'', Num 6001), (''MQBA_LAST'', Num 8000)]"

definition cmqc_MQINQ_Function_2 :: "abi \<Rightarrow> macros" where
  "cmqc_MQINQ_Function_2 a =
     [(''MQCA_ADMIN_TOPIC_NAME'', Num 2105), (''MQCA_ALTERATION_DATE'', Num 2027),
      (''MQCA_ALTERATION_TIME'', Num 2028), (''MQCA_AMQP_SSL_CIPHER_SUITES'', Num 2137),
      (''MQCA_AMQP_VERSION'', Num 2136), (''MQCA_APPL_ID'', Num 2001),
      (''MQCA_AUTH_INFO_CONN_NAME'', Num 2053), (''MQCA_AUTH_INFO_DESC'', Num 2046),
      (''MQCA_AUTH_INFO_NAME'', Num 2045), (''MQCA_AUTH_INFO_OCSP_URL'', Num 2109),
      (''MQCA_AUTO_REORG_CATALOG'', Num 2091), (''MQCA_AUTO_REORG_START_TIME'', Num 2090),
      (''MQCA_BACKOUT_REQ_Q_NAME'', Num 2019), (''MQCA_BASE_OBJECT_NAME'', Num 2002),
      (''MQCA_BASE_Q_NAME'', Num 2002), (''MQCA_BATCH_INTERFACE_ID'', Num 2068),
      (''MQCA_CERT_LABEL'', Num 2121), (''MQCA_CF_STRUC_DESC'', Num 2052),
      (''MQCA_CF_STRUC_NAME'', Num 2039), (''MQCA_CHANNEL_AUTO_DEF_EXIT'', Num 2026),
      (''MQCA_CHILD'', Num 2101), (''MQCA_CHINIT_SERVICE_PARM'', Num 2076),
      (''MQCA_CHLAUTH_DESC'', Num 2118), (''MQCA_CICS_FILE_NAME'', Num 2060),
      (''MQCA_CLUSTER_DATE'', Num 2037), (''MQCA_CLUSTER_NAME'', Num 2029),
      (''MQCA_CLUSTER_NAMELIST'', Num 2030), (''MQCA_CLUSTER_Q_MGR_NAME'', Num 2031),
      (''MQCA_CLUSTER_TIME'', Num 2038), (''MQCA_CLUSTER_WORKLOAD_DATA'', Num 2034),
      (''MQCA_CLUSTER_WORKLOAD_EXIT'', Num 2033), (''MQCA_CLUS_CHL_NAME'', Num 2124),
      (''MQCA_COMMAND_INPUT_Q_NAME'', Num 2003), (''MQCA_COMMAND_REPLY_Q_NAME'', Num 2067),
      (''MQCA_COMM_INFO_DESC'', Num 2111), (''MQCA_COMM_INFO_NAME'', Num 2110),
      (''MQCA_CONN_AUTH'', Num 2125), (''MQCA_CREATION_DATE'', Num 2004),
      (''MQCA_CREATION_TIME'', Num 2005), (''MQCA_CUSTOM'', Num 2119),
      (''MQCA_DEAD_LETTER_Q_NAME'', Num 2006), (''MQCA_DEF_XMIT_Q_NAME'', Num 2025),
      (''MQCA_DNS_GROUP'', Num 2071), (''MQCA_ENV_DATA'', Num 2007), (''MQCA_FIRST'', Num 2001),
      (''MQCA_IGQ_USER_ID'', Num 2041), (''MQCA_INITIAL_KEY'', Num 2054),
      (''MQCA_INITIATION_Q_NAME'', Num 2008), (''MQCA_INSTALLATION_DESC'', Num 2115),
      (''MQCA_INSTALLATION_NAME'', Num 2116), (''MQCA_INSTALLATION_PATH'', Num 2117),
      (''MQCA_LAST'', Num 4000), (''MQCA_LAST_USED'', Num 2138),
      (''MQCA_LDAP_BASE_DN_GROUPS'', Num 2132), (''MQCA_LDAP_BASE_DN_USERS'', Num 2126),
      (''MQCA_LDAP_FIND_GROUP_FIELD'', Num 2135), (''MQCA_LDAP_GROUP_ATTR_FIELD'', Num 2134),
      (''MQCA_LDAP_GROUP_OBJECT_CLASS'', Num 2133), (''MQCA_LDAP_PASSWORD'', Num 2048),
      (''MQCA_LDAP_SHORT_USER_FIELD'', Num 2127), (''MQCA_LDAP_USER_ATTR_FIELD'', Num 2129),
      (''MQCA_LDAP_USER_NAME'', Num 2047), (''MQCA_LDAP_USER_OBJECT_CLASS'', Num 2128),
      (''MQCA_LU62_ARM_SUFFIX'', Num 2074), (''MQCA_LU_GROUP_NAME'', Num 2072),
      (''MQCA_LU_NAME'', Num 2073), (''MQCA_MODEL_DURABLE_Q'', Num 2096),
      (''MQCA_MODEL_NON_DURABLE_Q'', Num 2097), (''MQCA_MONITOR_Q_NAME'', Num 2066),
      (''MQCA_NAMELIST_DESC'', Num 2009), (''MQCA_NAMELIST_NAME'', Num 2010),
      (''MQCA_NAMES'', Num 2020), (''MQCA_PARENT'', Num 2102),
      (''MQCA_PASS_TICKET_APPL'', Num 2086), (''MQCA_POLICY_NAME'', Num 2112),
      (''MQCA_PROCESS_DESC'', Num 2011), (''MQCA_PROCESS_NAME'', Num 2012),
      (''MQCA_QSG_CERT_LABEL'', Num 2131), (''MQCA_QSG_NAME'', Num 2040),
      (''MQCA_Q_DESC'', Num 2013), (''MQCA_Q_MGR_DESC'', Num 2014),
      (''MQCA_Q_MGR_IDENTIFIER'', Num 2032), (''MQCA_Q_MGR_NAME'', Num 2015),
      (''MQCA_Q_NAME'', Num 2016), (''MQCA_RECIPIENT_DN'', Num 2114),
      (''MQCA_REMOTE_Q_MGR_NAME'', Num 2017), (''MQCA_REMOTE_Q_NAME'', Num 2018),
      (''MQCA_REPOSITORY_NAME'', Num 2035), (''MQCA_REPOSITORY_NAMELIST'', Num 2036),
      (''MQCA_RESUME_DATE'', Num 2098), (''MQCA_RESUME_TIME'', Num 2099),
      (''MQCA_SERVICE_DESC'', Num 2078), (''MQCA_SERVICE_NAME'', Num 2077),
      (''MQCA_SERVICE_START_ARGS'', Num 2080), (''MQCA_SERVICE_START_COMMAND'', Num 2079),
      (''MQCA_SERVICE_STOP_ARGS'', Num 2082), (''MQCA_SERVICE_STOP_COMMAND'', Num 2081),
      (''MQCA_SIGNER_DN'', Num 2113), (''MQCA_SSL_CERT_ISSUER_NAME'', Num 2130),
      (''MQCA_SSL_CRL_NAMELIST'', Num 2050), (''MQCA_SSL_CRYPTO_HARDWARE'', Num 2051),
      (''MQCA_SSL_KEY_LIBRARY'', Num 2069), (''MQCA_SSL_KEY_MEMBER'', Num 2070),
      (''MQCA_SSL_KEY_REPOSITORY'', Num 2049), (''MQCA_SSL_KEY_REPO_PASSWORD'', Num 2055),
      (''MQCA_STDERR_DESTINATION'', Num 2084), (''MQCA_STDOUT_DESTINATION'', Num 2083),
      (''MQCA_STORAGE_CLASS'', Num 2022), (''MQCA_STORAGE_CLASS_DESC'', Num 2042),
      (''MQCA_STREAM_QUEUE_NAME'', Num 2138), (''MQCA_SYSTEM_LOG_Q_NAME'', Num 2065),
      (''MQCA_TCP_NAME'', Num 2075), (''MQCA_TOPIC_DESC'', Num 2093),
      (''MQCA_TOPIC_NAME'', Num 2092), (''MQCA_TOPIC_STRING'', Num 2094),
      (''MQCA_TOPIC_STRING_FILTER'', Num 2108), (''MQCA_TPIPE_NAME'', Num 2085),
      (''MQCA_TRIGGER_CHANNEL_NAME'', Num 2064), (''MQCA_TRIGGER_DATA'', Num 2023)]"

definition cmqc_MQINQ_Function_3 :: "abi \<Rightarrow> macros" where
  "cmqc_MQINQ_Function_3 a =
     [(''MQCA_TRIGGER_PROGRAM_NAME'', Num 2062), (''MQCA_TRIGGER_TERM_ID'', Num 2063),
      (''MQCA_TRIGGER_TRANS_ID'', Num 2061), (''MQCA_USER_DATA'', Num 2021),
      (''MQCA_USER_LIST'', Num 4000), (''MQCA_VERSION'', Num 2120),
      (''MQCA_XCF_GROUP_NAME'', Num 2043), (''MQCA_XCF_MEMBER_NAME'', Num 2044),
      (''MQCA_XMIT_Q_NAME'', Num 2024), (''MQCA_XR_SSL_CIPHER_SUITES'', Num 2123),
      (''MQCA_XR_VERSION'', Num 2122)]"

definition cmqc_MQINQ_Function_4 :: "abi \<Rightarrow> macros" where
  "cmqc_MQINQ_Function_4 a =
     [(''MQIA_ACCOUNTING_CONN_OVERRIDE'', Num 136), (''MQIA_ACCOUNTING_INTERVAL'', Num 135),
      (''MQIA_ACCOUNTING_MQI'', Num 133), (''MQIA_ACCOUNTING_Q'', Num 134),
      (''MQIA_ACTIVE_CHANNELS'', Num 100), (''MQIA_ACTIVITY_CONN_OVERRIDE'', Num 239),
      (''MQIA_ACTIVITY_RECORDING'', Num 138), (''MQIA_ACTIVITY_TRACE'', Num 240),
      (''MQIA_ADOPTNEWMCA_CHECK'', Num 102), (''MQIA_ADOPTNEWMCA_INTERVAL'', Num 104),
      (''MQIA_ADOPTNEWMCA_TYPE'', Num 103), (''MQIA_ADOPT_CONTEXT'', Num 260),
      (''MQIA_ADVANCED_CAPABILITY'', Num 273), (''MQIA_AMQP_CAPABILITY'', Num 265),
      (''MQIA_APPL_TYPE'', Num 1), (''MQIA_ARCHIVE'', Num 60),
      (''MQIA_AUTHENTICATION_FAIL_DELAY'', Num 259), (''MQIA_AUTHENTICATION_METHOD'', Num 266),
      (''MQIA_AUTHORITY_EVENT'', Num 47), (''MQIA_AUTH_INFO_TYPE'', Num 66),
      (''MQIA_AUTO_REORGANIZATION'', Num 173), (''MQIA_AUTO_REORG_INTERVAL'', Num 174),
      (''MQIA_BACKOUT_THRESHOLD'', Num 22), (''MQIA_BASE_TYPE'', Num 193),
      (''MQIA_BATCH_INTERFACE_AUTO'', Num 86), (''MQIA_BRIDGE_EVENT'', Num 74),
      (''MQIA_CAP_EXPIRY'', Num 276), (''MQIA_CERT_VAL_POLICY'', Num 252),
      (''MQIA_CF_CFCONLOS'', Num 246), (''MQIA_CF_LEVEL'', Num 70),
      (''MQIA_CF_OFFLDUSE'', Num 229), (''MQIA_CF_OFFLOAD'', Num 224),
      (''MQIA_CF_OFFLOAD_THRESHOLD1'', Num 225), (''MQIA_CF_OFFLOAD_THRESHOLD2'', Num 226),
      (''MQIA_CF_OFFLOAD_THRESHOLD3'', Num 227), (''MQIA_CF_RECAUTO'', Num 244),
      (''MQIA_CF_RECOVER'', Num 71), (''MQIA_CF_SMDS_BUFFERS'', Num 228),
      (''MQIA_CHANNEL_AUTO_DEF'', Num 55), (''MQIA_CHANNEL_AUTO_DEF_EVENT'', Num 56),
      (''MQIA_CHANNEL_EVENT'', Num 73), (''MQIA_CHECK_CLIENT_BINDING'', Num 258),
      (''MQIA_CHECK_LOCAL_BINDING'', Num 257), (''MQIA_CHINIT_ADAPTERS'', Num 101),
      (''MQIA_CHINIT_CONTROL'', Num 119), (''MQIA_CHINIT_DISPATCHERS'', Num 105),
      (''MQIA_CHINIT_TRACE_AUTO_START'', Num 117), (''MQIA_CHINIT_TRACE_TABLE_SIZE'', Num 118),
      (''MQIA_CHLAUTH_RECORDS'', Num 248), (''MQIA_CLUSTER_OBJECT_STATE'', Num 256),
      (''MQIA_CLUSTER_PUB_ROUTE'', Num 255), (''MQIA_CLUSTER_Q_TYPE'', Num 59),
      (''MQIA_CLUSTER_WORKLOAD_LENGTH'', Num 58), (''MQIA_CLWL_MRU_CHANNELS'', Num 97),
      (''MQIA_CLWL_Q_PRIORITY'', Num 96), (''MQIA_CLWL_Q_RANK'', Num 95),
      (''MQIA_CLWL_USEQ'', Num 98), (''MQIA_CMD_SERVER_AUTO'', Num 87),
      (''MQIA_CMD_SERVER_CONTROL'', Num 120), (''MQIA_CMD_SERVER_CONVERT_MSG'', Num 88),
      (''MQIA_CMD_SERVER_DLQ_MSG'', Num 89), (''MQIA_CODED_CHAR_SET_ID'', Num 2),
      (''MQIA_COMMAND_EVENT'', Num 99), (''MQIA_COMMAND_LEVEL'', Num 31),
      (''MQIA_COMM_EVENT'', Num 232), (''MQIA_COMM_INFO_TYPE'', Num 223),
      (''MQIA_CONFIGURATION_EVENT'', Num 51), (''MQIA_CPI_LEVEL'', Num 27),
      (''MQIA_CURRENT_Q_DEPTH'', Num 3), (''MQIA_DEFINITION_TYPE'', Num 7),
      (''MQIA_DEF_BIND'', Num 61), (''MQIA_DEF_CLUSTER_XMIT_Q_TYPE'', Num 250),
      (''MQIA_DEF_INPUT_OPEN_OPTION'', Num 4), (''MQIA_DEF_PERSISTENCE'', Num 5),
      (''MQIA_DEF_PRIORITY'', Num 6), (''MQIA_DEF_PUT_RESPONSE_TYPE'', Num 184),
      (''MQIA_DEF_READ_AHEAD'', Num 188), (''MQIA_DISPLAY_TYPE'', Num 262),
      (''MQIA_DIST_LISTS'', Num 34), (''MQIA_DNS_WLM'', Num 106),
      (''MQIA_DURABLE_SUB'', Num 175), (''MQIA_ENCRYPTION_ALGORITHM'', Num 237),
      (''MQIA_EXPIRY_INTERVAL'', Num 39), (''MQIA_FIRST'', Num 1), (''MQIA_GROUP_UR'', Num 221),
      (''MQIA_HARDEN_GET_BACKOUT'', Num 8), (''MQIA_HIGH_Q_DEPTH'', Num 36),
      (''MQIA_IGQ_PUT_AUTHORITY'', Num 65), (''MQIA_INDEX_TYPE'', Num 57),
      (''MQIA_INHIBIT_EVENT'', Num 48), (''MQIA_INHIBIT_GET'', Num 9),
      (''MQIA_INHIBIT_PUB'', Num 181), (''MQIA_INHIBIT_PUT'', Num 10),
      (''MQIA_INHIBIT_SUB'', Num 182), (''MQIA_INTRA_GROUP_QUEUING'', Num 64),
      (''MQIA_IP_ADDRESS_VERSION'', Num 93), (''MQIA_KEY_REUSE_COUNT'', Num 267),
      (''MQIA_LAST'', Num 2000), (''MQIA_LAST_USED'', Num 276),
      (''MQIA_LDAP_AUTHORMD'', Num 263), (''MQIA_LDAP_NESTGRP'', Num 264),
      (''MQIA_LDAP_SECURE_COMM'', Num 261), (''MQIA_LISTENER_PORT_NUMBER'', Num 85),
      (''MQIA_LISTENER_TIMER'', Num 107), (''MQIA_LOCAL_EVENT'', Num 49),
      (''MQIA_LOGGER_EVENT'', Num 94), (''MQIA_LU62_CHANNELS'', Num 108),
      (''MQIA_MASTER_ADMIN'', Num 186), (''MQIA_MAX_CHANNELS'', Num 109),
      (''MQIA_MAX_CLIENTS'', Num 172), (''MQIA_MAX_GLOBAL_LOCKS'', Num 83),
      (''MQIA_MAX_HANDLES'', Num 11), (''MQIA_MAX_LOCAL_LOCKS'', Num 84),
      (''MQIA_MAX_MSG_LENGTH'', Num 13), (''MQIA_MAX_OPEN_Q'', Num 80),
      (''MQIA_MAX_PRIORITY'', Num 14), (''MQIA_MAX_PROPERTIES_LENGTH'', Num 192),
      (''MQIA_MAX_Q_DEPTH'', Num 15), (''MQIA_MAX_Q_FILE_SIZE'', Num 274)]"

definition cmqc_MQINQ_Function_5 :: "abi \<Rightarrow> macros" where
  "cmqc_MQINQ_Function_5 a =
     [(''MQIA_MAX_Q_TRIGGERS'', Num 90), (''MQIA_MAX_RECOVERY_TASKS'', Num 171),
      (''MQIA_MAX_RESPONSES'', Num 230), (''MQIA_MAX_UNCOMMITTED_MSGS'', Num 33),
      (''MQIA_MCAST_BRIDGE'', Num 233), (''MQIA_MEDIA_IMAGE_INTERVAL'', Num 269),
      (''MQIA_MEDIA_IMAGE_LOG_LENGTH'', Num 270), (''MQIA_MEDIA_IMAGE_RECOVER_OBJ'', Num 271),
      (''MQIA_MEDIA_IMAGE_RECOVER_Q'', Num 272), (''MQIA_MEDIA_IMAGE_SCHEDULING'', Num 268),
      (''MQIA_MONITORING_AUTO_CLUSSDR'', Num 124), (''MQIA_MONITORING_CHANNEL'', Num 122),
      (''MQIA_MONITORING_Q'', Num 123), (''MQIA_MONITOR_INTERVAL'', Num 81),
      (''MQIA_MSG_DELIVERY_SEQUENCE'', Num 16), (''MQIA_MSG_DEQ_COUNT'', Num 38),
      (''MQIA_MSG_ENQ_COUNT'', Num 37), (''MQIA_MSG_MARK_BROWSE_INTERVAL'', Num 68),
      (''MQIA_MULTICAST'', Num 176), (''MQIA_NAMELIST_TYPE'', Num 72),
      (''MQIA_NAME_COUNT'', Num 19), (''MQIA_NPM_CLASS'', Num 78),
      (''MQIA_NPM_DELIVERY'', Num 196), (''MQIA_OPEN_INPUT_COUNT'', Num 17),
      (''MQIA_OPEN_OUTPUT_COUNT'', Num 18), (''MQIA_OUTBOUND_PORT_MAX'', Num 140),
      (''MQIA_OUTBOUND_PORT_MIN'', Num 110), (''MQIA_PAGESET_ID'', Num 62),
      (''MQIA_PERFORMANCE_EVENT'', Num 53), (''MQIA_PLATFORM'', Num 32),
      (''MQIA_PM_DELIVERY'', Num 195), (''MQIA_POLICY_VERSION'', Num 238),
      (''MQIA_PROPERTY_CONTROL'', Num 190), (''MQIA_PROT_POLICY_CAPABILITY'', Num 251),
      (''MQIA_PROXY_SUB'', Num 199), (''MQIA_PUBSUB_CLUSTER'', Num 249),
      (''MQIA_PUBSUB_MAXMSG_RETRY_COUNT'', Num 206), (''MQIA_PUBSUB_MODE'', Num 187),
      (''MQIA_PUBSUB_NP_MSG'', Num 203), (''MQIA_PUBSUB_NP_RESP'', Num 205),
      (''MQIA_PUBSUB_SYNC_PT'', Num 207), (''MQIA_PUB_COUNT'', Num 215),
      (''MQIA_PUB_SCOPE'', Num 219), (''MQIA_QMGR_CFCONLOS'', Num 245),
      (''MQIA_QMOPT_CONS_COMMS_MSGS'', Num 155), (''MQIA_QMOPT_CONS_CRITICAL_MSGS'', Num 154),
      (''MQIA_QMOPT_CONS_ERROR_MSGS'', Num 153), (''MQIA_QMOPT_CONS_INFO_MSGS'', Num 151),
      (''MQIA_QMOPT_CONS_REORG_MSGS'', Num 156), (''MQIA_QMOPT_CONS_SYSTEM_MSGS'', Num 157),
      (''MQIA_QMOPT_CONS_WARNING_MSGS'', Num 152), (''MQIA_QMOPT_CSMT_ON_ERROR'', Num 150),
      (''MQIA_QMOPT_INTERNAL_DUMP'', Num 170), (''MQIA_QMOPT_LOG_COMMS_MSGS'', Num 162),
      (''MQIA_QMOPT_LOG_CRITICAL_MSGS'', Num 161), (''MQIA_QMOPT_LOG_ERROR_MSGS'', Num 160),
      (''MQIA_QMOPT_LOG_INFO_MSGS'', Num 158), (''MQIA_QMOPT_LOG_REORG_MSGS'', Num 163),
      (''MQIA_QMOPT_LOG_SYSTEM_MSGS'', Num 164), (''MQIA_QMOPT_LOG_WARNING_MSGS'', Num 159),
      (''MQIA_QMOPT_TRACE_COMMS'', Num 166), (''MQIA_QMOPT_TRACE_CONVERSION'', Num 168),
      (''MQIA_QMOPT_TRACE_MQI_CALLS'', Num 165), (''MQIA_QMOPT_TRACE_REORG'', Num 167),
      (''MQIA_QMOPT_TRACE_SYSTEM'', Num 169), (''MQIA_QSG_DISP'', Num 63),
      (''MQIA_Q_DEPTH_HIGH_EVENT'', Num 43), (''MQIA_Q_DEPTH_HIGH_LIMIT'', Num 40),
      (''MQIA_Q_DEPTH_LOW_EVENT'', Num 44), (''MQIA_Q_DEPTH_LOW_LIMIT'', Num 41),
      (''MQIA_Q_DEPTH_MAX_EVENT'', Num 42), (''MQIA_Q_SERVICE_INTERVAL'', Num 54),
      (''MQIA_Q_SERVICE_INTERVAL_EVENT'', Num 46), (''MQIA_Q_TYPE'', Num 20),
      (''MQIA_Q_USERS'', Num 82), (''MQIA_READ_AHEAD'', Num 189),
      (''MQIA_RECEIVE_TIMEOUT'', Num 111), (''MQIA_RECEIVE_TIMEOUT_MIN'', Num 113),
      (''MQIA_RECEIVE_TIMEOUT_TYPE'', Num 112), (''MQIA_REMOTE_EVENT'', Num 50),
      (''MQIA_RESPONSE_RESTART_POINT'', Num 231), (''MQIA_RETENTION_INTERVAL'', Num 21),
      (''MQIA_REVERSE_DNS_LOOKUP'', Num 254), (''MQIA_SCOPE'', Num 45),
      (''MQIA_SECURITY_CASE'', Num 141), (''MQIA_SERVICE_CONTROL'', Num 139),
      (''MQIA_SERVICE_TYPE'', Num 121), (''MQIA_SHAREABILITY'', Num 23),
      (''MQIA_SHARED_Q_Q_MGR_NAME'', Num 77), (''MQIA_SIGNATURE_ALGORITHM'', Num 236),
      (''MQIA_SSL_EVENT'', Num 75), (''MQIA_SSL_FIPS_REQUIRED'', Num 92),
      (''MQIA_SSL_RESET_COUNT'', Num 76), (''MQIA_SSL_TASKS'', Num 69),
      (''MQIA_START_STOP_EVENT'', Num 52), (''MQIA_STATISTICS_AUTO_CLUSSDR'', Num 130),
      (''MQIA_STATISTICS_CHANNEL'', Num 129), (''MQIA_STATISTICS_INTERVAL'', Num 131),
      (''MQIA_STATISTICS_MQI'', Num 127), (''MQIA_STATISTICS_Q'', Num 128),
      (''MQIA_STREAM_QUEUE_QOS'', Num 275), (''MQIA_SUB_CONFIGURATION_EVENT'', Num 242),
      (''MQIA_SUB_COUNT'', Num 204), (''MQIA_SUB_SCOPE'', Num 218),
      (''MQIA_SUITE_B_STRENGTH'', Num 247), (''MQIA_SYNCPOINT'', Num 30),
      (''MQIA_TCP_CHANNELS'', Num 114), (''MQIA_TCP_KEEP_ALIVE'', Num 115),
      (''MQIA_TCP_STACK_TYPE'', Num 116), (''MQIA_TIME_SINCE_RESET'', Num 35),
      (''MQIA_TOLERATE_UNPROTECTED'', Num 235), (''MQIA_TOPIC_DEF_PERSISTENCE'', Num 185),
      (''MQIA_TOPIC_NODE_COUNT'', Num 253), (''MQIA_TOPIC_TYPE'', Num 208),
      (''MQIA_TRACE_ROUTE_RECORDING'', Num 137), (''MQIA_TREE_LIFE_TIME'', Num 183),
      (''MQIA_TRIGGER_CONTROL'', Num 24), (''MQIA_TRIGGER_DEPTH'', Num 29),
      (''MQIA_TRIGGER_INTERVAL'', Num 25), (''MQIA_TRIGGER_MSG_PRIORITY'', Num 26)]"

definition cmqc_MQINQ_Function_6 :: "abi \<Rightarrow> macros" where
  "cmqc_MQINQ_Function_6 a =
     [(''MQIA_TRIGGER_RESTART'', Num 91), (''MQIA_TRIGGER_TYPE'', Num 28),
      (''MQIA_UR_DISP'', Num 222), (''MQIA_USAGE'', Num 12), (''MQIA_USER_LIST'', Num 2000),
      (''MQIA_USE_DEAD_LETTER_Q'', Num 234), (''MQIA_WILDCARD_OPERATION'', Num 216),
      (''MQIA_XR_CAPABILITY'', Num 243), (''MQIAV_NOT_APPLICABLE'', Num (- 1)),
      (''MQIAV_UNDEFINED'', Num (- 2)), (''MQMCB_DISABLED'', Num 0), (''MQMCB_ENABLED'', Num 1),
      (''MQKEY_REUSE_DISABLED'', Num 0), (''MQKEY_REUSE_UNLIMITED'', Num (- 1)),
      (''MQGA_FIRST'', Num 8001), (''MQGA_LAST'', Num 9000)]"

definition cmqc_MQOPEN_Function :: "abi \<Rightarrow> macros" where
  "cmqc_MQOPEN_Function a =
     [(''MQOO_BIND_AS_Q_DEF'', Num 0), (''MQOO_READ_AHEAD_AS_Q_DEF'', Num 0),
      (''MQOO_INPUT_AS_Q_DEF'', Num 1), (''MQOO_INPUT_SHARED'', Num 2),
      (''MQOO_INPUT_EXCLUSIVE'', Num 4), (''MQOO_BROWSE'', Num 8), (''MQOO_OUTPUT'', Num 16),
      (''MQOO_INQUIRE'', Num 32), (''MQOO_SET'', Num 64), (''MQOO_SAVE_ALL_CONTEXT'', Num 128),
      (''MQOO_PASS_IDENTITY_CONTEXT'', Num 256), (''MQOO_PASS_ALL_CONTEXT'', Num 512),
      (''MQOO_SET_IDENTITY_CONTEXT'', Num 1024), (''MQOO_SET_ALL_CONTEXT'', Num 2048),
      (''MQOO_ALTERNATE_USER_AUTHORITY'', Num 4096), (''MQOO_FAIL_IF_QUIESCING'', Num 8192),
      (''MQOO_BIND_ON_OPEN'', Num 16384), (''MQOO_BIND_ON_GROUP'', Num 4194304),
      (''MQOO_BIND_NOT_FIXED'', Num 32768), (''MQOO_CO_OP'', Num 131072),
      (''MQOO_NO_READ_AHEAD'', Num 524288), (''MQOO_READ_AHEAD'', Num 1048576),
      (''MQOO_NO_MULTICAST'', Num 2097152), (''MQOO_RESOLVE_LOCAL_Q'', Num 262144),
      (''MQOO_RESOLVE_LOCAL_TOPIC'', Num 262144), (''MQOO_RESOLVE_NAMES'', Num 65536)]"

definition cmqc_MQSETMP_Function :: "abi \<Rightarrow> macros" where
  "cmqc_MQSETMP_Function a =
     [(''MQTYPE_AS_SET'', Num 0), (''MQTYPE_NULL'', Num 2), (''MQTYPE_BOOLEAN'', Num 4),
      (''MQTYPE_BYTE_STRING'', Num 8), (''MQTYPE_INT8'', Num 16), (''MQTYPE_INT16'', Num 32),
      (''MQTYPE_INT32'', Num 64), (''MQTYPE_LONG'', Num 64), (''MQTYPE_INT64'', Num 128),
      (''MQTYPE_FLOAT32'', Num 256), (''MQTYPE_FLOAT64'', Num 512),
      (''MQTYPE_STRING'', Num 1024), (''MQVL_NULL_TERMINATED'', Num (- 1)),
      (''MQVL_EMPTY_STRING'', Num 0)]"

definition cmqc_MQSTAT_Function :: "abi \<Rightarrow> macros" where
  "cmqc_MQSTAT_Function a =
     [(''MQSTAT_TYPE_ASYNC_ERROR'', Num 0), (''MQSTAT_TYPE_RECONNECTION'', Num 1),
      (''MQSTAT_TYPE_RECONNECTION_ERROR'', Num 2)]"

definition cmqc_MQSUB_Function :: "abi \<Rightarrow> macros" where
  "cmqc_MQSUB_Function a =
     [(''MQSO_NONE'', Num 0), (''MQSO_NON_DURABLE'', Num 0),
      (''MQSO_READ_AHEAD_AS_Q_DEF'', Num 0), (''MQSO_ALTER'', Num 1), (''MQSO_CREATE'', Num 2),
      (''MQSO_RESUME'', Num 4), (''MQSO_DURABLE'', Num 8), (''MQSO_GROUP_SUB'', Num 16),
      (''MQSO_MANAGED'', Num 32), (''MQSO_SET_IDENTITY_CONTEXT'', Num 64),
      (''MQSO_NO_MULTICAST'', Num 128), (''MQSO_FIXED_USERID'', Num 256),
      (''MQSO_ANY_USERID'', Num 512), (''MQSO_PUBLICATIONS_ON_REQUEST'', Num 2048),
      (''MQSO_NEW_PUBLICATIONS_ONLY'', Num 4096), (''MQSO_FAIL_IF_QUIESCING'', Num 8192),
      (''MQSO_ALTERNATE_USER_AUTHORITY'', Num 262144), (''MQSO_WILDCARD_CHAR'', Num 1048576),
      (''MQSO_WILDCARD_TOPIC'', Num 2097152), (''MQSO_SET_CORREL_ID'', Num 4194304),
      (''MQSO_SCOPE_QMGR'', Num 67108864), (''MQSO_NO_READ_AHEAD'', Num 134217728),
      (''MQSO_READ_AHEAD'', Num 268435456)]"

definition cmqc_MQSUBRQ_Function :: "abi \<Rightarrow> macros" where
  "cmqc_MQSUBRQ_Function a =
     [(''MQSR_ACTION_PUBLICATION'', Num 1)]"

end
