(* ===== verification/Mqi_Pcf_A.thy ===== *)
theory Mqi_Pcf_A
  imports C_Init
begin

text \<open>
  The value macros of \<open>cmqcfc.h\<close> (programmable command formats): commands, reason codes,
  structure constants and the first half of the parameter identifiers.
\<close>

definition cmqcfc_MQCFH_1 :: "abi \<Rightarrow> macros" where
  "cmqcfc_MQCFH_1 a =
     [(''MQCFH_STRUC_LENGTH'', Num 36), (''MQCFH_VERSION_1'', Num 1),
      (''MQCFH_VERSION_2'', Num 2), (''MQCFH_VERSION_3'', Num 3),
      (''MQCFH_CURRENT_VERSION'', Num 3)]"

definition cmqcfc_MQCFH_2 :: "abi \<Rightarrow> macros" where
  "cmqcfc_MQCFH_2 a =
     [(''MQCMD_NONE'', Num 0), (''MQCMD_CHANGE_Q_MGR'', Num 1),
      (''MQCMD_INQUIRE_Q_MGR'', Num 2), (''MQCMD_CHANGE_PROCESS'', Num 3),
      (''MQCMD_COPY_PROCESS'', Num 4), (''MQCMD_CREATE_PROCESS'', Num 5),
      (''MQCMD_DELETE_PROCESS'', Num 6), (''MQCMD_INQUIRE_PROCESS'', Num 7),
      (''MQCMD_CHANGE_Q'', Num 8), (''MQCMD_CLEAR_Q'', Num 9), (''MQCMD_COPY_Q'', Num 10),
      (''MQCMD_CREATE_Q'', Num 11), (''MQCMD_DELETE_Q'', Num 12), (''MQCMD_INQUIRE_Q'', Num 13),
      (''MQCMD_REFRESH_Q_MGR'', Num 16), (''MQCMD_RESET_Q_STATS'', Num 17),
      (''MQCMD_INQUIRE_Q_NAMES'', Num 18), (''MQCMD_INQUIRE_PROCESS_NAMES'', Num 19),
      (''MQCMD_INQUIRE_CHANNEL_NAMES'', Num 20), (''MQCMD_CHANGE_CHANNEL'', Num 21),
      (''MQCMD_COPY_CHANNEL'', Num 22), (''MQCMD_CREATE_CHANNEL'', Num 23),
      (''MQCMD_DELETE_CHANNEL'', Num 24), (''MQCMD_INQUIRE_CHANNEL'', Num 25),
      (''MQCMD_PING_CHANNEL'', Num 26), (''MQCMD_RESET_CHANNEL'', Num 27),
      (''MQCMD_START_CHANNEL'', Num 28), (''MQCMD_STOP_CHANNEL'', Num 29),
      (''MQCMD_START_CHANNEL_INIT'', Num 30), (''MQCMD_START_CHANNEL_LISTENER'', Num 31),
      (''MQCMD_CHANGE_NAMELIST'', Num 32), (''MQCMD_COPY_NAMELIST'', Num 33),
      (''MQCMD_CREATE_NAMELIST'', Num 34), (''MQCMD_DELETE_NAMELIST'', Num 35),
      (''MQCMD_INQUIRE_NAMELIST'', Num 36), (''MQCMD_INQUIRE_NAMELIST_NAMES'', Num 37),
      (''MQCMD_ESCAPE'', Num 38), (''MQCMD_RESOLVE_CHANNEL'', Num 39),
      (''MQCMD_PING_Q_MGR'', Num 40), (''MQCMD_INQUIRE_Q_STATUS'', Num 41),
      (''MQCMD_INQUIRE_CHANNEL_STATUS'', Num 42), (''MQCMD_CONFIG_EVENT'', Num 43),
      (''MQCMD_Q_MGR_EVENT'', Num 44), (''MQCMD_PERFM_EVENT'', Num 45),
      (''MQCMD_CHANNEL_EVENT'', Num 46), (''MQCMD_DELETE_PUBLICATION'', Num 60),
      (''MQCMD_DEREGISTER_PUBLISHER'', Num 61), (''MQCMD_DEREGISTER_SUBSCRIBER'', Num 62),
      (''MQCMD_PUBLISH'', Num 63), (''MQCMD_REGISTER_PUBLISHER'', Num 64),
      (''MQCMD_REGISTER_SUBSCRIBER'', Num 65), (''MQCMD_REQUEST_UPDATE'', Num 66),
      (''MQCMD_BROKER_INTERNAL'', Num 67), (''MQCMD_ACTIVITY_MSG'', Num 69),
      (''MQCMD_INQUIRE_CLUSTER_Q_MGR'', Num 70), (''MQCMD_RESUME_Q_MGR_CLUSTER'', Num 71),
      (''MQCMD_SUSPEND_Q_MGR_CLUSTER'', Num 72), (''MQCMD_REFRESH_CLUSTER'', Num 73),
      (''MQCMD_RESET_CLUSTER'', Num 74), (''MQCMD_TRACE_ROUTE'', Num 75),
      (''MQCMD_REFRESH_SECURITY'', Num 78), (''MQCMD_CHANGE_AUTH_INFO'', Num 79),
      (''MQCMD_COPY_AUTH_INFO'', Num 80), (''MQCMD_CREATE_AUTH_INFO'', Num 81),
      (''MQCMD_DELETE_AUTH_INFO'', Num 82), (''MQCMD_INQUIRE_AUTH_INFO'', Num 83),
      (''MQCMD_INQUIRE_AUTH_INFO_NAMES'', Num 84), (''MQCMD_INQUIRE_CONNECTION'', Num 85),
      (''MQCMD_STOP_CONNECTION'', Num 86), (''MQCMD_INQUIRE_AUTH_RECS'', Num 87),
      (''MQCMD_INQUIRE_ENTITY_AUTH'', Num 88), (''MQCMD_DELETE_AUTH_REC'', Num 89),
      (''MQCMD_SET_AUTH_REC'', Num 90), (''MQCMD_LOGGER_EVENT'', Num 91),
      (''MQCMD_RESET_Q_MGR'', Num 92), (''MQCMD_CHANGE_LISTENER'', Num 93),
      (''MQCMD_COPY_LISTENER'', Num 94), (''MQCMD_CREATE_LISTENER'', Num 95),
      (''MQCMD_DELETE_LISTENER'', Num 96), (''MQCMD_INQUIRE_LISTENER'', Num 97),
      (''MQCMD_INQUIRE_LISTENER_STATUS'', Num 98), (''MQCMD_COMMAND_EVENT'', Num 99),
      (''MQCMD_CHANGE_SECURITY'', Num 100), (''MQCMD_CHANGE_CF_STRUC'', Num 101),
      (''MQCMD_CHANGE_STG_CLASS'', Num 102), (''MQCMD_CHANGE_TRACE'', Num 103),
      (''MQCMD_ARCHIVE_LOG'', Num 104), (''MQCMD_BACKUP_CF_STRUC'', Num 105),
      (''MQCMD_CREATE_BUFFER_POOL'', Num 106), (''MQCMD_CREATE_PAGE_SET'', Num 107),
      (''MQCMD_CREATE_CF_STRUC'', Num 108), (''MQCMD_CREATE_STG_CLASS'', Num 109),
      (''MQCMD_COPY_CF_STRUC'', Num 110), (''MQCMD_COPY_STG_CLASS'', Num 111),
      (''MQCMD_DELETE_CF_STRUC'', Num 112), (''MQCMD_DELETE_STG_CLASS'', Num 113),
      (''MQCMD_INQUIRE_ARCHIVE'', Num 114), (''MQCMD_INQUIRE_CF_STRUC'', Num 115),
      (''MQCMD_INQUIRE_CF_STRUC_STATUS'', Num 116), (''MQCMD_INQUIRE_CMD_SERVER'', Num 117),
      (''MQCMD_INQUIRE_CHANNEL_INIT'', Num 118), (''MQCMD_INQUIRE_QSG'', Num 119),
      (''MQCMD_INQUIRE_LOG'', Num 120), (''MQCMD_INQUIRE_SECURITY'', Num 121),
      (''MQCMD_INQUIRE_STG_CLASS'', Num 122), (''MQCMD_INQUIRE_SYSTEM'', Num 123),
      (''MQCMD_INQUIRE_THREAD'', Num 124), (''MQCMD_INQUIRE_TRACE'', Num 125),
      (''MQCMD_INQUIRE_USAGE'', Num 126), (''MQCMD_MOVE_Q'', Num 127),
      (''MQCMD_RECOVER_BSDS'', Num 128), (''MQCMD_RECOVER_CF_STRUC'', Num 129),
      (''MQCMD_RESET_TPIPE'', Num 130), (''MQCMD_RESOLVE_INDOUBT'', Num 131),
      (''MQCMD_RESUME_Q_MGR'', Num 132), (''MQCMD_REVERIFY_SECURITY'', Num 133),
      (''MQCMD_SET_ARCHIVE'', Num 134), (''MQCMD_SET_LOG'', Num 136),
      (''MQCMD_SET_SYSTEM'', Num 137)]"

definition cmqcfc_MQCFH_3 :: "abi \<Rightarrow> macros" where
  "cmqcfc_MQCFH_3 a =
     [(''MQCMD_START_CMD_SERVER'', Num 138), (''MQCMD_START_Q_MGR'', Num 139),
      (''MQCMD_START_TRACE'', Num 140), (''MQCMD_STOP_CHANNEL_INIT'', Num 141),
      (''MQCMD_STOP_CHANNEL_LISTENER'', Num 142), (''MQCMD_STOP_CMD_SERVER'', Num 143),
      (''MQCMD_STOP_Q_MGR'', Num 144), (''MQCMD_STOP_TRACE'', Num 145),
      (''MQCMD_SUSPEND_Q_MGR'', Num 146), (''MQCMD_INQUIRE_CF_STRUC_NAMES'', Num 147),
      (''MQCMD_INQUIRE_STG_CLASS_NAMES'', Num 148), (''MQCMD_CHANGE_SERVICE'', Num 149),
      (''MQCMD_COPY_SERVICE'', Num 150), (''MQCMD_CREATE_SERVICE'', Num 151),
      (''MQCMD_DELETE_SERVICE'', Num 152), (''MQCMD_INQUIRE_SERVICE'', Num 153),
      (''MQCMD_INQUIRE_SERVICE_STATUS'', Num 154), (''MQCMD_START_SERVICE'', Num 155),
      (''MQCMD_STOP_SERVICE'', Num 156), (''MQCMD_DELETE_BUFFER_POOL'', Num 157),
      (''MQCMD_DELETE_PAGE_SET'', Num 158), (''MQCMD_CHANGE_BUFFER_POOL'', Num 159),
      (''MQCMD_CHANGE_PAGE_SET'', Num 160), (''MQCMD_INQUIRE_Q_MGR_STATUS'', Num 161),
      (''MQCMD_CREATE_LOG'', Num 162), (''MQCMD_STATISTICS_MQI'', Num 164),
      (''MQCMD_STATISTICS_Q'', Num 165), (''MQCMD_STATISTICS_CHANNEL'', Num 166),
      (''MQCMD_ACCOUNTING_MQI'', Num 167), (''MQCMD_ACCOUNTING_Q'', Num 168),
      (''MQCMD_INQUIRE_AUTH_SERVICE'', Num 169), (''MQCMD_CHANGE_TOPIC'', Num 170),
      (''MQCMD_COPY_TOPIC'', Num 171), (''MQCMD_CREATE_TOPIC'', Num 172),
      (''MQCMD_DELETE_TOPIC'', Num 173), (''MQCMD_INQUIRE_TOPIC'', Num 174),
      (''MQCMD_INQUIRE_TOPIC_NAMES'', Num 175), (''MQCMD_INQUIRE_SUBSCRIPTION'', Num 176),
      (''MQCMD_CREATE_SUBSCRIPTION'', Num 177), (''MQCMD_CHANGE_SUBSCRIPTION'', Num 178),
      (''MQCMD_DELETE_SUBSCRIPTION'', Num 179), (''MQCMD_COPY_SUBSCRIPTION'', Num 181),
      (''MQCMD_INQUIRE_SUB_STATUS'', Num 182), (''MQCMD_INQUIRE_TOPIC_STATUS'', Num 183),
      (''MQCMD_CLEAR_TOPIC_STRING'', Num 184), (''MQCMD_INQUIRE_PUBSUB_STATUS'', Num 185),
      (''MQCMD_INQUIRE_SMDS'', Num 186), (''MQCMD_CHANGE_SMDS'', Num 187),
      (''MQCMD_RESET_SMDS'', Num 188), (''MQCMD_CREATE_COMM_INFO'', Num 190),
      (''MQCMD_INQUIRE_COMM_INFO'', Num 191), (''MQCMD_CHANGE_COMM_INFO'', Num 192),
      (''MQCMD_COPY_COMM_INFO'', Num 193), (''MQCMD_DELETE_COMM_INFO'', Num 194),
      (''MQCMD_PURGE_CHANNEL'', Num 195), (''MQCMD_MQXR_DIAGNOSTICS'', Num 196),
      (''MQCMD_START_SMDSCONN'', Num 197), (''MQCMD_STOP_SMDSCONN'', Num 198),
      (''MQCMD_INQUIRE_SMDSCONN'', Num 199), (''MQCMD_INQUIRE_MQXR_STATUS'', Num 200),
      (''MQCMD_START_CLIENT_TRACE'', Num 201), (''MQCMD_STOP_CLIENT_TRACE'', Num 202),
      (''MQCMD_SET_CHLAUTH_REC'', Num 203), (''MQCMD_INQUIRE_CHLAUTH_RECS'', Num 204),
      (''MQCMD_INQUIRE_PROT_POLICY'', Num 205), (''MQCMD_CREATE_PROT_POLICY'', Num 206),
      (''MQCMD_DELETE_PROT_POLICY'', Num 207), (''MQCMD_CHANGE_PROT_POLICY'', Num 208),
      (''MQCMD_SET_PROT_POLICY'', Num 208), (''MQCMD_ACTIVITY_TRACE'', Num 209),
      (''MQCMD_RESET_CF_STRUC'', Num 213), (''MQCMD_INQUIRE_XR_CAPABILITY'', Num 214),
      (''MQCMD_INQUIRE_AMQP_CAPABILITY'', Num 216), (''MQCMD_AMQP_DIAGNOSTICS'', Num 217),
      (''MQCMD_INTER_Q_MGR_STATUS'', Num 218), (''MQCMD_INTER_Q_MGR_BALANCE'', Num 219),
      (''MQCMD_INQUIRE_APPL_STATUS'', Num 220), (''MQCFC_LAST'', Num 1),
      (''MQCFC_NOT_LAST'', Num 0)]"

definition cmqcfc_MQCFH_4 :: "abi \<Rightarrow> macros" where
  "cmqcfc_MQCFH_4 a =
     [(''MQRCCF_CFH_TYPE_ERROR'', Num 3001), (''MQRCCF_CFH_LENGTH_ERROR'', Num 3002),
      (''MQRCCF_CFH_VERSION_ERROR'', Num 3003), (''MQRCCF_CFH_MSG_SEQ_NUMBER_ERR'', Num 3004),
      (''MQRCCF_CFH_CONTROL_ERROR'', Num 3005), (''MQRCCF_CFH_PARM_COUNT_ERROR'', Num 3006),
      (''MQRCCF_CFH_COMMAND_ERROR'', Num 3007), (''MQRCCF_COMMAND_FAILED'', Num 3008),
      (''MQRCCF_CFIN_LENGTH_ERROR'', Num 3009), (''MQRCCF_CFST_LENGTH_ERROR'', Num 3010),
      (''MQRCCF_CFST_STRING_LENGTH_ERR'', Num 3011), (''MQRCCF_FORCE_VALUE_ERROR'', Num 3012),
      (''MQRCCF_STRUCTURE_TYPE_ERROR'', Num 3013), (''MQRCCF_CFIN_PARM_ID_ERROR'', Num 3014),
      (''MQRCCF_CFST_PARM_ID_ERROR'', Num 3015), (''MQRCCF_MSG_LENGTH_ERROR'', Num 3016),
      (''MQRCCF_CFIN_DUPLICATE_PARM'', Num 3017), (''MQRCCF_CFST_DUPLICATE_PARM'', Num 3018),
      (''MQRCCF_PARM_COUNT_TOO_SMALL'', Num 3019), (''MQRCCF_PARM_COUNT_TOO_BIG'', Num 3020),
      (''MQRCCF_Q_ALREADY_IN_CELL'', Num 3021), (''MQRCCF_Q_TYPE_ERROR'', Num 3022),
      (''MQRCCF_MD_FORMAT_ERROR'', Num 3023), (''MQRCCF_CFSL_LENGTH_ERROR'', Num 3024),
      (''MQRCCF_REPLACE_VALUE_ERROR'', Num 3025), (''MQRCCF_CFIL_DUPLICATE_VALUE'', Num 3026),
      (''MQRCCF_CFIL_COUNT_ERROR'', Num 3027), (''MQRCCF_CFIL_LENGTH_ERROR'', Num 3028),
      (''MQRCCF_QUIESCE_VALUE_ERROR'', Num 3029), (''MQRCCF_MODE_VALUE_ERROR'', Num 3029),
      (''MQRCCF_MSG_SEQ_NUMBER_ERROR'', Num 3030), (''MQRCCF_PING_DATA_COUNT_ERROR'', Num 3031),
      (''MQRCCF_PING_DATA_COMPARE_ERROR'', Num 3032), (''MQRCCF_CFSL_PARM_ID_ERROR'', Num 3033),
      (''MQRCCF_CHANNEL_TYPE_ERROR'', Num 3034), (''MQRCCF_PARM_SEQUENCE_ERROR'', Num 3035),
      (''MQRCCF_XMIT_PROTOCOL_TYPE_ERR'', Num 3036), (''MQRCCF_BATCH_SIZE_ERROR'', Num 3037),
      (''MQRCCF_DISC_INT_ERROR'', Num 3038), (''MQRCCF_SHORT_RETRY_ERROR'', Num 3039),
      (''MQRCCF_SHORT_TIMER_ERROR'', Num 3040), (''MQRCCF_LONG_RETRY_ERROR'', Num 3041),
      (''MQRCCF_LONG_TIMER_ERROR'', Num 3042), (''MQRCCF_SEQ_NUMBER_WRAP_ERROR'', Num 3043),
      (''MQRCCF_MAX_MSG_LENGTH_ERROR'', Num 3044), (''MQRCCF_PUT_AUTH_ERROR'', Num 3045),
      (''MQRCCF_PURGE_VALUE_ERROR'', Num 3046), (''MQRCCF_CFIL_PARM_ID_ERROR'', Num 3047),
      (''MQRCCF_MSG_TRUNCATED'', Num 3048), (''MQRCCF_CCSID_ERROR'', Num 3049),
      (''MQRCCF_ENCODING_ERROR'', Num 3050), (''MQRCCF_QUEUES_VALUE_ERROR'', Num 3051),
      (''MQRCCF_DATA_CONV_VALUE_ERROR'', Num 3052), (''MQRCCF_INDOUBT_VALUE_ERROR'', Num 3053),
      (''MQRCCF_ESCAPE_TYPE_ERROR'', Num 3054), (''MQRCCF_REPOS_VALUE_ERROR'', Num 3055),
      (''MQRCCF_CHANNEL_TABLE_ERROR'', Num 3062), (''MQRCCF_MCA_TYPE_ERROR'', Num 3063),
      (''MQRCCF_CHL_INST_TYPE_ERROR'', Num 3064), (''MQRCCF_CHL_STATUS_NOT_FOUND'', Num 3065),
      (''MQRCCF_CFSL_DUPLICATE_PARM'', Num 3066),
      (''MQRCCF_CFSL_TOTAL_LENGTH_ERROR'', Num 3067), (''MQRCCF_CFSL_COUNT_ERROR'', Num 3068),
      (''MQRCCF_CFSL_STRING_LENGTH_ERR'', Num 3069), (''MQRCCF_BROKER_DELETED'', Num 3070),
      (''MQRCCF_STREAM_ERROR'', Num 3071), (''MQRCCF_TOPIC_ERROR'', Num 3072),
      (''MQRCCF_NOT_REGISTERED'', Num 3073), (''MQRCCF_Q_MGR_NAME_ERROR'', Num 3074),
      (''MQRCCF_INCORRECT_STREAM'', Num 3075), (''MQRCCF_Q_NAME_ERROR'', Num 3076),
      (''MQRCCF_NO_RETAINED_MSG'', Num 3077), (''MQRCCF_DUPLICATE_IDENTITY'', Num 3078),
      (''MQRCCF_INCORRECT_Q'', Num 3079), (''MQRCCF_CORREL_ID_ERROR'', Num 3080),
      (''MQRCCF_NOT_AUTHORIZED'', Num 3081), (''MQRCCF_UNKNOWN_STREAM'', Num 3082),
      (''MQRCCF_REG_OPTIONS_ERROR'', Num 3083), (''MQRCCF_PUB_OPTIONS_ERROR'', Num 3084),
      (''MQRCCF_UNKNOWN_BROKER'', Num 3085), (''MQRCCF_Q_MGR_CCSID_ERROR'', Num 3086),
      (''MQRCCF_DEL_OPTIONS_ERROR'', Num 3087), (''MQRCCF_CLUSTER_NAME_CONFLICT'', Num 3088),
      (''MQRCCF_REPOS_NAME_CONFLICT'', Num 3089), (''MQRCCF_CLUSTER_Q_USAGE_ERROR'', Num 3090),
      (''MQRCCF_ACTION_VALUE_ERROR'', Num 3091), (''MQRCCF_COMMS_LIBRARY_ERROR'', Num 3092),
      (''MQRCCF_NETBIOS_NAME_ERROR'', Num 3093), (''MQRCCF_BROKER_COMMAND_FAILED'', Num 3094),
      (''MQRCCF_CFST_CONFLICTING_PARM'', Num 3095), (''MQRCCF_PATH_NOT_VALID'', Num 3096),
      (''MQRCCF_PARM_SYNTAX_ERROR'', Num 3097), (''MQRCCF_PWD_LENGTH_ERROR'', Num 3098),
      (''MQRCCF_FILTER_ERROR'', Num 3150), (''MQRCCF_WRONG_USER'', Num 3151),
      (''MQRCCF_DUPLICATE_SUBSCRIPTION'', Num 3152), (''MQRCCF_SUB_NAME_ERROR'', Num 3153),
      (''MQRCCF_SUB_IDENTITY_ERROR'', Num 3154), (''MQRCCF_SUBSCRIPTION_IN_USE'', Num 3155),
      (''MQRCCF_SUBSCRIPTION_LOCKED'', Num 3156), (''MQRCCF_ALREADY_JOINED'', Num 3157),
      (''MQRCCF_OBJECT_IN_USE'', Num 3160), (''MQRCCF_UNKNOWN_FILE_NAME'', Num 3161),
      (''MQRCCF_FILE_NOT_AVAILABLE'', Num 3162), (''MQRCCF_DISC_RETRY_ERROR'', Num 3163),
      (''MQRCCF_ALLOC_RETRY_ERROR'', Num 3164), (''MQRCCF_ALLOC_SLOW_TIMER_ERROR'', Num 3165),
      (''MQRCCF_ALLOC_FAST_TIMER_ERROR'', Num 3166), (''MQRCCF_PORT_NUMBER_ERROR'', Num 3167),
      (''MQRCCF_CHL_SYSTEM_NOT_ACTIVE'', Num 3168), (''MQRCCF_ENTITY_NAME_MISSING'', Num 3169),
      (''MQRCCF_PROFILE_NAME_ERROR'', Num 3170), (''MQRCCF_AUTH_VALUE_ERROR'', Num 3171),
      (''MQRCCF_AUTH_VALUE_MISSING'', Num 3172), (''MQRCCF_OBJECT_TYPE_MISSING'', Num 3173),
      (''MQRCCF_CONNECTION_ID_ERROR'', Num 3174), (''MQRCCF_LOG_TYPE_ERROR'', Num 3175),
      (''MQRCCF_PROGRAM_NOT_AVAILABLE'', Num 3176), (''MQRCCF_PROGRAM_AUTH_FAILED'', Num 3177)]"

definition cmqcfc_MQCFH_5 :: "abi \<Rightarrow> macros" where
  "cmqcfc_MQCFH_5 a =
     [(''MQRCCF_NONE_FOUND'', Num 3200), (''MQRCCF_SECURITY_SWITCH_OFF'', Num 3201),
      (''MQRCCF_SECURITY_REFRESH_FAILED'', Num 3202), (''MQRCCF_PARM_CONFLICT'', Num 3203),
      (''MQRCCF_COMMAND_INHIBITED'', Num 3204), (''MQRCCF_OBJECT_BEING_DELETED'', Num 3205),
      (''MQRCCF_STORAGE_CLASS_IN_USE'', Num 3207),
      (''MQRCCF_OBJECT_NAME_RESTRICTED'', Num 3208),
      (''MQRCCF_OBJECT_LIMIT_EXCEEDED'', Num 3209), (''MQRCCF_OBJECT_OPEN_FORCE'', Num 3210),
      (''MQRCCF_DISPOSITION_CONFLICT'', Num 3211), (''MQRCCF_Q_MGR_NOT_IN_QSG'', Num 3212),
      (''MQRCCF_ATTR_VALUE_FIXED'', Num 3213), (''MQRCCF_NAMELIST_ERROR'', Num 3215),
      (''MQRCCF_NO_CHANNEL_INITIATOR'', Num 3217),
      (''MQRCCF_CHANNEL_INITIATOR_ERROR'', Num 3218),
      (''MQRCCF_COMMAND_LEVEL_CONFLICT'', Num 3222), (''MQRCCF_Q_ATTR_CONFLICT'', Num 3223),
      (''MQRCCF_EVENTS_DISABLED'', Num 3224), (''MQRCCF_COMMAND_SCOPE_ERROR'', Num 3225),
      (''MQRCCF_COMMAND_REPLY_ERROR'', Num 3226), (''MQRCCF_FUNCTION_RESTRICTED'', Num 3227),
      (''MQRCCF_PARM_MISSING'', Num 3228), (''MQRCCF_PARM_VALUE_ERROR'', Num 3229),
      (''MQRCCF_COMMAND_LENGTH_ERROR'', Num 3230), (''MQRCCF_COMMAND_ORIGIN_ERROR'', Num 3231),
      (''MQRCCF_LISTENER_CONFLICT'', Num 3232), (''MQRCCF_LISTENER_STARTED'', Num 3233),
      (''MQRCCF_LISTENER_STOPPED'', Num 3234), (''MQRCCF_CHANNEL_ERROR'', Num 3235),
      (''MQRCCF_CF_STRUC_ERROR'', Num 3236), (''MQRCCF_UNKNOWN_USER_ID'', Num 3237),
      (''MQRCCF_UNEXPECTED_ERROR'', Num 3238), (''MQRCCF_NO_XCF_PARTNER'', Num 3239),
      (''MQRCCF_CFGR_PARM_ID_ERROR'', Num 3240), (''MQRCCF_CFIF_LENGTH_ERROR'', Num 3241),
      (''MQRCCF_CFIF_OPERATOR_ERROR'', Num 3242), (''MQRCCF_CFIF_PARM_ID_ERROR'', Num 3243),
      (''MQRCCF_CFSF_FILTER_VAL_LEN_ERR'', Num 3244), (''MQRCCF_CFSF_LENGTH_ERROR'', Num 3245),
      (''MQRCCF_CFSF_OPERATOR_ERROR'', Num 3246), (''MQRCCF_CFSF_PARM_ID_ERROR'', Num 3247),
      (''MQRCCF_TOO_MANY_FILTERS'', Num 3248), (''MQRCCF_LISTENER_RUNNING'', Num 3249),
      (''MQRCCF_LSTR_STATUS_NOT_FOUND'', Num 3250), (''MQRCCF_SERVICE_RUNNING'', Num 3251),
      (''MQRCCF_SERV_STATUS_NOT_FOUND'', Num 3252), (''MQRCCF_SERVICE_STOPPED'', Num 3253),
      (''MQRCCF_CFBS_DUPLICATE_PARM'', Num 3254), (''MQRCCF_CFBS_LENGTH_ERROR'', Num 3255),
      (''MQRCCF_CFBS_PARM_ID_ERROR'', Num 3256), (''MQRCCF_CFBS_STRING_LENGTH_ERR'', Num 3257),
      (''MQRCCF_CFGR_LENGTH_ERROR'', Num 3258), (''MQRCCF_CFGR_PARM_COUNT_ERROR'', Num 3259),
      (''MQRCCF_CONN_NOT_STOPPED'', Num 3260), (''MQRCCF_SERVICE_REQUEST_PENDING'', Num 3261),
      (''MQRCCF_NO_START_CMD'', Num 3262), (''MQRCCF_NO_STOP_CMD'', Num 3263),
      (''MQRCCF_CFBF_LENGTH_ERROR'', Num 3264), (''MQRCCF_CFBF_PARM_ID_ERROR'', Num 3265),
      (''MQRCCF_CFBF_OPERATOR_ERROR'', Num 3266),
      (''MQRCCF_CFBF_FILTER_VAL_LEN_ERR'', Num 3267),
      (''MQRCCF_LISTENER_STILL_ACTIVE'', Num 3268),
      (''MQRCCF_DEF_XMIT_Q_CLUS_ERROR'', Num 3269),
      (''MQRCCF_TOPICSTR_ALREADY_EXISTS'', Num 3300),
      (''MQRCCF_SHARING_CONVS_ERROR'', Num 3301), (''MQRCCF_SHARING_CONVS_TYPE'', Num 3302),
      (''MQRCCF_SECURITY_CASE_CONFLICT'', Num 3303), (''MQRCCF_TOPIC_TYPE_ERROR'', Num 3305),
      (''MQRCCF_MAX_INSTANCES_ERROR'', Num 3306), (''MQRCCF_MAX_INSTS_PER_CLNT_ERR'', Num 3307),
      (''MQRCCF_TOPIC_STRING_NOT_FOUND'', Num 3308),
      (''MQRCCF_SUBSCRIPTION_POINT_ERR'', Num 3309), (''MQRCCF_SUB_ALREADY_EXISTS'', Num 3311),
      (''MQRCCF_UNKNOWN_OBJECT_NAME'', Num 3312), (''MQRCCF_REMOTE_Q_NAME_ERROR'', Num 3313),
      (''MQRCCF_DURABILITY_NOT_ALLOWED'', Num 3314), (''MQRCCF_HOBJ_ERROR'', Num 3315),
      (''MQRCCF_DEST_NAME_ERROR'', Num 3316), (''MQRCCF_INVALID_DESTINATION'', Num 3317),
      (''MQRCCF_PUBSUB_INHIBITED'', Num 3318), (''MQRCCF_GROUPUR_CHECKS_FAILED'', Num 3319),
      (''MQRCCF_COMM_INFO_TYPE_ERROR'', Num 3320), (''MQRCCF_USE_CLIENT_ID_ERROR'', Num 3321),
      (''MQRCCF_CLIENT_ID_NOT_FOUND'', Num 3322), (''MQRCCF_CLIENT_ID_ERROR'', Num 3323),
      (''MQRCCF_PORT_IN_USE'', Num 3324), (''MQRCCF_SSL_ALT_PROVIDER_REQD'', Num 3325),
      (''MQRCCF_CHLAUTH_TYPE_ERROR'', Num 3326), (''MQRCCF_CHLAUTH_ACTION_ERROR'', Num 3327),
      (''MQRCCF_POLICY_NOT_FOUND'', Num 3328), (''MQRCCF_ENCRYPTION_ALG_ERROR'', Num 3329),
      (''MQRCCF_SIGNATURE_ALG_ERROR'', Num 3330), (''MQRCCF_TOLERATION_POL_ERROR'', Num 3331),
      (''MQRCCF_POLICY_VERSION_ERROR'', Num 3332), (''MQRCCF_RECIPIENT_DN_MISSING'', Num 3333),
      (''MQRCCF_POLICY_NAME_MISSING'', Num 3334), (''MQRCCF_CHLAUTH_USERSRC_ERROR'', Num 3335),
      (''MQRCCF_WRONG_CHLAUTH_TYPE'', Num 3336), (''MQRCCF_CHLAUTH_ALREADY_EXISTS'', Num 3337),
      (''MQRCCF_CHLAUTH_NOT_FOUND'', Num 3338), (''MQRCCF_WRONG_CHLAUTH_ACTION'', Num 3339),
      (''MQRCCF_WRONG_CHLAUTH_USERSRC'', Num 3340), (''MQRCCF_CHLAUTH_WARN_ERROR'', Num 3341),
      (''MQRCCF_WRONG_CHLAUTH_MATCH'', Num 3342), (''MQRCCF_IPADDR_RANGE_CONFLICT'', Num 3343),
      (''MQRCCF_CHLAUTH_MAX_EXCEEDED'', Num 3344), (''MQRCCF_IPADDR_ERROR'', Num 3345),
      (''MQRCCF_ADDRESS_ERROR'', Num 3345), (''MQRCCF_IPADDR_RANGE_ERROR'', Num 3346),
      (''MQRCCF_PROFILE_NAME_MISSING'', Num 3347),
      (''MQRCCF_CHLAUTH_CLNTUSER_ERROR'', Num 3348), (''MQRCCF_CHLAUTH_NAME_ERROR'', Num 3349),
      (''MQRCCF_CHLAUTH_RUNCHECK_ERROR'', Num 3350),
      (''MQRCCF_CF_STRUC_ALREADY_FAILED'', Num 3351),
      (''MQRCCF_CFCONLOS_CHECKS_FAILED'', Num 3352), (''MQRCCF_SUITE_B_ERROR'', Num 3353),
      (''MQRCCF_CHANNEL_NOT_STARTED'', Num 3354), (''MQRCCF_CUSTOM_ERROR'', Num 3355),
      (''MQRCCF_BACKLOG_OUT_OF_RANGE'', Num 3356)]"

definition cmqcfc_MQCFH_6 :: "abi \<Rightarrow> macros" where
  "cmqcfc_MQCFH_6 a =
     [(''MQRCCF_CHLAUTH_DISABLED'', Num 3357), (''MQRCCF_SMDS_REQUIRES_DSGROUP'', Num 3358),
      (''MQRCCF_PSCLUS_DISABLED_TOPDEF'', Num 3359), (''MQRCCF_PSCLUS_TOPIC_EXISTS'', Num 3360),
      (''MQRCCF_SSL_CIPHER_SUITE_ERROR'', Num 3361), (''MQRCCF_SOCKET_ERROR'', Num 3362),
      (''MQRCCF_CLUS_XMIT_Q_USAGE_ERROR'', Num 3363),
      (''MQRCCF_CERT_VAL_POLICY_ERROR'', Num 3364), (''MQRCCF_INVALID_PROTOCOL'', Num 3365),
      (''MQRCCF_REVDNS_DISABLED'', Num 3366), (''MQRCCF_CLROUTE_NOT_ALTERABLE'', Num 3367),
      (''MQRCCF_CLUSTER_TOPIC_CONFLICT'', Num 3368),
      (''MQRCCF_DEFCLXQ_MODEL_Q_ERROR'', Num 3369), (''MQRCCF_CHLAUTH_CHKCLI_ERROR'', Num 3370),
      (''MQRCCF_CERT_LABEL_NOT_ALLOWED'', Num 3371), (''MQRCCF_Q_MGR_ATTR_CONFLICT'', Num 3372),
      (''MQRCCF_ENTITY_TYPE_MISSING'', Num 3373), (''MQRCCF_CLWL_EXIT_NAME_ERROR'', Num 3374),
      (''MQRCCF_SERVICE_NAME_ERROR'', Num 3375), (''MQRCCF_REMOTE_CHL_TYPE_ERROR'', Num 3376),
      (''MQRCCF_TOPIC_RESTRICTED'', Num 3377), (''MQRCCF_CURRENT_LOG_EXTENT'', Num 3378),
      (''MQRCCF_LOG_EXTENT_NOT_FOUND'', Num 3379), (''MQRCCF_LOG_NOT_REDUCED'', Num 3380),
      (''MQRCCF_LOG_EXTENT_ERROR'', Num 3381), (''MQRCCF_ACCESS_BLOCKED'', Num 3382),
      (''MQRCCF_PS_REQUIRED_MQUC'', Num 3383), (''MQRCCF_STREAMQ_DEST_NOT_SUPP'', Num 3384),
      (''MQRCCF_STREAMQ_DEST_CONFLICT'', Num 3385),
      (''MQRCCF_STREAMQ_NOT_SUPPORTED'', Num 3386), (''MQRCCF_STREAMQ_CONFLICT'', Num 3387),
      (''MQRCCF_OBJECT_ALREADY_EXISTS'', Num 4001), (''MQRCCF_OBJECT_WRONG_TYPE'', Num 4002),
      (''MQRCCF_LIKE_OBJECT_WRONG_TYPE'', Num 4003), (''MQRCCF_OBJECT_OPEN'', Num 4004),
      (''MQRCCF_ATTR_VALUE_ERROR'', Num 4005), (''MQRCCF_UNKNOWN_Q_MGR'', Num 4006),
      (''MQRCCF_Q_WRONG_TYPE'', Num 4007), (''MQRCCF_OBJECT_NAME_ERROR'', Num 4008),
      (''MQRCCF_ALLOCATE_FAILED'', Num 4009), (''MQRCCF_HOST_NOT_AVAILABLE'', Num 4010),
      (''MQRCCF_CONFIGURATION_ERROR'', Num 4011), (''MQRCCF_CONNECTION_REFUSED'', Num 4012),
      (''MQRCCF_ENTRY_ERROR'', Num 4013), (''MQRCCF_SEND_FAILED'', Num 4014),
      (''MQRCCF_RECEIVED_DATA_ERROR'', Num 4015), (''MQRCCF_RECEIVE_FAILED'', Num 4016),
      (''MQRCCF_CONNECTION_CLOSED'', Num 4017), (''MQRCCF_NO_STORAGE'', Num 4018),
      (''MQRCCF_NO_COMMS_MANAGER'', Num 4019), (''MQRCCF_LISTENER_NOT_STARTED'', Num 4020),
      (''MQRCCF_BIND_FAILED'', Num 4024), (''MQRCCF_CHANNEL_INDOUBT'', Num 4025),
      (''MQRCCF_MQCONN_FAILED'', Num 4026), (''MQRCCF_MQOPEN_FAILED'', Num 4027),
      (''MQRCCF_MQGET_FAILED'', Num 4028), (''MQRCCF_MQPUT_FAILED'', Num 4029),
      (''MQRCCF_PING_ERROR'', Num 4030), (''MQRCCF_CHANNEL_IN_USE'', Num 4031),
      (''MQRCCF_CHANNEL_NOT_FOUND'', Num 4032), (''MQRCCF_UNKNOWN_REMOTE_CHANNEL'', Num 4033),
      (''MQRCCF_REMOTE_QM_UNAVAILABLE'', Num 4034),
      (''MQRCCF_REMOTE_QM_TERMINATING'', Num 4035), (''MQRCCF_MQINQ_FAILED'', Num 4036),
      (''MQRCCF_NOT_XMIT_Q'', Num 4037), (''MQRCCF_CHANNEL_DISABLED'', Num 4038),
      (''MQRCCF_USER_EXIT_NOT_AVAILABLE'', Num 4039), (''MQRCCF_COMMIT_FAILED'', Num 4040),
      (''MQRCCF_WRONG_CHANNEL_TYPE'', Num 4041), (''MQRCCF_CHANNEL_ALREADY_EXISTS'', Num 4042),
      (''MQRCCF_DATA_TOO_LARGE'', Num 4043), (''MQRCCF_CHANNEL_NAME_ERROR'', Num 4044),
      (''MQRCCF_XMIT_Q_NAME_ERROR'', Num 4045), (''MQRCCF_MCA_NAME_ERROR'', Num 4047),
      (''MQRCCF_SEND_EXIT_NAME_ERROR'', Num 4048), (''MQRCCF_SEC_EXIT_NAME_ERROR'', Num 4049),
      (''MQRCCF_MSG_EXIT_NAME_ERROR'', Num 4050), (''MQRCCF_RCV_EXIT_NAME_ERROR'', Num 4051),
      (''MQRCCF_XMIT_Q_NAME_WRONG_TYPE'', Num 4052), (''MQRCCF_MCA_NAME_WRONG_TYPE'', Num 4053),
      (''MQRCCF_DISC_INT_WRONG_TYPE'', Num 4054), (''MQRCCF_SHORT_RETRY_WRONG_TYPE'', Num 4055),
      (''MQRCCF_SHORT_TIMER_WRONG_TYPE'', Num 4056),
      (''MQRCCF_LONG_RETRY_WRONG_TYPE'', Num 4057),
      (''MQRCCF_LONG_TIMER_WRONG_TYPE'', Num 4058), (''MQRCCF_PUT_AUTH_WRONG_TYPE'', Num 4059),
      (''MQRCCF_KEEP_ALIVE_INT_ERROR'', Num 4060), (''MQRCCF_MISSING_CONN_NAME'', Num 4061),
      (''MQRCCF_CONN_NAME_ERROR'', Num 4062), (''MQRCCF_MQSET_FAILED'', Num 4063),
      (''MQRCCF_CHANNEL_NOT_ACTIVE'', Num 4064), (''MQRCCF_TERMINATED_BY_SEC_EXIT'', Num 4065),
      (''MQRCCF_DYNAMIC_Q_SCOPE_ERROR'', Num 4067),
      (''MQRCCF_CELL_DIR_NOT_AVAILABLE'', Num 4068), (''MQRCCF_MR_COUNT_ERROR'', Num 4069),
      (''MQRCCF_MR_COUNT_WRONG_TYPE'', Num 4070), (''MQRCCF_MR_EXIT_NAME_ERROR'', Num 4071),
      (''MQRCCF_MR_EXIT_NAME_WRONG_TYPE'', Num 4072), (''MQRCCF_MR_INTERVAL_ERROR'', Num 4073),
      (''MQRCCF_MR_INTERVAL_WRONG_TYPE'', Num 4074), (''MQRCCF_NPM_SPEED_ERROR'', Num 4075),
      (''MQRCCF_NPM_SPEED_WRONG_TYPE'', Num 4076), (''MQRCCF_HB_INTERVAL_ERROR'', Num 4077),
      (''MQRCCF_HB_INTERVAL_WRONG_TYPE'', Num 4078), (''MQRCCF_CHAD_ERROR'', Num 4079),
      (''MQRCCF_CHAD_WRONG_TYPE'', Num 4080), (''MQRCCF_CHAD_EVENT_ERROR'', Num 4081),
      (''MQRCCF_CHAD_EVENT_WRONG_TYPE'', Num 4082), (''MQRCCF_CHAD_EXIT_ERROR'', Num 4083),
      (''MQRCCF_CHAD_EXIT_WRONG_TYPE'', Num 4084), (''MQRCCF_SUPPRESSED_BY_EXIT'', Num 4085),
      (''MQRCCF_BATCH_INT_ERROR'', Num 4086), (''MQRCCF_BATCH_INT_WRONG_TYPE'', Num 4087),
      (''MQRCCF_NET_PRIORITY_ERROR'', Num 4088), (''MQRCCF_NET_PRIORITY_WRONG_TYPE'', Num 4089),
      (''MQRCCF_CHANNEL_CLOSED'', Num 4090), (''MQRCCF_Q_STATUS_NOT_FOUND'', Num 4091),
      (''MQRCCF_SSL_CIPHER_SPEC_ERROR'', Num 4092), (''MQRCCF_SSL_PEER_NAME_ERROR'', Num 4093),
      (''MQRCCF_SSL_CLIENT_AUTH_ERROR'', Num 4094)]"

definition cmqcfc_MQCFH_7 :: "abi \<Rightarrow> macros" where
  "cmqcfc_MQCFH_7 a =
     [(''MQRCCF_RETAINED_NOT_SUPPORTED'', Num 4095),
      (''MQRCCF_KWD_VALUE_WRONG_TYPE'', Num 4096), (''MQRCCF_APPL_STATUS_NOT_FOUND'', Num 4097),
      (''MQRCCF_NHA_NOT_AVAILABLE'', Num 4098), (''MQRCCF_Q_MGR_STATUS_NOT_FOUND'', Num 4099)]"

definition cmqcfc_MQCFBF :: "abi \<Rightarrow> macros" where
  "cmqcfc_MQCFBF a =
     [(''MQCFBF_STRUC_LENGTH_FIXED'', Num 20)]"

definition cmqcfc_MQCFBS :: "abi \<Rightarrow> macros" where
  "cmqcfc_MQCFBS a =
     [(''MQCFBS_STRUC_LENGTH_FIXED'', Num 16)]"

definition cmqcfc_MQCFGR :: "abi \<Rightarrow> macros" where
  "cmqcfc_MQCFGR a =
     [(''MQCFGR_STRUC_LENGTH'', Num 16)]"

definition cmqcfc_MQCFIF :: "abi \<Rightarrow> macros" where
  "cmqcfc_MQCFIF a =
     [(''MQCFIF_STRUC_LENGTH'', Num 20)]"

definition cmqcfc_MQCFIL :: "abi \<Rightarrow> macros" where
  "cmqcfc_MQCFIL a =
     [(''MQCFIL_STRUC_LENGTH_FIXED'', Num 16)]"

definition cmqcfc_MQCFIL64 :: "abi \<Rightarrow> macros" where
  "cmqcfc_MQCFIL64 a =
     [(''MQCFIL64_STRUC_LENGTH_FIXED'', Num 16)]"

definition cmqcfc_MQCFIN :: "abi \<Rightarrow> macros" where
  "cmqcfc_MQCFIN a =
     [(''MQCFIN_STRUC_LENGTH'', Num 16)]"

definition cmqcfc_MQCFIN64 :: "abi \<Rightarrow> macros" where
  "cmqcfc_MQCFIN64 a =
     [(''MQCFIN64_STRUC_LENGTH'', Num 24)]"

definition cmqcfc_MQCFSF :: "abi \<Rightarrow> macros" where
  "cmqcfc_MQCFSF a =
     [(''MQCFSF_STRUC_LENGTH_FIXED'', Num 24)]"

definition cmqcfc_MQCFSL :: "abi \<Rightarrow> macros" where
  "cmqcfc_MQCFSL a =
     [(''MQCFSL_STRUC_LENGTH_FIXED'', Num 24)]"

definition cmqcfc_MQCFST :: "abi \<Rightarrow> macros" where
  "cmqcfc_MQCFST a =
     [(''MQCFST_STRUC_LENGTH_FIXED'', Num 20)]"

definition cmqcfc_MQEPH :: "abi \<Rightarrow> macros" where
  "cmqcfc_MQEPH a =
     [(''MQEPH_STRUC_ID'', Str ''EPH ''), (''MQEPH_STRUC_ID_ARRAY'', Chars ''EPH ''),
      (''MQEPH_STRUC_LENGTH_FIXED'', Num 68), (''MQEPH_VERSION_1'', Num 1),
      (''MQEPH_CURRENT_VERSION'', Num 1), (''MQEPH_LENGTH_1'', Num 68),
      (''MQEPH_CURRENT_LENGTH'', Num 68), (''MQEPH_NONE'', Num 0),
      (''MQEPH_CCSID_EMBEDDED'', Num 1)]"

definition cmqcfc_All :: "abi \<Rightarrow> macros" where
  "cmqcfc_All a =
     [(''MQ_ARCHIVE_PFX_LENGTH'', Num 36), (''MQ_ARCHIVE_UNIT_LENGTH'', Num 8),
      (''MQ_ASID_LENGTH'', Num 4), (''MQ_AUTH_PROFILE_NAME_LENGTH'', Num 48),
      (''MQ_CF_LEID_LENGTH'', Num 12), (''MQ_COMMAND_MQSC_LENGTH'', Num 32768),
      (''MQ_DATA_SET_NAME_LENGTH'', Num 44), (''MQ_DB2_NAME_LENGTH'', Num 4),
      (''MQ_DSG_NAME_LENGTH'', Num 8), (''MQ_ENTITY_NAME_LENGTH'', Num 1024),
      (''MQ_ENV_INFO_LENGTH'', Num 96), (''MQ_GROUP_ADDRESS_LENGTH'', Num 264),
      (''MQ_HOST_NAME_LENGTH'', Num 256), (''MQ_IP_ADDRESS_LENGTH'', Num 48),
      (''MQ_LOG_CORREL_ID_LENGTH'', Num 8), (''MQ_LOG_EXTENT_NAME_LENGTH'', Num 24),
      (''MQ_LOG_PATH_LENGTH'', Num 1024), (''MQ_LRSN_LENGTH'', Num 12),
      (''MQ_LSN_LENGTH'', Num 64), (''MQ_NHA_REPL_ADDRESS_LENGTH'', Num 264),
      (''MQ_ORIGIN_NAME_LENGTH'', Num 8), (''MQ_PSB_NAME_LENGTH'', Num 8),
      (''MQ_PST_ID_LENGTH'', Num 8), (''MQ_Q_MGR_CPF_LENGTH'', Num 4),
      (''MQ_Q_MGR_DATA_PATH_LENGTH'', Num 1024), (''MQ_RESPONSE_ID_LENGTH'', Num 24),
      (''MQ_RBA_LENGTH'', Num 16), (''MQ_REMOTE_PRODUCT_LENGTH'', Num 4),
      (''MQ_REMOTE_VERSION_LENGTH'', Num 8), (''MQ_SECURITY_PROFILE_LENGTH'', Num 40),
      (''MQ_SERVICE_COMPONENT_LENGTH'', Num 48), (''MQ_SUB_NAME_LENGTH'', Num 10240),
      (''MQ_SYSP_SERVICE_LENGTH'', Num 32), (''MQ_SYSTEM_NAME_LENGTH'', Num 8),
      (''MQ_TASK_NUMBER_LENGTH'', Num 8), (''MQ_TPIPE_PFX_LENGTH'', Num 4),
      (''MQ_UOW_ID_LENGTH'', Num 256), (''MQ_USER_DATA_LENGTH'', Num 10240),
      (''MQ_VOLSER_LENGTH'', Num 6), (''MQCFOP_LESS'', Num 1), (''MQCFOP_EQUAL'', Num 2),
      (''MQCFOP_GREATER'', Num 4), (''MQCFOP_NOT_LESS'', Num 6), (''MQCFOP_NOT_EQUAL'', Num 5),
      (''MQCFOP_NOT_GREATER'', Num 3), (''MQCFOP_LIKE'', Num 18), (''MQCFOP_NOT_LIKE'', Num 21),
      (''MQCFOP_CONTAINS'', Num 10), (''MQCFOP_EXCLUDES'', Num 13),
      (''MQCFOP_CONTAINS_GEN'', Num 26), (''MQCFOP_EXCLUDES_GEN'', Num 29),
      (''MQCFT_NONE'', Num 0), (''MQCFT_COMMAND'', Num 1), (''MQCFT_RESPONSE'', Num 2),
      (''MQCFT_INTEGER'', Num 3), (''MQCFT_STRING'', Num 4), (''MQCFT_INTEGER_LIST'', Num 5),
      (''MQCFT_STRING_LIST'', Num 6), (''MQCFT_EVENT'', Num 7), (''MQCFT_USER'', Num 8),
      (''MQCFT_BYTE_STRING'', Num 9), (''MQCFT_TRACE_ROUTE'', Num 10),
      (''MQCFT_REPORT'', Num 12), (''MQCFT_INTEGER_FILTER'', Num 13),
      (''MQCFT_STRING_FILTER'', Num 14), (''MQCFT_BYTE_STRING_FILTER'', Num 15),
      (''MQCFT_COMMAND_XR'', Num 16), (''MQCFT_XR_MSG'', Num 17), (''MQCFT_XR_ITEM'', Num 18),
      (''MQCFT_XR_SUMMARY'', Num 19), (''MQCFT_GROUP'', Num 20), (''MQCFT_STATISTICS'', Num 21),
      (''MQCFT_ACCOUNTING'', Num 22), (''MQCFT_INTEGER64'', Num 23),
      (''MQCFT_INTEGER64_LIST'', Num 25), (''MQCFT_APP_ACTIVITY'', Num 26),
      (''MQCFT_STATUS'', Num 27), (''MQOPMODE_COMPAT'', Num 0),
      (''MQOPMODE_NEW_FUNCTION'', Num 1)]"

definition cmqcfc_Byte_Parameter :: "abi \<Rightarrow> macros" where
  "cmqcfc_Byte_Parameter a =
     [(''MQBACF_FIRST'', Num 7001), (''MQBACF_EVENT_ACCOUNTING_TOKEN'', Num 7001),
      (''MQBACF_EVENT_SECURITY_ID'', Num 7002), (''MQBACF_RESPONSE_SET'', Num 7003),
      (''MQBACF_RESPONSE_ID'', Num 7004), (''MQBACF_EXTERNAL_UOW_ID'', Num 7005),
      (''MQBACF_CONNECTION_ID'', Num 7006), (''MQBACF_GENERIC_CONNECTION_ID'', Num 7007),
      (''MQBACF_ORIGIN_UOW_ID'', Num 7008), (''MQBACF_Q_MGR_UOW_ID'', Num 7009),
      (''MQBACF_ACCOUNTING_TOKEN'', Num 7010), (''MQBACF_CORREL_ID'', Num 7011),
      (''MQBACF_GROUP_ID'', Num 7012), (''MQBACF_MSG_ID'', Num 7013),
      (''MQBACF_CF_LEID'', Num 7014), (''MQBACF_DESTINATION_CORREL_ID'', Num 7015),
      (''MQBACF_SUB_ID'', Num 7016), (''MQBACF_ALTERNATE_SECURITYID'', Num 7019),
      (''MQBACF_MESSAGE_DATA'', Num 7020), (''MQBACF_MQBO_STRUCT'', Num 7021),
      (''MQBACF_MQCB_FUNCTION'', Num 7022), (''MQBACF_MQCBC_STRUCT'', Num 7023),
      (''MQBACF_MQCBD_STRUCT'', Num 7024), (''MQBACF_MQCD_STRUCT'', Num 7025),
      (''MQBACF_MQCNO_STRUCT'', Num 7026), (''MQBACF_MQGMO_STRUCT'', Num 7027),
      (''MQBACF_MQMD_STRUCT'', Num 7028), (''MQBACF_MQPMO_STRUCT'', Num 7029),
      (''MQBACF_MQSD_STRUCT'', Num 7030), (''MQBACF_MQSTS_STRUCT'', Num 7031),
      (''MQBACF_SUB_CORREL_ID'', Num 7032), (''MQBACF_XA_XID'', Num 7033),
      (''MQBACF_XQH_CORREL_ID'', Num 7034), (''MQBACF_XQH_MSG_ID'', Num 7035),
      (''MQBACF_REQUEST_ID'', Num 7036), (''MQBACF_PROPERTIES_DATA'', Num 7037),
      (''MQBACF_CONN_TAG'', Num 7038), (''MQBACF_MQBNO_STRUCT'', Num 7039),
      (''MQBACF_LAST_USED'', Num 7039)]"

definition cmqcfc_Integer_Parameter_1 :: "abi \<Rightarrow> macros" where
  "cmqcfc_Integer_Parameter_1 a =
     [(''MQIAMO_FIRST'', Num 701), (''MQIAMO_AVG_BATCH_SIZE'', Num 702),
      (''MQIAMO_AVG_Q_TIME'', Num 703), (''MQIAMO64_AVG_Q_TIME'', Num 703),
      (''MQIAMO_BACKOUTS'', Num 704), (''MQIAMO_BROWSES'', Num 705),
      (''MQIAMO_BROWSE_MAX_BYTES'', Num 706), (''MQIAMO_BROWSE_MIN_BYTES'', Num 707),
      (''MQIAMO_BROWSES_FAILED'', Num 708), (''MQIAMO_CLOSES'', Num 709),
      (''MQIAMO_COMMITS'', Num 710), (''MQIAMO_COMMITS_FAILED'', Num 711),
      (''MQIAMO_CONNS'', Num 712), (''MQIAMO_CONNS_MAX'', Num 713), (''MQIAMO_DISCS'', Num 714),
      (''MQIAMO_DISCS_IMPLICIT'', Num 715), (''MQIAMO_DISC_TYPE'', Num 716),
      (''MQIAMO_EXIT_TIME_AVG'', Num 717), (''MQIAMO_EXIT_TIME_MAX'', Num 718),
      (''MQIAMO_EXIT_TIME_MIN'', Num 719), (''MQIAMO_FULL_BATCHES'', Num 720),
      (''MQIAMO_GENERATED_MSGS'', Num 721), (''MQIAMO_GETS'', Num 722),
      (''MQIAMO_GET_MAX_BYTES'', Num 723), (''MQIAMO_GET_MIN_BYTES'', Num 724),
      (''MQIAMO_GETS_FAILED'', Num 725), (''MQIAMO_INCOMPLETE_BATCHES'', Num 726),
      (''MQIAMO_INQS'', Num 727), (''MQIAMO_MSGS'', Num 728),
      (''MQIAMO_NET_TIME_AVG'', Num 729), (''MQIAMO_NET_TIME_MAX'', Num 730),
      (''MQIAMO_NET_TIME_MIN'', Num 731), (''MQIAMO_OBJECT_COUNT'', Num 732),
      (''MQIAMO_OPENS'', Num 733), (''MQIAMO_PUT1S'', Num 734), (''MQIAMO_PUTS'', Num 735),
      (''MQIAMO_PUT_MAX_BYTES'', Num 736), (''MQIAMO_PUT_MIN_BYTES'', Num 737),
      (''MQIAMO_PUT_RETRIES'', Num 738), (''MQIAMO_Q_MAX_DEPTH'', Num 739),
      (''MQIAMO_Q_MIN_DEPTH'', Num 740), (''MQIAMO_Q_TIME_AVG'', Num 741),
      (''MQIAMO64_Q_TIME_AVG'', Num 741), (''MQIAMO_Q_TIME_MAX'', Num 742),
      (''MQIAMO64_Q_TIME_MAX'', Num 742), (''MQIAMO_Q_TIME_MIN'', Num 743),
      (''MQIAMO64_Q_TIME_MIN'', Num 743), (''MQIAMO_SETS'', Num 744),
      (''MQIAMO64_BROWSE_BYTES'', Num 745), (''MQIAMO64_BYTES'', Num 746),
      (''MQIAMO64_GET_BYTES'', Num 747), (''MQIAMO64_PUT_BYTES'', Num 748),
      (''MQIAMO_CONNS_FAILED'', Num 749), (''MQIAMO_OPENS_FAILED'', Num 751),
      (''MQIAMO_INQS_FAILED'', Num 752), (''MQIAMO_SETS_FAILED'', Num 753),
      (''MQIAMO_PUTS_FAILED'', Num 754), (''MQIAMO_PUT1S_FAILED'', Num 755),
      (''MQIAMO_CLOSES_FAILED'', Num 757), (''MQIAMO_MSGS_EXPIRED'', Num 758),
      (''MQIAMO_MSGS_NOT_QUEUED'', Num 759), (''MQIAMO_MSGS_PURGED'', Num 760),
      (''MQIAMO_SUBS_DUR'', Num 764), (''MQIAMO_SUBS_NDUR'', Num 765),
      (''MQIAMO_SUBS_FAILED'', Num 766), (''MQIAMO_SUBRQS'', Num 767),
      (''MQIAMO_SUBRQS_FAILED'', Num 768), (''MQIAMO_CBS'', Num 769),
      (''MQIAMO_CBS_FAILED'', Num 770), (''MQIAMO_CTLS'', Num 771),
      (''MQIAMO_CTLS_FAILED'', Num 772), (''MQIAMO_STATS'', Num 773),
      (''MQIAMO_STATS_FAILED'', Num 774), (''MQIAMO_SUB_DUR_HIGHWATER'', Num 775),
      (''MQIAMO_SUB_DUR_LOWWATER'', Num 776), (''MQIAMO_SUB_NDUR_HIGHWATER'', Num 777),
      (''MQIAMO_SUB_NDUR_LOWWATER'', Num 778), (''MQIAMO_TOPIC_PUTS'', Num 779),
      (''MQIAMO_TOPIC_PUTS_FAILED'', Num 780), (''MQIAMO_TOPIC_PUT1S'', Num 781),
      (''MQIAMO_TOPIC_PUT1S_FAILED'', Num 782), (''MQIAMO64_TOPIC_PUT_BYTES'', Num 783),
      (''MQIAMO_PUBLISH_MSG_COUNT'', Num 784), (''MQIAMO64_PUBLISH_MSG_BYTES'', Num 785),
      (''MQIAMO_UNSUBS_DUR'', Num 786), (''MQIAMO_UNSUBS_NDUR'', Num 787),
      (''MQIAMO_UNSUBS_FAILED'', Num 788), (''MQIAMO_INTERVAL'', Num 789),
      (''MQIAMO_MSGS_SENT'', Num 790), (''MQIAMO_BYTES_SENT'', Num 791),
      (''MQIAMO_REPAIR_BYTES'', Num 792), (''MQIAMO_FEEDBACK_MODE'', Num 793),
      (''MQIAMO_RELIABILITY_TYPE'', Num 794), (''MQIAMO_LATE_JOIN_MARK'', Num 795),
      (''MQIAMO_NACKS_RCVD'', Num 796), (''MQIAMO_REPAIR_PKTS'', Num 797),
      (''MQIAMO_HISTORY_PKTS'', Num 798), (''MQIAMO_PENDING_PKTS'', Num 799),
      (''MQIAMO_PKT_RATE'', Num 800), (''MQIAMO_MCAST_XMIT_RATE'', Num 801),
      (''MQIAMO_MCAST_BATCH_TIME'', Num 802), (''MQIAMO_MCAST_HEARTBEAT'', Num 803),
      (''MQIAMO_DEST_DATA_PORT'', Num 804), (''MQIAMO_DEST_REPAIR_PORT'', Num 805),
      (''MQIAMO_ACKS_RCVD'', Num 806), (''MQIAMO_ACTIVE_ACKERS'', Num 807),
      (''MQIAMO_PKTS_SENT'', Num 808), (''MQIAMO_TOTAL_REPAIR_PKTS'', Num 809),
      (''MQIAMO_TOTAL_PKTS_SENT'', Num 810), (''MQIAMO_TOTAL_MSGS_SENT'', Num 811),
      (''MQIAMO_TOTAL_BYTES_SENT'', Num 812), (''MQIAMO_NUM_STREAMS'', Num 813),
      (''MQIAMO_ACK_FEEDBACK'', Num 814), (''MQIAMO_NACK_FEEDBACK'', Num 815),
      (''MQIAMO_PKTS_LOST'', Num 816), (''MQIAMO_MSGS_RCVD'', Num 817),
      (''MQIAMO_MSG_BYTES_RCVD'', Num 818), (''MQIAMO_MSGS_DELIVERED'', Num 819),
      (''MQIAMO_PKTS_PROCESSED'', Num 820)]"

definition cmqcfc_Integer_Parameter_2 :: "abi \<Rightarrow> macros" where
  "cmqcfc_Integer_Parameter_2 a =
     [(''MQIAMO_PKTS_DELIVERED'', Num 821), (''MQIAMO_PKTS_DROPPED'', Num 822),
      (''MQIAMO_PKTS_DUPLICATED'', Num 823), (''MQIAMO_NACKS_CREATED'', Num 824),
      (''MQIAMO_NACK_PKTS_SENT'', Num 825), (''MQIAMO_REPAIR_PKTS_RQSTD'', Num 826),
      (''MQIAMO_REPAIR_PKTS_RCVD'', Num 827), (''MQIAMO_PKTS_REPAIRED'', Num 828),
      (''MQIAMO_TOTAL_MSGS_RCVD'', Num 829), (''MQIAMO_TOTAL_MSG_BYTES_RCVD'', Num 830),
      (''MQIAMO_TOTAL_REPAIR_PKTS_RCVD'', Num 831),
      (''MQIAMO_TOTAL_REPAIR_PKTS_RQSTD'', Num 832), (''MQIAMO_TOTAL_MSGS_PROCESSED'', Num 833),
      (''MQIAMO_TOTAL_MSGS_SELECTED'', Num 834), (''MQIAMO_TOTAL_MSGS_EXPIRED'', Num 835),
      (''MQIAMO_TOTAL_MSGS_DELIVERED'', Num 836), (''MQIAMO_TOTAL_MSGS_RETURNED'', Num 837),
      (''MQIAMO64_HIGHRES_TIME'', Num 838), (''MQIAMO_MONITOR_CLASS'', Num 839),
      (''MQIAMO_MONITOR_TYPE'', Num 840), (''MQIAMO_MONITOR_ELEMENT'', Num 841),
      (''MQIAMO_MONITOR_DATATYPE'', Num 842), (''MQIAMO_MONITOR_FLAGS'', Num 843),
      (''MQIAMO64_QMGR_OP_DURATION'', Num 844), (''MQIAMO64_MONITOR_INTERVAL'', Num 845),
      (''MQIAMO_LAST_USED'', Num 845), (''MQIAMO_MONITOR_FLAGS_NONE'', Num 0),
      (''MQIAMO_MONITOR_FLAGS_OBJNAME'', Num 1), (''MQIAMO_MONITOR_UNIT'', Num 1),
      (''MQIAMO_MONITOR_DELTA'', Num 2), (''MQIAMO_MONITOR_HUNDREDTHS'', Num 100),
      (''MQIAMO_MONITOR_KB'', Num 1024), (''MQIAMO_MONITOR_PERCENT'', Num 10000),
      (''MQIAMO_MONITOR_MICROSEC'', Num 1000000), (''MQIAMO_MONITOR_MB'', Num 1048576),
      (''MQIAMO_MONITOR_GB'', Num 100000000)]"

definition cmqcfc_Integer_Parameter_3 :: "abi \<Rightarrow> macros" where
  "cmqcfc_Integer_Parameter_3 a =
     [(''MQIACF_FIRST'', Num 1001), (''MQIACF_Q_MGR_ATTRS'', Num 1001),
      (''MQIACF_Q_ATTRS'', Num 1002), (''MQIACF_PROCESS_ATTRS'', Num 1003),
      (''MQIACF_NAMELIST_ATTRS'', Num 1004), (''MQIACF_FORCE'', Num 1005),
      (''MQIACF_REPLACE'', Num 1006), (''MQIACF_PURGE'', Num 1007),
      (''MQIACF_QUIESCE'', Num 1008), (''MQIACF_MODE'', Num 1008), (''MQIACF_ALL'', Num 1009),
      (''MQIACF_EVENT_APPL_TYPE'', Num 1010), (''MQIACF_EVENT_ORIGIN'', Num 1011),
      (''MQIACF_PARAMETER_ID'', Num 1012), (''MQIACF_ERROR_ID'', Num 1013),
      (''MQIACF_ERROR_IDENTIFIER'', Num 1013), (''MQIACF_SELECTOR'', Num 1014),
      (''MQIACF_CHANNEL_ATTRS'', Num 1015), (''MQIACF_OBJECT_TYPE'', Num 1016),
      (''MQIACF_ESCAPE_TYPE'', Num 1017), (''MQIACF_ERROR_OFFSET'', Num 1018),
      (''MQIACF_AUTH_INFO_ATTRS'', Num 1019), (''MQIACF_REASON_QUALIFIER'', Num 1020),
      (''MQIACF_COMMAND'', Num 1021), (''MQIACF_OPEN_OPTIONS'', Num 1022),
      (''MQIACF_OPEN_TYPE'', Num 1023), (''MQIACF_PROCESS_ID'', Num 1024),
      (''MQIACF_THREAD_ID'', Num 1025), (''MQIACF_Q_STATUS_ATTRS'', Num 1026),
      (''MQIACF_UNCOMMITTED_MSGS'', Num 1027), (''MQIACF_HANDLE_STATE'', Num 1028),
      (''MQIACF_AUX_ERROR_DATA_INT_1'', Num 1070), (''MQIACF_AUX_ERROR_DATA_INT_2'', Num 1071),
      (''MQIACF_CONV_REASON_CODE'', Num 1072), (''MQIACF_BRIDGE_TYPE'', Num 1073),
      (''MQIACF_INQUIRY'', Num 1074), (''MQIACF_WAIT_INTERVAL'', Num 1075),
      (''MQIACF_OPTIONS'', Num 1076), (''MQIACF_BROKER_OPTIONS'', Num 1077),
      (''MQIACF_REFRESH_TYPE'', Num 1078), (''MQIACF_SEQUENCE_NUMBER'', Num 1079),
      (''MQIACF_INTEGER_DATA'', Num 1080), (''MQIACF_REGISTRATION_OPTIONS'', Num 1081),
      (''MQIACF_PUBLICATION_OPTIONS'', Num 1082), (''MQIACF_CLUSTER_INFO'', Num 1083),
      (''MQIACF_Q_MGR_DEFINITION_TYPE'', Num 1084), (''MQIACF_Q_MGR_TYPE'', Num 1085),
      (''MQIACF_ACTION'', Num 1086), (''MQIACF_SUSPEND'', Num 1087),
      (''MQIACF_BROKER_COUNT'', Num 1088), (''MQIACF_APPL_COUNT'', Num 1089),
      (''MQIACF_ANONYMOUS_COUNT'', Num 1090), (''MQIACF_REG_REG_OPTIONS'', Num 1091),
      (''MQIACF_DELETE_OPTIONS'', Num 1092), (''MQIACF_CLUSTER_Q_MGR_ATTRS'', Num 1093),
      (''MQIACF_REFRESH_INTERVAL'', Num 1094), (''MQIACF_REFRESH_REPOSITORY'', Num 1095),
      (''MQIACF_REMOVE_QUEUES'', Num 1096), (''MQIACF_OPEN_INPUT_TYPE'', Num 1098),
      (''MQIACF_OPEN_OUTPUT'', Num 1099), (''MQIACF_OPEN_SET'', Num 1100),
      (''MQIACF_OPEN_INQUIRE'', Num 1101), (''MQIACF_OPEN_BROWSE'', Num 1102),
      (''MQIACF_Q_STATUS_TYPE'', Num 1103), (''MQIACF_Q_HANDLE'', Num 1104),
      (''MQIACF_Q_STATUS'', Num 1105), (''MQIACF_SECURITY_TYPE'', Num 1106),
      (''MQIACF_CONNECTION_ATTRS'', Num 1107), (''MQIACF_CONNECT_OPTIONS'', Num 1108),
      (''MQIACF_CONN_INFO_TYPE'', Num 1110), (''MQIACF_CONN_INFO_CONN'', Num 1111),
      (''MQIACF_CONN_INFO_HANDLE'', Num 1112), (''MQIACF_CONN_INFO_ALL'', Num 1113),
      (''MQIACF_AUTH_PROFILE_ATTRS'', Num 1114), (''MQIACF_AUTHORIZATION_LIST'', Num 1115),
      (''MQIACF_AUTH_ADD_AUTHS'', Num 1116), (''MQIACF_AUTH_REMOVE_AUTHS'', Num 1117),
      (''MQIACF_ENTITY_TYPE'', Num 1118), (''MQIACF_COMMAND_INFO'', Num 1120),
      (''MQIACF_CMDSCOPE_Q_MGR_COUNT'', Num 1121), (''MQIACF_Q_MGR_SYSTEM'', Num 1122),
      (''MQIACF_Q_MGR_EVENT'', Num 1123), (''MQIACF_Q_MGR_DQM'', Num 1124),
      (''MQIACF_Q_MGR_CLUSTER'', Num 1125), (''MQIACF_QSG_DISPS'', Num 1126),
      (''MQIACF_UOW_STATE'', Num 1128), (''MQIACF_SECURITY_ITEM'', Num 1129),
      (''MQIACF_CF_STRUC_STATUS'', Num 1130), (''MQIACF_UOW_TYPE'', Num 1132),
      (''MQIACF_CF_STRUC_ATTRS'', Num 1133), (''MQIACF_EXCLUDE_INTERVAL'', Num 1134),
      (''MQIACF_CF_STATUS_TYPE'', Num 1135), (''MQIACF_CF_STATUS_SUMMARY'', Num 1136),
      (''MQIACF_CF_STATUS_CONNECT'', Num 1137), (''MQIACF_CF_STATUS_BACKUP'', Num 1138),
      (''MQIACF_CF_STRUC_TYPE'', Num 1139), (''MQIACF_CF_STRUC_SIZE_MAX'', Num 1140),
      (''MQIACF_CF_STRUC_SIZE_USED'', Num 1141), (''MQIACF_CF_STRUC_ENTRIES_MAX'', Num 1142),
      (''MQIACF_CF_STRUC_ENTRIES_USED'', Num 1143), (''MQIACF_CF_STRUC_BACKUP_SIZE'', Num 1144),
      (''MQIACF_MOVE_TYPE'', Num 1145), (''MQIACF_MOVE_TYPE_MOVE'', Num 1146),
      (''MQIACF_MOVE_TYPE_ADD'', Num 1147), (''MQIACF_Q_MGR_NUMBER'', Num 1148),
      (''MQIACF_Q_MGR_STATUS'', Num 1149), (''MQIACF_DB2_CONN_STATUS'', Num 1150),
      (''MQIACF_SECURITY_ATTRS'', Num 1151), (''MQIACF_SECURITY_TIMEOUT'', Num 1152),
      (''MQIACF_SECURITY_INTERVAL'', Num 1153), (''MQIACF_SECURITY_SWITCH'', Num 1154),
      (''MQIACF_SECURITY_SETTING'', Num 1155), (''MQIACF_STORAGE_CLASS_ATTRS'', Num 1156),
      (''MQIACF_USAGE_TYPE'', Num 1157), (''MQIACF_BUFFER_POOL_ID'', Num 1158),
      (''MQIACF_USAGE_TOTAL_PAGES'', Num 1159), (''MQIACF_USAGE_UNUSED_PAGES'', Num 1160),
      (''MQIACF_USAGE_PERSIST_PAGES'', Num 1161), (''MQIACF_USAGE_NONPERSIST_PAGES'', Num 1162)]"

definition cmqcfc_Integer_Parameter_4 :: "abi \<Rightarrow> macros" where
  "cmqcfc_Integer_Parameter_4 a =
     [(''MQIACF_USAGE_RESTART_EXTENTS'', Num 1163), (''MQIACF_USAGE_EXPAND_COUNT'', Num 1164),
      (''MQIACF_PAGESET_STATUS'', Num 1165), (''MQIACF_USAGE_TOTAL_BUFFERS'', Num 1166),
      (''MQIACF_USAGE_DATA_SET_TYPE'', Num 1167), (''MQIACF_USAGE_PAGESET'', Num 1168),
      (''MQIACF_USAGE_DATA_SET'', Num 1169), (''MQIACF_USAGE_BUFFER_POOL'', Num 1170),
      (''MQIACF_MOVE_COUNT'', Num 1171), (''MQIACF_EXPIRY_Q_COUNT'', Num 1172),
      (''MQIACF_CONFIGURATION_OBJECTS'', Num 1173), (''MQIACF_CONFIGURATION_EVENTS'', Num 1174),
      (''MQIACF_SYSP_TYPE'', Num 1175), (''MQIACF_SYSP_DEALLOC_INTERVAL'', Num 1176),
      (''MQIACF_SYSP_MAX_ARCHIVE'', Num 1177), (''MQIACF_SYSP_MAX_READ_TAPES'', Num 1178),
      (''MQIACF_SYSP_IN_BUFFER_SIZE'', Num 1179), (''MQIACF_SYSP_OUT_BUFFER_SIZE'', Num 1180),
      (''MQIACF_SYSP_OUT_BUFFER_COUNT'', Num 1181), (''MQIACF_SYSP_ARCHIVE'', Num 1182),
      (''MQIACF_SYSP_DUAL_ACTIVE'', Num 1183), (''MQIACF_SYSP_DUAL_ARCHIVE'', Num 1184),
      (''MQIACF_SYSP_DUAL_BSDS'', Num 1185), (''MQIACF_SYSP_MAX_CONNS'', Num 1186),
      (''MQIACF_SYSP_MAX_CONNS_FORE'', Num 1187), (''MQIACF_SYSP_MAX_CONNS_BACK'', Num 1188),
      (''MQIACF_SYSP_EXIT_INTERVAL'', Num 1189), (''MQIACF_SYSP_EXIT_TASKS'', Num 1190),
      (''MQIACF_SYSP_CHKPOINT_COUNT'', Num 1191), (''MQIACF_SYSP_OTMA_INTERVAL'', Num 1192),
      (''MQIACF_SYSP_Q_INDEX_DEFER'', Num 1193), (''MQIACF_SYSP_DB2_TASKS'', Num 1194),
      (''MQIACF_SYSP_RESLEVEL_AUDIT'', Num 1195), (''MQIACF_SYSP_ROUTING_CODE'', Num 1196),
      (''MQIACF_SYSP_SMF_ACCOUNTING'', Num 1197), (''MQIACF_SYSP_SMF_STATS'', Num 1198),
      (''MQIACF_SYSP_SMF_INTERVAL'', Num 1199), (''MQIACF_SYSP_SMF_STAT_TIME_MINS'', Num 1199),
      (''MQIACF_SYSP_TRACE_CLASS'', Num 1200), (''MQIACF_SYSP_TRACE_SIZE'', Num 1201),
      (''MQIACF_SYSP_WLM_INTERVAL'', Num 1202), (''MQIACF_SYSP_ALLOC_UNIT'', Num 1203),
      (''MQIACF_SYSP_ARCHIVE_RETAIN'', Num 1204), (''MQIACF_SYSP_ARCHIVE_WTOR'', Num 1205),
      (''MQIACF_SYSP_BLOCK_SIZE'', Num 1206), (''MQIACF_SYSP_CATALOG'', Num 1207),
      (''MQIACF_SYSP_COMPACT'', Num 1208), (''MQIACF_SYSP_ALLOC_PRIMARY'', Num 1209),
      (''MQIACF_SYSP_ALLOC_SECONDARY'', Num 1210), (''MQIACF_SYSP_PROTECT'', Num 1211),
      (''MQIACF_SYSP_QUIESCE_INTERVAL'', Num 1212), (''MQIACF_SYSP_TIMESTAMP'', Num 1213),
      (''MQIACF_SYSP_UNIT_ADDRESS'', Num 1214), (''MQIACF_SYSP_UNIT_STATUS'', Num 1215),
      (''MQIACF_SYSP_LOG_COPY'', Num 1216), (''MQIACF_SYSP_LOG_USED'', Num 1217),
      (''MQIACF_SYSP_LOG_SUSPEND'', Num 1218), (''MQIACF_SYSP_OFFLOAD_STATUS'', Num 1219),
      (''MQIACF_SYSP_TOTAL_LOGS'', Num 1220), (''MQIACF_SYSP_FULL_LOGS'', Num 1221),
      (''MQIACF_LISTENER_ATTRS'', Num 1222), (''MQIACF_LISTENER_STATUS_ATTRS'', Num 1223),
      (''MQIACF_SERVICE_ATTRS'', Num 1224), (''MQIACF_SERVICE_STATUS_ATTRS'', Num 1225),
      (''MQIACF_Q_TIME_INDICATOR'', Num 1226), (''MQIACF_OLDEST_MSG_AGE'', Num 1227),
      (''MQIACF_AUTH_OPTIONS'', Num 1228), (''MQIACF_Q_MGR_STATUS_ATTRS'', Num 1229),
      (''MQIACF_CONNECTION_COUNT'', Num 1230), (''MQIACF_Q_MGR_FACILITY'', Num 1231),
      (''MQIACF_CHINIT_STATUS'', Num 1232), (''MQIACF_CMD_SERVER_STATUS'', Num 1233),
      (''MQIACF_ROUTE_DETAIL'', Num 1234), (''MQIACF_RECORDED_ACTIVITIES'', Num 1235),
      (''MQIACF_MAX_ACTIVITIES'', Num 1236), (''MQIACF_DISCONTINUITY_COUNT'', Num 1237),
      (''MQIACF_ROUTE_ACCUMULATION'', Num 1238), (''MQIACF_ROUTE_DELIVERY'', Num 1239),
      (''MQIACF_OPERATION_TYPE'', Num 1240), (''MQIACF_BACKOUT_COUNT'', Num 1241),
      (''MQIACF_COMP_CODE'', Num 1242), (''MQIACF_ENCODING'', Num 1243),
      (''MQIACF_EXPIRY'', Num 1244), (''MQIACF_FEEDBACK'', Num 1245),
      (''MQIACF_MSG_FLAGS'', Num 1247), (''MQIACF_MSG_LENGTH'', Num 1248),
      (''MQIACF_MSG_TYPE'', Num 1249), (''MQIACF_OFFSET'', Num 1250),
      (''MQIACF_ORIGINAL_LENGTH'', Num 1251), (''MQIACF_PERSISTENCE'', Num 1252),
      (''MQIACF_PRIORITY'', Num 1253), (''MQIACF_REASON_CODE'', Num 1254),
      (''MQIACF_REPORT'', Num 1255), (''MQIACF_VERSION'', Num 1256),
      (''MQIACF_UNRECORDED_ACTIVITIES'', Num 1257), (''MQIACF_MONITORING'', Num 1258),
      (''MQIACF_ROUTE_FORWARDING'', Num 1259), (''MQIACF_SERVICE_STATUS'', Num 1260),
      (''MQIACF_Q_TYPES'', Num 1261), (''MQIACF_USER_ID_SUPPORT'', Num 1262),
      (''MQIACF_INTERFACE_VERSION'', Num 1263), (''MQIACF_AUTH_SERVICE_ATTRS'', Num 1264),
      (''MQIACF_USAGE_EXPAND_TYPE'', Num 1265), (''MQIACF_SYSP_CLUSTER_CACHE'', Num 1266),
      (''MQIACF_SYSP_DB2_BLOB_TASKS'', Num 1267), (''MQIACF_SYSP_WLM_INT_UNITS'', Num 1268),
      (''MQIACF_TOPIC_ATTRS'', Num 1269), (''MQIACF_PUBSUB_PROPERTIES'', Num 1271),
      (''MQIACF_DESTINATION_CLASS'', Num 1273), (''MQIACF_DURABLE_SUBSCRIPTION'', Num 1274),
      (''MQIACF_SUBSCRIPTION_SCOPE'', Num 1275), (''MQIACF_VARIABLE_USER_ID'', Num 1277),
      (''MQIACF_REQUEST_ONLY'', Num 1280), (''MQIACF_PUB_PRIORITY'', Num 1283),
      (''MQIACF_SUB_ATTRS'', Num 1287), (''MQIACF_WILDCARD_SCHEMA'', Num 1288),
      (''MQIACF_SUB_TYPE'', Num 1289), (''MQIACF_MESSAGE_COUNT'', Num 1290),
      (''MQIACF_Q_MGR_PUBSUB'', Num 1291), (''MQIACF_Q_MGR_VERSION'', Num 1292)]"

definition cmqcfc_Integer_Parameter_5 :: "abi \<Rightarrow> macros" where
  "cmqcfc_Integer_Parameter_5 a =
     [(''MQIACF_SUB_STATUS_ATTRS'', Num 1294), (''MQIACF_TOPIC_STATUS'', Num 1295),
      (''MQIACF_TOPIC_SUB'', Num 1296), (''MQIACF_TOPIC_PUB'', Num 1297),
      (''MQIACF_RETAINED_PUBLICATION'', Num 1300), (''MQIACF_TOPIC_STATUS_ATTRS'', Num 1301),
      (''MQIACF_TOPIC_STATUS_TYPE'', Num 1302), (''MQIACF_SUB_OPTIONS'', Num 1303),
      (''MQIACF_PUBLISH_COUNT'', Num 1304), (''MQIACF_CLEAR_TYPE'', Num 1305),
      (''MQIACF_CLEAR_SCOPE'', Num 1306), (''MQIACF_SUB_LEVEL'', Num 1307),
      (''MQIACF_ASYNC_STATE'', Num 1308), (''MQIACF_SUB_SUMMARY'', Num 1309),
      (''MQIACF_OBSOLETE_MSGS'', Num 1310), (''MQIACF_PUBSUB_STATUS'', Num 1311),
      (''MQIACF_PS_STATUS_TYPE'', Num 1314), (''MQIACF_PUBSUB_STATUS_ATTRS'', Num 1318),
      (''MQIACF_SELECTOR_TYPE'', Num 1321), (''MQIACF_LOG_COMPRESSION'', Num 1322),
      (''MQIACF_GROUPUR_CHECK_ID'', Num 1323), (''MQIACF_MULC_CAPTURE'', Num 1324),
      (''MQIACF_PERMIT_STANDBY'', Num 1325), (''MQIACF_OPERATION_MODE'', Num 1326),
      (''MQIACF_COMM_INFO_ATTRS'', Num 1327), (''MQIACF_CF_SMDS_BLOCK_SIZE'', Num 1328),
      (''MQIACF_CF_SMDS_EXPAND'', Num 1329), (''MQIACF_USAGE_FREE_BUFF'', Num 1330),
      (''MQIACF_USAGE_FREE_BUFF_PERC'', Num 1331), (''MQIACF_CF_STRUC_ACCESS'', Num 1332),
      (''MQIACF_CF_STATUS_SMDS'', Num 1333), (''MQIACF_SMDS_ATTRS'', Num 1334),
      (''MQIACF_USAGE_SMDS'', Num 1335), (''MQIACF_USAGE_BLOCK_SIZE'', Num 1336),
      (''MQIACF_USAGE_DATA_BLOCKS'', Num 1337), (''MQIACF_USAGE_EMPTY_BUFFERS'', Num 1338),
      (''MQIACF_USAGE_INUSE_BUFFERS'', Num 1339), (''MQIACF_USAGE_LOWEST_FREE'', Num 1340),
      (''MQIACF_USAGE_OFFLOAD_MSGS'', Num 1341), (''MQIACF_USAGE_READS_SAVED'', Num 1342),
      (''MQIACF_USAGE_SAVED_BUFFERS'', Num 1343), (''MQIACF_USAGE_TOTAL_BLOCKS'', Num 1344),
      (''MQIACF_USAGE_USED_BLOCKS'', Num 1345), (''MQIACF_USAGE_USED_RATE'', Num 1346),
      (''MQIACF_USAGE_WAIT_RATE'', Num 1347), (''MQIACF_SMDS_OPENMODE'', Num 1348),
      (''MQIACF_SMDS_STATUS'', Num 1349), (''MQIACF_SMDS_AVAIL'', Num 1350),
      (''MQIACF_MCAST_REL_INDICATOR'', Num 1351), (''MQIACF_CHLAUTH_TYPE'', Num 1352),
      (''MQIACF_MQXR_DIAGNOSTICS_TYPE'', Num 1354), (''MQIACF_CHLAUTH_ATTRS'', Num 1355),
      (''MQIACF_OPERATION_ID'', Num 1356), (''MQIACF_API_CALLER_TYPE'', Num 1357),
      (''MQIACF_API_ENVIRONMENT'', Num 1358), (''MQIACF_TRACE_DETAIL'', Num 1359),
      (''MQIACF_HOBJ'', Num 1360), (''MQIACF_CALL_TYPE'', Num 1361),
      (''MQIACF_MQCB_OPERATION'', Num 1362), (''MQIACF_MQCB_TYPE'', Num 1363),
      (''MQIACF_MQCB_OPTIONS'', Num 1364), (''MQIACF_CLOSE_OPTIONS'', Num 1365),
      (''MQIACF_CTL_OPERATION'', Num 1366), (''MQIACF_GET_OPTIONS'', Num 1367),
      (''MQIACF_RECS_PRESENT'', Num 1368), (''MQIACF_KNOWN_DEST_COUNT'', Num 1369),
      (''MQIACF_UNKNOWN_DEST_COUNT'', Num 1370), (''MQIACF_INVALID_DEST_COUNT'', Num 1371),
      (''MQIACF_RESOLVED_TYPE'', Num 1372), (''MQIACF_PUT_OPTIONS'', Num 1373),
      (''MQIACF_BUFFER_LENGTH'', Num 1374), (''MQIACF_TRACE_DATA_LENGTH'', Num 1375),
      (''MQIACF_SMDS_EXPANDST'', Num 1376), (''MQIACF_STRUC_LENGTH'', Num 1377),
      (''MQIACF_ITEM_COUNT'', Num 1378), (''MQIACF_EXPIRY_TIME'', Num 1379),
      (''MQIACF_CONNECT_TIME'', Num 1380), (''MQIACF_DISCONNECT_TIME'', Num 1381),
      (''MQIACF_HSUB'', Num 1382), (''MQIACF_SUBRQ_OPTIONS'', Num 1383),
      (''MQIACF_XA_RMID'', Num 1384), (''MQIACF_XA_FLAGS'', Num 1385),
      (''MQIACF_XA_RETCODE'', Num 1386), (''MQIACF_XA_HANDLE'', Num 1387),
      (''MQIACF_XA_RETVAL'', Num 1388), (''MQIACF_STATUS_TYPE'', Num 1389),
      (''MQIACF_XA_COUNT'', Num 1390), (''MQIACF_SELECTOR_COUNT'', Num 1391),
      (''MQIACF_SELECTORS'', Num 1392), (''MQIACF_INTATTR_COUNT'', Num 1393),
      (''MQIACF_INT_ATTRS'', Num 1394), (''MQIACF_SUBRQ_ACTION'', Num 1395),
      (''MQIACF_NUM_PUBS'', Num 1396), (''MQIACF_POINTER_SIZE'', Num 1397),
      (''MQIACF_REMOVE_AUTHREC'', Num 1398), (''MQIACF_XR_ATTRS'', Num 1399),
      (''MQIACF_APPL_FUNCTION_TYPE'', Num 1400), (''MQIACF_AMQP_ATTRS'', Num 1401),
      (''MQIACF_EXPORT_TYPE'', Num 1402), (''MQIACF_EXPORT_ATTRS'', Num 1403),
      (''MQIACF_SYSTEM_OBJECTS'', Num 1404), (''MQIACF_CONNECTION_SWAP'', Num 1405),
      (''MQIACF_AMQP_DIAGNOSTICS_TYPE'', Num 1406), (''MQIACF_BUFFER_POOL_LOCATION'', Num 1408),
      (''MQIACF_LDAP_CONNECTION_STATUS'', Num 1409), (''MQIACF_SYSP_MAX_ACE_POOL'', Num 1410),
      (''MQIACF_PAGECLAS'', Num 1411), (''MQIACF_AUTH_REC_TYPE'', Num 1412),
      (''MQIACF_SYSP_MAX_CONC_OFFLOADS'', Num 1413), (''MQIACF_SYSP_ZHYPERWRITE'', Num 1414),
      (''MQIACF_Q_MGR_STATUS_LOG'', Num 1415), (''MQIACF_ARCHIVE_LOG_SIZE'', Num 1416),
      (''MQIACF_MEDIA_LOG_SIZE'', Num 1417), (''MQIACF_RESTART_LOG_SIZE'', Num 1418),
      (''MQIACF_REUSABLE_LOG_SIZE'', Num 1419), (''MQIACF_LOG_IN_USE'', Num 1420),
      (''MQIACF_LOG_UTILIZATION'', Num 1421), (''MQIACF_LOG_REDUCTION'', Num 1422),
      (''MQIACF_IGNORE_STATE'', Num 1423), (''MQIACF_MOVABLE_APPL_COUNT'', Num 1424)]"

end
