(* ===== verification/Mqi_Pcf_B.thy ===== *)
theory Mqi_Pcf_B
  imports C_Init
begin

text \<open>
  The value macros of \<open>cmqcfc.h\<close>, continued: parameter identifiers, parameter values,
  trace-route and publish/subscribe values.
\<close>

definition cmqcfc_Integer_Parameter_6 :: "abi \<Rightarrow> macros" where
  "cmqcfc_Integer_Parameter_6 a =
     [(''MQIACF_APPL_INFO_ATTRS'', Num 1425), (''MQIACF_APPL_MOVABLE'', Num 1426),
      (''MQIACF_REMOTE_QMGR_ACTIVE'', Num 1427), (''MQIACF_APPL_INFO_TYPE'', Num 1428),
      (''MQIACF_APPL_INFO_APPL'', Num 1429), (''MQIACF_APPL_INFO_QMGR'', Num 1430),
      (''MQIACF_APPL_INFO_LOCAL'', Num 1431), (''MQIACF_APPL_IMMOVABLE_COUNT'', Num 1432),
      (''MQIACF_BALANCED'', Num 1433), (''MQIACF_BALSTATE'', Num 1434),
      (''MQIACF_APPL_IMMOVABLE_REASON'', Num 1435), (''MQIACF_DS_ENCRYPTED'', Num 1436),
      (''MQIACF_CUR_Q_FILE_SIZE'', Num 1437), (''MQIACF_CUR_MAX_FILE_SIZE'', Num 1438),
      (''MQIACF_BALANCING_TYPE'', Num 1439), (''MQIACF_BALANCING_OPTIONS'', Num 1440),
      (''MQIACF_BALANCING_TIMEOUT'', Num 1441), (''MQIACF_SYSP_SMF_STAT_TIME_SECS'', Num 1442),
      (''MQIACF_SYSP_SMF_ACCT_TIME_MINS'', Num 1443),
      (''MQIACF_SYSP_SMF_ACCT_TIME_SECS'', Num 1444),
      (''MQIACF_Q_MGR_STATUS_INFO_TYPE'', Num 1445),
      (''MQIACF_Q_MGR_STATUS_INFO_Q_MGR'', Num 1446),
      (''MQIACF_Q_MGR_STATUS_INFO_NHA'', Num 1447), (''MQIACF_AUTO_CLUSTER_TYPE'', Num 1448),
      (''MQIACF_DATA_FS_IN_USE'', Num 1449), (''MQIACF_DATA_FS_SIZE'', Num 1450),
      (''MQIACF_LOG_EXTENT_SIZE'', Num 1451), (''MQIACF_LOG_FS_IN_USE'', Num 1452),
      (''MQIACF_LOG_FS_SIZE'', Num 1453), (''MQIACF_LOG_PRIMARIES'', Num 1454),
      (''MQIACF_LOG_SECONDARIES'', Num 1455), (''MQIACF_LOG_TYPE'', Num 1456),
      (''MQIACF_NHA_INSTANCE_ACTV_CONNS'', Num 1457),
      (''MQIACF_NHA_INSTANCE_BACKLOG'', Num 1458), (''MQIACF_NHA_INSTANCE_IN_SYNC'', Num 1459),
      (''MQIACF_NHA_INSTANCE_ROLE'', Num 1460), (''MQIACF_NHA_IN_SYNC_INSTANCES'', Num 1461),
      (''MQIACF_NHA_TOTAL_INSTANCES'', Num 1462), (''MQIACF_Q_MGR_FS_ENCRYPTED'', Num 1463),
      (''MQIACF_Q_MGR_FS_IN_USE'', Num 1464), (''MQIACF_Q_MGR_FS_SIZE'', Num 1465),
      (''MQIACF_LAST_USED'', Num 1465), (''MQCFACCESS_ENABLED'', Num 0),
      (''MQCFACCESS_SUSPENDED'', Num 1), (''MQCFACCESS_DISABLED'', Num 2),
      (''MQS_OPENMODE_NONE'', Num 0), (''MQS_OPENMODE_READONLY'', Num 1),
      (''MQS_OPENMODE_UPDATE'', Num 2), (''MQS_OPENMODE_RECOVERY'', Num 3),
      (''MQS_STATUS_CLOSED'', Num 0), (''MQS_STATUS_CLOSING'', Num 1),
      (''MQS_STATUS_OPENING'', Num 2), (''MQS_STATUS_OPEN'', Num 3),
      (''MQS_STATUS_NOTENABLED'', Num 4), (''MQS_STATUS_ALLOCFAIL'', Num 5),
      (''MQS_STATUS_OPENFAIL'', Num 6), (''MQS_STATUS_STGFAIL'', Num 7),
      (''MQS_STATUS_DATAFAIL'', Num 8), (''MQS_AVAIL_NORMAL'', Num 0),
      (''MQS_AVAIL_ERROR'', Num 1), (''MQS_AVAIL_STOPPED'', Num 2),
      (''MQBPLOCATION_BELOW'', Num 0), (''MQBPLOCATION_ABOVE'', Num 1),
      (''MQBPLOCATION_SWITCHING_ABOVE'', Num 2), (''MQBPLOCATION_SWITCHING_BELOW'', Num 3),
      (''MQPAGECLAS_4KB'', Num 0), (''MQPAGECLAS_FIXED4KB'', Num 1),
      (''MQS_EXPANDST_NORMAL'', Num 0), (''MQS_EXPANDST_FAILED'', Num 1),
      (''MQS_EXPANDST_MAXIMUM'', Num 2), (''MQUSAGE_SMDS_AVAILABLE'', Num 0),
      (''MQUSAGE_SMDS_NO_DATA'', Num 1)]"

definition cmqcfc_Integer_Parameter_7 :: "abi \<Rightarrow> macros" where
  "cmqcfc_Integer_Parameter_7 a =
     [(''MQIACH_FIRST'', Num 1501), (''MQIACH_XMIT_PROTOCOL_TYPE'', Num 1501),
      (''MQIACH_BATCH_SIZE'', Num 1502), (''MQIACH_DISC_INTERVAL'', Num 1503),
      (''MQIACH_SHORT_TIMER'', Num 1504), (''MQIACH_SHORT_RETRY'', Num 1505),
      (''MQIACH_LONG_TIMER'', Num 1506), (''MQIACH_LONG_RETRY'', Num 1507),
      (''MQIACH_PUT_AUTHORITY'', Num 1508), (''MQIACH_SEQUENCE_NUMBER_WRAP'', Num 1509),
      (''MQIACH_MAX_MSG_LENGTH'', Num 1510), (''MQIACH_CHANNEL_TYPE'', Num 1511),
      (''MQIACH_DATA_COUNT'', Num 1512), (''MQIACH_NAME_COUNT'', Num 1513),
      (''MQIACH_MSG_SEQUENCE_NUMBER'', Num 1514), (''MQIACH_DATA_CONVERSION'', Num 1515),
      (''MQIACH_IN_DOUBT'', Num 1516), (''MQIACH_MCA_TYPE'', Num 1517),
      (''MQIACH_SESSION_COUNT'', Num 1518), (''MQIACH_ADAPTER'', Num 1519),
      (''MQIACH_COMMAND_COUNT'', Num 1520), (''MQIACH_SOCKET'', Num 1521),
      (''MQIACH_PORT'', Num 1522), (''MQIACH_CHANNEL_INSTANCE_TYPE'', Num 1523),
      (''MQIACH_CHANNEL_INSTANCE_ATTRS'', Num 1524), (''MQIACH_CHANNEL_ERROR_DATA'', Num 1525),
      (''MQIACH_CHANNEL_TABLE'', Num 1526), (''MQIACH_CHANNEL_STATUS'', Num 1527),
      (''MQIACH_INDOUBT_STATUS'', Num 1528), (''MQIACH_LAST_SEQ_NUMBER'', Num 1529),
      (''MQIACH_LAST_SEQUENCE_NUMBER'', Num 1529), (''MQIACH_CURRENT_MSGS'', Num 1531),
      (''MQIACH_CURRENT_SEQ_NUMBER'', Num 1532), (''MQIACH_CURRENT_SEQUENCE_NUMBER'', Num 1532),
      (''MQIACH_SSL_RETURN_CODE'', Num 1533), (''MQIACH_MSGS'', Num 1534),
      (''MQIACH_BYTES_SENT'', Num 1535), (''MQIACH_BYTES_RCVD'', Num 1536),
      (''MQIACH_BYTES_RECEIVED'', Num 1536), (''MQIACH_BATCHES'', Num 1537),
      (''MQIACH_BUFFERS_SENT'', Num 1538), (''MQIACH_BUFFERS_RCVD'', Num 1539),
      (''MQIACH_BUFFERS_RECEIVED'', Num 1539), (''MQIACH_LONG_RETRIES_LEFT'', Num 1540),
      (''MQIACH_SHORT_RETRIES_LEFT'', Num 1541), (''MQIACH_MCA_STATUS'', Num 1542),
      (''MQIACH_STOP_REQUESTED'', Num 1543), (''MQIACH_MR_COUNT'', Num 1544),
      (''MQIACH_MR_INTERVAL'', Num 1545), (''MQIACH_NPM_SPEED'', Num 1562),
      (''MQIACH_HB_INTERVAL'', Num 1563), (''MQIACH_BATCH_INTERVAL'', Num 1564),
      (''MQIACH_NETWORK_PRIORITY'', Num 1565), (''MQIACH_KEEP_ALIVE_INTERVAL'', Num 1566),
      (''MQIACH_BATCH_HB'', Num 1567), (''MQIACH_SSL_CLIENT_AUTH'', Num 1568),
      (''MQIACH_ALLOC_RETRY'', Num 1570), (''MQIACH_ALLOC_FAST_TIMER'', Num 1571),
      (''MQIACH_ALLOC_SLOW_TIMER'', Num 1572), (''MQIACH_DISC_RETRY'', Num 1573),
      (''MQIACH_PORT_NUMBER'', Num 1574), (''MQIACH_HDR_COMPRESSION'', Num 1575),
      (''MQIACH_MSG_COMPRESSION'', Num 1576), (''MQIACH_CLWL_CHANNEL_RANK'', Num 1577),
      (''MQIACH_CLWL_CHANNEL_PRIORITY'', Num 1578), (''MQIACH_CLWL_CHANNEL_WEIGHT'', Num 1579),
      (''MQIACH_CHANNEL_DISP'', Num 1580), (''MQIACH_INBOUND_DISP'', Num 1581),
      (''MQIACH_CHANNEL_TYPES'', Num 1582), (''MQIACH_ADAPS_STARTED'', Num 1583),
      (''MQIACH_ADAPS_MAX'', Num 1584), (''MQIACH_DISPS_STARTED'', Num 1585),
      (''MQIACH_DISPS_MAX'', Num 1586), (''MQIACH_SSLTASKS_STARTED'', Num 1587),
      (''MQIACH_SSLTASKS_MAX'', Num 1588), (''MQIACH_CURRENT_CHL'', Num 1589),
      (''MQIACH_CURRENT_CHL_MAX'', Num 1590), (''MQIACH_CURRENT_CHL_TCP'', Num 1591),
      (''MQIACH_CURRENT_CHL_LU62'', Num 1592), (''MQIACH_ACTIVE_CHL'', Num 1593),
      (''MQIACH_ACTIVE_CHL_MAX'', Num 1594), (''MQIACH_ACTIVE_CHL_PAUSED'', Num 1595),
      (''MQIACH_ACTIVE_CHL_STARTED'', Num 1596), (''MQIACH_ACTIVE_CHL_STOPPED'', Num 1597),
      (''MQIACH_ACTIVE_CHL_RETRY'', Num 1598), (''MQIACH_LISTENER_STATUS'', Num 1599),
      (''MQIACH_SHARED_CHL_RESTART'', Num 1600), (''MQIACH_LISTENER_CONTROL'', Num 1601),
      (''MQIACH_BACKLOG'', Num 1602), (''MQIACH_XMITQ_TIME_INDICATOR'', Num 1604),
      (''MQIACH_NETWORK_TIME_INDICATOR'', Num 1605), (''MQIACH_EXIT_TIME_INDICATOR'', Num 1606),
      (''MQIACH_BATCH_SIZE_INDICATOR'', Num 1607), (''MQIACH_XMITQ_MSGS_AVAILABLE'', Num 1608),
      (''MQIACH_CHANNEL_SUBSTATE'', Num 1609), (''MQIACH_SSL_KEY_RESETS'', Num 1610),
      (''MQIACH_COMPRESSION_RATE'', Num 1611), (''MQIACH_COMPRESSION_TIME'', Num 1612),
      (''MQIACH_MAX_XMIT_SIZE'', Num 1613), (''MQIACH_DEF_CHANNEL_DISP'', Num 1614),
      (''MQIACH_SHARING_CONVERSATIONS'', Num 1615), (''MQIACH_MAX_SHARING_CONVS'', Num 1616),
      (''MQIACH_CURRENT_SHARING_CONVS'', Num 1617), (''MQIACH_MAX_INSTANCES'', Num 1618),
      (''MQIACH_MAX_INSTS_PER_CLIENT'', Num 1619), (''MQIACH_CLIENT_CHANNEL_WEIGHT'', Num 1620),
      (''MQIACH_CONNECTION_AFFINITY'', Num 1621), (''MQIACH_AUTH_INFO_TYPES'', Num 1622),
      (''MQIACH_RESET_REQUESTED'', Num 1623), (''MQIACH_BATCH_DATA_LIMIT'', Num 1624),
      (''MQIACH_MSG_HISTORY'', Num 1625), (''MQIACH_MULTICAST_PROPERTIES'', Num 1626),
      (''MQIACH_NEW_SUBSCRIBER_HISTORY'', Num 1627), (''MQIACH_MC_HB_INTERVAL'', Num 1628),
      (''MQIACH_USE_CLIENT_ID'', Num 1629), (''MQIACH_MQTT_KEEP_ALIVE'', Num 1630),
      (''MQIACH_IN_DOUBT_IN'', Num 1631), (''MQIACH_IN_DOUBT_OUT'', Num 1632),
      (''MQIACH_MSGS_SENT'', Num 1633)]"

definition cmqcfc_Integer_Parameter_8 :: "abi \<Rightarrow> macros" where
  "cmqcfc_Integer_Parameter_8 a =
     [(''MQIACH_MSGS_RECEIVED'', Num 1634), (''MQIACH_MSGS_RCVD'', Num 1634),
      (''MQIACH_PENDING_OUT'', Num 1635), (''MQIACH_AVAILABLE_CIPHERSPECS'', Num 1636),
      (''MQIACH_MATCH'', Num 1637), (''MQIACH_USER_SOURCE'', Num 1638),
      (''MQIACH_WARNING'', Num 1639), (''MQIACH_DEF_RECONNECT'', Num 1640),
      (''MQIACH_CHANNEL_SUMMARY_ATTRS'', Num 1642), (''MQIACH_PROTOCOL'', Num 1643),
      (''MQIACH_AMQP_KEEP_ALIVE'', Num 1644), (''MQIACH_SECURITY_PROTOCOL'', Num 1645),
      (''MQIACH_SPL_PROTECTION'', Num 1646), (''MQIACH_LAST_USED'', Num 1646)]"

definition cmqcfc_Character_Parameter_1 :: "abi \<Rightarrow> macros" where
  "cmqcfc_Character_Parameter_1 a =
     [(''MQCAMO_FIRST'', Num 2701), (''MQCAMO_CLOSE_DATE'', Num 2701),
      (''MQCAMO_CLOSE_TIME'', Num 2702), (''MQCAMO_CONN_DATE'', Num 2703),
      (''MQCAMO_CONN_TIME'', Num 2704), (''MQCAMO_DISC_DATE'', Num 2705),
      (''MQCAMO_DISC_TIME'', Num 2706), (''MQCAMO_END_DATE'', Num 2707),
      (''MQCAMO_END_TIME'', Num 2708), (''MQCAMO_OPEN_DATE'', Num 2709),
      (''MQCAMO_OPEN_TIME'', Num 2710), (''MQCAMO_START_DATE'', Num 2711),
      (''MQCAMO_START_TIME'', Num 2712), (''MQCAMO_MONITOR_CLASS'', Num 2713),
      (''MQCAMO_MONITOR_TYPE'', Num 2714), (''MQCAMO_MONITOR_DESC'', Num 2715),
      (''MQCAMO_LAST_USED'', Num 2715)]"

definition cmqcfc_Character_Parameter_2 :: "abi \<Rightarrow> macros" where
  "cmqcfc_Character_Parameter_2 a =
     [(''MQCACF_FIRST'', Num 3001), (''MQCACF_FROM_Q_NAME'', Num 3001),
      (''MQCACF_TO_Q_NAME'', Num 3002), (''MQCACF_FROM_PROCESS_NAME'', Num 3003),
      (''MQCACF_TO_PROCESS_NAME'', Num 3004), (''MQCACF_FROM_NAMELIST_NAME'', Num 3005),
      (''MQCACF_TO_NAMELIST_NAME'', Num 3006), (''MQCACF_FROM_CHANNEL_NAME'', Num 3007),
      (''MQCACF_TO_CHANNEL_NAME'', Num 3008), (''MQCACF_FROM_AUTH_INFO_NAME'', Num 3009),
      (''MQCACF_TO_AUTH_INFO_NAME'', Num 3010), (''MQCACF_Q_NAMES'', Num 3011),
      (''MQCACF_PROCESS_NAMES'', Num 3012), (''MQCACF_NAMELIST_NAMES'', Num 3013),
      (''MQCACF_ESCAPE_TEXT'', Num 3014), (''MQCACF_LOCAL_Q_NAMES'', Num 3015),
      (''MQCACF_MODEL_Q_NAMES'', Num 3016), (''MQCACF_ALIAS_Q_NAMES'', Num 3017),
      (''MQCACF_REMOTE_Q_NAMES'', Num 3018), (''MQCACF_SENDER_CHANNEL_NAMES'', Num 3019),
      (''MQCACF_SERVER_CHANNEL_NAMES'', Num 3020),
      (''MQCACF_REQUESTER_CHANNEL_NAMES'', Num 3021),
      (''MQCACF_RECEIVER_CHANNEL_NAMES'', Num 3022), (''MQCACF_OBJECT_Q_MGR_NAME'', Num 3023),
      (''MQCACF_APPL_NAME'', Num 3024), (''MQCACF_USER_IDENTIFIER'', Num 3025),
      (''MQCACF_AUX_ERROR_DATA_STR_1'', Num 3026), (''MQCACF_AUX_ERROR_DATA_STR_2'', Num 3027),
      (''MQCACF_AUX_ERROR_DATA_STR_3'', Num 3028), (''MQCACF_BRIDGE_NAME'', Num 3029),
      (''MQCACF_STREAM_NAME'', Num 3030), (''MQCACF_TOPIC'', Num 3031),
      (''MQCACF_PARENT_Q_MGR_NAME'', Num 3032), (''MQCACF_CORREL_ID'', Num 3033),
      (''MQCACF_PUBLISH_TIMESTAMP'', Num 3034), (''MQCACF_STRING_DATA'', Num 3035),
      (''MQCACF_SUPPORTED_STREAM_NAME'', Num 3036), (''MQCACF_REG_TOPIC'', Num 3037),
      (''MQCACF_REG_TIME'', Num 3038), (''MQCACF_REG_USER_ID'', Num 3039),
      (''MQCACF_CHILD_Q_MGR_NAME'', Num 3040), (''MQCACF_REG_STREAM_NAME'', Num 3041),
      (''MQCACF_REG_Q_MGR_NAME'', Num 3042), (''MQCACF_REG_Q_NAME'', Num 3043),
      (''MQCACF_REG_CORREL_ID'', Num 3044), (''MQCACF_EVENT_USER_ID'', Num 3045),
      (''MQCACF_OBJECT_NAME'', Num 3046), (''MQCACF_EVENT_Q_MGR'', Num 3047),
      (''MQCACF_AUTH_INFO_NAMES'', Num 3048), (''MQCACF_EVENT_APPL_IDENTITY'', Num 3049),
      (''MQCACF_EVENT_APPL_NAME'', Num 3050), (''MQCACF_EVENT_APPL_ORIGIN'', Num 3051),
      (''MQCACF_SUBSCRIPTION_NAME'', Num 3052), (''MQCACF_REG_SUB_NAME'', Num 3053),
      (''MQCACF_SUBSCRIPTION_IDENTITY'', Num 3054), (''MQCACF_REG_SUB_IDENTITY'', Num 3055),
      (''MQCACF_SUBSCRIPTION_USER_DATA'', Num 3056), (''MQCACF_REG_SUB_USER_DATA'', Num 3057),
      (''MQCACF_APPL_TAG'', Num 3058), (''MQCACF_DATA_SET_NAME'', Num 3059),
      (''MQCACF_UOW_START_DATE'', Num 3060), (''MQCACF_UOW_START_TIME'', Num 3061),
      (''MQCACF_UOW_LOG_START_DATE'', Num 3062), (''MQCACF_UOW_LOG_START_TIME'', Num 3063),
      (''MQCACF_UOW_LOG_EXTENT_NAME'', Num 3064), (''MQCACF_PRINCIPAL_ENTITY_NAMES'', Num 3065),
      (''MQCACF_GROUP_ENTITY_NAMES'', Num 3066), (''MQCACF_AUTH_PROFILE_NAME'', Num 3067),
      (''MQCACF_ENTITY_NAME'', Num 3068), (''MQCACF_SERVICE_COMPONENT'', Num 3069),
      (''MQCACF_RESPONSE_Q_MGR_NAME'', Num 3070),
      (''MQCACF_CURRENT_LOG_EXTENT_NAME'', Num 3071),
      (''MQCACF_RESTART_LOG_EXTENT_NAME'', Num 3072),
      (''MQCACF_MEDIA_LOG_EXTENT_NAME'', Num 3073), (''MQCACF_LOG_PATH'', Num 3074),
      (''MQCACF_COMMAND_MQSC'', Num 3075), (''MQCACF_Q_MGR_CPF'', Num 3076),
      (''MQCACF_USAGE_LOG_RBA'', Num 3078), (''MQCACF_USAGE_LOG_LRSN'', Num 3079),
      (''MQCACF_COMMAND_SCOPE'', Num 3080), (''MQCACF_ASID'', Num 3081),
      (''MQCACF_PSB_NAME'', Num 3082), (''MQCACF_PST_ID'', Num 3083),
      (''MQCACF_TASK_NUMBER'', Num 3084), (''MQCACF_TRANSACTION_ID'', Num 3085),
      (''MQCACF_Q_MGR_UOW_ID'', Num 3086), (''MQCACF_ORIGIN_NAME'', Num 3088),
      (''MQCACF_ENV_INFO'', Num 3089), (''MQCACF_SECURITY_PROFILE'', Num 3090),
      (''MQCACF_CONFIGURATION_DATE'', Num 3091), (''MQCACF_CONFIGURATION_TIME'', Num 3092),
      (''MQCACF_FROM_CF_STRUC_NAME'', Num 3093), (''MQCACF_TO_CF_STRUC_NAME'', Num 3094),
      (''MQCACF_CF_STRUC_NAMES'', Num 3095), (''MQCACF_FAIL_DATE'', Num 3096),
      (''MQCACF_FAIL_TIME'', Num 3097), (''MQCACF_BACKUP_DATE'', Num 3098),
      (''MQCACF_BACKUP_TIME'', Num 3099), (''MQCACF_SYSTEM_NAME'', Num 3100),
      (''MQCACF_CF_STRUC_BACKUP_START'', Num 3101), (''MQCACF_CF_STRUC_BACKUP_END'', Num 3102),
      (''MQCACF_CF_STRUC_LOG_Q_MGRS'', Num 3103), (''MQCACF_FROM_STORAGE_CLASS'', Num 3104),
      (''MQCACF_TO_STORAGE_CLASS'', Num 3105), (''MQCACF_STORAGE_CLASS_NAMES'', Num 3106),
      (''MQCACF_DSG_NAME'', Num 3108), (''MQCACF_DB2_NAME'', Num 3109),
      (''MQCACF_SYSP_CMD_USER_ID'', Num 3110), (''MQCACF_SYSP_OTMA_GROUP'', Num 3111),
      (''MQCACF_SYSP_OTMA_MEMBER'', Num 3112), (''MQCACF_SYSP_OTMA_DRU_EXIT'', Num 3113),
      (''MQCACF_SYSP_OTMA_TPIPE_PFX'', Num 3114), (''MQCACF_SYSP_ARCHIVE_PFX1'', Num 3115),
      (''MQCACF_SYSP_ARCHIVE_UNIT1'', Num 3116), (''MQCACF_SYSP_LOG_CORREL_ID'', Num 3117),
      (''MQCACF_SYSP_UNIT_VOLSER'', Num 3118), (''MQCACF_SYSP_Q_MGR_TIME'', Num 3119),
      (''MQCACF_SYSP_Q_MGR_DATE'', Num 3120), (''MQCACF_SYSP_Q_MGR_RBA'', Num 3121)]"

definition cmqcfc_Character_Parameter_3 :: "abi \<Rightarrow> macros" where
  "cmqcfc_Character_Parameter_3 a =
     [(''MQCACF_SYSP_LOG_RBA'', Num 3122), (''MQCACF_SYSP_SERVICE'', Num 3123),
      (''MQCACF_FROM_LISTENER_NAME'', Num 3124), (''MQCACF_TO_LISTENER_NAME'', Num 3125),
      (''MQCACF_FROM_SERVICE_NAME'', Num 3126), (''MQCACF_TO_SERVICE_NAME'', Num 3127),
      (''MQCACF_LAST_PUT_DATE'', Num 3128), (''MQCACF_LAST_PUT_TIME'', Num 3129),
      (''MQCACF_LAST_GET_DATE'', Num 3130), (''MQCACF_LAST_GET_TIME'', Num 3131),
      (''MQCACF_OPERATION_DATE'', Num 3132), (''MQCACF_OPERATION_TIME'', Num 3133),
      (''MQCACF_ACTIVITY_DESC'', Num 3134), (''MQCACF_APPL_IDENTITY_DATA'', Num 3135),
      (''MQCACF_APPL_ORIGIN_DATA'', Num 3136), (''MQCACF_PUT_DATE'', Num 3137),
      (''MQCACF_PUT_TIME'', Num 3138), (''MQCACF_REPLY_TO_Q'', Num 3139),
      (''MQCACF_REPLY_TO_Q_MGR'', Num 3140), (''MQCACF_RESOLVED_Q_NAME'', Num 3141),
      (''MQCACF_STRUC_ID'', Num 3142), (''MQCACF_VALUE_NAME'', Num 3143),
      (''MQCACF_SERVICE_START_DATE'', Num 3144), (''MQCACF_SERVICE_START_TIME'', Num 3145),
      (''MQCACF_SYSP_OFFLINE_RBA'', Num 3146), (''MQCACF_SYSP_ARCHIVE_PFX2'', Num 3147),
      (''MQCACF_SYSP_ARCHIVE_UNIT2'', Num 3148), (''MQCACF_TO_TOPIC_NAME'', Num 3149),
      (''MQCACF_FROM_TOPIC_NAME'', Num 3150), (''MQCACF_TOPIC_NAMES'', Num 3151),
      (''MQCACF_SUB_NAME'', Num 3152), (''MQCACF_DESTINATION_Q_MGR'', Num 3153),
      (''MQCACF_DESTINATION'', Num 3154), (''MQCACF_SUB_USER_ID'', Num 3156),
      (''MQCACF_SUB_USER_DATA'', Num 3159), (''MQCACF_SUB_SELECTOR'', Num 3160),
      (''MQCACF_LAST_PUB_DATE'', Num 3161), (''MQCACF_LAST_PUB_TIME'', Num 3162),
      (''MQCACF_FROM_SUB_NAME'', Num 3163), (''MQCACF_TO_SUB_NAME'', Num 3164),
      (''MQCACF_LAST_MSG_TIME'', Num 3167), (''MQCACF_LAST_MSG_DATE'', Num 3168),
      (''MQCACF_SUBSCRIPTION_POINT'', Num 3169), (''MQCACF_FILTER'', Num 3170),
      (''MQCACF_NONE'', Num 3171), (''MQCACF_ADMIN_TOPIC_NAMES'', Num 3172),
      (''MQCACF_ROUTING_FINGER_PRINT'', Num 3173), (''MQCACF_APPL_DESC'', Num 3174),
      (''MQCACF_Q_MGR_START_DATE'', Num 3175), (''MQCACF_Q_MGR_START_TIME'', Num 3176),
      (''MQCACF_FROM_COMM_INFO_NAME'', Num 3177), (''MQCACF_TO_COMM_INFO_NAME'', Num 3178),
      (''MQCACF_CF_OFFLOAD_SIZE1'', Num 3179), (''MQCACF_CF_OFFLOAD_SIZE2'', Num 3180),
      (''MQCACF_CF_OFFLOAD_SIZE3'', Num 3181), (''MQCACF_CF_SMDS_GENERIC_NAME'', Num 3182),
      (''MQCACF_CF_SMDS'', Num 3183), (''MQCACF_RECOVERY_DATE'', Num 3184),
      (''MQCACF_RECOVERY_TIME'', Num 3185), (''MQCACF_CF_SMDSCONN'', Num 3186),
      (''MQCACF_CF_STRUC_NAME'', Num 3187), (''MQCACF_ALTERNATE_USERID'', Num 3188),
      (''MQCACF_CHAR_ATTRS'', Num 3189), (''MQCACF_DYNAMIC_Q_NAME'', Num 3190),
      (''MQCACF_HOST_NAME'', Num 3191), (''MQCACF_MQCB_NAME'', Num 3192),
      (''MQCACF_OBJECT_STRING'', Num 3193), (''MQCACF_RESOLVED_LOCAL_Q_MGR'', Num 3194),
      (''MQCACF_RESOLVED_LOCAL_Q_NAME'', Num 3195),
      (''MQCACF_RESOLVED_OBJECT_STRING'', Num 3196), (''MQCACF_RESOLVED_Q_MGR'', Num 3197),
      (''MQCACF_SELECTION_STRING'', Num 3198), (''MQCACF_XA_INFO'', Num 3199),
      (''MQCACF_APPL_FUNCTION'', Num 3200), (''MQCACF_XQH_REMOTE_Q_NAME'', Num 3201),
      (''MQCACF_XQH_REMOTE_Q_MGR'', Num 3202), (''MQCACF_XQH_PUT_TIME'', Num 3203),
      (''MQCACF_XQH_PUT_DATE'', Num 3204), (''MQCACF_EXCL_OPERATOR_MESSAGES'', Num 3205),
      (''MQCACF_CSP_USER_IDENTIFIER'', Num 3206), (''MQCACF_AMQP_CLIENT_ID'', Num 3207),
      (''MQCACF_ARCHIVE_LOG_EXTENT_NAME'', Num 3208),
      (''MQCACF_APPL_IMMOVABLE_DATE'', Num 3209), (''MQCACF_APPL_IMMOVABLE_TIME'', Num 3210),
      (''MQCACF_NHA_INSTANCE_NAME'', Num 3211), (''MQCACF_Q_MGR_DATA_PATH'', Num 3212),
      (''MQCACF_UNIFORM_CLUSTER_NAME'', Num 3213), (''MQCACF_LOG_START_DATE'', Num 3214),
      (''MQCACF_LOG_START_LSN'', Num 3215), (''MQCACF_LOG_START_TIME'', Num 3216),
      (''MQCACF_NHA_GROUP_INITIAL_DATE'', Num 3217),
      (''MQCACF_NHA_GROUP_INITIAL_LSN'', Num 3218),
      (''MQCACF_NHA_GROUP_INITIAL_TIME'', Num 3219), (''MQCACF_NHA_REPL_ADDRESS'', Num 3220),
      (''MQCACF_LAST_USED'', Num 3220)]"

definition cmqcfc_Character_Parameter_4 :: "abi \<Rightarrow> macros" where
  "cmqcfc_Character_Parameter_4 a =
     [(''MQCACH_FIRST'', Num 3501), (''MQCACH_CHANNEL_NAME'', Num 3501),
      (''MQCACH_DESC'', Num 3502), (''MQCACH_MODE_NAME'', Num 3503),
      (''MQCACH_TP_NAME'', Num 3504), (''MQCACH_XMIT_Q_NAME'', Num 3505),
      (''MQCACH_CONNECTION_NAME'', Num 3506), (''MQCACH_MCA_NAME'', Num 3507),
      (''MQCACH_SEC_EXIT_NAME'', Num 3508), (''MQCACH_MSG_EXIT_NAME'', Num 3509),
      (''MQCACH_SEND_EXIT_NAME'', Num 3510), (''MQCACH_RCV_EXIT_NAME'', Num 3511),
      (''MQCACH_CHANNEL_NAMES'', Num 3512), (''MQCACH_SEC_EXIT_USER_DATA'', Num 3513),
      (''MQCACH_MSG_EXIT_USER_DATA'', Num 3514), (''MQCACH_SEND_EXIT_USER_DATA'', Num 3515),
      (''MQCACH_RCV_EXIT_USER_DATA'', Num 3516), (''MQCACH_USER_ID'', Num 3517),
      (''MQCACH_PASSWORD'', Num 3518), (''MQCACH_LOCAL_ADDRESS'', Num 3520),
      (''MQCACH_LOCAL_NAME'', Num 3521), (''MQCACH_LAST_MSG_TIME'', Num 3524),
      (''MQCACH_LAST_MSG_DATE'', Num 3525), (''MQCACH_MCA_USER_ID'', Num 3527),
      (''MQCACH_CHANNEL_START_TIME'', Num 3528), (''MQCACH_CHANNEL_START_DATE'', Num 3529),
      (''MQCACH_MCA_JOB_NAME'', Num 3530), (''MQCACH_LAST_LUWID'', Num 3531),
      (''MQCACH_CURRENT_LUWID'', Num 3532), (''MQCACH_FORMAT_NAME'', Num 3533),
      (''MQCACH_MR_EXIT_NAME'', Num 3534), (''MQCACH_MR_EXIT_USER_DATA'', Num 3535),
      (''MQCACH_SSL_CIPHER_SPEC'', Num 3544), (''MQCACH_SSL_PEER_NAME'', Num 3545),
      (''MQCACH_SSL_HANDSHAKE_STAGE'', Num 3546), (''MQCACH_SSL_SHORT_PEER_NAME'', Num 3547),
      (''MQCACH_REMOTE_APPL_TAG'', Num 3548), (''MQCACH_SSL_CERT_USER_ID'', Num 3549),
      (''MQCACH_SSL_CERT_ISSUER_NAME'', Num 3550), (''MQCACH_LU_NAME'', Num 3551),
      (''MQCACH_IP_ADDRESS'', Num 3552), (''MQCACH_TCP_NAME'', Num 3553),
      (''MQCACH_LISTENER_NAME'', Num 3554), (''MQCACH_LISTENER_DESC'', Num 3555),
      (''MQCACH_LISTENER_START_DATE'', Num 3556), (''MQCACH_LISTENER_START_TIME'', Num 3557),
      (''MQCACH_SSL_KEY_RESET_DATE'', Num 3558), (''MQCACH_SSL_KEY_RESET_TIME'', Num 3559),
      (''MQCACH_REMOTE_VERSION'', Num 3560), (''MQCACH_REMOTE_PRODUCT'', Num 3561),
      (''MQCACH_GROUP_ADDRESS'', Num 3562), (''MQCACH_JAAS_CONFIG'', Num 3563),
      (''MQCACH_CLIENT_ID'', Num 3564), (''MQCACH_SSL_KEY_PASSPHRASE'', Num 3565),
      (''MQCACH_CONNECTION_NAME_LIST'', Num 3566), (''MQCACH_CLIENT_USER_ID'', Num 3567),
      (''MQCACH_MCA_USER_ID_LIST'', Num 3568), (''MQCACH_SSL_CIPHER_SUITE'', Num 3569),
      (''MQCACH_WEBCONTENT_PATH'', Num 3570), (''MQCACH_TOPIC_ROOT'', Num 3571),
      (''MQCACH_TEMPORARY_MODEL_Q'', Num 3572), (''MQCACH_TEMPORARY_Q_PREFIX'', Num 3573),
      (''MQCACH_LAST_USED'', Num 3573)]"

definition cmqcfc_Group_Parameter_1 :: "abi \<Rightarrow> macros" where
  "cmqcfc_Group_Parameter_1 a =
     [(''MQGACF_FIRST'', Num 8001), (''MQGACF_COMMAND_CONTEXT'', Num 8001),
      (''MQGACF_COMMAND_DATA'', Num 8002), (''MQGACF_TRACE_ROUTE'', Num 8003),
      (''MQGACF_OPERATION'', Num 8004), (''MQGACF_ACTIVITY'', Num 8005),
      (''MQGACF_EMBEDDED_MQMD'', Num 8006), (''MQGACF_MESSAGE'', Num 8007),
      (''MQGACF_MQMD'', Num 8008), (''MQGACF_VALUE_NAMING'', Num 8009),
      (''MQGACF_Q_ACCOUNTING_DATA'', Num 8010), (''MQGACF_Q_STATISTICS_DATA'', Num 8011),
      (''MQGACF_CHL_STATISTICS_DATA'', Num 8012), (''MQGACF_ACTIVITY_TRACE'', Num 8013),
      (''MQGACF_APP_DIST_LIST'', Num 8014), (''MQGACF_MONITOR_CLASS'', Num 8015),
      (''MQGACF_MONITOR_TYPE'', Num 8016), (''MQGACF_MONITOR_ELEMENT'', Num 8017),
      (''MQGACF_APPL_STATUS'', Num 8018), (''MQGACF_CHANGED_APPLS'', Num 8019),
      (''MQGACF_ALL_APPLS'', Num 8020), (''MQGACF_APPL_BALANCE'', Num 8021),
      (''MQGACF_LAST_USED'', Num 8021)]"

definition cmqcfc_Group_Parameter_2 :: "abi \<Rightarrow> macros" where
  "cmqcfc_Group_Parameter_2 a =
     [(''MQACT_FORCE_REMOVE'', Num 1), (''MQACT_ADVANCE_LOG'', Num 2),
      (''MQACT_COLLECT_STATISTICS'', Num 3), (''MQACT_PUBSUB'', Num 4), (''MQACT_ADD'', Num 5),
      (''MQACT_REPLACE'', Num 6), (''MQACT_REMOVE'', Num 7), (''MQACT_REMOVEALL'', Num 8),
      (''MQACT_FAIL'', Num 9), (''MQACT_REDUCE_LOG'', Num 10), (''MQACT_ARCHIVE_LOG'', Num 11),
      (''MQIS_NO'', Num 0), (''MQIS_YES'', Num 1), (''MQAPPL_IMMOVABLE'', Num 0),
      (''MQAPPL_MOVABLE'', Num 1), (''MQACTIVE_NO'', Num 0), (''MQACTIVE_YES'', Num 1),
      (''MQBALANCED_NO'', Num 0), (''MQBALANCED_YES'', Num 1),
      (''MQBALANCED_NOT_APPLICABLE'', Num 2), (''MQBALANCED_UNKNOWN'', Num 3),
      (''MQBALSTATE_NOT_APPLICABLE'', Num 0), (''MQBALSTATE_LOW'', Num 1),
      (''MQBALSTATE_OK'', Num 2), (''MQBALSTATE_HIGH'', Num 3), (''MQBALSTATE_UNKNOWN'', Num 4),
      (''MQIMMREASON_NONE'', Num 0), (''MQIMMREASON_NOT_CLIENT'', Num 1),
      (''MQIMMREASON_NOT_RECONNECTABLE'', Num 2), (''MQIMMREASON_MOVING'', Num 3),
      (''MQIMMREASON_APPLNAME_CHANGED'', Num 4), (''MQIMMREASON_IN_TRANSACTION'', Num 5),
      (''MQIMMREASON_AWAITS_REPLY'', Num 6), (''MQIMMREASON_NO_REDIRECT'', Num 7),
      (''MQAS_NONE'', Num 0), (''MQAS_STARTED'', Num 1), (''MQAS_START_WAIT'', Num 2),
      (''MQAS_STOPPED'', Num 3), (''MQAS_SUSPENDED'', Num 4),
      (''MQAS_SUSPENDED_TEMPORARY'', Num 5), (''MQAS_ACTIVE'', Num 6),
      (''MQAS_INACTIVE'', Num 7), (''MQAUTH_NONE'', Num 0),
      (''MQAUTH_ALT_USER_AUTHORITY'', Num 1), (''MQAUTH_BROWSE'', Num 2),
      (''MQAUTH_CHANGE'', Num 3), (''MQAUTH_CLEAR'', Num 4), (''MQAUTH_CONNECT'', Num 5),
      (''MQAUTH_CREATE'', Num 6), (''MQAUTH_DELETE'', Num 7), (''MQAUTH_DISPLAY'', Num 8),
      (''MQAUTH_INPUT'', Num 9), (''MQAUTH_INQUIRE'', Num 10), (''MQAUTH_OUTPUT'', Num 11),
      (''MQAUTH_PASS_ALL_CONTEXT'', Num 12), (''MQAUTH_PASS_IDENTITY_CONTEXT'', Num 13),
      (''MQAUTH_SET'', Num 14), (''MQAUTH_SET_ALL_CONTEXT'', Num 15),
      (''MQAUTH_SET_IDENTITY_CONTEXT'', Num 16), (''MQAUTH_CONTROL'', Num 17),
      (''MQAUTH_CONTROL_EXTENDED'', Num 18), (''MQAUTH_PUBLISH'', Num 19),
      (''MQAUTH_SUBSCRIBE'', Num 20), (''MQAUTH_RESUME'', Num 21), (''MQAUTH_SYSTEM'', Num 22),
      (''MQAUTH_ALL'', Num (- 1)), (''MQAUTH_ALL_ADMIN'', Num (- 2)),
      (''MQAUTH_ALL_MQI'', Num (- 3)), (''MQAUTHOPT_ENTITY_EXPLICIT'', Num 1),
      (''MQAUTHOPT_ENTITY_SET'', Num 2), (''MQAUTHOPT_NAME_EXPLICIT'', Num 16),
      (''MQAUTHOPT_NAME_ALL_MATCHING'', Num 32), (''MQAUTHOPT_NAME_AS_WILDCARD'', Num 64),
      (''MQAUTHOPT_CUMULATIVE'', Num 256), (''MQAUTHOPT_EXCLUDE_TEMP'', Num 512),
      (''MQBT_OTMA'', Num 1), (''MQCFO_REFRESH_REPOSITORY_YES'', Num 1),
      (''MQCFO_REFRESH_REPOSITORY_NO'', Num 0), (''MQCFO_REMOVE_QUEUES_YES'', Num 1),
      (''MQCFO_REMOVE_QUEUES_NO'', Num 0), (''MQCAUT_ALL'', Num 0),
      (''MQCAUT_BLOCKUSER'', Num 1), (''MQCAUT_BLOCKADDR'', Num 2),
      (''MQCAUT_SSLPEERMAP'', Num 3), (''MQCAUT_ADDRESSMAP'', Num 4),
      (''MQCAUT_USERMAP'', Num 5), (''MQCAUT_QMGRMAP'', Num 6)]"

definition cmqcfc_Group_Parameter_3 :: "abi \<Rightarrow> macros" where
  "cmqcfc_Group_Parameter_3 a =
     [(''MQCFSTATUS_NOT_FOUND'', Num 0), (''MQCFSTATUS_ACTIVE'', Num 1),
      (''MQCFSTATUS_IN_RECOVER'', Num 2), (''MQCFSTATUS_IN_BACKUP'', Num 3),
      (''MQCFSTATUS_FAILED'', Num 4), (''MQCFSTATUS_NONE'', Num 5),
      (''MQCFSTATUS_UNKNOWN'', Num 6), (''MQCFSTATUS_RECOVERED'', Num 7),
      (''MQCFSTATUS_EMPTY'', Num 8), (''MQCFSTATUS_NEW'', Num 9),
      (''MQCFSTATUS_ADMIN_INCOMPLETE'', Num 20), (''MQCFSTATUS_NEVER_USED'', Num 21),
      (''MQCFSTATUS_NO_BACKUP'', Num 22), (''MQCFSTATUS_NOT_FAILED'', Num 23),
      (''MQCFSTATUS_NOT_RECOVERABLE'', Num 24), (''MQCFSTATUS_XES_ERROR'', Num 25),
      (''MQCFTYPE_APPL'', Num 0), (''MQCFTYPE_ADMIN'', Num 1), (''MQCHIDS_NOT_INDOUBT'', Num 0),
      (''MQCHIDS_INDOUBT'', Num 1), (''MQCHLD_ALL'', Num (- 1)), (''MQCHLD_DEFAULT'', Num 1),
      (''MQCHLD_SHARED'', Num 2), (''MQCHLD_PRIVATE'', Num 4), (''MQCHLD_FIXSHARED'', Num 5),
      (''MQUCI_YES'', Num 1), (''MQUCI_NO'', Num 0), (''MQCHS_INACTIVE'', Num 0),
      (''MQCHS_BINDING'', Num 1), (''MQCHS_STARTING'', Num 2), (''MQCHS_RUNNING'', Num 3),
      (''MQCHS_STOPPING'', Num 4), (''MQCHS_RETRYING'', Num 5), (''MQCHS_STOPPED'', Num 6),
      (''MQCHS_REQUESTING'', Num 7), (''MQCHS_PAUSED'', Num 8), (''MQCHS_DISCONNECTED'', Num 9),
      (''MQCHS_INITIALIZING'', Num 13), (''MQCHS_SWITCHING'', Num 14),
      (''MQCHSSTATE_OTHER'', Num 0), (''MQCHSSTATE_END_OF_BATCH'', Num 100),
      (''MQCHSSTATE_SENDING'', Num 200), (''MQCHSSTATE_RECEIVING'', Num 300),
      (''MQCHSSTATE_SERIALIZING'', Num 400), (''MQCHSSTATE_RESYNCHING'', Num 500),
      (''MQCHSSTATE_HEARTBEATING'', Num 600), (''MQCHSSTATE_IN_SCYEXIT'', Num 700),
      (''MQCHSSTATE_IN_RCVEXIT'', Num 800), (''MQCHSSTATE_IN_SENDEXIT'', Num 900),
      (''MQCHSSTATE_IN_MSGEXIT'', Num 1000), (''MQCHSSTATE_IN_MREXIT'', Num 1100),
      (''MQCHSSTATE_IN_CHADEXIT'', Num 1200), (''MQCHSSTATE_NET_CONNECTING'', Num 1250),
      (''MQCHSSTATE_SSL_HANDSHAKING'', Num 1300), (''MQCHSSTATE_NAME_SERVER'', Num 1400),
      (''MQCHSSTATE_IN_MQPUT'', Num 1500), (''MQCHSSTATE_IN_MQGET'', Num 1600),
      (''MQCHSSTATE_IN_MQI_CALL'', Num 1700), (''MQCHSSTATE_COMPRESSING'', Num 1800),
      (''MQCHSH_RESTART_NO'', Num 0), (''MQCHSH_RESTART_YES'', Num 1),
      (''MQCHSR_STOP_NOT_REQUESTED'', Num 0), (''MQCHSR_STOP_REQUESTED'', Num 1),
      (''MQCHRR_RESET_NOT_REQUESTED'', Num 0), (''MQCHTAB_Q_MGR'', Num 1),
      (''MQCHTAB_CLNTCONN'', Num 2), (''MQCLRS_LOCAL'', Num 1), (''MQCLRS_GLOBAL'', Num 2),
      (''MQCLRT_RETAINED'', Num 1), (''MQCMDI_CMDSCOPE_ACCEPTED'', Num 1),
      (''MQCMDI_CMDSCOPE_GENERATED'', Num 2), (''MQCMDI_CMDSCOPE_COMPLETED'', Num 3),
      (''MQCMDI_QSG_DISP_COMPLETED'', Num 4), (''MQCMDI_COMMAND_ACCEPTED'', Num 5),
      (''MQCMDI_CLUSTER_REQUEST_QUEUED'', Num 6), (''MQCMDI_CHANNEL_INIT_STARTED'', Num 7),
      (''MQCMDI_RECOVER_STARTED'', Num 11), (''MQCMDI_BACKUP_STARTED'', Num 12),
      (''MQCMDI_RECOVER_COMPLETED'', Num 13), (''MQCMDI_SEC_TIMER_ZERO'', Num 14),
      (''MQCMDI_REFRESH_CONFIGURATION'', Num 16), (''MQCMDI_SEC_SIGNOFF_ERROR'', Num 17),
      (''MQCMDI_IMS_BRIDGE_SUSPENDED'', Num 18), (''MQCMDI_DB2_SUSPENDED'', Num 19),
      (''MQCMDI_DB2_OBSOLETE_MSGS'', Num 20), (''MQCMDI_SEC_UPPERCASE'', Num 21),
      (''MQCMDI_SEC_MIXEDCASE'', Num 22), (''MQDISCONNECT_NORMAL'', Num 0),
      (''MQDISCONNECT_IMPLICIT'', Num 1), (''MQDISCONNECT_Q_MGR'', Num 2)]"

definition cmqcfc_Group_Parameter_4 :: "abi \<Rightarrow> macros" where
  "cmqcfc_Group_Parameter_4 a =
     [(''MQET_MQSC'', Num 1), (''MQEVO_OTHER'', Num 0), (''MQEVO_CONSOLE'', Num 1),
      (''MQEVO_INIT'', Num 2), (''MQEVO_MSG'', Num 3), (''MQEVO_MQSET'', Num 4),
      (''MQEVO_INTERNAL'', Num 5), (''MQEVO_MQSUB'', Num 6), (''MQEVO_CTLMSG'', Num 7),
      (''MQEVO_REST'', Num 8), (''MQEVR_DISABLED'', Num 0), (''MQEVR_ENABLED'', Num 1),
      (''MQEVR_EXCEPTION'', Num 2), (''MQEVR_NO_DISPLAY'', Num 3), (''MQEVR_API_ONLY'', Num 4),
      (''MQEVR_ADMIN_ONLY'', Num 5), (''MQEVR_USER_ONLY'', Num 6), (''MQFC_YES'', Num 1),
      (''MQFC_NO'', Num 0), (''MQHSTATE_INACTIVE'', Num 0), (''MQHSTATE_ACTIVE'', Num 1),
      (''MQINBD_Q_MGR'', Num 0), (''MQINBD_GROUP'', Num 3), (''MQIDO_COMMIT'', Num 1),
      (''MQIDO_BACKOUT'', Num 2), (''MQMATCH_GENERIC'', Num 0), (''MQMATCH_RUNCHECK'', Num 1),
      (''MQMATCH_EXACT'', Num 2), (''MQMATCH_ALL'', Num 3), (''MQMCAS_STOPPED'', Num 0),
      (''MQMCAS_RUNNING'', Num 3), (''MQMODE_FORCE'', Num 0), (''MQMODE_QUIESCE'', Num 1),
      (''MQMODE_TERMINATE'', Num 2), (''MQMLP_TOLERATE_UNPROTECTED_NO'', Num 0),
      (''MQMLP_TOLERATE_UNPROTECTED_YES'', Num 1), (''MQMLP_ENCRYPTION_ALG_NONE'', Num 0),
      (''MQMLP_ENCRYPTION_ALG_RC2'', Num 1), (''MQMLP_ENCRYPTION_ALG_DES'', Num 2),
      (''MQMLP_ENCRYPTION_ALG_3DES'', Num 3), (''MQMLP_ENCRYPTION_ALG_AES128'', Num 4),
      (''MQMLP_ENCRYPTION_ALG_AES256'', Num 5), (''MQMLP_SIGN_ALG_NONE'', Num 0),
      (''MQMLP_SIGN_ALG_MD5'', Num 1), (''MQMLP_SIGN_ALG_SHA1'', Num 2),
      (''MQMLP_SIGN_ALG_SHA224'', Num 3), (''MQMLP_SIGN_ALG_SHA256'', Num 4),
      (''MQMLP_SIGN_ALG_SHA384'', Num 5), (''MQMLP_SIGN_ALG_SHA512'', Num 6),
      (''MQPO_YES'', Num 1), (''MQPO_NO'', Num 0), (''MQPSCT_NONE'', Num (- 1)),
      (''MQPSST_ALL'', Num 0), (''MQPSST_LOCAL'', Num 1), (''MQPSST_PARENT'', Num 2),
      (''MQPSST_CHILD'', Num 3), (''MQPS_STATUS_INACTIVE'', Num 0),
      (''MQPS_STATUS_STARTING'', Num 1), (''MQPS_STATUS_STOPPING'', Num 2),
      (''MQPS_STATUS_ACTIVE'', Num 3), (''MQPS_STATUS_COMPAT'', Num 4),
      (''MQPS_STATUS_ERROR'', Num 5), (''MQPS_STATUS_REFUSED'', Num 6),
      (''MQQMDT_EXPLICIT_CLUSTER_SENDER'', Num 1), (''MQQMDT_AUTO_CLUSTER_SENDER'', Num 2),
      (''MQQMDT_AUTO_EXP_CLUSTER_SENDER'', Num 4), (''MQQMDT_CLUSTER_RECEIVER'', Num 3),
      (''MQQMFAC_IMS_BRIDGE'', Num 1), (''MQQMFAC_DB2'', Num 2), (''MQQMSTA_STARTING'', Num 1),
      (''MQQMSTA_RUNNING'', Num 2), (''MQQMSTA_QUIESCING'', Num 3),
      (''MQQMSTA_STANDBY'', Num 4), (''MQQMT_NORMAL'', Num 0), (''MQQMT_REPOSITORY'', Num 1),
      (''MQQO_YES'', Num 1), (''MQQO_NO'', Num 0)]"

definition cmqcfc_Group_Parameter_5 :: "abi \<Rightarrow> macros" where
  "cmqcfc_Group_Parameter_5 a =
     [(''MQQSIE_NONE'', Num 0), (''MQQSIE_HIGH'', Num 1), (''MQQSIE_OK'', Num 2),
      (''MQQSOT_ALL'', Num 1), (''MQQSOT_INPUT'', Num 2), (''MQQSOT_OUTPUT'', Num 3),
      (''MQQSGS_UNKNOWN'', Num 0), (''MQQSGS_CREATED'', Num 1), (''MQQSGS_ACTIVE'', Num 2),
      (''MQQSGS_INACTIVE'', Num 3), (''MQQSGS_FAILED'', Num 4), (''MQQSGS_PENDING'', Num 5),
      (''MQQSO_NO'', Num 0), (''MQQSO_YES'', Num 1), (''MQQSO_SHARED'', Num 1),
      (''MQQSO_EXCLUSIVE'', Num 2), (''MQQSUM_YES'', Num 1), (''MQQSUM_NO'', Num 0),
      (''MQRAR_YES'', Num 1), (''MQRAR_NO'', Num 0), (''MQRP_YES'', Num 1),
      (''MQRP_NO'', Num 0), (''MQRQ_CONN_NOT_AUTHORIZED'', Num 1),
      (''MQRQ_OPEN_NOT_AUTHORIZED'', Num 2), (''MQRQ_CLOSE_NOT_AUTHORIZED'', Num 3),
      (''MQRQ_CMD_NOT_AUTHORIZED'', Num 4), (''MQRQ_Q_MGR_STOPPING'', Num 5),
      (''MQRQ_Q_MGR_QUIESCING'', Num 6), (''MQRQ_CHANNEL_STOPPED_OK'', Num 7),
      (''MQRQ_CHANNEL_STOPPED_ERROR'', Num 8), (''MQRQ_CHANNEL_STOPPED_RETRY'', Num 9),
      (''MQRQ_CHANNEL_STOPPED_DISABLED'', Num 10), (''MQRQ_BRIDGE_STOPPED_OK'', Num 11),
      (''MQRQ_BRIDGE_STOPPED_ERROR'', Num 12), (''MQRQ_SSL_HANDSHAKE_ERROR'', Num 13),
      (''MQRQ_SSL_CIPHER_SPEC_ERROR'', Num 14), (''MQRQ_SSL_CLIENT_AUTH_ERROR'', Num 15),
      (''MQRQ_SSL_PEER_NAME_ERROR'', Num 16), (''MQRQ_SUB_NOT_AUTHORIZED'', Num 17),
      (''MQRQ_SUB_DEST_NOT_AUTHORIZED'', Num 18), (''MQRQ_SSL_UNKNOWN_REVOCATION'', Num 19),
      (''MQRQ_SYS_CONN_NOT_AUTHORIZED'', Num 20), (''MQRQ_CHANNEL_BLOCKED_ADDRESS'', Num 21),
      (''MQRQ_CHANNEL_BLOCKED_USERID'', Num 22), (''MQRQ_CHANNEL_BLOCKED_NOACCESS'', Num 23),
      (''MQRQ_MAX_ACTIVE_CHANNELS'', Num 24), (''MQRQ_MAX_CHANNELS'', Num 25),
      (''MQRQ_SVRCONN_INST_LIMIT'', Num 26), (''MQRQ_CLIENT_INST_LIMIT'', Num 27),
      (''MQRQ_CAF_NOT_INSTALLED'', Num 28), (''MQRQ_CSP_NOT_AUTHORIZED'', Num 29),
      (''MQRQ_FAILOVER_PERMITTED'', Num 30), (''MQRQ_FAILOVER_NOT_PERMITTED'', Num 31),
      (''MQRQ_STANDBY_ACTIVATED'', Num 32), (''MQRQ_REPLICA_ACTIVATED'', Num 33),
      (''MQRT_CONFIGURATION'', Num 1), (''MQRT_EXPIRY'', Num 2), (''MQRT_NSPROC'', Num 3),
      (''MQRT_PROXYSUB'', Num 4), (''MQRT_SUB_CONFIGURATION'', Num 5), (''MQSCO_Q_MGR'', Num 1),
      (''MQSCO_CELL'', Num 2), (''MQSECITEM_ALL'', Num 0), (''MQSECITEM_MQADMIN'', Num 1),
      (''MQSECITEM_MQNLIST'', Num 2), (''MQSECITEM_MQPROC'', Num 3),
      (''MQSECITEM_MQQUEUE'', Num 4), (''MQSECITEM_MQCONN'', Num 5),
      (''MQSECITEM_MQCMDS'', Num 6), (''MQSECITEM_MXADMIN'', Num 7),
      (''MQSECITEM_MXNLIST'', Num 8), (''MQSECITEM_MXPROC'', Num 9),
      (''MQSECITEM_MXQUEUE'', Num 10), (''MQSECITEM_MXTOPIC'', Num 11),
      (''MQSECSW_PROCESS'', Num 1), (''MQSECSW_NAMELIST'', Num 2), (''MQSECSW_Q'', Num 3),
      (''MQSECSW_TOPIC'', Num 4), (''MQSECSW_CONTEXT'', Num 6),
      (''MQSECSW_ALTERNATE_USER'', Num 7), (''MQSECSW_COMMAND'', Num 8),
      (''MQSECSW_CONNECTION'', Num 9), (''MQSECSW_SUBSYSTEM'', Num 10),
      (''MQSECSW_COMMAND_RESOURCES'', Num 11), (''MQSECSW_Q_MGR'', Num 15),
      (''MQSECSW_QSG'', Num 16), (''MQSECSW_OFF_FOUND'', Num 21),
      (''MQSECSW_ON_FOUND'', Num 22), (''MQSECSW_OFF_NOT_FOUND'', Num 23),
      (''MQSECSW_ON_NOT_FOUND'', Num 24), (''MQSECSW_OFF_ERROR'', Num 25),
      (''MQSECSW_ON_OVERRIDDEN'', Num 26)]"

definition cmqcfc_Group_Parameter_6 :: "abi \<Rightarrow> macros" where
  "cmqcfc_Group_Parameter_6 a =
     [(''MQSECTYPE_AUTHSERV'', Num 1), (''MQSECTYPE_SSL'', Num 2),
      (''MQSECTYPE_CLASSES'', Num 3), (''MQSECTYPE_CONNAUTH'', Num 4),
      (''MQCHK_OPTIONAL'', Num 0), (''MQCHK_NONE'', Num 1), (''MQCHK_REQUIRED_ADMIN'', Num 2),
      (''MQCHK_REQUIRED'', Num 3), (''MQCHK_AS_Q_MGR'', Num 4), (''MQADPCTX_NO'', Num 0),
      (''MQADPCTX_YES'', Num 1), (''MQSECCOMM_NO'', Num 0), (''MQSECCOMM_YES'', Num 1),
      (''MQSECCOMM_ANON'', Num 2), (''MQLDAP_AUTHORMD_OS'', Num 0),
      (''MQLDAP_AUTHORMD_SEARCHGRP'', Num 1), (''MQLDAP_AUTHORMD_SEARCHUSR'', Num 2),
      (''MQLDAP_AUTHORMD_SRCHGRPSN'', Num 3), (''MQLDAP_NESTGRP_NO'', Num 0),
      (''MQLDAP_NESTGRP_YES'', Num 1), (''MQAUTHENTICATE_OS'', Num 0),
      (''MQAUTHENTICATE_PAM'', Num 1), (''MQLDAPC_INACTIVE'', Num 0),
      (''MQLDAPC_CONNECTED'', Num 1), (''MQLDAPC_ERROR'', Num 2), (''MQSELTYPE_NONE'', Num 0),
      (''MQSELTYPE_STANDARD'', Num 1), (''MQSELTYPE_EXTENDED'', Num 2),
      (''MQCHLA_DISABLED'', Num 0), (''MQCHLA_ENABLED'', Num 1), (''MQRDNS_ENABLED'', Num 0),
      (''MQRDNS_DISABLED'', Num 1), (''MQCLROUTE_DIRECT'', Num 0),
      (''MQCLROUTE_TOPIC_HOST'', Num 1), (''MQCLROUTE_NONE'', Num 2),
      (''MQCLST_ACTIVE'', Num 0), (''MQCLST_PENDING'', Num 1), (''MQCLST_INVALID'', Num 2),
      (''MQCLST_ERROR'', Num 3), (''MQCLXQ_SCTQ'', Num 0), (''MQCLXQ_CHANNEL'', Num 1),
      (''MQSUS_YES'', Num 1), (''MQSUS_NO'', Num 0), (''MQSYNCPOINT_YES'', Num 0),
      (''MQSYNCPOINT_IFPER'', Num 1), (''MQSYSP_NO'', Num 0), (''MQSYSP_YES'', Num 1),
      (''MQSYSP_EXTENDED'', Num 2), (''MQSYSP_TYPE_INITIAL'', Num 10),
      (''MQSYSP_TYPE_SET'', Num 11), (''MQSYSP_TYPE_LOG_COPY'', Num 12),
      (''MQSYSP_TYPE_LOG_STATUS'', Num 13), (''MQSYSP_TYPE_ARCHIVE_TAPE'', Num 14),
      (''MQSYSP_ALLOC_BLK'', Num 20), (''MQSYSP_ALLOC_TRK'', Num 21),
      (''MQSYSP_ALLOC_CYL'', Num 22), (''MQSYSP_STATUS_BUSY'', Num 30),
      (''MQSYSP_STATUS_PREMOUNT'', Num 31), (''MQSYSP_STATUS_AVAILABLE'', Num 32),
      (''MQSYSP_STATUS_UNKNOWN'', Num 33), (''MQSYSP_STATUS_ALLOC_ARCHIVE'', Num 34),
      (''MQSYSP_STATUS_COPYING_BSDS'', Num 35), (''MQSYSP_STATUS_COPYING_LOG'', Num 36),
      (''MQEXT_ALL'', Num 0), (''MQEXT_OBJECT'', Num 1), (''MQEXT_AUTHORITY'', Num 2),
      (''MQEXTATTRS_ALL'', Num 0), (''MQEXTATTRS_NONDEF'', Num 1), (''MQSYSOBJ_YES'', Num 0),
      (''MQSYSOBJ_NO'', Num 1), (''MQSUBTYPE_API'', Num 1), (''MQSUBTYPE_ADMIN'', Num 2),
      (''MQSUBTYPE_PROXY'', Num 3), (''MQSUBTYPE_ALL'', Num (- 1)),
      (''MQSUBTYPE_USER'', Num (- 2)), (''MQDOPT_RESOLVED'', Num 0), (''MQDOPT_DEFINED'', Num 1)]"

definition cmqcfc_Group_Parameter_7 :: "abi \<Rightarrow> macros" where
  "cmqcfc_Group_Parameter_7 a =
     [(''MQTIME_UNIT_MINS'', Num 0), (''MQTIME_UNIT_SECS'', Num 1), (''MQUIDSUPP_NO'', Num 0),
      (''MQUIDSUPP_YES'', Num 1), (''MQUNDELIVERED_NORMAL'', Num 0),
      (''MQUNDELIVERED_SAFE'', Num 1), (''MQUNDELIVERED_DISCARD'', Num 2),
      (''MQUNDELIVERED_KEEP'', Num 3), (''MQUOWST_NONE'', Num 0), (''MQUOWST_ACTIVE'', Num 1),
      (''MQUOWST_PREPARED'', Num 2), (''MQUOWST_UNRESOLVED'', Num 3), (''MQUOWT_Q_MGR'', Num 0),
      (''MQUOWT_CICS'', Num 1), (''MQUOWT_RRS'', Num 2), (''MQUOWT_IMS'', Num 3),
      (''MQUOWT_XA'', Num 4), (''MQUSAGE_PS_AVAILABLE'', Num 0),
      (''MQUSAGE_PS_DEFINED'', Num 1), (''MQUSAGE_PS_OFFLINE'', Num 2),
      (''MQUSAGE_PS_NOT_DEFINED'', Num 3), (''MQUSAGE_PS_SUSPENDED'', Num 4),
      (''MQUSAGE_EXPAND_USER'', Num 1), (''MQUSAGE_EXPAND_SYSTEM'', Num 2),
      (''MQUSAGE_EXPAND_NONE'', Num 3), (''MQUSAGE_DS_OLDEST_ACTIVE_UOW'', Num 10),
      (''MQUSAGE_DS_OLDEST_PS_RECOVERY'', Num 11), (''MQUSAGE_DS_OLDEST_CF_RECOVERY'', Num 12),
      (''MQMCP_REPLY'', Num 2), (''MQMCP_USER'', Num 1), (''MQMCP_NONE'', Num 0),
      (''MQMCP_ALL'', Num (- 1)), (''MQMCP_COMPAT'', Num (- 2)), (''MQNSH_NONE'', Num 0),
      (''MQNSH_ALL'', Num (- 1)), (''MQLR_ONE'', Num 1), (''MQLR_AUTO'', Num (- 1)),
      (''MQLR_MAX'', Num (- 2)), (''MQAUTOCLUS_TYPE_NONE'', Num 0),
      (''MQAUTOCLUS_TYPE_UNIFORM'', Num 1), (''MQFS_SHARED'', Num (- 1)),
      (''MQFSENC_NO'', Num 0), (''MQFSENC_YES'', Num 1), (''MQFSENC_UNKNOWN'', Num 2),
      (''MQLOGTYPE_CIRCULAR'', Num 0), (''MQLOGTYPE_LINEAR'', Num 1),
      (''MQLOGTYPE_REPLICATED'', Num 2), (''MQNHACONNACTV_NO'', Num 0),
      (''MQNHACONNACTV_YES'', Num 1), (''MQNHABACKLOG_UNKNOWN'', Num (- 1)),
      (''MQNHAROLE_UNKNOWN'', Num 0), (''MQNHAROLE_ACTIVE'', Num 1),
      (''MQNHAROLE_REPLICA'', Num 2), (''MQNHAINSYNC_NO'', Num 0), (''MQNHAINSYNC_YES'', Num 1)]"

definition cmqcfc_Trace_route_and_Activity_Operations :: "abi \<Rightarrow> macros" where
  "cmqcfc_Trace_route_and_Activity_Operations a =
     [(''MQOPER_SYSTEM_FIRST'', Num 0), (''MQOPER_UNKNOWN'', Num 0), (''MQOPER_BROWSE'', Num 1),
      (''MQOPER_DISCARD'', Num 2), (''MQOPER_GET'', Num 3), (''MQOPER_PUT'', Num 4),
      (''MQOPER_PUT_REPLY'', Num 5), (''MQOPER_PUT_REPORT'', Num 6),
      (''MQOPER_RECEIVE'', Num 7), (''MQOPER_SEND'', Num 8), (''MQOPER_TRANSFORM'', Num 9),
      (''MQOPER_PUBLISH'', Num 10), (''MQOPER_EXCLUDED_PUBLISH'', Num 11),
      (''MQOPER_DISCARDED_PUBLISH'', Num 12), (''MQOPER_SYSTEM_LAST'', Num 65535),
      (''MQOPER_APPL_FIRST'', Num 65536), (''MQOPER_APPL_LAST'', Num 999999999),
      (''MQROUTE_UNLIMITED_ACTIVITIES'', Num 0), (''MQROUTE_DETAIL_LOW'', Num 2),
      (''MQROUTE_DETAIL_MEDIUM'', Num 8), (''MQROUTE_DETAIL_HIGH'', Num 32),
      (''MQROUTE_FORWARD_ALL'', Num 256), (''MQROUTE_FORWARD_IF_SUPPORTED'', Num 512),
      (''MQROUTE_FORWARD_REJ_UNSUP_MASK'', Num 4294901760), (''MQROUTE_DELIVER_YES'', Num 4096),
      (''MQROUTE_DELIVER_NO'', Num 8192), (''MQROUTE_DELIVER_REJ_UNSUP_MASK'', Num 4294901760),
      (''MQROUTE_ACCUMULATE_NONE'', Num 65539), (''MQROUTE_ACCUMULATE_IN_MSG'', Num 65540),
      (''MQROUTE_ACCUMULATE_AND_REPLY'', Num 65541)]"

definition cmqcfc_Publish_Subscribe :: "abi \<Rightarrow> macros" where
  "cmqcfc_Publish_Subscribe a =
     [(''MQDELO_NONE'', Num 0), (''MQDELO_LOCAL'', Num 4), (''MQPUBO_NONE'', Num 0),
      (''MQPUBO_CORREL_ID_AS_IDENTITY'', Num 1), (''MQPUBO_RETAIN_PUBLICATION'', Num 2),
      (''MQPUBO_OTHER_SUBSCRIBERS_ONLY'', Num 4), (''MQPUBO_NO_REGISTRATION'', Num 8),
      (''MQPUBO_IS_RETAINED_PUBLICATION'', Num 16), (''MQREGO_NONE'', Num 0),
      (''MQREGO_CORREL_ID_AS_IDENTITY'', Num 1), (''MQREGO_ANONYMOUS'', Num 2),
      (''MQREGO_LOCAL'', Num 4), (''MQREGO_DIRECT_REQUESTS'', Num 8),
      (''MQREGO_NEW_PUBLICATIONS_ONLY'', Num 16), (''MQREGO_PUBLISH_ON_REQUEST_ONLY'', Num 32),
      (''MQREGO_DEREGISTER_ALL'', Num 64), (''MQREGO_INCLUDE_STREAM_NAME'', Num 128),
      (''MQREGO_INFORM_IF_RETAINED'', Num 256), (''MQREGO_DUPLICATES_OK'', Num 512),
      (''MQREGO_NON_PERSISTENT'', Num 1024), (''MQREGO_PERSISTENT'', Num 2048),
      (''MQREGO_PERSISTENT_AS_PUBLISH'', Num 4096), (''MQREGO_PERSISTENT_AS_Q'', Num 8192),
      (''MQREGO_ADD_NAME'', Num 16384), (''MQREGO_NO_ALTERATION'', Num 32768),
      (''MQREGO_FULL_RESPONSE'', Num 65536), (''MQREGO_JOIN_SHARED'', Num 131072),
      (''MQREGO_JOIN_EXCLUSIVE'', Num 262144), (''MQREGO_LEAVE_ONLY'', Num 524288),
      (''MQREGO_VARIABLE_USER_ID'', Num 1048576), (''MQREGO_LOCKED'', Num 2097152),
      (''MQUA_FIRST'', Num 65536), (''MQUA_LAST'', Num 999999999), (''MQGUR_DISABLED'', Num 0),
      (''MQGUR_ENABLED'', Num 1), (''MQMULC_STANDARD'', Num 0), (''MQMULC_REFINED'', Num 1),
      (''MQSTDBY_NOT_PERMITTED'', Num 0), (''MQSTDBY_PERMITTED'', Num 1)]"

end
