(* ===== verification/Mqi_Exits.thy ===== *)
theory Mqi_Exits
  imports C_Init
begin

text \<open>
  The value macros of \<open>cmqxc.h\<close> (exits and channel definitions), \<open>cmqzc.h\<close> (installable
  services), \<open>cmqbc.h\<close> (administration interface) and \<open>cmqec.h\<close> (interface entry points).
\<close>

definition cmqxc_MQCD_1 :: "abi \<Rightarrow> macros" where
  "cmqxc_MQCD_1 a =
     [(''MQCD_VERSION_1'', Num 1), (''MQCD_VERSION_2'', Num 2), (''MQCD_VERSION_3'', Num 3),
      (''MQCD_VERSION_4'', Num 4), (''MQCD_VERSION_5'', Num 5), (''MQCD_VERSION_6'', Num 6),
      (''MQCD_VERSION_7'', Num 7), (''MQCD_VERSION_8'', Num 8), (''MQCD_VERSION_9'', Num 9),
      (''MQCD_VERSION_10'', Num 10), (''MQCD_VERSION_11'', Num 11),
      (''MQCD_VERSION_12'', Num 12), (''MQCD_CURRENT_VERSION'', Num 12),
      (''MQCD_LENGTH_1'', Num 984), (''MQCD_LENGTH_2'', Num 1312),
      (''MQCD_LENGTH_3'', Num 1480), (''MQCD_LENGTH_4'', Num (by_abi a 1568 1540)),
      (''MQCD_LENGTH_5'', Num (by_abi a 1584 1552)),
      (''MQCD_LENGTH_6'', Num (by_abi a 1688 1648)),
      (''MQCD_LENGTH_7'', Num (by_abi a 1792 1748)),
      (''MQCD_LENGTH_8'', Num (by_abi a 1888 1840)),
      (''MQCD_LENGTH_9'', Num (by_abi a 1912 1864)),
      (''MQCD_LENGTH_10'', Num (by_abi a 1920 1876)),
      (''MQCD_LENGTH_11'', Num (by_abi a 1984 1940)),
      (''MQCD_LENGTH_12'', Num (by_abi a 1992 1944)),
      (''MQCD_CURRENT_LENGTH'', Num (by_abi a 1992 1944)), (''MQCHT_SENDER'', Num 1),
      (''MQCHT_SERVER'', Num 2), (''MQCHT_RECEIVER'', Num 3), (''MQCHT_REQUESTER'', Num 4),
      (''MQCHT_ALL'', Num 5), (''MQCHT_CLNTCONN'', Num 6), (''MQCHT_SVRCONN'', Num 7),
      (''MQCHT_CLUSRCVR'', Num 8), (''MQCHT_CLUSSDR'', Num 9), (''MQCHT_MQTT'', Num 10),
      (''MQCHT_AMQP'', Num 11), (''MQCOMPRESS_NOT_AVAILABLE'', Num (- 1)),
      (''MQCOMPRESS_NONE'', Num 0), (''MQCOMPRESS_RLE'', Num 1),
      (''MQCOMPRESS_ZLIBFAST'', Num 2), (''MQCOMPRESS_ZLIBHIGH'', Num 4),
      (''MQCOMPRESS_SYSTEM'', Num 8), (''MQCOMPRESS_ANY'', Num 268435455),
      (''MQXPT_ALL'', Num (- 1)), (''MQXPT_LOCAL'', Num 0), (''MQXPT_LU62'', Num 1),
      (''MQXPT_TCP'', Num 2), (''MQXPT_NETBIOS'', Num 3), (''MQXPT_SPX'', Num 4),
      (''MQXPT_DECNET'', Num 5), (''MQXPT_UDP'', Num 6), (''MQPA_DEFAULT'', Num 1),
      (''MQPA_CONTEXT'', Num 2), (''MQPA_ONLY_MCA'', Num 3), (''MQPA_ALTERNATE_OR_MCA'', Num 4),
      (''MQCDC_SENDER_CONVERSION'', Num 1), (''MQCDC_NO_SENDER_CONVERSION'', Num 0),
      (''MQMCAT_PROCESS'', Num 1), (''MQMCAT_THREAD'', Num 2), (''MQNPMS_NORMAL'', Num 1),
      (''MQNPMS_FAST'', Num 2)]"

definition cmqxc_MQCD_2 :: "abi \<Rightarrow> macros" where
  "cmqxc_MQCD_2 a =
     [(''MQSCA_REQUIRED'', Num 0), (''MQSCA_OPTIONAL'', Num 1),
      (''MQSCA_NEVER_REQUIRED'', Num 2), (''MQKAI_AUTO'', Num (- 1)), (''MQCAFTY_NONE'', Num 0),
      (''MQCAFTY_PREFERRED'', Num 1), (''MQRCN_NO'', Num 0), (''MQRCN_YES'', Num 1),
      (''MQRCN_Q_MGR'', Num 2), (''MQRCN_DISABLED'', Num 3), (''MQPROTO_MQTTV3'', Num 1),
      (''MQPROTO_HTTP'', Num 2), (''MQPROTO_AMQP'', Num 3), (''MQPROTO_MQTTV311'', Num 4),
      (''MQSECPROT_NONE'', Num 0), (''MQSECPROT_SSLV30'', Num 1), (''MQSECPROT_TLSV10'', Num 2),
      (''MQSECPROT_TLSV12'', Num 4), (''MQSECPROT_TLSV13'', Num 8), (''MQSPL_PASSTHRU'', Num 0),
      (''MQSPL_REMOVE'', Num 1), (''MQSPL_AS_POLICY'', Num 2)]"

definition cmqxc_MQACH :: "abi \<Rightarrow> macros" where
  "cmqxc_MQACH a =
     [(''MQACH_STRUC_ID'', Str ''ACH ''), (''MQACH_STRUC_ID_ARRAY'', Chars ''ACH ''),
      (''MQACH_VERSION_1'', Num 1), (''MQACH_CURRENT_VERSION'', Num 1),
      (''MQACH_LENGTH_1'', Num (by_abi a 72 68)),
      (''MQACH_CURRENT_LENGTH'', Num (by_abi a 72 68))]"

definition cmqxc_MQAXC :: "abi \<Rightarrow> macros" where
  "cmqxc_MQAXC a =
     [(''MQAXC_STRUC_ID'', Str ''AXC ''), (''MQAXC_STRUC_ID_ARRAY'', Chars ''AXC ''),
      (''MQAXC_VERSION_1'', Num 1), (''MQAXC_VERSION_2'', Num 2),
      (''MQAXC_CURRENT_VERSION'', Num 2), (''MQAXC_LENGTH_1'', Num (by_abi a 392 384)),
      (''MQAXC_LENGTH_2'', Num (by_abi a 424 412)),
      (''MQAXC_CURRENT_LENGTH'', Num (by_abi a 424 412)), (''MQXE_OTHER'', Num 0),
      (''MQXE_MCA'', Num 1), (''MQXE_MCA_SVRCONN'', Num 2), (''MQXE_COMMAND_SERVER'', Num 3),
      (''MQXE_MQSC'', Num 4), (''MQXE_MCA_CLNTCONN'', Num 5)]"

definition cmqxc_MQAXP :: "abi \<Rightarrow> macros" where
  "cmqxc_MQAXP a =
     [(''MQAXP_STRUC_ID'', Str ''AXP ''), (''MQAXP_STRUC_ID_ARRAY'', Chars ''AXP ''),
      (''MQAXP_VERSION_1'', Num 1), (''MQAXP_VERSION_2'', Num 2),
      (''MQAXP_CURRENT_VERSION'', Num 2), (''MQAXP_LENGTH_1'', Num (by_abi a 256 244)),
      (''MQAXP_CURRENT_LENGTH'', Num (by_abi a 256 244)), (''MQXACT_EXTERNAL'', Num 1),
      (''MQXACT_INTERNAL'', Num 2), (''MQXPDA_NONE'', Str (replicate 48 NUL)),
      (''MQXPDA_NONE_ARRAY'', Chars (replicate 48 NUL)), (''MQXF_INIT'', Num 1),
      (''MQXF_TERM'', Num 2), (''MQXF_CONN'', Num 3), (''MQXF_CONNX'', Num 4),
      (''MQXF_DISC'', Num 5), (''MQXF_OPEN'', Num 6), (''MQXF_CLOSE'', Num 7),
      (''MQXF_PUT1'', Num 8), (''MQXF_PUT'', Num 9), (''MQXF_GET'', Num 10),
      (''MQXF_DATA_CONV_ON_GET'', Num 11), (''MQXF_INQ'', Num 12), (''MQXF_SET'', Num 13),
      (''MQXF_BEGIN'', Num 14), (''MQXF_CMIT'', Num 15), (''MQXF_BACK'', Num 16),
      (''MQXF_STAT'', Num 18), (''MQXF_CB'', Num 19), (''MQXF_CTL'', Num 20),
      (''MQXF_CALLBACK'', Num 21), (''MQXF_SUB'', Num 22), (''MQXF_SUBRQ'', Num 23),
      (''MQXF_XACLOSE'', Num 24), (''MQXF_XACOMMIT'', Num 25), (''MQXF_XACOMPLETE'', Num 26),
      (''MQXF_XAEND'', Num 27), (''MQXF_XAFORGET'', Num 28), (''MQXF_XAOPEN'', Num 29),
      (''MQXF_XAPREPARE'', Num 30), (''MQXF_XARECOVER'', Num 31), (''MQXF_XAROLLBACK'', Num 32),
      (''MQXF_XASTART'', Num 33), (''MQXF_AXREG'', Num 34), (''MQXF_AXUNREG'', Num 35)]"

definition cmqxc_MQCXP :: "abi \<Rightarrow> macros" where
  "cmqxc_MQCXP a =
     [(''MQCXP_STRUC_ID'', Str ''CXP ''), (''MQCXP_STRUC_ID_ARRAY'', Chars ''CXP ''),
      (''MQCXP_VERSION_1'', Num 1), (''MQCXP_VERSION_2'', Num 2), (''MQCXP_VERSION_3'', Num 3),
      (''MQCXP_VERSION_4'', Num 4), (''MQCXP_VERSION_5'', Num 5), (''MQCXP_VERSION_6'', Num 6),
      (''MQCXP_VERSION_7'', Num 7), (''MQCXP_VERSION_8'', Num 8), (''MQCXP_VERSION_9'', Num 9),
      (''MQCXP_CURRENT_VERSION'', Num 9), (''MQCXP_LENGTH_3'', Num 156),
      (''MQCXP_LENGTH_4'', Num 156), (''MQCXP_LENGTH_5'', Num 160),
      (''MQCXP_LENGTH_6'', Num (by_abi a 200 192)),
      (''MQCXP_LENGTH_7'', Num (by_abi a 208 200)),
      (''MQCXP_LENGTH_8'', Num (by_abi a 224 208)),
      (''MQCXP_LENGTH_9'', Num (by_abi a 240 220)),
      (''MQCXP_CURRENT_LENGTH'', Num (by_abi a 240 220)),
      (''MQXR2_PUT_WITH_DEF_ACTION'', Num 0), (''MQXR2_PUT_WITH_DEF_USERID'', Num 1),
      (''MQXR2_PUT_WITH_MSG_USERID'', Num 2), (''MQXR2_USE_AGENT_BUFFER'', Num 0),
      (''MQXR2_USE_EXIT_BUFFER'', Num 4), (''MQXR2_DEFAULT_CONTINUATION'', Num 0),
      (''MQXR2_CONTINUE_CHAIN'', Num 8), (''MQXR2_SUPPRESS_CHAIN'', Num 16),
      (''MQXR2_STATIC_CACHE'', Num 0), (''MQXR2_DYNAMIC_CACHE'', Num 32),
      (''MQCF_NONE'', Num 0), (''MQCF_DIST_LISTS'', Num 1)]"

definition cmqxc_MQDXP :: "abi \<Rightarrow> macros" where
  "cmqxc_MQDXP a =
     [(''MQDXP_STRUC_ID'', Str ''DXP ''), (''MQDXP_STRUC_ID_ARRAY'', Chars ''DXP ''),
      (''MQDXP_VERSION_1'', Num 1), (''MQDXP_VERSION_2'', Num 2),
      (''MQDXP_CURRENT_VERSION'', Num 2), (''MQDXP_LENGTH_1'', Num 44),
      (''MQDXP_LENGTH_2'', Num (by_abi a 56 48)),
      (''MQDXP_CURRENT_LENGTH'', Num (by_abi a 56 48)), (''MQXDR_OK'', Num 0),
      (''MQXDR_CONVERSION_FAILED'', Num 1)]"

definition cmqxc_MQNXP :: "abi \<Rightarrow> macros" where
  "cmqxc_MQNXP a =
     [(''MQNXP_STRUC_ID'', Str ''NXP ''), (''MQNXP_STRUC_ID_ARRAY'', Chars ''NXP ''),
      (''MQNXP_VERSION_1'', Num 1), (''MQNXP_VERSION_2'', Num 2),
      (''MQNXP_CURRENT_VERSION'', Num 2), (''MQNXP_LENGTH_1'', Num (by_abi a 64 52)),
      (''MQNXP_LENGTH_2'', Num (by_abi a 72 56)),
      (''MQNXP_CURRENT_LENGTH'', Num (by_abi a 72 56))]"

definition cmqxc_MQPBC :: "abi \<Rightarrow> macros" where
  "cmqxc_MQPBC a =
     [(''MQPBC_STRUC_ID'', Str ''PBC ''), (''MQPBC_STRUC_ID_ARRAY'', Chars ''PBC ''),
      (''MQPBC_VERSION_1'', Num 1), (''MQPBC_VERSION_2'', Num 2),
      (''MQPBC_CURRENT_VERSION'', Num 2), (''MQPBC_LENGTH_1'', Num (by_abi a 32 28)),
      (''MQPBC_LENGTH_2'', Num (by_abi a 40 32)),
      (''MQPBC_CURRENT_LENGTH'', Num (by_abi a 40 32))]"

definition cmqxc_MQPSXP :: "abi \<Rightarrow> macros" where
  "cmqxc_MQPSXP a =
     [(''MQPSXP_STRUC_ID'', Str ''PSXP''), (''MQPSXP_STRUC_ID_ARRAY'', Chars ''PSXP''),
      (''MQPSXP_VERSION_1'', Num 1), (''MQPSXP_VERSION_2'', Num 2),
      (''MQPSXP_CURRENT_VERSION'', Num 2), (''MQPSXP_LENGTH_1'', Num (by_abi a 176 156)),
      (''MQPSXP_LENGTH_2'', Num (by_abi a 184 160)),
      (''MQPSXP_CURRENT_LENGTH'', Num (by_abi a 184 160))]"

definition cmqxc_MQSBC :: "abi \<Rightarrow> macros" where
  "cmqxc_MQSBC a =
     [(''MQSBC_STRUC_ID'', Str ''SBC ''), (''MQSBC_STRUC_ID_ARRAY'', Chars ''SBC ''),
      (''MQSBC_VERSION_1'', Num 1), (''MQSBC_CURRENT_VERSION'', Num 1),
      (''MQSBC_LENGTH_1'', Num (by_abi a 288 272)),
      (''MQSBC_CURRENT_LENGTH'', Num (by_abi a 288 272))]"

definition cmqxc_MQWDR :: "abi \<Rightarrow> macros" where
  "cmqxc_MQWDR a =
     [(''MQWDR_STRUC_ID'', Str ''WDR ''), (''MQWDR_STRUC_ID_ARRAY'', Chars ''WDR ''),
      (''MQWDR_VERSION_1'', Num 1), (''MQWDR_VERSION_2'', Num 2),
      (''MQWDR_CURRENT_VERSION'', Num 2), (''MQWDR_LENGTH_1'', Num 124),
      (''MQWDR_LENGTH_2'', Num 136), (''MQWDR_CURRENT_LENGTH'', Num 136),
      (''MQQMF_REPOSITORY_Q_MGR'', Num 2), (''MQQMF_CLUSSDR_USER_DEFINED'', Num 8),
      (''MQQMF_CLUSSDR_AUTO_DEFINED'', Num 16), (''MQQMF_AVAILABLE'', Num 32)]"

definition cmqxc_MQWDR1 :: "abi \<Rightarrow> macros" where
  "cmqxc_MQWDR1 a =
     [(''MQWDR1_LENGTH_1'', Num 124), (''MQWDR1_CURRENT_LENGTH'', Num 124)]"

definition cmqxc_MQWDR2 :: "abi \<Rightarrow> macros" where
  "cmqxc_MQWDR2 a =
     [(''MQWDR2_LENGTH_1'', Num 124), (''MQWDR2_LENGTH_2'', Num 136),
      (''MQWDR2_CURRENT_LENGTH'', Num 136)]"

definition cmqxc_MQWQR :: "abi \<Rightarrow> macros" where
  "cmqxc_MQWQR a =
     [(''MQWQR_STRUC_ID'', Str ''WQR ''), (''MQWQR_STRUC_ID_ARRAY'', Chars ''WQR ''),
      (''MQWQR_VERSION_1'', Num 1), (''MQWQR_VERSION_2'', Num 2), (''MQWQR_VERSION_3'', Num 3),
      (''MQWQR_VERSION_4'', Num 4), (''MQWQR_CURRENT_VERSION'', Num 4),
      (''MQWQR_LENGTH_1'', Num 200), (''MQWQR_LENGTH_2'', Num 208),
      (''MQWQR_LENGTH_3'', Num 212), (''MQWQR_LENGTH_4'', Num 216),
      (''MQWQR_CURRENT_LENGTH'', Num 216), (''MQQF_LOCAL_Q'', Num 1),
      (''MQQF_CLWL_USEQ_ANY'', Num 64), (''MQQF_CLWL_USEQ_LOCAL'', Num 128)]"

definition cmqxc_MQWQR1 :: "abi \<Rightarrow> macros" where
  "cmqxc_MQWQR1 a =
     [(''MQWQR1_LENGTH_1'', Num 200), (''MQWQR1_CURRENT_LENGTH'', Num 200)]"

definition cmqxc_MQWQR2 :: "abi \<Rightarrow> macros" where
  "cmqxc_MQWQR2 a =
     [(''MQWQR2_LENGTH_1'', Num 200), (''MQWQR2_LENGTH_2'', Num 208),
      (''MQWQR2_CURRENT_LENGTH'', Num 208)]"

definition cmqxc_MQWQR3 :: "abi \<Rightarrow> macros" where
  "cmqxc_MQWQR3 a =
     [(''MQWQR3_LENGTH_1'', Num 200), (''MQWQR3_LENGTH_2'', Num 208),
      (''MQWQR3_LENGTH_3'', Num 212), (''MQWQR3_CURRENT_LENGTH'', Num 212)]"

definition cmqxc_MQWQR4 :: "abi \<Rightarrow> macros" where
  "cmqxc_MQWQR4 a =
     [(''MQWQR4_LENGTH_1'', Num 200), (''MQWQR4_LENGTH_2'', Num 208),
      (''MQWQR4_LENGTH_3'', Num 212), (''MQWQR4_LENGTH_4'', Num 216),
      (''MQWQR4_CURRENT_LENGTH'', Num 216)]"

definition cmqxc_MQWXP :: "abi \<Rightarrow> macros" where
  "cmqxc_MQWXP a =
     [(''MQWXP_STRUC_ID'', Str ''WXP ''), (''MQWXP_STRUC_ID_ARRAY'', Chars ''WXP ''),
      (''MQWXP_VERSION_1'', Num 1), (''MQWXP_VERSION_2'', Num 2), (''MQWXP_VERSION_3'', Num 3),
      (''MQWXP_VERSION_4'', Num 4), (''MQWXP_CURRENT_VERSION'', Num 4),
      (''MQWXP_LENGTH_1'', Num (by_abi a 224 208)),
      (''MQWXP_LENGTH_2'', Num (by_abi a 240 216)),
      (''MQWXP_LENGTH_3'', Num (by_abi a 240 220)),
      (''MQWXP_LENGTH_4'', Num (by_abi a 248 224)),
      (''MQWXP_CURRENT_LENGTH'', Num (by_abi a 248 224)), (''MQWXP_PUT_BY_CLUSTER_CHL'', Num 2)]"

definition cmqxc_MQWXP1 :: "abi \<Rightarrow> macros" where
  "cmqxc_MQWXP1 a =
     [(''MQWXP1_LENGTH_1'', Num (by_abi a 224 208)),
      (''MQWXP1_CURRENT_LENGTH'', Num (by_abi a 224 208))]"

definition cmqxc_MQWXP2 :: "abi \<Rightarrow> macros" where
  "cmqxc_MQWXP2 a =
     [(''MQWXP2_LENGTH_1'', Num (by_abi a 224 208)),
      (''MQWXP2_LENGTH_2'', Num (by_abi a 240 216)),
      (''MQWXP2_CURRENT_LENGTH'', Num (by_abi a 240 216))]"

definition cmqxc_MQWXP3 :: "abi \<Rightarrow> macros" where
  "cmqxc_MQWXP3 a =
     [(''MQWXP3_LENGTH_1'', Num (by_abi a 224 208)),
      (''MQWXP3_LENGTH_2'', Num (by_abi a 240 216)),
      (''MQWXP3_LENGTH_3'', Num (by_abi a 240 220)),
      (''MQWXP3_CURRENT_LENGTH'', Num (by_abi a 240 220))]"

definition cmqxc_MQWXP4 :: "abi \<Rightarrow> macros" where
  "cmqxc_MQWXP4 a =
     [(''MQWXP4_LENGTH_1'', Num (by_abi a 224 208)),
      (''MQWXP4_LENGTH_2'', Num (by_abi a 240 216)),
      (''MQWXP4_LENGTH_3'', Num (by_abi a 240 220)),
      (''MQWXP4_LENGTH_4'', Num (by_abi a 248 224)),
      (''MQWXP4_CURRENT_LENGTH'', Num (by_abi a 248 224))]"

definition cmqxc_MQXEPO_1 :: "abi \<Rightarrow> macros" where
  "cmqxc_MQXEPO_1 a =
     [(''MQXEPO_STRUC_ID'', Str ''XEPO''), (''MQXEPO_STRUC_ID_ARRAY'', Chars ''XEPO''),
      (''MQXEPO_VERSION_1'', Num 1), (''MQXEPO_CURRENT_VERSION'', Num 1),
      (''MQXEPO_LENGTH_1'', Num (by_abi a 40 32)),
      (''MQXEPO_CURRENT_LENGTH'', Num (by_abi a 40 32)), (''MQXEPO_NONE'', Num 0)]"

definition cmqxc_MQXEPO_2 :: "abi \<Rightarrow> macros" where
  "cmqxc_MQXEPO_2 a =
     [(''MQXT_API_CROSSING_EXIT'', Num 1), (''MQXT_API_EXIT'', Num 2),
      (''MQXT_CHANNEL_SEC_EXIT'', Num 11), (''MQXT_CHANNEL_MSG_EXIT'', Num 12),
      (''MQXT_CHANNEL_SEND_EXIT'', Num 13), (''MQXT_CHANNEL_RCV_EXIT'', Num 14),
      (''MQXT_CHANNEL_MSG_RETRY_EXIT'', Num 15), (''MQXT_CHANNEL_AUTO_DEF_EXIT'', Num 16),
      (''MQXT_CLUSTER_WORKLOAD_EXIT'', Num 20), (''MQXT_PUBSUB_ROUTING_EXIT'', Num 21),
      (''MQXT_PUBLISH_EXIT'', Num 22), (''MQXT_PRECONNECT_EXIT'', Num 23),
      (''MQXR_BEFORE'', Num 1), (''MQXR_AFTER'', Num 2), (''MQXR_CONNECTION'', Num 3),
      (''MQXR_BEFORE_CONVERT'', Num 4), (''MQXR_INIT'', Num 11), (''MQXR_TERM'', Num 12),
      (''MQXR_MSG'', Num 13), (''MQXR_XMIT'', Num 14), (''MQXR_SEC_MSG'', Num 15),
      (''MQXR_INIT_SEC'', Num 16), (''MQXR_RETRY'', Num 17), (''MQXR_AUTO_CLUSSDR'', Num 18),
      (''MQXR_AUTO_RECEIVER'', Num 19), (''MQXR_CLWL_OPEN'', Num 20),
      (''MQXR_CLWL_PUT'', Num 21), (''MQXR_CLWL_MOVE'', Num 22), (''MQXR_CLWL_REPOS'', Num 23),
      (''MQXR_CLWL_REPOS_MOVE'', Num 24), (''MQXR_END_BATCH'', Num 25),
      (''MQXR_ACK_RECEIVED'', Num 26), (''MQXR_AUTO_SVRCONN'', Num 27),
      (''MQXR_AUTO_CLUSRCVR'', Num 28), (''MQXR_SEC_PARMS'', Num 29),
      (''MQXR_PUBLICATION'', Num 30), (''MQXR_PRECONNECT'', Num 31), (''MQXCC_OK'', Num 0),
      (''MQXCC_SUPPRESS_FUNCTION'', Num (- 1)), (''MQXCC_SKIP_FUNCTION'', Num (- 2)),
      (''MQXCC_SEND_AND_REQUEST_SEC_MSG'', Num (- 3)), (''MQXCC_SEND_SEC_MSG'', Num (- 4)),
      (''MQXCC_SUPPRESS_EXIT'', Num (- 5)), (''MQXCC_CLOSE_CHANNEL'', Num (- 6)),
      (''MQXCC_REQUEST_ACK'', Num (- 7)), (''MQXCC_FAILED'', Num (- 8)),
      (''MQXUA_NONE'', Str (replicate 16 NUL)),
      (''MQXUA_NONE_ARRAY'', Chars (replicate 16 NUL)), (''MQCLCT_STATIC'', Num 0),
      (''MQCLCT_DYNAMIC'', Num 1), (''MQMCEV_PACKET_LOSS'', Num 1),
      (''MQMCEV_HEARTBEAT_TIMEOUT'', Num 2), (''MQMCEV_VERSION_CONFLICT'', Num 3),
      (''MQMCEV_RELIABILITY'', Num 4), (''MQMCEV_CLOSED_TRANS'', Num 5),
      (''MQMCEV_STREAM_ERROR'', Num 6), (''MQMCEV_NEW_SOURCE'', Num 10),
      (''MQMCEV_RECEIVE_QUEUE_TRIMMED'', Num 11), (''MQMCEV_PACKET_LOSS_NACK_EXPIRE'', Num 12),
      (''MQMCEV_ACK_RETRIES_EXCEEDED'', Num 13), (''MQMCEV_STREAM_SUSPEND_NACK'', Num 14),
      (''MQMCEV_STREAM_RESUME_NACK'', Num 15), (''MQMCEV_STREAM_EXPELLED'', Num 16),
      (''MQMCEV_FIRST_MESSAGE'', Num 20), (''MQMCEV_LATE_JOIN_FAILURE'', Num 21),
      (''MQMCEV_MESSAGE_LOSS'', Num 22), (''MQMCEV_SEND_PACKET_FAILURE'', Num 23),
      (''MQMCEV_REPAIR_DELAY'', Num 24), (''MQMCEV_MEMORY_ALERT_ON'', Num 25),
      (''MQMCEV_MEMORY_ALERT_OFF'', Num 26), (''MQMCEV_NACK_ALERT_ON'', Num 27),
      (''MQMCEV_NACK_ALERT_OFF'', Num 28), (''MQMCEV_REPAIR_ALERT_ON'', Num 29),
      (''MQMCEV_REPAIR_ALERT_OFF'', Num 30), (''MQMCEV_RELIABILITY_CHANGED'', Num 31),
      (''MQMCEV_SHM_DEST_UNUSABLE'', Num 80), (''MQMCEV_SHM_PORT_UNUSABLE'', Num 81),
      (''MQMCEV_CCT_GETTIME_FAILED'', Num 110), (''MQMCEV_DEST_INTERFACE_FAILURE'', Num 120),
      (''MQMCEV_DEST_INTERFACE_FAILOVER'', Num 121),
      (''MQMCEV_PORT_INTERFACE_FAILURE'', Num 122),
      (''MQMCEV_PORT_INTERFACE_FAILOVER'', Num 123)]"

definition cmqxc_MQ_CHANNEL_EXIT_Function :: "abi \<Rightarrow> macros" where
  "cmqxc_MQ_CHANNEL_EXIT_Function a =
     [(''MQCHANNELEXIT'', Mac ''MQ_CHANNEL_EXIT'')]"

definition cmqxc_MQ_CHANNEL_AUTO_DEF_EXIT_Function :: "abi \<Rightarrow> macros" where
  "cmqxc_MQ_CHANNEL_AUTO_DEF_EXIT_Function a =
     [(''MQCHANNELAUTODEFEXIT'', Mac ''MQ_CHANNEL_AUTO_DEF_EXIT'')]"

definition cmqxc_MQ_DATA_CONV_EXIT_Function :: "abi \<Rightarrow> macros" where
  "cmqxc_MQ_DATA_CONV_EXIT_Function a =
     [(''MQDATACONVEXIT'', Mac ''MQ_DATA_CONV_EXIT'')]"

definition cmqxc_MQ_TRANSPORT_EXIT_Function :: "abi \<Rightarrow> macros" where
  "cmqxc_MQ_TRANSPORT_EXIT_Function a =
     [(''MQTRANSPORTEXIT'', Mac ''MQ_TRANSPORT_EXIT'')]"

definition cmqxc_MQXCNVC_Function :: "abi \<Rightarrow> macros" where
  "cmqxc_MQXCNVC_Function a =
     [(''MQDCC_DEFAULT_CONVERSION'', Num 1), (''MQDCC_FILL_TARGET_BUFFER'', Num 2),
      (''MQDCC_INT_DEFAULT_CONVERSION'', Num 4), (''MQDCC_SOURCE_ENC_NATIVE'', Num 32),
      (''MQDCC_SOURCE_ENC_NORMAL'', Num 16), (''MQDCC_SOURCE_ENC_REVERSED'', Num 32),
      (''MQDCC_SOURCE_ENC_UNDEFINED'', Num 0), (''MQDCC_TARGET_ENC_NATIVE'', Num 512),
      (''MQDCC_TARGET_ENC_NORMAL'', Num 256), (''MQDCC_TARGET_ENC_REVERSED'', Num 512),
      (''MQDCC_TARGET_ENC_UNDEFINED'', Num 0), (''MQDCC_NONE'', Num 0),
      (''MQDCC_SOURCE_ENC_MASK'', Num 240), (''MQDCC_TARGET_ENC_MASK'', Num 3840),
      (''MQDCC_SOURCE_ENC_FACTOR'', Num 16), (''MQDCC_TARGET_ENC_FACTOR'', Num 256)]"

definition cmqzc_MQZED :: "abi \<Rightarrow> macros" where
  "cmqzc_MQZED a =
     [(''MQZED_STRUC_ID'', Str ''ZED ''), (''MQZED_STRUC_ID_ARRAY'', Chars ''ZED ''),
      (''MQZED_VERSION_1'', Num 1), (''MQZED_VERSION_2'', Num 2),
      (''MQZED_CURRENT_VERSION'', Num 2), (''MQZED_LENGTH_1'', Num (by_abi a 64 56)),
      (''MQZED_LENGTH_2'', Num (by_abi a 72 60)),
      (''MQZED_CURRENT_LENGTH'', Num (by_abi a 72 60))]"

definition cmqzc_MQZAC :: "abi \<Rightarrow> macros" where
  "cmqzc_MQZAC a =
     [(''MQZAC_STRUC_ID'', Str ''ZAC ''), (''MQZAC_STRUC_ID_ARRAY'', Chars ''ZAC ''),
      (''MQZAC_VERSION_1'', Num 1), (''MQZAC_CURRENT_VERSION'', Num 1),
      (''MQZAC_LENGTH_1'', Num 84), (''MQZAC_CURRENT_LENGTH'', Num 84),
      (''MQZAT_INITIAL_CONTEXT'', Num 0), (''MQZAT_CHANGE_CONTEXT'', Num 1)]"

definition cmqzc_MQZAD :: "abi \<Rightarrow> macros" where
  "cmqzc_MQZAD a =
     [(''MQZAD_STRUC_ID'', Str ''ZAD ''), (''MQZAD_STRUC_ID_ARRAY'', Chars ''ZAD ''),
      (''MQZAD_VERSION_1'', Num 1), (''MQZAD_VERSION_2'', Num 2),
      (''MQZAD_CURRENT_VERSION'', Num 2), (''MQZAD_LENGTH_1'', Num (by_abi a 80 72)),
      (''MQZAD_LENGTH_2'', Num (by_abi a 80 76)),
      (''MQZAD_CURRENT_LENGTH'', Num (by_abi a 80 76))]"

definition cmqzc_MQZFP :: "abi \<Rightarrow> macros" where
  "cmqzc_MQZFP a =
     [(''MQZFP_STRUC_ID'', Str ''ZFP ''), (''MQZFP_STRUC_ID_ARRAY'', Chars ''ZFP ''),
      (''MQZFP_VERSION_1'', Num 1), (''MQZFP_CURRENT_VERSION'', Num 1),
      (''MQZFP_LENGTH_1'', Num (by_abi a 24 20)),
      (''MQZFP_CURRENT_LENGTH'', Num (by_abi a 24 20))]"

definition cmqzc_MQZIC :: "abi \<Rightarrow> macros" where
  "cmqzc_MQZIC a =
     [(''MQZIC_STRUC_ID'', Str ''ZIC ''), (''MQZIC_STRUC_ID_ARRAY'', Chars ''ZIC ''),
      (''MQZIC_VERSION_1'', Num 1), (''MQZIC_CURRENT_VERSION'', Num 1),
      (''MQZIC_LENGTH_1'', Num 84), (''MQZIC_CURRENT_LENGTH'', Num 84)]"

definition cmqzc_All_Services :: "abi \<Rightarrow> macros" where
  "cmqzc_All_Services a =
     [(''MQZIO_PRIMARY'', Num 0), (''MQZIO_SECONDARY'', Num 1), (''MQZTO_PRIMARY'', Num 0),
      (''MQZTO_SECONDARY'', Num 1), (''MQZCI_DEFAULT'', Num 0), (''MQZCI_CONTINUE'', Num 0),
      (''MQZCI_STOP'', Num 1)]"

definition cmqzc_Authority_Service :: "abi \<Rightarrow> macros" where
  "cmqzc_Authority_Service a =
     [(''MQZAS_VERSION_1'', Num 1), (''MQZAS_VERSION_2'', Num 2), (''MQZAS_VERSION_3'', Num 3),
      (''MQZAS_VERSION_4'', Num 4), (''MQZAS_VERSION_5'', Num 5), (''MQZAS_VERSION_6'', Num 6),
      (''MQZAO_CONNECT'', Num 1), (''MQZAO_BROWSE'', Num 2), (''MQZAO_INPUT'', Num 4),
      (''MQZAO_OUTPUT'', Num 8), (''MQZAO_INQUIRE'', Num 16), (''MQZAO_SET'', Num 32),
      (''MQZAO_PASS_IDENTITY_CONTEXT'', Num 64), (''MQZAO_PASS_ALL_CONTEXT'', Num 128),
      (''MQZAO_SET_IDENTITY_CONTEXT'', Num 256), (''MQZAO_SET_ALL_CONTEXT'', Num 512),
      (''MQZAO_ALTERNATE_USER_AUTHORITY'', Num 1024), (''MQZAO_PUBLISH'', Num 2048),
      (''MQZAO_SUBSCRIBE'', Num 4096), (''MQZAO_RESUME'', Num 8192),
      (''MQZAO_ALL_MQI'', Num 16383), (''MQZAO_CREATE'', Num 65536),
      (''MQZAO_DELETE'', Num 131072), (''MQZAO_DISPLAY'', Num 262144),
      (''MQZAO_CHANGE'', Num 524288), (''MQZAO_CLEAR'', Num 1048576),
      (''MQZAO_CONTROL'', Num 2097152), (''MQZAO_CONTROL_EXTENDED'', Num 4194304),
      (''MQZAO_AUTHORIZE'', Num 8388608), (''MQZAO_ALL_ADMIN'', Num 16646144),
      (''MQZAO_SYSTEM'', Num 33554432), (''MQZAO_ALL'', Num 50216959),
      (''MQZAO_REMOVE'', Num 16777216), (''MQZAO_NONE'', Num 0),
      (''MQZAO_CREATE_ONLY'', Num 67108864), (''MQZAET_NONE'', Num 0),
      (''MQZAET_PRINCIPAL'', Num 1), (''MQZAET_GROUP'', Num 2), (''MQZAET_UNKNOWN'', Num 3),
      (''MQZSE_START'', Num 1), (''MQZSE_CONTINUE'', Num 0), (''MQZSL_NOT_RETURNED'', Num 0),
      (''MQZSL_RETURNED'', Num 1)]"

definition cmqzc_Name_Service :: "abi \<Rightarrow> macros" where
  "cmqzc_Name_Service a =
     [(''MQZNS_VERSION_1'', Num 1)]"

definition cmqzc_Userid_Service :: "abi \<Rightarrow> macros" where
  "cmqzc_Userid_Service a =
     [(''MQZUS_VERSION_1'', Num 1)]"

definition cmqzc_MQZEP_Function :: "abi \<Rightarrow> macros" where
  "cmqzc_MQZEP_Function a =
     [(''MQZID_INIT'', Num 0), (''MQZID_TERM'', Num 1), (''MQZID_INIT_AUTHORITY'', Num 0),
      (''MQZID_TERM_AUTHORITY'', Num 1), (''MQZID_CHECK_AUTHORITY'', Num 2),
      (''MQZID_COPY_ALL_AUTHORITY'', Num 3), (''MQZID_DELETE_AUTHORITY'', Num 4),
      (''MQZID_SET_AUTHORITY'', Num 5), (''MQZID_GET_AUTHORITY'', Num 6),
      (''MQZID_GET_EXPLICIT_AUTHORITY'', Num 7), (''MQZID_REFRESH_CACHE'', Num 8),
      (''MQZID_ENUMERATE_AUTHORITY_DATA'', Num 9), (''MQZID_AUTHENTICATE_USER'', Num 10),
      (''MQZID_FREE_USER'', Num 11), (''MQZID_INQUIRE'', Num 12),
      (''MQZID_CHECK_PRIVILEGED'', Num 13), (''MQZID_INIT_NAME'', Num 0),
      (''MQZID_TERM_NAME'', Num 1), (''MQZID_LOOKUP_NAME'', Num 2),
      (''MQZID_INSERT_NAME'', Num 3), (''MQZID_DELETE_NAME'', Num 4),
      (''MQZID_INIT_USERID'', Num 0), (''MQZID_TERM_USERID'', Num 1),
      (''MQZID_FIND_USERID'', Num 2)]"

definition cmqbc_Specific_Functions :: "abi \<Rightarrow> macros" where
  "cmqbc_Specific_Functions a =
     [(''MQCBO_NONE'', Num 0), (''MQCBO_USER_BAG'', Num 0), (''MQCBO_ADMIN_BAG'', Num 1),
      (''MQCBO_COMMAND_BAG'', Num 16), (''MQCBO_SYSTEM_BAG'', Num 32),
      (''MQCBO_GROUP_BAG'', Num 64), (''MQCBO_LIST_FORM_ALLOWED'', Num 2),
      (''MQCBO_LIST_FORM_INHIBITED'', Num 0), (''MQCBO_REORDER_AS_REQUIRED'', Num 4),
      (''MQCBO_DO_NOT_REORDER'', Num 0), (''MQCBO_CHECK_SELECTORS'', Num 8),
      (''MQCBO_DO_NOT_CHECK_SELECTORS'', Num 0), (''MQBL_NULL_TERMINATED'', Num (- 1)),
      (''MQITEM_INTEGER'', Num 1), (''MQITEM_STRING'', Num 2), (''MQITEM_BAG'', Num 3),
      (''MQITEM_BYTE_STRING'', Num 4), (''MQITEM_INTEGER_FILTER'', Num 5),
      (''MQITEM_STRING_FILTER'', Num 6), (''MQITEM_INTEGER64'', Num 7),
      (''MQITEM_BYTE_STRING_FILTER'', Num 8), (''MQIT_INTEGER'', Num 1),
      (''MQIT_STRING'', Num 2), (''MQIT_BAG'', Num 3)]"

definition cmqbc_Most_Functions_1 :: "abi \<Rightarrow> macros" where
  "cmqbc_Most_Functions_1 a =
     [(''MQHA_FIRST'', Num 4001), (''MQHA_BAG_HANDLE'', Num 4001),
      (''MQHA_LAST_USED'', Num 4001), (''MQHA_LAST'', Num 6000), (''MQOA_FIRST'', Num 1),
      (''MQOA_LAST'', Num 9000), (''MQIASY_FIRST'', Num (- 1)),
      (''MQIASY_CODED_CHAR_SET_ID'', Num (- 1)), (''MQIASY_TYPE'', Num (- 2)),
      (''MQIASY_COMMAND'', Num (- 3)), (''MQIASY_MSG_SEQ_NUMBER'', Num (- 4)),
      (''MQIASY_CONTROL'', Num (- 5)), (''MQIASY_COMP_CODE'', Num (- 6)),
      (''MQIASY_REASON'', Num (- 7)), (''MQIASY_BAG_OPTIONS'', Num (- 8)),
      (''MQIASY_VERSION'', Num (- 9)), (''MQIASY_LAST_USED'', Num (- 9)),
      (''MQIASY_LAST'', Num (- 2000)), (''MQSEL_ANY_SELECTOR'', Num (- 30001)),
      (''MQSEL_ANY_USER_SELECTOR'', Num (- 30002)),
      (''MQSEL_ANY_SYSTEM_SELECTOR'', Num (- 30003)), (''MQSEL_ALL_SELECTORS'', Num (- 30001)),
      (''MQSEL_ALL_USER_SELECTORS'', Num (- 30002)),
      (''MQSEL_ALL_SYSTEM_SELECTORS'', Num (- 30003)), (''MQIND_NONE'', Num (- 1)),
      (''MQIND_ALL'', Num (- 2)), (''MQHB_UNUSABLE_HBAG'', Num (- 1)),
      (''MQHB_NONE'', Num (- 2))]"

definition cmqbc_Most_Functions_2 :: "abi \<Rightarrow> macros" where
  "cmqbc_Most_Functions_2 a =
     [(''MQADDBF'', Mac ''mqAddByteStringFilter''), (''MQADDBG'', Mac ''mqAddBag''),
      (''MQADDBS'', Mac ''mqAddByteString''), (''MQADDIQ'', Mac ''mqAddInquiry''),
      (''MQADDIN'', Mac ''mqAddInteger''), (''MQADD64'', Mac ''mqAddInteger64''),
      (''MQADDIF'', Mac ''mqAddIntegerFilter''), (''MQADDST'', Mac ''mqAddString''),
      (''MQADDSF'', Mac ''mqAddStringFilter''), (''MQBG2BF'', Mac ''mqBagToBuffer''),
      (''MQBF2BG'', Mac ''mqBufferToBag''), (''MQCLRBG'', Mac ''mqClearBag''),
      (''MQCNTIT'', Mac ''mqCountItems''), (''MQCRTBG'', Mac ''mqCreateBag''),
      (''MQDELBG'', Mac ''mqDeleteBag''), (''MQDELIT'', Mac ''mqDeleteItem''),
      (''MQEXEC'', Mac ''mqExecute''), (''MQGETBG'', Mac ''mqGetBag''),
      (''MQINQBF'', Mac ''mqInquireByteStringFilter''), (''MQINQBG'', Mac ''mqInquireBag''),
      (''MQINQBS'', Mac ''mqInquireByteString''), (''MQINQIN'', Mac ''mqInquireInteger''),
      (''MQINQ64'', Mac ''mqInquireInteger64''), (''MQINQIF'', Mac ''mqInquireIntegerFilter''),
      (''MQINQIT'', Mac ''mqInquireItemInfo''), (''MQINQST'', Mac ''mqInquireString''),
      (''MQINQSF'', Mac ''mqInquireStringFilter''), (''MQPAD'', Mac ''mqPad''),
      (''MQPUTBG'', Mac ''mqPutBag''), (''MQSETBF'', Mac ''mqSetByteStringFilter''),
      (''MQSETBS'', Mac ''mqSetByteString''), (''MQSETIN'', Mac ''mqSetInteger''),
      (''MQSET64'', Mac ''mqSetInteger64''), (''MQSETIF'', Mac ''mqSetIntegerFilter''),
      (''MQSETST'', Mac ''mqSetString''), (''MQSETSF'', Mac ''mqSetStringFilter''),
      (''MQTRIM'', Mac ''mqTrim''), (''MQTRNBG'', Mac ''mqTruncateBag'')]"

definition cmqec_MQIEP :: "abi \<Rightarrow> macros" where
  "cmqec_MQIEP a =
     [(''MQIEP_STRUC_ID'', Str ''IEP ''), (''MQIEP_STRUC_ID_ARRAY'', Chars ''IEP ''),
      (''MQIEP_VERSION_1'', Num 1), (''MQIEP_CURRENT_VERSION'', Num 1),
      (''MQIEP_LENGTH_1'', Num (by_abi a 264 140)),
      (''MQIEP_CURRENT_LENGTH'', Num (by_abi a 264 140)), (''MQIEPF_NONE'', Num 0),
      (''MQIEPF_NON_THREADED_LIBRARY'', Num 0), (''MQIEPF_THREADED_LIBRARY'', Num 1),
      (''MQIEPF_CLIENT_LIBRARY'', Num 0), (''MQIEPF_LOCAL_LIBRARY'', Num 2)]"

end
