(* ===== verification/Mqi_Pcf_Abi.thy ===== *)
theory Mqi_Pcf_Abi
  imports Mqi_Abi Mqi_Exit_Structs Mqi_Consts Mqi_Pcf_A Mqi_Pcf_B Mqi_Exits
begin

text \<open>
  The lengths and default initializers of the structures of command messages (\<open>cmqcfc.h\<close>).
\<close>

lemmas exit_type_defs =
  MQBYTE_def PMQACH_def MQPID_def MQTID_def PMQCD_def MQBYTE48_def MQHCONFIG_def MQHCONN_def
  MQBOOL_def PMQIEP_def PPMQCD_def PMQMD_def PMQVOID_def PPMQWDR_def PPMQWQR_def PMQZED_def
  PMQ_BACK_CALL_def PMQ_BEGIN_CALL_def PMQ_BUFMH_CALL_def PMQ_CB_CALL_def PMQ_CLOSE_CALL_def
  PMQ_CMIT_CALL_def PMQ_CONN_CALL_def PMQ_CONNX_CALL_def PMQ_CRTMH_CALL_def PMQ_CTL_CALL_def
  PMQ_DISC_CALL_def PMQ_DLTMH_CALL_def PMQ_DLTMP_CALL_def PMQ_GET_CALL_def PMQ_INQ_CALL_def
  PMQ_INQMP_CALL_def PMQ_MHBUF_CALL_def PMQ_OPEN_CALL_def PMQ_PUT_CALL_def PMQ_PUT1_CALL_def
  PMQ_SET_CALL_def PMQ_SETMP_CALL_def PMQ_STAT_CALL_def PMQ_SUB_CALL_def PMQ_SUBRQ_CALL_def
  PMQ_XCLWLN_CALL_def PMQ_XCNVC_CALL_def PMQ_XDX_CALL_def PMQ_XEP_CALL_def PMQ_ZEP_CALL_def

section \<open>Command format structures\<close>

text \<open>
  A structure of a command message has one length constant, \<open>_STRUC_LENGTH\<close> for a structure
  of fixed size and \<open>_STRUC_LENGTH_FIXED\<close> for one that ends in a variable part, which the
  declaration stands for by an array of one element.
\<close>

record pcf_struct =
  pc_members :: "(nat \<times> fields) list"
  pc_default :: "cinit list"
  pc_length :: string
  pc_fixed :: bool
  pc_macros :: macros

definition fixed_part :: "abi \<Rightarrow> fields \<Rightarrow> nat" where
  "fixed_part a fs = fst (snd (last (offsets a fs)))"

definition pcf_length_ok :: "abi \<Rightarrow> pcf_struct \<Rightarrow> bool" where
  "pcf_length_ok a s \<longleftrightarrow>
     macro_value (pc_macros s) (Mac (pc_length s)) =
       Some (Num (int (if pc_fixed s then fixed_part a (members (pc_members s))
                       else struct_size a (members (pc_members s)))))"

definition pcf_fits :: "abi \<Rightarrow> pcf_struct \<Rightarrow> bool" where
  "pcf_fits a s \<longleftrightarrow> fits a (pc_macros s) (C_struct (members (pc_members s))) (Braces (pc_default s))"

lemma pcf_fits_shapes:
  "pcf_fits a s = list_all2 (fits a (pc_macros s)) (map snd (members (pc_members s))) (pc_default s)"
  by (simp add: pcf_fits_def fits_fields_all2)

lemmas pcf_simps = fixed_part_def offsets_def members_def struct_size_def round_up_def Let_def
  mqi_type_defs exit_type_defs word_size_def expand.simps


definition macros_MQCFH :: "abi \<Rightarrow> macros" where
  "macros_MQCFH a = cmqcfc_MQCFH_1 a @ cmqcfc_All a @ cmqcfc_MQCFH_2 a @ cmqcfc_MQCFH_3 a @ MQCC_values a @ MQRC_values_1 a"

definition pcf_MQCFH :: "abi \<Rightarrow> pcf_struct" where
  "pcf_MQCFH a =
     \<lparr>pc_members = MQCFH a, pc_default = MQCFH_DEFAULT, pc_length = ''MQCFH_STRUC_LENGTH'',
      pc_fixed = False, pc_macros = macros_MQCFH a\<rparr>"

definition macros_MQCFBF :: "abi \<Rightarrow> macros" where
  "macros_MQCFBF a = cmqcfc_MQCFBF a @ cmqcfc_All a"

definition pcf_MQCFBF :: "abi \<Rightarrow> pcf_struct" where
  "pcf_MQCFBF a =
     \<lparr>pc_members = MQCFBF a, pc_default = MQCFBF_DEFAULT, pc_length = ''MQCFBF_STRUC_LENGTH_FIXED'',
      pc_fixed = True, pc_macros = macros_MQCFBF a\<rparr>"

definition macros_MQCFBS :: "abi \<Rightarrow> macros" where
  "macros_MQCFBS a = cmqcfc_MQCFBS a @ cmqcfc_All a"

definition pcf_MQCFBS :: "abi \<Rightarrow> pcf_struct" where
  "pcf_MQCFBS a =
     \<lparr>pc_members = MQCFBS a, pc_default = MQCFBS_DEFAULT, pc_length = ''MQCFBS_STRUC_LENGTH_FIXED'',
      pc_fixed = True, pc_macros = macros_MQCFBS a\<rparr>"

definition macros_MQCFGR :: "abi \<Rightarrow> macros" where
  "macros_MQCFGR a = cmqcfc_MQCFGR a @ cmqcfc_All a"

definition pcf_MQCFGR :: "abi \<Rightarrow> pcf_struct" where
  "pcf_MQCFGR a =
     \<lparr>pc_members = MQCFGR a, pc_default = MQCFGR_DEFAULT, pc_length = ''MQCFGR_STRUC_LENGTH'',
      pc_fixed = False, pc_macros = macros_MQCFGR a\<rparr>"

definition macros_MQCFIF :: "abi \<Rightarrow> macros" where
  "macros_MQCFIF a = cmqcfc_MQCFIF a @ cmqcfc_All a"

definition pcf_MQCFIF :: "abi \<Rightarrow> pcf_struct" where
  "pcf_MQCFIF a =
     \<lparr>pc_members = MQCFIF a, pc_default = MQCFIF_DEFAULT, pc_length = ''MQCFIF_STRUC_LENGTH'',
      pc_fixed = False, pc_macros = macros_MQCFIF a\<rparr>"

definition macros_MQCFIL :: "abi \<Rightarrow> macros" where
  "macros_MQCFIL a = cmqcfc_MQCFIL a @ cmqcfc_All a"

definition pcf_MQCFIL :: "abi \<Rightarrow> pcf_struct" where
  "pcf_MQCFIL a =
     \<lparr>pc_members = MQCFIL a, pc_default = MQCFIL_DEFAULT, pc_length = ''MQCFIL_STRUC_LENGTH_FIXED'',
      pc_fixed = True, pc_macros = macros_MQCFIL a\<rparr>"

definition macros_MQCFIL64 :: "abi \<Rightarrow> macros" where
  "macros_MQCFIL64 a = cmqcfc_MQCFIL64 a @ cmqcfc_All a"

definition pcf_MQCFIL64 :: "abi \<Rightarrow> pcf_struct" where
  "pcf_MQCFIL64 a =
     \<lparr>pc_members = MQCFIL64 a, pc_default = MQCFIL64_DEFAULT, pc_length = ''MQCFIL64_STRUC_LENGTH_FIXED'',
      pc_fixed = True, pc_macros = macros_MQCFIL64 a\<rparr>"

definition macros_MQCFIN :: "abi \<Rightarrow> macros" where
  "macros_MQCFIN a = cmqcfc_MQCFIN a @ cmqcfc_All a"

definition pcf_MQCFIN :: "abi \<Rightarrow> pcf_struct" where
  "pcf_MQCFIN a =
     \<lparr>pc_members = MQCFIN a, pc_default = MQCFIN_DEFAULT, pc_length = ''MQCFIN_STRUC_LENGTH'',
      pc_fixed = False, pc_macros = macros_MQCFIN a\<rparr>"

definition macros_MQCFIN64 :: "abi \<Rightarrow> macros" where
  "macros_MQCFIN64 a = cmqcfc_MQCFIN64 a @ cmqcfc_All a"

definition pcf_MQCFIN64 :: "abi \<Rightarrow> pcf_struct" where
  "pcf_MQCFIN64 a =
     \<lparr>pc_members = MQCFIN64 a, pc_default = MQCFIN64_DEFAULT, pc_length = ''MQCFIN64_STRUC_LENGTH'',
      pc_fixed = False, pc_macros = macros_MQCFIN64 a\<rparr>"

definition macros_MQCFSF :: "abi \<Rightarrow> macros" where
  "macros_MQCFSF a = cmqcfc_MQCFSF a @ cmqcfc_All a @ MQMD_values_2 a"

definition pcf_MQCFSF :: "abi \<Rightarrow> pcf_struct" where
  "pcf_MQCFSF a =
     \<lparr>pc_members = MQCFSF a, pc_default = MQCFSF_DEFAULT, pc_length = ''MQCFSF_STRUC_LENGTH_FIXED'',
      pc_fixed = True, pc_macros = macros_MQCFSF a\<rparr>"

definition macros_MQCFSL :: "abi \<Rightarrow> macros" where
  "macros_MQCFSL a = cmqcfc_MQCFSL a @ cmqcfc_All a @ MQMD_values_2 a"

definition pcf_MQCFSL :: "abi \<Rightarrow> pcf_struct" where
  "pcf_MQCFSL a =
     \<lparr>pc_members = MQCFSL a, pc_default = MQCFSL_DEFAULT, pc_length = ''MQCFSL_STRUC_LENGTH_FIXED'',
      pc_fixed = True, pc_macros = macros_MQCFSL a\<rparr>"

definition macros_MQCFST :: "abi \<Rightarrow> macros" where
  "macros_MQCFST a = cmqcfc_MQCFST a @ cmqcfc_All a @ MQMD_values_2 a"

definition pcf_MQCFST :: "abi \<Rightarrow> pcf_struct" where
  "pcf_MQCFST a =
     \<lparr>pc_members = MQCFST a, pc_default = MQCFST_DEFAULT, pc_length = ''MQCFST_STRUC_LENGTH_FIXED'',
      pc_fixed = True, pc_macros = macros_MQCFST a\<rparr>"

definition pcf_structs :: "abi \<Rightarrow> pcf_struct list" where
  "pcf_structs a =
     [pcf_MQCFH a, pcf_MQCFBF a, pcf_MQCFBS a, pcf_MQCFGR a, pcf_MQCFIF a, pcf_MQCFIL a,
      pcf_MQCFIL64 a, pcf_MQCFIN a, pcf_MQCFIN64 a, pcf_MQCFSF a, pcf_MQCFSL a, pcf_MQCFST a]"

lemma MQCFH_lookup:
  "map_of (macros_MQCFH a) ''MQCFH_STRUC_LENGTH'' = Some (Num 36)"
  "map_of (macros_MQCFH a) ''MQCFT_COMMAND'' = Some (Num 1)"
  "map_of (macros_MQCFH a) ''MQCFH_VERSION_1'' = Some (Num 1)"
  "map_of (macros_MQCFH a) ''MQCMD_NONE'' = Some (Num 0)"
  "map_of (macros_MQCFH a) ''MQCFC_LAST'' = Some (Num 1)"
  "map_of (macros_MQCFH a) ''MQCC_OK'' = Some (Num 0)"
  "map_of (macros_MQCFH a) ''MQRC_NONE'' = Some (Num 0)"
  by (simp_all only: lookup_simps map_of_table [OF macros_MQCFH_def]
    map_of_table [OF cmqcfc_MQCFH_1_def]
    map_of_table [OF cmqcfc_All_def]
    map_of_table [OF cmqcfc_MQCFH_2_def]
    map_of_table [OF cmqcfc_MQCFH_3_def]
    map_of_table [OF MQCC_values_def]
    map_of_table [OF MQRC_values_1_def]
    cong: lookup_congs)

lemma MQCFH_pcf: "pcf_length_ok a (pcf_MQCFH a)"
  by (cases a; simp add: pcf_length_ok_def pcf_MQCFH_def MQCFH_lookup macro_value_simps pcf_simps
    MQCFH_def)

lemma MQCFH_pcf_fits: "pcf_fits a (pcf_MQCFH a)"
  by (cases a; simp only: pcf_fits_shapes pcf_MQCFH_def pcf_struct.simps
    MQCFH_def
    MQCFH_DEFAULT_def MQCFH_lookup fits_simps exit_type_defs;
    simp add: init_simps macro_value_simps MQCFH_lookup)

lemma MQCFBF_lookup:
  "map_of (macros_MQCFBF a) ''MQCFBF_STRUC_LENGTH_FIXED'' = Some (Num 20)"
  "map_of (macros_MQCFBF a) ''MQCFT_BYTE_STRING_FILTER'' = Some (Num 15)"
  by (simp_all only: lookup_simps map_of_table [OF macros_MQCFBF_def]
    map_of_table [OF cmqcfc_MQCFBF_def]
    map_of_table [OF cmqcfc_All_def]
    cong: lookup_congs)

lemma MQCFBF_pcf: "pcf_length_ok a (pcf_MQCFBF a)"
  by (cases a; simp add: pcf_length_ok_def pcf_MQCFBF_def MQCFBF_lookup macro_value_simps pcf_simps
    MQCFBF_def)

lemma MQCFBF_pcf_fits: "pcf_fits a (pcf_MQCFBF a)"
  by (cases a; simp only: pcf_fits_shapes pcf_MQCFBF_def pcf_struct.simps
    MQCFBF_def
    MQCFBF_DEFAULT_def MQCFBF_lookup fits_simps exit_type_defs;
    simp add: init_simps macro_value_simps MQCFBF_lookup)

lemma MQCFBS_lookup:
  "map_of (macros_MQCFBS a) ''MQCFBS_STRUC_LENGTH_FIXED'' = Some (Num 16)"
  "map_of (macros_MQCFBS a) ''MQCFT_BYTE_STRING'' = Some (Num 9)"
  by (simp_all only: lookup_simps map_of_table [OF macros_MQCFBS_def]
    map_of_table [OF cmqcfc_MQCFBS_def]
    map_of_table [OF cmqcfc_All_def]
    cong: lookup_congs)

lemma MQCFBS_pcf: "pcf_length_ok a (pcf_MQCFBS a)"
  by (cases a; simp add: pcf_length_ok_def pcf_MQCFBS_def MQCFBS_lookup macro_value_simps pcf_simps
    MQCFBS_def)

lemma MQCFBS_pcf_fits: "pcf_fits a (pcf_MQCFBS a)"
  by (cases a; simp only: pcf_fits_shapes pcf_MQCFBS_def pcf_struct.simps
    MQCFBS_def
    MQCFBS_DEFAULT_def MQCFBS_lookup fits_simps exit_type_defs;
    simp add: init_simps macro_value_simps MQCFBS_lookup)

lemma MQCFGR_lookup:
  "map_of (macros_MQCFGR a) ''MQCFGR_STRUC_LENGTH'' = Some (Num 16)"
  "map_of (macros_MQCFGR a) ''MQCFT_GROUP'' = Some (Num 20)"
  by (simp_all only: lookup_simps map_of_table [OF macros_MQCFGR_def]
    map_of_table [OF cmqcfc_MQCFGR_def]
    map_of_table [OF cmqcfc_All_def]
    cong: lookup_congs)

lemma MQCFGR_pcf: "pcf_length_ok a (pcf_MQCFGR a)"
  by (cases a; simp add: pcf_length_ok_def pcf_MQCFGR_def MQCFGR_lookup macro_value_simps pcf_simps
    MQCFGR_def)

lemma MQCFGR_pcf_fits: "pcf_fits a (pcf_MQCFGR a)"
  by (cases a; simp only: pcf_fits_shapes pcf_MQCFGR_def pcf_struct.simps
    MQCFGR_def
    MQCFGR_DEFAULT_def MQCFGR_lookup fits_simps exit_type_defs;
    simp add: init_simps macro_value_simps MQCFGR_lookup)

lemma MQCFIF_lookup:
  "map_of (macros_MQCFIF a) ''MQCFIF_STRUC_LENGTH'' = Some (Num 20)"
  "map_of (macros_MQCFIF a) ''MQCFT_INTEGER_FILTER'' = Some (Num 13)"
  by (simp_all only: lookup_simps map_of_table [OF macros_MQCFIF_def]
    map_of_table [OF cmqcfc_MQCFIF_def]
    map_of_table [OF cmqcfc_All_def]
    cong: lookup_congs)

lemma MQCFIF_pcf: "pcf_length_ok a (pcf_MQCFIF a)"
  by (cases a; simp add: pcf_length_ok_def pcf_MQCFIF_def MQCFIF_lookup macro_value_simps pcf_simps
    MQCFIF_def)

lemma MQCFIF_pcf_fits: "pcf_fits a (pcf_MQCFIF a)"
  by (cases a; simp only: pcf_fits_shapes pcf_MQCFIF_def pcf_struct.simps
    MQCFIF_def
    MQCFIF_DEFAULT_def MQCFIF_lookup fits_simps exit_type_defs;
    simp add: init_simps macro_value_simps MQCFIF_lookup)

lemma MQCFIL_lookup:
  "map_of (macros_MQCFIL a) ''MQCFIL_STRUC_LENGTH_FIXED'' = Some (Num 16)"
  "map_of (macros_MQCFIL a) ''MQCFT_INTEGER_LIST'' = Some (Num 5)"
  by (simp_all only: lookup_simps map_of_table [OF macros_MQCFIL_def]
    map_of_table [OF cmqcfc_MQCFIL_def]
    map_of_table [OF cmqcfc_All_def]
    cong: lookup_congs)

lemma MQCFIL_pcf: "pcf_length_ok a (pcf_MQCFIL a)"
  by (cases a; simp add: pcf_length_ok_def pcf_MQCFIL_def MQCFIL_lookup macro_value_simps pcf_simps
    MQCFIL_def)

lemma MQCFIL_pcf_fits: "pcf_fits a (pcf_MQCFIL a)"
  by (cases a; simp only: pcf_fits_shapes pcf_MQCFIL_def pcf_struct.simps
    MQCFIL_def
    MQCFIL_DEFAULT_def MQCFIL_lookup fits_simps exit_type_defs;
    simp add: init_simps macro_value_simps MQCFIL_lookup)

lemma MQCFIL64_lookup:
  "map_of (macros_MQCFIL64 a) ''MQCFIL64_STRUC_LENGTH_FIXED'' = Some (Num 16)"
  "map_of (macros_MQCFIL64 a) ''MQCFT_INTEGER64_LIST'' = Some (Num 25)"
  by (simp_all only: lookup_simps map_of_table [OF macros_MQCFIL64_def]
    map_of_table [OF cmqcfc_MQCFIL64_def]
    map_of_table [OF cmqcfc_All_def]
    cong: lookup_congs)

lemma MQCFIL64_pcf: "pcf_length_ok a (pcf_MQCFIL64 a)"
  by (cases a; simp add: pcf_length_ok_def pcf_MQCFIL64_def MQCFIL64_lookup macro_value_simps pcf_simps
    MQCFIL64_def)

lemma MQCFIL64_pcf_fits: "pcf_fits a (pcf_MQCFIL64 a)"
  by (cases a; simp only: pcf_fits_shapes pcf_MQCFIL64_def pcf_struct.simps
    MQCFIL64_def
    MQCFIL64_DEFAULT_def MQCFIL64_lookup fits_simps exit_type_defs;
    simp add: init_simps macro_value_simps MQCFIL64_lookup)

lemma MQCFIN_lookup:
  "map_of (macros_MQCFIN a) ''MQCFIN_STRUC_LENGTH'' = Some (Num 16)"
  "map_of (macros_MQCFIN a) ''MQCFT_INTEGER'' = Some (Num 3)"
  by (simp_all only: lookup_simps map_of_table [OF macros_MQCFIN_def]
    map_of_table [OF cmqcfc_MQCFIN_def]
    map_of_table [OF cmqcfc_All_def]
    cong: lookup_congs)

lemma MQCFIN_pcf: "pcf_length_ok a (pcf_MQCFIN a)"
  by (cases a; simp add: pcf_length_ok_def pcf_MQCFIN_def MQCFIN_lookup macro_value_simps pcf_simps
    MQCFIN_def)

lemma MQCFIN_pcf_fits: "pcf_fits a (pcf_MQCFIN a)"
  by (cases a; simp only: pcf_fits_shapes pcf_MQCFIN_def pcf_struct.simps
    MQCFIN_def
    MQCFIN_DEFAULT_def MQCFIN_lookup fits_simps exit_type_defs;
    simp add: init_simps macro_value_simps MQCFIN_lookup)

lemma MQCFIN64_lookup:
  "map_of (macros_MQCFIN64 a) ''MQCFIN64_STRUC_LENGTH'' = Some (Num 24)"
  "map_of (macros_MQCFIN64 a) ''MQCFT_INTEGER64'' = Some (Num 23)"
  by (simp_all only: lookup_simps map_of_table [OF macros_MQCFIN64_def]
    map_of_table [OF cmqcfc_MQCFIN64_def]
    map_of_table [OF cmqcfc_All_def]
    cong: lookup_congs)

lemma MQCFIN64_pcf: "pcf_length_ok a (pcf_MQCFIN64 a)"
  by (cases a; simp add: pcf_length_ok_def pcf_MQCFIN64_def MQCFIN64_lookup macro_value_simps pcf_simps
    MQCFIN64_def)

lemma MQCFIN64_pcf_fits: "pcf_fits a (pcf_MQCFIN64 a)"
  by (cases a; simp only: pcf_fits_shapes pcf_MQCFIN64_def pcf_struct.simps
    MQCFIN64_def
    MQCFIN64_DEFAULT_def MQCFIN64_lookup fits_simps exit_type_defs;
    simp add: init_simps macro_value_simps MQCFIN64_lookup)

lemma MQCFSF_lookup:
  "map_of (macros_MQCFSF a) ''MQCFSF_STRUC_LENGTH_FIXED'' = Some (Num 24)"
  "map_of (macros_MQCFSF a) ''MQCFT_STRING_FILTER'' = Some (Num 14)"
  "map_of (macros_MQCFSF a) ''MQCCSI_DEFAULT'' = Some (Num 0)"
  by (simp_all only: lookup_simps map_of_table [OF macros_MQCFSF_def]
    map_of_table [OF cmqcfc_MQCFSF_def]
    map_of_table [OF cmqcfc_All_def]
    map_of_table [OF MQMD_values_2_def]
    cong: lookup_congs)

lemma MQCFSF_pcf: "pcf_length_ok a (pcf_MQCFSF a)"
  by (cases a; simp add: pcf_length_ok_def pcf_MQCFSF_def MQCFSF_lookup macro_value_simps pcf_simps
    MQCFSF_def)

lemma MQCFSF_pcf_fits: "pcf_fits a (pcf_MQCFSF a)"
  by (cases a; simp only: pcf_fits_shapes pcf_MQCFSF_def pcf_struct.simps
    MQCFSF_def
    MQCFSF_DEFAULT_def MQCFSF_lookup fits_simps exit_type_defs;
    simp add: init_simps macro_value_simps MQCFSF_lookup)

lemma MQCFSL_lookup:
  "map_of (macros_MQCFSL a) ''MQCFSL_STRUC_LENGTH_FIXED'' = Some (Num 24)"
  "map_of (macros_MQCFSL a) ''MQCFT_STRING_LIST'' = Some (Num 6)"
  "map_of (macros_MQCFSL a) ''MQCCSI_DEFAULT'' = Some (Num 0)"
  by (simp_all only: lookup_simps map_of_table [OF macros_MQCFSL_def]
    map_of_table [OF cmqcfc_MQCFSL_def]
    map_of_table [OF cmqcfc_All_def]
    map_of_table [OF MQMD_values_2_def]
    cong: lookup_congs)

lemma MQCFSL_pcf: "pcf_length_ok a (pcf_MQCFSL a)"
  by (cases a; simp add: pcf_length_ok_def pcf_MQCFSL_def MQCFSL_lookup macro_value_simps pcf_simps
    MQCFSL_def)

lemma MQCFSL_pcf_fits: "pcf_fits a (pcf_MQCFSL a)"
  by (cases a; simp only: pcf_fits_shapes pcf_MQCFSL_def pcf_struct.simps
    MQCFSL_def
    MQCFSL_DEFAULT_def MQCFSL_lookup fits_simps exit_type_defs;
    simp add: init_simps macro_value_simps MQCFSL_lookup)

lemma MQCFST_lookup:
  "map_of (macros_MQCFST a) ''MQCFST_STRUC_LENGTH_FIXED'' = Some (Num 20)"
  "map_of (macros_MQCFST a) ''MQCFT_STRING'' = Some (Num 4)"
  "map_of (macros_MQCFST a) ''MQCCSI_DEFAULT'' = Some (Num 0)"
  by (simp_all only: lookup_simps map_of_table [OF macros_MQCFST_def]
    map_of_table [OF cmqcfc_MQCFST_def]
    map_of_table [OF cmqcfc_All_def]
    map_of_table [OF MQMD_values_2_def]
    cong: lookup_congs)

lemma MQCFST_pcf: "pcf_length_ok a (pcf_MQCFST a)"
  by (cases a; simp add: pcf_length_ok_def pcf_MQCFST_def MQCFST_lookup macro_value_simps pcf_simps
    MQCFST_def)

lemma MQCFST_pcf_fits: "pcf_fits a (pcf_MQCFST a)"
  by (cases a; simp only: pcf_fits_shapes pcf_MQCFST_def pcf_struct.simps
    MQCFST_def
    MQCFST_DEFAULT_def MQCFST_lookup fits_simps exit_type_defs;
    simp add: init_simps macro_value_simps MQCFST_lookup)

lemmas pcf_lengths =
  MQCFH_pcf MQCFBF_pcf MQCFBS_pcf MQCFGR_pcf MQCFIF_pcf MQCFIL_pcf MQCFIL64_pcf MQCFIN_pcf
  MQCFIN64_pcf MQCFSF_pcf MQCFSL_pcf MQCFST_pcf

lemmas pcf_defaults =
  MQCFH_pcf_fits MQCFBF_pcf_fits MQCFBS_pcf_fits MQCFGR_pcf_fits MQCFIF_pcf_fits
  MQCFIL_pcf_fits MQCFIL64_pcf_fits MQCFIN_pcf_fits MQCFIN64_pcf_fits MQCFSF_pcf_fits
  MQCFSL_pcf_fits MQCFST_pcf_fits

end
