(* ===== verification/Mqi_Exit_Abi.thy ===== *)
theory Mqi_Exit_Abi
  imports Mqi_Pcf_Abi
begin

text \<open>
  The structures of \<open>cmqxc.h\<close>, \<open>cmqzc.h\<close> and \<open>cmqec.h\<close>, and \<open>MQEPH\<close> of \<open>cmqcfc.h\<close>, each with
  its length constants and its default initializer. \<open>MQCD\<close> opens with the channel name and has
  no eye-catcher; \<open>MQWCR\<close> has neither a length constant nor an initializer.
\<close>

definition macros_MQCD :: "abi \<Rightarrow> macros" where
  "macros_MQCD a = cmqxc_MQCD_1 a @ cmqc_All_Functions_2 a @ MQSD_values a @ cmqxc_MQCD_2 a @
     cmqc_QueueManager_Attributes_2 a @ cmqc_Queue_Attributes a @
     cmqc_Channel_Authentication_Configuration_1 a"

definition struct_MQCD :: "abi \<Rightarrow> mq_struct" where
  "struct_MQCD a =
     \<lparr>st_members = MQCD a,
      st_default = MQCD_DEFAULT,
      st_lengths = [(1, ''MQCD_LENGTH_1''), (2, ''MQCD_LENGTH_2''), (3, ''MQCD_LENGTH_3''), (4,
       ''MQCD_LENGTH_4''), (5, ''MQCD_LENGTH_5''), (6, ''MQCD_LENGTH_6''), (7,
       ''MQCD_LENGTH_7''), (8, ''MQCD_LENGTH_8''), (9, ''MQCD_LENGTH_9''), (10,
       ''MQCD_LENGTH_10''), (11, ''MQCD_LENGTH_11''), (12, ''MQCD_LENGTH_12'')],
      st_current = ''MQCD_CURRENT_LENGTH'',
      st_id = [],
      st_version = None,
      st_macros = macros_MQCD a\<rparr>"

definition macros_MQCD_CLIENT_CONN :: "abi \<Rightarrow> macros" where
  "macros_MQCD_CLIENT_CONN a = cmqxc_MQCD_1 a @ cmqc_All_Functions_2 a @ MQSD_values a @ cmqxc_MQCD_2 a @
     cmqc_QueueManager_Attributes_2 a @ cmqc_Queue_Attributes a @
     cmqc_Channel_Authentication_Configuration_1 a"

definition struct_MQCD_CLIENT_CONN :: "abi \<Rightarrow> mq_struct" where
  "struct_MQCD_CLIENT_CONN a =
     \<lparr>st_members = MQCD a,
      st_default = MQCD_CLIENT_CONN_DEFAULT,
      st_lengths = [(1, ''MQCD_LENGTH_1''), (2, ''MQCD_LENGTH_2''), (3, ''MQCD_LENGTH_3''), (4,
       ''MQCD_LENGTH_4''), (5, ''MQCD_LENGTH_5''), (6, ''MQCD_LENGTH_6''), (7,
       ''MQCD_LENGTH_7''), (8, ''MQCD_LENGTH_8''), (9, ''MQCD_LENGTH_9''), (10,
       ''MQCD_LENGTH_10''), (11, ''MQCD_LENGTH_11''), (12, ''MQCD_LENGTH_12'')],
      st_current = ''MQCD_CURRENT_LENGTH'',
      st_id = [],
      st_version = None,
      st_macros = macros_MQCD_CLIENT_CONN a\<rparr>"

definition macros_MQACH :: "abi \<Rightarrow> macros" where
  "macros_MQACH a = cmqxc_MQACH a"

definition struct_MQACH :: "abi \<Rightarrow> mq_struct" where
  "struct_MQACH a =
     \<lparr>st_members = MQACH a,
      st_default = MQACH_DEFAULT,
      st_lengths = [(1, ''MQACH_LENGTH_1'')],
      st_current = ''MQACH_CURRENT_LENGTH'',
      st_id = ''MQACH_STRUC_ID'',
      st_version = Some ''MQACH_VERSION_1'',
      st_macros = macros_MQACH a\<rparr>"

definition macros_MQAXC :: "abi \<Rightarrow> macros" where
  "macros_MQAXC a = cmqxc_MQAXC a @ MQSD_values a @ MQMD_values_3 a"

definition struct_MQAXC :: "abi \<Rightarrow> mq_struct" where
  "struct_MQAXC a =
     \<lparr>st_members = MQAXC a,
      st_default = MQAXC_DEFAULT,
      st_lengths = [(1, ''MQAXC_LENGTH_1''), (2, ''MQAXC_LENGTH_2'')],
      st_current = ''MQAXC_CURRENT_LENGTH'',
      st_id = ''MQAXC_STRUC_ID'',
      st_version = Some ''MQAXC_VERSION_1'',
      st_macros = macros_MQAXC a\<rparr>"

definition macros_MQAXP :: "abi \<Rightarrow> macros" where
  "macros_MQAXP a = cmqxc_MQAXP a @ cmqxc_MQXEPO_2 a @ cmqxc_MQCXP a @ MQMD_values_1 a @ MQHM_values a"

definition struct_MQAXP :: "abi \<Rightarrow> mq_struct" where
  "struct_MQAXP a =
     \<lparr>st_members = MQAXP a,
      st_default = MQAXP_DEFAULT,
      st_lengths = [(1, ''MQAXP_LENGTH_1'')],
      st_current = ''MQAXP_CURRENT_LENGTH'',
      st_id = ''MQAXP_STRUC_ID'',
      st_version = Some ''MQAXP_VERSION_1'',
      st_macros = macros_MQAXP a\<rparr>"

definition macros_MQCXP :: "abi \<Rightarrow> macros" where
  "macros_MQCXP a = cmqxc_MQCXP a @ cmqxc_MQXEPO_2 a @ cmqxc_MQCD_1 a @ cmqc_All_Functions_1 a @
     cmqc_Channel_Authentication_Configuration_1 a"

definition struct_MQCXP :: "abi \<Rightarrow> mq_struct" where
  "struct_MQCXP a =
     \<lparr>st_members = MQCXP a,
      st_default = MQCXP_DEFAULT,
      st_lengths = [(3, ''MQCXP_LENGTH_3''), (4, ''MQCXP_LENGTH_4''), (5, ''MQCXP_LENGTH_5''), (6,
       ''MQCXP_LENGTH_6''), (7, ''MQCXP_LENGTH_7''), (8, ''MQCXP_LENGTH_8''), (9,
       ''MQCXP_LENGTH_9'')],
      st_current = ''MQCXP_CURRENT_LENGTH'',
      st_id = ''MQCXP_STRUC_ID'',
      st_version = Some ''MQCXP_VERSION_5'',
      st_macros = macros_MQCXP a\<rparr>"

definition macros_MQDXP :: "abi \<Rightarrow> macros" where
  "macros_MQDXP a = cmqxc_MQDXP a @ MQCC_values a @ MQRC_values_1 a"

definition struct_MQDXP :: "abi \<Rightarrow> mq_struct" where
  "struct_MQDXP a =
     \<lparr>st_members = MQDXP a,
      st_default = MQDXP_DEFAULT,
      st_lengths = [(1, ''MQDXP_LENGTH_1''), (2, ''MQDXP_LENGTH_2'')],
      st_current = ''MQDXP_CURRENT_LENGTH'',
      st_id = ''MQDXP_STRUC_ID'',
      st_version = Some ''MQDXP_VERSION_1'',
      st_macros = macros_MQDXP a\<rparr>"

definition macros_MQNXP :: "abi \<Rightarrow> macros" where
  "macros_MQNXP a = cmqxc_MQNXP a @ cmqxc_MQXEPO_2 a @ cmqxc_MQCXP a @ MQMD_values_1 a @ cmqxc_MQCD_1 a"

definition struct_MQNXP :: "abi \<Rightarrow> mq_struct" where
  "struct_MQNXP a =
     \<lparr>st_members = MQNXP a,
      st_default = MQNXP_DEFAULT,
      st_lengths = [(1, ''MQNXP_LENGTH_1''), (2, ''MQNXP_LENGTH_2'')],
      st_current = ''MQNXP_CURRENT_LENGTH'',
      st_id = ''MQNXP_STRUC_ID'',
      st_version = Some ''MQNXP_VERSION_1'',
      st_macros = macros_MQNXP a\<rparr>"

definition macros_MQPBC :: "abi \<Rightarrow> macros" where
  "macros_MQPBC a = cmqxc_MQPBC a @ MQMD_values_2 a"

definition struct_MQPBC :: "abi \<Rightarrow> mq_struct" where
  "struct_MQPBC a =
     \<lparr>st_members = MQPBC a,
      st_default = MQPBC_DEFAULT,
      st_lengths = [(1, ''MQPBC_LENGTH_1''), (2, ''MQPBC_LENGTH_2'')],
      st_current = ''MQPBC_CURRENT_LENGTH'',
      st_id = ''MQPBC_STRUC_ID'',
      st_version = Some ''MQPBC_VERSION_1'',
      st_macros = macros_MQPBC a\<rparr>"

definition macros_MQPSXP :: "abi \<Rightarrow> macros" where
  "macros_MQPSXP a = cmqxc_MQPSXP a @ cmqxc_MQXEPO_2 a @ MQMD_values_1 a @ cmqc_All_Functions_1 a @
     MQHM_values a"

definition struct_MQPSXP :: "abi \<Rightarrow> mq_struct" where
  "struct_MQPSXP a =
     \<lparr>st_members = MQPSXP a,
      st_default = MQPSXP_DEFAULT,
      st_lengths = [(1, ''MQPSXP_LENGTH_1''), (2, ''MQPSXP_LENGTH_2'')],
      st_current = ''MQPSXP_CURRENT_LENGTH'',
      st_id = ''MQPSXP_STRUC_ID'',
      st_version = Some ''MQPSXP_VERSION_1'',
      st_macros = macros_MQPSXP a\<rparr>"

definition macros_MQSBC :: "abi \<Rightarrow> macros" where
  "macros_MQSBC a = cmqxc_MQSBC a @ MQMD_values_2 a"

definition struct_MQSBC :: "abi \<Rightarrow> mq_struct" where
  "struct_MQSBC a =
     \<lparr>st_members = MQSBC a,
      st_default = MQSBC_DEFAULT,
      st_lengths = [(1, ''MQSBC_LENGTH_1'')],
      st_current = ''MQSBC_CURRENT_LENGTH'',
      st_id = ''MQSBC_STRUC_ID'',
      st_version = Some ''MQSBC_VERSION_1'',
      st_macros = macros_MQSBC a\<rparr>"

definition macros_MQWDR :: "abi \<Rightarrow> macros" where
  "macros_MQWDR a = cmqxc_MQWDR a"

definition struct_MQWDR :: "abi \<Rightarrow> mq_struct" where
  "struct_MQWDR a =
     \<lparr>st_members = MQWDR a,
      st_default = MQWDR_DEFAULT,
      st_lengths = [(1, ''MQWDR_LENGTH_1''), (2, ''MQWDR_LENGTH_2'')],
      st_current = ''MQWDR_CURRENT_LENGTH'',
      st_id = ''MQWDR_STRUC_ID'',
      st_version = Some ''MQWDR_VERSION_1'',
      st_macros = macros_MQWDR a\<rparr>"

definition macros_MQWDR1 :: "abi \<Rightarrow> macros" where
  "macros_MQWDR1 a = cmqxc_MQWDR1 a @ cmqxc_MQWDR a"

definition struct_MQWDR1 :: "abi \<Rightarrow> mq_struct" where
  "struct_MQWDR1 a =
     \<lparr>st_members = MQWDR1 a,
      st_default = MQWDR1_DEFAULT,
      st_lengths = [(1, ''MQWDR1_LENGTH_1'')],
      st_current = ''MQWDR1_CURRENT_LENGTH'',
      st_id = ''MQWDR_STRUC_ID'',
      st_version = Some ''MQWDR_VERSION_1'',
      st_macros = macros_MQWDR1 a\<rparr>"

definition macros_MQWDR2 :: "abi \<Rightarrow> macros" where
  "macros_MQWDR2 a = cmqxc_MQWDR2 a @ cmqxc_MQWDR a"

definition struct_MQWDR2 :: "abi \<Rightarrow> mq_struct" where
  "struct_MQWDR2 a =
     \<lparr>st_members = MQWDR2 a,
      st_default = MQWDR2_DEFAULT,
      st_lengths = [(1, ''MQWDR2_LENGTH_1''), (2, ''MQWDR2_LENGTH_2'')],
      st_current = ''MQWDR2_CURRENT_LENGTH'',
      st_id = ''MQWDR_STRUC_ID'',
      st_version = Some ''MQWDR_VERSION_2'',
      st_macros = macros_MQWDR2 a\<rparr>"

definition macros_MQWQR :: "abi \<Rightarrow> macros" where
  "macros_MQWQR a = cmqxc_MQWQR a"

definition struct_MQWQR :: "abi \<Rightarrow> mq_struct" where
  "struct_MQWQR a =
     \<lparr>st_members = MQWQR a,
      st_default = MQWQR_DEFAULT,
      st_lengths = [(1, ''MQWQR_LENGTH_1''), (2, ''MQWQR_LENGTH_2''), (3, ''MQWQR_LENGTH_3''), (4,
       ''MQWQR_LENGTH_4'')],
      st_current = ''MQWQR_CURRENT_LENGTH'',
      st_id = ''MQWQR_STRUC_ID'',
      st_version = Some ''MQWQR_VERSION_1'',
      st_macros = macros_MQWQR a\<rparr>"

definition macros_MQWQR1 :: "abi \<Rightarrow> macros" where
  "macros_MQWQR1 a = cmqxc_MQWQR1 a @ cmqxc_MQWQR a"

definition struct_MQWQR1 :: "abi \<Rightarrow> mq_struct" where
  "struct_MQWQR1 a =
     \<lparr>st_members = MQWQR1 a,
      st_default = MQWQR1_DEFAULT,
      st_lengths = [(1, ''MQWQR1_LENGTH_1'')],
      st_current = ''MQWQR1_CURRENT_LENGTH'',
      st_id = ''MQWQR_STRUC_ID'',
      st_version = Some ''MQWQR_VERSION_1'',
      st_macros = macros_MQWQR1 a\<rparr>"

definition macros_MQWQR2 :: "abi \<Rightarrow> macros" where
  "macros_MQWQR2 a = cmqxc_MQWQR2 a @ cmqxc_MQWQR a"

definition struct_MQWQR2 :: "abi \<Rightarrow> mq_struct" where
  "struct_MQWQR2 a =
     \<lparr>st_members = MQWQR2 a,
      st_default = MQWQR2_DEFAULT,
      st_lengths = [(1, ''MQWQR2_LENGTH_1''), (2, ''MQWQR2_LENGTH_2'')],
      st_current = ''MQWQR2_CURRENT_LENGTH'',
      st_id = ''MQWQR_STRUC_ID'',
      st_version = Some ''MQWQR_VERSION_2'',
      st_macros = macros_MQWQR2 a\<rparr>"

definition macros_MQWQR3 :: "abi \<Rightarrow> macros" where
  "macros_MQWQR3 a = cmqxc_MQWQR3 a @ cmqxc_MQWQR a"

definition struct_MQWQR3 :: "abi \<Rightarrow> mq_struct" where
  "struct_MQWQR3 a =
     \<lparr>st_members = MQWQR3 a,
      st_default = MQWQR3_DEFAULT,
      st_lengths = [(1, ''MQWQR3_LENGTH_1''), (2, ''MQWQR3_LENGTH_2''), (3, ''MQWQR3_LENGTH_3'')],
      st_current = ''MQWQR3_CURRENT_LENGTH'',
      st_id = ''MQWQR_STRUC_ID'',
      st_version = Some ''MQWQR_VERSION_3'',
      st_macros = macros_MQWQR3 a\<rparr>"

definition macros_MQWQR4 :: "abi \<Rightarrow> macros" where
  "macros_MQWQR4 a = cmqxc_MQWQR4 a @ cmqxc_MQWQR a"

definition struct_MQWQR4 :: "abi \<Rightarrow> mq_struct" where
  "struct_MQWQR4 a =
     \<lparr>st_members = MQWQR4 a,
      st_default = MQWQR4_DEFAULT,
      st_lengths = [(1, ''MQWQR4_LENGTH_1''), (2, ''MQWQR4_LENGTH_2''), (3, ''MQWQR4_LENGTH_3''), (4,
       ''MQWQR4_LENGTH_4'')],
      st_current = ''MQWQR4_CURRENT_LENGTH'',
      st_id = ''MQWQR_STRUC_ID'',
      st_version = Some ''MQWQR_VERSION_4'',
      st_macros = macros_MQWQR4 a\<rparr>"

definition macros_MQWXP :: "abi \<Rightarrow> macros" where
  "macros_MQWXP a = cmqxc_MQWXP a @ cmqxc_MQXEPO_2 a"

definition struct_MQWXP :: "abi \<Rightarrow> mq_struct" where
  "struct_MQWXP a =
     \<lparr>st_members = MQWXP a,
      st_default = MQWXP_DEFAULT,
      st_lengths = [(1, ''MQWXP_LENGTH_1''), (2, ''MQWXP_LENGTH_2''), (3, ''MQWXP_LENGTH_3''), (4,
       ''MQWXP_LENGTH_4'')],
      st_current = ''MQWXP_CURRENT_LENGTH'',
      st_id = ''MQWXP_STRUC_ID'',
      st_version = Some ''MQWXP_VERSION_2'',
      st_macros = macros_MQWXP a\<rparr>"

definition macros_MQWXP1 :: "abi \<Rightarrow> macros" where
  "macros_MQWXP1 a = cmqxc_MQWXP1 a @ cmqxc_MQWXP a @ cmqxc_MQXEPO_2 a"

definition struct_MQWXP1 :: "abi \<Rightarrow> mq_struct" where
  "struct_MQWXP1 a =
     \<lparr>st_members = MQWXP1 a,
      st_default = MQWXP1_DEFAULT,
      st_lengths = [(1, ''MQWXP1_LENGTH_1'')],
      st_current = ''MQWXP1_CURRENT_LENGTH'',
      st_id = ''MQWXP_STRUC_ID'',
      st_version = Some ''MQWXP_VERSION_1'',
      st_macros = macros_MQWXP1 a\<rparr>"

definition macros_MQWXP2 :: "abi \<Rightarrow> macros" where
  "macros_MQWXP2 a = cmqxc_MQWXP2 a @ cmqxc_MQWXP a @ cmqxc_MQXEPO_2 a"

definition struct_MQWXP2 :: "abi \<Rightarrow> mq_struct" where
  "struct_MQWXP2 a =
     \<lparr>st_members = MQWXP2 a,
      st_default = MQWXP2_DEFAULT,
      st_lengths = [(1, ''MQWXP2_LENGTH_1''), (2, ''MQWXP2_LENGTH_2'')],
      st_current = ''MQWXP2_CURRENT_LENGTH'',
      st_id = ''MQWXP_STRUC_ID'',
      st_version = Some ''MQWXP_VERSION_2'',
      st_macros = macros_MQWXP2 a\<rparr>"

definition macros_MQWXP3 :: "abi \<Rightarrow> macros" where
  "macros_MQWXP3 a = cmqxc_MQWXP3 a @ cmqxc_MQWXP a @ cmqxc_MQXEPO_2 a"

definition struct_MQWXP3 :: "abi \<Rightarrow> mq_struct" where
  "struct_MQWXP3 a =
     \<lparr>st_members = MQWXP3 a,
      st_default = MQWXP3_DEFAULT,
      st_lengths = [(1, ''MQWXP3_LENGTH_1''), (2, ''MQWXP3_LENGTH_2''), (3, ''MQWXP3_LENGTH_3'')],
      st_current = ''MQWXP3_CURRENT_LENGTH'',
      st_id = ''MQWXP_STRUC_ID'',
      st_version = Some ''MQWXP_VERSION_3'',
      st_macros = macros_MQWXP3 a\<rparr>"

definition macros_MQWXP4 :: "abi \<Rightarrow> macros" where
  "macros_MQWXP4 a = cmqxc_MQWXP4 a @ cmqxc_MQWXP a @ cmqxc_MQXEPO_2 a"

definition struct_MQWXP4 :: "abi \<Rightarrow> mq_struct" where
  "struct_MQWXP4 a =
     \<lparr>st_members = MQWXP4 a,
      st_default = MQWXP4_DEFAULT,
      st_lengths = [(1, ''MQWXP4_LENGTH_1''), (2, ''MQWXP4_LENGTH_2''), (3, ''MQWXP4_LENGTH_3''), (4,
       ''MQWXP4_LENGTH_4'')],
      st_current = ''MQWXP4_CURRENT_LENGTH'',
      st_id = ''MQWXP_STRUC_ID'',
      st_version = Some ''MQWXP_VERSION_4'',
      st_macros = macros_MQWXP4 a\<rparr>"

definition macros_MQXEPO :: "abi \<Rightarrow> macros" where
  "macros_MQXEPO a = cmqxc_MQXEPO_1 a @ MQMD_values_2 a"

definition struct_MQXEPO :: "abi \<Rightarrow> mq_struct" where
  "struct_MQXEPO a =
     \<lparr>st_members = MQXEPO a,
      st_default = MQXEPO_DEFAULT,
      st_lengths = [(1, ''MQXEPO_LENGTH_1'')],
      st_current = ''MQXEPO_CURRENT_LENGTH'',
      st_id = ''MQXEPO_STRUC_ID'',
      st_version = Some ''MQXEPO_VERSION_1'',
      st_macros = macros_MQXEPO a\<rparr>"

definition macros_MQZED :: "abi \<Rightarrow> macros" where
  "macros_MQZED a = cmqzc_MQZED a @ MQSD_values a"

definition struct_MQZED :: "abi \<Rightarrow> mq_struct" where
  "struct_MQZED a =
     \<lparr>st_members = MQZED a,
      st_default = MQZED_DEFAULT,
      st_lengths = [(1, ''MQZED_LENGTH_1''), (2, ''MQZED_LENGTH_2'')],
      st_current = ''MQZED_CURRENT_LENGTH'',
      st_id = ''MQZED_STRUC_ID'',
      st_version = Some ''MQZED_VERSION_1'',
      st_macros = macros_MQZED a\<rparr>"

definition macros_MQZAC :: "abi \<Rightarrow> macros" where
  "macros_MQZAC a = cmqzc_MQZAC a"

definition struct_MQZAC :: "abi \<Rightarrow> mq_struct" where
  "struct_MQZAC a =
     \<lparr>st_members = MQZAC a,
      st_default = MQZAC_DEFAULT,
      st_lengths = [(1, ''MQZAC_LENGTH_1'')],
      st_current = ''MQZAC_CURRENT_LENGTH'',
      st_id = ''MQZAC_STRUC_ID'',
      st_version = Some ''MQZAC_VERSION_1'',
      st_macros = macros_MQZAC a\<rparr>"

definition macros_MQZAD :: "abi \<Rightarrow> macros" where
  "macros_MQZAD a = cmqzc_MQZAD a @ MQOD_values a @ cmqcfc_Group_Parameter_2 a"

definition struct_MQZAD :: "abi \<Rightarrow> mq_struct" where
  "struct_MQZAD a =
     \<lparr>st_members = MQZAD a,
      st_default = MQZAD_DEFAULT,
      st_lengths = [(1, ''MQZAD_LENGTH_1''), (2, ''MQZAD_LENGTH_2'')],
      st_current = ''MQZAD_CURRENT_LENGTH'',
      st_id = ''MQZAD_STRUC_ID'',
      st_version = Some ''MQZAD_VERSION_1'',
      st_macros = macros_MQZAD a\<rparr>"

definition macros_MQZFP :: "abi \<Rightarrow> macros" where
  "macros_MQZFP a = cmqzc_MQZFP a"

definition struct_MQZFP :: "abi \<Rightarrow> mq_struct" where
  "struct_MQZFP a =
     \<lparr>st_members = MQZFP a,
      st_default = MQZFP_DEFAULT,
      st_lengths = [(1, ''MQZFP_LENGTH_1'')],
      st_current = ''MQZFP_CURRENT_LENGTH'',
      st_id = ''MQZFP_STRUC_ID'',
      st_version = Some ''MQZFP_VERSION_1'',
      st_macros = macros_MQZFP a\<rparr>"

definition macros_MQZIC :: "abi \<Rightarrow> macros" where
  "macros_MQZIC a = cmqzc_MQZIC a @ MQMD_values_2 a"

definition struct_MQZIC :: "abi \<Rightarrow> mq_struct" where
  "struct_MQZIC a =
     \<lparr>st_members = MQZIC a,
      st_default = MQZIC_DEFAULT,
      st_lengths = [(1, ''MQZIC_LENGTH_1'')],
      st_current = ''MQZIC_CURRENT_LENGTH'',
      st_id = ''MQZIC_STRUC_ID'',
      st_version = Some ''MQZIC_VERSION_1'',
      st_macros = macros_MQZIC a\<rparr>"

definition macros_MQIEP :: "abi \<Rightarrow> macros" where
  "macros_MQIEP a = cmqec_MQIEP a"

definition struct_MQIEP :: "abi \<Rightarrow> mq_struct" where
  "struct_MQIEP a =
     \<lparr>st_members = MQIEP a,
      st_default = MQIEP_DEFAULT,
      st_lengths = [(1, ''MQIEP_LENGTH_1'')],
      st_current = ''MQIEP_CURRENT_LENGTH'',
      st_id = ''MQIEP_STRUC_ID'',
      st_version = Some ''MQIEP_VERSION_1'',
      st_macros = macros_MQIEP a\<rparr>"

definition macros_MQEPH :: "abi \<Rightarrow> macros" where
  "macros_MQEPH a = cmqcfc_MQEPH a @ MQMD_values_2 a @ cmqcfc_All a @ cmqcfc_MQCFH_1 a @ cmqcfc_MQCFH_2 a @
     cmqcfc_MQCFH_3 a @ MQCC_values a @ MQRC_values_1 a"

definition struct_MQEPH :: "abi \<Rightarrow> mq_struct" where
  "struct_MQEPH a =
     \<lparr>st_members = MQEPH a,
      st_default = MQEPH_DEFAULT,
      st_lengths = [(1, ''MQEPH_LENGTH_1'')],
      st_current = ''MQEPH_CURRENT_LENGTH'',
      st_id = ''MQEPH_STRUC_ID'',
      st_version = Some ''MQEPH_VERSION_1'',
      st_macros = macros_MQEPH a\<rparr>"

definition exit_structs :: "abi \<Rightarrow> mq_struct list" where
  "exit_structs a =
     [struct_MQCD a, struct_MQCD_CLIENT_CONN a, struct_MQACH a, struct_MQAXC a, struct_MQAXP
      a, struct_MQCXP a, struct_MQDXP a, struct_MQNXP a, struct_MQPBC a, struct_MQPSXP a,
      struct_MQSBC a, struct_MQWDR a, struct_MQWDR1 a, struct_MQWDR2 a, struct_MQWQR a,
      struct_MQWQR1 a, struct_MQWQR2 a, struct_MQWQR3 a, struct_MQWQR4 a, struct_MQWXP a,
      struct_MQWXP1 a, struct_MQWXP2 a, struct_MQWXP3 a, struct_MQWXP4 a, struct_MQXEPO a,
      struct_MQZED a, struct_MQZAC a, struct_MQZAD a, struct_MQZFP a, struct_MQZIC a,
      struct_MQIEP a, struct_MQEPH a]"

lemma MQCD_lookup:
  "map_of (macros_MQCD a) ''MQCD_LENGTH_1'' = Some (Num 984)"
  "map_of (macros_MQCD a) ''MQCD_LENGTH_2'' = Some (Num 1312)"
  "map_of (macros_MQCD a) ''MQCD_LENGTH_3'' = Some (Num 1480)"
  "map_of (macros_MQCD a) ''MQCD_LENGTH_4'' = Some (Num (by_abi a 1568 1540))"
  "map_of (macros_MQCD a) ''MQCD_LENGTH_5'' = Some (Num (by_abi a 1584 1552))"
  "map_of (macros_MQCD a) ''MQCD_LENGTH_6'' = Some (Num (by_abi a 1688 1648))"
  "map_of (macros_MQCD a) ''MQCD_LENGTH_7'' = Some (Num (by_abi a 1792 1748))"
  "map_of (macros_MQCD a) ''MQCD_LENGTH_8'' = Some (Num (by_abi a 1888 1840))"
  "map_of (macros_MQCD a) ''MQCD_LENGTH_9'' = Some (Num (by_abi a 1912 1864))"
  "map_of (macros_MQCD a) ''MQCD_LENGTH_10'' = Some (Num (by_abi a 1920 1876))"
  "map_of (macros_MQCD a) ''MQCD_LENGTH_11'' = Some (Num (by_abi a 1984 1940))"
  "map_of (macros_MQCD a) ''MQCD_LENGTH_12'' = Some (Num (by_abi a 1992 1944))"
  "map_of (macros_MQCD a) ''MQCD_CURRENT_LENGTH'' = Some (Num (by_abi a 1992 1944))"
  "map_of (macros_MQCD a) ''MQCD_VERSION_6'' = Some (Num 6)"
  "map_of (macros_MQCD a) ''MQCHT_SENDER'' = Some (Num 1)"
  "map_of (macros_MQCD a) ''MQXPT_LU62'' = Some (Num 1)"
  "map_of (macros_MQCD a) ''MQPA_DEFAULT'' = Some (Num 1)"
  "map_of (macros_MQCD a) ''MQCDC_NO_SENDER_CONVERSION'' = Some (Num 0)"
  "map_of (macros_MQCD a) ''MQMCAT_PROCESS'' = Some (Num 1)"
  "map_of (macros_MQCD a) ''MQNPMS_FAST'' = Some (Num 2)"
  "map_of (macros_MQCD a) ''MQ_EXIT_NAME_LENGTH'' = Some (Num 128)"
  "map_of (macros_MQCD a) ''MQ_EXIT_DATA_LENGTH'' = Some (Num 32)"
  "map_of (macros_MQCD a) ''MQSID_NONE_ARRAY'' = Some (Chars (replicate 40 NUL))"
  "map_of (macros_MQCD a) ''MQSCA_REQUIRED'' = Some (Num 0)"
  "map_of (macros_MQCD a) ''MQKAI_AUTO'' = Some (Num (- 1))"
  "map_of (macros_MQCD a) ''MQCOMPRESS_NONE'' = Some (Num 0)"
  "map_of (macros_MQCD a) ''MQCOMPRESS_NOT_AVAILABLE'' = Some (Num (- 1))"
  "map_of (macros_MQCD a) ''MQMON_OFF'' = Some (Num 0)"
  "map_of (macros_MQCD a) ''MQPROP_COMPATIBILITY'' = Some (Num 0)"
  "map_of (macros_MQCD a) ''MQCAFTY_PREFERRED'' = Some (Num 1)"
  "map_of (macros_MQCD a) ''MQUSEDLQ_YES'' = Some (Num 2)"
  "map_of (macros_MQCD a) ''MQRCN_NO'' = Some (Num 0)"
  "map_of (macros_MQCD a) ''MQSPL_PASSTHRU'' = Some (Num 0)"
  by (simp_all only: lookup_simps map_of_table [OF macros_MQCD_def]
    map_of_table [OF cmqxc_MQCD_1_def]
    map_of_table [OF cmqc_All_Functions_2_def]
    map_of_table [OF MQSD_values_def]
    map_of_table [OF cmqxc_MQCD_2_def]
    map_of_table [OF cmqc_QueueManager_Attributes_2_def]
    map_of_table [OF cmqc_Queue_Attributes_def]
    map_of_table [OF cmqc_Channel_Authentication_Configuration_1_def]
    cong: lookup_congs)

lemma MQCD_lengths: "lengths_ok a (struct_MQCD a)"
  by (cases a; simp only: lengths_shapes struct_MQCD_def mq_struct.simps MQCD_def
    MQCD_lookup shapes_simps; simp add: place_simps exit_type_defs)

lemma MQCD_fits: "default_fits a (struct_MQCD a)"
  by (cases a; simp only: default_fits_shapes struct_MQCD_def mq_struct.simps
    MQCD_def
    MQCD_DEFAULT_def MQCD_lookup fits_simps exit_type_defs;
    simp add: init_simps macro_value_simps MQCD_lookup)

lemma MQCD_CLIENT_CONN_lookup:
  "map_of (macros_MQCD_CLIENT_CONN a) ''MQCD_LENGTH_1'' = Some (Num 984)"
  "map_of (macros_MQCD_CLIENT_CONN a) ''MQCD_LENGTH_2'' = Some (Num 1312)"
  "map_of (macros_MQCD_CLIENT_CONN a) ''MQCD_LENGTH_3'' = Some (Num 1480)"
  "map_of (macros_MQCD_CLIENT_CONN a) ''MQCD_LENGTH_4'' = Some (Num (by_abi a 1568 1540))"
  "map_of (macros_MQCD_CLIENT_CONN a) ''MQCD_LENGTH_5'' = Some (Num (by_abi a 1584 1552))"
  "map_of (macros_MQCD_CLIENT_CONN a) ''MQCD_LENGTH_6'' = Some (Num (by_abi a 1688 1648))"
  "map_of (macros_MQCD_CLIENT_CONN a) ''MQCD_LENGTH_7'' = Some (Num (by_abi a 1792 1748))"
  "map_of (macros_MQCD_CLIENT_CONN a) ''MQCD_LENGTH_8'' = Some (Num (by_abi a 1888 1840))"
  "map_of (macros_MQCD_CLIENT_CONN a) ''MQCD_LENGTH_9'' = Some (Num (by_abi a 1912 1864))"
  "map_of (macros_MQCD_CLIENT_CONN a) ''MQCD_LENGTH_10'' = Some (Num (by_abi a 1920 1876))"
  "map_of (macros_MQCD_CLIENT_CONN a) ''MQCD_LENGTH_11'' = Some (Num (by_abi a 1984 1940))"
  "map_of (macros_MQCD_CLIENT_CONN a) ''MQCD_LENGTH_12'' = Some (Num (by_abi a 1992 1944))"
  "map_of (macros_MQCD_CLIENT_CONN a) ''MQCD_CURRENT_LENGTH'' = Some (Num (by_abi a 1992 1944))"
  "map_of (macros_MQCD_CLIENT_CONN a) ''MQCD_VERSION_6'' = Some (Num 6)"
  "map_of (macros_MQCD_CLIENT_CONN a) ''MQCHT_CLNTCONN'' = Some (Num 6)"
  "map_of (macros_MQCD_CLIENT_CONN a) ''MQXPT_TCP'' = Some (Num 2)"
  "map_of (macros_MQCD_CLIENT_CONN a) ''MQPA_DEFAULT'' = Some (Num 1)"
  "map_of (macros_MQCD_CLIENT_CONN a) ''MQCDC_NO_SENDER_CONVERSION'' = Some (Num 0)"
  "map_of (macros_MQCD_CLIENT_CONN a) ''MQMCAT_PROCESS'' = Some (Num 1)"
  "map_of (macros_MQCD_CLIENT_CONN a) ''MQNPMS_FAST'' = Some (Num 2)"
  "map_of (macros_MQCD_CLIENT_CONN a) ''MQ_EXIT_NAME_LENGTH'' = Some (Num 128)"
  "map_of (macros_MQCD_CLIENT_CONN a) ''MQ_EXIT_DATA_LENGTH'' = Some (Num 32)"
  "map_of (macros_MQCD_CLIENT_CONN a) ''MQSID_NONE_ARRAY'' = Some (Chars (replicate 40 NUL))"
  "map_of (macros_MQCD_CLIENT_CONN a) ''MQSCA_REQUIRED'' = Some (Num 0)"
  "map_of (macros_MQCD_CLIENT_CONN a) ''MQCOMPRESS_NOT_AVAILABLE'' = Some (Num (- 1))"
  "map_of (macros_MQCD_CLIENT_CONN a) ''MQMON_OFF'' = Some (Num 0)"
  "map_of (macros_MQCD_CLIENT_CONN a) ''MQPROP_COMPATIBILITY'' = Some (Num 0)"
  "map_of (macros_MQCD_CLIENT_CONN a) ''MQCAFTY_PREFERRED'' = Some (Num 1)"
  "map_of (macros_MQCD_CLIENT_CONN a) ''MQUSEDLQ_YES'' = Some (Num 2)"
  "map_of (macros_MQCD_CLIENT_CONN a) ''MQRCN_NO'' = Some (Num 0)"
  "map_of (macros_MQCD_CLIENT_CONN a) ''MQSPL_PASSTHRU'' = Some (Num 0)"
  by (simp_all only: lookup_simps map_of_table [OF macros_MQCD_CLIENT_CONN_def]
    map_of_table [OF cmqxc_MQCD_1_def]
    map_of_table [OF cmqc_All_Functions_2_def]
    map_of_table [OF MQSD_values_def]
    map_of_table [OF cmqxc_MQCD_2_def]
    map_of_table [OF cmqc_QueueManager_Attributes_2_def]
    map_of_table [OF cmqc_Queue_Attributes_def]
    map_of_table [OF cmqc_Channel_Authentication_Configuration_1_def]
    cong: lookup_congs)

lemma MQCD_CLIENT_CONN_lengths: "lengths_ok a (struct_MQCD_CLIENT_CONN a)"
  by (cases a; simp only: lengths_shapes struct_MQCD_CLIENT_CONN_def mq_struct.simps MQCD_def
    MQCD_CLIENT_CONN_lookup shapes_simps; simp add: place_simps exit_type_defs)

lemma MQCD_CLIENT_CONN_fits: "default_fits a (struct_MQCD_CLIENT_CONN a)"
  by (cases a; simp only: default_fits_shapes struct_MQCD_CLIENT_CONN_def mq_struct.simps
    MQCD_def
    MQCD_CLIENT_CONN_DEFAULT_def MQCD_CLIENT_CONN_lookup fits_simps exit_type_defs;
    simp add: init_simps macro_value_simps MQCD_CLIENT_CONN_lookup)

lemma MQACH_lookup:
  "map_of (macros_MQACH a) ''MQACH_LENGTH_1'' = Some (Num (by_abi a 72 68))"
  "map_of (macros_MQACH a) ''MQACH_CURRENT_LENGTH'' = Some (Num (by_abi a 72 68))"
  "map_of (macros_MQACH a) ''MQACH_STRUC_ID'' = Some (Str ''ACH '')"
  "map_of (macros_MQACH a) ''MQACH_VERSION_1'' = Some (Num 1)"
  "map_of (macros_MQACH a) ''MQACH_STRUC_ID_ARRAY'' = Some (Chars ''ACH '')"
  by (simp_all only: lookup_simps map_of_table [OF macros_MQACH_def]
    map_of_table [OF cmqxc_MQACH_def]
    cong: lookup_congs)

lemma MQACH_lengths: "lengths_ok a (struct_MQACH a)"
  by (cases a; simp only: lengths_shapes struct_MQACH_def mq_struct.simps MQACH_def
    MQACH_lookup shapes_simps; simp add: place_simps exit_type_defs)

lemma MQACH_fits: "default_fits a (struct_MQACH a)"
  by (cases a; simp only: default_fits_shapes struct_MQACH_def mq_struct.simps
    MQACH_def
    MQACH_DEFAULT_def MQACH_lookup fits_simps exit_type_defs;
    simp add: init_simps macro_value_simps MQACH_lookup)

lemma MQACH_opens: "default_opens a (struct_MQACH a)"
  by (simp only: default_opens_def struct_MQACH_def mq_struct.simps MQACH_def
    MQACH_DEFAULT_def MQACH_lookup header_simps exit_type_defs; simp add: int_fits_def)

lemma MQAXC_lookup:
  "map_of (macros_MQAXC a) ''MQAXC_LENGTH_1'' = Some (Num (by_abi a 392 384))"
  "map_of (macros_MQAXC a) ''MQAXC_LENGTH_2'' = Some (Num (by_abi a 424 412))"
  "map_of (macros_MQAXC a) ''MQAXC_CURRENT_LENGTH'' = Some (Num (by_abi a 424 412))"
  "map_of (macros_MQAXC a) ''MQAXC_STRUC_ID'' = Some (Str ''AXC '')"
  "map_of (macros_MQAXC a) ''MQAXC_VERSION_1'' = Some (Num 1)"
  "map_of (macros_MQAXC a) ''MQAXC_STRUC_ID_ARRAY'' = Some (Chars ''AXC '')"
  "map_of (macros_MQAXC a) ''MQXE_OTHER'' = Some (Num 0)"
  "map_of (macros_MQAXC a) ''MQSID_NONE_ARRAY'' = Some (Chars (replicate 40 NUL))"
  "map_of (macros_MQAXC a) ''MQAT_DEFAULT'' = Some (Num 6)"
  by (simp_all only: lookup_simps map_of_table [OF macros_MQAXC_def]
    map_of_table [OF cmqxc_MQAXC_def]
    map_of_table [OF MQSD_values_def]
    map_of_table [OF MQMD_values_3_def]
    cong: lookup_congs)

lemma MQAXC_lengths: "lengths_ok a (struct_MQAXC a)"
  by (cases a; simp only: lengths_shapes struct_MQAXC_def mq_struct.simps MQAXC_def
    MQAXC_lookup shapes_simps; simp add: place_simps exit_type_defs)

lemma MQAXC_fits: "default_fits a (struct_MQAXC a)"
  by (cases a; simp only: default_fits_shapes struct_MQAXC_def mq_struct.simps
    MQAXC_def
    MQAXC_DEFAULT_def MQAXC_lookup fits_simps exit_type_defs;
    simp add: init_simps macro_value_simps MQAXC_lookup)

lemma MQAXC_opens: "default_opens a (struct_MQAXC a)"
  by (simp only: default_opens_def struct_MQAXC_def mq_struct.simps MQAXC_def
    MQAXC_DEFAULT_def MQAXC_lookup header_simps exit_type_defs; simp add: int_fits_def)

lemma MQAXP_lookup:
  "map_of (macros_MQAXP a) ''MQAXP_LENGTH_1'' = Some (Num (by_abi a 256 244))"
  "map_of (macros_MQAXP a) ''MQAXP_CURRENT_LENGTH'' = Some (Num (by_abi a 256 244))"
  "map_of (macros_MQAXP a) ''MQAXP_STRUC_ID'' = Some (Str ''AXP '')"
  "map_of (macros_MQAXP a) ''MQAXP_VERSION_1'' = Some (Num 1)"
  "map_of (macros_MQAXP a) ''MQAXP_STRUC_ID_ARRAY'' = Some (Chars ''AXP '')"
  "map_of (macros_MQAXP a) ''MQXT_API_EXIT'' = Some (Num 2)"
  "map_of (macros_MQAXP a) ''MQXCC_OK'' = Some (Num 0)"
  "map_of (macros_MQAXP a) ''MQXR2_DEFAULT_CONTINUATION'' = Some (Num 0)"
  "map_of (macros_MQAXP a) ''MQFB_NONE'' = Some (Num 0)"
  "map_of (macros_MQAXP a) ''MQXACT_EXTERNAL'' = Some (Num 1)"
  "map_of (macros_MQAXP a) ''MQXUA_NONE_ARRAY'' = Some (Chars (replicate 16 NUL))"
  "map_of (macros_MQAXP a) ''MQXPDA_NONE_ARRAY'' = Some (Chars (replicate 48 NUL))"
  "map_of (macros_MQAXP a) ''MQHM_NONE'' = Some (Num 0)"
  by (simp_all only: lookup_simps map_of_table [OF macros_MQAXP_def]
    map_of_table [OF cmqxc_MQAXP_def]
    map_of_table [OF cmqxc_MQXEPO_2_def]
    map_of_table [OF cmqxc_MQCXP_def]
    map_of_table [OF MQMD_values_1_def]
    map_of_table [OF MQHM_values_def]
    cong: lookup_congs)

lemma MQAXP_lengths: "lengths_ok a (struct_MQAXP a)"
  by (cases a; simp only: lengths_shapes struct_MQAXP_def mq_struct.simps MQAXP_def
    MQAXP_lookup shapes_simps; simp add: place_simps exit_type_defs)

lemma MQAXP_fits: "default_fits a (struct_MQAXP a)"
  by (cases a; simp only: default_fits_shapes struct_MQAXP_def mq_struct.simps
    MQAXP_def
    MQAXP_DEFAULT_def MQAXP_lookup fits_simps exit_type_defs;
    simp add: init_simps macro_value_simps MQAXP_lookup)

lemma MQAXP_opens: "default_opens a (struct_MQAXP a)"
  by (simp only: default_opens_def struct_MQAXP_def mq_struct.simps MQAXP_def
    MQAXP_DEFAULT_def MQAXP_lookup header_simps exit_type_defs; simp add: int_fits_def)

lemma MQCXP_lookup:
  "map_of (macros_MQCXP a) ''MQCXP_LENGTH_3'' = Some (Num 156)"
  "map_of (macros_MQCXP a) ''MQCXP_LENGTH_4'' = Some (Num 156)"
  "map_of (macros_MQCXP a) ''MQCXP_LENGTH_5'' = Some (Num 160)"
  "map_of (macros_MQCXP a) ''MQCXP_LENGTH_6'' = Some (Num (by_abi a 200 192))"
  "map_of (macros_MQCXP a) ''MQCXP_LENGTH_7'' = Some (Num (by_abi a 208 200))"
  "map_of (macros_MQCXP a) ''MQCXP_LENGTH_8'' = Some (Num (by_abi a 224 208))"
  "map_of (macros_MQCXP a) ''MQCXP_LENGTH_9'' = Some (Num (by_abi a 240 220))"
  "map_of (macros_MQCXP a) ''MQCXP_CURRENT_LENGTH'' = Some (Num (by_abi a 240 220))"
  "map_of (macros_MQCXP a) ''MQCXP_STRUC_ID'' = Some (Str ''CXP '')"
  "map_of (macros_MQCXP a) ''MQCXP_VERSION_5'' = Some (Num 5)"
  "map_of (macros_MQCXP a) ''MQCXP_STRUC_ID_ARRAY'' = Some (Chars ''CXP '')"
  "map_of (macros_MQCXP a) ''MQXCC_OK'' = Some (Num 0)"
  "map_of (macros_MQCXP a) ''MQXR2_PUT_WITH_DEF_ACTION'' = Some (Num 0)"
  "map_of (macros_MQCXP a) ''MQXUA_NONE_ARRAY'' = Some (Chars (replicate 16 NUL))"
  "map_of (macros_MQCXP a) ''MQCF_NONE'' = Some (Num 0)"
  "map_of (macros_MQCXP a) ''MQCOMPRESS_NONE'' = Some (Num 0)"
  "map_of (macros_MQCXP a) ''MQHC_UNUSABLE_HCONN'' = Some (Num (- 1))"
  "map_of (macros_MQCXP a) ''MQUSRC_MAP'' = Some (Num 0)"
  by (simp_all only: lookup_simps map_of_table [OF macros_MQCXP_def]
    map_of_table [OF cmqxc_MQCXP_def]
    map_of_table [OF cmqxc_MQXEPO_2_def]
    map_of_table [OF cmqxc_MQCD_1_def]
    map_of_table [OF cmqc_All_Functions_1_def]
    map_of_table [OF cmqc_Channel_Authentication_Configuration_1_def]
    cong: lookup_congs)

lemma MQCXP_lengths: "lengths_ok a (struct_MQCXP a)"
  by (cases a; simp only: lengths_shapes struct_MQCXP_def mq_struct.simps MQCXP_def
    MQCXP_lookup shapes_simps; simp add: place_simps exit_type_defs)

lemma MQCXP_fits: "default_fits a (struct_MQCXP a)"
  by (cases a; simp only: default_fits_shapes struct_MQCXP_def mq_struct.simps
    MQCXP_def
    MQCXP_DEFAULT_def MQCXP_lookup fits_simps exit_type_defs;
    simp add: init_simps macro_value_simps MQCXP_lookup)

lemma MQCXP_opens: "default_opens a (struct_MQCXP a)"
  by (simp only: default_opens_def struct_MQCXP_def mq_struct.simps MQCXP_def
    MQCXP_DEFAULT_def MQCXP_lookup header_simps exit_type_defs; simp add: int_fits_def)

lemma MQDXP_lookup:
  "map_of (macros_MQDXP a) ''MQDXP_LENGTH_1'' = Some (Num 44)"
  "map_of (macros_MQDXP a) ''MQDXP_LENGTH_2'' = Some (Num (by_abi a 56 48))"
  "map_of (macros_MQDXP a) ''MQDXP_CURRENT_LENGTH'' = Some (Num (by_abi a 56 48))"
  "map_of (macros_MQDXP a) ''MQDXP_STRUC_ID'' = Some (Str ''DXP '')"
  "map_of (macros_MQDXP a) ''MQDXP_VERSION_1'' = Some (Num 1)"
  "map_of (macros_MQDXP a) ''MQDXP_STRUC_ID_ARRAY'' = Some (Chars ''DXP '')"
  "map_of (macros_MQDXP a) ''MQCC_OK'' = Some (Num 0)"
  "map_of (macros_MQDXP a) ''MQRC_NONE'' = Some (Num 0)"
  "map_of (macros_MQDXP a) ''MQXDR_CONVERSION_FAILED'' = Some (Num 1)"
  by (simp_all only: lookup_simps map_of_table [OF macros_MQDXP_def]
    map_of_table [OF cmqxc_MQDXP_def]
    map_of_table [OF MQCC_values_def]
    map_of_table [OF MQRC_values_1_def]
    cong: lookup_congs)

lemma MQDXP_lengths: "lengths_ok a (struct_MQDXP a)"
  by (cases a; simp only: lengths_shapes struct_MQDXP_def mq_struct.simps MQDXP_def
    MQDXP_lookup shapes_simps; simp add: place_simps exit_type_defs)

lemma MQDXP_fits: "default_fits a (struct_MQDXP a)"
  by (cases a; simp only: default_fits_shapes struct_MQDXP_def mq_struct.simps
    MQDXP_def
    MQDXP_DEFAULT_def MQDXP_lookup fits_simps exit_type_defs;
    simp add: init_simps macro_value_simps MQDXP_lookup)

lemma MQDXP_opens: "default_opens a (struct_MQDXP a)"
  by (simp only: default_opens_def struct_MQDXP_def mq_struct.simps MQDXP_def
    MQDXP_DEFAULT_def MQDXP_lookup header_simps exit_type_defs; simp add: int_fits_def)

lemma MQNXP_lookup:
  "map_of (macros_MQNXP a) ''MQNXP_LENGTH_1'' = Some (Num (by_abi a 64 52))"
  "map_of (macros_MQNXP a) ''MQNXP_LENGTH_2'' = Some (Num (by_abi a 72 56))"
  "map_of (macros_MQNXP a) ''MQNXP_CURRENT_LENGTH'' = Some (Num (by_abi a 72 56))"
  "map_of (macros_MQNXP a) ''MQNXP_STRUC_ID'' = Some (Str ''NXP '')"
  "map_of (macros_MQNXP a) ''MQNXP_VERSION_1'' = Some (Num 1)"
  "map_of (macros_MQNXP a) ''MQNXP_STRUC_ID_ARRAY'' = Some (Chars ''NXP '')"
  "map_of (macros_MQNXP a) ''MQXT_PRECONNECT_EXIT'' = Some (Num 23)"
  "map_of (macros_MQNXP a) ''MQXCC_OK'' = Some (Num 0)"
  "map_of (macros_MQNXP a) ''MQXR2_DEFAULT_CONTINUATION'' = Some (Num 0)"
  "map_of (macros_MQNXP a) ''MQFB_NONE'' = Some (Num 0)"
  "map_of (macros_MQNXP a) ''MQCD_CURRENT_VERSION'' = Some (Num 12)"
  by (simp_all only: lookup_simps map_of_table [OF macros_MQNXP_def]
    map_of_table [OF cmqxc_MQNXP_def]
    map_of_table [OF cmqxc_MQXEPO_2_def]
    map_of_table [OF cmqxc_MQCXP_def]
    map_of_table [OF MQMD_values_1_def]
    map_of_table [OF cmqxc_MQCD_1_def]
    cong: lookup_congs)

lemma MQNXP_lengths: "lengths_ok a (struct_MQNXP a)"
  by (cases a; simp only: lengths_shapes struct_MQNXP_def mq_struct.simps MQNXP_def
    MQNXP_lookup shapes_simps; simp add: place_simps exit_type_defs)

lemma MQNXP_fits: "default_fits a (struct_MQNXP a)"
  by (cases a; simp only: default_fits_shapes struct_MQNXP_def mq_struct.simps
    MQNXP_def
    MQNXP_DEFAULT_def MQNXP_lookup fits_simps exit_type_defs;
    simp add: init_simps macro_value_simps MQNXP_lookup)

lemma MQNXP_opens: "default_opens a (struct_MQNXP a)"
  by (simp only: default_opens_def struct_MQNXP_def mq_struct.simps MQNXP_def
    MQNXP_DEFAULT_def MQNXP_lookup header_simps exit_type_defs; simp add: int_fits_def)

lemma MQPBC_lookup:
  "map_of (macros_MQPBC a) ''MQPBC_LENGTH_1'' = Some (Num (by_abi a 32 28))"
  "map_of (macros_MQPBC a) ''MQPBC_LENGTH_2'' = Some (Num (by_abi a 40 32))"
  "map_of (macros_MQPBC a) ''MQPBC_CURRENT_LENGTH'' = Some (Num (by_abi a 40 32))"
  "map_of (macros_MQPBC a) ''MQPBC_STRUC_ID'' = Some (Str ''PBC '')"
  "map_of (macros_MQPBC a) ''MQPBC_VERSION_1'' = Some (Num 1)"
  "map_of (macros_MQPBC a) ''MQPBC_STRUC_ID_ARRAY'' = Some (Chars ''PBC '')"
  "map_of (macros_MQPBC a) ''MQCCSI_APPL'' = Some (Num (- 3))"
  by (simp_all only: lookup_simps map_of_table [OF macros_MQPBC_def]
    map_of_table [OF cmqxc_MQPBC_def]
    map_of_table [OF MQMD_values_2_def]
    cong: lookup_congs)

lemma MQPBC_lengths: "lengths_ok a (struct_MQPBC a)"
  by (cases a; simp only: lengths_shapes struct_MQPBC_def mq_struct.simps MQPBC_def
    MQPBC_lookup shapes_simps; simp add: place_simps exit_type_defs MQCHARV_def)

lemma MQPBC_fits: "default_fits a (struct_MQPBC a)"
  by (cases a; simp only: default_fits_shapes struct_MQPBC_def mq_struct.simps
    MQPBC_def MQCHARV_def
    MQPBC_DEFAULT_def MQCHARV_DEFAULT_def MQPBC_lookup fits_simps exit_type_defs;
    simp add: init_simps macro_value_simps MQPBC_lookup)

lemma MQPBC_opens: "default_opens a (struct_MQPBC a)"
  by (simp only: default_opens_def struct_MQPBC_def mq_struct.simps MQPBC_def
    MQPBC_DEFAULT_def MQPBC_lookup header_simps exit_type_defs; simp add: int_fits_def)

lemma MQPSXP_lookup:
  "map_of (macros_MQPSXP a) ''MQPSXP_LENGTH_1'' = Some (Num (by_abi a 176 156))"
  "map_of (macros_MQPSXP a) ''MQPSXP_LENGTH_2'' = Some (Num (by_abi a 184 160))"
  "map_of (macros_MQPSXP a) ''MQPSXP_CURRENT_LENGTH'' = Some (Num (by_abi a 184 160))"
  "map_of (macros_MQPSXP a) ''MQPSXP_STRUC_ID'' = Some (Str ''PSXP'')"
  "map_of (macros_MQPSXP a) ''MQPSXP_VERSION_1'' = Some (Num 1)"
  "map_of (macros_MQPSXP a) ''MQPSXP_STRUC_ID_ARRAY'' = Some (Chars ''PSXP'')"
  "map_of (macros_MQPSXP a) ''MQXT_PUBLISH_EXIT'' = Some (Num 22)"
  "map_of (macros_MQPSXP a) ''MQXCC_OK'' = Some (Num 0)"
  "map_of (macros_MQPSXP a) ''MQFB_NONE'' = Some (Num 0)"
  "map_of (macros_MQPSXP a) ''MQHC_UNUSABLE_HCONN'' = Some (Num (- 1))"
  "map_of (macros_MQPSXP a) ''MQXUA_NONE_ARRAY'' = Some (Chars (replicate 16 NUL))"
  "map_of (macros_MQPSXP a) ''MQHM_NONE'' = Some (Num 0)"
  by (simp_all only: lookup_simps map_of_table [OF macros_MQPSXP_def]
    map_of_table [OF cmqxc_MQPSXP_def]
    map_of_table [OF cmqxc_MQXEPO_2_def]
    map_of_table [OF MQMD_values_1_def]
    map_of_table [OF cmqc_All_Functions_1_def]
    map_of_table [OF MQHM_values_def]
    cong: lookup_congs)

lemma MQPSXP_lengths: "lengths_ok a (struct_MQPSXP a)"
  by (cases a; simp only: lengths_shapes struct_MQPSXP_def mq_struct.simps MQPSXP_def
    MQPSXP_lookup shapes_simps; simp add: place_simps exit_type_defs)

lemma MQPSXP_fits: "default_fits a (struct_MQPSXP a)"
  by (cases a; simp only: default_fits_shapes struct_MQPSXP_def mq_struct.simps
    MQPSXP_def
    MQPSXP_DEFAULT_def MQPSXP_lookup fits_simps exit_type_defs;
    simp add: init_simps macro_value_simps MQPSXP_lookup)

lemma MQPSXP_opens: "default_opens a (struct_MQPSXP a)"
  by (simp only: default_opens_def struct_MQPSXP_def mq_struct.simps MQPSXP_def
    MQPSXP_DEFAULT_def MQPSXP_lookup header_simps exit_type_defs; simp add: int_fits_def)

lemma MQSBC_lookup:
  "map_of (macros_MQSBC a) ''MQSBC_LENGTH_1'' = Some (Num (by_abi a 288 272))"
  "map_of (macros_MQSBC a) ''MQSBC_CURRENT_LENGTH'' = Some (Num (by_abi a 288 272))"
  "map_of (macros_MQSBC a) ''MQSBC_STRUC_ID'' = Some (Str ''SBC '')"
  "map_of (macros_MQSBC a) ''MQSBC_VERSION_1'' = Some (Num 1)"
  "map_of (macros_MQSBC a) ''MQSBC_STRUC_ID_ARRAY'' = Some (Chars ''SBC '')"
  "map_of (macros_MQSBC a) ''MQCI_NONE_ARRAY'' = Some (Chars (replicate 24 NUL))"
  "map_of (macros_MQSBC a) ''MQCCSI_APPL'' = Some (Num (- 3))"
  by (simp_all only: lookup_simps map_of_table [OF macros_MQSBC_def]
    map_of_table [OF cmqxc_MQSBC_def]
    map_of_table [OF MQMD_values_2_def]
    cong: lookup_congs)

lemma MQSBC_lengths: "lengths_ok a (struct_MQSBC a)"
  by (cases a; simp only: lengths_shapes struct_MQSBC_def mq_struct.simps MQSBC_def
    MQSBC_lookup shapes_simps; simp add: place_simps exit_type_defs MQCHARV_def)

lemma MQSBC_fits: "default_fits a (struct_MQSBC a)"
  by (cases a; simp only: default_fits_shapes struct_MQSBC_def mq_struct.simps
    MQSBC_def MQCHARV_def
    MQSBC_DEFAULT_def MQCHARV_DEFAULT_def MQSBC_lookup fits_simps exit_type_defs;
    simp add: init_simps macro_value_simps MQSBC_lookup)

lemma MQSBC_opens: "default_opens a (struct_MQSBC a)"
  by (simp only: default_opens_def struct_MQSBC_def mq_struct.simps MQSBC_def
    MQSBC_DEFAULT_def MQSBC_lookup header_simps exit_type_defs; simp add: int_fits_def)

lemma MQWDR_lookup:
  "map_of (macros_MQWDR a) ''MQWDR_LENGTH_1'' = Some (Num 124)"
  "map_of (macros_MQWDR a) ''MQWDR_LENGTH_2'' = Some (Num 136)"
  "map_of (macros_MQWDR a) ''MQWDR_CURRENT_LENGTH'' = Some (Num 136)"
  "map_of (macros_MQWDR a) ''MQWDR_STRUC_ID'' = Some (Str ''WDR '')"
  "map_of (macros_MQWDR a) ''MQWDR_VERSION_1'' = Some (Num 1)"
  "map_of (macros_MQWDR a) ''MQWDR_STRUC_ID_ARRAY'' = Some (Chars ''WDR '')"
  by (simp_all only: lookup_simps map_of_table [OF macros_MQWDR_def]
    map_of_table [OF cmqxc_MQWDR_def]
    cong: lookup_congs)

lemma MQWDR_lengths: "lengths_ok a (struct_MQWDR a)"
  by (cases a; simp only: lengths_shapes struct_MQWDR_def mq_struct.simps MQWDR_def
    MQWDR_lookup shapes_simps; simp add: place_simps exit_type_defs)

lemma MQWDR_fits: "default_fits a (struct_MQWDR a)"
  by (cases a; simp only: default_fits_shapes struct_MQWDR_def mq_struct.simps
    MQWDR_def
    MQWDR_DEFAULT_def MQWDR_lookup fits_simps exit_type_defs;
    simp add: init_simps macro_value_simps MQWDR_lookup)

lemma MQWDR_opens: "default_opens a (struct_MQWDR a)"
  by (simp only: default_opens_def struct_MQWDR_def mq_struct.simps MQWDR_def
    MQWDR_DEFAULT_def MQWDR_lookup header_simps exit_type_defs; simp add: int_fits_def)

lemma MQWDR1_lookup:
  "map_of (macros_MQWDR1 a) ''MQWDR1_LENGTH_1'' = Some (Num 124)"
  "map_of (macros_MQWDR1 a) ''MQWDR1_CURRENT_LENGTH'' = Some (Num 124)"
  "map_of (macros_MQWDR1 a) ''MQWDR_STRUC_ID'' = Some (Str ''WDR '')"
  "map_of (macros_MQWDR1 a) ''MQWDR_VERSION_1'' = Some (Num 1)"
  "map_of (macros_MQWDR1 a) ''MQWDR_STRUC_ID_ARRAY'' = Some (Chars ''WDR '')"
  "map_of (macros_MQWDR1 a) ''MQWDR_LENGTH_1'' = Some (Num 124)"
  by (simp_all only: lookup_simps map_of_table [OF macros_MQWDR1_def]
    map_of_table [OF cmqxc_MQWDR1_def]
    map_of_table [OF cmqxc_MQWDR_def]
    cong: lookup_congs)

lemma MQWDR1_lengths: "lengths_ok a (struct_MQWDR1 a)"
  by (cases a; simp only: lengths_shapes struct_MQWDR1_def mq_struct.simps MQWDR1_def
    MQWDR1_lookup shapes_simps; simp add: place_simps exit_type_defs)

lemma MQWDR1_fits: "default_fits a (struct_MQWDR1 a)"
  by (cases a; simp only: default_fits_shapes struct_MQWDR1_def mq_struct.simps
    MQWDR1_def
    MQWDR1_DEFAULT_def MQWDR1_lookup fits_simps exit_type_defs;
    simp add: init_simps macro_value_simps MQWDR1_lookup)

lemma MQWDR1_opens: "default_opens a (struct_MQWDR1 a)"
  by (simp only: default_opens_def struct_MQWDR1_def mq_struct.simps MQWDR1_def
    MQWDR1_DEFAULT_def MQWDR1_lookup header_simps exit_type_defs; simp add: int_fits_def)

lemma MQWDR2_lookup:
  "map_of (macros_MQWDR2 a) ''MQWDR2_LENGTH_1'' = Some (Num 124)"
  "map_of (macros_MQWDR2 a) ''MQWDR2_LENGTH_2'' = Some (Num 136)"
  "map_of (macros_MQWDR2 a) ''MQWDR2_CURRENT_LENGTH'' = Some (Num 136)"
  "map_of (macros_MQWDR2 a) ''MQWDR_STRUC_ID'' = Some (Str ''WDR '')"
  "map_of (macros_MQWDR2 a) ''MQWDR_VERSION_2'' = Some (Num 2)"
  "map_of (macros_MQWDR2 a) ''MQWDR_STRUC_ID_ARRAY'' = Some (Chars ''WDR '')"
  "map_of (macros_MQWDR2 a) ''MQWDR_LENGTH_2'' = Some (Num 136)"
  by (simp_all only: lookup_simps map_of_table [OF macros_MQWDR2_def]
    map_of_table [OF cmqxc_MQWDR2_def]
    map_of_table [OF cmqxc_MQWDR_def]
    cong: lookup_congs)

lemma MQWDR2_lengths: "lengths_ok a (struct_MQWDR2 a)"
  by (cases a; simp only: lengths_shapes struct_MQWDR2_def mq_struct.simps MQWDR2_def
    MQWDR2_lookup shapes_simps; simp add: place_simps exit_type_defs)

lemma MQWDR2_fits: "default_fits a (struct_MQWDR2 a)"
  by (cases a; simp only: default_fits_shapes struct_MQWDR2_def mq_struct.simps
    MQWDR2_def
    MQWDR2_DEFAULT_def MQWDR2_lookup fits_simps exit_type_defs;
    simp add: init_simps macro_value_simps MQWDR2_lookup)

lemma MQWDR2_opens: "default_opens a (struct_MQWDR2 a)"
  by (simp only: default_opens_def struct_MQWDR2_def mq_struct.simps MQWDR2_def
    MQWDR2_DEFAULT_def MQWDR2_lookup header_simps exit_type_defs; simp add: int_fits_def)

lemma MQWQR_lookup:
  "map_of (macros_MQWQR a) ''MQWQR_LENGTH_1'' = Some (Num 200)"
  "map_of (macros_MQWQR a) ''MQWQR_LENGTH_2'' = Some (Num 208)"
  "map_of (macros_MQWQR a) ''MQWQR_LENGTH_3'' = Some (Num 212)"
  "map_of (macros_MQWQR a) ''MQWQR_LENGTH_4'' = Some (Num 216)"
  "map_of (macros_MQWQR a) ''MQWQR_CURRENT_LENGTH'' = Some (Num 216)"
  "map_of (macros_MQWQR a) ''MQWQR_STRUC_ID'' = Some (Str ''WQR '')"
  "map_of (macros_MQWQR a) ''MQWQR_VERSION_1'' = Some (Num 1)"
  "map_of (macros_MQWQR a) ''MQWQR_STRUC_ID_ARRAY'' = Some (Chars ''WQR '')"
  by (simp_all only: lookup_simps map_of_table [OF macros_MQWQR_def]
    map_of_table [OF cmqxc_MQWQR_def]
    cong: lookup_congs)

lemma MQWQR_lengths: "lengths_ok a (struct_MQWQR a)"
  by (cases a; simp only: lengths_shapes struct_MQWQR_def mq_struct.simps MQWQR_def
    MQWQR_lookup shapes_simps; simp add: place_simps exit_type_defs)

lemma MQWQR_fits: "default_fits a (struct_MQWQR a)"
  by (cases a; simp only: default_fits_shapes struct_MQWQR_def mq_struct.simps
    MQWQR_def
    MQWQR_DEFAULT_def MQWQR_lookup fits_simps exit_type_defs;
    simp add: init_simps macro_value_simps MQWQR_lookup)

lemma MQWQR_opens: "default_opens a (struct_MQWQR a)"
  by (simp only: default_opens_def struct_MQWQR_def mq_struct.simps MQWQR_def
    MQWQR_DEFAULT_def MQWQR_lookup header_simps exit_type_defs; simp add: int_fits_def)

lemma MQWQR1_lookup:
  "map_of (macros_MQWQR1 a) ''MQWQR1_LENGTH_1'' = Some (Num 200)"
  "map_of (macros_MQWQR1 a) ''MQWQR1_CURRENT_LENGTH'' = Some (Num 200)"
  "map_of (macros_MQWQR1 a) ''MQWQR_STRUC_ID'' = Some (Str ''WQR '')"
  "map_of (macros_MQWQR1 a) ''MQWQR_VERSION_1'' = Some (Num 1)"
  "map_of (macros_MQWQR1 a) ''MQWQR_STRUC_ID_ARRAY'' = Some (Chars ''WQR '')"
  "map_of (macros_MQWQR1 a) ''MQWQR_LENGTH_1'' = Some (Num 200)"
  by (simp_all only: lookup_simps map_of_table [OF macros_MQWQR1_def]
    map_of_table [OF cmqxc_MQWQR1_def]
    map_of_table [OF cmqxc_MQWQR_def]
    cong: lookup_congs)

lemma MQWQR1_lengths: "lengths_ok a (struct_MQWQR1 a)"
  by (cases a; simp only: lengths_shapes struct_MQWQR1_def mq_struct.simps MQWQR1_def
    MQWQR1_lookup shapes_simps; simp add: place_simps exit_type_defs)

lemma MQWQR1_fits: "default_fits a (struct_MQWQR1 a)"
  by (cases a; simp only: default_fits_shapes struct_MQWQR1_def mq_struct.simps
    MQWQR1_def
    MQWQR1_DEFAULT_def MQWQR1_lookup fits_simps exit_type_defs;
    simp add: init_simps macro_value_simps MQWQR1_lookup)

lemma MQWQR1_opens: "default_opens a (struct_MQWQR1 a)"
  by (simp only: default_opens_def struct_MQWQR1_def mq_struct.simps MQWQR1_def
    MQWQR1_DEFAULT_def MQWQR1_lookup header_simps exit_type_defs; simp add: int_fits_def)

lemma MQWQR2_lookup:
  "map_of (macros_MQWQR2 a) ''MQWQR2_LENGTH_1'' = Some (Num 200)"
  "map_of (macros_MQWQR2 a) ''MQWQR2_LENGTH_2'' = Some (Num 208)"
  "map_of (macros_MQWQR2 a) ''MQWQR2_CURRENT_LENGTH'' = Some (Num 208)"
  "map_of (macros_MQWQR2 a) ''MQWQR_STRUC_ID'' = Some (Str ''WQR '')"
  "map_of (macros_MQWQR2 a) ''MQWQR_VERSION_2'' = Some (Num 2)"
  "map_of (macros_MQWQR2 a) ''MQWQR_STRUC_ID_ARRAY'' = Some (Chars ''WQR '')"
  "map_of (macros_MQWQR2 a) ''MQWQR_LENGTH_2'' = Some (Num 208)"
  by (simp_all only: lookup_simps map_of_table [OF macros_MQWQR2_def]
    map_of_table [OF cmqxc_MQWQR2_def]
    map_of_table [OF cmqxc_MQWQR_def]
    cong: lookup_congs)

lemma MQWQR2_lengths: "lengths_ok a (struct_MQWQR2 a)"
  by (cases a; simp only: lengths_shapes struct_MQWQR2_def mq_struct.simps MQWQR2_def
    MQWQR2_lookup shapes_simps; simp add: place_simps exit_type_defs)

lemma MQWQR2_fits: "default_fits a (struct_MQWQR2 a)"
  by (cases a; simp only: default_fits_shapes struct_MQWQR2_def mq_struct.simps
    MQWQR2_def
    MQWQR2_DEFAULT_def MQWQR2_lookup fits_simps exit_type_defs;
    simp add: init_simps macro_value_simps MQWQR2_lookup)

lemma MQWQR2_opens: "default_opens a (struct_MQWQR2 a)"
  by (simp only: default_opens_def struct_MQWQR2_def mq_struct.simps MQWQR2_def
    MQWQR2_DEFAULT_def MQWQR2_lookup header_simps exit_type_defs; simp add: int_fits_def)

lemma MQWQR3_lookup:
  "map_of (macros_MQWQR3 a) ''MQWQR3_LENGTH_1'' = Some (Num 200)"
  "map_of (macros_MQWQR3 a) ''MQWQR3_LENGTH_2'' = Some (Num 208)"
  "map_of (macros_MQWQR3 a) ''MQWQR3_LENGTH_3'' = Some (Num 212)"
  "map_of (macros_MQWQR3 a) ''MQWQR3_CURRENT_LENGTH'' = Some (Num 212)"
  "map_of (macros_MQWQR3 a) ''MQWQR_STRUC_ID'' = Some (Str ''WQR '')"
  "map_of (macros_MQWQR3 a) ''MQWQR_VERSION_3'' = Some (Num 3)"
  "map_of (macros_MQWQR3 a) ''MQWQR_STRUC_ID_ARRAY'' = Some (Chars ''WQR '')"
  "map_of (macros_MQWQR3 a) ''MQWQR_LENGTH_3'' = Some (Num 212)"
  by (simp_all only: lookup_simps map_of_table [OF macros_MQWQR3_def]
    map_of_table [OF cmqxc_MQWQR3_def]
    map_of_table [OF cmqxc_MQWQR_def]
    cong: lookup_congs)

lemma MQWQR3_lengths: "lengths_ok a (struct_MQWQR3 a)"
  by (cases a; simp only: lengths_shapes struct_MQWQR3_def mq_struct.simps MQWQR3_def
    MQWQR3_lookup shapes_simps; simp add: place_simps exit_type_defs)

lemma MQWQR3_fits: "default_fits a (struct_MQWQR3 a)"
  by (cases a; simp only: default_fits_shapes struct_MQWQR3_def mq_struct.simps
    MQWQR3_def
    MQWQR3_DEFAULT_def MQWQR3_lookup fits_simps exit_type_defs;
    simp add: init_simps macro_value_simps MQWQR3_lookup)

lemma MQWQR3_opens: "default_opens a (struct_MQWQR3 a)"
  by (simp only: default_opens_def struct_MQWQR3_def mq_struct.simps MQWQR3_def
    MQWQR3_DEFAULT_def MQWQR3_lookup header_simps exit_type_defs; simp add: int_fits_def)

lemma MQWQR4_lookup:
  "map_of (macros_MQWQR4 a) ''MQWQR4_LENGTH_1'' = Some (Num 200)"
  "map_of (macros_MQWQR4 a) ''MQWQR4_LENGTH_2'' = Some (Num 208)"
  "map_of (macros_MQWQR4 a) ''MQWQR4_LENGTH_3'' = Some (Num 212)"
  "map_of (macros_MQWQR4 a) ''MQWQR4_LENGTH_4'' = Some (Num 216)"
  "map_of (macros_MQWQR4 a) ''MQWQR4_CURRENT_LENGTH'' = Some (Num 216)"
  "map_of (macros_MQWQR4 a) ''MQWQR_STRUC_ID'' = Some (Str ''WQR '')"
  "map_of (macros_MQWQR4 a) ''MQWQR_VERSION_4'' = Some (Num 4)"
  "map_of (macros_MQWQR4 a) ''MQWQR_STRUC_ID_ARRAY'' = Some (Chars ''WQR '')"
  "map_of (macros_MQWQR4 a) ''MQWQR_LENGTH_4'' = Some (Num 216)"
  by (simp_all only: lookup_simps map_of_table [OF macros_MQWQR4_def]
    map_of_table [OF cmqxc_MQWQR4_def]
    map_of_table [OF cmqxc_MQWQR_def]
    cong: lookup_congs)

lemma MQWQR4_lengths: "lengths_ok a (struct_MQWQR4 a)"
  by (cases a; simp only: lengths_shapes struct_MQWQR4_def mq_struct.simps MQWQR4_def
    MQWQR4_lookup shapes_simps; simp add: place_simps exit_type_defs)

lemma MQWQR4_fits: "default_fits a (struct_MQWQR4 a)"
  by (cases a; simp only: default_fits_shapes struct_MQWQR4_def mq_struct.simps
    MQWQR4_def
    MQWQR4_DEFAULT_def MQWQR4_lookup fits_simps exit_type_defs;
    simp add: init_simps macro_value_simps MQWQR4_lookup)

lemma MQWQR4_opens: "default_opens a (struct_MQWQR4 a)"
  by (simp only: default_opens_def struct_MQWQR4_def mq_struct.simps MQWQR4_def
    MQWQR4_DEFAULT_def MQWQR4_lookup header_simps exit_type_defs; simp add: int_fits_def)

lemma MQWXP_lookup:
  "map_of (macros_MQWXP a) ''MQWXP_LENGTH_1'' = Some (Num (by_abi a 224 208))"
  "map_of (macros_MQWXP a) ''MQWXP_LENGTH_2'' = Some (Num (by_abi a 240 216))"
  "map_of (macros_MQWXP a) ''MQWXP_LENGTH_3'' = Some (Num (by_abi a 240 220))"
  "map_of (macros_MQWXP a) ''MQWXP_LENGTH_4'' = Some (Num (by_abi a 248 224))"
  "map_of (macros_MQWXP a) ''MQWXP_CURRENT_LENGTH'' = Some (Num (by_abi a 248 224))"
  "map_of (macros_MQWXP a) ''MQWXP_STRUC_ID'' = Some (Str ''WXP '')"
  "map_of (macros_MQWXP a) ''MQWXP_VERSION_2'' = Some (Num 2)"
  "map_of (macros_MQWXP a) ''MQWXP_STRUC_ID_ARRAY'' = Some (Chars ''WXP '')"
  "map_of (macros_MQWXP a) ''MQXCC_OK'' = Some (Num 0)"
  "map_of (macros_MQWXP a) ''MQXUA_NONE_ARRAY'' = Some (Chars (replicate 16 NUL))"
  "map_of (macros_MQWXP a) ''MQCLCT_DYNAMIC'' = Some (Num 1)"
  by (simp_all only: lookup_simps map_of_table [OF macros_MQWXP_def]
    map_of_table [OF cmqxc_MQWXP_def]
    map_of_table [OF cmqxc_MQXEPO_2_def]
    cong: lookup_congs)

lemma MQWXP_lengths: "lengths_ok a (struct_MQWXP a)"
  by (cases a; simp only: lengths_shapes struct_MQWXP_def mq_struct.simps MQWXP_def
    MQWXP_lookup shapes_simps; simp add: place_simps exit_type_defs)

lemma MQWXP_fits: "default_fits a (struct_MQWXP a)"
  by (cases a; simp only: default_fits_shapes struct_MQWXP_def mq_struct.simps
    MQWXP_def
    MQWXP_DEFAULT_def MQWXP_lookup fits_simps exit_type_defs;
    simp add: init_simps macro_value_simps MQWXP_lookup)

lemma MQWXP_opens: "default_opens a (struct_MQWXP a)"
  by (simp only: default_opens_def struct_MQWXP_def mq_struct.simps MQWXP_def
    MQWXP_DEFAULT_def MQWXP_lookup header_simps exit_type_defs; simp add: int_fits_def)

lemma MQWXP1_lookup:
  "map_of (macros_MQWXP1 a) ''MQWXP1_LENGTH_1'' = Some (Num (by_abi a 224 208))"
  "map_of (macros_MQWXP1 a) ''MQWXP1_CURRENT_LENGTH'' = Some (Num (by_abi a 224 208))"
  "map_of (macros_MQWXP1 a) ''MQWXP_STRUC_ID'' = Some (Str ''WXP '')"
  "map_of (macros_MQWXP1 a) ''MQWXP_VERSION_1'' = Some (Num 1)"
  "map_of (macros_MQWXP1 a) ''MQWXP_STRUC_ID_ARRAY'' = Some (Chars ''WXP '')"
  "map_of (macros_MQWXP1 a) ''MQXCC_OK'' = Some (Num 0)"
  "map_of (macros_MQWXP1 a) ''MQXUA_NONE_ARRAY'' = Some (Chars (replicate 16 NUL))"
  by (simp_all only: lookup_simps map_of_table [OF macros_MQWXP1_def]
    map_of_table [OF cmqxc_MQWXP1_def]
    map_of_table [OF cmqxc_MQWXP_def]
    map_of_table [OF cmqxc_MQXEPO_2_def]
    cong: lookup_congs)

lemma MQWXP1_lengths: "lengths_ok a (struct_MQWXP1 a)"
  by (cases a; simp only: lengths_shapes struct_MQWXP1_def mq_struct.simps MQWXP1_def
    MQWXP1_lookup shapes_simps; simp add: place_simps exit_type_defs)

lemma MQWXP1_fits: "default_fits a (struct_MQWXP1 a)"
  by (cases a; simp only: default_fits_shapes struct_MQWXP1_def mq_struct.simps
    MQWXP1_def
    MQWXP1_DEFAULT_def MQWXP1_lookup fits_simps exit_type_defs;
    simp add: init_simps macro_value_simps MQWXP1_lookup)

lemma MQWXP1_opens: "default_opens a (struct_MQWXP1 a)"
  by (simp only: default_opens_def struct_MQWXP1_def mq_struct.simps MQWXP1_def
    MQWXP1_DEFAULT_def MQWXP1_lookup header_simps exit_type_defs; simp add: int_fits_def)

lemma MQWXP2_lookup:
  "map_of (macros_MQWXP2 a) ''MQWXP2_LENGTH_1'' = Some (Num (by_abi a 224 208))"
  "map_of (macros_MQWXP2 a) ''MQWXP2_LENGTH_2'' = Some (Num (by_abi a 240 216))"
  "map_of (macros_MQWXP2 a) ''MQWXP2_CURRENT_LENGTH'' = Some (Num (by_abi a 240 216))"
  "map_of (macros_MQWXP2 a) ''MQWXP_STRUC_ID'' = Some (Str ''WXP '')"
  "map_of (macros_MQWXP2 a) ''MQWXP_VERSION_2'' = Some (Num 2)"
  "map_of (macros_MQWXP2 a) ''MQWXP_STRUC_ID_ARRAY'' = Some (Chars ''WXP '')"
  "map_of (macros_MQWXP2 a) ''MQXCC_OK'' = Some (Num 0)"
  "map_of (macros_MQWXP2 a) ''MQXUA_NONE_ARRAY'' = Some (Chars (replicate 16 NUL))"
  "map_of (macros_MQWXP2 a) ''MQCLCT_DYNAMIC'' = Some (Num 1)"
  by (simp_all only: lookup_simps map_of_table [OF macros_MQWXP2_def]
    map_of_table [OF cmqxc_MQWXP2_def]
    map_of_table [OF cmqxc_MQWXP_def]
    map_of_table [OF cmqxc_MQXEPO_2_def]
    cong: lookup_congs)

lemma MQWXP2_lengths: "lengths_ok a (struct_MQWXP2 a)"
  by (cases a; simp only: lengths_shapes struct_MQWXP2_def mq_struct.simps MQWXP2_def
    MQWXP2_lookup shapes_simps; simp add: place_simps exit_type_defs)

lemma MQWXP2_fits: "default_fits a (struct_MQWXP2 a)"
  by (cases a; simp only: default_fits_shapes struct_MQWXP2_def mq_struct.simps
    MQWXP2_def
    MQWXP2_DEFAULT_def MQWXP2_lookup fits_simps exit_type_defs;
    simp add: init_simps macro_value_simps MQWXP2_lookup)

lemma MQWXP2_opens: "default_opens a (struct_MQWXP2 a)"
  by (simp only: default_opens_def struct_MQWXP2_def mq_struct.simps MQWXP2_def
    MQWXP2_DEFAULT_def MQWXP2_lookup header_simps exit_type_defs; simp add: int_fits_def)

lemma MQWXP3_lookup:
  "map_of (macros_MQWXP3 a) ''MQWXP3_LENGTH_1'' = Some (Num (by_abi a 224 208))"
  "map_of (macros_MQWXP3 a) ''MQWXP3_LENGTH_2'' = Some (Num (by_abi a 240 216))"
  "map_of (macros_MQWXP3 a) ''MQWXP3_LENGTH_3'' = Some (Num (by_abi a 240 220))"
  "map_of (macros_MQWXP3 a) ''MQWXP3_CURRENT_LENGTH'' = Some (Num (by_abi a 240 220))"
  "map_of (macros_MQWXP3 a) ''MQWXP_STRUC_ID'' = Some (Str ''WXP '')"
  "map_of (macros_MQWXP3 a) ''MQWXP_VERSION_3'' = Some (Num 3)"
  "map_of (macros_MQWXP3 a) ''MQWXP_STRUC_ID_ARRAY'' = Some (Chars ''WXP '')"
  "map_of (macros_MQWXP3 a) ''MQXCC_OK'' = Some (Num 0)"
  "map_of (macros_MQWXP3 a) ''MQXUA_NONE_ARRAY'' = Some (Chars (replicate 16 NUL))"
  "map_of (macros_MQWXP3 a) ''MQCLCT_DYNAMIC'' = Some (Num 1)"
  by (simp_all only: lookup_simps map_of_table [OF macros_MQWXP3_def]
    map_of_table [OF cmqxc_MQWXP3_def]
    map_of_table [OF cmqxc_MQWXP_def]
    map_of_table [OF cmqxc_MQXEPO_2_def]
    cong: lookup_congs)

lemma MQWXP3_lengths: "lengths_ok a (struct_MQWXP3 a)"
  by (cases a; simp only: lengths_shapes struct_MQWXP3_def mq_struct.simps MQWXP3_def
    MQWXP3_lookup shapes_simps; simp add: place_simps exit_type_defs)

lemma MQWXP3_fits: "default_fits a (struct_MQWXP3 a)"
  by (cases a; simp only: default_fits_shapes struct_MQWXP3_def mq_struct.simps
    MQWXP3_def
    MQWXP3_DEFAULT_def MQWXP3_lookup fits_simps exit_type_defs;
    simp add: init_simps macro_value_simps MQWXP3_lookup)

lemma MQWXP3_opens: "default_opens a (struct_MQWXP3 a)"
  by (simp only: default_opens_def struct_MQWXP3_def mq_struct.simps MQWXP3_def
    MQWXP3_DEFAULT_def MQWXP3_lookup header_simps exit_type_defs; simp add: int_fits_def)

lemma MQWXP4_lookup:
  "map_of (macros_MQWXP4 a) ''MQWXP4_LENGTH_1'' = Some (Num (by_abi a 224 208))"
  "map_of (macros_MQWXP4 a) ''MQWXP4_LENGTH_2'' = Some (Num (by_abi a 240 216))"
  "map_of (macros_MQWXP4 a) ''MQWXP4_LENGTH_3'' = Some (Num (by_abi a 240 220))"
  "map_of (macros_MQWXP4 a) ''MQWXP4_LENGTH_4'' = Some (Num (by_abi a 248 224))"
  "map_of (macros_MQWXP4 a) ''MQWXP4_CURRENT_LENGTH'' = Some (Num (by_abi a 248 224))"
  "map_of (macros_MQWXP4 a) ''MQWXP_STRUC_ID'' = Some (Str ''WXP '')"
  "map_of (macros_MQWXP4 a) ''MQWXP_VERSION_4'' = Some (Num 4)"
  "map_of (macros_MQWXP4 a) ''MQWXP_STRUC_ID_ARRAY'' = Some (Chars ''WXP '')"
  "map_of (macros_MQWXP4 a) ''MQXCC_OK'' = Some (Num 0)"
  "map_of (macros_MQWXP4 a) ''MQXUA_NONE_ARRAY'' = Some (Chars (replicate 16 NUL))"
  "map_of (macros_MQWXP4 a) ''MQCLCT_DYNAMIC'' = Some (Num 1)"
  by (simp_all only: lookup_simps map_of_table [OF macros_MQWXP4_def]
    map_of_table [OF cmqxc_MQWXP4_def]
    map_of_table [OF cmqxc_MQWXP_def]
    map_of_table [OF cmqxc_MQXEPO_2_def]
    cong: lookup_congs)

lemma MQWXP4_lengths: "lengths_ok a (struct_MQWXP4 a)"
  by (cases a; simp only: lengths_shapes struct_MQWXP4_def mq_struct.simps MQWXP4_def
    MQWXP4_lookup shapes_simps; simp add: place_simps exit_type_defs)

lemma MQWXP4_fits: "default_fits a (struct_MQWXP4 a)"
  by (cases a; simp only: default_fits_shapes struct_MQWXP4_def mq_struct.simps
    MQWXP4_def
    MQWXP4_DEFAULT_def MQWXP4_lookup fits_simps exit_type_defs;
    simp add: init_simps macro_value_simps MQWXP4_lookup)

lemma MQWXP4_opens: "default_opens a (struct_MQWXP4 a)"
  by (simp only: default_opens_def struct_MQWXP4_def mq_struct.simps MQWXP4_def
    MQWXP4_DEFAULT_def MQWXP4_lookup header_simps exit_type_defs; simp add: int_fits_def)

lemma MQXEPO_lookup:
  "map_of (macros_MQXEPO a) ''MQXEPO_LENGTH_1'' = Some (Num (by_abi a 40 32))"
  "map_of (macros_MQXEPO a) ''MQXEPO_CURRENT_LENGTH'' = Some (Num (by_abi a 40 32))"
  "map_of (macros_MQXEPO a) ''MQXEPO_STRUC_ID'' = Some (Str ''XEPO'')"
  "map_of (macros_MQXEPO a) ''MQXEPO_VERSION_1'' = Some (Num 1)"
  "map_of (macros_MQXEPO a) ''MQXEPO_STRUC_ID_ARRAY'' = Some (Chars ''XEPO'')"
  "map_of (macros_MQXEPO a) ''MQXEPO_NONE'' = Some (Num 0)"
  "map_of (macros_MQXEPO a) ''MQCCSI_APPL'' = Some (Num (- 3))"
  by (simp_all only: lookup_simps map_of_table [OF macros_MQXEPO_def]
    map_of_table [OF cmqxc_MQXEPO_1_def]
    map_of_table [OF MQMD_values_2_def]
    cong: lookup_congs)

lemma MQXEPO_lengths: "lengths_ok a (struct_MQXEPO a)"
  by (cases a; simp only: lengths_shapes struct_MQXEPO_def mq_struct.simps MQXEPO_def
    MQXEPO_lookup shapes_simps; simp add: place_simps exit_type_defs MQCHARV_def)

lemma MQXEPO_fits: "default_fits a (struct_MQXEPO a)"
  by (cases a; simp only: default_fits_shapes struct_MQXEPO_def mq_struct.simps
    MQXEPO_def MQCHARV_def
    MQXEPO_DEFAULT_def MQXEPO_lookup fits_simps exit_type_defs;
    simp add: init_simps macro_value_simps MQXEPO_lookup)

lemma MQXEPO_opens: "default_opens a (struct_MQXEPO a)"
  by (simp only: default_opens_def struct_MQXEPO_def mq_struct.simps MQXEPO_def
    MQXEPO_DEFAULT_def MQXEPO_lookup header_simps exit_type_defs; simp add: int_fits_def)

lemma MQZED_lookup:
  "map_of (macros_MQZED a) ''MQZED_LENGTH_1'' = Some (Num (by_abi a 64 56))"
  "map_of (macros_MQZED a) ''MQZED_LENGTH_2'' = Some (Num (by_abi a 72 60))"
  "map_of (macros_MQZED a) ''MQZED_CURRENT_LENGTH'' = Some (Num (by_abi a 72 60))"
  "map_of (macros_MQZED a) ''MQZED_STRUC_ID'' = Some (Str ''ZED '')"
  "map_of (macros_MQZED a) ''MQZED_VERSION_1'' = Some (Num 1)"
  "map_of (macros_MQZED a) ''MQZED_STRUC_ID_ARRAY'' = Some (Chars ''ZED '')"
  "map_of (macros_MQZED a) ''MQSID_NONE_ARRAY'' = Some (Chars (replicate 40 NUL))"
  by (simp_all only: lookup_simps map_of_table [OF macros_MQZED_def]
    map_of_table [OF cmqzc_MQZED_def]
    map_of_table [OF MQSD_values_def]
    cong: lookup_congs)

lemma MQZED_lengths: "lengths_ok a (struct_MQZED a)"
  by (cases a; simp only: lengths_shapes struct_MQZED_def mq_struct.simps MQZED_def
    MQZED_lookup shapes_simps; simp add: place_simps exit_type_defs)

lemma MQZED_fits: "default_fits a (struct_MQZED a)"
  by (cases a; simp only: default_fits_shapes struct_MQZED_def mq_struct.simps
    MQZED_def
    MQZED_DEFAULT_def MQZED_lookup fits_simps exit_type_defs;
    simp add: init_simps macro_value_simps MQZED_lookup)

lemma MQZED_opens: "default_opens a (struct_MQZED a)"
  by (simp only: default_opens_def struct_MQZED_def mq_struct.simps MQZED_def
    MQZED_DEFAULT_def MQZED_lookup header_simps exit_type_defs; simp add: int_fits_def)

lemma MQZAC_lookup:
  "map_of (macros_MQZAC a) ''MQZAC_LENGTH_1'' = Some (Num 84)"
  "map_of (macros_MQZAC a) ''MQZAC_CURRENT_LENGTH'' = Some (Num 84)"
  "map_of (macros_MQZAC a) ''MQZAC_STRUC_ID'' = Some (Str ''ZAC '')"
  "map_of (macros_MQZAC a) ''MQZAC_VERSION_1'' = Some (Num 1)"
  "map_of (macros_MQZAC a) ''MQZAC_STRUC_ID_ARRAY'' = Some (Chars ''ZAC '')"
  by (simp_all only: lookup_simps map_of_table [OF macros_MQZAC_def]
    map_of_table [OF cmqzc_MQZAC_def]
    cong: lookup_congs)

lemma MQZAC_lengths: "lengths_ok a (struct_MQZAC a)"
  by (cases a; simp only: lengths_shapes struct_MQZAC_def mq_struct.simps MQZAC_def
    MQZAC_lookup shapes_simps; simp add: place_simps exit_type_defs)

lemma MQZAC_fits: "default_fits a (struct_MQZAC a)"
  by (cases a; simp only: default_fits_shapes struct_MQZAC_def mq_struct.simps
    MQZAC_def
    MQZAC_DEFAULT_def MQZAC_lookup fits_simps exit_type_defs;
    simp add: init_simps macro_value_simps MQZAC_lookup)

lemma MQZAC_opens: "default_opens a (struct_MQZAC a)"
  by (simp only: default_opens_def struct_MQZAC_def mq_struct.simps MQZAC_def
    MQZAC_DEFAULT_def MQZAC_lookup header_simps exit_type_defs; simp add: int_fits_def)

lemma MQZAD_lookup:
  "map_of (macros_MQZAD a) ''MQZAD_LENGTH_1'' = Some (Num (by_abi a 80 72))"
  "map_of (macros_MQZAD a) ''MQZAD_LENGTH_2'' = Some (Num (by_abi a 80 76))"
  "map_of (macros_MQZAD a) ''MQZAD_CURRENT_LENGTH'' = Some (Num (by_abi a 80 76))"
  "map_of (macros_MQZAD a) ''MQZAD_STRUC_ID'' = Some (Str ''ZAD '')"
  "map_of (macros_MQZAD a) ''MQZAD_VERSION_1'' = Some (Num 1)"
  "map_of (macros_MQZAD a) ''MQZAD_STRUC_ID_ARRAY'' = Some (Chars ''ZAD '')"
  "map_of (macros_MQZAD a) ''MQOT_ALL'' = Some (Num 1001)"
  "map_of (macros_MQZAD a) ''MQAUTHOPT_NAME_ALL_MATCHING'' = Some (Num 32)"
  "map_of (macros_MQZAD a) ''MQAUTHOPT_ENTITY_EXPLICIT'' = Some (Num 1)"
  by (simp_all only: lookup_simps map_of_table [OF macros_MQZAD_def]
    map_of_table [OF cmqzc_MQZAD_def]
    map_of_table [OF MQOD_values_def]
    map_of_table [OF cmqcfc_Group_Parameter_2_def]
    cong: lookup_congs)

lemma MQZAD_lengths: "lengths_ok a (struct_MQZAD a)"
  by (cases a; simp only: lengths_shapes struct_MQZAD_def mq_struct.simps MQZAD_def
    MQZAD_lookup shapes_simps; simp add: place_simps exit_type_defs)

lemma MQZAD_fits: "default_fits a (struct_MQZAD a)"
  by (cases a; simp only: default_fits_shapes struct_MQZAD_def mq_struct.simps
    MQZAD_def
    MQZAD_DEFAULT_def MQZAD_lookup fits_simps exit_type_defs;
    simp add: init_simps macro_value_simps MQZAD_lookup)

lemma MQZAD_opens: "default_opens a (struct_MQZAD a)"
  by (simp only: default_opens_def struct_MQZAD_def mq_struct.simps MQZAD_def
    MQZAD_DEFAULT_def MQZAD_lookup header_simps exit_type_defs; simp add: int_fits_def)

lemma MQZFP_lookup:
  "map_of (macros_MQZFP a) ''MQZFP_LENGTH_1'' = Some (Num (by_abi a 24 20))"
  "map_of (macros_MQZFP a) ''MQZFP_CURRENT_LENGTH'' = Some (Num (by_abi a 24 20))"
  "map_of (macros_MQZFP a) ''MQZFP_STRUC_ID'' = Some (Str ''ZFP '')"
  "map_of (macros_MQZFP a) ''MQZFP_VERSION_1'' = Some (Num 1)"
  "map_of (macros_MQZFP a) ''MQZFP_STRUC_ID_ARRAY'' = Some (Chars ''ZFP '')"
  by (simp_all only: lookup_simps map_of_table [OF macros_MQZFP_def]
    map_of_table [OF cmqzc_MQZFP_def]
    cong: lookup_congs)

lemma MQZFP_lengths: "lengths_ok a (struct_MQZFP a)"
  by (cases a; simp only: lengths_shapes struct_MQZFP_def mq_struct.simps MQZFP_def
    MQZFP_lookup shapes_simps; simp add: place_simps exit_type_defs)

lemma MQZFP_fits: "default_fits a (struct_MQZFP a)"
  by (cases a; simp only: default_fits_shapes struct_MQZFP_def mq_struct.simps
    MQZFP_def
    MQZFP_DEFAULT_def MQZFP_lookup fits_simps exit_type_defs;
    simp add: init_simps macro_value_simps MQZFP_lookup)

lemma MQZFP_opens: "default_opens a (struct_MQZFP a)"
  by (simp only: default_opens_def struct_MQZFP_def mq_struct.simps MQZFP_def
    MQZFP_DEFAULT_def MQZFP_lookup header_simps exit_type_defs; simp add: int_fits_def)

lemma MQZIC_lookup:
  "map_of (macros_MQZIC a) ''MQZIC_LENGTH_1'' = Some (Num 84)"
  "map_of (macros_MQZIC a) ''MQZIC_CURRENT_LENGTH'' = Some (Num 84)"
  "map_of (macros_MQZIC a) ''MQZIC_STRUC_ID'' = Some (Str ''ZIC '')"
  "map_of (macros_MQZIC a) ''MQZIC_VERSION_1'' = Some (Num 1)"
  "map_of (macros_MQZIC a) ''MQZIC_STRUC_ID_ARRAY'' = Some (Chars ''ZIC '')"
  "map_of (macros_MQZIC a) ''MQACT_NONE_ARRAY'' = Some (Chars (replicate 32 NUL))"
  by (simp_all only: lookup_simps map_of_table [OF macros_MQZIC_def]
    map_of_table [OF cmqzc_MQZIC_def]
    map_of_table [OF MQMD_values_2_def]
    cong: lookup_congs)

lemma MQZIC_lengths: "lengths_ok a (struct_MQZIC a)"
  by (cases a; simp only: lengths_shapes struct_MQZIC_def mq_struct.simps MQZIC_def
    MQZIC_lookup shapes_simps; simp add: place_simps exit_type_defs)

lemma MQZIC_fits: "default_fits a (struct_MQZIC a)"
  by (cases a; simp only: default_fits_shapes struct_MQZIC_def mq_struct.simps
    MQZIC_def
    MQZIC_DEFAULT_def MQZIC_lookup fits_simps exit_type_defs;
    simp add: init_simps macro_value_simps MQZIC_lookup)

lemma MQZIC_opens: "default_opens a (struct_MQZIC a)"
  by (simp only: default_opens_def struct_MQZIC_def mq_struct.simps MQZIC_def
    MQZIC_DEFAULT_def MQZIC_lookup header_simps exit_type_defs; simp add: int_fits_def)

lemma MQIEP_lookup:
  "map_of (macros_MQIEP a) ''MQIEP_LENGTH_1'' = Some (Num (by_abi a 264 140))"
  "map_of (macros_MQIEP a) ''MQIEP_CURRENT_LENGTH'' = Some (Num (by_abi a 264 140))"
  "map_of (macros_MQIEP a) ''MQIEP_STRUC_ID'' = Some (Str ''IEP '')"
  "map_of (macros_MQIEP a) ''MQIEP_VERSION_1'' = Some (Num 1)"
  "map_of (macros_MQIEP a) ''MQIEP_STRUC_ID_ARRAY'' = Some (Chars ''IEP '')"
  "map_of (macros_MQIEP a) ''MQIEPF_NONE'' = Some (Num 0)"
  by (simp_all only: lookup_simps map_of_table [OF macros_MQIEP_def]
    map_of_table [OF cmqec_MQIEP_def]
    cong: lookup_congs)

lemma MQIEP_lengths: "lengths_ok a (struct_MQIEP a)"
  by (cases a; simp only: lengths_shapes struct_MQIEP_def mq_struct.simps MQIEP_def
    MQIEP_lookup shapes_simps; simp add: place_simps exit_type_defs)

lemma MQIEP_fits: "default_fits a (struct_MQIEP a)"
  by (cases a; simp only: default_fits_shapes struct_MQIEP_def mq_struct.simps
    MQIEP_def
    MQIEP_DEFAULT_def MQIEP_lookup fits_simps exit_type_defs;
    simp add: init_simps macro_value_simps MQIEP_lookup)

lemma MQIEP_opens: "default_opens a (struct_MQIEP a)"
  by (simp only: default_opens_def struct_MQIEP_def mq_struct.simps MQIEP_def
    MQIEP_DEFAULT_def MQIEP_lookup header_simps exit_type_defs; simp add: int_fits_def)

lemma MQEPH_lookup:
  "map_of (macros_MQEPH a) ''MQEPH_LENGTH_1'' = Some (Num 68)"
  "map_of (macros_MQEPH a) ''MQEPH_CURRENT_LENGTH'' = Some (Num 68)"
  "map_of (macros_MQEPH a) ''MQEPH_STRUC_ID'' = Some (Str ''EPH '')"
  "map_of (macros_MQEPH a) ''MQEPH_VERSION_1'' = Some (Num 1)"
  "map_of (macros_MQEPH a) ''MQEPH_STRUC_ID_ARRAY'' = Some (Chars ''EPH '')"
  "map_of (macros_MQEPH a) ''MQEPH_STRUC_LENGTH_FIXED'' = Some (Num 68)"
  "map_of (macros_MQEPH a) ''MQCCSI_UNDEFINED'' = Some (Num 0)"
  "map_of (macros_MQEPH a) ''MQFMT_NONE_ARRAY'' = Some (Chars ''        '')"
  "map_of (macros_MQEPH a) ''MQEPH_NONE'' = Some (Num 0)"
  "map_of (macros_MQEPH a) ''MQCFT_COMMAND'' = Some (Num 1)"
  "map_of (macros_MQEPH a) ''MQCFH_STRUC_LENGTH'' = Some (Num 36)"
  "map_of (macros_MQEPH a) ''MQCFH_VERSION_3'' = Some (Num 3)"
  "map_of (macros_MQEPH a) ''MQCMD_NONE'' = Some (Num 0)"
  "map_of (macros_MQEPH a) ''MQCFC_LAST'' = Some (Num 1)"
  "map_of (macros_MQEPH a) ''MQCC_OK'' = Some (Num 0)"
  "map_of (macros_MQEPH a) ''MQRC_NONE'' = Some (Num 0)"
  by (simp_all only: lookup_simps map_of_table [OF macros_MQEPH_def]
    map_of_table [OF cmqcfc_MQEPH_def]
    map_of_table [OF MQMD_values_2_def]
    map_of_table [OF cmqcfc_All_def]
    map_of_table [OF cmqcfc_MQCFH_1_def]
    map_of_table [OF cmqcfc_MQCFH_2_def]
    map_of_table [OF cmqcfc_MQCFH_3_def]
    map_of_table [OF MQCC_values_def]
    map_of_table [OF MQRC_values_1_def]
    cong: lookup_congs)

lemma MQEPH_lengths: "lengths_ok a (struct_MQEPH a)"
  by (cases a; simp only: lengths_shapes struct_MQEPH_def mq_struct.simps MQEPH_def
    MQEPH_lookup shapes_simps; simp add: place_simps exit_type_defs MQCFH_def)

lemma MQEPH_fits: "default_fits a (struct_MQEPH a)"
  by (cases a; simp only: default_fits_shapes struct_MQEPH_def mq_struct.simps
    MQEPH_def MQCFH_def
    MQEPH_DEFAULT_def MQEPH_lookup fits_simps exit_type_defs;
    simp add: init_simps macro_value_simps MQEPH_lookup)

lemma MQEPH_opens: "default_opens a (struct_MQEPH a)"
  by (simp only: default_opens_def struct_MQEPH_def mq_struct.simps MQEPH_def
    MQEPH_DEFAULT_def MQEPH_lookup header_simps exit_type_defs; simp add: int_fits_def)

lemmas exit_lengths =
  MQCD_lengths MQCD_CLIENT_CONN_lengths MQACH_lengths MQAXC_lengths MQAXP_lengths
  MQCXP_lengths MQDXP_lengths MQNXP_lengths MQPBC_lengths MQPSXP_lengths MQSBC_lengths
  MQWDR_lengths MQWDR1_lengths MQWDR2_lengths MQWQR_lengths MQWQR1_lengths MQWQR2_lengths
  MQWQR3_lengths MQWQR4_lengths MQWXP_lengths MQWXP1_lengths MQWXP2_lengths MQWXP3_lengths
  MQWXP4_lengths MQXEPO_lengths MQZED_lengths MQZAC_lengths MQZAD_lengths MQZFP_lengths
  MQZIC_lengths MQIEP_lengths MQEPH_lengths

lemmas exit_fits =
  MQCD_fits MQCD_CLIENT_CONN_fits MQACH_fits MQAXC_fits MQAXP_fits MQCXP_fits MQDXP_fits
  MQNXP_fits MQPBC_fits MQPSXP_fits MQSBC_fits MQWDR_fits MQWDR1_fits MQWDR2_fits MQWQR_fits
  MQWQR1_fits MQWQR2_fits MQWQR3_fits MQWQR4_fits MQWXP_fits MQWXP1_fits MQWXP2_fits
  MQWXP3_fits MQWXP4_fits MQXEPO_fits MQZED_fits MQZAC_fits MQZAD_fits MQZFP_fits MQZIC_fits
  MQIEP_fits MQEPH_fits

lemmas exit_opens =
  MQACH_opens MQAXC_opens MQAXP_opens MQCXP_opens MQDXP_opens MQNXP_opens MQPBC_opens
  MQPSXP_opens MQSBC_opens MQWDR_opens MQWDR1_opens MQWDR2_opens MQWQR_opens MQWQR1_opens
  MQWQR2_opens MQWQR3_opens MQWQR4_opens MQWXP_opens MQWXP1_opens MQWXP2_opens MQWXP3_opens
  MQWXP4_opens MQXEPO_opens MQZED_opens MQZAC_opens MQZAD_opens MQZFP_opens MQZIC_opens
  MQIEP_opens MQEPH_opens

lemmas exit_record_defs =
  struct_MQCD_def struct_MQCD_CLIENT_CONN_def struct_MQACH_def struct_MQAXC_def
  struct_MQAXP_def struct_MQCXP_def struct_MQDXP_def struct_MQNXP_def struct_MQPBC_def
  struct_MQPSXP_def struct_MQSBC_def struct_MQWDR_def struct_MQWDR1_def struct_MQWDR2_def
  struct_MQWQR_def struct_MQWQR1_def struct_MQWQR2_def struct_MQWQR3_def struct_MQWQR4_def
  struct_MQWXP_def struct_MQWXP1_def struct_MQWXP2_def struct_MQWXP3_def struct_MQWXP4_def
  struct_MQXEPO_def struct_MQZED_def struct_MQZAC_def struct_MQZAD_def struct_MQZFP_def
  struct_MQZIC_def struct_MQIEP_def struct_MQEPH_def

end
