(* ===== verification/Mqi_Contract.thy ===== *)
theory Mqi_Contract
  imports Mqi_Exit_Abi
begin

text \<open>
  The contract of the headers with their callers, over all structures at once: the constants a
  caller passes as a structure's length are the sizes the compiler computes, the defaults
  initialize exactly that memory, and a newer version of a structure only adds members at
  the end, so that a queue manager that knows an older version reads the same offsets.
\<close>

section \<open>Lengths\<close>

text \<open>The structures of \<open>cmqc.h\<close>, \<open>cmqxc.h\<close>, \<open>cmqzc.h\<close> and \<open>cmqec.h\<close>, and \<open>MQEPH\<close>.\<close>

definition all_structs :: "abi \<Rightarrow> mq_struct list" where
  "all_structs a = mq_structs a @ exit_structs a"

text \<open>\<open>MQCBC\<close>, which the queue manager fills in, has length constants but no initializer.\<close>

definition struct_MQCBC :: "abi \<Rightarrow> mq_struct" where
  "struct_MQCBC a =
     \<lparr>st_members = MQCBC a, st_default = [],
      st_lengths = [(1, ''MQCBC_LENGTH_1''), (2, ''MQCBC_LENGTH_2'')],
      st_current = ''MQCBC_CURRENT_LENGTH'', st_id = ''MQCBC_STRUC_ID'', st_version = None,
      st_macros = MQCBC_values a\<rparr>"

lemma MQCBC_lookup:
  "map_of (MQCBC_values a) ''MQCBC_LENGTH_1'' = Some (Num (by_abi a 56 48))"
  "map_of (MQCBC_values a) ''MQCBC_LENGTH_2'' = Some (Num (by_abi a 64 52))"
  "map_of (MQCBC_values a) ''MQCBC_CURRENT_LENGTH'' = Some (Num (by_abi a 64 52))"
  by (simp_all only: lookup_simps map_of_table [OF MQCBC_values_def] cong: lookup_congs)

lemma MQCBC_lengths: "lengths_ok a (struct_MQCBC a)"
  by (cases a; simp only: lengths_shapes struct_MQCBC_def mq_struct.simps MQCBC_def
    MQCBC_lookup shapes_simps; simp add: place_simps)

text \<open>The three structures that name the length of their fixed part besides.\<close>

definition fixed_lengths :: "abi \<Rightarrow> (string \<times> mq_struct) list" where
  "fixed_lengths a =
     [(''MQRFH_STRUC_LENGTH_FIXED'', struct_MQRFH a), (''MQRFH_STRUC_LENGTH_FIXED_2'', struct_MQRFH2 a),
      (''MQEPH_STRUC_LENGTH_FIXED'', struct_MQEPH a)]"

definition fixed_length_ok :: "abi \<Rightarrow> string \<times> mq_struct \<Rightarrow> bool" where
  "fixed_length_ok a c \<longleftrightarrow>
     macro_value (st_macros (snd c)) (Mac (fst c)) = Some (Num (int (size_of a (st_type (snd c)))))"

lemma fixed_lengthI:
  assumes "lengths_ok a s"
    "macro_value (st_macros s) (Mac m) = macro_value (st_macros s) (Mac (st_current s))"
  shows "fixed_length_ok a (m, s)"
  using assms by (simp add: fixed_length_ok_def lengths_ok_def)

lemma fixed_lookup:
  "map_of (macros_MQRFH a) ''MQRFH_STRUC_LENGTH_FIXED'' = Some (Num 32)"
  "map_of (macros_MQRFH2 a) ''MQRFH_STRUC_LENGTH_FIXED_2'' = Some (Num 36)"
  by (simp_all only: lookup_simps map_of_table [OF macros_MQRFH_def] map_of_table [OF macros_MQRFH2_def]
    map_of_table [OF MQRFH_values_def] map_of_table [OF MQRFH2_values_def] cong: lookup_congs)

lemma fixed_lengths_ok: "list_all (fixed_length_ok a) (fixed_lengths a)"
  unfolding fixed_lengths_def list.pred_inject
  by (intro conjI list.pred_inject(1) fixed_lengthI struct_lengths exit_lengths)
    (simp_all add: struct_MQRFH_def struct_MQRFH2_def struct_MQEPH_def macro_value_simps fixed_lookup
      MQRFH_lookup MQRFH2_lookup MQEPH_lookup)

lemma all_lengths: "list_all (lengths_ok a) (all_structs a)"
  unfolding all_structs_def list_all_append mq_structs_def exit_structs_def list.pred_inject
  by (intro conjI struct_lengths exit_lengths list.pred_inject(1))

text \<open>
  C4. Under both ABIs, each of the structures has a \<open>_LENGTH_n\<close> constant for each version it
  declares, equal to the \<open>sizeof\<close> of the members up to that version, and its
  \<open>_CURRENT_LENGTH\<close> is the \<open>sizeof\<close> of the whole structure; the length constant of each
  structure of a command message is its \<open>sizeof\<close>, or the offset of its variable part; and the
  \<open>_STRUC_LENGTH_FIXED\<close> constants of the two rules-and-formatting headers and of the embedded
  command header are their \<open>sizeof\<close>.
\<close>

theorem struct_lengths_match:
  "list_all (lengths_ok a) (struct_MQCBC a # all_structs a) \<and> list_all (pcf_length_ok a) (pcf_structs a)
   \<and> list_all (fixed_length_ok a) (fixed_lengths a)"
proof (intro conjI)
  show "list_all (lengths_ok a) (struct_MQCBC a # all_structs a)"
    using MQCBC_lengths all_lengths by simp
  show "list_all (pcf_length_ok a) (pcf_structs a)"
    unfolding pcf_structs_def list.pred_inject by (intro conjI pcf_lengths list.pred_inject(1))
qed (rule fixed_lengths_ok)

section \<open>Defaults\<close>

text \<open>The first two members of a structure hold what their initializers give them.\<close>

lemma image_second:
  assumes fit: "fits a ms (C_struct fs) (Braces is)"
    and fs: "take 2 (map snd fs) = [t0, t1]"
    and off: "round_up (align_of a t1) (size_of a t0) = off"
  shows "\<exists>b. image a ms (C_struct fs) (Braces is) = Some b \<and> length b = struct_size a fs
           \<and> image a ms t0 (is ! 0) = Some (take (size_of a t0) b)
           \<and> image a ms t1 (is ! 1) = Some (take (size_of a t1) (drop off b))"
proof -
  obtain b where b: "image a ms (C_struct fs) (Braces is) = Some b" "length b = size_of a (C_struct fs)"
    using fits_image(1) [OF fit] by blast
  obtain n0 n1 gs where fs2: "fs = (n0, t0) # (n1, t1) # gs"
    using fs by (cases fs; cases "tl fs") auto
  have o0: "offsets a fs ! 0 = (n0, 0, t0)"
    by (simp add: offsets_def fs2 Let_def round_up_def)
  have o1: "offsets a fs ! 1 = (n1, off, t1)"
    using off by (simp add: offsets_def fs2 Let_def round_up_def)
  show ?thesis
    using image_struct_member [OF fit b(1) _ o0] image_struct_member [OF fit b(1) _ o1] b
    by (simp add: fs2 member_bytes_def struct_size_def)
qed

text \<open>\<open>MQTMC2\<close> has its version number in characters.\<close>

definition char_version_ok :: "abi \<Rightarrow> mq_struct \<Rightarrow> string \<Rightarrow> bool" where
  "char_version_ok a s m \<longleftrightarrow>
     (case image a (st_macros s) (st_type s) (Braces (st_default s)) of
        None \<Rightarrow> False
      | Some b \<Rightarrow>
          macro_value (st_macros s) (Mac (st_id s)) = Some (Str (take 4 b))
          \<and> macro_value (st_macros s) (Mac m) = Some (Str (take 4 (drop 4 b))))"

lemma MQTMC_VERSION_2_lookup: "map_of (macros_MQTMC2 a) ''MQTMC_VERSION_2'' = Some (Str ''   2'')"
  by (simp only: lookup_simps map_of_table [OF macros_MQTMC2_def] map_of_table [OF MQTMC2_values_def]
    cong: lookup_congs)

lemma MQTMC2_opens: "char_version_ok a (struct_MQTMC2 a) ''MQTMC_VERSION_2''"
proof -
  have fit: "fits a (macros_MQTMC2 a) (C_struct (members (MQTMC2 a))) (Braces MQTMC2_DEFAULT)"
    using MQTMC2_fits [of a] by (simp add: default_fits_def struct_MQTMC2_def)
  have ts: "take 2 (map snd (members (MQTMC2 a))) = [C_array 4 C_char, C_array 4 C_char]"
    by (simp add: MQTMC2_def members_def MQCHAR4_def MQCHAR_def)
  have "round_up (align_of a (C_array 4 C_char)) (size_of a (C_array 4 C_char)) = 4"
    by (simp add: round_up_def)
  from image_second [OF fit ts this] obtain b where
    b: "image a (macros_MQTMC2 a) (C_struct (members (MQTMC2 a))) (Braces MQTMC2_DEFAULT) = Some b"
    "image a (macros_MQTMC2 a) (C_array 4 C_char) (MQTMC2_DEFAULT ! 0) = Some (take 4 b)"
    "image a (macros_MQTMC2 a) (C_array 4 C_char) (MQTMC2_DEFAULT ! 1) = Some (take 4 (drop 4 b))"
    by auto
  have "take 4 b = ''TMC ''" "take 4 (drop 4 b) = ''   2''"
    using b(2,3) by (simp_all add: MQTMC2_DEFAULT_def macro_value_simps MQTMC2_lookup)
  then show ?thesis
    by (simp add: char_version_ok_def struct_MQTMC2_def b(1) macro_value_simps MQTMC2_lookup MQTMC_VERSION_2_lookup
        del: image.simps)
qed

text \<open>A channel definition starts with the channel's name, and its version comes next.\<close>

definition channel_version_ok :: "abi \<Rightarrow> mq_struct \<Rightarrow> bool" where
  "channel_version_ok a s \<longleftrightarrow>
     (case image a (st_macros s) (st_type s) (Braces (st_default s)) of
        None \<Rightarrow> False
      | Some b \<Rightarrow>
          take 20 b = replicate 20 NUL
          \<and> macro_value (st_macros s) (Mac ''MQCD_VERSION_6'') = Some (Num (le_signed (take 4 (drop 20 b)))))"

lemma channel_versionI:
  assumes fit: "default_fits a s" and s: "st_members s = MQCD a"
    and d: "st_default s = Braces [Expr (Str '''')] # Expr (Mac ''MQCD_VERSION_6'') # ds"
    and m: "map_of (st_macros s) ''MQCD_VERSION_6'' = Some (Num 6)"
  shows "channel_version_ok a s"
proof -
  have ts: "take 2 (map snd (members (MQCD a))) = [C_array 20 C_char, MQLONG a]"
    by (simp add: MQCD_def members_def MQCHAR_def)
  have off: "round_up (align_of a (MQLONG a)) (size_of a (C_array 20 C_char)) = 20"
    by (simp add: round_up_def MQLONG_def word_size_def split: abi.split)
  from image_second [OF fit [unfolded default_fits_def s] ts off] obtain b where
    b: "image a (st_macros s) (C_struct (members (MQCD a))) (Braces (st_default s)) = Some b"
    "image a (st_macros s) (C_array 20 C_char) (st_default s ! 0) = Some (take 20 b)"
    "image a (st_macros s) (MQLONG a) (st_default s ! 1) = Some (take 4 (drop 20 b))"
    by (auto simp: size_of_MQLONG)
  have "take 20 b = replicate 20 NUL"
    using b(2) by (simp add: d macro_value_simps)
  moreover have "take 4 (drop 20 b) = le_bytes 4 6"
    using b(3) by (simp add: d MQLONG_image int_of_init_def macro_value_simps m int_fits_def)
  ultimately show ?thesis
    by (simp add: channel_version_ok_def s b(1) macro_value_simps m le_signed_le_bytes int_fits_def
        del: image.simps)
qed

lemma channel_versions: "list_all (channel_version_ok a) [struct_MQCD a, struct_MQCD_CLIENT_CONN a]"
  unfolding list.pred_inject
proof (intro conjI list.pred_inject(1))
  show "channel_version_ok a (struct_MQCD a)"
    by (rule channel_versionI [OF MQCD_fits]) (simp_all add: struct_MQCD_def MQCD_DEFAULT_def MQCD_lookup)
  show "channel_version_ok a (struct_MQCD_CLIENT_CONN a)"
    by (rule channel_versionI [OF MQCD_CLIENT_CONN_fits])
      (simp_all add: struct_MQCD_CLIENT_CONN_def MQCD_CLIENT_CONN_DEFAULT_def MQCD_CLIENT_CONN_lookup)
qed

text \<open>
  A structure of a command message has its type first and its length next: the default has the
  structure's length constant there.
\<close>

definition pcf_image_ok :: "abi \<Rightarrow> pcf_struct \<Rightarrow> bool" where
  "pcf_image_ok a s \<longleftrightarrow>
     (case image a (pc_macros s) (C_struct (members (pc_members s))) (Braces (pc_default s)) of
        None \<Rightarrow> False
      | Some b \<Rightarrow>
          length b = struct_size a (members (pc_members s))
          \<and> macro_value (pc_macros s) (Mac (pc_length s)) = Some (Num (le_signed (take 4 (drop 4 b)))))"

definition pcf_opens :: "abi \<Rightarrow> pcf_struct \<Rightarrow> bool" where
  "pcf_opens a s \<longleftrightarrow>
     take 2 (map snd (members (pc_members s))) = [MQLONG a, MQLONG a]
     \<and> pc_default s ! 1 = Expr (Mac (pc_length s))"

lemma pcf_imageI:
  assumes "pcf_length_ok a s" "pcf_fits a s" "pcf_opens a s"
  shows "pcf_image_ok a s"
proof -
  have off: "round_up (align_of a (MQLONG a)) (size_of a (MQLONG a)) = 4"
    by (simp add: round_up_def MQLONG_def word_size_def split: abi.split)
  obtain b where
    b: "image a (pc_macros s) (C_struct (members (pc_members s))) (Braces (pc_default s)) = Some b"
    "length b = struct_size a (members (pc_members s))"
    "image a (pc_macros s) (MQLONG a) (pc_default s ! 1) = Some (take 4 (drop 4 b))"
    using image_second [OF assms(2) [unfolded pcf_fits_def] _ off] assms(3)
    by (auto simp: pcf_opens_def size_of_MQLONG)
  obtain v where v: "macro_value (pc_macros s) (Mac (pc_length s)) = Some (Num v)"
    using assms(1) by (simp add: pcf_length_ok_def)
  with b(3) assms(3) have "int_fits 4 v" "take 4 (drop 4 b) = le_bytes 4 v"
    by (auto simp: pcf_opens_def MQLONG_image int_of_init_def split: if_splits)
  with v b show ?thesis by (simp add: pcf_image_ok_def le_signed_le_bytes del: image.simps)
qed

lemmas pcf_record_defs =
  pcf_MQCFH_def pcf_MQCFBF_def pcf_MQCFBS_def pcf_MQCFGR_def pcf_MQCFIF_def pcf_MQCFIL_def
  pcf_MQCFIL64_def pcf_MQCFIN_def pcf_MQCFIN64_def pcf_MQCFSF_def pcf_MQCFSL_def pcf_MQCFST_def
  MQCFH_def MQCFBF_def MQCFBS_def MQCFGR_def MQCFIF_def MQCFIL_def MQCFIL64_def MQCFIN_def
  MQCFIN64_def MQCFSF_def MQCFSL_def MQCFST_def
  MQCFH_DEFAULT_def MQCFBF_DEFAULT_def MQCFBS_DEFAULT_def MQCFGR_DEFAULT_def MQCFIF_DEFAULT_def
  MQCFIL_DEFAULT_def MQCFIL64_DEFAULT_def MQCFIN_DEFAULT_def MQCFIN64_DEFAULT_def MQCFSF_DEFAULT_def
  MQCFSL_DEFAULT_def MQCFST_DEFAULT_def

lemma pcf_all_open: "list_all (pcf_opens a) (pcf_structs a)"
  unfolding pcf_structs_def list.pred_inject pcf_opens_def
  by (simp add: pcf_record_defs members_def)

lemma pcf_images: "list_all (pcf_image_ok a) (pcf_structs a)"
proof -
  have "list_all (pcf_length_ok a) (pcf_structs a)" "list_all (pcf_fits a) (pcf_structs a)"
    unfolding pcf_structs_def list.pred_inject by (intro conjI pcf_lengths pcf_defaults list.pred_inject(1))+
  with pcf_all_open [of a] show ?thesis by (simp add: list_all_iff pcf_imageI)
qed

text \<open>The records that have neither an eye-catcher nor a length constant.\<close>

definition plain_records :: "abi \<Rightarrow> ((nat \<times> fields) list \<times> cinit list \<times> macros) list" where
  "plain_records a =
     [(MQCHARV a, MQCHARV_DEFAULT, MQMD_values_2 a), (MQOR a, MQOR_DEFAULT, []),
      (MQRR a, MQRR_DEFAULT, macros_MQCFH a), (MQWCR a, MQWCR_DEFAULT, [])]"

definition plain_image_ok :: "abi \<Rightarrow> (nat \<times> fields) list \<times> cinit list \<times> macros \<Rightarrow> bool" where
  "plain_image_ok a r \<longleftrightarrow>
     (case r of (bs, d, ms) \<Rightarrow>
        (case image a ms (C_struct (members bs)) (Braces d) of
           None \<Rightarrow> False
         | Some b \<Rightarrow> length b = struct_size a (members bs)))"

lemma plain_imageI: "fits a ms (C_struct (members bs)) (Braces d) \<Longrightarrow> plain_image_ok a (bs, d, ms)"
  using fits_image(1) [of a ms "C_struct (members bs)" "Braces d"]
  by (auto simp: plain_image_ok_def struct_size_def)

lemma plain_lookup: "map_of (MQMD_values_2 a) ''MQCCSI_APPL'' = Some (Num (- 3))"
  by (simp only: lookup_simps map_of_table [OF MQMD_values_2_def] cong: lookup_congs)

lemma plain_images: "list_all (plain_image_ok a) (plain_records a)"
  unfolding plain_records_def list.pred_inject
  by (intro conjI list.pred_inject(1) plain_imageI; cases a)
    (simp_all add: MQCHARV_def MQCHARV_DEFAULT_def MQOR_def MQOR_DEFAULT_def MQRR_def MQRR_DEFAULT_def
      MQWCR_def MQWCR_DEFAULT_def members_def mqi_type_defs macro_value_simps plain_lookup MQCFH_lookup init_simps)

text \<open>
  C5. Each \<open>_DEFAULT\<close> initializer of a structure denotes a memory image of exactly the
  structure's size, its \<open>_CURRENT_LENGTH\<close> if there is one. The first four bytes are the
  structure's eye-catcher and the next four, read as a signed integer, the version the
  initializer names, with these exceptions: \<open>MQTMC2\<close> has its version there in characters;
  both defaults of \<open>MQCD\<close> start with an empty channel name of 20 bytes, which the version
  follows; a structure of a command message has its length constant in the second word; and
  the records \<open>MQCHARV\<close>, \<open>MQOR\<close>, \<open>MQRR\<close> and \<open>MQWCR\<close> have neither.
\<close>

theorem struct_defaults_match:
  "list_all (default_image_ok a) (all_structs a)
   \<and> char_version_ok a (struct_MQTMC2 a) ''MQTMC_VERSION_2''
   \<and> list_all (channel_version_ok a) [struct_MQCD a, struct_MQCD_CLIENT_CONN a]
   \<and> list_all (pcf_image_ok a) (pcf_structs a) \<and> list_all (plain_image_ok a) (plain_records a)"
proof -
  have "list_all (default_image_ok a) (mq_structs a)"
    unfolding mq_structs_def list.pred_inject
    by (intro conjI list.pred_inject(1);
        (rule default_image_okI2 [OF MQTMC2_lengths MQTMC2_fits], simp add: struct_MQTMC2_def)?;
        (intro default_image_okI struct_lengths struct_fits struct_opens)?)
  moreover have "list_all (default_image_ok a) (exit_structs a)"
    unfolding exit_structs_def list.pred_inject
    by (intro conjI list.pred_inject(1);
        (rule default_image_okI2 [OF MQCD_lengths MQCD_fits], simp add: struct_MQCD_def)?;
        (rule default_image_okI2 [OF MQCD_CLIENT_CONN_lengths MQCD_CLIENT_CONN_fits],
          simp add: struct_MQCD_CLIENT_CONN_def)?;
        (intro default_image_okI exit_lengths exit_fits exit_opens)?)
  ultimately have "list_all (default_image_ok a) (all_structs a)" by (simp add: all_structs_def)
  with MQTMC2_opens channel_versions pcf_images plain_images show ?thesis by blast
qed

section \<open>Versions\<close>

text \<open>
  Some structures are declared more than once: as a version of the structure without a number
  in its name, and under a name with that number. The two declarations agree member for
  member, names, types and order, and so do their defaults but for the version and the
  length they announce.
\<close>

record numbered =
  nu_old :: "(nat \<times> fields) list"
  nu_old_default :: "cinit list"
  nu_version :: nat
  nu_header :: "cinit list"
  nu_new :: "(nat \<times> fields) list"
  nu_new_default :: "cinit list"

definition same_version :: "numbered \<Rightarrow> bool" where
  "same_version r \<longleftrightarrow>
     members (nu_old r) = members_upto (nu_version r) (nu_new r)
     \<and> nu_old_default r =
         [nu_new_default r ! 0] @ nu_header r
         @ drop (1 + length (nu_header r)) (take (length (members (nu_old r))) (nu_new_default r))"

abbreviation version_of :: "string \<Rightarrow> cinit list" where
  "version_of v \<equiv> [Expr (Mac v)]"

abbreviation version_and_length :: "string \<Rightarrow> string \<Rightarrow> cinit list" where
  "version_and_length v l \<equiv> [Expr (Mac v), Expr (Mac l)]"

definition numbered_structs :: "abi \<Rightarrow> numbered list" where
  "numbered_structs a =
     [\<lparr>nu_old = MQMD1 a, nu_old_default = MQMD1_DEFAULT, nu_version = 1,
       nu_header = version_of ''MQMD_VERSION_1'', nu_new = MQMD a, nu_new_default = MQMD_DEFAULT\<rparr>,
      \<lparr>nu_old = MQMD2 a, nu_old_default = MQMD2_DEFAULT, nu_version = 2,
       nu_header = version_of ''MQMD_VERSION_2'', nu_new = MQMD a, nu_new_default = MQMD_DEFAULT\<rparr>,
      \<lparr>nu_old = MQWDR1 a, nu_old_default = MQWDR1_DEFAULT, nu_version = 1,
       nu_header = version_and_length ''MQWDR_VERSION_1'' ''MQWDR_LENGTH_1'',
       nu_new = MQWDR a, nu_new_default = MQWDR_DEFAULT\<rparr>,
      \<lparr>nu_old = MQWDR2 a, nu_old_default = MQWDR2_DEFAULT, nu_version = 2,
       nu_header = version_and_length ''MQWDR_VERSION_2'' ''MQWDR_LENGTH_2'',
       nu_new = MQWDR a, nu_new_default = MQWDR_DEFAULT\<rparr>,
      \<lparr>nu_old = MQWQR1 a, nu_old_default = MQWQR1_DEFAULT, nu_version = 1,
       nu_header = version_and_length ''MQWQR_VERSION_1'' ''MQWQR_LENGTH_1'',
       nu_new = MQWQR a, nu_new_default = MQWQR_DEFAULT\<rparr>,
      \<lparr>nu_old = MQWQR2 a, nu_old_default = MQWQR2_DEFAULT, nu_version = 2,
       nu_header = version_and_length ''MQWQR_VERSION_2'' ''MQWQR_LENGTH_2'',
       nu_new = MQWQR a, nu_new_default = MQWQR_DEFAULT\<rparr>,
      \<lparr>nu_old = MQWQR3 a, nu_old_default = MQWQR3_DEFAULT, nu_version = 3,
       nu_header = version_and_length ''MQWQR_VERSION_3'' ''MQWQR_LENGTH_3'',
       nu_new = MQWQR a, nu_new_default = MQWQR_DEFAULT\<rparr>,
      \<lparr>nu_old = MQWQR4 a, nu_old_default = MQWQR4_DEFAULT, nu_version = 4,
       nu_header = version_and_length ''MQWQR_VERSION_4'' ''MQWQR_LENGTH_4'',
       nu_new = MQWQR a, nu_new_default = MQWQR_DEFAULT\<rparr>,
      \<lparr>nu_old = MQWXP1 a, nu_old_default = MQWXP1_DEFAULT, nu_version = 1,
       nu_header = version_of ''MQWXP_VERSION_1'', nu_new = MQWXP a, nu_new_default = MQWXP_DEFAULT\<rparr>,
      \<lparr>nu_old = MQWXP2 a, nu_old_default = MQWXP2_DEFAULT, nu_version = 2,
       nu_header = version_of ''MQWXP_VERSION_2'', nu_new = MQWXP a, nu_new_default = MQWXP_DEFAULT\<rparr>,
      \<lparr>nu_old = MQWXP3 a, nu_old_default = MQWXP3_DEFAULT, nu_version = 3,
       nu_header = version_of ''MQWXP_VERSION_3'', nu_new = MQWXP a, nu_new_default = MQWXP_DEFAULT\<rparr>,
      \<lparr>nu_old = MQWXP4 a, nu_old_default = MQWXP4_DEFAULT, nu_version = 4,
       nu_header = version_of ''MQWXP_VERSION_4'', nu_new = MQWXP a, nu_new_default = MQWXP_DEFAULT\<rparr>]"

lemmas numbered_defs = MQMD_def MQMD1_def MQMD2_def MQWDR_def MQWDR1_def MQWDR2_def MQWQR_def MQWQR1_def
  MQWQR2_def MQWQR3_def MQWQR4_def MQWXP_def MQWXP1_def MQWXP2_def MQWXP3_def MQWXP4_def
  MQMD_DEFAULT_def MQMD1_DEFAULT_def MQMD2_DEFAULT_def MQWDR_DEFAULT_def MQWDR1_DEFAULT_def
  MQWDR2_DEFAULT_def MQWQR_DEFAULT_def MQWQR1_DEFAULT_def MQWQR2_DEFAULT_def MQWQR3_DEFAULT_def
  MQWQR4_DEFAULT_def MQWXP_DEFAULT_def MQWXP1_DEFAULT_def MQWXP2_DEFAULT_def MQWXP3_DEFAULT_def
  MQWXP4_DEFAULT_def

text \<open>What version 2 of the message descriptor adds, which the extension header \<open>MQMDE\<close> carries.\<close>

definition descriptor_extension :: "abi \<Rightarrow> fields" where
  "descriptor_extension a = drop (length (members_upto 1 (MQMD a))) (members (MQMD a))"

text \<open>
  C6. A structure that is declared under a name with a version number, \<open>MQMD1\<close>, \<open>MQMD2\<close>, \<open>MQWDR1\<close>,
  \<open>MQWDR2\<close>, \<open>MQWQR1\<close> to \<open>MQWQR4\<close> and \<open>MQWXP1\<close> to \<open>MQWXP4\<close>, has exactly the members of that version
  of the structure without a number, with the same names and types in the same order, and the
  same defaults but for the version and length it announces; and the members by which version
  2 extends the message descriptor, with their defaults, end the extension header \<open>MQMDE\<close>.
\<close>

theorem struct_versions_agree:
  "list_all same_version (numbered_structs a)
   \<and> suffix (descriptor_extension a) (members (MQMDE a))
   \<and> suffix (drop (length (members_upto 1 (MQMD a))) MQMD_DEFAULT) MQMDE_DEFAULT"
proof (intro conjI)
  show "list_all same_version (numbered_structs a)"
    unfolding numbered_structs_def list.pred_inject
    by (intro conjI list.pred_inject(1))
      (simp_all add: same_version_def numbered_defs members_def members_upto_def)
  show "suffix (descriptor_extension a) (members (MQMDE a))"
    unfolding suffix_def
    by (rule exI [of _ "take 7 (members (MQMDE a))"])
      (simp add: descriptor_extension_def MQMD_def MQMDE_def members_def members_upto_def)
  show "suffix (drop (length (members_upto 1 (MQMD a))) MQMD_DEFAULT) MQMDE_DEFAULT"
    unfolding suffix_def
    by (rule exI [of _ "take 7 MQMDE_DEFAULT"])
      (simp add: MQMD_def MQMD_DEFAULT_def MQMDE_DEFAULT_def members_upto_def members_def)
qed

end
