(* ===== verification/Mqi_Macros.thy ===== *)
theory Mqi_Macros
  imports Mqi_Values_A Mqi_Values_B Mqi_Reasons Mqi_Consts Mqi_Pcf_A Mqi_Pcf_B Mqi_Exits
begin

text \<open>
  All value macros of the headers together, what a macro denotes, and the \<open>switch\<close> by which
  the functions of \<open>cmqstrc.h\<close> turn a value back into the name of a macro.
\<close>

section \<open>The macros of all headers\<close>

definition mqi_tables :: "abi \<Rightarrow> macros list" where
  "mqi_tables a =
     [MQAIR_values a, MQBNO_values a, MQBMHO_values a, MQBO_values a, MQCBC_values a,
      MQCBD_values a, MQCHARV_values a, MQCIH_values a, MQCMHO_values a, MQCTLO_values a,
      MQSCO_values a, MQCSP_values a, MQCNO_values a, MQDH_values a, MQDLH_values a,
      MQDMHO_values a, MQDMPO_values a, MQGMO_values a, MQIIH_values a, MQIMPO_values a,
      MQMD_values_1 a, MQMD_values_2 a, MQMD_values_3 a, MQMDE_values a, MQMD1_values a,
      MQMD2_values a, MQMHBO_values a, MQOD_values a, MQPD_values a, MQPMO_values a,
      MQRFH_values a, MQRFH2_values a, MQRMH_values a, MQSD_values a, MQSMPO_values a,
      MQSRO_values a, MQSTS_values a, MQTM_values a, MQTMC2_values a, MQWIH_values a,
      MQXQH_values a, MQCC_values a, MQSSL_FIPS_values a, MQHM_values a, MQRC_values_1 a,
      MQRC_values_2 a, MQRC_values_3 a, MQRC_values_4 a, MQRC_values_5 a,
      cmqc_All_Functions_1 a, cmqc_All_Functions_2 a, cmqc_All_Functions_3 a,
      cmqc_Queue_Attributes a, cmqc_Namelist_Attributes a, cmqc_CF_Structure_Attributes a,
      cmqc_Service_Attributes a, cmqc_QueueManager_Attributes_1 a,
      cmqc_QueueManager_Attributes_2 a, cmqc_QueueManager_Attributes_3 a,
      cmqc_Topic_Attributes a, cmqc_Subscription_Attributes a,
      cmqc_Channel_Authentication_Configuration_1 a,
      cmqc_Channel_Authentication_Configuration_2 a, cmqc_MQCLOSE_Function a,
      cmqc_MQCTL_and_MQCB_Functions a, cmqc_MQINQ_Function_1 a, cmqc_MQINQ_Function_2 a,
      cmqc_MQINQ_Function_3 a, cmqc_MQINQ_Function_4 a, cmqc_MQINQ_Function_5 a,
      cmqc_MQINQ_Function_6 a, cmqc_MQOPEN_Function a, cmqc_MQSETMP_Function a,
      cmqc_MQSTAT_Function a, cmqc_MQSUB_Function a, cmqc_MQSUBRQ_Function a, cmqcfc_MQCFH_1 a,
      cmqcfc_MQCFH_2 a, cmqcfc_MQCFH_3 a, cmqcfc_MQCFH_4 a, cmqcfc_MQCFH_5 a, cmqcfc_MQCFH_6 a,
      cmqcfc_MQCFH_7 a, cmqcfc_MQCFBF a, cmqcfc_MQCFBS a, cmqcfc_MQCFGR a, cmqcfc_MQCFIF a,
      cmqcfc_MQCFIL a, cmqcfc_MQCFIL64 a, cmqcfc_MQCFIN a, cmqcfc_MQCFIN64 a, cmqcfc_MQCFSF a,
      cmqcfc_MQCFSL a, cmqcfc_MQCFST a, cmqcfc_MQEPH a, cmqcfc_All a, cmqcfc_Byte_Parameter a,
      cmqcfc_Integer_Parameter_1 a, cmqcfc_Integer_Parameter_2 a, cmqcfc_Integer_Parameter_3 a,
      cmqcfc_Integer_Parameter_4 a, cmqcfc_Integer_Parameter_5 a, cmqcfc_Integer_Parameter_6 a,
      cmqcfc_Integer_Parameter_7 a, cmqcfc_Integer_Parameter_8 a,
      cmqcfc_Character_Parameter_1 a, cmqcfc_Character_Parameter_2 a,
      cmqcfc_Character_Parameter_3 a, cmqcfc_Character_Parameter_4 a,
      cmqcfc_Group_Parameter_1 a, cmqcfc_Group_Parameter_2 a, cmqcfc_Group_Parameter_3 a,
      cmqcfc_Group_Parameter_4 a, cmqcfc_Group_Parameter_5 a, cmqcfc_Group_Parameter_6 a,
      cmqcfc_Group_Parameter_7 a, cmqcfc_Trace_route_and_Activity_Operations a,
      cmqcfc_Publish_Subscribe a, cmqxc_MQCD_1 a, cmqxc_MQCD_2 a, cmqxc_MQACH a, cmqxc_MQAXC a,
      cmqxc_MQAXP a, cmqxc_MQCXP a, cmqxc_MQDXP a, cmqxc_MQNXP a, cmqxc_MQPBC a, cmqxc_MQPSXP a,
      cmqxc_MQSBC a, cmqxc_MQWDR a, cmqxc_MQWDR1 a, cmqxc_MQWDR2 a, cmqxc_MQWQR a,
      cmqxc_MQWQR1 a, cmqxc_MQWQR2 a, cmqxc_MQWQR3 a, cmqxc_MQWQR4 a, cmqxc_MQWXP a,
      cmqxc_MQWXP1 a, cmqxc_MQWXP2 a, cmqxc_MQWXP3 a, cmqxc_MQWXP4 a, cmqxc_MQXEPO_1 a,
      cmqxc_MQXEPO_2 a, cmqxc_MQ_CHANNEL_EXIT_Function a,
      cmqxc_MQ_CHANNEL_AUTO_DEF_EXIT_Function a, cmqxc_MQ_DATA_CONV_EXIT_Function a,
      cmqxc_MQ_TRANSPORT_EXIT_Function a, cmqxc_MQXCNVC_Function a, cmqzc_MQZED a,
      cmqzc_MQZAC a, cmqzc_MQZAD a, cmqzc_MQZFP a, cmqzc_MQZIC a, cmqzc_All_Services a,
      cmqzc_Authority_Service a, cmqzc_Name_Service a, cmqzc_Userid_Service a,
      cmqzc_MQZEP_Function a, cmqbc_Specific_Functions a, cmqbc_Most_Functions_1 a,
      cmqbc_Most_Functions_2 a, cmqec_MQIEP a]"

definition mqi_macros :: "abi \<Rightarrow> macros" where
  "mqi_macros a = concat (mqi_tables a)"

text \<open>
  The integer a replacement text denotes, also as the \<open>MQLONG\<close> a hexadecimal mask above
  \<open>0x7FFFFFFF\<close> converts to.
\<close>

inductive denotes :: "macros \<Rightarrow> cexpr \<Rightarrow> int \<Rightarrow> bool" for ms :: macros where
  den_num: "denotes ms (Num v) v"
| den_mqlong: "2 ^ 31 \<le> v \<Longrightarrow> v < 2 ^ 32 \<Longrightarrow> denotes ms (Num v) (v - 2 ^ 32)"
| den_mac: "(n, e) \<in> set ms \<Longrightarrow> denotes ms e v \<Longrightarrow> denotes ms (Mac n) v"
| den_or: "denotes ms x v \<Longrightarrow> denotes ms y w \<Longrightarrow> denotes ms (BitOr x y) (v OR w)"
| den_plus: "denotes ms x v \<Longrightarrow> denotes ms y w \<Longrightarrow> denotes ms (Plus x y) (v + w)"

abbreviation macro_is :: "macros \<Rightarrow> string \<Rightarrow> int \<Rightarrow> bool" where
  "macro_is ms n v \<equiv> denotes ms (Mac n) v"

section \<open>The name functions\<close>

text \<open>
  The body of every function of \<open>cmqstrc.h\<close>: a \<open>switch\<close> on the value whose cases assign a
  name, and the empty string by default.
\<close>

primrec c_switch :: "(int \<times> string) list \<Rightarrow> int \<Rightarrow> string" where
  "c_switch [] v = []"
| "c_switch (c # cs) v = (if v = fst c then snd c else c_switch cs v)"

lemma c_switch_case: "c_switch cs v \<noteq> [] \<Longrightarrow> (v, c_switch cs v) \<in> set cs"
  by (induction cs) (auto split: if_splits)

lemma c_switch_named:
  "list_all (\<lambda>c. snd c \<noteq> []) cs \<Longrightarrow> c_switch cs v \<noteq> [] \<longleftrightarrow> v \<in> fst ` set cs"
  by (induction cs) auto

text \<open>Every name the function returns is a macro that denotes the value it was returned for.\<close>

definition names_ok :: "abi \<Rightarrow> (int \<Rightarrow> string) \<Rightarrow> bool" where
  "names_ok a f \<longleftrightarrow> (\<forall>v. f v \<noteq> [] \<longrightarrow> macro_is (mqi_macros a) (f v) v)"

definition case_fact :: "abi \<Rightarrow> int \<times> string \<Rightarrow> bool" where
  "case_fact a c \<longleftrightarrow> macro_is (mqi_macros a) (snd c) (fst c)"

lemma names_okI:
  assumes "\<And>v. f v = c_switch cs v" "list_all (case_fact a) cs"
  shows "names_ok a f"
  unfolding names_ok_def
proof (intro allI impI)
  fix v assume "f v \<noteq> []"
  then have "(v, f v) \<in> set cs" using c_switch_case [of cs v] assms(1) by simp
  then show "macro_is (mqi_macros a) (f v) v"
    using assms(2) by (auto simp: list_all_iff case_fact_def)
qed

section \<open>Reading facts off the tables\<close>

text \<open>
  Each entry of a table becomes a fact about \<open>mqi_macros\<close> that the simplifier finds by its
  term index, so that a name is never compared with the other names of its table; the two
  congruences keep it out of the names.
\<close>

definition entry_fact :: "abi \<Rightarrow> string \<times> cexpr \<Rightarrow> bool" where
  "entry_fact a e \<longleftrightarrow> e \<in> set (mqi_macros a)"

fun entry_case :: "abi \<Rightarrow> string \<times> cexpr \<Rightarrow> bool" where
  "entry_case a (n, Num v) = case_fact a (v, n)"
| "entry_case a (n, _) = True"

lemma entry_factD: "entry_fact a e \<Longrightarrow> entry_case a e"
  by (cases e rule: prod.exhaust; cases "snd e")
     (auto simp: entry_fact_def case_fact_def intro: den_mac den_num)

lemma table_facts_raw: "list_all (list_all (entry_fact a)) (mqi_tables a)"
  by (auto simp: list_all_iff entry_fact_def mqi_macros_def)

lemmas table_facts = table_facts_raw [unfolded mqi_tables_def list.pred_inject]

lemma table_casesI: "list_all (entry_fact a) t \<Longrightarrow> list_all (entry_case a) t"
  by (auto simp: list_all_iff entry_factD)

lemma mask_case:
  assumes "entry_fact a (n, Num w)" "2 ^ 31 \<le> w" "w < 2 ^ 32" "v = w - 2 ^ 32"
  shows "case_fact a (v, n)"
  using den_mac [OF assms(1) [unfolded entry_fact_def] den_mqlong [OF assms(2,3)]] assms(4)
  by (simp only: case_fact_def fst_conv snd_conv)

lemma or_case:
  assumes "entry_fact a (n, BitOr (BitOr (Mac x) (Mac y)) (Mac z))"
    and "entry_fact a (x, Num u)" "entry_fact a (y, Num v)" "entry_fact a (z, Num w)"
    and "r = (u OR v) OR w"
  shows "case_fact a (r, n)"
  using assms by (auto simp: entry_fact_def case_fact_def intro!: den_or intro: den_mac den_num)

lemma entry_fact_block: "entry_fact a e = entry_fact a e" ..

lemma case_fact_block: "case_fact a c = case_fact a c" ..

lemmas case_congs = entry_fact_block case_fact_block

lemmas case_simps = list.pred_inject simp_thms

end
