(* ===== verification/Mqi_Facts_C.thy ===== *)
theory Mqi_Facts_C
  imports Mqi_Macros
begin

text \<open>
  The tables of \<open>cmqc.h\<close> read off as one fact per macro, and the facts of the few macros that are
  masks above \<open>0x7FFFFFFF\<close> or combinations of others.
\<close>

lemma MQAIR_values_entries: "list_all (entry_fact a) (MQAIR_values a)"
  by (simp only: table_facts)

lemmas MQAIR_values_cases = table_casesI [OF MQAIR_values_entries, unfolded MQAIR_values_def list.pred_inject entry_case.simps]

lemma MQBNO_values_entries: "list_all (entry_fact a) (MQBNO_values a)"
  by (simp only: table_facts)

lemmas MQBNO_values_cases = table_casesI [OF MQBNO_values_entries, unfolded MQBNO_values_def list.pred_inject entry_case.simps]

lemma MQBMHO_values_entries: "list_all (entry_fact a) (MQBMHO_values a)"
  by (simp only: table_facts)

lemmas MQBMHO_values_cases = table_casesI [OF MQBMHO_values_entries, unfolded MQBMHO_values_def list.pred_inject entry_case.simps]

lemma MQBO_values_entries: "list_all (entry_fact a) (MQBO_values a)"
  by (simp only: table_facts)

lemmas MQBO_values_cases = table_casesI [OF MQBO_values_entries, unfolded MQBO_values_def list.pred_inject entry_case.simps]

lemma MQCBC_values_entries: "list_all (entry_fact a) (MQCBC_values a)"
  by (simp only: table_facts)

lemmas MQCBC_values_cases = table_casesI [OF MQCBC_values_entries, unfolded MQCBC_values_def list.pred_inject entry_case.simps]

lemma MQCBD_values_entries: "list_all (entry_fact a) (MQCBD_values a)"
  by (simp only: table_facts)

lemmas MQCBD_values_cases = table_casesI [OF MQCBD_values_entries, unfolded MQCBD_values_def list.pred_inject entry_case.simps]

lemma MQCHARV_values_entries: "list_all (entry_fact a) (MQCHARV_values a)"
  by (simp only: table_facts)

lemmas MQCHARV_values_cases = table_casesI [OF MQCHARV_values_entries, unfolded MQCHARV_values_def list.pred_inject entry_case.simps]

lemma MQCIH_values_entries: "list_all (entry_fact a) (MQCIH_values a)"
  by (simp only: table_facts)

lemmas MQCIH_values_cases = table_casesI [OF MQCIH_values_entries, unfolded MQCIH_values_def list.pred_inject entry_case.simps]

lemma MQCMHO_values_entries: "list_all (entry_fact a) (MQCMHO_values a)"
  by (simp only: table_facts)

lemmas MQCMHO_values_cases = table_casesI [OF MQCMHO_values_entries, unfolded MQCMHO_values_def list.pred_inject entry_case.simps]

lemma MQCTLO_values_entries: "list_all (entry_fact a) (MQCTLO_values a)"
  by (simp only: table_facts)

lemmas MQCTLO_values_cases = table_casesI [OF MQCTLO_values_entries, unfolded MQCTLO_values_def list.pred_inject entry_case.simps]

lemma MQSCO_values_entries: "list_all (entry_fact a) (MQSCO_values a)"
  by (simp only: table_facts)

lemmas MQSCO_values_cases = table_casesI [OF MQSCO_values_entries, unfolded MQSCO_values_def list.pred_inject entry_case.simps]

lemma MQCSP_values_entries: "list_all (entry_fact a) (MQCSP_values a)"
  by (simp only: table_facts)

lemmas MQCSP_values_cases = table_casesI [OF MQCSP_values_entries, unfolded MQCSP_values_def list.pred_inject entry_case.simps]

lemma MQCNO_values_entries: "list_all (entry_fact a) (MQCNO_values a)"
  by (simp only: table_facts)

lemmas MQCNO_values_cases = table_casesI [OF MQCNO_values_entries, unfolded MQCNO_values_def list.pred_inject entry_case.simps]

lemma MQDH_values_entries: "list_all (entry_fact a) (MQDH_values a)"
  by (simp only: table_facts)

lemmas MQDH_values_cases = table_casesI [OF MQDH_values_entries, unfolded MQDH_values_def list.pred_inject entry_case.simps]

lemma MQDMHO_values_entries: "list_all (entry_fact a) (MQDMHO_values a)"
  by (simp only: table_facts)

lemmas MQDMHO_values_cases = table_casesI [OF MQDMHO_values_entries, unfolded MQDMHO_values_def list.pred_inject entry_case.simps]

lemma MQDMPO_values_entries: "list_all (entry_fact a) (MQDMPO_values a)"
  by (simp only: table_facts)

lemmas MQDMPO_values_cases = table_casesI [OF MQDMPO_values_entries, unfolded MQDMPO_values_def list.pred_inject entry_case.simps]

lemma MQGMO_values_entries: "list_all (entry_fact a) (MQGMO_values a)"
  by (simp only: table_facts)

lemmas MQGMO_values_cases = table_casesI [OF MQGMO_values_entries, unfolded MQGMO_values_def list.pred_inject entry_case.simps]

lemma MQIIH_values_entries: "list_all (entry_fact a) (MQIIH_values a)"
  by (simp only: table_facts)

lemmas MQIIH_values_cases = table_casesI [OF MQIIH_values_entries, unfolded MQIIH_values_def list.pred_inject entry_case.simps]

lemma MQIMPO_values_entries: "list_all (entry_fact a) (MQIMPO_values a)"
  by (simp only: table_facts)

lemmas MQIMPO_values_cases = table_casesI [OF MQIMPO_values_entries, unfolded MQIMPO_values_def list.pred_inject entry_case.simps]

lemma MQMD_values_1_entries: "list_all (entry_fact a) (MQMD_values_1 a)"
  by (simp only: table_facts)

lemmas MQMD_values_1_cases = table_casesI [OF MQMD_values_1_entries, unfolded MQMD_values_1_def list.pred_inject entry_case.simps]

lemma MQMD_values_2_entries: "list_all (entry_fact a) (MQMD_values_2 a)"
  by (simp only: table_facts)

lemmas MQMD_values_2_cases = table_casesI [OF MQMD_values_2_entries, unfolded MQMD_values_2_def list.pred_inject entry_case.simps]

lemma MQMD_values_3_entries: "list_all (entry_fact a) (MQMD_values_3 a)"
  by (simp only: table_facts)

lemmas MQMD_values_3_cases = table_casesI [OF MQMD_values_3_entries, unfolded MQMD_values_3_def list.pred_inject entry_case.simps]

lemma MQMDE_values_entries: "list_all (entry_fact a) (MQMDE_values a)"
  by (simp only: table_facts)

lemmas MQMDE_values_cases = table_casesI [OF MQMDE_values_entries, unfolded MQMDE_values_def list.pred_inject entry_case.simps]

lemma MQMHBO_values_entries: "list_all (entry_fact a) (MQMHBO_values a)"
  by (simp only: table_facts)

lemmas MQMHBO_values_cases = table_casesI [OF MQMHBO_values_entries, unfolded MQMHBO_values_def list.pred_inject entry_case.simps]

lemma MQOD_values_entries: "list_all (entry_fact a) (MQOD_values a)"
  by (simp only: table_facts)

lemmas MQOD_values_cases = table_casesI [OF MQOD_values_entries, unfolded MQOD_values_def list.pred_inject entry_case.simps]

lemma MQPD_values_entries: "list_all (entry_fact a) (MQPD_values a)"
  by (simp only: table_facts)

lemmas MQPD_values_cases = table_casesI [OF MQPD_values_entries, unfolded MQPD_values_def list.pred_inject entry_case.simps]

lemma MQPMO_values_entries: "list_all (entry_fact a) (MQPMO_values a)"
  by (simp only: table_facts)

lemmas MQPMO_values_cases = table_casesI [OF MQPMO_values_entries, unfolded MQPMO_values_def list.pred_inject entry_case.simps]

lemma MQRFH_values_entries: "list_all (entry_fact a) (MQRFH_values a)"
  by (simp only: table_facts)

lemmas MQRFH_values_cases = table_casesI [OF MQRFH_values_entries, unfolded MQRFH_values_def list.pred_inject entry_case.simps]

lemma MQRMH_values_entries: "list_all (entry_fact a) (MQRMH_values a)"
  by (simp only: table_facts)

lemmas MQRMH_values_cases = table_casesI [OF MQRMH_values_entries, unfolded MQRMH_values_def list.pred_inject entry_case.simps]

lemma MQSMPO_values_entries: "list_all (entry_fact a) (MQSMPO_values a)"
  by (simp only: table_facts)

lemmas MQSMPO_values_cases = table_casesI [OF MQSMPO_values_entries, unfolded MQSMPO_values_def list.pred_inject entry_case.simps]

lemma MQSRO_values_entries: "list_all (entry_fact a) (MQSRO_values a)"
  by (simp only: table_facts)

lemmas MQSRO_values_cases = table_casesI [OF MQSRO_values_entries, unfolded MQSRO_values_def list.pred_inject entry_case.simps]

lemma MQWIH_values_entries: "list_all (entry_fact a) (MQWIH_values a)"
  by (simp only: table_facts)

lemmas MQWIH_values_cases = table_casesI [OF MQWIH_values_entries, unfolded MQWIH_values_def list.pred_inject entry_case.simps]

lemma MQCC_values_entries: "list_all (entry_fact a) (MQCC_values a)"
  by (simp only: table_facts)

lemmas MQCC_values_cases = table_casesI [OF MQCC_values_entries, unfolded MQCC_values_def list.pred_inject entry_case.simps]

lemma MQSSL_FIPS_values_entries: "list_all (entry_fact a) (MQSSL_FIPS_values a)"
  by (simp only: table_facts)

lemmas MQSSL_FIPS_values_cases = table_casesI [OF MQSSL_FIPS_values_entries, unfolded MQSSL_FIPS_values_def list.pred_inject entry_case.simps]

lemma MQHM_values_entries: "list_all (entry_fact a) (MQHM_values a)"
  by (simp only: table_facts)

lemmas MQHM_values_cases = table_casesI [OF MQHM_values_entries, unfolded MQHM_values_def list.pred_inject entry_case.simps]

lemma MQRC_values_1_entries: "list_all (entry_fact a) (MQRC_values_1 a)"
  by (simp only: table_facts)

lemmas MQRC_values_1_cases = table_casesI [OF MQRC_values_1_entries, unfolded MQRC_values_1_def list.pred_inject entry_case.simps]

lemma MQRC_values_2_entries: "list_all (entry_fact a) (MQRC_values_2 a)"
  by (simp only: table_facts)

lemmas MQRC_values_2_cases = table_casesI [OF MQRC_values_2_entries, unfolded MQRC_values_2_def list.pred_inject entry_case.simps]

lemma MQRC_values_3_entries: "list_all (entry_fact a) (MQRC_values_3 a)"
  by (simp only: table_facts)

lemmas MQRC_values_3_cases = table_casesI [OF MQRC_values_3_entries, unfolded MQRC_values_3_def list.pred_inject entry_case.simps]

lemma MQRC_values_4_entries: "list_all (entry_fact a) (MQRC_values_4 a)"
  by (simp only: table_facts)

lemmas MQRC_values_4_cases = table_casesI [OF MQRC_values_4_entries, unfolded MQRC_values_4_def list.pred_inject entry_case.simps]

lemma MQRC_values_5_entries: "list_all (entry_fact a) (MQRC_values_5 a)"
  by (simp only: table_facts)

lemmas MQRC_values_5_cases = table_casesI [OF MQRC_values_5_entries, unfolded MQRC_values_5_def list.pred_inject entry_case.simps]

lemma cmqc_All_Functions_1_entries: "list_all (entry_fact a) (cmqc_All_Functions_1 a)"
  by (simp only: table_facts)

lemmas cmqc_All_Functions_1_cases = table_casesI [OF cmqc_All_Functions_1_entries, unfolded cmqc_All_Functions_1_def list.pred_inject entry_case.simps]

lemma cmqc_Queue_Attributes_entries: "list_all (entry_fact a) (cmqc_Queue_Attributes a)"
  by (simp only: table_facts)

lemmas cmqc_Queue_Attributes_cases = table_casesI [OF cmqc_Queue_Attributes_entries, unfolded cmqc_Queue_Attributes_def list.pred_inject entry_case.simps]

lemma cmqc_Namelist_Attributes_entries: "list_all (entry_fact a) (cmqc_Namelist_Attributes a)"
  by (simp only: table_facts)

lemmas cmqc_Namelist_Attributes_cases = table_casesI [OF cmqc_Namelist_Attributes_entries, unfolded cmqc_Namelist_Attributes_def list.pred_inject entry_case.simps]

lemma cmqc_CF_Structure_Attributes_entries: "list_all (entry_fact a) (cmqc_CF_Structure_Attributes a)"
  by (simp only: table_facts)

lemmas cmqc_CF_Structure_Attributes_cases = table_casesI [OF cmqc_CF_Structure_Attributes_entries, unfolded cmqc_CF_Structure_Attributes_def list.pred_inject entry_case.simps]

lemma cmqc_Service_Attributes_entries: "list_all (entry_fact a) (cmqc_Service_Attributes a)"
  by (simp only: table_facts)

lemmas cmqc_Service_Attributes_cases = table_casesI [OF cmqc_Service_Attributes_entries, unfolded cmqc_Service_Attributes_def list.pred_inject entry_case.simps]

lemma cmqc_QueueManager_Attributes_1_entries: "list_all (entry_fact a) (cmqc_QueueManager_Attributes_1 a)"
  by (simp only: table_facts)

lemmas cmqc_QueueManager_Attributes_1_cases = table_casesI [OF cmqc_QueueManager_Attributes_1_entries, unfolded cmqc_QueueManager_Attributes_1_def list.pred_inject entry_case.simps]

lemma cmqc_QueueManager_Attributes_2_entries: "list_all (entry_fact a) (cmqc_QueueManager_Attributes_2 a)"
  by (simp only: table_facts)

lemmas cmqc_QueueManager_Attributes_2_cases = table_casesI [OF cmqc_QueueManager_Attributes_2_entries, unfolded cmqc_QueueManager_Attributes_2_def list.pred_inject entry_case.simps]

lemma cmqc_QueueManager_Attributes_3_entries: "list_all (entry_fact a) (cmqc_QueueManager_Attributes_3 a)"
  by (simp only: table_facts)

lemmas cmqc_QueueManager_Attributes_3_cases = table_casesI [OF cmqc_QueueManager_Attributes_3_entries, unfolded cmqc_QueueManager_Attributes_3_def list.pred_inject entry_case.simps]

lemma cmqc_Topic_Attributes_entries: "list_all (entry_fact a) (cmqc_Topic_Attributes a)"
  by (simp only: table_facts)

lemmas cmqc_Topic_Attributes_cases = table_casesI [OF cmqc_Topic_Attributes_entries, unfolded cmqc_Topic_Attributes_def list.pred_inject entry_case.simps]

lemma cmqc_Subscription_Attributes_entries: "list_all (entry_fact a) (cmqc_Subscription_Attributes a)"
  by (simp only: table_facts)

lemmas cmqc_Subscription_Attributes_cases = table_casesI [OF cmqc_Subscription_Attributes_entries, unfolded cmqc_Subscription_Attributes_def list.pred_inject entry_case.simps]

lemma cmqc_Channel_Authentication_Configuration_1_entries: "list_all (entry_fact a) (cmqc_Channel_Authentication_Configuration_1 a)"
  by (simp only: table_facts)

lemmas cmqc_Channel_Authentication_Configuration_1_cases = table_casesI [OF cmqc_Channel_Authentication_Configuration_1_entries, unfolded cmqc_Channel_Authentication_Configuration_1_def list.pred_inject entry_case.simps]

lemma cmqc_Channel_Authentication_Configuration_2_entries: "list_all (entry_fact a) (cmqc_Channel_Authentication_Configuration_2 a)"
  by (simp only: table_facts)

lemmas cmqc_Channel_Authentication_Configuration_2_cases = table_casesI [OF cmqc_Channel_Authentication_Configuration_2_entries, unfolded cmqc_Channel_Authentication_Configuration_2_def list.pred_inject entry_case.simps]

lemma cmqc_MQCLOSE_Function_entries: "list_all (entry_fact a) (cmqc_MQCLOSE_Function a)"
  by (simp only: table_facts)

lemmas cmqc_MQCLOSE_Function_cases = table_casesI [OF cmqc_MQCLOSE_Function_entries, unfolded cmqc_MQCLOSE_Function_def list.pred_inject entry_case.simps]

lemma cmqc_MQCTL_and_MQCB_Functions_entries: "list_all (entry_fact a) (cmqc_MQCTL_and_MQCB_Functions a)"
  by (simp only: table_facts)

lemmas cmqc_MQCTL_and_MQCB_Functions_cases = table_casesI [OF cmqc_MQCTL_and_MQCB_Functions_entries, unfolded cmqc_MQCTL_and_MQCB_Functions_def list.pred_inject entry_case.simps]

lemma cmqc_MQINQ_Function_2_entries: "list_all (entry_fact a) (cmqc_MQINQ_Function_2 a)"
  by (simp only: table_facts)

lemmas cmqc_MQINQ_Function_2_cases = table_casesI [OF cmqc_MQINQ_Function_2_entries, unfolded cmqc_MQINQ_Function_2_def list.pred_inject entry_case.simps]

lemma cmqc_MQINQ_Function_3_entries: "list_all (entry_fact a) (cmqc_MQINQ_Function_3 a)"
  by (simp only: table_facts)

lemmas cmqc_MQINQ_Function_3_cases = table_casesI [OF cmqc_MQINQ_Function_3_entries, unfolded cmqc_MQINQ_Function_3_def list.pred_inject entry_case.simps]

lemma cmqc_MQINQ_Function_4_entries: "list_all (entry_fact a) (cmqc_MQINQ_Function_4 a)"
  by (simp only: table_facts)

lemmas cmqc_MQINQ_Function_4_cases = table_casesI [OF cmqc_MQINQ_Function_4_entries, unfolded cmqc_MQINQ_Function_4_def list.pred_inject entry_case.simps]

lemma cmqc_MQINQ_Function_5_entries: "list_all (entry_fact a) (cmqc_MQINQ_Function_5 a)"
  by (simp only: table_facts)

lemmas cmqc_MQINQ_Function_5_cases = table_casesI [OF cmqc_MQINQ_Function_5_entries, unfolded cmqc_MQINQ_Function_5_def list.pred_inject entry_case.simps]

lemma cmqc_MQINQ_Function_6_entries: "list_all (entry_fact a) (cmqc_MQINQ_Function_6 a)"
  by (simp only: table_facts)

lemmas cmqc_MQINQ_Function_6_cases = table_casesI [OF cmqc_MQINQ_Function_6_entries, unfolded cmqc_MQINQ_Function_6_def list.pred_inject entry_case.simps]

lemma cmqc_MQOPEN_Function_entries: "list_all (entry_fact a) (cmqc_MQOPEN_Function a)"
  by (simp only: table_facts)

lemmas cmqc_MQOPEN_Function_cases = table_casesI [OF cmqc_MQOPEN_Function_entries, unfolded cmqc_MQOPEN_Function_def list.pred_inject entry_case.simps]

lemma cmqc_MQSETMP_Function_entries: "list_all (entry_fact a) (cmqc_MQSETMP_Function a)"
  by (simp only: table_facts)

lemmas cmqc_MQSETMP_Function_cases = table_casesI [OF cmqc_MQSETMP_Function_entries, unfolded cmqc_MQSETMP_Function_def list.pred_inject entry_case.simps]

lemma cmqc_MQSTAT_Function_entries: "list_all (entry_fact a) (cmqc_MQSTAT_Function a)"
  by (simp only: table_facts)

lemmas cmqc_MQSTAT_Function_cases = table_casesI [OF cmqc_MQSTAT_Function_entries, unfolded cmqc_MQSTAT_Function_def list.pred_inject entry_case.simps]

lemma cmqc_MQSUB_Function_entries: "list_all (entry_fact a) (cmqc_MQSUB_Function a)"
  by (simp only: table_facts)

lemmas cmqc_MQSUB_Function_cases = table_casesI [OF cmqc_MQSUB_Function_entries, unfolded cmqc_MQSUB_Function_def list.pred_inject entry_case.simps]

lemma cmqc_MQSUBRQ_Function_entries: "list_all (entry_fact a) (cmqc_MQSUBRQ_Function a)"
  by (simp only: table_facts)

lemmas cmqc_MQSUBRQ_Function_cases = table_casesI [OF cmqc_MQSUBRQ_Function_entries, unfolded cmqc_MQSUBRQ_Function_def list.pred_inject entry_case.simps]

lemmas MQMD_values_1_members = MQMD_values_1_entries [unfolded MQMD_values_1_def list.pred_inject]

lemmas MQMD_values_2_members = MQMD_values_2_entries [unfolded MQMD_values_2_def list.pred_inject]

lemmas MQGMO_values_members = MQGMO_values_entries [unfolded MQGMO_values_def list.pred_inject]

lemmas MQMD_values_3_members = MQMD_values_3_entries [unfolded MQMD_values_3_def list.pred_inject]

lemmas MQPD_values_members = MQPD_values_entries [unfolded MQPD_values_def list.pred_inject]

lemmas MQRFH_values_members = MQRFH_values_entries [unfolded MQRFH_values_def list.pred_inject]

lemma MQENC_RESERVED_MASK_case: "case_fact a (- 4096, ''MQENC_RESERVED_MASK'')"
  by (rule mask_case [where w = 4294963200]) (simp_all add: MQMD_values_1_members cong: case_congs)

lemma MQENC_NORMAL_case: "case_fact a (273, ''MQENC_NORMAL'')"
  by (rule or_case [where x = "''MQENC_FLOAT_IEEE_NORMAL''" and y = "''MQENC_DECIMAL_NORMAL''" and z = "''MQENC_INTEGER_NORMAL''"
        and u = 256 and v = 16 and w = 1])
     (simp_all add: MQMD_values_1_members MQMD_values_2_members cong: case_congs)

lemma MQENC_REVERSED_case: "case_fact a (546, ''MQENC_REVERSED'')"
  by (rule or_case [where x = "''MQENC_FLOAT_IEEE_REVERSED''" and y = "''MQENC_DECIMAL_REVERSED''" and z = "''MQENC_INTEGER_REVERSED''"
        and u = 512 and v = 32 and w = 2])
     (simp_all add: MQMD_values_1_members MQMD_values_2_members cong: case_congs)

lemma MQENC_S390_case: "case_fact a (785, ''MQENC_S390'')"
  by (rule or_case [where x = "''MQENC_FLOAT_S390''" and y = "''MQENC_DECIMAL_NORMAL''" and z = "''MQENC_INTEGER_NORMAL''"
        and u = 768 and v = 16 and w = 1])
     (simp_all add: MQMD_values_1_members MQMD_values_2_members cong: case_congs)

lemma MQENC_TNS_case: "case_fact a (1041, ''MQENC_TNS'')"
  by (rule or_case [where x = "''MQENC_FLOAT_TNS''" and y = "''MQENC_DECIMAL_NORMAL''" and z = "''MQENC_INTEGER_NORMAL''"
        and u = 1024 and v = 16 and w = 1])
     (simp_all add: MQMD_values_1_members MQMD_values_2_members cong: case_congs)

lemma MQGMO_BROWSE_HANDLE_case: "case_fact a (17825808, ''MQGMO_BROWSE_HANDLE'')"
  by (rule or_case [where x = "''MQGMO_BROWSE_FIRST''" and y = "''MQGMO_UNMARKED_BROWSE_MSG''" and z = "''MQGMO_MARK_BROWSE_HANDLE''"
        and u = 16 and v = 16777216 and w = 1048576])
     (simp_all add: MQGMO_values_members cong: case_congs)

lemma MQGMO_BROWSE_CO_OP_case: "case_fact a (18874384, ''MQGMO_BROWSE_CO_OP'')"
  by (rule or_case [where x = "''MQGMO_BROWSE_FIRST''" and y = "''MQGMO_UNMARKED_BROWSE_MSG''" and z = "''MQGMO_MARK_BROWSE_CO_OP''"
        and u = 16 and v = 16777216 and w = 2097152])
     (simp_all add: MQGMO_values_members cong: case_congs)

lemma MQMF_ACCEPT_UNSUP_MASK_case: "case_fact a (- 1048576, ''MQMF_ACCEPT_UNSUP_MASK'')"
  by (rule mask_case [where w = 4293918720]) (simp_all add: MQMD_values_3_members cong: case_congs)

lemma MQPD_REJECT_UNSUP_MASK_case: "case_fact a (- 1048576, ''MQPD_REJECT_UNSUP_MASK'')"
  by (rule mask_case [where w = 4293918720]) (simp_all add: MQPD_values_members cong: case_congs)

lemma MQRFH_FLAGS_RESTRICTED_MASK_case: "case_fact a (- 65536, ''MQRFH_FLAGS_RESTRICTED_MASK'')"
  by (rule mask_case [where w = 4294901760]) (simp_all add: MQRFH_values_members cong: case_congs)

lemma MQRO_ACCEPT_UNSUP_MASK_case: "case_fact a (- 270532353, ''MQRO_ACCEPT_UNSUP_MASK'')"
  by (rule mask_case [where w = 4024434943]) (simp_all add: MQMD_values_1_members cong: case_congs)

lemmas combined_cases = MQENC_RESERVED_MASK_case MQENC_NORMAL_case MQENC_REVERSED_case MQENC_S390_case MQENC_TNS_case MQGMO_BROWSE_HANDLE_case MQGMO_BROWSE_CO_OP_case MQMF_ACCEPT_UNSUP_MASK_case MQPD_REJECT_UNSUP_MASK_case MQRFH_FLAGS_RESTRICTED_MASK_case MQRO_ACCEPT_UNSUP_MASK_case

end
