(* ===== verification/Mqi_Facts_P.thy ===== *)
theory Mqi_Facts_P
  imports Mqi_Macros
begin

text \<open>
  The tables of \<open>cmqcfc.h\<close>, \<open>cmqxc.h\<close>, \<open>cmqzc.h\<close>, \<open>cmqbc.h\<close> and \<open>cmqec.h\<close> read off as one fact per macro.
\<close>

lemma cmqcfc_MQCFH_2_entries: "list_all (entry_fact a) (cmqcfc_MQCFH_2 a)"
  by (simp only: table_facts)

lemmas cmqcfc_MQCFH_2_cases = table_casesI [OF cmqcfc_MQCFH_2_entries, unfolded cmqcfc_MQCFH_2_def list.pred_inject entry_case.simps]

lemma cmqcfc_MQCFH_3_entries: "list_all (entry_fact a) (cmqcfc_MQCFH_3 a)"
  by (simp only: table_facts)

lemmas cmqcfc_MQCFH_3_cases = table_casesI [OF cmqcfc_MQCFH_3_entries, unfolded cmqcfc_MQCFH_3_def list.pred_inject entry_case.simps]

lemma cmqcfc_MQCFH_4_entries: "list_all (entry_fact a) (cmqcfc_MQCFH_4 a)"
  by (simp only: table_facts)

lemmas cmqcfc_MQCFH_4_cases = table_casesI [OF cmqcfc_MQCFH_4_entries, unfolded cmqcfc_MQCFH_4_def list.pred_inject entry_case.simps]

lemma cmqcfc_MQCFH_5_entries: "list_all (entry_fact a) (cmqcfc_MQCFH_5 a)"
  by (simp only: table_facts)

lemmas cmqcfc_MQCFH_5_cases = table_casesI [OF cmqcfc_MQCFH_5_entries, unfolded cmqcfc_MQCFH_5_def list.pred_inject entry_case.simps]

lemma cmqcfc_MQCFH_6_entries: "list_all (entry_fact a) (cmqcfc_MQCFH_6 a)"
  by (simp only: table_facts)

lemmas cmqcfc_MQCFH_6_cases = table_casesI [OF cmqcfc_MQCFH_6_entries, unfolded cmqcfc_MQCFH_6_def list.pred_inject entry_case.simps]

lemma cmqcfc_MQCFH_7_entries: "list_all (entry_fact a) (cmqcfc_MQCFH_7 a)"
  by (simp only: table_facts)

lemmas cmqcfc_MQCFH_7_cases = table_casesI [OF cmqcfc_MQCFH_7_entries, unfolded cmqcfc_MQCFH_7_def list.pred_inject entry_case.simps]

lemma cmqcfc_MQEPH_entries: "list_all (entry_fact a) (cmqcfc_MQEPH a)"
  by (simp only: table_facts)

lemmas cmqcfc_MQEPH_cases = table_casesI [OF cmqcfc_MQEPH_entries, unfolded cmqcfc_MQEPH_def list.pred_inject entry_case.simps]

lemma cmqcfc_All_entries: "list_all (entry_fact a) (cmqcfc_All a)"
  by (simp only: table_facts)

lemmas cmqcfc_All_cases = table_casesI [OF cmqcfc_All_entries, unfolded cmqcfc_All_def list.pred_inject entry_case.simps]

lemma cmqcfc_Byte_Parameter_entries: "list_all (entry_fact a) (cmqcfc_Byte_Parameter a)"
  by (simp only: table_facts)

lemmas cmqcfc_Byte_Parameter_cases = table_casesI [OF cmqcfc_Byte_Parameter_entries, unfolded cmqcfc_Byte_Parameter_def list.pred_inject entry_case.simps]

lemma cmqcfc_Integer_Parameter_1_entries: "list_all (entry_fact a) (cmqcfc_Integer_Parameter_1 a)"
  by (simp only: table_facts)

lemmas cmqcfc_Integer_Parameter_1_cases = table_casesI [OF cmqcfc_Integer_Parameter_1_entries, unfolded cmqcfc_Integer_Parameter_1_def list.pred_inject entry_case.simps]

lemma cmqcfc_Integer_Parameter_2_entries: "list_all (entry_fact a) (cmqcfc_Integer_Parameter_2 a)"
  by (simp only: table_facts)

lemmas cmqcfc_Integer_Parameter_2_cases = table_casesI [OF cmqcfc_Integer_Parameter_2_entries, unfolded cmqcfc_Integer_Parameter_2_def list.pred_inject entry_case.simps]

lemma cmqcfc_Integer_Parameter_3_entries: "list_all (entry_fact a) (cmqcfc_Integer_Parameter_3 a)"
  by (simp only: table_facts)

lemmas cmqcfc_Integer_Parameter_3_cases = table_casesI [OF cmqcfc_Integer_Parameter_3_entries, unfolded cmqcfc_Integer_Parameter_3_def list.pred_inject entry_case.simps]

lemma cmqcfc_Integer_Parameter_4_entries: "list_all (entry_fact a) (cmqcfc_Integer_Parameter_4 a)"
  by (simp only: table_facts)

lemmas cmqcfc_Integer_Parameter_4_cases = table_casesI [OF cmqcfc_Integer_Parameter_4_entries, unfolded cmqcfc_Integer_Parameter_4_def list.pred_inject entry_case.simps]

lemma cmqcfc_Integer_Parameter_5_entries: "list_all (entry_fact a) (cmqcfc_Integer_Parameter_5 a)"
  by (simp only: table_facts)

lemmas cmqcfc_Integer_Parameter_5_cases = table_casesI [OF cmqcfc_Integer_Parameter_5_entries, unfolded cmqcfc_Integer_Parameter_5_def list.pred_inject entry_case.simps]

lemma cmqcfc_Integer_Parameter_6_entries: "list_all (entry_fact a) (cmqcfc_Integer_Parameter_6 a)"
  by (simp only: table_facts)

lemmas cmqcfc_Integer_Parameter_6_cases = table_casesI [OF cmqcfc_Integer_Parameter_6_entries, unfolded cmqcfc_Integer_Parameter_6_def list.pred_inject entry_case.simps]

lemma cmqcfc_Integer_Parameter_7_entries: "list_all (entry_fact a) (cmqcfc_Integer_Parameter_7 a)"
  by (simp only: table_facts)

lemmas cmqcfc_Integer_Parameter_7_cases = table_casesI [OF cmqcfc_Integer_Parameter_7_entries, unfolded cmqcfc_Integer_Parameter_7_def list.pred_inject entry_case.simps]

lemma cmqcfc_Integer_Parameter_8_entries: "list_all (entry_fact a) (cmqcfc_Integer_Parameter_8 a)"
  by (simp only: table_facts)

lemmas cmqcfc_Integer_Parameter_8_cases = table_casesI [OF cmqcfc_Integer_Parameter_8_entries, unfolded cmqcfc_Integer_Parameter_8_def list.pred_inject entry_case.simps]

lemma cmqcfc_Character_Parameter_1_entries: "list_all (entry_fact a) (cmqcfc_Character_Parameter_1 a)"
  by (simp only: table_facts)

lemmas cmqcfc_Character_Parameter_1_cases = table_casesI [OF cmqcfc_Character_Parameter_1_entries, unfolded cmqcfc_Character_Parameter_1_def list.pred_inject entry_case.simps]

lemma cmqcfc_Character_Parameter_2_entries: "list_all (entry_fact a) (cmqcfc_Character_Parameter_2 a)"
  by (simp only: table_facts)

lemmas cmqcfc_Character_Parameter_2_cases = table_casesI [OF cmqcfc_Character_Parameter_2_entries, unfolded cmqcfc_Character_Parameter_2_def list.pred_inject entry_case.simps]

lemma cmqcfc_Character_Parameter_3_entries: "list_all (entry_fact a) (cmqcfc_Character_Parameter_3 a)"
  by (simp only: table_facts)

lemmas cmqcfc_Character_Parameter_3_cases = table_casesI [OF cmqcfc_Character_Parameter_3_entries, unfolded cmqcfc_Character_Parameter_3_def list.pred_inject entry_case.simps]

lemma cmqcfc_Character_Parameter_4_entries: "list_all (entry_fact a) (cmqcfc_Character_Parameter_4 a)"
  by (simp only: table_facts)

lemmas cmqcfc_Character_Parameter_4_cases = table_casesI [OF cmqcfc_Character_Parameter_4_entries, unfolded cmqcfc_Character_Parameter_4_def list.pred_inject entry_case.simps]

lemma cmqcfc_Group_Parameter_1_entries: "list_all (entry_fact a) (cmqcfc_Group_Parameter_1 a)"
  by (simp only: table_facts)

lemmas cmqcfc_Group_Parameter_1_cases = table_casesI [OF cmqcfc_Group_Parameter_1_entries, unfolded cmqcfc_Group_Parameter_1_def list.pred_inject entry_case.simps]

lemma cmqcfc_Group_Parameter_2_entries: "list_all (entry_fact a) (cmqcfc_Group_Parameter_2 a)"
  by (simp only: table_facts)

lemmas cmqcfc_Group_Parameter_2_cases = table_casesI [OF cmqcfc_Group_Parameter_2_entries, unfolded cmqcfc_Group_Parameter_2_def list.pred_inject entry_case.simps]

lemma cmqcfc_Group_Parameter_3_entries: "list_all (entry_fact a) (cmqcfc_Group_Parameter_3 a)"
  by (simp only: table_facts)

lemmas cmqcfc_Group_Parameter_3_cases = table_casesI [OF cmqcfc_Group_Parameter_3_entries, unfolded cmqcfc_Group_Parameter_3_def list.pred_inject entry_case.simps]

lemma cmqcfc_Group_Parameter_4_entries: "list_all (entry_fact a) (cmqcfc_Group_Parameter_4 a)"
  by (simp only: table_facts)

lemmas cmqcfc_Group_Parameter_4_cases = table_casesI [OF cmqcfc_Group_Parameter_4_entries, unfolded cmqcfc_Group_Parameter_4_def list.pred_inject entry_case.simps]

lemma cmqcfc_Group_Parameter_5_entries: "list_all (entry_fact a) (cmqcfc_Group_Parameter_5 a)"
  by (simp only: table_facts)

lemmas cmqcfc_Group_Parameter_5_cases = table_casesI [OF cmqcfc_Group_Parameter_5_entries, unfolded cmqcfc_Group_Parameter_5_def list.pred_inject entry_case.simps]

lemma cmqcfc_Group_Parameter_6_entries: "list_all (entry_fact a) (cmqcfc_Group_Parameter_6 a)"
  by (simp only: table_facts)

lemmas cmqcfc_Group_Parameter_6_cases = table_casesI [OF cmqcfc_Group_Parameter_6_entries, unfolded cmqcfc_Group_Parameter_6_def list.pred_inject entry_case.simps]

lemma cmqcfc_Group_Parameter_7_entries: "list_all (entry_fact a) (cmqcfc_Group_Parameter_7 a)"
  by (simp only: table_facts)

lemmas cmqcfc_Group_Parameter_7_cases = table_casesI [OF cmqcfc_Group_Parameter_7_entries, unfolded cmqcfc_Group_Parameter_7_def list.pred_inject entry_case.simps]

lemma cmqcfc_Trace_route_and_Activity_Operations_entries: "list_all (entry_fact a) (cmqcfc_Trace_route_and_Activity_Operations a)"
  by (simp only: table_facts)

lemmas cmqcfc_Trace_route_and_Activity_Operations_cases = table_casesI [OF cmqcfc_Trace_route_and_Activity_Operations_entries, unfolded cmqcfc_Trace_route_and_Activity_Operations_def list.pred_inject entry_case.simps]

lemma cmqcfc_Publish_Subscribe_entries: "list_all (entry_fact a) (cmqcfc_Publish_Subscribe a)"
  by (simp only: table_facts)

lemmas cmqcfc_Publish_Subscribe_cases = table_casesI [OF cmqcfc_Publish_Subscribe_entries, unfolded cmqcfc_Publish_Subscribe_def list.pred_inject entry_case.simps]

lemma cmqxc_MQCD_1_entries: "list_all (entry_fact a) (cmqxc_MQCD_1 a)"
  by (simp only: table_facts)

lemmas cmqxc_MQCD_1_cases = table_casesI [OF cmqxc_MQCD_1_entries, unfolded cmqxc_MQCD_1_def list.pred_inject entry_case.simps]

lemma cmqxc_MQCD_2_entries: "list_all (entry_fact a) (cmqxc_MQCD_2 a)"
  by (simp only: table_facts)

lemmas cmqxc_MQCD_2_cases = table_casesI [OF cmqxc_MQCD_2_entries, unfolded cmqxc_MQCD_2_def list.pred_inject entry_case.simps]

lemma cmqxc_MQAXC_entries: "list_all (entry_fact a) (cmqxc_MQAXC a)"
  by (simp only: table_facts)

lemmas cmqxc_MQAXC_cases = table_casesI [OF cmqxc_MQAXC_entries, unfolded cmqxc_MQAXC_def list.pred_inject entry_case.simps]

lemma cmqxc_MQAXP_entries: "list_all (entry_fact a) (cmqxc_MQAXP a)"
  by (simp only: table_facts)

lemmas cmqxc_MQAXP_cases = table_casesI [OF cmqxc_MQAXP_entries, unfolded cmqxc_MQAXP_def list.pred_inject entry_case.simps]

lemma cmqxc_MQCXP_entries: "list_all (entry_fact a) (cmqxc_MQCXP a)"
  by (simp only: table_facts)

lemmas cmqxc_MQCXP_cases = table_casesI [OF cmqxc_MQCXP_entries, unfolded cmqxc_MQCXP_def list.pred_inject entry_case.simps]

lemma cmqxc_MQDXP_entries: "list_all (entry_fact a) (cmqxc_MQDXP a)"
  by (simp only: table_facts)

lemmas cmqxc_MQDXP_cases = table_casesI [OF cmqxc_MQDXP_entries, unfolded cmqxc_MQDXP_def list.pred_inject entry_case.simps]

lemma cmqxc_MQWDR_entries: "list_all (entry_fact a) (cmqxc_MQWDR a)"
  by (simp only: table_facts)

lemmas cmqxc_MQWDR_cases = table_casesI [OF cmqxc_MQWDR_entries, unfolded cmqxc_MQWDR_def list.pred_inject entry_case.simps]

lemma cmqxc_MQWQR_entries: "list_all (entry_fact a) (cmqxc_MQWQR a)"
  by (simp only: table_facts)

lemmas cmqxc_MQWQR_cases = table_casesI [OF cmqxc_MQWQR_entries, unfolded cmqxc_MQWQR_def list.pred_inject entry_case.simps]

lemma cmqxc_MQWXP_entries: "list_all (entry_fact a) (cmqxc_MQWXP a)"
  by (simp only: table_facts)

lemmas cmqxc_MQWXP_cases = table_casesI [OF cmqxc_MQWXP_entries, unfolded cmqxc_MQWXP_def list.pred_inject entry_case.simps]

lemma cmqxc_MQXEPO_1_entries: "list_all (entry_fact a) (cmqxc_MQXEPO_1 a)"
  by (simp only: table_facts)

lemmas cmqxc_MQXEPO_1_cases = table_casesI [OF cmqxc_MQXEPO_1_entries, unfolded cmqxc_MQXEPO_1_def list.pred_inject entry_case.simps]

lemma cmqxc_MQXEPO_2_entries: "list_all (entry_fact a) (cmqxc_MQXEPO_2 a)"
  by (simp only: table_facts)

lemmas cmqxc_MQXEPO_2_cases = table_casesI [OF cmqxc_MQXEPO_2_entries, unfolded cmqxc_MQXEPO_2_def list.pred_inject entry_case.simps]

lemma cmqxc_MQXCNVC_Function_entries: "list_all (entry_fact a) (cmqxc_MQXCNVC_Function a)"
  by (simp only: table_facts)

lemmas cmqxc_MQXCNVC_Function_cases = table_casesI [OF cmqxc_MQXCNVC_Function_entries, unfolded cmqxc_MQXCNVC_Function_def list.pred_inject entry_case.simps]

lemma cmqzc_MQZAC_entries: "list_all (entry_fact a) (cmqzc_MQZAC a)"
  by (simp only: table_facts)

lemmas cmqzc_MQZAC_cases = table_casesI [OF cmqzc_MQZAC_entries, unfolded cmqzc_MQZAC_def list.pred_inject entry_case.simps]

lemma cmqzc_All_Services_entries: "list_all (entry_fact a) (cmqzc_All_Services a)"
  by (simp only: table_facts)

lemmas cmqzc_All_Services_cases = table_casesI [OF cmqzc_All_Services_entries, unfolded cmqzc_All_Services_def list.pred_inject entry_case.simps]

lemma cmqzc_Authority_Service_entries: "list_all (entry_fact a) (cmqzc_Authority_Service a)"
  by (simp only: table_facts)

lemmas cmqzc_Authority_Service_cases = table_casesI [OF cmqzc_Authority_Service_entries, unfolded cmqzc_Authority_Service_def list.pred_inject entry_case.simps]

lemma cmqzc_MQZEP_Function_entries: "list_all (entry_fact a) (cmqzc_MQZEP_Function a)"
  by (simp only: table_facts)

lemmas cmqzc_MQZEP_Function_cases = table_casesI [OF cmqzc_MQZEP_Function_entries, unfolded cmqzc_MQZEP_Function_def list.pred_inject entry_case.simps]

lemma cmqbc_Specific_Functions_entries: "list_all (entry_fact a) (cmqbc_Specific_Functions a)"
  by (simp only: table_facts)

lemmas cmqbc_Specific_Functions_cases = table_casesI [OF cmqbc_Specific_Functions_entries, unfolded cmqbc_Specific_Functions_def list.pred_inject entry_case.simps]

lemma cmqbc_Most_Functions_1_entries: "list_all (entry_fact a) (cmqbc_Most_Functions_1 a)"
  by (simp only: table_facts)

lemmas cmqbc_Most_Functions_1_cases = table_casesI [OF cmqbc_Most_Functions_1_entries, unfolded cmqbc_Most_Functions_1_def list.pred_inject entry_case.simps]

lemma cmqec_MQIEP_entries: "list_all (entry_fact a) (cmqec_MQIEP a)"
  by (simp only: table_facts)

lemmas cmqec_MQIEP_cases = table_casesI [OF cmqec_MQIEP_entries, unfolded cmqec_MQIEP_def list.pred_inject entry_case.simps]

lemmas cmqcfc_Trace_route_and_Activity_Operations_members = cmqcfc_Trace_route_and_Activity_Operations_entries [unfolded cmqcfc_Trace_route_and_Activity_Operations_def list.pred_inject]

lemma MQROUTE_DELIVER_REJ_UNSUP_MASK_case: "case_fact a (- 65536, ''MQROUTE_DELIVER_REJ_UNSUP_MASK'')"
  by (rule mask_case [where w = 4294901760]) (simp_all add: cmqcfc_Trace_route_and_Activity_Operations_members cong: case_congs)

lemmas mask_cases = MQROUTE_DELIVER_REJ_UNSUP_MASK_case

end
