(* ===== verification/Mqi_Names_A.thy ===== *)
theory Mqi_Names_A
  imports Mqi_Facts_C Mqi_Facts_P
begin

text \<open>
  The functions \<open>MQACTIVE_STR\<close> to \<open>MQCMD_STR\<close> of \<open>cmqstrc.h\<close>.
\<close>

definition MQACTIVE_STR :: "int \<Rightarrow> string" where
  "MQACTIVE_STR v = c_switch
     [(0, ''MQACTIVE_NO''), (1, ''MQACTIVE_YES'')] v"

definition MQACTP_STR :: "int \<Rightarrow> string" where
  "MQACTP_STR v = c_switch
     [(0, ''MQACTP_NEW''), (1, ''MQACTP_FORWARD''), (2, ''MQACTP_REPLY''),
      (3, ''MQACTP_REPORT'')] v"

definition MQACTV_STR :: "int \<Rightarrow> string" where
  "MQACTV_STR v = c_switch
     [(1, ''MQACTV_DETAIL_LOW''), (2, ''MQACTV_DETAIL_MEDIUM''), (3, ''MQACTV_DETAIL_HIGH'')] v"

definition MQACT_STR :: "int \<Rightarrow> string" where
  "MQACT_STR v = c_switch
     [(1, ''MQACT_FORCE_REMOVE''), (2, ''MQACT_ADVANCE_LOG''),
      (3, ''MQACT_COLLECT_STATISTICS''), (4, ''MQACT_PUBSUB''), (5, ''MQACT_ADD''),
      (6, ''MQACT_REPLACE''), (7, ''MQACT_REMOVE''), (8, ''MQACT_REMOVEALL''),
      (9, ''MQACT_FAIL''), (10, ''MQACT_REDUCE_LOG''), (11, ''MQACT_ARCHIVE_LOG'')] v"

definition MQADOPT_CHECK_STR :: "int \<Rightarrow> string" where
  "MQADOPT_CHECK_STR v = c_switch
     [(0, ''MQADOPT_CHECK_NONE''), (1, ''MQADOPT_CHECK_ALL''),
      (2, ''MQADOPT_CHECK_Q_MGR_NAME''), (4, ''MQADOPT_CHECK_NET_ADDR''),
      (8, ''MQADOPT_CHECK_CHANNEL_NAME'')] v"

definition MQADOPT_TYPE_STR :: "int \<Rightarrow> string" where
  "MQADOPT_TYPE_STR v = c_switch
     [(0, ''MQADOPT_TYPE_NO''), (1, ''MQADOPT_TYPE_ALL''), (2, ''MQADOPT_TYPE_SVR''),
      (4, ''MQADOPT_TYPE_SDR''), (8, ''MQADOPT_TYPE_RCVR''), (16, ''MQADOPT_TYPE_CLUSRCVR'')] v"

definition MQADPCTX_STR :: "int \<Rightarrow> string" where
  "MQADPCTX_STR v = c_switch
     [(0, ''MQADPCTX_NO''), (1, ''MQADPCTX_YES'')] v"

definition MQAIT_STR :: "int \<Rightarrow> string" where
  "MQAIT_STR v = c_switch
     [(0, ''MQAIT_ALL''), (1, ''MQAIT_CRL_LDAP''), (2, ''MQAIT_OCSP''), (3, ''MQAIT_IDPW_OS''),
      (4, ''MQAIT_IDPW_LDAP'')] v"

definition MQAPPL_STR :: "int \<Rightarrow> string" where
  "MQAPPL_STR v = c_switch
     [(0, ''MQAPPL_IMMOVABLE''), (1, ''MQAPPL_MOVABLE'')] v"

definition MQAS_STR :: "int \<Rightarrow> string" where
  "MQAS_STR v = c_switch
     [(0, ''MQAS_NONE''), (1, ''MQAS_STARTED''), (2, ''MQAS_START_WAIT''),
      (3, ''MQAS_STOPPED''), (4, ''MQAS_SUSPENDED''), (5, ''MQAS_SUSPENDED_TEMPORARY''),
      (6, ''MQAS_ACTIVE''), (7, ''MQAS_INACTIVE'')] v"

definition MQAT_STR :: "int \<Rightarrow> string" where
  "MQAT_STR v = c_switch
     [(- 1, ''MQAT_UNKNOWN''), (0, ''MQAT_NO_CONTEXT''), (1, ''MQAT_CICS''), (2, ''MQAT_ZOS''),
      (3, ''MQAT_IMS''), (4, ''MQAT_OS2''), (5, ''MQAT_DOS''), (6, ''MQAT_UNIX''),
      (7, ''MQAT_QMGR''), (8, ''MQAT_OS400''), (9, ''MQAT_WINDOWS''), (10, ''MQAT_CICS_VSE''),
      (11, ''MQAT_WINDOWS_NT''), (12, ''MQAT_VMS''), (13, ''MQAT_NSK''), (14, ''MQAT_VOS''),
      (15, ''MQAT_OPEN_TP1''), (18, ''MQAT_VM''), (19, ''MQAT_IMS_BRIDGE''), (20, ''MQAT_XCF''),
      (21, ''MQAT_CICS_BRIDGE''), (22, ''MQAT_NOTES_AGENT''), (23, ''MQAT_TPF''),
      (25, ''MQAT_USER''), (26, ''MQAT_QMGR_PUBLISH''), (28, ''MQAT_JAVA''), (29, ''MQAT_DQM''),
      (30, ''MQAT_CHANNEL_INITIATOR''), (31, ''MQAT_WLM''), (32, ''MQAT_BATCH''),
      (33, ''MQAT_RRS_BATCH''), (34, ''MQAT_SIB''), (35, ''MQAT_SYSTEM_EXTENSION''),
      (36, ''MQAT_MCAST_PUBLISH''), (37, ''MQAT_AMQP'')] v"

definition MQAUTHENTICATE_STR :: "int \<Rightarrow> string" where
  "MQAUTHENTICATE_STR v = c_switch
     [(0, ''MQAUTHENTICATE_OS''), (1, ''MQAUTHENTICATE_PAM'')] v"

definition MQAUTHOPT_STR :: "int \<Rightarrow> string" where
  "MQAUTHOPT_STR v = c_switch
     [(1, ''MQAUTHOPT_ENTITY_EXPLICIT''), (2, ''MQAUTHOPT_ENTITY_SET''),
      (16, ''MQAUTHOPT_NAME_EXPLICIT''), (32, ''MQAUTHOPT_NAME_ALL_MATCHING''),
      (64, ''MQAUTHOPT_NAME_AS_WILDCARD''), (256, ''MQAUTHOPT_CUMULATIVE''),
      (512, ''MQAUTHOPT_EXCLUDE_TEMP'')] v"

definition MQAUTH_STR :: "int \<Rightarrow> string" where
  "MQAUTH_STR v = c_switch
     [(- 3, ''MQAUTH_ALL_MQI''), (- 2, ''MQAUTH_ALL_ADMIN''), (- 1, ''MQAUTH_ALL''),
      (0, ''MQAUTH_NONE''), (1, ''MQAUTH_ALT_USER_AUTHORITY''), (2, ''MQAUTH_BROWSE''),
      (3, ''MQAUTH_CHANGE''), (4, ''MQAUTH_CLEAR''), (5, ''MQAUTH_CONNECT''),
      (6, ''MQAUTH_CREATE''), (7, ''MQAUTH_DELETE''), (8, ''MQAUTH_DISPLAY''),
      (9, ''MQAUTH_INPUT''), (10, ''MQAUTH_INQUIRE''), (11, ''MQAUTH_OUTPUT''),
      (12, ''MQAUTH_PASS_ALL_CONTEXT''), (13, ''MQAUTH_PASS_IDENTITY_CONTEXT''),
      (14, ''MQAUTH_SET''), (15, ''MQAUTH_SET_ALL_CONTEXT''),
      (16, ''MQAUTH_SET_IDENTITY_CONTEXT''), (17, ''MQAUTH_CONTROL''),
      (18, ''MQAUTH_CONTROL_EXTENDED''), (19, ''MQAUTH_PUBLISH''), (20, ''MQAUTH_SUBSCRIBE''),
      (21, ''MQAUTH_RESUME''), (22, ''MQAUTH_SYSTEM'')] v"

lemmas names_A1_defs =
  MQACTIVE_STR_def MQACTP_STR_def MQACTV_STR_def MQACT_STR_def MQADOPT_CHECK_STR_def
  MQADOPT_TYPE_STR_def MQADPCTX_STR_def MQAIT_STR_def MQAPPL_STR_def MQAS_STR_def MQAT_STR_def
  MQAUTHENTICATE_STR_def MQAUTHOPT_STR_def

lemmas names_A1_facts =
  cmqcfc_Group_Parameter_2_cases MQPMO_values_cases cmqc_QueueManager_Attributes_2_cases
  cmqc_QueueManager_Attributes_1_cases cmqcfc_Group_Parameter_6_cases MQAIR_values_cases
  MQMD_values_3_cases

lemma names_A1:
  "list_all (names_ok a)
     [MQACTIVE_STR, MQACTP_STR, MQACTV_STR, MQACT_STR, MQADOPT_CHECK_STR, MQADOPT_TYPE_STR,
      MQADPCTX_STR, MQAIT_STR, MQAPPL_STR, MQAS_STR, MQAT_STR, MQAUTHENTICATE_STR, MQAUTHOPT_STR]"
  unfolding list.pred_inject
  by (intro conjI list.pred_inject(1);
      rule names_okI, rule names_A1_defs, simp only: names_A1_facts case_simps cong: case_congs)

definition MQAUTOCLUS_STR :: "int \<Rightarrow> string" where
  "MQAUTOCLUS_STR v = c_switch
     [(0, ''MQAUTOCLUS_TYPE_NONE''), (1, ''MQAUTOCLUS_TYPE_UNIFORM'')] v"

definition MQAUTO_STR :: "int \<Rightarrow> string" where
  "MQAUTO_STR v = c_switch
     [(0, ''MQAUTO_START_NO''), (1, ''MQAUTO_START_YES'')] v"

definition MQBACF_STR :: "int \<Rightarrow> string" where
  "MQBACF_STR v = c_switch
     [(7001, ''MQBACF_EVENT_ACCOUNTING_TOKEN''), (7002, ''MQBACF_EVENT_SECURITY_ID''),
      (7003, ''MQBACF_RESPONSE_SET''), (7004, ''MQBACF_RESPONSE_ID''),
      (7005, ''MQBACF_EXTERNAL_UOW_ID''), (7006, ''MQBACF_CONNECTION_ID''),
      (7007, ''MQBACF_GENERIC_CONNECTION_ID''), (7008, ''MQBACF_ORIGIN_UOW_ID''),
      (7009, ''MQBACF_Q_MGR_UOW_ID''), (7010, ''MQBACF_ACCOUNTING_TOKEN''),
      (7011, ''MQBACF_CORREL_ID''), (7012, ''MQBACF_GROUP_ID''), (7013, ''MQBACF_MSG_ID''),
      (7014, ''MQBACF_CF_LEID''), (7015, ''MQBACF_DESTINATION_CORREL_ID''),
      (7016, ''MQBACF_SUB_ID''), (7019, ''MQBACF_ALTERNATE_SECURITYID''),
      (7020, ''MQBACF_MESSAGE_DATA''), (7021, ''MQBACF_MQBO_STRUCT''),
      (7022, ''MQBACF_MQCB_FUNCTION''), (7023, ''MQBACF_MQCBC_STRUCT''),
      (7024, ''MQBACF_MQCBD_STRUCT''), (7025, ''MQBACF_MQCD_STRUCT''),
      (7026, ''MQBACF_MQCNO_STRUCT''), (7027, ''MQBACF_MQGMO_STRUCT''),
      (7028, ''MQBACF_MQMD_STRUCT''), (7029, ''MQBACF_MQPMO_STRUCT''),
      (7030, ''MQBACF_MQSD_STRUCT''), (7031, ''MQBACF_MQSTS_STRUCT''),
      (7032, ''MQBACF_SUB_CORREL_ID''), (7033, ''MQBACF_XA_XID''),
      (7034, ''MQBACF_XQH_CORREL_ID''), (7035, ''MQBACF_XQH_MSG_ID''),
      (7036, ''MQBACF_REQUEST_ID''), (7037, ''MQBACF_PROPERTIES_DATA''),
      (7038, ''MQBACF_CONN_TAG''), (7039, ''MQBACF_MQBNO_STRUCT'')] v"

definition MQBALANCED_STR :: "int \<Rightarrow> string" where
  "MQBALANCED_STR v = c_switch
     [(0, ''MQBALANCED_NO''), (1, ''MQBALANCED_YES''), (2, ''MQBALANCED_NOT_APPLICABLE''),
      (3, ''MQBALANCED_UNKNOWN'')] v"

definition MQBALSTATE_STR :: "int \<Rightarrow> string" where
  "MQBALSTATE_STR v = c_switch
     [(0, ''MQBALSTATE_NOT_APPLICABLE''), (1, ''MQBALSTATE_LOW''), (2, ''MQBALSTATE_OK''),
      (3, ''MQBALSTATE_HIGH''), (4, ''MQBALSTATE_UNKNOWN'')] v"

definition MQBL_STR :: "int \<Rightarrow> string" where
  "MQBL_STR v = c_switch
     [(- 1, ''MQBL_NULL_TERMINATED'')] v"

definition MQBMHO_STR :: "int \<Rightarrow> string" where
  "MQBMHO_STR v = c_switch
     [(0, ''MQBMHO_NONE''), (1, ''MQBMHO_DELETE_PROPERTIES'')] v"

definition MQBND_STR :: "int \<Rightarrow> string" where
  "MQBND_STR v = c_switch
     [(0, ''MQBND_BIND_ON_OPEN''), (1, ''MQBND_BIND_NOT_FIXED''), (2, ''MQBND_BIND_ON_GROUP'')] v"

definition MQBNO_BALTYPE_STR :: "int \<Rightarrow> string" where
  "MQBNO_BALTYPE_STR v = c_switch
     [(0, ''MQBNO_BALTYPE_SIMPLE''), (1, ''MQBNO_BALTYPE_REQREP''),
      (65536, ''MQBNO_BALTYPE_RA_MANAGED'')] v"

definition MQBNO_OPTIONS_STR :: "int \<Rightarrow> string" where
  "MQBNO_OPTIONS_STR v = c_switch
     [(0, ''MQBNO_OPTIONS_NONE''), (1, ''MQBNO_OPTIONS_IGNORE_TRANS'')] v"

definition MQBNO_TIMEOUT_STR :: "int \<Rightarrow> string" where
  "MQBNO_TIMEOUT_STR v = c_switch
     [(- 2, ''MQBNO_TIMEOUT_NEVER''), (- 1, ''MQBNO_TIMEOUT_AS_DEFAULT''),
      (0, ''MQBNO_TIMEOUT_IMMEDIATE'')] v"

definition MQBO_STR :: "int \<Rightarrow> string" where
  "MQBO_STR v = c_switch
     [(0, ''MQBO_NONE'')] v"

definition MQBPLOCATION_STR :: "int \<Rightarrow> string" where
  "MQBPLOCATION_STR v = c_switch
     [(0, ''MQBPLOCATION_BELOW''), (1, ''MQBPLOCATION_ABOVE''),
      (2, ''MQBPLOCATION_SWITCHING_ABOVE''), (3, ''MQBPLOCATION_SWITCHING_BELOW'')] v"

definition MQBT_STR :: "int \<Rightarrow> string" where
  "MQBT_STR v = c_switch
     [(1, ''MQBT_OTMA'')] v"

lemmas names_A2_defs =
  MQAUTH_STR_def MQAUTOCLUS_STR_def MQAUTO_STR_def MQBACF_STR_def MQBALANCED_STR_def
  MQBALSTATE_STR_def MQBL_STR_def MQBMHO_STR_def MQBND_STR_def MQBNO_BALTYPE_STR_def
  MQBNO_OPTIONS_STR_def MQBNO_TIMEOUT_STR_def MQBO_STR_def MQBPLOCATION_STR_def MQBT_STR_def

lemmas names_A2_facts =
  cmqcfc_Group_Parameter_2_cases cmqcfc_Group_Parameter_7_cases
  cmqc_QueueManager_Attributes_1_cases cmqcfc_Byte_Parameter_cases
  cmqbc_Specific_Functions_cases MQBMHO_values_cases cmqc_Queue_Attributes_cases
  MQBNO_values_cases MQBO_values_cases cmqcfc_Integer_Parameter_6_cases

lemma names_A2:
  "list_all (names_ok a)
     [MQAUTH_STR, MQAUTOCLUS_STR, MQAUTO_STR, MQBACF_STR, MQBALANCED_STR, MQBALSTATE_STR,
      MQBL_STR, MQBMHO_STR, MQBND_STR, MQBNO_BALTYPE_STR, MQBNO_OPTIONS_STR, MQBNO_TIMEOUT_STR,
      MQBO_STR, MQBPLOCATION_STR, MQBT_STR]"
  unfolding list.pred_inject
  by (intro conjI list.pred_inject(1);
      rule names_okI, rule names_A2_defs, simp only: names_A2_facts case_simps cong: case_congs)

definition MQCACF_cases_1 :: "(int \<times> string) list" where
  "MQCACF_cases_1 =
     [(3001, ''MQCACF_FROM_Q_NAME''), (3002, ''MQCACF_TO_Q_NAME''),
      (3003, ''MQCACF_FROM_PROCESS_NAME''), (3004, ''MQCACF_TO_PROCESS_NAME''),
      (3005, ''MQCACF_FROM_NAMELIST_NAME''), (3006, ''MQCACF_TO_NAMELIST_NAME''),
      (3007, ''MQCACF_FROM_CHANNEL_NAME''), (3008, ''MQCACF_TO_CHANNEL_NAME''),
      (3009, ''MQCACF_FROM_AUTH_INFO_NAME''), (3010, ''MQCACF_TO_AUTH_INFO_NAME''),
      (3011, ''MQCACF_Q_NAMES''), (3012, ''MQCACF_PROCESS_NAMES''),
      (3013, ''MQCACF_NAMELIST_NAMES''), (3014, ''MQCACF_ESCAPE_TEXT''),
      (3015, ''MQCACF_LOCAL_Q_NAMES''), (3016, ''MQCACF_MODEL_Q_NAMES''),
      (3017, ''MQCACF_ALIAS_Q_NAMES''), (3018, ''MQCACF_REMOTE_Q_NAMES''),
      (3019, ''MQCACF_SENDER_CHANNEL_NAMES''), (3020, ''MQCACF_SERVER_CHANNEL_NAMES''),
      (3021, ''MQCACF_REQUESTER_CHANNEL_NAMES''), (3022, ''MQCACF_RECEIVER_CHANNEL_NAMES''),
      (3023, ''MQCACF_OBJECT_Q_MGR_NAME''), (3024, ''MQCACF_APPL_NAME''),
      (3025, ''MQCACF_USER_IDENTIFIER''), (3026, ''MQCACF_AUX_ERROR_DATA_STR_1''),
      (3027, ''MQCACF_AUX_ERROR_DATA_STR_2''), (3028, ''MQCACF_AUX_ERROR_DATA_STR_3''),
      (3029, ''MQCACF_BRIDGE_NAME''), (3030, ''MQCACF_STREAM_NAME''), (3031, ''MQCACF_TOPIC''),
      (3032, ''MQCACF_PARENT_Q_MGR_NAME''), (3033, ''MQCACF_CORREL_ID''),
      (3034, ''MQCACF_PUBLISH_TIMESTAMP''), (3035, ''MQCACF_STRING_DATA''),
      (3036, ''MQCACF_SUPPORTED_STREAM_NAME''), (3037, ''MQCACF_REG_TOPIC''),
      (3038, ''MQCACF_REG_TIME''), (3039, ''MQCACF_REG_USER_ID''),
      (3040, ''MQCACF_CHILD_Q_MGR_NAME''), (3041, ''MQCACF_REG_STREAM_NAME''),
      (3042, ''MQCACF_REG_Q_MGR_NAME''), (3043, ''MQCACF_REG_Q_NAME''),
      (3044, ''MQCACF_REG_CORREL_ID''), (3045, ''MQCACF_EVENT_USER_ID''),
      (3046, ''MQCACF_OBJECT_NAME''), (3047, ''MQCACF_EVENT_Q_MGR''),
      (3048, ''MQCACF_AUTH_INFO_NAMES''), (3049, ''MQCACF_EVENT_APPL_IDENTITY''),
      (3050, ''MQCACF_EVENT_APPL_NAME''), (3051, ''MQCACF_EVENT_APPL_ORIGIN''),
      (3052, ''MQCACF_SUBSCRIPTION_NAME''), (3053, ''MQCACF_REG_SUB_NAME''),
      (3054, ''MQCACF_SUBSCRIPTION_IDENTITY''), (3055, ''MQCACF_REG_SUB_IDENTITY''),
      (3056, ''MQCACF_SUBSCRIPTION_USER_DATA''), (3057, ''MQCACF_REG_SUB_USER_DATA''),
      (3058, ''MQCACF_APPL_TAG''), (3059, ''MQCACF_DATA_SET_NAME''),
      (3060, ''MQCACF_UOW_START_DATE''), (3061, ''MQCACF_UOW_START_TIME''),
      (3062, ''MQCACF_UOW_LOG_START_DATE''), (3063, ''MQCACF_UOW_LOG_START_TIME''),
      (3064, ''MQCACF_UOW_LOG_EXTENT_NAME''), (3065, ''MQCACF_PRINCIPAL_ENTITY_NAMES''),
      (3066, ''MQCACF_GROUP_ENTITY_NAMES''), (3067, ''MQCACF_AUTH_PROFILE_NAME''),
      (3068, ''MQCACF_ENTITY_NAME''), (3069, ''MQCACF_SERVICE_COMPONENT''),
      (3070, ''MQCACF_RESPONSE_Q_MGR_NAME''), (3071, ''MQCACF_CURRENT_LOG_EXTENT_NAME''),
      (3072, ''MQCACF_RESTART_LOG_EXTENT_NAME''), (3073, ''MQCACF_MEDIA_LOG_EXTENT_NAME''),
      (3074, ''MQCACF_LOG_PATH''), (3075, ''MQCACF_COMMAND_MQSC''),
      (3076, ''MQCACF_Q_MGR_CPF''), (3078, ''MQCACF_USAGE_LOG_RBA''),
      (3079, ''MQCACF_USAGE_LOG_LRSN''), (3080, ''MQCACF_COMMAND_SCOPE''),
      (3081, ''MQCACF_ASID''), (3082, ''MQCACF_PSB_NAME''), (3083, ''MQCACF_PST_ID''),
      (3084, ''MQCACF_TASK_NUMBER''), (3085, ''MQCACF_TRANSACTION_ID''),
      (3086, ''MQCACF_Q_MGR_UOW_ID''), (3088, ''MQCACF_ORIGIN_NAME''),
      (3089, ''MQCACF_ENV_INFO''), (3090, ''MQCACF_SECURITY_PROFILE''),
      (3091, ''MQCACF_CONFIGURATION_DATE''), (3092, ''MQCACF_CONFIGURATION_TIME''),
      (3093, ''MQCACF_FROM_CF_STRUC_NAME''), (3094, ''MQCACF_TO_CF_STRUC_NAME''),
      (3095, ''MQCACF_CF_STRUC_NAMES''), (3096, ''MQCACF_FAIL_DATE''),
      (3097, ''MQCACF_FAIL_TIME''), (3098, ''MQCACF_BACKUP_DATE''),
      (3099, ''MQCACF_BACKUP_TIME''), (3100, ''MQCACF_SYSTEM_NAME''),
      (3101, ''MQCACF_CF_STRUC_BACKUP_START''), (3102, ''MQCACF_CF_STRUC_BACKUP_END''),
      (3103, ''MQCACF_CF_STRUC_LOG_Q_MGRS''), (3104, ''MQCACF_FROM_STORAGE_CLASS''),
      (3105, ''MQCACF_TO_STORAGE_CLASS''), (3106, ''MQCACF_STORAGE_CLASS_NAMES''),
      (3108, ''MQCACF_DSG_NAME''), (3109, ''MQCACF_DB2_NAME''),
      (3110, ''MQCACF_SYSP_CMD_USER_ID''), (3111, ''MQCACF_SYSP_OTMA_GROUP''),
      (3112, ''MQCACF_SYSP_OTMA_MEMBER''), (3113, ''MQCACF_SYSP_OTMA_DRU_EXIT''),
      (3114, ''MQCACF_SYSP_OTMA_TPIPE_PFX''), (3115, ''MQCACF_SYSP_ARCHIVE_PFX1''),
      (3116, ''MQCACF_SYSP_ARCHIVE_UNIT1''), (3117, ''MQCACF_SYSP_LOG_CORREL_ID''),
      (3118, ''MQCACF_SYSP_UNIT_VOLSER''), (3119, ''MQCACF_SYSP_Q_MGR_TIME''),
      (3120, ''MQCACF_SYSP_Q_MGR_DATE''), (3121, ''MQCACF_SYSP_Q_MGR_RBA''),
      (3122, ''MQCACF_SYSP_LOG_RBA''), (3123, ''MQCACF_SYSP_SERVICE''),
      (3124, ''MQCACF_FROM_LISTENER_NAME''), (3125, ''MQCACF_TO_LISTENER_NAME''),
      (3126, ''MQCACF_FROM_SERVICE_NAME''), (3127, ''MQCACF_TO_SERVICE_NAME''),
      (3128, ''MQCACF_LAST_PUT_DATE''), (3129, ''MQCACF_LAST_PUT_TIME''),
      (3130, ''MQCACF_LAST_GET_DATE''), (3131, ''MQCACF_LAST_GET_TIME''),
      (3132, ''MQCACF_OPERATION_DATE''), (3133, ''MQCACF_OPERATION_TIME''),
      (3134, ''MQCACF_ACTIVITY_DESC''), (3135, ''MQCACF_APPL_IDENTITY_DATA''),
      (3136, ''MQCACF_APPL_ORIGIN_DATA''), (3137, ''MQCACF_PUT_DATE''),
      (3138, ''MQCACF_PUT_TIME''), (3139, ''MQCACF_REPLY_TO_Q''),
      (3140, ''MQCACF_REPLY_TO_Q_MGR''), (3141, ''MQCACF_RESOLVED_Q_NAME''),
      (3142, ''MQCACF_STRUC_ID''), (3143, ''MQCACF_VALUE_NAME'')]"

definition MQCACF_cases_2 :: "(int \<times> string) list" where
  "MQCACF_cases_2 =
     [(3144, ''MQCACF_SERVICE_START_DATE''), (3145, ''MQCACF_SERVICE_START_TIME''),
      (3146, ''MQCACF_SYSP_OFFLINE_RBA''), (3147, ''MQCACF_SYSP_ARCHIVE_PFX2''),
      (3148, ''MQCACF_SYSP_ARCHIVE_UNIT2''), (3149, ''MQCACF_TO_TOPIC_NAME''),
      (3150, ''MQCACF_FROM_TOPIC_NAME''), (3151, ''MQCACF_TOPIC_NAMES''),
      (3152, ''MQCACF_SUB_NAME''), (3153, ''MQCACF_DESTINATION_Q_MGR''),
      (3154, ''MQCACF_DESTINATION''), (3156, ''MQCACF_SUB_USER_ID''),
      (3159, ''MQCACF_SUB_USER_DATA''), (3160, ''MQCACF_SUB_SELECTOR''),
      (3161, ''MQCACF_LAST_PUB_DATE''), (3162, ''MQCACF_LAST_PUB_TIME''),
      (3163, ''MQCACF_FROM_SUB_NAME''), (3164, ''MQCACF_TO_SUB_NAME''),
      (3167, ''MQCACF_LAST_MSG_TIME''), (3168, ''MQCACF_LAST_MSG_DATE''),
      (3169, ''MQCACF_SUBSCRIPTION_POINT''), (3170, ''MQCACF_FILTER''), (3171, ''MQCACF_NONE''),
      (3172, ''MQCACF_ADMIN_TOPIC_NAMES''), (3173, ''MQCACF_ROUTING_FINGER_PRINT''),
      (3174, ''MQCACF_APPL_DESC''), (3175, ''MQCACF_Q_MGR_START_DATE''),
      (3176, ''MQCACF_Q_MGR_START_TIME''), (3177, ''MQCACF_FROM_COMM_INFO_NAME''),
      (3178, ''MQCACF_TO_COMM_INFO_NAME''), (3179, ''MQCACF_CF_OFFLOAD_SIZE1''),
      (3180, ''MQCACF_CF_OFFLOAD_SIZE2''), (3181, ''MQCACF_CF_OFFLOAD_SIZE3''),
      (3182, ''MQCACF_CF_SMDS_GENERIC_NAME''), (3183, ''MQCACF_CF_SMDS''),
      (3184, ''MQCACF_RECOVERY_DATE''), (3185, ''MQCACF_RECOVERY_TIME''),
      (3186, ''MQCACF_CF_SMDSCONN''), (3187, ''MQCACF_CF_STRUC_NAME''),
      (3188, ''MQCACF_ALTERNATE_USERID''), (3189, ''MQCACF_CHAR_ATTRS''),
      (3190, ''MQCACF_DYNAMIC_Q_NAME''), (3191, ''MQCACF_HOST_NAME''),
      (3192, ''MQCACF_MQCB_NAME''), (3193, ''MQCACF_OBJECT_STRING''),
      (3194, ''MQCACF_RESOLVED_LOCAL_Q_MGR''), (3195, ''MQCACF_RESOLVED_LOCAL_Q_NAME''),
      (3196, ''MQCACF_RESOLVED_OBJECT_STRING''), (3197, ''MQCACF_RESOLVED_Q_MGR''),
      (3198, ''MQCACF_SELECTION_STRING''), (3199, ''MQCACF_XA_INFO''),
      (3200, ''MQCACF_APPL_FUNCTION''), (3201, ''MQCACF_XQH_REMOTE_Q_NAME''),
      (3202, ''MQCACF_XQH_REMOTE_Q_MGR''), (3203, ''MQCACF_XQH_PUT_TIME''),
      (3204, ''MQCACF_XQH_PUT_DATE''), (3205, ''MQCACF_EXCL_OPERATOR_MESSAGES''),
      (3206, ''MQCACF_CSP_USER_IDENTIFIER''), (3207, ''MQCACF_AMQP_CLIENT_ID''),
      (3208, ''MQCACF_ARCHIVE_LOG_EXTENT_NAME''), (3209, ''MQCACF_APPL_IMMOVABLE_DATE''),
      (3210, ''MQCACF_APPL_IMMOVABLE_TIME''), (3211, ''MQCACF_NHA_INSTANCE_NAME''),
      (3212, ''MQCACF_Q_MGR_DATA_PATH''), (3213, ''MQCACF_UNIFORM_CLUSTER_NAME''),
      (3214, ''MQCACF_LOG_START_DATE''), (3215, ''MQCACF_LOG_START_LSN''),
      (3216, ''MQCACF_LOG_START_TIME''), (3217, ''MQCACF_NHA_GROUP_INITIAL_DATE''),
      (3218, ''MQCACF_NHA_GROUP_INITIAL_LSN''), (3219, ''MQCACF_NHA_GROUP_INITIAL_TIME''),
      (3220, ''MQCACF_NHA_REPL_ADDRESS'')]"

definition MQCACF_STR :: "int \<Rightarrow> string" where
  "MQCACF_STR v = c_switch (MQCACF_cases_1 @ MQCACF_cases_2) v"

lemma MQCACF_cases_1_ok: "list_all (case_fact a) MQCACF_cases_1"
  unfolding MQCACF_cases_1_def
  by (simp only: cmqcfc_Character_Parameter_2_cases cmqcfc_Character_Parameter_3_cases
      case_simps cong: case_congs)

lemma MQCACF_cases_2_ok: "list_all (case_fact a) MQCACF_cases_2"
  unfolding MQCACF_cases_2_def
  by (simp only: cmqcfc_Character_Parameter_3_cases
      case_simps cong: case_congs)

lemma names_A3: "list_all (names_ok a) [MQCACF_STR]"
  unfolding list.pred_inject
  by (intro conjI list.pred_inject(1) names_okI [OF MQCACF_STR_def])
     (simp only: list_all_append simp_thms MQCACF_cases_1_ok MQCACF_cases_2_ok)

definition MQCACH_STR :: "int \<Rightarrow> string" where
  "MQCACH_STR v = c_switch
     [(3501, ''MQCACH_CHANNEL_NAME''), (3502, ''MQCACH_DESC''), (3503, ''MQCACH_MODE_NAME''),
      (3504, ''MQCACH_TP_NAME''), (3505, ''MQCACH_XMIT_Q_NAME''),
      (3506, ''MQCACH_CONNECTION_NAME''), (3507, ''MQCACH_MCA_NAME''),
      (3508, ''MQCACH_SEC_EXIT_NAME''), (3509, ''MQCACH_MSG_EXIT_NAME''),
      (3510, ''MQCACH_SEND_EXIT_NAME''), (3511, ''MQCACH_RCV_EXIT_NAME''),
      (3512, ''MQCACH_CHANNEL_NAMES''), (3513, ''MQCACH_SEC_EXIT_USER_DATA''),
      (3514, ''MQCACH_MSG_EXIT_USER_DATA''), (3515, ''MQCACH_SEND_EXIT_USER_DATA''),
      (3516, ''MQCACH_RCV_EXIT_USER_DATA''), (3517, ''MQCACH_USER_ID''),
      (3518, ''MQCACH_PASSWORD''), (3520, ''MQCACH_LOCAL_ADDRESS''),
      (3521, ''MQCACH_LOCAL_NAME''), (3524, ''MQCACH_LAST_MSG_TIME''),
      (3525, ''MQCACH_LAST_MSG_DATE''), (3527, ''MQCACH_MCA_USER_ID''),
      (3528, ''MQCACH_CHANNEL_START_TIME''), (3529, ''MQCACH_CHANNEL_START_DATE''),
      (3530, ''MQCACH_MCA_JOB_NAME''), (3531, ''MQCACH_LAST_LUWID''),
      (3532, ''MQCACH_CURRENT_LUWID''), (3533, ''MQCACH_FORMAT_NAME''),
      (3534, ''MQCACH_MR_EXIT_NAME''), (3535, ''MQCACH_MR_EXIT_USER_DATA''),
      (3544, ''MQCACH_SSL_CIPHER_SPEC''), (3545, ''MQCACH_SSL_PEER_NAME''),
      (3546, ''MQCACH_SSL_HANDSHAKE_STAGE''), (3547, ''MQCACH_SSL_SHORT_PEER_NAME''),
      (3548, ''MQCACH_REMOTE_APPL_TAG''), (3549, ''MQCACH_SSL_CERT_USER_ID''),
      (3550, ''MQCACH_SSL_CERT_ISSUER_NAME''), (3551, ''MQCACH_LU_NAME''),
      (3552, ''MQCACH_IP_ADDRESS''), (3553, ''MQCACH_TCP_NAME''),
      (3554, ''MQCACH_LISTENER_NAME''), (3555, ''MQCACH_LISTENER_DESC''),
      (3556, ''MQCACH_LISTENER_START_DATE''), (3557, ''MQCACH_LISTENER_START_TIME''),
      (3558, ''MQCACH_SSL_KEY_RESET_DATE''), (3559, ''MQCACH_SSL_KEY_RESET_TIME''),
      (3560, ''MQCACH_REMOTE_VERSION''), (3561, ''MQCACH_REMOTE_PRODUCT''),
      (3562, ''MQCACH_GROUP_ADDRESS''), (3563, ''MQCACH_JAAS_CONFIG''),
      (3564, ''MQCACH_CLIENT_ID''), (3565, ''MQCACH_SSL_KEY_PASSPHRASE''),
      (3566, ''MQCACH_CONNECTION_NAME_LIST''), (3567, ''MQCACH_CLIENT_USER_ID''),
      (3568, ''MQCACH_MCA_USER_ID_LIST''), (3569, ''MQCACH_SSL_CIPHER_SUITE''),
      (3570, ''MQCACH_WEBCONTENT_PATH''), (3571, ''MQCACH_TOPIC_ROOT''),
      (3572, ''MQCACH_TEMPORARY_MODEL_Q''), (3573, ''MQCACH_TEMPORARY_Q_PREFIX'')] v"

definition MQCADSD_STR :: "int \<Rightarrow> string" where
  "MQCADSD_STR v = c_switch
     [(0, ''MQCADSD_NONE''), (1, ''MQCADSD_SEND''), (16, ''MQCADSD_RECV''),
      (256, ''MQCADSD_MSGFORMAT'')] v"

definition MQCAFTY_STR :: "int \<Rightarrow> string" where
  "MQCAFTY_STR v = c_switch
     [(0, ''MQCAFTY_NONE''), (1, ''MQCAFTY_PREFERRED'')] v"

definition MQCAMO_STR :: "int \<Rightarrow> string" where
  "MQCAMO_STR v = c_switch
     [(2701, ''MQCAMO_CLOSE_DATE''), (2702, ''MQCAMO_CLOSE_TIME''),
      (2703, ''MQCAMO_CONN_DATE''), (2704, ''MQCAMO_CONN_TIME''), (2705, ''MQCAMO_DISC_DATE''),
      (2706, ''MQCAMO_DISC_TIME''), (2707, ''MQCAMO_END_DATE''), (2708, ''MQCAMO_END_TIME''),
      (2709, ''MQCAMO_OPEN_DATE''), (2710, ''MQCAMO_OPEN_TIME''), (2711, ''MQCAMO_START_DATE''),
      (2712, ''MQCAMO_START_TIME''), (2713, ''MQCAMO_MONITOR_CLASS''),
      (2714, ''MQCAMO_MONITOR_TYPE''), (2715, ''MQCAMO_MONITOR_DESC'')] v"

definition MQCAP_STR :: "int \<Rightarrow> string" where
  "MQCAP_STR v = c_switch
     [(0, ''MQCAP_NOT_SUPPORTED''), (1, ''MQCAP_SUPPORTED''), (2, ''MQCAP_EXPIRED'')] v"

definition MQCAUT_STR :: "int \<Rightarrow> string" where
  "MQCAUT_STR v = c_switch
     [(0, ''MQCAUT_ALL''), (1, ''MQCAUT_BLOCKUSER''), (2, ''MQCAUT_BLOCKADDR''),
      (3, ''MQCAUT_SSLPEERMAP''), (4, ''MQCAUT_ADDRESSMAP''), (5, ''MQCAUT_USERMAP''),
      (6, ''MQCAUT_QMGRMAP'')] v"

definition MQCA_STR :: "int \<Rightarrow> string" where
  "MQCA_STR v = c_switch
     [(2001, ''MQCA_APPL_ID''), (2002, ''MQCA_BASE_OBJECT_NAME''),
      (2003, ''MQCA_COMMAND_INPUT_Q_NAME''), (2004, ''MQCA_CREATION_DATE''),
      (2005, ''MQCA_CREATION_TIME''), (2006, ''MQCA_DEAD_LETTER_Q_NAME''),
      (2007, ''MQCA_ENV_DATA''), (2008, ''MQCA_INITIATION_Q_NAME''),
      (2009, ''MQCA_NAMELIST_DESC''), (2010, ''MQCA_NAMELIST_NAME''),
      (2011, ''MQCA_PROCESS_DESC''), (2012, ''MQCA_PROCESS_NAME''), (2013, ''MQCA_Q_DESC''),
      (2014, ''MQCA_Q_MGR_DESC''), (2015, ''MQCA_Q_MGR_NAME''), (2016, ''MQCA_Q_NAME''),
      (2017, ''MQCA_REMOTE_Q_MGR_NAME''), (2018, ''MQCA_REMOTE_Q_NAME''),
      (2019, ''MQCA_BACKOUT_REQ_Q_NAME''), (2020, ''MQCA_NAMES''), (2021, ''MQCA_USER_DATA''),
      (2022, ''MQCA_STORAGE_CLASS''), (2023, ''MQCA_TRIGGER_DATA''),
      (2024, ''MQCA_XMIT_Q_NAME''), (2025, ''MQCA_DEF_XMIT_Q_NAME''),
      (2026, ''MQCA_CHANNEL_AUTO_DEF_EXIT''), (2027, ''MQCA_ALTERATION_DATE''),
      (2028, ''MQCA_ALTERATION_TIME''), (2029, ''MQCA_CLUSTER_NAME''),
      (2030, ''MQCA_CLUSTER_NAMELIST''), (2031, ''MQCA_CLUSTER_Q_MGR_NAME''),
      (2032, ''MQCA_Q_MGR_IDENTIFIER''), (2033, ''MQCA_CLUSTER_WORKLOAD_EXIT''),
      (2034, ''MQCA_CLUSTER_WORKLOAD_DATA''), (2035, ''MQCA_REPOSITORY_NAME''),
      (2036, ''MQCA_REPOSITORY_NAMELIST''), (2037, ''MQCA_CLUSTER_DATE''),
      (2038, ''MQCA_CLUSTER_TIME''), (2039, ''MQCA_CF_STRUC_NAME''), (2040, ''MQCA_QSG_NAME''),
      (2041, ''MQCA_IGQ_USER_ID''), (2042, ''MQCA_STORAGE_CLASS_DESC''),
      (2043, ''MQCA_XCF_GROUP_NAME''), (2044, ''MQCA_XCF_MEMBER_NAME''),
      (2045, ''MQCA_AUTH_INFO_NAME''), (2046, ''MQCA_AUTH_INFO_DESC''),
      (2047, ''MQCA_LDAP_USER_NAME''), (2048, ''MQCA_LDAP_PASSWORD''),
      (2049, ''MQCA_SSL_KEY_REPOSITORY''), (2050, ''MQCA_SSL_CRL_NAMELIST''),
      (2051, ''MQCA_SSL_CRYPTO_HARDWARE''), (2052, ''MQCA_CF_STRUC_DESC''),
      (2053, ''MQCA_AUTH_INFO_CONN_NAME''), (2054, ''MQCA_INITIAL_KEY''),
      (2055, ''MQCA_SSL_KEY_REPO_PASSWORD''), (2060, ''MQCA_CICS_FILE_NAME''),
      (2061, ''MQCA_TRIGGER_TRANS_ID''), (2062, ''MQCA_TRIGGER_PROGRAM_NAME''),
      (2063, ''MQCA_TRIGGER_TERM_ID''), (2064, ''MQCA_TRIGGER_CHANNEL_NAME''),
      (2065, ''MQCA_SYSTEM_LOG_Q_NAME''), (2066, ''MQCA_MONITOR_Q_NAME''),
      (2067, ''MQCA_COMMAND_REPLY_Q_NAME''), (2068, ''MQCA_BATCH_INTERFACE_ID''),
      (2069, ''MQCA_SSL_KEY_LIBRARY''), (2070, ''MQCA_SSL_KEY_MEMBER''),
      (2071, ''MQCA_DNS_GROUP''), (2072, ''MQCA_LU_GROUP_NAME''), (2073, ''MQCA_LU_NAME''),
      (2074, ''MQCA_LU62_ARM_SUFFIX''), (2075, ''MQCA_TCP_NAME''),
      (2076, ''MQCA_CHINIT_SERVICE_PARM''), (2077, ''MQCA_SERVICE_NAME''),
      (2078, ''MQCA_SERVICE_DESC''), (2079, ''MQCA_SERVICE_START_COMMAND''),
      (2080, ''MQCA_SERVICE_START_ARGS''), (2081, ''MQCA_SERVICE_STOP_COMMAND''),
      (2082, ''MQCA_SERVICE_STOP_ARGS''), (2083, ''MQCA_STDOUT_DESTINATION''),
      (2084, ''MQCA_STDERR_DESTINATION''), (2085, ''MQCA_TPIPE_NAME''),
      (2086, ''MQCA_PASS_TICKET_APPL''), (2090, ''MQCA_AUTO_REORG_START_TIME''),
      (2091, ''MQCA_AUTO_REORG_CATALOG''), (2092, ''MQCA_TOPIC_NAME''),
      (2093, ''MQCA_TOPIC_DESC''), (2094, ''MQCA_TOPIC_STRING''),
      (2096, ''MQCA_MODEL_DURABLE_Q''), (2097, ''MQCA_MODEL_NON_DURABLE_Q''),
      (2098, ''MQCA_RESUME_DATE''), (2099, ''MQCA_RESUME_TIME''), (2101, ''MQCA_CHILD''),
      (2102, ''MQCA_PARENT''), (2105, ''MQCA_ADMIN_TOPIC_NAME''),
      (2108, ''MQCA_TOPIC_STRING_FILTER''), (2109, ''MQCA_AUTH_INFO_OCSP_URL''),
      (2110, ''MQCA_COMM_INFO_NAME''), (2111, ''MQCA_COMM_INFO_DESC''),
      (2112, ''MQCA_POLICY_NAME''), (2113, ''MQCA_SIGNER_DN''), (2114, ''MQCA_RECIPIENT_DN''),
      (2115, ''MQCA_INSTALLATION_DESC''), (2116, ''MQCA_INSTALLATION_NAME''),
      (2117, ''MQCA_INSTALLATION_PATH''), (2118, ''MQCA_CHLAUTH_DESC''),
      (2119, ''MQCA_CUSTOM''), (2120, ''MQCA_VERSION''), (2121, ''MQCA_CERT_LABEL''),
      (2122, ''MQCA_XR_VERSION''), (2123, ''MQCA_XR_SSL_CIPHER_SUITES''),
      (2124, ''MQCA_CLUS_CHL_NAME''), (2125, ''MQCA_CONN_AUTH''),
      (2126, ''MQCA_LDAP_BASE_DN_USERS''), (2127, ''MQCA_LDAP_SHORT_USER_FIELD''),
      (2128, ''MQCA_LDAP_USER_OBJECT_CLASS''), (2129, ''MQCA_LDAP_USER_ATTR_FIELD''),
      (2130, ''MQCA_SSL_CERT_ISSUER_NAME''), (2131, ''MQCA_QSG_CERT_LABEL''),
      (2132, ''MQCA_LDAP_BASE_DN_GROUPS''), (2133, ''MQCA_LDAP_GROUP_OBJECT_CLASS''),
      (2134, ''MQCA_LDAP_GROUP_ATTR_FIELD''), (2135, ''MQCA_LDAP_FIND_GROUP_FIELD''),
      (2136, ''MQCA_AMQP_VERSION''), (2137, ''MQCA_AMQP_SSL_CIPHER_SUITES''),
      (2138, ''MQCA_STREAM_QUEUE_NAME''), (4000, ''MQCA_USER_LIST'')] v"

lemmas names_A4_defs =
  MQCACH_STR_def MQCADSD_STR_def MQCAFTY_STR_def MQCAMO_STR_def MQCAP_STR_def MQCAUT_STR_def

lemmas names_A4_facts =
  cmqcfc_Character_Parameter_4_cases MQCIH_values_cases cmqxc_MQCD_2_cases
  cmqcfc_Character_Parameter_1_cases cmqc_QueueManager_Attributes_3_cases
  cmqcfc_Group_Parameter_2_cases

lemma names_A4:
  "list_all (names_ok a)
     [MQCACH_STR, MQCADSD_STR, MQCAFTY_STR, MQCAMO_STR, MQCAP_STR, MQCAUT_STR]"
  unfolding list.pred_inject
  by (intro conjI list.pred_inject(1);
      rule names_okI, rule names_A4_defs, simp only: names_A4_facts case_simps cong: case_congs)

definition MQCBCF_STR :: "int \<Rightarrow> string" where
  "MQCBCF_STR v = c_switch
     [(0, ''MQCBCF_NONE''), (1, ''MQCBCF_READA_BUFFER_EMPTY'')] v"

lemmas names_A5_defs =
  MQCA_STR_def

lemmas names_A5_facts =
  cmqc_MQINQ_Function_2_cases cmqc_MQINQ_Function_3_cases

lemma names_A5:
  "list_all (names_ok a)
     [MQCA_STR]"
  unfolding list.pred_inject
  by (intro conjI list.pred_inject(1);
      rule names_okI, rule names_A5_defs, simp only: names_A5_facts case_simps cong: case_congs)

definition MQCBCT_STR :: "int \<Rightarrow> string" where
  "MQCBCT_STR v = c_switch
     [(1, ''MQCBCT_START_CALL''), (2, ''MQCBCT_STOP_CALL''), (3, ''MQCBCT_REGISTER_CALL''),
      (4, ''MQCBCT_DEREGISTER_CALL''), (5, ''MQCBCT_EVENT_CALL''), (6, ''MQCBCT_MSG_REMOVED''),
      (7, ''MQCBCT_MSG_NOT_REMOVED''), (8, ''MQCBCT_MC_EVENT_CALL'')] v"

definition MQCBDO_STR :: "int \<Rightarrow> string" where
  "MQCBDO_STR v = c_switch
     [(0, ''MQCBDO_NONE''), (1, ''MQCBDO_START_CALL''), (4, ''MQCBDO_STOP_CALL''),
      (256, ''MQCBDO_REGISTER_CALL''), (512, ''MQCBDO_DEREGISTER_CALL''),
      (8192, ''MQCBDO_FAIL_IF_QUIESCING''), (16384, ''MQCBDO_EVENT_CALL''),
      (32768, ''MQCBDO_MC_EVENT_CALL'')] v"

definition MQCBD_STR :: "int \<Rightarrow> string" where
  "MQCBD_STR v = c_switch
     [(- 1, ''MQCBD_FULL_MSG_LENGTH'')] v"

definition MQCBO_STR :: "int \<Rightarrow> string" where
  "MQCBO_STR v = c_switch
     [(0, ''MQCBO_NONE''), (1, ''MQCBO_ADMIN_BAG''), (2, ''MQCBO_LIST_FORM_ALLOWED''),
      (4, ''MQCBO_REORDER_AS_REQUIRED''), (8, ''MQCBO_CHECK_SELECTORS''),
      (16, ''MQCBO_COMMAND_BAG''), (32, ''MQCBO_SYSTEM_BAG''), (64, ''MQCBO_GROUP_BAG'')] v"

definition MQCBT_STR :: "int \<Rightarrow> string" where
  "MQCBT_STR v = c_switch
     [(1, ''MQCBT_MESSAGE_CONSUMER''), (2, ''MQCBT_EVENT_HANDLER'')] v"

definition MQCCSI_STR :: "int \<Rightarrow> string" where
  "MQCCSI_STR v = c_switch
     [(- 4, ''MQCCSI_AS_PUBLISHED''), (- 3, ''MQCCSI_APPL''), (- 2, ''MQCCSI_INHERIT''),
      (- 1, ''MQCCSI_EMBEDDED''), (0, ''MQCCSI_DEFAULT'')] v"

definition MQCCT_STR :: "int \<Rightarrow> string" where
  "MQCCT_STR v = c_switch
     [(0, ''MQCCT_NO''), (1, ''MQCCT_YES'')] v"

definition MQCC_STR :: "int \<Rightarrow> string" where
  "MQCC_STR v = c_switch
     [(- 1, ''MQCC_UNKNOWN''), (0, ''MQCC_OK''), (1, ''MQCC_WARNING''), (2, ''MQCC_FAILED'')] v"

definition MQCDC_STR :: "int \<Rightarrow> string" where
  "MQCDC_STR v = c_switch
     [(0, ''MQCDC_NO_SENDER_CONVERSION''), (1, ''MQCDC_SENDER_CONVERSION'')] v"

definition MQCEX_STR :: "int \<Rightarrow> string" where
  "MQCEX_STR v = c_switch
     [(- 2, ''MQCEX_AS_PARENT''), (- 1, ''MQCEX_NOLIMIT'')] v"

definition MQCFACCESS_STR :: "int \<Rightarrow> string" where
  "MQCFACCESS_STR v = c_switch
     [(0, ''MQCFACCESS_ENABLED''), (1, ''MQCFACCESS_SUSPENDED''), (2, ''MQCFACCESS_DISABLED'')] v"

definition MQCFCONLOS_STR :: "int \<Rightarrow> string" where
  "MQCFCONLOS_STR v = c_switch
     [(0, ''MQCFCONLOS_TERMINATE''), (1, ''MQCFCONLOS_TOLERATE''), (2, ''MQCFCONLOS_ASQMGR'')] v"

definition MQCFC_STR :: "int \<Rightarrow> string" where
  "MQCFC_STR v = c_switch
     [(0, ''MQCFC_NOT_LAST''), (1, ''MQCFC_LAST'')] v"

definition MQCFOFFLD_STR :: "int \<Rightarrow> string" where
  "MQCFOFFLD_STR v = c_switch
     [(0, ''MQCFOFFLD_NONE''), (1, ''MQCFOFFLD_SMDS''), (2, ''MQCFOFFLD_DB2''),
      (3, ''MQCFOFFLD_BOTH'')] v"

definition MQCFOP_STR :: "int \<Rightarrow> string" where
  "MQCFOP_STR v = c_switch
     [(1, ''MQCFOP_LESS''), (2, ''MQCFOP_EQUAL''), (3, ''MQCFOP_NOT_GREATER''),
      (4, ''MQCFOP_GREATER''), (5, ''MQCFOP_NOT_EQUAL''), (6, ''MQCFOP_NOT_LESS''),
      (10, ''MQCFOP_CONTAINS''), (13, ''MQCFOP_EXCLUDES''), (18, ''MQCFOP_LIKE''),
      (21, ''MQCFOP_NOT_LIKE''), (26, ''MQCFOP_CONTAINS_GEN''), (29, ''MQCFOP_EXCLUDES_GEN'')] v"

definition MQCFO_REFRESH_STR :: "int \<Rightarrow> string" where
  "MQCFO_REFRESH_STR v = c_switch
     [(0, ''MQCFO_REFRESH_REPOSITORY_NO''), (1, ''MQCFO_REFRESH_REPOSITORY_YES'')] v"

definition MQCFO_REMOVE_STR :: "int \<Rightarrow> string" where
  "MQCFO_REMOVE_STR v = c_switch
     [(0, ''MQCFO_REMOVE_QUEUES_NO''), (1, ''MQCFO_REMOVE_QUEUES_YES'')] v"

definition MQCFR_STR :: "int \<Rightarrow> string" where
  "MQCFR_STR v = c_switch
     [(0, ''MQCFR_NO''), (1, ''MQCFR_YES'')] v"

definition MQCFSTATUS_STR :: "int \<Rightarrow> string" where
  "MQCFSTATUS_STR v = c_switch
     [(0, ''MQCFSTATUS_NOT_FOUND''), (1, ''MQCFSTATUS_ACTIVE''), (2, ''MQCFSTATUS_IN_RECOVER''),
      (3, ''MQCFSTATUS_IN_BACKUP''), (4, ''MQCFSTATUS_FAILED''), (5, ''MQCFSTATUS_NONE''),
      (6, ''MQCFSTATUS_UNKNOWN''), (7, ''MQCFSTATUS_RECOVERED''), (8, ''MQCFSTATUS_EMPTY''),
      (9, ''MQCFSTATUS_NEW''), (20, ''MQCFSTATUS_ADMIN_INCOMPLETE''),
      (21, ''MQCFSTATUS_NEVER_USED''), (22, ''MQCFSTATUS_NO_BACKUP''),
      (23, ''MQCFSTATUS_NOT_FAILED''), (24, ''MQCFSTATUS_NOT_RECOVERABLE''),
      (25, ''MQCFSTATUS_XES_ERROR'')] v"

definition MQCFTYPE_STR :: "int \<Rightarrow> string" where
  "MQCFTYPE_STR v = c_switch
     [(0, ''MQCFTYPE_APPL''), (1, ''MQCFTYPE_ADMIN'')] v"

definition MQCFT_STR :: "int \<Rightarrow> string" where
  "MQCFT_STR v = c_switch
     [(0, ''MQCFT_NONE''), (1, ''MQCFT_COMMAND''), (2, ''MQCFT_RESPONSE''),
      (3, ''MQCFT_INTEGER''), (4, ''MQCFT_STRING''), (5, ''MQCFT_INTEGER_LIST''),
      (6, ''MQCFT_STRING_LIST''), (7, ''MQCFT_EVENT''), (8, ''MQCFT_USER''),
      (9, ''MQCFT_BYTE_STRING''), (10, ''MQCFT_TRACE_ROUTE''), (12, ''MQCFT_REPORT''),
      (13, ''MQCFT_INTEGER_FILTER''), (14, ''MQCFT_STRING_FILTER''),
      (15, ''MQCFT_BYTE_STRING_FILTER''), (16, ''MQCFT_COMMAND_XR''), (17, ''MQCFT_XR_MSG''),
      (18, ''MQCFT_XR_ITEM''), (19, ''MQCFT_XR_SUMMARY''), (20, ''MQCFT_GROUP''),
      (21, ''MQCFT_STATISTICS''), (22, ''MQCFT_ACCOUNTING''), (23, ''MQCFT_INTEGER64''),
      (25, ''MQCFT_INTEGER64_LIST''), (26, ''MQCFT_APP_ACTIVITY''), (27, ''MQCFT_STATUS'')] v"

lemmas names_A6_defs =
  MQCBCF_STR_def MQCBCT_STR_def MQCBDO_STR_def MQCBD_STR_def MQCBO_STR_def MQCBT_STR_def
  MQCCSI_STR_def MQCCT_STR_def MQCC_STR_def MQCDC_STR_def MQCEX_STR_def MQCFACCESS_STR_def
  MQCFCONLOS_STR_def MQCFC_STR_def MQCFOFFLD_STR_def MQCFOP_STR_def MQCFO_REFRESH_STR_def
  MQCFO_REMOVE_STR_def MQCFR_STR_def MQCFSTATUS_STR_def MQCFTYPE_STR_def

lemmas names_A6_facts =
  MQCBC_values_cases MQCBD_values_cases cmqbc_Specific_Functions_cases MQMD_values_2_cases
  MQCIH_values_cases MQCC_values_cases cmqxc_MQCD_1_cases cmqc_Queue_Attributes_cases
  cmqcfc_Integer_Parameter_6_cases cmqc_CF_Structure_Attributes_cases cmqcfc_MQCFH_3_cases
  cmqc_Channel_Authentication_Configuration_1_cases cmqcfc_All_cases
  cmqcfc_Group_Parameter_2_cases cmqcfc_Group_Parameter_3_cases

lemma names_A6:
  "list_all (names_ok a)
     [MQCBCF_STR, MQCBCT_STR, MQCBDO_STR, MQCBD_STR, MQCBO_STR, MQCBT_STR, MQCCSI_STR,
      MQCCT_STR, MQCC_STR, MQCDC_STR, MQCEX_STR, MQCFACCESS_STR, MQCFCONLOS_STR, MQCFC_STR,
      MQCFOFFLD_STR, MQCFOP_STR, MQCFO_REFRESH_STR, MQCFO_REMOVE_STR, MQCFR_STR, MQCFSTATUS_STR,
      MQCFTYPE_STR]"
  unfolding list.pred_inject
  by (intro conjI list.pred_inject(1);
      rule names_okI, rule names_A6_defs, simp only: names_A6_facts case_simps cong: case_congs)

definition MQCF_STR :: "int \<Rightarrow> string" where
  "MQCF_STR v = c_switch
     [(0, ''MQCF_NONE''), (1, ''MQCF_DIST_LISTS'')] v"

definition MQCGWI_STR :: "int \<Rightarrow> string" where
  "MQCGWI_STR v = c_switch
     [(- 2, ''MQCGWI_DEFAULT'')] v"

definition MQCHAD_STR :: "int \<Rightarrow> string" where
  "MQCHAD_STR v = c_switch
     [(0, ''MQCHAD_DISABLED''), (1, ''MQCHAD_ENABLED'')] v"

definition MQCHIDS_STR :: "int \<Rightarrow> string" where
  "MQCHIDS_STR v = c_switch
     [(0, ''MQCHIDS_NOT_INDOUBT''), (1, ''MQCHIDS_INDOUBT'')] v"

definition MQCHK_STR :: "int \<Rightarrow> string" where
  "MQCHK_STR v = c_switch
     [(0, ''MQCHK_OPTIONAL''), (1, ''MQCHK_NONE''), (2, ''MQCHK_REQUIRED_ADMIN''),
      (3, ''MQCHK_REQUIRED''), (4, ''MQCHK_AS_Q_MGR'')] v"

definition MQCHLA_STR :: "int \<Rightarrow> string" where
  "MQCHLA_STR v = c_switch
     [(0, ''MQCHLA_DISABLED''), (1, ''MQCHLA_ENABLED'')] v"

definition MQCHLD_STR :: "int \<Rightarrow> string" where
  "MQCHLD_STR v = c_switch
     [(- 1, ''MQCHLD_ALL''), (1, ''MQCHLD_DEFAULT''), (2, ''MQCHLD_SHARED''),
      (4, ''MQCHLD_PRIVATE''), (5, ''MQCHLD_FIXSHARED'')] v"

definition MQCHRR_STR :: "int \<Rightarrow> string" where
  "MQCHRR_STR v = c_switch
     [(0, ''MQCHRR_RESET_NOT_REQUESTED'')] v"

definition MQCHSH_STR :: "int \<Rightarrow> string" where
  "MQCHSH_STR v = c_switch
     [(0, ''MQCHSH_RESTART_NO''), (1, ''MQCHSH_RESTART_YES'')] v"

definition MQCHSR_STR :: "int \<Rightarrow> string" where
  "MQCHSR_STR v = c_switch
     [(0, ''MQCHSR_STOP_NOT_REQUESTED''), (1, ''MQCHSR_STOP_REQUESTED'')] v"

definition MQCHSSTATE_STR :: "int \<Rightarrow> string" where
  "MQCHSSTATE_STR v = c_switch
     [(0, ''MQCHSSTATE_OTHER''), (100, ''MQCHSSTATE_END_OF_BATCH''),
      (200, ''MQCHSSTATE_SENDING''), (300, ''MQCHSSTATE_RECEIVING''),
      (400, ''MQCHSSTATE_SERIALIZING''), (500, ''MQCHSSTATE_RESYNCHING''),
      (600, ''MQCHSSTATE_HEARTBEATING''), (700, ''MQCHSSTATE_IN_SCYEXIT''),
      (800, ''MQCHSSTATE_IN_RCVEXIT''), (900, ''MQCHSSTATE_IN_SENDEXIT''),
      (1000, ''MQCHSSTATE_IN_MSGEXIT''), (1100, ''MQCHSSTATE_IN_MREXIT''),
      (1200, ''MQCHSSTATE_IN_CHADEXIT''), (1250, ''MQCHSSTATE_NET_CONNECTING''),
      (1300, ''MQCHSSTATE_SSL_HANDSHAKING''), (1400, ''MQCHSSTATE_NAME_SERVER''),
      (1500, ''MQCHSSTATE_IN_MQPUT''), (1600, ''MQCHSSTATE_IN_MQGET''),
      (1700, ''MQCHSSTATE_IN_MQI_CALL''), (1800, ''MQCHSSTATE_COMPRESSING'')] v"

definition MQCHS_STR :: "int \<Rightarrow> string" where
  "MQCHS_STR v = c_switch
     [(0, ''MQCHS_INACTIVE''), (1, ''MQCHS_BINDING''), (2, ''MQCHS_STARTING''),
      (3, ''MQCHS_RUNNING''), (4, ''MQCHS_STOPPING''), (5, ''MQCHS_RETRYING''),
      (6, ''MQCHS_STOPPED''), (7, ''MQCHS_REQUESTING''), (8, ''MQCHS_PAUSED''),
      (9, ''MQCHS_DISCONNECTED''), (13, ''MQCHS_INITIALIZING''), (14, ''MQCHS_SWITCHING'')] v"

definition MQCHTAB_STR :: "int \<Rightarrow> string" where
  "MQCHTAB_STR v = c_switch
     [(1, ''MQCHTAB_Q_MGR''), (2, ''MQCHTAB_CLNTCONN'')] v"

definition MQCHT_STR :: "int \<Rightarrow> string" where
  "MQCHT_STR v = c_switch
     [(1, ''MQCHT_SENDER''), (2, ''MQCHT_SERVER''), (3, ''MQCHT_RECEIVER''),
      (4, ''MQCHT_REQUESTER''), (5, ''MQCHT_ALL''), (6, ''MQCHT_CLNTCONN''),
      (7, ''MQCHT_SVRCONN''), (8, ''MQCHT_CLUSRCVR''), (9, ''MQCHT_CLUSSDR''),
      (10, ''MQCHT_MQTT''), (11, ''MQCHT_AMQP'')] v"

definition MQCIH_STR :: "int \<Rightarrow> string" where
  "MQCIH_STR v = c_switch
     [(0, ''MQCIH_NONE''), (1, ''MQCIH_PASS_EXPIRATION''), (2, ''MQCIH_REPLY_WITHOUT_NULLS''),
      (4, ''MQCIH_SYNC_ON_RETURN'')] v"

definition MQCIT_STR :: "int \<Rightarrow> string" where
  "MQCIT_STR v = c_switch
     [(1, ''MQCIT_MULTICAST'')] v"

definition MQCLCT_STR :: "int \<Rightarrow> string" where
  "MQCLCT_STR v = c_switch
     [(0, ''MQCLCT_STATIC''), (1, ''MQCLCT_DYNAMIC'')] v"

definition MQCLROUTE_STR :: "int \<Rightarrow> string" where
  "MQCLROUTE_STR v = c_switch
     [(0, ''MQCLROUTE_DIRECT''), (1, ''MQCLROUTE_TOPIC_HOST''), (2, ''MQCLROUTE_NONE'')] v"

definition MQCLRS_STR :: "int \<Rightarrow> string" where
  "MQCLRS_STR v = c_switch
     [(1, ''MQCLRS_LOCAL''), (2, ''MQCLRS_GLOBAL'')] v"

definition MQCLRT_STR :: "int \<Rightarrow> string" where
  "MQCLRT_STR v = c_switch
     [(1, ''MQCLRT_RETAINED'')] v"

definition MQCLST_STR :: "int \<Rightarrow> string" where
  "MQCLST_STR v = c_switch
     [(0, ''MQCLST_ACTIVE''), (1, ''MQCLST_PENDING''), (2, ''MQCLST_INVALID''),
      (3, ''MQCLST_ERROR'')] v"

lemmas names_A7_defs =
  MQCFT_STR_def MQCF_STR_def MQCGWI_STR_def MQCHAD_STR_def MQCHIDS_STR_def MQCHK_STR_def
  MQCHLA_STR_def MQCHLD_STR_def MQCHRR_STR_def MQCHSH_STR_def MQCHSR_STR_def MQCHSSTATE_STR_def
  MQCHS_STR_def MQCHTAB_STR_def MQCHT_STR_def MQCIH_STR_def MQCIT_STR_def MQCLCT_STR_def
  MQCLROUTE_STR_def MQCLRS_STR_def MQCLRT_STR_def

lemmas names_A7_facts =
  cmqcfc_All_cases cmqxc_MQCXP_cases MQCIH_values_cases cmqc_QueueManager_Attributes_1_cases
  cmqcfc_Group_Parameter_3_cases cmqcfc_Group_Parameter_6_cases cmqxc_MQCD_1_cases
  cmqc_Topic_Attributes_cases cmqxc_MQXEPO_2_cases

lemma names_A7:
  "list_all (names_ok a)
     [MQCFT_STR, MQCF_STR, MQCGWI_STR, MQCHAD_STR, MQCHIDS_STR, MQCHK_STR, MQCHLA_STR,
      MQCHLD_STR, MQCHRR_STR, MQCHSH_STR, MQCHSR_STR, MQCHSSTATE_STR, MQCHS_STR, MQCHTAB_STR,
      MQCHT_STR, MQCIH_STR, MQCIT_STR, MQCLCT_STR, MQCLROUTE_STR, MQCLRS_STR, MQCLRT_STR]"
  unfolding list.pred_inject
  by (intro conjI list.pred_inject(1);
      rule names_okI, rule names_A7_defs, simp only: names_A7_facts case_simps cong: case_congs)

definition MQCLT_STR :: "int \<Rightarrow> string" where
  "MQCLT_STR v = c_switch
     [(1, ''MQCLT_PROGRAM''), (2, ''MQCLT_TRANSACTION'')] v"

definition MQCLWL_STR :: "int \<Rightarrow> string" where
  "MQCLWL_STR v = c_switch
     [(- 3, ''MQCLWL_USEQ_AS_Q_MGR''), (0, ''MQCLWL_USEQ_LOCAL''), (1, ''MQCLWL_USEQ_ANY'')] v"

definition MQCLXQ_STR :: "int \<Rightarrow> string" where
  "MQCLXQ_STR v = c_switch
     [(0, ''MQCLXQ_SCTQ''), (1, ''MQCLXQ_CHANNEL'')] v"

definition MQCMDI_STR :: "int \<Rightarrow> string" where
  "MQCMDI_STR v = c_switch
     [(1, ''MQCMDI_CMDSCOPE_ACCEPTED''), (2, ''MQCMDI_CMDSCOPE_GENERATED''),
      (3, ''MQCMDI_CMDSCOPE_COMPLETED''), (4, ''MQCMDI_QSG_DISP_COMPLETED''),
      (5, ''MQCMDI_COMMAND_ACCEPTED''), (6, ''MQCMDI_CLUSTER_REQUEST_QUEUED''),
      (7, ''MQCMDI_CHANNEL_INIT_STARTED''), (11, ''MQCMDI_RECOVER_STARTED''),
      (12, ''MQCMDI_BACKUP_STARTED''), (13, ''MQCMDI_RECOVER_COMPLETED''),
      (14, ''MQCMDI_SEC_TIMER_ZERO''), (16, ''MQCMDI_REFRESH_CONFIGURATION''),
      (17, ''MQCMDI_SEC_SIGNOFF_ERROR''), (18, ''MQCMDI_IMS_BRIDGE_SUSPENDED''),
      (19, ''MQCMDI_DB2_SUSPENDED''), (20, ''MQCMDI_DB2_OBSOLETE_MSGS''),
      (21, ''MQCMDI_SEC_UPPERCASE''), (22, ''MQCMDI_SEC_MIXEDCASE'')] v"

definition MQCMDL_STR :: "int \<Rightarrow> string" where
  "MQCMDL_STR v = c_switch
     [(100, ''MQCMDL_LEVEL_1''), (101, ''MQCMDL_LEVEL_101''), (110, ''MQCMDL_LEVEL_110''),
      (114, ''MQCMDL_LEVEL_114''), (120, ''MQCMDL_LEVEL_120''), (200, ''MQCMDL_LEVEL_200''),
      (201, ''MQCMDL_LEVEL_201''), (210, ''MQCMDL_LEVEL_210''), (211, ''MQCMDL_LEVEL_211''),
      (220, ''MQCMDL_LEVEL_220''), (221, ''MQCMDL_LEVEL_221''), (230, ''MQCMDL_LEVEL_230''),
      (320, ''MQCMDL_LEVEL_320''), (420, ''MQCMDL_LEVEL_420''), (500, ''MQCMDL_LEVEL_500''),
      (510, ''MQCMDL_LEVEL_510''), (520, ''MQCMDL_LEVEL_520''), (530, ''MQCMDL_LEVEL_530''),
      (531, ''MQCMDL_LEVEL_531''), (600, ''MQCMDL_LEVEL_600''), (700, ''MQCMDL_LEVEL_700''),
      (701, ''MQCMDL_LEVEL_701''), (710, ''MQCMDL_LEVEL_710''), (711, ''MQCMDL_LEVEL_711''),
      (750, ''MQCMDL_LEVEL_750''), (800, ''MQCMDL_LEVEL_800''), (801, ''MQCMDL_LEVEL_801''),
      (802, ''MQCMDL_LEVEL_802''), (900, ''MQCMDL_LEVEL_900''), (901, ''MQCMDL_LEVEL_901''),
      (902, ''MQCMDL_LEVEL_902''), (903, ''MQCMDL_LEVEL_903''), (904, ''MQCMDL_LEVEL_904''),
      (905, ''MQCMDL_LEVEL_905''), (910, ''MQCMDL_LEVEL_910''), (911, ''MQCMDL_LEVEL_911''),
      (912, ''MQCMDL_LEVEL_912''), (913, ''MQCMDL_LEVEL_913''), (914, ''MQCMDL_LEVEL_914''),
      (915, ''MQCMDL_LEVEL_915''), (920, ''MQCMDL_LEVEL_920''), (921, ''MQCMDL_LEVEL_921''),
      (922, ''MQCMDL_LEVEL_922''), (923, ''MQCMDL_LEVEL_923''), (924, ''MQCMDL_LEVEL_924''),
      (925, ''MQCMDL_LEVEL_925''), (930, ''MQCMDL_LEVEL_930''), (931, ''MQCMDL_LEVEL_931''),
      (932, ''MQCMDL_LEVEL_932''), (933, ''MQCMDL_LEVEL_933''), (934, ''MQCMDL_LEVEL_934''),
      (935, ''MQCMDL_LEVEL_935'')] v"

lemmas names_A8_defs =
  MQCLST_STR_def MQCLT_STR_def MQCLWL_STR_def MQCLXQ_STR_def MQCMDI_STR_def MQCMDL_STR_def

lemmas names_A8_facts =
  cmqcfc_Group_Parameter_6_cases MQCIH_values_cases cmqc_QueueManager_Attributes_1_cases
  cmqcfc_Group_Parameter_3_cases

lemma names_A8:
  "list_all (names_ok a)
     [MQCLST_STR, MQCLT_STR, MQCLWL_STR, MQCLXQ_STR, MQCMDI_STR, MQCMDL_STR]"
  unfolding list.pred_inject
  by (intro conjI list.pred_inject(1);
      rule names_okI, rule names_A8_defs, simp only: names_A8_facts case_simps cong: case_congs)

definition MQCMD_cases_1 :: "(int \<times> string) list" where
  "MQCMD_cases_1 =
     [(0, ''MQCMD_NONE''), (1, ''MQCMD_CHANGE_Q_MGR''), (2, ''MQCMD_INQUIRE_Q_MGR''),
      (3, ''MQCMD_CHANGE_PROCESS''), (4, ''MQCMD_COPY_PROCESS''), (5, ''MQCMD_CREATE_PROCESS''),
      (6, ''MQCMD_DELETE_PROCESS''), (7, ''MQCMD_INQUIRE_PROCESS''), (8, ''MQCMD_CHANGE_Q''),
      (9, ''MQCMD_CLEAR_Q''), (10, ''MQCMD_COPY_Q''), (11, ''MQCMD_CREATE_Q''),
      (12, ''MQCMD_DELETE_Q''), (13, ''MQCMD_INQUIRE_Q''), (16, ''MQCMD_REFRESH_Q_MGR''),
      (17, ''MQCMD_RESET_Q_STATS''), (18, ''MQCMD_INQUIRE_Q_NAMES''),
      (19, ''MQCMD_INQUIRE_PROCESS_NAMES''), (20, ''MQCMD_INQUIRE_CHANNEL_NAMES''),
      (21, ''MQCMD_CHANGE_CHANNEL''), (22, ''MQCMD_COPY_CHANNEL''),
      (23, ''MQCMD_CREATE_CHANNEL''), (24, ''MQCMD_DELETE_CHANNEL''),
      (25, ''MQCMD_INQUIRE_CHANNEL''), (26, ''MQCMD_PING_CHANNEL''),
      (27, ''MQCMD_RESET_CHANNEL''), (28, ''MQCMD_START_CHANNEL''),
      (29, ''MQCMD_STOP_CHANNEL''), (30, ''MQCMD_START_CHANNEL_INIT''),
      (31, ''MQCMD_START_CHANNEL_LISTENER''), (32, ''MQCMD_CHANGE_NAMELIST''),
      (33, ''MQCMD_COPY_NAMELIST''), (34, ''MQCMD_CREATE_NAMELIST''),
      (35, ''MQCMD_DELETE_NAMELIST''), (36, ''MQCMD_INQUIRE_NAMELIST''),
      (37, ''MQCMD_INQUIRE_NAMELIST_NAMES''), (38, ''MQCMD_ESCAPE''),
      (39, ''MQCMD_RESOLVE_CHANNEL''), (40, ''MQCMD_PING_Q_MGR''),
      (41, ''MQCMD_INQUIRE_Q_STATUS''), (42, ''MQCMD_INQUIRE_CHANNEL_STATUS''),
      (43, ''MQCMD_CONFIG_EVENT''), (44, ''MQCMD_Q_MGR_EVENT''), (45, ''MQCMD_PERFM_EVENT''),
      (46, ''MQCMD_CHANNEL_EVENT''), (60, ''MQCMD_DELETE_PUBLICATION''),
      (61, ''MQCMD_DEREGISTER_PUBLISHER''), (62, ''MQCMD_DEREGISTER_SUBSCRIBER''),
      (63, ''MQCMD_PUBLISH''), (64, ''MQCMD_REGISTER_PUBLISHER''),
      (65, ''MQCMD_REGISTER_SUBSCRIBER''), (66, ''MQCMD_REQUEST_UPDATE''),
      (67, ''MQCMD_BROKER_INTERNAL''), (69, ''MQCMD_ACTIVITY_MSG''),
      (70, ''MQCMD_INQUIRE_CLUSTER_Q_MGR''), (71, ''MQCMD_RESUME_Q_MGR_CLUSTER''),
      (72, ''MQCMD_SUSPEND_Q_MGR_CLUSTER''), (73, ''MQCMD_REFRESH_CLUSTER''),
      (74, ''MQCMD_RESET_CLUSTER''), (75, ''MQCMD_TRACE_ROUTE''),
      (78, ''MQCMD_REFRESH_SECURITY''), (79, ''MQCMD_CHANGE_AUTH_INFO''),
      (80, ''MQCMD_COPY_AUTH_INFO''), (81, ''MQCMD_CREATE_AUTH_INFO''),
      (82, ''MQCMD_DELETE_AUTH_INFO''), (83, ''MQCMD_INQUIRE_AUTH_INFO''),
      (84, ''MQCMD_INQUIRE_AUTH_INFO_NAMES''), (85, ''MQCMD_INQUIRE_CONNECTION''),
      (86, ''MQCMD_STOP_CONNECTION''), (87, ''MQCMD_INQUIRE_AUTH_RECS''),
      (88, ''MQCMD_INQUIRE_ENTITY_AUTH''), (89, ''MQCMD_DELETE_AUTH_REC''),
      (90, ''MQCMD_SET_AUTH_REC''), (91, ''MQCMD_LOGGER_EVENT''), (92, ''MQCMD_RESET_Q_MGR''),
      (93, ''MQCMD_CHANGE_LISTENER''), (94, ''MQCMD_COPY_LISTENER''),
      (95, ''MQCMD_CREATE_LISTENER''), (96, ''MQCMD_DELETE_LISTENER''),
      (97, ''MQCMD_INQUIRE_LISTENER''), (98, ''MQCMD_INQUIRE_LISTENER_STATUS''),
      (99, ''MQCMD_COMMAND_EVENT''), (100, ''MQCMD_CHANGE_SECURITY''),
      (101, ''MQCMD_CHANGE_CF_STRUC''), (102, ''MQCMD_CHANGE_STG_CLASS''),
      (103, ''MQCMD_CHANGE_TRACE''), (104, ''MQCMD_ARCHIVE_LOG''),
      (105, ''MQCMD_BACKUP_CF_STRUC''), (106, ''MQCMD_CREATE_BUFFER_POOL''),
      (107, ''MQCMD_CREATE_PAGE_SET''), (108, ''MQCMD_CREATE_CF_STRUC''),
      (109, ''MQCMD_CREATE_STG_CLASS''), (110, ''MQCMD_COPY_CF_STRUC''),
      (111, ''MQCMD_COPY_STG_CLASS''), (112, ''MQCMD_DELETE_CF_STRUC''),
      (113, ''MQCMD_DELETE_STG_CLASS''), (114, ''MQCMD_INQUIRE_ARCHIVE''),
      (115, ''MQCMD_INQUIRE_CF_STRUC''), (116, ''MQCMD_INQUIRE_CF_STRUC_STATUS''),
      (117, ''MQCMD_INQUIRE_CMD_SERVER''), (118, ''MQCMD_INQUIRE_CHANNEL_INIT''),
      (119, ''MQCMD_INQUIRE_QSG''), (120, ''MQCMD_INQUIRE_LOG''),
      (121, ''MQCMD_INQUIRE_SECURITY''), (122, ''MQCMD_INQUIRE_STG_CLASS''),
      (123, ''MQCMD_INQUIRE_SYSTEM''), (124, ''MQCMD_INQUIRE_THREAD''),
      (125, ''MQCMD_INQUIRE_TRACE''), (126, ''MQCMD_INQUIRE_USAGE''), (127, ''MQCMD_MOVE_Q''),
      (128, ''MQCMD_RECOVER_BSDS''), (129, ''MQCMD_RECOVER_CF_STRUC''),
      (130, ''MQCMD_RESET_TPIPE''), (131, ''MQCMD_RESOLVE_INDOUBT''),
      (132, ''MQCMD_RESUME_Q_MGR''), (133, ''MQCMD_REVERIFY_SECURITY''),
      (134, ''MQCMD_SET_ARCHIVE''), (136, ''MQCMD_SET_LOG''), (137, ''MQCMD_SET_SYSTEM''),
      (138, ''MQCMD_START_CMD_SERVER''), (139, ''MQCMD_START_Q_MGR''),
      (140, ''MQCMD_START_TRACE''), (141, ''MQCMD_STOP_CHANNEL_INIT''),
      (142, ''MQCMD_STOP_CHANNEL_LISTENER''), (143, ''MQCMD_STOP_CMD_SERVER''),
      (144, ''MQCMD_STOP_Q_MGR''), (145, ''MQCMD_STOP_TRACE''), (146, ''MQCMD_SUSPEND_Q_MGR''),
      (147, ''MQCMD_INQUIRE_CF_STRUC_NAMES''), (148, ''MQCMD_INQUIRE_STG_CLASS_NAMES''),
      (149, ''MQCMD_CHANGE_SERVICE''), (150, ''MQCMD_COPY_SERVICE''),
      (151, ''MQCMD_CREATE_SERVICE''), (152, ''MQCMD_DELETE_SERVICE''),
      (153, ''MQCMD_INQUIRE_SERVICE''), (154, ''MQCMD_INQUIRE_SERVICE_STATUS''),
      (155, ''MQCMD_START_SERVICE''), (156, ''MQCMD_STOP_SERVICE''),
      (157, ''MQCMD_DELETE_BUFFER_POOL''), (158, ''MQCMD_DELETE_PAGE_SET'')]"

definition MQCMD_cases_2 :: "(int \<times> string) list" where
  "MQCMD_cases_2 =
     [(159, ''MQCMD_CHANGE_BUFFER_POOL''), (160, ''MQCMD_CHANGE_PAGE_SET''),
      (161, ''MQCMD_INQUIRE_Q_MGR_STATUS''), (162, ''MQCMD_CREATE_LOG''),
      (164, ''MQCMD_STATISTICS_MQI''), (165, ''MQCMD_STATISTICS_Q''),
      (166, ''MQCMD_STATISTICS_CHANNEL''), (167, ''MQCMD_ACCOUNTING_MQI''),
      (168, ''MQCMD_ACCOUNTING_Q''), (169, ''MQCMD_INQUIRE_AUTH_SERVICE''),
      (170, ''MQCMD_CHANGE_TOPIC''), (171, ''MQCMD_COPY_TOPIC''), (172, ''MQCMD_CREATE_TOPIC''),
      (173, ''MQCMD_DELETE_TOPIC''), (174, ''MQCMD_INQUIRE_TOPIC''),
      (175, ''MQCMD_INQUIRE_TOPIC_NAMES''), (176, ''MQCMD_INQUIRE_SUBSCRIPTION''),
      (177, ''MQCMD_CREATE_SUBSCRIPTION''), (178, ''MQCMD_CHANGE_SUBSCRIPTION''),
      (179, ''MQCMD_DELETE_SUBSCRIPTION''), (181, ''MQCMD_COPY_SUBSCRIPTION''),
      (182, ''MQCMD_INQUIRE_SUB_STATUS''), (183, ''MQCMD_INQUIRE_TOPIC_STATUS''),
      (184, ''MQCMD_CLEAR_TOPIC_STRING''), (185, ''MQCMD_INQUIRE_PUBSUB_STATUS''),
      (186, ''MQCMD_INQUIRE_SMDS''), (187, ''MQCMD_CHANGE_SMDS''), (188, ''MQCMD_RESET_SMDS''),
      (190, ''MQCMD_CREATE_COMM_INFO''), (191, ''MQCMD_INQUIRE_COMM_INFO''),
      (192, ''MQCMD_CHANGE_COMM_INFO''), (193, ''MQCMD_COPY_COMM_INFO''),
      (194, ''MQCMD_DELETE_COMM_INFO''), (195, ''MQCMD_PURGE_CHANNEL''),
      (196, ''MQCMD_MQXR_DIAGNOSTICS''), (197, ''MQCMD_START_SMDSCONN''),
      (198, ''MQCMD_STOP_SMDSCONN''), (199, ''MQCMD_INQUIRE_SMDSCONN''),
      (200, ''MQCMD_INQUIRE_MQXR_STATUS''), (201, ''MQCMD_START_CLIENT_TRACE''),
      (202, ''MQCMD_STOP_CLIENT_TRACE''), (203, ''MQCMD_SET_CHLAUTH_REC''),
      (204, ''MQCMD_INQUIRE_CHLAUTH_RECS''), (205, ''MQCMD_INQUIRE_PROT_POLICY''),
      (206, ''MQCMD_CREATE_PROT_POLICY''), (207, ''MQCMD_DELETE_PROT_POLICY''),
      (208, ''MQCMD_CHANGE_PROT_POLICY''), (209, ''MQCMD_ACTIVITY_TRACE''),
      (213, ''MQCMD_RESET_CF_STRUC''), (214, ''MQCMD_INQUIRE_XR_CAPABILITY''),
      (216, ''MQCMD_INQUIRE_AMQP_CAPABILITY''), (217, ''MQCMD_AMQP_DIAGNOSTICS''),
      (218, ''MQCMD_INTER_Q_MGR_STATUS''), (219, ''MQCMD_INTER_Q_MGR_BALANCE''),
      (220, ''MQCMD_INQUIRE_APPL_STATUS'')]"

definition MQCMD_STR :: "int \<Rightarrow> string" where
  "MQCMD_STR v = c_switch (MQCMD_cases_1 @ MQCMD_cases_2) v"

lemma MQCMD_cases_1_ok: "list_all (case_fact a) MQCMD_cases_1"
  unfolding MQCMD_cases_1_def
  by (simp only: cmqcfc_MQCFH_2_cases cmqcfc_MQCFH_3_cases
      case_simps cong: case_congs)

lemma MQCMD_cases_2_ok: "list_all (case_fact a) MQCMD_cases_2"
  unfolding MQCMD_cases_2_def
  by (simp only: cmqcfc_MQCFH_3_cases
      case_simps cong: case_congs)

lemma names_A9: "list_all (names_ok a) [MQCMD_STR]"
  unfolding list.pred_inject
  by (intro conjI list.pred_inject(1) names_okI [OF MQCMD_STR_def])
     (simp only: list_all_append simp_thms MQCMD_cases_1_ok MQCMD_cases_2_ok)

end
