(* ===== verification/Mqi_Names_B.thy ===== *)
theory Mqi_Names_B
  imports Mqi_Facts_C Mqi_Facts_P
begin

text \<open>
  The functions \<open>MQCMHO_STR\<close> to \<open>MQIA_STR\<close> of \<open>cmqstrc.h\<close>.
\<close>

definition MQCMHO_STR :: "int \<Rightarrow> string" where
  "MQCMHO_STR v = c_switch
     [(0, ''MQCMHO_NONE''), (1, ''MQCMHO_NO_VALIDATION''), (2, ''MQCMHO_VALIDATE'')] v"

definition MQCNO_STR :: "int \<Rightarrow> string" where
  "MQCNO_STR v = c_switch
     [(0, ''MQCNO_NONE''), (1, ''MQCNO_FASTPATH_BINDING''),
      (2, ''MQCNO_SERIALIZE_CONN_TAG_Q_MGR''), (4, ''MQCNO_SERIALIZE_CONN_TAG_QSG''),
      (8, ''MQCNO_RESTRICT_CONN_TAG_Q_MGR''), (16, ''MQCNO_RESTRICT_CONN_TAG_QSG''),
      (32, ''MQCNO_HANDLE_SHARE_NONE''), (64, ''MQCNO_HANDLE_SHARE_BLOCK''),
      (128, ''MQCNO_HANDLE_SHARE_NO_BLOCK''), (256, ''MQCNO_SHARED_BINDING''),
      (512, ''MQCNO_ISOLATED_BINDING''), (1024, ''MQCNO_LOCAL_BINDING''),
      (2048, ''MQCNO_CLIENT_BINDING''), (4096, ''MQCNO_ACCOUNTING_MQI_ENABLED''),
      (8192, ''MQCNO_ACCOUNTING_MQI_DISABLED''), (16384, ''MQCNO_ACCOUNTING_Q_ENABLED''),
      (32768, ''MQCNO_ACCOUNTING_Q_DISABLED''), (65536, ''MQCNO_NO_CONV_SHARING''),
      (262144, ''MQCNO_ALL_CONVS_SHARE''), (524288, ''MQCNO_CD_FOR_OUTPUT_ONLY''),
      (1048576, ''MQCNO_USE_CD_SELECTION''), (2097152, ''MQCNO_GENERATE_CONN_TAG''),
      (16777216, ''MQCNO_RECONNECT''), (33554432, ''MQCNO_RECONNECT_DISABLED''),
      (67108864, ''MQCNO_RECONNECT_Q_MGR''), (134217728, ''MQCNO_ACTIVITY_TRACE_ENABLED''),
      (268435456, ''MQCNO_ACTIVITY_TRACE_DISABLED'')] v"

definition MQCODL_STR :: "int \<Rightarrow> string" where
  "MQCODL_STR v = c_switch
     [(- 1, ''MQCODL_AS_INPUT'')] v"

definition MQCOMPRESS_STR :: "int \<Rightarrow> string" where
  "MQCOMPRESS_STR v = c_switch
     [(- 1, ''MQCOMPRESS_NOT_AVAILABLE''), (0, ''MQCOMPRESS_NONE''), (1, ''MQCOMPRESS_RLE''),
      (2, ''MQCOMPRESS_ZLIBFAST''), (4, ''MQCOMPRESS_ZLIBHIGH''), (8, ''MQCOMPRESS_SYSTEM''),
      (268435455, ''MQCOMPRESS_ANY'')] v"

definition MQCOPY_STR :: "int \<Rightarrow> string" where
  "MQCOPY_STR v = c_switch
     [(0, ''MQCOPY_NONE''), (1, ''MQCOPY_ALL''), (2, ''MQCOPY_FORWARD''),
      (4, ''MQCOPY_PUBLISH''), (8, ''MQCOPY_REPLY''), (16, ''MQCOPY_REPORT''),
      (22, ''MQCOPY_DEFAULT'')] v"

definition MQCO_STR :: "int \<Rightarrow> string" where
  "MQCO_STR v = c_switch
     [(0, ''MQCO_NONE''), (1, ''MQCO_DELETE''), (2, ''MQCO_DELETE_PURGE''),
      (4, ''MQCO_KEEP_SUB''), (8, ''MQCO_REMOVE_SUB''), (32, ''MQCO_QUIESCE'')] v"

definition MQCQT_STR :: "int \<Rightarrow> string" where
  "MQCQT_STR v = c_switch
     [(1, ''MQCQT_LOCAL_Q''), (2, ''MQCQT_ALIAS_Q''), (3, ''MQCQT_REMOTE_Q''),
      (4, ''MQCQT_Q_MGR_ALIAS'')] v"

definition MQCRC_STR :: "int \<Rightarrow> string" where
  "MQCRC_STR v = c_switch
     [(0, ''MQCRC_OK''), (1, ''MQCRC_CICS_EXEC_ERROR''), (2, ''MQCRC_MQ_API_ERROR''),
      (3, ''MQCRC_BRIDGE_ERROR''), (4, ''MQCRC_BRIDGE_ABEND''),
      (5, ''MQCRC_APPLICATION_ABEND''), (6, ''MQCRC_SECURITY_ERROR''),
      (7, ''MQCRC_PROGRAM_NOT_AVAILABLE''), (8, ''MQCRC_BRIDGE_TIMEOUT''),
      (9, ''MQCRC_TRANSID_NOT_AVAILABLE'')] v"

definition MQCSP_STR :: "int \<Rightarrow> string" where
  "MQCSP_STR v = c_switch
     [(0, ''MQCSP_AUTH_NONE''), (1, ''MQCSP_AUTH_USER_ID_AND_PWD''),
      (2, ''MQCSP_AUTH_ID_TOKEN'')] v"

definition MQCSRV_CONVERT_STR :: "int \<Rightarrow> string" where
  "MQCSRV_CONVERT_STR v = c_switch
     [(0, ''MQCSRV_CONVERT_NO''), (1, ''MQCSRV_CONVERT_YES'')] v"

definition MQCSRV_DLQ_STR :: "int \<Rightarrow> string" where
  "MQCSRV_DLQ_STR v = c_switch
     [(0, ''MQCSRV_DLQ_NO''), (1, ''MQCSRV_DLQ_YES'')] v"

definition MQCS_STR :: "int \<Rightarrow> string" where
  "MQCS_STR v = c_switch
     [(0, ''MQCS_NONE''), (1, ''MQCS_SUSPENDED_TEMPORARY''),
      (2, ''MQCS_SUSPENDED_USER_ACTION''), (3, ''MQCS_SUSPENDED''), (4, ''MQCS_STOPPED'')] v"

definition MQCTES_STR :: "int \<Rightarrow> string" where
  "MQCTES_STR v = c_switch
     [(0, ''MQCTES_NOSYNC''), (256, ''MQCTES_COMMIT''), (4352, ''MQCTES_BACKOUT''),
      (65536, ''MQCTES_ENDTASK'')] v"

definition MQCTLO_STR :: "int \<Rightarrow> string" where
  "MQCTLO_STR v = c_switch
     [(0, ''MQCTLO_NONE''), (1, ''MQCTLO_THREAD_AFFINITY''),
      (8192, ''MQCTLO_FAIL_IF_QUIESCING'')] v"

definition MQCUOWC_STR :: "int \<Rightarrow> string" where
  "MQCUOWC_STR v = c_switch
     [(16, ''MQCUOWC_MIDDLE''), (256, ''MQCUOWC_COMMIT''), (273, ''MQCUOWC_ONLY''),
      (4352, ''MQCUOWC_BACKOUT''), (65536, ''MQCUOWC_CONTINUE'')] v"

definition MQDCC_STR :: "int \<Rightarrow> string" where
  "MQDCC_STR v = c_switch
     [(0, ''MQDCC_NONE''), (1, ''MQDCC_DEFAULT_CONVERSION''), (2, ''MQDCC_FILL_TARGET_BUFFER''),
      (4, ''MQDCC_INT_DEFAULT_CONVERSION''), (16, ''MQDCC_SOURCE_ENC_NORMAL''),
      (32, ''MQDCC_SOURCE_ENC_REVERSED''), (240, ''MQDCC_SOURCE_ENC_MASK''),
      (256, ''MQDCC_TARGET_ENC_NORMAL''), (512, ''MQDCC_TARGET_ENC_REVERSED''),
      (3840, ''MQDCC_TARGET_ENC_MASK'')] v"

definition MQDC_STR :: "int \<Rightarrow> string" where
  "MQDC_STR v = c_switch
     [(1, ''MQDC_MANAGED''), (2, ''MQDC_PROVIDED'')] v"

definition MQDELO_STR :: "int \<Rightarrow> string" where
  "MQDELO_STR v = c_switch
     [(0, ''MQDELO_NONE''), (4, ''MQDELO_LOCAL'')] v"

definition MQDHF_STR :: "int \<Rightarrow> string" where
  "MQDHF_STR v = c_switch
     [(0, ''MQDHF_NONE''), (1, ''MQDHF_NEW_MSG_IDS'')] v"

definition MQDISCONNECT_STR :: "int \<Rightarrow> string" where
  "MQDISCONNECT_STR v = c_switch
     [(0, ''MQDISCONNECT_NORMAL''), (1, ''MQDISCONNECT_IMPLICIT''), (2, ''MQDISCONNECT_Q_MGR'')] v"

definition MQDLV_STR :: "int \<Rightarrow> string" where
  "MQDLV_STR v = c_switch
     [(0, ''MQDLV_AS_PARENT''), (1, ''MQDLV_ALL''), (2, ''MQDLV_ALL_DUR''),
      (3, ''MQDLV_ALL_AVAIL'')] v"

lemmas names_B1_defs =
  MQCMHO_STR_def MQCNO_STR_def MQCODL_STR_def MQCOMPRESS_STR_def MQCOPY_STR_def MQCO_STR_def
  MQCQT_STR_def MQCRC_STR_def MQCSP_STR_def MQCSRV_CONVERT_STR_def MQCSRV_DLQ_STR_def
  MQCS_STR_def MQCTES_STR_def MQCTLO_STR_def MQCUOWC_STR_def MQDCC_STR_def MQDC_STR_def
  MQDELO_STR_def MQDHF_STR_def MQDISCONNECT_STR_def

lemmas names_B1_facts =
  MQCMHO_values_cases MQCNO_values_cases MQCIH_values_cases cmqxc_MQCD_1_cases MQPD_values_cases
  cmqc_MQCLOSE_Function_cases cmqc_Queue_Attributes_cases MQCSP_values_cases
  cmqc_QueueManager_Attributes_1_cases MQCBC_values_cases MQCTLO_values_cases
  cmqxc_MQXCNVC_Function_cases cmqc_Subscription_Attributes_cases cmqcfc_Publish_Subscribe_cases
  MQDH_values_cases cmqcfc_Group_Parameter_3_cases

lemma names_B1:
  "list_all (names_ok a)
     [MQCMHO_STR, MQCNO_STR, MQCODL_STR, MQCOMPRESS_STR, MQCOPY_STR, MQCO_STR, MQCQT_STR,
      MQCRC_STR, MQCSP_STR, MQCSRV_CONVERT_STR, MQCSRV_DLQ_STR, MQCS_STR, MQCTES_STR,
      MQCTLO_STR, MQCUOWC_STR, MQDCC_STR, MQDC_STR, MQDELO_STR, MQDHF_STR, MQDISCONNECT_STR]"
  unfolding list.pred_inject
  by (intro conjI list.pred_inject(1);
      rule names_okI, rule names_B1_defs, simp only: names_B1_facts case_simps cong: case_congs)

definition MQDL_STR :: "int \<Rightarrow> string" where
  "MQDL_STR v = c_switch
     [(0, ''MQDL_NOT_SUPPORTED''), (1, ''MQDL_SUPPORTED'')] v"

definition MQDMHO_STR :: "int \<Rightarrow> string" where
  "MQDMHO_STR v = c_switch
     [(0, ''MQDMHO_NONE'')] v"

definition MQDMPO_STR :: "int \<Rightarrow> string" where
  "MQDMPO_STR v = c_switch
     [(0, ''MQDMPO_NONE''), (1, ''MQDMPO_DEL_PROP_UNDER_CURSOR'')] v"

definition MQDNSWLM_STR :: "int \<Rightarrow> string" where
  "MQDNSWLM_STR v = c_switch
     [(0, ''MQDNSWLM_NO''), (1, ''MQDNSWLM_YES'')] v"

definition MQDOPT_STR :: "int \<Rightarrow> string" where
  "MQDOPT_STR v = c_switch
     [(0, ''MQDOPT_RESOLVED''), (1, ''MQDOPT_DEFINED'')] v"

definition MQDSB_STR :: "int \<Rightarrow> string" where
  "MQDSB_STR v = c_switch
     [(0, ''MQDSB_DEFAULT''), (1, ''MQDSB_8K''), (2, ''MQDSB_16K''), (3, ''MQDSB_32K''),
      (4, ''MQDSB_64K''), (5, ''MQDSB_128K''), (6, ''MQDSB_256K''), (7, ''MQDSB_512K''),
      (8, ''MQDSB_1M'')] v"

definition MQDSE_STR :: "int \<Rightarrow> string" where
  "MQDSE_STR v = c_switch
     [(0, ''MQDSE_DEFAULT''), (1, ''MQDSE_YES''), (2, ''MQDSE_NO'')] v"

definition MQEC_STR :: "int \<Rightarrow> string" where
  "MQEC_STR v = c_switch
     [(2, ''MQEC_MSG_ARRIVED''), (3, ''MQEC_WAIT_INTERVAL_EXPIRED''),
      (4, ''MQEC_WAIT_CANCELED''), (5, ''MQEC_Q_MGR_QUIESCING''),
      (6, ''MQEC_CONNECTION_QUIESCING'')] v"

definition MQEI_STR :: "int \<Rightarrow> string" where
  "MQEI_STR v = c_switch
     [(- 1, ''MQEI_UNLIMITED'')] v"

definition MQENC_STR :: "int \<Rightarrow> string" where
  "MQENC_STR v = c_switch
     [(- 4096, ''MQENC_RESERVED_MASK''), (- 1, ''MQENC_AS_PUBLISHED''),
      (1, ''MQENC_INTEGER_NORMAL''), (2, ''MQENC_INTEGER_REVERSED''),
      (15, ''MQENC_INTEGER_MASK''), (16, ''MQENC_DECIMAL_NORMAL''),
      (32, ''MQENC_DECIMAL_REVERSED''), (240, ''MQENC_DECIMAL_MASK''),
      (256, ''MQENC_FLOAT_IEEE_NORMAL''), (273, ''MQENC_NORMAL''),
      (512, ''MQENC_FLOAT_IEEE_REVERSED''), (546, ''MQENC_REVERSED''),
      (768, ''MQENC_FLOAT_S390''), (785, ''MQENC_S390''), (1024, ''MQENC_FLOAT_TNS''),
      (1041, ''MQENC_TNS''), (3840, ''MQENC_FLOAT_MASK'')] v"

definition MQEPH_STR :: "int \<Rightarrow> string" where
  "MQEPH_STR v = c_switch
     [(0, ''MQEPH_NONE''), (1, ''MQEPH_CCSID_EMBEDDED'')] v"

definition MQET_STR :: "int \<Rightarrow> string" where
  "MQET_STR v = c_switch
     [(1, ''MQET_MQSC'')] v"

definition MQEVO_STR :: "int \<Rightarrow> string" where
  "MQEVO_STR v = c_switch
     [(0, ''MQEVO_OTHER''), (1, ''MQEVO_CONSOLE''), (2, ''MQEVO_INIT''), (3, ''MQEVO_MSG''),
      (4, ''MQEVO_MQSET''), (5, ''MQEVO_INTERNAL''), (6, ''MQEVO_MQSUB''),
      (7, ''MQEVO_CTLMSG''), (8, ''MQEVO_REST'')] v"

definition MQEVR_STR :: "int \<Rightarrow> string" where
  "MQEVR_STR v = c_switch
     [(0, ''MQEVR_DISABLED''), (1, ''MQEVR_ENABLED''), (2, ''MQEVR_EXCEPTION''),
      (3, ''MQEVR_NO_DISPLAY''), (4, ''MQEVR_API_ONLY''), (5, ''MQEVR_ADMIN_ONLY''),
      (6, ''MQEVR_USER_ONLY'')] v"

definition MQEXPI_STR :: "int \<Rightarrow> string" where
  "MQEXPI_STR v = c_switch
     [(0, ''MQEXPI_OFF'')] v"

definition MQEXTATTRS_STR :: "int \<Rightarrow> string" where
  "MQEXTATTRS_STR v = c_switch
     [(0, ''MQEXTATTRS_ALL''), (1, ''MQEXTATTRS_NONDEF'')] v"

definition MQEXT_STR :: "int \<Rightarrow> string" where
  "MQEXT_STR v = c_switch
     [(0, ''MQEXT_ALL''), (1, ''MQEXT_OBJECT''), (2, ''MQEXT_AUTHORITY'')] v"

definition MQFB_STR :: "int \<Rightarrow> string" where
  "MQFB_STR v = c_switch
     [(0, ''MQFB_NONE''), (256, ''MQFB_QUIT''), (258, ''MQFB_EXPIRATION''), (259, ''MQFB_COA''),
      (260, ''MQFB_COD''), (262, ''MQFB_CHANNEL_COMPLETED''),
      (263, ''MQFB_CHANNEL_FAIL_RETRY''), (264, ''MQFB_CHANNEL_FAIL''),
      (265, ''MQFB_APPL_CANNOT_BE_STARTED''), (266, ''MQFB_TM_ERROR''),
      (267, ''MQFB_APPL_TYPE_ERROR''), (268, ''MQFB_STOPPED_BY_MSG_EXIT''),
      (269, ''MQFB_ACTIVITY''), (271, ''MQFB_XMIT_Q_MSG_ERROR''), (275, ''MQFB_PAN''),
      (276, ''MQFB_NAN''), (277, ''MQFB_STOPPED_BY_CHAD_EXIT''),
      (279, ''MQFB_STOPPED_BY_PUBSUB_EXIT''), (280, ''MQFB_NOT_A_REPOSITORY_MSG''),
      (281, ''MQFB_BIND_OPEN_CLUSRCVR_DEL''), (282, ''MQFB_MAX_ACTIVITIES''),
      (283, ''MQFB_NOT_FORWARDED''), (284, ''MQFB_NOT_DELIVERED''),
      (285, ''MQFB_UNSUPPORTED_FORWARDING''), (286, ''MQFB_UNSUPPORTED_DELIVERY''),
      (291, ''MQFB_DATA_LENGTH_ZERO''), (292, ''MQFB_DATA_LENGTH_NEGATIVE''),
      (293, ''MQFB_DATA_LENGTH_TOO_BIG''), (294, ''MQFB_BUFFER_OVERFLOW''),
      (295, ''MQFB_LENGTH_OFF_BY_ONE''), (296, ''MQFB_IIH_ERROR''),
      (298, ''MQFB_NOT_AUTHORIZED_FOR_IMS''), (299, ''MQFB_DATA_LENGTH_TOO_SHORT''),
      (300, ''MQFB_IMS_ERROR''), (401, ''MQFB_CICS_INTERNAL_ERROR''),
      (402, ''MQFB_CICS_NOT_AUTHORIZED''), (403, ''MQFB_CICS_BRIDGE_FAILURE''),
      (404, ''MQFB_CICS_CORREL_ID_ERROR''), (405, ''MQFB_CICS_CCSID_ERROR''),
      (406, ''MQFB_CICS_ENCODING_ERROR''), (407, ''MQFB_CICS_CIH_ERROR''),
      (408, ''MQFB_CICS_UOW_ERROR''), (409, ''MQFB_CICS_COMMAREA_ERROR''),
      (410, ''MQFB_CICS_APPL_NOT_STARTED''), (411, ''MQFB_CICS_APPL_ABENDED''),
      (412, ''MQFB_CICS_DLQ_ERROR''), (413, ''MQFB_CICS_UOW_BACKED_OUT''),
      (501, ''MQFB_PUBLICATIONS_ON_REQUEST''), (502, ''MQFB_SUBSCRIBER_IS_PUBLISHER''),
      (503, ''MQFB_MSG_SCOPE_MISMATCH''), (504, ''MQFB_SELECTOR_MISMATCH''),
      (505, ''MQFB_NOT_A_GROUPUR_MSG'')] v"

lemmas names_B2_defs =
  MQDLV_STR_def MQDL_STR_def MQDMHO_STR_def MQDMPO_STR_def MQDNSWLM_STR_def MQDOPT_STR_def
  MQDSB_STR_def MQDSE_STR_def MQEC_STR_def MQEI_STR_def MQENC_STR_def MQEPH_STR_def MQET_STR_def
  MQEVO_STR_def MQEVR_STR_def MQEXPI_STR_def MQEXTATTRS_STR_def MQEXT_STR_def

lemmas names_B2_facts =
  cmqc_Topic_Attributes_cases cmqc_Queue_Attributes_cases MQDMHO_values_cases
  MQDMPO_values_cases cmqc_QueueManager_Attributes_1_cases cmqcfc_Group_Parameter_6_cases
  cmqc_Channel_Authentication_Configuration_1_cases MQGMO_values_cases MQMD_values_1_cases
  combined_cases MQMD_values_2_cases cmqcfc_MQEPH_cases cmqcfc_Group_Parameter_4_cases

lemma names_B2:
  "list_all (names_ok a)
     [MQDLV_STR, MQDL_STR, MQDMHO_STR, MQDMPO_STR, MQDNSWLM_STR, MQDOPT_STR, MQDSB_STR,
      MQDSE_STR, MQEC_STR, MQEI_STR, MQENC_STR, MQEPH_STR, MQET_STR, MQEVO_STR, MQEVR_STR,
      MQEXPI_STR, MQEXTATTRS_STR, MQEXT_STR]"
  unfolding list.pred_inject
  by (intro conjI list.pred_inject(1);
      rule names_okI, rule names_B2_defs, simp only: names_B2_facts case_simps cong: case_congs)

definition MQFC_STR :: "int \<Rightarrow> string" where
  "MQFC_STR v = c_switch
     [(0, ''MQFC_NO''), (1, ''MQFC_YES'')] v"

definition MQFSENC_STR :: "int \<Rightarrow> string" where
  "MQFSENC_STR v = c_switch
     [(0, ''MQFSENC_NO''), (1, ''MQFSENC_YES''), (2, ''MQFSENC_UNKNOWN'')] v"

definition MQFS_STR :: "int \<Rightarrow> string" where
  "MQFS_STR v = c_switch
     [(- 1, ''MQFS_SHARED'')] v"

definition MQFUN_STR :: "int \<Rightarrow> string" where
  "MQFUN_STR v = c_switch
     [(0, ''MQFUN_TYPE_UNKNOWN''), (1, ''MQFUN_TYPE_JVM''), (2, ''MQFUN_TYPE_PROGRAM''),
      (3, ''MQFUN_TYPE_PROCEDURE''), (4, ''MQFUN_TYPE_USERDEF''), (5, ''MQFUN_TYPE_COMMAND'')] v"

definition MQGACF_STR :: "int \<Rightarrow> string" where
  "MQGACF_STR v = c_switch
     [(8001, ''MQGACF_COMMAND_CONTEXT''), (8002, ''MQGACF_COMMAND_DATA''),
      (8003, ''MQGACF_TRACE_ROUTE''), (8004, ''MQGACF_OPERATION''), (8005, ''MQGACF_ACTIVITY''),
      (8006, ''MQGACF_EMBEDDED_MQMD''), (8007, ''MQGACF_MESSAGE''), (8008, ''MQGACF_MQMD''),
      (8009, ''MQGACF_VALUE_NAMING''), (8010, ''MQGACF_Q_ACCOUNTING_DATA''),
      (8011, ''MQGACF_Q_STATISTICS_DATA''), (8012, ''MQGACF_CHL_STATISTICS_DATA''),
      (8013, ''MQGACF_ACTIVITY_TRACE''), (8014, ''MQGACF_APP_DIST_LIST''),
      (8015, ''MQGACF_MONITOR_CLASS''), (8016, ''MQGACF_MONITOR_TYPE''),
      (8017, ''MQGACF_MONITOR_ELEMENT''), (8018, ''MQGACF_APPL_STATUS''),
      (8019, ''MQGACF_CHANGED_APPLS''), (8020, ''MQGACF_ALL_APPLS''),
      (8021, ''MQGACF_APPL_BALANCE'')] v"

definition MQGMO_STR :: "int \<Rightarrow> string" where
  "MQGMO_STR v = c_switch
     [(0, ''MQGMO_NONE''), (1, ''MQGMO_WAIT''), (2, ''MQGMO_SYNCPOINT''),
      (4, ''MQGMO_NO_SYNCPOINT''), (8, ''MQGMO_SET_SIGNAL''), (16, ''MQGMO_BROWSE_FIRST''),
      (32, ''MQGMO_BROWSE_NEXT''), (64, ''MQGMO_ACCEPT_TRUNCATED_MSG''),
      (128, ''MQGMO_MARK_SKIP_BACKOUT''), (256, ''MQGMO_MSG_UNDER_CURSOR''),
      (512, ''MQGMO_LOCK''), (1024, ''MQGMO_UNLOCK''),
      (2048, ''MQGMO_BROWSE_MSG_UNDER_CURSOR''), (4096, ''MQGMO_SYNCPOINT_IF_PERSISTENT''),
      (8192, ''MQGMO_FAIL_IF_QUIESCING''), (16384, ''MQGMO_CONVERT''),
      (32768, ''MQGMO_LOGICAL_ORDER''), (65536, ''MQGMO_COMPLETE_MSG''),
      (131072, ''MQGMO_ALL_MSGS_AVAILABLE''), (262144, ''MQGMO_ALL_SEGMENTS_AVAILABLE''),
      (1048576, ''MQGMO_MARK_BROWSE_HANDLE''), (2097152, ''MQGMO_MARK_BROWSE_CO_OP''),
      (4194304, ''MQGMO_UNMARK_BROWSE_CO_OP''), (8388608, ''MQGMO_UNMARK_BROWSE_HANDLE''),
      (16777216, ''MQGMO_UNMARKED_BROWSE_MSG''), (17825808, ''MQGMO_BROWSE_HANDLE''),
      (18874384, ''MQGMO_BROWSE_CO_OP''), (33554432, ''MQGMO_PROPERTIES_FORCE_MQRFH2''),
      (67108864, ''MQGMO_NO_PROPERTIES''), (134217728, ''MQGMO_PROPERTIES_IN_HANDLE''),
      (268435456, ''MQGMO_PROPERTIES_COMPATIBILITY'')] v"

lemmas names_B3_defs =
  MQFB_STR_def MQFC_STR_def MQFSENC_STR_def MQFS_STR_def MQFUN_STR_def MQGACF_STR_def

lemmas names_B3_facts =
  MQMD_values_1_cases cmqcfc_Group_Parameter_4_cases cmqcfc_Group_Parameter_7_cases
  cmqc_QueueManager_Attributes_2_cases cmqcfc_Group_Parameter_1_cases

lemma names_B3:
  "list_all (names_ok a)
     [MQFB_STR, MQFC_STR, MQFSENC_STR, MQFS_STR, MQFUN_STR, MQGACF_STR]"
  unfolding list.pred_inject
  by (intro conjI list.pred_inject(1);
      rule names_okI, rule names_B3_defs, simp only: names_B3_facts case_simps cong: case_congs)

definition MQGUR_STR :: "int \<Rightarrow> string" where
  "MQGUR_STR v = c_switch
     [(0, ''MQGUR_DISABLED''), (1, ''MQGUR_ENABLED'')] v"

definition MQHA_STR :: "int \<Rightarrow> string" where
  "MQHA_STR v = c_switch
     [(4001, ''MQHA_BAG_HANDLE'')] v"

definition MQHB_STR :: "int \<Rightarrow> string" where
  "MQHB_STR v = c_switch
     [(- 2, ''MQHB_NONE''), (- 1, ''MQHB_UNUSABLE_HBAG'')] v"

definition MQHC_STR :: "int \<Rightarrow> string" where
  "MQHC_STR v = c_switch
     [(- 3, ''MQHC_UNASSOCIATED_HCONN''), (- 1, ''MQHC_UNUSABLE_HCONN''),
      (0, ''MQHC_DEF_HCONN'')] v"

definition MQHM_STR :: "int \<Rightarrow> string" where
  "MQHM_STR v = c_switch
     [(- 1, ''MQHM_UNUSABLE_HMSG''), (0, ''MQHM_NONE'')] v"

definition MQHO_STR :: "int \<Rightarrow> string" where
  "MQHO_STR v = c_switch
     [(- 1, ''MQHO_UNUSABLE_HOBJ''), (0, ''MQHO_NONE'')] v"

definition MQHSTATE_STR :: "int \<Rightarrow> string" where
  "MQHSTATE_STR v = c_switch
     [(0, ''MQHSTATE_INACTIVE''), (1, ''MQHSTATE_ACTIVE'')] v"

lemmas names_B4_defs =
  MQGMO_STR_def MQGUR_STR_def MQHA_STR_def MQHB_STR_def MQHC_STR_def MQHM_STR_def MQHO_STR_def
  MQHSTATE_STR_def

lemmas names_B4_facts =
  MQGMO_values_cases combined_cases cmqcfc_Publish_Subscribe_cases cmqbc_Most_Functions_1_cases
  cmqc_All_Functions_1_cases MQHM_values_cases cmqc_MQCLOSE_Function_cases
  cmqcfc_Group_Parameter_4_cases

lemma names_B4:
  "list_all (names_ok a)
     [MQGMO_STR, MQGUR_STR, MQHA_STR, MQHB_STR, MQHC_STR, MQHM_STR, MQHO_STR, MQHSTATE_STR]"
  unfolding list.pred_inject
  by (intro conjI list.pred_inject(1);
      rule names_okI, rule names_B4_defs, simp only: names_B4_facts case_simps cong: case_congs)

definition MQIACF_cases_1 :: "(int \<times> string) list" where
  "MQIACF_cases_1 =
     [(1001, ''MQIACF_Q_MGR_ATTRS''), (1002, ''MQIACF_Q_ATTRS''),
      (1003, ''MQIACF_PROCESS_ATTRS''), (1004, ''MQIACF_NAMELIST_ATTRS''),
      (1005, ''MQIACF_FORCE''), (1006, ''MQIACF_REPLACE''), (1007, ''MQIACF_PURGE''),
      (1008, ''MQIACF_QUIESCE''), (1009, ''MQIACF_ALL''), (1010, ''MQIACF_EVENT_APPL_TYPE''),
      (1011, ''MQIACF_EVENT_ORIGIN''), (1012, ''MQIACF_PARAMETER_ID''),
      (1013, ''MQIACF_ERROR_ID''), (1014, ''MQIACF_SELECTOR''),
      (1015, ''MQIACF_CHANNEL_ATTRS''), (1016, ''MQIACF_OBJECT_TYPE''),
      (1017, ''MQIACF_ESCAPE_TYPE''), (1018, ''MQIACF_ERROR_OFFSET''),
      (1019, ''MQIACF_AUTH_INFO_ATTRS''), (1020, ''MQIACF_REASON_QUALIFIER''),
      (1021, ''MQIACF_COMMAND''), (1022, ''MQIACF_OPEN_OPTIONS''), (1023, ''MQIACF_OPEN_TYPE''),
      (1024, ''MQIACF_PROCESS_ID''), (1025, ''MQIACF_THREAD_ID''),
      (1026, ''MQIACF_Q_STATUS_ATTRS''), (1027, ''MQIACF_UNCOMMITTED_MSGS''),
      (1028, ''MQIACF_HANDLE_STATE''), (1070, ''MQIACF_AUX_ERROR_DATA_INT_1''),
      (1071, ''MQIACF_AUX_ERROR_DATA_INT_2''), (1072, ''MQIACF_CONV_REASON_CODE''),
      (1073, ''MQIACF_BRIDGE_TYPE''), (1074, ''MQIACF_INQUIRY''),
      (1075, ''MQIACF_WAIT_INTERVAL''), (1076, ''MQIACF_OPTIONS''),
      (1077, ''MQIACF_BROKER_OPTIONS''), (1078, ''MQIACF_REFRESH_TYPE''),
      (1079, ''MQIACF_SEQUENCE_NUMBER''), (1080, ''MQIACF_INTEGER_DATA''),
      (1081, ''MQIACF_REGISTRATION_OPTIONS''), (1082, ''MQIACF_PUBLICATION_OPTIONS''),
      (1083, ''MQIACF_CLUSTER_INFO''), (1084, ''MQIACF_Q_MGR_DEFINITION_TYPE''),
      (1085, ''MQIACF_Q_MGR_TYPE''), (1086, ''MQIACF_ACTION''), (1087, ''MQIACF_SUSPEND''),
      (1088, ''MQIACF_BROKER_COUNT''), (1089, ''MQIACF_APPL_COUNT''),
      (1090, ''MQIACF_ANONYMOUS_COUNT''), (1091, ''MQIACF_REG_REG_OPTIONS''),
      (1092, ''MQIACF_DELETE_OPTIONS''), (1093, ''MQIACF_CLUSTER_Q_MGR_ATTRS''),
      (1094, ''MQIACF_REFRESH_INTERVAL''), (1095, ''MQIACF_REFRESH_REPOSITORY''),
      (1096, ''MQIACF_REMOVE_QUEUES''), (1098, ''MQIACF_OPEN_INPUT_TYPE''),
      (1099, ''MQIACF_OPEN_OUTPUT''), (1100, ''MQIACF_OPEN_SET''),
      (1101, ''MQIACF_OPEN_INQUIRE''), (1102, ''MQIACF_OPEN_BROWSE''),
      (1103, ''MQIACF_Q_STATUS_TYPE''), (1104, ''MQIACF_Q_HANDLE''),
      (1105, ''MQIACF_Q_STATUS''), (1106, ''MQIACF_SECURITY_TYPE''),
      (1107, ''MQIACF_CONNECTION_ATTRS''), (1108, ''MQIACF_CONNECT_OPTIONS''),
      (1110, ''MQIACF_CONN_INFO_TYPE''), (1111, ''MQIACF_CONN_INFO_CONN''),
      (1112, ''MQIACF_CONN_INFO_HANDLE''), (1113, ''MQIACF_CONN_INFO_ALL''),
      (1114, ''MQIACF_AUTH_PROFILE_ATTRS''), (1115, ''MQIACF_AUTHORIZATION_LIST''),
      (1116, ''MQIACF_AUTH_ADD_AUTHS''), (1117, ''MQIACF_AUTH_REMOVE_AUTHS''),
      (1118, ''MQIACF_ENTITY_TYPE''), (1120, ''MQIACF_COMMAND_INFO''),
      (1121, ''MQIACF_CMDSCOPE_Q_MGR_COUNT''), (1122, ''MQIACF_Q_MGR_SYSTEM''),
      (1123, ''MQIACF_Q_MGR_EVENT''), (1124, ''MQIACF_Q_MGR_DQM''),
      (1125, ''MQIACF_Q_MGR_CLUSTER''), (1126, ''MQIACF_QSG_DISPS''),
      (1128, ''MQIACF_UOW_STATE''), (1129, ''MQIACF_SECURITY_ITEM''),
      (1130, ''MQIACF_CF_STRUC_STATUS''), (1132, ''MQIACF_UOW_TYPE''),
      (1133, ''MQIACF_CF_STRUC_ATTRS''), (1134, ''MQIACF_EXCLUDE_INTERVAL''),
      (1135, ''MQIACF_CF_STATUS_TYPE''), (1136, ''MQIACF_CF_STATUS_SUMMARY''),
      (1137, ''MQIACF_CF_STATUS_CONNECT''), (1138, ''MQIACF_CF_STATUS_BACKUP''),
      (1139, ''MQIACF_CF_STRUC_TYPE''), (1140, ''MQIACF_CF_STRUC_SIZE_MAX''),
      (1141, ''MQIACF_CF_STRUC_SIZE_USED''), (1142, ''MQIACF_CF_STRUC_ENTRIES_MAX''),
      (1143, ''MQIACF_CF_STRUC_ENTRIES_USED''), (1144, ''MQIACF_CF_STRUC_BACKUP_SIZE''),
      (1145, ''MQIACF_MOVE_TYPE''), (1146, ''MQIACF_MOVE_TYPE_MOVE''),
      (1147, ''MQIACF_MOVE_TYPE_ADD''), (1148, ''MQIACF_Q_MGR_NUMBER''),
      (1149, ''MQIACF_Q_MGR_STATUS''), (1150, ''MQIACF_DB2_CONN_STATUS''),
      (1151, ''MQIACF_SECURITY_ATTRS''), (1152, ''MQIACF_SECURITY_TIMEOUT''),
      (1153, ''MQIACF_SECURITY_INTERVAL''), (1154, ''MQIACF_SECURITY_SWITCH''),
      (1155, ''MQIACF_SECURITY_SETTING''), (1156, ''MQIACF_STORAGE_CLASS_ATTRS''),
      (1157, ''MQIACF_USAGE_TYPE''), (1158, ''MQIACF_BUFFER_POOL_ID''),
      (1159, ''MQIACF_USAGE_TOTAL_PAGES''), (1160, ''MQIACF_USAGE_UNUSED_PAGES''),
      (1161, ''MQIACF_USAGE_PERSIST_PAGES''), (1162, ''MQIACF_USAGE_NONPERSIST_PAGES''),
      (1163, ''MQIACF_USAGE_RESTART_EXTENTS''), (1164, ''MQIACF_USAGE_EXPAND_COUNT''),
      (1165, ''MQIACF_PAGESET_STATUS''), (1166, ''MQIACF_USAGE_TOTAL_BUFFERS''),
      (1167, ''MQIACF_USAGE_DATA_SET_TYPE''), (1168, ''MQIACF_USAGE_PAGESET''),
      (1169, ''MQIACF_USAGE_DATA_SET''), (1170, ''MQIACF_USAGE_BUFFER_POOL''),
      (1171, ''MQIACF_MOVE_COUNT''), (1172, ''MQIACF_EXPIRY_Q_COUNT''),
      (1173, ''MQIACF_CONFIGURATION_OBJECTS''), (1174, ''MQIACF_CONFIGURATION_EVENTS''),
      (1175, ''MQIACF_SYSP_TYPE''), (1176, ''MQIACF_SYSP_DEALLOC_INTERVAL''),
      (1177, ''MQIACF_SYSP_MAX_ARCHIVE''), (1178, ''MQIACF_SYSP_MAX_READ_TAPES''),
      (1179, ''MQIACF_SYSP_IN_BUFFER_SIZE''), (1180, ''MQIACF_SYSP_OUT_BUFFER_SIZE''),
      (1181, ''MQIACF_SYSP_OUT_BUFFER_COUNT''), (1182, ''MQIACF_SYSP_ARCHIVE''),
      (1183, ''MQIACF_SYSP_DUAL_ACTIVE''), (1184, ''MQIACF_SYSP_DUAL_ARCHIVE''),
      (1185, ''MQIACF_SYSP_DUAL_BSDS''), (1186, ''MQIACF_SYSP_MAX_CONNS'')]"

definition MQIACF_cases_2 :: "(int \<times> string) list" where
  "MQIACF_cases_2 =
     [(1187, ''MQIACF_SYSP_MAX_CONNS_FORE''), (1188, ''MQIACF_SYSP_MAX_CONNS_BACK''),
      (1189, ''MQIACF_SYSP_EXIT_INTERVAL''), (1190, ''MQIACF_SYSP_EXIT_TASKS''),
      (1191, ''MQIACF_SYSP_CHKPOINT_COUNT''), (1192, ''MQIACF_SYSP_OTMA_INTERVAL''),
      (1193, ''MQIACF_SYSP_Q_INDEX_DEFER''), (1194, ''MQIACF_SYSP_DB2_TASKS''),
      (1195, ''MQIACF_SYSP_RESLEVEL_AUDIT''), (1196, ''MQIACF_SYSP_ROUTING_CODE''),
      (1197, ''MQIACF_SYSP_SMF_ACCOUNTING''), (1198, ''MQIACF_SYSP_SMF_STATS''),
      (1199, ''MQIACF_SYSP_SMF_INTERVAL''), (1200, ''MQIACF_SYSP_TRACE_CLASS''),
      (1201, ''MQIACF_SYSP_TRACE_SIZE''), (1202, ''MQIACF_SYSP_WLM_INTERVAL''),
      (1203, ''MQIACF_SYSP_ALLOC_UNIT''), (1204, ''MQIACF_SYSP_ARCHIVE_RETAIN''),
      (1205, ''MQIACF_SYSP_ARCHIVE_WTOR''), (1206, ''MQIACF_SYSP_BLOCK_SIZE''),
      (1207, ''MQIACF_SYSP_CATALOG''), (1208, ''MQIACF_SYSP_COMPACT''),
      (1209, ''MQIACF_SYSP_ALLOC_PRIMARY''), (1210, ''MQIACF_SYSP_ALLOC_SECONDARY''),
      (1211, ''MQIACF_SYSP_PROTECT''), (1212, ''MQIACF_SYSP_QUIESCE_INTERVAL''),
      (1213, ''MQIACF_SYSP_TIMESTAMP''), (1214, ''MQIACF_SYSP_UNIT_ADDRESS''),
      (1215, ''MQIACF_SYSP_UNIT_STATUS''), (1216, ''MQIACF_SYSP_LOG_COPY''),
      (1217, ''MQIACF_SYSP_LOG_USED''), (1218, ''MQIACF_SYSP_LOG_SUSPEND''),
      (1219, ''MQIACF_SYSP_OFFLOAD_STATUS''), (1220, ''MQIACF_SYSP_TOTAL_LOGS''),
      (1221, ''MQIACF_SYSP_FULL_LOGS''), (1222, ''MQIACF_LISTENER_ATTRS''),
      (1223, ''MQIACF_LISTENER_STATUS_ATTRS''), (1224, ''MQIACF_SERVICE_ATTRS''),
      (1225, ''MQIACF_SERVICE_STATUS_ATTRS''), (1226, ''MQIACF_Q_TIME_INDICATOR''),
      (1227, ''MQIACF_OLDEST_MSG_AGE''), (1228, ''MQIACF_AUTH_OPTIONS''),
      (1229, ''MQIACF_Q_MGR_STATUS_ATTRS''), (1230, ''MQIACF_CONNECTION_COUNT''),
      (1231, ''MQIACF_Q_MGR_FACILITY''), (1232, ''MQIACF_CHINIT_STATUS''),
      (1233, ''MQIACF_CMD_SERVER_STATUS''), (1234, ''MQIACF_ROUTE_DETAIL''),
      (1235, ''MQIACF_RECORDED_ACTIVITIES''), (1236, ''MQIACF_MAX_ACTIVITIES''),
      (1237, ''MQIACF_DISCONTINUITY_COUNT''), (1238, ''MQIACF_ROUTE_ACCUMULATION''),
      (1239, ''MQIACF_ROUTE_DELIVERY''), (1240, ''MQIACF_OPERATION_TYPE''),
      (1241, ''MQIACF_BACKOUT_COUNT''), (1242, ''MQIACF_COMP_CODE''),
      (1243, ''MQIACF_ENCODING''), (1244, ''MQIACF_EXPIRY''), (1245, ''MQIACF_FEEDBACK''),
      (1247, ''MQIACF_MSG_FLAGS''), (1248, ''MQIACF_MSG_LENGTH''), (1249, ''MQIACF_MSG_TYPE''),
      (1250, ''MQIACF_OFFSET''), (1251, ''MQIACF_ORIGINAL_LENGTH''),
      (1252, ''MQIACF_PERSISTENCE''), (1253, ''MQIACF_PRIORITY''),
      (1254, ''MQIACF_REASON_CODE''), (1255, ''MQIACF_REPORT''), (1256, ''MQIACF_VERSION''),
      (1257, ''MQIACF_UNRECORDED_ACTIVITIES''), (1258, ''MQIACF_MONITORING''),
      (1259, ''MQIACF_ROUTE_FORWARDING''), (1260, ''MQIACF_SERVICE_STATUS''),
      (1261, ''MQIACF_Q_TYPES''), (1262, ''MQIACF_USER_ID_SUPPORT''),
      (1263, ''MQIACF_INTERFACE_VERSION''), (1264, ''MQIACF_AUTH_SERVICE_ATTRS''),
      (1265, ''MQIACF_USAGE_EXPAND_TYPE''), (1266, ''MQIACF_SYSP_CLUSTER_CACHE''),
      (1267, ''MQIACF_SYSP_DB2_BLOB_TASKS''), (1268, ''MQIACF_SYSP_WLM_INT_UNITS''),
      (1269, ''MQIACF_TOPIC_ATTRS''), (1271, ''MQIACF_PUBSUB_PROPERTIES''),
      (1273, ''MQIACF_DESTINATION_CLASS''), (1274, ''MQIACF_DURABLE_SUBSCRIPTION''),
      (1275, ''MQIACF_SUBSCRIPTION_SCOPE''), (1277, ''MQIACF_VARIABLE_USER_ID''),
      (1280, ''MQIACF_REQUEST_ONLY''), (1283, ''MQIACF_PUB_PRIORITY''),
      (1287, ''MQIACF_SUB_ATTRS''), (1288, ''MQIACF_WILDCARD_SCHEMA''),
      (1289, ''MQIACF_SUB_TYPE''), (1290, ''MQIACF_MESSAGE_COUNT''),
      (1291, ''MQIACF_Q_MGR_PUBSUB''), (1292, ''MQIACF_Q_MGR_VERSION''),
      (1294, ''MQIACF_SUB_STATUS_ATTRS''), (1295, ''MQIACF_TOPIC_STATUS''),
      (1296, ''MQIACF_TOPIC_SUB''), (1297, ''MQIACF_TOPIC_PUB''),
      (1300, ''MQIACF_RETAINED_PUBLICATION''), (1301, ''MQIACF_TOPIC_STATUS_ATTRS''),
      (1302, ''MQIACF_TOPIC_STATUS_TYPE''), (1303, ''MQIACF_SUB_OPTIONS''),
      (1304, ''MQIACF_PUBLISH_COUNT''), (1305, ''MQIACF_CLEAR_TYPE''),
      (1306, ''MQIACF_CLEAR_SCOPE''), (1307, ''MQIACF_SUB_LEVEL''),
      (1308, ''MQIACF_ASYNC_STATE''), (1309, ''MQIACF_SUB_SUMMARY''),
      (1310, ''MQIACF_OBSOLETE_MSGS''), (1311, ''MQIACF_PUBSUB_STATUS''),
      (1314, ''MQIACF_PS_STATUS_TYPE''), (1318, ''MQIACF_PUBSUB_STATUS_ATTRS''),
      (1321, ''MQIACF_SELECTOR_TYPE''), (1322, ''MQIACF_LOG_COMPRESSION''),
      (1323, ''MQIACF_GROUPUR_CHECK_ID''), (1324, ''MQIACF_MULC_CAPTURE''),
      (1325, ''MQIACF_PERMIT_STANDBY''), (1326, ''MQIACF_OPERATION_MODE''),
      (1327, ''MQIACF_COMM_INFO_ATTRS''), (1328, ''MQIACF_CF_SMDS_BLOCK_SIZE''),
      (1329, ''MQIACF_CF_SMDS_EXPAND''), (1330, ''MQIACF_USAGE_FREE_BUFF''),
      (1331, ''MQIACF_USAGE_FREE_BUFF_PERC''), (1332, ''MQIACF_CF_STRUC_ACCESS''),
      (1333, ''MQIACF_CF_STATUS_SMDS''), (1334, ''MQIACF_SMDS_ATTRS''),
      (1335, ''MQIACF_USAGE_SMDS''), (1336, ''MQIACF_USAGE_BLOCK_SIZE''),
      (1337, ''MQIACF_USAGE_DATA_BLOCKS''), (1338, ''MQIACF_USAGE_EMPTY_BUFFERS''),
      (1339, ''MQIACF_USAGE_INUSE_BUFFERS''), (1340, ''MQIACF_USAGE_LOWEST_FREE''),
      (1341, ''MQIACF_USAGE_OFFLOAD_MSGS''), (1342, ''MQIACF_USAGE_READS_SAVED''),
      (1343, ''MQIACF_USAGE_SAVED_BUFFERS''), (1344, ''MQIACF_USAGE_TOTAL_BLOCKS''),
      (1345, ''MQIACF_USAGE_USED_BLOCKS''), (1346, ''MQIACF_USAGE_USED_RATE''),
      (1347, ''MQIACF_USAGE_WAIT_RATE'')]"

definition MQIACF_cases_3 :: "(int \<times> string) list" where
  "MQIACF_cases_3 =
     [(1348, ''MQIACF_SMDS_OPENMODE''), (1349, ''MQIACF_SMDS_STATUS''),
      (1350, ''MQIACF_SMDS_AVAIL''), (1351, ''MQIACF_MCAST_REL_INDICATOR''),
      (1352, ''MQIACF_CHLAUTH_TYPE''), (1354, ''MQIACF_MQXR_DIAGNOSTICS_TYPE''),
      (1355, ''MQIACF_CHLAUTH_ATTRS''), (1356, ''MQIACF_OPERATION_ID''),
      (1357, ''MQIACF_API_CALLER_TYPE''), (1358, ''MQIACF_API_ENVIRONMENT''),
      (1359, ''MQIACF_TRACE_DETAIL''), (1360, ''MQIACF_HOBJ''), (1361, ''MQIACF_CALL_TYPE''),
      (1362, ''MQIACF_MQCB_OPERATION''), (1363, ''MQIACF_MQCB_TYPE''),
      (1364, ''MQIACF_MQCB_OPTIONS''), (1365, ''MQIACF_CLOSE_OPTIONS''),
      (1366, ''MQIACF_CTL_OPERATION''), (1367, ''MQIACF_GET_OPTIONS''),
      (1368, ''MQIACF_RECS_PRESENT''), (1369, ''MQIACF_KNOWN_DEST_COUNT''),
      (1370, ''MQIACF_UNKNOWN_DEST_COUNT''), (1371, ''MQIACF_INVALID_DEST_COUNT''),
      (1372, ''MQIACF_RESOLVED_TYPE''), (1373, ''MQIACF_PUT_OPTIONS''),
      (1374, ''MQIACF_BUFFER_LENGTH''), (1375, ''MQIACF_TRACE_DATA_LENGTH''),
      (1376, ''MQIACF_SMDS_EXPANDST''), (1378, ''MQIACF_ITEM_COUNT''),
      (1379, ''MQIACF_EXPIRY_TIME''), (1380, ''MQIACF_CONNECT_TIME''),
      (1381, ''MQIACF_DISCONNECT_TIME''), (1382, ''MQIACF_HSUB''),
      (1383, ''MQIACF_SUBRQ_OPTIONS''), (1384, ''MQIACF_XA_RMID''), (1385, ''MQIACF_XA_FLAGS''),
      (1386, ''MQIACF_XA_RETCODE''), (1387, ''MQIACF_XA_HANDLE''), (1388, ''MQIACF_XA_RETVAL''),
      (1389, ''MQIACF_STATUS_TYPE''), (1390, ''MQIACF_XA_COUNT''),
      (1391, ''MQIACF_SELECTOR_COUNT''), (1392, ''MQIACF_SELECTORS''),
      (1393, ''MQIACF_INTATTR_COUNT''), (1394, ''MQIACF_INT_ATTRS''),
      (1395, ''MQIACF_SUBRQ_ACTION''), (1396, ''MQIACF_NUM_PUBS''),
      (1397, ''MQIACF_POINTER_SIZE''), (1398, ''MQIACF_REMOVE_AUTHREC''),
      (1399, ''MQIACF_XR_ATTRS''), (1400, ''MQIACF_APPL_FUNCTION_TYPE''),
      (1401, ''MQIACF_AMQP_ATTRS''), (1402, ''MQIACF_EXPORT_TYPE''),
      (1403, ''MQIACF_EXPORT_ATTRS''), (1404, ''MQIACF_SYSTEM_OBJECTS''),
      (1405, ''MQIACF_CONNECTION_SWAP''), (1406, ''MQIACF_AMQP_DIAGNOSTICS_TYPE''),
      (1408, ''MQIACF_BUFFER_POOL_LOCATION''), (1409, ''MQIACF_LDAP_CONNECTION_STATUS''),
      (1410, ''MQIACF_SYSP_MAX_ACE_POOL''), (1411, ''MQIACF_PAGECLAS''),
      (1412, ''MQIACF_AUTH_REC_TYPE''), (1413, ''MQIACF_SYSP_MAX_CONC_OFFLOADS''),
      (1414, ''MQIACF_SYSP_ZHYPERWRITE''), (1415, ''MQIACF_Q_MGR_STATUS_LOG''),
      (1416, ''MQIACF_ARCHIVE_LOG_SIZE''), (1417, ''MQIACF_MEDIA_LOG_SIZE''),
      (1418, ''MQIACF_RESTART_LOG_SIZE''), (1419, ''MQIACF_REUSABLE_LOG_SIZE''),
      (1420, ''MQIACF_LOG_IN_USE''), (1421, ''MQIACF_LOG_UTILIZATION''),
      (1422, ''MQIACF_LOG_REDUCTION''), (1423, ''MQIACF_IGNORE_STATE''),
      (1424, ''MQIACF_MOVABLE_APPL_COUNT''), (1425, ''MQIACF_APPL_INFO_ATTRS''),
      (1426, ''MQIACF_APPL_MOVABLE''), (1427, ''MQIACF_REMOTE_QMGR_ACTIVE''),
      (1428, ''MQIACF_APPL_INFO_TYPE''), (1429, ''MQIACF_APPL_INFO_APPL''),
      (1430, ''MQIACF_APPL_INFO_QMGR''), (1431, ''MQIACF_APPL_INFO_LOCAL''),
      (1432, ''MQIACF_APPL_IMMOVABLE_COUNT''), (1433, ''MQIACF_BALANCED''),
      (1434, ''MQIACF_BALSTATE''), (1435, ''MQIACF_APPL_IMMOVABLE_REASON''),
      (1436, ''MQIACF_DS_ENCRYPTED''), (1437, ''MQIACF_CUR_Q_FILE_SIZE''),
      (1438, ''MQIACF_CUR_MAX_FILE_SIZE''), (1439, ''MQIACF_BALANCING_TYPE''),
      (1440, ''MQIACF_BALANCING_OPTIONS''), (1441, ''MQIACF_BALANCING_TIMEOUT''),
      (1442, ''MQIACF_SYSP_SMF_STAT_TIME_SECS''), (1443, ''MQIACF_SYSP_SMF_ACCT_TIME_MINS''),
      (1444, ''MQIACF_SYSP_SMF_ACCT_TIME_SECS''), (1445, ''MQIACF_Q_MGR_STATUS_INFO_TYPE''),
      (1446, ''MQIACF_Q_MGR_STATUS_INFO_Q_MGR''), (1447, ''MQIACF_Q_MGR_STATUS_INFO_NHA''),
      (1448, ''MQIACF_AUTO_CLUSTER_TYPE''), (1449, ''MQIACF_DATA_FS_IN_USE''),
      (1450, ''MQIACF_DATA_FS_SIZE''), (1451, ''MQIACF_LOG_EXTENT_SIZE''),
      (1452, ''MQIACF_LOG_FS_IN_USE''), (1453, ''MQIACF_LOG_FS_SIZE''),
      (1454, ''MQIACF_LOG_PRIMARIES''), (1455, ''MQIACF_LOG_SECONDARIES''),
      (1456, ''MQIACF_LOG_TYPE''), (1457, ''MQIACF_NHA_INSTANCE_ACTV_CONNS''),
      (1458, ''MQIACF_NHA_INSTANCE_BACKLOG''), (1459, ''MQIACF_NHA_INSTANCE_IN_SYNC''),
      (1460, ''MQIACF_NHA_INSTANCE_ROLE''), (1461, ''MQIACF_NHA_IN_SYNC_INSTANCES''),
      (1462, ''MQIACF_NHA_TOTAL_INSTANCES''), (1463, ''MQIACF_Q_MGR_FS_ENCRYPTED''),
      (1464, ''MQIACF_Q_MGR_FS_IN_USE''), (1465, ''MQIACF_Q_MGR_FS_SIZE'')]"

definition MQIACF_STR :: "int \<Rightarrow> string" where
  "MQIACF_STR v = c_switch (MQIACF_cases_1 @ MQIACF_cases_2 @ MQIACF_cases_3) v"

lemma MQIACF_cases_1_ok: "list_all (case_fact a) MQIACF_cases_1"
  unfolding MQIACF_cases_1_def
  by (simp only: cmqcfc_Integer_Parameter_3_cases cmqcfc_Integer_Parameter_4_cases
      case_simps cong: case_congs)

lemma MQIACF_cases_2_ok: "list_all (case_fact a) MQIACF_cases_2"
  unfolding MQIACF_cases_2_def
  by (simp only: cmqcfc_Integer_Parameter_4_cases cmqcfc_Integer_Parameter_5_cases
      case_simps cong: case_congs)

lemma MQIACF_cases_3_ok: "list_all (case_fact a) MQIACF_cases_3"
  unfolding MQIACF_cases_3_def
  by (simp only: cmqcfc_Integer_Parameter_5_cases cmqcfc_Integer_Parameter_6_cases
      case_simps cong: case_congs)

lemma names_B5: "list_all (names_ok a) [MQIACF_STR]"
  unfolding list.pred_inject
  by (intro conjI list.pred_inject(1) names_okI [OF MQIACF_STR_def])
     (simp only: list_all_append simp_thms MQIACF_cases_1_ok MQIACF_cases_2_ok MQIACF_cases_3_ok)

definition MQIACH_STR :: "int \<Rightarrow> string" where
  "MQIACH_STR v = c_switch
     [(1501, ''MQIACH_XMIT_PROTOCOL_TYPE''), (1502, ''MQIACH_BATCH_SIZE''),
      (1503, ''MQIACH_DISC_INTERVAL''), (1504, ''MQIACH_SHORT_TIMER''),
      (1505, ''MQIACH_SHORT_RETRY''), (1506, ''MQIACH_LONG_TIMER''),
      (1507, ''MQIACH_LONG_RETRY''), (1508, ''MQIACH_PUT_AUTHORITY''),
      (1509, ''MQIACH_SEQUENCE_NUMBER_WRAP''), (1510, ''MQIACH_MAX_MSG_LENGTH''),
      (1511, ''MQIACH_CHANNEL_TYPE''), (1512, ''MQIACH_DATA_COUNT''),
      (1513, ''MQIACH_NAME_COUNT''), (1514, ''MQIACH_MSG_SEQUENCE_NUMBER''),
      (1515, ''MQIACH_DATA_CONVERSION''), (1516, ''MQIACH_IN_DOUBT''),
      (1517, ''MQIACH_MCA_TYPE''), (1518, ''MQIACH_SESSION_COUNT''), (1519, ''MQIACH_ADAPTER''),
      (1520, ''MQIACH_COMMAND_COUNT''), (1521, ''MQIACH_SOCKET''), (1522, ''MQIACH_PORT''),
      (1523, ''MQIACH_CHANNEL_INSTANCE_TYPE''), (1524, ''MQIACH_CHANNEL_INSTANCE_ATTRS''),
      (1525, ''MQIACH_CHANNEL_ERROR_DATA''), (1526, ''MQIACH_CHANNEL_TABLE''),
      (1527, ''MQIACH_CHANNEL_STATUS''), (1528, ''MQIACH_INDOUBT_STATUS''),
      (1529, ''MQIACH_LAST_SEQ_NUMBER''), (1531, ''MQIACH_CURRENT_MSGS''),
      (1532, ''MQIACH_CURRENT_SEQ_NUMBER''), (1533, ''MQIACH_SSL_RETURN_CODE''),
      (1534, ''MQIACH_MSGS''), (1535, ''MQIACH_BYTES_SENT''), (1536, ''MQIACH_BYTES_RCVD''),
      (1537, ''MQIACH_BATCHES''), (1538, ''MQIACH_BUFFERS_SENT''),
      (1539, ''MQIACH_BUFFERS_RCVD''), (1540, ''MQIACH_LONG_RETRIES_LEFT''),
      (1541, ''MQIACH_SHORT_RETRIES_LEFT''), (1542, ''MQIACH_MCA_STATUS''),
      (1543, ''MQIACH_STOP_REQUESTED''), (1544, ''MQIACH_MR_COUNT''),
      (1545, ''MQIACH_MR_INTERVAL''), (1562, ''MQIACH_NPM_SPEED''),
      (1563, ''MQIACH_HB_INTERVAL''), (1564, ''MQIACH_BATCH_INTERVAL''),
      (1565, ''MQIACH_NETWORK_PRIORITY''), (1566, ''MQIACH_KEEP_ALIVE_INTERVAL''),
      (1567, ''MQIACH_BATCH_HB''), (1568, ''MQIACH_SSL_CLIENT_AUTH''),
      (1570, ''MQIACH_ALLOC_RETRY''), (1571, ''MQIACH_ALLOC_FAST_TIMER''),
      (1572, ''MQIACH_ALLOC_SLOW_TIMER''), (1573, ''MQIACH_DISC_RETRY''),
      (1574, ''MQIACH_PORT_NUMBER''), (1575, ''MQIACH_HDR_COMPRESSION''),
      (1576, ''MQIACH_MSG_COMPRESSION''), (1577, ''MQIACH_CLWL_CHANNEL_RANK''),
      (1578, ''MQIACH_CLWL_CHANNEL_PRIORITY''), (1579, ''MQIACH_CLWL_CHANNEL_WEIGHT''),
      (1580, ''MQIACH_CHANNEL_DISP''), (1581, ''MQIACH_INBOUND_DISP''),
      (1582, ''MQIACH_CHANNEL_TYPES''), (1583, ''MQIACH_ADAPS_STARTED''),
      (1584, ''MQIACH_ADAPS_MAX''), (1585, ''MQIACH_DISPS_STARTED''),
      (1586, ''MQIACH_DISPS_MAX''), (1587, ''MQIACH_SSLTASKS_STARTED''),
      (1588, ''MQIACH_SSLTASKS_MAX''), (1589, ''MQIACH_CURRENT_CHL''),
      (1590, ''MQIACH_CURRENT_CHL_MAX''), (1591, ''MQIACH_CURRENT_CHL_TCP''),
      (1592, ''MQIACH_CURRENT_CHL_LU62''), (1593, ''MQIACH_ACTIVE_CHL''),
      (1594, ''MQIACH_ACTIVE_CHL_MAX''), (1595, ''MQIACH_ACTIVE_CHL_PAUSED''),
      (1596, ''MQIACH_ACTIVE_CHL_STARTED''), (1597, ''MQIACH_ACTIVE_CHL_STOPPED''),
      (1598, ''MQIACH_ACTIVE_CHL_RETRY''), (1599, ''MQIACH_LISTENER_STATUS''),
      (1600, ''MQIACH_SHARED_CHL_RESTART''), (1601, ''MQIACH_LISTENER_CONTROL''),
      (1602, ''MQIACH_BACKLOG''), (1604, ''MQIACH_XMITQ_TIME_INDICATOR''),
      (1605, ''MQIACH_NETWORK_TIME_INDICATOR''), (1606, ''MQIACH_EXIT_TIME_INDICATOR''),
      (1607, ''MQIACH_BATCH_SIZE_INDICATOR''), (1608, ''MQIACH_XMITQ_MSGS_AVAILABLE''),
      (1609, ''MQIACH_CHANNEL_SUBSTATE''), (1610, ''MQIACH_SSL_KEY_RESETS''),
      (1611, ''MQIACH_COMPRESSION_RATE''), (1612, ''MQIACH_COMPRESSION_TIME''),
      (1613, ''MQIACH_MAX_XMIT_SIZE''), (1614, ''MQIACH_DEF_CHANNEL_DISP''),
      (1615, ''MQIACH_SHARING_CONVERSATIONS''), (1616, ''MQIACH_MAX_SHARING_CONVS''),
      (1617, ''MQIACH_CURRENT_SHARING_CONVS''), (1618, ''MQIACH_MAX_INSTANCES''),
      (1619, ''MQIACH_MAX_INSTS_PER_CLIENT''), (1620, ''MQIACH_CLIENT_CHANNEL_WEIGHT''),
      (1621, ''MQIACH_CONNECTION_AFFINITY''), (1622, ''MQIACH_AUTH_INFO_TYPES''),
      (1623, ''MQIACH_RESET_REQUESTED''), (1624, ''MQIACH_BATCH_DATA_LIMIT''),
      (1625, ''MQIACH_MSG_HISTORY''), (1626, ''MQIACH_MULTICAST_PROPERTIES''),
      (1627, ''MQIACH_NEW_SUBSCRIBER_HISTORY''), (1628, ''MQIACH_MC_HB_INTERVAL''),
      (1629, ''MQIACH_USE_CLIENT_ID''), (1630, ''MQIACH_MQTT_KEEP_ALIVE''),
      (1631, ''MQIACH_IN_DOUBT_IN''), (1632, ''MQIACH_IN_DOUBT_OUT''),
      (1633, ''MQIACH_MSGS_SENT''), (1634, ''MQIACH_MSGS_RCVD''),
      (1635, ''MQIACH_PENDING_OUT''), (1636, ''MQIACH_AVAILABLE_CIPHERSPECS''),
      (1637, ''MQIACH_MATCH''), (1638, ''MQIACH_USER_SOURCE''), (1639, ''MQIACH_WARNING''),
      (1640, ''MQIACH_DEF_RECONNECT''), (1642, ''MQIACH_CHANNEL_SUMMARY_ATTRS''),
      (1643, ''MQIACH_PROTOCOL''), (1644, ''MQIACH_AMQP_KEEP_ALIVE''),
      (1645, ''MQIACH_SECURITY_PROTOCOL''), (1646, ''MQIACH_SPL_PROTECTION'')] v"

definition MQIAMO64_STR :: "int \<Rightarrow> string" where
  "MQIAMO64_STR v = c_switch
     [(703, ''MQIAMO64_AVG_Q_TIME''), (741, ''MQIAMO64_Q_TIME_AVG''),
      (742, ''MQIAMO64_Q_TIME_MAX''), (743, ''MQIAMO64_Q_TIME_MIN''),
      (745, ''MQIAMO64_BROWSE_BYTES''), (746, ''MQIAMO64_BYTES''),
      (747, ''MQIAMO64_GET_BYTES''), (748, ''MQIAMO64_PUT_BYTES''),
      (783, ''MQIAMO64_TOPIC_PUT_BYTES''), (785, ''MQIAMO64_PUBLISH_MSG_BYTES''),
      (838, ''MQIAMO64_HIGHRES_TIME''), (844, ''MQIAMO64_QMGR_OP_DURATION''),
      (845, ''MQIAMO64_MONITOR_INTERVAL'')] v"

lemmas names_B6_defs =
  MQIACH_STR_def

lemmas names_B6_facts =
  cmqcfc_Integer_Parameter_7_cases cmqcfc_Integer_Parameter_8_cases

lemma names_B6:
  "list_all (names_ok a)
     [MQIACH_STR]"
  unfolding list.pred_inject
  by (intro conjI list.pred_inject(1);
      rule names_okI, rule names_B6_defs, simp only: names_B6_facts case_simps cong: case_congs)

definition MQIAMO_STR :: "int \<Rightarrow> string" where
  "MQIAMO_STR v = c_switch
     [(702, ''MQIAMO_AVG_BATCH_SIZE''), (703, ''MQIAMO_AVG_Q_TIME''),
      (704, ''MQIAMO_BACKOUTS''), (705, ''MQIAMO_BROWSES''), (706, ''MQIAMO_BROWSE_MAX_BYTES''),
      (707, ''MQIAMO_BROWSE_MIN_BYTES''), (708, ''MQIAMO_BROWSES_FAILED''),
      (709, ''MQIAMO_CLOSES''), (710, ''MQIAMO_COMMITS''), (711, ''MQIAMO_COMMITS_FAILED''),
      (712, ''MQIAMO_CONNS''), (713, ''MQIAMO_CONNS_MAX''), (714, ''MQIAMO_DISCS''),
      (715, ''MQIAMO_DISCS_IMPLICIT''), (716, ''MQIAMO_DISC_TYPE''),
      (717, ''MQIAMO_EXIT_TIME_AVG''), (718, ''MQIAMO_EXIT_TIME_MAX''),
      (719, ''MQIAMO_EXIT_TIME_MIN''), (720, ''MQIAMO_FULL_BATCHES''),
      (721, ''MQIAMO_GENERATED_MSGS''), (722, ''MQIAMO_GETS''), (723, ''MQIAMO_GET_MAX_BYTES''),
      (724, ''MQIAMO_GET_MIN_BYTES''), (725, ''MQIAMO_GETS_FAILED''),
      (726, ''MQIAMO_INCOMPLETE_BATCHES''), (727, ''MQIAMO_INQS''), (728, ''MQIAMO_MSGS''),
      (729, ''MQIAMO_NET_TIME_AVG''), (730, ''MQIAMO_NET_TIME_MAX''),
      (731, ''MQIAMO_NET_TIME_MIN''), (732, ''MQIAMO_OBJECT_COUNT''), (733, ''MQIAMO_OPENS''),
      (734, ''MQIAMO_PUT1S''), (735, ''MQIAMO_PUTS''), (736, ''MQIAMO_PUT_MAX_BYTES''),
      (737, ''MQIAMO_PUT_MIN_BYTES''), (738, ''MQIAMO_PUT_RETRIES''),
      (739, ''MQIAMO_Q_MAX_DEPTH''), (740, ''MQIAMO_Q_MIN_DEPTH''),
      (741, ''MQIAMO_Q_TIME_AVG''), (742, ''MQIAMO_Q_TIME_MAX''), (743, ''MQIAMO_Q_TIME_MIN''),
      (744, ''MQIAMO_SETS''), (749, ''MQIAMO_CONNS_FAILED''), (751, ''MQIAMO_OPENS_FAILED''),
      (752, ''MQIAMO_INQS_FAILED''), (753, ''MQIAMO_SETS_FAILED''),
      (754, ''MQIAMO_PUTS_FAILED''), (755, ''MQIAMO_PUT1S_FAILED''),
      (757, ''MQIAMO_CLOSES_FAILED''), (758, ''MQIAMO_MSGS_EXPIRED''),
      (759, ''MQIAMO_MSGS_NOT_QUEUED''), (760, ''MQIAMO_MSGS_PURGED''),
      (764, ''MQIAMO_SUBS_DUR''), (765, ''MQIAMO_SUBS_NDUR''), (766, ''MQIAMO_SUBS_FAILED''),
      (767, ''MQIAMO_SUBRQS''), (768, ''MQIAMO_SUBRQS_FAILED''), (769, ''MQIAMO_CBS''),
      (770, ''MQIAMO_CBS_FAILED''), (771, ''MQIAMO_CTLS''), (772, ''MQIAMO_CTLS_FAILED''),
      (773, ''MQIAMO_STATS''), (774, ''MQIAMO_STATS_FAILED''),
      (775, ''MQIAMO_SUB_DUR_HIGHWATER''), (776, ''MQIAMO_SUB_DUR_LOWWATER''),
      (777, ''MQIAMO_SUB_NDUR_HIGHWATER''), (778, ''MQIAMO_SUB_NDUR_LOWWATER''),
      (779, ''MQIAMO_TOPIC_PUTS''), (780, ''MQIAMO_TOPIC_PUTS_FAILED''),
      (781, ''MQIAMO_TOPIC_PUT1S''), (782, ''MQIAMO_TOPIC_PUT1S_FAILED''),
      (784, ''MQIAMO_PUBLISH_MSG_COUNT''), (786, ''MQIAMO_UNSUBS_DUR''),
      (787, ''MQIAMO_UNSUBS_NDUR''), (788, ''MQIAMO_UNSUBS_FAILED''),
      (789, ''MQIAMO_INTERVAL''), (790, ''MQIAMO_MSGS_SENT''), (791, ''MQIAMO_BYTES_SENT''),
      (792, ''MQIAMO_REPAIR_BYTES''), (793, ''MQIAMO_FEEDBACK_MODE''),
      (794, ''MQIAMO_RELIABILITY_TYPE''), (795, ''MQIAMO_LATE_JOIN_MARK''),
      (796, ''MQIAMO_NACKS_RCVD''), (797, ''MQIAMO_REPAIR_PKTS''),
      (798, ''MQIAMO_HISTORY_PKTS''), (799, ''MQIAMO_PENDING_PKTS''),
      (800, ''MQIAMO_PKT_RATE''), (801, ''MQIAMO_MCAST_XMIT_RATE''),
      (802, ''MQIAMO_MCAST_BATCH_TIME''), (803, ''MQIAMO_MCAST_HEARTBEAT''),
      (804, ''MQIAMO_DEST_DATA_PORT''), (805, ''MQIAMO_DEST_REPAIR_PORT''),
      (806, ''MQIAMO_ACKS_RCVD''), (807, ''MQIAMO_ACTIVE_ACKERS''), (808, ''MQIAMO_PKTS_SENT''),
      (809, ''MQIAMO_TOTAL_REPAIR_PKTS''), (810, ''MQIAMO_TOTAL_PKTS_SENT''),
      (811, ''MQIAMO_TOTAL_MSGS_SENT''), (812, ''MQIAMO_TOTAL_BYTES_SENT''),
      (813, ''MQIAMO_NUM_STREAMS''), (814, ''MQIAMO_ACK_FEEDBACK''),
      (815, ''MQIAMO_NACK_FEEDBACK''), (816, ''MQIAMO_PKTS_LOST''), (817, ''MQIAMO_MSGS_RCVD''),
      (818, ''MQIAMO_MSG_BYTES_RCVD''), (819, ''MQIAMO_MSGS_DELIVERED''),
      (820, ''MQIAMO_PKTS_PROCESSED''), (821, ''MQIAMO_PKTS_DELIVERED''),
      (822, ''MQIAMO_PKTS_DROPPED''), (823, ''MQIAMO_PKTS_DUPLICATED''),
      (824, ''MQIAMO_NACKS_CREATED''), (825, ''MQIAMO_NACK_PKTS_SENT''),
      (826, ''MQIAMO_REPAIR_PKTS_RQSTD''), (827, ''MQIAMO_REPAIR_PKTS_RCVD''),
      (828, ''MQIAMO_PKTS_REPAIRED''), (829, ''MQIAMO_TOTAL_MSGS_RCVD''),
      (830, ''MQIAMO_TOTAL_MSG_BYTES_RCVD''), (831, ''MQIAMO_TOTAL_REPAIR_PKTS_RCVD''),
      (832, ''MQIAMO_TOTAL_REPAIR_PKTS_RQSTD''), (833, ''MQIAMO_TOTAL_MSGS_PROCESSED''),
      (834, ''MQIAMO_TOTAL_MSGS_SELECTED''), (835, ''MQIAMO_TOTAL_MSGS_EXPIRED''),
      (836, ''MQIAMO_TOTAL_MSGS_DELIVERED''), (837, ''MQIAMO_TOTAL_MSGS_RETURNED''),
      (839, ''MQIAMO_MONITOR_CLASS''), (840, ''MQIAMO_MONITOR_TYPE''),
      (841, ''MQIAMO_MONITOR_ELEMENT''), (842, ''MQIAMO_MONITOR_DATATYPE''),
      (843, ''MQIAMO_MONITOR_FLAGS'')] v"

lemmas names_B7_defs =
  MQIAMO64_STR_def

lemmas names_B7_facts =
  cmqcfc_Integer_Parameter_1_cases cmqcfc_Integer_Parameter_2_cases

lemma names_B7:
  "list_all (names_ok a)
     [MQIAMO64_STR]"
  unfolding list.pred_inject
  by (intro conjI list.pred_inject(1);
      rule names_okI, rule names_B7_defs, simp only: names_B7_facts case_simps cong: case_congs)

definition MQIAMO_MONITOR_DATATYPE_STR :: "int \<Rightarrow> string" where
  "MQIAMO_MONITOR_DATATYPE_STR v = c_switch
     [(1, ''MQIAMO_MONITOR_UNIT''), (2, ''MQIAMO_MONITOR_DELTA''),
      (100, ''MQIAMO_MONITOR_HUNDREDTHS''), (1024, ''MQIAMO_MONITOR_KB''),
      (10000, ''MQIAMO_MONITOR_PERCENT''), (1000000, ''MQIAMO_MONITOR_MICROSEC''),
      (1048576, ''MQIAMO_MONITOR_MB''), (100000000, ''MQIAMO_MONITOR_GB'')] v"

lemmas names_B8_defs =
  MQIAMO_STR_def

lemmas names_B8_facts =
  cmqcfc_Integer_Parameter_1_cases cmqcfc_Integer_Parameter_2_cases

lemma names_B8:
  "list_all (names_ok a)
     [MQIAMO_STR]"
  unfolding list.pred_inject
  by (intro conjI list.pred_inject(1);
      rule names_okI, rule names_B8_defs, simp only: names_B8_facts case_simps cong: case_congs)

definition MQIAMO_MONITOR_FLAGS_STR :: "int \<Rightarrow> string" where
  "MQIAMO_MONITOR_FLAGS_STR v = c_switch
     [(0, ''MQIAMO_MONITOR_FLAGS_NONE''), (1, ''MQIAMO_MONITOR_FLAGS_OBJNAME'')] v"

definition MQIASY_STR :: "int \<Rightarrow> string" where
  "MQIASY_STR v = c_switch
     [(- 9, ''MQIASY_VERSION''), (- 8, ''MQIASY_BAG_OPTIONS''), (- 7, ''MQIASY_REASON''),
      (- 6, ''MQIASY_COMP_CODE''), (- 5, ''MQIASY_CONTROL''), (- 4, ''MQIASY_MSG_SEQ_NUMBER''),
      (- 3, ''MQIASY_COMMAND''), (- 2, ''MQIASY_TYPE''), (- 1, ''MQIASY_CODED_CHAR_SET_ID'')] v"

definition MQIAV_STR :: "int \<Rightarrow> string" where
  "MQIAV_STR v = c_switch
     [(- 2, ''MQIAV_UNDEFINED''), (- 1, ''MQIAV_NOT_APPLICABLE'')] v"

lemmas names_B9_defs =
  MQIAMO_MONITOR_DATATYPE_STR_def MQIAMO_MONITOR_FLAGS_STR_def MQIASY_STR_def MQIAV_STR_def

lemmas names_B9_facts =
  cmqcfc_Integer_Parameter_2_cases cmqbc_Most_Functions_1_cases cmqc_MQINQ_Function_6_cases

lemma names_B9:
  "list_all (names_ok a)
     [MQIAMO_MONITOR_DATATYPE_STR, MQIAMO_MONITOR_FLAGS_STR, MQIASY_STR, MQIAV_STR]"
  unfolding list.pred_inject
  by (intro conjI list.pred_inject(1);
      rule names_okI, rule names_B9_defs, simp only: names_B9_facts case_simps cong: case_congs)

definition MQIA_cases_1 :: "(int \<times> string) list" where
  "MQIA_cases_1 =
     [(1, ''MQIA_APPL_TYPE''), (2, ''MQIA_CODED_CHAR_SET_ID''), (3, ''MQIA_CURRENT_Q_DEPTH''),
      (4, ''MQIA_DEF_INPUT_OPEN_OPTION''), (5, ''MQIA_DEF_PERSISTENCE''),
      (6, ''MQIA_DEF_PRIORITY''), (7, ''MQIA_DEFINITION_TYPE''),
      (8, ''MQIA_HARDEN_GET_BACKOUT''), (9, ''MQIA_INHIBIT_GET''), (10, ''MQIA_INHIBIT_PUT''),
      (11, ''MQIA_MAX_HANDLES''), (12, ''MQIA_USAGE''), (13, ''MQIA_MAX_MSG_LENGTH''),
      (14, ''MQIA_MAX_PRIORITY''), (15, ''MQIA_MAX_Q_DEPTH''),
      (16, ''MQIA_MSG_DELIVERY_SEQUENCE''), (17, ''MQIA_OPEN_INPUT_COUNT''),
      (18, ''MQIA_OPEN_OUTPUT_COUNT''), (19, ''MQIA_NAME_COUNT''), (20, ''MQIA_Q_TYPE''),
      (21, ''MQIA_RETENTION_INTERVAL''), (22, ''MQIA_BACKOUT_THRESHOLD''),
      (23, ''MQIA_SHAREABILITY''), (24, ''MQIA_TRIGGER_CONTROL''),
      (25, ''MQIA_TRIGGER_INTERVAL''), (26, ''MQIA_TRIGGER_MSG_PRIORITY''),
      (27, ''MQIA_CPI_LEVEL''), (28, ''MQIA_TRIGGER_TYPE''), (29, ''MQIA_TRIGGER_DEPTH''),
      (30, ''MQIA_SYNCPOINT''), (31, ''MQIA_COMMAND_LEVEL''), (32, ''MQIA_PLATFORM''),
      (33, ''MQIA_MAX_UNCOMMITTED_MSGS''), (34, ''MQIA_DIST_LISTS''),
      (35, ''MQIA_TIME_SINCE_RESET''), (36, ''MQIA_HIGH_Q_DEPTH''),
      (37, ''MQIA_MSG_ENQ_COUNT''), (38, ''MQIA_MSG_DEQ_COUNT''),
      (39, ''MQIA_EXPIRY_INTERVAL''), (40, ''MQIA_Q_DEPTH_HIGH_LIMIT''),
      (41, ''MQIA_Q_DEPTH_LOW_LIMIT''), (42, ''MQIA_Q_DEPTH_MAX_EVENT''),
      (43, ''MQIA_Q_DEPTH_HIGH_EVENT''), (44, ''MQIA_Q_DEPTH_LOW_EVENT''), (45, ''MQIA_SCOPE''),
      (46, ''MQIA_Q_SERVICE_INTERVAL_EVENT''), (47, ''MQIA_AUTHORITY_EVENT''),
      (48, ''MQIA_INHIBIT_EVENT''), (49, ''MQIA_LOCAL_EVENT''), (50, ''MQIA_REMOTE_EVENT''),
      (51, ''MQIA_CONFIGURATION_EVENT''), (52, ''MQIA_START_STOP_EVENT''),
      (53, ''MQIA_PERFORMANCE_EVENT''), (54, ''MQIA_Q_SERVICE_INTERVAL''),
      (55, ''MQIA_CHANNEL_AUTO_DEF''), (56, ''MQIA_CHANNEL_AUTO_DEF_EVENT''),
      (57, ''MQIA_INDEX_TYPE''), (58, ''MQIA_CLUSTER_WORKLOAD_LENGTH''),
      (59, ''MQIA_CLUSTER_Q_TYPE''), (60, ''MQIA_ARCHIVE''), (61, ''MQIA_DEF_BIND''),
      (62, ''MQIA_PAGESET_ID''), (63, ''MQIA_QSG_DISP''), (64, ''MQIA_INTRA_GROUP_QUEUING''),
      (65, ''MQIA_IGQ_PUT_AUTHORITY''), (66, ''MQIA_AUTH_INFO_TYPE''),
      (68, ''MQIA_MSG_MARK_BROWSE_INTERVAL''), (69, ''MQIA_SSL_TASKS''),
      (70, ''MQIA_CF_LEVEL''), (71, ''MQIA_CF_RECOVER''), (72, ''MQIA_NAMELIST_TYPE''),
      (73, ''MQIA_CHANNEL_EVENT''), (74, ''MQIA_BRIDGE_EVENT''), (75, ''MQIA_SSL_EVENT''),
      (76, ''MQIA_SSL_RESET_COUNT''), (77, ''MQIA_SHARED_Q_Q_MGR_NAME''),
      (78, ''MQIA_NPM_CLASS''), (80, ''MQIA_MAX_OPEN_Q''), (81, ''MQIA_MONITOR_INTERVAL''),
      (82, ''MQIA_Q_USERS''), (83, ''MQIA_MAX_GLOBAL_LOCKS''), (84, ''MQIA_MAX_LOCAL_LOCKS''),
      (85, ''MQIA_LISTENER_PORT_NUMBER''), (86, ''MQIA_BATCH_INTERFACE_AUTO''),
      (87, ''MQIA_CMD_SERVER_AUTO''), (88, ''MQIA_CMD_SERVER_CONVERT_MSG''),
      (89, ''MQIA_CMD_SERVER_DLQ_MSG''), (90, ''MQIA_MAX_Q_TRIGGERS''),
      (91, ''MQIA_TRIGGER_RESTART''), (92, ''MQIA_SSL_FIPS_REQUIRED''),
      (93, ''MQIA_IP_ADDRESS_VERSION''), (94, ''MQIA_LOGGER_EVENT''),
      (95, ''MQIA_CLWL_Q_RANK''), (96, ''MQIA_CLWL_Q_PRIORITY''),
      (97, ''MQIA_CLWL_MRU_CHANNELS''), (98, ''MQIA_CLWL_USEQ''), (99, ''MQIA_COMMAND_EVENT''),
      (100, ''MQIA_ACTIVE_CHANNELS''), (101, ''MQIA_CHINIT_ADAPTERS''),
      (102, ''MQIA_ADOPTNEWMCA_CHECK''), (103, ''MQIA_ADOPTNEWMCA_TYPE''),
      (104, ''MQIA_ADOPTNEWMCA_INTERVAL''), (105, ''MQIA_CHINIT_DISPATCHERS''),
      (106, ''MQIA_DNS_WLM''), (107, ''MQIA_LISTENER_TIMER''), (108, ''MQIA_LU62_CHANNELS''),
      (109, ''MQIA_MAX_CHANNELS''), (110, ''MQIA_OUTBOUND_PORT_MIN''),
      (111, ''MQIA_RECEIVE_TIMEOUT''), (112, ''MQIA_RECEIVE_TIMEOUT_TYPE''),
      (113, ''MQIA_RECEIVE_TIMEOUT_MIN''), (114, ''MQIA_TCP_CHANNELS''),
      (115, ''MQIA_TCP_KEEP_ALIVE''), (116, ''MQIA_TCP_STACK_TYPE''),
      (117, ''MQIA_CHINIT_TRACE_AUTO_START''), (118, ''MQIA_CHINIT_TRACE_TABLE_SIZE''),
      (119, ''MQIA_CHINIT_CONTROL''), (120, ''MQIA_CMD_SERVER_CONTROL''),
      (121, ''MQIA_SERVICE_TYPE''), (122, ''MQIA_MONITORING_CHANNEL''),
      (123, ''MQIA_MONITORING_Q''), (124, ''MQIA_MONITORING_AUTO_CLUSSDR''),
      (127, ''MQIA_STATISTICS_MQI''), (128, ''MQIA_STATISTICS_Q''),
      (129, ''MQIA_STATISTICS_CHANNEL''), (130, ''MQIA_STATISTICS_AUTO_CLUSSDR''),
      (131, ''MQIA_STATISTICS_INTERVAL''), (133, ''MQIA_ACCOUNTING_MQI''),
      (134, ''MQIA_ACCOUNTING_Q''), (135, ''MQIA_ACCOUNTING_INTERVAL''),
      (136, ''MQIA_ACCOUNTING_CONN_OVERRIDE''), (137, ''MQIA_TRACE_ROUTE_RECORDING''),
      (138, ''MQIA_ACTIVITY_RECORDING''), (139, ''MQIA_SERVICE_CONTROL''),
      (140, ''MQIA_OUTBOUND_PORT_MAX''), (141, ''MQIA_SECURITY_CASE''),
      (150, ''MQIA_QMOPT_CSMT_ON_ERROR''), (151, ''MQIA_QMOPT_CONS_INFO_MSGS''),
      (152, ''MQIA_QMOPT_CONS_WARNING_MSGS''), (153, ''MQIA_QMOPT_CONS_ERROR_MSGS'')]"

definition MQIA_cases_2 :: "(int \<times> string) list" where
  "MQIA_cases_2 =
     [(154, ''MQIA_QMOPT_CONS_CRITICAL_MSGS''), (155, ''MQIA_QMOPT_CONS_COMMS_MSGS''),
      (156, ''MQIA_QMOPT_CONS_REORG_MSGS''), (157, ''MQIA_QMOPT_CONS_SYSTEM_MSGS''),
      (158, ''MQIA_QMOPT_LOG_INFO_MSGS''), (159, ''MQIA_QMOPT_LOG_WARNING_MSGS''),
      (160, ''MQIA_QMOPT_LOG_ERROR_MSGS''), (161, ''MQIA_QMOPT_LOG_CRITICAL_MSGS''),
      (162, ''MQIA_QMOPT_LOG_COMMS_MSGS''), (163, ''MQIA_QMOPT_LOG_REORG_MSGS''),
      (164, ''MQIA_QMOPT_LOG_SYSTEM_MSGS''), (165, ''MQIA_QMOPT_TRACE_MQI_CALLS''),
      (166, ''MQIA_QMOPT_TRACE_COMMS''), (167, ''MQIA_QMOPT_TRACE_REORG''),
      (168, ''MQIA_QMOPT_TRACE_CONVERSION''), (169, ''MQIA_QMOPT_TRACE_SYSTEM''),
      (170, ''MQIA_QMOPT_INTERNAL_DUMP''), (171, ''MQIA_MAX_RECOVERY_TASKS''),
      (172, ''MQIA_MAX_CLIENTS''), (173, ''MQIA_AUTO_REORGANIZATION''),
      (174, ''MQIA_AUTO_REORG_INTERVAL''), (175, ''MQIA_DURABLE_SUB''),
      (176, ''MQIA_MULTICAST''), (181, ''MQIA_INHIBIT_PUB''), (182, ''MQIA_INHIBIT_SUB''),
      (183, ''MQIA_TREE_LIFE_TIME''), (184, ''MQIA_DEF_PUT_RESPONSE_TYPE''),
      (185, ''MQIA_TOPIC_DEF_PERSISTENCE''), (186, ''MQIA_MASTER_ADMIN''),
      (187, ''MQIA_PUBSUB_MODE''), (188, ''MQIA_DEF_READ_AHEAD''), (189, ''MQIA_READ_AHEAD''),
      (190, ''MQIA_PROPERTY_CONTROL''), (192, ''MQIA_MAX_PROPERTIES_LENGTH''),
      (193, ''MQIA_BASE_TYPE''), (195, ''MQIA_PM_DELIVERY''), (196, ''MQIA_NPM_DELIVERY''),
      (199, ''MQIA_PROXY_SUB''), (203, ''MQIA_PUBSUB_NP_MSG''), (204, ''MQIA_SUB_COUNT''),
      (205, ''MQIA_PUBSUB_NP_RESP''), (206, ''MQIA_PUBSUB_MAXMSG_RETRY_COUNT''),
      (207, ''MQIA_PUBSUB_SYNC_PT''), (208, ''MQIA_TOPIC_TYPE''), (215, ''MQIA_PUB_COUNT''),
      (216, ''MQIA_WILDCARD_OPERATION''), (218, ''MQIA_SUB_SCOPE''), (219, ''MQIA_PUB_SCOPE''),
      (221, ''MQIA_GROUP_UR''), (222, ''MQIA_UR_DISP''), (223, ''MQIA_COMM_INFO_TYPE''),
      (224, ''MQIA_CF_OFFLOAD''), (225, ''MQIA_CF_OFFLOAD_THRESHOLD1''),
      (226, ''MQIA_CF_OFFLOAD_THRESHOLD2''), (227, ''MQIA_CF_OFFLOAD_THRESHOLD3''),
      (228, ''MQIA_CF_SMDS_BUFFERS''), (229, ''MQIA_CF_OFFLDUSE''),
      (230, ''MQIA_MAX_RESPONSES''), (231, ''MQIA_RESPONSE_RESTART_POINT''),
      (232, ''MQIA_COMM_EVENT''), (233, ''MQIA_MCAST_BRIDGE''),
      (234, ''MQIA_USE_DEAD_LETTER_Q''), (235, ''MQIA_TOLERATE_UNPROTECTED''),
      (236, ''MQIA_SIGNATURE_ALGORITHM''), (237, ''MQIA_ENCRYPTION_ALGORITHM''),
      (238, ''MQIA_POLICY_VERSION''), (239, ''MQIA_ACTIVITY_CONN_OVERRIDE''),
      (240, ''MQIA_ACTIVITY_TRACE''), (242, ''MQIA_SUB_CONFIGURATION_EVENT''),
      (243, ''MQIA_XR_CAPABILITY''), (244, ''MQIA_CF_RECAUTO''), (245, ''MQIA_QMGR_CFCONLOS''),
      (246, ''MQIA_CF_CFCONLOS''), (247, ''MQIA_SUITE_B_STRENGTH''),
      (248, ''MQIA_CHLAUTH_RECORDS''), (249, ''MQIA_PUBSUB_CLUSTER''),
      (250, ''MQIA_DEF_CLUSTER_XMIT_Q_TYPE''), (251, ''MQIA_PROT_POLICY_CAPABILITY''),
      (252, ''MQIA_CERT_VAL_POLICY''), (253, ''MQIA_TOPIC_NODE_COUNT''),
      (254, ''MQIA_REVERSE_DNS_LOOKUP''), (255, ''MQIA_CLUSTER_PUB_ROUTE''),
      (256, ''MQIA_CLUSTER_OBJECT_STATE''), (257, ''MQIA_CHECK_LOCAL_BINDING''),
      (258, ''MQIA_CHECK_CLIENT_BINDING''), (259, ''MQIA_AUTHENTICATION_FAIL_DELAY''),
      (260, ''MQIA_ADOPT_CONTEXT''), (261, ''MQIA_LDAP_SECURE_COMM''),
      (262, ''MQIA_DISPLAY_TYPE''), (263, ''MQIA_LDAP_AUTHORMD''), (264, ''MQIA_LDAP_NESTGRP''),
      (265, ''MQIA_AMQP_CAPABILITY''), (266, ''MQIA_AUTHENTICATION_METHOD''),
      (267, ''MQIA_KEY_REUSE_COUNT''), (268, ''MQIA_MEDIA_IMAGE_SCHEDULING''),
      (269, ''MQIA_MEDIA_IMAGE_INTERVAL''), (270, ''MQIA_MEDIA_IMAGE_LOG_LENGTH''),
      (271, ''MQIA_MEDIA_IMAGE_RECOVER_OBJ''), (272, ''MQIA_MEDIA_IMAGE_RECOVER_Q''),
      (273, ''MQIA_ADVANCED_CAPABILITY''), (274, ''MQIA_MAX_Q_FILE_SIZE''),
      (275, ''MQIA_STREAM_QUEUE_QOS''), (276, ''MQIA_CAP_EXPIRY''), (2000, ''MQIA_USER_LIST'')]"

definition MQIA_STR :: "int \<Rightarrow> string" where
  "MQIA_STR v = c_switch (MQIA_cases_1 @ MQIA_cases_2) v"

lemma MQIA_cases_1_ok: "list_all (case_fact a) MQIA_cases_1"
  unfolding MQIA_cases_1_def
  by (simp only: cmqc_MQINQ_Function_4_cases cmqc_MQINQ_Function_6_cases cmqc_MQINQ_Function_5_cases
      case_simps cong: case_congs)

lemma MQIA_cases_2_ok: "list_all (case_fact a) MQIA_cases_2"
  unfolding MQIA_cases_2_def
  by (simp only: cmqc_MQINQ_Function_5_cases cmqc_MQINQ_Function_4_cases cmqc_MQINQ_Function_6_cases
      case_simps cong: case_congs)

lemma names_B10: "list_all (names_ok a) [MQIA_STR]"
  unfolding list.pred_inject
  by (intro conjI list.pred_inject(1) names_okI [OF MQIA_STR_def])
     (simp only: list_all_append simp_thms MQIA_cases_1_ok MQIA_cases_2_ok)

end
