(* ===== verification/Mqi_Names_C.thy ===== *)
theory Mqi_Names_C
  imports Mqi_Facts_C Mqi_Facts_P
begin

text \<open>
  The functions \<open>MQIDO_STR\<close> to \<open>MQRC_STR\<close> of \<open>cmqstrc.h\<close>.
\<close>

definition MQIDO_STR :: "int \<Rightarrow> string" where
  "MQIDO_STR v = c_switch
     [(1, ''MQIDO_COMMIT''), (2, ''MQIDO_BACKOUT'')] v"

definition MQIEPF_STR :: "int \<Rightarrow> string" where
  "MQIEPF_STR v = c_switch
     [(0, ''MQIEPF_NONE''), (1, ''MQIEPF_THREADED_LIBRARY''), (2, ''MQIEPF_LOCAL_LIBRARY'')] v"

definition MQIGQPA_STR :: "int \<Rightarrow> string" where
  "MQIGQPA_STR v = c_switch
     [(1, ''MQIGQPA_DEFAULT''), (2, ''MQIGQPA_CONTEXT''), (3, ''MQIGQPA_ONLY_IGQ''),
      (4, ''MQIGQPA_ALTERNATE_OR_IGQ'')] v"

definition MQIGQ_STR :: "int \<Rightarrow> string" where
  "MQIGQ_STR v = c_switch
     [(0, ''MQIGQ_DISABLED''), (1, ''MQIGQ_ENABLED'')] v"

definition MQIIH_STR :: "int \<Rightarrow> string" where
  "MQIIH_STR v = c_switch
     [(0, ''MQIIH_NONE''), (1, ''MQIIH_PASS_EXPIRATION''), (8, ''MQIIH_REPLY_FORMAT_NONE''),
      (16, ''MQIIH_IGNORE_PURG''), (32, ''MQIIH_CM0_REQUEST_RESPONSE'')] v"

definition MQIMGRCOV_STR :: "int \<Rightarrow> string" where
  "MQIMGRCOV_STR v = c_switch
     [(0, ''MQIMGRCOV_NO''), (1, ''MQIMGRCOV_YES''), (2, ''MQIMGRCOV_AS_Q_MGR'')] v"

definition MQIMMREASON_STR :: "int \<Rightarrow> string" where
  "MQIMMREASON_STR v = c_switch
     [(0, ''MQIMMREASON_NONE''), (1, ''MQIMMREASON_NOT_CLIENT''),
      (2, ''MQIMMREASON_NOT_RECONNECTABLE''), (3, ''MQIMMREASON_MOVING''),
      (4, ''MQIMMREASON_APPLNAME_CHANGED''), (5, ''MQIMMREASON_IN_TRANSACTION''),
      (6, ''MQIMMREASON_AWAITS_REPLY''), (7, ''MQIMMREASON_NO_REDIRECT'')] v"

definition MQIMPO_STR :: "int \<Rightarrow> string" where
  "MQIMPO_STR v = c_switch
     [(0, ''MQIMPO_NONE''), (2, ''MQIMPO_CONVERT_TYPE''), (4, ''MQIMPO_QUERY_LENGTH''),
      (8, ''MQIMPO_INQ_NEXT''), (16, ''MQIMPO_INQ_PROP_UNDER_CURSOR''),
      (32, ''MQIMPO_CONVERT_VALUE'')] v"

definition MQINBD_STR :: "int \<Rightarrow> string" where
  "MQINBD_STR v = c_switch
     [(0, ''MQINBD_Q_MGR''), (3, ''MQINBD_GROUP'')] v"

definition MQIND_STR :: "int \<Rightarrow> string" where
  "MQIND_STR v = c_switch
     [(- 2, ''MQIND_ALL''), (- 1, ''MQIND_NONE'')] v"

definition MQIPADDR_STR :: "int \<Rightarrow> string" where
  "MQIPADDR_STR v = c_switch
     [(0, ''MQIPADDR_IPV4''), (1, ''MQIPADDR_IPV6'')] v"

definition MQIS_STR :: "int \<Rightarrow> string" where
  "MQIS_STR v = c_switch
     [(0, ''MQIS_NO''), (1, ''MQIS_YES'')] v"

definition MQIT_STR :: "int \<Rightarrow> string" where
  "MQIT_STR v = c_switch
     [(0, ''MQIT_NONE''), (1, ''MQIT_MSG_ID''), (2, ''MQIT_CORREL_ID''),
      (4, ''MQIT_MSG_TOKEN''), (5, ''MQIT_GROUP_ID'')] v"

definition MQKAI_STR :: "int \<Rightarrow> string" where
  "MQKAI_STR v = c_switch
     [(- 1, ''MQKAI_AUTO'')] v"

definition MQKEY_STR :: "int \<Rightarrow> string" where
  "MQKEY_STR v = c_switch
     [(- 1, ''MQKEY_REUSE_UNLIMITED''), (0, ''MQKEY_REUSE_DISABLED'')] v"

definition MQLDAPC_STR :: "int \<Rightarrow> string" where
  "MQLDAPC_STR v = c_switch
     [(0, ''MQLDAPC_INACTIVE''), (1, ''MQLDAPC_CONNECTED''), (2, ''MQLDAPC_ERROR'')] v"

definition MQLDAP_AUTHORMD_STR :: "int \<Rightarrow> string" where
  "MQLDAP_AUTHORMD_STR v = c_switch
     [(0, ''MQLDAP_AUTHORMD_OS''), (1, ''MQLDAP_AUTHORMD_SEARCHGRP''),
      (2, ''MQLDAP_AUTHORMD_SEARCHUSR''), (3, ''MQLDAP_AUTHORMD_SRCHGRPSN'')] v"

definition MQLDAP_NESTGRP_STR :: "int \<Rightarrow> string" where
  "MQLDAP_NESTGRP_STR v = c_switch
     [(0, ''MQLDAP_NESTGRP_NO''), (1, ''MQLDAP_NESTGRP_YES'')] v"

definition MQLOGTYPE_STR :: "int \<Rightarrow> string" where
  "MQLOGTYPE_STR v = c_switch
     [(0, ''MQLOGTYPE_CIRCULAR''), (1, ''MQLOGTYPE_LINEAR''), (2, ''MQLOGTYPE_REPLICATED'')] v"

definition MQLR_STR :: "int \<Rightarrow> string" where
  "MQLR_STR v = c_switch
     [(- 2, ''MQLR_MAX''), (- 1, ''MQLR_AUTO''), (1, ''MQLR_ONE'')] v"

definition MQMASTER_STR :: "int \<Rightarrow> string" where
  "MQMASTER_STR v = c_switch
     [(0, ''MQMASTER_NO''), (1, ''MQMASTER_YES'')] v"

definition MQMATCH_STR :: "int \<Rightarrow> string" where
  "MQMATCH_STR v = c_switch
     [(0, ''MQMATCH_GENERIC''), (1, ''MQMATCH_RUNCHECK''), (2, ''MQMATCH_EXACT''),
      (3, ''MQMATCH_ALL'')] v"

definition MQMCAS_STR :: "int \<Rightarrow> string" where
  "MQMCAS_STR v = c_switch
     [(0, ''MQMCAS_STOPPED''), (3, ''MQMCAS_RUNNING'')] v"

definition MQMCAT_STR :: "int \<Rightarrow> string" where
  "MQMCAT_STR v = c_switch
     [(1, ''MQMCAT_PROCESS''), (2, ''MQMCAT_THREAD'')] v"

definition MQMCB_STR :: "int \<Rightarrow> string" where
  "MQMCB_STR v = c_switch
     [(0, ''MQMCB_DISABLED''), (1, ''MQMCB_ENABLED'')] v"

definition MQMCEV_STR :: "int \<Rightarrow> string" where
  "MQMCEV_STR v = c_switch
     [(1, ''MQMCEV_PACKET_LOSS''), (2, ''MQMCEV_HEARTBEAT_TIMEOUT''),
      (3, ''MQMCEV_VERSION_CONFLICT''), (4, ''MQMCEV_RELIABILITY''),
      (5, ''MQMCEV_CLOSED_TRANS''), (6, ''MQMCEV_STREAM_ERROR''), (10, ''MQMCEV_NEW_SOURCE''),
      (11, ''MQMCEV_RECEIVE_QUEUE_TRIMMED''), (12, ''MQMCEV_PACKET_LOSS_NACK_EXPIRE''),
      (13, ''MQMCEV_ACK_RETRIES_EXCEEDED''), (14, ''MQMCEV_STREAM_SUSPEND_NACK''),
      (15, ''MQMCEV_STREAM_RESUME_NACK''), (16, ''MQMCEV_STREAM_EXPELLED''),
      (20, ''MQMCEV_FIRST_MESSAGE''), (21, ''MQMCEV_LATE_JOIN_FAILURE''),
      (22, ''MQMCEV_MESSAGE_LOSS''), (23, ''MQMCEV_SEND_PACKET_FAILURE''),
      (24, ''MQMCEV_REPAIR_DELAY''), (25, ''MQMCEV_MEMORY_ALERT_ON''),
      (26, ''MQMCEV_MEMORY_ALERT_OFF''), (27, ''MQMCEV_NACK_ALERT_ON''),
      (28, ''MQMCEV_NACK_ALERT_OFF''), (29, ''MQMCEV_REPAIR_ALERT_ON''),
      (30, ''MQMCEV_REPAIR_ALERT_OFF''), (31, ''MQMCEV_RELIABILITY_CHANGED''),
      (80, ''MQMCEV_SHM_DEST_UNUSABLE''), (81, ''MQMCEV_SHM_PORT_UNUSABLE''),
      (110, ''MQMCEV_CCT_GETTIME_FAILED''), (120, ''MQMCEV_DEST_INTERFACE_FAILURE''),
      (121, ''MQMCEV_DEST_INTERFACE_FAILOVER''), (122, ''MQMCEV_PORT_INTERFACE_FAILURE''),
      (123, ''MQMCEV_PORT_INTERFACE_FAILOVER'')] v"

definition MQMCP_STR :: "int \<Rightarrow> string" where
  "MQMCP_STR v = c_switch
     [(- 2, ''MQMCP_COMPAT''), (- 1, ''MQMCP_ALL''), (0, ''MQMCP_NONE''), (1, ''MQMCP_USER''),
      (2, ''MQMCP_REPLY'')] v"

lemmas names_C1_defs =
  MQIDO_STR_def MQIEPF_STR_def MQIGQPA_STR_def MQIGQ_STR_def MQIIH_STR_def MQIMGRCOV_STR_def
  MQIMMREASON_STR_def MQIMPO_STR_def MQINBD_STR_def MQIND_STR_def MQIPADDR_STR_def MQIS_STR_def
  MQIT_STR_def MQKAI_STR_def MQKEY_STR_def MQLDAPC_STR_def MQLDAP_AUTHORMD_STR_def
  MQLDAP_NESTGRP_STR_def MQLOGTYPE_STR_def MQLR_STR_def MQMASTER_STR_def MQMATCH_STR_def
  MQMCAS_STR_def MQMCAT_STR_def MQMCB_STR_def MQMCEV_STR_def

lemmas names_C1_facts =
  cmqcfc_Group_Parameter_4_cases cmqec_MQIEP_cases cmqc_QueueManager_Attributes_1_cases
  MQIIH_values_cases cmqc_QueueManager_Attributes_3_cases cmqcfc_Group_Parameter_2_cases
  MQIMPO_values_cases cmqbc_Most_Functions_1_cases cmqc_Queue_Attributes_cases
  cmqxc_MQCD_2_cases cmqc_MQINQ_Function_6_cases cmqcfc_Group_Parameter_6_cases
  cmqcfc_Group_Parameter_7_cases cmqc_Topic_Attributes_cases cmqxc_MQCD_1_cases
  cmqxc_MQXEPO_2_cases

lemma names_C1:
  "list_all (names_ok a)
     [MQIDO_STR, MQIEPF_STR, MQIGQPA_STR, MQIGQ_STR, MQIIH_STR, MQIMGRCOV_STR, MQIMMREASON_STR,
      MQIMPO_STR, MQINBD_STR, MQIND_STR, MQIPADDR_STR, MQIS_STR, MQIT_STR, MQKAI_STR, MQKEY_STR,
      MQLDAPC_STR, MQLDAP_AUTHORMD_STR, MQLDAP_NESTGRP_STR, MQLOGTYPE_STR, MQLR_STR,
      MQMASTER_STR, MQMATCH_STR, MQMCAS_STR, MQMCAT_STR, MQMCB_STR, MQMCEV_STR]"
  unfolding list.pred_inject
  by (intro conjI list.pred_inject(1);
      rule names_okI, rule names_C1_defs, simp only: names_C1_facts case_simps cong: case_congs)

definition MQMC_STR :: "int \<Rightarrow> string" where
  "MQMC_STR v = c_switch
     [(0, ''MQMC_AS_PARENT''), (1, ''MQMC_ENABLED''), (2, ''MQMC_DISABLED''), (3, ''MQMC_ONLY'')] v"

definition MQMDEF_STR :: "int \<Rightarrow> string" where
  "MQMDEF_STR v = c_switch
     [(0, ''MQMDEF_NONE'')] v"

definition MQMDS_STR :: "int \<Rightarrow> string" where
  "MQMDS_STR v = c_switch
     [(0, ''MQMDS_PRIORITY''), (1, ''MQMDS_FIFO'')] v"

definition MQMEDIMGINTVL_STR :: "int \<Rightarrow> string" where
  "MQMEDIMGINTVL_STR v = c_switch
     [(0, ''MQMEDIMGINTVL_OFF'')] v"

definition MQMEDIMGLOGLN_STR :: "int \<Rightarrow> string" where
  "MQMEDIMGLOGLN_STR v = c_switch
     [(0, ''MQMEDIMGLOGLN_OFF'')] v"

definition MQMEDIMGSCHED_STR :: "int \<Rightarrow> string" where
  "MQMEDIMGSCHED_STR v = c_switch
     [(0, ''MQMEDIMGSCHED_MANUAL''), (1, ''MQMEDIMGSCHED_AUTO'')] v"

definition MQMF_STR :: "int \<Rightarrow> string" where
  "MQMF_STR v = c_switch
     [(- 1048576, ''MQMF_ACCEPT_UNSUP_MASK''), (0, ''MQMF_NONE''),
      (1, ''MQMF_SEGMENTATION_ALLOWED''), (2, ''MQMF_SEGMENT''), (4, ''MQMF_LAST_SEGMENT''),
      (8, ''MQMF_MSG_IN_GROUP''), (16, ''MQMF_LAST_MSG_IN_GROUP''),
      (4095, ''MQMF_REJECT_UNSUP_MASK''), (1044480, ''MQMF_ACCEPT_UNSUP_IF_XMIT_MASK'')] v"

definition MQMHBO_STR :: "int \<Rightarrow> string" where
  "MQMHBO_STR v = c_switch
     [(0, ''MQMHBO_NONE''), (1, ''MQMHBO_PROPERTIES_IN_MQRFH2''),
      (2, ''MQMHBO_DELETE_PROPERTIES'')] v"

definition MQMLP_ENCRYPTION_STR :: "int \<Rightarrow> string" where
  "MQMLP_ENCRYPTION_STR v = c_switch
     [(0, ''MQMLP_ENCRYPTION_ALG_NONE''), (1, ''MQMLP_ENCRYPTION_ALG_RC2''),
      (2, ''MQMLP_ENCRYPTION_ALG_DES''), (3, ''MQMLP_ENCRYPTION_ALG_3DES''),
      (4, ''MQMLP_ENCRYPTION_ALG_AES128''), (5, ''MQMLP_ENCRYPTION_ALG_AES256'')] v"

definition MQMLP_SIGN_STR :: "int \<Rightarrow> string" where
  "MQMLP_SIGN_STR v = c_switch
     [(0, ''MQMLP_SIGN_ALG_NONE''), (1, ''MQMLP_SIGN_ALG_MD5''), (2, ''MQMLP_SIGN_ALG_SHA1''),
      (3, ''MQMLP_SIGN_ALG_SHA224''), (4, ''MQMLP_SIGN_ALG_SHA256''),
      (5, ''MQMLP_SIGN_ALG_SHA384''), (6, ''MQMLP_SIGN_ALG_SHA512'')] v"

definition MQMLP_TOLERATE_STR :: "int \<Rightarrow> string" where
  "MQMLP_TOLERATE_STR v = c_switch
     [(0, ''MQMLP_TOLERATE_UNPROTECTED_NO''), (1, ''MQMLP_TOLERATE_UNPROTECTED_YES'')] v"

definition MQMMBI_STR :: "int \<Rightarrow> string" where
  "MQMMBI_STR v = c_switch
     [(- 1, ''MQMMBI_UNLIMITED'')] v"

definition MQMODE_STR :: "int \<Rightarrow> string" where
  "MQMODE_STR v = c_switch
     [(0, ''MQMODE_FORCE''), (1, ''MQMODE_QUIESCE''), (2, ''MQMODE_TERMINATE'')] v"

definition MQMON_OVERRIDE_STR :: "int \<Rightarrow> string" where
  "MQMON_OVERRIDE_STR v = c_switch
     [(0, ''MQMON_DISABLED''), (1, ''MQMON_ENABLED'')] v"

definition MQMON_STR :: "int \<Rightarrow> string" where
  "MQMON_STR v = c_switch
     [(- 3, ''MQMON_Q_MGR''), (- 1, ''MQMON_NONE''), (0, ''MQMON_OFF''), (1, ''MQMON_ON''),
      (17, ''MQMON_LOW''), (33, ''MQMON_MEDIUM''), (65, ''MQMON_HIGH'')] v"

definition MQMON_AVAILABILITY_STR :: "int \<Rightarrow> string" where
  "MQMON_AVAILABILITY_STR v = c_switch
     [(- 1, ''MQMON_NOT_AVAILABLE'')] v"

definition MQMO_STR :: "int \<Rightarrow> string" where
  "MQMO_STR v = c_switch
     [(0, ''MQMO_NONE''), (1, ''MQMO_MATCH_MSG_ID''), (2, ''MQMO_MATCH_CORREL_ID''),
      (4, ''MQMO_MATCH_GROUP_ID''), (8, ''MQMO_MATCH_MSG_SEQ_NUMBER''),
      (16, ''MQMO_MATCH_OFFSET''), (32, ''MQMO_MATCH_MSG_TOKEN'')] v"

definition MQMT_STR :: "int \<Rightarrow> string" where
  "MQMT_STR v = c_switch
     [(1, ''MQMT_REQUEST''), (2, ''MQMT_REPLY''), (4, ''MQMT_REPORT''), (8, ''MQMT_DATAGRAM''),
      (112, ''MQMT_MQE_FIELDS_FROM_MQE''), (113, ''MQMT_MQE_FIELDS'')] v"

definition MQMULC_STR :: "int \<Rightarrow> string" where
  "MQMULC_STR v = c_switch
     [(0, ''MQMULC_STANDARD''), (1, ''MQMULC_REFINED'')] v"

definition MQNC_STR :: "int \<Rightarrow> string" where
  "MQNC_STR v = c_switch
     [(256, ''MQNC_MAX_NAMELIST_NAME_COUNT'')] v"

definition MQNHABACKLOG_STR :: "int \<Rightarrow> string" where
  "MQNHABACKLOG_STR v = c_switch
     [(- 1, ''MQNHABACKLOG_UNKNOWN'')] v"

definition MQNHACONNACTV_STR :: "int \<Rightarrow> string" where
  "MQNHACONNACTV_STR v = c_switch
     [(0, ''MQNHACONNACTV_NO''), (1, ''MQNHACONNACTV_YES'')] v"

definition MQNHAINSYNC_STR :: "int \<Rightarrow> string" where
  "MQNHAINSYNC_STR v = c_switch
     [(0, ''MQNHAINSYNC_NO''), (1, ''MQNHAINSYNC_YES'')] v"

definition MQNHAROLE_STR :: "int \<Rightarrow> string" where
  "MQNHAROLE_STR v = c_switch
     [(0, ''MQNHAROLE_UNKNOWN''), (1, ''MQNHAROLE_ACTIVE''), (2, ''MQNHAROLE_REPLICA'')] v"

definition MQNPMS_STR :: "int \<Rightarrow> string" where
  "MQNPMS_STR v = c_switch
     [(1, ''MQNPMS_NORMAL''), (2, ''MQNPMS_FAST'')] v"

definition MQNPM_STR :: "int \<Rightarrow> string" where
  "MQNPM_STR v = c_switch
     [(0, ''MQNPM_CLASS_NORMAL''), (10, ''MQNPM_CLASS_HIGH'')] v"

definition MQNSH_STR :: "int \<Rightarrow> string" where
  "MQNSH_STR v = c_switch
     [(- 1, ''MQNSH_ALL''), (0, ''MQNSH_NONE'')] v"

definition MQNT_STR :: "int \<Rightarrow> string" where
  "MQNT_STR v = c_switch
     [(0, ''MQNT_NONE''), (1, ''MQNT_Q''), (2, ''MQNT_CLUSTER''), (4, ''MQNT_AUTH_INFO''),
      (1001, ''MQNT_ALL'')] v"

definition MQOL_STR :: "int \<Rightarrow> string" where
  "MQOL_STR v = c_switch
     [(- 1, ''MQOL_UNDEFINED'')] v"

definition MQOM_STR :: "int \<Rightarrow> string" where
  "MQOM_STR v = c_switch
     [(0, ''MQOM_NO''), (1, ''MQOM_YES'')] v"

definition MQOO_STR :: "int \<Rightarrow> string" where
  "MQOO_STR v = c_switch
     [(0, ''MQOO_READ_AHEAD_AS_Q_DEF''), (1, ''MQOO_INPUT_AS_Q_DEF''),
      (2, ''MQOO_INPUT_SHARED''), (4, ''MQOO_INPUT_EXCLUSIVE''), (8, ''MQOO_BROWSE''),
      (16, ''MQOO_OUTPUT''), (32, ''MQOO_INQUIRE''), (64, ''MQOO_SET''),
      (128, ''MQOO_SAVE_ALL_CONTEXT''), (256, ''MQOO_PASS_IDENTITY_CONTEXT''),
      (512, ''MQOO_PASS_ALL_CONTEXT''), (1024, ''MQOO_SET_IDENTITY_CONTEXT''),
      (2048, ''MQOO_SET_ALL_CONTEXT''), (4096, ''MQOO_ALTERNATE_USER_AUTHORITY''),
      (8192, ''MQOO_FAIL_IF_QUIESCING''), (16384, ''MQOO_BIND_ON_OPEN''),
      (32768, ''MQOO_BIND_NOT_FIXED''), (65536, ''MQOO_RESOLVE_NAMES''),
      (131072, ''MQOO_CO_OP''), (262144, ''MQOO_RESOLVE_LOCAL_Q''),
      (524288, ''MQOO_NO_READ_AHEAD''), (1048576, ''MQOO_READ_AHEAD''),
      (2097152, ''MQOO_NO_MULTICAST''), (4194304, ''MQOO_BIND_ON_GROUP'')] v"

lemmas names_C2_defs =
  MQMCP_STR_def MQMC_STR_def MQMDEF_STR_def MQMDS_STR_def MQMEDIMGINTVL_STR_def
  MQMEDIMGLOGLN_STR_def MQMEDIMGSCHED_STR_def MQMF_STR_def MQMHBO_STR_def
  MQMLP_ENCRYPTION_STR_def MQMLP_SIGN_STR_def MQMLP_TOLERATE_STR_def MQMMBI_STR_def
  MQMODE_STR_def MQMON_OVERRIDE_STR_def MQMON_STR_def MQMON_AVAILABILITY_STR_def MQMO_STR_def
  MQMT_STR_def MQMULC_STR_def MQNC_STR_def MQNHABACKLOG_STR_def MQNHACONNACTV_STR_def
  MQNHAINSYNC_STR_def MQNHAROLE_STR_def MQNPMS_STR_def MQNPM_STR_def MQNSH_STR_def MQNT_STR_def
  MQOL_STR_def MQOM_STR_def

lemmas names_C2_facts =
  cmqcfc_Group_Parameter_7_cases cmqc_Topic_Attributes_cases MQMDE_values_cases
  cmqc_Queue_Attributes_cases cmqc_QueueManager_Attributes_3_cases combined_cases
  MQMD_values_3_cases MQMHBO_values_cases cmqcfc_Group_Parameter_4_cases
  cmqc_QueueManager_Attributes_1_cases cmqc_QueueManager_Attributes_2_cases MQGMO_values_cases
  MQMD_values_1_cases cmqcfc_Publish_Subscribe_cases cmqc_Namelist_Attributes_cases
  cmqxc_MQCD_1_cases MQOD_values_cases

lemma names_C2:
  "list_all (names_ok a)
     [MQMCP_STR, MQMC_STR, MQMDEF_STR, MQMDS_STR, MQMEDIMGINTVL_STR, MQMEDIMGLOGLN_STR,
      MQMEDIMGSCHED_STR, MQMF_STR, MQMHBO_STR, MQMLP_ENCRYPTION_STR, MQMLP_SIGN_STR,
      MQMLP_TOLERATE_STR, MQMMBI_STR, MQMODE_STR, MQMON_OVERRIDE_STR, MQMON_STR,
      MQMON_AVAILABILITY_STR, MQMO_STR, MQMT_STR, MQMULC_STR, MQNC_STR, MQNHABACKLOG_STR,
      MQNHACONNACTV_STR, MQNHAINSYNC_STR, MQNHAROLE_STR, MQNPMS_STR, MQNPM_STR, MQNSH_STR,
      MQNT_STR, MQOL_STR, MQOM_STR]"
  unfolding list.pred_inject
  by (intro conjI list.pred_inject(1);
      rule names_okI, rule names_C2_defs, simp only: names_C2_facts case_simps cong: case_congs)

definition MQOPER_STR :: "int \<Rightarrow> string" where
  "MQOPER_STR v = c_switch
     [(0, ''MQOPER_UNKNOWN''), (1, ''MQOPER_BROWSE''), (2, ''MQOPER_DISCARD''),
      (3, ''MQOPER_GET''), (4, ''MQOPER_PUT''), (5, ''MQOPER_PUT_REPLY''),
      (6, ''MQOPER_PUT_REPORT''), (7, ''MQOPER_RECEIVE''), (8, ''MQOPER_SEND''),
      (9, ''MQOPER_TRANSFORM''), (10, ''MQOPER_PUBLISH''), (11, ''MQOPER_EXCLUDED_PUBLISH''),
      (12, ''MQOPER_DISCARDED_PUBLISH'')] v"

definition MQOPMODE_STR :: "int \<Rightarrow> string" where
  "MQOPMODE_STR v = c_switch
     [(0, ''MQOPMODE_COMPAT''), (1, ''MQOPMODE_NEW_FUNCTION'')] v"

definition MQOP_STR :: "int \<Rightarrow> string" where
  "MQOP_STR v = c_switch
     [(1, ''MQOP_START''), (2, ''MQOP_START_WAIT''), (4, ''MQOP_STOP''),
      (256, ''MQOP_REGISTER''), (512, ''MQOP_DEREGISTER''), (65536, ''MQOP_SUSPEND''),
      (131072, ''MQOP_RESUME'')] v"

definition MQOT_STR :: "int \<Rightarrow> string" where
  "MQOT_STR v = c_switch
     [(0, ''MQOT_NONE''), (1, ''MQOT_Q''), (2, ''MQOT_NAMELIST''), (3, ''MQOT_PROCESS''),
      (4, ''MQOT_STORAGE_CLASS''), (5, ''MQOT_Q_MGR''), (6, ''MQOT_CHANNEL''),
      (7, ''MQOT_AUTH_INFO''), (8, ''MQOT_TOPIC''), (9, ''MQOT_COMM_INFO''),
      (10, ''MQOT_CF_STRUC''), (11, ''MQOT_LISTENER''), (12, ''MQOT_SERVICE''),
      (999, ''MQOT_RESERVED_1''), (1001, ''MQOT_ALL''), (1002, ''MQOT_ALIAS_Q''),
      (1003, ''MQOT_MODEL_Q''), (1004, ''MQOT_LOCAL_Q''), (1005, ''MQOT_REMOTE_Q''),
      (1007, ''MQOT_SENDER_CHANNEL''), (1008, ''MQOT_SERVER_CHANNEL''),
      (1009, ''MQOT_REQUESTER_CHANNEL''), (1010, ''MQOT_RECEIVER_CHANNEL''),
      (1011, ''MQOT_CURRENT_CHANNEL''), (1012, ''MQOT_SAVED_CHANNEL''),
      (1013, ''MQOT_SVRCONN_CHANNEL''), (1014, ''MQOT_CLNTCONN_CHANNEL''),
      (1015, ''MQOT_SHORT_CHANNEL''), (1016, ''MQOT_CHLAUTH''),
      (1017, ''MQOT_REMOTE_Q_MGR_NAME''), (1019, ''MQOT_PROT_POLICY''),
      (1020, ''MQOT_TT_CHANNEL''), (1021, ''MQOT_AMQP_CHANNEL''), (1022, ''MQOT_AUTH_REC'')] v"

definition MQPAGECLAS_STR :: "int \<Rightarrow> string" where
  "MQPAGECLAS_STR v = c_switch
     [(0, ''MQPAGECLAS_4KB''), (1, ''MQPAGECLAS_FIXED4KB'')] v"

definition MQPA_STR :: "int \<Rightarrow> string" where
  "MQPA_STR v = c_switch
     [(1, ''MQPA_DEFAULT''), (2, ''MQPA_CONTEXT''), (3, ''MQPA_ONLY_MCA''),
      (4, ''MQPA_ALTERNATE_OR_MCA'')] v"

definition MQPD_STR :: "int \<Rightarrow> string" where
  "MQPD_STR v = c_switch
     [(- 1048576, ''MQPD_REJECT_UNSUP_MASK''), (0, ''MQPD_NONE''),
      (1, ''MQPD_SUPPORT_OPTIONAL''), (1023, ''MQPD_ACCEPT_UNSUP_MASK''),
      (1024, ''MQPD_SUPPORT_REQUIRED_IF_LOCAL''), (1047552, ''MQPD_ACCEPT_UNSUP_IF_XMIT_MASK''),
      (1048576, ''MQPD_SUPPORT_REQUIRED'')] v"

definition MQPER_STR :: "int \<Rightarrow> string" where
  "MQPER_STR v = c_switch
     [(- 1, ''MQPER_PERSISTENCE_AS_PARENT''), (0, ''MQPER_NOT_PERSISTENT''),
      (1, ''MQPER_PERSISTENT''), (2, ''MQPER_PERSISTENCE_AS_Q_DEF'')] v"

definition MQPL_STR :: "int \<Rightarrow> string" where
  "MQPL_STR v = c_switch
     [(1, ''MQPL_ZOS''), (2, ''MQPL_OS2''), (3, ''MQPL_UNIX''), (4, ''MQPL_OS400''),
      (5, ''MQPL_WINDOWS''), (11, ''MQPL_WINDOWS_NT''), (12, ''MQPL_VMS''), (13, ''MQPL_NSK''),
      (15, ''MQPL_OPEN_TP1''), (18, ''MQPL_VM''), (23, ''MQPL_TPF''), (27, ''MQPL_VSE''),
      (28, ''MQPL_APPLIANCE'')] v"

definition MQPMO_STR :: "int \<Rightarrow> string" where
  "MQPMO_STR v = c_switch
     [(0, ''MQPMO_NONE''), (2, ''MQPMO_SYNCPOINT''), (4, ''MQPMO_NO_SYNCPOINT''),
      (32, ''MQPMO_DEFAULT_CONTEXT''), (64, ''MQPMO_NEW_MSG_ID''),
      (128, ''MQPMO_NEW_CORREL_ID''), (256, ''MQPMO_PASS_IDENTITY_CONTEXT''),
      (512, ''MQPMO_PASS_ALL_CONTEXT''), (1024, ''MQPMO_SET_IDENTITY_CONTEXT''),
      (2048, ''MQPMO_SET_ALL_CONTEXT''), (4096, ''MQPMO_ALTERNATE_USER_AUTHORITY''),
      (8192, ''MQPMO_FAIL_IF_QUIESCING''), (16384, ''MQPMO_NO_CONTEXT''),
      (32768, ''MQPMO_LOGICAL_ORDER''), (65536, ''MQPMO_ASYNC_RESPONSE''),
      (131072, ''MQPMO_SYNC_RESPONSE''), (262144, ''MQPMO_RESOLVE_LOCAL_Q''),
      (524288, ''MQPMO_WARN_IF_NO_SUBS_MATCHED''), (2097152, ''MQPMO_RETAIN''),
      (8388608, ''MQPMO_MD_FOR_OUTPUT_ONLY''), (67108864, ''MQPMO_SCOPE_QMGR''),
      (134217728, ''MQPMO_SUPPRESS_REPLYTO''), (268435456, ''MQPMO_NOT_OWN_SUBS'')] v"

lemmas names_C3_defs =
  MQOO_STR_def MQOPER_STR_def MQOPMODE_STR_def MQOP_STR_def MQOT_STR_def MQPAGECLAS_STR_def
  MQPA_STR_def MQPD_STR_def MQPER_STR_def MQPL_STR_def

lemmas names_C3_facts =
  cmqc_MQOPEN_Function_cases cmqcfc_Trace_route_and_Activity_Operations_cases cmqcfc_All_cases
  cmqc_MQCTL_and_MQCB_Functions_cases MQOD_values_cases cmqcfc_Integer_Parameter_6_cases
  cmqxc_MQCD_1_cases combined_cases MQPD_values_cases MQMD_values_2_cases
  cmqc_QueueManager_Attributes_2_cases

lemma names_C3:
  "list_all (names_ok a)
     [MQOO_STR, MQOPER_STR, MQOPMODE_STR, MQOP_STR, MQOT_STR, MQPAGECLAS_STR, MQPA_STR,
      MQPD_STR, MQPER_STR, MQPL_STR]"
  unfolding list.pred_inject
  by (intro conjI list.pred_inject(1);
      rule names_okI, rule names_C3_defs, simp only: names_C3_facts case_simps cong: case_congs)

definition MQPMRF_STR :: "int \<Rightarrow> string" where
  "MQPMRF_STR v = c_switch
     [(0, ''MQPMRF_NONE''), (1, ''MQPMRF_MSG_ID''), (2, ''MQPMRF_CORREL_ID''),
      (4, ''MQPMRF_GROUP_ID''), (8, ''MQPMRF_FEEDBACK''), (16, ''MQPMRF_ACCOUNTING_TOKEN'')] v"

definition MQPO_STR :: "int \<Rightarrow> string" where
  "MQPO_STR v = c_switch
     [(0, ''MQPO_NO''), (1, ''MQPO_YES'')] v"

definition MQPRI_STR :: "int \<Rightarrow> string" where
  "MQPRI_STR v = c_switch
     [(- 3, ''MQPRI_PRIORITY_AS_PUBLISHED''), (- 2, ''MQPRI_PRIORITY_AS_PARENT''),
      (- 1, ''MQPRI_PRIORITY_AS_Q_DEF'')] v"

definition MQPROP_STR :: "int \<Rightarrow> string" where
  "MQPROP_STR v = c_switch
     [(- 1, ''MQPROP_UNRESTRICTED_LENGTH''), (0, ''MQPROP_COMPATIBILITY''),
      (1, ''MQPROP_NONE''), (2, ''MQPROP_ALL''), (3, ''MQPROP_FORCE_MQRFH2''),
      (4, ''MQPROP_V6COMPAT'')] v"

definition MQPROTO_STR :: "int \<Rightarrow> string" where
  "MQPROTO_STR v = c_switch
     [(1, ''MQPROTO_MQTTV3''), (2, ''MQPROTO_HTTP''), (3, ''MQPROTO_AMQP''),
      (4, ''MQPROTO_MQTTV311'')] v"

definition MQPRT_STR :: "int \<Rightarrow> string" where
  "MQPRT_STR v = c_switch
     [(0, ''MQPRT_RESPONSE_AS_PARENT''), (1, ''MQPRT_SYNC_RESPONSE''),
      (2, ''MQPRT_ASYNC_RESPONSE'')] v"

definition MQPSCLUS_STR :: "int \<Rightarrow> string" where
  "MQPSCLUS_STR v = c_switch
     [(0, ''MQPSCLUS_DISABLED''), (1, ''MQPSCLUS_ENABLED'')] v"

definition MQPSCT_STR :: "int \<Rightarrow> string" where
  "MQPSCT_STR v = c_switch
     [(- 1, ''MQPSCT_NONE'')] v"

definition MQPSM_STR :: "int \<Rightarrow> string" where
  "MQPSM_STR v = c_switch
     [(0, ''MQPSM_DISABLED''), (1, ''MQPSM_COMPAT''), (2, ''MQPSM_ENABLED'')] v"

definition MQPSPROP_STR :: "int \<Rightarrow> string" where
  "MQPSPROP_STR v = c_switch
     [(0, ''MQPSPROP_NONE''), (1, ''MQPSPROP_COMPAT''), (2, ''MQPSPROP_RFH2''),
      (3, ''MQPSPROP_MSGPROP'')] v"

definition MQPSST_STR :: "int \<Rightarrow> string" where
  "MQPSST_STR v = c_switch
     [(0, ''MQPSST_ALL''), (1, ''MQPSST_LOCAL''), (2, ''MQPSST_PARENT''), (3, ''MQPSST_CHILD'')] v"

definition MQPS_STR :: "int \<Rightarrow> string" where
  "MQPS_STR v = c_switch
     [(0, ''MQPS_STATUS_INACTIVE''), (1, ''MQPS_STATUS_STARTING''),
      (2, ''MQPS_STATUS_STOPPING''), (3, ''MQPS_STATUS_ACTIVE''), (4, ''MQPS_STATUS_COMPAT''),
      (5, ''MQPS_STATUS_ERROR''), (6, ''MQPS_STATUS_REFUSED'')] v"

definition MQPUBO_STR :: "int \<Rightarrow> string" where
  "MQPUBO_STR v = c_switch
     [(0, ''MQPUBO_NONE''), (1, ''MQPUBO_CORREL_ID_AS_IDENTITY''),
      (2, ''MQPUBO_RETAIN_PUBLICATION''), (4, ''MQPUBO_OTHER_SUBSCRIBERS_ONLY''),
      (8, ''MQPUBO_NO_REGISTRATION''), (16, ''MQPUBO_IS_RETAINED_PUBLICATION'')] v"

definition MQQA_BACKOUT_STR :: "int \<Rightarrow> string" where
  "MQQA_BACKOUT_STR v = c_switch
     [(0, ''MQQA_BACKOUT_NOT_HARDENED''), (1, ''MQQA_BACKOUT_HARDENED'')] v"

definition MQQA_GET_STR :: "int \<Rightarrow> string" where
  "MQQA_GET_STR v = c_switch
     [(0, ''MQQA_GET_ALLOWED''), (1, ''MQQA_GET_INHIBITED'')] v"

definition MQQA_PUT_STR :: "int \<Rightarrow> string" where
  "MQQA_PUT_STR v = c_switch
     [(0, ''MQQA_PUT_ALLOWED''), (1, ''MQQA_PUT_INHIBITED'')] v"

definition MQQA_SHAREABLE_STR :: "int \<Rightarrow> string" where
  "MQQA_SHAREABLE_STR v = c_switch
     [(0, ''MQQA_NOT_SHAREABLE''), (1, ''MQQA_SHAREABLE'')] v"

definition MQQDT_STR :: "int \<Rightarrow> string" where
  "MQQDT_STR v = c_switch
     [(1, ''MQQDT_PREDEFINED''), (2, ''MQQDT_PERMANENT_DYNAMIC''),
      (3, ''MQQDT_TEMPORARY_DYNAMIC''), (4, ''MQQDT_SHARED_DYNAMIC'')] v"

definition MQQFS_STR :: "int \<Rightarrow> string" where
  "MQQFS_STR v = c_switch
     [(- 1, ''MQQFS_DEFAULT'')] v"

definition MQQF_STR :: "int \<Rightarrow> string" where
  "MQQF_STR v = c_switch
     [(1, ''MQQF_LOCAL_Q''), (64, ''MQQF_CLWL_USEQ_ANY''), (128, ''MQQF_CLWL_USEQ_LOCAL'')] v"

definition MQQMDT_STR :: "int \<Rightarrow> string" where
  "MQQMDT_STR v = c_switch
     [(1, ''MQQMDT_EXPLICIT_CLUSTER_SENDER''), (2, ''MQQMDT_AUTO_CLUSTER_SENDER''),
      (3, ''MQQMDT_CLUSTER_RECEIVER''), (4, ''MQQMDT_AUTO_EXP_CLUSTER_SENDER'')] v"

definition MQQMFAC_STR :: "int \<Rightarrow> string" where
  "MQQMFAC_STR v = c_switch
     [(1, ''MQQMFAC_IMS_BRIDGE''), (2, ''MQQMFAC_DB2'')] v"

definition MQQMF_STR :: "int \<Rightarrow> string" where
  "MQQMF_STR v = c_switch
     [(2, ''MQQMF_REPOSITORY_Q_MGR''), (8, ''MQQMF_CLUSSDR_USER_DEFINED''),
      (16, ''MQQMF_CLUSSDR_AUTO_DEFINED''), (32, ''MQQMF_AVAILABLE'')] v"

definition MQQMOPT_STR :: "int \<Rightarrow> string" where
  "MQQMOPT_STR v = c_switch
     [(0, ''MQQMOPT_DISABLED''), (1, ''MQQMOPT_ENABLED''), (2, ''MQQMOPT_REPLY'')] v"

definition MQQMSTA_STR :: "int \<Rightarrow> string" where
  "MQQMSTA_STR v = c_switch
     [(1, ''MQQMSTA_STARTING''), (2, ''MQQMSTA_RUNNING''), (3, ''MQQMSTA_QUIESCING''),
      (4, ''MQQMSTA_STANDBY'')] v"

definition MQQMT_STR :: "int \<Rightarrow> string" where
  "MQQMT_STR v = c_switch
     [(0, ''MQQMT_NORMAL''), (1, ''MQQMT_REPOSITORY'')] v"

definition MQQO_STR :: "int \<Rightarrow> string" where
  "MQQO_STR v = c_switch
     [(0, ''MQQO_NO''), (1, ''MQQO_YES'')] v"

lemmas names_C4_defs =
  MQPMO_STR_def MQPMRF_STR_def MQPO_STR_def MQPRI_STR_def MQPROP_STR_def MQPROTO_STR_def
  MQPRT_STR_def MQPSCLUS_STR_def MQPSCT_STR_def MQPSM_STR_def MQPSPROP_STR_def MQPSST_STR_def
  MQPS_STR_def MQPUBO_STR_def MQQA_BACKOUT_STR_def MQQA_GET_STR_def MQQA_PUT_STR_def
  MQQA_SHAREABLE_STR_def MQQDT_STR_def MQQFS_STR_def MQQF_STR_def MQQMDT_STR_def MQQMFAC_STR_def
  MQQMF_STR_def MQQMOPT_STR_def MQQMSTA_STR_def MQQMT_STR_def

lemmas names_C4_facts =
  MQPMO_values_cases cmqcfc_Group_Parameter_4_cases MQMD_values_2_cases
  cmqc_QueueManager_Attributes_2_cases cmqc_Queue_Attributes_cases cmqxc_MQCD_2_cases
  cmqc_Subscription_Attributes_cases cmqcfc_Publish_Subscribe_cases cmqxc_MQWQR_cases
  cmqxc_MQWDR_cases

lemma names_C4:
  "list_all (names_ok a)
     [MQPMO_STR, MQPMRF_STR, MQPO_STR, MQPRI_STR, MQPROP_STR, MQPROTO_STR, MQPRT_STR,
      MQPSCLUS_STR, MQPSCT_STR, MQPSM_STR, MQPSPROP_STR, MQPSST_STR, MQPS_STR, MQPUBO_STR,
      MQQA_BACKOUT_STR, MQQA_GET_STR, MQQA_PUT_STR, MQQA_SHAREABLE_STR, MQQDT_STR, MQQFS_STR,
      MQQF_STR, MQQMDT_STR, MQQMFAC_STR, MQQMF_STR, MQQMOPT_STR, MQQMSTA_STR, MQQMT_STR]"
  unfolding list.pred_inject
  by (intro conjI list.pred_inject(1);
      rule names_okI, rule names_C4_defs, simp only: names_C4_facts case_simps cong: case_congs)

definition MQQSGD_STR :: "int \<Rightarrow> string" where
  "MQQSGD_STR v = c_switch
     [(- 1, ''MQQSGD_ALL''), (0, ''MQQSGD_Q_MGR''), (1, ''MQQSGD_COPY''),
      (2, ''MQQSGD_SHARED''), (3, ''MQQSGD_GROUP''), (4, ''MQQSGD_PRIVATE''),
      (6, ''MQQSGD_LIVE'')] v"

definition MQQSGS_STR :: "int \<Rightarrow> string" where
  "MQQSGS_STR v = c_switch
     [(0, ''MQQSGS_UNKNOWN''), (1, ''MQQSGS_CREATED''), (2, ''MQQSGS_ACTIVE''),
      (3, ''MQQSGS_INACTIVE''), (4, ''MQQSGS_FAILED''), (5, ''MQQSGS_PENDING'')] v"

definition MQQSIE_STR :: "int \<Rightarrow> string" where
  "MQQSIE_STR v = c_switch
     [(0, ''MQQSIE_NONE''), (1, ''MQQSIE_HIGH''), (2, ''MQQSIE_OK'')] v"

definition MQQSOT_STR :: "int \<Rightarrow> string" where
  "MQQSOT_STR v = c_switch
     [(1, ''MQQSOT_ALL''), (2, ''MQQSOT_INPUT''), (3, ''MQQSOT_OUTPUT'')] v"

definition MQQSO_STR :: "int \<Rightarrow> string" where
  "MQQSO_STR v = c_switch
     [(0, ''MQQSO_NO''), (1, ''MQQSO_YES''), (2, ''MQQSO_EXCLUSIVE'')] v"

definition MQQSUM_STR :: "int \<Rightarrow> string" where
  "MQQSUM_STR v = c_switch
     [(0, ''MQQSUM_NO''), (1, ''MQQSUM_YES'')] v"

definition MQQT_STR :: "int \<Rightarrow> string" where
  "MQQT_STR v = c_switch
     [(1, ''MQQT_LOCAL''), (2, ''MQQT_MODEL''), (3, ''MQQT_ALIAS''), (6, ''MQQT_REMOTE''),
      (7, ''MQQT_CLUSTER''), (1001, ''MQQT_ALL'')] v"

definition MQRAR_STR :: "int \<Rightarrow> string" where
  "MQRAR_STR v = c_switch
     [(0, ''MQRAR_NO''), (1, ''MQRAR_YES'')] v"

lemmas names_C5_defs =
  MQQO_STR_def MQQSGD_STR_def MQQSGS_STR_def MQQSIE_STR_def MQQSOT_STR_def MQQSO_STR_def
  MQQSUM_STR_def MQQT_STR_def MQRAR_STR_def

lemmas names_C5_facts =
  cmqcfc_Group_Parameter_4_cases cmqc_Queue_Attributes_cases cmqcfc_Group_Parameter_5_cases

lemma names_C5:
  "list_all (names_ok a)
     [MQQO_STR, MQQSGD_STR, MQQSGS_STR, MQQSIE_STR, MQQSOT_STR, MQQSO_STR, MQQSUM_STR, MQQT_STR,
      MQRAR_STR]"
  unfolding list.pred_inject
  by (intro conjI list.pred_inject(1);
      rule names_okI, rule names_C5_defs, simp only: names_C5_facts case_simps cong: case_congs)

definition MQRCCF_cases_1 :: "(int \<times> string) list" where
  "MQRCCF_cases_1 =
     [(3001, ''MQRCCF_CFH_TYPE_ERROR''), (3002, ''MQRCCF_CFH_LENGTH_ERROR''),
      (3003, ''MQRCCF_CFH_VERSION_ERROR''), (3004, ''MQRCCF_CFH_MSG_SEQ_NUMBER_ERR''),
      (3005, ''MQRCCF_CFH_CONTROL_ERROR''), (3006, ''MQRCCF_CFH_PARM_COUNT_ERROR''),
      (3007, ''MQRCCF_CFH_COMMAND_ERROR''), (3008, ''MQRCCF_COMMAND_FAILED''),
      (3009, ''MQRCCF_CFIN_LENGTH_ERROR''), (3010, ''MQRCCF_CFST_LENGTH_ERROR''),
      (3011, ''MQRCCF_CFST_STRING_LENGTH_ERR''), (3012, ''MQRCCF_FORCE_VALUE_ERROR''),
      (3013, ''MQRCCF_STRUCTURE_TYPE_ERROR''), (3014, ''MQRCCF_CFIN_PARM_ID_ERROR''),
      (3015, ''MQRCCF_CFST_PARM_ID_ERROR''), (3016, ''MQRCCF_MSG_LENGTH_ERROR''),
      (3017, ''MQRCCF_CFIN_DUPLICATE_PARM''), (3018, ''MQRCCF_CFST_DUPLICATE_PARM''),
      (3019, ''MQRCCF_PARM_COUNT_TOO_SMALL''), (3020, ''MQRCCF_PARM_COUNT_TOO_BIG''),
      (3021, ''MQRCCF_Q_ALREADY_IN_CELL''), (3022, ''MQRCCF_Q_TYPE_ERROR''),
      (3023, ''MQRCCF_MD_FORMAT_ERROR''), (3024, ''MQRCCF_CFSL_LENGTH_ERROR''),
      (3025, ''MQRCCF_REPLACE_VALUE_ERROR''), (3026, ''MQRCCF_CFIL_DUPLICATE_VALUE''),
      (3027, ''MQRCCF_CFIL_COUNT_ERROR''), (3028, ''MQRCCF_CFIL_LENGTH_ERROR''),
      (3029, ''MQRCCF_QUIESCE_VALUE_ERROR''), (3030, ''MQRCCF_MSG_SEQ_NUMBER_ERROR''),
      (3031, ''MQRCCF_PING_DATA_COUNT_ERROR''), (3032, ''MQRCCF_PING_DATA_COMPARE_ERROR''),
      (3033, ''MQRCCF_CFSL_PARM_ID_ERROR''), (3034, ''MQRCCF_CHANNEL_TYPE_ERROR''),
      (3035, ''MQRCCF_PARM_SEQUENCE_ERROR''), (3036, ''MQRCCF_XMIT_PROTOCOL_TYPE_ERR''),
      (3037, ''MQRCCF_BATCH_SIZE_ERROR''), (3038, ''MQRCCF_DISC_INT_ERROR''),
      (3039, ''MQRCCF_SHORT_RETRY_ERROR''), (3040, ''MQRCCF_SHORT_TIMER_ERROR''),
      (3041, ''MQRCCF_LONG_RETRY_ERROR''), (3042, ''MQRCCF_LONG_TIMER_ERROR''),
      (3043, ''MQRCCF_SEQ_NUMBER_WRAP_ERROR''), (3044, ''MQRCCF_MAX_MSG_LENGTH_ERROR''),
      (3045, ''MQRCCF_PUT_AUTH_ERROR''), (3046, ''MQRCCF_PURGE_VALUE_ERROR''),
      (3047, ''MQRCCF_CFIL_PARM_ID_ERROR''), (3048, ''MQRCCF_MSG_TRUNCATED''),
      (3049, ''MQRCCF_CCSID_ERROR''), (3050, ''MQRCCF_ENCODING_ERROR''),
      (3051, ''MQRCCF_QUEUES_VALUE_ERROR''), (3052, ''MQRCCF_DATA_CONV_VALUE_ERROR''),
      (3053, ''MQRCCF_INDOUBT_VALUE_ERROR''), (3054, ''MQRCCF_ESCAPE_TYPE_ERROR''),
      (3055, ''MQRCCF_REPOS_VALUE_ERROR''), (3062, ''MQRCCF_CHANNEL_TABLE_ERROR''),
      (3063, ''MQRCCF_MCA_TYPE_ERROR''), (3064, ''MQRCCF_CHL_INST_TYPE_ERROR''),
      (3065, ''MQRCCF_CHL_STATUS_NOT_FOUND''), (3066, ''MQRCCF_CFSL_DUPLICATE_PARM''),
      (3067, ''MQRCCF_CFSL_TOTAL_LENGTH_ERROR''), (3068, ''MQRCCF_CFSL_COUNT_ERROR''),
      (3069, ''MQRCCF_CFSL_STRING_LENGTH_ERR''), (3070, ''MQRCCF_BROKER_DELETED''),
      (3071, ''MQRCCF_STREAM_ERROR''), (3072, ''MQRCCF_TOPIC_ERROR''),
      (3073, ''MQRCCF_NOT_REGISTERED''), (3074, ''MQRCCF_Q_MGR_NAME_ERROR''),
      (3075, ''MQRCCF_INCORRECT_STREAM''), (3076, ''MQRCCF_Q_NAME_ERROR''),
      (3077, ''MQRCCF_NO_RETAINED_MSG''), (3078, ''MQRCCF_DUPLICATE_IDENTITY''),
      (3079, ''MQRCCF_INCORRECT_Q''), (3080, ''MQRCCF_CORREL_ID_ERROR''),
      (3081, ''MQRCCF_NOT_AUTHORIZED''), (3082, ''MQRCCF_UNKNOWN_STREAM''),
      (3083, ''MQRCCF_REG_OPTIONS_ERROR''), (3084, ''MQRCCF_PUB_OPTIONS_ERROR''),
      (3085, ''MQRCCF_UNKNOWN_BROKER''), (3086, ''MQRCCF_Q_MGR_CCSID_ERROR''),
      (3087, ''MQRCCF_DEL_OPTIONS_ERROR''), (3088, ''MQRCCF_CLUSTER_NAME_CONFLICT''),
      (3089, ''MQRCCF_REPOS_NAME_CONFLICT''), (3090, ''MQRCCF_CLUSTER_Q_USAGE_ERROR''),
      (3091, ''MQRCCF_ACTION_VALUE_ERROR''), (3092, ''MQRCCF_COMMS_LIBRARY_ERROR''),
      (3093, ''MQRCCF_NETBIOS_NAME_ERROR''), (3094, ''MQRCCF_BROKER_COMMAND_FAILED''),
      (3095, ''MQRCCF_CFST_CONFLICTING_PARM''), (3096, ''MQRCCF_PATH_NOT_VALID''),
      (3097, ''MQRCCF_PARM_SYNTAX_ERROR''), (3098, ''MQRCCF_PWD_LENGTH_ERROR''),
      (3150, ''MQRCCF_FILTER_ERROR''), (3151, ''MQRCCF_WRONG_USER''),
      (3152, ''MQRCCF_DUPLICATE_SUBSCRIPTION''), (3153, ''MQRCCF_SUB_NAME_ERROR''),
      (3154, ''MQRCCF_SUB_IDENTITY_ERROR''), (3155, ''MQRCCF_SUBSCRIPTION_IN_USE''),
      (3156, ''MQRCCF_SUBSCRIPTION_LOCKED''), (3157, ''MQRCCF_ALREADY_JOINED''),
      (3160, ''MQRCCF_OBJECT_IN_USE''), (3161, ''MQRCCF_UNKNOWN_FILE_NAME''),
      (3162, ''MQRCCF_FILE_NOT_AVAILABLE''), (3163, ''MQRCCF_DISC_RETRY_ERROR''),
      (3164, ''MQRCCF_ALLOC_RETRY_ERROR''), (3165, ''MQRCCF_ALLOC_SLOW_TIMER_ERROR''),
      (3166, ''MQRCCF_ALLOC_FAST_TIMER_ERROR''), (3167, ''MQRCCF_PORT_NUMBER_ERROR''),
      (3168, ''MQRCCF_CHL_SYSTEM_NOT_ACTIVE''), (3169, ''MQRCCF_ENTITY_NAME_MISSING''),
      (3170, ''MQRCCF_PROFILE_NAME_ERROR''), (3171, ''MQRCCF_AUTH_VALUE_ERROR''),
      (3172, ''MQRCCF_AUTH_VALUE_MISSING''), (3173, ''MQRCCF_OBJECT_TYPE_MISSING''),
      (3174, ''MQRCCF_CONNECTION_ID_ERROR''), (3175, ''MQRCCF_LOG_TYPE_ERROR''),
      (3176, ''MQRCCF_PROGRAM_NOT_AVAILABLE''), (3177, ''MQRCCF_PROGRAM_AUTH_FAILED''),
      (3200, ''MQRCCF_NONE_FOUND''), (3201, ''MQRCCF_SECURITY_SWITCH_OFF''),
      (3202, ''MQRCCF_SECURITY_REFRESH_FAILED''), (3203, ''MQRCCF_PARM_CONFLICT''),
      (3204, ''MQRCCF_COMMAND_INHIBITED''), (3205, ''MQRCCF_OBJECT_BEING_DELETED''),
      (3207, ''MQRCCF_STORAGE_CLASS_IN_USE''), (3208, ''MQRCCF_OBJECT_NAME_RESTRICTED''),
      (3209, ''MQRCCF_OBJECT_LIMIT_EXCEEDED''), (3210, ''MQRCCF_OBJECT_OPEN_FORCE''),
      (3211, ''MQRCCF_DISPOSITION_CONFLICT''), (3212, ''MQRCCF_Q_MGR_NOT_IN_QSG''),
      (3213, ''MQRCCF_ATTR_VALUE_FIXED''), (3215, ''MQRCCF_NAMELIST_ERROR''),
      (3217, ''MQRCCF_NO_CHANNEL_INITIATOR''), (3218, ''MQRCCF_CHANNEL_INITIATOR_ERROR''),
      (3222, ''MQRCCF_COMMAND_LEVEL_CONFLICT''), (3223, ''MQRCCF_Q_ATTR_CONFLICT''),
      (3224, ''MQRCCF_EVENTS_DISABLED''), (3225, ''MQRCCF_COMMAND_SCOPE_ERROR''),
      (3226, ''MQRCCF_COMMAND_REPLY_ERROR''), (3227, ''MQRCCF_FUNCTION_RESTRICTED'')]"

definition MQRCCF_cases_2 :: "(int \<times> string) list" where
  "MQRCCF_cases_2 =
     [(3228, ''MQRCCF_PARM_MISSING''), (3229, ''MQRCCF_PARM_VALUE_ERROR''),
      (3230, ''MQRCCF_COMMAND_LENGTH_ERROR''), (3231, ''MQRCCF_COMMAND_ORIGIN_ERROR''),
      (3232, ''MQRCCF_LISTENER_CONFLICT''), (3233, ''MQRCCF_LISTENER_STARTED''),
      (3234, ''MQRCCF_LISTENER_STOPPED''), (3235, ''MQRCCF_CHANNEL_ERROR''),
      (3236, ''MQRCCF_CF_STRUC_ERROR''), (3237, ''MQRCCF_UNKNOWN_USER_ID''),
      (3238, ''MQRCCF_UNEXPECTED_ERROR''), (3239, ''MQRCCF_NO_XCF_PARTNER''),
      (3240, ''MQRCCF_CFGR_PARM_ID_ERROR''), (3241, ''MQRCCF_CFIF_LENGTH_ERROR''),
      (3242, ''MQRCCF_CFIF_OPERATOR_ERROR''), (3243, ''MQRCCF_CFIF_PARM_ID_ERROR''),
      (3244, ''MQRCCF_CFSF_FILTER_VAL_LEN_ERR''), (3245, ''MQRCCF_CFSF_LENGTH_ERROR''),
      (3246, ''MQRCCF_CFSF_OPERATOR_ERROR''), (3247, ''MQRCCF_CFSF_PARM_ID_ERROR''),
      (3248, ''MQRCCF_TOO_MANY_FILTERS''), (3249, ''MQRCCF_LISTENER_RUNNING''),
      (3250, ''MQRCCF_LSTR_STATUS_NOT_FOUND''), (3251, ''MQRCCF_SERVICE_RUNNING''),
      (3252, ''MQRCCF_SERV_STATUS_NOT_FOUND''), (3253, ''MQRCCF_SERVICE_STOPPED''),
      (3254, ''MQRCCF_CFBS_DUPLICATE_PARM''), (3255, ''MQRCCF_CFBS_LENGTH_ERROR''),
      (3256, ''MQRCCF_CFBS_PARM_ID_ERROR''), (3257, ''MQRCCF_CFBS_STRING_LENGTH_ERR''),
      (3258, ''MQRCCF_CFGR_LENGTH_ERROR''), (3259, ''MQRCCF_CFGR_PARM_COUNT_ERROR''),
      (3260, ''MQRCCF_CONN_NOT_STOPPED''), (3261, ''MQRCCF_SERVICE_REQUEST_PENDING''),
      (3262, ''MQRCCF_NO_START_CMD''), (3263, ''MQRCCF_NO_STOP_CMD''),
      (3264, ''MQRCCF_CFBF_LENGTH_ERROR''), (3265, ''MQRCCF_CFBF_PARM_ID_ERROR''),
      (3266, ''MQRCCF_CFBF_OPERATOR_ERROR''), (3267, ''MQRCCF_CFBF_FILTER_VAL_LEN_ERR''),
      (3268, ''MQRCCF_LISTENER_STILL_ACTIVE''), (3269, ''MQRCCF_DEF_XMIT_Q_CLUS_ERROR''),
      (3300, ''MQRCCF_TOPICSTR_ALREADY_EXISTS''), (3301, ''MQRCCF_SHARING_CONVS_ERROR''),
      (3302, ''MQRCCF_SHARING_CONVS_TYPE''), (3303, ''MQRCCF_SECURITY_CASE_CONFLICT''),
      (3305, ''MQRCCF_TOPIC_TYPE_ERROR''), (3306, ''MQRCCF_MAX_INSTANCES_ERROR''),
      (3307, ''MQRCCF_MAX_INSTS_PER_CLNT_ERR''), (3308, ''MQRCCF_TOPIC_STRING_NOT_FOUND''),
      (3309, ''MQRCCF_SUBSCRIPTION_POINT_ERR''), (3311, ''MQRCCF_SUB_ALREADY_EXISTS''),
      (3312, ''MQRCCF_UNKNOWN_OBJECT_NAME''), (3313, ''MQRCCF_REMOTE_Q_NAME_ERROR''),
      (3314, ''MQRCCF_DURABILITY_NOT_ALLOWED''), (3315, ''MQRCCF_HOBJ_ERROR''),
      (3316, ''MQRCCF_DEST_NAME_ERROR''), (3317, ''MQRCCF_INVALID_DESTINATION''),
      (3318, ''MQRCCF_PUBSUB_INHIBITED''), (3319, ''MQRCCF_GROUPUR_CHECKS_FAILED''),
      (3320, ''MQRCCF_COMM_INFO_TYPE_ERROR''), (3321, ''MQRCCF_USE_CLIENT_ID_ERROR''),
      (3322, ''MQRCCF_CLIENT_ID_NOT_FOUND''), (3323, ''MQRCCF_CLIENT_ID_ERROR''),
      (3324, ''MQRCCF_PORT_IN_USE''), (3325, ''MQRCCF_SSL_ALT_PROVIDER_REQD''),
      (3326, ''MQRCCF_CHLAUTH_TYPE_ERROR''), (3327, ''MQRCCF_CHLAUTH_ACTION_ERROR''),
      (3328, ''MQRCCF_POLICY_NOT_FOUND''), (3329, ''MQRCCF_ENCRYPTION_ALG_ERROR''),
      (3330, ''MQRCCF_SIGNATURE_ALG_ERROR''), (3331, ''MQRCCF_TOLERATION_POL_ERROR''),
      (3332, ''MQRCCF_POLICY_VERSION_ERROR''), (3333, ''MQRCCF_RECIPIENT_DN_MISSING''),
      (3334, ''MQRCCF_POLICY_NAME_MISSING''), (3335, ''MQRCCF_CHLAUTH_USERSRC_ERROR''),
      (3336, ''MQRCCF_WRONG_CHLAUTH_TYPE''), (3337, ''MQRCCF_CHLAUTH_ALREADY_EXISTS''),
      (3338, ''MQRCCF_CHLAUTH_NOT_FOUND''), (3339, ''MQRCCF_WRONG_CHLAUTH_ACTION''),
      (3340, ''MQRCCF_WRONG_CHLAUTH_USERSRC''), (3341, ''MQRCCF_CHLAUTH_WARN_ERROR''),
      (3342, ''MQRCCF_WRONG_CHLAUTH_MATCH''), (3343, ''MQRCCF_IPADDR_RANGE_CONFLICT''),
      (3344, ''MQRCCF_CHLAUTH_MAX_EXCEEDED''), (3345, ''MQRCCF_ADDRESS_ERROR''),
      (3346, ''MQRCCF_IPADDR_RANGE_ERROR''), (3347, ''MQRCCF_PROFILE_NAME_MISSING''),
      (3348, ''MQRCCF_CHLAUTH_CLNTUSER_ERROR''), (3349, ''MQRCCF_CHLAUTH_NAME_ERROR''),
      (3350, ''MQRCCF_CHLAUTH_RUNCHECK_ERROR''), (3351, ''MQRCCF_CF_STRUC_ALREADY_FAILED''),
      (3352, ''MQRCCF_CFCONLOS_CHECKS_FAILED''), (3353, ''MQRCCF_SUITE_B_ERROR''),
      (3354, ''MQRCCF_CHANNEL_NOT_STARTED''), (3355, ''MQRCCF_CUSTOM_ERROR''),
      (3356, ''MQRCCF_BACKLOG_OUT_OF_RANGE''), (3357, ''MQRCCF_CHLAUTH_DISABLED''),
      (3358, ''MQRCCF_SMDS_REQUIRES_DSGROUP''), (3359, ''MQRCCF_PSCLUS_DISABLED_TOPDEF''),
      (3360, ''MQRCCF_PSCLUS_TOPIC_EXISTS''), (3361, ''MQRCCF_SSL_CIPHER_SUITE_ERROR''),
      (3362, ''MQRCCF_SOCKET_ERROR''), (3363, ''MQRCCF_CLUS_XMIT_Q_USAGE_ERROR''),
      (3364, ''MQRCCF_CERT_VAL_POLICY_ERROR''), (3365, ''MQRCCF_INVALID_PROTOCOL''),
      (3366, ''MQRCCF_REVDNS_DISABLED''), (3367, ''MQRCCF_CLROUTE_NOT_ALTERABLE''),
      (3368, ''MQRCCF_CLUSTER_TOPIC_CONFLICT''), (3369, ''MQRCCF_DEFCLXQ_MODEL_Q_ERROR''),
      (3370, ''MQRCCF_CHLAUTH_CHKCLI_ERROR''), (3371, ''MQRCCF_CERT_LABEL_NOT_ALLOWED''),
      (3372, ''MQRCCF_Q_MGR_ATTR_CONFLICT''), (3373, ''MQRCCF_ENTITY_TYPE_MISSING''),
      (3374, ''MQRCCF_CLWL_EXIT_NAME_ERROR''), (3375, ''MQRCCF_SERVICE_NAME_ERROR''),
      (3376, ''MQRCCF_REMOTE_CHL_TYPE_ERROR''), (3377, ''MQRCCF_TOPIC_RESTRICTED''),
      (3378, ''MQRCCF_CURRENT_LOG_EXTENT''), (3379, ''MQRCCF_LOG_EXTENT_NOT_FOUND''),
      (3380, ''MQRCCF_LOG_NOT_REDUCED''), (3381, ''MQRCCF_LOG_EXTENT_ERROR''),
      (3382, ''MQRCCF_ACCESS_BLOCKED''), (3383, ''MQRCCF_PS_REQUIRED_MQUC''),
      (3384, ''MQRCCF_STREAMQ_DEST_NOT_SUPP''), (3385, ''MQRCCF_STREAMQ_DEST_CONFLICT''),
      (3386, ''MQRCCF_STREAMQ_NOT_SUPPORTED''), (3387, ''MQRCCF_STREAMQ_CONFLICT''),
      (4001, ''MQRCCF_OBJECT_ALREADY_EXISTS''), (4002, ''MQRCCF_OBJECT_WRONG_TYPE''),
      (4003, ''MQRCCF_LIKE_OBJECT_WRONG_TYPE''), (4004, ''MQRCCF_OBJECT_OPEN''),
      (4005, ''MQRCCF_ATTR_VALUE_ERROR''), (4006, ''MQRCCF_UNKNOWN_Q_MGR''),
      (4007, ''MQRCCF_Q_WRONG_TYPE''), (4008, ''MQRCCF_OBJECT_NAME_ERROR''),
      (4009, ''MQRCCF_ALLOCATE_FAILED''), (4010, ''MQRCCF_HOST_NOT_AVAILABLE''),
      (4011, ''MQRCCF_CONFIGURATION_ERROR''), (4012, ''MQRCCF_CONNECTION_REFUSED'')]"

definition MQRCCF_cases_3 :: "(int \<times> string) list" where
  "MQRCCF_cases_3 =
     [(4013, ''MQRCCF_ENTRY_ERROR''), (4014, ''MQRCCF_SEND_FAILED''),
      (4015, ''MQRCCF_RECEIVED_DATA_ERROR''), (4016, ''MQRCCF_RECEIVE_FAILED''),
      (4017, ''MQRCCF_CONNECTION_CLOSED''), (4018, ''MQRCCF_NO_STORAGE''),
      (4019, ''MQRCCF_NO_COMMS_MANAGER''), (4020, ''MQRCCF_LISTENER_NOT_STARTED''),
      (4024, ''MQRCCF_BIND_FAILED''), (4025, ''MQRCCF_CHANNEL_INDOUBT''),
      (4026, ''MQRCCF_MQCONN_FAILED''), (4027, ''MQRCCF_MQOPEN_FAILED''),
      (4028, ''MQRCCF_MQGET_FAILED''), (4029, ''MQRCCF_MQPUT_FAILED''),
      (4030, ''MQRCCF_PING_ERROR''), (4031, ''MQRCCF_CHANNEL_IN_USE''),
      (4032, ''MQRCCF_CHANNEL_NOT_FOUND''), (4033, ''MQRCCF_UNKNOWN_REMOTE_CHANNEL''),
      (4034, ''MQRCCF_REMOTE_QM_UNAVAILABLE''), (4035, ''MQRCCF_REMOTE_QM_TERMINATING''),
      (4036, ''MQRCCF_MQINQ_FAILED''), (4037, ''MQRCCF_NOT_XMIT_Q''),
      (4038, ''MQRCCF_CHANNEL_DISABLED''), (4039, ''MQRCCF_USER_EXIT_NOT_AVAILABLE''),
      (4040, ''MQRCCF_COMMIT_FAILED''), (4041, ''MQRCCF_WRONG_CHANNEL_TYPE''),
      (4042, ''MQRCCF_CHANNEL_ALREADY_EXISTS''), (4043, ''MQRCCF_DATA_TOO_LARGE''),
      (4044, ''MQRCCF_CHANNEL_NAME_ERROR''), (4045, ''MQRCCF_XMIT_Q_NAME_ERROR''),
      (4047, ''MQRCCF_MCA_NAME_ERROR''), (4048, ''MQRCCF_SEND_EXIT_NAME_ERROR''),
      (4049, ''MQRCCF_SEC_EXIT_NAME_ERROR''), (4050, ''MQRCCF_MSG_EXIT_NAME_ERROR''),
      (4051, ''MQRCCF_RCV_EXIT_NAME_ERROR''), (4052, ''MQRCCF_XMIT_Q_NAME_WRONG_TYPE''),
      (4053, ''MQRCCF_MCA_NAME_WRONG_TYPE''), (4054, ''MQRCCF_DISC_INT_WRONG_TYPE''),
      (4055, ''MQRCCF_SHORT_RETRY_WRONG_TYPE''), (4056, ''MQRCCF_SHORT_TIMER_WRONG_TYPE''),
      (4057, ''MQRCCF_LONG_RETRY_WRONG_TYPE''), (4058, ''MQRCCF_LONG_TIMER_WRONG_TYPE''),
      (4059, ''MQRCCF_PUT_AUTH_WRONG_TYPE''), (4060, ''MQRCCF_KEEP_ALIVE_INT_ERROR''),
      (4061, ''MQRCCF_MISSING_CONN_NAME''), (4062, ''MQRCCF_CONN_NAME_ERROR''),
      (4063, ''MQRCCF_MQSET_FAILED''), (4064, ''MQRCCF_CHANNEL_NOT_ACTIVE''),
      (4065, ''MQRCCF_TERMINATED_BY_SEC_EXIT''), (4067, ''MQRCCF_DYNAMIC_Q_SCOPE_ERROR''),
      (4068, ''MQRCCF_CELL_DIR_NOT_AVAILABLE''), (4069, ''MQRCCF_MR_COUNT_ERROR''),
      (4070, ''MQRCCF_MR_COUNT_WRONG_TYPE''), (4071, ''MQRCCF_MR_EXIT_NAME_ERROR''),
      (4072, ''MQRCCF_MR_EXIT_NAME_WRONG_TYPE''), (4073, ''MQRCCF_MR_INTERVAL_ERROR''),
      (4074, ''MQRCCF_MR_INTERVAL_WRONG_TYPE''), (4075, ''MQRCCF_NPM_SPEED_ERROR''),
      (4076, ''MQRCCF_NPM_SPEED_WRONG_TYPE''), (4077, ''MQRCCF_HB_INTERVAL_ERROR''),
      (4078, ''MQRCCF_HB_INTERVAL_WRONG_TYPE''), (4079, ''MQRCCF_CHAD_ERROR''),
      (4080, ''MQRCCF_CHAD_WRONG_TYPE''), (4081, ''MQRCCF_CHAD_EVENT_ERROR''),
      (4082, ''MQRCCF_CHAD_EVENT_WRONG_TYPE''), (4083, ''MQRCCF_CHAD_EXIT_ERROR''),
      (4084, ''MQRCCF_CHAD_EXIT_WRONG_TYPE''), (4085, ''MQRCCF_SUPPRESSED_BY_EXIT''),
      (4086, ''MQRCCF_BATCH_INT_ERROR''), (4087, ''MQRCCF_BATCH_INT_WRONG_TYPE''),
      (4088, ''MQRCCF_NET_PRIORITY_ERROR''), (4089, ''MQRCCF_NET_PRIORITY_WRONG_TYPE''),
      (4090, ''MQRCCF_CHANNEL_CLOSED''), (4091, ''MQRCCF_Q_STATUS_NOT_FOUND''),
      (4092, ''MQRCCF_SSL_CIPHER_SPEC_ERROR''), (4093, ''MQRCCF_SSL_PEER_NAME_ERROR''),
      (4094, ''MQRCCF_SSL_CLIENT_AUTH_ERROR''), (4095, ''MQRCCF_RETAINED_NOT_SUPPORTED''),
      (4096, ''MQRCCF_KWD_VALUE_WRONG_TYPE''), (4097, ''MQRCCF_APPL_STATUS_NOT_FOUND''),
      (4098, ''MQRCCF_NHA_NOT_AVAILABLE''), (4099, ''MQRCCF_Q_MGR_STATUS_NOT_FOUND'')]"

definition MQRCCF_STR :: "int \<Rightarrow> string" where
  "MQRCCF_STR v = c_switch (MQRCCF_cases_1 @ MQRCCF_cases_2 @ MQRCCF_cases_3) v"

lemma MQRCCF_cases_1_ok: "list_all (case_fact a) MQRCCF_cases_1"
  unfolding MQRCCF_cases_1_def
  by (simp only: cmqcfc_MQCFH_4_cases cmqcfc_MQCFH_5_cases
      case_simps cong: case_congs)

lemma MQRCCF_cases_2_ok: "list_all (case_fact a) MQRCCF_cases_2"
  unfolding MQRCCF_cases_2_def
  by (simp only: cmqcfc_MQCFH_5_cases cmqcfc_MQCFH_6_cases
      case_simps cong: case_congs)

lemma MQRCCF_cases_3_ok: "list_all (case_fact a) MQRCCF_cases_3"
  unfolding MQRCCF_cases_3_def
  by (simp only: cmqcfc_MQCFH_6_cases cmqcfc_MQCFH_7_cases
      case_simps cong: case_congs)

lemma names_C6: "list_all (names_ok a) [MQRCCF_STR]"
  unfolding list.pred_inject
  by (intro conjI list.pred_inject(1) names_okI [OF MQRCCF_STR_def])
     (simp only: list_all_append simp_thms MQRCCF_cases_1_ok MQRCCF_cases_2_ok MQRCCF_cases_3_ok)

definition MQRCN_STR :: "int \<Rightarrow> string" where
  "MQRCN_STR v = c_switch
     [(0, ''MQRCN_NO''), (1, ''MQRCN_YES''), (2, ''MQRCN_Q_MGR''), (3, ''MQRCN_DISABLED'')] v"

definition MQRCVTIME_STR :: "int \<Rightarrow> string" where
  "MQRCVTIME_STR v = c_switch
     [(0, ''MQRCVTIME_MULTIPLY''), (1, ''MQRCVTIME_ADD''), (2, ''MQRCVTIME_EQUAL'')] v"

lemmas names_C7_defs =
  MQRCN_STR_def MQRCVTIME_STR_def

lemmas names_C7_facts =
  cmqxc_MQCD_2_cases cmqc_QueueManager_Attributes_2_cases

lemma names_C7:
  "list_all (names_ok a)
     [MQRCN_STR, MQRCVTIME_STR]"
  unfolding list.pred_inject
  by (intro conjI list.pred_inject(1);
      rule names_okI, rule names_C7_defs, simp only: names_C7_facts case_simps cong: case_congs)

definition MQRC_cases_1 :: "(int \<times> string) list" where
  "MQRC_cases_1 =
     [(0, ''MQRC_NONE''), (2001, ''MQRC_ALIAS_BASE_Q_TYPE_ERROR''),
      (2002, ''MQRC_ALREADY_CONNECTED''), (2003, ''MQRC_BACKED_OUT''),
      (2004, ''MQRC_BUFFER_ERROR''), (2005, ''MQRC_BUFFER_LENGTH_ERROR''),
      (2006, ''MQRC_CHAR_ATTR_LENGTH_ERROR''), (2007, ''MQRC_CHAR_ATTRS_ERROR''),
      (2008, ''MQRC_CHAR_ATTRS_TOO_SHORT''), (2009, ''MQRC_CONNECTION_BROKEN''),
      (2010, ''MQRC_DATA_LENGTH_ERROR''), (2011, ''MQRC_DYNAMIC_Q_NAME_ERROR''),
      (2012, ''MQRC_ENVIRONMENT_ERROR''), (2013, ''MQRC_EXPIRY_ERROR''),
      (2014, ''MQRC_FEEDBACK_ERROR''), (2016, ''MQRC_GET_INHIBITED''),
      (2017, ''MQRC_HANDLE_NOT_AVAILABLE''), (2018, ''MQRC_HCONN_ERROR''),
      (2019, ''MQRC_HOBJ_ERROR''), (2020, ''MQRC_INHIBIT_VALUE_ERROR''),
      (2021, ''MQRC_INT_ATTR_COUNT_ERROR''), (2022, ''MQRC_INT_ATTR_COUNT_TOO_SMALL''),
      (2023, ''MQRC_INT_ATTRS_ARRAY_ERROR''), (2024, ''MQRC_SYNCPOINT_LIMIT_REACHED''),
      (2025, ''MQRC_MAX_CONNS_LIMIT_REACHED''), (2026, ''MQRC_MD_ERROR''),
      (2027, ''MQRC_MISSING_REPLY_TO_Q''), (2029, ''MQRC_MSG_TYPE_ERROR''),
      (2030, ''MQRC_MSG_TOO_BIG_FOR_Q''), (2031, ''MQRC_MSG_TOO_BIG_FOR_Q_MGR''),
      (2033, ''MQRC_NO_MSG_AVAILABLE''), (2034, ''MQRC_NO_MSG_UNDER_CURSOR''),
      (2035, ''MQRC_NOT_AUTHORIZED''), (2036, ''MQRC_NOT_OPEN_FOR_BROWSE''),
      (2037, ''MQRC_NOT_OPEN_FOR_INPUT''), (2038, ''MQRC_NOT_OPEN_FOR_INQUIRE''),
      (2039, ''MQRC_NOT_OPEN_FOR_OUTPUT''), (2040, ''MQRC_NOT_OPEN_FOR_SET''),
      (2041, ''MQRC_OBJECT_CHANGED''), (2042, ''MQRC_OBJECT_IN_USE''),
      (2043, ''MQRC_OBJECT_TYPE_ERROR''), (2044, ''MQRC_OD_ERROR''),
      (2045, ''MQRC_OPTION_NOT_VALID_FOR_TYPE''), (2046, ''MQRC_OPTIONS_ERROR''),
      (2047, ''MQRC_PERSISTENCE_ERROR''), (2048, ''MQRC_PERSISTENT_NOT_ALLOWED''),
      (2049, ''MQRC_PRIORITY_EXCEEDS_MAXIMUM''), (2050, ''MQRC_PRIORITY_ERROR''),
      (2051, ''MQRC_PUT_INHIBITED''), (2052, ''MQRC_Q_DELETED''), (2053, ''MQRC_Q_FULL''),
      (2055, ''MQRC_Q_NOT_EMPTY''), (2056, ''MQRC_Q_SPACE_NOT_AVAILABLE''),
      (2057, ''MQRC_Q_TYPE_ERROR''), (2058, ''MQRC_Q_MGR_NAME_ERROR''),
      (2059, ''MQRC_Q_MGR_NOT_AVAILABLE''), (2061, ''MQRC_REPORT_OPTIONS_ERROR''),
      (2062, ''MQRC_SECOND_MARK_NOT_ALLOWED''), (2063, ''MQRC_SECURITY_ERROR''),
      (2064, ''MQRC_TOKEN_TIMESTAMP_NOT_VALID''), (2065, ''MQRC_SELECTOR_COUNT_ERROR''),
      (2066, ''MQRC_SELECTOR_LIMIT_EXCEEDED''), (2067, ''MQRC_SELECTOR_ERROR''),
      (2068, ''MQRC_SELECTOR_NOT_FOR_TYPE''), (2069, ''MQRC_SIGNAL_OUTSTANDING''),
      (2070, ''MQRC_SIGNAL_REQUEST_ACCEPTED''), (2071, ''MQRC_STORAGE_NOT_AVAILABLE''),
      (2072, ''MQRC_SYNCPOINT_NOT_AVAILABLE''), (2075, ''MQRC_TRIGGER_CONTROL_ERROR''),
      (2076, ''MQRC_TRIGGER_DEPTH_ERROR''), (2077, ''MQRC_TRIGGER_MSG_PRIORITY_ERR''),
      (2078, ''MQRC_TRIGGER_TYPE_ERROR''), (2079, ''MQRC_TRUNCATED_MSG_ACCEPTED''),
      (2080, ''MQRC_TRUNCATED_MSG_FAILED''), (2082, ''MQRC_UNKNOWN_ALIAS_BASE_Q''),
      (2085, ''MQRC_UNKNOWN_OBJECT_NAME''), (2086, ''MQRC_UNKNOWN_OBJECT_Q_MGR''),
      (2087, ''MQRC_UNKNOWN_REMOTE_Q_MGR''), (2090, ''MQRC_WAIT_INTERVAL_ERROR''),
      (2091, ''MQRC_XMIT_Q_TYPE_ERROR''), (2092, ''MQRC_XMIT_Q_USAGE_ERROR''),
      (2093, ''MQRC_NOT_OPEN_FOR_PASS_ALL''), (2094, ''MQRC_NOT_OPEN_FOR_PASS_IDENT''),
      (2095, ''MQRC_NOT_OPEN_FOR_SET_ALL''), (2096, ''MQRC_NOT_OPEN_FOR_SET_IDENT''),
      (2097, ''MQRC_CONTEXT_HANDLE_ERROR''), (2098, ''MQRC_CONTEXT_NOT_AVAILABLE''),
      (2099, ''MQRC_SIGNAL1_ERROR''), (2100, ''MQRC_OBJECT_ALREADY_EXISTS''),
      (2101, ''MQRC_OBJECT_DAMAGED''), (2102, ''MQRC_RESOURCE_PROBLEM''),
      (2103, ''MQRC_ANOTHER_Q_MGR_CONNECTED''), (2104, ''MQRC_UNKNOWN_REPORT_OPTION''),
      (2105, ''MQRC_STORAGE_CLASS_ERROR''), (2106, ''MQRC_COD_NOT_VALID_FOR_XCF_Q''),
      (2107, ''MQRC_XWAIT_CANCELED''), (2108, ''MQRC_XWAIT_ERROR''),
      (2109, ''MQRC_SUPPRESSED_BY_EXIT''), (2110, ''MQRC_FORMAT_ERROR''),
      (2111, ''MQRC_SOURCE_CCSID_ERROR''), (2112, ''MQRC_SOURCE_INTEGER_ENC_ERROR''),
      (2113, ''MQRC_SOURCE_DECIMAL_ENC_ERROR''), (2114, ''MQRC_SOURCE_FLOAT_ENC_ERROR''),
      (2115, ''MQRC_TARGET_CCSID_ERROR''), (2116, ''MQRC_TARGET_INTEGER_ENC_ERROR''),
      (2117, ''MQRC_TARGET_DECIMAL_ENC_ERROR''), (2118, ''MQRC_TARGET_FLOAT_ENC_ERROR''),
      (2119, ''MQRC_NOT_CONVERTED''), (2120, ''MQRC_CONVERTED_MSG_TOO_BIG''),
      (2121, ''MQRC_NO_EXTERNAL_PARTICIPANTS''), (2122, ''MQRC_PARTICIPANT_NOT_AVAILABLE''),
      (2123, ''MQRC_OUTCOME_MIXED''), (2124, ''MQRC_OUTCOME_PENDING''),
      (2125, ''MQRC_BRIDGE_STARTED''), (2126, ''MQRC_BRIDGE_STOPPED''),
      (2127, ''MQRC_ADAPTER_STORAGE_SHORTAGE''), (2128, ''MQRC_UOW_IN_PROGRESS''),
      (2129, ''MQRC_ADAPTER_CONN_LOAD_ERROR''), (2130, ''MQRC_ADAPTER_SERV_LOAD_ERROR''),
      (2131, ''MQRC_ADAPTER_DEFS_ERROR''), (2132, ''MQRC_ADAPTER_DEFS_LOAD_ERROR''),
      (2133, ''MQRC_ADAPTER_CONV_LOAD_ERROR''), (2134, ''MQRC_BO_ERROR''),
      (2135, ''MQRC_DH_ERROR''), (2136, ''MQRC_MULTIPLE_REASONS''),
      (2137, ''MQRC_OPEN_FAILED''), (2138, ''MQRC_ADAPTER_DISC_LOAD_ERROR''),
      (2139, ''MQRC_CNO_ERROR''), (2140, ''MQRC_CICS_WAIT_FAILED''), (2141, ''MQRC_DLH_ERROR''),
      (2142, ''MQRC_HEADER_ERROR''), (2143, ''MQRC_SOURCE_LENGTH_ERROR''),
      (2144, ''MQRC_TARGET_LENGTH_ERROR''), (2145, ''MQRC_SOURCE_BUFFER_ERROR''),
      (2146, ''MQRC_TARGET_BUFFER_ERROR''), (2147, ''MQRC_INCOMPLETE_TRANSACTION''),
      (2148, ''MQRC_IIH_ERROR''), (2149, ''MQRC_PCF_ERROR''), (2150, ''MQRC_DBCS_ERROR''),
      (2152, ''MQRC_OBJECT_NAME_ERROR'')]"

definition MQRC_cases_2 :: "(int \<times> string) list" where
  "MQRC_cases_2 =
     [(2153, ''MQRC_OBJECT_Q_MGR_NAME_ERROR''), (2154, ''MQRC_RECS_PRESENT_ERROR''),
      (2155, ''MQRC_OBJECT_RECORDS_ERROR''), (2156, ''MQRC_RESPONSE_RECORDS_ERROR''),
      (2157, ''MQRC_ASID_MISMATCH''), (2158, ''MQRC_PMO_RECORD_FLAGS_ERROR''),
      (2159, ''MQRC_PUT_MSG_RECORDS_ERROR''), (2160, ''MQRC_CONN_ID_IN_USE''),
      (2161, ''MQRC_Q_MGR_QUIESCING''), (2162, ''MQRC_Q_MGR_STOPPING''),
      (2163, ''MQRC_DUPLICATE_RECOV_COORD''), (2173, ''MQRC_PMO_ERROR''),
      (2182, ''MQRC_API_EXIT_NOT_FOUND''), (2183, ''MQRC_API_EXIT_LOAD_ERROR''),
      (2184, ''MQRC_REMOTE_Q_NAME_ERROR''), (2185, ''MQRC_INCONSISTENT_PERSISTENCE''),
      (2186, ''MQRC_GMO_ERROR''), (2187, ''MQRC_CICS_BRIDGE_RESTRICTION''),
      (2188, ''MQRC_STOPPED_BY_CLUSTER_EXIT''), (2189, ''MQRC_CLUSTER_RESOLUTION_ERROR''),
      (2190, ''MQRC_CONVERTED_STRING_TOO_BIG''), (2191, ''MQRC_TMC_ERROR''),
      (2192, ''MQRC_STORAGE_MEDIUM_FULL''), (2193, ''MQRC_PAGESET_ERROR''),
      (2194, ''MQRC_NAME_NOT_VALID_FOR_TYPE''), (2195, ''MQRC_UNEXPECTED_ERROR''),
      (2196, ''MQRC_UNKNOWN_XMIT_Q''), (2197, ''MQRC_UNKNOWN_DEF_XMIT_Q''),
      (2198, ''MQRC_DEF_XMIT_Q_TYPE_ERROR''), (2199, ''MQRC_DEF_XMIT_Q_USAGE_ERROR''),
      (2200, ''MQRC_MSG_MARKED_BROWSE_CO_OP''), (2201, ''MQRC_NAME_IN_USE''),
      (2202, ''MQRC_CONNECTION_QUIESCING''), (2203, ''MQRC_CONNECTION_STOPPING''),
      (2204, ''MQRC_ADAPTER_NOT_AVAILABLE''), (2206, ''MQRC_MSG_ID_ERROR''),
      (2207, ''MQRC_CORREL_ID_ERROR''), (2208, ''MQRC_FILE_SYSTEM_ERROR''),
      (2209, ''MQRC_NO_MSG_LOCKED''), (2210, ''MQRC_SOAP_DOTNET_ERROR''),
      (2211, ''MQRC_SOAP_AXIS_ERROR''), (2212, ''MQRC_SOAP_URL_ERROR''),
      (2216, ''MQRC_FILE_NOT_AUDITED''), (2217, ''MQRC_CONNECTION_NOT_AUTHORIZED''),
      (2218, ''MQRC_MSG_TOO_BIG_FOR_CHANNEL''), (2219, ''MQRC_CALL_IN_PROGRESS''),
      (2220, ''MQRC_RMH_ERROR''), (2222, ''MQRC_Q_MGR_ACTIVE''),
      (2223, ''MQRC_Q_MGR_NOT_ACTIVE''), (2224, ''MQRC_Q_DEPTH_HIGH''),
      (2225, ''MQRC_Q_DEPTH_LOW''), (2226, ''MQRC_Q_SERVICE_INTERVAL_HIGH''),
      (2227, ''MQRC_Q_SERVICE_INTERVAL_OK''), (2228, ''MQRC_RFH_HEADER_FIELD_ERROR''),
      (2229, ''MQRC_RAS_PROPERTY_ERROR''), (2232, ''MQRC_UNIT_OF_WORK_NOT_STARTED''),
      (2233, ''MQRC_CHANNEL_AUTO_DEF_OK''), (2234, ''MQRC_CHANNEL_AUTO_DEF_ERROR''),
      (2235, ''MQRC_CFH_ERROR''), (2236, ''MQRC_CFIL_ERROR''), (2237, ''MQRC_CFIN_ERROR''),
      (2238, ''MQRC_CFSL_ERROR''), (2239, ''MQRC_CFST_ERROR''),
      (2241, ''MQRC_INCOMPLETE_GROUP''), (2242, ''MQRC_INCOMPLETE_MSG''),
      (2243, ''MQRC_INCONSISTENT_CCSIDS''), (2244, ''MQRC_INCONSISTENT_ENCODINGS''),
      (2245, ''MQRC_INCONSISTENT_UOW''), (2246, ''MQRC_INVALID_MSG_UNDER_CURSOR''),
      (2247, ''MQRC_MATCH_OPTIONS_ERROR''), (2248, ''MQRC_MDE_ERROR''),
      (2249, ''MQRC_MSG_FLAGS_ERROR''), (2250, ''MQRC_MSG_SEQ_NUMBER_ERROR''),
      (2251, ''MQRC_OFFSET_ERROR''), (2252, ''MQRC_ORIGINAL_LENGTH_ERROR''),
      (2253, ''MQRC_SEGMENT_LENGTH_ZERO''), (2255, ''MQRC_UOW_NOT_AVAILABLE''),
      (2256, ''MQRC_WRONG_GMO_VERSION''), (2257, ''MQRC_WRONG_MD_VERSION''),
      (2258, ''MQRC_GROUP_ID_ERROR''), (2259, ''MQRC_INCONSISTENT_BROWSE''),
      (2260, ''MQRC_XQH_ERROR''), (2261, ''MQRC_SRC_ENV_ERROR''),
      (2262, ''MQRC_SRC_NAME_ERROR''), (2263, ''MQRC_DEST_ENV_ERROR''),
      (2264, ''MQRC_DEST_NAME_ERROR''), (2265, ''MQRC_TM_ERROR''),
      (2266, ''MQRC_CLUSTER_EXIT_ERROR''), (2267, ''MQRC_CLUSTER_EXIT_LOAD_ERROR''),
      (2268, ''MQRC_CLUSTER_PUT_INHIBITED''), (2269, ''MQRC_CLUSTER_RESOURCE_ERROR''),
      (2270, ''MQRC_NO_DESTINATIONS_AVAILABLE''), (2271, ''MQRC_CONN_TAG_IN_USE''),
      (2272, ''MQRC_PARTIALLY_CONVERTED''), (2273, ''MQRC_CONNECTION_ERROR''),
      (2274, ''MQRC_OPTION_ENVIRONMENT_ERROR''), (2277, ''MQRC_CD_ERROR''),
      (2278, ''MQRC_CLIENT_CONN_ERROR''), (2279, ''MQRC_CHANNEL_STOPPED_BY_USER''),
      (2280, ''MQRC_HCONFIG_ERROR''), (2281, ''MQRC_FUNCTION_ERROR''),
      (2282, ''MQRC_CHANNEL_STARTED''), (2283, ''MQRC_CHANNEL_STOPPED''),
      (2284, ''MQRC_CHANNEL_CONV_ERROR''), (2285, ''MQRC_SERVICE_NOT_AVAILABLE''),
      (2286, ''MQRC_INITIALIZATION_FAILED''), (2287, ''MQRC_TERMINATION_FAILED''),
      (2288, ''MQRC_UNKNOWN_Q_NAME''), (2289, ''MQRC_SERVICE_ERROR''),
      (2290, ''MQRC_Q_ALREADY_EXISTS''), (2291, ''MQRC_USER_ID_NOT_AVAILABLE''),
      (2292, ''MQRC_UNKNOWN_ENTITY''), (2293, ''MQRC_UNKNOWN_AUTH_ENTITY''),
      (2294, ''MQRC_UNKNOWN_REF_OBJECT''), (2295, ''MQRC_CHANNEL_ACTIVATED''),
      (2296, ''MQRC_CHANNEL_NOT_ACTIVATED''), (2297, ''MQRC_UOW_CANCELED''),
      (2298, ''MQRC_FUNCTION_NOT_SUPPORTED''), (2299, ''MQRC_SELECTOR_TYPE_ERROR''),
      (2300, ''MQRC_COMMAND_TYPE_ERROR''), (2301, ''MQRC_MULTIPLE_INSTANCE_ERROR''),
      (2302, ''MQRC_SYSTEM_ITEM_NOT_ALTERABLE''), (2303, ''MQRC_BAG_CONVERSION_ERROR''),
      (2304, ''MQRC_SELECTOR_OUT_OF_RANGE''), (2305, ''MQRC_SELECTOR_NOT_UNIQUE''),
      (2306, ''MQRC_INDEX_NOT_PRESENT''), (2307, ''MQRC_STRING_ERROR''),
      (2308, ''MQRC_ENCODING_NOT_SUPPORTED''), (2309, ''MQRC_SELECTOR_NOT_PRESENT''),
      (2310, ''MQRC_OUT_SELECTOR_ERROR''), (2311, ''MQRC_STRING_TRUNCATED''),
      (2312, ''MQRC_SELECTOR_WRONG_TYPE''), (2313, ''MQRC_INCONSISTENT_ITEM_TYPE''),
      (2314, ''MQRC_INDEX_ERROR''), (2315, ''MQRC_SYSTEM_BAG_NOT_ALTERABLE''),
      (2316, ''MQRC_ITEM_COUNT_ERROR''), (2317, ''MQRC_FORMAT_NOT_SUPPORTED''),
      (2318, ''MQRC_SELECTOR_NOT_SUPPORTED''), (2319, ''MQRC_ITEM_VALUE_ERROR''),
      (2320, ''MQRC_HBAG_ERROR'')]"

definition MQRC_cases_3 :: "(int \<times> string) list" where
  "MQRC_cases_3 =
     [(2321, ''MQRC_PARAMETER_MISSING''), (2322, ''MQRC_CMD_SERVER_NOT_AVAILABLE''),
      (2323, ''MQRC_STRING_LENGTH_ERROR''), (2324, ''MQRC_INQUIRY_COMMAND_ERROR''),
      (2325, ''MQRC_NESTED_BAG_NOT_SUPPORTED''), (2326, ''MQRC_BAG_WRONG_TYPE''),
      (2327, ''MQRC_ITEM_TYPE_ERROR''), (2328, ''MQRC_SYSTEM_BAG_NOT_DELETABLE''),
      (2329, ''MQRC_SYSTEM_ITEM_NOT_DELETABLE''), (2330, ''MQRC_CODED_CHAR_SET_ID_ERROR''),
      (2331, ''MQRC_MSG_TOKEN_ERROR''), (2332, ''MQRC_MISSING_WIH''),
      (2333, ''MQRC_WIH_ERROR''), (2334, ''MQRC_RFH_ERROR''), (2335, ''MQRC_RFH_STRING_ERROR''),
      (2336, ''MQRC_RFH_COMMAND_ERROR''), (2337, ''MQRC_RFH_PARM_ERROR''),
      (2338, ''MQRC_RFH_DUPLICATE_PARM''), (2339, ''MQRC_RFH_PARM_MISSING''),
      (2340, ''MQRC_CHAR_CONVERSION_ERROR''), (2341, ''MQRC_UCS2_CONVERSION_ERROR''),
      (2342, ''MQRC_DB2_NOT_AVAILABLE''), (2343, ''MQRC_OBJECT_NOT_UNIQUE''),
      (2344, ''MQRC_CONN_TAG_NOT_RELEASED''), (2345, ''MQRC_CF_NOT_AVAILABLE''),
      (2346, ''MQRC_CF_STRUC_IN_USE''), (2347, ''MQRC_CF_STRUC_LIST_HDR_IN_USE''),
      (2348, ''MQRC_CF_STRUC_AUTH_FAILED''), (2349, ''MQRC_CF_STRUC_ERROR''),
      (2350, ''MQRC_CONN_TAG_NOT_USABLE''), (2351, ''MQRC_GLOBAL_UOW_CONFLICT''),
      (2352, ''MQRC_LOCAL_UOW_CONFLICT''), (2353, ''MQRC_HANDLE_IN_USE_FOR_UOW''),
      (2354, ''MQRC_UOW_ENLISTMENT_ERROR''), (2355, ''MQRC_UOW_MIX_NOT_SUPPORTED''),
      (2356, ''MQRC_WXP_ERROR''), (2357, ''MQRC_CURRENT_RECORD_ERROR''),
      (2358, ''MQRC_NEXT_OFFSET_ERROR''), (2359, ''MQRC_NO_RECORD_AVAILABLE''),
      (2360, ''MQRC_OBJECT_LEVEL_INCOMPATIBLE''), (2361, ''MQRC_NEXT_RECORD_ERROR''),
      (2362, ''MQRC_BACKOUT_THRESHOLD_REACHED''), (2363, ''MQRC_MSG_NOT_MATCHED''),
      (2364, ''MQRC_JMS_FORMAT_ERROR''), (2365, ''MQRC_SEGMENTS_NOT_SUPPORTED''),
      (2366, ''MQRC_WRONG_CF_LEVEL''), (2367, ''MQRC_CONFIG_CREATE_OBJECT''),
      (2368, ''MQRC_CONFIG_CHANGE_OBJECT''), (2369, ''MQRC_CONFIG_DELETE_OBJECT''),
      (2370, ''MQRC_CONFIG_REFRESH_OBJECT''), (2371, ''MQRC_CHANNEL_SSL_ERROR''),
      (2372, ''MQRC_PARTICIPANT_NOT_DEFINED''), (2373, ''MQRC_CF_STRUC_FAILED''),
      (2374, ''MQRC_API_EXIT_ERROR''), (2375, ''MQRC_API_EXIT_INIT_ERROR''),
      (2376, ''MQRC_API_EXIT_TERM_ERROR''), (2377, ''MQRC_EXIT_REASON_ERROR''),
      (2378, ''MQRC_RESERVED_VALUE_ERROR''), (2379, ''MQRC_NO_DATA_AVAILABLE''),
      (2380, ''MQRC_SCO_ERROR''), (2381, ''MQRC_KEY_REPOSITORY_ERROR''),
      (2382, ''MQRC_CRYPTO_HARDWARE_ERROR''), (2383, ''MQRC_AUTH_INFO_REC_COUNT_ERROR''),
      (2384, ''MQRC_AUTH_INFO_REC_ERROR''), (2385, ''MQRC_AIR_ERROR''),
      (2386, ''MQRC_AUTH_INFO_TYPE_ERROR''), (2387, ''MQRC_AUTH_INFO_CONN_NAME_ERROR''),
      (2388, ''MQRC_LDAP_USER_NAME_ERROR''), (2389, ''MQRC_LDAP_USER_NAME_LENGTH_ERR''),
      (2390, ''MQRC_LDAP_PASSWORD_ERROR''), (2391, ''MQRC_SSL_ALREADY_INITIALIZED''),
      (2392, ''MQRC_SSL_CONFIG_ERROR''), (2393, ''MQRC_SSL_INITIALIZATION_ERROR''),
      (2394, ''MQRC_Q_INDEX_TYPE_ERROR''), (2395, ''MQRC_CFBS_ERROR''),
      (2396, ''MQRC_SSL_NOT_ALLOWED''), (2397, ''MQRC_JSSE_ERROR''),
      (2398, ''MQRC_SSL_PEER_NAME_MISMATCH''), (2399, ''MQRC_SSL_PEER_NAME_ERROR''),
      (2400, ''MQRC_UNSUPPORTED_CIPHER_SUITE''), (2401, ''MQRC_SSL_CERTIFICATE_REVOKED''),
      (2402, ''MQRC_SSL_CERT_STORE_ERROR''), (2406, ''MQRC_CLIENT_EXIT_LOAD_ERROR''),
      (2407, ''MQRC_CLIENT_EXIT_ERROR''), (2408, ''MQRC_UOW_COMMITTED''),
      (2409, ''MQRC_SSL_KEY_RESET_ERROR''), (2410, ''MQRC_UNKNOWN_COMPONENT_NAME''),
      (2411, ''MQRC_LOGGER_STATUS''), (2412, ''MQRC_COMMAND_MQSC''),
      (2413, ''MQRC_COMMAND_PCF''), (2414, ''MQRC_CFIF_ERROR''), (2415, ''MQRC_CFSF_ERROR''),
      (2416, ''MQRC_CFGR_ERROR''), (2417, ''MQRC_MSG_NOT_ALLOWED_IN_GROUP''),
      (2418, ''MQRC_FILTER_OPERATOR_ERROR''), (2419, ''MQRC_NESTED_SELECTOR_ERROR''),
      (2420, ''MQRC_EPH_ERROR''), (2421, ''MQRC_RFH_FORMAT_ERROR''),
      (2422, ''MQRC_CFBF_ERROR''), (2423, ''MQRC_CLIENT_CHANNEL_CONFLICT''),
      (2424, ''MQRC_SD_ERROR''), (2425, ''MQRC_TOPIC_STRING_ERROR''),
      (2426, ''MQRC_STS_ERROR''), (2428, ''MQRC_NO_SUBSCRIPTION''),
      (2429, ''MQRC_SUBSCRIPTION_IN_USE''), (2430, ''MQRC_STAT_TYPE_ERROR''),
      (2431, ''MQRC_SUB_USER_DATA_ERROR''), (2432, ''MQRC_SUB_ALREADY_EXISTS''),
      (2434, ''MQRC_IDENTITY_MISMATCH''), (2435, ''MQRC_ALTER_SUB_ERROR''),
      (2436, ''MQRC_DURABILITY_NOT_ALLOWED''), (2437, ''MQRC_NO_RETAINED_MSG''),
      (2438, ''MQRC_SRO_ERROR''), (2440, ''MQRC_SUB_NAME_ERROR''),
      (2441, ''MQRC_OBJECT_STRING_ERROR''), (2442, ''MQRC_PROPERTY_NAME_ERROR''),
      (2443, ''MQRC_SEGMENTATION_NOT_ALLOWED''), (2444, ''MQRC_CBD_ERROR''),
      (2445, ''MQRC_CTLO_ERROR''), (2446, ''MQRC_NO_CALLBACKS_ACTIVE''),
      (2448, ''MQRC_CALLBACK_NOT_REGISTERED''), (2457, ''MQRC_OPTIONS_CHANGED''),
      (2458, ''MQRC_READ_AHEAD_MSGS''), (2459, ''MQRC_SELECTOR_SYNTAX_ERROR''),
      (2460, ''MQRC_HMSG_ERROR''), (2461, ''MQRC_CMHO_ERROR''), (2462, ''MQRC_DMHO_ERROR''),
      (2463, ''MQRC_SMPO_ERROR''), (2464, ''MQRC_IMPO_ERROR''),
      (2465, ''MQRC_PROPERTY_NAME_TOO_BIG''), (2466, ''MQRC_PROP_VALUE_NOT_CONVERTED''),
      (2467, ''MQRC_PROP_TYPE_NOT_SUPPORTED''), (2469, ''MQRC_PROPERTY_VALUE_TOO_BIG''),
      (2470, ''MQRC_PROP_CONV_NOT_SUPPORTED''), (2471, ''MQRC_PROPERTY_NOT_AVAILABLE''),
      (2472, ''MQRC_PROP_NUMBER_FORMAT_ERROR''), (2473, ''MQRC_PROPERTY_TYPE_ERROR''),
      (2478, ''MQRC_PROPERTIES_TOO_BIG''), (2479, ''MQRC_PUT_NOT_RETAINED''),
      (2480, ''MQRC_ALIAS_TARGTYPE_CHANGED'')]"

definition MQRC_cases_4 :: "(int \<times> string) list" where
  "MQRC_cases_4 =
     [(2481, ''MQRC_DMPO_ERROR''), (2482, ''MQRC_PD_ERROR''),
      (2483, ''MQRC_CALLBACK_TYPE_ERROR''), (2484, ''MQRC_CBD_OPTIONS_ERROR''),
      (2485, ''MQRC_MAX_MSG_LENGTH_ERROR''), (2486, ''MQRC_CALLBACK_ROUTINE_ERROR''),
      (2487, ''MQRC_CALLBACK_LINK_ERROR''), (2488, ''MQRC_OPERATION_ERROR''),
      (2489, ''MQRC_BMHO_ERROR''), (2490, ''MQRC_UNSUPPORTED_PROPERTY''),
      (2492, ''MQRC_PROP_NAME_NOT_CONVERTED''), (2494, ''MQRC_GET_ENABLED''),
      (2495, ''MQRC_MODULE_NOT_FOUND''), (2496, ''MQRC_MODULE_INVALID''),
      (2497, ''MQRC_MODULE_ENTRY_NOT_FOUND''), (2498, ''MQRC_MIXED_CONTENT_NOT_ALLOWED''),
      (2499, ''MQRC_MSG_HANDLE_IN_USE''), (2500, ''MQRC_HCONN_ASYNC_ACTIVE''),
      (2501, ''MQRC_MHBO_ERROR''), (2502, ''MQRC_PUBLICATION_FAILURE''),
      (2503, ''MQRC_SUB_INHIBITED''), (2504, ''MQRC_SELECTOR_ALWAYS_FALSE''),
      (2507, ''MQRC_XEPO_ERROR''), (2509, ''MQRC_DURABILITY_NOT_ALTERABLE''),
      (2510, ''MQRC_TOPIC_NOT_ALTERABLE''), (2512, ''MQRC_SUBLEVEL_NOT_ALTERABLE''),
      (2513, ''MQRC_PROPERTY_NAME_LENGTH_ERR''), (2514, ''MQRC_DUPLICATE_GROUP_SUB''),
      (2515, ''MQRC_GROUPING_NOT_ALTERABLE''), (2516, ''MQRC_SELECTOR_INVALID_FOR_TYPE''),
      (2517, ''MQRC_HOBJ_QUIESCED''), (2518, ''MQRC_HOBJ_QUIESCED_NO_MSGS''),
      (2519, ''MQRC_SELECTION_STRING_ERROR''), (2520, ''MQRC_RES_OBJECT_STRING_ERROR''),
      (2521, ''MQRC_CONNECTION_SUSPENDED''), (2522, ''MQRC_INVALID_DESTINATION''),
      (2523, ''MQRC_INVALID_SUBSCRIPTION''), (2524, ''MQRC_SELECTOR_NOT_ALTERABLE''),
      (2525, ''MQRC_RETAINED_MSG_Q_ERROR''), (2526, ''MQRC_RETAINED_NOT_DELIVERED''),
      (2527, ''MQRC_RFH_RESTRICTED_FORMAT_ERR''), (2528, ''MQRC_CONNECTION_STOPPED''),
      (2529, ''MQRC_ASYNC_UOW_CONFLICT''), (2530, ''MQRC_ASYNC_XA_CONFLICT''),
      (2531, ''MQRC_PUBSUB_INHIBITED''), (2532, ''MQRC_MSG_HANDLE_COPY_FAILURE''),
      (2533, ''MQRC_DEST_CLASS_NOT_ALTERABLE''), (2534, ''MQRC_OPERATION_NOT_ALLOWED''),
      (2535, ''MQRC_ACTION_ERROR''), (2537, ''MQRC_CHANNEL_NOT_AVAILABLE''),
      (2538, ''MQRC_HOST_NOT_AVAILABLE''), (2539, ''MQRC_CHANNEL_CONFIG_ERROR''),
      (2540, ''MQRC_UNKNOWN_CHANNEL_NAME''), (2541, ''MQRC_LOOPING_PUBLICATION''),
      (2542, ''MQRC_ALREADY_JOINED''), (2543, ''MQRC_STANDBY_Q_MGR''),
      (2544, ''MQRC_RECONNECTING''), (2545, ''MQRC_RECONNECTED''),
      (2546, ''MQRC_RECONNECT_QMID_MISMATCH''), (2547, ''MQRC_RECONNECT_INCOMPATIBLE''),
      (2548, ''MQRC_RECONNECT_FAILED''), (2549, ''MQRC_CALL_INTERRUPTED''),
      (2550, ''MQRC_NO_SUBS_MATCHED''), (2551, ''MQRC_SELECTION_NOT_AVAILABLE''),
      (2552, ''MQRC_CHANNEL_SSL_WARNING''), (2553, ''MQRC_OCSP_URL_ERROR''),
      (2554, ''MQRC_CONTENT_ERROR''), (2555, ''MQRC_RECONNECT_Q_MGR_REQD''),
      (2556, ''MQRC_RECONNECT_TIMED_OUT''), (2557, ''MQRC_PUBLISH_EXIT_ERROR''),
      (2558, ''MQRC_COMMINFO_ERROR''), (2559, ''MQRC_DEF_SYNCPOINT_INHIBITED''),
      (2560, ''MQRC_MULTICAST_ONLY''), (2561, ''MQRC_DATA_SET_NOT_AVAILABLE''),
      (2562, ''MQRC_GROUPING_NOT_ALLOWED''), (2563, ''MQRC_GROUP_ADDRESS_ERROR''),
      (2564, ''MQRC_MULTICAST_CONFIG_ERROR''), (2565, ''MQRC_MULTICAST_INTERFACE_ERROR''),
      (2566, ''MQRC_MULTICAST_SEND_ERROR''), (2567, ''MQRC_MULTICAST_INTERNAL_ERROR''),
      (2568, ''MQRC_CONNECTION_NOT_AVAILABLE''), (2569, ''MQRC_SYNCPOINT_NOT_ALLOWED''),
      (2570, ''MQRC_SSL_ALT_PROVIDER_REQUIRED''), (2571, ''MQRC_MCAST_PUB_STATUS''),
      (2572, ''MQRC_MCAST_SUB_STATUS''), (2573, ''MQRC_PRECONN_EXIT_LOAD_ERROR''),
      (2574, ''MQRC_PRECONN_EXIT_NOT_FOUND''), (2575, ''MQRC_PRECONN_EXIT_ERROR''),
      (2576, ''MQRC_CD_ARRAY_ERROR''), (2577, ''MQRC_CHANNEL_BLOCKED''),
      (2578, ''MQRC_CHANNEL_BLOCKED_WARNING''), (2579, ''MQRC_SUBSCRIPTION_CREATE''),
      (2580, ''MQRC_SUBSCRIPTION_DELETE''), (2581, ''MQRC_SUBSCRIPTION_CHANGE''),
      (2582, ''MQRC_SUBSCRIPTION_REFRESH''), (2583, ''MQRC_INSTALLATION_MISMATCH''),
      (2584, ''MQRC_NOT_PRIVILEGED''), (2586, ''MQRC_PROPERTIES_DISABLED''),
      (2587, ''MQRC_HMSG_NOT_AVAILABLE''), (2588, ''MQRC_EXIT_PROPS_NOT_SUPPORTED''),
      (2589, ''MQRC_INSTALLATION_MISSING''), (2590, ''MQRC_FASTPATH_NOT_AVAILABLE''),
      (2591, ''MQRC_CIPHER_SPEC_NOT_SUITE_B''), (2592, ''MQRC_SUITE_B_ERROR''),
      (2593, ''MQRC_CERT_VAL_POLICY_ERROR''), (2594, ''MQRC_PASSWORD_PROTECTION_ERROR''),
      (2595, ''MQRC_CSP_ERROR''), (2596, ''MQRC_CERT_LABEL_NOT_ALLOWED''),
      (2598, ''MQRC_ADMIN_TOPIC_STRING_ERROR''), (2599, ''MQRC_AMQP_NOT_AVAILABLE''),
      (2600, ''MQRC_CCDT_URL_ERROR''), (2601, ''MQRC_Q_MGR_RECONNECT_REQUESTED''),
      (2602, ''MQRC_BNO_ERROR''), (2603, ''MQRC_OUTBOUND_SNI_NOT_VALID''),
      (6100, ''MQRC_REOPEN_EXCL_INPUT_ERROR''), (6101, ''MQRC_REOPEN_INQUIRE_ERROR''),
      (6102, ''MQRC_REOPEN_SAVED_CONTEXT_ERR''), (6103, ''MQRC_REOPEN_TEMPORARY_Q_ERROR''),
      (6104, ''MQRC_ATTRIBUTE_LOCKED''), (6105, ''MQRC_CURSOR_NOT_VALID''),
      (6106, ''MQRC_ENCODING_ERROR''), (6107, ''MQRC_STRUC_ID_ERROR''),
      (6108, ''MQRC_NULL_POINTER''), (6109, ''MQRC_NO_CONNECTION_REFERENCE''),
      (6110, ''MQRC_NO_BUFFER''), (6111, ''MQRC_BINARY_DATA_LENGTH_ERROR''),
      (6112, ''MQRC_BUFFER_NOT_AUTOMATIC''), (6113, ''MQRC_INSUFFICIENT_BUFFER''),
      (6114, ''MQRC_INSUFFICIENT_DATA''), (6115, ''MQRC_DATA_TRUNCATED''),
      (6116, ''MQRC_ZERO_LENGTH''), (6117, ''MQRC_NEGATIVE_LENGTH''),
      (6118, ''MQRC_NEGATIVE_OFFSET''), (6119, ''MQRC_INCONSISTENT_FORMAT''),
      (6120, ''MQRC_INCONSISTENT_OBJECT_STATE''), (6121, ''MQRC_CONTEXT_OBJECT_NOT_VALID''),
      (6122, ''MQRC_CONTEXT_OPEN_ERROR''), (6123, ''MQRC_STRUC_LENGTH_ERROR''),
      (6124, ''MQRC_NOT_CONNECTED''), (6125, ''MQRC_NOT_OPEN'')]"

definition MQRC_cases_5 :: "(int \<times> string) list" where
  "MQRC_cases_5 =
     [(6126, ''MQRC_DISTRIBUTION_LIST_EMPTY''), (6127, ''MQRC_INCONSISTENT_OPEN_OPTIONS''),
      (6128, ''MQRC_WRONG_VERSION''), (6129, ''MQRC_REFERENCE_ERROR''),
      (6130, ''MQRC_XR_NOT_AVAILABLE''), (29440, ''MQRC_SUB_JOIN_NOT_ALTERABLE'')]"

definition MQRC_STR :: "int \<Rightarrow> string" where
  "MQRC_STR v = c_switch (MQRC_cases_1 @ MQRC_cases_2 @ MQRC_cases_3 @ MQRC_cases_4 @ MQRC_cases_5) v"

lemma MQRC_cases_1_ok: "list_all (case_fact a) MQRC_cases_1"
  unfolding MQRC_cases_1_def
  by (simp only: MQRC_values_1_cases MQRC_values_2_cases
      case_simps cong: case_congs)

lemma MQRC_cases_2_ok: "list_all (case_fact a) MQRC_cases_2"
  unfolding MQRC_cases_2_def
  by (simp only: MQRC_values_2_cases MQRC_values_3_cases
      case_simps cong: case_congs)

lemma MQRC_cases_3_ok: "list_all (case_fact a) MQRC_cases_3"
  unfolding MQRC_cases_3_def
  by (simp only: MQRC_values_3_cases MQRC_values_4_cases
      case_simps cong: case_congs)

lemma MQRC_cases_4_ok: "list_all (case_fact a) MQRC_cases_4"
  unfolding MQRC_cases_4_def
  by (simp only: MQRC_values_4_cases MQRC_values_5_cases
      case_simps cong: case_congs)

lemma MQRC_cases_5_ok: "list_all (case_fact a) MQRC_cases_5"
  unfolding MQRC_cases_5_def
  by (simp only: MQRC_values_5_cases
      case_simps cong: case_congs)

lemma names_C8: "list_all (names_ok a) [MQRC_STR]"
  unfolding list.pred_inject
  by (intro conjI list.pred_inject(1) names_okI [OF MQRC_STR_def])
     (simp only: list_all_append simp_thms MQRC_cases_1_ok MQRC_cases_2_ok MQRC_cases_3_ok MQRC_cases_4_ok MQRC_cases_5_ok)

end
