(* ===== verification/Mqi_Names_D.thy ===== *)
theory Mqi_Names_D
  imports Mqi_Facts_C Mqi_Facts_P
begin

text \<open>
  The functions \<open>MQRDNS_STR\<close> to \<open>MQ_SUITE_STR\<close> of \<open>cmqstrc.h\<close>.
\<close>

definition MQRDNS_STR :: "int \<Rightarrow> string" where
  "MQRDNS_STR v = c_switch
     [(0, ''MQRDNS_ENABLED''), (1, ''MQRDNS_DISABLED'')] v"

definition MQRD_STR :: "int \<Rightarrow> string" where
  "MQRD_STR v = c_switch
     [(- 1, ''MQRD_NO_RECONNECT''), (0, ''MQRD_NO_DELAY'')] v"

definition MQREADA_STR :: "int \<Rightarrow> string" where
  "MQREADA_STR v = c_switch
     [(0, ''MQREADA_NO''), (1, ''MQREADA_YES''), (2, ''MQREADA_DISABLED''),
      (3, ''MQREADA_INHIBITED''), (4, ''MQREADA_BACKLOG'')] v"

definition MQRECAUTO_STR :: "int \<Rightarrow> string" where
  "MQRECAUTO_STR v = c_switch
     [(0, ''MQRECAUTO_NO''), (1, ''MQRECAUTO_YES'')] v"

definition MQRECORDING_STR :: "int \<Rightarrow> string" where
  "MQRECORDING_STR v = c_switch
     [(0, ''MQRECORDING_DISABLED''), (1, ''MQRECORDING_Q''), (2, ''MQRECORDING_MSG'')] v"

definition MQREGO_STR :: "int \<Rightarrow> string" where
  "MQREGO_STR v = c_switch
     [(0, ''MQREGO_NONE''), (1, ''MQREGO_CORREL_ID_AS_IDENTITY''), (2, ''MQREGO_ANONYMOUS''),
      (4, ''MQREGO_LOCAL''), (8, ''MQREGO_DIRECT_REQUESTS''),
      (16, ''MQREGO_NEW_PUBLICATIONS_ONLY''), (32, ''MQREGO_PUBLISH_ON_REQUEST_ONLY''),
      (64, ''MQREGO_DEREGISTER_ALL''), (128, ''MQREGO_INCLUDE_STREAM_NAME''),
      (256, ''MQREGO_INFORM_IF_RETAINED''), (512, ''MQREGO_DUPLICATES_OK''),
      (1024, ''MQREGO_NON_PERSISTENT''), (2048, ''MQREGO_PERSISTENT''),
      (4096, ''MQREGO_PERSISTENT_AS_PUBLISH''), (8192, ''MQREGO_PERSISTENT_AS_Q''),
      (16384, ''MQREGO_ADD_NAME''), (32768, ''MQREGO_NO_ALTERATION''),
      (65536, ''MQREGO_FULL_RESPONSE''), (131072, ''MQREGO_JOIN_SHARED''),
      (262144, ''MQREGO_JOIN_EXCLUSIVE''), (524288, ''MQREGO_LEAVE_ONLY''),
      (1048576, ''MQREGO_VARIABLE_USER_ID''), (2097152, ''MQREGO_LOCKED'')] v"

definition MQREORG_STR :: "int \<Rightarrow> string" where
  "MQREORG_STR v = c_switch
     [(0, ''MQREORG_DISABLED''), (1, ''MQREORG_ENABLED'')] v"

definition MQRFH_STR :: "int \<Rightarrow> string" where
  "MQRFH_STR v = c_switch
     [(- 65536, ''MQRFH_FLAGS_RESTRICTED_MASK''), (0, ''MQRFH_NONE'')] v"

definition MQRL_STR :: "int \<Rightarrow> string" where
  "MQRL_STR v = c_switch
     [(- 1, ''MQRL_UNDEFINED'')] v"

definition MQRMHF_STR :: "int \<Rightarrow> string" where
  "MQRMHF_STR v = c_switch
     [(0, ''MQRMHF_NOT_LAST''), (1, ''MQRMHF_LAST'')] v"

definition MQROUTE_STR :: "int \<Rightarrow> string" where
  "MQROUTE_STR v = c_switch
     [(- 65536, ''MQROUTE_DELIVER_REJ_UNSUP_MASK''), (0, ''MQROUTE_UNLIMITED_ACTIVITIES''),
      (2, ''MQROUTE_DETAIL_LOW''), (8, ''MQROUTE_DETAIL_MEDIUM''),
      (32, ''MQROUTE_DETAIL_HIGH''), (256, ''MQROUTE_FORWARD_ALL''),
      (512, ''MQROUTE_FORWARD_IF_SUPPORTED''), (4096, ''MQROUTE_DELIVER_YES''),
      (8192, ''MQROUTE_DELIVER_NO''), (65539, ''MQROUTE_ACCUMULATE_NONE''),
      (65540, ''MQROUTE_ACCUMULATE_IN_MSG''), (65541, ''MQROUTE_ACCUMULATE_AND_REPLY'')] v"

definition MQRO_STR :: "int \<Rightarrow> string" where
  "MQRO_STR v = c_switch
     [(- 270532353, ''MQRO_ACCEPT_UNSUP_MASK''), (0, ''MQRO_NONE''), (1, ''MQRO_PAN''),
      (2, ''MQRO_NAN''), (4, ''MQRO_ACTIVITY''), (64, ''MQRO_PASS_CORREL_ID''),
      (128, ''MQRO_PASS_MSG_ID''), (256, ''MQRO_COA''), (768, ''MQRO_COA_WITH_DATA''),
      (1792, ''MQRO_COA_WITH_FULL_DATA''), (2048, ''MQRO_COD''), (6144, ''MQRO_COD_WITH_DATA''),
      (14336, ''MQRO_COD_WITH_FULL_DATA''), (16384, ''MQRO_PASS_DISCARD_AND_EXPIRY''),
      (261888, ''MQRO_ACCEPT_UNSUP_IF_XMIT_MASK''), (2097152, ''MQRO_EXPIRATION''),
      (6291456, ''MQRO_EXPIRATION_WITH_DATA''), (14680064, ''MQRO_EXPIRATION_WITH_FULL_DATA''),
      (16777216, ''MQRO_EXCEPTION''), (50331648, ''MQRO_EXCEPTION_WITH_DATA''),
      (117440512, ''MQRO_EXCEPTION_WITH_FULL_DATA''), (134217728, ''MQRO_DISCARD_MSG''),
      (270270464, ''MQRO_REJECT_UNSUP_MASK'')] v"

definition MQRP_STR :: "int \<Rightarrow> string" where
  "MQRP_STR v = c_switch
     [(0, ''MQRP_NO''), (1, ''MQRP_YES'')] v"

definition MQRQ_STR :: "int \<Rightarrow> string" where
  "MQRQ_STR v = c_switch
     [(1, ''MQRQ_CONN_NOT_AUTHORIZED''), (2, ''MQRQ_OPEN_NOT_AUTHORIZED''),
      (3, ''MQRQ_CLOSE_NOT_AUTHORIZED''), (4, ''MQRQ_CMD_NOT_AUTHORIZED''),
      (5, ''MQRQ_Q_MGR_STOPPING''), (6, ''MQRQ_Q_MGR_QUIESCING''),
      (7, ''MQRQ_CHANNEL_STOPPED_OK''), (8, ''MQRQ_CHANNEL_STOPPED_ERROR''),
      (9, ''MQRQ_CHANNEL_STOPPED_RETRY''), (10, ''MQRQ_CHANNEL_STOPPED_DISABLED''),
      (11, ''MQRQ_BRIDGE_STOPPED_OK''), (12, ''MQRQ_BRIDGE_STOPPED_ERROR''),
      (13, ''MQRQ_SSL_HANDSHAKE_ERROR''), (14, ''MQRQ_SSL_CIPHER_SPEC_ERROR''),
      (15, ''MQRQ_SSL_CLIENT_AUTH_ERROR''), (16, ''MQRQ_SSL_PEER_NAME_ERROR''),
      (17, ''MQRQ_SUB_NOT_AUTHORIZED''), (18, ''MQRQ_SUB_DEST_NOT_AUTHORIZED''),
      (19, ''MQRQ_SSL_UNKNOWN_REVOCATION''), (20, ''MQRQ_SYS_CONN_NOT_AUTHORIZED''),
      (21, ''MQRQ_CHANNEL_BLOCKED_ADDRESS''), (22, ''MQRQ_CHANNEL_BLOCKED_USERID''),
      (23, ''MQRQ_CHANNEL_BLOCKED_NOACCESS''), (24, ''MQRQ_MAX_ACTIVE_CHANNELS''),
      (25, ''MQRQ_MAX_CHANNELS''), (26, ''MQRQ_SVRCONN_INST_LIMIT''),
      (27, ''MQRQ_CLIENT_INST_LIMIT''), (28, ''MQRQ_CAF_NOT_INSTALLED''),
      (29, ''MQRQ_CSP_NOT_AUTHORIZED''), (30, ''MQRQ_FAILOVER_PERMITTED''),
      (31, ''MQRQ_FAILOVER_NOT_PERMITTED''), (32, ''MQRQ_STANDBY_ACTIVATED''),
      (33, ''MQRQ_REPLICA_ACTIVATED'')] v"

lemmas names_D1_defs =
  MQRDNS_STR_def MQRD_STR_def MQREADA_STR_def MQRECAUTO_STR_def MQRECORDING_STR_def
  MQREGO_STR_def MQREORG_STR_def MQRFH_STR_def MQRL_STR_def MQRMHF_STR_def MQROUTE_STR_def
  MQRO_STR_def MQRP_STR_def

lemmas names_D1_facts =
  cmqcfc_Group_Parameter_6_cases MQCBC_values_cases cmqc_Queue_Attributes_cases
  cmqc_CF_Structure_Attributes_cases cmqc_QueueManager_Attributes_2_cases
  cmqcfc_Publish_Subscribe_cases combined_cases MQRFH_values_cases MQGMO_values_cases
  MQRMH_values_cases mask_cases cmqcfc_Trace_route_and_Activity_Operations_cases
  MQMD_values_1_cases cmqcfc_Group_Parameter_5_cases

lemma names_D1:
  "list_all (names_ok a)
     [MQRDNS_STR, MQRD_STR, MQREADA_STR, MQRECAUTO_STR, MQRECORDING_STR, MQREGO_STR,
      MQREORG_STR, MQRFH_STR, MQRL_STR, MQRMHF_STR, MQROUTE_STR, MQRO_STR, MQRP_STR]"
  unfolding list.pred_inject
  by (intro conjI list.pred_inject(1);
      rule names_okI, rule names_D1_defs, simp only: names_D1_facts case_simps cong: case_congs)

definition MQRT_STR :: "int \<Rightarrow> string" where
  "MQRT_STR v = c_switch
     [(1, ''MQRT_CONFIGURATION''), (2, ''MQRT_EXPIRY''), (3, ''MQRT_NSPROC''),
      (4, ''MQRT_PROXYSUB''), (5, ''MQRT_SUB_CONFIGURATION'')] v"

definition MQRU_STR :: "int \<Rightarrow> string" where
  "MQRU_STR v = c_switch
     [(1, ''MQRU_PUBLISH_ON_REQUEST''), (2, ''MQRU_PUBLISH_ALL'')] v"

definition MQSCA_STR :: "int \<Rightarrow> string" where
  "MQSCA_STR v = c_switch
     [(0, ''MQSCA_REQUIRED''), (1, ''MQSCA_OPTIONAL''), (2, ''MQSCA_NEVER_REQUIRED'')] v"

definition MQSCOPE_STR :: "int \<Rightarrow> string" where
  "MQSCOPE_STR v = c_switch
     [(0, ''MQSCOPE_ALL''), (1, ''MQSCOPE_AS_PARENT''), (4, ''MQSCOPE_QMGR'')] v"

definition MQSCO_STR :: "int \<Rightarrow> string" where
  "MQSCO_STR v = c_switch
     [(1, ''MQSCO_Q_MGR''), (2, ''MQSCO_CELL'')] v"

definition MQSCYC_STR :: "int \<Rightarrow> string" where
  "MQSCYC_STR v = c_switch
     [(0, ''MQSCYC_UPPER''), (1, ''MQSCYC_MIXED'')] v"

definition MQSECCOMM_STR :: "int \<Rightarrow> string" where
  "MQSECCOMM_STR v = c_switch
     [(0, ''MQSECCOMM_NO''), (1, ''MQSECCOMM_YES''), (2, ''MQSECCOMM_ANON'')] v"

definition MQSECITEM_STR :: "int \<Rightarrow> string" where
  "MQSECITEM_STR v = c_switch
     [(0, ''MQSECITEM_ALL''), (1, ''MQSECITEM_MQADMIN''), (2, ''MQSECITEM_MQNLIST''),
      (3, ''MQSECITEM_MQPROC''), (4, ''MQSECITEM_MQQUEUE''), (5, ''MQSECITEM_MQCONN''),
      (6, ''MQSECITEM_MQCMDS''), (7, ''MQSECITEM_MXADMIN''), (8, ''MQSECITEM_MXNLIST''),
      (9, ''MQSECITEM_MXPROC''), (10, ''MQSECITEM_MXQUEUE''), (11, ''MQSECITEM_MXTOPIC'')] v"

definition MQSECPROT_STR :: "int \<Rightarrow> string" where
  "MQSECPROT_STR v = c_switch
     [(0, ''MQSECPROT_NONE''), (1, ''MQSECPROT_SSLV30''), (2, ''MQSECPROT_TLSV10''),
      (4, ''MQSECPROT_TLSV12''), (8, ''MQSECPROT_TLSV13'')] v"

definition MQSECSW_STR :: "int \<Rightarrow> string" where
  "MQSECSW_STR v = c_switch
     [(1, ''MQSECSW_PROCESS''), (2, ''MQSECSW_NAMELIST''), (3, ''MQSECSW_Q''),
      (4, ''MQSECSW_TOPIC''), (6, ''MQSECSW_CONTEXT''), (7, ''MQSECSW_ALTERNATE_USER''),
      (8, ''MQSECSW_COMMAND''), (9, ''MQSECSW_CONNECTION''), (10, ''MQSECSW_SUBSYSTEM''),
      (11, ''MQSECSW_COMMAND_RESOURCES''), (15, ''MQSECSW_Q_MGR''), (16, ''MQSECSW_QSG''),
      (21, ''MQSECSW_OFF_FOUND''), (22, ''MQSECSW_ON_FOUND''), (23, ''MQSECSW_OFF_NOT_FOUND''),
      (24, ''MQSECSW_ON_NOT_FOUND''), (25, ''MQSECSW_OFF_ERROR''),
      (26, ''MQSECSW_ON_OVERRIDDEN'')] v"

definition MQSECTYPE_STR :: "int \<Rightarrow> string" where
  "MQSECTYPE_STR v = c_switch
     [(1, ''MQSECTYPE_AUTHSERV''), (2, ''MQSECTYPE_SSL''), (3, ''MQSECTYPE_CLASSES''),
      (4, ''MQSECTYPE_CONNAUTH'')] v"

definition MQSELTYPE_STR :: "int \<Rightarrow> string" where
  "MQSELTYPE_STR v = c_switch
     [(0, ''MQSELTYPE_NONE''), (1, ''MQSELTYPE_STANDARD''), (2, ''MQSELTYPE_EXTENDED'')] v"

definition MQSEL_ALL_STR :: "int \<Rightarrow> string" where
  "MQSEL_ALL_STR v = c_switch
     [(- 30003, ''MQSEL_ALL_SYSTEM_SELECTORS''), (- 30002, ''MQSEL_ALL_USER_SELECTORS''),
      (- 30001, ''MQSEL_ALL_SELECTORS'')] v"

definition MQSEL_ANY_STR :: "int \<Rightarrow> string" where
  "MQSEL_ANY_STR v = c_switch
     [(- 30003, ''MQSEL_ANY_SYSTEM_SELECTOR''), (- 30002, ''MQSEL_ANY_USER_SELECTOR''),
      (- 30001, ''MQSEL_ANY_SELECTOR'')] v"

definition MQSMPO_STR :: "int \<Rightarrow> string" where
  "MQSMPO_STR v = c_switch
     [(0, ''MQSMPO_NONE''), (1, ''MQSMPO_SET_PROP_UNDER_CURSOR''),
      (2, ''MQSMPO_SET_PROP_AFTER_CURSOR''), (4, ''MQSMPO_APPEND_PROPERTY''),
      (8, ''MQSMPO_SET_PROP_BEFORE_CURSOR'')] v"

definition MQSO_STR :: "int \<Rightarrow> string" where
  "MQSO_STR v = c_switch
     [(0, ''MQSO_NONE''), (1, ''MQSO_ALTER''), (2, ''MQSO_CREATE''), (4, ''MQSO_RESUME''),
      (8, ''MQSO_DURABLE''), (16, ''MQSO_GROUP_SUB''), (32, ''MQSO_MANAGED''),
      (64, ''MQSO_SET_IDENTITY_CONTEXT''), (128, ''MQSO_NO_MULTICAST''),
      (256, ''MQSO_FIXED_USERID''), (512, ''MQSO_ANY_USERID''),
      (2048, ''MQSO_PUBLICATIONS_ON_REQUEST''), (4096, ''MQSO_NEW_PUBLICATIONS_ONLY''),
      (8192, ''MQSO_FAIL_IF_QUIESCING''), (262144, ''MQSO_ALTERNATE_USER_AUTHORITY''),
      (1048576, ''MQSO_WILDCARD_CHAR''), (2097152, ''MQSO_WILDCARD_TOPIC''),
      (4194304, ''MQSO_SET_CORREL_ID''), (67108864, ''MQSO_SCOPE_QMGR''),
      (134217728, ''MQSO_NO_READ_AHEAD''), (268435456, ''MQSO_READ_AHEAD'')] v"

lemmas names_D2_defs =
  MQRQ_STR_def MQRT_STR_def MQRU_STR_def MQSCA_STR_def MQSCOPE_STR_def MQSCO_STR_def
  MQSCYC_STR_def MQSECCOMM_STR_def MQSECITEM_STR_def MQSECPROT_STR_def MQSECSW_STR_def
  MQSECTYPE_STR_def MQSELTYPE_STR_def MQSEL_ALL_STR_def MQSEL_ANY_STR_def MQSMPO_STR_def

lemmas names_D2_facts =
  cmqcfc_Group_Parameter_5_cases cmqc_Subscription_Attributes_cases cmqxc_MQCD_2_cases
  cmqc_Topic_Attributes_cases cmqc_QueueManager_Attributes_2_cases
  cmqcfc_Group_Parameter_6_cases cmqbc_Most_Functions_1_cases MQSMPO_values_cases

lemma names_D2:
  "list_all (names_ok a)
     [MQRQ_STR, MQRT_STR, MQRU_STR, MQSCA_STR, MQSCOPE_STR, MQSCO_STR, MQSCYC_STR,
      MQSECCOMM_STR, MQSECITEM_STR, MQSECPROT_STR, MQSECSW_STR, MQSECTYPE_STR, MQSELTYPE_STR,
      MQSEL_ALL_STR, MQSEL_ANY_STR, MQSMPO_STR]"
  unfolding list.pred_inject
  by (intro conjI list.pred_inject(1);
      rule names_okI, rule names_D2_defs, simp only: names_D2_facts case_simps cong: case_congs)

definition MQSPL_STR :: "int \<Rightarrow> string" where
  "MQSPL_STR v = c_switch
     [(0, ''MQSPL_PASSTHRU''), (1, ''MQSPL_REMOVE''), (2, ''MQSPL_AS_POLICY'')] v"

definition MQSP_STR :: "int \<Rightarrow> string" where
  "MQSP_STR v = c_switch
     [(0, ''MQSP_NOT_AVAILABLE''), (1, ''MQSP_AVAILABLE'')] v"

definition MQSQQM_STR :: "int \<Rightarrow> string" where
  "MQSQQM_STR v = c_switch
     [(0, ''MQSQQM_USE''), (1, ''MQSQQM_IGNORE'')] v"

definition MQSRO_STR :: "int \<Rightarrow> string" where
  "MQSRO_STR v = c_switch
     [(0, ''MQSRO_NONE''), (8192, ''MQSRO_FAIL_IF_QUIESCING'')] v"

definition MQSR_STR :: "int \<Rightarrow> string" where
  "MQSR_STR v = c_switch
     [(1, ''MQSR_ACTION_PUBLICATION'')] v"

definition MQSSL_STR :: "int \<Rightarrow> string" where
  "MQSSL_STR v = c_switch
     [(0, ''MQSSL_FIPS_NO''), (1, ''MQSSL_FIPS_YES'')] v"

definition MQSTAT_STR :: "int \<Rightarrow> string" where
  "MQSTAT_STR v = c_switch
     [(0, ''MQSTAT_TYPE_ASYNC_ERROR''), (1, ''MQSTAT_TYPE_RECONNECTION''),
      (2, ''MQSTAT_TYPE_RECONNECTION_ERROR'')] v"

definition MQSTDBY_STR :: "int \<Rightarrow> string" where
  "MQSTDBY_STR v = c_switch
     [(0, ''MQSTDBY_NOT_PERMITTED''), (1, ''MQSTDBY_PERMITTED'')] v"

definition MQST_STR :: "int \<Rightarrow> string" where
  "MQST_STR v = c_switch
     [(0, ''MQST_BEST_EFFORT''), (1, ''MQST_MUST_DUP'')] v"

definition MQSUBTYPE_STR :: "int \<Rightarrow> string" where
  "MQSUBTYPE_STR v = c_switch
     [(- 2, ''MQSUBTYPE_USER''), (- 1, ''MQSUBTYPE_ALL''), (1, ''MQSUBTYPE_API''),
      (2, ''MQSUBTYPE_ADMIN''), (3, ''MQSUBTYPE_PROXY'')] v"

definition MQSUB_DURABILITY_STR :: "int \<Rightarrow> string" where
  "MQSUB_DURABILITY_STR v = c_switch
     [(- 1, ''MQSUB_DURABLE_ALL''), (1, ''MQSUB_DURABLE_YES''), (2, ''MQSUB_DURABLE_NO'')] v"

definition MQSUB_STR :: "int \<Rightarrow> string" where
  "MQSUB_STR v = c_switch
     [(0, ''MQSUB_DURABLE_AS_PARENT''), (1, ''MQSUB_DURABLE_ALLOWED''),
      (2, ''MQSUB_DURABLE_INHIBITED'')] v"

definition MQSUS_STR :: "int \<Rightarrow> string" where
  "MQSUS_STR v = c_switch
     [(0, ''MQSUS_NO''), (1, ''MQSUS_YES'')] v"

definition MQSVC_CONTROL_STR :: "int \<Rightarrow> string" where
  "MQSVC_CONTROL_STR v = c_switch
     [(0, ''MQSVC_CONTROL_Q_MGR''), (1, ''MQSVC_CONTROL_Q_MGR_START''),
      (2, ''MQSVC_CONTROL_MANUAL'')] v"

definition MQSVC_STATUS_STR :: "int \<Rightarrow> string" where
  "MQSVC_STATUS_STR v = c_switch
     [(0, ''MQSVC_STATUS_STOPPED''), (1, ''MQSVC_STATUS_STARTING''),
      (2, ''MQSVC_STATUS_RUNNING''), (3, ''MQSVC_STATUS_STOPPING''),
      (4, ''MQSVC_STATUS_RETRYING'')] v"

definition MQSVC_TYPE_STR :: "int \<Rightarrow> string" where
  "MQSVC_TYPE_STR v = c_switch
     [(0, ''MQSVC_TYPE_COMMAND''), (1, ''MQSVC_TYPE_SERVER'')] v"

definition MQSYNCPOINT_STR :: "int \<Rightarrow> string" where
  "MQSYNCPOINT_STR v = c_switch
     [(0, ''MQSYNCPOINT_YES''), (1, ''MQSYNCPOINT_IFPER'')] v"

definition MQSYSOBJ_STR :: "int \<Rightarrow> string" where
  "MQSYSOBJ_STR v = c_switch
     [(0, ''MQSYSOBJ_YES''), (1, ''MQSYSOBJ_NO'')] v"

definition MQSYSP_STR :: "int \<Rightarrow> string" where
  "MQSYSP_STR v = c_switch
     [(0, ''MQSYSP_NO''), (1, ''MQSYSP_YES''), (2, ''MQSYSP_EXTENDED''),
      (10, ''MQSYSP_TYPE_INITIAL''), (11, ''MQSYSP_TYPE_SET''), (12, ''MQSYSP_TYPE_LOG_COPY''),
      (13, ''MQSYSP_TYPE_LOG_STATUS''), (14, ''MQSYSP_TYPE_ARCHIVE_TAPE''),
      (20, ''MQSYSP_ALLOC_BLK''), (21, ''MQSYSP_ALLOC_TRK''), (22, ''MQSYSP_ALLOC_CYL''),
      (30, ''MQSYSP_STATUS_BUSY''), (31, ''MQSYSP_STATUS_PREMOUNT''),
      (32, ''MQSYSP_STATUS_AVAILABLE''), (33, ''MQSYSP_STATUS_UNKNOWN''),
      (34, ''MQSYSP_STATUS_ALLOC_ARCHIVE''), (35, ''MQSYSP_STATUS_COPYING_BSDS''),
      (36, ''MQSYSP_STATUS_COPYING_LOG'')] v"

definition MQS_AVAIL_STR :: "int \<Rightarrow> string" where
  "MQS_AVAIL_STR v = c_switch
     [(0, ''MQS_AVAIL_NORMAL''), (1, ''MQS_AVAIL_ERROR''), (2, ''MQS_AVAIL_STOPPED'')] v"

definition MQS_EXPANDST_STR :: "int \<Rightarrow> string" where
  "MQS_EXPANDST_STR v = c_switch
     [(0, ''MQS_EXPANDST_NORMAL''), (1, ''MQS_EXPANDST_FAILED''), (2, ''MQS_EXPANDST_MAXIMUM'')] v"

definition MQS_OPENMODE_STR :: "int \<Rightarrow> string" where
  "MQS_OPENMODE_STR v = c_switch
     [(0, ''MQS_OPENMODE_NONE''), (1, ''MQS_OPENMODE_READONLY''), (2, ''MQS_OPENMODE_UPDATE''),
      (3, ''MQS_OPENMODE_RECOVERY'')] v"

definition MQS_STATUS_STR :: "int \<Rightarrow> string" where
  "MQS_STATUS_STR v = c_switch
     [(0, ''MQS_STATUS_CLOSED''), (1, ''MQS_STATUS_CLOSING''), (2, ''MQS_STATUS_OPENING''),
      (3, ''MQS_STATUS_OPEN''), (4, ''MQS_STATUS_NOTENABLED''), (5, ''MQS_STATUS_ALLOCFAIL''),
      (6, ''MQS_STATUS_OPENFAIL''), (7, ''MQS_STATUS_STGFAIL''), (8, ''MQS_STATUS_DATAFAIL'')] v"

definition MQTA_STR :: "int \<Rightarrow> string" where
  "MQTA_STR v = c_switch
     [(1, ''MQTA_BLOCK''), (2, ''MQTA_PASSTHRU'')] v"

definition MQTA_PROXY_STR :: "int \<Rightarrow> string" where
  "MQTA_PROXY_STR v = c_switch
     [(1, ''MQTA_PROXY_SUB_FORCE''), (2, ''MQTA_PROXY_SUB_FIRSTUSE'')] v"

definition MQTA_PUB_STR :: "int \<Rightarrow> string" where
  "MQTA_PUB_STR v = c_switch
     [(0, ''MQTA_PUB_AS_PARENT''), (1, ''MQTA_PUB_INHIBITED''), (2, ''MQTA_PUB_ALLOWED'')] v"

lemmas names_D3_defs =
  MQSO_STR_def MQSPL_STR_def MQSP_STR_def MQSQQM_STR_def MQSRO_STR_def MQSR_STR_def
  MQSSL_STR_def MQSTAT_STR_def MQSTDBY_STR_def MQST_STR_def MQSUBTYPE_STR_def
  MQSUB_DURABILITY_STR_def MQSUB_STR_def MQSUS_STR_def MQSVC_CONTROL_STR_def
  MQSVC_STATUS_STR_def MQSVC_TYPE_STR_def MQSYNCPOINT_STR_def MQSYSOBJ_STR_def MQSYSP_STR_def
  MQS_AVAIL_STR_def MQS_EXPANDST_STR_def MQS_OPENMODE_STR_def MQS_STATUS_STR_def MQTA_STR_def
  MQTA_PROXY_STR_def

lemmas names_D3_facts =
  cmqc_MQSUB_Function_cases cmqxc_MQCD_2_cases cmqc_QueueManager_Attributes_3_cases
  cmqc_QueueManager_Attributes_2_cases MQSRO_values_cases cmqc_MQSUBRQ_Function_cases
  MQSSL_FIPS_values_cases cmqc_MQSTAT_Function_cases cmqcfc_Publish_Subscribe_cases
  cmqc_Queue_Attributes_cases cmqcfc_Group_Parameter_6_cases cmqc_Subscription_Attributes_cases
  cmqc_Topic_Attributes_cases cmqc_Service_Attributes_cases cmqcfc_Integer_Parameter_6_cases

lemma names_D3:
  "list_all (names_ok a)
     [MQSO_STR, MQSPL_STR, MQSP_STR, MQSQQM_STR, MQSRO_STR, MQSR_STR, MQSSL_STR, MQSTAT_STR,
      MQSTDBY_STR, MQST_STR, MQSUBTYPE_STR, MQSUB_DURABILITY_STR, MQSUB_STR, MQSUS_STR,
      MQSVC_CONTROL_STR, MQSVC_STATUS_STR, MQSVC_TYPE_STR, MQSYNCPOINT_STR, MQSYSOBJ_STR,
      MQSYSP_STR, MQS_AVAIL_STR, MQS_EXPANDST_STR, MQS_OPENMODE_STR, MQS_STATUS_STR, MQTA_STR,
      MQTA_PROXY_STR]"
  unfolding list.pred_inject
  by (intro conjI list.pred_inject(1);
      rule names_okI, rule names_D3_defs, simp only: names_D3_facts case_simps cong: case_congs)

definition MQTA_SUB_STR :: "int \<Rightarrow> string" where
  "MQTA_SUB_STR v = c_switch
     [(0, ''MQTA_SUB_AS_PARENT''), (1, ''MQTA_SUB_INHIBITED''), (2, ''MQTA_SUB_ALLOWED'')] v"

definition MQTCPKEEP_STR :: "int \<Rightarrow> string" where
  "MQTCPKEEP_STR v = c_switch
     [(0, ''MQTCPKEEP_NO''), (1, ''MQTCPKEEP_YES'')] v"

definition MQTCPSTACK_STR :: "int \<Rightarrow> string" where
  "MQTCPSTACK_STR v = c_switch
     [(0, ''MQTCPSTACK_SINGLE''), (1, ''MQTCPSTACK_MULTIPLE'')] v"

definition MQTC_STR :: "int \<Rightarrow> string" where
  "MQTC_STR v = c_switch
     [(0, ''MQTC_OFF''), (1, ''MQTC_ON'')] v"

definition MQTIME_STR :: "int \<Rightarrow> string" where
  "MQTIME_STR v = c_switch
     [(0, ''MQTIME_UNIT_MINS''), (1, ''MQTIME_UNIT_SECS'')] v"

definition MQTOPT_STR :: "int \<Rightarrow> string" where
  "MQTOPT_STR v = c_switch
     [(0, ''MQTOPT_LOCAL''), (1, ''MQTOPT_CLUSTER''), (2, ''MQTOPT_ALL'')] v"

definition MQTRAXSTR_STR :: "int \<Rightarrow> string" where
  "MQTRAXSTR_STR v = c_switch
     [(0, ''MQTRAXSTR_NO''), (1, ''MQTRAXSTR_YES'')] v"

definition MQTRIGGER_STR :: "int \<Rightarrow> string" where
  "MQTRIGGER_STR v = c_switch
     [(0, ''MQTRIGGER_RESTART_NO''), (1, ''MQTRIGGER_RESTART_YES'')] v"

definition MQTSCOPE_STR :: "int \<Rightarrow> string" where
  "MQTSCOPE_STR v = c_switch
     [(1, ''MQTSCOPE_QMGR''), (2, ''MQTSCOPE_ALL'')] v"

definition MQTT_STR :: "int \<Rightarrow> string" where
  "MQTT_STR v = c_switch
     [(0, ''MQTT_NONE''), (1, ''MQTT_FIRST''), (2, ''MQTT_EVERY''), (3, ''MQTT_DEPTH'')] v"

definition MQTYPE_STR :: "int \<Rightarrow> string" where
  "MQTYPE_STR v = c_switch
     [(0, ''MQTYPE_AS_SET''), (2, ''MQTYPE_NULL''), (4, ''MQTYPE_BOOLEAN''),
      (8, ''MQTYPE_BYTE_STRING''), (16, ''MQTYPE_INT8''), (32, ''MQTYPE_INT16''),
      (64, ''MQTYPE_INT32''), (128, ''MQTYPE_INT64''), (256, ''MQTYPE_FLOAT32''),
      (512, ''MQTYPE_FLOAT64''), (1024, ''MQTYPE_STRING'')] v"

definition MQUCI_STR :: "int \<Rightarrow> string" where
  "MQUCI_STR v = c_switch
     [(0, ''MQUCI_NO''), (1, ''MQUCI_YES'')] v"

definition MQUIDSUPP_STR :: "int \<Rightarrow> string" where
  "MQUIDSUPP_STR v = c_switch
     [(0, ''MQUIDSUPP_NO''), (1, ''MQUIDSUPP_YES'')] v"

definition MQUNDELIVERED_STR :: "int \<Rightarrow> string" where
  "MQUNDELIVERED_STR v = c_switch
     [(0, ''MQUNDELIVERED_NORMAL''), (1, ''MQUNDELIVERED_SAFE''),
      (2, ''MQUNDELIVERED_DISCARD''), (3, ''MQUNDELIVERED_KEEP'')] v"

definition MQUOWST_STR :: "int \<Rightarrow> string" where
  "MQUOWST_STR v = c_switch
     [(0, ''MQUOWST_NONE''), (1, ''MQUOWST_ACTIVE''), (2, ''MQUOWST_PREPARED''),
      (3, ''MQUOWST_UNRESOLVED'')] v"

definition MQUOWT_STR :: "int \<Rightarrow> string" where
  "MQUOWT_STR v = c_switch
     [(0, ''MQUOWT_Q_MGR''), (1, ''MQUOWT_CICS''), (2, ''MQUOWT_RRS''), (3, ''MQUOWT_IMS''),
      (4, ''MQUOWT_XA'')] v"

definition MQUSAGE_DS_STR :: "int \<Rightarrow> string" where
  "MQUSAGE_DS_STR v = c_switch
     [(10, ''MQUSAGE_DS_OLDEST_ACTIVE_UOW''), (11, ''MQUSAGE_DS_OLDEST_PS_RECOVERY''),
      (12, ''MQUSAGE_DS_OLDEST_CF_RECOVERY'')] v"

definition MQUSAGE_EXPAND_STR :: "int \<Rightarrow> string" where
  "MQUSAGE_EXPAND_STR v = c_switch
     [(1, ''MQUSAGE_EXPAND_USER''), (2, ''MQUSAGE_EXPAND_SYSTEM''), (3, ''MQUSAGE_EXPAND_NONE'')] v"

definition MQUSAGE_PS_STR :: "int \<Rightarrow> string" where
  "MQUSAGE_PS_STR v = c_switch
     [(0, ''MQUSAGE_PS_AVAILABLE''), (1, ''MQUSAGE_PS_DEFINED''), (2, ''MQUSAGE_PS_OFFLINE''),
      (3, ''MQUSAGE_PS_NOT_DEFINED''), (4, ''MQUSAGE_PS_SUSPENDED'')] v"

definition MQUSAGE_SMDS_STR :: "int \<Rightarrow> string" where
  "MQUSAGE_SMDS_STR v = c_switch
     [(0, ''MQUSAGE_SMDS_AVAILABLE''), (1, ''MQUSAGE_SMDS_NO_DATA'')] v"

definition MQUSEDLQ_STR :: "int \<Rightarrow> string" where
  "MQUSEDLQ_STR v = c_switch
     [(0, ''MQUSEDLQ_AS_PARENT''), (1, ''MQUSEDLQ_NO''), (2, ''MQUSEDLQ_YES'')] v"

definition MQUSRC_STR :: "int \<Rightarrow> string" where
  "MQUSRC_STR v = c_switch
     [(0, ''MQUSRC_MAP''), (1, ''MQUSRC_NOACCESS''), (2, ''MQUSRC_CHANNEL'')] v"

definition MQUS_STR :: "int \<Rightarrow> string" where
  "MQUS_STR v = c_switch
     [(0, ''MQUS_NORMAL''), (1, ''MQUS_TRANSMISSION'')] v"

definition MQVL_STR :: "int \<Rightarrow> string" where
  "MQVL_STR v = c_switch
     [(- 1, ''MQVL_NULL_TERMINATED''), (0, ''MQVL_EMPTY_STRING'')] v"

definition MQVS_STR :: "int \<Rightarrow> string" where
  "MQVS_STR v = c_switch
     [(- 1, ''MQVS_NULL_TERMINATED'')] v"

definition MQVU_STR :: "int \<Rightarrow> string" where
  "MQVU_STR v = c_switch
     [(1, ''MQVU_FIXED_USER''), (2, ''MQVU_ANY_USER'')] v"

definition MQWARN_STR :: "int \<Rightarrow> string" where
  "MQWARN_STR v = c_switch
     [(0, ''MQWARN_NO''), (1, ''MQWARN_YES'')] v"

definition MQWIH_STR :: "int \<Rightarrow> string" where
  "MQWIH_STR v = c_switch
     [(0, ''MQWIH_NONE'')] v"

definition MQWI_STR :: "int \<Rightarrow> string" where
  "MQWI_STR v = c_switch
     [(- 1, ''MQWI_UNLIMITED'')] v"

definition MQWS_STR :: "int \<Rightarrow> string" where
  "MQWS_STR v = c_switch
     [(0, ''MQWS_DEFAULT''), (1, ''MQWS_CHAR''), (2, ''MQWS_TOPIC'')] v"

definition MQWXP_STR :: "int \<Rightarrow> string" where
  "MQWXP_STR v = c_switch
     [(2, ''MQWXP_PUT_BY_CLUSTER_CHL'')] v"

definition MQXACT_STR :: "int \<Rightarrow> string" where
  "MQXACT_STR v = c_switch
     [(1, ''MQXACT_EXTERNAL''), (2, ''MQXACT_INTERNAL'')] v"

definition MQXCC_STR :: "int \<Rightarrow> string" where
  "MQXCC_STR v = c_switch
     [(- 8, ''MQXCC_FAILED''), (- 7, ''MQXCC_REQUEST_ACK''), (- 6, ''MQXCC_CLOSE_CHANNEL''),
      (- 5, ''MQXCC_SUPPRESS_EXIT''), (- 4, ''MQXCC_SEND_SEC_MSG''),
      (- 3, ''MQXCC_SEND_AND_REQUEST_SEC_MSG''), (- 2, ''MQXCC_SKIP_FUNCTION''),
      (- 1, ''MQXCC_SUPPRESS_FUNCTION''), (0, ''MQXCC_OK'')] v"

text \<open>The codes of \<open>MQXC_STR\<close> are not macros of any of the headers here.\<close>

definition MQXC_STR :: "int \<Rightarrow> string" where
  "MQXC_STR v = c_switch
     [(1, ''MQXC_MQOPEN''), (2, ''MQXC_MQCLOSE''), (3, ''MQXC_MQGET''), (4, ''MQXC_MQPUT''),
      (5, ''MQXC_MQPUT1''), (6, ''MQXC_MQINQ''), (8, ''MQXC_MQSET''), (9, ''MQXC_MQBACK''),
      (10, ''MQXC_MQCMIT''), (42, ''MQXC_MQSUB''), (43, ''MQXC_MQSUBRQ''), (44, ''MQXC_MQCB''),
      (45, ''MQXC_MQCTL''), (46, ''MQXC_MQSTAT''), (48, ''MQXC_CALLBACK'')] v"

definition MQXDR_STR :: "int \<Rightarrow> string" where
  "MQXDR_STR v = c_switch
     [(0, ''MQXDR_OK''), (1, ''MQXDR_CONVERSION_FAILED'')] v"

definition MQXEPO_STR :: "int \<Rightarrow> string" where
  "MQXEPO_STR v = c_switch
     [(0, ''MQXEPO_NONE'')] v"

definition MQXE_STR :: "int \<Rightarrow> string" where
  "MQXE_STR v = c_switch
     [(0, ''MQXE_OTHER''), (1, ''MQXE_MCA''), (2, ''MQXE_MCA_SVRCONN''),
      (3, ''MQXE_COMMAND_SERVER''), (4, ''MQXE_MQSC''), (5, ''MQXE_MCA_CLNTCONN'')] v"

definition MQXF_STR :: "int \<Rightarrow> string" where
  "MQXF_STR v = c_switch
     [(1, ''MQXF_INIT''), (2, ''MQXF_TERM''), (3, ''MQXF_CONN''), (4, ''MQXF_CONNX''),
      (5, ''MQXF_DISC''), (6, ''MQXF_OPEN''), (7, ''MQXF_CLOSE''), (8, ''MQXF_PUT1''),
      (9, ''MQXF_PUT''), (10, ''MQXF_GET''), (11, ''MQXF_DATA_CONV_ON_GET''),
      (12, ''MQXF_INQ''), (13, ''MQXF_SET''), (14, ''MQXF_BEGIN''), (15, ''MQXF_CMIT''),
      (16, ''MQXF_BACK''), (18, ''MQXF_STAT''), (19, ''MQXF_CB''), (20, ''MQXF_CTL''),
      (21, ''MQXF_CALLBACK''), (22, ''MQXF_SUB''), (23, ''MQXF_SUBRQ''), (24, ''MQXF_XACLOSE''),
      (25, ''MQXF_XACOMMIT''), (26, ''MQXF_XACOMPLETE''), (27, ''MQXF_XAEND''),
      (28, ''MQXF_XAFORGET''), (29, ''MQXF_XAOPEN''), (30, ''MQXF_XAPREPARE''),
      (31, ''MQXF_XARECOVER''), (32, ''MQXF_XAROLLBACK''), (33, ''MQXF_XASTART''),
      (34, ''MQXF_AXREG''), (35, ''MQXF_AXUNREG'')] v"

lemmas names_D4_defs =
  MQTA_PUB_STR_def MQTA_SUB_STR_def MQTCPKEEP_STR_def MQTCPSTACK_STR_def MQTC_STR_def
  MQTIME_STR_def MQTOPT_STR_def MQTRAXSTR_STR_def MQTRIGGER_STR_def MQTSCOPE_STR_def
  MQTT_STR_def MQTYPE_STR_def MQUCI_STR_def MQUIDSUPP_STR_def MQUNDELIVERED_STR_def
  MQUOWST_STR_def MQUOWT_STR_def MQUSAGE_DS_STR_def MQUSAGE_EXPAND_STR_def MQUSAGE_PS_STR_def
  MQUSAGE_SMDS_STR_def MQUSEDLQ_STR_def MQUSRC_STR_def MQUS_STR_def MQVL_STR_def MQVS_STR_def
  MQVU_STR_def MQWARN_STR_def MQWIH_STR_def MQWI_STR_def MQWS_STR_def MQWXP_STR_def
  MQXACT_STR_def MQXCC_STR_def MQXDR_STR_def MQXEPO_STR_def MQXE_STR_def

lemmas names_D4_facts =
  cmqc_Topic_Attributes_cases cmqc_QueueManager_Attributes_3_cases cmqc_Queue_Attributes_cases
  cmqcfc_Group_Parameter_7_cases cmqc_Subscription_Attributes_cases cmqc_MQSETMP_Function_cases
  cmqcfc_Group_Parameter_3_cases cmqcfc_Integer_Parameter_6_cases
  cmqc_Channel_Authentication_Configuration_1_cases MQCHARV_values_cases MQWIH_values_cases
  MQGMO_values_cases cmqxc_MQWXP_cases cmqxc_MQAXP_cases cmqxc_MQXEPO_2_cases cmqxc_MQDXP_cases
  cmqxc_MQXEPO_1_cases cmqxc_MQAXC_cases

lemma names_D4:
  "list_all (names_ok a)
     [MQTA_PUB_STR, MQTA_SUB_STR, MQTCPKEEP_STR, MQTCPSTACK_STR, MQTC_STR, MQTIME_STR,
      MQTOPT_STR, MQTRAXSTR_STR, MQTRIGGER_STR, MQTSCOPE_STR, MQTT_STR, MQTYPE_STR, MQUCI_STR,
      MQUIDSUPP_STR, MQUNDELIVERED_STR, MQUOWST_STR, MQUOWT_STR, MQUSAGE_DS_STR,
      MQUSAGE_EXPAND_STR, MQUSAGE_PS_STR, MQUSAGE_SMDS_STR, MQUSEDLQ_STR, MQUSRC_STR, MQUS_STR,
      MQVL_STR, MQVS_STR, MQVU_STR, MQWARN_STR, MQWIH_STR, MQWI_STR, MQWS_STR, MQWXP_STR,
      MQXACT_STR, MQXCC_STR, MQXDR_STR, MQXEPO_STR, MQXE_STR]"
  unfolding list.pred_inject
  by (intro conjI list.pred_inject(1);
      rule names_okI, rule names_D4_defs, simp only: names_D4_facts case_simps cong: case_congs)

definition MQXPT_STR :: "int \<Rightarrow> string" where
  "MQXPT_STR v = c_switch
     [(- 1, ''MQXPT_ALL''), (0, ''MQXPT_LOCAL''), (1, ''MQXPT_LU62''), (2, ''MQXPT_TCP''),
      (3, ''MQXPT_NETBIOS''), (4, ''MQXPT_SPX''), (5, ''MQXPT_DECNET''), (6, ''MQXPT_UDP'')] v"

definition MQXR2_STR :: "int \<Rightarrow> string" where
  "MQXR2_STR v = c_switch
     [(0, ''MQXR2_DEFAULT_CONTINUATION''), (1, ''MQXR2_PUT_WITH_DEF_USERID''),
      (2, ''MQXR2_PUT_WITH_MSG_USERID''), (4, ''MQXR2_USE_EXIT_BUFFER''),
      (8, ''MQXR2_CONTINUE_CHAIN''), (16, ''MQXR2_SUPPRESS_CHAIN''),
      (32, ''MQXR2_DYNAMIC_CACHE'')] v"

definition MQXR_STR :: "int \<Rightarrow> string" where
  "MQXR_STR v = c_switch
     [(1, ''MQXR_BEFORE''), (2, ''MQXR_AFTER''), (3, ''MQXR_CONNECTION''),
      (4, ''MQXR_BEFORE_CONVERT''), (11, ''MQXR_INIT''), (12, ''MQXR_TERM''),
      (13, ''MQXR_MSG''), (14, ''MQXR_XMIT''), (15, ''MQXR_SEC_MSG''), (16, ''MQXR_INIT_SEC''),
      (17, ''MQXR_RETRY''), (18, ''MQXR_AUTO_CLUSSDR''), (19, ''MQXR_AUTO_RECEIVER''),
      (20, ''MQXR_CLWL_OPEN''), (21, ''MQXR_CLWL_PUT''), (22, ''MQXR_CLWL_MOVE''),
      (23, ''MQXR_CLWL_REPOS''), (24, ''MQXR_CLWL_REPOS_MOVE''), (25, ''MQXR_END_BATCH''),
      (26, ''MQXR_ACK_RECEIVED''), (27, ''MQXR_AUTO_SVRCONN''), (28, ''MQXR_AUTO_CLUSRCVR''),
      (29, ''MQXR_SEC_PARMS''), (30, ''MQXR_PUBLICATION''), (31, ''MQXR_PRECONNECT'')] v"

definition MQXT_STR :: "int \<Rightarrow> string" where
  "MQXT_STR v = c_switch
     [(1, ''MQXT_API_CROSSING_EXIT''), (2, ''MQXT_API_EXIT''), (11, ''MQXT_CHANNEL_SEC_EXIT''),
      (12, ''MQXT_CHANNEL_MSG_EXIT''), (13, ''MQXT_CHANNEL_SEND_EXIT''),
      (14, ''MQXT_CHANNEL_RCV_EXIT''), (15, ''MQXT_CHANNEL_MSG_RETRY_EXIT''),
      (16, ''MQXT_CHANNEL_AUTO_DEF_EXIT''), (20, ''MQXT_CLUSTER_WORKLOAD_EXIT''),
      (21, ''MQXT_PUBSUB_ROUTING_EXIT''), (22, ''MQXT_PUBLISH_EXIT''),
      (23, ''MQXT_PRECONNECT_EXIT'')] v"

definition MQZAET_STR :: "int \<Rightarrow> string" where
  "MQZAET_STR v = c_switch
     [(0, ''MQZAET_NONE''), (1, ''MQZAET_PRINCIPAL''), (2, ''MQZAET_GROUP''),
      (3, ''MQZAET_UNKNOWN'')] v"

definition MQZAO_STR :: "int \<Rightarrow> string" where
  "MQZAO_STR v = c_switch
     [(0, ''MQZAO_NONE''), (1, ''MQZAO_CONNECT''), (2, ''MQZAO_BROWSE''), (4, ''MQZAO_INPUT''),
      (8, ''MQZAO_OUTPUT''), (16, ''MQZAO_INQUIRE''), (32, ''MQZAO_SET''),
      (64, ''MQZAO_PASS_IDENTITY_CONTEXT''), (128, ''MQZAO_PASS_ALL_CONTEXT''),
      (256, ''MQZAO_SET_IDENTITY_CONTEXT''), (512, ''MQZAO_SET_ALL_CONTEXT''),
      (1024, ''MQZAO_ALTERNATE_USER_AUTHORITY''), (2048, ''MQZAO_PUBLISH''),
      (4096, ''MQZAO_SUBSCRIBE''), (8192, ''MQZAO_RESUME''), (16383, ''MQZAO_ALL_MQI''),
      (65536, ''MQZAO_CREATE''), (131072, ''MQZAO_DELETE''), (262144, ''MQZAO_DISPLAY''),
      (524288, ''MQZAO_CHANGE''), (1048576, ''MQZAO_CLEAR''), (2097152, ''MQZAO_CONTROL''),
      (4194304, ''MQZAO_CONTROL_EXTENDED''), (8388608, ''MQZAO_AUTHORIZE''),
      (16646144, ''MQZAO_ALL_ADMIN''), (16777216, ''MQZAO_REMOVE''),
      (33554432, ''MQZAO_SYSTEM''), (50216959, ''MQZAO_ALL''), (67108864, ''MQZAO_CREATE_ONLY'')] v"

lemmas names_D5_defs =
  MQXF_STR_def MQXPT_STR_def MQXR2_STR_def MQXR_STR_def MQXT_STR_def MQZAET_STR_def

lemmas names_D5_facts =
  cmqxc_MQAXP_cases cmqxc_MQCD_1_cases cmqxc_MQCXP_cases cmqxc_MQXEPO_2_cases
  cmqzc_Authority_Service_cases

lemma names_D5:
  "list_all (names_ok a)
     [MQXF_STR, MQXPT_STR, MQXR2_STR, MQXR_STR, MQXT_STR, MQZAET_STR]"
  unfolding list.pred_inject
  by (intro conjI list.pred_inject(1);
      rule names_okI, rule names_D5_defs, simp only: names_D5_facts case_simps cong: case_congs)

definition MQZAT_STR :: "int \<Rightarrow> string" where
  "MQZAT_STR v = c_switch
     [(0, ''MQZAT_INITIAL_CONTEXT''), (1, ''MQZAT_CHANGE_CONTEXT'')] v"

definition MQZCI_STR :: "int \<Rightarrow> string" where
  "MQZCI_STR v = c_switch
     [(0, ''MQZCI_CONTINUE''), (1, ''MQZCI_STOP'')] v"

definition MQZID_AUTHORITY_STR :: "int \<Rightarrow> string" where
  "MQZID_AUTHORITY_STR v = c_switch
     [(0, ''MQZID_INIT_AUTHORITY''), (1, ''MQZID_TERM_AUTHORITY''),
      (2, ''MQZID_CHECK_AUTHORITY''), (3, ''MQZID_COPY_ALL_AUTHORITY''),
      (4, ''MQZID_DELETE_AUTHORITY''), (5, ''MQZID_SET_AUTHORITY''),
      (6, ''MQZID_GET_AUTHORITY''), (7, ''MQZID_GET_EXPLICIT_AUTHORITY''),
      (8, ''MQZID_REFRESH_CACHE''), (9, ''MQZID_ENUMERATE_AUTHORITY_DATA''),
      (10, ''MQZID_AUTHENTICATE_USER''), (11, ''MQZID_FREE_USER''), (12, ''MQZID_INQUIRE''),
      (13, ''MQZID_CHECK_PRIVILEGED'')] v"

definition MQZID_NAME_STR :: "int \<Rightarrow> string" where
  "MQZID_NAME_STR v = c_switch
     [(0, ''MQZID_INIT_NAME''), (1, ''MQZID_TERM_NAME''), (2, ''MQZID_LOOKUP_NAME''),
      (3, ''MQZID_INSERT_NAME''), (4, ''MQZID_DELETE_NAME'')] v"

definition MQZID_USERID_STR :: "int \<Rightarrow> string" where
  "MQZID_USERID_STR v = c_switch
     [(0, ''MQZID_INIT_USERID''), (1, ''MQZID_TERM_USERID''), (2, ''MQZID_FIND_USERID'')] v"

definition MQZID_STR :: "int \<Rightarrow> string" where
  "MQZID_STR v = c_switch
     [(0, ''MQZID_INIT''), (1, ''MQZID_TERM'')] v"

definition MQZIO_STR :: "int \<Rightarrow> string" where
  "MQZIO_STR v = c_switch
     [(0, ''MQZIO_PRIMARY''), (1, ''MQZIO_SECONDARY'')] v"

definition MQZSE_STR :: "int \<Rightarrow> string" where
  "MQZSE_STR v = c_switch
     [(0, ''MQZSE_CONTINUE''), (1, ''MQZSE_START'')] v"

definition MQZSL_STR :: "int \<Rightarrow> string" where
  "MQZSL_STR v = c_switch
     [(0, ''MQZSL_NOT_RETURNED''), (1, ''MQZSL_RETURNED'')] v"

definition MQZTO_STR :: "int \<Rightarrow> string" where
  "MQZTO_STR v = c_switch
     [(0, ''MQZTO_PRIMARY''), (1, ''MQZTO_SECONDARY'')] v"

definition MQ_CERT_STR :: "int \<Rightarrow> string" where
  "MQ_CERT_STR v = c_switch
     [(0, ''MQ_CERT_VAL_POLICY_ANY''), (1, ''MQ_CERT_VAL_POLICY_RFC5280'')] v"

definition MQ_MQTT_STR :: "int \<Rightarrow> string" where
  "MQ_MQTT_STR v = c_switch
     [(65536, ''MQ_MQTT_MAX_KEEP_ALIVE'')] v"

definition MQ_SUITE_STR :: "int \<Rightarrow> string" where
  "MQ_SUITE_STR v = c_switch
     [(0, ''MQ_SUITE_B_NOT_AVAILABLE''), (1, ''MQ_SUITE_B_NONE''), (2, ''MQ_SUITE_B_128_BIT''),
      (4, ''MQ_SUITE_B_192_BIT'')] v"

lemmas names_D6_defs =
  MQZAO_STR_def MQZAT_STR_def MQZCI_STR_def MQZID_AUTHORITY_STR_def MQZID_NAME_STR_def
  MQZID_USERID_STR_def MQZID_STR_def MQZIO_STR_def MQZSE_STR_def MQZSL_STR_def MQZTO_STR_def
  MQ_CERT_STR_def MQ_MQTT_STR_def MQ_SUITE_STR_def

lemmas names_D6_facts =
  cmqzc_Authority_Service_cases cmqzc_MQZAC_cases cmqzc_All_Services_cases
  cmqzc_MQZEP_Function_cases MQSCO_values_cases
  cmqc_Channel_Authentication_Configuration_2_cases

lemma names_D6:
  "list_all (names_ok a)
     [MQZAO_STR, MQZAT_STR, MQZCI_STR, MQZID_AUTHORITY_STR, MQZID_NAME_STR, MQZID_USERID_STR,
      MQZID_STR, MQZIO_STR, MQZSE_STR, MQZSL_STR, MQZTO_STR, MQ_CERT_STR, MQ_MQTT_STR,
      MQ_SUITE_STR]"
  unfolding list.pred_inject
  by (intro conjI list.pred_inject(1);
      rule names_okI, rule names_D6_defs, simp only: names_D6_facts case_simps cong: case_congs)

end
