(* ===== verification/Mqi_Names.thy ===== *)
theory Mqi_Names
  imports Mqi_Names_A Mqi_Names_B Mqi_Names_C Mqi_Names_D
begin

text \<open>
  The name functions of \<open>cmqstrc.h\<close> together: what they return are macros with the value they
  were given, and they name every reason code.
\<close>

section \<open>Reason codes\<close>

text \<open>
  Every reason code of \<open>cmqc.h\<close> has a name, the two bounds of the range left to applications
  excepted.
\<close>

definition reason_named :: "int \<Rightarrow> bool" where
  "reason_named v \<longleftrightarrow> v = 900 \<or> v = 999 \<or> MQRC_STR v \<noteq> []"

fun reason_entry :: "string \<times> cexpr \<Rightarrow> bool" where
  "reason_entry (n, Num v) = reason_named v"
| "reason_entry (n, _) = False"

lemma c_switch_cases_named:
  "list_all (\<lambda>c. snd c \<noteq> []) cs \<Longrightarrow> list_all (\<lambda>c. c_switch cs (fst c) \<noteq> []) cs"
  by (simp add: list_all_iff c_switch_named)

lemma MQRC_cases_nonempty:
  "list_all (\<lambda>c. snd c \<noteq> []) (MQRC_cases_1 @ MQRC_cases_2 @ MQRC_cases_3 @ MQRC_cases_4 @ MQRC_cases_5)"
  unfolding list_all_append MQRC_cases_1_def MQRC_cases_2_def MQRC_cases_3_def MQRC_cases_4_def
    MQRC_cases_5_def list.pred_inject snd_conv
  by (simp only: list.distinct simp_thms list.pred_inject)

definition case_named :: "int \<times> string \<Rightarrow> bool" where
  "case_named c \<longleftrightarrow> reason_named (fst c)"

lemma case_named_conv: "case_named (v, n) = reason_named v"
  by (simp add: case_named_def)

lemma MQRC_cases_named:
  "list_all case_named (MQRC_cases_1 @ MQRC_cases_2 @ MQRC_cases_3 @ MQRC_cases_4 @ MQRC_cases_5)"
  using c_switch_cases_named [OF MQRC_cases_nonempty]
  unfolding list_all_iff case_named_def reason_named_def MQRC_STR_def by blast

lemmas MQRC_labels = MQRC_cases_named [unfolded list_all_append MQRC_cases_1_def MQRC_cases_2_def
  MQRC_cases_3_def MQRC_cases_4_def MQRC_cases_5_def list.pred_inject case_named_conv]

lemma reason_named_appl: "reason_named 900" "reason_named 999"
  by (simp_all add: reason_named_def)

lemma reason_named_block: "reason_named v = reason_named v" ..

lemmas reason_simps = MQRC_labels reason_named_appl list.pred_inject simp_thms reason_entry.simps

lemma MQRC_values_1_named: "list_all reason_entry (MQRC_values_1 a)"
  unfolding MQRC_values_1_def by (simp only: reason_simps cong: reason_named_block)

lemma MQRC_values_2_named: "list_all reason_entry (MQRC_values_2 a)"
  unfolding MQRC_values_2_def by (simp only: reason_simps cong: reason_named_block)

lemma MQRC_values_3_named: "list_all reason_entry (MQRC_values_3 a)"
  unfolding MQRC_values_3_def by (simp only: reason_simps cong: reason_named_block)

lemma MQRC_values_4_named: "list_all reason_entry (MQRC_values_4 a)"
  unfolding MQRC_values_4_def by (simp only: reason_simps cong: reason_named_block)

lemma MQRC_values_5_named: "list_all reason_entry (MQRC_values_5 a)"
  unfolding MQRC_values_5_def by (simp only: reason_simps cong: reason_named_block)

lemmas reasons_named = MQRC_values_1_named MQRC_values_2_named MQRC_values_3_named MQRC_values_4_named MQRC_values_5_named

section \<open>Names without a macro\<close>

text \<open>\<open>MQXC_STR\<close> names codes of a header that is not in this distribution: no macro starts with \<open>MQXC_\<close>.\<close>

fun starts :: "string \<Rightarrow> string \<Rightarrow> bool" where
  "starts [] n = True"
| "starts (p # ps) [] = False"
| "starts (p # ps) (c # cs) = (if p = c then starts ps cs else False)"

definition not_MQXC :: "string \<times> cexpr \<Rightarrow> bool" where
  "not_MQXC e \<longleftrightarrow> \<not> starts ''MQXC_'' (fst e)"

lemma not_MQXC_MQ: "not_MQXC (CHR ''M'' # CHR ''Q'' # n, e) = (\<not> starts ''XC_'' n)"
  by (simp add: not_MQXC_def)

lemma starts_same: "starts (c # ps) (c # cs) = starts ps cs"
  by simp

lemma starts_diff: "p \<noteq> c \<Longrightarrow> starts (p # ps) (c # cs) = False"
  by simp

lemma not_MQXC_block: "not_MQXC e = not_MQXC e" ..

lemmas MQXC_simps = list.pred_inject not_MQXC_MQ starts.simps(1,2) starts_diff starts_same char.inject simp_thms

lemma no_MQXC_1:
  "list_all (list_all not_MQXC)
     [MQAIR_values a, MQBNO_values a, MQBMHO_values a, MQBO_values a, MQCBC_values a,
      MQCBD_values a, MQCHARV_values a, MQCIH_values a, MQCMHO_values a, MQCTLO_values a,
      MQSCO_values a, MQCSP_values a, MQCNO_values a, MQDH_values a, MQDLH_values a,
      MQDMHO_values a, MQDMPO_values a, MQGMO_values a, MQIIH_values a, MQIMPO_values a,
      MQMD_values_1 a, MQMD_values_2 a, MQMD_values_3 a, MQMDE_values a, MQMD1_values a,
      MQMD2_values a, MQMHBO_values a, MQOD_values a, MQPD_values a, MQPMO_values a,
      MQRFH_values a, MQRFH2_values a, MQRMH_values a, MQSD_values a, MQSMPO_values a,
      MQSRO_values a, MQSTS_values a, MQTM_values a, MQTMC2_values a, MQWIH_values a]"
  by (simp only: MQXC_simps
      MQAIR_values_def MQBNO_values_def MQBMHO_values_def MQBO_values_def MQCBC_values_def
      MQCBD_values_def MQCHARV_values_def MQCIH_values_def MQCMHO_values_def MQCTLO_values_def
      MQSCO_values_def MQCSP_values_def MQCNO_values_def MQDH_values_def MQDLH_values_def
      MQDMHO_values_def MQDMPO_values_def MQGMO_values_def MQIIH_values_def MQIMPO_values_def
      MQMD_values_1_def MQMD_values_2_def MQMD_values_3_def MQMDE_values_def MQMD1_values_def
      MQMD2_values_def MQMHBO_values_def MQOD_values_def MQPD_values_def MQPMO_values_def
      MQRFH_values_def MQRFH2_values_def MQRMH_values_def MQSD_values_def MQSMPO_values_def
      MQSRO_values_def MQSTS_values_def MQTM_values_def MQTMC2_values_def MQWIH_values_def
      cong: not_MQXC_block)

lemma no_MQXC_2:
  "list_all (list_all not_MQXC)
     [MQXQH_values a, MQCC_values a, MQSSL_FIPS_values a, MQHM_values a, MQRC_values_1 a,
      MQRC_values_2 a, MQRC_values_3 a, MQRC_values_4 a, MQRC_values_5 a,
      cmqc_All_Functions_1 a, cmqc_All_Functions_2 a, cmqc_All_Functions_3 a,
      cmqc_Queue_Attributes a, cmqc_Namelist_Attributes a, cmqc_CF_Structure_Attributes a,
      cmqc_Service_Attributes a, cmqc_QueueManager_Attributes_1 a,
      cmqc_QueueManager_Attributes_2 a, cmqc_QueueManager_Attributes_3 a,
      cmqc_Topic_Attributes a, cmqc_Subscription_Attributes a,
      cmqc_Channel_Authentication_Configuration_1 a,
      cmqc_Channel_Authentication_Configuration_2 a, cmqc_MQCLOSE_Function a,
      cmqc_MQCTL_and_MQCB_Functions a, cmqc_MQINQ_Function_1 a, cmqc_MQINQ_Function_2 a,
      cmqc_MQINQ_Function_3 a, cmqc_MQINQ_Function_4 a, cmqc_MQINQ_Function_5 a,
      cmqc_MQINQ_Function_6 a, cmqc_MQOPEN_Function a, cmqc_MQSETMP_Function a,
      cmqc_MQSTAT_Function a, cmqc_MQSUB_Function a, cmqc_MQSUBRQ_Function a, cmqcfc_MQCFH_1 a,
      cmqcfc_MQCFH_2 a, cmqcfc_MQCFH_3 a, cmqcfc_MQCFH_4 a]"
  by (simp only: MQXC_simps
      MQXQH_values_def MQCC_values_def MQSSL_FIPS_values_def MQHM_values_def MQRC_values_1_def
      MQRC_values_2_def MQRC_values_3_def MQRC_values_4_def MQRC_values_5_def
      cmqc_All_Functions_1_def cmqc_All_Functions_2_def cmqc_All_Functions_3_def
      cmqc_Queue_Attributes_def cmqc_Namelist_Attributes_def cmqc_CF_Structure_Attributes_def
      cmqc_Service_Attributes_def cmqc_QueueManager_Attributes_1_def
      cmqc_QueueManager_Attributes_2_def cmqc_QueueManager_Attributes_3_def
      cmqc_Topic_Attributes_def cmqc_Subscription_Attributes_def
      cmqc_Channel_Authentication_Configuration_1_def
      cmqc_Channel_Authentication_Configuration_2_def cmqc_MQCLOSE_Function_def
      cmqc_MQCTL_and_MQCB_Functions_def cmqc_MQINQ_Function_1_def cmqc_MQINQ_Function_2_def
      cmqc_MQINQ_Function_3_def cmqc_MQINQ_Function_4_def cmqc_MQINQ_Function_5_def
      cmqc_MQINQ_Function_6_def cmqc_MQOPEN_Function_def cmqc_MQSETMP_Function_def
      cmqc_MQSTAT_Function_def cmqc_MQSUB_Function_def cmqc_MQSUBRQ_Function_def
      cmqcfc_MQCFH_1_def cmqcfc_MQCFH_2_def cmqcfc_MQCFH_3_def cmqcfc_MQCFH_4_def
      cong: not_MQXC_block)

lemma no_MQXC_3:
  "list_all (list_all not_MQXC)
     [cmqcfc_MQCFH_5 a, cmqcfc_MQCFH_6 a, cmqcfc_MQCFH_7 a, cmqcfc_MQCFBF a, cmqcfc_MQCFBS a,
      cmqcfc_MQCFGR a, cmqcfc_MQCFIF a, cmqcfc_MQCFIL a, cmqcfc_MQCFIL64 a, cmqcfc_MQCFIN a,
      cmqcfc_MQCFIN64 a, cmqcfc_MQCFSF a, cmqcfc_MQCFSL a, cmqcfc_MQCFST a, cmqcfc_MQEPH a,
      cmqcfc_All a, cmqcfc_Byte_Parameter a, cmqcfc_Integer_Parameter_1 a,
      cmqcfc_Integer_Parameter_2 a, cmqcfc_Integer_Parameter_3 a, cmqcfc_Integer_Parameter_4 a,
      cmqcfc_Integer_Parameter_5 a, cmqcfc_Integer_Parameter_6 a, cmqcfc_Integer_Parameter_7 a,
      cmqcfc_Integer_Parameter_8 a, cmqcfc_Character_Parameter_1 a,
      cmqcfc_Character_Parameter_2 a, cmqcfc_Character_Parameter_3 a,
      cmqcfc_Character_Parameter_4 a, cmqcfc_Group_Parameter_1 a, cmqcfc_Group_Parameter_2 a,
      cmqcfc_Group_Parameter_3 a, cmqcfc_Group_Parameter_4 a, cmqcfc_Group_Parameter_5 a,
      cmqcfc_Group_Parameter_6 a, cmqcfc_Group_Parameter_7 a,
      cmqcfc_Trace_route_and_Activity_Operations a, cmqcfc_Publish_Subscribe a, cmqxc_MQCD_1 a,
      cmqxc_MQCD_2 a]"
  by (simp only: MQXC_simps
      cmqcfc_MQCFH_5_def cmqcfc_MQCFH_6_def cmqcfc_MQCFH_7_def cmqcfc_MQCFBF_def
      cmqcfc_MQCFBS_def cmqcfc_MQCFGR_def cmqcfc_MQCFIF_def cmqcfc_MQCFIL_def
      cmqcfc_MQCFIL64_def cmqcfc_MQCFIN_def cmqcfc_MQCFIN64_def cmqcfc_MQCFSF_def
      cmqcfc_MQCFSL_def cmqcfc_MQCFST_def cmqcfc_MQEPH_def cmqcfc_All_def
      cmqcfc_Byte_Parameter_def cmqcfc_Integer_Parameter_1_def cmqcfc_Integer_Parameter_2_def
      cmqcfc_Integer_Parameter_3_def cmqcfc_Integer_Parameter_4_def
      cmqcfc_Integer_Parameter_5_def cmqcfc_Integer_Parameter_6_def
      cmqcfc_Integer_Parameter_7_def cmqcfc_Integer_Parameter_8_def
      cmqcfc_Character_Parameter_1_def cmqcfc_Character_Parameter_2_def
      cmqcfc_Character_Parameter_3_def cmqcfc_Character_Parameter_4_def
      cmqcfc_Group_Parameter_1_def cmqcfc_Group_Parameter_2_def cmqcfc_Group_Parameter_3_def
      cmqcfc_Group_Parameter_4_def cmqcfc_Group_Parameter_5_def cmqcfc_Group_Parameter_6_def
      cmqcfc_Group_Parameter_7_def cmqcfc_Trace_route_and_Activity_Operations_def
      cmqcfc_Publish_Subscribe_def cmqxc_MQCD_1_def cmqxc_MQCD_2_def
      cong: not_MQXC_block)

lemma no_MQXC_4:
  "list_all (list_all not_MQXC)
     [cmqxc_MQACH a, cmqxc_MQAXC a, cmqxc_MQAXP a, cmqxc_MQCXP a, cmqxc_MQDXP a, cmqxc_MQNXP a,
      cmqxc_MQPBC a, cmqxc_MQPSXP a, cmqxc_MQSBC a, cmqxc_MQWDR a, cmqxc_MQWDR1 a,
      cmqxc_MQWDR2 a, cmqxc_MQWQR a, cmqxc_MQWQR1 a, cmqxc_MQWQR2 a, cmqxc_MQWQR3 a,
      cmqxc_MQWQR4 a, cmqxc_MQWXP a, cmqxc_MQWXP1 a, cmqxc_MQWXP2 a, cmqxc_MQWXP3 a,
      cmqxc_MQWXP4 a, cmqxc_MQXEPO_1 a, cmqxc_MQXEPO_2 a, cmqxc_MQ_CHANNEL_EXIT_Function a,
      cmqxc_MQ_CHANNEL_AUTO_DEF_EXIT_Function a, cmqxc_MQ_DATA_CONV_EXIT_Function a,
      cmqxc_MQ_TRANSPORT_EXIT_Function a, cmqxc_MQXCNVC_Function a, cmqzc_MQZED a,
      cmqzc_MQZAC a, cmqzc_MQZAD a, cmqzc_MQZFP a, cmqzc_MQZIC a, cmqzc_All_Services a,
      cmqzc_Authority_Service a, cmqzc_Name_Service a, cmqzc_Userid_Service a,
      cmqzc_MQZEP_Function a, cmqbc_Specific_Functions a]"
  by (simp only: MQXC_simps
      cmqxc_MQACH_def cmqxc_MQAXC_def cmqxc_MQAXP_def cmqxc_MQCXP_def cmqxc_MQDXP_def
      cmqxc_MQNXP_def cmqxc_MQPBC_def cmqxc_MQPSXP_def cmqxc_MQSBC_def cmqxc_MQWDR_def
      cmqxc_MQWDR1_def cmqxc_MQWDR2_def cmqxc_MQWQR_def cmqxc_MQWQR1_def cmqxc_MQWQR2_def
      cmqxc_MQWQR3_def cmqxc_MQWQR4_def cmqxc_MQWXP_def cmqxc_MQWXP1_def cmqxc_MQWXP2_def
      cmqxc_MQWXP3_def cmqxc_MQWXP4_def cmqxc_MQXEPO_1_def cmqxc_MQXEPO_2_def
      cmqxc_MQ_CHANNEL_EXIT_Function_def cmqxc_MQ_CHANNEL_AUTO_DEF_EXIT_Function_def
      cmqxc_MQ_DATA_CONV_EXIT_Function_def cmqxc_MQ_TRANSPORT_EXIT_Function_def
      cmqxc_MQXCNVC_Function_def cmqzc_MQZED_def cmqzc_MQZAC_def cmqzc_MQZAD_def
      cmqzc_MQZFP_def cmqzc_MQZIC_def cmqzc_All_Services_def cmqzc_Authority_Service_def
      cmqzc_Name_Service_def cmqzc_Userid_Service_def cmqzc_MQZEP_Function_def
      cmqbc_Specific_Functions_def
      cong: not_MQXC_block)

lemma no_MQXC_5:
  "list_all (list_all not_MQXC)
     [cmqbc_Most_Functions_1 a, cmqbc_Most_Functions_2 a, cmqec_MQIEP a]"
  by (simp only: MQXC_simps
      cmqbc_Most_Functions_1_def cmqbc_Most_Functions_2_def cmqec_MQIEP_def
      cong: not_MQXC_block)

lemma no_MQXC: "list_all not_MQXC (mqi_macros a)"
proof -
  have "list_all (list_all not_MQXC) (mqi_tables a)"
    using no_MQXC_1 [of a] no_MQXC_2 [of a] no_MQXC_3 [of a] no_MQXC_4 [of a] no_MQXC_5 [of a]
    by (simp only: mqi_tables_def list.pred_inject simp_thms)
  then show ?thesis by (auto simp: mqi_macros_def list_all_iff)
qed

lemma MQXC_STR_starts: "MQXC_STR v = [] \<or> starts ''MQXC_'' (MQXC_STR v)"
  using c_switch_case [of _ v] by (auto simp: MQXC_STR_def)

lemma MQXC_STR_undefined: "MQXC_STR v = [] \<or> map_of (mqi_macros a) (MQXC_STR v) = None"
proof (cases "MQXC_STR v = []")
  case False
  with MQXC_STR_starts have st: "starts ''MQXC_'' (MQXC_STR v)" by blast
  have "MQXC_STR v \<notin> fst ` set (mqi_macros a)"
    using no_MQXC [of a] st by (auto simp: list_all_iff not_MQXC_def simp del: starts.simps)
  then show ?thesis by (simp add: map_of_eq_None_iff)
qed simp

section \<open>All name functions\<close>

text \<open>
  The functions of \<open>cmqstrc.h\<close> but \<open>MQXC_STR\<close>, whose codes belong to no header of this
  distribution.
\<close>

definition str_functions :: "(int \<Rightarrow> string) list" where
  "str_functions =
     [MQACTIVE_STR, MQACTP_STR, MQACTV_STR, MQACT_STR, MQADOPT_CHECK_STR, MQADOPT_TYPE_STR,
      MQADPCTX_STR, MQAIT_STR, MQAPPL_STR, MQAS_STR, MQAT_STR, MQAUTHENTICATE_STR, MQAUTHOPT_STR] @
     [MQAUTH_STR, MQAUTOCLUS_STR, MQAUTO_STR, MQBACF_STR, MQBALANCED_STR, MQBALSTATE_STR,
      MQBL_STR, MQBMHO_STR, MQBND_STR, MQBNO_BALTYPE_STR, MQBNO_OPTIONS_STR, MQBNO_TIMEOUT_STR,
      MQBO_STR, MQBPLOCATION_STR, MQBT_STR] @
     [MQCACF_STR] @
     [MQCACH_STR, MQCADSD_STR, MQCAFTY_STR, MQCAMO_STR, MQCAP_STR, MQCAUT_STR] @
     [MQCA_STR] @
     [MQCBCF_STR, MQCBCT_STR, MQCBDO_STR, MQCBD_STR, MQCBO_STR, MQCBT_STR, MQCCSI_STR,
      MQCCT_STR, MQCC_STR, MQCDC_STR, MQCEX_STR, MQCFACCESS_STR, MQCFCONLOS_STR, MQCFC_STR,
      MQCFOFFLD_STR, MQCFOP_STR, MQCFO_REFRESH_STR, MQCFO_REMOVE_STR, MQCFR_STR, MQCFSTATUS_STR,
      MQCFTYPE_STR] @
     [MQCFT_STR, MQCF_STR, MQCGWI_STR, MQCHAD_STR, MQCHIDS_STR, MQCHK_STR, MQCHLA_STR,
      MQCHLD_STR, MQCHRR_STR, MQCHSH_STR, MQCHSR_STR, MQCHSSTATE_STR, MQCHS_STR, MQCHTAB_STR,
      MQCHT_STR, MQCIH_STR, MQCIT_STR, MQCLCT_STR, MQCLROUTE_STR, MQCLRS_STR, MQCLRT_STR] @
     [MQCLST_STR, MQCLT_STR, MQCLWL_STR, MQCLXQ_STR, MQCMDI_STR, MQCMDL_STR] @
     [MQCMD_STR] @
     [MQCMHO_STR, MQCNO_STR, MQCODL_STR, MQCOMPRESS_STR, MQCOPY_STR, MQCO_STR, MQCQT_STR,
      MQCRC_STR, MQCSP_STR, MQCSRV_CONVERT_STR, MQCSRV_DLQ_STR, MQCS_STR, MQCTES_STR,
      MQCTLO_STR, MQCUOWC_STR, MQDCC_STR, MQDC_STR, MQDELO_STR, MQDHF_STR, MQDISCONNECT_STR] @
     [MQDLV_STR, MQDL_STR, MQDMHO_STR, MQDMPO_STR, MQDNSWLM_STR, MQDOPT_STR, MQDSB_STR,
      MQDSE_STR, MQEC_STR, MQEI_STR, MQENC_STR, MQEPH_STR, MQET_STR, MQEVO_STR, MQEVR_STR,
      MQEXPI_STR, MQEXTATTRS_STR, MQEXT_STR] @
     [MQFB_STR, MQFC_STR, MQFSENC_STR, MQFS_STR, MQFUN_STR, MQGACF_STR] @
     [MQGMO_STR, MQGUR_STR, MQHA_STR, MQHB_STR, MQHC_STR, MQHM_STR, MQHO_STR, MQHSTATE_STR] @
     [MQIACF_STR] @
     [MQIACH_STR] @
     [MQIAMO64_STR] @
     [MQIAMO_STR] @
     [MQIAMO_MONITOR_DATATYPE_STR, MQIAMO_MONITOR_FLAGS_STR, MQIASY_STR, MQIAV_STR] @
     [MQIA_STR] @
     [MQIDO_STR, MQIEPF_STR, MQIGQPA_STR, MQIGQ_STR, MQIIH_STR, MQIMGRCOV_STR, MQIMMREASON_STR,
      MQIMPO_STR, MQINBD_STR, MQIND_STR, MQIPADDR_STR, MQIS_STR, MQIT_STR, MQKAI_STR, MQKEY_STR,
      MQLDAPC_STR, MQLDAP_AUTHORMD_STR, MQLDAP_NESTGRP_STR, MQLOGTYPE_STR, MQLR_STR,
      MQMASTER_STR, MQMATCH_STR, MQMCAS_STR, MQMCAT_STR, MQMCB_STR, MQMCEV_STR] @
     [MQMCP_STR, MQMC_STR, MQMDEF_STR, MQMDS_STR, MQMEDIMGINTVL_STR, MQMEDIMGLOGLN_STR,
      MQMEDIMGSCHED_STR, MQMF_STR, MQMHBO_STR, MQMLP_ENCRYPTION_STR, MQMLP_SIGN_STR,
      MQMLP_TOLERATE_STR, MQMMBI_STR, MQMODE_STR, MQMON_OVERRIDE_STR, MQMON_STR,
      MQMON_AVAILABILITY_STR, MQMO_STR, MQMT_STR, MQMULC_STR, MQNC_STR, MQNHABACKLOG_STR,
      MQNHACONNACTV_STR, MQNHAINSYNC_STR, MQNHAROLE_STR, MQNPMS_STR, MQNPM_STR, MQNSH_STR,
      MQNT_STR, MQOL_STR, MQOM_STR] @
     [MQOO_STR, MQOPER_STR, MQOPMODE_STR, MQOP_STR, MQOT_STR, MQPAGECLAS_STR, MQPA_STR,
      MQPD_STR, MQPER_STR, MQPL_STR] @
     [MQPMO_STR, MQPMRF_STR, MQPO_STR, MQPRI_STR, MQPROP_STR, MQPROTO_STR, MQPRT_STR,
      MQPSCLUS_STR, MQPSCT_STR, MQPSM_STR, MQPSPROP_STR, MQPSST_STR, MQPS_STR, MQPUBO_STR,
      MQQA_BACKOUT_STR, MQQA_GET_STR, MQQA_PUT_STR, MQQA_SHAREABLE_STR, MQQDT_STR, MQQFS_STR,
      MQQF_STR, MQQMDT_STR, MQQMFAC_STR, MQQMF_STR, MQQMOPT_STR, MQQMSTA_STR, MQQMT_STR] @
     [MQQO_STR, MQQSGD_STR, MQQSGS_STR, MQQSIE_STR, MQQSOT_STR, MQQSO_STR, MQQSUM_STR, MQQT_STR,
      MQRAR_STR] @
     [MQRCCF_STR] @
     [MQRCN_STR, MQRCVTIME_STR] @
     [MQRC_STR] @
     [MQRDNS_STR, MQRD_STR, MQREADA_STR, MQRECAUTO_STR, MQRECORDING_STR, MQREGO_STR,
      MQREORG_STR, MQRFH_STR, MQRL_STR, MQRMHF_STR, MQROUTE_STR, MQRO_STR, MQRP_STR] @
     [MQRQ_STR, MQRT_STR, MQRU_STR, MQSCA_STR, MQSCOPE_STR, MQSCO_STR, MQSCYC_STR,
      MQSECCOMM_STR, MQSECITEM_STR, MQSECPROT_STR, MQSECSW_STR, MQSECTYPE_STR, MQSELTYPE_STR,
      MQSEL_ALL_STR, MQSEL_ANY_STR, MQSMPO_STR] @
     [MQSO_STR, MQSPL_STR, MQSP_STR, MQSQQM_STR, MQSRO_STR, MQSR_STR, MQSSL_STR, MQSTAT_STR,
      MQSTDBY_STR, MQST_STR, MQSUBTYPE_STR, MQSUB_DURABILITY_STR, MQSUB_STR, MQSUS_STR,
      MQSVC_CONTROL_STR, MQSVC_STATUS_STR, MQSVC_TYPE_STR, MQSYNCPOINT_STR, MQSYSOBJ_STR,
      MQSYSP_STR, MQS_AVAIL_STR, MQS_EXPANDST_STR, MQS_OPENMODE_STR, MQS_STATUS_STR, MQTA_STR,
      MQTA_PROXY_STR] @
     [MQTA_PUB_STR, MQTA_SUB_STR, MQTCPKEEP_STR, MQTCPSTACK_STR, MQTC_STR, MQTIME_STR,
      MQTOPT_STR, MQTRAXSTR_STR, MQTRIGGER_STR, MQTSCOPE_STR, MQTT_STR, MQTYPE_STR, MQUCI_STR,
      MQUIDSUPP_STR, MQUNDELIVERED_STR, MQUOWST_STR, MQUOWT_STR, MQUSAGE_DS_STR,
      MQUSAGE_EXPAND_STR, MQUSAGE_PS_STR, MQUSAGE_SMDS_STR, MQUSEDLQ_STR, MQUSRC_STR, MQUS_STR,
      MQVL_STR, MQVS_STR, MQVU_STR, MQWARN_STR, MQWIH_STR, MQWI_STR, MQWS_STR, MQWXP_STR,
      MQXACT_STR, MQXCC_STR, MQXDR_STR, MQXEPO_STR, MQXE_STR] @
     [MQXF_STR, MQXPT_STR, MQXR2_STR, MQXR_STR, MQXT_STR, MQZAET_STR] @
     [MQZAO_STR, MQZAT_STR, MQZCI_STR, MQZID_AUTHORITY_STR, MQZID_NAME_STR, MQZID_USERID_STR,
      MQZID_STR, MQZIO_STR, MQZSE_STR, MQZSL_STR, MQZTO_STR, MQ_CERT_STR, MQ_MQTT_STR,
      MQ_SUITE_STR]"

lemmas name_groups =
  names_A1 names_A2 names_A3 names_A4 names_A5 names_A6 names_A7 names_A8 names_A9 names_B1
  names_B2 names_B3 names_B4 names_B5 names_B6 names_B7 names_B8 names_B9 names_B10 names_C1
  names_C2 names_C3 names_C4 names_C5 names_C6 names_C7 names_C8 names_D1 names_D2 names_D3
  names_D4 names_D5 names_D6

lemma str_functions_ok: "list_all (names_ok a) str_functions"
  unfolding str_functions_def list_all_append by (intro conjI name_groups)

text \<open>
  C7. The name functions of \<open>cmqstrc.h\<close> and the macros of \<open>cmqc.h\<close>, \<open>cmqcfc.h\<close>, \<open>cmqxc.h\<close>,
  \<open>cmqzc.h\<close>, \<open>cmqbc.h\<close> and \<open>cmqec.h\<close> agree, under both ABIs, with one exception: for each
  function other than \<open>MQXC_STR\<close> and every value, the function returns the empty string or the
  name of a macro that denotes exactly this value; \<open>MQXC_STR\<close> returns only names that none of
  the headers defines; and every reason code \<open>cmqc.h\<close> defines, other than the bounds 900 and
  999 of the application range, has a name.
\<close>

theorem str_names_are_macros:
  "list_all (names_ok a) str_functions
   \<and> (\<forall>v. MQXC_STR v = [] \<or> map_of (mqi_macros a) (MQXC_STR v) = None)
   \<and> list_all (list_all reason_entry) [MQRC_values_1 a, MQRC_values_2 a, MQRC_values_3 a, MQRC_values_4 a, MQRC_values_5 a]"
  using str_functions_ok MQXC_STR_undefined by (simp only: reasons_named list.pred_inject simp_thms)

end
