(* ===== verification/Spec2Isabelle.thy ===== *)
theory Spec2Isabelle
  imports Breaker_Fleet Budget Executor_Props Pipeline_Stages Slo_Parser_Props Slo_Roundtrip Slo_Alerts Dlq_Props Leadership Script_Props Manager Replay Mqi_Contract Mqi_Names
begin

text \<open>
  Verification of mqConnector: message pipelines between queue managers.

  \<^bold>\<open>The program.\<close> mqConnector moves messages from a source queue through a list of stages to
  destination queues. It is written in Go (\<open>src/internal\<close>, \<open>src/cmd\<close>); the C code of the
  repository is the interface of the IBM MQ client it links against (\<open>src/ibmmq_dist/inc\<close>).
  The development has a part for each.

  A \<open>Manager\<close> starts one \<open>Executor\<close> per enabled pipeline from database rows: it resolves the
  connections, builds the stages, loads schemas and plugins. An executor runs up to 16 workers.
  Each worker takes from the message budgets, receives a message, runs the stages (\<open>RunStages\<close>),
  asks the circuit breaker and the dedup store, sends the result through pooled connections to the
  routed or the default destination, reports to the breaker, and commits or nacks the source
  message; what fails goes to the dead-letter queue, whose service redacts and seals payloads,
  retries them and prunes old rows. Messages of the past can be replayed through the same stages.
  Alert rules over the metrics are written in a small expression language. When several replicas
  run, a lease in the database elects the one that leads.

  \<^bold>\<open>The theories of the Go part.\<close>
  \<^item> \<open>Mqc_Prelude\<close>: byte strings, results, \<open>int64\<close> wrap-around, Go maps as association lists,
    the string functions the sources call. \<open>Encodings\<close>: decimal numbers, base64 and hexadecimal,
    with their round trips.
  \<^item> \<open>Breaker\<close> (\<open>pipeline/breaker.go\<close>): state, \<open>allow\<close>, \<open>recordResult\<close>, opening at the threshold; the
    locale \<open>circuit_gate\<close> is what the executor relies on. \<open>Breaker_Fleet\<close>: the breaker shared by
    interleaved workers as a step relation: a half-open breaker always has a probe that
    resolves it, unless the dedup gate is on, and then it can be half-open for good.
  \<^item> \<open>Budget\<close> (\<open>pipeline/budget.go\<close>): \<open>take\<close>, round by round under its mutex; caps per window,
    and a bound on the wait.
  \<^item> \<open>Run_Stages\<close> (\<open>pipeline/run_stages.go\<close>): the composition of the stages and the exact run log.
  \<^item> \<open>Dedup\<close> (\<open>storage/dedup.go\<close>): the table refines a map of last sightings (locale
    \<open>deduper\<close>). Windows up to 9000000000 seconds are considered: above, the window in nanoseconds
    leaves \<open>int64\<close>.
  \<^item> \<open>Executor\<close>, \<open>Executor_Props\<close> (\<open>pipeline/executor.go\<close>): \<open>processOne\<close> as a function from the
    answers of its surroundings (record \<open>world\<close>) to the list of its effects; at-least-once
    delivery, attribution of failures, and the sequence that loses a message. \<open>settled\<close> says
    commit or nack by itself.
  \<^item> \<open>Paths\<close> (\<open>pipeline/paths.go\<close>): nested reads, writes and deletes; the laws of the locale
    \<open>path_store\<close> carry the transform and filter proofs.
  \<^item> \<open>Messages\<close> (\<open>pipeline/format.go\<close>), \<open>Transform\<close>, \<open>Filter_Stage\<close>, \<open>Route\<close>, \<open>Validate\<close>,
    \<open>Translate\<close> (with \<open>format_protobuf.go\<close>): the stages, each against a specification of its
    own: one pass over the XML tree, conformance to a schema (\<open>conforms\<close>), the conversion by the
    codecs (\<open>converts\<close>). Codecs (JSON, XML, protobuf, regular expressions, float64 comparisons) are
    the record \<open>codec\<close>, an argument.
  \<^item> \<open>Script\<close> (\<open>pipeline/script.go\<close>): the script stage on a store of shared maps, since a script can
    give a map a second name. \<open>Script_Store\<close>: when the store is a plain document. \<open>Script_Value\<close>: the
    value of an expression in a document, without the store and the loop over operators, and that
    \<open>evalExpr\<close> computes it. \<open>Script_Cost\<close>: the number of calls, which the evaluation itself counts.
    \<open>Script_Props\<close>: the stage against the reference semantics \<open>tree_run\<close>, and its four caps.
  \<^item> \<open>Wasm\<close> (\<open>pipeline/wasm.go\<close>): \<open>CompileWasm\<close> and the call protocol of a plugin. Modules, instances
    and the memory interface of the runtime are arguments; the laws of the memory are hypotheses.
  \<^item> \<open>Stage_Build\<close> (\<open>pipeline/stage.go\<close>, \<open>schemas.go\<close>): \<open>Build\<close> and \<open>loadReferencedSchemas\<close>.
    \<open>Pipeline_Stages\<close>: what holds of every stage (locales \<open>format_keeping\<close>, \<open>route_within\<close>),
    interpreted on the stages; this theory interprets \<open>route_within\<close> once more on the stages with the
    script and Wasm models behind them.
  \<^item> \<open>Mq_Config\<close> (\<open>mq/connector.go\<close>, \<open>mqcfg\<close>): configurations and the factory. \<open>Pool\<close> (\<open>mq/pool.go\<close>):
    the connection pool as steps of interleaved goroutines.
  \<^item> \<open>Start_Pipeline\<close>, \<open>Manager\<close> (\<open>pipeline/manager.go\<close>): starting a pipeline within its tenant; the
    handles, \<open>Reload\<close>, \<open>Stop\<close>, \<open>StopAll\<close>, interleaved with the executors they start and end.
  \<^item> \<open>Replay\<close> (\<open>pipeline/replay.go\<close>): the stages of a replay, the Kafka loop over interleaved
    partitions, the JetStream loop, the sends.
  \<^item> \<open>Secrets\<close> (\<open>secrets/secrets.go\<close>): key ring, sealing and rotation (locale \<open>sealer\<close>). \<open>Redact\<close>,
    \<open>Redact_Props\<close> (\<open>dlq/redact.go\<close>): the path language, its walk, the rule chain. \<open>Fingerprint\<close>
    (\<open>dlq/cluster/fingerprint.go\<close>): template and SimHash of an error. \<open>Dlq\<close>, \<open>Dlq_Props\<close>
    (\<open>dlq/dlq.go\<close>, \<open>retry.go\<close>, \<open>retention.go\<close>, \<open>storage/dlq.go\<close>): the dead-letter service over its
    table; what retries send and how often.
  \<^item> \<open>Slo_Lexer\<close>, \<open>Slo_Parser\<close>, \<open>Slo_Eval\<close> (\<open>slo/expr.go\<close>): the expression language. \<open>Slo_Print\<close>,
    \<open>Slo_Roundtrip\<close>: a printer and the round trip; \<open>Slo_Parser_Props\<close>: the parser never panics.
    \<open>Slo_Alerts\<close> (\<open>slo/evaluator.go\<close>): the life of an alert.
  \<^item> \<open>Leadership\<close> (\<open>leadership/leadership.go\<close>): the lease table (locale \<open>lease_table\<close>) and interleaved
    replicas; at most one leads at a time.

  \<^bold>\<open>The theories of the C part.\<close> \<open>C_Layout\<close> and \<open>C_Init\<close> give sizes, alignment, offsets and the
  memory image of an initializer under the two ABIs of \<open>cmqc.h\<close> (32-bit and 64-bit); macros are
  expanded to nesting depth two, which is enough for every macro of the headers.
  \<^item> \<open>Mqi_Types\<close>, \<open>Mqi_Structs\<close>, \<open>Mqi_Exit_Structs\<close>: the types, and the structures with their default
    initializers, of \<open>cmqc.h\<close>, \<open>cmqcfc.h\<close>, \<open>cmqxc.h\<close> and \<open>cmqzc.h\<close>.
  \<^item> \<open>Mqi_Values_A\<close>, \<open>Mqi_Values_B\<close>, \<open>Mqi_Reasons\<close>, \<open>Mqi_Consts\<close> (\<open>cmqc.h\<close>), \<open>Mqi_Pcf_A\<close>, \<open>Mqi_Pcf_B\<close>
    (\<open>cmqcfc.h\<close>), \<open>Mqi_Exits\<close> (the other headers): the value macros.
  \<^item> \<open>Mqi_Abi\<close>, \<open>Mqi_Pcf_Abi\<close>, \<open>Mqi_Exit_Abi\<close> compute each structure's layout; \<open>Mqi_Contract\<close> states
    what a caller relies on: lengths, memory images of the defaults, and that a structure with a
    number in its name is that version of the structure without.
  \<^item> \<open>Mqi_Macros\<close>, \<open>Mqi_Facts_C\<close>, \<open>Mqi_Facts_P\<close>: all macros as one table, and a fact for each.
    \<open>Mqi_Names_A\<close> to \<open>Mqi_Names_D\<close>: the name functions of \<open>cmqstrc.h\<close>; \<open>Mqi_Names\<close>: they and the
    macros agree.

  \<^bold>\<open>Parameters.\<close> Code that is not in the repository is an argument of the definitions that use it:
  the clock, SHA-256, AES-GCM, the codecs, float64 arithmetic, the answers of brokers and of the
  database, the decoding of stage configurations, the Wasm runtime and its memory.

  \<^bold>\<open>Bounds and fuel.\<close> No loop of the Go part runs on fuel: recursions are structural or carry a
  measure. Loops that wait for the outside (polls of a context, fetches, goroutine schedules) run
  over a list of what the outside answers. The parser's recursion is bounded by its tokens, an
  expression's by its length; a store of maps is read back to a depth of the number of its maps,
  which only a cycle exceeds.

  \<^bold>\<open>Not modelled.\<close> The broker adapters (\<open>mq/connector_*.go\<close>) wrap third-party clients, and the in-memory
  broker is for tests. Of the repositories (\<open>storage\<close>) only the statements of the dedup and
  dead-letter tables and the lookups the start of a pipeline makes are there. The HTTP server, the
  services for authentication, audit, metrics, tracing and explanations, and the command line are
  I/O around the pipeline. Log lines and wall-clock durations are left out everywhere. Of the
  headers, the function prototypes, the strings of \<open>cmqpsc.h\<close>, and the two static tables at the end
  of \<open>cmqstrc.h\<close> (the pairs of the name functions once more) are not transcribed.
\<close>

section \<open>A built pipeline\<close>

definition enabled_types :: "BuildContext \<Rightarrow> string set" where
  "enabled_types ctx = StageType ` set (filter row_Enabled (StageRows ctx))"

text \<open>Every stage comes from an enabled row.\<close>

lemma Build_enabled:
  assumes "Build c d ctx = Ok stages" "s \<in> set stages"
  obtains row where "build_row c d ctx row = Ok s" "StageType row \<in> enabled_types ctx"
  using Build_stages [OF assms] unfolding enabled_types_def by auto

text \<open>
  A pipeline whose enabled rows are filter, transform, route and validate rows never
  changes the format of a message: what \<open>RunStages\<close> returns has the format \<open>Detect\<close> saw.
\<close>

theorem built_pipeline_keeps_format:
  assumes "Build c d ctx = Ok stages" "enabled_types ctx \<inter> {''translate'', ''script'', ''wasm''} = {}"
    and "RunStages Detect (map (as_Stage c ext) stages) message = (out, None)"
  shows "out_Format out = Detect message"
proof -
  have "plain_stage s" if "s \<in> set stages" for s
    using assms(1) that by (rule Build_enabled) (erule build_row_plain, use assms(2) in blast)
  then have "set (map (as_Stage c ext) stages) \<subseteq> {as_Stage c ext s | c ext s. plain_stage s}" by auto
  then show ?thesis by (rule plain.outcome_keeps [OF _ assms(3)])
qed

text \<open>
  A pipeline without script and wasm rows routes only to destinations of its own enabled
  routing rules, to each at most once, and to at least one when there is a routing decision.
\<close>

theorem built_pipeline_routes:
  assumes "Build c d ctx = Ok stages" "enabled_types ctx \<inter> {''script'', ''wasm''} = {}"
    and "RunStages Detect (map (as_Stage c ext) stages) message = (out, None)" "RouteTo out = Some ds"
  shows "ds \<noteq> [] \<and> distinct ds \<and> set ds \<subseteq> enabled_dests (RoutingRules ctx)"
proof -
  have "own_stage (RoutingRules ctx) s" if "s \<in> set stages" for s
    using assms(1) that by (rule Build_enabled) (erule build_row_own, use assms(2) in blast)
  then have "set (map (as_Stage c ext) stages) \<subseteq> {as_Stage c ext s | c ext s. own_stage (RoutingRules ctx) s}"
    by auto
  from own.outcome_route [OF this assms(3)] assms(4) show ?thesis
    by (simp add: own.good_route_def)
qed

definition sample_build :: BuildContext where
  "sample_build = (sample_context [sample_row ''filter'' '''', sample_row ''route'' ''''] [])
     \<lparr>RoutingRules := [sample_route '''' ''d1'' 1]\<rparr>"

definition no_ext :: ext_stages where
  "no_ext = (\<lambda>s m f. Err ''none'')"

lemma sample_build_Build:
  "Build sample_codec sample_decoder sample_build = Ok [FilterStage [], RouteStage [sample_route '''' ''d1'' 1]]"
  by (simp add: Build_def sample_build_def sample_context_def sample_row_def build_row_def row_config_def
      zero_config_def sample_pipeline_def)

lemma sample_build_types: "enabled_types sample_build = {''filter'', ''route''}"
  by (auto simp: enabled_types_def sample_build_def sample_context_def sample_row_def)

lemma sample_build_run:
  "\<exists>out. RunStages Detect (map (as_Stage sample_codec no_ext) [FilterStage [], RouteStage [sample_route '''' ''d1'' 1]]) ''named'' =
     (out, None) \<and> RouteTo out = Some [''d1'']"
  by (simp add: RunStages_def as_Stage_def FilterStage_Execute_def RouteStage_Execute_def Detect_def isJSON_def
      decodeStructured_def json_unmarshal_map_def sample_codec_def sample_route_def rule_matches_def
      getNestedValue_def path_keys_def evaluateCondition_def FormatJSON_def Let_def)

theorem built_pipeline_keeps_format_witness:
  "\<exists>out. RunStages Detect (map (as_Stage sample_codec no_ext) [FilterStage [], RouteStage [sample_route '''' ''d1'' 1]]) ''named'' =
     (out, None) \<and> out_Format out = Detect ''named''"
proof -
  obtain out where run: "RunStages Detect (map (as_Stage sample_codec no_ext) [FilterStage [], RouteStage [sample_route '''' ''d1'' 1]]) ''named'' = (out, None)"
    using sample_build_run by blast
  have "enabled_types sample_build \<inter> {''translate'', ''script'', ''wasm''} = {}" by (simp add: sample_build_types)
  from built_pipeline_keeps_format [OF sample_build_Build this run] run show ?thesis by blast
qed

theorem built_pipeline_routes_witness:
  "\<exists>out. RunStages Detect (map (as_Stage sample_codec no_ext) [FilterStage [], RouteStage [sample_route '''' ''d1'' 1]]) ''named'' =
     (out, None) \<and> RouteTo out = Some [''d1''] \<and> set [''d1''] \<subseteq> enabled_dests (RoutingRules sample_build)"
proof -
  obtain out where run: "RunStages Detect (map (as_Stage sample_codec no_ext) [FilterStage [], RouteStage [sample_route '''' ''d1'' 1]]) ''named'' = (out, None)"
    "RouteTo out = Some [''d1'']"
    using sample_build_run by blast
  have "enabled_types sample_build \<inter> {''script'', ''wasm''} = {}" by (simp add: sample_build_types)
  from built_pipeline_routes [OF sample_build_Build this run] run show ?thesis by blast
qed


section \<open>A started pipeline\<close>

text \<open>
  The script and Wasm stages behind the \<open>Stage\<close> interface. What they need besides the message
  are the script's arithmetic and codecs, what its context polls answer and how its encoder
  treats a cyclic document, the plugin behind a stage, the runtime, and the texts of the
  errors. A script whose encoder does not return gives no answer; it stands as an error here.
\<close>

record 'm ext_env =
  xe_script :: script_env
  xe_xml_cycle :: "(string, bytes) result option"
  xe_polls :: "bytes \<Rightarrow> string option list"
  xe_plugin :: "string \<Rightarrow> wasm_stage"
  xe_memory :: "'m wasm_memory"
  xe_runtime :: "(wasm_module \<Rightarrow> (string, 'm wasm_instance) result) option"
  xe_script_text :: "script_error \<Rightarrow> string"
  xe_wasm_text :: "wasm_error \<Rightarrow> string"

fun model_ext :: "'m ext_env \<Rightarrow> ext_stages" where
  "model_ext xe (ScriptStage txt timeout) m f =
     (case ScriptStage_Execute (xe_script xe) (xe_xml_cycle xe) (xe_polls xe m)
             \<lparr>ss_Script = txt, ss_MaxOps = 0, ss_MaxScriptBytes = 0, ss_MaxIntermediateBytes = 0,
              ss_MaxOutputBytes = 0\<rparr> m f of
        None \<Rightarrow> Err []
      | Some r \<Rightarrow> wrap (xe_script_text xe) r)"
| "model_ext xe (WasmStage n) m f =
     (case WasmStage_Execute (xe_memory xe) (xe_runtime xe) (xe_plugin xe n) m f of
        Inl e \<Rightarrow> Err (xe_wasm_text xe e)
      | Inr (out, f') \<Rightarrow> Ok (out, f', None))"
| "model_ext xe s m f = Err []"

lemma script_finish_no_route: "script_finish s f x = Ok (m', f', r) \<Longrightarrow> r = None"
  by (auto simp: script_finish_def split: sum.splits if_splits)

lemma script_no_route:
  "ScriptStage_Execute env cyc polls s m f = Some (Ok (m', f', r)) \<Longrightarrow> r = None"
  by (auto simp: ScriptStage_Execute_def Let_def dest: script_finish_no_route
      split: if_splits sum.splits option.splits prod.splits)

lemma model_ext_no_route: "model_ext xe s m f = Ok (m', f', r) \<Longrightarrow> r = None"
  by (cases "(xe, s, m, f)" rule: model_ext.cases)
    (auto split: option.splits sum.splits dest: script_no_route)

text \<open>So every stage \<open>Build\<close> makes routes, if at all, to enabled rules of its pipeline.\<close>

fun routes_own :: "routing_rule list \<Rightarrow> stage \<Rightarrow> bool" where
  "routes_own rules (RouteStage rs) = (rs = rules)"
| "routes_own rules _ = True"

lemma routes_own_within:
  assumes "routes_own rules s" "Execute (as_Stage c (model_ext xe) s) b f = Ok (b', f', Some ds)"
  shows "set ds \<subseteq> enabled_dests rules \<and> distinct ds"
proof (cases "own_stage rules s")
  case True
  with assms(2) show ?thesis using own.within [of "as_Stage c (model_ext xe) s" rules] by blast
next
  case False
  with assms show ?thesis by (cases s) (auto simp: as_Stage_def simp del: model_ext.simps dest: model_ext_no_route)
qed

interpretation built: route_within "{as_Stage c (model_ext xe) s | c s. routes_own rules s}" "enabled_dests rules"
  for rules xe
  by unfold_locales (use routes_own_within in blast)

lemma build_row_routes_own: "build_row c d ctx row = Ok s \<Longrightarrow> routes_own (RoutingRules ctx) s"
  by (auto simp: build_row_def build_validate_def build_translate_def build_wasm_def build_script_def Let_def
      split: if_splits option.splits sum.splits)

text \<open>
  C16. What a started executor routes stays within its tenant: every destination its stages,
  scripts and plugins included, choose for a message was resolved at the start, to a
  connection of the pipeline's own tenant, and each is chosen once, so that no message finds
  its route unresolved or leaves the tenant.
\<close>

theorem started_pipeline_routes:
  assumes start: "startPipeline c d runtime now st p bs = (Ok ex, bs')"
    and run: "RunStages Detect (map (as_Stage c (model_ext xe)) (pe_Stages ex)) message = (out, None)"
    and route: "RouteTo out = Some ds"
  shows "ds \<noteq> [] \<and> distinct ds
    \<and> (\<forall>i\<in>set ds. \<exists>cfg. map_of (pe_RouteDests ex) i = Some cfg \<and> own_config st (p_TenantID p) cfg)"
  using start
proof (rule startPipeline_Ok)
  fix rows ts rules
  assume x: "build_stages c d runtime st p rows ts rules = Ok (pe_Stages ex)"
    "route_dests st (p_TenantID p) rules [] = Ok (pe_RouteDests ex)"
  from x(1) obtain schemas plugins where
    b: "Build c d \<lparr>Pipeline = pipeline_row.truncate p, StageRows = rows, Transforms = ts,
          RoutingRules = rules, Schemas = schemas, WasmPlugins = plugins\<rparr> = Ok (pe_Stages ex)"
    by (rule build_stages_Ok)
  have "routes_own rules s" if "s \<in> set (pe_Stages ex)" for s
    using b that by (rule Build_enabled) (drule build_row_routes_own, simp)
  then have "set (map (as_Stage c (model_ext xe)) (pe_Stages ex)) \<subseteq> {as_Stage c (model_ext xe) s | c s. routes_own rules s}"
    by auto
  from built.outcome_route [OF this run] route
  have "ds \<noteq> []" "distinct ds" "set ds \<subseteq> enabled_dests rules" by (simp_all add: built.good_route_def)
  then show ?thesis using route_dests_Ok [OF x(2)] by fastforce
qed

definition sample_ext :: "bytes ext_env" where
  "sample_ext =
     \<lparr>xe_script = sample_env, xe_xml_cycle = None, xe_polls = (\<lambda>m. []), xe_plugin = (\<lambda>n. echo_stage),
      xe_memory = flat_memory, xe_runtime = Some (\<lambda>m. Ok echo_instance), xe_script_text = (\<lambda>e. []),
      xe_wasm_text = (\<lambda>e. [])\<rparr>"

lemma sample_started_run:
  "\<exists>out. RunStages Detect (map (as_Stage sample_codec (model_ext sample_ext)) [RouteStage [sample_route [] ''c2'' 1]]) ''named'' =
     (out, None) \<and> RouteTo out = Some [''c2'']"
  by (simp add: RunStages_def as_Stage_def RouteStage_Execute_def Detect_def isJSON_def
      decodeStructured_def json_unmarshal_map_def sample_codec_def sample_route_def rule_matches_def
      getNestedValue_def path_keys_def evaluateCondition_def FormatJSON_def Let_def)

theorem started_pipeline_routes_witness:
  "\<exists>ex bs out. startPipeline sample_codec sample_decoder None 0 sample_rows sample_tenant_pipeline [] = (Ok ex, bs)
     \<and> RunStages Detect (map (as_Stage sample_codec (model_ext sample_ext)) (pe_Stages ex)) ''named'' = (out, None)
     \<and> (\<exists>cfg. map_of (pe_RouteDests ex) ''c2'' = Some cfg \<and> own_config sample_rows ''t1'' cfg)"
proof -
  obtain ex bs where start: "startPipeline sample_codec sample_decoder None 0 sample_rows sample_tenant_pipeline [] = (Ok ex, bs)"
    and stages: "pe_Stages ex = [RouteStage [sample_route [] ''c2'' 1]]" using sample_start by blast
  obtain out where run: "RunStages Detect (map (as_Stage sample_codec (model_ext sample_ext)) (pe_Stages ex)) ''named'' = (out, None)"
    and route: "RouteTo out = Some [''c2'']" using sample_started_run stages by auto
  have "p_TenantID sample_tenant_pipeline = ''t1''" by (simp add: sample_tenant_pipeline_def)
  then show ?thesis using started_pipeline_routes [OF start run route] start run by auto
qed

end
